(* ===== verification/Prelude.thy ===== *)
theory Prelude
  imports Main "HOL-Library.Word" "HOL-Library.Sublist" "HOL-Library.Signed_Division"
begin

text \<open>
  What every component of the development shares: Rust's fixed-width integers, its UTF-8 strings,
  and the collections of lemmas that the proofs pass to the simplifier.

  \<^item> An \<open>i32\<close> or \<open>i64\<close> of the source is an \<^typ>\<open>int\<close> that the code keeps in range. Plain
    operators of the source are compiled without overflow checks (\<^verbatim>\<open>backend/Cargo.toml\<close> leaves
    the release profile at its default), so they wrap: \<open>wrap_i32\<close> is written at each of them.
    \<open>saturating_add\<close> is \<open>sat_i32\<close> of the sum.
  \<^item> A \<open>String\<close> or \<open>&str\<close> of the source is a \<^typ>\<open>string\<close> holding its UTF-8 bytes: \<open>len()\<close> is
    \<^term>\<open>length\<close>, \<open>chars().count()\<close> is \<open>char_count\<close>, and \<open>trim()\<close> removes the encodings of the
    characters with the Unicode property White\_Space.
\<close>

named_theorems repo_defs \<open>the definitions of the repository operations\<close>
named_theorems row_simps \<open>how an operation's row update acts on each column\<close>

type_synonym i32 = int
type_synonym i64 = int

section \<open>Fixed-width integers\<close>

definition i32_min :: int where "i32_min = - 2147483648"
definition i32_max :: int where "i32_max = 2147483647"

definition in_i32 :: "int \<Rightarrow> bool" where
  "in_i32 x \<longleftrightarrow> i32_min \<le> x \<and> x \<le> i32_max"

definition wrap_i32 :: "int \<Rightarrow> i32" where
  "wrap_i32 x = (x + 2147483648) mod 4294967296 - 2147483648"

definition wrap_i64 :: "int \<Rightarrow> i64" where
  "wrap_i64 x = (x + 9223372036854775808) mod 18446744073709551616 - 9223372036854775808"

definition sat_i32 :: "int \<Rightarrow> i32" where
  "sat_i32 x = max i32_min (min i32_max x)"

lemma wrap_i32_word: "wrap_i32 x = sint (word_of_int x :: 32 word)"
  by (simp add: wrap_i32_def sint_sbintrunc' signed_take_bit_eq_take_bit_shift take_bit_eq_mod)

lemma wrap_i64_word: "wrap_i64 x = sint (word_of_int x :: 64 word)"
  by (simp add: wrap_i64_def sint_sbintrunc' signed_take_bit_eq_take_bit_shift take_bit_eq_mod)

lemma in_i32_wrap [simp, intro]: "in_i32 (wrap_i32 x)"
proof -
  have "0 \<le> (x + 2147483648) mod 4294967296" "(x + 2147483648) mod 4294967296 < 4294967296"
    by simp_all
  then show ?thesis by (simp add: in_i32_def wrap_i32_def i32_min_def i32_max_def)
qed

lemma wrap_i32_id [simp]: "in_i32 x \<Longrightarrow> wrap_i32 x = x"
  by (simp add: wrap_i32_def in_i32_def i32_min_def i32_max_def)

lemma wrap_i32_range:
  "- 2147483648 \<le> x \<Longrightarrow> x \<le> 2147483647 \<Longrightarrow> wrap_i32 x = x"
  by (rule wrap_i32_id) (simp add: in_i32_def i32_min_def i32_max_def)

lemma wrap_i64_range:
  "- 9223372036854775808 \<le> x \<Longrightarrow> x \<le> 9223372036854775807 \<Longrightarrow> wrap_i64 x = x"
  by (simp add: wrap_i64_def)

lemma in_i32_sat [simp, intro]: "in_i32 (sat_i32 x)"
  by (simp add: in_i32_def sat_i32_def i32_min_def i32_max_def)

lemma sat_i32_id [simp]: "in_i32 x \<Longrightarrow> sat_i32 x = x"
  by (simp add: in_i32_def sat_i32_def)

lemma sat_i32_ge: "in_i32 a \<Longrightarrow> 0 \<le> b \<Longrightarrow> a \<le> sat_i32 (a + b)"
  by (simp add: in_i32_def sat_i32_def)

section \<open>UTF-8 strings\<close>

definition is_continuation :: "char \<Rightarrow> bool" where
  "is_continuation c \<longleftrightarrow> 128 \<le> (of_char c :: nat) \<and> (of_char c :: nat) < 192"

text \<open>\<open>s.chars().count()\<close>: one character per byte that is not a continuation byte.\<close>

definition char_count :: "string \<Rightarrow> nat" where
  "char_count s = length (filter (\<lambda>c. \<not> is_continuation c) s)"

text \<open>The UTF-8 encodings of the characters with the property White\_Space.\<close>

definition utf8_whitespace :: "string list" where
  "utf8_whitespace =
     [[CHR 0x20], [CHR 0x09], [CHR 0x0A], [CHR 0x0B], [CHR 0x0C], [CHR 0x0D],
      [CHR 0xC2, CHR 0x85], [CHR 0xC2, CHR 0xA0], [CHR 0xE1, CHR 0x9A, CHR 0x80],
      [CHR 0xE2, CHR 0x80, CHR 0x80], [CHR 0xE2, CHR 0x80, CHR 0x81],
      [CHR 0xE2, CHR 0x80, CHR 0x82], [CHR 0xE2, CHR 0x80, CHR 0x83],
      [CHR 0xE2, CHR 0x80, CHR 0x84], [CHR 0xE2, CHR 0x80, CHR 0x85],
      [CHR 0xE2, CHR 0x80, CHR 0x86], [CHR 0xE2, CHR 0x80, CHR 0x87],
      [CHR 0xE2, CHR 0x80, CHR 0x88], [CHR 0xE2, CHR 0x80, CHR 0x89],
      [CHR 0xE2, CHR 0x80, CHR 0x8A], [CHR 0xE2, CHR 0x80, CHR 0xA8],
      [CHR 0xE2, CHR 0x80, CHR 0xA9], [CHR 0xE2, CHR 0x80, CHR 0xAF],
      [CHR 0xE2, CHR 0x81, CHR 0x9F], [CHR 0xE3, CHR 0x80, CHR 0x80]]"

function strip_all :: "string list \<Rightarrow> string \<Rightarrow> string" where
  "strip_all ws s =
     (case find (\<lambda>w. w \<noteq> [] \<and> prefix w s) ws of
        None \<Rightarrow> s
      | Some w \<Rightarrow> strip_all ws (drop (length w) s))"
  by pat_completeness auto
termination
  by (relation "measure (\<lambda>(ws, s). length s)")
    (auto simp: find_Some_iff prefix_def)

declare strip_all.simps [simp del]

definition trim_start :: "string \<Rightarrow> string" where
  "trim_start s = strip_all utf8_whitespace s"

definition trim_end :: "string \<Rightarrow> string" where
  "trim_end s = rev (strip_all (map rev utf8_whitespace) (rev s))"

definition trim :: "string \<Rightarrow> string" where
  "trim s = trim_end (trim_start s)"

definition strip_prefix :: "string \<Rightarrow> string \<Rightarrow> string option" where
  "strip_prefix p s = (if prefix p s then Some (drop (length p) s) else None)"

definition ascii_lower :: "char \<Rightarrow> char" where
  "ascii_lower c =
     (if 65 \<le> (of_char c :: nat) \<and> (of_char c :: nat) \<le> 90 then char_of (of_char c + 32 :: nat) else c)"

definition to_ascii_lowercase :: "string \<Rightarrow> string" where
  "to_ascii_lowercase s = map ascii_lower s"

definition eq_ignore_ascii_case :: "string \<Rightarrow> string \<Rightarrow> bool" where
  "eq_ignore_ascii_case a b \<longleftrightarrow> to_ascii_lowercase a = to_ascii_lowercase b"

lemma strip_all_suffix: "suffix (strip_all ws s) s"
proof (induction ws s rule: strip_all.induct)
  case (1 ws s)
  show ?case
  proof (cases "find (\<lambda>w. w \<noteq> [] \<and> prefix w s) ws")
    case None
    then show ?thesis by (simp add: strip_all.simps [of ws s])
  next
    case (Some w)
    with 1 have "suffix (strip_all ws (drop (length w) s)) (drop (length w) s)" by blast
    with Some show ?thesis
      by (auto simp: strip_all.simps [of ws s] intro: suffix_order.trans suffix_drop)
  qed
qed

lemma strip_all_clean: "w \<in> set ws \<Longrightarrow> w \<noteq> [] \<Longrightarrow> \<not> prefix w (strip_all ws s)"
proof (induction ws s rule: strip_all.induct)
  case (1 ws s)
  show ?case
  proof (cases "find (\<lambda>w. w \<noteq> [] \<and> prefix w s) ws")
    case None
    then have "strip_all ws s = s" by (simp add: strip_all.simps [of ws s])
    with None "1.prems" show ?thesis by (auto simp: find_None_iff)
  next
    case (Some v)
    with 1 show ?thesis by (simp add: strip_all.simps [of ws s])
  qed
qed

lemma char_count_append [simp]: "char_count (s @ t) = char_count s + char_count t"
  by (simp add: char_count_def)

lemma char_count_le_length: "char_count s \<le> length s"
  by (simp add: char_count_def)

lemma char_count_suffix: "suffix t s \<Longrightarrow> char_count t \<le> char_count s"
  by (auto simp: suffix_def)

lemma trim_end_prefix: "prefix (trim_end s) s"
  using strip_all_suffix [of "map rev utf8_whitespace" "rev s"]
  by (simp add: trim_end_def suffix_to_prefix)

lemma char_count_trim: "char_count (trim s) \<le> char_count s"
proof -
  have "char_count (trim_end u) \<le> char_count u" for u
    using trim_end_prefix [of u] by (metis char_count_append le_add1 prefix_def)
  also have "char_count (trim_start s) \<le> char_count s"
    by (simp add: trim_start_def char_count_suffix strip_all_suffix)
  finally show ?thesis by (simp add: trim_def)
qed

lemma trim_no_trailing:
  assumes "w \<in> set utf8_whitespace"
  shows "\<not> suffix w (trim s)"
proof -
  from assms have "w \<noteq> []" by (auto simp: utf8_whitespace_def)
  with assms have "\<not> prefix (rev w) (strip_all (map rev utf8_whitespace) (rev (trim_start s)))"
    by (intro strip_all_clean) auto
  then show ?thesis by (simp add: trim_def trim_end_def suffix_to_prefix)
qed

section \<open>Results\<close>

text \<open>A \<^verbatim>\<open>Result\<close> is a sum with the error on the left; \<open>try_in\<close> is the operator \<^verbatim>\<open>?\<close>.\<close>

definition try_in :: "'e + 'a \<Rightarrow> ('a \<Rightarrow> 'e + 'b) \<Rightarrow> 'e + 'b" where
  "try_in m f = (case m of Inl e \<Rightarrow> Inl e | Inr a \<Rightarrow> f a)"

lemma try_in_simps [simp]: "try_in (Inl e) f = Inl e" "try_in (Inr a) f = f a"
  by (simp_all add: try_in_def)

lemma try_in_Inr: "try_in m f = Inr b \<longleftrightarrow> (\<exists>a. m = Inr a \<and> f a = Inr b)"
  by (cases m) auto

text \<open>\<^verbatim>\<open>option.map(f).transpose()\<close>, and \<^verbatim>\<open>iter.map(f).collect::<Result<Vec<_>, _>>()\<close>.\<close>

definition transpose_map :: "('a \<Rightarrow> 'e + 'b) \<Rightarrow> 'a option \<Rightarrow> 'e + 'b option" where
  "transpose_map f v = (case v of None \<Rightarrow> Inr None | Some x \<Rightarrow> map_sum id Some (f x))"

fun collect_results :: "('e + 'a) list \<Rightarrow> 'e + 'a list" where
  "collect_results [] = Inr []"
| "collect_results (r # rs) = try_in r (\<lambda>x. map_sum id (Cons x) (collect_results rs))"

lemma map_sum_Inr: "map_sum f g m = Inr b \<longleftrightarrow> (\<exists>a. m = Inr a \<and> b = g a)"
  by (cases m) auto

lemma map_sum_Inl: "map_sum f g m = Inl b \<longleftrightarrow> (\<exists>a. m = Inl a \<and> b = f a)"
  by (cases m) auto

lemma collect_results_Inr:
  "collect_results rs = Inr xs \<longleftrightarrow> rs = map Inr xs"
  by (induction rs arbitrary: xs) (auto simp: try_in_Inr map_sum_Inr Cons_eq_map_conv)

section \<open>Options and lists\<close>

lemma find_unique:
  assumes "distinct (map key t)" and "r \<in> set t" and "key r = k"
  shows "find (\<lambda>x. key x = k \<and> Q x) t = (if Q r then Some r else None)"
  using assms by (induction t) (auto simp: find_None_iff image_iff)

lemma find_SomeD: "find P xs = Some x \<Longrightarrow> x \<in> set xs \<and> P x"
  by (auto simp: find_Some_iff)

lemma distinct_map_eqD:
  "distinct (map f xs) \<Longrightarrow> x \<in> set xs \<Longrightarrow> y \<in> set xs \<Longrightarrow> f x = f y \<Longrightarrow> x = y"
  by (simp add: distinct_map inj_on_def)

end
