(* ===== verification/Tables.thy ===== *)
theory Tables
  imports Prelude "HOL-Library.Product_Lexorder"
begin

text \<open>
  The PostgreSQL tables the repositories of \<^verbatim>\<open>backend/src/repositories\<close> query through Diesel. A
  table is the list of its rows; a statement is one of the functions below, and a repository
  operation, one statement or one \<^verbatim>\<open>conn.transaction\<close>, is a function of the store that runs as one
  atomic step (the code takes \<^verbatim>\<open>FOR UPDATE\<close> locks or guards its \<^verbatim>\<open>UPDATE\<close> where it needs that).
  Interleaved callers are sequences of such steps.

  \<^item> \<open>sql_select\<close> is \<^verbatim>\<open>table.filter(p).load()\<close>, \<open>sql_first\<close> is \<^verbatim>\<open>.first().optional()\<close>, \<open>sql_count\<close>
    is \<^verbatim>\<open>.count()\<close>.
  \<^item> \<open>sql_update\<close> is \<^verbatim>\<open>diesel::update(table.filter(p)).set(f)\<close>; its \<^verbatim>\<open>execute()\<close> returns
    \<open>sql_count p\<close> of the old table, its \<^verbatim>\<open>get_results()\<close> is \<open>sql_updated\<close>, and
    \<^verbatim>\<open>get_result().optional()\<close> is the first of those, \<open>sql_update_get\<close>.
  \<^item> \<open>sql_delete\<close> is \<^verbatim>\<open>diesel::delete(table.filter(p))\<close>.
  \<^item> A comparison of a nullable column with a value is false on NULL, as in SQL: the predicate
    compares with \<^term>\<open>Some v\<close>.
  \<^item> A column constraint is checked where the code inserts, and its violation is an error value.
    A failed transaction leaves the store as it was (\<open>transaction\<close>).
\<close>

type_synonym 'r table = "'r list"

text \<open>The errors of \<^verbatim>\<open>diesel::result::Error\<close> that a statement of the model can meet.\<close>

datatype db_error = NotFound | UniqueViolation | ForeignKeyViolation | CheckViolation | CommitRefused
  | RollbackTransaction

definition sql_select :: "('r \<Rightarrow> bool) \<Rightarrow> 'r table \<Rightarrow> 'r list" where
  "sql_select p t = filter p t"

definition sql_first :: "('r \<Rightarrow> bool) \<Rightarrow> 'r table \<Rightarrow> 'r option" where
  "sql_first p t = find p t"

definition sql_count :: "('r \<Rightarrow> bool) \<Rightarrow> 'r table \<Rightarrow> nat" where
  "sql_count p t = length (filter p t)"

definition sql_update :: "('r \<Rightarrow> bool) \<Rightarrow> ('r \<Rightarrow> 'r) \<Rightarrow> 'r table \<Rightarrow> 'r table" where
  "sql_update p f t = map (\<lambda>r. if p r then f r else r) t"

definition sql_updated :: "('r \<Rightarrow> bool) \<Rightarrow> ('r \<Rightarrow> 'r) \<Rightarrow> 'r table \<Rightarrow> 'r list" where
  "sql_updated p f t = map f (filter p t)"

definition sql_update_get :: "('r \<Rightarrow> bool) \<Rightarrow> ('r \<Rightarrow> 'r) \<Rightarrow> 'r table \<Rightarrow> 'r option" where
  "sql_update_get p f t = map_option f (find p t)"

definition sql_delete :: "('r \<Rightarrow> bool) \<Rightarrow> 'r table \<Rightarrow> 'r table" where
  "sql_delete p t = filter (\<lambda>r. \<not> p r) t"

definition transaction :: "('s \<Rightarrow> ('e + 'a) \<times> 's) \<Rightarrow> 's \<Rightarrow> ('e + 'a) \<times> 's" where
  "transaction body s =
     (case body s of
        (Inl e, _) \<Rightarrow> (Inl e, s)
      | (Inr v, s') \<Rightarrow> (Inr v, s'))"

text \<open>
  PostgreSQL orders NULL after every value (so first in a descending order). An ascending
  \<^verbatim>\<open>ORDER BY\<close> is \<^term>\<open>sort_key\<close>, a descending one its reverse.
\<close>

fun null_key :: "int option \<Rightarrow> int \<times> int" where
  "null_key None = (1, 0)"
| "null_key (Some x) = (0, x)"

definition order_asc :: "('r \<Rightarrow> 'k::linorder) \<Rightarrow> 'r list \<Rightarrow> 'r list" where
  "order_asc key rows = sort_key key rows"

definition order_desc :: "('r \<Rightarrow> 'k::linorder) \<Rightarrow> 'r list \<Rightarrow> 'r list" where
  "order_desc key rows = rev (sort_key key rows)"

section \<open>Statements and rows\<close>

lemma set_sql_select [simp]: "set (sql_select p t) = {r \<in> set t. p r}"
  by (simp add: sql_select_def)

lemma set_sql_delete [simp]: "set (sql_delete p t) = {r \<in> set t. \<not> p r}"
  by (simp add: sql_delete_def)

lemma set_sql_update: "set (sql_update p f t) = (\<lambda>r. if p r then f r else r) ` set t"
  by (simp add: sql_update_def)

lemma in_sql_updateE:
  assumes "r \<in> set (sql_update p f t)"
  obtains (unchanged) "r \<in> set t" "\<not> p r" | (changed) q where "q \<in> set t" "p q" "r = f q"
  using assms by (auto simp: set_sql_update split: if_splits)

lemma sql_update_memI: "q \<in> set t \<Longrightarrow> p q \<Longrightarrow> f q \<in> set (sql_update p f t)"
  by (force simp: set_sql_update)

lemma sql_update_keepI: "q \<in> set t \<Longrightarrow> \<not> p q \<Longrightarrow> q \<in> set (sql_update p f t)"
  by (force simp: set_sql_update)

lemma sql_update_none: "\<forall>r \<in> set t. \<not> p r \<Longrightarrow> sql_update p f t = t"
  by (simp add: sql_update_def map_idI)

lemma length_sql_update [simp]: "length (sql_update p f t) = length t"
  by (simp add: sql_update_def)

lemma map_sql_update:
  "(\<And>r. p r \<Longrightarrow> key (f r) = key r) \<Longrightarrow> map key (sql_update p f t) = map key t"
  by (simp add: sql_update_def)

lemma sql_first_Some: "sql_first p t = Some r \<Longrightarrow> r \<in> set t \<and> p r"
  by (auto simp: sql_first_def dest: find_SomeD)

lemma sql_first_None: "sql_first p t = None \<longleftrightarrow> (\<forall>r \<in> set t. \<not> p r)"
  unfolding sql_first_def find_None_iff by blast

lemma sql_first_unique:
  assumes "distinct (map key t)" "r \<in> set t" "\<And>x. p x \<Longrightarrow> key x = key r"
  shows "sql_first p t = (if p r then Some r else None)"
proof -
  have "p x = (key x = key r \<and> p x)" for x using assms(3) by blast
  then have "sql_first p t = find (\<lambda>x. key x = key r \<and> p x) t"
    by (simp add: sql_first_def)
  also have "\<dots> = (if p r then Some r else None)"
    using assms(1,2) by (intro find_unique) auto
  finally show ?thesis .
qed

lemma sql_first_append:
  "sql_first p (t @ [r]) =
     (case sql_first p t of None \<Rightarrow> if p r then Some r else None | Some x \<Rightarrow> Some x)"
  by (induction t) (simp_all add: sql_first_def)

lemma sql_update_get_first: "sql_update_get p f t = map_option f (sql_first p t)"
  by (simp add: sql_update_get_def sql_first_def)

lemma sql_update_get_None: "sql_update_get p f t = None \<longleftrightarrow> (\<forall>r \<in> set t. \<not> p r)"
  unfolding sql_update_get_def map_option_is_None find_None_iff by blast

lemma sql_update_get_Some:
  "sql_update_get p f t = Some r \<Longrightarrow> \<exists>q \<in> set t. p q \<and> r = f q"
  by (auto simp: sql_update_get_def dest: find_SomeD)

lemma set_order [simp]: "set (order_asc key rows) = set rows" "set (order_desc key rows) = set rows"
  by (simp_all add: order_asc_def order_desc_def)

lemma distinct_order [simp]:
  "distinct (map g (order_asc key rows)) = distinct (map g rows)"
  "distinct (map g (order_desc key rows)) = distinct (map g rows)"
  by (simp_all add: order_asc_def order_desc_def distinct_map rev_map)

lemma sql_count_0: "sql_count p t = 0 \<longleftrightarrow> (\<forall>r \<in> set t. \<not> p r)"
  by (simp add: sql_count_def filter_empty_conv)

lemma distinct_sql_delete: "distinct (map key t) \<Longrightarrow> distinct (map key (sql_delete p t))"
  by (simp add: sql_delete_def distinct_map inj_on_def)

text \<open>
  A table with a number and a unique key: which row a lookup by key finds after a row was appended,
  changed or deleted by its number.
\<close>

definition row_of :: "('r \<Rightarrow> 'k) \<Rightarrow> 'k \<Rightarrow> 'r table \<Rightarrow> 'r option" where
  "row_of key k t = sql_first (\<lambda>r. key r = k) t"

lemma row_of_Some: "row_of key k t = Some r \<Longrightarrow> r \<in> set t \<and> key r = k"
  by (auto simp: row_of_def dest: sql_first_Some)

lemma row_of_None: "row_of key k t = None \<longleftrightarrow> (\<forall>r \<in> set t. key r \<noteq> k)"
  by (simp add: row_of_def sql_first_None)

lemma row_of_mem: "distinct (map key t) \<Longrightarrow> r \<in> set t \<Longrightarrow> row_of key (key r) t = Some r"
  by (simp add: row_of_def sql_first_unique [where key = key])

lemma row_of_append:
  "row_of key k (t @ [r]) = (case row_of key k t of None \<Rightarrow> if key r = k then Some r else None | Some x \<Rightarrow> Some x)"
  by (simp add: row_of_def sql_first_append)

lemma sql_first_update:
  assumes "\<And>r. q (f r) = q r"
  shows "sql_first q (sql_update p f t) = map_option (\<lambda>r. if p r then f r else r) (sql_first q t)"
  using assms by (induction t) (auto simp: sql_first_def sql_update_def)

lemma row_of_update:
  assumes "\<And>r. key (f r) = key r"
  shows "row_of key k (sql_update p f t) = map_option (\<lambda>r. if p r then f r else r) (row_of key k t)"
  unfolding row_of_def using assms by (intro sql_first_update) simp

lemma row_of_delete:
  assumes "distinct (map num t)" "distinct (map key t)" "row_of key k t = Some r"
  shows "row_of key k' (sql_delete (\<lambda>q. num q = num r) t) = (if k' = k then None else row_of key k' t)"
proof (cases "row_of key k' t")
  case None
  then have "row_of key k' (sql_delete (\<lambda>q. num q = num r) t) = None" by (simp add: row_of_None)
  with None show ?thesis by simp
next
  case (Some q)
  note r = row_of_Some [OF assms(3)] and q = row_of_Some [OF Some]
  show ?thesis
  proof (cases "k' = k")
    case True
    have "x = r" if "x \<in> set t" "key x = k" for x
      using that r assms(2) by (metis distinct_map_eqD)
    with True show ?thesis by (auto simp: row_of_None)
  next
    case False
    with q r assms(1) have "num q \<noteq> num r" by (metis distinct_map_eqD)
    with q have "q \<in> set (sql_delete (\<lambda>q. num q = num r) t)" by simp
    from row_of_mem [OF distinct_sql_delete [OF assms(2)] this] q Some False show ?thesis by simp
  qed
qed

text \<open>An upsert: the row with the same key is replaced.\<close>

lemma distinct_upsert:
  assumes "distinct (map key t)" "distinct (map g t)" "\<forall>x \<in> set t. g x = g q \<longrightarrow> key x = key q"
  shows "distinct (map g (sql_update (\<lambda>x. key x = key q) (\<lambda>_. q) t))"
  using assms
proof (induction t)
  case Nil
  then show ?case by (simp add: sql_update_def)
next
  case (Cons a t)
  let ?t = "sql_update (\<lambda>x. key x = key q) (\<lambda>_. q) t"
  from Cons have IH: "distinct (map g ?t)" by simp
  have head: "g y \<noteq> g (if key a = key q then q else a)" if "y \<in> set ?t" for y
    using that
  proof (cases rule: in_sql_updateE)
    case unchanged
    from Cons.prems(2) have "\<forall>x \<in> set t. g a \<noteq> g x" by auto
    with unchanged Cons.prems(3) show ?thesis by (metis list.set_intros(2))
  next
    case (changed x)
    then have "key a \<noteq> key q" using Cons.prems(1) by (metis distinct.simps(2) image_eqI list.simps(9) set_map)
    with changed Cons.prems(3) show ?thesis by auto
  qed
  have "sql_update (\<lambda>x. key x = key q) (\<lambda>_. q) (a # t) = (if key a = key q then q else a) # ?t"
    by (simp add: sql_update_def)
  with IH head show ?case by force
qed

text \<open>An update of the row with a given key.\<close>

lemma set_update_unique:
  assumes "distinct (map key t)" "r \<in> set t"
  shows "set (sql_update (\<lambda>x. key x = key r) f t) = insert (f r) (set t - {r})"
proof -
  have only: "x = r" if "x \<in> set t" "key x = key r" for x
    using that assms by (auto dest: distinct_map_eqD)
  show ?thesis
  proof (intro equalityI subsetI)
    fix x
    assume "x \<in> set (sql_update (\<lambda>x. key x = key r) f t)"
    then show "x \<in> insert (f r) (set t - {r})"
    proof (cases rule: in_sql_updateE)
      case unchanged
      then show ?thesis by auto
    next
      case (changed q)
      with only have "q = r" by blast
      with changed(3) show ?thesis by simp
    qed
  next
    fix x
    assume "x \<in> insert (f r) (set t - {r})"
    then show "x \<in> set (sql_update (\<lambda>x. key x = key r) f t)"
      using assms(2) only by (auto intro: sql_update_memI sql_update_keepI)
  qed
qed

lemma sql_count_update_same:
  assumes "\<And>r. q (f r) = q r"
  shows "sql_count q (sql_update p f t) = sql_count q t"
  using assms by (induction t) (auto simp: sql_count_def sql_update_def)

lemma transaction_Inl: "fst (transaction body s) = Inl e \<Longrightarrow> snd (transaction body s) = s"
  by (auto simp: transaction_def split: prod.splits sum.splits)

lemma transaction_Inr:
  "transaction body s = (Inr v, s') \<longleftrightarrow> body s = (Inr v, s')"
  by (auto simp: transaction_def split: prod.splits sum.splits)

lemma transaction_cases:
  "snd (transaction body s) = s \<or>
   (\<exists>v. body s = (Inr v, snd (transaction body s)) \<and> fst (transaction body s) = Inr v)"
  by (auto simp: transaction_def split: prod.splits sum.splits)

lemmas sql_defs = sql_select_def sql_first_def sql_count_def sql_update_def sql_updated_def
  sql_update_get_def sql_delete_def transaction_def

end
