(* ===== verification/Encryption.thy ===== *)
theory Encryption
  imports Tables
begin

text \<open>
  \<^verbatim>\<open>backend/src/utils/encryption.rs\<close>: column encryption with AES-256-GCM. The AEAD, base64 and UTF-8
  validation belong to crates and the standard library, and the key comes from the process
  environment, so they are the fields of \<open>crypto\<close>, a parameter of everything that encrypts. The
  12 random nonce bytes of a call are its argument. The text an error carries is dropped.
\<close>

datatype encryption_error =
    KeyDecodeError | CipherError | EncryptFailed | DecryptionError | Utf8Error | InvalidData | EnvError

record crypto =
  cr_key_env :: "string option"            \<comment> \<open>the variable \<^verbatim>\<open>ENCRYPTION_KEY\<close>\<close>
  cr_b64_decode :: "string \<Rightarrow> string option"
  cr_b64_encode :: "string \<Rightarrow> string"
  cr_key_ok :: "string \<Rightarrow> bool"            \<comment> \<open>\<^verbatim>\<open>Aes256Gcm::new_from_slice\<close> accepts the key\<close>
  cr_seal :: "string \<Rightarrow> string \<Rightarrow> string \<Rightarrow> string option"   \<comment> \<open>key, nonce, plaintext\<close>
  cr_open :: "string \<Rightarrow> string \<Rightarrow> string \<Rightarrow> string option"   \<comment> \<open>key, nonce, ciphertext\<close>
  cr_utf8_ok :: "string \<Rightarrow> bool"

text \<open>The steps \<^verbatim>\<open>encrypt\<close> and \<^verbatim>\<open>decrypt\<close> open with: read the key, decode it, build the cipher.\<close>

definition load_key :: "crypto \<Rightarrow> encryption_error + string" where
  "load_key cr =
     (case cr_key_env cr of
        None \<Rightarrow> Inl EnvError
      | Some encoded \<Rightarrow>
          (case cr_b64_decode cr encoded of
             None \<Rightarrow> Inl KeyDecodeError
           | Some key \<Rightarrow> if cr_key_ok cr key then Inr key else Inl CipherError))"

definition encrypt :: "crypto \<Rightarrow> string \<Rightarrow> string \<Rightarrow> encryption_error + string" where
  "encrypt cr nonce value =
     (case load_key cr of
        Inl e \<Rightarrow> Inl e
      | Inr key \<Rightarrow>
          (case cr_seal cr key nonce value of
             None \<Rightarrow> Inl EncryptFailed
           | Some ciphertext \<Rightarrow> Inr (cr_b64_encode cr (nonce @ ciphertext))))"

definition decrypt :: "crypto \<Rightarrow> string \<Rightarrow> encryption_error + string" where
  "decrypt cr encrypted =
     (case load_key cr of
        Inl e \<Rightarrow> Inl e
      | Inr key \<Rightarrow>
          (case cr_b64_decode cr encrypted of
             None \<Rightarrow> Inl KeyDecodeError
           | Some encrypted_data \<Rightarrow>
               if length encrypted_data < 12 then Inl InvalidData
               else
                 (case cr_open cr key (take 12 encrypted_data) (drop 12 encrypted_data) of
                    None \<Rightarrow> Inl DecryptionError
                  | Some plaintext \<Rightarrow>
                      if cr_utf8_ok cr plaintext then Inr plaintext else Inl Utf8Error)))"

text \<open>
  The documented behaviour of the crates: base64 decodes what it encoded, and opening a sealed
  text under the same key and nonce gives the text back.
\<close>

definition crypto_laws :: "crypto \<Rightarrow> bool" where
  "crypto_laws cr \<longleftrightarrow>
     (\<forall>x. cr_b64_decode cr (cr_b64_encode cr x) = Some x) \<and>
     (\<forall>k n x c. cr_seal cr k n x = Some c \<longrightarrow> cr_open cr k n c = Some x)"

lemma decrypt_encrypt:
  assumes "crypto_laws cr" "length nonce = 12" "cr_utf8_ok cr v" "encrypt cr nonce v = Inr c"
  shows "decrypt cr c = Inr v"
  using assms
  by (auto simp: encrypt_def decrypt_def crypto_laws_def split: sum.splits option.splits)

text \<open>A concrete instance of the parameter, for the witnesses: the cipher prepends a tag byte.\<close>

definition demo_crypto :: crypto where
  "demo_crypto =
     \<lparr>cr_key_env = Some ''k'', cr_b64_decode = Some, cr_b64_encode = (\<lambda>x. x), cr_key_ok = (\<lambda>k. k \<noteq> []),
      cr_seal = (\<lambda>k n x. Some (CHR ''#'' # x)),
      cr_open = (\<lambda>k n c. case c of [] \<Rightarrow> None | t # x \<Rightarrow> if t = CHR ''#'' then Some x else None),
      cr_utf8_ok = (\<lambda>x. True)\<rparr>"

definition demo_nonce :: string where
  "demo_nonce = ''nonce-12byte''"

lemma demo_crypto_laws: "crypto_laws demo_crypto"
  by (simp add: crypto_laws_def demo_crypto_def)

lemma demo_load_key: "load_key demo_crypto = Inr ''k''"
  by (simp add: load_key_def demo_crypto_def)

lemma demo_encrypt: "encrypt demo_crypto n v = Inr (n @ CHR ''#'' # v)"
  unfolding encrypt_def demo_load_key by (simp add: demo_crypto_def)

lemma demo_decrypt: "length n = 12 \<Longrightarrow> decrypt demo_crypto (n @ CHR ''#'' # v) = Inr v"
  unfolding decrypt_def demo_load_key by (simp add: demo_crypto_def)

lemma length_demo_nonce [simp]: "length demo_nonce = 12"
  by (simp add: demo_nonce_def)

end
