(* ===== verification/LT_Model.thy ===== *)
theory LT_Model
  imports Encryption
begin

text \<open>
  The rows of the Light Tool tables (\<^verbatim>\<open>backend/src/models/light_tool_models.rs\<close>; the constraints are
  those of \<^verbatim>\<open>backend/pg_migrations/2026-07-*light_tool*\<close>) and the store that holds them. A column
  carries the table's prefix because Isabelle's records share one name space. \<^verbatim>\<open>status\<close> is a text
  column that its CHECK constraint limits to four values, which are the constructors of
  \<open>run_status\<close>.
\<close>

record light_tool_device =
  dev_id :: i32
  dev_installation_id_hash :: string
  dev_token_hash :: string
  dev_user_id :: "i32 option"
  dev_trial_started_at :: i32
  dev_trial_expires_at :: i32
  dev_trial_messages_used :: i32
  dev_last_seen_at :: i32
  dev_revoked_at :: "i32 option"
  dev_created_at :: i32
  dev_updated_at :: i32

record new_light_tool_device =
  nd_installation_id_hash :: string
  nd_device_token_hash :: string
  nd_trial_started_at :: i32
  nd_trial_expires_at :: i32
  nd_last_seen_at :: i32
  nd_created_at :: i32
  nd_updated_at :: i32

datatype run_status = Queued | Running | Completed | Failed

record light_tool_run =
  run_id :: string
  run_device_id :: i32
  run_account_user_id :: "i32 option"
  run_client_message_id :: string
  run_enc_user_message :: string
  run_enc_image_data_url :: "string option"
  run_enc_activity_text :: "string option"
  run_enc_assistant_message :: "string option"
  run_enc_error_message :: "string option"
  run_status :: run_status
  run_created_at :: i32
  run_updated_at :: i32
  run_completed_at :: "i32 option"

record new_light_tool_run =
  nr_id :: string
  nr_device_id :: i32
  nr_account_user_id :: "i32 option"
  nr_client_message_id :: string
  nr_enc_user_message :: string
  nr_enc_image_data_url :: "string option"
  nr_created_at :: i32
  nr_updated_at :: i32

record light_tool_pairing_session =
  ps_user_id :: i32
  ps_token_hash :: string
  ps_expires_at :: i32
  ps_consumed_at :: "i32 option"
  ps_consumed_by_device_id :: "i32 option"
  ps_created_at :: i32

record new_light_tool_pairing_session =
  np_user_id :: i32
  np_token_hash :: string
  np_expires_at :: i32
  np_created_at :: i32

record light_tool_push_registration =
  pr_device_id :: i32
  pr_enc_endpoint :: string
  pr_endpoint_hash :: string
  pr_registered_at :: i32
  pr_updated_at :: i32

record light_tool_push_outbox_event =
  ev_device_id :: i32
  ev_event_type :: string
  ev_version :: i64
  ev_attempt_count :: i32
  ev_next_attempt_at :: i32
  ev_lease_until :: i32
  ev_created_at :: i32
  ev_updated_at :: i32

text \<open>
  The tables, the key sequence of the device table, and the keys of \<^verbatim>\<open>users\<close>, a table of another
  component that the foreign keys refer to.
\<close>

record lt_store =
  lt_user_ids :: "i32 list"
  lt_devices :: "light_tool_device table"
  lt_next_device_id :: i32
  lt_runs :: "light_tool_run table"
  lt_sessions :: "light_tool_pairing_session table"
  lt_registrations :: "light_tool_push_registration table"
  lt_outbox :: "light_tool_push_outbox_event table"

definition empty_lt_store :: "i32 list \<Rightarrow> lt_store" where
  "empty_lt_store users =
     \<lparr>lt_user_ids = users, lt_devices = [], lt_next_device_id = 1, lt_runs = [], lt_sessions = [],
      lt_registrations = [], lt_outbox = []\<rparr>"

datatype repo_error = Database db_error | EncryptionErr encryption_error

section \<open>The life cycle of a run\<close>

text \<open>
  A run is queued, then running, then completed or failed for good. The order below says which
  status can follow which; completed and failed runs are incomparable.
\<close>

fun status_rank :: "run_status \<Rightarrow> nat" where
  "status_rank Queued = 0"
| "status_rank Running = 1"
| "status_rank Completed = 2"
| "status_rank Failed = 2"

instantiation run_status :: order
begin

definition less_eq_run_status :: "run_status \<Rightarrow> run_status \<Rightarrow> bool" where
  "s \<le> t \<longleftrightarrow> s = t \<or> status_rank s < status_rank t"

definition less_run_status :: "run_status \<Rightarrow> run_status \<Rightarrow> bool" where
  "s < t \<longleftrightarrow> status_rank s < status_rank t"

instance
  by standard (auto simp: less_eq_run_status_def less_run_status_def)

end

lemma terminal_status_le:
  "Completed \<le> s \<longleftrightarrow> s = Completed" "Failed \<le> s \<longleftrightarrow> s = Failed"
  by (cases s; simp add: less_eq_run_status_def)+

end
