(* ===== verification/Contracts.thy ===== *)
theory Contracts
  imports Prelude
begin

text \<open>
  The contracts that several repositories promise their callers, as locales. A component proves the
  laws for its own operations by an \<^theory_text>\<open>interpretation\<close> in its theory and gets the consequences for
  whole sequences of calls.

  \<^item> \<open>quota\<close>: a claim is granted only below a cap and is counted when it is granted;
    \<open>exact_quota\<close>: and costs nothing when it is refused (the trial messages of a Light Tool device,
    the daily sends of a webhook token, the daily actions of an agent credential).
  \<^item> \<open>one_shot\<close>: something is taken by at most one caller (a queued run, a pairing session, a reply
    watch, a commitment prompt). It is a quota of one.
  \<^item> \<open>leasing\<close>: what one worker has claimed no other worker claims before the lease runs out (push
    events, due reminders).
  \<^item> \<open>idempotency\<close>: a key is reserved by one caller, in flight until that caller completes or
    clears it, and answered from the record afterwards (webhook sends, agent actions).
\<close>

section \<open>Quotas\<close>

text \<open>The number of claims that are granted when \<open>as\<close> are made one after another.\<close>

fun grants :: "('a \<Rightarrow> 's \<Rightarrow> bool \<times> 's) \<Rightarrow> 'a list \<Rightarrow> 's \<Rightarrow> nat \<times> 's" where
  "grants claim [] s = (0, s)"
| "grants claim (a # as) s =
     (case claim a s of (granted, s') \<Rightarrow>
        (case grants claim as s' of (n, s'') \<Rightarrow> (if granted then Suc n else n, s'')))"

locale quota =
  fixes claim :: "'a \<Rightarrow> 's \<Rightarrow> bool \<times> 's"
    and used :: "'s \<Rightarrow> int"
    and cap :: "'s \<Rightarrow> int"
    and inv :: "'s \<Rightarrow> bool"
    and adm :: "'a \<Rightarrow> 's \<Rightarrow> bool"
  assumes claim_inv: "inv s \<Longrightarrow> adm a s \<Longrightarrow> inv (snd (claim a s))"
    and claim_adm: "inv s \<Longrightarrow> adm a s \<Longrightarrow> adm b s \<Longrightarrow> adm b (snd (claim a s))"
    and claim_cap: "inv s \<Longrightarrow> adm a s \<Longrightarrow> cap (snd (claim a s)) = cap s"
    and claim_granted: "inv s \<Longrightarrow> adm a s \<Longrightarrow> fst (claim a s) \<Longrightarrow>
          used s < cap s \<and> used (snd (claim a s)) = used s + 1"
    and claim_refused: "inv s \<Longrightarrow> adm a s \<Longrightarrow> \<not> fst (claim a s) \<Longrightarrow>
          used s \<le> used (snd (claim a s))"
begin

lemma claim_used:
  "inv s \<Longrightarrow> adm a s \<Longrightarrow> used s + (if fst (claim a s) then 1 else 0) \<le> used (snd (claim a s))"
  using claim_granted claim_refused by (cases "fst (claim a s)") fastforce+

lemma grants_inv:
  "inv s \<Longrightarrow> \<forall>a \<in> set as. adm a s \<Longrightarrow> inv (snd (grants claim as s))"
proof (induction as arbitrary: s)
  case (Cons a as)
  then have "inv (snd (claim a s))" "\<forall>b \<in> set as. adm b (snd (claim a s))"
    by (auto intro: claim_inv claim_adm)
  from Cons.IH [OF this] show ?case by (auto split: prod.splits)
qed simp

lemma grants_within_cap:
  "inv s \<Longrightarrow> \<forall>a \<in> set as. adm a s \<Longrightarrow>
     used s + int (fst (grants claim as s)) \<le> max (used s) (cap s)"
proof (induction as arbitrary: s)
  case Nil
  then show ?case by simp
next
  case (Cons a as)
  then have a: "adm a s" by simp
  from Cons.prems a have next_inv: "inv (snd (claim a s))" by (simp add: claim_inv)
  from Cons.prems a have "\<forall>b \<in> set as. adm b (snd (claim a s))"
    by (auto intro: claim_adm)
  note IH = Cons.IH [OF next_inv this]
  show ?case
    using IH claim_cap [OF Cons.prems(1) a] claim_granted [OF Cons.prems(1) a]
      claim_refused [OF Cons.prems(1) a]
    by (auto split: prod.splits)
qed

end

text \<open>A quota in which a refused claim costs nothing.\<close>

locale exact_quota = quota +
  assumes refused_free: "inv s \<Longrightarrow> adm a s \<Longrightarrow> \<not> fst (claim a s) \<Longrightarrow> used (snd (claim a s)) = used s"
begin

lemma grants_exact:
  "inv s \<Longrightarrow> \<forall>a \<in> set as. adm a s \<Longrightarrow>
     used (snd (grants claim as s)) = used s + int (fst (grants claim as s))"
proof (induction as arbitrary: s)
  case Nil
  then show ?case by simp
next
  case (Cons a as)
  then have a: "adm a s" by simp
  from Cons.prems a have next_inv: "inv (snd (claim a s))" by (simp add: claim_inv)
  from Cons.prems a have "\<forall>b \<in> set as. adm b (snd (claim a s))"
    by (auto intro: claim_adm)
  note IH = Cons.IH [OF next_inv this]
  show ?case
    using IH claim_granted [OF Cons.prems(1) a] refused_free [OF Cons.prems(1) a]
    by (auto split: prod.splits)
qed

lemma cap_kept: "inv s \<Longrightarrow> adm a s \<Longrightarrow> used s \<le> cap s \<Longrightarrow> used (snd (claim a s)) \<le> cap (snd (claim a s))"
  by (cases "fst (claim a s)") (auto simp: claim_cap refused_free dest: claim_granted)

end

section \<open>One-shot claims\<close>

locale one_shot =
  fixes take_it :: "'a \<Rightarrow> 's \<Rightarrow> bool \<times> 's"
    and available :: "'s \<Rightarrow> bool"
    and inv :: "'s \<Rightarrow> bool"
  assumes take_inv: "inv s \<Longrightarrow> inv (snd (take_it a s))"
    and taken: "inv s \<Longrightarrow> fst (take_it a s) \<Longrightarrow> available s \<and> \<not> available (snd (take_it a s))"
    and not_taken: "inv s \<Longrightarrow> \<not> fst (take_it a s) \<Longrightarrow> available (snd (take_it a s)) \<Longrightarrow> available s"

sublocale one_shot \<subseteq> one: quota take_it "\<lambda>s. if available s then 0 else 1" "\<lambda>s. 1" inv "\<lambda>a s. True"
  by unfold_locales (auto simp: take_inv dest: taken not_taken)

context one_shot begin

lemma at_most_once: "inv s \<Longrightarrow> fst (grants take_it as s) \<le> 1"
  using one.grants_within_cap [of s as] by (auto split: if_splits)

lemma spent_stays_spent: "inv s \<Longrightarrow> \<not> available s \<Longrightarrow> fst (grants take_it as s) = 0"
  using one.grants_within_cap [of s as] by auto

end

section \<open>Leases\<close>

text \<open>The claims of several workers, one after another, and that no two of them share a key.\<close>

fun run_claims :: "('a \<Rightarrow> 's \<Rightarrow> 'k list \<times> 's) \<Rightarrow> 'a list \<Rightarrow> 's \<Rightarrow> 'k list list" where
  "run_claims claim [] s = []"
| "run_claims claim (a # as) s = (case claim a s of (ks, s') \<Rightarrow> ks # run_claims claim as s')"

fun pairwise_disjoint :: "'k list list \<Rightarrow> bool" where
  "pairwise_disjoint [] = True"
| "pairwise_disjoint (ks # kss) = ((\<forall>js \<in> set kss. set ks \<inter> set js = {}) \<and> pairwise_disjoint kss)"

text \<open>Every claim is made before the leases of the earlier ones run out.\<close>

fun within_leases :: "('a \<Rightarrow> int) \<Rightarrow> ('a \<Rightarrow> int) \<Rightarrow> 'a list \<Rightarrow> bool" where
  "within_leases at until [] = True"
| "within_leases at until (a # as) = ((\<forall>b \<in> set as. at b < until a) \<and> within_leases at until as)"

locale leasing =
  fixes claim :: "'a \<Rightarrow> 's \<Rightarrow> 'k list \<times> 's"
    and at :: "'a \<Rightarrow> int"
    and until :: "'a \<Rightarrow> int"
    and free :: "'s \<Rightarrow> 'k \<Rightarrow> int \<Rightarrow> bool"
    and inv :: "'s \<Rightarrow> bool"
  assumes claim_inv: "inv s \<Longrightarrow> inv (snd (claim a s))"
    and claim_free: "inv s \<Longrightarrow> k \<in> set (fst (claim a s)) \<Longrightarrow> free s k (at a)"
    and claim_holds: "inv s \<Longrightarrow> k \<in> set (fst (claim a s)) \<Longrightarrow> t < until a \<Longrightarrow> \<not> free (snd (claim a s)) k t"
    and claim_others: "inv s \<Longrightarrow> k \<notin> set (fst (claim a s)) \<Longrightarrow> free (snd (claim a s)) k t = free s k t"
begin

lemma held_is_skipped:
  assumes "inv s" "\<And>t. t < u \<Longrightarrow> \<not> free s k t" "\<forall>b \<in> set as. at b < u"
  shows "\<forall>ks \<in> set (run_claims claim as s). k \<notin> set ks"
  using assms
proof (induction as arbitrary: s)
  case (Cons b as)
  then have not: "k \<notin> set (fst (claim b s))" using claim_free by (metis list.set_intros(1))
  have "\<forall>ks \<in> set (run_claims claim as (snd (claim b s))). k \<notin> set ks"
    using Cons.prems claim_others [OF Cons.prems(1) not] by (intro Cons.IH) (simp_all add: claim_inv)
  with not show ?case by (cases "claim b s") simp
qed simp

lemma claims_disjoint:
  "inv s \<Longrightarrow> within_leases at until as \<Longrightarrow> pairwise_disjoint (run_claims claim as s)"
proof (induction as arbitrary: s)
  case (Cons a as)
  obtain ks s' where claim: "claim a s = (ks, s')" by fastforce
  have inv: "inv s'" using claim_inv [OF Cons.prems(1), of a] claim by simp
  have "\<forall>js \<in> set (run_claims claim as s'). k \<notin> set js" if "k \<in> set ks" for k
    using claim_holds [OF Cons.prems(1), of k a] that claim Cons.prems(2)
    by (intro held_is_skipped [OF inv, where u = "until a"]) simp_all
  then have "\<forall>js \<in> set (run_claims claim as s'). set ks \<inter> set js = {}" by blast
  with Cons.IH [OF inv] Cons.prems(2) claim show ?case by simp
qed simp

end

section \<open>Idempotency keys\<close>

datatype 'o idempotency_entry = NoEntry | PendingEntry int | DoneEntry int 'o

text \<open>
  \<open>entry s k\<close> is what the store records for the key, with the time of the reservation. The laws are
  those a caller relies on inside the time-to-live.
\<close>

datatype ('i, 'o) idempotency_claim = IdemFresh 'i | IdemReplayed 'o | IdemInFlight

locale idempotency =
  fixes reserve :: "'k \<Rightarrow> int \<Rightarrow> 's \<Rightarrow> ('i, 'o) idempotency_claim \<times> 's"
    and complete :: "'i \<Rightarrow> 'o \<Rightarrow> 's \<Rightarrow> 's"
    and clear :: "'i \<Rightarrow> 's \<Rightarrow> 's"
    and entry :: "'s \<Rightarrow> 'k \<Rightarrow> 'o idempotency_entry"
    and holds :: "'s \<Rightarrow> 'k \<Rightarrow> 'i \<Rightarrow> bool"
    and live :: "int \<Rightarrow> int \<Rightarrow> bool"
    and inv :: "'s \<Rightarrow> bool"
    and wf_key :: "'k \<Rightarrow> bool"
  assumes reserve_inv: "inv s \<Longrightarrow> inv (snd (reserve k now s))"
    and complete_inv: "inv s \<Longrightarrow> inv (complete i out s)"
    and clear_inv: "inv s \<Longrightarrow> inv (clear i s)"
    and reserve_none: "inv s \<Longrightarrow> wf_key k \<Longrightarrow> entry s k = NoEntry \<Longrightarrow>
          \<exists>i. fst (reserve k now s) = IdemFresh i"
    and reserve_pending: "inv s \<Longrightarrow> entry s k = PendingEntry t \<Longrightarrow> live now t \<Longrightarrow>
          reserve k now s = (IdemInFlight, s)"
    and reserve_done: "inv s \<Longrightarrow> entry s k = DoneEntry t out \<Longrightarrow> live now t \<Longrightarrow>
          reserve k now s = (IdemReplayed out, s)"
    and reserve_stale: "inv s \<Longrightarrow> wf_key k \<Longrightarrow> entry s k = PendingEntry t \<or> entry s k = DoneEntry t out \<Longrightarrow>
          \<not> live now t \<Longrightarrow> \<exists>i. fst (reserve k now s) = IdemFresh i"
    and reserve_fresh: "inv s \<Longrightarrow> fst (reserve k now s) = IdemFresh i \<Longrightarrow>
          entry (snd (reserve k now s)) k = PendingEntry now \<and> holds (snd (reserve k now s)) k i"
    and reserve_others: "inv s \<Longrightarrow> k' \<noteq> k \<Longrightarrow> entry (snd (reserve k now s)) k' = entry s k'"
    and complete_entry: "inv s \<Longrightarrow> holds s k i \<Longrightarrow> entry s k = PendingEntry t \<Longrightarrow>
          entry (complete i out s) k = DoneEntry t out"
    and clear_entry: "inv s \<Longrightarrow> holds s k i \<Longrightarrow> entry (clear i s) k = NoEntry"
begin

lemma second_caller_waits:
  assumes "inv s" "fst (reserve k t s) = IdemFresh i" "live now t"
  shows "reserve k now (snd (reserve k t s)) = (IdemInFlight, snd (reserve k t s))"
  using assms reserve_fresh reserve_inv reserve_pending by blast

lemma completed_is_replayed:
  assumes "inv s" "fst (reserve k t s) = IdemFresh i" "live now t"
  shows "fst (reserve k now (complete i out (snd (reserve k t s)))) = IdemReplayed out"
proof -
  let ?s = "snd (reserve k t s)"
  from assms have s: "inv ?s" "entry ?s k = PendingEntry t" "holds ?s k i"
    by (simp_all add: reserve_inv reserve_fresh)
  then have "entry (complete i out ?s) k = DoneEntry t out" by (simp add: complete_entry)
  with s assms(3) show ?thesis by (simp add: reserve_done complete_inv)
qed

lemma cleared_is_fresh:
  assumes "inv s" "wf_key k" "fst (reserve k t s) = IdemFresh i"
  shows "\<exists>j. fst (reserve k now (clear i (snd (reserve k t s)))) = IdemFresh j"
  using assms by (simp add: reserve_none clear_inv reserve_inv clear_entry reserve_fresh)

end

end
