(* ===== verification/LT_Devices.thy ===== *)
theory LT_Devices
  imports LT_Model Contracts
begin

text \<open>
  The identity of a Light Tool installation: token formats and hashes
  (\<^verbatim>\<open>services/light_tool_identity.rs\<close>), the device table
  (\<^verbatim>\<open>repositories/light_tool_devices_repository.rs\<close>), the bootstrap and trial services
  (\<^verbatim>\<open>services/light_tool_bootstrap.rs\<close>, \<^verbatim>\<open>services/light_tool_trial.rs\<close>) and the request
  authenticator (\<^verbatim>\<open>handlers/light_tool_auth.rs\<close>).

  Parameters: \<open>sha\<close> is \<^verbatim>\<open>hex::encode(Sha256::digest(_))\<close>, \<open>canonical\<close> is the canonical text of
  \<^verbatim>\<open>Uuid::parse_str\<close>, and a fresh random token is given by the hex text of its 32 random bytes.
\<close>

section \<open>Identity\<close>

definition DEVICE_TOKEN_PREFIX :: string where "DEVICE_TOKEN_PREFIX = ''lft_''"
definition DEVICE_TOKEN_RANDOM_BYTES :: nat where "DEVICE_TOKEN_RANDOM_BYTES = 32"

datatype identity_error = InvalidInstallationId | InvalidDeviceToken

definition hash_installation_id ::
  "(string \<Rightarrow> string option) \<Rightarrow> (string \<Rightarrow> string) \<Rightarrow> string \<Rightarrow> identity_error + string" where
  "hash_installation_id canonical sha installation_id =
     (case canonical installation_id of
        None \<Rightarrow> Inl InvalidInstallationId
      | Some c \<Rightarrow> Inr (sha c))"

text \<open>\<^verbatim>\<open>byte.is_ascii_digit() || (b'a'..=b'f').contains(&byte)\<close>\<close>

definition is_lower_hex :: "char \<Rightarrow> bool" where
  "is_lower_hex c \<longleftrightarrow>
     (48 \<le> (of_char c :: nat) \<and> (of_char c :: nat) \<le> 57) \<or>
     (97 \<le> (of_char c :: nat) \<and> (of_char c :: nat) \<le> 102)"

definition has_valid_device_token_format :: "string \<Rightarrow> bool" where
  "has_valid_device_token_format device_token =
     (case strip_prefix DEVICE_TOKEN_PREFIX device_token of
        None \<Rightarrow> False
      | Some random_hex \<Rightarrow>
          length random_hex = DEVICE_TOKEN_RANDOM_BYTES * 2 \<and> list_all is_lower_hex random_hex)"

definition hash_device_token :: "(string \<Rightarrow> string) \<Rightarrow> string \<Rightarrow> identity_error + string" where
  "hash_device_token sha device_token =
     (if \<not> has_valid_device_token_format device_token then Inl InvalidDeviceToken
      else Inr (sha device_token))"

definition generate_device_token :: "(string \<Rightarrow> string) \<Rightarrow> string \<Rightarrow> string \<times> string" where
  "generate_device_token sha random_hex =
     (let raw = DEVICE_TOKEN_PREFIX @ random_hex in (raw, sha raw))"

section \<open>The device table\<close>

definition devices_create ::
  "new_light_tool_device \<Rightarrow> lt_store \<Rightarrow> (db_error + light_tool_device) \<times> lt_store" where
  "devices_create nd s =
     (if \<exists>d \<in> set (lt_devices s). dev_installation_id_hash d = nd_installation_id_hash nd
            \<or> dev_token_hash d = nd_device_token_hash nd
      then (Inl UniqueViolation, s)
      else
        let d = \<lparr>dev_id = lt_next_device_id s,
                 dev_installation_id_hash = nd_installation_id_hash nd,
                 dev_token_hash = nd_device_token_hash nd,
                 dev_user_id = None,
                 dev_trial_started_at = nd_trial_started_at nd,
                 dev_trial_expires_at = nd_trial_expires_at nd,
                 dev_trial_messages_used = 0,
                 dev_last_seen_at = nd_last_seen_at nd,
                 dev_revoked_at = None,
                 dev_created_at = nd_created_at nd,
                 dev_updated_at = nd_updated_at nd\<rparr>
        in (Inr d, s\<lparr>lt_devices := lt_devices s @ [d], lt_next_device_id := lt_next_device_id s + 1\<rparr>))"

definition find_by_installation_hash :: "string \<Rightarrow> lt_store \<Rightarrow> light_tool_device option" where
  "find_by_installation_hash h s = sql_first (\<lambda>d. dev_installation_id_hash d = h) (lt_devices s)"

definition find_active_by_token_hash :: "string \<Rightarrow> lt_store \<Rightarrow> light_tool_device option" where
  "find_active_by_token_hash h s =
     sql_first (\<lambda>d. dev_token_hash d = h \<and> dev_revoked_at d = None) (lt_devices s)"

definition update_last_seen_if_active ::
  "i32 \<Rightarrow> i32 \<Rightarrow> lt_store \<Rightarrow> light_tool_device option \<times> lt_store" where
  "update_last_seen_if_active device_id now s =
     (let p = (\<lambda>d. dev_id d = device_id \<and> dev_revoked_at d = None);
          f = (\<lambda>d. d\<lparr>dev_last_seen_at := now, dev_updated_at := now\<rparr>)
      in (sql_update_get p f (lt_devices s), s\<lparr>lt_devices := sql_update p f (lt_devices s)\<rparr>))"

text \<open>The WHERE and SET clauses of the quota claim, which \<^verbatim>\<open>create_anonymous_trial_run\<close> repeats.\<close>

definition trial_claimable :: "i32 \<Rightarrow> i32 \<Rightarrow> i32 \<Rightarrow> light_tool_device \<Rightarrow> bool" where
  "trial_claimable device_id now message_limit d \<longleftrightarrow>
     dev_id d = device_id \<and> dev_user_id d = None \<and> dev_revoked_at d = None \<and>
     now < dev_trial_expires_at d \<and> dev_trial_messages_used d < message_limit"

definition trial_claim_row :: "i32 \<Rightarrow> light_tool_device \<Rightarrow> light_tool_device" where
  "trial_claim_row now d =
     d\<lparr>dev_trial_messages_used := dev_trial_messages_used d + 1, dev_updated_at := now\<rparr>"

definition claim_anonymous_trial_message ::
  "i32 \<Rightarrow> i32 \<Rightarrow> i32 \<Rightarrow> lt_store \<Rightarrow> light_tool_device option \<times> lt_store" where
  "claim_anonymous_trial_message device_id now message_limit s =
     (let p = trial_claimable device_id now message_limit; f = trial_claim_row now
      in (sql_update_get p f (lt_devices s), s\<lparr>lt_devices := sql_update p f (lt_devices s)\<rparr>))"

section \<open>The bootstrap and trial services\<close>

definition TRIAL_MESSAGE_LIMIT :: i32 where "TRIAL_MESSAGE_LIMIT = 12"
definition TRIAL_DURATION_SECONDS :: i32 where "TRIAL_DURATION_SECONDS = 259200"

record bootstrap_session =
  bs_device_token :: string
  bs_can_send :: bool
  bs_account_user_id :: "i32 option"
  bs_trial_messages_remaining :: i32
  bs_trial_expires_at :: i32

datatype bootstrap_error =
    Identity identity_error | DeviceTokenRequired | InvalidDeviceCredentials | BootstrapRepository db_error

text \<open>The device and token the two arms of \<^verbatim>\<open>match existing_device_token\<close> produce.\<close>

definition bootstrap_existing ::
  "(string \<Rightarrow> string) \<Rightarrow> string \<Rightarrow> string \<Rightarrow> i32 \<Rightarrow> lt_store
   \<Rightarrow> (bootstrap_error + light_tool_device \<times> string) \<times> lt_store" where
  "bootstrap_existing sha installation_id_hash raw_token now s =
     (case hash_device_token sha raw_token of
        Inl e \<Rightarrow> (Inl (Identity e), s)
      | Inr token_hash \<Rightarrow>
          (case find_active_by_token_hash token_hash s of
             None \<Rightarrow> (Inl InvalidDeviceCredentials, s)
           | Some device \<Rightarrow>
               if dev_installation_id_hash device \<noteq> installation_id_hash
               then (Inl InvalidDeviceCredentials, s)
               else
                 (case update_last_seen_if_active (dev_id device) now s of
                    (None, s') \<Rightarrow> (Inl InvalidDeviceCredentials, s')
                  | (Some device', s') \<Rightarrow> (Inr (device', raw_token), s'))))"

definition bootstrap_new ::
  "(string \<Rightarrow> string) \<Rightarrow> string \<Rightarrow> string \<Rightarrow> i32 \<Rightarrow> lt_store
   \<Rightarrow> (bootstrap_error + light_tool_device \<times> string) \<times> lt_store" where
  "bootstrap_new sha random_hex installation_id_hash now s =
     (if find_by_installation_hash installation_id_hash s \<noteq> None
      then (Inl DeviceTokenRequired, s)
      else
        let (raw, hash) = generate_device_token sha random_hex
        in (case devices_create
                   \<lparr>nd_installation_id_hash = installation_id_hash, nd_device_token_hash = hash,
                    nd_trial_started_at = now,
                    nd_trial_expires_at = wrap_i32 (now + TRIAL_DURATION_SECONDS),
                    nd_last_seen_at = now, nd_created_at = now, nd_updated_at = now\<rparr> s of
              (Inl e, s') \<Rightarrow> (Inl (BootstrapRepository e), s')
            | (Inr device, s') \<Rightarrow> (Inr (device, raw), s')))"

definition bootstrap_view :: "light_tool_device \<Rightarrow> string \<Rightarrow> i32 \<Rightarrow> bootstrap_session" where
  "bootstrap_view device device_token now =
     (let remaining = max 0 (wrap_i32 (TRIAL_MESSAGE_LIMIT - dev_trial_messages_used device));
          anonymous_trial_active =
            dev_user_id device = None \<and> now < dev_trial_expires_at device \<and> 0 < remaining
      in \<lparr>bs_device_token = device_token,
          bs_can_send = (dev_user_id device \<noteq> None \<or> anonymous_trial_active),
          bs_account_user_id = dev_user_id device,
          bs_trial_messages_remaining = remaining,
          bs_trial_expires_at = dev_trial_expires_at device\<rparr>)"

definition bootstrap ::
  "(string \<Rightarrow> string option) \<Rightarrow> (string \<Rightarrow> string) \<Rightarrow> string \<Rightarrow> string \<Rightarrow> string option \<Rightarrow> i32
   \<Rightarrow> lt_store \<Rightarrow> (bootstrap_error + bootstrap_session) \<times> lt_store" where
  "bootstrap canonical sha random_hex installation_id existing_device_token now s =
     (case hash_installation_id canonical sha installation_id of
        Inl e \<Rightarrow> (Inl (Identity e), s)
      | Inr installation_id_hash \<Rightarrow>
          (case (case existing_device_token of
                   Some raw_token \<Rightarrow> bootstrap_existing sha installation_id_hash raw_token now s
                 | None \<Rightarrow> bootstrap_new sha random_hex installation_id_hash now s) of
             (Inl e, s') \<Rightarrow> (Inl e, s')
           | (Inr (device, device_token), s') \<Rightarrow> (Inr (bootstrap_view device device_token now), s')))"

datatype trial_message_claim = Claimed i32 | Unavailable

definition claim_message :: "i32 \<Rightarrow> i32 \<Rightarrow> lt_store \<Rightarrow> trial_message_claim \<times> lt_store" where
  "claim_message device_id now s =
     (case claim_anonymous_trial_message device_id now TRIAL_MESSAGE_LIMIT s of
        (Some device, s') \<Rightarrow>
          (Claimed (max 0 (wrap_i32 (TRIAL_MESSAGE_LIMIT - dev_trial_messages_used device))), s')
      | (None, s') \<Rightarrow> (Unavailable, s'))"

section \<open>Authentication of a request\<close>

definition LAST_SEEN_WRITE_INTERVAL_SECONDS :: i32 where
  "LAST_SEEN_WRITE_INTERVAL_SECONDS = 60"

datatype light_tool_auth_error = Unauthorized | Internal

text \<open>
  \<open>to_str\<close> is \<^verbatim>\<open>HeaderValue::to_str\<close>; the flags of the second definition say whether the two
  database calls go through.
\<close>

definition optional_bearer ::
  "(string \<Rightarrow> string option) \<Rightarrow> string option \<Rightarrow> light_tool_auth_error + string option" where
  "optional_bearer to_str header =
     (case header of
        None \<Rightarrow> Inr None
      | Some value \<Rightarrow>
          (case to_str value of
             None \<Rightarrow> Inl Unauthorized
           | Some raw \<Rightarrow>
               (case (case strip_prefix ''Bearer '' raw of
                        Some t \<Rightarrow> Some t
                      | None \<Rightarrow> strip_prefix ''bearer '' raw) of
                  None \<Rightarrow> Inl Unauthorized
                | Some t \<Rightarrow> if trim t = [] then Inl Unauthorized else Inr (Some (trim t)))))"

definition authenticate_device ::
  "(string \<Rightarrow> string option) \<Rightarrow> (string \<Rightarrow> string) \<Rightarrow> bool \<Rightarrow> bool \<Rightarrow> string option \<Rightarrow> i32 \<Rightarrow> lt_store
   \<Rightarrow> (light_tool_auth_error + light_tool_device) \<times> lt_store" where
  "authenticate_device to_str sha lookup_ok touch_ok header now s =
     (case optional_bearer to_str header of
        Inl e \<Rightarrow> (Inl e, s)
      | Inr None \<Rightarrow> (Inl Unauthorized, s)
      | Inr (Some raw_token) \<Rightarrow>
          (case hash_device_token sha raw_token of
             Inl _ \<Rightarrow> (Inl Unauthorized, s)
           | Inr token_hash \<Rightarrow>
               if \<not> lookup_ok then (Inl Internal, s)
               else
                 (case find_active_by_token_hash token_hash s of
                    None \<Rightarrow> (Inl Unauthorized, s)
                  | Some device \<Rightarrow>
                      if dev_last_seen_at device \<le> wrap_i32 (now - LAST_SEEN_WRITE_INTERVAL_SECONDS)
                      then
                        if \<not> touch_ok then (Inl Internal, s)
                        else
                          (case update_last_seen_if_active (dev_id device) now s of
                             (None, s') \<Rightarrow> (Inl Unauthorized, s')
                           | (Some device', s') \<Rightarrow> (Inr device', s'))
                      else (Inr device, s))))"

section \<open>The trial quota\<close>

text \<open>The quota claims of one device, as the contract \<open>exact_quota\<close> sees them.\<close>

definition trial_claim_of :: "i32 \<Rightarrow> i32 \<Rightarrow> lt_store \<Rightarrow> bool \<times> lt_store" where
  "trial_claim_of dev now s =
     (case claim_anonymous_trial_message dev now TRIAL_MESSAGE_LIMIT s of (r, s') \<Rightarrow> (r \<noteq> None, s'))"

definition trial_used_of :: "i32 \<Rightarrow> lt_store \<Rightarrow> int" where
  "trial_used_of dev s =
     (case sql_first (\<lambda>d. dev_id d = dev) (lt_devices s) of
        None \<Rightarrow> 0
      | Some d \<Rightarrow> dev_trial_messages_used d)"

lemma find_update_id:
  assumes "\<And>d. p d \<Longrightarrow> dev_id (f d) = dev_id d"
  shows "sql_first (\<lambda>d. dev_id d = dev) (sql_update p f t) =
         map_option (\<lambda>d. if p d then f d else d) (sql_first (\<lambda>d. dev_id d = dev) t)"
  using assms by (induction t) (auto simp: sql_first_def sql_update_def)

lemma trial_claim_row_id [row_simps]: "dev_id (trial_claim_row now d) = dev_id d"
  by (simp add: trial_claim_row_def)

lemma trial_claim_of_result:
  assumes "distinct (map dev_id (lt_devices s))"
  shows "fst (trial_claim_of dev now s) =
           (case sql_first (\<lambda>d. dev_id d = dev) (lt_devices s) of
              None \<Rightarrow> False | Some d \<Rightarrow> trial_claimable dev now TRIAL_MESSAGE_LIMIT d)"
proof -
  have "fst (trial_claim_of dev now s) = (\<exists>d \<in> set (lt_devices s). trial_claimable dev now TRIAL_MESSAGE_LIMIT d)"
    by (simp add: trial_claim_of_def claim_anonymous_trial_message_def Let_def sql_update_get_None
        del: not_None_eq)
  also have "\<dots> = (case sql_first (\<lambda>d. dev_id d = dev) (lt_devices s) of
              None \<Rightarrow> False | Some d \<Rightarrow> trial_claimable dev now TRIAL_MESSAGE_LIMIT d)"
  proof (cases "sql_first (\<lambda>d. dev_id d = dev) (lt_devices s)")
    case None
    then have "\<forall>d \<in> set (lt_devices s). dev_id d \<noteq> dev" by (simp add: sql_first_None)
    with None show ?thesis by (auto simp: trial_claimable_def)
  next
    case (Some d)
    with sql_first_Some [OF Some] assms show ?thesis
      by (auto simp: trial_claimable_def dest: distinct_map_eqD)
  qed
  finally show ?thesis .
qed

lemma trial_claim_of_store:
  "snd (trial_claim_of dev now s) =
     s\<lparr>lt_devices := sql_update (trial_claimable dev now TRIAL_MESSAGE_LIMIT) (trial_claim_row now) (lt_devices s)\<rparr>"
  by (simp add: trial_claim_of_def claim_anonymous_trial_message_def Let_def)

lemma trial_used_of_claim:
  assumes "distinct (map dev_id (lt_devices s))"
  shows "trial_used_of dev (snd (trial_claim_of dev now s)) =
           trial_used_of dev s + (if fst (trial_claim_of dev now s) then 1 else 0)"
  by (simp add: trial_claim_of_result [OF assms] trial_claim_of_store trial_used_of_def find_update_id
      row_simps split: option.split) (simp add: trial_claim_row_def)

interpretation trial_quota: exact_quota "trial_claim_of dev" "trial_used_of dev" "\<lambda>s. TRIAL_MESSAGE_LIMIT"
  "\<lambda>s. distinct (map dev_id (lt_devices s))" "\<lambda>now s. True" for dev
proof
  fix s :: lt_store and now :: i32
  assume s: "distinct (map dev_id (lt_devices s))"
  show "distinct (map dev_id (lt_devices (snd (trial_claim_of dev now s))))"
    using s by (simp add: trial_claim_of_store map_sql_update row_simps)
  show "trial_used_of dev s < TRIAL_MESSAGE_LIMIT \<and>
        trial_used_of dev (snd (trial_claim_of dev now s)) = trial_used_of dev s + 1"
    if "fst (trial_claim_of dev now s)"
    using that trial_used_of_claim [OF s, of dev now]
    by (auto simp: trial_claim_of_result [OF s] trial_used_of_def trial_claimable_def split: option.splits)
qed (simp_all add: trial_used_of_claim)

end
