(* ===== verification/LT_Runs.thy ===== *)
theory LT_Runs
  imports LT_Devices
begin

text \<open>
  The table of Light Tool runs (\<^verbatim>\<open>repositories/light_tool_runs_repository.rs\<close>). Creating a run is
  one transaction that locks the device, so it is one step here; the life-cycle operations are
  single guarded UPDATE statements. An operation that returns the row decrypts it after the
  statement has been committed: if that fails the error is returned and the row stays written,
  while inside \<^verbatim>\<open>conn.transaction\<close> it rolls the writes back.

  Parameters: \<open>cr\<close> is the encryption of \<open>Encryption\<close>, the nonces and \<open>uuid\<close> are the random values of
  the call, and \<open>coll\<close> is the database's collation, used where rows are ordered by a text column.
\<close>

section \<open>Records and results\<close>

record light_tool_run_record =
  rr_id :: string
  rr_device_id :: i32
  rr_account_user_id :: "i32 option"
  rr_client_message_id :: string
  rr_user_message :: string
  rr_image_data_url :: "string option"
  rr_activity_text :: "string option"
  rr_assistant_message :: "string option"
  rr_error_message :: "string option"
  rr_status :: run_status
  rr_created_at :: i32
  rr_updated_at :: i32
  rr_completed_at :: "i32 option"

datatype trial_run_creation =
    TrialCreated light_tool_run_record i32
  | TrialExisting light_tool_run_record i32
  | TrialUnavailable
  | TrialIdempotencyConflict

datatype account_run_creation =
    AccountCreated light_tool_run_record
  | AccountExisting light_tool_run_record
  | AccountUnavailable
  | AccountIdempotencyConflict

definition decrypt_optional :: "crypto \<Rightarrow> string option \<Rightarrow> encryption_error + string option" where
  "decrypt_optional cr value = transpose_map (decrypt cr) value"

definition decrypt_run :: "crypto \<Rightarrow> light_tool_run \<Rightarrow> encryption_error + light_tool_run_record" where
  "decrypt_run cr r =
     try_in (decrypt cr (run_enc_user_message r)) (\<lambda>user_message.
     try_in (decrypt_optional cr (run_enc_image_data_url r)) (\<lambda>img.
     try_in (decrypt_optional cr (run_enc_activity_text r)) (\<lambda>activity.
     try_in (decrypt_optional cr (run_enc_assistant_message r)) (\<lambda>assistant.
     try_in (decrypt_optional cr (run_enc_error_message r)) (\<lambda>error_message.
       Inr \<lparr>rr_id = run_id r, rr_device_id = run_device_id r,
            rr_account_user_id = run_account_user_id r,
            rr_client_message_id = run_client_message_id r,
            rr_user_message = user_message, rr_image_data_url = img, rr_activity_text = activity,
            rr_assistant_message = assistant, rr_error_message = error_message,
            rr_status = run_status r, rr_created_at = run_created_at r,
            rr_updated_at = run_updated_at r, rr_completed_at = run_completed_at r\<rparr>)))))"

definition remaining_messages :: "light_tool_device \<Rightarrow> i32 \<Rightarrow> i32" where
  "remaining_messages device message_limit =
     max 0 (wrap_i32 (message_limit - dev_trial_messages_used device))"

section \<open>Creating a run\<close>

text \<open>\<^verbatim>\<open>diesel::insert_into(light_tool_runs::table)\<close>: the defaults and unique constraints of the table.\<close>

definition insert_run ::
  "new_light_tool_run \<Rightarrow> lt_store \<Rightarrow> (repo_error + light_tool_run) \<times> lt_store" where
  "insert_run nr s =
     (if \<exists>r \<in> set (lt_runs s). run_id r = nr_id nr
            \<or> run_device_id r = nr_device_id nr \<and> run_client_message_id r = nr_client_message_id nr
      then (Inl (Database UniqueViolation), s)
      else
        let r = \<lparr>run_id = nr_id nr, run_device_id = nr_device_id nr,
                 run_account_user_id = nr_account_user_id nr,
                 run_client_message_id = nr_client_message_id nr,
                 run_enc_user_message = nr_enc_user_message nr,
                 run_enc_image_data_url = nr_enc_image_data_url nr,
                 run_enc_activity_text = None, run_enc_assistant_message = None,
                 run_enc_error_message = None, run_status = Queued,
                 run_created_at = nr_created_at nr, run_updated_at = nr_updated_at nr,
                 run_completed_at = None\<rparr>
        in (Inr r, s\<lparr>lt_runs := lt_runs s @ [r]\<rparr>))"

text \<open>The \<^verbatim>\<open>NewLightToolRun\<close> value both creations build: the message and the image are encrypted.\<close>

definition new_run ::
  "crypto \<Rightarrow> string \<Rightarrow> string \<Rightarrow> string \<Rightarrow> i32 \<Rightarrow> i32 option \<Rightarrow> string \<Rightarrow> string \<Rightarrow> string option \<Rightarrow> i32
   \<Rightarrow> repo_error + new_light_tool_run" where
  "new_run cr nonce1 nonce2 uuid device_id account client_message_id user_message img now =
     try_in (map_sum EncryptionErr id (encrypt cr nonce1 user_message)) (\<lambda>enc_message.
     try_in (map_sum EncryptionErr id (transpose_map (encrypt cr nonce2) img)) (\<lambda>enc_image.
       Inr \<lparr>nr_id = uuid, nr_device_id = device_id, nr_account_user_id = account,
            nr_client_message_id = client_message_id, nr_enc_user_message = enc_message,
            nr_enc_image_data_url = enc_image, nr_created_at = now, nr_updated_at = now\<rparr>))"

definition insert_new_run ::
  "crypto \<Rightarrow> (repo_error + new_light_tool_run) \<Rightarrow> lt_store
   \<Rightarrow> (repo_error + light_tool_run_record) \<times> lt_store" where
  "insert_new_run cr nr s =
     (case nr of
        Inl e \<Rightarrow> (Inl e, s)
      | Inr n \<Rightarrow>
          (case insert_run n s of
             (Inl e, s') \<Rightarrow> (Inl e, s')
           | (Inr r, s') \<Rightarrow> (map_sum EncryptionErr id (decrypt_run cr r), s')))"

definition find_run_by_client_id :: "i32 \<Rightarrow> string \<Rightarrow> lt_store \<Rightarrow> light_tool_run option" where
  "find_run_by_client_id device_id client_message_id s =
     sql_first (\<lambda>r. run_device_id r = device_id \<and> run_client_message_id r = client_message_id) (lt_runs s)"

definition find_active_device :: "i32 \<Rightarrow> lt_store \<Rightarrow> light_tool_device option" where
  "find_active_device device_id s =
     sql_first (\<lambda>d. dev_id d = device_id \<and> dev_revoked_at d = None) (lt_devices s)"

definition create_anonymous_trial_run_with_image ::
  "crypto \<Rightarrow> string \<Rightarrow> string \<Rightarrow> string \<Rightarrow> i32 \<Rightarrow> string \<Rightarrow> string \<Rightarrow> string option \<Rightarrow> i32 \<Rightarrow> i32
   \<Rightarrow> lt_store \<Rightarrow> (repo_error + trial_run_creation) \<times> lt_store" where
  "create_anonymous_trial_run_with_image cr nonce1 nonce2 uuid device_id client_message_id
       user_message img now message_limit =
     transaction (\<lambda>s.
       case find_active_device device_id s of
         None \<Rightarrow> (Inr TrialUnavailable, s)
       | Some device \<Rightarrow>
           if dev_user_id device \<noteq> None then (Inr TrialUnavailable, s)
           else
             (case find_run_by_client_id device_id client_message_id s of
                Some existing \<Rightarrow>
                  if run_account_user_id existing \<noteq> None then (Inr TrialIdempotencyConflict, s)
                  else
                    (case decrypt_run cr existing of
                       Inl e \<Rightarrow> (Inl (EncryptionErr e), s)
                     | Inr rec \<Rightarrow>
                         if rr_user_message rec \<noteq> user_message \<or> rr_image_data_url rec \<noteq> img
                         then (Inr TrialIdempotencyConflict, s)
                         else (Inr (TrialExisting rec (remaining_messages device message_limit)), s))
              | None \<Rightarrow>
                  (case claim_anonymous_trial_message device_id now message_limit s of
                     (None, s') \<Rightarrow> (Inr TrialUnavailable, s')
                   | (Some claimed_device, s') \<Rightarrow>
                       (case insert_new_run cr
                               (new_run cr nonce1 nonce2 uuid device_id None client_message_id
                                  user_message img now) s' of
                          (Inl e, s'') \<Rightarrow> (Inl e, s'')
                        | (Inr rec, s'') \<Rightarrow>
                            (Inr (TrialCreated rec (remaining_messages claimed_device message_limit)),
                             s'')))))"

definition create_anonymous_trial_run ::
  "crypto \<Rightarrow> string \<Rightarrow> string \<Rightarrow> string \<Rightarrow> i32 \<Rightarrow> string \<Rightarrow> string \<Rightarrow> i32 \<Rightarrow> i32
   \<Rightarrow> lt_store \<Rightarrow> (repo_error + trial_run_creation) \<times> lt_store" where
  "create_anonymous_trial_run cr nonce1 nonce2 uuid device_id client_message_id user_message now
       message_limit =
     create_anonymous_trial_run_with_image cr nonce1 nonce2 uuid device_id client_message_id
       user_message None now message_limit"

definition create_account_run_with_image ::
  "crypto \<Rightarrow> string \<Rightarrow> string \<Rightarrow> string \<Rightarrow> i32 \<Rightarrow> i32 \<Rightarrow> string \<Rightarrow> string \<Rightarrow> string option \<Rightarrow> i32
   \<Rightarrow> lt_store \<Rightarrow> (repo_error + account_run_creation) \<times> lt_store" where
  "create_account_run_with_image cr nonce1 nonce2 uuid device_id account_user_id client_message_id
       user_message img now =
     transaction (\<lambda>s.
       case find_active_device device_id s of
         None \<Rightarrow> (Inr AccountUnavailable, s)
       | Some device \<Rightarrow>
           if dev_user_id device \<noteq> Some account_user_id then (Inr AccountUnavailable, s)
           else
             (case find_run_by_client_id device_id client_message_id s of
                Some existing \<Rightarrow>
                  if run_account_user_id existing \<noteq> Some account_user_id
                  then (Inr AccountIdempotencyConflict, s)
                  else
                    (case decrypt_run cr existing of
                       Inl e \<Rightarrow> (Inl (EncryptionErr e), s)
                     | Inr rec \<Rightarrow>
                         if rr_user_message rec \<noteq> user_message \<or> rr_image_data_url rec \<noteq> img
                         then (Inr AccountIdempotencyConflict, s)
                         else (Inr (AccountExisting rec), s))
              | None \<Rightarrow>
                  (case insert_new_run cr
                          (new_run cr nonce1 nonce2 uuid device_id (Some account_user_id)
                             client_message_id user_message img now) s of
                     (Inl e, s') \<Rightarrow> (Inl e, s')
                   | (Inr rec, s') \<Rightarrow> (Inr (AccountCreated rec), s'))))"

definition create_account_run ::
  "crypto \<Rightarrow> string \<Rightarrow> string \<Rightarrow> string \<Rightarrow> i32 \<Rightarrow> i32 \<Rightarrow> string \<Rightarrow> string \<Rightarrow> i32
   \<Rightarrow> lt_store \<Rightarrow> (repo_error + account_run_creation) \<times> lt_store" where
  "create_account_run cr nonce1 nonce2 uuid device_id account_user_id client_message_id user_message now =
     create_account_run_with_image cr nonce1 nonce2 uuid device_id account_user_id client_message_id
       user_message None now"

section \<open>Reading runs\<close>

definition find_by_id_for_device ::
  "crypto \<Rightarrow> string \<Rightarrow> i32 \<Rightarrow> lt_store \<Rightarrow> repo_error + light_tool_run_record option" where
  "find_by_id_for_device cr rid device_id s =
     map_sum EncryptionErr id
       (transpose_map (decrypt_run cr)
          (sql_first (\<lambda>r. run_id r = rid \<and> run_device_id r = device_id) (lt_runs s)))"

definition find_recent_completed_for_principal ::
  "(string \<Rightarrow> 'k::linorder) \<Rightarrow> crypto \<Rightarrow> i32 \<Rightarrow> i32 option \<Rightarrow> i32 \<Rightarrow> nat \<Rightarrow> lt_store
   \<Rightarrow> repo_error + light_tool_run_record list" where
  "find_recent_completed_for_principal coll cr device_id account before_created_at limit s =
     map_sum EncryptionErr id (collect_results (map (decrypt_run cr)
       (rev (take limit
         (order_desc (\<lambda>r. (run_created_at r, null_key (run_completed_at r), coll (run_id r)))
           (sql_select
              (\<lambda>r. run_device_id r = device_id \<and> run_status r = Completed
                 \<and> run_created_at r \<le> before_created_at
                 \<and> run_enc_assistant_message r \<noteq> None \<and> run_account_user_id r = account)
              (lt_runs s)))))))"

definition find_recent_for_principal ::
  "(string \<Rightarrow> 'k::linorder) \<Rightarrow> crypto \<Rightarrow> i32 \<Rightarrow> i32 option \<Rightarrow> nat \<Rightarrow> lt_store
   \<Rightarrow> repo_error + light_tool_run_record list" where
  "find_recent_for_principal coll cr device_id account limit s =
     map_sum EncryptionErr id (collect_results (map (decrypt_run cr)
       (rev (take limit
         (order_desc (\<lambda>r. (run_created_at r, run_updated_at r, coll (run_id r)))
           (sql_select (\<lambda>r. run_device_id r = device_id \<and> run_account_user_id r = account)
              (lt_runs s)))))))"

section \<open>The life cycle\<close>

text \<open>\<^verbatim>\<open>diesel::update(...).set(...).get_result().optional()?\<close>, then \<^verbatim>\<open>decrypt_run\<close>.\<close>

definition update_run_get ::
  "crypto \<Rightarrow> (light_tool_run \<Rightarrow> bool) \<Rightarrow> (light_tool_run \<Rightarrow> light_tool_run) \<Rightarrow> lt_store
   \<Rightarrow> (repo_error + light_tool_run_record option) \<times> lt_store" where
  "update_run_get cr p f s =
     (map_sum EncryptionErr id (transpose_map (decrypt_run cr) (sql_update_get p f (lt_runs s))),
      s\<lparr>lt_runs := sql_update p f (lt_runs s)\<rparr>)"

definition claim_run_row :: "string \<Rightarrow> i32 \<Rightarrow> light_tool_run \<Rightarrow> light_tool_run" where
  "claim_run_row enc now r =
     r\<lparr>run_status := Running, run_enc_activity_text := Some enc, run_updated_at := now\<rparr>"

definition activity_row :: "string \<Rightarrow> i32 \<Rightarrow> light_tool_run \<Rightarrow> light_tool_run" where
  "activity_row enc now r = r\<lparr>run_enc_activity_text := Some enc, run_updated_at := now\<rparr>"

definition complete_row :: "string \<Rightarrow> i32 \<Rightarrow> light_tool_run \<Rightarrow> light_tool_run" where
  "complete_row enc now r =
     r\<lparr>run_status := Completed, run_enc_activity_text := None, run_enc_image_data_url := None,
       run_enc_assistant_message := Some enc, run_enc_error_message := None,
       run_updated_at := now, run_completed_at := Some now\<rparr>"

definition fail_row :: "string \<Rightarrow> i32 \<Rightarrow> light_tool_run \<Rightarrow> light_tool_run" where
  "fail_row enc now r =
     r\<lparr>run_status := Failed, run_enc_activity_text := None, run_enc_image_data_url := None,
       run_enc_assistant_message := None, run_enc_error_message := Some enc,
       run_updated_at := now, run_completed_at := Some now\<rparr>"

definition claim_queued_run ::
  "crypto \<Rightarrow> string \<Rightarrow> string \<Rightarrow> string \<Rightarrow> i32 \<Rightarrow> lt_store
   \<Rightarrow> (repo_error + light_tool_run_record option) \<times> lt_store" where
  "claim_queued_run cr nonce rid activity_text now s =
     (case encrypt cr nonce activity_text of
        Inl e \<Rightarrow> (Inl (EncryptionErr e), s)
      | Inr enc \<Rightarrow>
          update_run_get cr (\<lambda>r. run_id r = rid \<and> run_status r = Queued) (claim_run_row enc now) s)"

definition update_running_activity ::
  "crypto \<Rightarrow> string \<Rightarrow> string \<Rightarrow> string \<Rightarrow> i32 \<Rightarrow> lt_store
   \<Rightarrow> (repo_error + light_tool_run_record option) \<times> lt_store" where
  "update_running_activity cr nonce rid activity_text now s =
     (case encrypt cr nonce activity_text of
        Inl e \<Rightarrow> (Inl (EncryptionErr e), s)
      | Inr enc \<Rightarrow>
          update_run_get cr (\<lambda>r. run_id r = rid \<and> run_status r = Running) (activity_row enc now) s)"

definition complete_running_run ::
  "crypto \<Rightarrow> string \<Rightarrow> string \<Rightarrow> string \<Rightarrow> i32 \<Rightarrow> lt_store
   \<Rightarrow> (repo_error + light_tool_run_record option) \<times> lt_store" where
  "complete_running_run cr nonce rid assistant_message now s =
     (case encrypt cr nonce assistant_message of
        Inl e \<Rightarrow> (Inl (EncryptionErr e), s)
      | Inr enc \<Rightarrow>
          update_run_get cr (\<lambda>r. run_id r = rid \<and> run_status r = Running) (complete_row enc now) s)"

definition fail_running_run ::
  "crypto \<Rightarrow> string \<Rightarrow> string \<Rightarrow> string \<Rightarrow> i32 \<Rightarrow> lt_store
   \<Rightarrow> (repo_error + light_tool_run_record option) \<times> lt_store" where
  "fail_running_run cr nonce rid error_message now s =
     (case encrypt cr nonce error_message of
        Inl e \<Rightarrow> (Inl (EncryptionErr e), s)
      | Inr enc \<Rightarrow>
          update_run_get cr (\<lambda>r. run_id r = rid \<and> run_status r = Running) (fail_row enc now) s)"

definition fail_stale_running_runs ::
  "crypto \<Rightarrow> string \<Rightarrow> i32 \<Rightarrow> string \<Rightarrow> i32 \<Rightarrow> lt_store
   \<Rightarrow> (repo_error + (string \<times> i32) list) \<times> lt_store" where
  "fail_stale_running_runs cr nonce stale_before error_message now s =
     (case encrypt cr nonce error_message of
        Inl e \<Rightarrow> (Inl (EncryptionErr e), s)
      | Inr enc \<Rightarrow>
          let p = (\<lambda>r. run_status r = Running \<and> run_updated_at r \<le> stale_before);
              f = fail_row enc now
          in (Inr (map (\<lambda>r. (run_id r, run_device_id r)) (sql_updated p f (lt_runs s))),
              s\<lparr>lt_runs := sql_update p f (lt_runs s)\<rparr>))"

definition find_queued_run_ids ::
  "(string \<Rightarrow> 'k::linorder) \<Rightarrow> nat \<Rightarrow> lt_store \<Rightarrow> (string \<times> i32) list" where
  "find_queued_run_ids coll limit s =
     map (\<lambda>r. (run_id r, run_device_id r))
       (take limit (order_asc (\<lambda>r. (run_created_at r, coll (run_id r)))
          (sql_select (\<lambda>r. run_status r = Queued) (lt_runs s))))"

section \<open>A queued run is claimed once\<close>

definition run_claim_of ::
  "crypto \<Rightarrow> string \<Rightarrow> string \<times> string \<times> i32 \<Rightarrow> lt_store \<Rightarrow> bool \<times> lt_store" where
  "run_claim_of cr rid a s =
     (case claim_queued_run cr (fst a) rid (fst (snd a)) (snd (snd a)) s of
        (r, s') \<Rightarrow> ((case r of Inr (Some _) \<Rightarrow> True | _ \<Rightarrow> False), s'))"

definition run_available :: "string \<Rightarrow> lt_store \<Rightarrow> bool" where
  "run_available rid s \<longleftrightarrow> list_ex (\<lambda>r. run_id r = rid \<and> run_status r = Queued) (lt_runs s)"

lemma claim_empties_queue:
  "\<not> list_ex (\<lambda>r. run_id r = rid \<and> run_status r = Queued)
      (sql_update (\<lambda>r. run_id r = rid \<and> run_status r = Queued) (claim_run_row enc now) t)"
proof -
  have "\<not> (run_id x = rid \<and> run_status x = Queued)"
    if "x \<in> set (sql_update (\<lambda>r. run_id r = rid \<and> run_status r = Queued) (claim_run_row enc now) t)" for x
    using that by (cases rule: in_sql_updateE) (auto simp: claim_run_row_def)
  then show ?thesis by (simp add: list_ex_iff)
qed

interpretation run_claim: one_shot "run_claim_of cr rid" "run_available rid" "\<lambda>s. True" for cr rid
proof
  fix s a
  show "run_available rid s \<and> \<not> run_available rid (snd (run_claim_of cr rid a s))"
    if "fst (run_claim_of cr rid a s)"
    using that claim_empties_queue
    by (auto simp: run_claim_of_def claim_queued_run_def update_run_get_def run_available_def
        transpose_map_def list_ex_iff dest: sql_update_get_Some split: sum.splits option.splits)
  show "run_available rid s" if "run_available rid (snd (run_claim_of cr rid a s))"
    using that claim_empties_queue
    by (auto simp: run_claim_of_def claim_queued_run_def update_run_get_def run_available_def
        split: sum.splits)
qed simp

end
