(* ===== verification/LT_Pairing.thy ===== *)
theory LT_Pairing
  imports LT_Runs
begin

text \<open>
  Pairing a device with an account by a QR code: the sessions table
  (\<^verbatim>\<open>repositories/light_tool_pairing_repository.rs\<close>) and the service over it
  (\<^verbatim>\<open>services/light_tool_pairing.rs\<close>). \<open>consume\<close> and \<open>disconnect_device\<close> lock the device row first,
  so each transaction is one step. \<open>sha\<close> is the hex SHA-256 digest, \<open>parse_url\<close> is \<^verbatim>\<open>Url::parse\<close>
  with the accessors the code reads.
\<close>

record url =
  url_scheme :: string
  url_host :: "string option"
  url_path :: string
  url_fragment :: "string option"
  url_query_pairs :: "(string \<times> string) list"
  url_username :: string
  url_password :: "string option"

datatype pairing_consumption =
    Linked i32 bool                              \<comment> \<open>\<^verbatim>\<open>user_id\<close>, \<^verbatim>\<open>newly_linked\<close>\<close>
  | PairingInvalidOrExpired
  | PairingDeviceUnavailable
  | PairingDeviceAlreadyLinked

section \<open>The sessions table\<close>

definition upsert_for_user ::
  "new_light_tool_pairing_session \<Rightarrow> lt_store \<Rightarrow> (db_error + light_tool_pairing_session) \<times> lt_store" where
  "upsert_for_user np s =
     (let session = \<lparr>ps_user_id = np_user_id np, ps_token_hash = np_token_hash np,
                     ps_expires_at = np_expires_at np, ps_consumed_at = None,
                     ps_consumed_by_device_id = None, ps_created_at = np_created_at np\<rparr>
      in if np_user_id np \<notin> set (lt_user_ids s) then (Inl ForeignKeyViolation, s)
         else if \<exists>q \<in> set (lt_sessions s). ps_token_hash q = np_token_hash np \<and> ps_user_id q \<noteq> np_user_id np
         then (Inl UniqueViolation, s)
         else if \<exists>q \<in> set (lt_sessions s). ps_user_id q = np_user_id np
         then (Inr session,
               s\<lparr>lt_sessions := sql_update (\<lambda>q. ps_user_id q = np_user_id np) (\<lambda>_. session) (lt_sessions s)\<rparr>)
         else (Inr session, s\<lparr>lt_sessions := lt_sessions s @ [session]\<rparr>))"

definition find_for_user :: "i32 \<Rightarrow> lt_store \<Rightarrow> light_tool_pairing_session option" where
  "find_for_user user_id s = sql_first (\<lambda>q. ps_user_id q = user_id) (lt_sessions s)"

definition has_active_device_for_user :: "i32 \<Rightarrow> lt_store \<Rightarrow> bool" where
  "has_active_device_for_user user_id s =
     (sql_first (\<lambda>d. dev_user_id d = Some user_id \<and> dev_revoked_at d = None) (lt_devices s) \<noteq> None)"

definition link_device_row :: "i32 \<Rightarrow> i32 \<Rightarrow> light_tool_device \<Rightarrow> light_tool_device" where
  "link_device_row user_id now d = d\<lparr>dev_user_id := Some user_id, dev_updated_at := now\<rparr>"

definition consume_session_row ::
  "i32 \<Rightarrow> i32 \<Rightarrow> light_tool_pairing_session \<Rightarrow> light_tool_pairing_session" where
  "consume_session_row device_id now q =
     q\<lparr>ps_consumed_at := Some now, ps_consumed_by_device_id := Some device_id\<rparr>"

definition consume :: "string \<Rightarrow> i32 \<Rightarrow> i32 \<Rightarrow> lt_store \<Rightarrow> pairing_consumption \<times> lt_store" where
  "consume token_hash device_id now s =
     (case find_active_device device_id s of
        None \<Rightarrow> (PairingDeviceUnavailable, s)
      | Some device \<Rightarrow>
          (case sql_first (\<lambda>q. ps_token_hash q = token_hash) (lt_sessions s) of
             None \<Rightarrow> (PairingInvalidOrExpired, s)
           | Some session \<Rightarrow>
               if ps_expires_at session \<le> now then (PairingInvalidOrExpired, s)
               else if ps_consumed_at session \<noteq> None
               then
                 (if ps_consumed_by_device_id session = Some device_id
                     \<and> dev_user_id device = Some (ps_user_id session)
                  then (Linked (ps_user_id session) False, s)
                  else (PairingInvalidOrExpired, s))
               else if dev_user_id device \<noteq> None then (PairingDeviceAlreadyLinked, s)
               else
                 (Linked (ps_user_id session) True,
                  s\<lparr>lt_devices := sql_update (\<lambda>d. dev_id d = device_id)
                                    (link_device_row (ps_user_id session) now) (lt_devices s),
                    lt_sessions := sql_update (\<lambda>q. ps_user_id q = ps_user_id session)
                                    (consume_session_row device_id now) (lt_sessions s)\<rparr>)))"

definition disconnect_device :: "i32 \<Rightarrow> i32 \<Rightarrow> lt_store \<Rightarrow> bool \<times> lt_store" where
  "disconnect_device device_id now s =
     (case find_active_device device_id s of
        None \<Rightarrow> (False, s)
      | Some device \<Rightarrow>
          (True,
           s\<lparr>lt_sessions :=
               (case dev_user_id device of
                  Some user_id \<Rightarrow>
                    sql_delete (\<lambda>q. ps_user_id q = user_id \<and> ps_consumed_by_device_id q = Some device_id)
                      (lt_sessions s)
                | None \<Rightarrow> lt_sessions s),
             lt_devices := sql_update (\<lambda>d. dev_id d = device_id)
                             (\<lambda>d. d\<lparr>dev_user_id := None, dev_updated_at := now\<rparr>) (lt_devices s)\<rparr>))"

section \<open>The pairing service\<close>

definition PAIRING_TTL_SECONDS :: i32 where "PAIRING_TTL_SECONDS = 300"
definition PAIRING_SCHEME :: string where "PAIRING_SCHEME = ''lightfriend''"
definition PAIRING_HOST :: string where "PAIRING_HOST = ''pair''"
definition PAIRING_TOKEN_PREFIX :: string where "PAIRING_TOKEN_PREFIX = ''lfp_''"
definition PAIRING_TOKEN_RANDOM_BYTES :: nat where "PAIRING_TOKEN_RANDOM_BYTES = 32"

record pairing_offer =
  offer_pairing_uri :: string
  offer_expires_at :: i32

datatype pairing_status = PairingNone | PairingPending | PairingConnected | PairingExpired

text \<open>The service itself only makes the first and the last of these errors.\<close>

datatype pairing_error =
    InvalidOrExpired | OfferDeviceUnavailable | OfferDeviceAlreadyLinked | PairingRepository db_error

definition generate_pairing_token :: "string \<Rightarrow> string" where
  "generate_pairing_token random_hex = PAIRING_TOKEN_PREFIX @ random_hex"

definition has_valid_pairing_token :: "string \<Rightarrow> bool" where
  "has_valid_pairing_token token =
     (case strip_prefix PAIRING_TOKEN_PREFIX token of
        None \<Rightarrow> False
      | Some random_hex \<Rightarrow>
          length random_hex = PAIRING_TOKEN_RANDOM_BYTES * 2 \<and> list_all is_lower_hex random_hex)"

definition pairing_token_from_uri :: "(string \<Rightarrow> url option) \<Rightarrow> string \<Rightarrow> pairing_error + string" where
  "pairing_token_from_uri parse_url pairing_uri =
     (case parse_url pairing_uri of
        None \<Rightarrow> Inl InvalidOrExpired
      | Some parsed \<Rightarrow>
          if url_scheme parsed \<noteq> PAIRING_SCHEME \<or> url_host parsed \<noteq> Some PAIRING_HOST
             \<or> url_path parsed \<noteq> '''' \<or> url_fragment parsed \<noteq> None
          then Inl InvalidOrExpired
          else
            (case url_query_pairs parsed of
               [(k, v)] \<Rightarrow>
                 if k \<noteq> ''token'' \<or> \<not> has_valid_pairing_token v then Inl InvalidOrExpired else Inr v
             | _ \<Rightarrow> Inl InvalidOrExpired))"

definition create_offer ::
  "(string \<Rightarrow> string) \<Rightarrow> string \<Rightarrow> i32 \<Rightarrow> i32 \<Rightarrow> lt_store \<Rightarrow> (pairing_error + pairing_offer) \<times> lt_store" where
  "create_offer sha random_hex user_id now s =
     (let raw_token = generate_pairing_token random_hex;
          expires_at = wrap_i32 (now + PAIRING_TTL_SECONDS)
      in (case upsert_for_user
                 \<lparr>np_user_id = user_id, np_token_hash = sha raw_token, np_expires_at = expires_at,
                  np_created_at = now\<rparr> s of
            (Inl e, s') \<Rightarrow> (Inl (PairingRepository e), s')
          | (Inr _, s') \<Rightarrow>
              (Inr \<lparr>offer_pairing_uri =
                      PAIRING_SCHEME @ ''://'' @ PAIRING_HOST @ ''?token='' @ raw_token,
                    offer_expires_at = expires_at\<rparr>, s')))"

definition consume_uri ::
  "(string \<Rightarrow> url option) \<Rightarrow> (string \<Rightarrow> string) \<Rightarrow> string \<Rightarrow> i32 \<Rightarrow> i32 \<Rightarrow> lt_store
   \<Rightarrow> (pairing_error + pairing_consumption) \<times> lt_store" where
  "consume_uri parse_url sha pairing_uri device_id now s =
     (case pairing_token_from_uri parse_url pairing_uri of
        Inl e \<Rightarrow> (Inl e, s)
      | Inr token \<Rightarrow> (case consume (sha token) device_id now s of (r, s') \<Rightarrow> (Inr r, s')))"

definition status_for_user :: "i32 \<Rightarrow> i32 \<Rightarrow> lt_store \<Rightarrow> pairing_status" where
  "status_for_user user_id now s =
     (case find_for_user user_id s of
        Some session \<Rightarrow>
          if ps_consumed_at session \<noteq> None then PairingConnected
          else if now < ps_expires_at session then PairingPending
          else if has_active_device_for_user user_id s then PairingConnected
          else PairingExpired
      | None \<Rightarrow> if has_active_device_for_user user_id s then PairingConnected else PairingNone)"

section \<open>A pairing token is consumed once\<close>

definition pairing_claim_of :: "string \<Rightarrow> i32 \<times> i32 \<Rightarrow> lt_store \<Rightarrow> bool \<times> lt_store" where
  "pairing_claim_of token_hash a s =
     (case consume token_hash (fst a) (snd a) s of
        (r, s') \<Rightarrow> ((case r of Linked _ newly_linked \<Rightarrow> newly_linked | _ \<Rightarrow> False), s'))"

definition pairing_available :: "string \<Rightarrow> lt_store \<Rightarrow> bool" where
  "pairing_available token_hash s \<longleftrightarrow>
     list_ex (\<lambda>q. ps_token_hash q = token_hash \<and> ps_consumed_at q = None) (lt_sessions s)"

lemma consume_cases:
  obtains (unchanged) "snd (consume token_hash dev now s) = s" "\<And>u. fst (consume token_hash dev now s) \<noteq> Linked u True"
  | (linked) d q where "d \<in> set (lt_devices s)" "dev_id d = dev" "dev_revoked_at d = None" "dev_user_id d = None"
      "q \<in> set (lt_sessions s)" "ps_token_hash q = token_hash" "now < ps_expires_at q" "ps_consumed_at q = None"
      "fst (consume token_hash dev now s) = Linked (ps_user_id q) True"
      "snd (consume token_hash dev now s) =
         s\<lparr>lt_devices := sql_update (\<lambda>d. dev_id d = dev) (link_device_row (ps_user_id q) now) (lt_devices s),
           lt_sessions := sql_update (\<lambda>q'. ps_user_id q' = ps_user_id q) (consume_session_row dev now) (lt_sessions s)\<rparr>"
proof (cases "find_active_device dev s")
  case None
  then show thesis by (intro unchanged) (simp_all add: consume_def)
next
  case (Some d)
  note d = this
  show thesis
  proof (cases "sql_first (\<lambda>q. ps_token_hash q = token_hash) (lt_sessions s)")
    case None
    with d show thesis by (intro unchanged) (simp_all add: consume_def)
  next
    case (Some q)
    show thesis
    proof (cases "now < ps_expires_at q \<and> ps_consumed_at q = None \<and> dev_user_id d = None")
      case True
      with d Some show thesis
        by (intro linked [of d q])
          (auto simp: consume_def find_active_device_def dest: sql_first_Some)
    next
      case False
      with d Some show thesis by (intro unchanged) (auto simp: consume_def)
    qed
  qed
qed

lemma consume_session_row_keys [row_simps]:
  "ps_user_id (consume_session_row dev now q) = ps_user_id q"
  "ps_token_hash (consume_session_row dev now q) = ps_token_hash q"
  "ps_consumed_at (consume_session_row dev now q) = Some now"
  by (simp_all add: consume_session_row_def)

interpretation pairing_claim: one_shot "pairing_claim_of token_hash" "pairing_available token_hash"
  "\<lambda>s. distinct (map ps_token_hash (lt_sessions s))" for token_hash
proof
  fix s :: lt_store and a :: "i32 \<times> i32"
  assume s: "distinct (map ps_token_hash (lt_sessions s))"
  obtain dev now where a: "a = (dev, now)" by fastforce
  have claim: "snd (pairing_claim_of token_hash a s) = snd (consume token_hash dev now s)"
    "fst (pairing_claim_of token_hash a s) \<longleftrightarrow> (\<exists>u. fst (consume token_hash dev now s) = Linked u True)"
    by (auto simp: pairing_claim_of_def a split: prod.splits pairing_consumption.splits)
  show "distinct (map ps_token_hash (lt_sessions (snd (pairing_claim_of token_hash a s))))"
    unfolding claim
    by (rule consume_cases [of token_hash dev now s]) (simp_all add: s map_sql_update row_simps)
  show "pairing_available token_hash s" if "pairing_available token_hash (snd (pairing_claim_of token_hash a s))"
    using that unfolding claim
    by (cases rule: consume_cases [of token_hash dev now s]) (auto simp: pairing_available_def list_ex_iff)
  show "pairing_available token_hash s \<and> \<not> pairing_available token_hash (snd (pairing_claim_of token_hash a s))"
    if "fst (pairing_claim_of token_hash a s)"
    using that unfolding claim
  proof (cases rule: consume_cases [of token_hash dev now s])
    case (linked d q)
    have "ps_user_id x = ps_user_id q" if "x \<in> set (lt_sessions s)" "ps_token_hash x = token_hash" for x
      using that s linked(5,6) by (auto dest: distinct_map_eqD)
    then have "\<not> pairing_available token_hash (snd (consume token_hash dev now s))"
      by (auto simp: pairing_available_def list_ex_iff linked(10) row_simps elim!: in_sql_updateE)
    with linked(5,6,8) show "pairing_available token_hash s \<and> \<not> pairing_available token_hash (snd (consume token_hash dev now s))"
      by (auto simp: pairing_available_def list_ex_iff)
  qed auto
qed

end
