(* ===== verification/LT_Execution.thy ===== *)
theory LT_Execution
  imports LT_Runs
begin

text \<open>
  Executing a run: the text limits and the execution service
  (\<^verbatim>\<open>services/light_tool_run_execution.rs\<close>), the dispatcher that drives one run through the responder
  (\<^verbatim>\<open>services/light_tool_run_dispatcher.rs\<close>).

  The responder, an async trait object, is external: what it does is a list of \<open>responder_event\<close>s,
  the branches that \<^verbatim>\<open>tokio::select!\<close> sees in turn, each with the clock and nonce of its database
  call. \<open>Interleaved\<close> is a write of another task between two of them; \<open>clock\<close> gives the time and
  nonce of the calls the dispatcher makes outside the loop.
\<close>

section \<open>The execution service\<close>

definition MAX_RUN_ACTIVITY_CHARACTERS :: nat where "MAX_RUN_ACTIVITY_CHARACTERS = 80"
definition MAX_RUN_ERROR_CHARACTERS :: nat where "MAX_RUN_ERROR_CHARACTERS = 120"
definition MAX_RUN_ASSISTANT_CHARACTERS :: nat where "MAX_RUN_ASSISTANT_CHARACTERS = 32000"

datatype execution_error = BlankText string | TextTooLong string nat | ExecRepository repo_error

definition normalize_text :: "string \<Rightarrow> string \<Rightarrow> nat \<Rightarrow> execution_error + string" where
  "normalize_text value field max_characters =
     (let value = trim value
      in if value = [] then Inl (BlankText field)
         else if max_characters < char_count value then Inl (TextTooLong field max_characters)
         else Inr value)"

text \<open>The four operations of the service: normalise the text, then run the repository operation.\<close>

definition with_normalized ::
  "(execution_error + string)
   \<Rightarrow> (string \<Rightarrow> lt_store \<Rightarrow> (repo_error + light_tool_run_record option) \<times> lt_store)
   \<Rightarrow> lt_store \<Rightarrow> (execution_error + light_tool_run_record option) \<times> lt_store" where
  "with_normalized text run s =
     (case text of
        Inl e \<Rightarrow> (Inl e, s)
      | Inr t \<Rightarrow> (case run t s of (r, s') \<Rightarrow> (map_sum ExecRepository id r, s')))"

definition exec_claim ::
  "crypto \<Rightarrow> string \<Rightarrow> string \<Rightarrow> string \<Rightarrow> i32 \<Rightarrow> lt_store
   \<Rightarrow> (execution_error + light_tool_run_record option) \<times> lt_store" where
  "exec_claim cr nonce rid activity_text now =
     with_normalized (normalize_text activity_text ''activity_text'' MAX_RUN_ACTIVITY_CHARACTERS)
       (\<lambda>t. claim_queued_run cr nonce rid t now)"

definition exec_update_activity ::
  "crypto \<Rightarrow> string \<Rightarrow> string \<Rightarrow> string \<Rightarrow> i32 \<Rightarrow> lt_store
   \<Rightarrow> (execution_error + light_tool_run_record option) \<times> lt_store" where
  "exec_update_activity cr nonce rid activity_text now =
     with_normalized (normalize_text activity_text ''activity_text'' MAX_RUN_ACTIVITY_CHARACTERS)
       (\<lambda>t. update_running_activity cr nonce rid t now)"

definition exec_complete ::
  "crypto \<Rightarrow> string \<Rightarrow> string \<Rightarrow> string \<Rightarrow> i32 \<Rightarrow> lt_store
   \<Rightarrow> (execution_error + light_tool_run_record option) \<times> lt_store" where
  "exec_complete cr nonce rid assistant_message now =
     with_normalized
       (normalize_text assistant_message ''assistant_message'' MAX_RUN_ASSISTANT_CHARACTERS)
       (\<lambda>t. complete_running_run cr nonce rid t now)"

definition exec_fail ::
  "crypto \<Rightarrow> string \<Rightarrow> string \<Rightarrow> string \<Rightarrow> i32 \<Rightarrow> lt_store
   \<Rightarrow> (execution_error + light_tool_run_record option) \<times> lt_store" where
  "exec_fail cr nonce rid error_message now =
     with_normalized (normalize_text error_message ''error_message'' MAX_RUN_ERROR_CHARACTERS)
       (\<lambda>t. fail_running_run cr nonce rid t now)"

section \<open>The dispatcher\<close>

definition INITIAL_ACTIVITY :: string where "INITIAL_ACTIVITY = ''THINKING...''"
definition GENERIC_FAILURE :: string where "GENERIC_FAILURE = ''REQUEST FAILED''"
definition HISTORY_TURN_LIMIT :: nat where "HISTORY_TURN_LIMIT = 4"

record conversation_turn =
  turn_user_message :: string
  turn_assistant_message :: string

datatype run_principal = AnonymousPrincipal i32 | AccountPrincipal i32 i32

datatype dispatch_outcome = DispatchCompleted | DispatchFailed | NotClaimed | Superseded

datatype responder_event =
    Activity string i32 string                    \<comment> \<open>label, time, nonce\<close>
  | ActivityClosed                                \<comment> \<open>\<^verbatim>\<open>activity_rx.recv()\<close> returned \<^verbatim>\<open>None\<close>\<close>
  | Interleaved "lt_store \<Rightarrow> lt_store"            \<comment> \<open>another task's write\<close>
  | Respond "string + string"                     \<comment> \<open>the reply, or the responder's error\<close>

datatype loop_result =
    LoopPending                                   \<comment> \<open>the responder has not answered yet\<close>
  | LoopReturn "execution_error + dispatch_outcome"
  | LoopBreak "string + string"

text \<open>The \<^verbatim>\<open>loop\<close> around \<^verbatim>\<open>tokio::select!\<close>.\<close>

fun dispatch_loop ::
  "crypto \<Rightarrow> string \<Rightarrow> bool \<Rightarrow> responder_event list \<Rightarrow> lt_store \<Rightarrow> loop_result \<times> lt_store" where
  "dispatch_loop cr rid closed [] s = (LoopPending, s)"
| "dispatch_loop cr rid closed (Respond r # es) s = (LoopBreak r, s)"
| "dispatch_loop cr rid closed (Interleaved g # es) s = dispatch_loop cr rid closed es (g s)"
| "dispatch_loop cr rid closed (ActivityClosed # es) s = dispatch_loop cr rid True es s"
| "dispatch_loop cr rid closed (Activity label now nonce # es) s =
     (if closed then dispatch_loop cr rid closed es s
      else
        (case exec_update_activity cr nonce rid label now s of
           (Inr (Some _), s') \<Rightarrow> dispatch_loop cr rid closed es s'
         | (Inr None, s') \<Rightarrow> (LoopReturn (Inr Superseded), s')
         | (Inl (ExecRepository e), s') \<Rightarrow> (LoopReturn (Inl (ExecRepository e)), s')
         | (Inl _, s') \<Rightarrow> dispatch_loop cr rid closed es s'))"

definition fail_run ::
  "crypto \<Rightarrow> string \<Rightarrow> string \<Rightarrow> i32 \<Rightarrow> lt_store \<Rightarrow> (execution_error + dispatch_outcome) \<times> lt_store" where
  "fail_run cr nonce rid now s =
     (case exec_fail cr nonce rid GENERIC_FAILURE now s of
        (Inl e, s') \<Rightarrow> (Inl e, s')
      | (Inr (Some _), s') \<Rightarrow> (Inr DispatchFailed, s')
      | (Inr None, s') \<Rightarrow> (Inr Superseded, s'))"

text \<open>The \<^verbatim>\<open>match response\<close> that ends the function.\<close>

definition finish_dispatch ::
  "crypto \<Rightarrow> (nat \<Rightarrow> i32 \<times> string) \<Rightarrow> string \<Rightarrow> string + string \<Rightarrow> lt_store
   \<Rightarrow> (execution_error + dispatch_outcome) \<times> lt_store" where
  "finish_dispatch cr clock rid response s =
     (case response of
        Inr assistant_message \<Rightarrow>
          (case exec_complete cr (snd (clock 1)) rid assistant_message (fst (clock 1)) s of
             (Inr (Some _), s') \<Rightarrow> (Inr DispatchCompleted, s')
           | (Inr None, s') \<Rightarrow> (Inr Superseded, s')
           | (Inl (ExecRepository e), s') \<Rightarrow> (Inl (ExecRepository e), s')
           | (Inl _, s') \<Rightarrow> fail_run cr (snd (clock 2)) rid (fst (clock 2)) s')
      | Inl _ \<Rightarrow> fail_run cr (snd (clock 2)) rid (fst (clock 2)) s)"

text \<open>What the responder is called with.\<close>

definition run_principal_of :: "light_tool_run_record \<Rightarrow> run_principal" where
  "run_principal_of run =
     (case rr_account_user_id run of
        Some user_id \<Rightarrow> AccountPrincipal (rr_device_id run) user_id
      | None \<Rightarrow> AnonymousPrincipal (rr_device_id run))"

definition history_of :: "light_tool_run_record list \<Rightarrow> conversation_turn list" where
  "history_of prior_runs =
     List.map_filter (\<lambda>run. map_option
         (\<lambda>reply. \<lparr>turn_user_message = rr_user_message run, turn_assistant_message = reply\<rparr>)
         (rr_assistant_message run)) prior_runs"

type_synonym responder =
  "run_principal \<Rightarrow> conversation_turn list \<Rightarrow> string \<Rightarrow> string option \<Rightarrow> responder_event list"

text \<open>\<^verbatim>\<open>None\<close> as the result: the responder has not answered, so the call has not returned.\<close>

definition dispatch_light_tool_run ::
  "(string \<Rightarrow> 'k::linorder) \<Rightarrow> crypto \<Rightarrow> (nat \<Rightarrow> i32 \<times> string) \<Rightarrow> string \<Rightarrow> responder \<Rightarrow> lt_store
   \<Rightarrow> (execution_error + dispatch_outcome) option \<times> lt_store" where
  "dispatch_light_tool_run coll cr clock rid responder s =
     (case exec_claim cr (snd (clock 0)) rid INITIAL_ACTIVITY (fst (clock 0)) s of
        (Inl e, s1) \<Rightarrow> (Some (Inl e), s1)
      | (Inr None, s1) \<Rightarrow> (Some (Inr NotClaimed), s1)
      | (Inr (Some run), s1) \<Rightarrow>
          (case find_recent_completed_for_principal coll cr (rr_device_id run)
                  (rr_account_user_id run) (rr_created_at run) HISTORY_TURN_LIMIT s1 of
             Inl _ \<Rightarrow> (case fail_run cr (snd (clock 2)) rid (fst (clock 2)) s1 of (r, s2) \<Rightarrow> (Some r, s2))
           | Inr prior_runs \<Rightarrow>
               (case dispatch_loop cr rid False
                       (responder (run_principal_of run) (history_of prior_runs)
                          (rr_user_message run) (rr_image_data_url run)) s1 of
                  (LoopPending, s2) \<Rightarrow> (None, s2)
                | (LoopReturn r, s2) \<Rightarrow> (Some r, s2)
                | (LoopBreak response, s2) \<Rightarrow>
                    (case finish_dispatch cr clock rid response s2 of (r, s3) \<Rightarrow> (Some r, s3)))))"

end
