(* ===== verification/LT_Push.thy ===== *)
theory LT_Push
  imports LT_Pairing LT_Execution
begin

text \<open>
  Push notifications to Light Tool devices: the endpoint registrations
  (\<^verbatim>\<open>repositories/light_tool_push_repository.rs\<close>), the outbox of pending notifications
  (\<^verbatim>\<open>repositories/light_tool_push_outbox_repository.rs\<close>), delivery to an endpoint
  (\<^verbatim>\<open>services/light_tool_push_delivery.rs\<close>), the outbox worker
  (\<^verbatim>\<open>services/light_tool_push_outbox.rs\<close>) and the supervisor of runs, which feeds the outbox
  (\<^verbatim>\<open>services/light_tool_run_supervisor.rs\<close>).

  Parameters: \<open>parse_url\<close> as in \<open>LT_Pairing\<close>; \<open>post\<close> is the HTTP POST of the payload, the status code
  or a transport error; \<open>debug\<close> is \<^verbatim>\<open>cfg!(debug_assertions)\<close>; \<open>locked\<close> says which outbox rows other
  transactions hold locked (\<^verbatim>\<open>SKIP LOCKED\<close>).
\<close>

section \<open>Endpoint registrations\<close>

record push_registration_record =
  prr_device_id :: i32
  prr_endpoint :: string
  prr_endpoint_hash :: string
  prr_registered_at :: i32
  prr_updated_at :: i32

definition decrypt_registration ::
  "crypto \<Rightarrow> light_tool_push_registration \<Rightarrow> encryption_error + push_registration_record" where
  "decrypt_registration cr q =
     try_in (decrypt cr (pr_enc_endpoint q)) (\<lambda>endpoint.
       Inr \<lparr>prr_device_id = pr_device_id q, prr_endpoint = endpoint,
            prr_endpoint_hash = pr_endpoint_hash q, prr_registered_at = pr_registered_at q,
            prr_updated_at = pr_updated_at q\<rparr>)"

definition registration_upsert ::
  "crypto \<Rightarrow> (string \<Rightarrow> string) \<Rightarrow> string \<Rightarrow> i32 \<Rightarrow> string \<Rightarrow> i32 \<Rightarrow> lt_store
   \<Rightarrow> (repo_error + push_registration_record) \<times> lt_store" where
  "registration_upsert cr sha nonce device_id endpoint now s =
     (case encrypt cr nonce endpoint of
        Inl e \<Rightarrow> (Inl (EncryptionErr e), s)
      | Inr enc \<Rightarrow>
          let row = \<lparr>pr_device_id = device_id, pr_enc_endpoint = enc, pr_endpoint_hash = sha endpoint,
                     pr_registered_at = now, pr_updated_at = now\<rparr>
          in if device_id \<notin> dev_id ` set (lt_devices s) then (Inl (Database ForeignKeyViolation), s)
             else
               (map_sum EncryptionErr id (decrypt_registration cr row),
                s\<lparr>lt_registrations :=
                   (if \<exists>q \<in> set (lt_registrations s). pr_device_id q = device_id
                    then sql_update (\<lambda>q. pr_device_id q = device_id) (\<lambda>_. row) (lt_registrations s)
                    else lt_registrations s @ [row])\<rparr>))"

definition registration_find_for_device ::
  "crypto \<Rightarrow> i32 \<Rightarrow> lt_store \<Rightarrow> repo_error + push_registration_record option" where
  "registration_find_for_device cr device_id s =
     map_sum EncryptionErr id
       (transpose_map (decrypt_registration cr)
          (sql_first (\<lambda>q. pr_device_id q = device_id) (lt_registrations s)))"

definition registration_delete_for_device :: "i32 \<Rightarrow> lt_store \<Rightarrow> bool \<times> lt_store" where
  "registration_delete_for_device device_id s =
     (0 < sql_count (\<lambda>q. pr_device_id q = device_id) (lt_registrations s),
      s\<lparr>lt_registrations := sql_delete (\<lambda>q. pr_device_id q = device_id) (lt_registrations s)\<rparr>)"

definition registration_delete_if_endpoint_hash :: "i32 \<Rightarrow> string \<Rightarrow> lt_store \<Rightarrow> bool \<times> lt_store" where
  "registration_delete_if_endpoint_hash device_id expected_hash s =
     (let p = (\<lambda>q. pr_device_id q = device_id \<and> pr_endpoint_hash q = expected_hash)
      in (0 < sql_count p (lt_registrations s),
          s\<lparr>lt_registrations := sql_delete p (lt_registrations s)\<rparr>))"

section \<open>The outbox\<close>

definition CONVERSATION_CHANGED_EVENT :: string where
  "CONVERSATION_CHANGED_EVENT = ''conversation_changed''"

definition bump_version_row :: "i32 \<Rightarrow> light_tool_push_outbox_event \<Rightarrow> light_tool_push_outbox_event" where
  "bump_version_row now e =
     e\<lparr>ev_event_type := CONVERSATION_CHANGED_EVENT, ev_version := ev_version e + 1, ev_updated_at := now\<rparr>"

definition enqueue_conversation_changed ::
  "i32 \<Rightarrow> i32 \<Rightarrow> lt_store \<Rightarrow> (db_error + light_tool_push_outbox_event) \<times> lt_store" where
  "enqueue_conversation_changed device_id now s =
     (case sql_update_get (\<lambda>e. ev_device_id e = device_id) (bump_version_row now) (lt_outbox s) of
        Some e \<Rightarrow>
          (Inr e,
           s\<lparr>lt_outbox := sql_update (\<lambda>e. ev_device_id e = device_id) (bump_version_row now) (lt_outbox s)\<rparr>)
      | None \<Rightarrow>
          let e = \<lparr>ev_device_id = device_id, ev_event_type = CONVERSATION_CHANGED_EVENT, ev_version = 1,
                   ev_attempt_count = 0, ev_next_attempt_at = now, ev_lease_until = 0,
                   ev_created_at = now, ev_updated_at = now\<rparr>
          in if device_id \<notin> dev_id ` set (lt_devices s) then (Inl ForeignKeyViolation, s)
             else (Inr e, s\<lparr>lt_outbox := lt_outbox s @ [e]\<rparr>))"

definition claim_due ::
  "(i32 \<Rightarrow> bool) \<Rightarrow> i32 \<Rightarrow> i32 \<Rightarrow> nat \<Rightarrow> lt_store \<Rightarrow> light_tool_push_outbox_event list \<times> lt_store" where
  "claim_due locked now lease_until limit s =
     (let due = order_asc (\<lambda>e. (ev_next_attempt_at e, ev_device_id e))
                  (sql_select (\<lambda>e. ev_next_attempt_at e \<le> now \<and> ev_lease_until e \<le> now
                                 \<and> \<not> locked (ev_device_id e)) (lt_outbox s));
          device_ids = map ev_device_id (take limit due);
          p = (\<lambda>e. ev_device_id e \<in> set device_ids);
          f = (\<lambda>e. e\<lparr>ev_lease_until := lease_until\<rparr>)
      in if device_ids = [] then ([], s)
         else (sql_updated p f (lt_outbox s), s\<lparr>lt_outbox := sql_update p f (lt_outbox s)\<rparr>))"

definition outbox_complete :: "i32 \<Rightarrow> i64 \<Rightarrow> lt_store \<Rightarrow> bool \<times> lt_store" where
  "outbox_complete device_id expected_version s =
     (let p = (\<lambda>e. ev_device_id e = device_id \<and> ev_version e = expected_version)
      in (0 < sql_count p (lt_outbox s), s\<lparr>lt_outbox := sql_delete p (lt_outbox s)\<rparr>))"

definition retry_row :: "i32 \<Rightarrow> i32 \<Rightarrow> light_tool_push_outbox_event \<Rightarrow> light_tool_push_outbox_event" where
  "retry_row next_attempt_at now e =
     e\<lparr>ev_attempt_count := ev_attempt_count e + 1, ev_next_attempt_at := next_attempt_at,
       ev_lease_until := 0, ev_updated_at := now\<rparr>"

definition schedule_retry :: "i32 \<Rightarrow> i64 \<Rightarrow> i32 \<Rightarrow> i32 \<Rightarrow> lt_store \<Rightarrow> bool \<times> lt_store" where
  "schedule_retry device_id expected_version next_attempt_at now s =
     (let p = (\<lambda>e. ev_device_id e = device_id \<and> ev_version e = expected_version)
      in (0 < sql_count p (lt_outbox s),
          s\<lparr>lt_outbox := sql_update p (retry_row next_attempt_at now) (lt_outbox s)\<rparr>))"

definition outbox_find_for_device :: "i32 \<Rightarrow> lt_store \<Rightarrow> light_tool_push_outbox_event option" where
  "outbox_find_for_device device_id s = sql_first (\<lambda>e. ev_device_id e = device_id) (lt_outbox s)"

section \<open>Delivery\<close>

datatype delivery_outcome = NoEndpoint | Delivered | EndpointExpired

datatype delivery_error =
    DeliveryRepository repo_error | InvalidEndpoint | HostNotAllowed | RequestError | HttpStatus nat

definition trim_end_dots :: "string \<Rightarrow> string" where
  "trim_end_dots s = rev (dropWhile (\<lambda>c. c = CHR ''.'') (rev s))"

definition canonical_host :: "string \<Rightarrow> string" where
  "canonical_host host = to_ascii_lowercase (trim_end_dots (trim host))"

definition validate_destination ::
  "bool \<Rightarrow> (string \<Rightarrow> url option) \<Rightarrow> string set \<Rightarrow> string \<Rightarrow> delivery_error + unit" where
  "validate_destination debug parse_url allowed_hosts endpoint =
     (case parse_url endpoint of
        None \<Rightarrow> Inl InvalidEndpoint
      | Some url \<Rightarrow>
          (case map_option canonical_host (url_host url) of
             None \<Rightarrow> Inl InvalidEndpoint
           | Some host \<Rightarrow>
               if host \<notin> allowed_hosts then Inl HostNotAllowed
               else
                 let valid_scheme =
                       (url_scheme url = ''https''
                        \<or> debug \<and> url_scheme url = ''http''
                          \<and> host \<in> {''localhost'', ''127.0.0.1'', ''::1''})
                 in if \<not> valid_scheme \<or> url_username url \<noteq> '''' \<or> url_password url \<noteq> None
                       \<or> url_fragment url \<noteq> None
                    then Inl InvalidEndpoint
                    else Inr ()))"

definition send_conversation_changed ::
  "crypto \<Rightarrow> bool \<Rightarrow> (string \<Rightarrow> url option) \<Rightarrow> string set \<Rightarrow> (string \<Rightarrow> nat option) \<Rightarrow> i32 \<Rightarrow> lt_store
   \<Rightarrow> (delivery_error + delivery_outcome) \<times> lt_store" where
  "send_conversation_changed cr debug parse_url allowed_hosts post device_id s =
     (case registration_find_for_device cr device_id s of
        Inl e \<Rightarrow> (Inl (DeliveryRepository e), s)
      | Inr None \<Rightarrow> (Inr NoEndpoint, s)
      | Inr (Some registration) \<Rightarrow>
          (case validate_destination debug parse_url allowed_hosts (prr_endpoint registration) of
             Inl e \<Rightarrow> (Inl e, s)
           | Inr _ \<Rightarrow>
               (case post (prr_endpoint registration) of
                  None \<Rightarrow> (Inl RequestError, s)
                | Some status \<Rightarrow>
                    if 200 \<le> status \<and> status < 300 then (Inr Delivered, s)
                    else if status = 404 \<or> status = 410
                    then (Inr EndpointExpired,
                          snd (registration_delete_if_endpoint_hash device_id
                                 (prr_endpoint_hash registration) s))
                    else (Inl (HttpStatus status), s))))"

section \<open>The outbox worker\<close>

definition CLAIM_BATCH_SIZE :: nat where "CLAIM_BATCH_SIZE = 50"
definition LEASE_SECONDS :: i32 where "LEASE_SECONDS = 120"
definition RETRY_DELAYS_SECONDS :: "i32 list" where "RETRY_DELAYS_SECONDS = [5, 15, 60, 300, 900]"

text \<open>
  \<^verbatim>\<open>usize::try_from\<close> fails on a negative count, which then counts as \<^verbatim>\<open>usize::MAX\<close> and is cut to the
  last index; \<^verbatim>\<open>base / 5\<close> divides non-negative numbers.
\<close>

definition retry_delay_seconds :: "i32 \<Rightarrow> i64 \<Rightarrow> i32 \<Rightarrow> i32" where
  "retry_delay_seconds device_id event_version attempt_count =
     (let last_index = length RETRY_DELAYS_SECONDS - 1;
          index = (if attempt_count < 0 then last_index else min (nat attempt_count) last_index);
          base = RETRY_DELAYS_SECONDS ! index;
          jitter_range = max 1 (base sdiv 5);
          seed = wrap_i64 (wrap_i64 (wrap_i64 (device_id * 31) + event_version) + attempt_count)
      in sat_i32 (base + \<bar>seed\<bar> mod jitter_range))"

text \<open>The body of \<^verbatim>\<open>for_each_concurrent\<close> in \<^verbatim>\<open>process_due_once\<close>: \<open>deliver\<close> is the call of the delivery service.\<close>

definition process_event ::
  "(i32 \<Rightarrow> lt_store \<Rightarrow> (delivery_error + delivery_outcome) \<times> lt_store) \<Rightarrow> i32
   \<Rightarrow> light_tool_push_outbox_event \<Rightarrow> lt_store \<Rightarrow> lt_store" where
  "process_event deliver now event s =
     (if ev_event_type event \<noteq> CONVERSATION_CHANGED_EVENT
      then snd (outbox_complete (ev_device_id event) (ev_version event) s)
      else
        (case deliver (ev_device_id event) s of
           (Inr _, s') \<Rightarrow> snd (outbox_complete (ev_device_id event) (ev_version event) s')
         | (Inl _, s') \<Rightarrow>
             let delay_seconds =
                   retry_delay_seconds (ev_device_id event) (ev_version event) (ev_attempt_count event)
             in snd (schedule_retry (ev_device_id event) (ev_version event)
                       (sat_i32 (now + delay_seconds)) now s')))"

definition process_due_once ::
  "(i32 \<Rightarrow> lt_store \<Rightarrow> (delivery_error + delivery_outcome) \<times> lt_store) \<Rightarrow> (i32 \<Rightarrow> bool) \<Rightarrow> i32
   \<Rightarrow> lt_store \<Rightarrow> nat \<times> lt_store" where
  "process_due_once deliver locked now s =
     (case claim_due locked now (sat_i32 (now + LEASE_SECONDS)) CLAIM_BATCH_SIZE s of
        (events, s') \<Rightarrow> (length events, fold (process_event deliver now) events s'))"

section \<open>The supervisor of runs\<close>

definition STALE_RUNNING_AFTER_SECONDS :: i32 where "STALE_RUNNING_AFTER_SECONDS = 900"
definition QUEUED_BATCH_SIZE :: nat where "QUEUED_BATCH_SIZE = 100"
definition INTERRUPTED_ERROR :: string where "INTERRUPTED_ERROR = ''REQUEST INTERRUPTED''"

definition enqueue_push :: "i32 \<Rightarrow> i32 \<Rightarrow> lt_store \<Rightarrow> lt_store" where
  "enqueue_push now device_id s = snd (enqueue_conversation_changed device_id now s)"

text \<open>
  The synchronous part of one supervision: it returns the queued runs it spawns a task for. The
  interrupted devices form a \<^verbatim>\<open>HashSet\<close>; \<^term>\<open>remdups\<close> is one order of it. \<open>push_now\<close> is the clock
  that \<^verbatim>\<open>enqueue_push\<close> reads.
\<close>

definition supervise_once ::
  "(string \<Rightarrow> 'k::linorder) \<Rightarrow> crypto \<Rightarrow> string \<Rightarrow> i32 \<Rightarrow> i32 \<Rightarrow> lt_store
   \<Rightarrow> (repo_error + (string \<times> i32) list) \<times> lt_store" where
  "supervise_once coll cr nonce now push_now s =
     (case fail_stale_running_runs cr nonce (wrap_i32 (now - STALE_RUNNING_AFTER_SECONDS))
             INTERRUPTED_ERROR now s of
        (Inl e, s') \<Rightarrow> (Inl e, s')
      | (Inr interrupted, s') \<Rightarrow>
          (Inr (find_queued_run_ids coll QUEUED_BATCH_SIZE s'),
           fold (enqueue_push push_now) (remdups (map snd interrupted)) s'))"

text \<open>A spawned task: dispatch the run, then notify the device if the run has ended.\<close>

definition recovered_task ::
  "(string \<Rightarrow> 'k::linorder) \<Rightarrow> crypto \<Rightarrow> (nat \<Rightarrow> i32 \<times> string) \<Rightarrow> i32 \<Rightarrow> string \<times> i32 \<Rightarrow> responder
   \<Rightarrow> lt_store \<Rightarrow> lt_store" where
  "recovered_task coll cr clock push_now task responder s =
     (case dispatch_light_tool_run coll cr clock (fst task) responder s of
        (Some (Inr outcome), s') \<Rightarrow>
          (if outcome = DispatchCompleted \<or> outcome = DispatchFailed
           then enqueue_push push_now (snd task) s' else s')
      | (_, s') \<Rightarrow> s')"

end
