(* ===== verification/LT_Lifecycle.thy ===== *)
theory LT_Lifecycle
  imports LT_Runs LT_Pairing LT_Push Contracts
begin

text \<open>
  What the operations of the Light Tool repositories can do to the tables. \<open>run_step\<close> is the state
  machine of one run, \<open>store_change\<close> the ways in which a store can change; every operation is shown
  to be one of these changes (\<open>change_intros\<close>), so an invariant is proved once over
  \<open>store_change\<close> and holds for every operation and every interleaving.
\<close>

section \<open>The state machine of a run\<close>

inductive run_step :: "light_tool_run \<Rightarrow> light_tool_run \<Rightarrow> bool" where
  step_claim: "run_status r = Queued \<Longrightarrow> run_step r (claim_run_row enc now r)"
| step_activity: "run_status r = Running \<Longrightarrow> run_step r (activity_row enc now r)"
| step_complete: "run_status r = Running \<Longrightarrow> run_step r (complete_row enc now r)"
| step_fail: "run_status r = Running \<Longrightarrow> run_step r (fail_row enc now r)"

inductive_cases run_stepE: "run_step r r'"

text \<open>The columns a run keeps for its whole life.\<close>

definition run_key :: "light_tool_run \<Rightarrow> string \<times> i32 \<times> i32 option \<times> string \<times> string \<times> i32" where
  "run_key r = (run_id r, run_device_id r, run_account_user_id r, run_client_message_id r,
                run_enc_user_message r, run_created_at r)"

text \<open>What the status says of the nullable columns.\<close>

definition row_ok :: "light_tool_run \<Rightarrow> bool" where
  "row_ok r =
     (case run_status r of
        Queued \<Rightarrow> run_enc_activity_text r = None \<and> run_enc_assistant_message r = None
                  \<and> run_enc_error_message r = None \<and> run_completed_at r = None
      | Running \<Rightarrow> run_enc_activity_text r \<noteq> None \<and> run_enc_assistant_message r = None
                  \<and> run_enc_error_message r = None \<and> run_completed_at r = None
      | Completed \<Rightarrow> run_enc_assistant_message r \<noteq> None \<and> run_completed_at r \<noteq> None
                  \<and> run_enc_activity_text r = None \<and> run_enc_image_data_url r = None
                  \<and> run_enc_error_message r = None
      | Failed \<Rightarrow> run_enc_error_message r \<noteq> None \<and> run_completed_at r \<noteq> None
                  \<and> run_enc_activity_text r = None \<and> run_enc_image_data_url r = None
                  \<and> run_enc_assistant_message r = None)"

lemmas run_row_defs = claim_run_row_def activity_row_def complete_row_def fail_row_def

lemma run_step_key: "run_step r r' \<Longrightarrow> run_key r' = run_key r"
  by (auto simp: run_key_def run_row_defs elim: run_stepE)

lemma run_step_ok: "run_step r r' \<Longrightarrow> row_ok r \<Longrightarrow> row_ok r'"
  by (auto simp: row_ok_def run_row_defs elim: run_stepE)

lemma run_step_status: "run_step r r' \<Longrightarrow> run_status r \<le> run_status r'"
  by (auto simp: less_eq_run_status_def run_row_defs elim: run_stepE)

lemma run_step_not_terminal: "run_step r r' \<Longrightarrow> run_status r \<noteq> Completed \<and> run_status r \<noteq> Failed"
  by (auto elim: run_stepE)

text \<open>One row is a later form of another.\<close>

definition run_later :: "light_tool_run \<Rightarrow> light_tool_run \<Rightarrow> bool" where
  "run_later r r' \<longleftrightarrow> run_key r' = run_key r \<and> run_status r \<le> run_status r'
     \<and> (run_status r = Completed \<or> run_status r = Failed \<longrightarrow> r' = r)
     \<and> (run_status r' = run_status r \<and> run_status r = Queued \<longrightarrow> r' = r)"

lemma run_later_refl [simp]: "run_later r r"
  by (simp add: run_later_def)

lemma run_later_trans:
  assumes "run_later r r'" "run_later r' r''"
  shows "run_later r r''"
proof -
  from assms have le: "run_status r \<le> run_status r'" "run_status r' \<le> run_status r''"
    by (simp_all add: run_later_def)
  have "r'' = r" if "run_status r'' = run_status r" "run_status r = Queued"
  proof -
    from that le have "run_status r' = Queued" by (metis order_antisym)
    with that assms show ?thesis unfolding run_later_def by metis
  qed
  moreover have "r'' = r" if "run_status r = Completed \<or> run_status r = Failed"
    using that assms unfolding run_later_def by metis
  moreover have "run_key r'' = run_key r" using assms by (simp add: run_later_def)
  ultimately show ?thesis using order.trans [OF le] unfolding run_later_def by blast
qed

lemma run_step_leaves_queue: "run_step r r' \<Longrightarrow> run_status r' \<noteq> Queued"
  by (auto simp: run_row_defs elim: run_stepE)

lemma run_step_later:
  assumes "run_step r r'"
  shows "run_later r r'"
  using run_step_key [OF assms] run_step_status [OF assms] run_step_not_terminal [OF assms]
    run_step_leaves_queue [OF assms]
  by (auto simp: run_later_def)

section \<open>The changes of a store\<close>

text \<open>A queued run as \<open>insert_run\<close> writes it, for keys that are not in the table.\<close>

definition fresh_run :: "lt_store \<Rightarrow> light_tool_run \<Rightarrow> bool" where
  "fresh_run s r \<longleftrightarrow> run_status r = Queued \<and> row_ok r \<and>
     (\<forall>q \<in> set (lt_runs s). run_id q \<noteq> run_id r \<and>
        (run_device_id q, run_client_message_id q) \<noteq> (run_device_id r, run_client_message_id r))"

definition device_touch :: "(light_tool_device \<Rightarrow> light_tool_device) \<Rightarrow> bool" where
  "device_touch f \<longleftrightarrow>
     (\<forall>d. dev_id (f d) = dev_id d \<and> dev_installation_id_hash (f d) = dev_installation_id_hash d
        \<and> dev_token_hash (f d) = dev_token_hash d \<and> dev_user_id (f d) = dev_user_id d
        \<and> dev_trial_expires_at (f d) = dev_trial_expires_at d
        \<and> dev_trial_messages_used (f d) = dev_trial_messages_used d
        \<and> dev_revoked_at (f d) = dev_revoked_at d)"

inductive store_change :: "lt_store \<Rightarrow> lt_store \<Rightarrow> bool" where
  change_none: "store_change s s"
| change_device_new:
    "devices_create nd s = (Inr d, s') \<Longrightarrow> store_change s s'"
| change_device_touch:
    "device_touch f \<Longrightarrow> store_change s (s\<lparr>lt_devices := sql_update p f (lt_devices s)\<rparr>)"
| change_trial_claim:
    "store_change s (snd (claim_anonymous_trial_message dev now TRIAL_MESSAGE_LIMIT s))"
| change_trial_run:
    "claim_anonymous_trial_message (run_device_id r) now TRIAL_MESSAGE_LIMIT s = (Some d, s') \<Longrightarrow>
     fresh_run s r \<Longrightarrow> run_account_user_id r = None \<Longrightarrow>
     store_change s (s'\<lparr>lt_runs := lt_runs s' @ [r]\<rparr>)"
| change_account_run:
    "fresh_run s r \<Longrightarrow> d \<in> set (lt_devices s) \<Longrightarrow> dev_id d = run_device_id r \<Longrightarrow>
     run_account_user_id r \<noteq> None \<Longrightarrow> run_account_user_id r = dev_user_id d \<Longrightarrow>
     store_change s (s\<lparr>lt_runs := lt_runs s @ [r]\<rparr>)"
| change_run:
    "(\<And>r. r \<in> set (lt_runs s) \<Longrightarrow> p r \<Longrightarrow> run_step r (f r)) \<Longrightarrow>
     store_change s (s\<lparr>lt_runs := sql_update p f (lt_runs s)\<rparr>)"
| change_offer: "upsert_for_user np s = (Inr q, s') \<Longrightarrow> store_change s s'"
| change_link: "store_change s (snd (consume token_hash dev now s))"
| change_unlink: "store_change s (snd (disconnect_device dev now s))"
| change_registrations:
    "(distinct (map pr_device_id (lt_registrations s)) \<Longrightarrow> distinct (map pr_device_id regs)) \<Longrightarrow>
     pr_device_id ` set regs \<subseteq> pr_device_id ` set (lt_registrations s) \<union> dev_id ` set (lt_devices s) \<Longrightarrow>
     store_change s (s\<lparr>lt_registrations := regs\<rparr>)"
| change_outbox_insert:
    "ev_device_id e \<notin> ev_device_id ` set (lt_outbox s) \<Longrightarrow> ev_device_id e \<in> dev_id ` set (lt_devices s) \<Longrightarrow>
     ev_version e = 1 \<Longrightarrow> store_change s (s\<lparr>lt_outbox := lt_outbox s @ [e]\<rparr>)"
| change_outbox_update:
    "(\<And>e. ev_device_id (f e) = ev_device_id e \<and> ev_version e \<le> ev_version (f e)) \<Longrightarrow>
     store_change s (s\<lparr>lt_outbox := sql_update p f (lt_outbox s)\<rparr>)"
| change_outbox_delete:
    "store_change s (s\<lparr>lt_outbox := sql_delete p (lt_outbox s)\<rparr>)"

lemmas change_simps = sql_defs repo_defs

section \<open>Every operation is a change\<close>

lemma bootstrap_change: "store_change s (snd (bootstrap canonical sha rnd inst tok now s))"
proof -
  have touch: "store_change u (snd (update_last_seen_if_active dev now u))" for u dev
    unfolding update_last_seen_if_active_def Let_def snd_conv
    by (rule change_device_touch) (simp add: device_touch_def)
  have existing: "store_change s (snd (bootstrap_existing sha h t now s))" for h t
    using touch [of s]
    by (auto simp: bootstrap_existing_def change_none split: sum.splits option.splits prod.splits)
       (metis snd_conv)+
  have new: "store_change s (snd (bootstrap_new sha rnd h now s))" for h
    by (auto simp: bootstrap_new_def generate_device_token_def Let_def change_none
        split: sum.splits prod.splits intro: change_device_new)
       (auto simp: devices_create_def Let_def change_none split: if_splits)
  show ?thesis
    using existing new
    by (auto simp: bootstrap_def change_none split: sum.splits option.splits prod.splits)
       (metis snd_conv)+
qed

lemma touch_change: "store_change s (snd (update_last_seen_if_active dev now s))"
  unfolding update_last_seen_if_active_def Let_def snd_conv
  by (rule change_device_touch) (simp add: device_touch_def)

lemma authenticate_change:
  "store_change s (snd (authenticate_device to_str sha lookup_ok touch_ok header now s))"
  using touch_change [of s]
  by (auto simp: authenticate_device_def change_none split: sum.splits option.splits prod.splits)
     (metis snd_conv)+

lemma claim_message_change: "store_change s (snd (claim_message dev now s))"
  using change_trial_claim [of s dev now]
  by (auto simp: claim_message_def split: option.splits prod.splits)

subsection \<open>Creating runs\<close>

lemma insert_run_Inr:
  assumes "insert_run nr s = (Inr r, s')"
  shows "s' = s\<lparr>lt_runs := lt_runs s @ [r]\<rparr>" "fresh_run s r"
    "run_device_id r = nr_device_id nr" "run_account_user_id r = nr_account_user_id nr"
  using assms by (auto simp: insert_run_def fresh_run_def row_ok_def Let_def split: if_splits)

lemma insert_new_run_Inr:
  assumes "insert_new_run cr (new_run cr n1 n2 uuid dev account cid msg img now) s = (Inr rec, s')"
  obtains r where "s' = s\<lparr>lt_runs := lt_runs s @ [r]\<rparr>" "fresh_run s r" "run_device_id r = dev"
    "run_account_user_id r = account" "decrypt_run cr r = Inr rec"
proof -
  from assms obtain n r where n: "new_run cr n1 n2 uuid dev account cid msg img now = Inr n"
    and r: "insert_run n s = (Inr r, s')" "map_sum EncryptionErr id (decrypt_run cr r) = Inr rec"
    by (auto simp: insert_new_run_def split: sum.splits prod.splits)
  from n have "nr_device_id n = dev" "nr_account_user_id n = account"
    by (auto simp: new_run_def try_in_Inr)
  with insert_run_Inr [OF r(1)] r(2) show ?thesis by (auto simp: map_sum_Inr intro!: that)
qed

lemma fresh_run_other_devices:
  "lt_runs s' = lt_runs s \<Longrightarrow> fresh_run s' r = fresh_run s r"
  by (simp add: fresh_run_def)

lemma claim_keeps_runs: "lt_runs (snd (claim_anonymous_trial_message dev now lim s)) = lt_runs s"
  by (simp add: claim_anonymous_trial_message_def Let_def)

lemma create_trial_run_change:
  "store_change s (snd (create_anonymous_trial_run_with_image cr n1 n2 uuid dev cid msg img now
                          TRIAL_MESSAGE_LIMIT s))"
  (is "store_change s (snd (?op s))")
proof (cases "snd (?op s) = s")
  case True
  then show ?thesis by (simp add: change_none)
next
  case False
  then obtain d claimed rec s1 where
      claim: "claim_anonymous_trial_message dev now TRIAL_MESSAGE_LIMIT s = (Some claimed, s1)"
    and ins: "insert_new_run cr (new_run cr n1 n2 uuid dev None cid msg img now) s1
                = (Inr rec, snd (?op s))"
    by (auto simp: create_anonymous_trial_run_with_image_def transaction_def
          claim_anonymous_trial_message_def sql_update_get_None sql_update_none Let_def
        split: option.splits prod.splits sum.splits if_splits)
  from ins obtain r where "snd (?op s) = s1\<lparr>lt_runs := lt_runs s1 @ [r]\<rparr>" "fresh_run s1 r"
    "run_device_id r = dev" "run_account_user_id r = None"
    by (rule insert_new_run_Inr)
  moreover have "lt_runs s1 = lt_runs s" using claim_keeps_runs [of dev now _ s] claim
    by (metis snd_conv)
  ultimately show ?thesis
    using change_trial_run [of r now s claimed s1] claim fresh_run_other_devices [of s1 s r]
    by simp
qed

lemma create_account_run_change:
  "store_change s (snd (create_account_run_with_image cr n1 n2 uuid dev account cid msg img now s))"
  (is "store_change s (snd (?op s))")
proof (cases "snd (?op s) = s")
  case True
  then show ?thesis by (simp add: change_none)
next
  case False
  then obtain d rec where d: "find_active_device dev s = Some d" "dev_user_id d = Some account"
    and ins: "insert_new_run cr (new_run cr n1 n2 uuid dev (Some account) cid msg img now) s
                = (Inr rec, snd (?op s))"
    by (auto simp: create_account_run_with_image_def transaction_def
        split: option.splits prod.splits sum.splits if_splits)
  from ins obtain r where "snd (?op s) = s\<lparr>lt_runs := lt_runs s @ [r]\<rparr>" "fresh_run s r"
    "run_device_id r = dev" "run_account_user_id r = Some account"
    by (rule insert_new_run_Inr)
  with d show ?thesis
    by (auto simp: find_active_device_def dest!: sql_first_Some intro!: change_account_run)
qed

subsection \<open>The life cycle\<close>

lemma update_run_change:
  assumes "\<And>r. p r \<Longrightarrow> run_step r (f r)"
  shows "store_change s (snd (update_run_get cr p f s))"
  using assms by (auto simp: update_run_get_def intro: change_run)

lemma run_operation_changes:
  "store_change s (snd (claim_queued_run cr nonce rid txt now s))"
  "store_change s (snd (update_running_activity cr nonce rid txt now s))"
  "store_change s (snd (complete_running_run cr nonce rid txt now s))"
  "store_change s (snd (fail_running_run cr nonce rid txt now s))"
  "store_change s (snd (fail_stale_running_runs cr nonce stale txt now s))"
  by (auto simp: claim_queued_run_def update_running_activity_def complete_running_run_def
      fail_running_run_def fail_stale_running_runs_def change_none Let_def split: sum.split
      intro!: update_run_change change_run run_step.intros)

lemma with_normalized_change:
  "(\<And>t. store_change s (snd (run t s))) \<Longrightarrow> store_change s (snd (with_normalized text run s))"
  by (auto simp: with_normalized_def change_none split: sum.split prod.split) (metis snd_conv)

lemma execution_changes:
  "store_change s (snd (exec_claim cr nonce rid txt now s))"
  "store_change s (snd (exec_update_activity cr nonce rid txt now s))"
  "store_change s (snd (exec_complete cr nonce rid txt now s))"
  "store_change s (snd (exec_fail cr nonce rid txt now s))"
  by (simp_all add: exec_claim_def exec_update_activity_def exec_complete_def exec_fail_def
      with_normalized_change run_operation_changes)

subsection \<open>Pairing\<close>

lemma create_offer_change: "store_change s (snd (create_offer sha rnd user now s))"
  by (auto simp: create_offer_def Let_def split: sum.split prod.split intro: change_offer)
     (auto simp: upsert_for_user_def Let_def change_none split: if_splits)

lemma consume_uri_change: "store_change s (snd (consume_uri parse_url sha uri dev now s))"
  using change_link [of s]
  by (auto simp: consume_uri_def change_none split: sum.split prod.split) (metis snd_conv)

subsection \<open>Push notifications\<close>

lemma registration_upsert_change:
  "store_change s (snd (registration_upsert cr sha nonce dev endpoint now s))"
proof -
  have "store_change s (s\<lparr>lt_registrations :=
          (if \<exists>q \<in> set (lt_registrations s). pr_device_id q = dev
           then sql_update (\<lambda>q. pr_device_id q = dev) (\<lambda>_. row) (lt_registrations s)
           else lt_registrations s @ [row])\<rparr>)"
    if "pr_device_id row = dev" "dev \<in> dev_id ` set (lt_devices s)" for row
  proof -
    have "map pr_device_id (sql_update (\<lambda>q. pr_device_id q = dev) (\<lambda>_. row) (lt_registrations s))
            = map pr_device_id (lt_registrations s)"
      by (rule map_sql_update) (simp add: that)
    with that show ?thesis
      by (intro change_registrations) (auto simp: set_sql_update image_iff)
  qed
  then show ?thesis
    by (simp add: registration_upsert_def change_none Let_def split: sum.split)
qed

lemma registration_delete_changes:
  "store_change s (snd (registration_delete_for_device dev s))"
  "store_change s (snd (registration_delete_if_endpoint_hash dev h s))"
  by (auto simp: registration_delete_for_device_def registration_delete_if_endpoint_hash_def Let_def
      intro!: change_registrations distinct_sql_delete)

lemma enqueue_change: "store_change s (snd (enqueue_conversation_changed dev now s))"
proof (cases "sql_update_get (\<lambda>e. ev_device_id e = dev) (bump_version_row now) (lt_outbox s)")
  case None
  then have "dev \<notin> ev_device_id ` set (lt_outbox s)" by (auto simp: sql_update_get_None)
  with None show ?thesis
    by (simp add: enqueue_conversation_changed_def Let_def change_none change_outbox_insert)
next
  case (Some e)
  then show ?thesis
    by (simp add: enqueue_conversation_changed_def change_outbox_update bump_version_row_def)
qed

lemma outbox_changes:
  "store_change s (snd (claim_due locked now lease limit s))"
  "store_change s (snd (outbox_complete dev version s))"
  "store_change s (snd (schedule_retry dev version next now s))"
  by (auto simp: claim_due_def outbox_complete_def schedule_retry_def retry_row_def Let_def change_none
      intro: change_outbox_update change_outbox_delete)

lemma send_change:
  "store_change s (snd (send_conversation_changed cr debug parse_url allowed post dev s))"
  by (auto simp: send_conversation_changed_def change_none registration_delete_changes
      split: sum.split option.split)

end
