(* ===== verification/LT_System.thy ===== *)
theory LT_System
  imports LT_Lifecycle
begin

text \<open>
  The Light Tool subsystem as a transition system. A request handler, the outbox worker and the
  supervisor each call the operations one at a time, and calls of different tasks interleave in any
  order: \<open>lt_step\<close> is one call of any operation with any arguments, \<open>reachable\<close> the stores that a
  sequence of calls leads to from empty tables.
\<close>

section \<open>The invariant\<close>

definition devices_ok :: "lt_store \<Rightarrow> bool" where
  "devices_ok s \<longleftrightarrow>
     distinct (map dev_id (lt_devices s)) \<and> distinct (map dev_installation_id_hash (lt_devices s)) \<and>
     distinct (map dev_token_hash (lt_devices s)) \<and>
     (\<forall>d \<in> set (lt_devices s). dev_id d < lt_next_device_id s)"

definition runs_ok :: "lt_store \<Rightarrow> bool" where
  "runs_ok s \<longleftrightarrow>
     distinct (map run_id (lt_runs s)) \<and>
     distinct (map (\<lambda>r. (run_device_id r, run_client_message_id r)) (lt_runs s)) \<and>
     (\<forall>r \<in> set (lt_runs s). row_ok r \<and> run_device_id r \<in> dev_id ` set (lt_devices s))"

definition anonymous_runs :: "i32 \<Rightarrow> lt_store \<Rightarrow> int" where
  "anonymous_runs dev s =
     int (sql_count (\<lambda>r. run_device_id r = dev \<and> run_account_user_id r = None) (lt_runs s))"

definition quota_ok :: "lt_store \<Rightarrow> bool" where
  "quota_ok s \<longleftrightarrow>
     (\<forall>d \<in> set (lt_devices s). anonymous_runs (dev_id d) s \<le> dev_trial_messages_used d
        \<and> dev_trial_messages_used d \<le> TRIAL_MESSAGE_LIMIT)"

definition session_linked :: "light_tool_device table \<Rightarrow> light_tool_pairing_session \<Rightarrow> bool" where
  "session_linked devices q =
     (case ps_consumed_by_device_id q of
        None \<Rightarrow> ps_consumed_at q = None
      | Some dev \<Rightarrow> ps_consumed_at q \<noteq> None
                    \<and> (\<exists>d \<in> set devices. dev_id d = dev \<and> dev_user_id d = Some (ps_user_id q)))"

definition sessions_ok :: "lt_store \<Rightarrow> bool" where
  "sessions_ok s \<longleftrightarrow>
     distinct (map ps_user_id (lt_sessions s)) \<and> distinct (map ps_token_hash (lt_sessions s)) \<and>
     (\<forall>q \<in> set (lt_sessions s). session_linked (lt_devices s) q)"

definition push_ok :: "lt_store \<Rightarrow> bool" where
  "push_ok s \<longleftrightarrow>
     distinct (map pr_device_id (lt_registrations s)) \<and> distinct (map ev_device_id (lt_outbox s)) \<and>
     (\<forall>e \<in> set (lt_outbox s). 1 \<le> ev_version e)"

definition lt_inv :: "lt_store \<Rightarrow> bool" where
  "lt_inv s \<longleftrightarrow> devices_ok s \<and> runs_ok s \<and> quota_ok s \<and> sessions_ok s \<and> push_ok s"

lemma lt_inv_empty: "lt_inv (empty_lt_store users)"
  by (simp add: lt_inv_def devices_ok_def runs_ok_def quota_ok_def sessions_ok_def push_ok_def
      empty_lt_store_def)

section \<open>What the changes keep\<close>

text \<open>A change of the device table that keeps the identities.\<close>

definition device_ident :: "light_tool_device \<Rightarrow> i32 \<times> string \<times> string" where
  "device_ident d = (dev_id d, dev_installation_id_hash d, dev_token_hash d)"

lemma device_ident_maps:
  assumes "map device_ident t' = map device_ident t"
  shows "map dev_id t' = map dev_id t" "map dev_installation_id_hash t' = map dev_installation_id_hash t"
    "map dev_token_hash t' = map dev_token_hash t" "dev_id ` set t' = dev_id ` set t"
proof -
  have "map (g \<circ> device_ident) t' = map (g \<circ> device_ident) t" for g :: "_ \<Rightarrow> 'b"
    using assms by (simp flip: map_map)
  from this [of fst] this [of "fst \<circ> snd"] this [of "snd \<circ> snd"]
  show "map dev_id t' = map dev_id t" "map dev_installation_id_hash t' = map dev_installation_id_hash t"
    "map dev_token_hash t' = map dev_token_hash t"
    by (simp_all add: device_ident_def comp_def)
  then show "dev_id ` set t' = dev_id ` set t" by (metis set_map)
qed

lemma devices_ok_ident:
  assumes "devices_ok s" "map device_ident (lt_devices s') = map device_ident (lt_devices s)"
    "lt_next_device_id s' = lt_next_device_id s"
  shows "devices_ok s'"
proof -
  note m = device_ident_maps [OF assms(2)]
  have "(\<forall>d \<in> set (lt_devices s'). dev_id d < n) = (\<forall>i \<in> dev_id ` set (lt_devices s'). i < n)" for n
    by simp
  with assms m show ?thesis by (simp add: devices_ok_def)
qed

lemma sql_update_ident:
  "(\<And>d. p d \<Longrightarrow> device_ident (f d) = device_ident d) \<Longrightarrow>
   map device_ident (sql_update p f t) = map device_ident t"
  by (rule map_sql_update)

lemma device_row_idents [row_simps]:
  "device_ident (trial_claim_row now d) = device_ident d"
  "device_ident (link_device_row user now d) = device_ident d"
  "device_ident (d\<lparr>dev_user_id := None, dev_updated_at := now\<rparr>) = device_ident d"
  by (simp_all add: device_ident_def trial_claim_row_def link_device_row_def)

lemma device_touch_ident: "device_touch f \<Longrightarrow> device_ident (f d) = device_ident d"
  by (simp add: device_touch_def device_ident_def)

section \<open>The effects of the transactions\<close>

lemma devices_create_Inr:
  assumes "devices_create nd s = (Inr d, s')"
  shows "s' = s\<lparr>lt_devices := lt_devices s @ [d], lt_next_device_id := lt_next_device_id s + 1\<rparr>"
    "dev_id d = lt_next_device_id s" "dev_user_id d = None" "dev_trial_messages_used d = 0"
    "dev_installation_id_hash d \<notin> dev_installation_id_hash ` set (lt_devices s)"
    "dev_token_hash d \<notin> dev_token_hash ` set (lt_devices s)"
  using assms by (auto simp: devices_create_def Let_def split: if_splits)

lemma disconnect_cases:
  obtains (unchanged) "disconnect_device dev now s = (False, s)"
  | (disconnected) d where "d \<in> set (lt_devices s)" "dev_id d = dev" "dev_revoked_at d = None"
      "disconnect_device dev now s = (True,
         s\<lparr>lt_sessions := (case dev_user_id d of
              Some u \<Rightarrow> sql_delete (\<lambda>q. ps_user_id q = u \<and> ps_consumed_by_device_id q = Some dev) (lt_sessions s)
            | None \<Rightarrow> lt_sessions s),
           lt_devices := sql_update (\<lambda>d. dev_id d = dev)
             (\<lambda>d. d\<lparr>dev_user_id := None, dev_updated_at := now\<rparr>) (lt_devices s)\<rparr>)"
proof (cases "find_active_device dev s")
  case None
  then show thesis by (intro unchanged) (simp add: disconnect_device_def)
next
  case (Some d)
  then show thesis
    by (intro disconnected [of d]) (auto simp: disconnect_device_def find_active_device_def dest: sql_first_Some)
qed

lemma upsert_Inr:
  assumes "upsert_for_user np s = (Inr q, s')"
  obtains (replaced) "s' = s\<lparr>lt_sessions := sql_update (\<lambda>x. ps_user_id x = ps_user_id q) (\<lambda>_. q) (lt_sessions s)\<rparr>"
      "ps_consumed_at q = None" "ps_consumed_by_device_id q = None"
      "\<forall>x \<in> set (lt_sessions s). ps_token_hash x = ps_token_hash q \<longrightarrow> ps_user_id x = ps_user_id q"
  | (added) "s' = s\<lparr>lt_sessions := lt_sessions s @ [q]\<rparr>" "ps_consumed_at q = None" "ps_consumed_by_device_id q = None"
      "ps_user_id q \<notin> ps_user_id ` set (lt_sessions s)" "ps_token_hash q \<notin> ps_token_hash ` set (lt_sessions s)"
  using assms by (force simp: upsert_for_user_def Let_def split: if_splits)

lemma upsert_keeps:
  assumes "upsert_for_user np s = (Inr q, s')"
  shows "lt_devices s' = lt_devices s" "lt_next_device_id s' = lt_next_device_id s" "lt_runs s' = lt_runs s"
    "lt_registrations s' = lt_registrations s" "lt_outbox s' = lt_outbox s"
  using assms by (auto simp: upsert_for_user_def Let_def split: if_splits)

lemma claim_trial_store:
  "snd (claim_anonymous_trial_message dev now lim s) =
     s\<lparr>lt_devices := sql_update (trial_claimable dev now lim) (trial_claim_row now) (lt_devices s)\<rparr>"
  by (simp add: claim_anonymous_trial_message_def Let_def)

lemma claim_trial_granted:
  "fst (claim_anonymous_trial_message dev now lim s) \<noteq> None \<longleftrightarrow>
     (\<exists>d \<in> set (lt_devices s). trial_claimable dev now lim d)"
  by (auto simp: claim_anonymous_trial_message_def Let_def sql_update_get_None)

lemma claim_trial_Some:
  assumes "claim_anonymous_trial_message dev now lim s = (Some d, s')"
  shows "s' = s\<lparr>lt_devices := sql_update (trial_claimable dev now lim) (trial_claim_row now) (lt_devices s)\<rparr>"
    "\<exists>q \<in> set (lt_devices s). trial_claimable dev now lim q \<and> d = trial_claim_row now q"
  using assms
  by (auto simp: claim_anonymous_trial_message_def Let_def dest: sql_update_get_Some)

lemma claim_trial_device:
  assumes "claim_anonymous_trial_message dev now lim s = (Some d, s')"
  shows "dev \<in> dev_id ` set (lt_devices s)"
  using claim_trial_Some(2) [OF assms] unfolding trial_claimable_def by blast

section \<open>Preservation\<close>

lemma devices_change:
  assumes "store_change s s'" "devices_ok s"
  shows "devices_ok s'"
  using assms
proof (cases rule: store_change.cases)
  case (change_device_new nd d)
  note d = devices_create_Inr [OF this]
  have "\<forall>x \<in> set (lt_devices s). dev_id x < lt_next_device_id s" using assms(2) by (simp add: devices_ok_def)
  with d assms(2) show ?thesis
    by (auto simp: devices_ok_def)
next
  case (change_trial_run r now d s1)
  note s1 = claim_trial_Some(1) [OF change_trial_run(2)]
  show ?thesis
    unfolding change_trial_run(1) s1
    by (rule devices_ok_ident [OF assms(2)]) (auto simp: row_simps intro!: sql_update_ident)
next
  case (change_link token_hash dev now)
  with assms(2) show ?thesis
    by (cases rule: consume_cases [of token_hash dev now s])
      (auto intro!: devices_ok_ident [of s] sql_update_ident simp: row_simps)
next
  case (change_unlink dev now)
  with assms(2) show ?thesis
    by (cases rule: disconnect_cases [of dev now s])
      (auto intro!: devices_ok_ident [of s] sql_update_ident simp: row_simps)
next
  case (change_offer np q)
  from upsert_keeps [OF this] assms(2) show ?thesis by (simp add: devices_ok_def)
qed (auto intro!: devices_ok_ident [of s] sql_update_ident
      simp: claim_trial_store row_simps device_touch_ident)

lemma sql_update_ids:
  "(\<And>d. p d \<Longrightarrow> device_ident (f d) = device_ident d) \<Longrightarrow>
   dev_id ` set (sql_update p f t) = dev_id ` set t"
  using device_ident_maps(4) [OF sql_update_ident] .

lemma device_ids_change:
  assumes "store_change s s'"
  shows "dev_id ` set (lt_devices s) \<subseteq> dev_id ` set (lt_devices s')"
  using assms
proof (cases rule: store_change.cases)
  case (change_device_new nd d)
  with devices_create_Inr(1) [OF this] show ?thesis by auto
next
  case (change_trial_run r now d s1)
  note s1 = claim_trial_Some(1) [OF change_trial_run(2)]
  show ?thesis by (simp add: change_trial_run(1) s1 row_simps sql_update_ids)
next
  case (change_link token_hash dev now)
  then show ?thesis
    by (cases rule: consume_cases [of token_hash dev now s]) (simp_all add: sql_update_ids row_simps)
next
  case (change_unlink dev now)
  then show ?thesis
    by (cases rule: disconnect_cases [of dev now s]) (simp_all add: sql_update_ids row_simps)
next
  case (change_offer np q)
  from upsert_keeps [OF this] show ?thesis by simp
qed (simp_all add: claim_trial_store row_simps device_touch_ident sql_update_ids)

lemma runs_change_cases:
  assumes "store_change s s'"
  obtains (same) "lt_runs s' = lt_runs s"
  | (fresh) r where "fresh_run s r" "lt_runs s' = lt_runs s @ [r]"
      "run_device_id r \<in> dev_id ` set (lt_devices s)"
  | (moved) p f where "\<And>r. r \<in> set (lt_runs s) \<Longrightarrow> p r \<Longrightarrow> run_step r (f r)"
      "lt_runs s' = sql_update p f (lt_runs s)"
  using assms
proof (cases rule: store_change.cases)
  case (change_device_new nd d)
  then show thesis using devices_create_Inr(1) [OF change_device_new] by (intro same) simp
next
  case (change_trial_run r now d s1)
  from claim_trial_Some(1) [OF change_trial_run(2)] claim_trial_device [OF change_trial_run(2)]
  have "lt_runs s1 = lt_runs s" "run_device_id r \<in> dev_id ` set (lt_devices s)" by simp_all
  then show thesis using change_trial_run(1,3) by (intro fresh [of r]) simp_all
next
  case (change_account_run r d)
  from change_account_run(3,4) have "run_device_id r \<in> dev_id ` set (lt_devices s)"
    by (metis image_eqI)
  with change_account_run(1,2) show thesis by (intro fresh [of r]) simp_all
next
  case (change_run p f)
  then show thesis by (intro moved [of p f]) auto
next
  case (change_link token_hash dev now)
  then show thesis by (cases rule: consume_cases [of token_hash dev now s]) (auto intro: same)
next
  case (change_unlink dev now)
  then show thesis by (cases rule: disconnect_cases [of dev now s]) (auto intro: same)
next
  case (change_offer np q)
  from upsert_keeps [OF this] show thesis by (intro same)
qed (auto intro: same simp: claim_trial_store)

lemma run_key_maps:
  assumes "map run_key t' = map run_key t"
  shows "map run_id t' = map run_id t"
    "map (\<lambda>r. (run_device_id r, run_client_message_id r)) t' =
     map (\<lambda>r. (run_device_id r, run_client_message_id r)) t"
    "map (\<lambda>r. (run_device_id r, run_account_user_id r)) t' =
     map (\<lambda>r. (run_device_id r, run_account_user_id r)) t"
proof -
  have g: "map (\<lambda>r. g (run_key r)) t' = map (\<lambda>r. g (run_key r)) t" for g :: "_ \<Rightarrow> 'b"
    using assms by (metis (no_types, lifting) map_map comp_apply map_eq_conv)
  show "map run_id t' = map run_id t"
    using g [of fst] by (simp add: run_key_def)
  show "map (\<lambda>r. (run_device_id r, run_client_message_id r)) t' =
     map (\<lambda>r. (run_device_id r, run_client_message_id r)) t"
    using g [of "\<lambda>(i, d, a, c, m). (d, c)"] by (simp add: run_key_def case_prod_beta)
  show "map (\<lambda>r. (run_device_id r, run_account_user_id r)) t' =
     map (\<lambda>r. (run_device_id r, run_account_user_id r)) t"
    using g [of "\<lambda>(i, d, a, c, m). (d, a)"] by (simp add: run_key_def case_prod_beta)
qed

lemma moved_keys:
  assumes "\<And>r. r \<in> set t \<Longrightarrow> p r \<Longrightarrow> run_step r (f r)"
  shows "map run_key (sql_update p f t) = map run_key t"
  using assms by (simp add: sql_update_def run_step_key)

lemma runs_change:
  assumes change: "store_change s s'" and ok: "runs_ok s"
  shows "runs_ok s'"
proof -
  note ids = device_ids_change [OF change]
  from change show ?thesis
  proof (cases rule: runs_change_cases)
    case same
    with ok ids show ?thesis by (auto simp: runs_ok_def)
  next
    case (fresh r)
    with ok ids show ?thesis by (fastforce simp: runs_ok_def fresh_run_def)
  next
    case (moved p f)
    note keys = run_key_maps [OF moved_keys [OF moved(1)]]
    have "row_ok r \<and> run_device_id r \<in> dev_id ` set (lt_devices s)" if "r \<in> set (lt_runs s')" for r
      using that unfolding moved(2)
    proof (cases rule: in_sql_updateE)
      case unchanged
      with ok show ?thesis by (simp add: runs_ok_def)
    next
      case (changed q)
      with moved(1) have step: "run_step q r" by simp
      with ok changed have "row_ok r" by (auto simp: runs_ok_def intro: run_step_ok)
      moreover have "run_device_id r = run_device_id q"
        using run_step_key [OF step] by (simp add: run_key_def)
      ultimately show ?thesis using ok changed(1) by (simp add: runs_ok_def)
    qed
    with ok ids keys show ?thesis by (auto simp: runs_ok_def moved(2))
  qed
qed

subsection \<open>The trial quota\<close>

lemma anonymous_runs_same:
  "lt_runs s' = lt_runs s \<Longrightarrow> anonymous_runs dev s' = anonymous_runs dev s"
  by (simp add: anonymous_runs_def)

lemma anonymous_runs_moved:
  assumes "map run_key t' = map run_key (lt_runs s)"
  shows "anonymous_runs dev (s\<lparr>lt_runs := t'\<rparr>) = anonymous_runs dev s"
proof -
  have count: "sql_count (\<lambda>r. run_device_id r = dev \<and> run_account_user_id r = None) t =
      length (filter (\<lambda>(i, a). i = dev \<and> a = None) (map (\<lambda>r. (run_device_id r, run_account_user_id r)) t))"
    for t by (simp add: sql_count_def filter_map comp_def)
  show ?thesis
    using run_key_maps(3) [OF assms] by (simp add: anonymous_runs_def count)
qed

lemma anonymous_runs_append:
  "anonymous_runs dev (s\<lparr>lt_runs := lt_runs s @ [r]\<rparr>) =
   anonymous_runs dev s + (if run_device_id r = dev \<and> run_account_user_id r = None then 1 else 0)"
  by (simp add: anonymous_runs_def sql_count_def)

text \<open>A row of the updated device table has the quota columns of an old row, or was claimed.\<close>

lemma quota_same:
  assumes "quota_ok s" "\<And>dev. anonymous_runs dev s' = anonymous_runs dev s"
    and "\<And>d. d \<in> set (lt_devices s') \<Longrightarrow>
           \<exists>q \<in> set (lt_devices s). dev_id d = dev_id q \<and> dev_trial_messages_used d = dev_trial_messages_used q"
  shows "quota_ok s'"
  using assms unfolding quota_ok_def by metis

lemma quota_devices_same:
  assumes "quota_ok s" "\<And>dev. anonymous_runs dev s' = anonymous_runs dev s" "lt_devices s' = lt_devices s"
  shows "quota_ok s'"
  using assms by (simp add: quota_ok_def)

lemma quota_update:
  assumes "quota_ok s" "\<And>dev. anonymous_runs dev s' = anonymous_runs dev s"
    and "lt_devices s' = sql_update p f (lt_devices s)"
    and "\<And>d. dev_id (f d) = dev_id d \<and> dev_trial_messages_used (f d) = dev_trial_messages_used d"
  shows "quota_ok s'"
  using assms(1,2)
proof (rule quota_same)
  fix d
  assume "d \<in> set (lt_devices s')"
  then show "\<exists>q \<in> set (lt_devices s). dev_id d = dev_id q \<and> dev_trial_messages_used d = dev_trial_messages_used q"
    unfolding assms(3) by (cases rule: in_sql_updateE) (use assms(4) in auto)
qed

lemma trial_claim_row_cases:
  assumes "d \<in> set (lt_devices (snd (claim_anonymous_trial_message dev now lim s)))"
  obtains q where "q \<in> set (lt_devices s)" "dev_id d = dev_id q"
    "dev_trial_messages_used d = dev_trial_messages_used q" "\<not> trial_claimable dev now lim q"
  | q where "q \<in> set (lt_devices s)" "dev_id d = dev" "trial_claimable dev now lim q" "dev_id q = dev"
    "dev_trial_messages_used d = dev_trial_messages_used q + 1" "dev_trial_messages_used q < lim"
  using assms unfolding claim_trial_store
  by (auto simp: trial_claim_row_def trial_claimable_def elim!: in_sql_updateE)

lemma quota_claim:
  assumes "quota_ok s"
  shows "quota_ok (snd (claim_anonymous_trial_message dev now TRIAL_MESSAGE_LIMIT s))" (is "quota_ok ?s")
  unfolding quota_ok_def
proof
  fix d
  assume "d \<in> set (lt_devices ?s)"
  then show "anonymous_runs (dev_id d) ?s \<le> dev_trial_messages_used d \<and>
             dev_trial_messages_used d \<le> TRIAL_MESSAGE_LIMIT"
    using assms anonymous_runs_same [OF claim_keeps_runs]
    by (cases rule: trial_claim_row_cases) (fastforce simp: quota_ok_def)+
qed

lemma quota_trial_run:
  assumes "quota_ok s" "devices_ok s"
    and claim: "claim_anonymous_trial_message (run_device_id r) now TRIAL_MESSAGE_LIMIT s = (Some c, s1)"
  shows "quota_ok (s1\<lparr>lt_runs := lt_runs s1 @ [r]\<rparr>)"
  unfolding quota_ok_def
proof
  let ?s = "snd (claim_anonymous_trial_message (run_device_id r) now TRIAL_MESSAGE_LIMIT s)"
  fix d
  assume "d \<in> set (lt_devices (s1\<lparr>lt_runs := lt_runs s1 @ [r]\<rparr>))"
  then have d: "d \<in> set (lt_devices ?s)" using claim by simp
  have runs: "anonymous_runs x s1 = anonymous_runs x s" for x
    using claim claim_keeps_runs [of "run_device_id r" now TRIAL_MESSAGE_LIMIT s]
    by (intro anonymous_runs_same) simp
  obtain q0 where q0: "q0 \<in> set (lt_devices s)" "trial_claimable (run_device_id r) now TRIAL_MESSAGE_LIMIT q0"
    using claim_trial_Some(2) [OF claim] by blast
  from d show "anonymous_runs (dev_id d) (s1\<lparr>lt_runs := lt_runs s1 @ [r]\<rparr>) \<le> dev_trial_messages_used d \<and>
             dev_trial_messages_used d \<le> TRIAL_MESSAGE_LIMIT"
  proof (cases rule: trial_claim_row_cases)
    case (1 q)
    have "dev_id q \<noteq> run_device_id r"
    proof
      assume "dev_id q = run_device_id r"
      with q0 have "dev_id q = dev_id q0" by (simp add: trial_claimable_def)
      with assms(2) 1(1) q0(1) have "q = q0" by (auto simp: devices_ok_def dest: distinct_map_eqD)
      with 1(4) q0(2) show False by simp
    qed
    with 1 assms(1) runs show ?thesis by (auto simp: anonymous_runs_append quota_ok_def)
  next
    case (2 q)
    with assms(1) runs show ?thesis by (fastforce simp: anonymous_runs_append quota_ok_def)
  qed
qed

lemma quota_change:
  assumes "store_change s s'" "quota_ok s" "devices_ok s" "runs_ok s"
  shows "quota_ok s'"
  using assms(1)
proof (cases rule: store_change.cases)
  case (change_device_new nd d)
  note d = devices_create_Inr [OF this]
  have "anonymous_runs (lt_next_device_id s) s = 0"
  proof -
    have "\<forall>x \<in> set (lt_devices s). dev_id x \<noteq> lt_next_device_id s"
      using assms(3) by (auto simp: devices_ok_def)
    then have "\<forall>r \<in> set (lt_runs s). run_device_id r \<noteq> lt_next_device_id s"
      using assms(4) by (force simp: runs_ok_def)
    then show ?thesis by (simp add: anonymous_runs_def sql_count_0)
  qed
  then have "anonymous_runs (dev_id d) s' = 0" using d(1,2) anonymous_runs_same [of s' s] by simp
  with d(1,4) assms(2) anonymous_runs_same [of s' s] show ?thesis
    by (simp add: quota_ok_def TRIAL_MESSAGE_LIMIT_def)
next
  case (change_device_touch f p)
  with assms(2) show ?thesis
    by (auto simp: device_touch_def anonymous_runs_def intro!: quota_update [of s _ p f])
next
  case change_trial_claim
  with assms(2) show ?thesis by (simp add: quota_claim)
next
  case change_trial_run
  with assms(2,3) show ?thesis by (simp add: quota_trial_run)
next
  case (change_account_run r d)
  show ?thesis
    unfolding change_account_run(1)
    by (rule quota_devices_same [OF assms(2)]) (simp_all add: anonymous_runs_append change_account_run(5))
next
  case (change_run p f)
  show ?thesis
    unfolding change_run(1)
  proof (rule quota_devices_same [OF assms(2)])
    show "anonymous_runs dev (s\<lparr>lt_runs := sql_update p f (lt_runs s)\<rparr>) = anonymous_runs dev s" for dev
      by (rule anonymous_runs_moved) (rule moved_keys, rule change_run(2))
  qed simp
next
  case (change_link token_hash dev now)
  then show ?thesis
  proof (cases rule: consume_cases [of token_hash dev now s])
    case unchanged
    with change_link assms(2) show ?thesis by simp
  next
    case (linked d q)
    show ?thesis
      unfolding change_link linked(10)
      by (rule quota_update [OF assms(2), where p = "\<lambda>d. dev_id d = dev"
            and f = "link_device_row (ps_user_id q) now"])
        (simp_all add: anonymous_runs_def link_device_row_def)
  qed
next
  case (change_unlink dev now)
  then show ?thesis
  proof (cases rule: disconnect_cases [of dev now s])
    case unchanged
    with change_unlink assms(2) show ?thesis by simp
  next
    case (disconnected d)
    show ?thesis
      unfolding change_unlink disconnected(4) snd_conv
      by (rule quota_update [OF assms(2), where p = "\<lambda>d. dev_id d = dev"
            and f = "\<lambda>d. d\<lparr>dev_user_id := None, dev_updated_at := now\<rparr>"])
        (simp_all add: anonymous_runs_def)
  qed
next
  case (change_offer np q)
  from upsert_keeps [OF this] show ?thesis
    by (intro quota_devices_same [OF assms(2)]) (simp_all add: anonymous_runs_def)
qed (use assms(2) in \<open>simp_all add: quota_ok_def anonymous_runs_def\<close>)

subsection \<open>Pairing sessions\<close>

lemma session_linked_mono:
  "session_linked t q \<Longrightarrow> set t \<subseteq> set t' \<Longrightarrow> session_linked t' q"
  by (auto simp: session_linked_def split: option.splits)

lemma session_linked_update:
  assumes "session_linked t q"
    and "\<And>d. d \<in> set t \<Longrightarrow> p d \<Longrightarrow> ps_consumed_by_device_id q = Some (dev_id d) \<Longrightarrow>
           dev_user_id d = Some (ps_user_id q) \<Longrightarrow>
           dev_id (f d) = dev_id d \<and> dev_user_id (f d) = dev_user_id d"
  shows "session_linked (sql_update p f t) q"
proof (cases "ps_consumed_by_device_id q")
  case None
  with assms(1) show ?thesis by (simp add: session_linked_def)
next
  case (Some dev)
  with assms(1) obtain d where d: "d \<in> set t" "dev_id d = dev" "dev_user_id d = Some (ps_user_id q)"
    by (auto simp: session_linked_def)
  then have "(if p d then f d else d) \<in> set (sql_update p f t)" by (auto simp: set_sql_update)
  moreover have "dev_id (if p d then f d else d) = dev"
    "dev_user_id (if p d then f d else d) = Some (ps_user_id q)"
    using assms(2) [OF d(1)] d Some by simp_all
  ultimately show ?thesis using assms(1) Some unfolding session_linked_def by auto
qed

lemma sessions_same:
  assumes "sessions_ok s" "lt_sessions s' = lt_sessions s"
    and "\<And>q. session_linked (lt_devices s) q \<Longrightarrow> session_linked (lt_devices s') q"
  shows "sessions_ok s'"
  using assms by (simp add: sessions_ok_def)

lemma sessions_update:
  assumes "sessions_ok s" "lt_sessions s' = lt_sessions s" "lt_devices s' = sql_update p f (lt_devices s)"
    and "\<And>d. dev_id (f d) = dev_id d \<and> dev_user_id (f d) = dev_user_id d"
  shows "sessions_ok s'"
  using assms(1,2)
proof (rule sessions_same)
  show "session_linked (lt_devices s') q" if "session_linked (lt_devices s) q" for q
    unfolding assms(3) using that by (rule session_linked_update) (rule assms(4))
qed

lemma sessions_link:
  assumes "sessions_ok s" "devices_ok s"
  shows "sessions_ok (snd (consume token_hash dev now s))"
proof (cases rule: consume_cases [of token_hash dev now s])
  case unchanged
  with assms(1) show ?thesis by simp
next
  case (linked d q)
  let ?devices = "sql_update (\<lambda>d. dev_id d = dev) (link_device_row (ps_user_id q) now) (lt_devices s)"
  have old: "session_linked ?devices x" if x: "x \<in> set (lt_sessions s)" for x
  proof (rule session_linked_update)
    from assms(1) x show "session_linked (lt_devices s) x" by (simp add: sessions_ok_def)
    fix e
    assume "e \<in> set (lt_devices s)" "dev_id e = dev" "dev_user_id e = Some (ps_user_id x)"
    with linked(1,2,4) assms(2) have False by (auto simp: devices_ok_def dest: distinct_map_eqD)
    then show "dev_id (link_device_row (ps_user_id q) now e) = dev_id e \<and>
               dev_user_id (link_device_row (ps_user_id q) now e) = dev_user_id e" ..
  qed
  have "link_device_row (ps_user_id q) now d \<in> set ?devices"
    using linked(1,2) by (intro sql_update_memI) simp_all
  moreover have "dev_id (link_device_row (ps_user_id q) now d) = dev"
    "dev_user_id (link_device_row (ps_user_id q) now d) = Some (ps_user_id q)"
    using linked(2) by (simp_all add: link_device_row_def)
  ultimately have new: "session_linked ?devices (consume_session_row dev now q)"
    unfolding session_linked_def by (auto simp: consume_session_row_def)
  have only: "x = q" if "x \<in> set (lt_sessions s)" "ps_user_id x = ps_user_id q" for x
    using that linked(5) assms(1) by (auto simp: sessions_ok_def dest: distinct_map_eqD)
  have "session_linked ?devices x"
    if "x \<in> set (sql_update (\<lambda>q'. ps_user_id q' = ps_user_id q) (consume_session_row dev now) (lt_sessions s))" for x
    using that old only new by (cases rule: in_sql_updateE) blast+
  moreover have
    "map ps_user_id (sql_update (\<lambda>q'. ps_user_id q' = ps_user_id q) (consume_session_row dev now) (lt_sessions s))
       = map ps_user_id (lt_sessions s)"
    "map ps_token_hash (sql_update (\<lambda>q'. ps_user_id q' = ps_user_id q) (consume_session_row dev now) (lt_sessions s))
       = map ps_token_hash (lt_sessions s)"
    by (simp_all add: map_sql_update consume_session_row_def)
  ultimately show ?thesis
    using assms(1) by (simp add: sessions_ok_def linked(10))
qed

lemma sessions_unlink:
  assumes "sessions_ok s" "devices_ok s"
  shows "sessions_ok (snd (disconnect_device dev now s))"
proof (cases rule: disconnect_cases [of dev now s])
  case unchanged
  with assms(1) show ?thesis by simp
next
  case (disconnected d)
  let ?f = "\<lambda>d. d\<lparr>dev_user_id := None, dev_updated_at := now\<rparr>"
  let ?sessions = "lt_sessions (snd (disconnect_device dev now s))"
  have subset: "set ?sessions \<subseteq> set (lt_sessions s)"
    and distinct: "distinct (map ps_user_id ?sessions)" "distinct (map ps_token_hash ?sessions)"
    using disconnected(4) assms(1)
    by (auto simp: sessions_ok_def distinct_sql_delete split: option.splits)
  have "session_linked (sql_update (\<lambda>d. dev_id d = dev) ?f (lt_devices s)) q" if q: "q \<in> set ?sessions" for q
  proof (rule session_linked_update)
    from q subset assms(1) show "session_linked (lt_devices s) q" by (auto simp: sessions_ok_def)
    fix e
    assume e: "e \<in> set (lt_devices s)" "dev_id e = dev" "ps_consumed_by_device_id q = Some (dev_id e)"
      "dev_user_id e = Some (ps_user_id q)"
    from e(1,2) disconnected(1,2) assms(2) have "e = d" by (auto simp: devices_ok_def dest: distinct_map_eqD)
    with e disconnected(4) q have False by simp
    then show "dev_id (?f e) = dev_id e \<and> dev_user_id (?f e) = dev_user_id e" ..
  qed
  with distinct show ?thesis by (simp add: sessions_ok_def disconnected(4))
qed

lemma sessions_offer:
  assumes "sessions_ok s" "upsert_for_user np s = (Inr q, s')"
  shows "sessions_ok s'"
  using assms(2)
proof (cases rule: upsert_Inr)
  case replaced
  let ?sessions = "sql_update (\<lambda>x. ps_user_id x = ps_user_id q) (\<lambda>_. q) (lt_sessions s)"
  have users: "map ps_user_id ?sessions = map ps_user_id (lt_sessions s)"
    by (rule map_sql_update) simp
  have "distinct (map ps_token_hash ?sessions)"
    using assms(1) replaced(4) by (intro distinct_upsert) (simp_all add: sessions_ok_def)
  with users replaced assms(1) show ?thesis
    by (auto simp: sessions_ok_def session_linked_def elim: in_sql_updateE)
next
  case added
  with assms(1) show ?thesis
    by (auto simp: sessions_ok_def session_linked_def)
qed

lemma trial_claim_row_link [row_simps]: "dev_user_id (trial_claim_row now d) = dev_user_id d"
  by (simp add: trial_claim_row_def)

lemma sessions_change:
  assumes "store_change s s'" "sessions_ok s" "devices_ok s"
  shows "sessions_ok s'"
  using assms(1)
proof (cases rule: store_change.cases)
  case (change_device_new nd d)
  from devices_create_Inr(1) [OF this] show ?thesis
    by (intro sessions_same [OF assms(2)]) (auto elim: session_linked_mono)
next
  case (change_device_touch f p)
  then show ?thesis
    by (intro sessions_update [OF assms(2), where p = p and f = f]) (simp_all add: device_touch_def)
next
  case (change_trial_claim dev now)
  then show ?thesis
    by (intro sessions_update [OF assms(2), where p = "trial_claimable dev now TRIAL_MESSAGE_LIMIT"
          and f = "trial_claim_row now"]) (simp_all add: claim_trial_store row_simps)
next
  case (change_trial_run r now d s1)
  note s1 = claim_trial_Some(1) [OF change_trial_run(2)]
  show ?thesis
    unfolding change_trial_run(1) s1
    by (intro sessions_update [OF assms(2), where p = "trial_claimable (run_device_id r) now TRIAL_MESSAGE_LIMIT"
          and f = "trial_claim_row now"]) (simp_all add: row_simps)
next
  case change_link
  with assms(2,3) show ?thesis by (simp add: sessions_link)
next
  case change_unlink
  with assms(2,3) show ?thesis by (simp add: sessions_unlink)
next
  case change_offer
  with assms(2) show ?thesis by (blast intro: sessions_offer)
qed (use assms(2) in \<open>simp_all add: sessions_ok_def\<close>)

subsection \<open>Push notifications\<close>

lemma outbox_update_ok:
  assumes "\<And>e. ev_device_id (f e) = ev_device_id e \<and> ev_version e \<le> ev_version (f e)"
    and "distinct (map ev_device_id t)" "\<forall>e \<in> set t. 1 \<le> ev_version e"
  shows "distinct (map ev_device_id (sql_update p f t))" "\<forall>e \<in> set (sql_update p f t). 1 \<le> ev_version e"
proof -
  have "map ev_device_id (sql_update p f t) = map ev_device_id t"
    by (rule map_sql_update) (simp add: assms(1))
  with assms(2) show "distinct (map ev_device_id (sql_update p f t))" by simp
  show "\<forall>e \<in> set (sql_update p f t). 1 \<le> ev_version e"
  proof
    fix e
    assume "e \<in> set (sql_update p f t)"
    then show "1 \<le> ev_version e"
      using assms(1,3) by (cases rule: in_sql_updateE) (auto intro: order.trans)
  qed
qed

lemma push_same:
  "push_ok s \<Longrightarrow> lt_registrations s' = lt_registrations s \<Longrightarrow> lt_outbox s' = lt_outbox s \<Longrightarrow> push_ok s'"
  by (simp add: push_ok_def)

lemma push_change:
  assumes "store_change s s'" "push_ok s"
  shows "push_ok s'"
  using assms(1)
proof (cases rule: store_change.cases)
  case (change_device_new nd d)
  from devices_create_Inr(1) [OF this] show ?thesis by (intro push_same [OF assms(2)]) simp_all
next
  case (change_trial_run r now d s1)
  from claim_trial_Some(1) [OF change_trial_run(2)] show ?thesis
    unfolding change_trial_run(1) by (intro push_same [OF assms(2)]) simp_all
next
  case (change_link token_hash dev now)
  show ?thesis
    unfolding change_link
    by (rule consume_cases [of token_hash dev now s]; rule push_same [OF assms(2)]; simp)
next
  case (change_unlink dev now)
  show ?thesis
    unfolding change_unlink
    by (rule disconnect_cases [of dev now s]; rule push_same [OF assms(2)]; simp)
next
  case (change_offer np q)
  from upsert_keeps [OF this] show ?thesis by (intro push_same [OF assms(2)])
next
  case change_outbox_insert
  with assms(2) show ?thesis by (auto simp: push_ok_def)
next
  case (change_outbox_update f p)
  with assms(2) outbox_update_ok [of f "lt_outbox s" p] show ?thesis by (simp add: push_ok_def)
next
  case (change_outbox_delete p)
  with assms(2) show ?thesis by (simp add: push_ok_def distinct_sql_delete)
qed (use assms(2) in \<open>simp_all add: push_ok_def claim_trial_store\<close>)

theorem store_change_inv: "store_change s s' \<Longrightarrow> lt_inv s \<Longrightarrow> lt_inv s'"
  unfolding lt_inv_def
  by (blast intro: devices_change runs_change quota_change sessions_change push_change)

section \<open>The history of a run\<close>

text \<open>Every run of the first store is in the second, as it was or at a later point of its life.\<close>

definition runs_later :: "lt_store \<Rightarrow> lt_store \<Rightarrow> bool" where
  "runs_later s s' \<longleftrightarrow> (\<forall>r \<in> set (lt_runs s). \<exists>r' \<in> set (lt_runs s'). run_later r r')"

lemma runs_later_refl: "runs_later s s"
  unfolding runs_later_def using run_later_refl by blast

lemma runs_later_trans: "runs_later s s' \<Longrightarrow> runs_later s' s'' \<Longrightarrow> runs_later s s''"
  unfolding runs_later_def by (blast intro: run_later_trans)

lemma store_change_later:
  assumes "store_change s s'"
  shows "runs_later s s'"
  using assms
proof (cases rule: runs_change_cases)
  case same
  then show ?thesis unfolding runs_later_def by (metis run_later_refl)
next
  case (fresh r)
  then show ?thesis unfolding runs_later_def by (metis run_later_refl Un_iff set_append)
next
  case (moved p f)
  have "\<exists>r' \<in> set (lt_runs s'). run_later r r'" if r: "r \<in> set (lt_runs s)" for r
  proof (cases "p r")
    case True
    with r moved show ?thesis by (metis run_step_later sql_update_memI)
  next
    case False
    with r moved show ?thesis by (metis run_later_refl sql_update_keepI)
  qed
  then show ?thesis by (simp add: runs_later_def)
qed

section \<open>The transition system\<close>

inductive lt_step :: "lt_store \<Rightarrow> lt_store \<Rightarrow> bool" where
  do_bootstrap: "lt_step s (snd (bootstrap canonical sha rnd inst tok now s))"
| do_authenticate: "lt_step s (snd (authenticate_device to_str sha lookup_ok touch_ok header now s))"
| do_claim_message: "lt_step s (snd (claim_message dev now s))"
| do_create_trial_run:
    "lt_step s (snd (create_anonymous_trial_run_with_image cr n1 n2 uuid dev cid msg img now
                       TRIAL_MESSAGE_LIMIT s))"
| do_create_account_run:
    "lt_step s (snd (create_account_run_with_image cr n1 n2 uuid dev user cid msg img now s))"
| do_claim: "lt_step s (snd (exec_claim cr nonce rid txt now s))"
| do_update_activity: "lt_step s (snd (exec_update_activity cr nonce rid txt now s))"
| do_complete: "lt_step s (snd (exec_complete cr nonce rid txt now s))"
| do_fail: "lt_step s (snd (exec_fail cr nonce rid txt now s))"
| do_fail_stale: "lt_step s (snd (fail_stale_running_runs cr nonce stale txt now s))"
| do_create_offer: "lt_step s (snd (create_offer sha rnd user now s))"
| do_consume_uri: "lt_step s (snd (consume_uri parse_url sha uri dev now s))"
| do_disconnect: "lt_step s (snd (disconnect_device dev now s))"
| do_register: "lt_step s (snd (registration_upsert cr sha nonce dev endpoint now s))"
| do_unregister: "lt_step s (snd (registration_delete_for_device dev s))"
| do_enqueue: "lt_step s (snd (enqueue_conversation_changed dev now s))"
| do_claim_due: "lt_step s (snd (claim_due locked now lease limit s))"
| do_send: "lt_step s (snd (send_conversation_changed cr debug parse_url allowed post dev s))"
| do_outbox_complete: "lt_step s (snd (outbox_complete dev version s))"
| do_retry: "lt_step s (snd (schedule_retry dev version next now s))"

inductive_cases lt_stepE: "lt_step s s'"

lemma lt_step_change: "lt_step s s' \<Longrightarrow> store_change s s'"
  by (erule lt_stepE)
    (simp_all add: bootstrap_change authenticate_change claim_message_change create_trial_run_change
      create_account_run_change execution_changes run_operation_changes create_offer_change
      consume_uri_change change_unlink registration_upsert_change registration_delete_changes
      enqueue_change outbox_changes send_change)

abbreviation lt_steps :: "lt_store \<Rightarrow> lt_store \<Rightarrow> bool" where
  "lt_steps \<equiv> lt_step\<^sup>*\<^sup>*"

definition reachable :: "lt_store \<Rightarrow> bool" where
  "reachable s \<longleftrightarrow> (\<exists>users. lt_steps (empty_lt_store users) s)"

lemma lt_steps_inv: "lt_steps s s' \<Longrightarrow> lt_inv s \<Longrightarrow> lt_inv s'"
  by (induction rule: rtranclp_induct) (blast intro: store_change_inv lt_step_change)+

lemma lt_steps_later: "lt_steps s s' \<Longrightarrow> runs_later s s'"
  by (induction rule: rtranclp_induct)
    (blast intro: runs_later_refl runs_later_trans store_change_later lt_step_change)+

lemma reachable_inv: "reachable s \<Longrightarrow> lt_inv s"
  unfolding reachable_def by (blast intro: lt_steps_inv lt_inv_empty)

lemma reachable_step: "reachable s \<Longrightarrow> lt_steps s s' \<Longrightarrow> reachable s'"
  unfolding reachable_def by (blast intro: rtranclp_trans)

lemma reachable_empty: "reachable (empty_lt_store users)"
  unfolding reachable_def by blast

section \<open>The composed services are sequences of steps\<close>

lemma dispatch_loop_steps:
  assumes "\<And>g u. Interleaved g \<in> set es \<Longrightarrow> lt_steps u (g u)"
  shows "lt_steps s (snd (dispatch_loop cr rid closed es s))"
  using assms
proof (induction cr rid closed es s rule: dispatch_loop.induct)
  case (3 cr rid closed g es s)
  then have "lt_steps s (g s)" "lt_steps (g s) (snd (dispatch_loop cr rid closed es (g s)))" by simp_all
  then show ?case by simp
next
  case (5 cr rid closed label now nonce es s)
  show ?case
  proof (cases closed)
    case True
    with 5 show ?thesis by simp
  next
    case False
    obtain r s1 where r: "exec_update_activity cr nonce rid label now s = (r, s1)" by fastforce
    have "lt_step s (snd (exec_update_activity cr nonce rid label now s))" by (rule do_update_activity)
    with r have step: "lt_steps s s1" by auto
    have more: "lt_steps s (snd (dispatch_loop cr rid False es s1))"
      if "lt_steps s1 (snd (dispatch_loop cr rid False es s1))"
      using step that by (rule rtranclp_trans)
    show ?thesis
    proof (cases r)
      case (Inl e)
      with 5 r False step more show ?thesis by (cases e) auto
    next
      case (Inr v)
      with 5 r False step more show ?thesis by (cases v) auto
    qed
  qed
qed simp_all

lemma step_of: "f = (r, s') \<Longrightarrow> lt_step s (snd f) \<Longrightarrow> lt_steps s s'"
  by auto

lemma fail_run_steps: "lt_steps s (snd (fail_run cr nonce rid now s))"
  by (auto simp: fail_run_def split: prod.splits sum.splits option.splits intro: step_of do_fail)

lemma finish_dispatch_steps: "lt_steps s (snd (finish_dispatch cr clock rid response s))"
proof -
  have "lt_steps s (snd (fail_run cr n rid now s'))"
    if "exec_complete cr n' rid reply now' s = (r, s')" for n now n' reply now' r s'
    using rtranclp_trans [OF step_of [OF that do_complete] fail_run_steps] .
  then show ?thesis
    by (auto simp: finish_dispatch_def fail_run_steps
        split: prod.splits sum.splits option.splits execution_error.splits
        intro: step_of [OF _ do_complete])
qed

lemma dispatch_steps:
  assumes "\<And>g p h m i u. Interleaved g \<in> set (responder p h m i) \<Longrightarrow> lt_steps u (g u)"
  shows "lt_steps s (snd (dispatch_light_tool_run coll cr clock rid responder s))"
proof -
  obtain r s1 where claim: "exec_claim cr (snd (clock 0)) rid INITIAL_ACTIVITY (fst (clock 0)) s = (r, s1)"
    by fastforce
  then have first: "lt_steps s s1" using do_claim by (rule step_of)
  have loop: "lt_steps s s2" if "dispatch_loop cr rid False (responder p h m i) s1 = (l, s2)" for p h m i l s2
    using rtranclp_trans [OF first dispatch_loop_steps [of "responder p h m i" s1 cr rid False]] that assms
    by auto
  have finish: "lt_steps s s3"
    if "dispatch_loop cr rid False (responder p h m i) s1 = (l, s2)"
      "finish_dispatch cr clock rid response s2 = (x, s3)" for p h m i l s2 x s3 response
    using rtranclp_trans [OF loop [OF that(1)] finish_dispatch_steps [of s2 cr clock rid response]] that(2)
    by simp
  have failed: "lt_steps s s2" if "fail_run cr n rid now s1 = (x, s2)" for n now x s2
    using rtranclp_trans [OF first fail_run_steps [of s1 cr n rid now]] that by simp
  show ?thesis
    using first
    by (auto simp: dispatch_light_tool_run_def claim
        split: prod.splits sum.splits option.splits loop_result.splits
        intro: loop finish failed)
qed

lemma enqueue_push_steps: "lt_steps s (fold (enqueue_push now) devs s)"
proof (induction devs arbitrary: s)
  case (Cons dev devs)
  have "lt_step s (enqueue_push now dev s)" unfolding enqueue_push_def by (rule do_enqueue)
  with Cons [of "enqueue_push now dev s"] show ?case by (simp add: converse_rtranclp_into_rtranclp)
qed simp

lemma supervise_steps: "lt_steps s (snd (supervise_once coll cr nonce now push_now s))"
  by (auto simp: supervise_once_def split: prod.splits sum.splits
      intro: step_of do_fail_stale rtranclp_trans [OF step_of [OF _ do_fail_stale] enqueue_push_steps])

lemma recovered_steps:
  assumes "\<And>g p h m i u. Interleaved g \<in> set (responder p h m i) \<Longrightarrow> lt_steps u (g u)"
  shows "lt_steps s (recovered_task coll cr clock push_now task responder s)"
proof -
  obtain r s1 where d: "dispatch_light_tool_run coll cr clock (fst task) responder s = (r, s1)"
    by fastforce
  have "lt_steps s (snd (dispatch_light_tool_run coll cr clock (fst task) responder s))"
    by (rule dispatch_steps) (rule assms)
  with d have "lt_steps s s1" by simp
  moreover have "lt_step s1 (enqueue_push push_now (snd task) s1)"
    unfolding enqueue_push_def by (rule do_enqueue)
  ultimately show ?thesis
    by (auto simp: recovered_task_def d split: option.splits sum.splits intro: rtranclp.rtrancl_into_rtrancl)
qed

lemma process_due_steps:
  assumes "\<And>dev u. lt_steps u (snd (deliver dev u))"
  shows "lt_steps s (snd (process_due_once deliver locked now s))"
proof -
  have event: "lt_steps u (process_event deliver now e u)" for e u
  proof (cases "ev_event_type e \<noteq> CONVERSATION_CHANGED_EVENT")
    case True
    then show ?thesis by (auto simp: process_event_def intro: do_outbox_complete)
  next
    case False
    obtain r u1 where d: "deliver (ev_device_id e) u = (r, u1)" by fastforce
    with assms [of u "ev_device_id e"] have "lt_steps u u1" by simp
    then show ?thesis
      using False d
      by (auto simp: process_event_def Let_def split: sum.splits
          intro: rtranclp.rtrancl_into_rtrancl do_outbox_complete do_retry)
  qed
  have "lt_steps u (fold (process_event deliver now) es u)" for es u
    by (induction es arbitrary: u) (auto intro: rtranclp_trans event)
  then show ?thesis
    by (auto simp: process_due_once_def split: prod.splits
        intro: rtranclp_trans [OF step_of [OF _ do_claim_due]])
qed

end
