(* ===== verification/LT_Demo.thy ===== *)
theory LT_Demo
  imports LT_System
begin

text \<open>
  A concrete run of the Light Tool subsystem, on which the properties are shown to apply: a device
  is bootstrapped, sends a trial message, the run is claimed and completed, and the device is paired
  with user 7. \<open>crypto\<close> is instantiated by \<open>demo_crypto\<close>, the hash by the identity.
\<close>

definition demo_hex :: string where "demo_hex = replicate 64 (CHR ''a'')"
definition demo_token :: string where "demo_token = DEVICE_TOKEN_PREFIX @ demo_hex"

definition demo_device :: light_tool_device where
  "demo_device =
     \<lparr>dev_id = 1, dev_installation_id_hash = ''i1'', dev_token_hash = demo_token, dev_user_id = None,
      dev_trial_started_at = 1000, dev_trial_expires_at = 260200, dev_trial_messages_used = 0,
      dev_last_seen_at = 1000, dev_revoked_at = None, dev_created_at = 1000, dev_updated_at = 1000\<rparr>"

definition demo_run :: light_tool_run where
  "demo_run =
     \<lparr>run_id = ''r1'', run_device_id = 1, run_account_user_id = None, run_client_message_id = ''m1'',
      run_enc_user_message = demo_nonce @ ''#hi'', run_enc_image_data_url = None,
      run_enc_activity_text = None, run_enc_assistant_message = None, run_enc_error_message = None,
      run_status = Queued, run_created_at = 2000, run_updated_at = 2000, run_completed_at = None\<rparr>"

definition demo_store1 :: lt_store where
  "demo_store1 = (empty_lt_store [7])\<lparr>lt_devices := [demo_device], lt_next_device_id := 2\<rparr>"

definition demo_store2 :: lt_store where
  "demo_store2 =
     demo_store1\<lparr>lt_devices := [demo_device\<lparr>dev_trial_messages_used := 1, dev_updated_at := 2000\<rparr>],
                 lt_runs := [demo_run]\<rparr>"

definition demo_bootstrap where
  "demo_bootstrap = bootstrap Some (\<lambda>x. x) demo_hex ''i1'' None 1000"

definition demo_create where
  "demo_create = create_anonymous_trial_run_with_image demo_crypto demo_nonce demo_nonce ''r1'' 1 ''m1'' ''hi''
     None 2000 TRIAL_MESSAGE_LIMIT"

lemma demo_bootstrap_store: "snd (demo_bootstrap (empty_lt_store [7])) = demo_store1"
  by code_simp

lemma demo_create_store: "snd (demo_create demo_store1) = demo_store2"
  by code_simp

lemma demo_reachable1: "reachable demo_store1"
proof -
  have "lt_step (empty_lt_store [7]) (snd (demo_bootstrap (empty_lt_store [7])))"
    unfolding demo_bootstrap_def by (rule do_bootstrap)
  then show ?thesis unfolding demo_bootstrap_store reachable_def by blast
qed

lemma demo_step2: "lt_step demo_store1 demo_store2"
  using do_create_trial_run [of demo_store1 demo_crypto demo_nonce demo_nonce "''r1''" 1 "''m1''" "''hi''" None 2000]
  by (simp add: demo_create_store flip: demo_create_def)

lemma demo_reachable2: "reachable demo_store2"
  using demo_reachable1 demo_step2 by (blast intro: reachable_step)

text \<open>The run is claimed and completed; the claim and the completion are steps.\<close>

definition demo_claim where
  "demo_claim = exec_claim demo_crypto demo_nonce ''r1'' ''THINKING...'' 2001"

definition demo_complete where
  "demo_complete = exec_complete demo_crypto demo_nonce ''r1'' '' hello '' 2002"

definition demo_store3 :: lt_store where
  "demo_store3 =
     demo_store2\<lparr>lt_runs := [demo_run\<lparr>run_status := Running, run_updated_at := 2001,
                   run_enc_activity_text := Some (demo_nonce @ ''#THINKING...'')\<rparr>]\<rparr>"

definition demo_store4 :: lt_store where
  "demo_store4 =
     demo_store2\<lparr>lt_runs := [demo_run\<lparr>run_status := Completed, run_updated_at := 2002,
                   run_enc_assistant_message := Some (demo_nonce @ ''#hello''),
                   run_completed_at := Some 2002\<rparr>]\<rparr>"

lemma demo_claim_store: "snd (demo_claim demo_store2) = demo_store3"
  by code_simp

lemma demo_normalize:
  assumes "trim t = u" "u \<noteq> []" "char_count u \<le> 32000"
  shows "normalize_text t ''assistant_message'' MAX_RUN_ASSISTANT_CHARACTERS = Inr u"
  using assms by (simp add: normalize_text_def MAX_RUN_ASSISTANT_CHARACTERS_def)

lemma demo_complete_text:
  "exec_complete demo_crypto demo_nonce rid '' hello '' now =
     with_normalized (Inr ''hello'') (\<lambda>t. complete_running_run demo_crypto demo_nonce rid t now)"
proof -
  have "trim '' hello '' = ''hello''" by code_simp
  then show ?thesis by (simp add: exec_complete_def demo_normalize char_count_def)
qed

lemma demo_complete_store: "snd (demo_complete demo_store3) = demo_store4"
  unfolding demo_complete_def demo_complete_text by code_simp

lemma demo_step3: "lt_step demo_store2 demo_store3"
  using do_claim [of demo_store2 demo_crypto demo_nonce "''r1''" "''THINKING...''" 2001]
  by (simp add: demo_claim_store flip: demo_claim_def)

lemma demo_step4: "lt_step demo_store3 demo_store4"
  using do_complete [of demo_store3 demo_crypto demo_nonce "''r1''" "'' hello ''" 2002]
  by (simp add: demo_complete_store flip: demo_complete_def)

lemma demo_reachable3: "reachable demo_store3"
  using demo_reachable2 demo_step3 by (blast intro: reachable_step)

lemma demo_reachable4: "reachable demo_store4"
  using demo_reachable3 demo_step4 by (blast intro: reachable_step)

lemma demo_steps34: "lt_steps demo_store3 demo_store4"
  using demo_step4 by (rule r_into_rtranclp)

end
