(* ===== verification/LT_Properties.thy ===== *)
theory LT_Properties
  imports LT_Demo
begin

text \<open>The properties of the Light Tool subsystem, each followed by its witness.\<close>

section \<open>The trial quota\<close>

text \<open>
  Claim C1. In every store that any interleaving of calls can reach, a device has been charged for
  every anonymous run it has created, and never for more than the twelve messages of its trial.
\<close>

theorem trial_never_overspent:
  assumes "reachable s" "d \<in> set (lt_devices s)"
  shows "anonymous_runs (dev_id d) s \<le> dev_trial_messages_used d \<and>
         dev_trial_messages_used d \<le> TRIAL_MESSAGE_LIMIT"
  using reachable_inv [OF assms(1)] assms(2) by (simp add: lt_inv_def quota_ok_def)

theorem trial_never_overspent_witness:
  "anonymous_runs 1 demo_store2 \<le> 1 \<and> (1::int) \<le> TRIAL_MESSAGE_LIMIT"
  using trial_never_overspent [OF demo_reachable2, of "demo_device\<lparr>dev_trial_messages_used := 1, dev_updated_at := 2000\<rparr>"]
  by (simp add: demo_store2_def demo_device_def)

text \<open>
  However many times the trial messages of one device are claimed, and at whatever times,
  no more claims are granted than the trial has left; with none used before, at most twelve.
\<close>

theorem trial_claims_bounded:
  assumes "distinct (map dev_id (lt_devices s))" "0 \<le> trial_used_of dev s"
  shows "int (fst (grants (trial_claim_of dev) ts s)) \<le> max 0 (TRIAL_MESSAGE_LIMIT - trial_used_of dev s)"
  using trial_quota.grants_within_cap [OF assms(1), of ts dev] by simp

theorem trial_claims_bounded_witness:
  "int (fst (grants (trial_claim_of 1) [2000, 2001, 2002] demo_store1)) \<le> 12"
  using trial_claims_bounded [of demo_store1 1 "[2000, 2001, 2002]"]
  by (simp add: demo_store1_def demo_device_def trial_used_of_def sql_first_def TRIAL_MESSAGE_LIMIT_def)

section \<open>Idempotent creation\<close>

lemma find_run_later:
  assumes "lt_inv s'" "runs_later s s'" "r \<in> set (lt_runs s)"
  obtains r' where "find_run_by_client_id (run_device_id r) (run_client_message_id r) s' = Some r'"
    "run_later r r'"
proof -
  from assms(2,3) obtain r' where r': "r' \<in> set (lt_runs s')" "run_later r r'"
    unfolding runs_later_def by blast
  then have key: "run_device_id r' = run_device_id r" "run_client_message_id r' = run_client_message_id r"
    by (simp_all add: run_later_def run_key_def)
  have "distinct (map (\<lambda>r. (run_device_id r, run_client_message_id r)) (lt_runs s'))"
    using assms(1) by (simp add: lt_inv_def runs_ok_def)
  from sql_first_unique [OF this r'(1),
      of "\<lambda>q. run_device_id q = run_device_id r \<and> run_client_message_id q = run_client_message_id r"] key
  have "find_run_by_client_id (run_device_id r) (run_client_message_id r) s' = Some r'"
    by (simp add: find_run_by_client_id_def)
  with r'(2) show thesis by (intro that)
qed

lemma create_trial_existing:
  assumes "find_run_by_client_id dev cid s = Some r"
  shows "snd (create_anonymous_trial_run_with_image cr n1 n2 uuid dev cid msg img now lim s) = s"
    "fst (create_anonymous_trial_run_with_image cr n1 n2 uuid dev cid msg img now lim s) \<noteq> Inr (TrialCreated rec rem)"
  using assms
  by (auto simp: create_anonymous_trial_run_with_image_def transaction_def split: option.splits sum.splits)

lemma create_trial_created:
  assumes "create_anonymous_trial_run_with_image cr n1 n2 uuid dev cid msg img now lim s = (Inr (TrialCreated rec rem), s')"
  obtains r where "r \<in> set (lt_runs s')" "run_device_id r = dev" "run_client_message_id r = cid"
    "decrypt_run cr r = Inr rec" "run_account_user_id r = None"
proof -
  from assms obtain d s1 where
      "insert_new_run cr (new_run cr n1 n2 uuid dev None cid msg img now) s1 = (Inr rec, s')"
    unfolding create_anonymous_trial_run_with_image_def transaction_Inr
    by (auto split: option.splits sum.splits prod.splits if_splits)
  then obtain n r where n: "new_run cr n1 n2 uuid dev None cid msg img now = Inr n"
      and r: "insert_run n s1 = (Inr r, s')" and dec: "map_sum EncryptionErr id (decrypt_run cr r) = Inr rec"
    by (auto simp: insert_new_run_def split: sum.splits prod.splits)
  from n have "nr_device_id n = dev \<and> nr_client_message_id n = cid \<and> nr_account_user_id n = None"
    by (auto simp: new_run_def try_in_Inr)
  with r dec show thesis
    by (intro that [of r]) (auto simp: insert_run_def Let_def map_sum_Inr split: if_splits)
qed

text \<open>
  A message is charged once. After a trial run has been created for a client message id,
  the same device and id never create a run again and change nothing, whatever message and image
  they are sent with and whatever other calls happen in between.
\<close>

theorem trial_run_charged_once:
  assumes "reachable s"
    and "create_anonymous_trial_run_with_image cr n1 n2 uuid dev cid msg img now TRIAL_MESSAGE_LIMIT s =
           (Inr (TrialCreated rec rem), s')"
    and "lt_steps s' s''"
  shows "snd (create_anonymous_trial_run_with_image cr2 n3 n4 uuid2 dev cid msg2 img2 now2 TRIAL_MESSAGE_LIMIT s'') = s'' \<and>
         (\<nexists>rec2 rem2. fst (create_anonymous_trial_run_with_image cr2 n3 n4 uuid2 dev cid msg2 img2 now2 TRIAL_MESSAGE_LIMIT s'')
           = Inr (TrialCreated rec2 rem2))"
proof -
  from assms(2) obtain r where r: "r \<in> set (lt_runs s')" "run_device_id r = dev" "run_client_message_id r = cid"
    by (rule create_trial_created)
  have "lt_step s s'"
    using do_create_trial_run [of s cr n1 n2 uuid dev cid msg img now] assms(2) by simp
  with assms(1,3) have "reachable s''" by (blast intro: reachable_step)
  then have "lt_inv s''" by (rule reachable_inv)
  from find_run_later [OF this lt_steps_later [OF assms(3)] r(1)] obtain r'
    where "find_run_by_client_id dev cid s'' = Some r'" using r by auto
  from create_trial_existing [OF this] show ?thesis by simp
qed

theorem trial_run_charged_once_witness:
  "snd (create_anonymous_trial_run_with_image demo_crypto demo_nonce demo_nonce ''r2'' 1 ''m1'' ''other'' None 3000
          TRIAL_MESSAGE_LIMIT demo_store4) = demo_store4"
proof -
  have "demo_create demo_store1 =
     (Inr (TrialCreated \<lparr>rr_id = ''r1'', rr_device_id = 1, rr_account_user_id = None,
        rr_client_message_id = ''m1'', rr_user_message = ''hi'', rr_image_data_url = None,
        rr_activity_text = None, rr_assistant_message = None, rr_error_message = None,
        rr_status = Queued, rr_created_at = 2000, rr_updated_at = 2000, rr_completed_at = None\<rparr> 11),
      demo_store2)"
    by code_simp
  moreover have "lt_steps demo_store2 demo_store4"
    using demo_step3 demo_step4 by (meson rtranclp.rtrancl_into_rtrancl r_into_rtranclp)
  ultimately show ?thesis
    using trial_run_charged_once [OF demo_reachable1, THEN conjunct1] unfolding demo_create_def by blast
qed

lemma claim_trial_active:
  assumes "distinct (map dev_id (lt_devices s))"
    and "claim_anonymous_trial_message dev now lim s = (Some c, s1)"
  shows "find_active_device dev s1 = Some c" "dev_user_id c = None"
proof -
  from claim_trial_Some [OF assms(2)] obtain q where
      q: "q \<in> set (lt_devices s)" "trial_claimable dev now lim q" "c = trial_claim_row now q" and
      s1: "lt_devices s1 = sql_update (trial_claimable dev now lim) (trial_claim_row now) (lt_devices s)"
    by auto
  then have mem: "c \<in> set (lt_devices s1)" by (simp add: sql_update_memI)
  from q have c: "dev_id c = dev" "dev_revoked_at c = None" "dev_user_id c = None"
    by (auto simp: trial_claimable_def trial_claim_row_def)
  have "distinct (map dev_id (lt_devices s1))"
    using assms(1) by (simp add: s1 map_sql_update row_simps)
  from sql_first_unique [OF this mem, of "\<lambda>d. dev_id d = dev \<and> dev_revoked_at d = None"] c
  show "find_active_device dev s1 = Some c" "dev_user_id c = None"
    by (simp_all add: find_active_device_def)
qed

lemma new_run_texts:
  assumes "crypto_laws cr" "length n1 = 12" "length n2 = 12" "cr_utf8_ok cr msg"
    and "\<And>i. img = Some i \<Longrightarrow> cr_utf8_ok cr i"
    and "insert_new_run cr (new_run cr n1 n2 uuid dev account cid msg img now) s = (Inr rec, s')"
  shows "rr_user_message rec = msg \<and> rr_image_data_url rec = img"
proof -
  from assms(6) obtain n r where n: "new_run cr n1 n2 uuid dev account cid msg img now = Inr n"
      and r: "insert_run n s = (Inr r, s')" and dec: "decrypt_run cr r = Inr rec"
    by (auto simp: insert_new_run_def map_sum_Inr split: sum.splits prod.splits)
  from n have enc: "encrypt cr n1 msg = Inr (nr_enc_user_message n)"
      "transpose_map (encrypt cr n2) img = Inr (nr_enc_image_data_url n)"
    by (auto simp: new_run_def try_in_Inr map_sum_Inr)
  from r have cols: "run_enc_user_message r = nr_enc_user_message n"
      "run_enc_image_data_url r = nr_enc_image_data_url n"
    by (auto simp: insert_run_def Let_def split: if_splits)
  have "decrypt cr (nr_enc_user_message n) = Inr msg"
    using decrypt_encrypt [OF assms(1,2,4) enc(1)] .
  moreover have "decrypt_optional cr (nr_enc_image_data_url n) = Inr img"
  proof (cases img)
    case None
    with enc(2) show ?thesis by (simp add: transpose_map_def decrypt_optional_def)
  next
    case (Some i)
    with enc(2) obtain e where e: "encrypt cr n2 i = Inr e" "nr_enc_image_data_url n = Some e"
      by (auto simp: transpose_map_def map_sum_Inr)
    with decrypt_encrypt [OF assms(1,3) assms(5) [OF Some] e(1)] Some show ?thesis
      by (simp add: transpose_map_def decrypt_optional_def)
  qed
  ultimately show ?thesis
    using dec cols by (auto simp: decrypt_run_def try_in_Inr)
qed

text \<open>
  A repeated request gets the same answer: if a trial run has just been created for a
  message and an image, sending them again under the same client message id returns the existing
  run, with the same number of remaining messages, and writes nothing.
\<close>

theorem trial_retry_returns_run:
  assumes laws: "crypto_laws cr" "length n1 = 12" "length n2 = 12" "cr_utf8_ok cr msg"
    and "\<And>i. img = Some i \<Longrightarrow> cr_utf8_ok cr i"
    and inv: "reachable s"
    and first: "create_anonymous_trial_run_with_image cr n1 n2 uuid dev cid msg img now TRIAL_MESSAGE_LIMIT s =
           (Inr (TrialCreated rec rem), s')"
  shows "create_anonymous_trial_run_with_image cr n3 n4 uuid2 dev cid msg img now2 TRIAL_MESSAGE_LIMIT s' =
           (Inr (TrialExisting rec rem), s')"
proof -
  from first obtain c s1 where
      claim: "claim_anonymous_trial_message dev now TRIAL_MESSAGE_LIMIT s = (Some c, s1)" and
      ins: "insert_new_run cr (new_run cr n1 n2 uuid dev None cid msg img now) s1 = (Inr rec, s')" and
      rem: "rem = remaining_messages c TRIAL_MESSAGE_LIMIT"
    unfolding create_anonymous_trial_run_with_image_def transaction_Inr
    by (auto split: option.splits sum.splits prod.splits if_splits)
  from ins have s': "lt_devices s' = lt_devices s1" by (rule insert_new_run_Inr) simp
  from reachable_inv [OF inv] have "distinct (map dev_id (lt_devices s))" by (simp add: lt_inv_def devices_ok_def)
  from claim_trial_active [OF this claim]
  have active: "find_active_device dev s' = Some c" and c: "dev_user_id c = None"
    by (simp_all add: find_active_device_def s')
  from first obtain r where r: "r \<in> set (lt_runs s')" "run_device_id r = dev" "run_client_message_id r = cid"
      "decrypt_run cr r = Inr rec" "run_account_user_id r = None"
    by (rule create_trial_created)
  have "lt_step s s'"
    using do_create_trial_run [of s cr n1 n2 uuid dev cid msg img now] first by simp
  with inv have "lt_inv s'" by (blast intro: reachable_step reachable_inv)
  then have "distinct (map (\<lambda>r. (run_device_id r, run_client_message_id r)) (lt_runs s'))"
    by (simp add: lt_inv_def runs_ok_def)
  from sql_first_unique [OF this r(1), of "\<lambda>r. run_device_id r = dev \<and> run_client_message_id r = cid"] r
  have existing: "find_run_by_client_id dev cid s' = Some r" by (simp add: find_run_by_client_id_def)
  have texts: "rr_user_message rec = msg" "rr_image_data_url rec = img"
    using new_run_texts [OF laws assms(5) ins] by simp_all
  show ?thesis
    using active existing c r(4,5) texts rem
    by (simp add: create_anonymous_trial_run_with_image_def transaction_def)
qed

theorem trial_retry_returns_run_witness:
  "fst (create_anonymous_trial_run_with_image demo_crypto demo_nonce demo_nonce ''r9'' 1 ''m1'' ''hi'' None 3000
          TRIAL_MESSAGE_LIMIT demo_store2) =
     Inr (TrialExisting \<lparr>rr_id = ''r1'', rr_device_id = 1, rr_account_user_id = None,
        rr_client_message_id = ''m1'', rr_user_message = ''hi'', rr_image_data_url = None,
        rr_activity_text = None, rr_assistant_message = None, rr_error_message = None,
        rr_status = Queued, rr_created_at = 2000, rr_updated_at = 2000, rr_completed_at = None\<rparr> 11)"
proof -
  have "create_anonymous_trial_run_with_image demo_crypto demo_nonce demo_nonce ''r1'' 1 ''m1'' ''hi''
     None 2000 TRIAL_MESSAGE_LIMIT demo_store1 =
     (Inr (TrialCreated \<lparr>rr_id = ''r1'', rr_device_id = 1, rr_account_user_id = None,
        rr_client_message_id = ''m1'', rr_user_message = ''hi'', rr_image_data_url = None,
        rr_activity_text = None, rr_assistant_message = None, rr_error_message = None,
        rr_status = Queued, rr_created_at = 2000, rr_updated_at = 2000, rr_completed_at = None\<rparr> 11),
      demo_store2)"
    by code_simp
  from trial_retry_returns_run [OF demo_crypto_laws length_demo_nonce length_demo_nonce _ _ demo_reachable1 this]
  show ?thesis by (simp add: demo_crypto_def)
qed

end
