(* ===== verification/LT_RunProperties.thy ===== *)
theory LT_RunProperties
  imports LT_Demo
begin

text \<open>The properties of the life of a run and of the dispatcher, each followed by its witness.\<close>

section \<open>The life of a run\<close>

text \<open>
  Claim C2. A run never goes back: after any interleaving of calls it is still there, with the same
  id, device, account, client message id, message and creation time, with the same or a later
  status, and if it had completed or failed it is unchanged in every column.
\<close>

theorem run_never_goes_back:
  assumes "lt_steps s s'" "r \<in> set (lt_runs s)"
  shows "\<exists>r' \<in> set (lt_runs s'). run_key r' = run_key r \<and> run_status r \<le> run_status r'
           \<and> (run_status r = Completed \<or> run_status r = Failed \<longrightarrow> r' = r)"
  using lt_steps_later [OF assms(1)] assms(2) unfolding runs_later_def run_later_def by blast

theorem run_never_goes_back_witness:
  "\<exists>r' \<in> set (lt_runs demo_store4). run_key r' = run_key (hd (lt_runs demo_store3)) \<and> Running \<le> run_status r'"
proof -
  have "hd (lt_runs demo_store3) \<in> set (lt_runs demo_store3)" "run_status (hd (lt_runs demo_store3)) = Running"
    by (simp_all add: demo_store3_def demo_store2_def)
  with run_never_goes_back [OF demo_steps34, of "hd (lt_runs demo_store3)"] show ?thesis by auto
qed

text \<open>
  In every reachable store the columns of a run agree with its status: a queued run has
  no result, a running one shows an activity, a completed one has a reply and a time, a failed one
  an error and a time; the image is erased when a run ends. Its device exists.
\<close>

theorem run_rows_consistent:
  assumes "reachable s" "r \<in> set (lt_runs s)"
  shows "row_ok r \<and> run_device_id r \<in> dev_id ` set (lt_devices s)"
  using reachable_inv [OF assms(1)] assms(2) by (simp add: lt_inv_def runs_ok_def)

theorem run_rows_consistent_witness: "row_ok (hd (lt_runs demo_store4))"
  using run_rows_consistent [OF demo_reachable4, of "hd (lt_runs demo_store4)"]
  by (simp add: demo_store4_def demo_store2_def)

text \<open>
  A queued run is claimed by at most one worker: of any number of claims of the same run,
  with any times and activities, at most one is told to run it.
\<close>

theorem run_claimed_at_most_once: "fst (grants (run_claim_of cr rid) claims s) \<le> 1"
  by (rule run_claim.at_most_once) (rule TrueI)

lemma run_by_id:
  assumes "lt_inv s" "r \<in> set (lt_runs s)" "q \<in> set (lt_runs s)" "run_id q = run_id r"
  shows "q = r"
  using assms by (auto simp: lt_inv_def runs_ok_def dest: distinct_map_eqD)

lemma claim_queued_Some:
  assumes "claim_queued_run cr nonce rid activity now s = (Inr (Some rec), s')"
  obtains r enc where "r \<in> set (lt_runs s)" "run_id r = rid" "run_status r = Queued"
    "encrypt cr nonce activity = Inr enc" "claim_run_row enc now r \<in> set (lt_runs s')"
    "decrypt_run cr (claim_run_row enc now r) = Inr rec"
proof -
  from assms obtain enc where enc: "encrypt cr nonce activity = Inr enc"
    and up: "update_run_get cr (\<lambda>r. run_id r = rid \<and> run_status r = Queued) (claim_run_row enc now) s
               = (Inr (Some rec), s')"
    by (auto simp: claim_queued_run_def split: sum.splits)
  from up obtain r where "sql_update_get (\<lambda>r. run_id r = rid \<and> run_status r = Queued) (claim_run_row enc now) (lt_runs s) = Some r"
    "decrypt_run cr r = Inr rec" "lt_runs s' = sql_update (\<lambda>r. run_id r = rid \<and> run_status r = Queued) (claim_run_row enc now) (lt_runs s)"
    by (auto simp: update_run_get_def map_sum_Inr transpose_map_def split: option.splits)
  with enc show thesis by (auto dest!: sql_update_get_Some intro!: that sql_update_memI)
qed

text \<open>
  And it stays claimed: once a worker has claimed a run, no later claim of it is granted,
  whatever other calls happened in between.
\<close>

theorem claimed_run_stays_claimed:
  assumes "reachable s" "claim_queued_run cr nonce rid activity now s = (Inr (Some rec), s1)" "lt_steps s1 s2"
  shows "\<not> fst (run_claim_of cr' rid a s2)"
proof
  assume "fst (run_claim_of cr' rid a s2)"
  then obtain q where q: "q \<in> set (lt_runs s2)" "run_id q = rid" "run_status q = Queued"
    using run_claim.taken [where cr = cr' and rid = rid and s = s2 and a = a] by (auto simp: run_available_def list_ex_iff)
  from assms(2) obtain r enc where r: "claim_run_row enc now r \<in> set (lt_runs s1)" "run_id r = rid"
    by (rule claim_queued_Some)
  obtain p f where "s1 = s\<lparr>lt_runs := sql_update p f (lt_runs s)\<rparr>" "\<And>r. p r \<Longrightarrow> run_step r (f r)"
    using assms(2)
    by (auto simp: claim_queued_run_def update_run_get_def step_claim split: sum.splits)
  then have "lt_inv s1"
    using reachable_inv [OF assms(1)] by (metis change_run store_change_inv)
  with assms(3) have inv: "lt_inv s2" by (rule lt_steps_inv)
  from lt_steps_later [OF assms(3)] r(1) obtain r' where
      r': "r' \<in> set (lt_runs s2)" "run_key r' = run_key (claim_run_row enc now r)" "Running \<le> run_status r'"
    unfolding runs_later_def run_later_def by (force simp: claim_run_row_def)
  with r(2) have "run_id r' = rid" by (simp add: run_key_def claim_run_row_def)
  with run_by_id [OF inv r'(1) q(1)] q r'(3) show False by (simp add: less_eq_run_status_def)
qed

theorem claimed_run_stays_claimed_witness:
  "\<not> fst (run_claim_of demo_crypto ''r1'' (demo_nonce, ''THINKING...'', 3000) demo_store4)"
proof -
  have "claim_queued_run demo_crypto demo_nonce ''r1'' ''THINKING...'' 2001 demo_store2 =
     (Inr (Some \<lparr>rr_id = ''r1'', rr_device_id = 1, rr_account_user_id = None,
        rr_client_message_id = ''m1'', rr_user_message = ''hi'', rr_image_data_url = None,
        rr_activity_text = Some ''THINKING...'', rr_assistant_message = None, rr_error_message = None,
        rr_status = Running, rr_created_at = 2000, rr_updated_at = 2001, rr_completed_at = None\<rparr>),
      demo_store3)"
    by code_simp
  from claimed_run_stays_claimed [OF demo_reachable2 this demo_steps34] show ?thesis .
qed

lemma update_none:
  assumes "\<forall>r \<in> set (lt_runs s). \<not> p r"
  shows "update_run_get cr p f s = (Inr None, s)"
  using assms sql_update_get_None [of p f "lt_runs s"]
  by (simp add: update_run_get_def sql_update_none transpose_map_def)

text \<open>
  A late result is dropped: when a run is not running (it was never claimed, or it was
  completed, failed or given up on in the meantime), reporting its activity, its reply or its
  failure returns no run and changes nothing.
\<close>

theorem late_result_dropped:
  assumes "\<forall>r \<in> set (lt_runs s). run_id r = rid \<longrightarrow> run_status r \<noteq> Running"
    and "encrypt cr nonce text = Inr enc"
  shows "update_running_activity cr nonce rid text now s = (Inr None, s) \<and>
         complete_running_run cr nonce rid text now s = (Inr None, s) \<and>
         fail_running_run cr nonce rid text now s = (Inr None, s)"
proof -
  have "\<forall>r \<in> set (lt_runs s). \<not> (run_id r = rid \<and> run_status r = Running)" using assms(1) by blast
  from update_none [OF this] show ?thesis
    by (simp_all add: update_running_activity_def complete_running_run_def fail_running_run_def assms(2))
qed

theorem late_result_dropped_witness:
  "complete_running_run demo_crypto demo_nonce ''r1'' ''late'' 5000 demo_store4 = (Inr None, demo_store4)"
  using late_result_dropped [OF _ demo_encrypt, of demo_store4 "''r1''" demo_nonce "''late''" 5000]
  by (simp add: demo_store4_def demo_store2_def)

text \<open>
  Giving up on stale runs is exact: it fails the running runs whose last update is not
  after the cut-off, with the given error and time, returns their ids and devices, and leaves every
  other run, and every other table, as it was.
\<close>

theorem stale_runs_failed_exactly:
  assumes "encrypt cr nonce error = Inr enc"
  shows "fail_stale_running_runs cr nonce cutoff error now s =
           (Inr (map (\<lambda>r. (run_id r, run_device_id r))
                  (filter (\<lambda>r. run_status r = Running \<and> run_updated_at r \<le> cutoff) (lt_runs s))),
            s\<lparr>lt_runs := map (\<lambda>r. if run_status r = Running \<and> run_updated_at r \<le> cutoff
                                  then fail_row enc now r else r) (lt_runs s)\<rparr>)"
  by (simp add: fail_stale_running_runs_def assms Let_def sql_updated_def sql_update_def fail_row_def comp_def)

theorem stale_runs_failed_exactly_witness:
  "fst (fail_stale_running_runs demo_crypto demo_nonce 2001 ''x'' 9000 demo_store3) = Inr [(''r1'', 1)]
   \<and> fst (fail_stale_running_runs demo_crypto demo_nonce 2000 ''x'' 9000 demo_store3) = Inr []"
  unfolding stale_runs_failed_exactly [OF demo_encrypt]
  by (simp add: demo_store3_def demo_store2_def demo_run_def)

section \<open>Stored texts\<close>

lemma normalize_text_Inr:
  "normalize_text value field max_characters = Inr t \<longleftrightarrow>
     t = trim value \<and> t \<noteq> [] \<and> char_count t \<le> max_characters"
  by (auto simp: normalize_text_def Let_def)

lemma complete_running_Some:
  assumes "complete_running_run cr nonce rid reply now s = (Inr (Some rec), s')"
  obtains r enc where "r \<in> set (lt_runs s)" "run_id r = rid" "run_status r = Running"
    "encrypt cr nonce reply = Inr enc" "complete_row enc now r \<in> set (lt_runs s')"
    "decrypt_run cr (complete_row enc now r) = Inr rec"
proof -
  from assms obtain enc where enc: "encrypt cr nonce reply = Inr enc"
    and up: "update_run_get cr (\<lambda>r. run_id r = rid \<and> run_status r = Running) (complete_row enc now) s
               = (Inr (Some rec), s')"
    by (auto simp: complete_running_run_def split: sum.splits)
  from up obtain r where "sql_update_get (\<lambda>r. run_id r = rid \<and> run_status r = Running) (complete_row enc now) (lt_runs s) = Some r"
    "decrypt_run cr r = Inr rec" "lt_runs s' = sql_update (\<lambda>r. run_id r = rid \<and> run_status r = Running) (complete_row enc now) (lt_runs s)"
    by (auto simp: update_run_get_def map_sum_Inr transpose_map_def split: option.splits)
  with enc show thesis by (auto dest!: sql_update_get_Some intro!: that sql_update_memI)
qed

lemma exec_complete_Some:
  assumes "exec_complete cr nonce rid reply now s = (Inr (Some rec), s')"
  shows "complete_running_run cr nonce rid (trim reply) now s = (Inr (Some rec), s')"
    "trim reply \<noteq> []" "char_count (trim reply) \<le> MAX_RUN_ASSISTANT_CHARACTERS"
  using assms
  by (auto simp: exec_complete_def with_normalized_def normalize_text_Inr map_sum_Inr
      split: sum.splits prod.splits)

text \<open>
  What a worker stores is trimmed and bounded: a completed run holds the trimmed reply,
  which is not blank and has at most 32000 characters, and reads back as that text.
\<close>

theorem completed_reply_bounded:
  assumes "crypto_laws cr" "length nonce = 12" "cr_utf8_ok cr (trim reply)"
    and "exec_complete cr nonce rid reply now s = (Inr (Some rec), s')"
  shows "rr_assistant_message rec = Some (trim reply) \<and> trim reply \<noteq> [] \<and>
         char_count (trim reply) \<le> MAX_RUN_ASSISTANT_CHARACTERS \<and>
         rr_id rec = rid \<and> rr_status rec = Completed \<and> rr_completed_at rec = Some now \<and>
         rr_image_data_url rec = None \<and> rr_activity_text rec = None"
proof -
  from exec_complete_Some(1) [OF assms(4)] obtain r enc where r: "run_id r = rid"
      "encrypt cr nonce (trim reply) = Inr enc" "decrypt_run cr (complete_row enc now r) = Inr rec"
    by (rule complete_running_Some)
  from decrypt_encrypt [OF assms(1-3) r(2)] have "decrypt cr enc = Inr (trim reply)" .
  with r(1,3) exec_complete_Some(2,3) [OF assms(4)] show ?thesis
    by (auto simp: decrypt_run_def complete_row_def try_in_Inr decrypt_optional_def transpose_map_def)
qed

theorem completed_reply_bounded_witness:
  "\<exists>rec. fst (exec_complete demo_crypto demo_nonce ''r1'' '' hello '' 2002 demo_store3) = Inr (Some rec)
     \<and> rr_assistant_message rec = Some ''hello''"
proof -
  have trimmed: "trim '' hello '' = ''hello''" by code_simp
  have "exec_complete demo_crypto demo_nonce ''r1'' '' hello '' 2002 demo_store3 =
    (Inr (Some \<lparr>rr_id = ''r1'', rr_device_id = 1, rr_account_user_id = None,
        rr_client_message_id = ''m1'', rr_user_message = ''hi'', rr_image_data_url = None,
        rr_activity_text = None, rr_assistant_message = Some ''hello'', rr_error_message = None,
        rr_status = Completed, rr_created_at = 2000, rr_updated_at = 2002, rr_completed_at = Some 2002\<rparr>),
     demo_store4)"
    unfolding demo_complete_text by code_simp
  with completed_reply_bounded [OF demo_crypto_laws length_demo_nonce _ this] show ?thesis
    by (simp add: demo_crypto_def trimmed)
qed

section \<open>The dispatcher\<close>

text \<open>What a dispatch leaves in the run's row, by its outcome.\<close>

definition dispatched_row :: "crypto \<Rightarrow> string \<Rightarrow> dispatch_outcome \<Rightarrow> lt_store \<Rightarrow> bool" where
  "dispatched_row cr rid outcome s =
     (case outcome of
        DispatchCompleted \<Rightarrow> list_ex (\<lambda>r. run_id r = rid \<and> run_status r = Completed) (lt_runs s)
      | DispatchFailed \<Rightarrow> list_ex (\<lambda>r. run_id r = rid \<and> run_status r = Failed) (lt_runs s)
      | NotClaimed \<Rightarrow> \<not> run_available rid s
      | Superseded \<Rightarrow> \<not> list_ex (\<lambda>r. run_id r = rid \<and> run_status r = Running) (lt_runs s))"

lemma update_run_get_Inr:
  assumes "update_run_get cr p f s = (Inr res, s')"
  shows "res = None \<Longrightarrow> s' = s \<and> (\<forall>r \<in> set (lt_runs s). \<not> p r)"
    "res \<noteq> None \<Longrightarrow> \<exists>r \<in> set (lt_runs s). p r \<and> f r \<in> set (lt_runs s')"
proof -
  have res: "map_sum EncryptionErr id (transpose_map (decrypt_run cr) (sql_update_get p f (lt_runs s))) = Inr res"
    and s': "s' = s\<lparr>lt_runs := sql_update p f (lt_runs s)\<rparr>"
    using assms by (simp_all add: update_run_get_def)
  show "s' = s \<and> (\<forall>r \<in> set (lt_runs s). \<not> p r)" if "res = None"
  proof -
    from res that have "sql_update_get p f (lt_runs s) = None"
      by (auto simp: map_sum_Inr transpose_map_def split: option.splits)
    then have "\<forall>r \<in> set (lt_runs s). \<not> p r" by (simp only: sql_update_get_None)
    with s' show ?thesis by (simp add: sql_update_none)
  qed
  show "\<exists>r \<in> set (lt_runs s). p r \<and> f r \<in> set (lt_runs s')" if "res \<noteq> None"
  proof -
    from res that obtain q where "sql_update_get p f (lt_runs s) = Some q"
      by (auto simp: map_sum_Inr transpose_map_def split: option.splits)
    then obtain r where r: "r \<in> set (lt_runs s)" "p r" by (auto dest: sql_update_get_Some)
    with s' have "f r \<in> set (lt_runs s')" by (simp add: sql_update_memI)
    with r show ?thesis by blast
  qed
qed

lemma update_run_get_None:
  "update_run_get cr p f s = (Inr None, s') \<Longrightarrow> s' = s \<and> (\<forall>r \<in> set (lt_runs s). \<not> p r)"
  by (rule update_run_get_Inr(1)) simp_all

lemma update_run_get_Some:
  assumes "update_run_get cr p f s = (Inr (Some rec), s')"
  obtains r where "r \<in> set (lt_runs s)" "p r" "f r \<in> set (lt_runs s')"
  using update_run_get_Inr(2) [OF assms] by blast

lemma update_superseded:
  "update_run_get cr (\<lambda>r. run_id r = rid \<and> run_status r = Running) f s = (Inr None, s') \<Longrightarrow>
   dispatched_row cr rid Superseded s'"
  by (drule update_run_get_None) (auto simp: dispatched_row_def list_ex_iff)

lemma update_not_claimed:
  "update_run_get cr (\<lambda>r. run_id r = rid \<and> run_status r = Queued) f s = (Inr None, s') \<Longrightarrow>
   dispatched_row cr rid NotClaimed s' \<and> s' = s"
  by (drule update_run_get_None) (auto simp: dispatched_row_def run_available_def list_ex_iff)

lemma update_ended:
  assumes "update_run_get cr (\<lambda>r. run_id r = rid \<and> run_status r = Running) f s = (Inr (Some rec), s')"
  shows "(\<And>r. f r = complete_row enc now r) \<Longrightarrow> dispatched_row cr rid DispatchCompleted s'"
    "(\<And>r. f r = fail_row enc now r) \<Longrightarrow> dispatched_row cr rid DispatchFailed s'"
proof -
  from assms obtain r where r: "run_id r = rid" "f r \<in> set (lt_runs s')"
    by (rule update_run_get_Some) auto
  then have "run_id (complete_row enc now r) = rid" "run_status (complete_row enc now r) = Completed"
    "run_id (fail_row enc now r) = rid" "run_status (fail_row enc now r) = Failed"
    by (simp_all add: complete_row_def fail_row_def)
  with r(2) show "(\<And>r. f r = complete_row enc now r) \<Longrightarrow> dispatched_row cr rid DispatchCompleted s'"
    "(\<And>r. f r = fail_row enc now r) \<Longrightarrow> dispatched_row cr rid DispatchFailed s'"
    unfolding dispatched_row_def list_ex_iff by auto
qed

lemmas update_outcomes = update_superseded update_not_claimed update_ended(1) [OF _ refl] update_ended(2) [OF _ refl]

lemma normalized_Inr:
  assumes "with_normalized text run s = (Inr res, s')"
  obtains t where "text = Inr t" "run t s = (Inr res, s')"
  using assms by (auto simp: with_normalized_def map_sum_Inr split: sum.splits prod.splits)

lemma exec_outcomes:
  "exec_update_activity cr nonce rid text now s = (Inr None, s') \<Longrightarrow> dispatched_row cr rid Superseded s'"
  "exec_complete cr nonce rid text now s = (Inr (Some rec), s') \<Longrightarrow> dispatched_row cr rid DispatchCompleted s'"
  "exec_complete cr nonce rid text now s = (Inr None, s') \<Longrightarrow> dispatched_row cr rid Superseded s'"
  "exec_fail cr nonce rid text now s = (Inr (Some rec), s') \<Longrightarrow> dispatched_row cr rid DispatchFailed s'"
  "exec_fail cr nonce rid text now s = (Inr None, s') \<Longrightarrow> dispatched_row cr rid Superseded s'"
  "exec_claim cr nonce rid text now s = (Inr None, s') \<Longrightarrow> dispatched_row cr rid NotClaimed s' \<and> s' = s"
  unfolding exec_update_activity_def exec_complete_def exec_fail_def exec_claim_def
  by (erule normalized_Inr;
      auto simp: update_running_activity_def complete_running_run_def fail_running_run_def
        claim_queued_run_def split: sum.splits dest: update_outcomes)+

lemma fail_run_outcome:
  "fail_run cr nonce rid now s = (Inr outcome, s') \<Longrightarrow> dispatched_row cr rid outcome s'"
  by (auto simp: fail_run_def split: prod.splits sum.splits option.splits dest: exec_outcomes)

lemma dispatch_loop_outcome:
  "dispatch_loop cr rid closed es s = (LoopReturn (Inr outcome), s') \<Longrightarrow> dispatched_row cr rid outcome s'"
  by (induction cr rid closed es s rule: dispatch_loop.induct)
    (auto split: if_splits prod.splits sum.splits option.splits execution_error.splits dest: exec_outcomes)

lemma finish_dispatch_outcome:
  "finish_dispatch cr clock rid response s = (Inr outcome, s') \<Longrightarrow> dispatched_row cr rid outcome s'"
  by (auto simp: finish_dispatch_def split: sum.splits prod.splits option.splits execution_error.splits
      dest: exec_outcomes fail_run_outcome)

text \<open>
  The dispatcher's answer is what it left in the database: Completed means the run is
  completed, Failed that it is failed, Superseded that another worker ended it first, NotClaimed
  that it was not queued.
\<close>

theorem dispatch_outcome_true:
  assumes "dispatch_light_tool_run coll cr clock rid responder s = (Some (Inr outcome), s')"
  shows "dispatched_row cr rid outcome s'"
  using assms
  by (auto simp: dispatch_light_tool_run_def
      split: sum.splits prod.splits option.splits loop_result.splits
      dest: exec_outcomes fail_run_outcome dispatch_loop_outcome finish_dispatch_outcome)

theorem dispatch_outcome_true_witness:
  "list_ex (\<lambda>r. run_id r = ''r1'' \<and> run_status r = Completed)
     (lt_runs (snd (dispatch_light_tool_run (\<lambda>x. length x) demo_crypto (\<lambda>n. (2001 + int n, demo_nonce)) ''r1''
        (\<lambda>p h m i. [Activity ''READING'' 2001 demo_nonce, Respond (Inr ''hello'')]) demo_store2)))"
proof -
  let ?d = "dispatch_light_tool_run (\<lambda>x. length x) demo_crypto (\<lambda>n. (2001 + int n, demo_nonce)) ''r1''
        (\<lambda>p h m i. [Activity ''READING'' 2001 demo_nonce, Respond (Inr ''hello'')]) demo_store2"
  have "fst ?d = Some (Inr DispatchCompleted)" by code_simp
  then have "?d = (Some (Inr DispatchCompleted), snd ?d)" by (metis prod.collapse)
  from dispatch_outcome_true [OF this] show ?thesis by (simp add: dispatched_row_def)
qed

lemma dispatch_loop_returns:
  "Respond x \<in> set es \<Longrightarrow> fst (dispatch_loop cr rid closed es s) \<noteq> LoopPending"
proof (induction cr rid closed es s rule: dispatch_loop.induct)
  case (5 cr rid closed label now nonce es s)
  obtain r s1 where r: "exec_update_activity cr nonce rid label now s = (r, s1)" by fastforce
  show ?case
  proof (cases r)
    case (Inl e)
    with 5 r show ?thesis by (cases closed; cases e) auto
  next
    case (Inr v)
    with 5 r show ?thesis by (cases closed; cases v) auto
  qed
qed auto



end
