(* ===== verification/LT_PairingProperties.thy ===== *)
theory LT_PairingProperties
  imports LT_Demo
begin

text \<open>The properties of identity, authentication and pairing, each followed by its witness.\<close>

section \<open>Identity\<close>

lemma strip_all_id: "\<forall>w \<in> set ws. w \<noteq> [] \<longrightarrow> \<not> prefix w s \<Longrightarrow> strip_all ws s = s"
  by (auto simp: strip_all.simps [of ws s] find_None_iff split: option.split dest: find_SomeD)

lemma whitespace_not_hex: "list_all (\<lambda>w. w \<noteq> [] \<and> hd w \<noteq> CHR ''l'' \<and> \<not> is_lower_hex (last w)) utf8_whitespace"
  by code_simp

lemma trim_token:
  assumes "list_all is_lower_hex hex" "hex \<noteq> []"
  shows "trim (CHR ''l'' # t @ hex) = CHR ''l'' # t @ hex" (is "trim ?s = ?s")
proof -
  have ws: "w \<noteq> []" "hd w \<noteq> CHR ''l''" "\<not> is_lower_hex (last w)" if "w \<in> set utf8_whitespace" for w
    using whitespace_not_hex that by (auto simp: list_all_iff)
  have "\<not> prefix w ?s" if "w \<in> set utf8_whitespace" for w
    using ws [OF that] by (cases w) auto
  then have start: "trim_start ?s = ?s" by (simp add: trim_start_def strip_all_id)
  have "\<not> prefix (rev w) (rev ?s)" if "w \<in> set utf8_whitespace" for w
  proof
    assume "prefix (rev w) (rev ?s)"
    then have "suffix w ?s" by (simp add: suffix_to_prefix)
    then have "last w = last hex" using ws(1) [OF that] assms(2) by (auto simp: suffix_def)
        (metis last_appendR last_append append_is_Nil_conv last_ConsR)
    with ws(3) [OF that] assms show False by (simp add: list_all_iff)
  qed
  then have "strip_all (map rev utf8_whitespace) (rev ?s) = rev ?s" by (intro strip_all_id) auto
  then have "trim_end ?s = ?s" by (simp only: trim_end_def rev_rev_ident)
  with start show ?thesis by (simp add: trim_def)
qed

lemma device_token_valid:
  assumes "list_all is_lower_hex hex" "length hex = 64"
  shows "has_valid_device_token_format (DEVICE_TOKEN_PREFIX @ hex)"
    "trim (DEVICE_TOKEN_PREFIX @ hex) = DEVICE_TOKEN_PREFIX @ hex"
proof -
  show "has_valid_device_token_format (DEVICE_TOKEN_PREFIX @ hex)"
    using assms
    by (simp add: has_valid_device_token_format_def strip_prefix_def DEVICE_TOKEN_RANDOM_BYTES_def)
  have "hex \<noteq> []" using assms(2) by auto
  from trim_token [OF assms(1) this, of "''ft_''"]
  show "trim (DEVICE_TOKEN_PREFIX @ hex) = DEVICE_TOKEN_PREFIX @ hex"
    by (simp add: DEVICE_TOKEN_PREFIX_def)
qed

text \<open>
  A new installation can use its token: bootstrapping an unknown installation returns a
  token that authenticates the device just created, which is not linked to an account, and the
  session offers the full trial.
\<close>

theorem bootstrap_then_authenticate:
  assumes "list_all is_lower_hex hex" "length hex = 64"
    and "canonical inst = Some c" "\<forall>d \<in> set (lt_devices s). dev_installation_id_hash d \<noteq> sha c"
    and "\<forall>d \<in> set (lt_devices s). dev_token_hash d \<noteq> sha (DEVICE_TOKEN_PREFIX @ hex)"
    and "to_str header = Some (''Bearer '' @ DEVICE_TOKEN_PREFIX @ hex)"
    and "in_i32 now" "in_i32 (now + TRIAL_DURATION_SECONDS)" "reachable s"
  shows "\<exists>session s' d s''. bootstrap canonical sha hex inst None now s = (Inr session, s') \<and>
           bs_device_token session = DEVICE_TOKEN_PREFIX @ hex \<and> bs_can_send session \<and>
           bs_trial_messages_remaining session = TRIAL_MESSAGE_LIMIT \<and>
           authenticate_device to_str sha True True (Some header) now2 s' = (Inr d, s'') \<and>
           dev_id d = lt_next_device_id s \<and> dev_user_id d = None"
proof -
  let ?raw = "DEVICE_TOKEN_PREFIX @ hex"
  let ?d = "\<lparr>dev_id = lt_next_device_id s, dev_installation_id_hash = sha c, dev_token_hash = sha ?raw,
             dev_user_id = None, dev_trial_started_at = now, dev_trial_expires_at = now + TRIAL_DURATION_SECONDS,
             dev_trial_messages_used = 0, dev_last_seen_at = now, dev_revoked_at = None,
             dev_created_at = now, dev_updated_at = now\<rparr>"
  let ?s = "s\<lparr>lt_devices := lt_devices s @ [?d], lt_next_device_id := lt_next_device_id s + 1\<rparr>"
  have "bootstrap_new sha hex (sha c) now s = (Inr (?d, ?raw), ?s)"
    using assms(4,5,8)
    by (auto simp: bootstrap_new_def find_by_installation_hash_def sql_first_None generate_device_token_def
        devices_create_def Let_def)
  then have boot: "bootstrap canonical sha hex inst None now s = (Inr (bootstrap_view ?d ?raw now), ?s)"
    by (simp add: bootstrap_def hash_installation_id_def assms(3))
  have view: "bs_device_token (bootstrap_view ?d ?raw now) = ?raw \<and> bs_can_send (bootstrap_view ?d ?raw now) \<and>
      bs_trial_messages_remaining (bootstrap_view ?d ?raw now) = TRIAL_MESSAGE_LIMIT"
    by (simp add: bootstrap_view_def Let_def TRIAL_MESSAGE_LIMIT_def TRIAL_DURATION_SECONDS_def wrap_i32_range)
  have "sql_first (\<lambda>d. dev_token_hash d = sha ?raw \<and> dev_revoked_at d = None) (lt_devices s) = None"
    using assms(5) by (auto simp only: sql_first_None)
  then have find: "find_active_by_token_hash (sha ?raw) ?s = Some ?d"
    by (simp add: find_active_by_token_hash_def sql_first_append)
  have "\<forall>d \<in> set (lt_devices s). dev_id d < lt_next_device_id s"
    using reachable_inv [OF assms(9)] by (simp add: lt_inv_def devices_ok_def)
  then have "sql_first (\<lambda>d. dev_id d = lt_next_device_id s \<and> dev_revoked_at d = None) (lt_devices s) = None"
    by (auto simp only: sql_first_None)
  then have touch: "fst (update_last_seen_if_active (lt_next_device_id s) now2 ?s) =
      Some (?d\<lparr>dev_last_seen_at := now2, dev_updated_at := now2\<rparr>)"
    by (simp add: update_last_seen_if_active_def Let_def sql_update_get_first sql_first_append)
  have bearer: "optional_bearer to_str (Some header) = Inr (Some ?raw)"
    using device_token_valid [OF assms(1,2)] assms(6)
    by (simp add: optional_bearer_def strip_prefix_def DEVICE_TOKEN_PREFIX_def)
  have "\<exists>d s''. authenticate_device to_str sha True True (Some header) now2 ?s = (Inr d, s'')
          \<and> dev_id d = lt_next_device_id s \<and> dev_user_id d = None"
    using bearer find touch device_token_valid(1) [OF assms(1,2)]
    by (auto simp: authenticate_device_def hash_device_token_def split: prod.splits option.splits)
  with boot view show ?thesis by blast
qed

theorem bootstrap_then_authenticate_witness:
  "\<exists>session s' d s''. bootstrap Some (\<lambda>x. x) demo_hex ''i1'' None 1000 (empty_lt_store [7]) = (Inr session, s') \<and>
     authenticate_device Some (\<lambda>x. x) True True (Some (''Bearer '' @ demo_token)) 1500 s' = (Inr d, s'')"
proof -
  have hex: "list_all is_lower_hex demo_hex" "length demo_hex = 64" by code_simp+
  have times: "in_i32 1000" "in_i32 (1000 + TRIAL_DURATION_SECONDS)" by code_simp+
  from bootstrap_then_authenticate [OF hex, of Some "''i1''" "''i1''" "empty_lt_store [7]" "\<lambda>x. x" Some
      "''Bearer '' @ demo_token" 1000 1500] times reachable_empty
  show ?thesis by (auto simp: demo_token_def empty_lt_store_def)
qed

section \<open>Pairing\<close>

text \<open>
  A pairing token links at most one device: of any number of attempts to consume it, by
  any devices at any times, at most one links.
\<close>

theorem pairing_token_used_once:
  assumes "reachable s"
  shows "fst (grants (pairing_claim_of token_hash) attempts s) \<le> 1"
  using reachable_inv [OF assms] by (intro pairing_claim.at_most_once) (simp add: lt_inv_def sessions_ok_def)

definition demo_offer where
  "demo_offer = create_offer (\<lambda>x. x) demo_hex 7 2000"

definition demo_pairing_token :: string where
  "demo_pairing_token = generate_pairing_token demo_hex"

definition demo_store5 :: lt_store where
  "demo_store5 =
     demo_store1\<lparr>lt_sessions := [\<lparr>ps_user_id = 7, ps_token_hash = demo_pairing_token, ps_expires_at = 2300,
        ps_consumed_at = None, ps_consumed_by_device_id = None, ps_created_at = 2000\<rparr>]\<rparr>"

lemma demo_offer_store: "snd (demo_offer demo_store1) = demo_store5"
  by code_simp

lemma demo_reachable5: "reachable demo_store5"
proof -
  have "lt_step demo_store1 demo_store5"
    using do_create_offer [of demo_store1 "\<lambda>x. x" demo_hex 7 2000]
    by (simp add: demo_offer_store flip: demo_offer_def)
  then show ?thesis using demo_reachable1 by (blast intro: reachable_step)
qed

theorem pairing_token_used_once_witness:
  "fst (grants (pairing_claim_of demo_pairing_token) [(1, 2100), (1, 2101)] demo_store5) \<le> 1"
  by (rule pairing_token_used_once [OF demo_reachable5])

text \<open>
  Claim C8. Linking is sound: a device becomes linked only by an unexpired, unused token, only if it
  is active and was not linked, to the user who asked for the token; then the session records that
  device, and no other device and no run is changed.
\<close>

theorem pairing_links_soundly:
  assumes "reachable s" "consume token_hash dev now s = (Linked user True, s')"
  shows "\<exists>d q. d \<in> set (lt_devices s) \<and> dev_id d = dev \<and> dev_revoked_at d = None \<and> dev_user_id d = None \<and>
           q \<in> set (lt_sessions s) \<and> ps_token_hash q = token_hash \<and> ps_user_id q = user \<and>
           now < ps_expires_at q \<and> ps_consumed_at q = None \<and>
           set (lt_devices s') = insert (link_device_row user now d) (set (lt_devices s) - {d}) \<and>
           set (lt_sessions s') = insert (consume_session_row dev now q) (set (lt_sessions s) - {q}) \<and>
           lt_runs s' = lt_runs s"
proof (cases rule: consume_cases [of token_hash dev now s])
  case unchanged
  from unchanged(2) [of user] assms(2) show ?thesis by simp
next
  case (linked d q)
  from reachable_inv [OF assms(1)] have ids: "distinct (map dev_id (lt_devices s))"
    and users: "distinct (map ps_user_id (lt_sessions s))"
    by (simp_all add: lt_inv_def devices_ok_def sessions_ok_def)
  from assms(2) linked(9) have user: "ps_user_id q = user" by simp
  have "set (lt_devices s') = insert (link_device_row user now d) (set (lt_devices s) - {d})"
    using assms(2) linked(1,2,10) user set_update_unique [OF ids linked(1)] by simp
  moreover have "set (lt_sessions s') = insert (consume_session_row dev now q) (set (lt_sessions s) - {q})"
    using assms(2) linked(5,10) user set_update_unique [OF users linked(5)] by simp
  moreover have "lt_runs s' = lt_runs s" using assms(2) linked(10) by simp
  ultimately show ?thesis using linked(1-8) user by blast
qed

theorem pairing_links_soundly_witness:
  "\<exists>s'. consume demo_pairing_token 1 2100 demo_store5 = (Linked 7 True, s') \<and> lt_runs s' = []"
proof -
  have "fst (consume demo_pairing_token 1 2100 demo_store5) = Linked 7 True" by code_simp
  then have c: "consume demo_pairing_token 1 2100 demo_store5 =
      (Linked 7 True, snd (consume demo_pairing_token 1 2100 demo_store5))" by (metis prod.collapse)
  from pairing_links_soundly [OF demo_reachable5 c] have
    "lt_runs (snd (consume demo_pairing_token 1 2100 demo_store5)) = lt_runs demo_store5" by blast
  with c show ?thesis by (auto simp: demo_store5_def demo_store1_def empty_lt_store_def)
qed

text \<open>
  A new offer cancels the old one: once a user has asked for another pairing code, the
  token of the earlier code links no device and changes nothing.
\<close>

theorem new_offer_cancels_old:
  assumes "reachable s" "q \<in> set (lt_sessions s)"
    and "create_offer sha hex (ps_user_id q) now s = (Inr offer, s')"
    and "sha (generate_pairing_token hex) \<noteq> ps_token_hash q"
  shows "snd (consume (ps_token_hash q) dev now2 s') = s' \<and>
         fst (consume (ps_token_hash q) dev now2 s') \<in> {PairingInvalidOrExpired, PairingDeviceUnavailable}"
proof -
  from reachable_inv [OF assms(1)] have hashes: "distinct (map ps_token_hash (lt_sessions s))"
    by (simp add: lt_inv_def sessions_ok_def)
  from assms(3) obtain p where up: "upsert_for_user \<lparr>np_user_id = ps_user_id q,
        np_token_hash = sha (generate_pairing_token hex), np_expires_at = wrap_i32 (now + PAIRING_TTL_SECONDS),
        np_created_at = now\<rparr> s = (Inr p, s')"
    by (auto simp: create_offer_def Let_def split: prod.splits sum.splits)
  then have p: "ps_user_id p = ps_user_id q" "ps_token_hash p = sha (generate_pairing_token hex)"
    by (auto simp: upsert_for_user_def Let_def split: if_splits)
  have gone: "\<forall>x \<in> set (lt_sessions s'). ps_token_hash x \<noteq> ps_token_hash q"
    using up
  proof (cases rule: upsert_Inr)
    case replaced
    show ?thesis
    proof
      fix x
      assume "x \<in> set (lt_sessions s')"
      then show "ps_token_hash x \<noteq> ps_token_hash q"
        unfolding replaced(1)
        using p assms(2,4) hashes
        by (auto elim!: in_sql_updateE dest: distinct_map_eqD)
    qed
  next
    case added
    with p(1) assms(2) show ?thesis by auto
  qed
  then have "sql_first (\<lambda>x. ps_token_hash x = ps_token_hash q) (lt_sessions s') = None"
    by (simp only: sql_first_None)
  then show ?thesis by (simp add: consume_def split: option.split)
qed

theorem new_offer_cancels_old_witness:
  "fst (consume demo_pairing_token 1 2100 (snd (create_offer rev demo_hex 7 2050 demo_store5)))
     \<in> {PairingInvalidOrExpired, PairingDeviceUnavailable}"
proof -
  let ?q = "\<lparr>ps_user_id = 7, ps_token_hash = demo_pairing_token, ps_expires_at = 2300,
              ps_consumed_at = None, ps_consumed_by_device_id = None, ps_created_at = 2000\<rparr>"
  have q: "?q \<in> set (lt_sessions demo_store5)" by (simp add: demo_store5_def)
  have hash: "rev (generate_pairing_token demo_hex) \<noteq> ps_token_hash ?q" by code_simp
  obtain offer s' where offer: "create_offer rev demo_hex (ps_user_id ?q) 2050 demo_store5 = (Inr offer, s')"
  proof -
    have "\<not> isl (fst (create_offer rev demo_hex 7 2050 demo_store5))" by code_simp
    then show thesis
      by (cases "create_offer rev demo_hex 7 2050 demo_store5"; cases "fst (create_offer rev demo_hex 7 2050 demo_store5)")
        (auto intro: that)
  qed
  from new_offer_cancels_old [OF demo_reachable5 q offer hash, of 1 2100] offer show ?thesis by simp
qed

lemma pairing_token_valid:
  "list_all is_lower_hex hex \<Longrightarrow> length hex = 64 \<Longrightarrow> has_valid_pairing_token (generate_pairing_token hex)"
  by (simp add: has_valid_pairing_token_def generate_pairing_token_def strip_prefix_def
      PAIRING_TOKEN_RANDOM_BYTES_def)

text \<open>
  A pairing code works: the link offered to a user, opened on an active device that is
  not linked yet within the five minutes, links that device to that user. \<open>parse_url\<close> is assumed to
  parse the one link text as the URL it is.
\<close>

theorem pairing_code_links:
  assumes "list_all is_lower_hex hex" "length hex = 64"
    and url: "parse_url (PAIRING_SCHEME @ ''://'' @ PAIRING_HOST @ ''?token='' @ generate_pairing_token hex) =
           Some \<lparr>url_scheme = PAIRING_SCHEME, url_host = Some PAIRING_HOST, url_path = '''', url_fragment = None,
                 url_query_pairs = [(''token'', generate_pairing_token hex)], url_username = '''', url_password = None\<rparr>"
    and user: "user \<in> set (lt_user_ids s)"
    and fresh: "\<forall>q \<in> set (lt_sessions s). ps_token_hash q \<noteq> sha (generate_pairing_token hex)"
    and device: "find_active_device dev s = Some d" "dev_user_id d = None"
    and time: "now2 < wrap_i32 (now + PAIRING_TTL_SECONDS)"
  shows "\<exists>offer s'. create_offer sha hex user now s = (Inr offer, s') \<and>
           fst (consume_uri parse_url sha (offer_pairing_uri offer) dev now2 s') = Inr (Linked user True)"
proof -
  let ?raw = "generate_pairing_token hex"
  let ?q = "\<lparr>ps_user_id = user, ps_token_hash = sha ?raw, ps_expires_at = wrap_i32 (now + PAIRING_TTL_SECONDS),
             ps_consumed_at = None, ps_consumed_by_device_id = None, ps_created_at = now\<rparr>"
  let ?np = "\<lparr>np_user_id = user, np_token_hash = sha ?raw, np_expires_at = wrap_i32 (now + PAIRING_TTL_SECONDS),
              np_created_at = now\<rparr>"
  have "fst (upsert_for_user ?np s) = Inr ?q"
    using user fresh by (simp add: upsert_for_user_def Let_def)
  then obtain s' where up: "upsert_for_user ?np s = (Inr ?q, s')" by (metis prod.collapse)
  let ?offer = "\<lparr>offer_pairing_uri = PAIRING_SCHEME @ ''://'' @ PAIRING_HOST @ ''?token='' @ ?raw,
                 offer_expires_at = wrap_i32 (now + PAIRING_TTL_SECONDS)\<rparr>"
  from up have offer: "create_offer sha hex user now s = (Inr ?offer, s')"
    by (simp add: create_offer_def Let_def)
  have "?q \<in> set (lt_sessions s') \<and> (\<forall>x \<in> set (lt_sessions s'). ps_token_hash x = sha ?raw \<longrightarrow> x = ?q)"
    using up fresh
    by (auto simp: upsert_for_user_def Let_def set_sql_update split: if_splits)
  then have "sql_first (\<lambda>x. ps_token_hash x = sha ?raw) (lt_sessions s') = Some ?q"
    by (cases "sql_first (\<lambda>x. ps_token_hash x = sha ?raw) (lt_sessions s')")
      (auto simp: sql_first_None dest!: sql_first_Some)
  moreover have "find_active_device dev s' = Some d"
    using device(1) upsert_keeps(1) [OF up] by (simp add: find_active_device_def)
  ultimately have "fst (consume (sha ?raw) dev now2 s') = Linked user True"
    using device(2) time by (simp add: consume_def)
  moreover have "pairing_token_from_uri parse_url (offer_pairing_uri ?offer) = Inr ?raw"
    using pairing_token_valid [OF assms(1,2)]
    unfolding pairing_token_from_uri_def pairing_offer.select_convs url by simp
  ultimately have "fst (consume_uri parse_url sha (offer_pairing_uri ?offer) dev now2 s') = Inr (Linked user True)"
    by (auto simp: consume_uri_def split: prod.split)
  with offer show ?thesis by blast
qed

theorem pairing_code_links_witness:
  "\<exists>offer s'. create_offer (\<lambda>x. x) demo_hex 7 2000 demo_store1 = (Inr offer, s') \<and>
     fst (consume_uri (\<lambda>u. Some \<lparr>url_scheme = PAIRING_SCHEME, url_host = Some PAIRING_HOST, url_path = '''',
            url_fragment = None, url_query_pairs = [(''token'', demo_pairing_token)], url_username = '''',
            url_password = None\<rparr>)
          (\<lambda>x. x) (offer_pairing_uri offer) 1 2100 s') = Inr (Linked 7 True)"
proof -
  have hex: "list_all is_lower_hex demo_hex" "length demo_hex = 64" by code_simp+
  have time: "2100 < wrap_i32 (2000 + PAIRING_TTL_SECONDS)" by code_simp
  have dev: "find_active_device 1 demo_store1 = Some demo_device" "dev_user_id demo_device = None" by code_simp+
  show ?thesis
    by (rule pairing_code_links [OF hex _ _ _ dev time])
      (simp_all add: demo_pairing_token_def demo_store1_def empty_lt_store_def)
qed

text \<open>
  The pairing status is true: a user who is shown as connected has a linked device.
\<close>

theorem connected_status_true:
  assumes "reachable s" "status_for_user user now s = PairingConnected"
  shows "\<exists>d \<in> set (lt_devices s). dev_user_id d = Some user"
proof (cases "has_active_device_for_user user s")
  case True
  then show ?thesis by (auto simp: has_active_device_for_user_def dest: sql_first_Some)
next
  case False
  with assms(2) obtain q where q: "find_for_user user s = Some q" "ps_consumed_at q \<noteq> None"
    by (auto simp: status_for_user_def split: option.splits if_splits)
  from q(1) have "q \<in> set (lt_sessions s)" "ps_user_id q = user"
    by (auto simp: find_for_user_def dest: sql_first_Some)
  with reachable_inv [OF assms(1)] have "session_linked (lt_devices s) q"
    by (simp add: lt_inv_def sessions_ok_def)
  with q(2) \<open>ps_user_id q = user\<close> show ?thesis
    by (auto simp: session_linked_def split: option.splits)
qed

theorem connected_status_true_witness:
  "\<exists>d \<in> set (lt_devices (snd (consume demo_pairing_token 1 2100 demo_store5))). dev_user_id d = Some 7"
proof (rule connected_status_true)
  have "lt_step demo_store5 (snd (consume_uri (\<lambda>u. Some \<lparr>url_scheme = PAIRING_SCHEME, url_host = Some PAIRING_HOST,
            url_path = '''', url_fragment = None, url_query_pairs = [(''token'', demo_pairing_token)],
            url_username = '''', url_password = None\<rparr>) (\<lambda>x. x) [] 1 2100 demo_store5))"
    by (rule do_consume_uri)
  moreover have "snd (consume_uri (\<lambda>u. Some \<lparr>url_scheme = PAIRING_SCHEME, url_host = Some PAIRING_HOST,
            url_path = '''', url_fragment = None, url_query_pairs = [(''token'', demo_pairing_token)],
            url_username = '''', url_password = None\<rparr>) (\<lambda>x. x) [] 1 2100 demo_store5) =
      snd (consume demo_pairing_token 1 2100 demo_store5)"
    by code_simp
  ultimately have "lt_steps demo_store5 (snd (consume demo_pairing_token 1 2100 demo_store5))" by auto
  with demo_reachable5 show "reachable (snd (consume demo_pairing_token 1 2100 demo_store5))"
    by (rule reachable_step)
  show "status_for_user 7 2200 (snd (consume demo_pairing_token 1 2100 demo_store5)) = PairingConnected"
    by code_simp
qed

end
