(* ===== verification/LT_PushProperties.thy ===== *)
theory LT_PushProperties
  imports LT_Demo
begin

text \<open>The properties of push notifications and of the supervisor, each followed by its witness.\<close>

section \<open>The outbox\<close>

definition outbox_due :: "(i32 \<Rightarrow> bool) \<Rightarrow> i32 \<Rightarrow> light_tool_push_outbox_event \<Rightarrow> bool" where
  "outbox_due locked now e \<longleftrightarrow>
     ev_next_attempt_at e \<le> now \<and> ev_lease_until e \<le> now \<and> \<not> locked (ev_device_id e)"

lemma claim_due_ids:
  obtains ids where "set ids \<subseteq> ev_device_id ` {e \<in> set (lt_outbox s). outbox_due locked now e}"
    "length ids \<le> limit"
    "claim_due locked now lease limit s =
       (map (\<lambda>e. e\<lparr>ev_lease_until := lease\<rparr>) (filter (\<lambda>e. ev_device_id e \<in> set ids) (lt_outbox s)),
        s\<lparr>lt_outbox := sql_update (\<lambda>e. ev_device_id e \<in> set ids) (\<lambda>e. e\<lparr>ev_lease_until := lease\<rparr>) (lt_outbox s)\<rparr>)"
proof -
  let ?due = "order_asc (\<lambda>e. (ev_next_attempt_at e, ev_device_id e))
      (sql_select (\<lambda>e. ev_next_attempt_at e \<le> now \<and> ev_lease_until e \<le> now \<and> \<not> locked (ev_device_id e)) (lt_outbox s))"
  define ids where "ids = map ev_device_id (take limit ?due)"
  have claim: "claim_due locked now lease limit s =
     (if ids = [] then ([], s)
      else (map (\<lambda>e. e\<lparr>ev_lease_until := lease\<rparr>) (filter (\<lambda>e. ev_device_id e \<in> set ids) (lt_outbox s)),
            s\<lparr>lt_outbox := sql_update (\<lambda>e. ev_device_id e \<in> set ids) (\<lambda>e. e\<lparr>ev_lease_until := lease\<rparr>) (lt_outbox s)\<rparr>))"
    by (simp only: claim_due_def Let_def sql_updated_def ids_def)
  show thesis
  proof (rule that [of ids])
    have "set ids \<subseteq> ev_device_id ` set ?due" unfolding ids_def using set_take_subset by fastforce
    then show "set ids \<subseteq> ev_device_id ` {e \<in> set (lt_outbox s). outbox_due locked now e}"
      by (simp add: outbox_due_def)
    show "length ids \<le> limit" by (simp add: ids_def)
    show "claim_due locked now lease limit s =
       (map (\<lambda>e. e\<lparr>ev_lease_until := lease\<rparr>) (filter (\<lambda>e. ev_device_id e \<in> set ids) (lt_outbox s)),
        s\<lparr>lt_outbox := sql_update (\<lambda>e. ev_device_id e \<in> set ids) (\<lambda>e. e\<lparr>ev_lease_until := lease\<rparr>) (lt_outbox s)\<rparr>)"
      by (cases "ids = []") (simp_all add: claim sql_update_none)
  qed
qed

lemma filter_ids_length:
  assumes "distinct (map g t)"
  shows "length (filter (\<lambda>e. g e \<in> set ids) t) \<le> length ids"
proof -
  have "distinct (map g (filter (\<lambda>e. g e \<in> set ids) t))" using assms by (simp add: distinct_map inj_on_def)
  then have "length (filter (\<lambda>e. g e \<in> set ids) t) = card (g ` set (filter (\<lambda>e. g e \<in> set ids) t))"
    by (metis distinct_card length_map set_map)
  also have "\<dots> \<le> card (set ids)" by (intro card_mono) auto
  also have "\<dots> \<le> length ids" by (rule card_length)
  finally show ?thesis .
qed

text \<open>
  Leases exclude: a claim takes at most its batch of events, all of them due and not
  locked, and until the lease runs out a second worker that claims takes none of them.
\<close>

theorem claims_exclude_each_other:
  assumes "reachable s" "claim_due locked now lease limit s = (events, s1)" "now2 < lease"
  shows "length events \<le> limit \<and>
         ev_device_id ` set events \<subseteq> ev_device_id ` {e \<in> set (lt_outbox s). outbox_due locked now e} \<and>
         ev_device_id ` set events \<inter> ev_device_id ` set (fst (claim_due locked2 now2 lease2 limit2 s1)) = {}"
proof -
  obtain ids where ids: "set ids \<subseteq> ev_device_id ` {e \<in> set (lt_outbox s). outbox_due locked now e}" "length ids \<le> limit"
    and claim: "claim_due locked now lease limit s =
       (map (\<lambda>e. e\<lparr>ev_lease_until := lease\<rparr>) (filter (\<lambda>e. ev_device_id e \<in> set ids) (lt_outbox s)),
        s\<lparr>lt_outbox := sql_update (\<lambda>e. ev_device_id e \<in> set ids) (\<lambda>e. e\<lparr>ev_lease_until := lease\<rparr>) (lt_outbox s)\<rparr>)"
    by (rule claim_due_ids)
  obtain ids2 where ids2: "set ids2 \<subseteq> ev_device_id ` {e \<in> set (lt_outbox s1). outbox_due locked2 now2 e}"
    and claim2: "claim_due locked2 now2 lease2 limit2 s1 =
       (map (\<lambda>e. e\<lparr>ev_lease_until := lease2\<rparr>) (filter (\<lambda>e. ev_device_id e \<in> set ids2) (lt_outbox s1)),
        s1\<lparr>lt_outbox := sql_update (\<lambda>e. ev_device_id e \<in> set ids2) (\<lambda>e. e\<lparr>ev_lease_until := lease2\<rparr>) (lt_outbox s1)\<rparr>)"
    by (rule claim_due_ids)
  have events: "events = map (\<lambda>e. e\<lparr>ev_lease_until := lease\<rparr>) (filter (\<lambda>e. ev_device_id e \<in> set ids) (lt_outbox s))"
    and s1: "lt_outbox s1 = sql_update (\<lambda>e. ev_device_id e \<in> set ids) (\<lambda>e. e\<lparr>ev_lease_until := lease\<rparr>) (lt_outbox s)"
    using assms(2) claim by auto
  have "distinct (map ev_device_id (lt_outbox s))"
    using reachable_inv [OF assms(1)] by (simp add: lt_inv_def push_ok_def)
  from filter_ids_length [OF this] ids(2) have "length events \<le> limit"
    unfolding events by (metis length_map order.trans)
  moreover have taken: "ev_device_id ` set events \<subseteq> set ids" by (auto simp: events)
  moreover have "set ids \<inter> set ids2 = {}"
  proof -
    have "ev_device_id e \<notin> set ids" if "e \<in> set (lt_outbox s1)" "outbox_due locked2 now2 e" for e
      using that(1) unfolding s1
      by (cases rule: in_sql_updateE) (use that(2) assms(3) in \<open>auto simp: outbox_due_def\<close>)
    with ids2 show ?thesis by blast
  qed
  moreover have "ev_device_id ` set (fst (claim_due locked2 now2 lease2 limit2 s1)) \<subseteq> set ids2"
    by (auto simp: claim2)
  ultimately show ?thesis using ids(1) by blast
qed

definition demo_store6 :: lt_store where
  "demo_store6 =
     demo_store1\<lparr>lt_outbox := [\<lparr>ev_device_id = 1, ev_event_type = ''conversation_changed'', ev_version = 1,
        ev_attempt_count = 0, ev_next_attempt_at = 3000, ev_lease_until = 0, ev_created_at = 3000,
        ev_updated_at = 3000\<rparr>]\<rparr>"

lemma demo_enqueue_store: "snd (enqueue_conversation_changed 1 3000 demo_store1) = demo_store6"
  by code_simp

lemma demo_reachable6: "reachable demo_store6"
proof -
  have "lt_step demo_store1 demo_store6"
    using do_enqueue [of demo_store1 1 3000] by (simp add: demo_enqueue_store)
  then show ?thesis using demo_reachable1 by (blast intro: reachable_step)
qed

theorem claims_exclude_each_other_witness:
  "1 \<notin> ev_device_id ` set (fst (claim_due (\<lambda>d. False) 3119 3300 50 (snd (claim_due (\<lambda>d. False) 3000 3120 50 demo_store6))))"
proof -
  let ?c = "claim_due (\<lambda>d. False) 3000 3120 50 demo_store6"
  have "1 \<in> set (map ev_device_id (fst ?c))" by code_simp
  then have "1 \<in> ev_device_id ` set (fst ?c)" by (simp only: set_map)
  with claims_exclude_each_other [OF demo_reachable6, of "\<lambda>d. False" 3000 3120 50 "fst ?c" "snd ?c" 3119 "\<lambda>d. False" 3300 50]
  show ?thesis by auto
qed

lemma outbox_row:
  assumes "lt_inv s" "e \<in> set (lt_outbox s)" "e' \<in> set (lt_outbox s)" "ev_device_id e' = ev_device_id e"
  shows "e' = e"
proof -
  have "distinct (map ev_device_id (lt_outbox s))" using assms(1) by (simp add: lt_inv_def push_ok_def)
  then show ?thesis using assms(3,2,4) by (rule distinct_map_eqD)
qed

lemma enqueue_existing:
  assumes "e \<in> set (lt_outbox s)"
  shows "snd (enqueue_conversation_changed (ev_device_id e) now s) =
           s\<lparr>lt_outbox := sql_update (\<lambda>x. ev_device_id x = ev_device_id e) (bump_version_row now) (lt_outbox s)\<rparr>"
proof (cases "sql_update_get (\<lambda>x. ev_device_id x = ev_device_id e) (bump_version_row now) (lt_outbox s)")
  case None
  then have False unfolding sql_update_get_None using assms by blast
  then show ?thesis ..
next
  case (Some x)
  then show ?thesis by (simp add: enqueue_conversation_changed_def)
qed

text \<open>
  Claim C11. A notification that arrives while an older one is being delivered is not lost: the
  worker that finishes the older version does not remove the event, whose version has moved on.
\<close>

theorem newer_notification_survives:
  assumes "reachable s" "e \<in> set (lt_outbox s)"
  shows "outbox_complete (ev_device_id e) (ev_version e) (snd (enqueue_conversation_changed (ev_device_id e) now s)) =
           (False, snd (enqueue_conversation_changed (ev_device_id e) now s)) \<and>
         bump_version_row now e \<in> set (lt_outbox (snd (enqueue_conversation_changed (ev_device_id e) now s)))"
proof -
  let ?t = "sql_update (\<lambda>x. ev_device_id x = ev_device_id e) (bump_version_row now) (lt_outbox s)"
  have "\<not> (ev_device_id x = ev_device_id e \<and> ev_version x = ev_version e)" if "x \<in> set ?t" for x
    using that
  proof (cases rule: in_sql_updateE)
    case (changed q)
    with outbox_row [OF reachable_inv [OF assms(1)] assms(2)] have "q = e" by blast
    with changed show ?thesis by (simp add: bump_version_row_def)
  qed simp
  then have none: "\<forall>x \<in> set ?t. \<not> (ev_device_id x = ev_device_id e \<and> ev_version x = ev_version e)" by blast
  then have "sql_count (\<lambda>x. ev_device_id x = ev_device_id e \<and> ev_version x = ev_version e) ?t = 0"
    by (simp only: sql_count_0)
  moreover have "sql_delete (\<lambda>x. ev_device_id x = ev_device_id e \<and> ev_version x = ev_version e) ?t = ?t"
    unfolding sql_delete_def using none by (simp add: filter_id_conv)
  moreover have "bump_version_row now e \<in> set ?t" using assms(2) by (simp add: sql_update_memI)
  ultimately show ?thesis by (simp add: enqueue_existing [OF assms(2)] outbox_complete_def Let_def)
qed

theorem newer_notification_survives_witness:
  "fst (outbox_complete 1 1 (snd (enqueue_conversation_changed 1 3050 demo_store6))) = False"
  using newer_notification_survives [OF demo_reachable6, of "hd (lt_outbox demo_store6)" 3050]
  by (simp add: demo_store6_def)



section \<open>Delivery\<close>

lemma retry_base:
  assumes "base \<in> {5, 15, 60, 300, 900 :: int}"
  shows "5 \<le> sat_i32 (base + \<bar>seed\<bar> mod max 1 (base sdiv 5)) \<and> sat_i32 (base + \<bar>seed\<bar> mod max 1 (base sdiv 5)) \<le> 1079"
proof -
  have range: "max 1 (base sdiv 5) \<in> {1, 3, 12, 60, 180}" using assms by (auto simp: signed_divide_int_def)
  then have "0 \<le> \<bar>seed\<bar> mod max 1 (base sdiv 5)" "\<bar>seed\<bar> mod max 1 (base sdiv 5) < max 1 (base sdiv 5)"
    by (auto intro: pos_mod_sign pos_mod_bound)
  with assms range show ?thesis
    by (auto simp: sat_i32_def i32_min_def i32_max_def signed_divide_int_def)
qed

text \<open>
  Retries are paced: whatever the device, version and attempt count, a failed delivery is
  retried no sooner than 5 and no later than 1079 seconds later; the delay never overflows.
\<close>

theorem retry_delay_bounds:
  "5 \<le> retry_delay_seconds device version attempts \<and> retry_delay_seconds device version attempts \<le> 1079"
proof -
  define index where "index = (if attempts < 0 then 4 else min (nat attempts) 4)"
  have "index \<le> 4" by (simp add: index_def)
  then have "index = 0 \<or> index = 1 \<or> index = 2 \<or> index = 3 \<or> index = 4" by linarith
  then have base: "RETRY_DELAYS_SECONDS ! index \<in> {5, 15, 60, 300, 900}"
    by (auto simp: RETRY_DELAYS_SECONDS_def)
  have "length RETRY_DELAYS_SECONDS - 1 = 4" by (simp add: RETRY_DELAYS_SECONDS_def)
  then show ?thesis
    using retry_base [OF base] by (simp add: retry_delay_seconds_def Let_def index_def)
qed

text \<open>
  Processing an event that a worker holds ends in one of two ways. If the device was
  notified, had no endpoint, or its endpoint was gone, exactly that event is removed. If delivery
  failed, exactly that event stays with one more attempt, due after the retry delay and free of its
  lease, so it will be claimed again.
\<close>

theorem event_removed_or_retried:
  assumes "reachable s" "e \<in> set (lt_outbox s)" "ev_event_type e = CONVERSATION_CHANGED_EVENT"
    and "deliver (ev_device_id e) s = (result, s')" "lt_outbox s' = lt_outbox s"
  shows "set (lt_outbox (process_event deliver now e s)) =
           (if isl result
            then insert (retry_row (sat_i32 (now + retry_delay_seconds (ev_device_id e) (ev_version e) (ev_attempt_count e)))
                           now e) (set (lt_outbox s) - {e})
            else set (lt_outbox s) - {e})"
proof -
  have only: "(ev_device_id x = ev_device_id e \<and> ev_version x = ev_version e) \<longleftrightarrow> x = e"
    if "x \<in> set (lt_outbox s)" for x
    using outbox_row [OF reachable_inv [OF assms(1)] assms(2) that] by blast
  show ?thesis
  proof (cases result)
    case (Inr r)
    with assms(3-5) only show ?thesis by (auto simp: process_event_def outbox_complete_def Let_def)
  next
    case (Inl err)
    let ?f = "retry_row (sat_i32 (now + retry_delay_seconds (ev_device_id e) (ev_version e) (ev_attempt_count e))) now"
    have "sql_update (\<lambda>x. ev_device_id x = ev_device_id e \<and> ev_version x = ev_version e) ?f (lt_outbox s) =
          sql_update (\<lambda>x. ev_device_id x = ev_device_id e) ?f (lt_outbox s)"
      unfolding sql_update_def using outbox_row [OF reachable_inv [OF assms(1)] assms(2)] by (intro map_cong) auto
    moreover have "distinct (map ev_device_id (lt_outbox s))"
      using reachable_inv [OF assms(1)] by (simp add: lt_inv_def push_ok_def)
    ultimately show ?thesis
      using Inl assms(2-5) set_update_unique [of ev_device_id "lt_outbox s" e ?f]
      by (simp add: process_event_def schedule_retry_def Let_def)
  qed
qed

theorem event_removed_or_retried_witness:
  "set (lt_outbox (process_event (\<lambda>dev s. (Inr Delivered, s)) 3001 (hd (lt_outbox demo_store6)) demo_store6)) = {}
   \<and> hd (lt_outbox demo_store6) \<in> set (lt_outbox demo_store6)"
proof -
  have "hd (lt_outbox demo_store6) \<in> set (lt_outbox demo_store6)"
    "ev_event_type (hd (lt_outbox demo_store6)) = CONVERSATION_CHANGED_EVENT"
    by (simp_all add: demo_store6_def CONVERSATION_CHANGED_EVENT_def)
  with event_removed_or_retried [OF demo_reachable6 this, of "\<lambda>dev s. (Inr Delivered, s)" "Inr Delivered" demo_store6 3001]
  show ?thesis by (simp add: demo_store6_def)
qed

lemma validate_release:
  assumes "validate_destination False parse_url hosts endpoint = Inr ()"
  shows "\<exists>url host. parse_url endpoint = Some url \<and> url_host url = Some host \<and> canonical_host host \<in> hosts \<and>
           url_scheme url = ''https'' \<and> url_username url = '''' \<and> url_password url = None \<and> url_fragment url = None"
  using assms by (auto simp: validate_destination_def Let_def split: option.splits if_splits)

text \<open>
  Requests go only to allowed hosts: in a release build, whatever the server would answer,
  the outcome of a delivery depends on it only if the registered endpoint is an https URL without
  credentials or fragment whose canonical host is on the allow-list. Otherwise nothing is posted.
\<close>

theorem posts_only_to_allowed_hosts:
  assumes "send_conversation_changed cr False parse_url hosts post dev s
             \<noteq> send_conversation_changed cr False parse_url hosts post' dev s"
  shows "\<exists>registration url host. registration_find_for_device cr dev s = Inr (Some registration) \<and>
           parse_url (prr_endpoint registration) = Some url \<and> url_host url = Some host \<and>
           canonical_host host \<in> hosts \<and> url_scheme url = ''https'' \<and> url_username url = '''' \<and>
           url_password url = None \<and> url_fragment url = None"
proof -
  from assms obtain registration where r: "registration_find_for_device cr dev s = Inr (Some registration)"
    by (auto simp: send_conversation_changed_def split: sum.splits option.splits)
  with assms have "validate_destination False parse_url hosts (prr_endpoint registration) = Inr ()"
    by (cases "validate_destination False parse_url hosts (prr_endpoint registration)")
      (simp_all add: send_conversation_changed_def)
  from validate_release [OF this] r show ?thesis by blast
qed

definition demo_store7 :: lt_store where
  "demo_store7 = snd (registration_upsert demo_crypto (\<lambda>x. x) demo_nonce 1 ''https://ntfy.sh/x'' 3000 demo_store6)"

definition demo_url :: "string \<Rightarrow> url option" where
  "demo_url u = Some \<lparr>url_scheme = ''https'', url_host = Some ''Ntfy.sh.'', url_path = ''/x'', url_fragment = None,
                      url_query_pairs = [], url_username = '''', url_password = None\<rparr>"

theorem posts_only_to_allowed_hosts_witness:
  "\<exists>registration url host. registration_find_for_device demo_crypto 1 demo_store7 = Inr (Some registration) \<and>
     demo_url (prr_endpoint registration) = Some url \<and> url_host url = Some host \<and> canonical_host host \<in> {''ntfy.sh''}"
proof -
  have "fst (send_conversation_changed demo_crypto False demo_url {''ntfy.sh''} (\<lambda>u. Some 200) 1 demo_store7) = Inr Delivered"
    "fst (send_conversation_changed demo_crypto False demo_url {''ntfy.sh''} (\<lambda>u. Some 503) 1 demo_store7) = Inl (HttpStatus 503)"
    by code_simp+
  then have "send_conversation_changed demo_crypto False demo_url {''ntfy.sh''} (\<lambda>u. Some 200) 1 demo_store7 \<noteq>
        send_conversation_changed demo_crypto False demo_url {''ntfy.sh''} (\<lambda>u. Some 503) 1 demo_store7"
    by auto
  from posts_only_to_allowed_hosts [OF this] show ?thesis by blast
qed

section \<open>The supervisor\<close>

lemma enqueue_push_has:
  assumes "dev \<in> dev_id ` set (lt_devices s)"
  shows "dev \<in> ev_device_id ` set (lt_outbox (enqueue_push now dev s))"
proof (cases "sql_update_get (\<lambda>e. ev_device_id e = dev) (bump_version_row now) (lt_outbox s)")
  case None
  with assms show ?thesis by (simp add: enqueue_push_def enqueue_conversation_changed_def Let_def)
next
  case (Some e)
  then obtain q where "q \<in> set (lt_outbox s)" "ev_device_id q = dev" by (auto dest: sql_update_get_Some)
  then have "bump_version_row now q \<in> set (sql_update (\<lambda>e. ev_device_id e = dev) (bump_version_row now) (lt_outbox s))"
    by (simp add: sql_update_memI)
  moreover from \<open>ev_device_id q = dev\<close> have "ev_device_id (bump_version_row now q) = dev"
    by (simp add: bump_version_row_def)
  ultimately show ?thesis using Some by (force simp: enqueue_push_def enqueue_conversation_changed_def)
qed

lemma enqueue_push_keeps:
  "lt_devices (enqueue_push now dev s) = lt_devices s" "lt_runs (enqueue_push now dev s) = lt_runs s"
  "ev_device_id ` set (lt_outbox s) \<subseteq> ev_device_id ` set (lt_outbox (enqueue_push now dev s))"
proof -
  have "ev_device_id ` set (sql_update p (bump_version_row now) t) = ev_device_id ` set t" for p t
    using map_sql_update [of p ev_device_id "bump_version_row now" t]
    by (simp add: bump_version_row_def) (metis set_map)
  then show "lt_devices (enqueue_push now dev s) = lt_devices s" "lt_runs (enqueue_push now dev s) = lt_runs s"
    "ev_device_id ` set (lt_outbox s) \<subseteq> ev_device_id ` set (lt_outbox (enqueue_push now dev s))"
    by (auto simp: enqueue_push_def enqueue_conversation_changed_def Let_def split: option.split)
qed

lemma enqueue_pushes:
  assumes "set devs \<subseteq> dev_id ` set (lt_devices s)"
  shows "lt_devices (fold (enqueue_push now) devs s) = lt_devices s \<and> lt_runs (fold (enqueue_push now) devs s) = lt_runs s \<and>
         ev_device_id ` set (lt_outbox s) \<union> set devs \<subseteq> ev_device_id ` set (lt_outbox (fold (enqueue_push now) devs s))"
  using assms
proof (induction devs arbitrary: s)
  case (Cons dev devs)
  then have "set devs \<subseteq> dev_id ` set (lt_devices (enqueue_push now dev s))" by (simp add: enqueue_push_keeps)
  note IH = Cons.IH [OF this]
  have "dev \<in> ev_device_id ` set (lt_outbox (enqueue_push now dev s))" using Cons.prems by (simp add: enqueue_push_has)
  with IH enqueue_push_keeps [where now = now and dev = dev and s = s] show ?case by auto
qed simp

text \<open>
  Nobody waits in vain: when the supervisor gives up on runs that have stalled for fifteen
  minutes, they are failed and the device of each has a notification waiting in the outbox; the runs
  it hands out for execution are queued, at most a hundred.
\<close>

theorem stalled_runs_are_reported:
  assumes "reachable s" "supervise_once coll cr nonce now push_now s = (Inr queued, s')"
    and "r \<in> set (lt_runs s)" "run_status r = Running"
    and "run_updated_at r \<le> wrap_i32 (now - STALE_RUNNING_AFTER_SECONDS)"
  shows "list_ex (\<lambda>x. run_id x = run_id r \<and> run_status x = Failed) (lt_runs s') \<and>
         run_device_id r \<in> ev_device_id ` set (lt_outbox s') \<and> length queued \<le> QUEUED_BATCH_SIZE \<and>
         set queued \<subseteq> (\<lambda>x. (run_id x, run_device_id x)) ` {x \<in> set (lt_runs s'). run_status x = Queued}"
proof -
  let ?p = "\<lambda>r. run_status r = Running \<and> run_updated_at r \<le> wrap_i32 (now - STALE_RUNNING_AFTER_SECONDS)"
  from assms(2) obtain enc where enc: "encrypt cr nonce INTERRUPTED_ERROR = Inr enc"
    by (auto simp: supervise_once_def fail_stale_running_runs_def split: sum.splits prod.splits)
  let ?s1 = "s\<lparr>lt_runs := sql_update ?p (fail_row enc now) (lt_runs s)\<rparr>"
  let ?devs = "remdups (map snd (map (\<lambda>r. (run_id r, run_device_id r)) (sql_updated ?p (fail_row enc now) (lt_runs s))))"
  from assms(2) enc have s': "s' = fold (enqueue_push push_now) ?devs ?s1"
    and queued: "queued = find_queued_run_ids coll QUEUED_BATCH_SIZE ?s1"
    by (auto simp: supervise_once_def fail_stale_running_runs_def Let_def)
  have "set ?devs \<subseteq> dev_id ` set (lt_devices ?s1)"
    using reachable_inv [OF assms(1)] by (auto simp: lt_inv_def runs_ok_def sql_updated_def fail_row_def)
  from enqueue_pushes [OF this, of push_now]
  have runs: "lt_runs s' = sql_update ?p (fail_row enc now) (lt_runs s)"
    and events: "set ?devs \<subseteq> ev_device_id ` set (lt_outbox s')" by (simp_all add: s')
  have "fail_row enc now r \<in> set (lt_runs s')" using assms(3-5) by (simp add: runs sql_update_memI)
  moreover have "run_id (fail_row enc now r) = run_id r" "run_status (fail_row enc now r) = Failed"
    by (simp_all add: fail_row_def)
  ultimately have "list_ex (\<lambda>x. run_id x = run_id r \<and> run_status x = Failed) (lt_runs s')"
    unfolding list_ex_iff by blast
  moreover have "run_device_id r \<in> set ?devs"
    using assms(3-5) by (force simp: sql_updated_def fail_row_def)
  moreover have "length queued \<le> QUEUED_BATCH_SIZE" by (simp add: queued find_queued_run_ids_def)
  moreover have "set queued \<subseteq> (\<lambda>x. (run_id x, run_device_id x)) ` {x \<in> set (lt_runs s'). run_status x = Queued}"
    using set_take_subset by (fastforce simp: queued find_queued_run_ids_def runs)
  ultimately show ?thesis using events by blast
qed

theorem stalled_runs_are_reported_witness:
  "1 \<in> ev_device_id ` set (lt_outbox (snd (supervise_once (\<lambda>x. length x) demo_crypto demo_nonce 3000 3001 demo_store3)))"
proof -
  let ?r = "hd (lt_runs demo_store3)"
  let ?o = "supervise_once (\<lambda>x. length x) demo_crypto demo_nonce 3000 3001 demo_store3"
  have r: "?r \<in> set (lt_runs demo_store3)" "run_status ?r = Running"
    "run_updated_at ?r \<le> wrap_i32 (3000 - STALE_RUNNING_AFTER_SECONDS)" "run_device_id ?r = 1"
    by (simp_all add: demo_store3_def demo_store2_def demo_run_def STALE_RUNNING_AFTER_SECONDS_def wrap_i32_range)
  have "fst ?o = Inr []" by code_simp
  then have "?o = (Inr [], snd ?o)" by (metis prod.collapse)
  from stalled_runs_are_reported [OF demo_reachable3 this r(1-3)] r(4) show ?thesis by simp
qed

end
