(* ===== verification/LT_Handlers.thy ===== *)
theory LT_Handlers
  imports LT_Push
begin

text \<open>
  The HTTP handlers of the Light Tool (\<^verbatim>\<open>handlers/light_tool_handlers.rs\<close>) that send, list and query
  messages, register push endpoints, show the pairing status and disconnect a device. A handler takes the device
  that \<open>authenticate_device\<close> has returned.

  Parameters: \<open>canonical\<close> is \<^verbatim>\<open>Uuid::parse_str\<close> with the canonical text of its result; \<open>rfc3339\<close> formats
  a timestamp (\<^verbatim>\<open>None\<close> when chrono has no such date); \<open>image_lib\<close> holds the image and base64 crates; \<open>parse_url\<close>
  is \<^verbatim>\<open>Url::parse\<close> with the host as the crate's \<^verbatim>\<open>Host\<close>. The handlers that read the account of a user
  (\<^verbatim>\<open>bootstrap\<close>, \<^verbatim>\<open>consume_pairing_offer\<close>) are not modelled here; the services below them are.
\<close>

section \<open>Errors\<close>

type_synonym api_error = "nat \<times> string"

definition bad_request :: "string \<Rightarrow> api_error" where "bad_request message = (400, message)"
definition unauthorized :: api_error where "unauthorized = (401, ''invalid device credentials'')"
definition forbidden :: "string \<Rightarrow> api_error" where "forbidden message = (403, message)"
definition conflict :: "string \<Rightarrow> api_error" where "conflict message = (409, message)"
definition idempotency_conflict :: api_error where
  "idempotency_conflict = (409, ''client_message_id was already used with different content'')"
definition not_found :: "string \<Rightarrow> api_error" where "not_found message = (404, message)"
definition internal_error :: "string \<Rightarrow> api_error" where "internal_error message = (500, message)"

definition map_run_repository_error :: "repo_error \<Rightarrow> api_error" where
  "map_run_repository_error e = internal_error ''run operation failed''"

definition map_pairing_error :: "pairing_error \<Rightarrow> api_error" where
  "map_pairing_error e =
     (case e of
        InvalidOrExpired \<Rightarrow> bad_request ''pairing code is invalid or expired''
      | OfferDeviceUnavailable \<Rightarrow> unauthorized
      | OfferDeviceAlreadyLinked \<Rightarrow> conflict ''disconnect the current account before pairing another''
      | PairingRepository _ \<Rightarrow> internal_error ''pairing failed'')"

definition map_bootstrap_error :: "bootstrap_error \<Rightarrow> api_error" where
  "map_bootstrap_error e =
     (case e of
        Identity InvalidInstallationId \<Rightarrow> bad_request ''installation_id must be a UUID''
      | Identity InvalidDeviceToken \<Rightarrow> unauthorized
      | DeviceTokenRequired \<Rightarrow> unauthorized
      | InvalidDeviceCredentials \<Rightarrow> unauthorized
      | BootstrapRepository _ \<Rightarrow> internal_error ''bootstrap failed'')"

definition format_timestamp :: "(i32 \<Rightarrow> string option) \<Rightarrow> i32 \<Rightarrow> api_error + string" where
  "format_timestamp rfc3339 timestamp =
     (case rfc3339 timestamp of
        None \<Rightarrow> Inl (internal_error ''invalid run timestamp'')
      | Some t \<Rightarrow> Inr t)"

section \<open>Sending a message\<close>

definition MAX_MESSAGE_TEXT_BYTES :: nat where "MAX_MESSAGE_TEXT_BYTES = 8000"
definition MAX_IMAGE_UPLOAD_BYTES :: nat where "MAX_IMAGE_UPLOAD_BYTES = 5 * 1024 * 1024"
definition MESSAGE_HISTORY_RUN_LIMIT :: nat where "MESSAGE_HISTORY_RUN_LIMIT = 50"
definition MAX_PUSH_ENDPOINT_BYTES :: nat where "MAX_PUSH_ENDPOINT_BYTES = 2048"

text \<open>
  The run a request creates or finds, with \<^verbatim>\<open>should_dispatch\<close>. The answer is 202 with the run's id; the
  task the handler then spawns when a responder is configured is \<open>recovered_task\<close>, the same code
  as the supervisor's.
\<close>

definition enqueue_message ::
  "(string \<Rightarrow> string option) \<Rightarrow> crypto \<Rightarrow> string \<Rightarrow> string \<Rightarrow> string \<Rightarrow> light_tool_device \<Rightarrow> string \<Rightarrow> string
   \<Rightarrow> string option \<Rightarrow> i32 \<Rightarrow> lt_store \<Rightarrow> (api_error + light_tool_run_record \<times> bool) \<times> lt_store" where
  "enqueue_message canonical cr nonce1 nonce2 uuid device client_message_id text img now s =
     (case canonical client_message_id of
        None \<Rightarrow> (Inl (bad_request ''client_message_id must be a UUID''), s)
      | Some client_message_id \<Rightarrow>
          let text = trim text
          in if text = [] then (Inl (bad_request ''text cannot be blank''), s)
             else if MAX_MESSAGE_TEXT_BYTES < length text
             then (Inl (bad_request ''text must be at most 8000 bytes''), s)
             else
               (case dev_user_id device of
                  Some user_id \<Rightarrow>
                    (case create_account_run_with_image cr nonce1 nonce2 uuid (dev_id device) user_id
                            client_message_id text img now s of
                       (Inl e, s') \<Rightarrow> (Inl (map_run_repository_error e), s')
                     | (Inr (AccountCreated run), s') \<Rightarrow> (Inr (run, True), s')
                     | (Inr (AccountExisting run), s') \<Rightarrow> (Inr (run, False), s')
                     | (Inr AccountUnavailable, s') \<Rightarrow>
                         (Inl (forbidden ''connected account unavailable; reconnect to continue''), s')
                     | (Inr AccountIdempotencyConflict, s') \<Rightarrow> (Inl idempotency_conflict, s'))
                | None \<Rightarrow>
                    (case create_anonymous_trial_run_with_image cr nonce1 nonce2 uuid (dev_id device)
                            client_message_id text img now TRIAL_MESSAGE_LIMIT s of
                       (Inl e, s') \<Rightarrow> (Inl (map_run_repository_error e), s')
                     | (Inr (TrialCreated run _), s') \<Rightarrow> (Inr (run, True), s')
                     | (Inr (TrialExisting run _), s') \<Rightarrow> (Inr (run, False), s')
                     | (Inr TrialUnavailable, s') \<Rightarrow>
                         (Inl (forbidden ''trial unavailable; connect a Lightfriend account to continue''), s')
                     | (Inr TrialIdempotencyConflict, s') \<Rightarrow> (Inl idempotency_conflict, s'))))"

definition send_message ::
  "(string \<Rightarrow> string option) \<Rightarrow> crypto \<Rightarrow> string \<Rightarrow> string \<Rightarrow> string \<Rightarrow> light_tool_device \<Rightarrow> string \<Rightarrow> string
   \<Rightarrow> i32 \<Rightarrow> lt_store \<Rightarrow> (api_error + light_tool_run_record \<times> bool) \<times> lt_store" where
  "send_message canonical cr nonce1 nonce2 uuid device client_message_id text now s =
     enqueue_message canonical cr nonce1 nonce2 uuid device client_message_id text None now s"

text \<open>The image crate: reading the header, decoding within the limits, and encoding as JPEG.\<close>

record 'img image_lib =
  il_guess :: "string \<Rightarrow> bool"
  il_decode :: "string \<Rightarrow> 'img option"
  il_encode_jpeg :: "'img \<Rightarrow> string option"
  il_b64 :: "string \<Rightarrow> string"

definition normalize_image_data_url :: "'img image_lib \<Rightarrow> string \<Rightarrow> api_error + string" where
  "normalize_image_data_url il bytes =
     (if \<not> il_guess il bytes then Inl (bad_request ''image format could not be read'')
      else
        (case il_decode il bytes of
           None \<Rightarrow> Inl (bad_request ''image must be a valid JPEG, PNG, or WebP file'')
         | Some picture \<Rightarrow>
             (case il_encode_jpeg il picture of
                None \<Rightarrow> Inl (internal_error ''image processing failed'')
              | Some jpeg \<Rightarrow>
                  if MAX_IMAGE_UPLOAD_BYTES < length jpeg
                  then Inl (bad_request ''normalized image exceeds 5 MB'')
                  else Inr (''data:image/jpeg;base64,'' @ il_b64 il jpeg))))"

text \<open>A multipart body as \<^verbatim>\<open>next_field\<close> delivers it; \<^verbatim>\<open>None\<close> is a payload that cannot be read.\<close>

datatype multipart_field =
    BrokenField
  | Field "string option" "string option" "string option"   \<comment> \<open>name, \<^verbatim>\<open>text()\<close>, \<^verbatim>\<open>bytes()\<close>\<close>

record image_form =
  form_client_message_id :: "string option"
  form_text :: "string option"
  form_image :: "string option"

fun read_multipart ::
  "'img image_lib \<Rightarrow> multipart_field list \<Rightarrow> image_form \<Rightarrow> api_error + image_form" where
  "read_multipart il [] form = Inr form"
| "read_multipart il (BrokenField # fs) form = Inl (bad_request ''invalid multipart request'')"
| "read_multipart il (Field name txt bytes # fs) form =
     (if name = Some ''client_message_id'' \<and> form_client_message_id form = None then
        (case txt of
           None \<Rightarrow> Inl (bad_request ''invalid client_message_id'')
         | Some t \<Rightarrow> read_multipart il fs (form\<lparr>form_client_message_id := Some t\<rparr>))
      else if name = Some ''text'' \<and> form_text form = None then
        (case txt of
           None \<Rightarrow> Inl (bad_request ''invalid text'')
         | Some t \<Rightarrow> read_multipart il fs (form\<lparr>form_text := Some t\<rparr>))
      else if name = Some ''image'' \<and> form_image form = None then
        (case bytes of
           None \<Rightarrow> Inl (bad_request ''invalid image'')
         | Some b \<Rightarrow>
             if b = [] \<or> MAX_IMAGE_UPLOAD_BYTES < length b
             then Inl (bad_request ''image must be between 1 byte and 5 MB'')
             else
               (case normalize_image_data_url il b of
                  Inl e \<Rightarrow> Inl e
                | Inr data_url \<Rightarrow> read_multipart il fs (form\<lparr>form_image := Some data_url\<rparr>)))
      else if name \<in> {Some ''client_message_id'', Some ''text'', Some ''image''}
      then Inl (bad_request ''multipart fields must not be repeated'')
      else read_multipart il fs form)"

definition send_image_message ::
  "'img image_lib \<Rightarrow> (string \<Rightarrow> string option) \<Rightarrow> crypto \<Rightarrow> string \<Rightarrow> string \<Rightarrow> string \<Rightarrow> light_tool_device
   \<Rightarrow> multipart_field list \<Rightarrow> i32 \<Rightarrow> lt_store
   \<Rightarrow> (api_error + light_tool_run_record \<times> bool) \<times> lt_store" where
  "send_image_message il canonical cr nonce1 nonce2 uuid device body now s =
     (case read_multipart il body
             \<lparr>form_client_message_id = None, form_text = None, form_image = None\<rparr> of
        Inl e \<Rightarrow> (Inl e, s)
      | Inr form \<Rightarrow>
          (case form_client_message_id form of
             None \<Rightarrow> (Inl (bad_request ''client_message_id is required''), s)
           | Some client_message_id \<Rightarrow>
               let text = (case form_text form of None \<Rightarrow> ''Photo'' | Some t \<Rightarrow> t)
               in (case form_image form of
                     None \<Rightarrow> (Inl (bad_request ''image is required''), s)
                   | Some data_url \<Rightarrow>
                       enqueue_message canonical cr nonce1 nonce2 uuid device client_message_id text
                         (Some data_url) now s)))"

section \<open>Reading runs\<close>

record assistant_message_response =
  am_id :: string
  am_text :: string
  am_created_at :: string

record run_status_response =
  rs_run_id :: string
  rs_state :: run_status
  rs_activity_text :: "string option"
  rs_assistant_message :: "assistant_message_response option"
  rs_error_message :: "string option"

record message_history_run_response =
  mh_run_id :: string
  mh_state :: run_status
  mh_user_message_id :: string
  mh_user_message_text :: string
  mh_user_message_created_at :: string
  mh_activity_text :: "string option"
  mh_assistant_message :: "assistant_message_response option"
  mh_error_message :: "string option"

text \<open>What both responses show of a run's nullable columns; the CHECK constraint leaves no other status.\<close>

definition visible_activity :: "light_tool_run_record \<Rightarrow> string option" where
  "visible_activity run =
     (if rr_status run = Queued \<or> rr_status run = Running then rr_activity_text run else None)"

definition visible_assistant_message ::
  "(i32 \<Rightarrow> string option) \<Rightarrow> light_tool_run_record \<Rightarrow> api_error + assistant_message_response option" where
  "visible_assistant_message rfc3339 run =
     (case (rr_status run, rr_assistant_message run) of
        (Completed, Some text) \<Rightarrow>
          try_in (format_timestamp rfc3339
                    (case rr_completed_at run of Some t \<Rightarrow> t | None \<Rightarrow> rr_updated_at run)) (\<lambda>created_at.
            Inr (Some \<lparr>am_id = rr_id run, am_text = text, am_created_at = created_at\<rparr>))
      | _ \<Rightarrow> Inr None)"

definition visible_error :: "light_tool_run_record \<Rightarrow> string option" where
  "visible_error run = (if rr_status run = Failed then rr_error_message run else None)"

definition get_run_status ::
  "(string \<Rightarrow> string option) \<Rightarrow> (i32 \<Rightarrow> string option) \<Rightarrow> crypto \<Rightarrow> light_tool_device \<Rightarrow> string \<Rightarrow> lt_store
   \<Rightarrow> api_error + run_status_response" where
  "get_run_status canonical rfc3339 cr device requested_id s =
     (case canonical requested_id of
        None \<Rightarrow> Inl (bad_request ''run_id must be a UUID'')
      | Some rid \<Rightarrow>
          (case find_by_id_for_device cr rid (dev_id device) s of
             Inl e \<Rightarrow> Inl (map_run_repository_error e)
           | Inr None \<Rightarrow> Inl (not_found ''run not found'')
           | Inr (Some run) \<Rightarrow>
               if rr_account_user_id run \<noteq> None \<and> rr_account_user_id run \<noteq> dev_user_id device
               then Inl (not_found ''run not found'')
               else
                 try_in (visible_assistant_message rfc3339 run) (\<lambda>assistant_message.
                   Inr \<lparr>rs_run_id = rr_id run, rs_state = rr_status run,
                        rs_activity_text = visible_activity run,
                        rs_assistant_message = assistant_message,
                        rs_error_message = visible_error run\<rparr>)))"

definition message_history_run_response_of ::
  "(i32 \<Rightarrow> string option) \<Rightarrow> light_tool_run_record \<Rightarrow> api_error + message_history_run_response" where
  "message_history_run_response_of rfc3339 run =
     try_in (visible_assistant_message rfc3339 run) (\<lambda>assistant_message.
     try_in (format_timestamp rfc3339 (rr_created_at run)) (\<lambda>created_at.
       Inr \<lparr>mh_run_id = rr_id run, mh_state = rr_status run,
            mh_user_message_id = rr_client_message_id run, mh_user_message_text = rr_user_message run,
            mh_user_message_created_at = created_at, mh_activity_text = visible_activity run,
            mh_assistant_message = assistant_message, mh_error_message = visible_error run\<rparr>))"

definition get_message_history ::
  "(string \<Rightarrow> 'k::linorder) \<Rightarrow> (i32 \<Rightarrow> string option) \<Rightarrow> crypto \<Rightarrow> light_tool_device \<Rightarrow> lt_store
   \<Rightarrow> api_error + message_history_run_response list" where
  "get_message_history coll rfc3339 cr device s =
     (case find_recent_for_principal coll cr (dev_id device) (dev_user_id device)
             MESSAGE_HISTORY_RUN_LIMIT s of
        Inl e \<Rightarrow> Inl (map_run_repository_error e)
      | Inr runs \<Rightarrow> collect_results (map (message_history_run_response_of rfc3339) runs))"

section \<open>Pairing and disconnecting\<close>

definition create_pairing_offer ::
  "(string \<Rightarrow> string) \<Rightarrow> (i32 \<Rightarrow> string option) \<Rightarrow> string \<Rightarrow> i32 \<Rightarrow> i32 \<Rightarrow> lt_store
   \<Rightarrow> (api_error + string \<times> string) \<times> lt_store" where
  "create_pairing_offer sha rfc3339 random_hex user_id now s =
     (case create_offer sha random_hex user_id now s of
        (Inl e, s') \<Rightarrow> (Inl (map_pairing_error e), s')
      | (Inr offer, s') \<Rightarrow>
          (map_sum id (\<lambda>t. (offer_pairing_uri offer, t)) (format_timestamp rfc3339 (offer_expires_at offer)), s'))"

definition get_pairing_status :: "i32 \<Rightarrow> i32 \<Rightarrow> lt_store \<Rightarrow> pairing_status" where
  "get_pairing_status user_id now s = status_for_user user_id now s"

definition disconnect_account :: "light_tool_device \<Rightarrow> i32 \<Rightarrow> lt_store \<Rightarrow> (api_error + nat) \<times> lt_store" where
  "disconnect_account device now s =
     (case disconnect_device (dev_id device) now s of
        (found, s') \<Rightarrow> (if found then Inr 204 else Inl unauthorized, s'))"

text \<open>The handler then answers with the account of the user this returns.\<close>

definition consume_pairing_offer ::
  "(string \<Rightarrow> url option) \<Rightarrow> (string \<Rightarrow> string) \<Rightarrow> light_tool_device \<Rightarrow> string \<Rightarrow> i32 \<Rightarrow> lt_store
   \<Rightarrow> (api_error + i32) \<times> lt_store" where
  "consume_pairing_offer parse_url sha device pairing_uri now s =
     (case consume_uri parse_url sha (trim pairing_uri) (dev_id device) now s of
        (Inl e, s') \<Rightarrow> (Inl (map_pairing_error e), s')
      | (Inr (Linked user_id _), s') \<Rightarrow> (Inr user_id, s')
      | (Inr PairingInvalidOrExpired, s') \<Rightarrow> (Inl (bad_request ''pairing code is invalid or expired''), s')
      | (Inr PairingDeviceUnavailable, s') \<Rightarrow> (Inl unauthorized, s')
      | (Inr PairingDeviceAlreadyLinked, s') \<Rightarrow>
          (Inl (conflict ''disconnect the current account before pairing another''), s'))"

section \<open>Push endpoints\<close>

text \<open>An address as \<^verbatim>\<open>std::net\<close> holds it, in network order.\<close>

datatype host = Domain string | Ipv4 "32 word" | Ipv6 "128 word"

record push_url =
  pu_scheme :: string
  pu_host :: "host option"
  pu_username :: string
  pu_password :: "string option"
  pu_fragment :: "string option"

definition ipv4 :: "nat \<Rightarrow> nat \<Rightarrow> nat \<Rightarrow> nat \<Rightarrow> 32 word" where
  "ipv4 a b c d = of_nat (((a * 256 + b) * 256 + c) * 256 + d)"

definition v4_is_loopback :: "32 word \<Rightarrow> bool" where
  "v4_is_loopback a \<longleftrightarrow> drop_bit 24 a = 127"

definition v4_is_private :: "32 word \<Rightarrow> bool" where
  "v4_is_private a \<longleftrightarrow> drop_bit 24 a = 10 \<or> drop_bit 20 a = 2753 \<or> drop_bit 16 a = 49320"

definition v4_is_link_local :: "32 word \<Rightarrow> bool" where
  "v4_is_link_local a \<longleftrightarrow> drop_bit 16 a = 43518"

definition v4_is_broadcast :: "32 word \<Rightarrow> bool" where
  "v4_is_broadcast a \<longleftrightarrow> a = - 1"

definition v6_is_loopback :: "128 word \<Rightarrow> bool" where
  "v6_is_loopback a \<longleftrightarrow> a = 1"

definition v6_is_unique_local :: "128 word \<Rightarrow> bool" where
  "v6_is_unique_local a \<longleftrightarrow> drop_bit 121 a = 126"

definition v6_is_unicast_link_local :: "128 word \<Rightarrow> bool" where
  "v6_is_unicast_link_local a \<longleftrightarrow> drop_bit 118 a = 1018"

fun is_non_public_ip :: "host \<Rightarrow> bool" where
  "is_non_public_ip (Ipv4 a) \<longleftrightarrow>
     v4_is_private a \<or> v4_is_loopback a \<or> v4_is_link_local a \<or> v4_is_broadcast a \<or> a = 0"
| "is_non_public_ip (Ipv6 a) \<longleftrightarrow>
     v6_is_loopback a \<or> v6_is_unique_local a \<or> v6_is_unicast_link_local a \<or> a = 0"
| "is_non_public_ip (Domain d) \<longleftrightarrow> False"

fun is_loopback_host :: "host \<Rightarrow> bool" where
  "is_loopback_host (Domain d) = eq_ignore_ascii_case d ''localhost''"
| "is_loopback_host (Ipv4 a) = v4_is_loopback a"
| "is_loopback_host (Ipv6 a) = v6_is_loopback a"

fun is_non_public_host :: "host \<Rightarrow> bool" where
  "is_non_public_host (Domain d) = eq_ignore_ascii_case d ''localhost''"
| "is_non_public_host (Ipv4 a) = is_non_public_ip (Ipv4 a)"
| "is_non_public_host (Ipv6 a) = is_non_public_ip (Ipv6 a)"

definition validate_push_endpoint ::
  "bool \<Rightarrow> (string \<Rightarrow> push_url option) \<Rightarrow> string \<Rightarrow> api_error + string" where
  "validate_push_endpoint debug parse_url value =
     (let endpoint = trim value; invalid = Inl (bad_request ''push endpoint is invalid'')
      in if endpoint = [] \<or> MAX_PUSH_ENDPOINT_BYTES < length endpoint then invalid
         else
           (case parse_url endpoint of
              None \<Rightarrow> invalid
            | Some parsed \<Rightarrow>
                if pu_username parsed \<noteq> [] \<or> pu_password parsed \<noteq> None \<or> pu_fragment parsed \<noteq> None
                then invalid
                else
                  (case pu_host parsed of
                     None \<Rightarrow> invalid
                   | Some host \<Rightarrow>
                       let valid_scheme =
                             (pu_scheme parsed = ''https''
                              \<or> debug \<and> pu_scheme parsed = ''http'' \<and> is_loopback_host host)
                       in if \<not> valid_scheme then invalid
                          else if pu_scheme parsed = ''https'' \<and> is_non_public_host host then invalid
                          else Inr endpoint)))"

definition register_push_endpoint ::
  "bool \<Rightarrow> (string \<Rightarrow> push_url option) \<Rightarrow> crypto \<Rightarrow> (string \<Rightarrow> string) \<Rightarrow> string \<Rightarrow> light_tool_device
   \<Rightarrow> string \<Rightarrow> i32 \<Rightarrow> lt_store \<Rightarrow> (api_error + nat) \<times> lt_store" where
  "register_push_endpoint debug parse_url cr sha nonce device requested now s =
     (case validate_push_endpoint debug parse_url requested of
        Inl e \<Rightarrow> (Inl e, s)
      | Inr endpoint \<Rightarrow>
          (case registration_upsert cr sha nonce (dev_id device) endpoint now s of
             (Inl _, s') \<Rightarrow> (Inl (internal_error ''push registration failed''), s')
           | (Inr _, s') \<Rightarrow> (Inr 204, s')))"

definition unregister_push_endpoint :: "light_tool_device \<Rightarrow> lt_store \<Rightarrow> (api_error + nat) \<times> lt_store" where
  "unregister_push_endpoint device s =
     (case registration_delete_for_device (dev_id device) s of (_, s') \<Rightarrow> (Inr 204, s'))"

text \<open>The word tests are the octet and segment tests of \<^verbatim>\<open>std::net\<close>, on samples of each class.\<close>

lemma address_samples:
  "v4_is_private (ipv4 10 1 2 3)" "v4_is_private (ipv4 172 16 0 1)" "v4_is_private (ipv4 172 31 255 255)"
  "v4_is_private (ipv4 192 168 1 1)" "\<not> v4_is_private (ipv4 172 32 0 1)" "\<not> v4_is_private (ipv4 192 169 0 1)"
  "v4_is_link_local (ipv4 169 254 169 254)" "v4_is_loopback (ipv4 127 9 9 9)" "\<not> v4_is_loopback (ipv4 128 0 0 1)"
  "v4_is_broadcast (ipv4 255 255 255 255)"
  "v6_is_unique_local 0xFD000000000000000000000000000001" "v6_is_unicast_link_local 0xFE800000000000000000000000000001"
  by (simp_all add: ipv4_def v4_is_private_def v4_is_loopback_def v4_is_link_local_def v4_is_broadcast_def
      v6_is_unique_local_def v6_is_unicast_link_local_def drop_bit_eq_div)

end
