(* ===== verification/LT_HandlerProperties.thy ===== *)
theory LT_HandlerProperties
  imports LT_Handlers LT_Demo
begin

text \<open>
  What the HTTP handlers of the light tool (\<^verbatim>\<open>handlers/light_tool_handlers.rs\<close>) show to whom, and
  what a device gets when it repeats a request. The theorem about repeated images documents a defect; so does
  the lemma on mapped addresses at the end.
\<close>

lemma decrypt_run_columns:
  assumes "decrypt_run cr r = Inr rec"
  shows "rr_id rec = run_id r" "rr_device_id rec = run_device_id r"
    "rr_account_user_id rec = run_account_user_id r" "rr_status rec = run_status r"
    "rr_client_message_id rec = run_client_message_id r"
    "rr_image_data_url rec = None \<longleftrightarrow> run_enc_image_data_url r = None"
  using assms by (auto simp: decrypt_run_def try_in_Inr decrypt_optional_def transpose_map_def map_sum_Inr
      split: option.splits)

lemma visible_message_completed:
  "visible_assistant_message rfc3339 run = Inr (Some m) \<Longrightarrow>
     rr_status run = Completed \<and> rr_assistant_message run = Some (am_text m)"
  by (auto simp: visible_assistant_message_def try_in_Inr split: run_status.splits option.splits)

section \<open>Who sees a run\<close>

definition shown_to :: "light_tool_device \<Rightarrow> light_tool_run \<Rightarrow> bool" where
  "shown_to device r \<longleftrightarrow> run_device_id r = dev_id device \<and>
     (run_account_user_id r = None \<or> run_account_user_id r = dev_user_id device)"

text \<open>
  Claim C28. A device reads the status of no run but its own: when \<^verbatim>\<open>GET /runs/{id}\<close> answers, the run exists,
  was sent from this very device, and is either anonymous or of the account the device is linked to now (so
  after a re-pairing the previous owner's runs are gone). The activity is shown only while the run is
  queued or running, the reply only when it completed, the error only when it failed.
\<close>

theorem run_status_isolated:
  assumes "get_run_status canonical rfc3339 cr device requested_id s = Inr response"
  shows "\<exists>r \<in> set (lt_runs s). shown_to device r \<and> canonical requested_id = Some (run_id r) \<and>
    rs_run_id response = run_id r \<and> rs_state response = run_status r \<and>
    (rs_activity_text response \<noteq> None \<longrightarrow> run_status r < Completed) \<and>
    (rs_assistant_message response \<noteq> None \<longrightarrow> run_status r = Completed) \<and>
    (rs_error_message response \<noteq> None \<longrightarrow> run_status r = Failed)"
proof -
  obtain rid where rid: "canonical requested_id = Some rid"
    using assms by (cases "canonical requested_id") (auto simp: get_run_status_def)
  with assms obtain r rec where
      r: "sql_first (\<lambda>r. run_id r = rid \<and> run_device_id r = dev_id device) (lt_runs s) = Some r"
        "decrypt_run cr r = Inr rec" and
      own: "rr_account_user_id rec = None \<or> rr_account_user_id rec = dev_user_id device" and
      resp: "try_in (visible_assistant_message rfc3339 rec) (\<lambda>assistant_message.
           Inr \<lparr>rs_run_id = rr_id rec, rs_state = rr_status rec, rs_activity_text = visible_activity rec,
                rs_assistant_message = assistant_message, rs_error_message = visible_error rec\<rparr>) = Inr response"
    by (auto simp: get_run_status_def find_by_id_for_device_def transpose_map_def map_sum_Inr
        split: sum.splits option.splits if_splits)
  note cols = decrypt_run_columns [OF r(2)]
  from sql_first_Some [OF r(1)] have mem: "r \<in> set (lt_runs s)" "run_id r = rid" "run_device_id r = dev_id device"
    by simp_all
  from resp obtain m where m: "visible_assistant_message rfc3339 rec = Inr m"
      "response = \<lparr>rs_run_id = rr_id rec, rs_state = rr_status rec, rs_activity_text = visible_activity rec,
                rs_assistant_message = m, rs_error_message = visible_error rec\<rparr>"
    by (auto simp: try_in_Inr)
  have "m \<noteq> None \<longrightarrow> rr_status rec = Completed" using m(1) visible_message_completed by (cases m) auto
  moreover have "visible_activity rec \<noteq> None \<longrightarrow> rr_status rec < Completed"
    by (cases "rr_status rec") (simp_all add: visible_activity_def less_run_status_def)
  ultimately show ?thesis
    using mem rid own m(2) cols by (intro bexI [of _ r]) (auto simp: shown_to_def visible_error_def)
qed

theorem run_status_isolated_witness:
  "\<exists>r \<in> set (lt_runs demo_store4). shown_to demo_device r \<and> run_id r = ''r1'' \<and> run_status r = Completed"
proof -
  have shown: "get_run_status Some (\<lambda>_. Some ''2026'') demo_crypto demo_device ''r1'' demo_store4 =
    Inr \<lparr>rs_run_id = ''r1'', rs_state = Completed, rs_activity_text = None,
         rs_assistant_message = Some \<lparr>am_id = ''r1'', am_text = ''hello'', am_created_at = ''2026''\<rparr>,
         rs_error_message = None\<rparr>"
    by code_simp
  from run_status_isolated [OF shown] show ?thesis by auto
qed

section \<open>History\<close>

text \<open>
  The history a device reads holds at most 50 runs, every one of them a run of that device for the
  account it is linked to now (for an unlinked device: only anonymous runs), with its status and message
  id, and no reply of a run that did not complete.
\<close>

theorem history_isolated:
  assumes "get_message_history coll rfc3339 cr device s = Inr entries"
  shows "length entries \<le> 50 \<and>
    (\<forall>e \<in> set entries. \<exists>r \<in> set (lt_runs s).
       run_device_id r = dev_id device \<and> run_account_user_id r = dev_user_id device \<and>
       mh_run_id e = run_id r \<and> mh_state e = run_status r \<and> mh_user_message_id e = run_client_message_id r \<and>
       (mh_assistant_message e \<noteq> None \<longrightarrow> run_status r = Completed))"
proof -
  let ?own = "\<lambda>r. run_device_id r = dev_id device \<and> run_account_user_id r = dev_user_id device"
  let ?rows = "rev (take MESSAGE_HISTORY_RUN_LIMIT
      (order_desc (\<lambda>r. (run_created_at r, run_updated_at r, coll (run_id r))) (sql_select ?own (lt_runs s))))"
  from assms obtain recs where
      recs: "map (decrypt_run cr) ?rows = map Inr recs" and
      resps: "map (message_history_run_response_of rfc3339) recs = map Inr entries"
    by (auto simp: get_message_history_def find_recent_for_principal_def map_sum_Inr collect_results_Inr
        split: sum.splits)
  have lens: "length ?rows = length recs" "length recs = length entries"
    using map_eq_imp_length_eq [OF recs] map_eq_imp_length_eq [OF resps] by simp_all
  have "length ?rows \<le> 50" by (simp add: MESSAGE_HISTORY_RUN_LIMIT_def)
  moreover have "\<exists>r \<in> set (lt_runs s). ?own r \<and> mh_run_id e = run_id r \<and> mh_state e = run_status r \<and>
      mh_user_message_id e = run_client_message_id r \<and>
      (mh_assistant_message e \<noteq> None \<longrightarrow> run_status r = Completed)" if e: "e \<in> set entries" for e
  proof -
    from e obtain i where i: "i < length entries" "e = entries ! i" by (auto simp: in_set_conv_nth)
    have "map (decrypt_run cr) ?rows ! i = map Inr recs ! i"
      "map (message_history_run_response_of rfc3339) recs ! i = map Inr entries ! i"
      by (simp_all only: recs resps)
    with i lens have dec: "decrypt_run cr (?rows ! i) = Inr (recs ! i)"
      and resp: "message_history_run_response_of rfc3339 (recs ! i) = Inr e" by simp_all
    have "?rows ! i \<in> set ?rows" by (rule nth_mem) (simp only: lens i)
    then have row: "?rows ! i \<in> set (lt_runs s)" "?own (?rows ! i)"
      by (auto dest: in_set_takeD)
    from resp obtain m t where m: "visible_assistant_message rfc3339 (recs ! i) = Inr m"
      and e_eq: "mh_run_id e = rr_id (recs ! i)" "mh_state e = rr_status (recs ! i)"
        "mh_user_message_id e = rr_client_message_id (recs ! i)" "mh_assistant_message e = m"
      by (auto simp: message_history_run_response_of_def try_in_Inr)
    have "m \<noteq> None \<longrightarrow> rr_status (recs ! i) = Completed" using m visible_message_completed by (cases m) auto
    with row e_eq decrypt_run_columns [OF dec] show ?thesis by (intro bexI [of _ "?rows ! i"]) simp_all
  qed
  ultimately show ?thesis using lens by auto
qed

theorem history_isolated_witness:
  "\<exists>r \<in> set (lt_runs demo_store4). run_device_id r = 1 \<and> run_account_user_id r = None \<and> run_id r = ''r1''"
proof -
  have shown: "get_message_history (\<lambda>_. 0 :: int) (\<lambda>_. Some ''2026'') demo_crypto demo_device demo_store4 =
    Inr [\<lparr>mh_run_id = ''r1'', mh_state = Completed, mh_user_message_id = ''m1'', mh_user_message_text = ''hi'',
          mh_user_message_created_at = ''2026'', mh_activity_text = None,
          mh_assistant_message = Some \<lparr>am_id = ''r1'', am_text = ''hello'', am_created_at = ''2026''\<rparr>,
          mh_error_message = None\<rparr>]"
    by code_simp
  from history_isolated [OF shown] show ?thesis by (auto simp: demo_device_def)
qed

section \<open>Repeating an image message\<close>

text \<open>
  An image message cannot be repeated once its run has ended: completing or failing a run erases the
  stored image, so the comparison with the image of the retry always fails and the retry of a request that
  was accepted is refused with 409 (\<^verbatim>\<open>client_message_id was already used with different content\<close>), for a
  linked device and for a trial alike. Nothing is written.
\<close>

theorem image_retry_conflicts_once_ended:
  assumes "reachable s" "r \<in> set (lt_runs s)" "run_status r = Completed \<or> run_status r = Failed"
    and "find_active_device (run_device_id r) s = Some device"
    and "run_account_user_id r = dev_user_id device"
    and "canonical requested = Some (run_client_message_id r)"
    and "decrypt_run cr r = Inr rec"
    and "trim text \<noteq> []" "length (trim text) \<le> 8000"
  shows "enqueue_message canonical cr n1 n2 uuid device requested text (Some img) now s =
           (Inl idempotency_conflict, s)"
proof -
  from reachable_inv [OF assms(1)] have inv: "runs_ok s" by (simp add: lt_inv_def)
  with assms(2,3) have "run_enc_image_data_url r = None" by (auto simp: runs_ok_def row_ok_def)
  then have img: "rr_image_data_url rec = None" using decrypt_run_columns [OF assms(7)] by simp
  have dev: "dev_id device = run_device_id r"
    using assms(4) by (auto simp: find_active_device_def dest: sql_first_Some)
  from inv have "distinct (map (\<lambda>r. (run_device_id r, run_client_message_id r)) (lt_runs s))"
    by (simp add: runs_ok_def)
  from sql_first_unique [OF this assms(2), of
      "\<lambda>q. run_device_id q = run_device_id r \<and> run_client_message_id q = run_client_message_id r"]
  have run: "find_run_by_client_id (run_device_id r) (run_client_message_id r) s = Some r"
    by (simp add: find_run_by_client_id_def)
  show ?thesis
    using assms(4-9) img dev run
    by (cases "dev_user_id device")
      (auto simp: enqueue_message_def create_anonymous_trial_run_with_image_def create_account_run_with_image_def
        transaction_def MAX_MESSAGE_TEXT_BYTES_def)
qed

text \<open>A trial image message on the demo device, claimed and completed.\<close>

definition demo_image_run :: light_tool_run where
  "demo_image_run =
     demo_run\<lparr>run_enc_user_message := demo_nonce @ ''#?'', run_status := Completed,
       run_enc_assistant_message := Some (demo_nonce @ ''#hello''), run_updated_at := 2002,
       run_completed_at := Some 2002\<rparr>"

definition demo_image_store :: lt_store where
  "demo_image_store = demo_store2\<lparr>lt_runs := [demo_image_run]\<rparr>"

text \<open>The stores after the message and after the claim.\<close>

definition demo_image_store1 :: lt_store where
  "demo_image_store1 =
     demo_store2\<lparr>lt_runs := [demo_run\<lparr>run_enc_user_message := demo_nonce @ ''#?'',
       run_enc_image_data_url := Some (demo_nonce @ ''#data:cat'')\<rparr>]\<rparr>"

definition demo_image_store2 :: lt_store where
  "demo_image_store2 =
     demo_store2\<lparr>lt_runs := [demo_run\<lparr>run_enc_user_message := demo_nonce @ ''#?'',
       run_enc_image_data_url := Some (demo_nonce @ ''#data:cat''),
       run_enc_activity_text := Some (demo_nonce @ ''#THINKING...''), run_status := Running, run_updated_at := 2001\<rparr>]\<rparr>"

lemma demo_image_create:
  "snd (create_anonymous_trial_run_with_image demo_crypto demo_nonce demo_nonce ''r1'' 1 ''m1'' ''?''
     (Some ''data:cat'') 2000 TRIAL_MESSAGE_LIMIT demo_store1) = demo_image_store1"
  by code_simp

lemma demo_image_claim:
  "snd (exec_claim demo_crypto demo_nonce ''r1'' ''THINKING...'' 2001 demo_image_store1) = demo_image_store2"
  by code_simp

lemma demo_image_complete:
  "snd (exec_complete demo_crypto demo_nonce ''r1'' '' hello '' 2002 demo_image_store2) = demo_image_store"
  unfolding demo_complete_text by code_simp

lemma reachable_lt_step: "reachable s \<Longrightarrow> lt_step s s' \<Longrightarrow> reachable s'"
  by (erule reachable_step) (rule r_into_rtranclp)

lemma demo_image_reachable: "reachable demo_image_store"
  using reachable_lt_step [OF demo_reachable1 do_create_trial_run, of demo_crypto demo_nonce demo_nonce "''r1''" 1
      "''m1''" "''?''" "Some ''data:cat''" 2000]
    reachable_lt_step [OF _ do_claim, of demo_image_store1 demo_crypto demo_nonce "''r1''" "''THINKING...''" 2001]
    reachable_lt_step [OF _ do_complete, of demo_image_store2 demo_crypto demo_nonce "''r1''" "'' hello ''" 2002]
  unfolding demo_image_create demo_image_claim demo_image_complete by blast

theorem image_retry_conflicts_once_ended_witness:
  "fst (enqueue_message Some demo_crypto demo_nonce demo_nonce ''r2''
     (demo_device\<lparr>dev_trial_messages_used := 1, dev_updated_at := 2000\<rparr>) ''m1'' ''?'' (Some ''data:cat'') 3000
     demo_image_store) = Inl idempotency_conflict"
proof -
  let ?d = "demo_device\<lparr>dev_trial_messages_used := 1, dev_updated_at := 2000\<rparr>"
  have row: "demo_image_run \<in> set (lt_runs demo_image_store)" "run_status demo_image_run = Completed \<or> run_status demo_image_run = Failed"
    "run_account_user_id demo_image_run = dev_user_id ?d" "Some ''m1'' = Some (run_client_message_id demo_image_run)"
    by (simp_all add: demo_image_store_def demo_image_run_def demo_run_def demo_device_def)
  have dev: "find_active_device (run_device_id demo_image_run) demo_image_store = Some ?d"
    by (simp add: find_active_device_def sql_first_def demo_image_store_def demo_store2_def demo_image_run_def demo_run_def
        demo_device_def demo_store1_def)
  have "\<not> isl (decrypt_run demo_crypto demo_image_run)" by code_simp
  then obtain rec where dec: "decrypt_run demo_crypto demo_image_run = Inr rec"
    by (cases "decrypt_run demo_crypto demo_image_run") auto
  have "trim ''?'' = ''?''" by code_simp
  then have len: "trim ''?'' \<noteq> []" "length (trim ''?'') \<le> 8000" by simp_all
  from image_retry_conflicts_once_ended [where canonical = Some, OF demo_image_reachable row(1,2) dev row(3,4) dec len]
  show ?thesis by simp
qed

text \<open>The address filter of push endpoints reads an IPv4-mapped loopback address as a public IPv6 address.\<close>

lemma mapped_loopback_accepted:
  assumes "parse_url (trim endpoint) =
      Some \<lparr>pu_scheme = ''https'', pu_host = Some (Ipv6 (0xFFFF7F000001)), pu_username = [],
            pu_password = None, pu_fragment = None\<rparr>"
    and "trim endpoint \<noteq> []" "length (trim endpoint) \<le> 2048"
  shows "validate_push_endpoint False parse_url endpoint = Inr (trim endpoint)"
  using assms
  by (simp add: validate_push_endpoint_def Let_def MAX_PUSH_ENDPOINT_BYTES_def v6_is_loopback_def
      v6_is_unique_local_def v6_is_unicast_link_local_def drop_bit_eq_div)

end
