(* ===== verification/Text.thy ===== *)
theory Text
  imports Prelude
begin

text \<open>
  Characters of UTF-8 strings, for the code that looks at \<^verbatim>\<open>chars()\<close>. The tables of the Unicode
  standard that \<^verbatim>\<open>core::unicode\<close> holds for characters outside ASCII are the fields of \<open>unicode\<close>.
\<close>

function utf8_chars :: "string \<Rightarrow> string list" where
  "utf8_chars [] = []"
| "utf8_chars (b # bs) =
     (b # takeWhile is_continuation bs) # utf8_chars (dropWhile is_continuation bs)"
  by pat_completeness auto
termination
  by (relation "measure length") (auto simp: le_imp_less_Suc length_dropWhile_le)

definition is_ascii :: "char \<Rightarrow> bool" where
  "is_ascii c \<longleftrightarrow> (of_char c :: nat) < 128"

definition is_ascii_alphanumeric :: "char \<Rightarrow> bool" where
  "is_ascii_alphanumeric c =
     (let n = (of_char c :: nat)
      in (48 \<le> n \<and> n \<le> 57) \<or> (65 \<le> n \<and> n \<le> 90) \<or> (97 \<le> n \<and> n \<le> 122))"

definition is_ascii_graphic :: "char \<Rightarrow> bool" where
  "is_ascii_graphic c = (let n = (of_char c :: nat) in 33 \<le> n \<and> n \<le> 126)"

record unicode =
  u_alphanumeric :: "string \<Rightarrow> bool"     \<comment> \<open>of one character outside ASCII\<close>
  u_lowercase :: "string \<Rightarrow> string"      \<comment> \<open>of a text with characters outside ASCII\<close>

text \<open>\<^verbatim>\<open>char::is_alphanumeric\<close>, \<^verbatim>\<open>str::to_lowercase\<close>, \<^verbatim>\<open>char::is_control\<close> (the general category Cc).\<close>

fun is_alphanumeric :: "unicode \<Rightarrow> string \<Rightarrow> bool" where
  "is_alphanumeric u [c] = (if is_ascii c then is_ascii_alphanumeric c else u_alphanumeric u [c])"
| "is_alphanumeric u cs = u_alphanumeric u cs"

definition to_lowercase :: "unicode \<Rightarrow> string \<Rightarrow> string" where
  "to_lowercase u s = (if list_all is_ascii s then to_ascii_lowercase s else u_lowercase u s)"

fun is_control :: "string \<Rightarrow> bool" where
  "is_control [c] = ((of_char c :: nat) < 32 \<or> (of_char c :: nat) = 127)"
| "is_control [a, b] = ((of_char a :: nat) = 194 \<and> (of_char b :: nat) < 160)"
| "is_control cs = False"

text \<open>\<^verbatim>\<open>s.split(p)\<close> on characters, and \<^verbatim>\<open>haystack.contains(needle)\<close>.\<close>

fun split_chars :: "(string \<Rightarrow> bool) \<Rightarrow> string list \<Rightarrow> string \<Rightarrow> string list" where
  "split_chars p [] acc = [acc]"
| "split_chars p (c # cs) acc =
     (if p c then acc # split_chars p cs [] else split_chars p cs (acc @ c))"

definition str_split :: "(string \<Rightarrow> bool) \<Rightarrow> string \<Rightarrow> string list" where
  "str_split p s = split_chars p (utf8_chars s) []"

definition str_contains :: "string \<Rightarrow> string \<Rightarrow> bool" where
  "str_contains haystack needle = list_ex (prefix needle) (suffixes haystack)"

definition take_chars :: "nat \<Rightarrow> string \<Rightarrow> string" where
  "take_chars n s = concat (take n (utf8_chars s))"

lemma concat_utf8_chars: "concat (utf8_chars s) = s"
  by (induction s rule: utf8_chars.induct) simp_all

lemma utf8_chars_ascii: "\<forall>c \<in> set s. \<not> is_continuation c \<Longrightarrow> utf8_chars s = map (\<lambda>c. [c]) s"
proof (induction s)
  case (Cons a s)
  have "takeWhile is_continuation s = []" "dropWhile is_continuation s = s"
    using Cons.prems by (cases s; simp)+
  with Cons show ?case by simp
qed simp

lemma str_contains_iff: "str_contains haystack needle \<longleftrightarrow> sublist needle haystack"
proof -
  have "(\<exists>x. suffix x haystack \<and> prefix needle x) \<longleftrightarrow> sublist needle haystack"
    unfolding sublist_def suffix_def prefix_def by (metis append.assoc)
  then show ?thesis by (auto simp: str_contains_def list_ex_iff in_set_suffixes)
qed

text \<open>
  \<^verbatim>\<open>haystack.split_once(needle)\<close>: the text before and after the first occurrence.
\<close>

fun split_once :: "string \<Rightarrow> string \<Rightarrow> (string \<times> string) option" where
  "split_once needle [] = (if needle = [] then Some ([], []) else None)"
| "split_once needle (c # cs) =
     (if prefix needle (c # cs) then Some ([], drop (length needle) (c # cs))
      else map_option (\<lambda>(before, after). (c # before, after)) (split_once needle cs))"

lemma split_once_Some: "split_once needle s = Some (a, b) \<Longrightarrow> s = a @ needle @ b"
  by (induction needle s arbitrary: a rule: split_once.induct)
    (auto split: if_splits simp: prefix_def)

section \<open>Decimal numbers\<close>

definition digit_char :: "nat \<Rightarrow> char" where "digit_char d = char_of (48 + d)"

fun show_nat :: "nat \<Rightarrow> string" where
  "show_nat n = (if n < 10 then [digit_char n] else show_nat (n div 10) @ [digit_char (n mod 10)])"

declare show_nat.simps [simp del]

definition show_int :: "int \<Rightarrow> string" where
  "show_int i = (if i < 0 then ''-'' @ show_nat (nat (- i)) else show_nat (nat i))"

text \<open>The format \<^verbatim>\<open>{:02}\<close>.\<close>

definition show_02 :: "nat \<Rightarrow> string" where
  "show_02 n = (if n < 10 then ''0'' else []) @ show_nat n"

definition digit_value :: "char \<Rightarrow> nat option" where
  "digit_value c = (let n = (of_char c :: nat) in if 48 \<le> n \<and> n \<le> 57 then Some (n - 48) else None)"

fun read_digits :: "nat \<Rightarrow> string \<Rightarrow> nat option" where
  "read_digits acc [] = Some acc"
| "read_digits acc (c # cs) =
     (case digit_value c of
        None \<Rightarrow> None
      | Some d \<Rightarrow> if 4294967295 < acc * 10 + d then None else read_digits (acc * 10 + d) cs)"

text \<open>\<^verbatim>\<open>str::parse::<u32>\<close>: a leading plus sign is allowed, an empty text is not.\<close>

definition parse_u32 :: "string \<Rightarrow> nat option" where
  "parse_u32 s =
     (let digits = (case s of [] \<Rightarrow> [] | c # cs \<Rightarrow> if c = CHR ''+'' then cs else s)
      in if digits = [] then None else read_digits 0 digits)"

lemma digit_value_char [simp]: "d < 10 \<Longrightarrow> digit_value (digit_char d) = Some d"
  by (simp add: digit_value_def digit_char_def Let_def)

lemma of_digit_char: "d < 10 \<Longrightarrow> (of_char (digit_char d) :: nat) = 48 + d"
  by (simp add: digit_char_def)

lemma digit_char_not: "d < 10 \<Longrightarrow> (of_char c :: nat) < 48 \<or> 57 < (of_char c :: nat) \<Longrightarrow> digit_char d \<noteq> c"
  using of_digit_char by fastforce

lemma digit_not_continuation [simp]: "d < 10 \<Longrightarrow> \<not> is_continuation (digit_char d)"
  by (simp add: is_continuation_def of_digit_char)

lemma read_digits_append:
  "read_digits acc (xs @ ys) = (case read_digits acc xs of None \<Rightarrow> None | Some v \<Rightarrow> read_digits v ys)"
  by (induction acc xs rule: read_digits.induct) (auto split: option.split)

lemma read_show_nat: "n \<le> 4294967295 \<Longrightarrow> read_digits 0 (show_nat n) = Some n"
proof (induction n rule: show_nat.induct)
  case (1 n)
  show ?case
  proof (cases "n < 10")
    case True
    then show ?thesis by (simp add: show_nat.simps [of n])
  next
    case False
    with 1 have "read_digits 0 (show_nat (n div 10)) = Some (n div 10)" by simp
    with False 1(2) show ?thesis by (simp add: show_nat.simps [of n] read_digits_append)
  qed
qed

lemma show_nat_chars: "c \<in> set (show_nat n) \<Longrightarrow> \<exists>d < 10. c = digit_char d"
proof (induction n rule: show_nat.induct)
  case (1 n)
  show ?case
  proof (cases "n < 10")
    case True
    with 1(2) show ?thesis by (auto simp: show_nat.simps [of n])
  next
    case False
    with 1(2) have "c \<in> set (show_nat (n div 10)) \<or> c = digit_char (n mod 10)"
      by (auto simp: show_nat.simps [of n])
    moreover have "n mod 10 < 10" by simp
    ultimately show ?thesis using 1(1) [OF False] by blast
  qed
qed

lemma show_nat_nonempty [simp]: "show_nat n \<noteq> []"
  by (subst show_nat.simps) simp

lemma parse_show_02: "n \<le> 4294967295 \<Longrightarrow> parse_u32 (show_02 n) = Some n"
proof -
  assume n: "n \<le> 4294967295"
  have "hd (show_02 n) \<noteq> CHR ''+''"
  proof (cases "n < 10")
    case False
    then have "hd (show_02 n) \<in> set (show_nat n)" by (simp add: show_02_def)
    then obtain d where "d < 10" "hd (show_02 n) = digit_char d" using show_nat_chars by blast
    then show ?thesis using digit_char_not [of d "CHR ''+''"] by simp
  qed (simp add: show_02_def)
  moreover have "read_digits 0 (show_02 n) = Some n"
    using read_show_nat [OF n] by (simp add: show_02_def digit_value_def)
  moreover have "show_02 n \<noteq> []" by (simp add: show_02_def)
  ultimately show ?thesis by (cases "show_02 n") (auto simp: parse_u32_def)
qed

definition decimal :: "string \<Rightarrow> nat" where
  "decimal s = foldl (\<lambda>v c. v * 10 + (of_char c - 48)) 0 s"

lemma decimal_show_nat: "decimal (show_nat n) = n"
proof (induction n rule: show_nat.induct)
  case (1 n)
  show ?case
  proof (cases "n < 10")
    case True
    then show ?thesis by (simp add: decimal_def show_nat.simps [of n] of_digit_char)
  next
    case False
    from 1 [OF False] False have "decimal (show_nat n) =
        n div 10 * 10 + (of_char (digit_char (n mod 10)) - 48)"
      by (simp add: decimal_def show_nat.simps [of n])
    also have "\<dots> = n" by (simp add: of_digit_char)
    finally show ?thesis .
  qed
qed

lemma show_nat_inject: "show_nat m = show_nat n \<longleftrightarrow> m = n"
  by (metis decimal_show_nat)

text \<open>\<^verbatim>\<open>((now / 86_400) + 1) * 86_400\<close> on \<^verbatim>\<open>i32\<close>, which both token repositories use.\<close>

definition next_utc_midnight :: "i32 \<Rightarrow> i32" where
  "next_utc_midnight now = wrap_i32 (wrap_i32 (now sdiv 86400 + 1) * 86400)"

lemma sdiv_nonneg: "0 \<le> a \<Longrightarrow> 0 < b \<Longrightarrow> a sdiv b = a div (b :: int)"
  by (cases "a = 0") (simp_all add: signed_divide_int_def sgn_if)

text \<open>2147472000 is the last midnight an \<^verbatim>\<open>i32\<close> holds.\<close>

lemma next_utc_midnight_bounds:
  assumes "0 \<le> now" "now < 2147472000"
  shows "now < next_utc_midnight now" "next_utc_midnight now \<le> now + 86400" "next_utc_midnight now mod 86400 = 0"
proof -
  have q: "0 \<le> now div 86400" "now div 86400 + 1 \<le> 24855" using assms by auto
  then have "next_utc_midnight now = (now div 86400 + 1) * 86400"
    using assms(1) by (simp add: next_utc_midnight_def sdiv_nonneg wrap_i32_range)
  then have mid: "next_utc_midnight now = now div 86400 * 86400 + 86400" by simp
  have now: "now = now div 86400 * 86400 + now mod 86400" "0 \<le> now mod 86400" "now mod 86400 < 86400"
    by simp_all
  show "now < next_utc_midnight now" "next_utc_midnight now \<le> now + 86400"
    using mid now by linarith+
  show "next_utc_midnight now mod 86400 = 0" by (simp add: mid)
qed

end
