(* ===== verification/Suppressions.thy ===== *)
theory Suppressions
  imports Text Tables
begin

text \<open>
  Temporary alert suppressions (\<^verbatim>\<open>repositories/temporary_alert_suppressions_repository.rs\<close>): a user
  silences a topic, or everything in a scope (quiet mode), until a time. The decision whether an
  alert is sent is a pure function of the active rows.
\<close>

definition KIND_TOPIC :: string where "KIND_TOPIC = ''topic''"
definition KIND_QUIET :: string where "KIND_QUIET = ''quiet''"
definition SCOPE_ALL :: string where "SCOPE_ALL = ''all''"
definition SCOPE_CRITICAL :: string where "SCOPE_CRITICAL = ''critical''"
definition SCOPE_DIGEST :: string where "SCOPE_DIGEST = ''digest''"

record suppression =
  sup_id :: i32
  sup_user_id :: i32
  sup_kind :: string
  sup_scope :: string
  sup_match_text :: "string option"
  sup_timezone :: string
  sup_created_at :: i32
  sup_expires_at :: i32
  sup_ended_at :: "i32 option"

record suppression_store =
  st_user_ids :: "i32 list"
  st_rows :: "suppression table"
  st_next_id :: i32

datatype suppression_decision = Allow | SuppressQuiet string | SuppressTopic string

section \<open>The table\<close>

definition is_active_quiet :: "i32 \<Rightarrow> i32 \<Rightarrow> suppression \<Rightarrow> bool" where
  "is_active_quiet user_id now r \<longleftrightarrow>
     sup_user_id r = user_id \<and> sup_kind r = KIND_QUIET \<and> sup_ended_at r = None \<and> now < sup_expires_at r"

text \<open>The CHECK constraints of the table.\<close>

definition suppression_checks :: "suppression \<Rightarrow> bool" where
  "suppression_checks r \<longleftrightarrow>
     sup_kind r \<in> {KIND_TOPIC, KIND_QUIET} \<and> sup_scope r \<in> {SCOPE_ALL, SCOPE_CRITICAL, SCOPE_DIGEST} \<and>
     sup_created_at r < sup_expires_at r \<and> (sup_kind r = KIND_TOPIC \<longrightarrow> sup_match_text r \<noteq> None)"

definition suppression_create ::
  "i32 \<Rightarrow> string \<Rightarrow> string \<Rightarrow> string option \<Rightarrow> string \<Rightarrow> i32 \<Rightarrow> i32 \<Rightarrow> suppression_store
   \<Rightarrow> (db_error + suppression) \<times> suppression_store" where
  "suppression_create user_id kind scope match_text timezone expires_at now =
     transaction (\<lambda>s.
       let rows = (if kind = KIND_QUIET
                   then sql_update (is_active_quiet user_id now) (\<lambda>r. r\<lparr>sup_ended_at := Some now\<rparr>) (st_rows s)
                   else st_rows s);
           row = \<lparr>sup_id = st_next_id s, sup_user_id = user_id, sup_kind = kind, sup_scope = scope,
                  sup_match_text = match_text, sup_timezone = timezone, sup_created_at = now,
                  sup_expires_at = expires_at, sup_ended_at = None\<rparr>
       in if user_id \<notin> set (st_user_ids s) then (Inl ForeignKeyViolation, s)
          else if \<not> suppression_checks row then (Inl CheckViolation, s)
          else (Inr row, s\<lparr>st_rows := rows @ [row], st_next_id := st_next_id s + 1\<rparr>))"

definition end_quiet ::
  "i32 \<Rightarrow> string option \<Rightarrow> i32 \<Rightarrow> suppression_store \<Rightarrow> suppression list \<times> suppression_store" where
  "end_quiet user_id scope now s =
     (let p = (\<lambda>r. is_active_quiet user_id now r \<and> (case scope of None \<Rightarrow> True | Some sc \<Rightarrow> sup_scope r = sc));
          f = (\<lambda>r. r\<lparr>sup_ended_at := Some now\<rparr>)
      in (sql_updated p f (st_rows s), s\<lparr>st_rows := sql_update p f (st_rows s)\<rparr>))"

definition end_for_user :: "i32 \<Rightarrow> i32 \<Rightarrow> i32 \<Rightarrow> suppression_store \<Rightarrow> bool \<times> suppression_store" where
  "end_for_user user_id row_id now s =
     (let p = (\<lambda>r. sup_id r = row_id \<and> sup_user_id r = user_id \<and> sup_ended_at r = None \<and> now < sup_expires_at r)
      in (sql_count p (st_rows s) = 1,
          s\<lparr>st_rows := sql_update p (\<lambda>r. r\<lparr>sup_ended_at := Some now\<rparr>) (st_rows s)\<rparr>))"

definition active_for_user :: "i32 \<Rightarrow> i32 \<Rightarrow> suppression_store \<Rightarrow> suppression list" where
  "active_for_user user_id now s =
     order_desc sup_created_at
       (sql_select (\<lambda>r. sup_user_id r = user_id \<and> sup_ended_at r = None \<and> now < sup_expires_at r) (st_rows s))"

section \<open>The decision\<close>

definition quiet_scope_matches :: "string \<Rightarrow> string \<Rightarrow> bool" where
  "quiet_scope_matches scope category \<longleftrightarrow> scope = SCOPE_ALL \<or> scope = category"

definition is_generic_scope_word :: "string \<Rightarrow> bool" where
  "is_generic_scope_word token \<longleftrightarrow>
     token \<in> {''alert'', ''alerts'', ''expected'', ''message'', ''messages'', ''notification'',
              ''notifications'', ''transaction'', ''transactions'', ''activity'', ''about'', ''from''}"

definition significant_words :: "unicode \<Rightarrow> string \<Rightarrow> string list" where
  "significant_words u scope =
     filter (\<lambda>token. 3 \<le> length token \<and> \<not> is_generic_scope_word token)
       (map (to_lowercase u) (str_split (\<lambda>c. \<not> is_alphanumeric u c) scope))"

definition topic_matches :: "unicode \<Rightarrow> string \<Rightarrow> string \<Rightarrow> bool" where
  "topic_matches u scope searchable_text =
     (let haystack = to_lowercase u searchable_text; significant = significant_words u scope
      in significant \<noteq> [] \<and> list_all (str_contains haystack) significant)"

fun find_topic :: "unicode \<Rightarrow> string \<Rightarrow> suppression list \<Rightarrow> suppression_decision option" where
  "find_topic u searchable_text [] = None"
| "find_topic u searchable_text (row # rows) =
     (if sup_kind row \<noteq> KIND_TOPIC then find_topic u searchable_text rows
      else
        (case sup_match_text row of
           None \<Rightarrow> find_topic u searchable_text rows
         | Some scope \<Rightarrow>
             if topic_matches u scope searchable_text then Some (SuppressTopic scope)
             else find_topic u searchable_text rows))"

definition decide_suppression ::
  "unicode \<Rightarrow> suppression list \<Rightarrow> string \<Rightarrow> string \<Rightarrow> bool \<Rightarrow> suppression_decision" where
  "decide_suppression u active category searchable_text always_show =
     (case find (\<lambda>row. sup_kind row = KIND_QUIET \<and> quiet_scope_matches (sup_scope row) category) active of
        Some row \<Rightarrow> SuppressQuiet (sup_scope row)
      | None \<Rightarrow>
          if always_show \<or> category = SCOPE_DIGEST then Allow
          else (case find_topic u searchable_text active of Some d \<Rightarrow> d | None \<Rightarrow> Allow))"

definition has_quiet_scope :: "i32 \<Rightarrow> string \<Rightarrow> i32 \<Rightarrow> suppression_store \<Rightarrow> bool" where
  "has_quiet_scope user_id category now s =
     list_ex (\<lambda>row. sup_kind row = KIND_QUIET \<and> quiet_scope_matches (sup_scope row) category)
       (active_for_user user_id now s)"

definition decision ::
  "unicode \<Rightarrow> i32 \<Rightarrow> string \<Rightarrow> string \<Rightarrow> bool \<Rightarrow> i32 \<Rightarrow> suppression_store \<Rightarrow> suppression_decision" where
  "decision u user_id category searchable_text always_show now s =
     decide_suppression u (active_for_user user_id now s) category searchable_text always_show"

section \<open>Properties\<close>

lemma find_topic_None:
  "find_topic u t rows = None \<longleftrightarrow>
     \<not> (\<exists>row \<in> set rows. sup_kind row = KIND_TOPIC \<and> (\<exists>m. sup_match_text row = Some m \<and> topic_matches u m t))"
  by (induction rows) (auto split: option.split)

lemma find_topic_Some:
  "find_topic u t rows = Some d \<Longrightarrow>
     \<exists>row \<in> set rows. sup_kind row = KIND_TOPIC \<and> (\<exists>m. sup_match_text row = Some m \<and> topic_matches u m t \<and> d = SuppressTopic m)"
  by (induction rows) (auto split: option.splits if_splits)

lemma set_active_for_user:
  "set (active_for_user user now s) =
     {r \<in> set (st_rows s). sup_user_id r = user \<and> sup_ended_at r = None \<and> now < sup_expires_at r}"
  by (simp add: active_for_user_def)

text \<open>What an active row says of an alert.\<close>

definition silences :: "i32 \<Rightarrow> i32 \<Rightarrow> suppression \<Rightarrow> bool" where
  "silences user now r \<longleftrightarrow> sup_user_id r = user \<and> sup_ended_at r = None \<and> now < sup_expires_at r"

text \<open>
  An alert is sent exactly when nothing silences it: no running quiet mode of the user
  covers its category, and, unless it is always shown or a digest, no running topic suppression of
  the user matches its text. Being always shown does not break through quiet mode.
\<close>

theorem alert_allowed_iff:
  "decision u user category text always_show now s = Allow \<longleftrightarrow>
     (\<nexists>r. r \<in> set (st_rows s) \<and> silences user now r \<and> sup_kind r = KIND_QUIET \<and>
          quiet_scope_matches (sup_scope r) category) \<and>
     (always_show \<or> category = SCOPE_DIGEST \<or>
      (\<nexists>r m. r \<in> set (st_rows s) \<and> silences user now r \<and> sup_kind r = KIND_TOPIC \<and>
            sup_match_text r = Some m \<and> topic_matches u m text))"
proof -
  let ?active = "active_for_user user now s"
  have active: "set ?active = {r \<in> set (st_rows s). silences user now r}"
    by (simp add: set_active_for_user silences_def)
  show ?thesis
  proof (cases "find (\<lambda>row. sup_kind row = KIND_QUIET \<and> quiet_scope_matches (sup_scope row) category) ?active")
    case (Some r)
    then have "r \<in> set ?active \<and> sup_kind r = KIND_QUIET \<and> quiet_scope_matches (sup_scope r) category"
      by (auto dest: find_SomeD)
    with Some active show ?thesis by (auto simp: decision_def decide_suppression_def)
  next
    case None
    then have quiet: "\<nexists>r. r \<in> set (st_rows s) \<and> silences user now r \<and> sup_kind r = KIND_QUIET \<and>
          quiet_scope_matches (sup_scope r) category"
      using active unfolding find_None_iff by blast
    have topics: "find_topic u text ?active = None \<longleftrightarrow>
        (\<nexists>r m. r \<in> set (st_rows s) \<and> silences user now r \<and> sup_kind r = KIND_TOPIC \<and>
            sup_match_text r = Some m \<and> topic_matches u m text)"
      unfolding find_topic_None active by blast
    have "find_topic u text ?active \<noteq> Some Allow" using find_topic_Some by blast
    with None quiet topics show ?thesis
      by (auto simp: decision_def decide_suppression_def split: option.split)
  qed
qed

definition demo_suppressions :: suppression_store where
  "demo_suppressions =
     \<lparr>st_user_ids = [7], st_rows = [\<lparr>sup_id = 1, sup_user_id = 7, sup_kind = ''quiet'',
        sup_scope = ''all'', sup_match_text = None, sup_timezone = ''UTC'', sup_created_at = 100,
        sup_expires_at = 900, sup_ended_at = None\<rparr>], st_next_id = 2\<rparr>"

theorem alert_allowed_iff_witness:
  "\<not> (\<exists>r. r \<in> set (st_rows demo_suppressions) \<and> silences 7 950 r \<and> sup_kind r = KIND_QUIET \<and>
         quiet_scope_matches (sup_scope r) ''critical'')"
proof -
  have "decision \<lparr>u_alphanumeric = (\<lambda>c. False), u_lowercase = (\<lambda>t. t)\<rparr> 7 ''critical'' ''server down'' False 950
      demo_suppressions = Allow"
    by code_simp
  then show ?thesis unfolding alert_allowed_iff by blast
qed

text \<open>
  Quiet mode is single: starting quiet mode ends every quiet mode of the user that is
  still running, so that right afterwards the new one is the only one, and it leaves the other
  users' rows and the topic suppressions as they were.
\<close>

theorem one_quiet_mode:
  assumes "suppression_create user KIND_QUIET scope match_text timezone expires_at now s = (Inr row, s')"
  shows "filter (is_active_quiet user now) (st_rows s') = [row] \<and> sup_expires_at row = expires_at \<and>
         filter (\<lambda>r. sup_user_id r \<noteq> user \<or> sup_kind r = KIND_TOPIC) (st_rows s') =
         filter (\<lambda>r. sup_user_id r \<noteq> user \<or> sup_kind r = KIND_TOPIC) (st_rows s)"
proof -
  let ?old = "sql_update (is_active_quiet user now) (\<lambda>r. r\<lparr>sup_ended_at := Some now\<rparr>) (st_rows s)"
  from assms have row: "st_rows s' = ?old @ [row]" "is_active_quiet user now row" "sup_expires_at row = expires_at"
    "sup_user_id row = user" "sup_kind row = KIND_QUIET"
    by (auto simp: suppression_create_def transaction_Inr Let_def suppression_checks_def is_active_quiet_def
        split: if_splits)
  have "filter (is_active_quiet user now) (sql_update (is_active_quiet user now) (\<lambda>r. r\<lparr>sup_ended_at := Some now\<rparr>) t) = []" for t
    by (induction t) (auto simp: sql_update_def is_active_quiet_def)
  moreover have "filter (\<lambda>r. sup_user_id r \<noteq> user \<or> sup_kind r = KIND_TOPIC)
        (sql_update (is_active_quiet user now) (\<lambda>r. r\<lparr>sup_ended_at := Some now\<rparr>) t) =
      filter (\<lambda>r. sup_user_id r \<noteq> user \<or> sup_kind r = KIND_TOPIC) t" for t
    by (induction t) (auto simp: sql_update_def is_active_quiet_def KIND_QUIET_def KIND_TOPIC_def)
  ultimately show ?thesis using row by (simp add: KIND_QUIET_def KIND_TOPIC_def)
qed

theorem one_quiet_mode_witness:
  "length (filter (is_active_quiet 7 500)
     (st_rows (snd (suppression_create 7 KIND_QUIET ''critical'' None ''UTC'' 1000 500 demo_suppressions)))) = 1"
proof -
  let ?c = "suppression_create 7 KIND_QUIET ''critical'' None ''UTC'' 1000 500 demo_suppressions"
  have "\<not> isl (fst ?c)" by code_simp
  then obtain row where "?c = (Inr row, snd ?c)" by (cases ?c; cases "fst ?c") auto
  from one_quiet_mode [OF this] show ?thesis by simp
qed

end
