(* ===== verification/Webhook.thy ===== *)
theory Webhook
  imports Suppressions Contracts
begin

text \<open>
  Webhook-triggered SMS: the token and idempotency tables
  (\<^verbatim>\<open>repositories/webhook_tokens_repository.rs\<close>, rows in \<^verbatim>\<open>models/user_models.rs\<close>, constraints in migrations 38
  and 39) and the handlers (\<^verbatim>\<open>handlers/webhook_sms_handlers.rs\<close>).

  PostgreSQL runs these transactions at READ COMMITTED: between two statements of one transaction
  other transactions may commit. Where the code copes with that, the writes of the others are a
  parameter \<open>others\<close>, a function on the store, applied at that point; the identity is the case that
  nobody interferes. The usage log is the list of the calls of \<^verbatim>\<open>log_usage\<close>.
\<close>

section \<open>Tables\<close>

record webhook_token =
  wt_id :: i32
  wt_user_id :: i32
  wt_token_hash :: string
  wt_token_prefix :: string
  wt_label :: string
  wt_daily_cap :: i32
  wt_daily_sent :: i32
  wt_daily_reset_at :: i32
  wt_last_used_at :: "i32 option"
  wt_revoked_at :: "i32 option"
  wt_created_at :: i32

record new_webhook_token =
  nt_user_id :: i32
  nt_token_hash :: string
  nt_token_prefix :: string
  nt_label :: string
  nt_daily_cap :: i32
  nt_daily_sent :: i32
  nt_daily_reset_at :: i32
  nt_created_at :: i32

record webhook_key =
  wk_id :: i32
  wk_token_id :: i32
  wk_idempotency_key :: string
  wk_response_sid :: "string option"
  wk_created_at :: i32

record webhook_usage =
  wu_user_id :: i32
  wu_sid :: "string option"
  wu_token_id :: "i32 option"    \<comment> \<open>the reason \<^verbatim>\<open>token_id=...\<close>; None: \<^verbatim>\<open>temporary_alert_suppression\<close>\<close>
  wu_status :: string

record webhook_store =
  wh_user_ids :: "i32 list"
  wh_tokens :: "webhook_token table"
  wh_next_token_id :: i32
  wh_keys :: "webhook_key table"
  wh_next_key_id :: i32
  wh_usage :: "webhook_usage list"

datatype claim_result = ClaimOk webhook_token | ClaimRevoked | ClaimOverCap i32 i32

datatype idempotency_result = Fresh i32 | Replayed string | InFlight

definition IDEMPOTENCY_TTL_SECS :: i32 where "IDEMPOTENCY_TTL_SECS = 86400"

section \<open>The repository\<close>

definition webhook_create ::
  "new_webhook_token \<Rightarrow> webhook_store \<Rightarrow> (db_error + webhook_token) \<times> webhook_store" where
  "webhook_create nt s =
     (if nt_user_id nt \<notin> set (wh_user_ids s) then (Inl ForeignKeyViolation, s)
      else if \<exists>t \<in> set (wh_tokens s). wt_token_hash t = nt_token_hash nt then (Inl UniqueViolation, s)
      else
        let t = \<lparr>wt_id = wh_next_token_id s, wt_user_id = nt_user_id nt, wt_token_hash = nt_token_hash nt,
                 wt_token_prefix = nt_token_prefix nt, wt_label = nt_label nt, wt_daily_cap = nt_daily_cap nt,
                 wt_daily_sent = nt_daily_sent nt, wt_daily_reset_at = nt_daily_reset_at nt,
                 wt_last_used_at = None, wt_revoked_at = None, wt_created_at = nt_created_at nt\<rparr>
        in (Inr t, s\<lparr>wh_tokens := wh_tokens s @ [t], wh_next_token_id := wh_next_token_id s + 1\<rparr>))"

definition webhook_list_for_user :: "i32 \<Rightarrow> webhook_store \<Rightarrow> webhook_token list" where
  "webhook_list_for_user user_id s =
     order_desc wt_created_at (sql_select (\<lambda>t. wt_user_id t = user_id \<and> wt_revoked_at t = None) (wh_tokens s))"

definition webhook_revoke :: "i32 \<Rightarrow> i32 \<Rightarrow> i32 \<Rightarrow> webhook_store \<Rightarrow> bool \<times> webhook_store" where
  "webhook_revoke user_id token_id now s =
     (if sql_count (\<lambda>t. wt_id t = token_id \<and> wt_user_id t = user_id) (wh_tokens s) = 0 then (False, s)
      else
        (True,
         s\<lparr>wh_tokens := sql_update (\<lambda>t. wt_id t = token_id \<and> wt_user_id t = user_id \<and> wt_revoked_at t = None)
                           (\<lambda>t. t\<lparr>wt_revoked_at := Some now\<rparr>) (wh_tokens s)\<rparr>))"

definition webhook_find_by_hash :: "string \<Rightarrow> webhook_store \<Rightarrow> webhook_token option" where
  "webhook_find_by_hash token_hash s = sql_first (\<lambda>t. wt_token_hash t = token_hash) (wh_tokens s)"

definition reset_window :: "string \<Rightarrow> i32 \<Rightarrow> webhook_store \<Rightarrow> webhook_store" where
  "reset_window token_hash now s =
     s\<lparr>wh_tokens := sql_update (\<lambda>t. wt_token_hash t = token_hash \<and> wt_daily_reset_at t \<le> now)
                      (\<lambda>t. t\<lparr>wt_daily_sent := 0, wt_daily_reset_at := next_utc_midnight now\<rparr>) (wh_tokens s)\<rparr>"

definition take_slot :: "i32 \<Rightarrow> i32 \<Rightarrow> webhook_store \<Rightarrow> nat \<times> webhook_store" where
  "take_slot token_id now s =
     (let p = (\<lambda>t. wt_id t = token_id \<and> wt_revoked_at t = None \<and> wt_daily_sent t < wt_daily_cap t)
      in (sql_count p (wh_tokens s),
          s\<lparr>wh_tokens := sql_update p
              (\<lambda>t. t\<lparr>wt_daily_sent := wt_daily_sent t + 1, wt_last_used_at := Some now\<rparr>) (wh_tokens s)\<rparr>))"

text \<open>
  \<open>others\<close> commits between the second and the third statement. A row that vanished there makes the
  re-read fail, which rolls this transaction back and leaves what the others wrote.
\<close>

definition claim_send_slot ::
  "(webhook_store \<Rightarrow> webhook_store) \<Rightarrow> string \<Rightarrow> i32 \<Rightarrow> webhook_store
   \<Rightarrow> (db_error + claim_result) \<times> webhook_store" where
  "claim_send_slot others token_hash now s =
     (let s1 = reset_window token_hash now s
      in (case webhook_find_by_hash token_hash s1 of
            None \<Rightarrow> (Inr ClaimRevoked, s1)
          | Some row \<Rightarrow>
              if wt_revoked_at row \<noteq> None then (Inr ClaimRevoked, s1)
              else
                (case take_slot (wt_id row) now (others s1) of
                   (affected, s2) \<Rightarrow>
                     (case sql_first (\<lambda>t. wt_id t = wt_id row) (wh_tokens s2) of
                        None \<Rightarrow> (Inl NotFound, others s)
                      | Some fresh \<Rightarrow>
                          if affected = 0
                          then
                            (if wt_revoked_at fresh \<noteq> None then (Inr ClaimRevoked, s2)
                             else (Inr (ClaimOverCap (wt_daily_cap fresh) (wt_daily_sent fresh)), s2))
                          else (Inr (ClaimOk fresh), s2)))))"

definition key_live :: "i32 \<Rightarrow> i32 \<Rightarrow> bool" where
  "key_live now created_at \<longleftrightarrow> wrap_i32 (now - created_at) \<le> IDEMPOTENCY_TTL_SECS"

definition find_key :: "i32 \<Rightarrow> string \<Rightarrow> webhook_store \<Rightarrow> webhook_key option" where
  "find_key token_id key s =
     sql_first (\<lambda>k. wk_token_id k = token_id \<and> wk_idempotency_key k = key) (wh_keys s)"

text \<open>\<^verbatim>\<open>INSERT ... ON CONFLICT DO NOTHING RETURNING id\<close>\<close>

definition insert_key :: "i32 \<Rightarrow> string \<Rightarrow> i32 \<Rightarrow> webhook_store \<Rightarrow> (db_error + i32 option) \<times> webhook_store" where
  "insert_key token_id key now s =
     (if token_id \<notin> wt_id ` set (wh_tokens s) then (Inl ForeignKeyViolation, s)
      else if find_key token_id key s \<noteq> None then (Inr None, s)
      else
        (Inr (Some (wh_next_key_id s)),
         s\<lparr>wh_keys := wh_keys s @ [\<lparr>wk_id = wh_next_key_id s, wk_token_id = token_id, wk_idempotency_key = key,
                                     wk_response_sid = None, wk_created_at = now\<rparr>],
           wh_next_key_id := wh_next_key_id s + 1\<rparr>))"

definition reserve_idempotency_key ::
  "(webhook_store \<Rightarrow> webhook_store) \<Rightarrow> i32 \<Rightarrow> string \<Rightarrow> i32 \<Rightarrow> webhook_store
   \<Rightarrow> (db_error + idempotency_result) \<times> webhook_store" where
  "reserve_idempotency_key others token_id key now s =
     (let fresh = (\<lambda>s1. case insert_key token_id key now (others s1) of
                      (Inl e, _) \<Rightarrow> (Inl e, others s)
                    | (Inr None, s2) \<Rightarrow> (Inr InFlight, s2)
                    | (Inr (Some row_id), s2) \<Rightarrow> (Inr (Fresh row_id), s2))
      in (case find_key token_id key s of
            Some k \<Rightarrow>
              if key_live now (wk_created_at k)
              then (case wk_response_sid k of
                      Some sid \<Rightarrow> (Inr (Replayed sid), s)
                    | None \<Rightarrow> (Inr InFlight, s))
              else fresh (s\<lparr>wh_keys := sql_delete (\<lambda>q. wk_id q = wk_id k) (wh_keys s)\<rparr>)
          | None \<Rightarrow> fresh s))"

definition complete_idempotency :: "i32 \<Rightarrow> string \<Rightarrow> webhook_store \<Rightarrow> webhook_store" where
  "complete_idempotency row_id sid s =
     s\<lparr>wh_keys := sql_update (\<lambda>k. wk_id k = row_id) (\<lambda>k. k\<lparr>wk_response_sid := Some sid\<rparr>) (wh_keys s)\<rparr>"

definition clear_idempotency :: "i32 \<Rightarrow> webhook_store \<Rightarrow> webhook_store" where
  "clear_idempotency row_id s = s\<lparr>wh_keys := sql_delete (\<lambda>k. wk_id k = row_id) (wh_keys s)\<rparr>"

section \<open>The handlers\<close>

definition MAX_BODY_LEN :: nat where "MAX_BODY_LEN = 1500"
definition DEFAULT_DAILY_CAP :: i32 where "DEFAULT_DAILY_CAP = 50"
definition WEBHOOK_TOKEN_PREFIX :: string where "WEBHOOK_TOKEN_PREFIX = ''lf_''"
definition MAX_IDEMPOTENCY_KEY_LEN :: nat where "MAX_IDEMPOTENCY_KEY_LEN = 64"

datatype webhook_error = WebhookError nat string | CapReached i32 i32

definition wh_unauthorized :: webhook_error where
  "wh_unauthorized = WebhookError 401 ''invalid or revoked token''"
definition wh_db_err :: webhook_error where
  "wh_db_err = WebhookError 500 ''internal error''"

text \<open>
  \<open>sub_tier\<close> is what \<^verbatim>\<open>user_core.find_by_id\<close> finds of the user (\<^verbatim>\<open>None\<close>: no such user), \<open>sha\<close> the hex
  SHA-256 digest, \<open>random_hex\<close> the 16 random bytes in hex. The result is the row and the token shown once.
\<close>

definition create_token ::
  "(string \<Rightarrow> string) \<Rightarrow> string \<Rightarrow> i32 \<Rightarrow> string option option \<Rightarrow> string \<Rightarrow> i32 option \<Rightarrow> i32 \<Rightarrow> webhook_store
   \<Rightarrow> (webhook_error + webhook_token \<times> string) \<times> webhook_store" where
  "create_token sha random_hex user_id sub_tier label daily_cap now s =
     (case sub_tier of
        None \<Rightarrow> (Inl (WebhookError 404 ''User not found''), s)
      | Some tier \<Rightarrow>
          if tier \<noteq> Some ''tier 2'' then (Inl (WebhookError 403 ''Active subscription required''), s)
          else
            let label = trim label
            in if label = [] \<or> 64 < char_count label
               then (Inl (WebhookError 400 ''label must be 1..=64 chars''), s)
               else
                 let cap = min 500 (max 1 (case daily_cap of None \<Rightarrow> DEFAULT_DAILY_CAP | Some c \<Rightarrow> c));
                     raw_token = WEBHOOK_TOKEN_PREFIX @ random_hex
                 in (case webhook_create
                            \<lparr>nt_user_id = user_id, nt_token_hash = sha raw_token,
                             nt_token_prefix = take_chars 8 raw_token, nt_label = label, nt_daily_cap = cap,
                             nt_daily_sent = 0, nt_daily_reset_at = next_utc_midnight now, nt_created_at = now\<rparr> s of
                       (Inl _, s') \<Rightarrow> (Inl wh_db_err, s')
                     | (Inr row, s') \<Rightarrow> (Inr (row, raw_token), s')))"

definition list_tokens :: "i32 \<Rightarrow> webhook_store \<Rightarrow> webhook_token list" where
  "list_tokens user_id s = webhook_list_for_user user_id s"

definition revoke_token :: "i32 \<Rightarrow> i32 \<Rightarrow> i32 \<Rightarrow> webhook_store \<Rightarrow> (webhook_error + nat) \<times> webhook_store" where
  "revoke_token user_id token_id now s =
     (case webhook_revoke user_id token_id now s of
        (revoked, s') \<Rightarrow> (if revoked then Inr 204 else Inl (WebhookError 404 ''token not found''), s'))"

text \<open>\<open>to_str\<close> is \<^verbatim>\<open>HeaderValue::to_str\<close>.\<close>

definition extract_bearer :: "(string \<Rightarrow> string option) \<Rightarrow> string option \<Rightarrow> string option" where
  "extract_bearer to_str header =
     (case Option.bind header to_str of
        None \<Rightarrow> None
      | Some raw \<Rightarrow>
          (case (case strip_prefix ''Bearer '' raw of Some t \<Rightarrow> Some t | None \<Rightarrow> strip_prefix ''bearer '' raw) of
             None \<Rightarrow> None
           | Some t \<Rightarrow> if trim t = [] then None else Some (trim t)))"

definition extract_idempotency_key ::
  "(string \<Rightarrow> string option) \<Rightarrow> string option \<Rightarrow> webhook_error + string option" where
  "extract_idempotency_key to_str header =
     (case header of
        None \<Rightarrow> Inr None
      | Some raw \<Rightarrow>
          (case to_str raw of
             None \<Rightarrow> Inl (WebhookError 400 ''Idempotency-Key contains non-ASCII bytes'')
           | Some t \<Rightarrow>
               let trimmed = trim t
               in if trimmed = [] then Inr None
                  else if MAX_IDEMPOTENCY_KEY_LEN < length trimmed
                  then Inl (WebhookError 400 ''Idempotency-Key exceeds 64 chars'')
                  else if \<not> list_all (\<lambda>c. is_ascii_graphic c \<or> c = CHR '' '' \<or> c = CHR ''-'' \<or> c = CHR ''_'') trimmed
                  then Inl (WebhookError 400 ''Idempotency-Key contains invalid characters'')
                  else Inr (Some trimmed)))"

definition sanitize_label :: "string \<Rightarrow> string" where
  "sanitize_label label =
     (let cleaned = trim (concat (filter (\<lambda>c. \<not> is_control c \<and> c \<noteq> ''['' \<and> c \<noteq> '']'') (utf8_chars label)))
      in if cleaned = [] then ''webhook'' else cleaned)"

definition public_credit_error :: "string \<Rightarrow> nat \<times> string" where
  "public_credit_error message =
     (if prefix ''Failed to '' message \<or> message = ''Invalid event type''
      then (503, ''notification eligibility check unavailable'')
      else if str_contains message ''Phone service'' then (402, ''phone service is inactive'')
      else if str_contains message ''subscription'' then (402, ''active subscription required'')
      else if str_contains message ''Monthly usage'' then (402, ''monthly usage allowance exhausted'')
      else if str_contains message ''credits'' \<or> str_contains message ''quota''
      then (402, ''notification usage balance exhausted'')
      else (503, ''notification eligibility check unavailable''))"

definition release_idempotency :: "i32 option \<Rightarrow> webhook_store \<Rightarrow> webhook_store" where
  "release_idempotency row_id s = (case row_id of None \<Rightarrow> s | Some i \<Rightarrow> clear_idempotency i s)"

definition log_usage :: "webhook_usage \<Rightarrow> webhook_store \<Rightarrow> webhook_store" where
  "log_usage entry s = s\<lparr>wh_usage := wh_usage s @ [entry]\<rparr>"

datatype send_outcome = SendAccepted string | SendFailed | SendTimedOut

text \<open>
  The answers of the services the handler calls: whether \<^verbatim>\<open>user_core\<close> finds the user, the suppression
  decision for the outbound text, the message of a failed \<^verbatim>\<open>check_user_credits\<close>, what became of the send
  within the timeout, and the writes that other requests commit before each numbered step.
\<close>

record webhook_env =
  we_user_found :: "i32 \<Rightarrow> bool"
  we_suppressed :: "i32 \<Rightarrow> string \<Rightarrow> bool"
  we_credit_error :: "i32 \<Rightarrow> string option"
  we_send :: "i32 \<Rightarrow> string \<Rightarrow> send_outcome"
  we_others :: "nat \<Rightarrow> webhook_store \<Rightarrow> webhook_store"

record webhook_sms_response =
  wr_status :: string
  wr_sid :: string

text \<open>Steps 7 to 9: claim a slot, send, settle the idempotency row.\<close>

definition webhook_claim_and_send ::
  "webhook_env \<Rightarrow> string \<Rightarrow> i32 \<Rightarrow> string \<Rightarrow> i32 option \<Rightarrow> i32 \<Rightarrow> webhook_store
   \<Rightarrow> (webhook_error + webhook_sms_response) \<times> webhook_store" where
  "webhook_claim_and_send env token_hash user_id body row_id now s =
     (case claim_send_slot (we_others env 4) token_hash now (we_others env 3 s) of
        (Inl _, s1) \<Rightarrow> (Inl wh_db_err, release_idempotency row_id s1)
      | (Inr ClaimRevoked, s1) \<Rightarrow> (Inl wh_unauthorized, release_idempotency row_id s1)
      | (Inr (ClaimOverCap cap sent), s1) \<Rightarrow> (Inl (CapReached cap sent), release_idempotency row_id s1)
      | (Inr (ClaimOk token), s1) \<Rightarrow>
          let outbound = ''['' @ sanitize_label (wt_label token) @ ''] '' @ body;
              s2 = we_others env 5 s1
          in (case we_send env user_id outbound of
                SendAccepted sid \<Rightarrow>
                  (Inr \<lparr>wr_status = ''accepted'', wr_sid = sid\<rparr>,
                   log_usage \<lparr>wu_user_id = user_id, wu_sid = Some sid, wu_token_id = Some (wt_id token), wu_status = ''accepted''\<rparr>
                     (case row_id of None \<Rightarrow> s2 | Some i \<Rightarrow> complete_idempotency i sid s2))
              | SendFailed \<Rightarrow> (Inl (WebhookError 502 ''send failed''), release_idempotency row_id s2)
              | SendTimedOut \<Rightarrow>
                  (Inl (WebhookError 504 ''send outcome unknown; retry later with the same idempotency key''), s2)))"

text \<open>Steps 5 to 9, for a request that is not a replay.\<close>

definition webhook_deliver ::
  "webhook_env \<Rightarrow> webhook_token \<Rightarrow> string \<Rightarrow> string \<Rightarrow> i32 option \<Rightarrow> i32 \<Rightarrow> webhook_store
   \<Rightarrow> (webhook_error + webhook_sms_response) \<times> webhook_store" where
  "webhook_deliver env token token_hash body row_id now s =
     (let user_id = wt_user_id token; outbound = ''['' @ sanitize_label (wt_label token) @ ''] '' @ body
      in if \<not> we_user_found env user_id then (Inl wh_unauthorized, release_idempotency row_id s)
         else if we_suppressed env user_id outbound then
           (Inr \<lparr>wr_status = ''suppressed'', wr_sid = ''suppressed''\<rparr>,
            log_usage \<lparr>wu_user_id = user_id, wu_sid = None, wu_token_id = None,
                       wu_status = ''suppressed''\<rparr>
              (case row_id of
                 None \<Rightarrow> we_others env 2 s
               | Some i \<Rightarrow> complete_idempotency i ''suppressed'' (we_others env 2 s)))
         else
           (case we_credit_error env user_id of
              Some message \<Rightarrow>
                (Inl (WebhookError (fst (public_credit_error message)) (snd (public_credit_error message))),
                 release_idempotency row_id s)
            | None \<Rightarrow> webhook_claim_and_send env token_hash user_id body row_id now s))"

definition webhook_sms ::
  "webhook_env \<Rightarrow> (string \<Rightarrow> string option) \<Rightarrow> (string \<Rightarrow> string) \<Rightarrow> string option \<Rightarrow> string option \<Rightarrow> string
   \<Rightarrow> i32 \<Rightarrow> webhook_store \<Rightarrow> (webhook_error + webhook_sms_response) \<times> webhook_store" where
  "webhook_sms env to_str sha authorization key_header message now s =
     (case extract_bearer to_str authorization of
        None \<Rightarrow> (Inl wh_unauthorized, s)
      | Some raw \<Rightarrow>
          if \<not> prefix WEBHOOK_TOKEN_PREFIX raw then (Inl wh_unauthorized, s)
          else
            (case webhook_find_by_hash (sha raw) s of
               None \<Rightarrow> (Inl wh_unauthorized, s)
             | Some token \<Rightarrow>
                 if wt_revoked_at token \<noteq> None then (Inl wh_unauthorized, s)
                 else if trim message = [] then (Inl (WebhookError 400 ''message must not be empty''), s)
                 else if MAX_BODY_LEN < char_count (trim message)
                 then (Inl (WebhookError 400 ''message exceeds 1500 chars''), s)
                 else
                   (case extract_idempotency_key to_str key_header of
                      Inl e \<Rightarrow> (Inl e, s)
                    | Inr None \<Rightarrow> webhook_deliver env token (sha raw) (trim message) None now s
                    | Inr (Some key) \<Rightarrow>
                        (case reserve_idempotency_key (we_others env 1) (wt_id token) key now (we_others env 0 s) of
                           (Inl _, s1) \<Rightarrow> (Inl wh_db_err, s1)
                         | (Inr (Replayed sid), s1) \<Rightarrow> (Inr \<lparr>wr_status = ''accepted'', wr_sid = sid\<rparr>, s1)
                         | (Inr InFlight, s1) \<Rightarrow> (Inl (WebhookError 409 ''idempotency key in flight''), s1)
                         | (Inr (Fresh row_id), s1) \<Rightarrow>
                             webhook_deliver env token (sha raw) (trim message) (Some row_id) now s1))))"

section \<open>The invariant of the tables\<close>

definition webhook_ok :: "webhook_store \<Rightarrow> bool" where
  "webhook_ok s \<longleftrightarrow>
     distinct (map wt_id (wh_tokens s)) \<and> distinct (map wt_token_hash (wh_tokens s)) \<and>
     (\<forall>t \<in> set (wh_tokens s). 0 \<le> wt_daily_sent t \<and> wt_daily_sent t \<le> wt_daily_cap t) \<and>
     distinct (map wk_id (wh_keys s)) \<and>
     distinct (map (\<lambda>k. (wk_token_id k, wk_idempotency_key k)) (wh_keys s)) \<and>
     (\<forall>k \<in> set (wh_keys s). wk_id k < wh_next_key_id s)"

lemma webhook_ok_tokens:
  assumes "webhook_ok s" "wh_keys s' = wh_keys s" "wh_next_key_id s' = wh_next_key_id s"
    and "wh_tokens s' = sql_update p f (wh_tokens s)"
    and "\<And>t. wt_id (f t) = wt_id t \<and> wt_token_hash (f t) = wt_token_hash t"
    and "\<And>t. p t \<Longrightarrow> 0 \<le> wt_daily_sent t \<Longrightarrow> wt_daily_sent t \<le> wt_daily_cap t \<Longrightarrow>
           0 \<le> wt_daily_sent (f t) \<and> wt_daily_sent (f t) \<le> wt_daily_cap (f t)"
  shows "webhook_ok s'"
proof -
  have "map wt_id (wh_tokens s') = map wt_id (wh_tokens s)"
    "map wt_token_hash (wh_tokens s') = map wt_token_hash (wh_tokens s)"
    using assms(4,5) by (simp_all add: map_sql_update)
  moreover have "0 \<le> wt_daily_sent t \<and> wt_daily_sent t \<le> wt_daily_cap t" if "t \<in> set (wh_tokens s')" for t
    using that unfolding assms(4)
    by (cases rule: in_sql_updateE) (use assms(1,6) in \<open>auto simp: webhook_ok_def\<close>)
  ultimately show ?thesis using assms(1-3) by (simp add: webhook_ok_def)
qed

lemma reset_window_ok: "webhook_ok s \<Longrightarrow> webhook_ok (reset_window h now s)"
  by (rule webhook_ok_tokens [where p = "\<lambda>t. wt_token_hash t = h \<and> wt_daily_reset_at t \<le> now"
        and f = "\<lambda>t. t\<lparr>wt_daily_sent := 0, wt_daily_reset_at := next_utc_midnight now\<rparr>"])
    (auto simp: reset_window_def intro: order.trans)

lemma take_slot_ok: "webhook_ok s \<Longrightarrow> webhook_ok (snd (take_slot i now s))"
  by (rule webhook_ok_tokens [where p = "\<lambda>t. wt_id t = i \<and> wt_revoked_at t = None \<and> wt_daily_sent t < wt_daily_cap t"
        and f = "\<lambda>t. t\<lparr>wt_daily_sent := wt_daily_sent t + 1, wt_last_used_at := Some now\<rparr>"])
    (auto simp: take_slot_def Let_def)

lemma claim_send_slot_ok:
  assumes "webhook_ok s" "\<And>u. webhook_ok u \<Longrightarrow> webhook_ok (others u)"
  shows "webhook_ok (snd (claim_send_slot others h now s))"
  using assms(1) assms(2) [OF assms(1)] reset_window_ok [OF assms(1), of h now]
    take_slot_ok [OF assms(2) [OF reset_window_ok [OF assms(1)]]]
  by (auto simp: claim_send_slot_def Let_def split: option.split prod.split) (metis snd_conv)+

lemma take_slot_row:
  assumes "distinct (map wt_id (wh_tokens s))" "0 < fst (take_slot i now s)"
    and "sql_first (\<lambda>t. wt_id t = i) (wh_tokens (snd (take_slot i now s))) = Some fresh"
  obtains t where "t \<in> set (wh_tokens s)" "wt_id t = i" "wt_revoked_at t = None" "wt_daily_sent t < wt_daily_cap t"
    "fresh = t\<lparr>wt_daily_sent := wt_daily_sent t + 1, wt_last_used_at := Some now\<rparr>"
proof -
  let ?p = "\<lambda>t. wt_id t = i \<and> wt_revoked_at t = None \<and> wt_daily_sent t < wt_daily_cap t"
  let ?f = "\<lambda>t. t\<lparr>wt_daily_sent := wt_daily_sent t + 1, wt_last_used_at := Some now\<rparr>"
  have "sql_count ?p (wh_tokens s) \<noteq> 0" using assms(2) by (simp add: take_slot_def Let_def)
  then obtain t where t: "t \<in> set (wh_tokens s)" "?p t" by (auto simp: sql_count_0)
  from t have mem: "?f t \<in> set (wh_tokens (snd (take_slot i now s)))"
    by (simp add: take_slot_def Let_def) (rule sql_update_memI, auto)
  have ids: "distinct (map wt_id (wh_tokens (snd (take_slot i now s))))"
    using assms(1) by (simp add: take_slot_def Let_def map_sql_update)
  from sql_first_Some [OF assms(3)] have "fresh \<in> set (wh_tokens (snd (take_slot i now s)))" "wt_id fresh = i"
    by simp_all
  with mem ids t(2) have "fresh = ?f t" by (metis (no_types, lifting) distinct_map_eqD webhook_token.select_convs(1)
      webhook_token.surjective webhook_token.update_convs(7,9))
  with t show thesis by (intro that [of t]) simp_all
qed

lemma claim_ok_row:
  assumes "claim_send_slot others h now s = (Inr (ClaimOk t), s')"
    and "distinct (map wt_id (wh_tokens (others (reset_window h now s))))"
  shows "wt_revoked_at t = None \<and> wt_daily_sent t \<le> wt_daily_cap t \<and> wt_last_used_at t = Some now \<and>
    t \<in> set (wh_tokens s') \<and>
    (\<exists>t0 \<in> set (wh_tokens (others (reset_window h now s))). wt_daily_sent t = wt_daily_sent t0 + 1)"
proof -
  let ?s1 = "reset_window h now s"
  from assms(1) obtain row where row: "webhook_find_by_hash h ?s1 = Some row"
    by (cases "webhook_find_by_hash h ?s1") (auto simp: claim_send_slot_def)
  obtain affected s2 where take: "take_slot (wt_id row) now (others ?s1) = (affected, s2)" by fastforce
  from assms(1) row take have slot: "s2 = s'" "affected \<noteq> 0"
      "sql_first (\<lambda>t. wt_id t = wt_id row) (wh_tokens s') = Some t"
    by (auto simp: claim_send_slot_def Let_def split: option.splits if_splits)
  then obtain t0 where t0: "t0 \<in> set (wh_tokens (others ?s1))" "wt_revoked_at t0 = None" "wt_daily_sent t0 < wt_daily_cap t0"
      "t = t0\<lparr>wt_daily_sent := wt_daily_sent t0 + 1, wt_last_used_at := Some now\<rparr>"
    using take_slot_row [OF assms(2), of "wt_id row" now t] take by auto
  then show ?thesis using sql_first_Some [OF slot(3)] by auto
qed

section \<open>The daily cap as a quota\<close>

text \<open>The claims of one token on one day, nobody else committing in between.\<close>

definition slot_claim_of :: "string \<Rightarrow> i32 \<Rightarrow> webhook_store \<Rightarrow> bool \<times> webhook_store" where
  "slot_claim_of h now s =
     (case claim_send_slot (\<lambda>u. u) h now s of
        (Inr (ClaimOk _), s') \<Rightarrow> (True, s')
      | (_, s') \<Rightarrow> (False, s'))"

definition slot_token :: "string \<Rightarrow> webhook_store \<Rightarrow> webhook_token option" where
  "slot_token h s = webhook_find_by_hash h s"

definition slots_used :: "string \<Rightarrow> webhook_store \<Rightarrow> int" where
  "slots_used h s = (case slot_token h s of None \<Rightarrow> 0 | Some t \<Rightarrow> wt_daily_sent t)"

definition slots_cap :: "string \<Rightarrow> webhook_store \<Rightarrow> int" where
  "slots_cap h s = (case slot_token h s of None \<Rightarrow> 0 | Some t \<Rightarrow> wt_daily_cap t)"

definition in_window :: "string \<Rightarrow> i32 \<Rightarrow> webhook_store \<Rightarrow> bool" where
  "in_window h now s = (case slot_token h s of None \<Rightarrow> True | Some t \<Rightarrow> now < wt_daily_reset_at t)"

text \<open>One claim inside the window, by cases.\<close>

lemma reset_window_inside:
  assumes "webhook_ok s" "in_window h now s"
  shows "reset_window h now s = s"
proof -
  have "\<not> (wt_token_hash t = h \<and> wt_daily_reset_at t \<le> now)" if "t \<in> set (wh_tokens s)" for t
  proof
    assume t: "wt_token_hash t = h \<and> wt_daily_reset_at t \<le> now"
    have "distinct (map wt_token_hash (wh_tokens s))" using assms(1) by (simp add: webhook_ok_def)
    from sql_first_unique [OF this that, of "\<lambda>t. wt_token_hash t = h"] t have "slot_token h s = Some t"
      by (simp add: slot_token_def webhook_find_by_hash_def)
    with t assms(2) show False by (simp add: in_window_def)
  qed
  then show ?thesis by (simp add: reset_window_def sql_update_none)
qed

lemma slot_claim_cases:
  assumes "webhook_ok s" "in_window h now s"
  obtains (refused) "slot_claim_of h now s = (False, s)"
  | (granted) t where "t \<in> set (wh_tokens s)" "slot_token h s = Some t" "wt_daily_sent t < wt_daily_cap t"
      "wt_revoked_at t = None" "fst (slot_claim_of h now s)"
      "snd (slot_claim_of h now s) = s\<lparr>wh_tokens := sql_update (\<lambda>x. wt_id x = wt_id t)
         (\<lambda>x. x\<lparr>wt_daily_sent := wt_daily_sent x + 1, wt_last_used_at := Some now\<rparr>) (wh_tokens s)\<rparr>"
proof (cases "slot_token h s")
  case None
  then show thesis
    using reset_window_inside [OF assms]
    by (intro refused) (simp add: slot_claim_of_def claim_send_slot_def slot_token_def)
next
  case (Some t)
  let ?p = "\<lambda>x. wt_id x = wt_id t \<and> wt_revoked_at x = None \<and> wt_daily_sent x < wt_daily_cap x"
  let ?f = "\<lambda>x. x\<lparr>wt_daily_sent := wt_daily_sent x + 1, wt_last_used_at := Some now\<rparr>"
  from Some have t: "t \<in> set (wh_tokens s)" by (auto simp: slot_token_def webhook_find_by_hash_def dest: sql_first_Some)
  have ids: "distinct (map wt_id (wh_tokens s))" using assms(1) by (simp add: webhook_ok_def)
  then have only: "x = t" if "x \<in> set (wh_tokens s)" "wt_id x = wt_id t" for x
    using that t by (metis distinct_map_eqD)
  have row: "webhook_find_by_hash h (reset_window h now s) = Some t"
    using Some reset_window_inside [OF assms] by (simp add: slot_token_def)
  show thesis
  proof (cases "wt_revoked_at t = None \<and> wt_daily_sent t < wt_daily_cap t")
    case True
    have upd: "sql_update ?p ?f (wh_tokens s) = sql_update (\<lambda>x. wt_id x = wt_id t) ?f (wh_tokens s)"
      unfolding sql_update_def
    proof (rule map_cong)
      fix x
      assume "x \<in> set (wh_tokens s)"
      with only True have "?p x = (wt_id x = wt_id t)" by metis
      then show "(if ?p x then ?f x else x) = (if wt_id x = wt_id t then ?f x else x)" by simp
    qed simp
    have "sql_count ?p (wh_tokens s) \<noteq> 0" using t True unfolding sql_count_0 by blast
    moreover have "sql_first (\<lambda>x. wt_id x = wt_id t) (sql_update (\<lambda>x. wt_id x = wt_id t) ?f (wh_tokens s)) \<noteq> None"
      using t unfolding sql_first_None by (auto intro!: bexI [OF _ sql_update_memI])
    ultimately have "slot_claim_of h now s = (True, s\<lparr>wh_tokens := sql_update (\<lambda>x. wt_id x = wt_id t) ?f (wh_tokens s)\<rparr>)"
      using row True reset_window_inside [OF assms] upd
      by (auto simp: slot_claim_of_def claim_send_slot_def take_slot_def Let_def)
    with t Some True show thesis by (intro granted [of t]) simp_all
  next
    case False
    then have none: "\<forall>x \<in> set (wh_tokens s). \<not> ?p x" using only by blast
    then have "sql_count ?p (wh_tokens s) = 0" by (simp only: sql_count_0)
    moreover have "sql_first (\<lambda>x. wt_id x = wt_id t) (wh_tokens s) = Some t"
      using sql_first_unique [OF ids t, of "\<lambda>x. wt_id x = wt_id t"] by simp
    ultimately have "slot_claim_of h now s = (False, s)"
      using row False none reset_window_inside [OF assms]
      by (auto simp: slot_claim_of_def claim_send_slot_def take_slot_def Let_def sql_update_none)
    then show thesis by (rule refused)
  qed
qed

lemma slot_token_update:
  assumes "\<And>x. wt_token_hash (f x) = wt_token_hash x"
  shows "slot_token h (s\<lparr>wh_tokens := sql_update p f (wh_tokens s)\<rparr>) =
         map_option (\<lambda>t. if p t then f t else t) (slot_token h s)"
proof -
  have "sql_first (\<lambda>t. wt_token_hash t = h) (sql_update p f t) =
        map_option (\<lambda>t. if p t then f t else t) (sql_first (\<lambda>t. wt_token_hash t = h) t)" for t
    using assms by (induction t) (auto simp: sql_first_def sql_update_def)
  then show ?thesis by (simp add: slot_token_def webhook_find_by_hash_def)
qed

lemma slot_claim_ok: "webhook_ok s \<Longrightarrow> webhook_ok (snd (slot_claim_of h now s))"
  using claim_send_slot_ok [of s "\<lambda>u. u" h now]
  by (auto simp: slot_claim_of_def split: prod.splits sum.splits claim_result.splits)

interpretation daily_cap: exact_quota "slot_claim_of h" "slots_used h" "slots_cap h" webhook_ok "in_window h" for h
proof
  fix s now now2
  assume s: "webhook_ok s" "in_window h now s"
  show "webhook_ok (snd (slot_claim_of h now s))" using s(1) by (rule slot_claim_ok)
  show "in_window h now2 (snd (slot_claim_of h now s))" if "in_window h now2 s"
    using that by (cases rule: slot_claim_cases [OF s]) (auto simp: in_window_def slot_token_update)
  show "slots_cap h (snd (slot_claim_of h now s)) = slots_cap h s"
    by (cases rule: slot_claim_cases [OF s]) (auto simp: slots_cap_def slot_token_update)
  show "slots_used h s < slots_cap h s \<and> slots_used h (snd (slot_claim_of h now s)) = slots_used h s + 1"
    if "fst (slot_claim_of h now s)"
    using that by (cases rule: slot_claim_cases [OF s]) (auto simp: slots_used_def slots_cap_def slot_token_update)
  show "slots_used h s \<le> slots_used h (snd (slot_claim_of h now s))" if "\<not> fst (slot_claim_of h now s)"
    using that by (cases rule: slot_claim_cases [OF s]) auto
  show "slots_used h (snd (slot_claim_of h now s)) = slots_used h s" if "\<not> fst (slot_claim_of h now s)"
    using that by (cases rule: slot_claim_cases [OF s]) auto
qed

section \<open>The idempotency keys of a token\<close>

definition key_claim ::
  "i32 \<Rightarrow> string \<Rightarrow> i32 \<Rightarrow> webhook_store \<Rightarrow> (i32, string) idempotency_claim \<times> webhook_store" where
  "key_claim tok key now s =
     (case reserve_idempotency_key (\<lambda>u. u) tok key now s of
        (Inr (Fresh i), s') \<Rightarrow> (IdemFresh i, s')
      | (Inr (Replayed sid), s') \<Rightarrow> (IdemReplayed sid, s')
      | (_, s') \<Rightarrow> (IdemInFlight, s'))"

definition key_entry :: "i32 \<Rightarrow> webhook_store \<Rightarrow> string \<Rightarrow> string idempotency_entry" where
  "key_entry tok s key =
     (case find_key tok key s of
        None \<Rightarrow> NoEntry
      | Some k \<Rightarrow> (case wk_response_sid k of
                    None \<Rightarrow> PendingEntry (wk_created_at k)
                  | Some sid \<Rightarrow> DoneEntry (wk_created_at k) sid))"

definition key_holds :: "i32 \<Rightarrow> webhook_store \<Rightarrow> string \<Rightarrow> i32 \<Rightarrow> bool" where
  "key_holds tok s key i \<longleftrightarrow> map_option wk_id (find_key tok key s) = Some i"

definition token_exists :: "i32 \<Rightarrow> webhook_store \<Rightarrow> bool" where
  "token_exists tok s \<longleftrightarrow> webhook_ok s \<and> tok \<in> wt_id ` set (wh_tokens s)"

lemma find_key_Some:
  "find_key tok key s = Some k \<Longrightarrow> k \<in> set (wh_keys s) \<and> wk_token_id k = tok \<and> wk_idempotency_key k = key"
  by (auto simp: find_key_def dest: sql_first_Some)

lemma find_key_unique:
  assumes "webhook_ok s" "k \<in> set (wh_keys s)"
  shows "find_key (wk_token_id k) (wk_idempotency_key k) s = Some k"
proof -
  from assms(1) have "distinct (map (\<lambda>k. (wk_token_id k, wk_idempotency_key k)) (wh_keys s))"
    by (simp add: webhook_ok_def)
  from sql_first_unique [OF this assms(2), of "\<lambda>q. wk_token_id q = wk_token_id k \<and> wk_idempotency_key q = wk_idempotency_key k"]
  show ?thesis by (simp add: find_key_def)
qed

lemma delete_key_ok:
  "webhook_ok s \<Longrightarrow> webhook_ok (s\<lparr>wh_keys := sql_delete p (wh_keys s)\<rparr>)"
  by (simp add: webhook_ok_def distinct_sql_delete)

text \<open>Deleting the row of a key removes that key and no other.\<close>

lemma find_key_delete:
  assumes "webhook_ok s" "find_key tok key s = Some k"
  shows "find_key tok' key' (s\<lparr>wh_keys := sql_delete (\<lambda>q. wk_id q = wk_id k) (wh_keys s)\<rparr>) =
         (if tok' = tok \<and> key' = key then None else find_key tok' key' s)"
proof -
  note k = find_key_Some [OF assms(2)]
  have ids: "distinct (map wk_id (wh_keys s))" using assms(1) by (simp add: webhook_ok_def)
  show ?thesis
  proof (cases "tok' = tok \<and> key' = key")
    case True
    have "q = k" if "q \<in> set (wh_keys s)" "wk_token_id q = tok" "wk_idempotency_key q = key" for q
      using find_key_unique [OF assms(1) that(1)] that assms(2) by simp
    then have "find_key tok key (s\<lparr>wh_keys := sql_delete (\<lambda>q. wk_id q = wk_id k) (wh_keys s)\<rparr>) = None"
      by (auto simp: find_key_def sql_first_None)
    with True show ?thesis by simp
  next
    case False
    show ?thesis
    proof (cases "find_key tok' key' s")
      case None
      then have "find_key tok' key' (s\<lparr>wh_keys := sql_delete (\<lambda>q. wk_id q = wk_id k) (wh_keys s)\<rparr>) = None"
        by (simp add: find_key_def sql_first_None)
      with None False show ?thesis by auto
    next
      case (Some r)
      note r = find_key_Some [OF Some]
      have "wk_id r \<noteq> wk_id k" using ids r k False by (metis distinct_map_eqD)
      with r have "r \<in> set (wh_keys (s\<lparr>wh_keys := sql_delete (\<lambda>q. wk_id q = wk_id k) (wh_keys s)\<rparr>))" by simp
      from find_key_unique [OF delete_key_ok [OF assms(1)] this] r False Some show ?thesis by auto
    qed
  qed
qed

lemma insert_key_ok:
  assumes "webhook_ok s"
  shows "webhook_ok (snd (insert_key tok key now s))"
  using assms by (auto simp: insert_key_def webhook_ok_def find_key_def sql_first_None)

lemma insert_key_fresh:
  assumes "token_exists tok s" "find_key tok key s = None"
  shows "insert_key tok key now s =
    (Inr (Some (wh_next_key_id s)), snd (insert_key tok key now s))"
    and "find_key tok' key' (snd (insert_key tok key now s)) =
      (if tok' = tok \<and> key' = key
       then Some \<lparr>wk_id = wh_next_key_id s, wk_token_id = tok, wk_idempotency_key = key,
                  wk_response_sid = None, wk_created_at = now\<rparr>
       else find_key tok' key' s)"
    and "token_exists tok (snd (insert_key tok key now s))"
  using assms insert_key_ok [of s tok key now]
  by (auto simp: insert_key_def token_exists_def find_key_def sql_first_append split: option.splits)

lemma update_key_ok:
  assumes "webhook_ok s" "\<And>k. wk_id (f k) = wk_id k" "\<And>k. wk_token_id (f k) = wk_token_id k"
    "\<And>k. wk_idempotency_key (f k) = wk_idempotency_key k"
  shows "webhook_ok (s\<lparr>wh_keys := sql_update p f (wh_keys s)\<rparr>)"
  using assms by (auto simp: webhook_ok_def map_sql_update set_sql_update)

lemma complete_ok: "webhook_ok s \<Longrightarrow> webhook_ok (complete_idempotency i sid s)"
  by (simp add: complete_idempotency_def update_key_ok)

lemma clear_ok: "webhook_ok s \<Longrightarrow> webhook_ok (clear_idempotency i s)"
  by (simp add: clear_idempotency_def delete_key_ok)

text \<open>A reservation, nobody else committing in between, by cases.\<close>

lemma key_claim_cases:
  assumes "token_exists tok s"
  obtains (pending) k where "find_key tok key s = Some k" "key_live now (wk_created_at k)"
      "wk_response_sid k = None" "key_claim tok key now s = (IdemInFlight, s)"
  | (replay) k sid where "find_key tok key s = Some k" "key_live now (wk_created_at k)"
      "wk_response_sid k = Some sid" "key_claim tok key now s = (IdemReplayed sid, s)"
  | (fresh) s1 where "token_exists tok s1" "find_key tok key s1 = None"
      "\<And>key'. key' \<noteq> key \<Longrightarrow> find_key tok key' s1 = find_key tok key' s"
      "find_key tok key s = None \<or> (\<exists>k. find_key tok key s = Some k \<and> \<not> key_live now (wk_created_at k))"
      "key_claim tok key now s = (IdemFresh (wh_next_key_id s1), snd (insert_key tok key now s1))"
proof (cases "find_key tok key s")
  case None
  then show thesis
    using assms insert_key_fresh(1) [OF assms None, of now]
    by (intro fresh [of s]) (auto simp: key_claim_def reserve_idempotency_key_def split: prod.splits)
next
  case (Some k)
  show thesis
  proof (cases "key_live now (wk_created_at k)")
    case True
    show thesis
    proof (cases "wk_response_sid k")
      case None
      with Some True show thesis by (intro pending) (auto simp: key_claim_def reserve_idempotency_key_def)
    next
      case (Some sid)
      with \<open>find_key tok key s = Some k\<close> True show thesis
        by (intro replay) (auto simp: key_claim_def reserve_idempotency_key_def)
    qed
  next
    case False
    let ?s = "s\<lparr>wh_keys := sql_delete (\<lambda>q. wk_id q = wk_id k) (wh_keys s)\<rparr>"
    have ok: "webhook_ok s" using assms by (simp add: token_exists_def)
    have s1: "token_exists tok ?s" using assms by (simp add: token_exists_def delete_key_ok)
    have none: "find_key tok key ?s = None" using find_key_delete [OF ok Some, of tok key] by simp
    from s1 none Some False find_key_delete [OF ok Some] insert_key_fresh(1) [OF s1 none, of now] show thesis
      by (intro fresh [of ?s]) (auto simp: key_claim_def reserve_idempotency_key_def split: prod.splits)
  qed
qed

lemma key_entry_eq:
  "find_key tok key s = find_key tok key' s' \<Longrightarrow> key_entry tok s key = key_entry tok s' key'"
  by (simp add: key_entry_def)

interpretation webhook_keys: idempotency "key_claim tok" complete_idempotency clear_idempotency
  "key_entry tok" "key_holds tok" key_live "token_exists tok" "\<lambda>key. True" for tok
proof
  fix s key now t i out key'
  assume s: "token_exists tok s"
  show "token_exists tok (snd (key_claim tok key now s))"
    using s by (cases rule: key_claim_cases [OF s, of key now]) (simp_all add: insert_key_fresh(3))
  show "token_exists tok (complete_idempotency i out s)"
    using s by (simp add: token_exists_def complete_ok) (simp add: complete_idempotency_def)
  show "token_exists tok (clear_idempotency i s)"
    using s by (simp add: token_exists_def clear_ok) (simp add: clear_idempotency_def)
  show "\<exists>i. fst (key_claim tok key now s) = IdemFresh i" if "key_entry tok s key = NoEntry"
    using that by (cases rule: key_claim_cases [OF s, of key now]) (auto simp: key_entry_def split: option.splits)
  show "key_claim tok key now s = (IdemInFlight, s)"
    if "key_entry tok s key = PendingEntry t" "key_live now t"
    using that by (cases rule: key_claim_cases [OF s, of key now]) (auto simp: key_entry_def split: option.splits)
  show "key_claim tok key now s = (IdemReplayed out, s)"
    if "key_entry tok s key = DoneEntry t out" "key_live now t"
    using that by (cases rule: key_claim_cases [OF s, of key now]) (auto simp: key_entry_def split: option.splits)
  show "\<exists>i. fst (key_claim tok key now s) = IdemFresh i"
    if "key_entry tok s key = PendingEntry t \<or> key_entry tok s key = DoneEntry t out" "\<not> key_live now t"
    using that by (cases rule: key_claim_cases [OF s, of key now]) (auto simp: key_entry_def split: option.splits)
  show "key_entry tok (snd (key_claim tok key now s)) key = PendingEntry now \<and>
      key_holds tok (snd (key_claim tok key now s)) key i" if "fst (key_claim tok key now s) = IdemFresh i"
    using that by (cases rule: key_claim_cases [OF s, of key now])
      (auto simp: key_entry_def key_holds_def insert_key_fresh(2))
  show "key_entry tok (snd (key_claim tok key now s)) key' = key_entry tok s key'" if "key' \<noteq> key"
    using that by (cases rule: key_claim_cases [OF s, of key now])
      (auto intro!: key_entry_eq simp: insert_key_fresh(2))
  have ok: "webhook_ok s" using s by (simp add: token_exists_def)
  show "key_entry tok (complete_idempotency i out s) key = DoneEntry t out"
    if "key_holds tok s key i" "key_entry tok s key = PendingEntry t"
  proof -
    from that obtain k where k: "find_key tok key s = Some k" "wk_id k = i" "wk_created_at k = t"
      by (auto simp: key_holds_def key_entry_def split: option.splits)
    let ?k = "k\<lparr>wk_response_sid := Some out\<rparr>"
    have "?k \<in> set (wh_keys (complete_idempotency i out s))"
      using find_key_Some [OF k(1)] k(2) by (auto simp: complete_idempotency_def intro: sql_update_memI)
    from find_key_unique [OF complete_ok [OF ok] this] find_key_Some [OF k(1)] k(3) show ?thesis
      by (simp add: key_entry_def)
  qed
  show "key_entry tok (clear_idempotency i s) key = NoEntry" if "key_holds tok s key i"
  proof -
    from that obtain k where k: "find_key tok key s = Some k" "wk_id k = i"
      by (auto simp: key_holds_def)
    from find_key_delete [OF ok k(1), of tok key] k(2) show ?thesis
      by (simp add: key_entry_def clear_idempotency_def)
  qed
qed

end
