(* ===== verification/WebhookProperties.thy ===== *)
theory WebhookProperties
  imports Webhook
begin

text \<open>
  What \<^verbatim>\<open>webhook_sms_handlers.rs\<close> and \<^verbatim>\<open>webhook_tokens_repository.rs\<close> promise the owner of a token: the daily
  cap, idempotent sends, failures that do not burn the key, and revocation.
\<close>

section \<open>A request nobody interferes with\<close>

definition undisturbed :: "webhook_env \<Rightarrow> bool" where
  "undisturbed env \<longleftrightarrow> (we_others env = (\<lambda>_ s. s))"

lemma undisturbed_others [simp]: "undisturbed env \<Longrightarrow> we_others env i s = s"
  by (simp add: undisturbed_def)

text \<open>What of a token row authorises a request.\<close>

abbreviation token_auth :: "webhook_token \<Rightarrow> i32 \<times> string \<times> i32 option \<times> i32" where
  "token_auth t \<equiv> (wt_id t, wt_token_hash t, wt_revoked_at t, wt_user_id t)"

lemma find_by_hash_map:
  "map_option token_auth (webhook_find_by_hash h s) =
   find (\<lambda>(_, h', _, _). h' = h) (map token_auth (wh_tokens s))"
proof -
  have "map_option token_auth (find (\<lambda>t. wt_token_hash t = h) ts) =
        find (\<lambda>(_, h', _, _). h' = h) (map token_auth ts)" for ts
    by (induction ts) auto
  then show ?thesis by (simp add: webhook_find_by_hash_def sql_first_def)
qed

lemma find_by_hash_auth:
  assumes "map token_auth (wh_tokens s') = map token_auth (wh_tokens s)"
  shows "map_option token_auth (webhook_find_by_hash h s') = map_option token_auth (webhook_find_by_hash h s)"
  by (simp only: find_by_hash_map assms)

lemma reset_window_auth:
  "map token_auth (wh_tokens (reset_window h now s)) = map token_auth (wh_tokens s)"
  "wh_keys (reset_window h now s) = wh_keys s"
  by (simp_all add: reset_window_def map_sql_update)

lemma take_slot_auth:
  "map token_auth (wh_tokens (snd (take_slot i now s))) = map token_auth (wh_tokens s)"
  "wh_keys (snd (take_slot i now s)) = wh_keys s"
  by (simp_all add: take_slot_def Let_def map_sql_update)

lemma claim_keeps:
  assumes "\<And>i u. f (snd (take_slot i now u)) = f u" "\<And>u. f (reset_window h now u) = f u"
  shows "f (snd (claim_send_slot (\<lambda>u. u) h now s)) = f s"
proof -
  let ?s1 = "reset_window h now s"
  show ?thesis
  proof (cases "webhook_find_by_hash h ?s1")
    case (Some row)
    obtain n s2 where take: "take_slot (wt_id row) now ?s1 = (n, s2)" by fastforce
    then have "f s2 = f s" using assms(1) [of "wt_id row" ?s1] assms(2) by simp
    then show ?thesis using Some take assms(2)
      by (simp add: claim_send_slot_def Let_def split: option.split)
  qed (simp add: claim_send_slot_def assms(2))
qed

lemma claim_keeps_auth:
  "map token_auth (wh_tokens (snd (claim_send_slot (\<lambda>u. u) h now s))) = map token_auth (wh_tokens s)"
  "wh_keys (snd (claim_send_slot (\<lambda>u. u) h now s)) = wh_keys s"
  by (rule claim_keeps, simp_all only: take_slot_auth reset_window_auth)+

text \<open>What steps 5 to 9 leave of the idempotency row: the answer, nothing, or the row as reserved.\<close>

lemma claim_and_send_keys:
  assumes "undisturbed env" "webhook_claim_and_send env h u body (Some i) now s = (res, s1)"
  shows "map token_auth (wh_tokens s1) = map token_auth (wh_tokens s)"
    and "res = Inr r \<Longrightarrow> wh_keys s1 = wh_keys (complete_idempotency i (wr_sid r) s)"
    and "res = Inl e \<Longrightarrow> (\<forall>m. e \<noteq> WebhookError 504 m) \<Longrightarrow> wh_keys s1 = wh_keys (clear_idempotency i s)"
proof -
  obtain c s2 where claim: "claim_send_slot (\<lambda>u. u) h now s = (c, s2)" by fastforce
  with claim_keeps_auth [of h now s]
  have s2: "map token_auth (wh_tokens s2) = map token_auth (wh_tokens s)" "wh_keys s2 = wh_keys s" by auto
  have env: "we_others env j = (\<lambda>s. s)" for j using assms(1) by (simp add: undisturbed_def)
  note step = assms(2) [unfolded webhook_claim_and_send_def env claim release_idempotency_def Let_def]
  show "map token_auth (wh_tokens s1) = map token_auth (wh_tokens s)"
    using step s2(1) by (auto simp: log_usage_def complete_idempotency_def clear_idempotency_def
        split: sum.splits claim_result.splits send_outcome.splits)
  show "wh_keys s1 = wh_keys (complete_idempotency i (wr_sid r) s)" if "res = Inr r"
    using step s2(2) that by (auto simp: log_usage_def complete_idempotency_def
        split: sum.splits claim_result.splits send_outcome.splits)
  show "wh_keys s1 = wh_keys (clear_idempotency i s)" if "res = Inl e" "\<forall>m. e \<noteq> WebhookError 504 m"
    using step s2(2) that by (auto simp: clear_idempotency_def
        split: sum.splits claim_result.splits send_outcome.splits)
qed

lemma deliver_keys:
  assumes "undisturbed env" "webhook_deliver env token h body (Some i) now s = (res, s1)"
  shows "map token_auth (wh_tokens s1) = map token_auth (wh_tokens s)"
    and "res = Inr r \<Longrightarrow> wh_keys s1 = wh_keys (complete_idempotency i (wr_sid r) s)"
    and "res = Inl e \<Longrightarrow> (\<forall>m. e \<noteq> WebhookError 504 m) \<Longrightarrow> wh_keys s1 = wh_keys (clear_idempotency i s)"
  using assms(2) claim_and_send_keys [OF assms(1)] assms(1)
  by (auto simp: webhook_deliver_def Let_def log_usage_def release_idempotency_def
      complete_idempotency_def clear_idempotency_def split: if_splits option.splits)

text \<open>A request that gets past authentication and validation with a new key.\<close>

lemma webhook_sms_fresh:
  assumes "webhook_ok s" "undisturbed env"
    and "extract_bearer to_str auth = Some raw" "prefix WEBHOOK_TOKEN_PREFIX raw"
    and "webhook_find_by_hash (sha raw) s = Some token" "wt_revoked_at token = None"
    and "trim message \<noteq> []" "char_count (trim message) \<le> MAX_BODY_LEN"
    and "extract_idempotency_key to_str kh = Inr (Some key)"
    and "find_key (wt_id token) key s = None"
  shows "webhook_sms env to_str sha auth kh message now s =
           webhook_deliver env token (sha raw) (trim message) (Some (wh_next_key_id s)) now
             (snd (insert_key (wt_id token) key now s))"
    and "token_exists (wt_id token) s"
proof -
  from assms(5) have "token \<in> set (wh_tokens s)" by (auto simp: webhook_find_by_hash_def dest: sql_first_Some)
  with assms(1) show tok: "token_exists (wt_id token) s" by (simp add: token_exists_def)
  have env: "we_others env j = (\<lambda>s. s)" for j using assms(2) by (simp add: undisturbed_def)
  have "reserve_idempotency_key (\<lambda>u. u) (wt_id token) key now s =
          (Inr (Fresh (wh_next_key_id s)), snd (insert_key (wt_id token) key now s))"
    using insert_key_fresh(1) [OF tok assms(10), of now] assms(10)
    by (auto simp: reserve_idempotency_key_def split: prod.splits)
  then show "webhook_sms env to_str sha auth kh message now s =
           webhook_deliver env token (sha raw) (trim message) (Some (wh_next_key_id s)) now
             (snd (insert_key (wt_id token) key now s))"
    using assms by (simp add: webhook_sms_def env)
qed

lemma webhook_sms_passed:
  assumes "webhook_ok s" "undisturbed env"
    and "extract_idempotency_key to_str kh = Inr (Some key)"
    and "\<forall>k \<in> set (wh_keys s). wk_idempotency_key k \<noteq> key"
    and "webhook_sms env to_str sha auth kh message now s = (res, s1)"
  obtains (rejected) "s1 = s" "\<exists>e. res = Inl e"
  | (delivered) raw token where
      "extract_bearer to_str auth = Some raw" "prefix WEBHOOK_TOKEN_PREFIX raw"
      "webhook_find_by_hash (sha raw) s = Some token" "wt_revoked_at token = None"
      "token_exists (wt_id token) s" "find_key (wt_id token) key s = None"
      "webhook_deliver env token (sha raw) (trim message) (Some (wh_next_key_id s)) now
         (snd (insert_key (wt_id token) key now s)) = (res, s1)"
proof (cases "extract_bearer to_str auth")
  case None
  then show thesis using assms(5) by (intro rejected) (auto simp: webhook_sms_def)
next
  case (Some raw)
  note raw = this
  show thesis
  proof (cases "webhook_find_by_hash (sha raw) s")
    case None
    with raw show thesis using assms(5) by (intro rejected) (auto simp: webhook_sms_def split: if_splits)
  next
    case (Some token)
    have none: "find_key (wt_id token) key s = None" using assms(4) by (auto simp: find_key_def sql_first_None)
    show thesis
    proof (cases "prefix WEBHOOK_TOKEN_PREFIX raw \<and> wt_revoked_at token = None \<and> trim message \<noteq> [] \<and>
        char_count (trim message) \<le> MAX_BODY_LEN")
      case True
      then have pass: "prefix WEBHOOK_TOKEN_PREFIX raw" "wt_revoked_at token = None" "trim message \<noteq> []"
        "char_count (trim message) \<le> MAX_BODY_LEN" by blast+
      note run = webhook_sms_fresh [where sha = sha, OF assms(1,2) raw pass(1) Some pass(2-4) assms(3) none]
      from run(1) [of now] assms(5) show thesis
        by (intro delivered [OF raw pass(1) Some pass(2) run(2) none]) simp
    next
      case False
      with raw Some show thesis using assms(5)
        by (intro rejected) (auto simp: webhook_sms_def split: if_splits)
    qed
  qed
qed

section \<open>A concrete token\<close>

definition demo_hex_part :: string where "demo_hex_part = ''00112233445566778899aabbccddeeff''"

definition demo_wh0 :: webhook_store where
  "demo_wh0 = \<lparr>wh_user_ids = [1], wh_tokens = [], wh_next_token_id = 1, wh_keys = [], wh_next_key_id = 1,
     wh_usage = []\<rparr>"

text \<open>A token of user 1 with two sends a day, minted through the handler at time 1000.\<close>

definition demo_wh :: webhook_store where
  "demo_wh = snd (create_token (\<lambda>x. x) demo_hex_part 1 (Some (Some ''tier 2'')) ''home'' (Some 2) 1000 demo_wh0)"

definition demo_webhook_env :: "bool \<Rightarrow> send_outcome \<Rightarrow> webhook_env" where
  "demo_webhook_env suppressed outcome =
     \<lparr>we_user_found = (\<lambda>_. True), we_suppressed = (\<lambda>_ _. suppressed), we_credit_error = (\<lambda>_. None),
      we_send = (\<lambda>_ _. outcome), we_others = (\<lambda>_ s. s)\<rparr>"

definition demo_auth :: "string option" where "demo_auth = Some (''Bearer lf_'' @ demo_hex_part)"

definition demo_send :: "send_outcome \<Rightarrow> (webhook_error + webhook_sms_response) \<times> webhook_store" where
  "demo_send outcome =
     webhook_sms (demo_webhook_env False outcome) Some (\<lambda>x. x) demo_auth (Some ''k1'') ''hello'' 2000 demo_wh"

lemma demo_wh_ok: "webhook_ok demo_wh"
  by code_simp

lemma demo_undisturbed: "undisturbed (demo_webhook_env b outcome)"
  by (simp add: undisturbed_def demo_webhook_env_def)

section \<open>Properties\<close>



text \<open>
  A request that fails gives its \<^verbatim>\<open>Idempotency-Key\<close> back: after every error except the
  timed-out send, whose outcome is unknown, the key table is what it was, so the client may retry with
  the same key.
\<close>

theorem webhook_failure_frees_key:
  assumes "webhook_ok s" "undisturbed env"
    and "extract_idempotency_key to_str kh = Inr (Some key)"
    and "\<forall>k \<in> set (wh_keys s). wk_idempotency_key k \<noteq> key"
    and "webhook_sms env to_str sha auth kh message now s = (Inl e, s1)"
    and "\<forall>m. e \<noteq> WebhookError 504 m"
  shows "wh_keys s1 = wh_keys s"
  using assms(1-5)
proof (cases rule: webhook_sms_passed)
  case rejected
  then show ?thesis by simp
next
  case (delivered raw token)
  have "\<forall>k \<in> set (wh_keys s). wk_id k \<noteq> wh_next_key_id s" using assms(1) by (force simp: webhook_ok_def)
  moreover from delivered(5) have "wt_id token \<in> wt_id ` set (wh_tokens s)" by (simp add: token_exists_def)
  ultimately have "wh_keys (clear_idempotency (wh_next_key_id s) (snd (insert_key (wt_id token) key now s))) = wh_keys s"
    using delivered(6) by (simp add: clear_idempotency_def insert_key_def sql_delete_def)
  then show ?thesis using deliver_keys(3) [OF assms(2) delivered(7) _ assms(6)] by simp
qed

theorem webhook_failure_frees_key_witness:
  "fst (demo_send SendFailed) = Inl (WebhookError 502 ''send failed'') \<and>
   wh_keys (snd (demo_send SendFailed)) = wh_keys demo_wh"
proof -
  have failed: "fst (demo_send SendFailed) = Inl (WebhookError 502 ''send failed'')" by code_simp
  have first: "webhook_sms (demo_webhook_env False SendFailed) Some (\<lambda>x. x) demo_auth (Some ''k1'')
      ''hello'' 2000 demo_wh = (Inl (WebhookError 502 ''send failed''), snd (demo_send SendFailed))"
    unfolding demo_send_def [symmetric] by (rule prod_eqI) (simp_all only: failed prod.sel)
  have "extract_idempotency_key Some (Some ''k1'') = Inr (Some ''k1'')"
    "\<forall>k \<in> set (wh_keys demo_wh). wk_idempotency_key k \<noteq> ''k1''"
    by code_simp+
  from webhook_failure_frees_key [OF demo_wh_ok demo_undisturbed this first] failed
  show ?thesis by simp
qed

text \<open>
  Revocation is final: once \<^verbatim>\<open>revoke\<close> has succeeded for a token, every later request made with
  it is refused as unauthorised and changes nothing, whatever else happens to be true of the request, and
  revoking it again succeeds without moving the time of the first revocation.
\<close>

theorem webhook_revoked_is_final:
  assumes "webhook_ok s" "webhook_revoke user_id token_id now s = (True, s1)"
    and "t \<in> set (wh_tokens s1)" "wt_id t = token_id" "wt_token_hash t = sha raw"
    and "extract_bearer to_str auth = Some raw"
  shows "wt_revoked_at t \<noteq> None \<and>
    webhook_sms env to_str sha auth kh message later s1 = (Inl wh_unauthorized, s1) \<and>
    webhook_revoke user_id token_id later s1 = (True, s1)"
proof -
  let ?p = "\<lambda>t. wt_id t = token_id \<and> wt_user_id t = user_id"
  let ?q = "\<lambda>t. wt_id t = token_id \<and> wt_user_id t = user_id \<and> wt_revoked_at t = None"
  let ?f = "\<lambda>t. t\<lparr>wt_revoked_at := Some now\<rparr>"
  from assms(2) have s1: "s1 = s\<lparr>wh_tokens := sql_update ?q ?f (wh_tokens s)\<rparr>" and "sql_count ?p (wh_tokens s) \<noteq> 0"
    by (auto simp: webhook_revoke_def split: if_splits)
  then obtain t0 where t0: "t0 \<in> set (wh_tokens s)" "?p t0" unfolding sql_count_0 by blast
  have ids: "distinct (map wt_id (wh_tokens s))" using assms(1) by (simp add: webhook_ok_def)
  have toks: "wh_tokens s1 = sql_update ?q ?f (wh_tokens s)" by (simp add: s1)
  have revoked: "x \<in> set (wh_tokens s1) \<Longrightarrow> wt_id x = token_id \<Longrightarrow> ?p x \<and> wt_revoked_at x \<noteq> None" for x
    unfolding toks by (erule in_sql_updateE) (use ids t0 in \<open>auto dest: distinct_map_eqD\<close>)
  have ok: "webhook_ok s1"
    by (rule webhook_ok_tokens [OF assms(1), where p = ?q and f = ?f]) (simp_all add: s1)
  have find: "webhook_find_by_hash (sha raw) s1 = Some t"
    using sql_first_unique [of wt_token_hash "wh_tokens s1" t "\<lambda>t. wt_token_hash t = sha raw"] ok assms(3,5)
    by (simp add: webhook_find_by_hash_def webhook_ok_def)
  have "sql_update ?q (\<lambda>t. t\<lparr>wt_revoked_at := Some later\<rparr>) (wh_tokens s1) = wh_tokens s1"
    by (rule sql_update_none) (use revoked in blast)
  moreover have "sql_count ?p (wh_tokens s1) \<noteq> 0"
    using revoked assms(3,4) unfolding sql_count_0 by blast
  ultimately have "webhook_revoke user_id token_id later s1 = (True, s1)"
    by (simp add: webhook_revoke_def)
  with revoked [OF assms(3,4)] find assms(6) show ?thesis by (auto simp: webhook_sms_def)
qed

theorem webhook_revoked_is_final_witness:
  "fst (webhook_sms (demo_webhook_env False (SendAccepted ''SM1'')) Some (\<lambda>x. x) demo_auth None ''hello'' 5000
     (snd (webhook_revoke 1 1 3000 demo_wh))) = Inl wh_unauthorized"
proof -
  have revoked: "webhook_revoke 1 1 3000 demo_wh = (True, snd (webhook_revoke 1 1 3000 demo_wh))"
    by code_simp
  have row: "\<exists>t \<in> set (wh_tokens (snd (webhook_revoke 1 1 3000 demo_wh))).
      wt_id t = 1 \<and> wt_token_hash t = ''lf_'' @ demo_hex_part"
    by code_simp
  have bearer: "extract_bearer Some demo_auth = Some (''lf_'' @ demo_hex_part)" by code_simp
  from row obtain t where "t \<in> set (wh_tokens (snd (webhook_revoke 1 1 3000 demo_wh)))" "wt_id t = 1"
      "wt_token_hash t = ''lf_'' @ demo_hex_part" by auto
  from webhook_revoked_is_final [where sha = "\<lambda>x. x", OF demo_wh_ok revoked this bearer] show ?thesis by simp
qed

text \<open>
  Claim C9. The daily cap holds under interference: whatever the other transactions that commit between
  the statements of a claim do to the tables, short of breaking their constraints, a claim leaves every
  counter between 0 and its cap, and it is granted only for a token that was not revoked and had a send
  left at the moment the slot was taken.
\<close>

theorem webhook_claim_sound:
  assumes "webhook_ok s" "\<And>u. webhook_ok u \<Longrightarrow> webhook_ok (others u)"
  shows "webhook_ok (snd (claim_send_slot others h now s)) \<and>
    (case fst (claim_send_slot others h now s) of
       Inr (ClaimOk t) \<Rightarrow> wt_revoked_at t = None \<and> 0 < wt_daily_sent t \<and> wt_daily_sent t \<le> wt_daily_cap t \<and>
         t \<in> set (wh_tokens (snd (claim_send_slot others h now s)))
     | _ \<Rightarrow> True)"
proof -
  obtain res s' where run: "claim_send_slot others h now s = (res, s')" by fastforce
  have ok: "webhook_ok (others (reset_window h now s))" by (rule assms(2) [OF reset_window_ok [OF assms(1)]])
  have after: "webhook_ok s'" using claim_send_slot_ok [of s others, OF assms] run by (metis snd_conv)
  have "wt_revoked_at t = None \<and> 0 < wt_daily_sent t \<and> wt_daily_sent t \<le> wt_daily_cap t \<and> t \<in> set (wh_tokens s')"
    if "res = Inr (ClaimOk t)" for t
    using claim_ok_row [OF run [unfolded that]] ok by (fastforce simp: webhook_ok_def)
  with run after show ?thesis by (auto split: sum.split claim_result.split)
qed

theorem webhook_claim_sound_witness:
  "webhook_ok (snd (claim_send_slot (\<lambda>u. snd (webhook_revoke 1 1 2500 u)) (''lf_'' @ demo_hex_part) 2000 demo_wh)) \<and>
   fst (claim_send_slot (\<lambda>u. snd (webhook_revoke 1 1 2500 u)) (''lf_'' @ demo_hex_part) 2000 demo_wh) = Inr ClaimRevoked"
proof -
  have others: "webhook_ok (snd (webhook_revoke 1 1 2500 u))" if "webhook_ok u" for u
    by (cases "sql_count (\<lambda>t. wt_id t = 1 \<and> wt_user_id t = 1) (wh_tokens u) = 0")
      (use that in \<open>auto simp: webhook_revoke_def intro!: webhook_ok_tokens [OF that]\<close>)
  have "fst (claim_send_slot (\<lambda>u. snd (webhook_revoke 1 1 2500 u)) (''lf_'' @ demo_hex_part) 2000 demo_wh) = Inr ClaimRevoked"
    by code_simp
  with webhook_claim_sound [where others = "\<lambda>u. snd (webhook_revoke 1 1 2500 u)", OF demo_wh_ok others] show ?thesis by blast
qed

text \<open>
  Inside one window the claims of a token are counted one for one: a sequence of claims raises
  \<^verbatim>\<open>daily_sent\<close> by exactly the number that were granted, so no more than \<^verbatim>\<open>daily_cap - daily_sent\<close> of them are.
\<close>

theorem webhook_daily_cap:
  assumes "webhook_ok s" "\<forall>now \<in> set nows. in_window h now s"
  shows "slots_used h (snd (grants (slot_claim_of h) nows s)) = slots_used h s + int (fst (grants (slot_claim_of h) nows s)) \<and>
    slots_used h s + int (fst (grants (slot_claim_of h) nows s)) \<le> slots_cap h s"
proof -
  have "slots_used h s \<le> slots_cap h s"
    using assms(1) by (auto simp: slots_used_def slots_cap_def slot_token_def webhook_find_by_hash_def webhook_ok_def
        split: option.split dest: sql_first_Some)
  with daily_cap.grants_exact [OF assms] daily_cap.grants_within_cap [OF assms] show ?thesis by simp
qed

theorem webhook_daily_cap_witness:
  "fst (grants (slot_claim_of (''lf_'' @ demo_hex_part)) [2000, 2001, 2002] demo_wh) = 2 \<and>
   slots_used (''lf_'' @ demo_hex_part) demo_wh + 2 \<le> slots_cap (''lf_'' @ demo_hex_part) demo_wh"
proof -
  have "\<forall>now \<in> set [2000, 2001, 2002]. in_window (''lf_'' @ demo_hex_part) now demo_wh" by code_simp
  moreover have "fst (grants (slot_claim_of (''lf_'' @ demo_hex_part)) [2000, 2001, 2002] demo_wh) = 2" by code_simp
  ultimately show ?thesis using webhook_daily_cap [OF demo_wh_ok] by fastforce
qed

end
