(* ===== verification/ReplyWatches.thy ===== *)
theory ReplyWatches
  imports Tables Contracts
begin

text \<open>
  The one-shot reply watches (\<^verbatim>\<open>repositories/pending_reply_watches_repository.rs\<close>, rows in
  \<^verbatim>\<open>models/user_models.rs\<close>, migration 37): a watch is armed when a message is sent on the user's
  behalf, and the first reply in time claims and removes it. The clock \<open>now\<close> is a parameter; a
  connection is always available.
\<close>

section \<open>The table\<close>

definition PLATFORM_BRIDGE :: string where "PLATFORM_BRIDGE = ''bridge''"
definition PLATFORM_EMAIL :: string where "PLATFORM_EMAIL = ''email''"
definition DEFAULT_TTL_SECONDS :: i64 where "DEFAULT_TTL_SECONDS = 24 * 60 * 60"

record reply_watch =
  rw_id :: i32
  rw_user_id :: i32
  rw_platform :: string
  rw_room_id :: "string option"
  rw_imap_connection_id :: "i32 option"
  rw_contact_identifier :: string
  rw_contact_display_name :: string
  rw_created_at :: i32
  rw_expires_at :: i32

record new_reply_watch =
  nw_user_id :: i32
  nw_platform :: string
  nw_room_id :: "string option"
  nw_imap_connection_id :: "i32 option"
  nw_contact_identifier :: string
  nw_contact_display_name :: string
  nw_created_at :: i32
  nw_expires_at :: i32

record watch_store =
  ws_rows :: "reply_watch table"
  ws_next_id :: i32

section \<open>The repository\<close>

definition watch_create :: "new_reply_watch \<Rightarrow> watch_store \<Rightarrow> reply_watch \<times> watch_store" where
  "watch_create nw s =
     (let w = \<lparr>rw_id = ws_next_id s, rw_user_id = nw_user_id nw, rw_platform = nw_platform nw,
               rw_room_id = nw_room_id nw, rw_imap_connection_id = nw_imap_connection_id nw,
               rw_contact_identifier = nw_contact_identifier nw,
               rw_contact_display_name = nw_contact_display_name nw,
               rw_created_at = nw_created_at nw, rw_expires_at = nw_expires_at nw\<rparr>
      in (w, \<lparr>ws_rows = ws_rows s @ [w], ws_next_id = ws_next_id s + 1\<rparr>))"

text \<open>The filters of a bridge room and of an email sender.\<close>

definition bridge_watch :: "i32 \<Rightarrow> string \<Rightarrow> reply_watch \<Rightarrow> bool" where
  "bridge_watch user_id room_id w \<longleftrightarrow>
     rw_platform w = PLATFORM_BRIDGE \<and> rw_user_id w = user_id \<and> rw_room_id w = Some room_id"

definition email_watch :: "i32 \<Rightarrow> i32 \<Rightarrow> string \<Rightarrow> reply_watch \<Rightarrow> bool" where
  "email_watch user_id imap_connection_id contact w \<longleftrightarrow>
     rw_platform w = PLATFORM_EMAIL \<and> rw_user_id w = user_id \<and>
     rw_imap_connection_id w = Some imap_connection_id \<and> rw_contact_identifier w = contact"

definition delete_watches :: "(reply_watch \<Rightarrow> bool) \<Rightarrow> watch_store \<Rightarrow> watch_store" where
  "delete_watches p s = s\<lparr>ws_rows := sql_delete p (ws_rows s)\<rparr>"

definition arm_bridge ::
  "i32 \<Rightarrow> string \<Rightarrow> string \<Rightarrow> string \<Rightarrow> i32 \<Rightarrow> watch_store \<Rightarrow> reply_watch \<times> watch_store" where
  "arm_bridge user_id room_id contact_identifier display_name now s =
     watch_create
       \<lparr>nw_user_id = user_id, nw_platform = PLATFORM_BRIDGE, nw_room_id = Some room_id,
        nw_imap_connection_id = None, nw_contact_identifier = contact_identifier,
        nw_contact_display_name = display_name, nw_created_at = now,
        nw_expires_at = wrap_i32 (now + wrap_i32 DEFAULT_TTL_SECONDS)\<rparr>
       (delete_watches (bridge_watch user_id room_id) s)"

definition arm_email ::
  "i32 \<Rightarrow> i32 \<Rightarrow> string \<Rightarrow> string \<Rightarrow> i32 \<Rightarrow> watch_store \<Rightarrow> reply_watch \<times> watch_store" where
  "arm_email user_id imap_connection_id contact_identifier display_name now s =
     watch_create
       \<lparr>nw_user_id = user_id, nw_platform = PLATFORM_EMAIL, nw_room_id = None,
        nw_imap_connection_id = Some imap_connection_id, nw_contact_identifier = contact_identifier,
        nw_contact_display_name = display_name, nw_created_at = now,
        nw_expires_at = wrap_i32 (now + wrap_i32 DEFAULT_TTL_SECONDS)\<rparr>
       (delete_watches (email_watch user_id imap_connection_id contact_identifier) s)"

definition find_active_bridge :: "i32 \<Rightarrow> string \<Rightarrow> i32 \<Rightarrow> watch_store \<Rightarrow> reply_watch option" where
  "find_active_bridge user_id room_id now s =
     sql_first (\<lambda>w. bridge_watch user_id room_id w \<and> now < rw_expires_at w) (ws_rows s)"

definition find_active_email ::
  "i32 \<Rightarrow> i32 \<Rightarrow> string \<Rightarrow> i32 \<Rightarrow> watch_store \<Rightarrow> reply_watch option" where
  "find_active_email user_id imap_connection_id sender_key now s =
     sql_first (\<lambda>w. email_watch user_id imap_connection_id sender_key w \<and> now < rw_expires_at w) (ws_rows s)"

text \<open>\<^verbatim>\<open>diesel::delete(...).get_results()\<close> and \<^verbatim>\<open>claimed.pop()\<close>.\<close>

definition claim_watches ::
  "(reply_watch \<Rightarrow> bool) \<Rightarrow> i32 \<Rightarrow> watch_store \<Rightarrow> reply_watch option \<times> watch_store" where
  "claim_watches p now s =
     (let claimed = sql_select (\<lambda>w. p w \<and> now < rw_expires_at w) (ws_rows s)
      in (if claimed = [] then None else Some (last claimed),
          delete_watches (\<lambda>w. p w \<and> now < rw_expires_at w) s))"

definition claim_active_bridge ::
  "i32 \<Rightarrow> string \<Rightarrow> i32 \<Rightarrow> watch_store \<Rightarrow> reply_watch option \<times> watch_store" where
  "claim_active_bridge user_id room_id = claim_watches (bridge_watch user_id room_id)"

definition claim_active_email ::
  "i32 \<Rightarrow> i32 \<Rightarrow> string \<Rightarrow> i32 \<Rightarrow> watch_store \<Rightarrow> reply_watch option \<times> watch_store" where
  "claim_active_email user_id imap_connection_id sender_key =
     claim_watches (email_watch user_id imap_connection_id sender_key)"

definition watch_restore :: "reply_watch \<Rightarrow> watch_store \<Rightarrow> reply_watch \<times> watch_store" where
  "watch_restore w s =
     watch_create
       \<lparr>nw_user_id = rw_user_id w, nw_platform = rw_platform w, nw_room_id = rw_room_id w,
        nw_imap_connection_id = rw_imap_connection_id w,
        nw_contact_identifier = rw_contact_identifier w,
        nw_contact_display_name = rw_contact_display_name w,
        nw_created_at = rw_created_at w, nw_expires_at = rw_expires_at w\<rparr> s"

definition watch_delete :: "i32 \<Rightarrow> watch_store \<Rightarrow> watch_store" where
  "watch_delete wid s = delete_watches (\<lambda>w. rw_id w = wid) s"

definition watches_active_for_user :: "i32 \<Rightarrow> i32 \<Rightarrow> watch_store \<Rightarrow> reply_watch list" where
  "watches_active_for_user user_id now s =
     order_asc rw_expires_at (sql_select (\<lambda>w. rw_user_id w = user_id \<and> now < rw_expires_at w) (ws_rows s))"

definition watch_delete_for_user :: "i32 \<Rightarrow> i32 \<Rightarrow> watch_store \<Rightarrow> bool \<times> watch_store" where
  "watch_delete_for_user user_id wid s =
     (sql_count (\<lambda>w. rw_id w = wid \<and> rw_user_id w = user_id) (ws_rows s) = 1,
      delete_watches (\<lambda>w. rw_id w = wid \<and> rw_user_id w = user_id) s)"

definition watch_delete_expired :: "i32 \<Rightarrow> watch_store \<Rightarrow> nat \<times> watch_store" where
  "watch_delete_expired now s =
     (sql_count (\<lambda>w. rw_expires_at w \<le> now) (ws_rows s), delete_watches (\<lambda>w. rw_expires_at w \<le> now) s)"

section \<open>A watch fires once\<close>

text \<open>Arming keeps at most one watch per room or sender; \<open>watches_single p\<close> says so of a filter.\<close>

definition watches_single :: "(reply_watch \<Rightarrow> bool) \<Rightarrow> watch_store \<Rightarrow> bool" where
  "watches_single p s \<longleftrightarrow> sql_count p (ws_rows s) \<le> 1"

definition watch_available :: "(reply_watch \<Rightarrow> bool) \<Rightarrow> watch_store \<Rightarrow> bool" where
  "watch_available p s \<longleftrightarrow> sql_count p (ws_rows s) \<noteq> 0"

definition watch_claim_of :: "(reply_watch \<Rightarrow> bool) \<Rightarrow> i32 \<Rightarrow> watch_store \<Rightarrow> bool \<times> watch_store" where
  "watch_claim_of p now s = map_prod (\<lambda>w. w \<noteq> None) id (claim_watches p now s)"

lemma delete_watches_count: "sql_count p (ws_rows (delete_watches q s)) \<le> sql_count p (ws_rows s)"
  by (simp add: delete_watches_def sql_count_def sql_delete_def filter_filter length_filter_conv_card
      card_mono Collect_mono)

lemma single_claim_empties:
  assumes "watches_single p s" "w \<in> set (ws_rows s)" "p w" "q w"
  shows "sql_count p (ws_rows (delete_watches (\<lambda>w. p w \<and> q w) s)) = 0"
proof -
  have "w \<in> set (filter p (ws_rows s))" using assms(2,3) by simp
  moreover have "length (filter p (ws_rows s)) \<le> 1" using assms(1) by (simp add: watches_single_def sql_count_def)
  ultimately have "filter p (ws_rows s) = [w]" by (cases "filter p (ws_rows s)") auto
  then have "\<forall>x \<in> set (ws_rows s). p x \<longrightarrow> x = w"
    by (metis (mono_tags, lifting) empty_iff empty_set filter_is_subset insert_iff list.simps(15) mem_Collect_eq set_filter)
  with assms(3,4) show ?thesis by (auto simp: sql_count_0 delete_watches_def)
qed

lemma single_after_arm:
  "watches_single p (snd (watch_create nw (delete_watches p s)))"
  by (simp add: watches_single_def watch_create_def delete_watches_def sql_count_def sql_delete_def filter_filter Let_def)

interpretation watch_claim: one_shot "watch_claim_of p" "watch_available p" "watches_single p" for p
proof
  fix s now
  assume s: "watches_single p s"
  show "watches_single p (snd (watch_claim_of p now s))"
    using s delete_watches_count [of p "\<lambda>w. p w \<and> now < rw_expires_at w" s]
    by (simp add: watches_single_def watch_claim_of_def claim_watches_def Let_def)
  show "watch_available p s \<and> \<not> watch_available p (snd (watch_claim_of p now s))"
    if taken: "fst (watch_claim_of p now s)"
  proof -
    from taken obtain w where w: "w \<in> set (ws_rows s)" "p w" "now < rw_expires_at w"
      by (auto simp: watch_claim_of_def claim_watches_def Let_def sql_select_def filter_empty_conv split: if_splits)
    from single_claim_empties [where q = "\<lambda>w. now < rw_expires_at w", OF s this]
    have "\<not> watch_available p (snd (watch_claim_of p now s))"
      by (simp add: watch_available_def watch_claim_of_def claim_watches_def Let_def)
    with w show ?thesis by (auto simp: watch_available_def sql_count_0)
  qed
  show "watch_available p s" if "\<not> fst (watch_claim_of p now s)" "watch_available p (snd (watch_claim_of p now s))"
    using that(2) delete_watches_count [of p "\<lambda>w. p w \<and> now < rw_expires_at w" s]
    by (auto simp: watch_available_def watch_claim_of_def claim_watches_def Let_def)
qed

text \<open>
  A watch fires once: after a conversation has been armed, however many messages arrive in it
  and whenever, at most one of them claims the watch; a message that arrives before the watch expires
  claims exactly the one just armed, with its label, and arming a conversation again first removes the watch it had.
\<close>

theorem armed_watch_fires_once:
  "fst (grants (watch_claim_of (bridge_watch user room)) arrivals (snd (arm_bridge user room contact label now s))) \<le> 1 \<and>
   (let (w, s1) = arm_bridge user room contact label now s
    in filter (bridge_watch user room) (ws_rows s1) = [w] \<and> rw_contact_display_name w = label \<and>
       fst (claim_active_bridge user room at s1) = (if at < rw_expires_at w then Some w else None))"
proof -
  have "watches_single (bridge_watch user room) (snd (arm_bridge user room contact label now s))"
    unfolding arm_bridge_def by (rule single_after_arm)
  from watch_claim.at_most_once [OF this]
  have once: "fst (grants (watch_claim_of (bridge_watch user room)) arrivals (snd (arm_bridge user room contact label now s))) \<le> 1" .
  obtain w s1 where arm: "arm_bridge user room contact label now s = (w, s1)" by fastforce
  then have rows: "ws_rows s1 = sql_delete (bridge_watch user room) (ws_rows s) @ [w]" "bridge_watch user room w"
    "rw_contact_display_name w = label"
    by (auto simp: arm_bridge_def watch_create_def delete_watches_def bridge_watch_def Let_def)
  then have only: "filter (bridge_watch user room) (ws_rows s1) = [w]"
    by (simp add: sql_delete_def filter_filter)
  have "sql_select (\<lambda>x. bridge_watch user room x \<and> at < rw_expires_at x) (ws_rows s1) =
        filter (\<lambda>x. at < rw_expires_at x) (filter (bridge_watch user room) (ws_rows s1))"
    by (simp add: sql_select_def filter_filter conj_commute)
  also have "\<dots> = (if at < rw_expires_at w then [w] else [])" by (simp add: only)
  finally have "fst (claim_active_bridge user room at s1) = (if at < rw_expires_at w then Some w else None)"
    by (simp add: claim_active_bridge_def claim_watches_def Let_def)
  with once arm only rows(3) show ?thesis by simp
qed

end
