(* ===== verification/Ontology.thy ===== *)
theory Ontology
  imports Tables Text Contracts
begin

text \<open>
  The events, reminders and rules of the ontology store: the sections Events, Rules and Changelog of
  \<^verbatim>\<open>repositories/ontology_repository.rs\<close>, rows in \<^verbatim>\<open>models/ontology_models.rs\<close>. \<open>now\<close> is the clock
  the operation reads; a connection is always available. \<^verbatim>\<open>log_change\<close> ignores its own errors.
\<close>

section \<open>Tables\<close>

record ont_event =
  oe_id :: i32
  oe_user_id :: i32
  oe_description :: string
  oe_remind_at :: "i32 option"
  oe_due_at :: "i32 option"
  oe_status :: string
  oe_created_at :: i32
  oe_updated_at :: i32
  oe_friend_notified_at :: "i32 option"
  oe_reminder_attempts :: i32
  oe_reminder_next_attempt_at :: "i32 option"
  oe_reminder_lease_until :: "i32 option"
  oe_reminder_last_error :: "string option"
  oe_reminder_delivered_at :: "i32 option"
  oe_reminder_delivery_key :: "string option"
  oe_reminder_timezone :: "string option"

record new_ont_event =
  ne_user_id :: i32
  ne_description :: string
  ne_remind_at :: "i32 option"
  ne_due_at :: "i32 option"
  ne_status :: string
  ne_created_at :: i32
  ne_updated_at :: i32

record ont_rule =
  or_id :: i32
  or_user_id :: i32
  or_name :: string
  or_trigger_type :: string
  or_trigger_config :: string
  or_logic_type :: string
  or_logic_prompt :: "string option"
  or_logic_fetch :: "string option"
  or_action_type :: string
  or_action_config :: string
  or_status :: string
  or_next_fire_at :: "i32 option"
  or_expires_at :: "i32 option"
  or_last_triggered_at :: "i32 option"
  or_created_at :: i32
  or_updated_at :: i32
  or_flow_config :: "string option"

record new_ont_rule =
  nr_user_id :: i32
  nr_name :: string
  nr_trigger_type :: string
  nr_trigger_config :: string
  nr_logic_type :: string
  nr_logic_prompt :: "string option"
  nr_logic_fetch :: "string option"
  nr_action_type :: string
  nr_action_config :: string
  nr_status :: string
  nr_next_fire_at :: "i32 option"
  nr_expires_at :: "i32 option"
  nr_rule_created_at :: i32
  nr_rule_updated_at :: i32
  nr_flow_config :: "string option"

record ont_changelog =
  oc_id :: i64
  oc_user_id :: i32
  oc_entity_type :: string
  oc_entity_id :: i32
  oc_change_type :: string
  oc_changed_fields :: "string option"
  oc_source :: string
  oc_created_at :: i32

record scheduler_health =
  sh_job_name :: string
  sh_last_started_at :: i32
  sh_last_completed_at :: "i32 option"
  sh_last_error :: "string option"
  sh_updated_at :: i32

record ont_store =
  on_events :: "ont_event table"
  on_next_event_id :: i32
  on_rules :: "ont_rule table"
  on_next_rule_id :: i32
  on_changelog :: "ont_changelog table"
  on_next_change_id :: i64
  on_health :: "scheduler_health table"

text \<open>A comparison of a nullable column with a value, and \<^verbatim>\<open>COALESCE\<close>.\<close>

definition opt_le :: "int option \<Rightarrow> int \<Rightarrow> bool" where
  "opt_le v x = (case v of None \<Rightarrow> False | Some y \<Rightarrow> y \<le> x)"

lemma opt_le_simps [simp]: "\<not> opt_le None x" "opt_le (Some y) x \<longleftrightarrow> y \<le> x"
  by (simp_all add: opt_le_def)

definition log_change ::
  "i32 \<Rightarrow> string \<Rightarrow> i32 \<Rightarrow> string \<Rightarrow> string option \<Rightarrow> string \<Rightarrow> i32 \<Rightarrow> ont_store \<Rightarrow> ont_store" where
  "log_change user_id entity_type entity_id change_type changed_fields source now s =
     s\<lparr>on_changelog := on_changelog s @
         [\<lparr>oc_id = on_next_change_id s, oc_user_id = user_id, oc_entity_type = entity_type,
           oc_entity_id = entity_id, oc_change_type = change_type, oc_changed_fields = changed_fields,
           oc_source = source, oc_created_at = now\<rparr>],
       on_next_change_id := on_next_change_id s + 1\<rparr>"

section \<open>Events\<close>

definition insert_event :: "new_ont_event \<Rightarrow> ont_store \<Rightarrow> ont_event \<times> ont_store" where
  "insert_event ne s =
     (let e = \<lparr>oe_id = on_next_event_id s, oe_user_id = ne_user_id ne, oe_description = ne_description ne,
               oe_remind_at = ne_remind_at ne, oe_due_at = ne_due_at ne, oe_status = ne_status ne,
               oe_created_at = ne_created_at ne, oe_updated_at = ne_updated_at ne,
               oe_friend_notified_at = None, oe_reminder_attempts = 0, oe_reminder_next_attempt_at = None,
               oe_reminder_lease_until = None, oe_reminder_last_error = None,
               oe_reminder_delivered_at = None, oe_reminder_delivery_key = None, oe_reminder_timezone = None\<rparr>
      in (e, s\<lparr>on_events := on_events s @ [e], on_next_event_id := on_next_event_id s + 1\<rparr>))"

definition create_event :: "new_ont_event \<Rightarrow> i32 \<Rightarrow> ont_store \<Rightarrow> ont_event \<times> ont_store" where
  "create_event ne now s =
     (case insert_event ne s of
        (e, s') \<Rightarrow>
          (e, log_change (ne_user_id ne) ''Event'' (oe_id e) ''created''
                (Some (''description='' @ ne_description ne)) ''user_action'' now s'))"

text \<open>The unique index on the delivery keys is checked by the update.\<close>

definition create_reminder ::
  "new_ont_event \<Rightarrow> string \<Rightarrow> i32 \<Rightarrow> ont_store \<Rightarrow> (db_error + ont_event) \<times> ont_store" where
  "create_reminder ne timezone now =
     transaction (\<lambda>s.
       case insert_event ne s of
         (created, s1) \<Rightarrow>
           (let delivery_key = ''reminder-event-'' @ show_int (oe_id created);
                s2 = s1\<lparr>on_events := sql_update (\<lambda>e. oe_id e = oe_id created)
                         (\<lambda>e. e\<lparr>oe_reminder_timezone := Some timezone,
                                oe_reminder_delivery_key := Some delivery_key,
                                oe_reminder_next_attempt_at := ne_remind_at ne\<rparr>) (on_events s1)\<rparr>;
                s3 = log_change (ne_user_id ne) ''Event'' (oe_id created) ''created''
                       (Some (''description='' @ ne_description ne)) ''user_action'' now s2
            in if \<exists>e \<in> set (on_events s1). oe_id e \<noteq> oe_id created \<and> oe_reminder_delivery_key e = Some delivery_key
               then (Inl UniqueViolation, s2)
               else
                 (case sql_first (\<lambda>e. oe_id e = oe_id created) (on_events s3) of
                    None \<Rightarrow> (Inl NotFound, s3)
                  | Some e \<Rightarrow> (Inr e, s3))))"

definition own_event :: "i32 \<Rightarrow> i32 \<Rightarrow> ont_event \<Rightarrow> bool" where
  "own_event user_id event_id e \<longleftrightarrow> oe_id e = event_id \<and> oe_user_id e = user_id"

definition get_event :: "i32 \<Rightarrow> i32 \<Rightarrow> ont_store \<Rightarrow> db_error + ont_event" where
  "get_event user_id event_id s =
     (case sql_first (own_event user_id event_id) (on_events s) of None \<Rightarrow> Inl NotFound | Some e \<Rightarrow> Inr e)"

definition get_active_events :: "i32 \<Rightarrow> ont_store \<Rightarrow> ont_event list" where
  "get_active_events user_id s =
     order_desc oe_created_at (sql_select (\<lambda>e. oe_user_id e = user_id \<and> oe_status e = ''active'') (on_events s))"

definition get_proposed_events :: "i32 \<Rightarrow> ont_store \<Rightarrow> ont_event list" where
  "get_proposed_events user_id s =
     order_desc oe_created_at (sql_select (\<lambda>e. oe_user_id e = user_id \<and> oe_status e = ''proposed'') (on_events s))"

definition open_event :: "i32 \<Rightarrow> ont_event \<Rightarrow> bool" where
  "open_event user_id e \<longleftrightarrow> oe_user_id e = user_id \<and> oe_status e \<in> {''active'', ''proposed''}"

definition get_active_and_proposed_events :: "i32 \<Rightarrow> ont_store \<Rightarrow> ont_event list" where
  "get_active_and_proposed_events user_id s =
     order_desc oe_created_at (sql_select (open_event user_id) (on_events s))"

definition get_active_and_proposed_trackable_events :: "i32 \<Rightarrow> ont_store \<Rightarrow> ont_event list" where
  "get_active_and_proposed_trackable_events user_id s =
     order_desc oe_created_at
       (sql_select (\<lambda>e. open_event user_id e \<and> oe_reminder_delivery_key e = None) (on_events s))"

definition get_recently_created_events :: "i32 \<Rightarrow> i32 \<Rightarrow> ont_store \<Rightarrow> ont_event list" where
  "get_recently_created_events user_id since_ts s =
     order_desc oe_created_at (sql_select (\<lambda>e. open_event user_id e \<and> since_ts \<le> oe_created_at e) (on_events s))"

definition get_recently_completed_events :: "i32 \<Rightarrow> i32 \<Rightarrow> ont_store \<Rightarrow> ont_event list" where
  "get_recently_completed_events user_id since_ts s =
     order_desc oe_updated_at
       (sql_select (\<lambda>e. oe_user_id e = user_id \<and> oe_status e = ''completed'' \<and> since_ts \<le> oe_updated_at e)
          (on_events s))"

definition get_events :: "i32 \<Rightarrow> string option \<Rightarrow> ont_store \<Rightarrow> ont_event list" where
  "get_events user_id status s =
     order_desc oe_created_at
       (sql_select (\<lambda>e. oe_user_id e = user_id \<and>
          (case status of None \<Rightarrow> True | Some st \<Rightarrow> st = ''all'' \<or> oe_status e = st)) (on_events s))"

text \<open>\<^verbatim>\<open>diesel::update(ont_events.filter(p)).set(f)\<close>\<close>

definition update_events :: "(ont_event \<Rightarrow> bool) \<Rightarrow> (ont_event \<Rightarrow> ont_event) \<Rightarrow> ont_store \<Rightarrow> ont_store" where
  "update_events p f s = s\<lparr>on_events := sql_update p f (on_events s)\<rparr>"

definition update_event_status :: "i32 \<Rightarrow> i32 \<Rightarrow> string \<Rightarrow> i32 \<Rightarrow> ont_store \<Rightarrow> ont_store" where
  "update_event_status user_id event_id status now =
     update_events (own_event user_id event_id) (\<lambda>e. e\<lparr>oe_status := status, oe_updated_at := now\<rparr>)"

definition confirm_event :: "i32 \<Rightarrow> i32 \<Rightarrow> i32 \<Rightarrow> ont_store \<Rightarrow> ont_store" where
  "confirm_event user_id event_id now = update_event_status user_id event_id ''active'' now"

definition dismiss_event :: "i32 \<Rightarrow> i32 \<Rightarrow> i32 \<Rightarrow> ont_store \<Rightarrow> ont_store" where
  "dismiss_event user_id event_id now = update_event_status user_id event_id ''dismissed'' now"

definition cancel_reminder :: "i32 \<Rightarrow> i32 \<Rightarrow> i32 \<Rightarrow> ont_store \<Rightarrow> bool \<times> ont_store" where
  "cancel_reminder user_id event_id now s =
     (let p = (\<lambda>e. own_event user_id event_id e \<and> oe_status e = ''active'' \<and> oe_remind_at e \<noteq> None)
      in (sql_count p (on_events s) = 1,
          update_events p
            (\<lambda>e. e\<lparr>oe_status := ''cancelled'', oe_reminder_next_attempt_at := None,
                   oe_reminder_lease_until := None, oe_updated_at := now\<rparr>) s))"

text \<open>The three optional parts of \<^verbatim>\<open>update_event\<close>, statements of their own and not one transaction.\<close>

definition append_to_event ::
  "i32 \<Rightarrow> i32 \<Rightarrow> string \<Rightarrow> i32 \<Rightarrow> ont_store \<Rightarrow> (db_error + unit) \<times> ont_store" where
  "append_to_event user_id event_id extra now s =
     (let extra = (case strip_prefix ''Update: '' extra of None \<Rightarrow> extra | Some a \<Rightarrow> a)
      in (case get_event user_id event_id s of
            Inl e \<Rightarrow> (Inl e, s)
          | Inr current \<Rightarrow>
              (let merged = (if oe_description current = [] then extra
                             else oe_description current @ [CHR 0x0A] @ ''Update: '' @ extra)
               in (Inr (), update_events (own_event user_id event_id)
                             (\<lambda>e. e\<lparr>oe_description := merged, oe_updated_at := now\<rparr>) s))))"

definition reschedule_event ::
  "i32 \<Rightarrow> i32 \<Rightarrow> i32 option \<Rightarrow> i32 option \<Rightarrow> i32 \<Rightarrow> ont_store \<Rightarrow> (db_error + unit) \<times> ont_store" where
  "reschedule_event user_id event_id remind_at due_at now s =
     (case get_event user_id event_id s of
        Inl e \<Rightarrow> (Inl e, s)
      | Inr current \<Rightarrow>
          (Inr (), update_events (own_event user_id event_id)
             (\<lambda>e. e\<lparr>oe_remind_at := (if remind_at = None then oe_remind_at current else remind_at),
                    oe_due_at := (if due_at = None then oe_due_at current else due_at),
                    oe_status := ''active'', oe_updated_at := now\<rparr>) s))"

definition update_event ::
  "i32 \<Rightarrow> i32 \<Rightarrow> string option \<Rightarrow> string option \<Rightarrow> i32 option \<Rightarrow> i32 option \<Rightarrow> i32
   \<Rightarrow> ont_store \<Rightarrow> (db_error + ont_event) \<times> ont_store" where
  "update_event user_id event_id append_description status remind_at due_at now s =
     (case (case append_description of
              None \<Rightarrow> (Inr (), s)
            | Some extra \<Rightarrow> append_to_event user_id event_id extra now s) of
        (Inl e, s1) \<Rightarrow> (Inl e, s1)
      | (Inr _, s1) \<Rightarrow>
          (let s2 = (case status of None \<Rightarrow> s1 | Some st \<Rightarrow> update_event_status user_id event_id st now s1)
           in (case (if remind_at \<noteq> None \<or> due_at \<noteq> None
                     then reschedule_event user_id event_id remind_at due_at now s2
                     else (Inr (), s2)) of
                 (Inl e, s3) \<Rightarrow> (Inl e, s3)
               | (Inr _, s3) \<Rightarrow> (get_event user_id event_id s3, s3))))"

section \<open>Delivering reminders\<close>

definition reset_event_reminder_delivery ::
  "i32 \<Rightarrow> i32 \<Rightarrow> string \<Rightarrow> i32 \<Rightarrow> ont_store \<Rightarrow> (db_error + ont_event) \<times> ont_store" where
  "reset_event_reminder_delivery user_id event_id timezone now s =
     (case get_event user_id event_id s of
        Inl e \<Rightarrow> (Inl e, s)
      | Inr event \<Rightarrow>
          (let f = (\<lambda>e. e\<lparr>oe_reminder_timezone := Some timezone,
                          oe_reminder_next_attempt_at := oe_remind_at event,
                          oe_reminder_lease_until := None, oe_reminder_last_error := None,
                          oe_reminder_delivered_at := None, oe_reminder_attempts := 0,
                          oe_status := ''active'', oe_updated_at := now\<rparr>)
           in (case sql_update_get (own_event user_id event_id) f (on_events s) of
                 None \<Rightarrow> (Inl NotFound, s)
               | Some e \<Rightarrow> (Inr e, update_events (own_event user_id event_id) f s))))"

definition reminder_claimable :: "i32 \<Rightarrow> ont_event \<Rightarrow> bool" where
  "reminder_claimable now e \<longleftrightarrow>
     opt_le (oe_remind_at e) now \<and>
     (oe_reminder_next_attempt_at e = None \<or> opt_le (oe_reminder_next_attempt_at e) now) \<and>
     (oe_status e = ''active'' \<or>
      oe_status e = ''reminder_sending'' \<and> opt_le (oe_reminder_lease_until e) now)"

definition lease_row :: "i32 \<Rightarrow> i32 \<Rightarrow> ont_event \<Rightarrow> ont_event" where
  "lease_row now lease_seconds e =
     e\<lparr>oe_status := ''reminder_sending'', oe_reminder_lease_until := Some (sat_i32 (now + lease_seconds)),
       oe_reminder_attempts := oe_reminder_attempts e + 1, oe_updated_at := now\<rparr>"

text \<open>\<open>locked\<close> is the set of rows other transactions hold (\<^verbatim>\<open>SKIP LOCKED\<close>).\<close>

definition claim_due_reminders ::
  "(i32 \<Rightarrow> bool) \<Rightarrow> i32 \<Rightarrow> i32 \<Rightarrow> nat \<Rightarrow> ont_store \<Rightarrow> ont_event list \<times> ont_store" where
  "claim_due_reminders locked now lease_seconds limit s =
     (let candidates = take limit (order_asc (\<lambda>e. null_key (oe_remind_at e))
                         (sql_select (\<lambda>e. reminder_claimable now e \<and> \<not> locked (oe_id e)) (on_events s)));
          ids = map oe_id candidates;
          p = (\<lambda>e. oe_id e \<in> set ids)
      in if ids = [] then ([], s)
         else
           (let s' = update_events p (lease_row now lease_seconds) s
            in (sql_select p (on_events s'), s')))"

definition mark_reminder_delivered :: "i32 \<Rightarrow> i32 \<Rightarrow> i32 \<Rightarrow> ont_store \<Rightarrow> ont_store" where
  "mark_reminder_delivered user_id event_id delivered_at =
     update_events (\<lambda>e. own_event user_id event_id e \<and> oe_status e = ''reminder_sending'')
       (\<lambda>e. e\<lparr>oe_status := ''notified'', oe_reminder_delivered_at := Some delivered_at,
              oe_reminder_lease_until := None, oe_reminder_last_error := None,
              oe_updated_at := delivered_at\<rparr>)"

text \<open>\<^verbatim>\<open>2_i32.saturating_pow(attempts.clamp(1, 11) as u32).min(3600)\<close>\<close>

definition reminder_retry_delay :: "i32 \<Rightarrow> i32" where
  "reminder_retry_delay attempts = min 3600 (sat_i32 (2 ^ nat (max 1 (min 11 attempts))))"

definition release_reminder_for_retry ::
  "i32 \<Rightarrow> i32 \<Rightarrow> i32 \<Rightarrow> string \<Rightarrow> i32 \<Rightarrow> ont_store \<Rightarrow> ont_store" where
  "release_reminder_for_retry user_id event_id attempts error_code now =
     update_events (\<lambda>e. own_event user_id event_id e \<and> oe_status e = ''reminder_sending'')
       (\<lambda>e. e\<lparr>oe_status := ''active'',
              oe_reminder_next_attempt_at := Some (sat_i32 (now + reminder_retry_delay attempts)),
              oe_reminder_lease_until := None, oe_reminder_last_error := Some error_code,
              oe_updated_at := now\<rparr>)"

definition update_scheduler_health ::
  "string \<Rightarrow> i32 \<Rightarrow> i32 option \<Rightarrow> string option \<Rightarrow> ont_store \<Rightarrow> ont_store" where
  "update_scheduler_health job_name started_at completed_at error_code s =
     (if sql_first (\<lambda>h. sh_job_name h = job_name) (on_health s) = None
      then s\<lparr>on_health := on_health s @
               [\<lparr>sh_job_name = job_name, sh_last_started_at = started_at,
                 sh_last_completed_at = completed_at, sh_last_error = error_code,
                 sh_updated_at = started_at\<rparr>]\<rparr>
      else s\<lparr>on_health := sql_update (\<lambda>h. sh_job_name h = job_name)
               (\<lambda>h. h\<lparr>sh_last_started_at := started_at,
                      sh_last_completed_at := (if completed_at = None then sh_last_completed_at h else completed_at),
                      sh_last_error := error_code, sh_updated_at := started_at\<rparr>) (on_health s)\<rparr>)"

definition get_expired_events :: "i32 \<Rightarrow> ont_store \<Rightarrow> ont_event list" where
  "get_expired_events now s =
     sql_select (\<lambda>e. (oe_status e = ''notified'' \<or>
                      oe_status e = ''active'' \<and> (oe_remind_at e = None \<or> oe_reminder_delivered_at e \<noteq> None))
                     \<and> opt_le (oe_due_at e) now) (on_events s)"

definition get_events_due_for_friend_notification :: "i32 \<Rightarrow> i32 \<Rightarrow> ont_store \<Rightarrow> ont_event list" where
  "get_events_due_for_friend_notification now grace_secs s =
     sql_select (\<lambda>e. oe_status e \<in> {''active'', ''notified''} \<and> oe_due_at e \<noteq> None
                     \<and> \<not> opt_le (oe_due_at e) now \<and> opt_le (oe_due_at e) (wrap_i32 (now + grace_secs))
                     \<and> oe_friend_notified_at e = None) (on_events s)"

definition mark_friend_notified :: "i32 \<Rightarrow> i32 \<Rightarrow> i32 \<Rightarrow> ont_store \<Rightarrow> ont_store" where
  "mark_friend_notified user_id event_id at =
     update_events (own_event user_id event_id)
       (\<lambda>e. e\<lparr>oe_friend_notified_at := Some at, oe_updated_at := at\<rparr>)"

definition get_upcoming_events :: "i32 \<Rightarrow> nat \<Rightarrow> ont_store \<Rightarrow> ont_event list" where
  "get_upcoming_events user_id limit s =
     take limit
       (order_asc (\<lambda>e. (case oe_due_at e of None \<Rightarrow> 2147483647 | Some t \<Rightarrow> t, - oe_created_at e))
          (sql_select (\<lambda>e. oe_user_id e = user_id \<and> oe_status e = ''active'') (on_events s)))"

definition get_stale_events :: "i32 \<Rightarrow> i32 \<Rightarrow> ont_store \<Rightarrow> ont_event list" where
  "get_stale_events max_age_secs now s =
     sql_select (\<lambda>e. oe_status e = ''active'' \<and> oe_due_at e = None
                     \<and> oe_updated_at e < wrap_i32 (now - max_age_secs)) (on_events s)"

definition purge_old_events :: "i32 \<Rightarrow> i32 \<Rightarrow> ont_store \<Rightarrow> nat \<times> ont_store" where
  "purge_old_events max_age_secs now s =
     (let p = (\<lambda>e. oe_status e \<in> {''completed'', ''dismissed'', ''expired'', ''notified''}
                   \<and> oe_updated_at e < wrap_i32 (now - max_age_secs))
      in (sql_count p (on_events s), s\<lparr>on_events := sql_delete p (on_events s)\<rparr>))"

section \<open>Rules\<close>

definition create_rule :: "new_ont_rule \<Rightarrow> i32 \<Rightarrow> ont_store \<Rightarrow> ont_rule \<times> ont_store" where
  "create_rule nr now s =
     (let r = \<lparr>or_id = on_next_rule_id s, or_user_id = nr_user_id nr, or_name = nr_name nr,
               or_trigger_type = nr_trigger_type nr, or_trigger_config = nr_trigger_config nr,
               or_logic_type = nr_logic_type nr, or_logic_prompt = nr_logic_prompt nr,
               or_logic_fetch = nr_logic_fetch nr, or_action_type = nr_action_type nr,
               or_action_config = nr_action_config nr, or_status = nr_status nr,
               or_next_fire_at = nr_next_fire_at nr, or_expires_at = nr_expires_at nr,
               or_last_triggered_at = None, or_created_at = nr_rule_created_at nr,
               or_updated_at = nr_rule_updated_at nr, or_flow_config = nr_flow_config nr\<rparr>
      in (r, log_change (nr_user_id nr) ''Rule'' (or_id r) ''created'' (Some (''name='' @ nr_name nr))
               ''user_action'' now
               (s\<lparr>on_rules := on_rules s @ [r], on_next_rule_id := on_next_rule_id s + 1\<rparr>)))"

definition get_rules :: "i32 \<Rightarrow> ont_store \<Rightarrow> ont_rule list" where
  "get_rules user_id s = order_desc or_created_at (sql_select (\<lambda>r. or_user_id r = user_id) (on_rules s))"

definition get_active_rules :: "i32 \<Rightarrow> ont_store \<Rightarrow> ont_rule list" where
  "get_active_rules user_id s =
     sql_select (\<lambda>r. or_user_id r = user_id \<and> or_status r = ''active'') (on_rules s)"

definition own_rule :: "i32 \<Rightarrow> i32 \<Rightarrow> ont_rule \<Rightarrow> bool" where
  "own_rule user_id rule_id r \<longleftrightarrow> or_id r = rule_id \<and> or_user_id r = user_id"

definition get_rule :: "i32 \<Rightarrow> i32 \<Rightarrow> ont_store \<Rightarrow> db_error + ont_rule" where
  "get_rule user_id rule_id s =
     (case sql_first (own_rule user_id rule_id) (on_rules s) of None \<Rightarrow> Inl NotFound | Some r \<Rightarrow> Inr r)"

definition delete_rule :: "i32 \<Rightarrow> i32 \<Rightarrow> i32 \<Rightarrow> ont_store \<Rightarrow> ont_store" where
  "delete_rule user_id rule_id now s =
     log_change user_id ''Rule'' rule_id ''deleted'' None ''user_action'' now
       (s\<lparr>on_rules := sql_delete (own_rule user_id rule_id) (on_rules s)\<rparr>)"

text \<open>The columns that \<^verbatim>\<open>update_rule\<close> sets, as the row they are taken from.\<close>

definition update_rule ::
  "i32 \<Rightarrow> i32 \<Rightarrow> new_ont_rule \<Rightarrow> i32 \<Rightarrow> ont_store \<Rightarrow> (db_error + ont_rule) \<times> ont_store" where
  "update_rule user_id rule_id nr now s =
     (let f = (\<lambda>r. r\<lparr>or_name := nr_name nr, or_trigger_type := nr_trigger_type nr,
                     or_trigger_config := nr_trigger_config nr, or_logic_type := nr_logic_type nr,
                     or_logic_prompt := nr_logic_prompt nr, or_logic_fetch := nr_logic_fetch nr,
                     or_action_type := nr_action_type nr, or_action_config := nr_action_config nr,
                     or_next_fire_at := nr_next_fire_at nr, or_flow_config := nr_flow_config nr,
                     or_updated_at := now\<rparr>)
      in (case sql_update_get (own_rule user_id rule_id) f (on_rules s) of
            None \<Rightarrow> (Inl NotFound, s)
          | Some r \<Rightarrow> (Inr r, s\<lparr>on_rules := sql_update (own_rule user_id rule_id) f (on_rules s)\<rparr>)))"

definition update_rules :: "(ont_rule \<Rightarrow> bool) \<Rightarrow> (ont_rule \<Rightarrow> ont_rule) \<Rightarrow> ont_store \<Rightarrow> ont_store" where
  "update_rules p f s = s\<lparr>on_rules := sql_update p f (on_rules s)\<rparr>"

definition update_rule_status :: "i32 \<Rightarrow> string \<Rightarrow> i32 \<Rightarrow> ont_store \<Rightarrow> ont_store" where
  "update_rule_status rule_id status now =
     update_rules (\<lambda>r. or_id r = rule_id) (\<lambda>r. r\<lparr>or_status := status, or_updated_at := now\<rparr>)"

definition try_claim_rule :: "i32 \<Rightarrow> i32 \<Rightarrow> ont_store \<Rightarrow> bool \<times> ont_store" where
  "try_claim_rule rule_id now s =
     (let p = (\<lambda>r. or_id r = rule_id \<and> or_status r = ''active'')
      in (0 < sql_count p (on_rules s),
          update_rules p (\<lambda>r. r\<lparr>or_status := ''completed'', or_updated_at := now\<rparr>) s))"

definition update_rule_last_triggered :: "i32 \<Rightarrow> i32 \<Rightarrow> ont_store \<Rightarrow> ont_store" where
  "update_rule_last_triggered rule_id now =
     update_rules (\<lambda>r. or_id r = rule_id) (\<lambda>r. r\<lparr>or_last_triggered_at := Some now, or_updated_at := now\<rparr>)"

definition update_rule_next_fire_at :: "i32 \<Rightarrow> i32 \<Rightarrow> i32 \<Rightarrow> ont_store \<Rightarrow> ont_store" where
  "update_rule_next_fire_at rule_id next_fire_at now =
     update_rules (\<lambda>r. or_id r = rule_id) (\<lambda>r. r\<lparr>or_next_fire_at := Some next_fire_at, or_updated_at := now\<rparr>)"

definition get_due_schedule_rules :: "i32 \<Rightarrow> ont_store \<Rightarrow> ont_rule list" where
  "get_due_schedule_rules now s =
     sql_select (\<lambda>r. or_trigger_type r = ''schedule'' \<and> or_status r = ''active'' \<and> opt_le (or_next_fire_at r) now)
       (on_rules s)"

definition get_ontology_change_rules :: "i32 \<Rightarrow> ont_store \<Rightarrow> ont_rule list" where
  "get_ontology_change_rules user_id s =
     sql_select (\<lambda>r. or_user_id r = user_id \<and> or_trigger_type r = ''ontology_change'' \<and> or_status r = ''active'')
       (on_rules s)"

definition expire_old_rules :: "i32 \<Rightarrow> ont_store \<Rightarrow> nat \<times> ont_store" where
  "expire_old_rules now s =
     (let p = (\<lambda>r. or_status r = ''active'' \<and> opt_le (or_expires_at r) now)
      in (sql_count p (on_rules s), update_rules p (\<lambda>r. r\<lparr>or_status := ''expired'', or_updated_at := now\<rparr>) s))"

definition get_recent_changelog :: "i32 \<Rightarrow> i32 \<Rightarrow> nat \<Rightarrow> ont_store \<Rightarrow> ont_changelog list" where
  "get_recent_changelog user_id since_ts limit s =
     take limit (order_desc oc_created_at
       (sql_select (\<lambda>c. oc_user_id c = user_id \<and> since_ts < oc_created_at c) (on_changelog s)))"

section \<open>A rule is claimed once\<close>

definition rule_active :: "i32 \<Rightarrow> ont_store \<Rightarrow> bool" where
  "rule_active k s \<longleftrightarrow> (\<exists>r \<in> set (on_rules s). or_id r = k \<and> or_status r = ''active'')"

interpretation rule_claim: one_shot "try_claim_rule k" "rule_active k" "\<lambda>s. True" for k
proof
  fix s :: ont_store and now
  have rows: "on_rules (snd (try_claim_rule k now s)) =
      sql_update (\<lambda>r. or_id r = k \<and> or_status r = ''active'')
        (\<lambda>r. r\<lparr>or_status := ''completed'', or_updated_at := now\<rparr>) (on_rules s)"
    by (simp add: try_claim_rule_def Let_def update_rules_def)
  have "\<not> (or_id r = k \<and> or_status r = ''active'')" if "r \<in> set (on_rules (snd (try_claim_rule k now s)))" for r
    using that unfolding rows by (cases rule: in_sql_updateE) simp_all
  then have spent: "\<not> rule_active k (snd (try_claim_rule k now s))" by (auto simp: rule_active_def)
  have taken: "fst (try_claim_rule k now s) \<longleftrightarrow> rule_active k s"
    by (simp add: rule_active_def try_claim_rule_def Let_def sql_count_def filter_empty_conv)
  show "rule_active k s \<and> \<not> rule_active k (snd (try_claim_rule k now s))" if "fst (try_claim_rule k now s)"
    using that spent taken by simp
  show "rule_active k s" if "rule_active k (snd (try_claim_rule k now s))"
    using that spent by simp
qed simp

end
