(* ===== verification/Reminders.thy ===== *)
theory Reminders
  imports Ontology
begin

text \<open>
  The event job of the scheduler (\<^verbatim>\<open>jobs/scheduler.rs\<close>, the cron job \<^verbatim>\<open>event_reminders\<close>): claim the due
  reminders, send each, record the outcome, nudge the accountability friends, expire what is over.
  The services it calls are a \<open>reminder_env\<close>; \<open>re_others i\<close> is what other requests write to the store while
  the \<open>i\<close>-th notification is being sent.
\<close>

section \<open>The job\<close>

definition REMINDER_LEASE_SECONDS :: i32 where "REMINDER_LEASE_SECONDS = 120"
definition REMINDER_BATCH :: nat where "REMINDER_BATCH = 100"
definition ACCOUNTABILITY_GRACE_SECS :: i32 where "ACCOUNTABILITY_GRACE_SECS = 2 * 3600"
definition STALE_EVENT_MAX_AGE :: i32 where "STALE_EVENT_MAX_AGE = 14 * 24 * 3600"

record accountability =
  ac_enabled :: bool
  ac_friend_phone :: "string option"
  ac_friend_name :: "string option"
  ac_nickname :: "string option"

record reminder_env =
  re_notify :: "i32 \<Rightarrow> string \<Rightarrow> bool"
  re_user :: "i32 \<Rightarrow> accountability option"
  re_sms :: "string \<Rightarrow> string \<Rightarrow> bool"
  re_locked :: "i32 \<Rightarrow> bool"
  re_others :: "nat \<Rightarrow> ont_store \<Rightarrow> ont_store"

definition explicit_reminder_description :: "string \<Rightarrow> string" where
  "explicit_reminder_description description =
     (case split_once ([CHR 0x0A] @ ''Update: Update: '') description of
        None \<Rightarrow> description
      | Some (original, _) \<Rightarrow> original)"

definition reminder_message :: "ont_event \<Rightarrow> string" where
  "reminder_message e =
     ''Event reminder: '' @
     (if oe_reminder_delivery_key e \<noteq> None then explicit_reminder_description (oe_description e)
      else oe_description e)"

definition settle_reminder :: "bool \<Rightarrow> i32 \<Rightarrow> ont_event \<Rightarrow> ont_store \<Rightarrow> ont_store" where
  "settle_reminder delivered now e =
     (if delivered then mark_reminder_delivered (oe_user_id e) (oe_id e) now
      else release_reminder_for_retry (oe_user_id e) (oe_id e) (oe_reminder_attempts e)
             ''notification_delivery_failed'' now)"

fun deliver_reminders :: "reminder_env \<Rightarrow> i32 \<Rightarrow> nat \<Rightarrow> ont_event list \<Rightarrow> ont_store \<Rightarrow> ont_store" where
  "deliver_reminders env now i [] s = s"
| "deliver_reminders env now i (e # es) s =
     deliver_reminders env now (Suc i) es
       (settle_reminder (re_notify env (oe_user_id e) (reminder_message e)) now e (re_others env i s))"

definition friend_body :: "accountability \<Rightarrow> ont_event \<Rightarrow> string" where
  "friend_body user e =
     ''Hey '' @ (case ac_friend_name user of None \<Rightarrow> ''friend'' | Some n \<Rightarrow> n) @ '', '' @
     (case ac_nickname user of None \<Rightarrow> ''Your friend'' | Some n \<Rightarrow> n) @ '' said they'd '' @
     oe_description e @
     '' soon. Could you check in with them? (sent by Lightfriend, their assistant)''"

definition nudge_friend :: "reminder_env \<Rightarrow> i32 \<Rightarrow> ont_event \<Rightarrow> ont_store \<Rightarrow> ont_store" where
  "nudge_friend env now e s =
     (case re_user env (oe_user_id e) of
        None \<Rightarrow> s
      | Some user \<Rightarrow>
          if \<not> ac_enabled user then s
          else
            (case ac_friend_phone user of
               None \<Rightarrow> s
             | Some phone \<Rightarrow>
                 if phone = [] then s
                 else if re_sms env phone (friend_body user e)
                 then mark_friend_notified (oe_user_id e) (oe_id e) now s
                 else s))"

definition expire_events :: "i32 \<Rightarrow> ont_event list \<Rightarrow> ont_store \<Rightarrow> ont_store" where
  "expire_events now events s =
     fold (\<lambda>e. update_event_status (oe_user_id e) (oe_id e) ''expired'' now) events s"

definition event_reminder_job :: "reminder_env \<Rightarrow> i32 \<Rightarrow> i32 \<Rightarrow> ont_store \<Rightarrow> ont_store" where
  "event_reminder_job env now completed_at s =
     (let s0 = update_scheduler_health ''event_reminders'' now None None s;
          (due, s1) = claim_due_reminders (re_locked env) now REMINDER_LEASE_SECONDS REMINDER_BATCH s0;
          s2 = deliver_reminders env now 0 due s1;
          s3 = fold (nudge_friend env now)
                 (get_events_due_for_friend_notification now ACCOUNTABILITY_GRACE_SECS s2) s2;
          s4 = expire_events now (get_expired_events now s3) s3;
          s5 = expire_events now (get_stale_events STALE_EVENT_MAX_AGE now s4) s4
      in update_scheduler_health ''event_reminders'' now (Some completed_at) None s5)"

section \<open>The lease on a reminder\<close>

definition events_distinct :: "ont_store \<Rightarrow> bool" where
  "events_distinct s \<longleftrightarrow> distinct (map oe_id (on_events s))"

definition reminder_free :: "ont_store \<Rightarrow> i32 \<Rightarrow> int \<Rightarrow> bool" where
  "reminder_free s k t \<longleftrightarrow> (\<exists>e \<in> set (on_events s). oe_id e = k \<and> reminder_claimable t e)"

text \<open>A claim is made by a worker that skips some rows, at a time, with a lease and a batch size.\<close>

type_synonym reminder_claim = "(i32 \<Rightarrow> bool) \<times> i32 \<times> i32 \<times> nat"

fun reminder_claim_of :: "reminder_claim \<Rightarrow> ont_store \<Rightarrow> i32 list \<times> ont_store" where
  "reminder_claim_of (locked, now, lease, limit) s =
     map_prod (map oe_id) id (claim_due_reminders locked now lease limit s)"

fun reminder_claim_at :: "reminder_claim \<Rightarrow> int" where
  "reminder_claim_at (locked, now, lease, limit) = now"

fun reminder_claim_until :: "reminder_claim \<Rightarrow> int" where
  "reminder_claim_until (locked, now, lease, limit) = sat_i32 (now + lease)"

lemma lease_row_columns [simp]:
  "oe_id (lease_row now lease e) = oe_id e" "oe_status (lease_row now lease e) = ''reminder_sending''"
  "oe_reminder_lease_until (lease_row now lease e) = Some (sat_i32 (now + lease))"
  by (simp_all add: lease_row_def)

lemma claim_due_reminders_ids:
  obtains ids where "length ids \<le> limit"
    "set ids \<subseteq> oe_id ` {e \<in> set (on_events s). reminder_claimable now e \<and> \<not> locked (oe_id e)}"
    "claim_due_reminders locked now lease limit s =
       (map (lease_row now lease) (filter (\<lambda>e. oe_id e \<in> set ids) (on_events s)),
        update_events (\<lambda>e. oe_id e \<in> set ids) (lease_row now lease) s)"
    "ids = map oe_id (take limit (order_asc (\<lambda>e. null_key (oe_remind_at e))
       (sql_select (\<lambda>e. reminder_claimable now e \<and> \<not> locked (oe_id e)) (on_events s))))"
proof -
  let ?due = "order_asc (\<lambda>e. null_key (oe_remind_at e))
      (sql_select (\<lambda>e. reminder_claimable now e \<and> \<not> locked (oe_id e)) (on_events s))"
  define ids where "ids = map oe_id (take limit ?due)"
  have updated: "sql_select (\<lambda>e. oe_id e \<in> set ids) (sql_update (\<lambda>e. oe_id e \<in> set ids) (lease_row now lease) t) =
        map (lease_row now lease) (filter (\<lambda>e. oe_id e \<in> set ids) t)" for t
    by (induction t) (auto simp: sql_select_def sql_update_def)
  have claim: "claim_due_reminders locked now lease limit s =
       (map (lease_row now lease) (filter (\<lambda>e. oe_id e \<in> set ids) (on_events s)),
        update_events (\<lambda>e. oe_id e \<in> set ids) (lease_row now lease) s)"
  proof (cases "ids = []")
    case True
    then have "claim_due_reminders locked now lease limit s = ([], s)"
      by (simp add: claim_due_reminders_def Let_def ids_def)
    then show ?thesis by (simp add: True update_events_def sql_update_none)
  next
    case False
    then have "claim_due_reminders locked now lease limit s =
        (sql_select (\<lambda>e. oe_id e \<in> set ids) (on_events (update_events (\<lambda>e. oe_id e \<in> set ids) (lease_row now lease) s)),
         update_events (\<lambda>e. oe_id e \<in> set ids) (lease_row now lease) s)"
      by (simp only: claim_due_reminders_def Let_def ids_def if_False)
    then show ?thesis by (simp add: update_events_def updated)
  qed
  show thesis
  proof (rule that [of ids])
    have "set ids \<subseteq> oe_id ` set ?due" unfolding ids_def using set_take_subset by fastforce
    then show "set ids \<subseteq> oe_id ` {e \<in> set (on_events s). reminder_claimable now e \<and> \<not> locked (oe_id e)}" by simp
  qed (simp_all only: claim ids_def length_map length_take min.cobounded2)
qed

interpretation reminder_lease:
  leasing reminder_claim_of reminder_claim_at reminder_claim_until reminder_free events_distinct
proof
  fix s :: ont_store and a :: reminder_claim and k t
  assume s: "events_distinct s"
  obtain locked now lease limit where a: "a = (locked, now, lease, limit)" by (cases a)
  obtain ids where ids: "set ids \<subseteq> oe_id ` {e \<in> set (on_events s). reminder_claimable now e \<and> \<not> locked (oe_id e)}"
    and claim: "claim_due_reminders locked now lease limit s =
       (map (lease_row now lease) (filter (\<lambda>e. oe_id e \<in> set ids) (on_events s)),
        update_events (\<lambda>e. oe_id e \<in> set ids) (lease_row now lease) s)"
    by (rule claim_due_reminders_ids)
  have keys: "set (fst (reminder_claim_of a s)) = set ids"
    using ids by (auto simp: a claim image_iff)
  have rows: "on_events (snd (reminder_claim_of a s)) = sql_update (\<lambda>e. oe_id e \<in> set ids) (lease_row now lease) (on_events s)"
    by (simp add: a claim update_events_def)
  show "events_distinct (snd (reminder_claim_of a s))"
    using s by (simp add: events_distinct_def rows map_sql_update)
  show "reminder_free s k (reminder_claim_at a)" if "k \<in> set (fst (reminder_claim_of a s))"
    using that ids unfolding keys by (auto simp: a reminder_free_def)
  show "\<not> reminder_free (snd (reminder_claim_of a s)) k t"
    if "k \<in> set (fst (reminder_claim_of a s))" "t < reminder_claim_until a"
  proof -
    have "\<not> reminder_claimable t e" if "e \<in> set (on_events (snd (reminder_claim_of a s)))" "oe_id e = k" for e
      using that(1) unfolding rows
    proof (cases rule: in_sql_updateE)
      case unchanged
      with \<open>k \<in> set (fst (reminder_claim_of a s))\<close> that(2) show ?thesis by (simp add: keys)
    next
      case (changed q)
      with \<open>t < reminder_claim_until a\<close> show ?thesis by (simp add: a reminder_claimable_def)
    qed
    then show ?thesis by (auto simp: reminder_free_def)
  qed
  show "reminder_free (snd (reminder_claim_of a s)) k t = reminder_free s k t"
    if other: "k \<notin> set (fst (reminder_claim_of a s))"
  proof -
    have "e \<in> set (on_events (snd (reminder_claim_of a s))) \<longleftrightarrow> e \<in> set (on_events s)" if "oe_id e = k" for e
      using other that unfolding rows keys
      by (auto elim!: in_sql_updateE intro: sql_update_keepI)
    then show ?thesis by (auto simp: reminder_free_def)
  qed
qed

end
