(* ===== verification/ReminderProperties.thy ===== *)
theory ReminderProperties
  imports Reminders
begin

text \<open>
  What the reminders of \<^verbatim>\<open>repositories/ontology_repository.rs\<close> and the event job of
  \<^verbatim>\<open>jobs/scheduler.rs\<close> promise: who sends a reminder, what one pass of the job leaves behind, and the
  places where the bookkeeping of two writers does not fit together.
\<close>

section \<open>Updates of events\<close>

lemma update_events_events [simp]: "on_events (update_events p f s) = sql_update p f (on_events s)"
  and update_events_next [simp]: "on_next_event_id (update_events p f s) = on_next_event_id s"
  by (simp_all add: update_events_def)

lemma log_change_events [simp]: "on_events (log_change u ty k c fs src now s) = on_events s"
  and log_change_next [simp]: "on_next_event_id (log_change u ty k c fs src now s) = on_next_event_id s"
  by (simp_all add: log_change_def)

lemma scheduler_health_events [simp]: "on_events (update_scheduler_health j a b c s) = on_events s"
  and scheduler_health_next [simp]: "on_next_event_id (update_scheduler_health j a b c s) = on_next_event_id s"
  by (simp_all add: update_scheduler_health_def)

text \<open>The number of an event is used once: no row has a number that is still to be given.\<close>

definition events_ok :: "ont_store \<Rightarrow> bool" where
  "events_ok s \<longleftrightarrow> events_distinct s \<and> (\<forall>e \<in> set (on_events s). oe_id e < on_next_event_id s)"

lemma claim_next [simp]: "on_next_event_id (snd (claim_due_reminders locked now lease limit s)) = on_next_event_id s"
  by (simp add: claim_due_reminders_def Let_def)

section \<open>Who sends a reminder\<close>


text \<open>The row of an event that no worker will claim, and what the scheduler and the users do to it.\<close>

definition reminder_over :: "i32 \<Rightarrow> ont_store \<Rightarrow> bool" where
  "reminder_over k s \<longleftrightarrow> k < on_next_event_id s \<and>
     (\<forall>e \<in> set (on_events s). oe_id e = k \<longrightarrow> oe_status e \<notin> {''active'', ''reminder_sending''})"

text \<open>
  A step of the system with the reminders it claims. Everything that the scheduler and the handlers do
  to events is here except the operations that open one again: \<open>update_event\<close> with a new time,
  \<open>reset_event_reminder_delivery\<close> and \<open>confirm_event\<close>.
\<close>

inductive reminder_step :: "ont_store \<Rightarrow> i32 list \<Rightarrow> ont_store \<Rightarrow> bool" where
  claim: "reminder_step s (fst (reminder_claim_of a s)) (snd (reminder_claim_of a s))"
| delivered: "reminder_step s [] (mark_reminder_delivered user k now s)"
| retry: "reminder_step s [] (release_reminder_for_retry user k attempts err now s)"
| friend: "reminder_step s [] (mark_friend_notified user k now s)"
| cancel: "reminder_step s [] (snd (cancel_reminder user k now s))"
| close: "status \<in> {''expired'', ''dismissed'', ''completed''} \<Longrightarrow>
    reminder_step s [] (update_event_status user k status now s)"
| annotate: "reminder_step s [] (snd (append_to_event user k extra now s))"
| new: "reminder_step s [] (snd (create_event ne now s))"
| reminder: "reminder_step s [] (snd (create_reminder ne tz now s))"
| purge: "reminder_step s [] (snd (purge_old_events age now s))"
| health: "reminder_step s [] (update_scheduler_health job a b c s)"

inductive reminder_run :: "ont_store \<Rightarrow> i32 list list \<Rightarrow> ont_store \<Rightarrow> bool" where
  stop: "reminder_run s [] s"
| step: "reminder_step s ks s1 \<Longrightarrow> reminder_run s1 kss s2 \<Longrightarrow> reminder_run s (ks # kss) s2"

lemma over_update:
  assumes "reminder_over k s" "\<And>e. oe_id (f e) = oe_id e"
    "\<And>e. oe_id e = k \<Longrightarrow> p e \<Longrightarrow> oe_status e \<notin> {''active'', ''reminder_sending''} \<Longrightarrow>
         oe_status (f e) \<notin> {''active'', ''reminder_sending''}"
  shows "reminder_over k (update_events p f s)"
  using assms by (auto simp: reminder_over_def set_sql_update split: if_splits)

lemma over_insert:
  assumes "reminder_over k s" "on_next_event_id s \<le> oe_id e"
    "on_events s' = on_events s @ [e]" "on_next_event_id s \<le> on_next_event_id s'"
  shows "reminder_over k s'"
  using assms by (auto simp: reminder_over_def)

lemma over_not_claimed:
  assumes "reminder_over k s"
  shows "k \<notin> set (fst (reminder_claim_of a s)) \<and> reminder_over k (snd (reminder_claim_of a s))"
proof -
  obtain locked now lease limit where a: "a = (locked, now, lease, limit)" by (cases a)
  obtain ids where ids: "set ids \<subseteq> oe_id ` {e \<in> set (on_events s). reminder_claimable now e \<and> \<not> locked (oe_id e)}"
    and claim: "claim_due_reminders locked now lease limit s =
       (map (lease_row now lease) (filter (\<lambda>e. oe_id e \<in> set ids) (on_events s)),
        update_events (\<lambda>e. oe_id e \<in> set ids) (lease_row now lease) s)"
    by (rule claim_due_reminders_ids)
  have not: "k \<notin> set ids"
    using ids assms by (auto simp: reminder_over_def reminder_claimable_def)
  with assms show ?thesis by (auto simp: a claim intro!: over_update)
qed


lemma over_create_reminder: "reminder_over k s \<Longrightarrow> reminder_over k (snd (create_reminder ne tz now s))"
  by (auto simp: create_reminder_def transaction_def insert_event_def Let_def reminder_over_def set_sql_update
      split: option.splits)

lemma over_step: "reminder_step s ks s' \<Longrightarrow> reminder_over k s \<Longrightarrow> k \<notin> set ks \<and> reminder_over k s'"
proof (induction rule: reminder_step.induct)
  case (claim s a)
  then show ?case by (rule over_not_claimed)
next
  case (delivered s user k now)
  then show ?case by (auto simp: mark_reminder_delivered_def intro!: over_update)
next
  case (retry s user k attempts err now)
  then show ?case by (auto simp: release_reminder_for_retry_def own_event_def intro!: over_update)
next
  case (friend s user k now)
  then show ?case by (auto simp: mark_friend_notified_def intro!: over_update)
next
  case (cancel s user k now)
  then show ?case by (auto simp: cancel_reminder_def Let_def intro!: over_update)
next
  case (close status s user k now)
  then show ?case by (auto simp: update_event_status_def intro!: over_update)
next
  case (annotate s user k extra now)
  then show ?case by (auto simp: append_to_event_def Let_def split: sum.split intro!: over_update)
next
  case (new s ne now)
  then show ?case by (auto simp: create_event_def insert_event_def Let_def reminder_over_def)
next
  case (reminder s ne tz now)
  then show ?case by (simp add: over_create_reminder)
next
  case (purge s age now)
  then show ?case by (auto simp: purge_old_events_def Let_def reminder_over_def)
next
  case (health s job a b c)
  then show ?case by (simp add: reminder_over_def)
qed

lemma over_run: "reminder_run s kss s' \<Longrightarrow> reminder_over k s \<Longrightarrow> \<forall>ks \<in> set kss. k \<notin> set ks"
  by (induction rule: reminder_run.induct) (auto dest: over_step)

text \<open>
  A delivered reminder is final: once the worker that leased an event has marked it delivered,
  no later claim returns it, whatever the workers, the purge, the friend nudge and the users do, as
  long as nobody reopens the event.
\<close>

theorem delivered_reminder_is_final:
  assumes "events_ok s" "e \<in> set (on_events s)" "oe_status e = ''reminder_sending''"
    and "reminder_run (mark_reminder_delivered (oe_user_id e) (oe_id e) t s) kss s'"
  shows "\<forall>ks \<in> set kss. oe_id e \<notin> set ks"
proof (rule over_run [OF assms(4)])
  have "x = e" if "x \<in> set (on_events s)" "oe_id x = oe_id e" for x
    using that assms(1,2) by (auto simp: events_ok_def events_distinct_def dest: distinct_map_eqD)
  then show "reminder_over (oe_id e) (mark_reminder_delivered (oe_user_id e) (oe_id e) t s)"
    using assms(1-3)
    by (auto simp: reminder_over_def events_ok_def mark_reminder_delivered_def set_sql_update own_event_def)
qed

section \<open>What one delivery pass leaves behind\<close>

text \<open>The row of a claimed reminder after its notification was sent, or was not.\<close>

definition settled_row :: "bool \<Rightarrow> i32 \<Rightarrow> ont_event \<Rightarrow> ont_event" where
  "settled_row delivered now e =
     (if delivered
      then e\<lparr>oe_status := ''notified'', oe_reminder_delivered_at := Some now, oe_reminder_lease_until := None,
             oe_reminder_last_error := None, oe_updated_at := now\<rparr>
      else e\<lparr>oe_status := ''active'',
             oe_reminder_next_attempt_at := Some (sat_i32 (now + reminder_retry_delay (oe_reminder_attempts e))),
             oe_reminder_lease_until := None, oe_reminder_last_error := Some ''notification_delivery_failed'',
             oe_updated_at := now\<rparr>)"

lemma settled_row_columns [simp]:
  "oe_id (settled_row b now e) = oe_id e" "oe_status (settled_row b now e) \<noteq> ''reminder_sending''"
  by (simp_all add: settled_row_def)

lemma settle_reminder_rows:
  assumes "distinct (map oe_id (on_events s))" "e \<in> set (on_events s)" "oe_status e = ''reminder_sending''"
  shows "on_events (settle_reminder b now e s) = map (\<lambda>x. if x = e then settled_row b now e else x) (on_events s)"
proof -
  have "(own_event (oe_user_id e) (oe_id e) x \<and> oe_status x = ''reminder_sending'') = (x = e)"
    if "x \<in> set (on_events s)" for x
    using that assms by (auto simp: own_event_def dest: distinct_map_eqD)
  then show ?thesis
    by (simp add: settle_reminder_def mark_reminder_delivered_def release_reminder_for_retry_def
        settled_row_def sql_update_def)
qed

lemma deliver_reminders_rows:
  assumes "\<forall>i t. re_others env i t = t" "distinct (map oe_id (on_events s))" "set es \<subseteq> set (on_events s)"
    "distinct es" "\<forall>e \<in> set es. oe_status e = ''reminder_sending''"
  shows "on_events (deliver_reminders env now i es s) =
    map (\<lambda>x. if x \<in> set es then settled_row (re_notify env (oe_user_id x) (reminder_message x)) now x else x)
      (on_events s)"
  using assms(2-5)
proof (induction es arbitrary: i s)
  case (Cons e es)
  let ?b = "re_notify env (oe_user_id e) (reminder_message e)"
  let ?s = "settle_reminder ?b now e s"
  have rows: "on_events ?s = map (\<lambda>x. if x = e then settled_row ?b now e else x) (on_events s)"
    using Cons.prems by (intro settle_reminder_rows) auto
  have keys: "map oe_id (on_events ?s) = map oe_id (on_events s)" by (auto simp: rows)
  have "set es \<subseteq> set (on_events ?s)" using Cons.prems by (force simp: rows)
  then have "on_events (deliver_reminders env now (Suc i) es ?s) =
    map (\<lambda>x. if x \<in> set es then settled_row (re_notify env (oe_user_id x) (reminder_message x)) now x else x)
      (on_events ?s)"
    using Cons.prems keys by (intro Cons.IH) auto
  moreover have "settled_row ?b now e \<notin> set es" using Cons.prems(4) by (metis list.set_intros(2) settled_row_columns(2))
  ultimately show ?case using Cons.prems(3) assms(1) by (auto simp: rows)
qed simp

lemma claim_due_rows:
  assumes "claim_due_reminders locked now lease limit s = (due, s1)" "events_distinct s"
  shows "set due \<subseteq> set (on_events s1)" "distinct due" "\<forall>e \<in> set due. oe_status e = ''reminder_sending''"
    "map oe_id (on_events s1) = map oe_id (on_events s)"
proof -
  obtain ids where claim: "claim_due_reminders locked now lease limit s =
       (map (lease_row now lease) (filter (\<lambda>e. oe_id e \<in> set ids) (on_events s)),
        update_events (\<lambda>e. oe_id e \<in> set ids) (lease_row now lease) s)"
    by (rule claim_due_reminders_ids)
  with assms(1) have due: "due = map (lease_row now lease) (filter (\<lambda>e. oe_id e \<in> set ids) (on_events s))"
    and s1: "on_events s1 = sql_update (\<lambda>e. oe_id e \<in> set ids) (lease_row now lease) (on_events s)" by auto
  show "set due \<subseteq> set (on_events s1)" by (auto simp: due s1 intro: sql_update_memI)
  show "\<forall>e \<in> set due. oe_status e = ''reminder_sending''" by (auto simp: due)
  show "map oe_id (on_events s1) = map oe_id (on_events s)" by (simp add: s1 map_sql_update)
  have "map oe_id due = map oe_id (filter (\<lambda>e. oe_id e \<in> set ids) (on_events s))" by (simp add: due)
  moreover have "distinct (map oe_id (filter (\<lambda>e. oe_id e \<in> set ids) (on_events s)))"
    using assms(2) by (simp add: events_distinct_def distinct_map inj_on_def)
  ultimately have "distinct (map oe_id due)" by simp
  then show "distinct due" by (simp only: distinct_map)
qed

text \<open>
  A pass of the job settles exactly the reminders it claimed: when nobody else writes
  meanwhile, each of them ends as notified if its notification was sent and otherwise is active again
  with its next attempt after the back-off, and every other event keeps its row.
\<close>

theorem reminders_settled:
  assumes "events_distinct s" "claim_due_reminders locked now lease limit s = (due, s1)"
    and "\<forall>i t. re_others env i t = t"
  shows "on_events (deliver_reminders env now 0 due s1) =
    map (\<lambda>e. if e \<in> set due
             then settled_row (re_notify env (oe_user_id e) (reminder_message e)) now e else e) (on_events s1)"
  using claim_due_rows [OF assms(2,1)] assms(1)
  by (intro deliver_reminders_rows assms(3)) (simp_all add: events_distinct_def)

section \<open>Where the writers do not fit together\<close>

text \<open>
  A worker that outlived its lease can undo the lease of the next one: reporting a failed
  delivery makes an event that another worker has leased free again as soon as the back-off has
  passed, before that lease runs out, so that the reminder is sent a second time.
\<close>

theorem stale_release_reopens:
  assumes "events_distinct s" "e \<in> set (on_events s)" "oe_status e = ''reminder_sending''"
    and "oe_reminder_lease_until e = Some until" "at < until"
    and "opt_le (oe_remind_at e) at" "sat_i32 (t + reminder_retry_delay attempts) \<le> at"
  shows "\<not> reminder_free s (oe_id e) at \<and>
    reminder_free (release_reminder_for_retry (oe_user_id e) (oe_id e) attempts err t s) (oe_id e) at"
proof -
  have "x = e" if "x \<in> set (on_events s)" "oe_id x = oe_id e" for x
    using that assms(1,2) by (auto simp: events_distinct_def dest: distinct_map_eqD)
  then have "\<not> reminder_free s (oe_id e) at" using assms(3-5) unfolding reminder_free_def reminder_claimable_def by fastforce
  moreover have "e\<lparr>oe_status := ''active'',
      oe_reminder_next_attempt_at := Some (sat_i32 (t + reminder_retry_delay attempts)),
      oe_reminder_lease_until := None, oe_reminder_last_error := Some err, oe_updated_at := t\<rparr>
    \<in> set (on_events (release_reminder_for_retry (oe_user_id e) (oe_id e) attempts err t s))"
    unfolding release_reminder_for_retry_def update_events_events
    using assms(2,3) by (intro sql_update_memI) (simp_all add: own_event_def)
  then have "reminder_free (release_reminder_for_retry (oe_user_id e) (oe_id e) attempts err t s) (oe_id e) at"
    unfolding reminder_free_def by (rule bexI [rotated]) (use assms(6,7) in \<open>simp add: reminder_claimable_def\<close>)
  ultimately show ?thesis ..
qed

text \<open>
  Changing the due time of an event while its reminder is being sent makes the reminder go
  out twice: the change sets the event active, the worker's report of the delivery then changes nothing,
  and the event is free for the next pass of the job.
\<close>

theorem reschedule_while_sending_repeats:
  assumes "events_distinct s" "e \<in> set (on_events s)" "oe_status e = ''reminder_sending''"
    and "opt_le (oe_remind_at e) at" "oe_reminder_next_attempt_at e = None \<or> opt_le (oe_reminder_next_attempt_at e) at"
  shows "let s' = snd (update_event (oe_user_id e) (oe_id e) None None None (Some due) t s)
    in mark_reminder_delivered (oe_user_id e) (oe_id e) t' s' = s' \<and> reminder_free s' (oe_id e) at"
proof -
  let ?f = "\<lambda>x. x\<lparr>oe_due_at := Some due, oe_status := ''active'', oe_updated_at := t\<rparr>"
  have only: "x = e" if "x \<in> set (on_events s)" "own_event (oe_user_id e) (oe_id e) x" for x
    using that assms(1,2) by (auto simp: events_distinct_def own_event_def dest: distinct_map_eqD)
  have "sql_first (own_event (oe_user_id e) (oe_id e)) (on_events s) = Some e"
  proof (cases "sql_first (own_event (oe_user_id e) (oe_id e)) (on_events s)")
    case None
    with assms(2) show ?thesis by (auto simp: sql_first_None own_event_def)
  next
    case (Some x)
    then show ?thesis using only by (auto dest: sql_first_Some)
  qed
  then have get: "get_event (oe_user_id e) (oe_id e) s = Inr e" by (simp add: get_event_def)
  define s' where "s' = snd (update_event (oe_user_id e) (oe_id e) None None None (Some due) t s)"
  have "s' = update_events (own_event (oe_user_id e) (oe_id e))
      (\<lambda>x. x\<lparr>oe_remind_at := oe_remind_at e, oe_due_at := Some due, oe_status := ''active'', oe_updated_at := t\<rparr>) s"
    by (simp add: s'_def update_event_def reschedule_event_def get)
  then have rows: "on_events s' = sql_update (own_event (oe_user_id e) (oe_id e))
      (\<lambda>x. x\<lparr>oe_remind_at := oe_remind_at e, oe_due_at := Some due, oe_status := ''active'', oe_updated_at := t\<rparr>) (on_events s)"
    by simp
  have "\<not> (own_event (oe_user_id e) (oe_id e) x \<and> oe_status x = ''reminder_sending'')" if "x \<in> set (on_events s')" for x
    using that unfolding rows by (cases rule: in_sql_updateE) auto
  then have "mark_reminder_delivered (oe_user_id e) (oe_id e) t' s' = s'"
    by (simp add: mark_reminder_delivered_def update_events_def sql_update_none)
  moreover have "e\<lparr>oe_remind_at := oe_remind_at e, oe_due_at := Some due, oe_status := ''active'', oe_updated_at := t\<rparr>
      \<in> set (on_events s')"
    unfolding rows using assms(2) by (intro sql_update_memI) (simp_all add: own_event_def)
  then have "reminder_free s' (oe_id e) at"
    unfolding reminder_free_def by (rule bexI [rotated]) (use assms(4,5) in \<open>simp add: reminder_claimable_def\<close>)
  ultimately show ?thesis by (simp add: s'_def Let_def)
qed

lemma expire_events_rows:
  "on_events (expire_events now es s) =
     map (\<lambda>x. if \<exists>e \<in> set es. own_event (oe_user_id e) (oe_id e) x
              then x\<lparr>oe_status := ''expired'', oe_updated_at := now\<rparr> else x) (on_events s)"
  by (induction es arbitrary: s)
    (auto simp: expire_events_def update_event_status_def sql_update_def own_event_def)

lemma expire_events_next [simp]: "on_next_event_id (expire_events now es s) = on_next_event_id s"
  by (induction es arbitrary: s) (auto simp: expire_events_def update_event_status_def)

text \<open>
  A reminder that is more than two weeks away and has no due time is never sent: once its
  event has not been touched for fourteen days the job expires it as stale although its time has not
  come, and from then on no claim returns it.
\<close>

theorem distant_reminder_expires_unsent:
  assumes "events_ok s" "e \<in> set (on_events s)" "oe_status e = ''active''" "oe_due_at e = None"
    and "oe_updated_at e < wrap_i32 (now - STALE_EVENT_MAX_AGE)" "oe_remind_at e = Some r" "now < r"
    and "reminder_run (expire_events now (get_stale_events STALE_EVENT_MAX_AGE now s) s) kss s'"
  shows "\<not> reminder_claimable now e \<and> (\<forall>ks \<in> set kss. oe_id e \<notin> set ks)"
proof
  show "\<not> reminder_claimable now e" using assms(6,7) by (simp add: reminder_claimable_def)
  have "x = e" if "x \<in> set (on_events s)" "oe_id x = oe_id e" for x
    using that assms(1,2) by (auto simp: events_ok_def events_distinct_def dest: distinct_map_eqD)
  moreover have "e \<in> set (get_stale_events STALE_EVENT_MAX_AGE now s)"
    using assms(2-5) by (simp add: get_stale_events_def)
  ultimately have "reminder_over (oe_id e) (expire_events now (get_stale_events STALE_EVENT_MAX_AGE now s) s)"
    using assms(1,2) by (auto simp: reminder_over_def expire_events_rows events_ok_def own_event_def)
  from over_run [OF assms(8) this] show "\<forall>ks \<in> set kss. oe_id e \<notin> set ks" .
qed

section \<open>Rules\<close>

text \<open>
  A one-shot rule fires at most once: however many evaluations claim it and whenever, at
  most one of them is granted, and once one has been no later one is.
\<close>

theorem rule_fires_once:
  "fst (grants (try_claim_rule k) claims s) \<le> 1 \<and>
   (fst (try_claim_rule k now s) \<longrightarrow> fst (grants (try_claim_rule k) claims (snd (try_claim_rule k now s))) = 0)"
  using rule_claim.at_most_once rule_claim.spent_stays_spent rule_claim.taken by blast

section \<open>A reminder that was just created\<close>

lemma show_int_inject: "show_int i = show_int j \<longleftrightarrow> i = j"
proof -
  have "show_nat n \<noteq> ''-'' @ x" for n x
  proof
    assume "show_nat n = ''-'' @ x"
    then have "CHR ''-'' \<in> set (show_nat n)" by simp
    then obtain d where "d < 10" "digit_char d = CHR ''-''" using show_nat_chars by metis
    then show False using digit_char_not [of d "CHR ''-''"] by simp
  qed
  then have "show_nat n \<noteq> CHR ''-'' # x" for n x by simp
  then show ?thesis by (auto simp: show_int_def show_nat_inject) (metis append_Cons append_Nil)+
qed

definition keys_sound :: "ont_store \<Rightarrow> bool" where
  "keys_sound s \<longleftrightarrow> (\<forall>e \<in> set (on_events s).
     oe_reminder_delivery_key e = None \<or> oe_reminder_delivery_key e = Some (''reminder-event-'' @ show_int (oe_id e)))"

text \<open>The row that \<open>create_reminder\<close> returns.\<close>

definition reminder_row :: "new_ont_event \<Rightarrow> string \<Rightarrow> i32 \<Rightarrow> ont_event" where
  "reminder_row ne tz k =
     \<lparr>oe_id = k, oe_user_id = ne_user_id ne, oe_description = ne_description ne,
      oe_remind_at = ne_remind_at ne, oe_due_at = ne_due_at ne, oe_status = ne_status ne,
      oe_created_at = ne_created_at ne, oe_updated_at = ne_updated_at ne,
      oe_friend_notified_at = None, oe_reminder_attempts = 0, oe_reminder_next_attempt_at = ne_remind_at ne,
      oe_reminder_lease_until = None, oe_reminder_last_error = None, oe_reminder_delivered_at = None,
      oe_reminder_delivery_key = Some (''reminder-event-'' @ show_int k), oe_reminder_timezone = Some tz\<rparr>"

lemma create_reminder_row:
  assumes "events_ok s" "keys_sound s"
  obtains s' where "create_reminder ne tz now s = (Inr (reminder_row ne tz (on_next_event_id s)), s')"
    "on_events s' = on_events s @ [reminder_row ne tz (on_next_event_id s)]"
    "on_next_event_id s' = on_next_event_id s + 1"
proof -
  let ?k = "on_next_event_id s"
  have old: "oe_id e \<noteq> ?k" if "e \<in> set (on_events s)" for e using that assms(1) by (auto simp: events_ok_def)
  then have keep: "sql_update (\<lambda>e. oe_id e = ?k) f (on_events s @ [e]) =
      on_events s @ [if oe_id e = ?k then f e else e]" for f e
    by (simp add: sql_update_def map_idI)
  have free: "oe_reminder_delivery_key e \<noteq> Some (''reminder-event-'' @ show_int ?k)" if "e \<in> set (on_events s)" for e
    using that old assms(2) by (auto simp: keys_sound_def show_int_inject)
  have first: "sql_first (\<lambda>e. oe_id e = ?k) (on_events s @ [e]) = Some e" if "oe_id e = ?k" for e
  proof (cases "sql_first (\<lambda>e. oe_id e = ?k) (on_events s @ [e])")
    case None
    with that show ?thesis by (simp add: sql_first_None)
  next
    case (Some x)
    then show ?thesis using old by (auto dest!: sql_first_Some)
  qed
  let ?s' = "snd (create_reminder ne tz now s)"
  have "create_reminder ne tz now s = (Inr (reminder_row ne tz ?k), ?s') \<and>
      on_events ?s' = on_events s @ [reminder_row ne tz ?k] \<and> on_next_event_id ?s' = ?k + 1"
    using free by (simp add: create_reminder_def transaction_def insert_event_def Let_def keep first reminder_row_def)
  then show thesis using that by blast
qed

lemma claim_all:
  assumes "length (on_events s) \<le> limit"
  shows "k \<in> set (fst (reminder_claim_of (locked, now, lease, limit) s)) \<longleftrightarrow> reminder_free s k now \<and> \<not> locked k"
proof -
  obtain ids where claim: "claim_due_reminders locked now lease limit s =
       (map (lease_row now lease) (filter (\<lambda>e. oe_id e \<in> set ids) (on_events s)),
        update_events (\<lambda>e. oe_id e \<in> set ids) (lease_row now lease) s)"
    and ids: "ids = map oe_id (take limit (order_asc (\<lambda>e. null_key (oe_remind_at e))
       (sql_select (\<lambda>e. reminder_claimable now e \<and> \<not> locked (oe_id e)) (on_events s))))"
    by (rule claim_due_reminders_ids)
  have "length (order_asc (\<lambda>e. null_key (oe_remind_at e))
       (sql_select (\<lambda>e. reminder_claimable now e \<and> \<not> locked (oe_id e)) (on_events s))) \<le> limit"
    using assms by (simp add: order_asc_def sql_select_def) (meson le_trans length_filter_le)
  then have "set ids = oe_id ` {e \<in> set (on_events s). reminder_claimable now e \<and> \<not> locked (oe_id e)}"
    by (simp add: ids)
  then show ?thesis by (auto simp: claim reminder_free_def image_iff)
qed

text \<open>
  A created reminder is stored and goes out when it is due: creation succeeds in every sound
  store and keeps it sound, the row reads back, and a claim with room for it returns the event exactly
  when its time has come and its row is not locked.
\<close>

theorem created_reminder_is_claimed:
  assumes "events_ok s" "keys_sound s" "ne_status ne = ''active''" "ne_remind_at ne = Some r"
    and "length (on_events s) < limit"
  shows "\<exists>e s'. create_reminder ne tz now s = (Inr e, s') \<and> events_ok s' \<and> keys_sound s' \<and>
    get_event (ne_user_id ne) (oe_id e) s' = Inr e \<and> oe_description e = ne_description ne \<and>
    (oe_id e \<in> set (fst (reminder_claim_of (locked, at, lease, limit) s')) \<longleftrightarrow> r \<le> at \<and> \<not> locked (oe_id e))"
proof -
  let ?e = "reminder_row ne tz (on_next_event_id s)"
  obtain s' where s': "create_reminder ne tz now s = (Inr ?e, s')" "on_events s' = on_events s @ [?e]"
    "on_next_event_id s' = on_next_event_id s + 1"
    using create_reminder_row [OF assms(1,2)] .
  have old: "oe_id x < on_next_event_id s" if "x \<in> set (on_events s)" for x using that assms(1) by (auto simp: events_ok_def)
  have ok: "events_ok s'" using assms(1) old by (force simp: events_ok_def events_distinct_def s' reminder_row_def)
  moreover have "keys_sound s'" using assms(2) by (auto simp: keys_sound_def s' reminder_row_def)
  moreover have "sql_first (own_event (ne_user_id ne) (oe_id ?e)) (on_events s') = Some ?e"
  proof (cases "sql_first (own_event (ne_user_id ne) (oe_id ?e)) (on_events s')")
    case None
    then show ?thesis by (simp add: sql_first_None s' own_event_def reminder_row_def)
  next
    case (Some x)
    then have "x \<in> set (on_events s') \<and> oe_id x = oe_id ?e" by (auto dest!: sql_first_Some simp: own_event_def)
    moreover have "?e \<in> set (on_events s')" by (simp add: s')
    ultimately have "x = ?e" using ok by (auto simp: events_ok_def events_distinct_def dest: distinct_map_eqD)
    with Some show ?thesis by simp
  qed
  moreover have "reminder_free s' (oe_id ?e) at \<longleftrightarrow> r \<le> at"
    using old assms(3,4) by (force simp: reminder_free_def s' reminder_claimable_def reminder_row_def)
  ultimately show ?thesis
    using s' assms(5) claim_all [of s' limit "oe_id ?e" locked at lease]
    by (intro exI [of _ ?e] exI [of _ s']) (auto simp: get_event_def reminder_row_def)
qed

section \<open>The properties on a concrete store\<close>

definition demo_event :: ont_event where
  "demo_event =
     \<lparr>oe_id = 1, oe_user_id = 7, oe_description = ''call'', oe_remind_at = Some 100, oe_due_at = None,
      oe_status = ''active'', oe_created_at = 0, oe_updated_at = 0, oe_friend_notified_at = None,
      oe_reminder_attempts = 0, oe_reminder_next_attempt_at = None, oe_reminder_lease_until = None,
      oe_reminder_last_error = None, oe_reminder_delivered_at = None, oe_reminder_delivery_key = None,
      oe_reminder_timezone = None\<rparr>"

definition demo_sending :: ont_event where
  "demo_sending = demo_event\<lparr>oe_status := ''reminder_sending'', oe_reminder_lease_until := Some 400\<rparr>"

definition demo_events :: "ont_event list \<Rightarrow> ont_store" where
  "demo_events es =
     \<lparr>on_events = es, on_next_event_id = 2, on_rules = [], on_next_rule_id = 1,
      on_changelog = [], on_next_change_id = 1, on_health = []\<rparr>"

definition demo_env :: reminder_env where
  "demo_env = \<lparr>re_notify = \<lambda>u m. True, re_user = \<lambda>u. None, re_sms = \<lambda>p b. True, re_locked = \<lambda>k. False,
               re_others = \<lambda>i s. s\<rparr>"

lemmas demo_defs = demo_events_def demo_event_def demo_sending_def events_ok_def events_distinct_def keys_sound_def


theorem delivered_reminder_is_final_witness:
  "1 \<notin> set (fst (reminder_claim_of (\<lambda>k. False, 500, 120, 100)
       (mark_reminder_delivered 7 1 200 (demo_events [demo_sending]))))"
proof -
  let ?s = "mark_reminder_delivered (oe_user_id demo_sending) (oe_id demo_sending) 200 (demo_events [demo_sending])"
  let ?a = "(\<lambda>k. False, 500, 120, 100) :: reminder_claim"
  have "reminder_run ?s [fst (reminder_claim_of ?a ?s)] (snd (reminder_claim_of ?a ?s))"
    by (rule reminder_run.step [OF reminder_step.claim reminder_run.stop])
  from delivered_reminder_is_final [OF _ _ _ this] have "\<forall>ks \<in> set [fst (reminder_claim_of ?a ?s)]. oe_id demo_sending \<notin> set ks"
    by (simp add: demo_defs)
  then show ?thesis by (simp add: demo_sending_def demo_event_def)
qed

theorem reminders_settled_witness:
  "on_events (deliver_reminders demo_env 100 0
       (fst (claim_due_reminders (\<lambda>k. False) 100 120 100 (demo_events [demo_event])))
       (snd (claim_due_reminders (\<lambda>k. False) 100 120 100 (demo_events [demo_event])))) =
   map (\<lambda>e. if e \<in> set (fst (claim_due_reminders (\<lambda>k. False) 100 120 100 (demo_events [demo_event])))
            then settled_row True 100 e else e)
     (on_events (snd (claim_due_reminders (\<lambda>k. False) 100 120 100 (demo_events [demo_event]))))"
  by (subst reminders_settled [of "demo_events [demo_event]" "\<lambda>k. False" 100 120 100])
    (simp_all add: demo_defs demo_env_def)

theorem stale_release_reopens_witness:
  "\<not> reminder_free (demo_events [demo_sending]) 1 300 \<and>
   reminder_free (release_reminder_for_retry 7 1 1 ''x'' 290 (demo_events [demo_sending])) 1 300"
  using stale_release_reopens [of "demo_events [demo_sending]" demo_sending 400 300 290 1 "''x''"]
  by (simp add: demo_defs reminder_retry_delay_def sat_i32_def i32_min_def i32_max_def)

theorem reschedule_while_sending_repeats_witness:
  "reminder_free (snd (update_event 7 1 None None None (Some 900) 300 (demo_events [demo_sending]))) 1 310"
  using reschedule_while_sending_repeats [of "demo_events [demo_sending]" demo_sending 310 900 300 305]
  by (simp add: demo_defs Let_def)

theorem distant_reminder_expires_unsent_witness:
  "\<not> reminder_claimable 2000000 (demo_event\<lparr>oe_remind_at := Some 3000000\<rparr>)"
proof -
  let ?e = "demo_event\<lparr>oe_remind_at := Some 3000000\<rparr>"
  have "reminder_run (expire_events 2000000 (get_stale_events STALE_EVENT_MAX_AGE 2000000 (demo_events [?e])) (demo_events [?e]))
      [] (expire_events 2000000 (get_stale_events STALE_EVENT_MAX_AGE 2000000 (demo_events [?e])) (demo_events [?e]))"
    by (rule reminder_run.stop)
  from distant_reminder_expires_unsent [OF _ _ _ _ _ _ _ this, of ?e 3000000] show ?thesis
    by (simp add: demo_defs STALE_EVENT_MAX_AGE_def wrap_i32_def)
qed

theorem rule_fires_once_witness:
  "fst (grants (try_claim_rule 1) [5, 6] (demo_events [])) \<le> 1"
  using rule_fires_once [of 1 "[5, 6]" "demo_events []" 5] by simp

theorem created_reminder_is_claimed_witness:
  "\<exists>e s'. create_reminder \<lparr>ne_user_id = 7, ne_description = ''tea'', ne_remind_at = Some 900, ne_due_at = Some 900,
       ne_status = ''active'', ne_created_at = 5, ne_updated_at = 5\<rparr> ''UTC'' 5 (demo_events [demo_event]) = (Inr e, s') \<and>
     oe_id e \<in> set (fst (reminder_claim_of (\<lambda>k. False, 900, 120, 100) s'))"
  using created_reminder_is_claimed [of "demo_events [demo_event]"
      "\<lparr>ne_user_id = 7, ne_description = ''tea'', ne_remind_at = Some 900, ne_due_at = Some 900,
        ne_status = ''active'', ne_created_at = 5, ne_updated_at = 5\<rparr>" 900 100 "''UTC''" 5 "\<lambda>k. False" 900 120]
  by (simp add: demo_defs) blast

end
