(* ===== verification/AgentIntegration.thy ===== *)
theory AgentIntegration
  imports ReplyWatches Text
begin

text \<open>
  The write-only credentials of local AI agents: \<^verbatim>\<open>repositories/agent_integration_repository.rs\<close> with
  the rows of \<^verbatim>\<open>models/agent_integration_models.rs\<close> and the constraints of their migration. Pairing
  sessions become credentials, a credential has a daily cap, and every action an idempotency key.
  As in \<open>Webhook\<close>, \<open>others\<close> is what other transactions commit between the statements of one that
  takes no lock there.
\<close>

section \<open>Tables\<close>

record agent_credential =
  agc_id :: i32
  agc_user_id :: i32
  agc_token_hash :: string
  agc_token_prefix :: string
  agc_label :: string
  agc_scopes :: string
  agc_daily_cap :: i32
  agc_daily_used :: i32
  agc_daily_reset_at :: i32
  agc_expires_at :: i32
  agc_created_at :: i32
  agc_last_used_at :: "i32 option"
  agc_revoked_at :: "i32 option"

record agent_session =
  ags_id :: i32
  ags_device_code_hash :: string
  ags_user_code_hash :: string
  ags_client_name :: string
  ags_created_at :: i32
  ags_expires_at :: i32
  ags_approved_by_user_id :: "i32 option"
  ags_approved_at :: "i32 option"
  ags_consumed_at :: "i32 option"

record agent_key =
  agk_id :: i32
  agk_credential_id :: i32
  agk_action_kind :: string
  agk_key_hash :: string
  agk_outcome :: "string option"
  agk_created_at :: i32

record agent_audit_row =
  aga_id :: i64
  aga_credential_id :: "i32 option"
  aga_user_id :: i32
  aga_action_kind :: string
  aga_outcome :: string
  aga_created_at :: i32

record imap_account =
  im_id :: i32
  im_user_id :: i32
  im_status :: string

record agent_store =
  ag_user_ids :: "i32 list"
  ag_credentials :: "agent_credential table"
  ag_next_credential_id :: i32
  ag_sessions :: "agent_session table"
  ag_next_session_id :: i32
  ag_keys :: "agent_key table"
  ag_next_key_id :: i32
  ag_audit :: "agent_audit_row table"
  ag_next_audit_id :: i64
  ag_imap :: "imap_account table"
  ag_watches :: watch_store

datatype pairing_poll = PollPending | PollInvalid | PollApproved i32 string

datatype credential_claim = CredAccepted agent_credential | CredInvalid | CredOverCap

datatype agent_idempotency = AgFresh i32 | AgReplayed string | AgInFlight

record credential_issue =
  ci_user_id :: i32
  ci_token_hash :: string
  ci_token_prefix :: string
  ci_label :: string
  ci_issued_at :: i32
  ci_expires_at :: i32

definition IDEMPOTENCY_TTL_SECONDS :: i32 where "IDEMPOTENCY_TTL_SECONDS = 86400"

text \<open>The CHECK constraints of the tables.\<close>

definition agent_scopes :: string where "agent_scopes = ''reminders,reply_watch_email''"

definition session_checks :: "agent_session \<Rightarrow> bool" where
  "session_checks q \<longleftrightarrow>
     char_count (ags_device_code_hash q) = 64 \<and> char_count (ags_user_code_hash q) = 64 \<and>
     1 \<le> char_count (ags_client_name q) \<and> char_count (ags_client_name q) \<le> 64 \<and>
     ags_created_at q < ags_expires_at q"

definition credential_checks :: "agent_credential \<Rightarrow> bool" where
  "credential_checks c \<longleftrightarrow>
     char_count (agc_token_hash c) = 64 \<and> char_count (agc_token_prefix c) = 16 \<and>
     1 \<le> char_count (agc_label c) \<and> char_count (agc_label c) \<le> 64 \<and> agc_scopes c = agent_scopes \<and>
     1 \<le> agc_daily_cap c \<and> agc_daily_cap c \<le> 50 \<and>
     0 \<le> agc_daily_used c \<and> agc_daily_used c \<le> agc_daily_cap c \<and> agc_created_at c < agc_expires_at c"

definition action_kinds :: "string list" where "action_kinds = [''reminder'', ''reply_watch_email'']"
definition action_outcomes :: "string list" where "action_outcomes = [''accepted'', ''rejected'', ''failed'']"

section \<open>Pairing\<close>

definition create_pairing ::
  "string \<Rightarrow> string \<Rightarrow> string \<Rightarrow> i32 \<Rightarrow> i32 \<Rightarrow> agent_store \<Rightarrow> (db_error + unit) \<times> agent_store" where
  "create_pairing device_code_hash user_code_hash client_name now expires_at =
     transaction (\<lambda>s.
       let kept = sql_delete (\<lambda>q. ags_expires_at q \<le> now \<or> ags_consumed_at q \<noteq> None) (ag_sessions s);
           q = \<lparr>ags_id = ag_next_session_id s, ags_device_code_hash = device_code_hash,
                ags_user_code_hash = user_code_hash, ags_client_name = client_name, ags_created_at = now,
                ags_expires_at = expires_at, ags_approved_by_user_id = None, ags_approved_at = None,
                ags_consumed_at = None\<rparr>
       in if \<not> session_checks q then (Inl CheckViolation, s)
          else if \<exists>x \<in> set kept. ags_device_code_hash x = device_code_hash \<or> ags_user_code_hash x = user_code_hash
          then (Inl UniqueViolation, s)
          else (Inr (), s\<lparr>ag_sessions := kept @ [q], ag_next_session_id := ag_next_session_id s + 1\<rparr>))"

definition approvable :: "string \<Rightarrow> i32 \<Rightarrow> agent_session \<Rightarrow> bool" where
  "approvable user_code_hash now q \<longleftrightarrow>
     ags_user_code_hash q = user_code_hash \<and> now < ags_expires_at q \<and>
     ags_approved_at q = None \<and> ags_consumed_at q = None"

definition approve_pairing ::
  "i32 \<Rightarrow> string \<Rightarrow> i32 \<Rightarrow> agent_store \<Rightarrow> (db_error + string option) \<times> agent_store" where
  "approve_pairing user_id user_code_hash now =
     transaction (\<lambda>s.
       case sql_first (approvable user_code_hash now) (ag_sessions s) of
         None \<Rightarrow> (Inr None, s)
       | Some session \<Rightarrow>
           if user_id \<notin> set (ag_user_ids s) then (Inl ForeignKeyViolation, s)
           else
             (Inr (Some (ags_client_name session)),
              s\<lparr>ag_sessions := sql_update (\<lambda>q. ags_id q = ags_id session)
                  (\<lambda>q. q\<lparr>ags_approved_by_user_id := Some user_id, ags_approved_at := Some now\<rparr>) (ag_sessions s)\<rparr>))"

definition poll_pairing :: "string \<Rightarrow> i32 \<Rightarrow> agent_store \<Rightarrow> pairing_poll" where
  "poll_pairing device_code_hash now s =
     (case sql_first (\<lambda>q. ags_device_code_hash q = device_code_hash) (ag_sessions s) of
        None \<Rightarrow> PollInvalid
      | Some session \<Rightarrow>
          if ags_expires_at session \<le> now \<or> ags_consumed_at session \<noteq> None then PollInvalid
          else
            (case ags_approved_by_user_id session of
               Some user_id \<Rightarrow> PollApproved user_id (ags_client_name session)
             | None \<Rightarrow> PollPending))"

definition active_credential :: "i32 \<Rightarrow> i32 \<Rightarrow> agent_credential \<Rightarrow> bool" where
  "active_credential user_id now c \<longleftrightarrow>
     agc_user_id c = user_id \<and> agc_revoked_at c = None \<and> now < agc_expires_at c"

definition consumable :: "string \<Rightarrow> credential_issue \<Rightarrow> agent_session \<Rightarrow> bool" where
  "consumable device_code_hash issue q \<longleftrightarrow>
     ags_device_code_hash q = device_code_hash \<and> ags_approved_by_user_id q = Some (ci_user_id issue) \<and>
     ci_issued_at issue < ags_expires_at q \<and> ags_consumed_at q = None"

definition issued_credential :: "i32 \<Rightarrow> credential_issue \<Rightarrow> agent_credential" where
  "issued_credential cid issue =
     \<lparr>agc_id = cid, agc_user_id = ci_user_id issue, agc_token_hash = ci_token_hash issue,
      agc_token_prefix = ci_token_prefix issue, agc_label = ci_label issue, agc_scopes = agent_scopes,
      agc_daily_cap = 20, agc_daily_used = 0, agc_daily_reset_at = next_utc_midnight (ci_issued_at issue),
      agc_expires_at = ci_expires_at issue, agc_created_at = ci_issued_at issue,
      agc_last_used_at = None, agc_revoked_at = None\<rparr>"

definition consume_pairing ::
  "string \<Rightarrow> credential_issue \<Rightarrow> agent_store \<Rightarrow> (db_error + agent_credential option) \<times> agent_store" where
  "consume_pairing device_code_hash issue =
     transaction (\<lambda>s.
       if sql_first (consumable device_code_hash issue) (ag_sessions s) = None then (Inr None, s)
       else if ci_user_id issue \<notin> set (ag_user_ids s) then (Inl NotFound, s)
       else if 5 \<le> sql_count (active_credential (ci_user_id issue) (ci_issued_at issue)) (ag_credentials s)
       then (Inr None, s)
       else
         let c = issued_credential (ag_next_credential_id s) issue
         in if \<not> credential_checks c then (Inl CheckViolation, s)
            else if ci_token_hash issue \<in> agc_token_hash ` set (ag_credentials s) then (Inl UniqueViolation, s)
            else
              (Inr (Some c),
               s\<lparr>ag_credentials := ag_credentials s @ [c], ag_next_credential_id := ag_next_credential_id s + 1,
                 ag_sessions := sql_update (\<lambda>q. ags_device_code_hash q = device_code_hash)
                   (\<lambda>q. q\<lparr>ags_consumed_at := Some (ci_issued_at issue)\<rparr>) (ag_sessions s)\<rparr>))"

section \<open>Credentials\<close>

definition agent_list_credentials :: "i32 \<Rightarrow> i32 \<Rightarrow> agent_store \<Rightarrow> agent_credential list" where
  "agent_list_credentials user_id now s =
     order_desc agc_created_at (sql_select (active_credential user_id now) (ag_credentials s))"

definition revoke_credentials ::
  "(agent_credential \<Rightarrow> bool) \<Rightarrow> i32 \<Rightarrow> agent_store \<Rightarrow> bool \<times> agent_store" where
  "revoke_credentials p now s =
     (let q = (\<lambda>c. p c \<and> agc_revoked_at c = None)
      in (0 < sql_count q (ag_credentials s),
          s\<lparr>ag_credentials := sql_update q (\<lambda>c. c\<lparr>agc_revoked_at := Some now\<rparr>) (ag_credentials s)\<rparr>))"

definition agent_revoke_credential :: "i32 \<Rightarrow> i32 \<Rightarrow> i32 \<Rightarrow> agent_store \<Rightarrow> bool \<times> agent_store" where
  "agent_revoke_credential user_id cid = revoke_credentials (\<lambda>c. agc_id c = cid \<and> agc_user_id c = user_id)"

definition revoke_by_token_hash :: "string \<Rightarrow> i32 \<Rightarrow> agent_store \<Rightarrow> bool \<times> agent_store" where
  "revoke_by_token_hash token_hash = revoke_credentials (\<lambda>c. agc_token_hash c = token_hash)"

definition has_scope :: "string \<Rightarrow> agent_credential \<Rightarrow> bool" where
  "has_scope required c \<longleftrightarrow> required \<in> set (str_split (\<lambda>ch. ch = '','') (agc_scopes c))"

definition authenticate_credential :: "string \<Rightarrow> string \<Rightarrow> i32 \<Rightarrow> agent_store \<Rightarrow> agent_credential option" where
  "authenticate_credential token_hash required_scope now s =
     (case sql_first (\<lambda>c. agc_token_hash c = token_hash \<and> agc_revoked_at c = None \<and> now < agc_expires_at c)
             (ag_credentials s) of
        None \<Rightarrow> None
      | Some c \<Rightarrow> if has_scope required_scope c then Some c else None)"

definition reset_daily :: "string \<Rightarrow> i32 \<Rightarrow> agent_store \<Rightarrow> agent_store" where
  "reset_daily token_hash now s =
     s\<lparr>ag_credentials := sql_update (\<lambda>c. agc_token_hash c = token_hash \<and> agc_daily_reset_at c \<le> now)
         (\<lambda>c. c\<lparr>agc_daily_used := 0, agc_daily_reset_at := next_utc_midnight now\<rparr>) (ag_credentials s)\<rparr>"

definition spend_row :: "i32 \<Rightarrow> agent_credential \<Rightarrow> agent_credential" where
  "spend_row now c = c\<lparr>agc_daily_used := agc_daily_used c + 1, agc_last_used_at := Some now\<rparr>"

definition spend_action :: "i32 \<Rightarrow> i32 \<Rightarrow> agent_store \<Rightarrow> agent_credential option \<times> agent_store" where
  "spend_action cid now s =
     (let p = (\<lambda>c. agc_id c = cid \<and> agc_revoked_at c = None \<and> now < agc_expires_at c \<and> agc_daily_used c < agc_daily_cap c)
      in (sql_update_get p (spend_row now) (ag_credentials s),
          s\<lparr>ag_credentials := sql_update p (spend_row now) (ag_credentials s)\<rparr>))"

text \<open>\<open>others 0\<close> commits before the read, \<open>others 1\<close> between the read and the guarded update.\<close>

definition claim_credential ::
  "(nat \<Rightarrow> agent_store \<Rightarrow> agent_store) \<Rightarrow> string \<Rightarrow> string \<Rightarrow> i32 \<Rightarrow> agent_store
   \<Rightarrow> credential_claim \<times> agent_store" where
  "claim_credential others token_hash required_scope now s =
     (let s1 = others 0 (reset_daily token_hash now s)
      in (case sql_first (\<lambda>c. agc_token_hash c = token_hash) (ag_credentials s1) of
            None \<Rightarrow> (CredInvalid, s1)
          | Some current \<Rightarrow>
              if agc_revoked_at current \<noteq> None \<or> agc_expires_at current \<le> now \<or> \<not> has_scope required_scope current
              then (CredInvalid, s1)
              else
                (case spend_action (agc_id current) now (others 1 s1) of
                   (Some c, s2) \<Rightarrow> (CredAccepted c, s2)
                 | (None, s2) \<Rightarrow> (CredOverCap, s2))))"

section \<open>Idempotency keys and the audit\<close>

definition agk_triple :: "agent_key \<Rightarrow> i32 \<times> string \<times> string" where
  "agk_triple k = (agk_credential_id k, agk_action_kind k, agk_key_hash k)"

definition agent_key_live :: "i32 \<Rightarrow> i32 \<Rightarrow> bool" where
  "agent_key_live now created_at \<longleftrightarrow> wrap_i32 (now - created_at) \<le> IDEMPOTENCY_TTL_SECONDS"

definition insert_agent_key ::
  "i32 \<Rightarrow> string \<Rightarrow> string \<Rightarrow> i32 \<Rightarrow> agent_store \<Rightarrow> (db_error + i32) \<times> agent_store" where
  "insert_agent_key cid kind key_hash now s =
     (if kind \<notin> set action_kinds \<or> char_count key_hash \<noteq> 64 then (Inl CheckViolation, s)
      else if row_of agk_triple (cid, kind, key_hash) (ag_keys s) \<noteq> None then (Inl UniqueViolation, s)
      else if cid \<notin> agc_id ` set (ag_credentials s) then (Inl ForeignKeyViolation, s)
      else
        (Inr (ag_next_key_id s),
         s\<lparr>ag_keys := ag_keys s @
             [\<lparr>agk_id = ag_next_key_id s, agk_credential_id = cid, agk_action_kind = kind,
               agk_key_hash = key_hash, agk_outcome = None, agk_created_at = now\<rparr>],
           ag_next_key_id := ag_next_key_id s + 1\<rparr>))"

text \<open>
  After the unique violation PostgreSQL has aborted the transaction, and \<^verbatim>\<open>Ok(InFlight)\<close> makes Diesel
  commit it: the server answers the COMMIT with a rollback. \<open>commits\<close> says whether Diesel takes that
  answer for a success; either way what this transaction wrote is undone.
\<close>

definition reserve_idempotency ::
  "(agent_store \<Rightarrow> agent_store) \<Rightarrow> bool \<Rightarrow> i32 \<Rightarrow> string \<Rightarrow> string \<Rightarrow> i32 \<Rightarrow> agent_store
   \<Rightarrow> (db_error + agent_idempotency) \<times> agent_store" where
  "reserve_idempotency others commits cid kind key_hash now s =
     (let fresh = (\<lambda>s1. case insert_agent_key cid kind key_hash now (others s1) of
                      (Inr row_id, s2) \<Rightarrow> (Inr (AgFresh row_id), s2)
                    | (Inl UniqueViolation, _) \<Rightarrow> (if commits then Inr AgInFlight else Inl CommitRefused, others s)
                    | (Inl e, _) \<Rightarrow> (Inl e, others s))
      in (case row_of agk_triple (cid, kind, key_hash) (ag_keys s) of
            Some k \<Rightarrow>
              if agent_key_live now (agk_created_at k)
              then (case agk_outcome k of
                      Some outcome \<Rightarrow> (Inr (AgReplayed outcome), s)
                    | None \<Rightarrow> (Inr AgInFlight, s))
              else fresh (s\<lparr>ag_keys := sql_delete (\<lambda>q. agk_id q = agk_id k) (ag_keys s)\<rparr>)
          | None \<Rightarrow> fresh s))"

definition agent_complete :: "i32 \<Rightarrow> string \<Rightarrow> agent_store \<Rightarrow> (db_error + unit) \<times> agent_store" where
  "agent_complete row_id outcome s =
     (if outcome \<notin> set action_outcomes \<and> row_id \<in> agk_id ` set (ag_keys s) then (Inl CheckViolation, s)
      else
        (Inr (), s\<lparr>ag_keys := sql_update (\<lambda>k. agk_id k = row_id) (\<lambda>k. k\<lparr>agk_outcome := Some outcome\<rparr>) (ag_keys s)\<rparr>))"

definition agent_clear :: "i32 \<Rightarrow> agent_store \<Rightarrow> agent_store" where
  "agent_clear row_id s = s\<lparr>ag_keys := sql_delete (\<lambda>k. agk_id k = row_id) (ag_keys s)\<rparr>"

definition agent_audit ::
  "i32 \<Rightarrow> i32 \<Rightarrow> string \<Rightarrow> string \<Rightarrow> i32 \<Rightarrow> agent_store \<Rightarrow> (db_error + unit) \<times> agent_store" where
  "agent_audit cid user_id kind outcome now s =
     (if kind \<notin> set action_kinds \<or> outcome \<notin> set action_outcomes then (Inl CheckViolation, s)
      else if cid \<notin> agc_id ` set (ag_credentials s) \<or> user_id \<notin> set (ag_user_ids s) then (Inl ForeignKeyViolation, s)
      else
        (Inr (), s\<lparr>ag_audit := ag_audit s @
           [\<lparr>aga_id = ag_next_audit_id s, aga_credential_id = Some cid, aga_user_id = user_id,
             aga_action_kind = kind, aga_outcome = outcome, aga_created_at = now\<rparr>],
           ag_next_audit_id := ag_next_audit_id s + 1\<rparr>))"

section \<open>Reply watches of an agent\<close>

definition active_imap_connection_ids :: "i32 \<Rightarrow> agent_store \<Rightarrow> i32 list" where
  "active_imap_connection_ids user_id s =
     map im_id (sql_select (\<lambda>a. im_user_id a = user_id \<and> im_status a = ''active'') (ag_imap s))"

definition watch_group :: "reply_watch \<Rightarrow> string" where
  "watch_group w =
     (if rw_platform w = ''email'' then ''email:'' @ rw_contact_identifier w
      else rw_platform w @ '':'' @
        (case rw_room_id w of None \<Rightarrow> rw_contact_identifier w | Some room \<Rightarrow> room))"

definition active_groups :: "i32 \<Rightarrow> i32 \<Rightarrow> agent_store \<Rightarrow> string list" where
  "active_groups user_id now s =
     remdups (map watch_group
       (sql_select (\<lambda>w. rw_user_id w = user_id \<and> now < rw_expires_at w) (ws_rows (ag_watches s))))"

definition email_watch_row :: "i32 \<Rightarrow> string \<Rightarrow> string \<Rightarrow> i32 \<Rightarrow> i32 \<Rightarrow> i32 \<Rightarrow> new_reply_watch" where
  "email_watch_row user_id email label now expires_at connection_id =
     \<lparr>nw_user_id = user_id, nw_platform = ''email'', nw_room_id = None,
      nw_imap_connection_id = Some connection_id, nw_contact_identifier = email,
      nw_contact_display_name = label, nw_created_at = now, nw_expires_at = expires_at\<rparr>"

definition create_email_reply_watches ::
  "i32 \<Rightarrow> i32 list \<Rightarrow> string \<Rightarrow> string \<Rightarrow> i32 \<Rightarrow> i32 \<Rightarrow> nat \<Rightarrow> agent_store
   \<Rightarrow> (db_error + bool) \<times> agent_store" where
  "create_email_reply_watches user_id connection_ids email label now expires_at max_active =
     transaction (\<lambda>s.
       if user_id \<notin> set (ag_user_ids s) then (Inl NotFound, s)
       else
         let groups = active_groups user_id now s
         in if connection_ids = [] \<or> ''email:'' @ email \<in> set groups \<or> max_active \<le> length groups
            then (Inr False, s)
            else
              (Inr True,
               s\<lparr>ag_watches := fold (\<lambda>c w. snd (watch_create (email_watch_row user_id email label now expires_at c) w))
                   connection_ids (ag_watches s)\<rparr>))"

end
