(* ===== verification/AgentContracts.thy ===== *)
theory AgentContracts
  imports AgentIntegration
begin

text \<open>
  The contracts of the agent credentials, as instances of the locales of \<open>Contracts\<close>: the daily cap is
  an exact quota, a pairing session is consumed once, and the action keys are idempotency keys.
\<close>

definition agent_ok :: "agent_store \<Rightarrow> bool" where
  "agent_ok s \<longleftrightarrow>
     distinct (map agc_id (ag_credentials s)) \<and> distinct (map agc_token_hash (ag_credentials s)) \<and>
     (\<forall>c \<in> set (ag_credentials s). 0 \<le> agc_daily_used c \<and> agc_daily_used c \<le> agc_daily_cap c) \<and>
     distinct (map agk_id (ag_keys s)) \<and> distinct (map agk_triple (ag_keys s)) \<and>
     (\<forall>k \<in> set (ag_keys s). agk_id k < ag_next_key_id s)"

section \<open>The daily cap\<close>

lemma spend_row_columns [simp]:
  "agc_id (spend_row now c) = agc_id c" "agc_token_hash (spend_row now c) = agc_token_hash c"
  "agc_daily_cap (spend_row now c) = agc_daily_cap c" "agc_daily_used (spend_row now c) = agc_daily_used c + 1"
  "agc_daily_reset_at (spend_row now c) = agc_daily_reset_at c" "agc_revoked_at (spend_row now c) = agc_revoked_at c"
  "agc_expires_at (spend_row now c) = agc_expires_at c" "agc_last_used_at (spend_row now c) = Some now"
  "agc_user_id (spend_row now c) = agc_user_id c" "agc_scopes (spend_row now c) = agc_scopes c"
  by (simp_all add: spend_row_def)

lemma agent_ok_credentials:
  assumes "agent_ok s"
    and "\<And>c. agc_id (f c) = agc_id c \<and> agc_token_hash (f c) = agc_token_hash c"
    and "\<And>c. p c \<Longrightarrow> 0 \<le> agc_daily_used c \<Longrightarrow> agc_daily_used c \<le> agc_daily_cap c \<Longrightarrow>
           0 \<le> agc_daily_used (f c) \<and> agc_daily_used (f c) \<le> agc_daily_cap (f c)"
  shows "agent_ok (s\<lparr>ag_credentials := sql_update p f (ag_credentials s)\<rparr>)"
proof -
  have "0 \<le> agc_daily_used c \<and> agc_daily_used c \<le> agc_daily_cap c"
    if "c \<in> set (sql_update p f (ag_credentials s))" for c
    using that by (cases rule: in_sql_updateE) (use assms(1,3) in \<open>auto simp: agent_ok_def\<close>)
  then show ?thesis using assms(1,2) by (simp add: agent_ok_def map_sql_update)
qed

lemma reset_daily_ok: "agent_ok s \<Longrightarrow> agent_ok (reset_daily h now s)"
  unfolding reset_daily_def by (rule agent_ok_credentials) (auto intro: order.trans)

lemma spend_action_ok: "agent_ok s \<Longrightarrow> agent_ok (snd (spend_action i now s))"
  unfolding spend_action_def Let_def snd_conv by (rule agent_ok_credentials) auto

lemma claim_credential_ok:
  assumes "agent_ok s" "\<And>i u. agent_ok u \<Longrightarrow> agent_ok (others i u)"
  shows "agent_ok (snd (claim_credential others h scope now s))"
proof -
  have s1: "agent_ok (others 0 (reset_daily h now s))" using assms by (simp add: reset_daily_ok)
  have "agent_ok (snd (spend_action i now (others 1 (others 0 (reset_daily h now s)))))" for i
    using s1 assms(2) by (simp add: spend_action_ok)
  with s1 show ?thesis
    by (auto simp: claim_credential_def Let_def split: option.split prod.split) (metis snd_conv)+
qed

lemma spend_action_eq:
  assumes "distinct (map agc_id (ag_credentials s))" "c \<in> set (ag_credentials s)"
  shows "spend_action (agc_id c) now s =
    (if agc_revoked_at c = None \<and> now < agc_expires_at c \<and> agc_daily_used c < agc_daily_cap c
     then (Some (spend_row now c), s\<lparr>ag_credentials := sql_update (\<lambda>x. agc_id x = agc_id c) (spend_row now) (ag_credentials s)\<rparr>)
     else (None, s))"
proof -
  let ?g = "\<lambda>c. agc_revoked_at c = None \<and> now < agc_expires_at c \<and> agc_daily_used c < agc_daily_cap c"
  let ?p = "\<lambda>x. agc_id x = agc_id c \<and> agc_revoked_at x = None \<and> now < agc_expires_at x \<and> agc_daily_used x < agc_daily_cap x"
  have only: "x = c" if "x \<in> set (ag_credentials s)" "agc_id x = agc_id c" for x
    using that assms(1,2) by (auto dest: distinct_map_eqD)
  show ?thesis
  proof (cases "?g c")
    case True
    have "?p x = (agc_id x = agc_id c)" if "x \<in> set (ag_credentials s)" for x using only [OF that] True by metis
    then have "sql_update ?p (spend_row now) (ag_credentials s) = sql_update (\<lambda>x. agc_id x = agc_id c) (spend_row now) (ag_credentials s)"
      unfolding sql_update_def by (intro map_cong) simp_all
    moreover have "sql_first ?p (ag_credentials s) = Some c"
      using sql_first_unique [OF assms(1,2), of ?p] True by simp
    ultimately show ?thesis using True by (simp add: spend_action_def sql_update_get_first)
  next
    case False
    then have none: "\<forall>x \<in> set (ag_credentials s). \<not> ?p x" using only by blast
    then have "sql_update_get ?p (spend_row now) (ag_credentials s) = None" by (simp only: sql_update_get_None)
    moreover have "sql_update ?p (spend_row now) (ag_credentials s) = ag_credentials s" using none by (rule sql_update_none)
    ultimately show ?thesis using False by (auto simp: spend_action_def Let_def)
  qed
qed

text \<open>The claims of one credential inside a window, with a scope and a time.\<close>

fun agent_claim_of :: "string \<Rightarrow> string \<times> i32 \<Rightarrow> agent_store \<Rightarrow> bool \<times> agent_store" where
  "agent_claim_of h (scope, now) s =
     (case claim_credential (\<lambda>i u. u) h scope now s of
        (CredAccepted _, s') \<Rightarrow> (True, s')
      | (_, s') \<Rightarrow> (False, s'))"

definition credential_by_hash :: "string \<Rightarrow> agent_store \<Rightarrow> agent_credential option" where
  "credential_by_hash h s = row_of agc_token_hash h (ag_credentials s)"

definition actions_used :: "string \<Rightarrow> agent_store \<Rightarrow> int" where
  "actions_used h s = (case credential_by_hash h s of None \<Rightarrow> 0 | Some c \<Rightarrow> agc_daily_used c)"

definition actions_cap :: "string \<Rightarrow> agent_store \<Rightarrow> int" where
  "actions_cap h s = (case credential_by_hash h s of None \<Rightarrow> 0 | Some c \<Rightarrow> agc_daily_cap c)"

definition agent_in_window :: "string \<Rightarrow> string \<times> i32 \<Rightarrow> agent_store \<Rightarrow> bool" where
  "agent_in_window h a s = (case credential_by_hash h s of None \<Rightarrow> True | Some c \<Rightarrow> snd a < agc_daily_reset_at c)"

lemma reset_daily_inside:
  assumes "agent_ok s" "agent_in_window h (scope, now) s"
  shows "reset_daily h now s = s"
proof -
  have "\<not> (agc_token_hash c = h \<and> agc_daily_reset_at c \<le> now)" if "c \<in> set (ag_credentials s)" for c
    using that assms row_of_mem [of agc_token_hash "ag_credentials s" c]
    by (auto simp: agent_ok_def agent_in_window_def credential_by_hash_def)
  then show ?thesis by (simp add: reset_daily_def sql_update_none)
qed

lemma agent_claim_cases:
  assumes "agent_ok s" "agent_in_window h (scope, now) s"
  obtains (refused) "agent_claim_of h (scope, now) s = (False, s)"
  | (granted) c where "credential_by_hash h s = Some c" "agc_daily_used c < agc_daily_cap c"
      "agent_claim_of h (scope, now) s = (True, s\<lparr>ag_credentials := sql_update (\<lambda>x. agc_id x = agc_id c) (spend_row now) (ag_credentials s)\<rparr>)"
proof (cases "credential_by_hash h s")
  case None
  then show thesis
    using reset_daily_inside [OF assms]
    by (intro refused) (simp add: claim_credential_def credential_by_hash_def row_of_def)
next
  case (Some c)
  then have c: "c \<in> set (ag_credentials s)" by (auto simp: credential_by_hash_def dest: row_of_Some)
  have ids: "distinct (map agc_id (ag_credentials s))" using assms(1) by (simp add: agent_ok_def)
  have read: "sql_first (\<lambda>c. agc_token_hash c = h) (ag_credentials s) = Some c"
    using Some by (simp add: credential_by_hash_def row_of_def)
  show thesis
  proof (cases "agc_revoked_at c = None \<and> now < agc_expires_at c \<and> has_scope scope c \<and> agc_daily_used c < agc_daily_cap c")
    case True
    then show thesis
      using Some by (intro granted [of c])
        (simp_all add: claim_credential_def reset_daily_inside [OF assms] read spend_action_eq [OF ids c])
  next
    case False
    then show thesis
      by (intro refused)
        (auto simp: claim_credential_def reset_daily_inside [OF assms] read spend_action_eq [OF ids c])
  qed
qed

lemma credential_by_hash_update:
  assumes "\<And>c. agc_token_hash (f c) = agc_token_hash c"
  shows "credential_by_hash h (s\<lparr>ag_credentials := sql_update p f (ag_credentials s)\<rparr>) =
    map_option (\<lambda>c. if p c then f c else c) (credential_by_hash h s)"
  using assms by (simp add: credential_by_hash_def row_of_update)

lemma agent_claim_ok: "agent_ok s \<Longrightarrow> agent_ok (snd (agent_claim_of h a s))"
  using claim_credential_ok [of s "\<lambda>i u. u" h "fst a" "snd a"]
  by (cases a) (auto split: prod.splits credential_claim.splits)

interpretation action_cap: exact_quota "agent_claim_of h" "actions_used h" "actions_cap h" agent_ok "agent_in_window h" for h
proof
  fix s and a b :: "string \<times> i32"
  assume s: "agent_ok s" "agent_in_window h a s"
  obtain scope now where a: "a = (scope, now)" by fastforce
  note cases = agent_claim_cases [OF s [unfolded a], folded a]
  show "agent_ok (snd (agent_claim_of h a s))" using s(1) by (rule agent_claim_ok)
  show "agent_in_window h b (snd (agent_claim_of h a s))" if "agent_in_window h b s"
    using that by (cases rule: cases) (auto simp: agent_in_window_def credential_by_hash_update)
  show "actions_cap h (snd (agent_claim_of h a s)) = actions_cap h s"
    by (cases rule: cases) (auto simp: actions_cap_def credential_by_hash_update)
  show "actions_used h s < actions_cap h s \<and> actions_used h (snd (agent_claim_of h a s)) = actions_used h s + 1"
    if "fst (agent_claim_of h a s)"
    using that by (cases rule: cases) (auto simp: actions_used_def actions_cap_def credential_by_hash_update)
  show "actions_used h s \<le> actions_used h (snd (agent_claim_of h a s))" if "\<not> fst (agent_claim_of h a s)"
    using that by (cases rule: cases) auto
  show "actions_used h (snd (agent_claim_of h a s)) = actions_used h s" if "\<not> fst (agent_claim_of h a s)"
    using that by (cases rule: cases) auto
qed

section \<open>A pairing session is consumed once\<close>

definition session_open :: "string \<Rightarrow> agent_store \<Rightarrow> bool" where
  "session_open dch s \<longleftrightarrow> (\<exists>q \<in> set (ag_sessions s). ags_device_code_hash q = dch \<and> ags_consumed_at q = None)"

definition consume_of :: "string \<Rightarrow> credential_issue \<Rightarrow> agent_store \<Rightarrow> bool \<times> agent_store" where
  "consume_of dch issue s =
     (case consume_pairing dch issue s of
        (Inr (Some c), s') \<Rightarrow> (True, s')
      | (_, s') \<Rightarrow> (False, s'))"

lemma consume_pairing_cases:
  obtains (refused) r where "consume_pairing dch issue s = (r, s)" "r = Inr None \<or> (\<exists>e. r = Inl e)"
  | (issued) q where "q \<in> set (ag_sessions s)" "consumable dch issue q"
      "sql_count (active_credential (ci_user_id issue) (ci_issued_at issue)) (ag_credentials s) < 5"
      "ci_token_hash issue \<notin> agc_token_hash ` set (ag_credentials s)"
      "credential_checks (issued_credential (ag_next_credential_id s) issue)"
      "consume_pairing dch issue s =
        (Inr (Some (issued_credential (ag_next_credential_id s) issue)),
         s\<lparr>ag_credentials := ag_credentials s @ [issued_credential (ag_next_credential_id s) issue],
           ag_next_credential_id := ag_next_credential_id s + 1,
           ag_sessions := sql_update (\<lambda>q. ags_device_code_hash q = dch)
             (\<lambda>q. q\<lparr>ags_consumed_at := Some (ci_issued_at issue)\<rparr>) (ag_sessions s)\<rparr>)"
proof (cases "\<exists>c. fst (consume_pairing dch issue s) = Inr (Some c)")
  case True
  then have "sql_first (consumable dch issue) (ag_sessions s) \<noteq> None"
    by (auto simp: consume_pairing_def transaction_def split: if_splits)
  then obtain q where "q \<in> set (ag_sessions s)" "consumable dch issue q" by (auto dest: sql_first_Some)
  with True show thesis
    by (intro issued [of q]) (auto simp: consume_pairing_def transaction_def Let_def split: if_splits)
next
  case False
  then show thesis
    by (intro refused [of "fst (consume_pairing dch issue s)"])
      (auto simp: consume_pairing_def transaction_def Let_def split: if_splits)
qed

interpretation pairing_consumed: one_shot "consume_of dch" "session_open dch" "\<lambda>s. True" for dch
proof
  fix s issue
  show "session_open dch s \<and> \<not> session_open dch (snd (consume_of dch issue s))" if "fst (consume_of dch issue s)"
    using that
  proof (cases rule: consume_pairing_cases [of dch issue s])
    case (issued q)
    have "\<not> (ags_device_code_hash x = dch \<and> ags_consumed_at x = None)"
      if "x \<in> set (ag_sessions (snd (consume_of dch issue s)))" for x
    proof -
      from that have "x \<in> set (sql_update (\<lambda>q. ags_device_code_hash q = dch)
          (\<lambda>q. q\<lparr>ags_consumed_at := Some (ci_issued_at issue)\<rparr>) (ag_sessions s))"
        by (simp add: consume_of_def issued(6))
      then show ?thesis by (cases rule: in_sql_updateE) auto
    qed
    with issued(1,2) show ?thesis by (auto simp: session_open_def consumable_def)
  qed (auto simp: consume_of_def)
  show "session_open dch s" if "\<not> fst (consume_of dch issue s)" "session_open dch (snd (consume_of dch issue s))"
    using that by (cases rule: consume_pairing_cases [of dch issue s]) (auto simp: consume_of_def)
qed simp

section \<open>The keys of the actions\<close>

datatype action_outcome = ActionAccepted | ActionRejected | ActionFailed

fun outcome_text :: "action_outcome \<Rightarrow> string" where
  "outcome_text ActionAccepted = ''accepted''"
| "outcome_text ActionRejected = ''rejected''"
| "outcome_text ActionFailed = ''failed''"

definition outcome_of :: "string \<Rightarrow> action_outcome" where
  "outcome_of t = (if t = ''accepted'' then ActionAccepted else if t = ''rejected'' then ActionRejected else ActionFailed)"

lemma outcome_of_text [simp]: "outcome_of (outcome_text out) = out"
  by (cases out) (simp_all add: outcome_of_def)

lemma outcome_text_valid [simp]: "outcome_text out \<in> set action_outcomes"
  by (cases out) (simp_all add: action_outcomes_def)

definition action_key :: "i32 \<times> string \<Rightarrow> string \<Rightarrow> agent_store \<Rightarrow> agent_key option" where
  "action_key a key s = row_of agk_triple (fst a, snd a, key) (ag_keys s)"

definition action_claim ::
  "i32 \<times> string \<Rightarrow> string \<Rightarrow> i32 \<Rightarrow> agent_store \<Rightarrow> (i32, action_outcome) idempotency_claim \<times> agent_store" where
  "action_claim a key now s =
     (case reserve_idempotency (\<lambda>u. u) True (fst a) (snd a) key now s of
        (Inr (AgFresh i), s') \<Rightarrow> (IdemFresh i, s')
      | (Inr (AgReplayed t), s') \<Rightarrow> (IdemReplayed (outcome_of t), s')
      | (_, s') \<Rightarrow> (IdemInFlight, s'))"

definition action_complete :: "i32 \<Rightarrow> action_outcome \<Rightarrow> agent_store \<Rightarrow> agent_store" where
  "action_complete i out s = snd (agent_complete i (outcome_text out) s)"

definition action_entry :: "i32 \<times> string \<Rightarrow> agent_store \<Rightarrow> string \<Rightarrow> action_outcome idempotency_entry" where
  "action_entry a s key =
     (case action_key a key s of
        None \<Rightarrow> NoEntry
      | Some k \<Rightarrow> (case agk_outcome k of
                    None \<Rightarrow> PendingEntry (agk_created_at k)
                  | Some t \<Rightarrow> DoneEntry (agk_created_at k) (outcome_of t)))"

definition action_holds :: "i32 \<times> string \<Rightarrow> agent_store \<Rightarrow> string \<Rightarrow> i32 \<Rightarrow> bool" where
  "action_holds a s key i \<longleftrightarrow> map_option agk_id (action_key a key s) = Some i"

definition action_known :: "i32 \<times> string \<Rightarrow> agent_store \<Rightarrow> bool" where
  "action_known a s \<longleftrightarrow> agent_ok s \<and> fst a \<in> agc_id ` set (ag_credentials s) \<and> snd a \<in> set action_kinds"

lemma agent_ok_keys_delete: "agent_ok s \<Longrightarrow> agent_ok (s\<lparr>ag_keys := sql_delete p (ag_keys s)\<rparr>)"
  by (simp add: agent_ok_def distinct_sql_delete)

lemma action_key_delete:
  assumes "agent_ok s" "action_key a key s = Some k"
  shows "action_key a key' (s\<lparr>ag_keys := sql_delete (\<lambda>q. agk_id q = agk_id k) (ag_keys s)\<rparr>) =
    (if key' = key then None else action_key a key' s)"
  using row_of_delete [of agk_id "ag_keys s" agk_triple "(fst a, snd a, key)" k "(fst a, snd a, key')"] assms
  by (simp add: action_key_def agent_ok_def)

lemma insert_agent_key_fresh:
  assumes "action_known a s" "action_key a key s = None" "char_count key = 64"
  shows "insert_agent_key (fst a) (snd a) key now s = (Inr (ag_next_key_id s), snd (insert_agent_key (fst a) (snd a) key now s))"
    and "action_key a key' (snd (insert_agent_key (fst a) (snd a) key now s)) =
      (if key' = key
       then Some \<lparr>agk_id = ag_next_key_id s, agk_credential_id = fst a, agk_action_kind = snd a, agk_key_hash = key,
                  agk_outcome = None, agk_created_at = now\<rparr>
       else action_key a key' s)"
    and "action_known a (snd (insert_agent_key (fst a) (snd a) key now s))"
proof -
  let ?r = "\<lparr>agk_id = ag_next_key_id s, agk_credential_id = fst a, agk_action_kind = snd a, agk_key_hash = key,
             agk_outcome = None, agk_created_at = now\<rparr>"
  let ?s = "s\<lparr>ag_keys := ag_keys s @ [?r], ag_next_key_id := ag_next_key_id s + 1\<rparr>"
  have eq: "insert_agent_key (fst a) (snd a) key now s = (Inr (ag_next_key_id s), ?s)"
    using assms by (simp add: insert_agent_key_def action_known_def action_key_def)
  have triple: "agk_triple ?r = (fst a, snd a, key)" by (simp add: agk_triple_def)
  show "insert_agent_key (fst a) (snd a) key now s = (Inr (ag_next_key_id s), snd (insert_agent_key (fst a) (snd a) key now s))"
    by (simp add: eq)
  show "action_key a key' (snd (insert_agent_key (fst a) (snd a) key now s)) =
      (if key' = key then Some ?r else action_key a key' s)"
    using assms(2) by (auto simp: eq action_key_def row_of_append triple split: option.splits)
  have "\<forall>r \<in> set (ag_keys s). agk_triple r \<noteq> agk_triple ?r"
    using assms(2) by (simp add: action_key_def row_of_None triple)
  then have "agent_ok ?s" using assms(1) by (fastforce simp: action_known_def agent_ok_def)
  then show "action_known a (snd (insert_agent_key (fst a) (snd a) key now s))"
    using assms(1) by (simp add: eq action_known_def)
qed

text \<open>A reservation that nobody disturbs, by cases.\<close>

lemma action_claim_cases:
  assumes "action_known a s"
  obtains (pending) k where "action_key a key s = Some k" "agent_key_live now (agk_created_at k)"
      "agk_outcome k = None" "action_claim a key now s = (IdemInFlight, s)"
  | (replay) k t where "action_key a key s = Some k" "agent_key_live now (agk_created_at k)"
      "agk_outcome k = Some t" "action_claim a key now s = (IdemReplayed (outcome_of t), s)"
  | (malformed) "char_count key \<noteq> 64" "action_claim a key now s = (IdemInFlight, s)"
  | (fresh) s1 where "action_known a s1" "action_key a key s1 = None" "char_count key = 64"
      "\<And>key'. key' \<noteq> key \<Longrightarrow> action_key a key' s1 = action_key a key' s"
      "action_key a key s = None \<or> (\<exists>k. action_key a key s = Some k \<and> \<not> agent_key_live now (agk_created_at k))"
      "action_claim a key now s = (IdemFresh (ag_next_key_id s1), snd (insert_agent_key (fst a) (snd a) key now s1))"
proof (cases "action_key a key s")
  case None
  show thesis
  proof (cases "char_count key = 64")
    case True
    from insert_agent_key_fresh(1) [OF assms None this, of now] None True assms show thesis
      by (intro fresh [of s]) (auto simp: action_claim_def reserve_idempotency_def action_key_def split: prod.splits)
  next
    case False
    with None show thesis
      by (intro malformed) (auto simp: action_claim_def reserve_idempotency_def action_key_def insert_agent_key_def)
  qed
next
  case (Some k)
  have ok: "agent_ok s" using assms by (simp add: action_known_def)
  let ?s = "s\<lparr>ag_keys := sql_delete (\<lambda>q. agk_id q = agk_id k) (ag_keys s)\<rparr>"
  consider (live) "agent_key_live now (agk_created_at k)" | (bad) "\<not> agent_key_live now (agk_created_at k)" "char_count key \<noteq> 64"
    | (stale) "\<not> agent_key_live now (agk_created_at k)" "char_count key = 64" by blast
  then show thesis
  proof cases
    case live
    show thesis
    proof (cases "agk_outcome k")
      case None
      with Some live show thesis
        by (intro pending) (auto simp: action_claim_def reserve_idempotency_def action_key_def)
    next
      case (Some t)
      with \<open>action_key a key s = Some k\<close> live show thesis
        by (intro replay) (auto simp: action_claim_def reserve_idempotency_def action_key_def)
    qed
  next
    case bad
    with Some show thesis
      by (intro malformed) (auto simp: action_claim_def reserve_idempotency_def action_key_def insert_agent_key_def)
  next
    case stale
    have s1: "action_known a ?s" using assms by (simp add: action_known_def agent_ok_keys_delete)
    have none: "action_key a key ?s = None" using action_key_delete [OF ok Some, of key] by simp
    from s1 none Some stale action_key_delete [OF ok Some] insert_agent_key_fresh(1) [OF s1 none stale(2), of now] show thesis
      by (intro fresh [of ?s]) (auto simp: action_claim_def reserve_idempotency_def action_key_def split: prod.splits)
  qed
qed

lemma action_complete_eq:
  "action_complete i out s =
    s\<lparr>ag_keys := sql_update (\<lambda>k. agk_id k = i) (\<lambda>k. k\<lparr>agk_outcome := Some (outcome_text out)\<rparr>) (ag_keys s)\<rparr>"
  by (simp add: action_complete_def agent_complete_def)

lemma action_key_complete:
  "action_key a key (action_complete i out s) =
    map_option (\<lambda>k. if agk_id k = i then k\<lparr>agk_outcome := Some (outcome_text out)\<rparr> else k) (action_key a key s)"
  by (simp add: action_key_def action_complete_eq row_of_update agk_triple_def)

lemma action_entry_eq:
  "action_key a key s = action_key a key' s' \<Longrightarrow> action_entry a s key = action_entry a s' key'"
  by (simp add: action_entry_def)

interpretation action_keys: idempotency "action_claim a" action_complete agent_clear
  "action_entry a" "action_holds a" agent_key_live "action_known a" "\<lambda>key. char_count key = 64" for a
proof
  fix s key now t i out key'
  assume s: "action_known a s"
  then have ok: "agent_ok s" by (simp add: action_known_def)
  show "action_known a (snd (action_claim a key now s))"
    using s by (cases rule: action_claim_cases [OF s, of key now]) (simp_all add: insert_agent_key_fresh(3))
  show "action_known a (action_complete i out s)"
    using s by (auto simp: action_known_def agent_ok_def action_complete_eq map_sql_update set_sql_update agk_triple_def)
  show "action_known a (agent_clear i s)"
    using s by (simp add: action_known_def agent_clear_def agent_ok_keys_delete)
  show "\<exists>i. fst (action_claim a key now s) = IdemFresh i" if "char_count key = 64" "action_entry a s key = NoEntry"
    using that by (cases rule: action_claim_cases [OF s, of key now]) (auto simp: action_entry_def split: option.splits)
  show "action_claim a key now s = (IdemInFlight, s)" if "action_entry a s key = PendingEntry t" "agent_key_live now t"
    using that by (cases rule: action_claim_cases [OF s, of key now]) (auto simp: action_entry_def split: option.splits)
  show "action_claim a key now s = (IdemReplayed out, s)" if "action_entry a s key = DoneEntry t out" "agent_key_live now t"
  proof -
    from that obtain k where "action_key a key s = Some k" "agent_key_live now (agk_created_at k)"
        "agk_outcome k \<noteq> None" "outcome_of (the (agk_outcome k)) = out"
      by (auto simp: action_entry_def split: option.splits)
    then show ?thesis by (auto simp: action_claim_def reserve_idempotency_def action_key_def)
  qed
  show "\<exists>i. fst (action_claim a key now s) = IdemFresh i"
    if "char_count key = 64" "action_entry a s key = PendingEntry t \<or> action_entry a s key = DoneEntry t out"
      "\<not> agent_key_live now t"
    using that by (cases rule: action_claim_cases [OF s, of key now]) (auto simp: action_entry_def split: option.splits)
  show "action_entry a (snd (action_claim a key now s)) key = PendingEntry now \<and>
      action_holds a (snd (action_claim a key now s)) key i" if "fst (action_claim a key now s) = IdemFresh i"
    using that by (cases rule: action_claim_cases [OF s, of key now])
      (auto simp: action_entry_def action_holds_def insert_agent_key_fresh(2))
  show "action_entry a (snd (action_claim a key now s)) key' = action_entry a s key'" if "key' \<noteq> key"
    using that by (cases rule: action_claim_cases [OF s, of key now])
      (auto intro!: action_entry_eq simp: insert_agent_key_fresh(2))
  show "action_entry a (action_complete i out s) key = DoneEntry t out"
    if "action_holds a s key i" "action_entry a s key = PendingEntry t"
    using that by (auto simp: action_holds_def action_entry_def action_key_complete split: option.splits)
  show "action_entry a (agent_clear i s) key = NoEntry" if "action_holds a s key i"
  proof -
    from that obtain k where k: "action_key a key s = Some k" "agk_id k = i" by (auto simp: action_holds_def)
    from action_key_delete [OF ok k(1), of key] k(2) show ?thesis by (simp add: action_entry_def agent_clear_def)
  qed
qed

end
