(* ===== verification/AgentHandlers.thy ===== *)
theory AgentHandlers
  imports AgentContracts Ontology
begin

text \<open>
  The write-only API of local AI agents: \<^verbatim>\<open>handlers/agent_integration_handlers.rs\<close>. A request carries
  its headers and body; a response is a status with its JSON. Every call of a repository is one atomic
  step. \<open>agent_env\<close> holds what the handlers take from elsewhere: SHA-256 in hex, RFC 3339
  parsing, the subscription tier that \<^verbatim>\<open>user_core\<close> finds, the rate limiter, \<^verbatim>\<open>HeaderValue::to_str\<close>, the upper
  case of characters outside ASCII, and the writes of other requests inside the repository transactions.
\<close>

section \<open>Requests and responses\<close>

record agent_env =
  ae_sha :: "string \<Rightarrow> string"
  ae_timestamp :: "string \<Rightarrow> int option"
  ae_tier :: "i32 \<Rightarrow> string option option"
  ae_limiter :: "string \<Rightarrow> bool"
  ae_to_str :: "string \<Rightarrow> string option"
  ae_uppercase :: "string \<Rightarrow> string"
  ae_commits :: bool
  ae_others :: "nat \<Rightarrow> agent_store \<Rightarrow> agent_store"

record agent_headers =
  ah_query :: bool                       \<comment> \<open>the URI has a query\<close>
  ah_authorization :: "string option"
  ah_idempotency_key :: "string option"
  ah_cf_connecting_ip :: "string option"
  ah_x_real_ip :: "string option"
  ah_x_forwarded_for :: "string option"

record agent_app =
  app_agent :: agent_store
  app_events :: ont_store

record start_pairing_response =
  sp_status :: string
  sp_device_code :: string
  sp_user_code :: string
  sp_verification_path :: string
  sp_expires_in :: i32
  sp_poll_interval :: i32

record poll_pairing_response =
  pp_status :: string
  pp_token :: "string option"
  pp_expires_at :: "i32 option"

record credential_summary =
  cs_id :: i32
  cs_label :: string
  cs_token_prefix :: string
  cs_scopes :: "string list"
  cs_daily_cap :: i32
  cs_daily_used :: i32
  cs_expires_at :: i32
  cs_created_at :: i32
  cs_last_used_at :: "i32 option"

datatype agent_response =
    Minimal nat string
  | Started start_pairing_response
  | Polled nat poll_pairing_response
  | Listed "credential_summary list"
  | NoContent

definition DEVICE_PREFIX :: string where "DEVICE_PREFIX = ''lfpair_''"
definition AGENT_TOKEN_PREFIX :: string where "AGENT_TOKEN_PREFIX = ''lfagent_''"
definition PAIRING_TTL_SECONDS :: i32 where "PAIRING_TTL_SECONDS = 10 * 60"
definition CREDENTIAL_TTL_SECONDS :: i32 where "CREDENTIAL_TTL_SECONDS = 90 * 24 * 60 * 60"
definition MAX_REMINDER_SECONDS :: i64 where "MAX_REMINDER_SECONDS = 365 * 24 * 60 * 60"
definition MAX_ACTIVE_REPLY_WATCHES :: nat where "MAX_ACTIVE_REPLY_WATCHES = 5"

section \<open>Validation\<close>

definition is_whitespace :: "string \<Rightarrow> bool" where "is_whitespace c \<longleftrightarrow> c \<in> set utf8_whitespace"

definition printable :: "string \<Rightarrow> nat \<Rightarrow> string option" where
  "printable raw max_chars =
     (let v = trim raw
      in if v = [] \<or> max_chars < char_count v \<or> list_ex is_control (utf8_chars v) then None else Some v)"

definition valid_email :: "string \<Rightarrow> bool" where
  "valid_email v =
     (if v = [] \<or> 254 < length v \<or> list_ex (\<lambda>c. is_control c \<or> is_whitespace c) (utf8_chars v) then False
      else
        (case str_split (\<lambda>c. c = ''@'') v of
           [mailbox, domain] \<Rightarrow>
             mailbox \<noteq> [] \<and> length mailbox \<le> 64 \<and> ''.'' \<in> set (utf8_chars domain) \<and>
             \<not> prefix ''.'' domain \<and> \<not> suffix ''.'' domain
         | _ \<Rightarrow> False))"

definition agent_hex_digit :: "char \<Rightarrow> bool" where
  "agent_hex_digit c =
     (let n = (of_char c :: nat) in (48 \<le> n \<and> n \<le> 57) \<or> (97 \<le> n \<and> n \<le> 102))"

definition valid_prefixed_hex :: "string \<Rightarrow> string \<Rightarrow> nat \<Rightarrow> bool" where
  "valid_prefixed_hex v p hex_len =
     (case strip_prefix p v of
        None \<Rightarrow> False
      | Some hex \<Rightarrow> length hex = hex_len \<and> list_all agent_hex_digit hex)"

definition agent_bearer :: "agent_env \<Rightarrow> agent_headers \<Rightarrow> string option" where
  "agent_bearer env hs =
     Option.bind (Option.bind (ah_authorization hs) (ae_to_str env)) (\<lambda>v.
     Option.bind (strip_prefix ''Bearer '' v) (\<lambda>t. if trim t = [] then None else Some (trim t)))"

definition agent_idempotency_key :: "agent_env \<Rightarrow> agent_headers \<Rightarrow> string option" where
  "agent_idempotency_key env hs =
     Option.bind (Option.bind (ah_idempotency_key hs) (ae_to_str env)) (\<lambda>raw.
       let v = trim raw
       in if v = [] \<or> 64 < length v \<or> \<not> list_all is_ascii_graphic v then None else Some v)"

definition USER_CODE_ALPHABET :: string where "USER_CODE_ALPHABET = ''23456789ABCDEFGHJKLMNPQRSTUVWXYZ''"

definition ascii_upper :: "char \<Rightarrow> char" where
  "ascii_upper c =
     (if 97 \<le> (of_char c :: nat) \<and> (of_char c :: nat) \<le> 122 then char_of (of_char c - 32 :: nat) else c)"

fun char_uppercase :: "agent_env \<Rightarrow> string \<Rightarrow> string" where
  "char_uppercase env [c] = (if is_ascii c then [ascii_upper c] else ae_uppercase env [c])"
| "char_uppercase env cs = ae_uppercase env cs"

definition normalize_user_code :: "agent_env \<Rightarrow> string \<Rightarrow> string" where
  "normalize_user_code env v =
     concat (map (char_uppercase env) (filter (\<lambda>c. c \<noteq> ''-'' \<and> \<not> is_whitespace c) (utf8_chars v)))"

definition valid_user_code :: "string \<Rightarrow> bool" where
  "valid_user_code v \<longleftrightarrow> length v = 12 \<and> (\<forall>c \<in> set (utf8_chars v). c \<in> set (utf8_chars USER_CODE_ALPHABET))"

unbundle bit_operations_syntax

text \<open>The twelve random bytes are an argument.\<close>

definition user_code_raw :: "8 word list \<Rightarrow> string" where
  "user_code_raw bytes = map (\<lambda>b. USER_CODE_ALPHABET ! unat (b AND 31)) bytes"

definition random_user_code :: "8 word list \<Rightarrow> string" where
  "random_user_code bytes =
     (let raw = user_code_raw bytes
      in take 4 raw @ ''-'' @ take 4 (drop 4 raw) @ ''-'' @ take 4 (drop 8 raw))"

definition static_outcome :: "string \<Rightarrow> string" where
  "static_outcome t = (if t = ''accepted'' then ''accepted'' else if t = ''rejected'' then ''rejected'' else ''failed'')"

definition validate_reminder_input :: "agent_env \<Rightarrow> string \<Rightarrow> string \<Rightarrow> i32 \<Rightarrow> (string \<times> i32) option" where
  "validate_reminder_input env message at now =
     Option.bind (printable message 280) (\<lambda>message.
     Option.bind (ae_timestamp env (trim at)) (\<lambda>remind_at.
       if remind_at < now + 60 \<or> now + MAX_REMINDER_SECONDS < remind_at then None
       else if in_i32 remind_at then Some (message, remind_at) else None))"

definition has_active_subscription :: "agent_env \<Rightarrow> i32 \<Rightarrow> bool" where
  "has_active_subscription env user_id \<longleftrightarrow> ae_tier env user_id = Some (Some ''tier 2'')"

text \<open>The client that the rate limiter of a route counts.\<close>

definition rate_limit_client :: "agent_env \<Rightarrow> agent_headers \<Rightarrow> string" where
  "rate_limit_client env hs =
     (let header = (case ah_cf_connecting_ip hs of Some v \<Rightarrow> Some v
                    | None \<Rightarrow> (case ah_x_real_ip hs of Some v \<Rightarrow> Some v | None \<Rightarrow> ah_x_forwarded_for hs));
          client = map_option (\<lambda>v. trim (hd (str_split (\<lambda>c. c = '','') v))) (Option.bind header (ae_to_str env))
      in (case client of None \<Rightarrow> ''unknown'' | Some c \<Rightarrow> if c = [] then ''unknown'' else c))"

definition check_rate_limit :: "agent_env \<Rightarrow> agent_headers \<Rightarrow> string \<Rightarrow> bool" where
  "check_rate_limit env hs namespace = ae_limiter env (namespace @ '':'' @ rate_limit_client env hs)"

section \<open>Pairing and credentials\<close>

text \<open>\<open>device_hex\<close> and \<open>code_bytes\<close> are the random values drawn.\<close>

definition start_pairing ::
  "agent_env \<Rightarrow> agent_headers \<Rightarrow> string \<Rightarrow> string \<Rightarrow> 8 word list \<Rightarrow> i32 \<Rightarrow> agent_store
   \<Rightarrow> agent_response \<times> agent_store" where
  "start_pairing env hs client_name device_hex code_bytes now s =
     (if ah_query hs then (Minimal 400 ''rejected'', s)
      else if \<not> check_rate_limit env hs ''agent-pairing-start'' then (Minimal 429 ''rejected'', s)
      else
        (case printable client_name 64 of
           None \<Rightarrow> (Minimal 400 ''rejected'', s)
         | Some client_name \<Rightarrow>
             let device_code = DEVICE_PREFIX @ device_hex;
                 user_code = random_user_code code_bytes
             in (case create_pairing (ae_sha env device_code) (ae_sha env (normalize_user_code env user_code))
                        client_name now (wrap_i32 (now + PAIRING_TTL_SECONDS)) s of
                   (Inl _, s') \<Rightarrow> (Minimal 500 ''failed'', s')
                 | (Inr _, s') \<Rightarrow>
                     (Started \<lparr>sp_status = ''accepted'', sp_device_code = device_code, sp_user_code = user_code,
                               sp_verification_path = ''/'', sp_expires_in = PAIRING_TTL_SECONDS, sp_poll_interval = 3\<rparr>,
                      s'))))"

text \<open>\<open>between\<close> is what other requests commit between the poll and the consumption.\<close>

definition poll_pairing_handler ::
  "agent_env \<Rightarrow> agent_headers \<Rightarrow> (agent_store \<Rightarrow> agent_store) \<Rightarrow> string \<Rightarrow> string \<Rightarrow> i32 \<Rightarrow> agent_store
   \<Rightarrow> agent_response \<times> agent_store" where
  "poll_pairing_handler env hs between device_code token_hex now s =
     (if ah_query hs \<or> \<not> valid_prefixed_hex device_code DEVICE_PREFIX 64 then (Minimal 401 ''rejected'', s)
      else if \<not> check_rate_limit env hs ''agent-pairing-poll'' then (Minimal 429 ''rejected'', s)
      else
        (case poll_pairing (ae_sha env device_code) now s of
           PollPending \<Rightarrow> (Polled 202 \<lparr>pp_status = ''pending'', pp_token = None, pp_expires_at = None\<rparr>, s)
         | PollInvalid \<Rightarrow> (Minimal 401 ''rejected'', s)
         | PollApproved user_id label \<Rightarrow>
             if \<not> has_active_subscription env user_id then (Minimal 403 ''rejected'', s)
             else
               let raw_token = AGENT_TOKEN_PREFIX @ token_hex;
                   expires_at = wrap_i32 (now + CREDENTIAL_TTL_SECONDS)
               in (case consume_pairing (ae_sha env device_code)
                          \<lparr>ci_user_id = user_id, ci_token_hash = ae_sha env raw_token,
                           ci_token_prefix = take_chars 16 raw_token, ci_label = label,
                           ci_issued_at = now, ci_expires_at = expires_at\<rparr> (between s) of
                     (Inr (Some _), s') \<Rightarrow>
                       (Polled 200 \<lparr>pp_status = ''accepted'', pp_token = Some raw_token, pp_expires_at = Some expires_at\<rparr>, s')
                   | (Inr None, s') \<Rightarrow> (Minimal 409 ''rejected'', s')
                   | (Inl _, s') \<Rightarrow> (Minimal 500 ''failed'', s'))))"

definition approve_pairing_handler ::
  "agent_env \<Rightarrow> i32 \<Rightarrow> string \<Rightarrow> i32 \<Rightarrow> agent_store \<Rightarrow> agent_response \<times> agent_store" where
  "approve_pairing_handler env user_id user_code now s =
     (if \<not> has_active_subscription env user_id then (Minimal 403 ''rejected'', s)
      else if \<not> valid_user_code (normalize_user_code env user_code) then (Minimal 400 ''rejected'', s)
      else
        (case approve_pairing user_id (ae_sha env (normalize_user_code env user_code)) now s of
           (Inr (Some _), s') \<Rightarrow> (Minimal 200 ''accepted'', s')
         | (Inr None, s') \<Rightarrow> (Minimal 400 ''rejected'', s')
         | (Inl _, s') \<Rightarrow> (Minimal 500 ''failed'', s')))"

definition list_credentials_handler :: "i32 \<Rightarrow> i32 \<Rightarrow> agent_store \<Rightarrow> agent_response" where
  "list_credentials_handler user_id now s =
     Listed (map (\<lambda>c. \<lparr>cs_id = agc_id c, cs_label = agc_label c, cs_token_prefix = agc_token_prefix c,
                       cs_scopes = [''create reminders'', ''watch email replies''], cs_daily_cap = agc_daily_cap c,
                       cs_daily_used = agc_daily_used c, cs_expires_at = agc_expires_at c,
                       cs_created_at = agc_created_at c, cs_last_used_at = agc_last_used_at c\<rparr>)
       (agent_list_credentials user_id now s))"

definition revoke_credential_handler :: "i32 \<Rightarrow> i32 \<Rightarrow> i32 \<Rightarrow> agent_store \<Rightarrow> agent_response \<times> agent_store" where
  "revoke_credential_handler user_id cid now s =
     (case agent_revoke_credential user_id cid now s of
        (revoked, s') \<Rightarrow> (if revoked then NoContent else Minimal 404 ''rejected'', s'))"

text \<open>The raw token of a request, if it is well formed.\<close>

definition agent_token :: "agent_env \<Rightarrow> agent_headers \<Rightarrow> string option" where
  "agent_token env hs =
     Option.bind (agent_bearer env hs) (\<lambda>t. if valid_prefixed_hex t AGENT_TOKEN_PREFIX 64 then Some t else None)"

definition revoke_current_credential ::
  "agent_env \<Rightarrow> agent_headers \<Rightarrow> i32 \<Rightarrow> agent_store \<Rightarrow> agent_response \<times> agent_store" where
  "revoke_current_credential env hs now s =
     (if ah_query hs then (Minimal 400 ''rejected'', s)
      else
        (case agent_token env hs of
           None \<Rightarrow> (Minimal 401 ''rejected'', s)
         | Some raw \<Rightarrow>
             (case revoke_by_token_hash (ae_sha env raw) now s of
                (revoked, s') \<Rightarrow> (if revoked then NoContent else Minimal 401 ''rejected'', s'))))"

section \<open>Actions\<close>

text \<open>\<open>settle\<close> records an outcome under the key and in the audit; both calls ignore their errors.\<close>

definition settle_action ::
  "i32 \<Rightarrow> agent_credential \<Rightarrow> string \<Rightarrow> string \<Rightarrow> i32 \<Rightarrow> agent_store \<Rightarrow> agent_store" where
  "settle_action reservation c kind outcome now s =
     snd (agent_audit (agc_id c) (agc_user_id c) kind outcome now (snd (agent_complete reservation outcome s)))"

definition finish_action ::
  "i32 \<Rightarrow> agent_credential \<Rightarrow> string \<Rightarrow> string \<Rightarrow> i32 \<Rightarrow> agent_store \<Rightarrow> agent_response \<times> agent_store" where
  "finish_action reservation c kind outcome now s =
     (Minimal 200 outcome, settle_action reservation c kind outcome now s)"

definition abort_action ::
  "i32 \<Rightarrow> agent_credential \<Rightarrow> string \<Rightarrow> i32 \<Rightarrow> agent_store \<Rightarrow> agent_response \<times> agent_store" where
  "abort_action reservation c kind now s =
     (Minimal 500 ''failed'', snd (agent_audit (agc_id c) (agc_user_id c) kind ''failed'' now (agent_clear reservation s)))"

text \<open>
  The part both actions share, from the token to the subscription check: authenticate, reserve the
  key, spend a daily action. The result is the answer, or the reservation and the credential.
\<close>

definition begin_action ::
  "agent_env \<Rightarrow> agent_headers \<Rightarrow> string \<Rightarrow> string \<Rightarrow> string \<Rightarrow> i32 \<Rightarrow> agent_store
   \<Rightarrow> (agent_response + i32 \<times> agent_credential) \<times> agent_store" where
  "begin_action env hs scope kind key now s =
     (case agent_token env hs of
        None \<Rightarrow> (Inl (Minimal 401 ''rejected''), s)
      | Some raw \<Rightarrow>
          (case authenticate_credential (ae_sha env raw) scope now s of
             None \<Rightarrow> (Inl (Minimal 401 ''rejected''), s)
           | Some preflight \<Rightarrow>
               (case reserve_idempotency (ae_others env 0) (ae_commits env) (agc_id preflight) kind (ae_sha env key) now s of
                  (Inr (AgReplayed t), s1) \<Rightarrow> (Inl (Minimal 200 (static_outcome t)), s1)
                | (Inr AgInFlight, s1) \<Rightarrow> (Inl (Minimal 409 ''rejected''), s1)
                | (Inl _, s1) \<Rightarrow> (Inl (Minimal 500 ''failed''), s1)
                | (Inr (AgFresh reservation), s1) \<Rightarrow>
                    (case claim_credential (\<lambda>i. ae_others env (Suc i)) (ae_sha env raw) scope now s1 of
                       (CredAccepted c, s2) \<Rightarrow>
                         if agc_id c \<noteq> agc_id preflight
                         then (Inl (Minimal 401 ''rejected''), agent_clear reservation s2)
                         else if \<not> has_active_subscription env (agc_user_id c)
                         then (Inl (Minimal 403 ''rejected''), settle_action reservation c kind ''rejected'' now s2)
                         else (Inr (reservation, c), s2)
                     | (CredOverCap, s2) \<Rightarrow> (Inl (Minimal 429 ''rejected''), agent_clear reservation s2)
                     | (CredInvalid, s2) \<Rightarrow> (Inl (Minimal 401 ''rejected''), agent_clear reservation s2)))))"

definition agent_reminder_event :: "i32 \<Rightarrow> string \<Rightarrow> i32 \<Rightarrow> i32 \<Rightarrow> new_ont_event" where
  "agent_reminder_event user_id message remind_at now =
     \<lparr>ne_user_id = user_id, ne_description = message, ne_remind_at = Some remind_at, ne_due_at = Some remind_at,
      ne_status = ''active'', ne_created_at = now, ne_updated_at = now\<rparr>"

definition agent_create_reminder ::
  "agent_env \<Rightarrow> agent_headers \<Rightarrow> string \<Rightarrow> string \<Rightarrow> i32 \<Rightarrow> agent_app \<Rightarrow> agent_response \<times> agent_app" where
  "agent_create_reminder env hs message at now s =
     (if ah_query hs then (Minimal 400 ''rejected'', s)
      else
        (case validate_reminder_input env message at now of
           None \<Rightarrow> (Minimal 400 ''rejected'', s)
         | Some (message, remind_at) \<Rightarrow>
             (case agent_idempotency_key env hs of
                None \<Rightarrow> (Minimal 400 ''rejected'', s)
              | Some key \<Rightarrow>
                  (case begin_action env hs ''reminders'' ''reminder'' key now (app_agent s) of
                     (Inl answer, a) \<Rightarrow> (answer, s\<lparr>app_agent := a\<rparr>)
                   | (Inr (reservation, c), a) \<Rightarrow>
                       (case create_reminder (agent_reminder_event (agc_user_id c) message remind_at now) ''UTC'' now
                               (app_events s) of
                          (Inr _, events) \<Rightarrow>
                            (case finish_action reservation c ''reminder'' ''accepted'' now a of
                               (answer, a') \<Rightarrow> (answer, \<lparr>app_agent = a', app_events = events\<rparr>))
                        | (Inl _, events) \<Rightarrow>
                            (case abort_action reservation c ''reminder'' now a of
                               (answer, a') \<Rightarrow> (answer, \<lparr>app_agent = a', app_events = events\<rparr>)))))))"

definition agent_create_reply_watch ::
  "agent_env \<Rightarrow> agent_headers \<Rightarrow> string \<Rightarrow> string option \<Rightarrow> i32 \<Rightarrow> i32 \<Rightarrow> agent_store
   \<Rightarrow> agent_response \<times> agent_store" where
  "agent_create_reply_watch env hs raw_email label expires_in_seconds now s =
     (let email = to_ascii_lowercase (trim raw_email);
          label = (case label of None \<Rightarrow> Some email | Some l \<Rightarrow> printable l 64)
      in if ah_query hs then (Minimal 400 ''rejected'', s)
         else if \<not> valid_email email \<or> expires_in_seconds < 900 \<or> 86400 < expires_in_seconds
         then (Minimal 400 ''rejected'', s)
         else
           (case label of
              None \<Rightarrow> (Minimal 400 ''rejected'', s)
            | Some label \<Rightarrow>
                (case agent_idempotency_key env hs of
                   None \<Rightarrow> (Minimal 400 ''rejected'', s)
                 | Some key \<Rightarrow>
                     (case begin_action env hs ''reply_watch_email'' ''reply_watch_email'' key now s of
                        (Inl answer, a) \<Rightarrow> (answer, a)
                      | (Inr (reservation, c), a) \<Rightarrow>
                          (case create_email_reply_watches (agc_user_id c)
                                  (active_imap_connection_ids (agc_user_id c) a) email label now
                                  (wrap_i32 (now + expires_in_seconds)) MAX_ACTIVE_REPLY_WATCHES a of
                             (Inr True, a') \<Rightarrow> finish_action reservation c ''reply_watch_email'' ''accepted'' now a'
                           | (Inr False, a') \<Rightarrow>
                               (Minimal 409 ''rejected'',
                                settle_action reservation c ''reply_watch_email'' ''rejected'' now a')
                           | (Inl _, a') \<Rightarrow> abort_action reservation c ''reply_watch_email'' now a')))))"

end
