(* ===== verification/AgentProperties.thy ===== *)
theory AgentProperties
  imports AgentHandlers ReminderProperties
begin

text \<open>
  What the agent API promises: the quota of a credential, how a credential comes about, what a repeated
  action answers, and what an accepted action leaves behind.
\<close>

section \<open>Claims and sessions\<close>

text \<open>
  Whatever other transactions do between the statements of a claim, the counters of all
  credentials stay between 0 and their caps, and an action is granted only to a credential that is
  neither revoked nor expired and had one left.
\<close>

theorem agent_claim_sound:
  assumes "agent_ok s" "\<And>i u. agent_ok u \<Longrightarrow> agent_ok (others i u)"
    and "claim_credential others h scope now s = (r, s')"
  shows "agent_ok s' \<and> (\<forall>c. r = CredAccepted c \<longrightarrow> agc_revoked_at c = None \<and> now < agc_expires_at c \<and>
    1 \<le> agc_daily_used c \<and> agc_daily_used c \<le> agc_daily_cap c \<and> agc_last_used_at c = Some now)"
proof
  show "agent_ok s'" using claim_credential_ok [where others = others, OF assms(1,2)] assms(3) by (metis snd_conv)
  show "\<forall>c. r = CredAccepted c \<longrightarrow> agc_revoked_at c = None \<and> now < agc_expires_at c \<and>
    1 \<le> agc_daily_used c \<and> agc_daily_used c \<le> agc_daily_cap c \<and> agc_last_used_at c = Some now"
  proof (intro allI impI)
    fix c
    assume "r = CredAccepted c"
    let ?t = "others 1 (others 0 (reset_daily h now s))"
    have ok: "agent_ok ?t" using assms(1,2) by (simp add: reset_daily_ok)
    from assms(3) \<open>r = CredAccepted c\<close> obtain i where "fst (spend_action i now ?t) = Some c"
      by (auto simp: claim_credential_def Let_def split: option.splits if_splits prod.splits) (metis fst_conv)
    then obtain x where "x \<in> set (ag_credentials ?t)" "agc_revoked_at x = None" "now < agc_expires_at x"
        "agc_daily_used x < agc_daily_cap x" "c = spend_row now x"
      by (auto simp: spend_action_def Let_def dest!: sql_update_get_Some)
    with ok show "agc_revoked_at c = None \<and> now < agc_expires_at c \<and>
        1 \<le> agc_daily_used c \<and> agc_daily_used c \<le> agc_daily_cap c \<and> agc_last_used_at c = Some now"
      by (auto simp: agent_ok_def)
  qed
qed

text \<open>
  The daily cap of a credential is exact: inside one window any sequence of claims raises the
  counter by the number granted, never past the cap.
\<close>

theorem agent_daily_cap:
  assumes "agent_ok s" "\<forall>a \<in> set claims. agent_in_window h a s" "actions_used h s \<le> actions_cap h s"
  shows "actions_used h (snd (grants (agent_claim_of h) claims s)) =
      actions_used h s + int (fst (grants (agent_claim_of h) claims s)) \<and>
    actions_used h s + int (fst (grants (agent_claim_of h) claims s)) \<le> actions_cap h s"
  using action_cap.grants_exact [OF assms(1,2)] action_cap.grants_within_cap [OF assms(1,2)] assms(3) by simp


section \<open>User codes\<close>

lemma alphabet_index: "unat (b AND 31 :: 8 word) < 32"
proof -
  have "b AND 31 = take_bit 5 b" by (simp add: take_bit_eq_mask mask_eq_exp_minus_1)
  then show ?thesis by (simp add: unsigned_take_bit_eq take_bit_nat_less_exp [where n = 5, simplified])
qed

lemma alphabet_chars:
  "\<forall>c \<in> set USER_CODE_ALPHABET. \<not> is_continuation c \<and> \<not> is_continuation (ascii_lower c) \<and> is_ascii c \<and>
     is_ascii (ascii_lower c) \<and> ascii_upper c = c \<and> ascii_upper (ascii_lower c) = c \<and> c \<noteq> CHR ''-'' \<and>
     ascii_lower c \<noteq> CHR ''-'' \<and> [c] \<notin> set utf8_whitespace \<and> [ascii_lower c] \<notin> set utf8_whitespace"
  by code_simp

lemma user_code_raw_chars: "set (user_code_raw bytes) \<subseteq> set USER_CODE_ALPHABET"
proof -
  have "length USER_CODE_ALPHABET = 32" by code_simp
  with alphabet_index show ?thesis by (auto simp: user_code_raw_def intro!: nth_mem)
qed

definition user_code_char :: "char \<Rightarrow> bool" where
  "user_code_char c \<longleftrightarrow>
     c = CHR ''-'' \<or> \<not> is_continuation c \<and> is_ascii c \<and> [c] \<notin> set utf8_whitespace \<and> c \<noteq> CHR ''-''"

lemma user_code_chars:
  assumes "c \<in> set USER_CODE_ALPHABET"
  shows "user_code_char c" "user_code_char (ascii_lower c)" "c \<noteq> CHR ''-''" "ascii_lower c \<noteq> CHR ''-''"
    "ascii_upper c = c" "ascii_upper (ascii_lower c) = c" "\<not> is_continuation c"
  using bspec [OF alphabet_chars assms] by (simp_all only: user_code_char_def) simp_all

lemma normalize_chars:
  assumes "\<forall>c \<in> set cs. user_code_char c"
  shows "normalize_user_code env cs = map ascii_upper (filter (\<lambda>c. c \<noteq> CHR ''-'') cs)"
proof -
  have "\<not> is_continuation CHR ''-''" by code_simp
  then have "\<forall>c \<in> set cs. \<not> is_continuation c" using assms unfolding user_code_char_def by metis
  then have chars: "utf8_chars cs = map (\<lambda>c. [c]) cs" by (rule utf8_chars_ascii)
  have "concat (map (char_uppercase env) (filter (\<lambda>c. c \<noteq> ''-'' \<and> \<not> is_whitespace c) (map (\<lambda>c. [c]) cs))) =
        map ascii_upper (filter (\<lambda>c. c \<noteq> CHR ''-'') cs)"
    using assms
  proof (induction cs)
    case (Cons c cs)
    then have "user_code_char c" by simp
    then have "c = CHR ''-'' \<or> c \<noteq> CHR ''-'' \<and> is_ascii c \<and> \<not> is_whitespace [c]"
      unfolding user_code_char_def is_whitespace_def by metis
    with Cons show ?case by (elim disjE) simp_all
  qed simp
  with chars show ?thesis by (simp add: normalize_user_code_def)
qed

lemma user_code_facts:
  assumes "length bytes = 12"
  shows "normalize_user_code env (random_user_code bytes) = user_code_raw bytes \<and>
    normalize_user_code env (map ascii_lower (random_user_code bytes)) = user_code_raw bytes \<and>
    normalize_user_code env (user_code_raw bytes) = user_code_raw bytes \<and>
    valid_user_code (user_code_raw bytes)"
proof -
  let ?raw = "user_code_raw bytes"
  have len: "length ?raw = 12" using assms by (simp add: user_code_raw_def)
  have raw: "c \<in> set USER_CODE_ALPHABET" if "c \<in> set ?raw" for c using that user_code_raw_chars by blast
  have dash: "ascii_lower CHR ''-'' = CHR ''-''" "user_code_char CHR ''-''" by code_simp+
  have code: "random_user_code bytes = take 4 ?raw @ [CHR ''-''] @ take 4 (drop 4 ?raw) @ [CHR ''-''] @ take 4 (drop 8 ?raw)"
    by (simp add: random_user_code_def Let_def)
  have parts: "c \<in> set ?raw" if "c \<in> set (take 4 ?raw) \<or> c \<in> set (take 4 (drop 4 ?raw)) \<or> c \<in> set (take 4 (drop 8 ?raw))" for c
    using that by (meson in_set_dropD in_set_takeD)
  have join: "take 4 ?raw @ take 4 (drop 4 ?raw) @ take 4 (drop 8 ?raw) = ?raw"
    using len take_add [of 4 4 ?raw] append_take_drop_id [of 8 ?raw] by simp
  have keep: "filter (\<lambda>c. c \<noteq> CHR ''-'') xs = xs" "map ascii_upper xs = xs"
    "filter (\<lambda>c. c \<noteq> CHR ''-'') (map ascii_lower xs) = map ascii_lower xs" "map (ascii_upper \<circ> ascii_lower) xs = xs"
    if "set xs \<subseteq> set ?raw" for xs
    using that raw user_code_chars(3-6) by (simp_all add: filter_id_conv map_idI subset_iff)
  have sub: "set (take 4 ?raw) \<subseteq> set ?raw" "set (take 4 (drop 4 ?raw)) \<subseteq> set ?raw" "set (take 4 (drop 8 ?raw)) \<subseteq> set ?raw"
    using parts by blast+
  have "normalize_user_code env (random_user_code bytes) = ?raw"
    using user_code_chars(1) [OF raw] parts dash(2)
    by (subst normalize_chars) (auto simp: code keep(1,2) sub join)
  moreover have "normalize_user_code env (map ascii_lower (random_user_code bytes)) = ?raw"
    using user_code_chars(2) [OF raw] parts dash
    by (subst normalize_chars) (auto simp: code keep(3,4) sub join)
  moreover have "normalize_user_code env ?raw = ?raw"
    using user_code_chars(1) [OF raw] by (subst normalize_chars) (auto simp: keep)
  moreover have "valid_user_code ?raw"
  proof -
    have "utf8_chars USER_CODE_ALPHABET = map (\<lambda>c. [c]) USER_CODE_ALPHABET" "utf8_chars ?raw = map (\<lambda>c. [c]) ?raw"
      using user_code_chars(7) raw by (simp_all add: utf8_chars_ascii)
    with len raw show ?thesis by (auto simp: valid_user_code_def)
  qed
  ultimately show ?thesis by simp
qed

text \<open>
  The code a user is shown is the code that is stored: typing it as displayed, in lower case,
  or without its dashes normalizes to the same twelve characters, which the approval accepts.
\<close>

theorem user_code_normalizes:
  assumes "length bytes = 12"
  shows "normalize_user_code env (random_user_code bytes) = user_code_raw bytes \<and>
    normalize_user_code env (map ascii_lower (random_user_code bytes)) = user_code_raw bytes \<and>
    normalize_user_code env (user_code_raw bytes) = user_code_raw bytes \<and>
    valid_user_code (user_code_raw bytes)"
  using user_code_facts [OF assms] .

section \<open>What an action leaves under its key\<close>

lemma authenticate_update:
  assumes "\<And>c. agc_id (f c) = agc_id c \<and> agc_token_hash (f c) = agc_token_hash c \<and> agc_revoked_at (f c) = agc_revoked_at c \<and>
      agc_expires_at (f c) = agc_expires_at c \<and> agc_scopes (f c) = agc_scopes c"
    and "ag_credentials s' = sql_update p f (ag_credentials s)"
  shows "map_option agc_id (authenticate_credential h scope t s') = map_option agc_id (authenticate_credential h scope t s)"
proof -
  have "sql_first (\<lambda>c. agc_token_hash c = h \<and> agc_revoked_at c = None \<and> t < agc_expires_at c) (ag_credentials s') =
    map_option (\<lambda>c. if p c then f c else c)
      (sql_first (\<lambda>c. agc_token_hash c = h \<and> agc_revoked_at c = None \<and> t < agc_expires_at c) (ag_credentials s))"
    unfolding assms(2) using assms(1) by (intro sql_first_update) simp
  then show ?thesis
    using assms(1) by (auto simp: authenticate_credential_def has_scope_def split: option.splits)
qed

lemma authenticate_cong:
  "ag_credentials s' = ag_credentials s \<Longrightarrow> authenticate_credential h scope t s' = authenticate_credential h scope t s"
  by (simp add: authenticate_credential_def)

lemma authenticate_later:
  assumes "agent_ok s" "authenticate_credential h scope now s = Some c" "later < agc_expires_at c"
  shows "authenticate_credential h scope later s = Some c"
proof -
  from assms(2) have c: "c \<in> set (ag_credentials s)" "agc_token_hash c = h" "agc_revoked_at c = None" "has_scope scope c"
    by (auto simp: authenticate_credential_def dest: sql_first_Some split: option.splits if_splits)
  have "distinct (map agc_token_hash (ag_credentials s))" using assms(1) by (simp add: agent_ok_def)
  from sql_first_unique [OF this c(1), of "\<lambda>c. agc_token_hash c = h \<and> agc_revoked_at c = None \<and> later < agc_expires_at c"]
  show ?thesis using c assms(3) by (auto simp: authenticate_credential_def)
qed

lemma claim_keeps_rows:
  assumes "claim_credential (\<lambda>i u. u) h scope now s = (r, s')"
  shows "ag_keys s' = ag_keys s"
    and "map_option agc_id (authenticate_credential h' scope' t s') = map_option agc_id (authenticate_credential h' scope' t s)"
proof -
  have reset: "map_option agc_id (authenticate_credential h' scope' t (reset_daily h now s)) =
      map_option agc_id (authenticate_credential h' scope' t s)"
    by (rule authenticate_update) (auto simp: reset_daily_def)
  have spend: "map_option agc_id (authenticate_credential h' scope' t (snd (spend_action i now u))) =
      map_option agc_id (authenticate_credential h' scope' t u)" for i u
    by (rule authenticate_update) (auto simp: spend_action_def Let_def spend_row_def)
  have keys: "ag_keys (snd (spend_action i now u)) = ag_keys u" "ag_keys (reset_daily h now u) = ag_keys u" for i u
    by (simp_all add: spend_action_def reset_daily_def Let_def)
  have "s' = reset_daily h now s \<or> (\<exists>i. s' = snd (spend_action i now (reset_daily h now s)))"
    using assms by (auto simp: claim_credential_def Let_def split: option.splits if_splits prod.splits) (metis snd_conv)+
  then show "ag_keys s' = ag_keys s"
    and "map_option agc_id (authenticate_credential h' scope' t s') = map_option agc_id (authenticate_credential h' scope' t s)"
    using reset spend keys by auto
qed

lemma settle_action_rows:
  "ag_credentials (settle_action i c kind out now s) = ag_credentials s"
  "out \<in> set action_outcomes \<Longrightarrow> action_key a key (settle_action i c kind out now s) =
     map_option (\<lambda>k. if agk_id k = i then k\<lparr>agk_outcome := Some out\<rparr> else k) (action_key a key s)"
  by (simp_all add: settle_action_def agent_audit_def agent_complete_def action_key_def row_of_update agk_triple_def)

lemma claim_accepted_row:
  assumes "claim_credential (\<lambda>i u. u) h scope now s = (CredAccepted c, s')"
  obtains x where "x \<in> set (ag_credentials s)" "agc_id x = agc_id c" "agc_user_id x = agc_user_id c"
proof -
  from assms obtain i where "fst (spend_action i now (reset_daily h now s)) = Some c"
    by (auto simp: claim_credential_def Let_def split: option.splits if_splits prod.splits) (metis fst_conv)
  then obtain y where y: "y \<in> set (ag_credentials (reset_daily h now s))" "c = spend_row now y"
    by (auto simp: spend_action_def Let_def dest!: sql_update_get_Some)
  from y(1) obtain x where "x \<in> set (ag_credentials s)" "agc_id x = agc_id y" "agc_user_id x = agc_user_id y"
    unfolding reset_daily_def by (auto elim!: in_sql_updateE)
  with y(2) that show thesis by simp
qed

text \<open>The state in which a request with a known and well-formed token starts a new action.\<close>

definition new_action ::
  "agent_env \<Rightarrow> agent_headers \<Rightarrow> string \<Rightarrow> string \<Rightarrow> string \<Rightarrow> i32 \<Rightarrow> agent_store \<Rightarrow> agent_credential \<Rightarrow> bool" where
  "new_action env hs scope kind key now s c \<longleftrightarrow>
     agent_ok s \<and> (\<forall>i u. ae_others env i u = u) \<and> (\<forall>x. char_count (ae_sha env x) = 64) \<and>
     agent_idempotency_key env hs = Some key \<and>
     (\<exists>raw. agent_token env hs = Some raw \<and> authenticate_credential (ae_sha env raw) scope now s = Some c) \<and>
     kind \<in> set action_kinds \<and> action_key (agc_id c, kind) (ae_sha env key) s = None"

text \<open>A new action that is granted, or refused for the subscription, holds the row of its key.\<close>

lemma begin_action_outcome:
  assumes "new_action env hs scope kind key now s p"
    and "agent_token env hs = Some raw" "later < agc_expires_at p"
  shows "begin_action env hs scope kind key now s = (Inr (i, c), s') \<Longrightarrow>
      agc_user_id c = agc_user_id p \<and> has_active_subscription env (agc_user_id p) \<and>
      action_key (agc_id p, kind) (ae_sha env key) s' =
        Some \<lparr>agk_id = i, agk_credential_id = agc_id p, agk_action_kind = kind, agk_key_hash = ae_sha env key,
              agk_outcome = None, agk_created_at = now\<rparr> \<and>
      map_option agc_id (authenticate_credential (ae_sha env raw) scope later s') = Some (agc_id p)"
    and "begin_action env hs scope kind key now s = (Inl answer, s') \<Longrightarrow> answer = Minimal 200 x \<Longrightarrow> False"
    and "begin_action env hs scope kind key now s = (Inl (Minimal 403 x), s') \<Longrightarrow>
      (\<exists>k. action_key (agc_id p, kind) (ae_sha env key) s' = Some k \<and> agk_outcome k = Some ''rejected'' \<and>
           agk_created_at k = now) \<and>
      map_option agc_id (authenticate_credential (ae_sha env raw) scope later s') = Some (agc_id p)"
proof -
  let ?h = "ae_sha env raw" and ?k = "ae_sha env key"
  let ?row = "\<lparr>agk_id = ag_next_key_id s, agk_credential_id = agc_id p, agk_action_kind = kind, agk_key_hash = ?k,
               agk_outcome = None, agk_created_at = now\<rparr>"
  from assms(1,2) have new: "agent_ok s" "\<And>i. ae_others env i = (\<lambda>u. u)" "char_count ?k = 64"
      "authenticate_credential ?h scope now s = Some p" "kind \<in> set action_kinds" "action_key (agc_id p, kind) ?k s = None"
    by (auto simp: new_action_def)
  have p: "p \<in> set (ag_credentials s)"
    using new(4) by (auto simp: authenticate_credential_def dest: sql_first_Some split: option.splits if_splits)
  with new have known: "action_known (agc_id p, kind) s" by (auto simp: action_known_def)
  note ins = insert_agent_key_fresh [OF known new(6,3), where now = now, unfolded fst_conv snd_conv]
  obtain s1 where s1: "insert_agent_key (agc_id p) kind ?k now s = (Inr (ag_next_key_id s), s1)"
    using ins(1) by metis
  have "ag_credentials (snd (insert_agent_key (agc_id p) kind ?k now s)) = ag_credentials s"
    by (simp add: insert_agent_key_def)
  then have creds: "ag_credentials s1 = ag_credentials s" by (simp add: s1)
  then have auth1: "authenticate_credential ?h scope t s1 = authenticate_credential ?h scope t s" for t
    by (rule authenticate_cong)
  have reserve: "reserve_idempotency (ae_others env 0) (ae_commits env) (agc_id p) kind ?k now s = (Inr (AgFresh (ag_next_key_id s)), s1)"
    using new(6) by (simp add: reserve_idempotency_def action_key_def new(2) s1)
  obtain r s2 where claim: "claim_credential (\<lambda>i u. u) ?h scope now s1 = (r, s2)" by fastforce
  note kept = claim_keeps_rows [OF claim]
  have row: "action_key (agc_id p, kind) ?k s2 = Some ?row"
    using ins(2) [of ?k] kept(1) by (simp add: action_key_def s1)
  have auth: "map_option agc_id (authenticate_credential ?h scope later s2) = Some (agc_id p)"
    using kept(2) [of ?h scope later] auth1 authenticate_later [OF new(1,4) assms(3)] by simp
  have run: "begin_action env hs scope kind key now s =
    (case r of
       CredAccepted c \<Rightarrow>
         if agc_id c \<noteq> agc_id p then (Inl (Minimal 401 ''rejected''), agent_clear (ag_next_key_id s) s2)
         else if \<not> has_active_subscription env (agc_user_id c)
         then (Inl (Minimal 403 ''rejected''), settle_action (ag_next_key_id s) c kind ''rejected'' now s2)
         else (Inr (ag_next_key_id s, c), s2)
     | CredOverCap \<Rightarrow> (Inl (Minimal 429 ''rejected''), agent_clear (ag_next_key_id s) s2)
     | CredInvalid \<Rightarrow> (Inl (Minimal 401 ''rejected''), agent_clear (ag_next_key_id s) s2))"
    using claim by (simp add: begin_action_def assms(2) new(2,4) reserve [unfolded new(2)] split: credential_claim.split)
  have owner: "agc_user_id c = agc_user_id p" if accepted: "r = CredAccepted c" "agc_id c = agc_id p" for c
  proof -
    obtain x where "x \<in> set (ag_credentials s1)" "agc_id x = agc_id c" "agc_user_id x = agc_user_id c"
      using claim_accepted_row claim accepted(1) by metis
    then show ?thesis
      using accepted(2) creds p new(1) by (metis agent_ok_def distinct_map_eqD)
  qed
  show "agc_user_id c = agc_user_id p \<and> has_active_subscription env (agc_user_id p) \<and>
      action_key (agc_id p, kind) ?k s' =
        Some \<lparr>agk_id = i, agk_credential_id = agc_id p, agk_action_kind = kind, agk_key_hash = ?k,
              agk_outcome = None, agk_created_at = now\<rparr> \<and>
      map_option agc_id (authenticate_credential ?h scope later s') = Some (agc_id p)"
    if "begin_action env hs scope kind key now s = (Inr (i, c), s')"
    using that row auth owner by (auto simp: run split: credential_claim.splits if_splits)
  show False if "begin_action env hs scope kind key now s = (Inl answer, s')" "answer = Minimal 200 x"
    using that by (auto simp: run split: credential_claim.splits if_splits)
  show "(\<exists>k. action_key (agc_id p, kind) ?k s' = Some k \<and> agk_outcome k = Some ''rejected'' \<and> agk_created_at k = now) \<and>
      map_option agc_id (authenticate_credential ?h scope later s') = Some (agc_id p)"
    if "begin_action env hs scope kind key now s = (Inl (Minimal 403 x), s')"
  proof -
    from that obtain c where s': "s' = settle_action (ag_next_key_id s) c kind ''rejected'' now s2"
      by (auto simp: run split: credential_claim.splits if_splits)
    have "authenticate_credential ?h scope later s' = authenticate_credential ?h scope later s2"
      by (rule authenticate_cong) (simp add: s' settle_action_rows(1))
    with auth row show ?thesis by (simp add: s' settle_action_rows(2) action_outcomes_def)
  qed
qed

lemma begin_action_replays:
  assumes "agent_token env hs = Some raw"
    and "map_option agc_id (authenticate_credential (ae_sha env raw) scope now s) = Some cid"
    and "action_key (cid, kind) (ae_sha env key) s = Some k" "agk_outcome k = Some t" "agent_key_live now (agk_created_at k)"
  shows "begin_action env hs scope kind key now s = (Inl (Minimal 200 (static_outcome t)), s)"
  using assms by (auto simp: begin_action_def reserve_idempotency_def action_key_def)

section \<open>Repeated actions\<close>

lemma reminder_accepted_state:
  assumes "new_action env hs ''reminders'' ''reminder'' key now (app_agent s) c"
    and "agent_create_reminder env hs message at now s = (Minimal 200 ''accepted'', s1)"
    and "agent_token env hs = Some raw" "later < agc_expires_at c"
  obtains body remind_at k e where "validate_reminder_input env message at now = Some (body, remind_at)" "\<not> ah_query hs"
    "create_reminder (agent_reminder_event (agc_user_id c) body remind_at now) ''UTC'' now (app_events s) = (Inr e, app_events s1)"
    "has_active_subscription env (agc_user_id c)"
    "action_key (agc_id c, ''reminder'') (ae_sha env key) (app_agent s1) = Some k" "agk_outcome k = Some ''accepted''"
    "agk_created_at k = now"
    "map_option agc_id (authenticate_credential (ae_sha env raw) ''reminders'' later (app_agent s1)) = Some (agc_id c)"
proof -
  note begin_action = begin_action_outcome [OF assms(1,3,4)]
  have key: "agent_idempotency_key env hs = Some key" using assms(1) by (simp add: new_action_def)
  from assms(2) key obtain body remind_at where input: "\<not> ah_query hs"
      "validate_reminder_input env message at now = Some (body, remind_at)"
    by (auto simp: agent_create_reminder_def split: if_splits option.splits)
  obtain r a where start: "begin_action env hs ''reminders'' ''reminder'' key now (app_agent s) = (r, a)" by fastforce
  from assms(2) input key start begin_action(2) obtain i c' where r: "r = Inr (i, c')"
    by (cases r) (auto simp: agent_create_reminder_def)
  note held = begin_action(1) [OF start [unfolded r]]
  from assms(2) input key start held obtain e where
    stored: "create_reminder (agent_reminder_event (agc_user_id c) body remind_at now) ''UTC'' now (app_events s) = (Inr e, app_events s1)"
      "app_agent s1 = settle_action i c' ''reminder'' ''accepted'' now a"
    by (auto simp: agent_create_reminder_def r finish_action_def abort_action_def split: prod.splits sum.splits)
  have "authenticate_credential h scope t (app_agent s1) = authenticate_credential h scope t a" for h scope t
    by (rule authenticate_cong) (simp add: stored(2) settle_action_rows(1))
  moreover obtain k where "action_key (agc_id c, ''reminder'') (ae_sha env key) (app_agent s1) = Some k"
      "agk_outcome k = Some ''accepted''" "agk_created_at k = now"
    using held by (simp add: stored(2) settle_action_rows(2) action_outcomes_def)
  ultimately show thesis using held input stored(1) that by simp
qed

text \<open>
  A repeated action is answered from the record: after a reminder was accepted, any request
  with the same key inside the next day gets the same answer, and creates, charges and writes nothing.
\<close>

theorem agent_retry_replays:
  assumes "new_action env hs ''reminders'' ''reminder'' key now (app_agent s) c"
    and "agent_create_reminder env hs message at now s = (Minimal 200 ''accepted'', s1)"
    and "later < agc_expires_at c" "agent_key_live later now"
    and "validate_reminder_input env message' at' later \<noteq> None"
  shows "agent_create_reminder env hs message' at' later s1 = (Minimal 200 ''accepted'', s1)"
proof -
  obtain raw where raw: "agent_token env hs = Some raw" using assms(1) by (auto simp: new_action_def)
  have key: "agent_idempotency_key env hs = Some key" using assms(1) by (simp add: new_action_def)
  obtain k where k: "\<not> ah_query hs" "action_key (agc_id c, ''reminder'') (ae_sha env key) (app_agent s1) = Some k"
      "agk_outcome k = Some ''accepted''" "agk_created_at k = now"
      "map_option agc_id (authenticate_credential (ae_sha env raw) ''reminders'' later (app_agent s1)) = Some (agc_id c)"
    using reminder_accepted_state [OF assms(1,2) raw assms(3)] by metis
  from begin_action_replays [OF raw k(5,2,3)] assms(4) k(4)
  have "begin_action env hs ''reminders'' ''reminder'' key later (app_agent s1) = (Inl (Minimal 200 ''accepted''), app_agent s1)"
    by (simp add: static_outcome_def)
  with key k(1) assms(5) show ?thesis by (auto simp: agent_create_reminder_def)
qed

text \<open>
  A refusal is repeated as a success of HTTP: a reminder refused with 403 because the
  subscription had lapsed is answered 200 when the client repeats it, and it is still not created
  after the user has subscribed again, for as long as the key lives.
\<close>

theorem rejected_action_replays_as_ok:
  assumes "new_action env hs ''reminders'' ''reminder'' key now (app_agent s) c"
    and "agent_create_reminder env hs message at now s = (Minimal 403 ''rejected'', s1)"
    and "later < agc_expires_at c" "agent_key_live later now"
    and "validate_reminder_input env message' at' later \<noteq> None"
  shows "agent_create_reminder (env\<lparr>ae_tier := \<lambda>user. Some (Some ''tier 2'')\<rparr>) hs message' at' later s1 =
    (Minimal 200 ''rejected'', s1)"
proof -
  let ?env = "env\<lparr>ae_tier := \<lambda>user. Some (Some ''tier 2'')\<rparr>"
  obtain raw where raw: "agent_token env hs = Some raw" using assms(1) by (auto simp: new_action_def)
  have key: "agent_idempotency_key env hs = Some key" using assms(1) by (simp add: new_action_def)
  have same: "agent_token ?env hs = Some raw" "agent_idempotency_key ?env hs = Some key"
      "validate_reminder_input ?env message' at' later \<noteq> None" "ae_sha ?env = ae_sha env"
    using raw key assms(5)
    by (simp_all add: agent_token_def agent_bearer_def agent_idempotency_key_def validate_reminder_input_def)
  from assms(2) key obtain body remind_at where input: "\<not> ah_query hs"
      "validate_reminder_input env message at now = Some (body, remind_at)"
    by (auto simp: agent_create_reminder_def split: if_splits option.splits)
  obtain r a where start: "begin_action env hs ''reminders'' ''reminder'' key now (app_agent s) = (r, a)" by fastforce
  from assms(2) input key start have r: "r = Inl (Minimal 403 ''rejected'')" "a = app_agent s1"
    by (auto simp: agent_create_reminder_def finish_action_def abort_action_def split: sum.splits prod.splits)
  from begin_action_outcome(3) [OF assms(1) raw assms(3) start [unfolded r]] obtain k where
    k: "action_key (agc_id c, ''reminder'') (ae_sha env key) (app_agent s1) = Some k" "agk_outcome k = Some ''rejected''"
      "agk_created_at k = now"
      "map_option agc_id (authenticate_credential (ae_sha env raw) ''reminders'' later (app_agent s1)) = Some (agc_id c)"
    by auto
  from begin_action_replays [OF same(1), of "''reminders''" later "app_agent s1" "agc_id c" "''reminder''" key k] k assms(4)
  have "begin_action ?env hs ''reminders'' ''reminder'' key later (app_agent s1) = (Inl (Minimal 200 ''rejected''), app_agent s1)"
    by (simp add: same(4) static_outcome_def)
  with same input(1) show ?thesis by (auto simp: agent_create_reminder_def)
qed

text \<open>
  An accepted reminder is stored as asked: exactly one event is appended, for the owner of the
  credential, who is subscribed, with the trimmed message of at most 280 characters, between a minute
  and a year ahead.
\<close>

theorem accepted_reminder_stored:
  assumes "new_action env hs ''reminders'' ''reminder'' key now (app_agent s) c" "now < agc_expires_at c"
    and "events_ok (app_events s)" "keys_sound (app_events s)"
    and "agent_create_reminder env hs message at now s = (Minimal 200 ''accepted'', s1)"
  shows "\<exists>e. on_events (app_events s1) = on_events (app_events s) @ [e] \<and> oe_user_id e = agc_user_id c \<and>
    has_active_subscription env (agc_user_id c) \<and> oe_status e = ''active'' \<and>
    oe_description e = trim message \<and> char_count (trim message) \<le> 280 \<and>
    (\<exists>r. oe_remind_at e = Some r \<and> now + 60 \<le> r \<and> r \<le> now + 365 * 86400)"
proof -
  obtain raw where raw: "agent_token env hs = Some raw" using assms(1) by (auto simp: new_action_def)
  obtain body remind_at e where e: "validate_reminder_input env message at now = Some (body, remind_at)"
      "create_reminder (agent_reminder_event (agc_user_id c) body remind_at now) ''UTC'' now (app_events s) = (Inr e, app_events s1)"
      "has_active_subscription env (agc_user_id c)"
    using reminder_accepted_state [OF assms(1,5) raw assms(2)] by metis
  from e(1) have input: "body = trim message" "char_count (trim message) \<le> 280" "now + 60 \<le> remind_at" "remind_at \<le> now + 365 * 86400"
    by (auto simp: validate_reminder_input_def printable_def Let_def MAX_REMINDER_SECONDS_def bind_eq_Some_conv split: if_splits)
  obtain s' where s': "create_reminder (agent_reminder_event (agc_user_id c) body remind_at now) ''UTC'' now (app_events s) =
        (Inr (reminder_row (agent_reminder_event (agc_user_id c) body remind_at now) ''UTC'' (on_next_event_id (app_events s))), s')"
      "on_events s' = on_events (app_events s) @
        [reminder_row (agent_reminder_event (agc_user_id c) body remind_at now) ''UTC'' (on_next_event_id (app_events s))]"
    using create_reminder_row [OF assms(3,4)] by metis
  with e(2,3) input show ?thesis by (auto simp: reminder_row_def agent_reminder_event_def)
qed

section \<open>Reply watches\<close>

lemma watch_creates_rows:
  "ws_rows (fold (\<lambda>c w. snd (watch_create (row c) w)) cs w) =
    ws_rows w @ map (\<lambda>(c, k). \<lparr>rw_id = k, rw_user_id = nw_user_id (row c), rw_platform = nw_platform (row c),
      rw_room_id = nw_room_id (row c), rw_imap_connection_id = nw_imap_connection_id (row c),
      rw_contact_identifier = nw_contact_identifier (row c), rw_contact_display_name = nw_contact_display_name (row c),
      rw_created_at = nw_created_at (row c), rw_expires_at = nw_expires_at (row c)\<rparr>)
      (zip cs (map (\<lambda>i. ws_next_id w + int i) [0..<length cs]))"
proof (induction cs arbitrary: w)
  case (Cons c cs)
  have "map (\<lambda>i. ws_next_id w + int i) [0..<length (c # cs)] =
      ws_next_id w # map (\<lambda>i. (ws_next_id w + 1) + int i) [0..<length cs]"
    by (simp add: upt_rec [of 0] map_Suc_upt [symmetric] comp_def algebra_simps del: upt_Suc)
  with Cons show ?case by (simp add: watch_create_def Let_def)
qed simp

text \<open>
  An agent cannot arm more conversations than the limit: a watch on a sender is accepted only
  when the user has a mailbox, does not watch that sender yet and watches fewer than the limit, after
  which the sender is watched and the number is at most the limit; a refusal changes nothing.
\<close>

theorem agent_watches_capped:
  assumes "now < expires_at"
    and "create_email_reply_watches user connections email label now expires_at limit s = (Inr granted, s')"
  shows "if granted
    then connections \<noteq> [] \<and> ''email:'' @ email \<notin> set (active_groups user now s) \<and>
      ''email:'' @ email \<in> set (active_groups user now s') \<and> length (active_groups user now s') \<le> limit
    else s' = s"
proof (cases granted)
  case True
  let ?g = "''email:'' @ email"
  let ?row = "email_watch_row user email label now expires_at"
  from assms(2) True have cond: "connections \<noteq> []" "?g \<notin> set (active_groups user now s)" "length (active_groups user now s) < limit"
      "s' = s\<lparr>ag_watches := fold (\<lambda>c w. snd (watch_create (?row c) w)) connections (ag_watches s)\<rparr>"
    by (auto simp: create_email_reply_watches_def transaction_def Let_def split: if_splits)
  define new where "new = map (\<lambda>(c, k). \<lparr>rw_id = k, rw_user_id = user, rw_platform = ''email'', rw_room_id = None,
      rw_imap_connection_id = Some c, rw_contact_identifier = email, rw_contact_display_name = label,
      rw_created_at = now, rw_expires_at = expires_at\<rparr>)
      (zip connections (map (\<lambda>i. ws_next_id (ag_watches s) + int i) [0..<length connections]))"
  have rows: "ws_rows (ag_watches s') = ws_rows (ag_watches s) @ new"
    by (simp add: cond(4) watch_creates_rows email_watch_row_def new_def)
  have new: "\<forall>w \<in> set new. rw_user_id w = user \<and> now < rw_expires_at w \<and> watch_group w = ?g"
    using assms(1) by (auto simp: watch_group_def new_def)
  have "new \<noteq> []" using cond(1) by (cases connections) (auto simp: upt_rec new_def)
  moreover have "watch_group ` set new = (\<lambda>w. ?g) ` set new" using new by (intro image_cong) simp_all
  ultimately have "watch_group ` set new = {?g}" by (simp add: image_constant_conv)
  moreover have "filter (\<lambda>w. rw_user_id w = user \<and> now < rw_expires_at w) new = new" using new by (simp add: filter_id_conv)
  ultimately have groups: "set (active_groups user now s') = insert ?g (set (active_groups user now s))"
    by (simp only: active_groups_def sql_select_def rows set_remdups set_map filter_append set_append image_Un) simp
  have len: "length (active_groups user now t) = card (set (active_groups user now t))" for t
    unfolding active_groups_def by (simp add: length_remdups_card_conv)
  have "length (active_groups user now s') = card (insert ?g (set (active_groups user now s)))" by (simp only: len groups)
  also have "\<dots> = Suc (length (active_groups user now s))" 
    using card_insert_disjoint [OF finite_set cond(2)] by (simp only: len)
  finally show ?thesis using True cond groups by simp
next
  case False
  with assms(2) show ?thesis by (auto simp: create_email_reply_watches_def transaction_def Let_def split: if_splits)
qed

end
