(* ===== verification/AgentFlow.thy ===== *)
theory AgentFlow
  imports AgentProperties
begin

text \<open>
  The whole pairing of an agent, from the code on its screen to a working token, and the agent
  properties on a concrete store.
\<close>

section \<open>Pairing an agent\<close>

lemma hex_ascii: "agent_hex_digit c \<Longrightarrow> \<not> is_continuation c"
  by (auto simp: agent_hex_digit_def is_continuation_def Let_def)

lemma take_chars_ascii: "\<forall>c \<in> set s. \<not> is_continuation c \<Longrightarrow> take_chars n s = take n s"
  by (simp add: take_chars_def utf8_chars_ascii take_map)

lemma char_count_ascii: "\<forall>c \<in> set s. \<not> is_continuation c \<Longrightarrow> char_count s = length s"
  by (simp add: char_count_def filter_id_conv [THEN iffD2])

lemma token_prefix_length:
  assumes "length hex = 64" "list_all agent_hex_digit hex"
  shows "char_count (take_chars 16 (AGENT_TOKEN_PREFIX @ hex)) = 16"
proof -
  have "\<forall>c \<in> set AGENT_TOKEN_PREFIX. \<not> is_continuation c" by code_simp
  with assms(2) have raw: "\<forall>c \<in> set (AGENT_TOKEN_PREFIX @ hex). \<not> is_continuation c"
    by (auto simp: list_all_iff hex_ascii)
  then have "\<forall>c \<in> set (take 16 (AGENT_TOKEN_PREFIX @ hex)). \<not> is_continuation c" by (meson in_set_takeD)
  with raw assms(1) show ?thesis by (simp add: take_chars_ascii char_count_ascii AGENT_TOKEN_PREFIX_def)
qed

lemma sql_first_last: "\<forall>x \<in> set xs. \<not> p x \<Longrightarrow> p q \<Longrightarrow> sql_first p (xs @ [q]) = Some q"
  using sql_first_None [of p xs] by (simp add: sql_first_append)

lemma agent_scopes_both: "agc_scopes c = agent_scopes \<Longrightarrow> has_scope ''reminders'' c \<and> has_scope ''reply_watch_email'' c"
proof -
  have "''reminders'' \<in> set (str_split (\<lambda>ch. ch = '','') agent_scopes) \<and>
      ''reply_watch_email'' \<in> set (str_split (\<lambda>ch. ch = '','') agent_scopes)" by code_simp
  then show "agc_scopes c = agent_scopes \<Longrightarrow> ?thesis" by (simp add: has_scope_def)
qed

text \<open>
  Pairing works end to end: the agent starts it, a subscriber types the code in any spelling
  that normalizes to it, and the agent's next poll inside the ten minutes gets the token of a credential
  of that user, which authenticates for both actions until it expires.
\<close>

theorem agent_pairing_connects:
  assumes "\<forall>x. char_count (ae_sha env x) = 64" "\<forall>k. ae_limiter env k" "\<not> ah_query hs"
    and "printable client_name 64 = Some label" "1 \<le> char_count label" "length code_bytes = 12"
    and "length device_hex = 64" "list_all agent_hex_digit device_hex" "length token_hex = 64" "list_all agent_hex_digit token_hex"
    and "user \<in> set (ag_user_ids s)" "has_active_subscription env user"
    and "normalize_user_code env typed = user_code_raw code_bytes"
    and "\<forall>q \<in> set (ag_sessions s). ags_device_code_hash q \<noteq> ae_sha env (DEVICE_PREFIX @ device_hex) \<and>
      ags_user_code_hash q \<noteq> ae_sha env (user_code_raw code_bytes)"
    and "\<forall>c \<in> set (ag_credentials s). agc_token_hash c \<noteq> ae_sha env (AGENT_TOKEN_PREFIX @ token_hex)"
    and "sql_count (active_credential user t2) (ag_credentials s) < 5"
    and "0 \<le> t0" "t0 \<le> t1" "t1 \<le> t2" "t2 < t0 + 600" "t2 + CREDENTIAL_TTL_SECONDS \<le> i32_max" "t3 < t2 + CREDENTIAL_TTL_SECONDS"
  defines "device \<equiv> DEVICE_PREFIX @ device_hex" and "token \<equiv> AGENT_TOKEN_PREFIX @ token_hex"
  shows "\<exists>s0 s1 s2. start_pairing env hs client_name device_hex code_bytes t0 s =
      (Started \<lparr>sp_status = ''accepted'', sp_device_code = device, sp_user_code = random_user_code code_bytes,
                sp_verification_path = ''/'', sp_expires_in = 600, sp_poll_interval = 3\<rparr>, s0) \<and>
    approve_pairing_handler env user typed t1 s0 = (Minimal 200 ''accepted'', s1) \<and>
    poll_pairing_handler env hs (\<lambda>u. u) device token_hex t2 s1 =
      (Polled 200 \<lparr>pp_status = ''accepted'', pp_token = Some token, pp_expires_at = Some (t2 + CREDENTIAL_TTL_SECONDS)\<rparr>, s2) \<and>
    map_option agc_user_id (authenticate_credential (ae_sha env token) ''reminders'' t3 s2) = Some user \<and>
    map_option agc_user_id (authenticate_credential (ae_sha env token) ''reply_watch_email'' t3 s2) = Some user"
proof -
  let ?dh = "ae_sha env device" and ?uh = "ae_sha env (user_code_raw code_bytes)" and ?th = "ae_sha env token"
  have times: "wrap_i32 (t0 + PAIRING_TTL_SECONDS) = t0 + 600" "wrap_i32 (t2 + CREDENTIAL_TTL_SECONDS) = t2 + CREDENTIAL_TTL_SECONDS"
    using assms(17-21) by (simp_all add: PAIRING_TTL_SECONDS_def CREDENTIAL_TTL_SECONDS_def wrap_i32_range i32_max_def)
  have code: "normalize_user_code env (random_user_code code_bytes) = user_code_raw code_bytes" "valid_user_code (user_code_raw code_bytes)"
    using user_code_facts [OF assms(6)] by simp_all
  define kept where "kept = sql_delete (\<lambda>q. ags_expires_at q \<le> t0 \<or> ags_consumed_at q \<noteq> None) (ag_sessions s)"
  have fresh: "\<forall>q \<in> set kept. ags_device_code_hash q \<noteq> ?dh \<and> ags_user_code_hash q \<noteq> ?uh"
    using assms(14) by (simp add: kept_def device_def)
  have label: "char_count label \<le> 64" using assms(4) by (auto simp: printable_def Let_def split: if_splits)
  define q where "q = \<lparr>ags_id = ag_next_session_id s, ags_device_code_hash = ?dh, ags_user_code_hash = ?uh,
    ags_client_name = label, ags_created_at = t0, ags_expires_at = t0 + 600, ags_approved_by_user_id = None,
    ags_approved_at = None, ags_consumed_at = None\<rparr>"
  define s0 where "s0 = s\<lparr>ag_sessions := kept @ [q], ag_next_session_id := ag_next_session_id s + 1\<rparr>"
  have "create_pairing ?dh ?uh label t0 (t0 + 600) s = (Inr (), s0)"
    using fresh assms(1,5) label
    by (auto simp: create_pairing_def transaction_def Let_def session_checks_def s0_def q_def kept_def)
  then have start: "start_pairing env hs client_name device_hex code_bytes t0 s =
      (Started \<lparr>sp_status = ''accepted'', sp_device_code = device, sp_user_code = random_user_code code_bytes,
                sp_verification_path = ''/'', sp_expires_in = 600, sp_poll_interval = 3\<rparr>, s0)"
    using assms(2-4) by (simp add: start_pairing_def check_rate_limit_def times code(1) device_def Let_def PAIRING_TTL_SECONDS_def [symmetric])
      (simp add: PAIRING_TTL_SECONDS_def)
  let ?f = "\<lambda>q. q\<lparr>ags_approved_by_user_id := Some user, ags_approved_at := Some t1\<rparr>"
  let ?p = "\<lambda>x. ags_id x = ags_id q"
  define s1 where "s1 = s0\<lparr>ag_sessions := sql_update ?p ?f kept @ [?f q]\<rparr>"
  have "sql_first (approvable ?uh t1) (kept @ [q]) = Some q"
    using fresh assms(18-20) by (intro sql_first_last) (auto simp: approvable_def q_def)
  then have "approve_pairing user ?uh t1 s0 = (Inr (Some label), s1)"
    using assms(11) by (simp add: approve_pairing_def transaction_def s0_def s1_def sql_update_def) (simp add: q_def)
  then have approve: "approve_pairing_handler env user typed t1 s0 = (Minimal 200 ''accepted'', s1)"
    using assms(12) by (simp add: approve_pairing_handler_def assms(13) code(2))
  have others: "ags_device_code_hash x \<noteq> ?dh" if "x \<in> set (sql_update ?p ?f kept)" for x
    using that by (cases rule: in_sql_updateE) (use fresh in auto)
  have "sql_first (\<lambda>x. ags_device_code_hash x = ?dh) (sql_update ?p ?f kept @ [?f q]) = Some (?f q)"
    using others by (intro sql_first_last) (auto simp: q_def)
  then have polled: "poll_pairing ?dh t2 s1 = PollApproved user label"
    using assms(20) by (simp add: poll_pairing_def s1_def) (simp add: q_def)
  define issue where "issue = \<lparr>ci_user_id = user, ci_token_hash = ?th, ci_token_prefix = take_chars 16 token,
    ci_label = label, ci_issued_at = t2, ci_expires_at = t2 + CREDENTIAL_TTL_SECONDS\<rparr>"
  define c where "c = issued_credential (ag_next_credential_id s) issue"
  have "sql_first (consumable ?dh issue) (sql_update ?p ?f kept @ [?f q]) = Some (?f q)"
    using others assms(20) by (intro sql_first_last) (auto simp: consumable_def q_def issue_def)
  moreover have "credential_checks c"
    using assms(1,5,9,10) label token_prefix_length
    by (simp add: c_def issued_credential_def credential_checks_def issue_def token_def CREDENTIAL_TTL_SECONDS_def)
  moreover have "?th \<notin> agc_token_hash ` set (ag_credentials s)" using assms(15) by (auto simp: token_def)
  ultimately obtain s2 where consumed: "consume_pairing ?dh issue s1 = (Inr (Some c), s2)" "ag_credentials s2 = ag_credentials s @ [c]"
    using assms(11,16) by (simp add: consume_pairing_def transaction_def s1_def s0_def c_def issue_def Let_def)
  have "valid_prefixed_hex device DEVICE_PREFIX 64"
    using assms(7,8) by (simp add: valid_prefixed_hex_def device_def strip_prefix_def)
  then have poll: "poll_pairing_handler env hs (\<lambda>u. u) device token_hex t2 s1 =
      (Polled 200 \<lparr>pp_status = ''accepted'', pp_token = Some token, pp_expires_at = Some (t2 + CREDENTIAL_TTL_SECONDS)\<rparr>, s2)"
    using assms(2,3,12) consumed(1)
    by (simp add: poll_pairing_handler_def check_rate_limit_def polled Let_def times(2) token_def issue_def)
  have "sql_first (\<lambda>c. agc_token_hash c = ?th \<and> agc_revoked_at c = None \<and> t3 < agc_expires_at c) (ag_credentials s @ [c]) = Some c"
    using assms(15,22) by (intro sql_first_last) (auto simp: c_def issued_credential_def issue_def token_def)
  moreover have "agc_scopes c = agent_scopes" "agc_user_id c = user" by (simp_all add: c_def issued_credential_def issue_def)
  ultimately have "map_option agc_user_id (authenticate_credential ?th ''reminders'' t3 s2) = Some user \<and>
    map_option agc_user_id (authenticate_credential ?th ''reply_watch_email'' t3 s2) = Some user"
    using agent_scopes_both [of c] by (simp add: authenticate_credential_def consumed(2))
  with start approve poll show ?thesis by blast
qed

section \<open>The properties on a concrete store\<close>

definition hash64 :: string where "hash64 = replicate 64 (CHR ''a'')"

definition demo_agent_env :: agent_env where
  "demo_agent_env =
     \<lparr>ae_sha = \<lambda>x. hash64, ae_timestamp = \<lambda>x. Some 10000, ae_tier = \<lambda>u. Some (Some ''tier 2''),
      ae_limiter = \<lambda>k. True, ae_to_str = Some, ae_uppercase = \<lambda>c. c, ae_commits = True, ae_others = \<lambda>i u. u\<rparr>"

definition demo_agent_headers :: agent_headers where
  "demo_agent_headers =
     \<lparr>ah_query = False, ah_authorization = Some (''Bearer lfagent_'' @ hash64), ah_idempotency_key = Some ''k1'',
      ah_cf_connecting_ip = None, ah_x_real_ip = None, ah_x_forwarded_for = None\<rparr>"

definition demo_credential :: agent_credential where
  "demo_credential =
     \<lparr>agc_id = 1, agc_user_id = 7, agc_token_hash = hash64, agc_token_prefix = take 16 hash64, agc_label = ''cli'',
      agc_scopes = agent_scopes, agc_daily_cap = 20, agc_daily_used = 0, agc_daily_reset_at = 86400,
      agc_expires_at = 900000, agc_created_at = 10, agc_last_used_at = None, agc_revoked_at = None\<rparr>"

definition demo_agent_store :: agent_store where
  "demo_agent_store =
     \<lparr>ag_user_ids = [7], ag_credentials = [demo_credential], ag_next_credential_id = 2, ag_sessions = [],
      ag_next_session_id = 1, ag_keys = [], ag_next_key_id = 1, ag_audit = [], ag_next_audit_id = 1,
      ag_imap = [\<lparr>im_id = 3, im_user_id = 7, im_status = ''active''\<rparr>],
      ag_watches = \<lparr>ws_rows = [], ws_next_id = 1\<rparr>\<rparr>"

definition demo_app :: agent_app where
  "demo_app = \<lparr>app_agent = demo_agent_store, app_events = demo_events []\<rparr>"

lemmas demo_agent_defs = demo_agent_env_def demo_agent_store_def demo_credential_def demo_app_def

lemma demo_agent_ok: "agent_ok demo_agent_store"
  by (simp add: agent_ok_def demo_agent_store_def demo_credential_def)

lemma hash64_length [simp]: "char_count hash64 = 64" "length hash64 = 64"
  by code_simp+

lemma demo_token: "agent_token demo_agent_env demo_agent_headers = Some (''lfagent_'' @ hash64)"
  by code_simp

lemma demo_idempotency_key: "agent_idempotency_key demo_agent_env demo_agent_headers = Some ''k1''"
  by code_simp

lemma demo_authenticates: "authenticate_credential hash64 ''reminders'' 1000 demo_agent_store = Some demo_credential"
  using agent_scopes_both [of demo_credential]
  by (simp add: authenticate_credential_def demo_agent_store_def sql_first_def) (simp add: demo_credential_def)

lemma demo_new_action:
  "new_action demo_agent_env demo_agent_headers ''reminders'' ''reminder'' ''k1'' 1000 demo_agent_store demo_credential"
  using demo_token demo_idempotency_key demo_authenticates demo_agent_ok
  by (simp add: new_action_def action_kinds_def action_key_def row_of_def sql_first_def)
    (simp add: demo_agent_defs)

lemma demo_valid: "validate_reminder_input (demo_agent_env\<lparr>ae_tier := t\<rparr>) ''call'' ''x'' 1000 = Some (''call'', 10000)"
  "validate_reminder_input demo_agent_env ''tea'' ''x'' 2000 = Some (''tea'', 10000)"
  "validate_reminder_input demo_agent_env ''call'' ''x'' 1000 = Some (''call'', 10000)"
  by code_simp+

lemma demo_accepted:
  "fst (agent_create_reminder demo_agent_env demo_agent_headers ''call'' ''x'' 1000 demo_app) = Minimal 200 ''accepted''"
  by code_simp

lemma demo_refused:
  "fst (agent_create_reminder (demo_agent_env\<lparr>ae_tier := \<lambda>u. None\<rparr>) demo_agent_headers ''call'' ''x'' 1000 demo_app) =
     Minimal 403 ''rejected''"
  by code_simp

lemma demo_refused_new:
  "new_action (demo_agent_env\<lparr>ae_tier := \<lambda>u. None\<rparr>) demo_agent_headers ''reminders'' ''reminder'' ''k1'' 1000
     demo_agent_store demo_credential"
  using demo_new_action by (simp add: new_action_def agent_token_def agent_bearer_def agent_idempotency_key_def)

theorem agent_claim_sound_witness:
  "agent_ok (snd (claim_credential (\<lambda>i u. u) hash64 ''reminders'' 1000 demo_agent_store))"
  using agent_claim_sound [OF demo_agent_ok, of "\<lambda>i u. u" hash64 "''reminders''" 1000] by (metis prod.collapse)

theorem agent_daily_cap_witness:
  "actions_used hash64 (snd (grants (agent_claim_of hash64) [(''reminders'', 1000), (''reminders'', 2000)] demo_agent_store)) =
   actions_used hash64 demo_agent_store +
     int (fst (grants (agent_claim_of hash64) [(''reminders'', 1000), (''reminders'', 2000)] demo_agent_store))"
proof -
  have row: "credential_by_hash hash64 demo_agent_store = Some demo_credential"
    by (simp add: credential_by_hash_def row_of_def sql_first_def demo_agent_store_def) (simp add: demo_credential_def)
  from agent_daily_cap [OF demo_agent_ok, of "[(''reminders'', 1000), (''reminders'', 2000)]" hash64] row show ?thesis
    by (simp add: agent_in_window_def actions_used_def actions_cap_def demo_credential_def)
qed


theorem user_code_normalizes_witness:
  "normalize_user_code demo_agent_env (random_user_code (replicate 12 0)) = user_code_raw (replicate 12 0)"
  using user_code_normalizes [of "replicate 12 0" demo_agent_env] by simp

theorem agent_retry_replays_witness:
  "fst (agent_create_reminder demo_agent_env demo_agent_headers ''tea'' ''x'' 2000
     (snd (agent_create_reminder demo_agent_env demo_agent_headers ''call'' ''x'' 1000 demo_app))) = Minimal 200 ''accepted''"
proof -
  have "new_action demo_agent_env demo_agent_headers ''reminders'' ''reminder'' ''k1'' 1000 (app_agent demo_app) demo_credential"
    using demo_new_action by (simp add: demo_app_def)
  moreover obtain s1 where s1: "agent_create_reminder demo_agent_env demo_agent_headers ''call'' ''x'' 1000 demo_app =
      (Minimal 200 ''accepted'', s1)"
    using demo_accepted by (metis prod.collapse)
  ultimately have "agent_create_reminder demo_agent_env demo_agent_headers ''tea'' ''x'' 2000 s1 = (Minimal 200 ''accepted'', s1)"
    by (rule agent_retry_replays [where message' = "''tea''" and at' = "''x''"])
      (simp_all add: demo_valid(2), simp_all add: demo_credential_def agent_key_live_def wrap_i32_def IDEMPOTENCY_TTL_SECONDS_def)
  with s1 show ?thesis by simp
qed

theorem rejected_action_replays_as_ok_witness:
  "fst (agent_create_reminder (demo_agent_env\<lparr>ae_tier := \<lambda>u. Some (Some ''tier 2'')\<rparr>) demo_agent_headers ''tea'' ''x'' 2000
     (snd (agent_create_reminder (demo_agent_env\<lparr>ae_tier := \<lambda>u. None\<rparr>) demo_agent_headers ''call'' ''x'' 1000 demo_app))) =
   Minimal 200 ''rejected''"
proof -
  let ?env = "demo_agent_env\<lparr>ae_tier := \<lambda>u. None\<rparr>"
  have "new_action ?env demo_agent_headers ''reminders'' ''reminder'' ''k1'' 1000 (app_agent demo_app) demo_credential"
    using demo_refused_new by (simp add: demo_app_def)
  moreover have "agent_create_reminder ?env demo_agent_headers ''call'' ''x'' 1000 demo_app =
      (Minimal 403 ''rejected'', snd (agent_create_reminder ?env demo_agent_headers ''call'' ''x'' 1000 demo_app))"
    using demo_refused by (simp add: prod_eq_iff)
  moreover have "validate_reminder_input ?env ''tea'' ''x'' 2000 \<noteq> None"
    using demo_valid(2) by (simp add: validate_reminder_input_def)
  ultimately show ?thesis
    using rejected_action_replays_as_ok [of ?env demo_agent_headers "''k1''" 1000 demo_app demo_credential "''call''" "''x''" _ 2000 "''tea''" "''x''"]
    by (simp add: demo_credential_def agent_key_live_def wrap_i32_def IDEMPOTENCY_TTL_SECONDS_def)
qed

theorem accepted_reminder_stored_witness:
  "\<exists>e. on_events (app_events (snd (agent_create_reminder demo_agent_env demo_agent_headers ''call'' ''x'' 1000 demo_app))) = [e] \<and>
     oe_user_id e = 7"
proof -
  have "new_action demo_agent_env demo_agent_headers ''reminders'' ''reminder'' ''k1'' 1000 (app_agent demo_app) demo_credential"
    using demo_new_action by (simp add: demo_app_def)
  moreover have "agent_create_reminder demo_agent_env demo_agent_headers ''call'' ''x'' 1000 demo_app =
      (Minimal 200 ''accepted'', snd (agent_create_reminder demo_agent_env demo_agent_headers ''call'' ''x'' 1000 demo_app))"
    using demo_accepted by (simp add: prod_eq_iff)
  ultimately show ?thesis
    using accepted_reminder_stored [of demo_agent_env demo_agent_headers "''k1''" 1000 demo_app demo_credential "''call''" "''x''"]
    by (simp add: demo_credential_def demo_app_def demo_defs) blast
qed

theorem agent_watches_capped_witness:
  "length (active_groups 7 1000 (snd (create_email_reply_watches 7 [3] ''a@b.c'' ''a'' 1000 5000 5 demo_agent_store))) \<le> 5"
proof -
  have "create_email_reply_watches 7 [3] ''a@b.c'' ''a'' 1000 5000 5 demo_agent_store =
      (Inr True, snd (create_email_reply_watches 7 [3] ''a@b.c'' ''a'' 1000 5000 5 demo_agent_store))"
    by (simp add: create_email_reply_watches_def transaction_def demo_agent_store_def active_groups_def sql_select_def)
  from agent_watches_capped [OF _ this] show ?thesis by simp
qed

theorem agent_pairing_connects_witness:
  "\<exists>s0. fst (start_pairing (demo_agent_env\<lparr>ae_sha := \<lambda>x. replicate 64 (CHR ''b'')\<rparr>) demo_agent_headers ''cli'' hash64
     (replicate 12 0) 1000 demo_agent_store) = Started s0"
proof -
  let ?env = "demo_agent_env\<lparr>ae_sha := \<lambda>x. replicate 64 (CHR ''b'')\<rparr>"
  have f: "char_count (replicate 64 (CHR ''b'')) = 64" "printable ''cli'' 64 = Some ''cli''" "list_all agent_hex_digit hash64"
    "1 \<le> char_count ''cli''" "replicate 64 (CHR ''b'') \<noteq> hash64" "\<not> ah_query demo_agent_headers"
    by code_simp+
  have sha: "\<forall>x. char_count (ae_sha ?env x) = 64" "\<forall>k. ae_limiter ?env k" "has_active_subscription ?env 7"
    using f(1) by (simp_all add: demo_agent_env_def has_active_subscription_def)
  have typed: "normalize_user_code ?env (user_code_raw (replicate 12 0)) = user_code_raw (replicate 12 0)"
    using user_code_facts [of "replicate 12 0" ?env] by simp
  have store: "7 \<in> set (ag_user_ids demo_agent_store)"
    "\<forall>q \<in> set (ag_sessions demo_agent_store). ags_device_code_hash q \<noteq> ae_sha ?env (DEVICE_PREFIX @ hash64) \<and>
      ags_user_code_hash q \<noteq> ae_sha ?env (user_code_raw (replicate 12 0))"
    "\<forall>c \<in> set (ag_credentials demo_agent_store). agc_token_hash c \<noteq> ae_sha ?env (AGENT_TOKEN_PREFIX @ hash64)"
    "sql_count (active_credential 7 1200) (ag_credentials demo_agent_store) < 5"
    using f(5) by (simp_all add: demo_agent_store_def sql_count_def) (simp add: demo_credential_def demo_agent_env_def)
  show ?thesis
    using agent_pairing_connects [OF sha(1,2) f(6,2,4) length_replicate hash64_length(2) f(3) hash64_length(2) f(3) store(1) sha(3) typed
        store(2-4), of 1000 1100 5000]
    by (auto simp: i32_max_def CREDENTIAL_TTL_SECONDS_def)
qed

end
