(* ===== verification/Messages.thy ===== *)
theory Messages
  imports Tables Text
begin

text \<open>
  The messages of the ontology store: the section Messages of \<^verbatim>\<open>repositories/ontology_repository.rs\<close>
  and the digest queries behind it, rows in \<^verbatim>\<open>models/ontology_models.rs\<close>. A message arrives from a
  bridge or an inbox, is classified, and is then shown in a digest unless the user sees it first.
\<close>

section \<open>Rows\<close>

record ont_message =
  om_id :: i64
  om_user_id :: i32
  om_room_id :: string
  om_platform :: string
  om_sender_name :: string
  om_sender_key :: "string option"
  om_content :: string
  om_person_id :: "i32 option"
  om_created_at :: i32
  om_urgency :: "string option"
  om_category :: "string option"
  om_summary :: "string option"
  om_digest_delivered_at :: "i32 option"
  om_classification_prompt :: "string option"
  om_classification_result :: "string option"
  om_resolved_at :: "i32 option"
  om_seen_at :: "i32 option"
  om_matrix_event_id :: "string option"
  om_commitment_prompt :: "string option"
  om_commitment_result :: "string option"

record new_ont_message =
  nm_user_id :: i32
  nm_room_id :: string
  nm_platform :: string
  nm_sender_name :: string
  nm_sender_key :: "string option"
  nm_content :: string
  nm_person_id :: "i32 option"
  nm_created_at :: i32
  nm_matrix_event_id :: "string option"

record message_store =
  ms_messages :: "ont_message table"
  ms_next_id :: i64

section \<open>Inserting a message\<close>

definition new_message_row :: "i64 \<Rightarrow> new_ont_message \<Rightarrow> ont_message" where
  "new_message_row i m =
     \<lparr>om_id = i, om_user_id = nm_user_id m, om_room_id = nm_room_id m, om_platform = nm_platform m,
      om_sender_name = nm_sender_name m, om_sender_key = nm_sender_key m, om_content = nm_content m,
      om_person_id = nm_person_id m, om_created_at = nm_created_at m, om_urgency = None,
      om_category = None, om_summary = None, om_digest_delivered_at = None,
      om_classification_prompt = None, om_classification_result = None, om_resolved_at = None,
      om_seen_at = None, om_matrix_event_id = nm_matrix_event_id m, om_commitment_prompt = None,
      om_commitment_result = None\<rparr>"

definition same_event :: "i32 \<Rightarrow> string \<Rightarrow> ont_message \<Rightarrow> bool" where
  "same_event user_id eid r \<longleftrightarrow> om_user_id r = user_id \<and> om_matrix_event_id r = Some eid"

definition find_event :: "new_ont_message \<Rightarrow> message_store \<Rightarrow> ont_message option" where
  "find_event m s =
     (case nm_matrix_event_id m of
        None \<Rightarrow> None
      | Some eid \<Rightarrow> sql_first (same_event (nm_user_id m) eid) (ms_messages s))"

text \<open>The second layer: the same content from the same sender in the same room within 300 seconds.\<close>

definition same_content :: "new_ont_message \<Rightarrow> ont_message \<Rightarrow> bool" where
  "same_content m r \<longleftrightarrow>
     om_user_id r = nm_user_id m \<and> om_room_id r = nm_room_id m \<and> om_sender_name r = nm_sender_name m \<and>
     om_content r = nm_content m \<and> wrap_i32 (nm_created_at m - 300) \<le> om_created_at r \<and>
     om_created_at r \<le> wrap_i32 (nm_created_at m + 300)"

text \<open>The insert statement under the partial unique index on \<^verbatim>\<open>(user_id, matrix_event_id)\<close>.\<close>

definition insert_message_row :: "new_ont_message \<Rightarrow> message_store \<Rightarrow> ont_message option \<times> message_store" where
  "insert_message_row m s =
     (if find_event m s \<noteq> None then (None, s)
      else
        let r = new_message_row (ms_next_id s) m
        in (Some r, \<lparr>ms_messages = ms_messages s @ [r], ms_next_id = ms_next_id s + 1\<rparr>))"

text \<open>
  The statements run outside a transaction: \<open>others i\<close> are the writes of concurrent callers after
  the \<open>i\<close>-th statement. The result is the row and whether it is new.
\<close>

definition insert_message ::
  "(nat \<Rightarrow> message_store \<Rightarrow> message_store) \<Rightarrow> new_ont_message \<Rightarrow> message_store
   \<Rightarrow> (db_error + ont_message \<times> bool) \<times> message_store" where
  "insert_message others m s =
     (case find_event m s of
        Some dup \<Rightarrow> (Inr (dup, False), s)
      | None \<Rightarrow>
          let s1 = others 0 s
          in (case sql_first (same_content m) (ms_messages s1) of
                Some dup \<Rightarrow> (Inr (dup, False), s1)
              | None \<Rightarrow>
                  (case insert_message_row m (others 1 s1) of
                     (Some row, s2) \<Rightarrow> (Inr (row, True), s2)
                   | (None, s2) \<Rightarrow>
                       let s3 = others 2 s2
                       in (case find_event m s3 of
                             Some dup \<Rightarrow> (Inr (dup, False), s3)
                           | None \<Rightarrow> (Inl RollbackTransaction, s3)))))"

definition delete_message_by_matrix_event_id :: "i32 \<Rightarrow> string \<Rightarrow> message_store \<Rightarrow> nat \<times> message_store" where
  "delete_message_by_matrix_event_id user_id eid s =
     (sql_count (same_event user_id eid) (ms_messages s),
      s\<lparr>ms_messages := sql_delete (same_event user_id eid) (ms_messages s)\<rparr>)"

definition purge_old_messages :: "i32 \<Rightarrow> i32 \<Rightarrow> message_store \<Rightarrow> nat \<times> message_store" where
  "purge_old_messages max_age_secs now s =
     (let old = (\<lambda>r. om_created_at r < wrap_i32 (now - max_age_secs))
      in (sql_count old (ms_messages s), s\<lparr>ms_messages := sql_delete old (ms_messages s)\<rparr>))"

section \<open>Queries\<close>

definition you :: string where "you = ''You''"

definition latest_first :: "ont_message list \<Rightarrow> ont_message list" where
  "latest_first = order_desc om_created_at"

definition get_message_by_email_room_id :: "i32 \<Rightarrow> string \<Rightarrow> message_store \<Rightarrow> ont_message option" where
  "get_message_by_email_room_id user_id room_id s =
     sql_first (\<lambda>r. om_user_id r = user_id \<and> om_room_id r = room_id) (ms_messages s)"

definition get_messages_for_room :: "i32 \<Rightarrow> string \<Rightarrow> nat \<Rightarrow> message_store \<Rightarrow> ont_message list" where
  "get_messages_for_room user_id room_id limit s =
     take limit (latest_first (sql_select (\<lambda>r. om_user_id r = user_id \<and> om_room_id r = room_id) (ms_messages s)))"

definition find_primary_sender_name_in_room :: "i32 \<Rightarrow> string \<Rightarrow> message_store \<Rightarrow> string option" where
  "find_primary_sender_name_in_room user_id room_id s =
     (case latest_first (sql_select (\<lambda>r. om_user_id r = user_id \<and> om_room_id r = room_id \<and> om_sender_name r \<noteq> you)
             (ms_messages s)) of
        [] \<Rightarrow> None
      | r # _ \<Rightarrow> Some (om_sender_name r))"

record recent_high_query =
  rh_user_id :: i32
  rh_platform :: string
  rh_sender_key :: "string option"
  rh_sender_name :: string
  rh_exclude_message_id :: "i64 option"
  rh_since_ts :: i32
  rh_limit :: nat

definition get_recent_high_messages_by_sender :: "recent_high_query \<Rightarrow> message_store \<Rightarrow> ont_message list" where
  "get_recent_high_messages_by_sender q s =
     take (rh_limit q) (latest_first (sql_select (\<lambda>r.
       om_user_id r = rh_user_id q \<and> om_platform r = rh_platform q \<and> om_sender_name r \<noteq> you \<and>
       om_urgency r = Some ''high'' \<and> rh_since_ts q \<le> om_created_at r \<and>
       (case rh_sender_key q of Some k \<Rightarrow> om_sender_key r = Some k | None \<Rightarrow> om_sender_name r = rh_sender_name q) \<and>
       (case rh_exclude_message_id q of Some i \<Rightarrow> om_id r \<noteq> i | None \<Rightarrow> True)) (ms_messages s)))"

definition get_recent_messages :: "i32 \<Rightarrow> string \<Rightarrow> i32 \<Rightarrow> message_store \<Rightarrow> ont_message list" where
  "get_recent_messages user_id platform since_ts s =
     latest_first (sql_select (\<lambda>r. om_user_id r = user_id \<and> om_platform r = platform \<and> since_ts < om_created_at r)
       (ms_messages s))"

definition get_recent_messages_filtered ::
  "i32 \<Rightarrow> string option \<Rightarrow> i32 \<Rightarrow> nat \<Rightarrow> message_store \<Rightarrow> ont_message list" where
  "get_recent_messages_filtered user_id platform since_ts limit s =
     take limit (latest_first (sql_select (\<lambda>r. om_user_id r = user_id \<and> since_ts < om_created_at r \<and>
       (case platform of Some p \<Rightarrow> om_platform r = p | None \<Rightarrow> True)) (ms_messages s)))"

text \<open>\<^verbatim>\<open>LIKE\<close>: \<open>%\<close> matches any characters, \<open>_\<close> one character, a backslash quotes the next one.\<close>

fun like :: "string list \<Rightarrow> string list \<Rightarrow> bool" where
  "like [] cs \<longleftrightarrow> cs = []"
| "like (p # ps) [] \<longleftrightarrow> p = ''%'' \<and> like ps []"
| "like (p # ps) (c # cs) \<longleftrightarrow>
     (if p = ''%'' then like ps (c # cs) \<or> like (p # ps) cs
      else if p = ''_'' then like ps cs
      else if p = [CHR 0x5C] then (case ps of [] \<Rightarrow> False | q # qs \<Rightarrow> q = c \<and> like qs cs)
      else p = c \<and> like ps cs)"

definition sql_like :: "string \<Rightarrow> string \<Rightarrow> bool" where
  "sql_like pattern text' \<longleftrightarrow> like (utf8_chars pattern) (utf8_chars text')"

definition email_room_prefix :: "i32 \<Rightarrow> string" where
  "email_room_prefix imap_connection_id = ''email_'' @ show_int imap_connection_id @ ''_%''"

definition get_recent_email_messages_for_account ::
  "i32 \<Rightarrow> i32 \<Rightarrow> i32 \<Rightarrow> nat \<Rightarrow> bool \<Rightarrow> message_store \<Rightarrow> ont_message list" where
  "get_recent_email_messages_for_account user_id imap_connection_id since_ts limit incoming_only s =
     take limit (latest_first (sql_select (\<lambda>r. om_user_id r = user_id \<and> om_platform r = ''email'' \<and>
       sql_like (email_room_prefix imap_connection_id) (om_room_id r) \<and> since_ts < om_created_at r \<and>
       (incoming_only \<longrightarrow> om_sender_name r \<noteq> you)) (ms_messages s)))"

text \<open>
  \<^verbatim>\<open>SELECT DISTINCT ON (platform, room_id) .. ORDER BY platform, room_id, created_at DESC, id DESC\<close>
  keeps the latest row of every conversation.
\<close>

definition conversation :: "ont_message \<Rightarrow> string \<times> string" where
  "conversation r = (om_platform r, om_room_id r)"

definition recency :: "ont_message \<Rightarrow> int \<times> int" where
  "recency r = (om_created_at r, om_id r)"

definition latest_of :: "string \<times> string \<Rightarrow> ont_message list \<Rightarrow> ont_message" where
  "latest_of c rows = hd (order_desc recency (filter (\<lambda>r. conversation r = c) rows))"

definition distinct_on_conversation :: "ont_message list \<Rightarrow> ont_message list" where
  "distinct_on_conversation rows = map (\<lambda>c. latest_of c rows) (remdups (map conversation rows))"

definition get_latest_incoming_per_room :: "i32 \<Rightarrow> string option \<Rightarrow> nat \<Rightarrow> message_store \<Rightarrow> ont_message list" where
  "get_latest_incoming_per_room user_id platform limit s =
     (let incoming = sql_select (\<lambda>r. om_user_id r = user_id \<and> om_sender_name r \<noteq> you \<and>
            (case platform of Some p \<Rightarrow> om_platform r = p | None \<Rightarrow> True)) (ms_messages s);
          ids = map om_id (take limit (latest_first (distinct_on_conversation incoming)))
      in order_desc recency (sql_select (\<lambda>r. om_id r \<in> set ids) (ms_messages s)))"

definition get_recent_messages_all_platforms :: "i32 \<Rightarrow> i32 \<Rightarrow> message_store \<Rightarrow> ont_message list" where
  "get_recent_messages_all_platforms user_id since_ts s =
     latest_first (sql_select (\<lambda>r. om_user_id r = user_id \<and> since_ts < om_created_at r) (ms_messages s))"

definition get_suggestion_candidates ::
  "i32 \<Rightarrow> nat \<Rightarrow> message_store \<Rightarrow> (string \<times> string \<times> string \<times> nat) list" where
  "get_suggestion_candidates user_id threshold s =
     (let rows = sql_select (\<lambda>r. om_user_id r = user_id \<and> om_person_id r = None \<and> om_sender_name r \<noteq> you) (ms_messages s);
          group = (\<lambda>r. (om_sender_name r, om_room_id r, om_platform r));
          counted = map (\<lambda>(n, r, p). (n, r, p, sql_count (\<lambda>x. group x = (n, r, p)) rows)) (remdups (map group rows))
      in order_desc (\<lambda>(_, _, _, c). c) (filter (\<lambda>(_, _, _, c). threshold \<le> c) counted))"

definition get_cross_platform_messages ::
  "i32 \<Rightarrow> i32 \<Rightarrow> string \<Rightarrow> i32 \<Rightarrow> message_store \<Rightarrow> ont_message list" where
  "get_cross_platform_messages user_id person_id exclude_platform since_ts s =
     take 5 (latest_first (sql_select (\<lambda>r. om_user_id r = user_id \<and> om_person_id r = Some person_id \<and>
       om_platform r \<noteq> exclude_platform \<and> om_sender_name r \<noteq> you \<and> since_ts < om_created_at r) (ms_messages s)))"

definition get_messages_by_ids :: "i64 list \<Rightarrow> message_store \<Rightarrow> ont_message list" where
  "get_messages_by_ids ids s = sql_select (\<lambda>r. om_id r \<in> set ids) (ms_messages s)"

definition get_message_by_id_for_user :: "i32 \<Rightarrow> i64 \<Rightarrow> message_store \<Rightarrow> ont_message option" where
  "get_message_by_id_for_user user_id message_id s =
     sql_first (\<lambda>r. om_user_id r = user_id \<and> om_id r = message_id) (ms_messages s)"

section \<open>Classification\<close>

definition set_message :: "(ont_message \<Rightarrow> bool) \<Rightarrow> (ont_message \<Rightarrow> ont_message) \<Rightarrow> message_store \<Rightarrow> nat \<times> message_store" where
  "set_message p f s = (sql_count p (ms_messages s), s\<lparr>ms_messages := sql_update p f (ms_messages s)\<rparr>)"

definition classify_row ::
  "string \<Rightarrow> string \<Rightarrow> string option \<Rightarrow> string option \<Rightarrow> string option \<Rightarrow> ont_message \<Rightarrow> ont_message" where
  "classify_row urgency category summary prompt result r =
     r\<lparr>om_urgency := Some urgency, om_category := Some category, om_summary := summary,
       om_classification_prompt := prompt, om_classification_result := result\<rparr>"

definition update_message_classification ::
  "i64 \<Rightarrow> string \<Rightarrow> string \<Rightarrow> string option \<Rightarrow> string option \<Rightarrow> string option \<Rightarrow> message_store \<Rightarrow> message_store" where
  "update_message_classification message_id urgency category summary prompt result s =
     snd (set_message (\<lambda>r. om_id r = message_id) (classify_row urgency category summary prompt result) s)"

definition update_message_commitment ::
  "i64 \<Rightarrow> string option \<Rightarrow> string option \<Rightarrow> message_store \<Rightarrow> message_store" where
  "update_message_commitment message_id prompt result s =
     snd (set_message (\<lambda>r. om_id r = message_id)
       (\<lambda>r. r\<lparr>om_commitment_prompt := prompt, om_commitment_result := result\<rparr>) s)"

section \<open>Digest queries\<close>

text \<open>Incoming, not delivered in a digest and not seen: the filters the pending queries share.\<close>

definition pending :: "ont_message \<Rightarrow> bool" where
  "pending r \<longleftrightarrow> om_digest_delivered_at r = None \<and> om_seen_at r = None \<and> om_sender_name r \<noteq> you"

definition get_pending_digest_messages :: "i32 \<Rightarrow> message_store \<Rightarrow> ont_message list" where
  "get_pending_digest_messages user_id s =
     take 20 (latest_first (sql_select (\<lambda>r. om_user_id r = user_id \<and> om_urgency r = Some ''later'' \<and> pending r)
       (ms_messages s)))"

definition get_pending_messages_by_urgency ::
  "i32 \<Rightarrow> string list \<Rightarrow> i32 \<Rightarrow> nat \<Rightarrow> message_store \<Rightarrow> ont_message list" where
  "get_pending_messages_by_urgency user_id urgencies since limit s =
     take limit (latest_first (sql_select (\<lambda>r. om_user_id r = user_id \<and> om_urgency r \<in> Some ` set urgencies \<and>
       since \<le> om_created_at r \<and> pending r) (ms_messages s)))"

definition get_pending_unclassified_messages :: "i32 \<Rightarrow> i32 \<Rightarrow> nat \<Rightarrow> message_store \<Rightarrow> ont_message list" where
  "get_pending_unclassified_messages user_id since limit s =
     take limit (latest_first (sql_select (\<lambda>r. om_user_id r = user_id \<and> om_urgency r = None \<and>
       since \<le> om_created_at r \<and> pending r) (ms_messages s)))"

definition delivered_row :: "i32 \<Rightarrow> ont_message \<Rightarrow> ont_message" where
  "delivered_row now r = r\<lparr>om_digest_delivered_at := Some now\<rparr>"

definition mark_digest_delivered :: "i64 list \<Rightarrow> i32 \<Rightarrow> message_store \<Rightarrow> message_store" where
  "mark_digest_delivered message_ids now s = snd (set_message (\<lambda>r. om_id r \<in> set message_ids) (delivered_row now) s)"

definition mark_room_digest_delivered :: "i32 \<Rightarrow> string \<Rightarrow> i32 \<Rightarrow> message_store \<Rightarrow> nat \<times> message_store" where
  "mark_room_digest_delivered user_id room_id now =
     set_message (\<lambda>r. om_user_id r = user_id \<and> om_room_id r = room_id \<and> om_urgency r = Some ''later'' \<and>
       om_digest_delivered_at r = None \<and> om_sender_name r \<noteq> you) (delivered_row now)"

definition seen_row :: "i32 \<Rightarrow> ont_message \<Rightarrow> ont_message" where
  "seen_row now r = r\<lparr>om_seen_at := Some now\<rparr>"

definition mark_messages_seen_in_room :: "i32 \<Rightarrow> string \<Rightarrow> i32 \<Rightarrow> i32 \<Rightarrow> message_store \<Rightarrow> nat \<times> message_store" where
  "mark_messages_seen_in_room user_id room_id seen_up_to_ts now =
     set_message (\<lambda>r. om_user_id r = user_id \<and> om_room_id r = room_id \<and> om_created_at r \<le> seen_up_to_ts \<and>
       om_seen_at r = None \<and> om_sender_name r \<noteq> you) (seen_row now)"

definition get_unseen_email_messages :: "i32 \<Rightarrow> i32 \<Rightarrow> message_store \<Rightarrow> ont_message list" where
  "get_unseen_email_messages user_id since s =
     take 50 (latest_first (sql_select (\<lambda>r. om_user_id r = user_id \<and> om_platform r = ''email'' \<and>
       om_seen_at r = None \<and> since \<le> om_created_at r \<and> om_sender_name r \<noteq> you) (ms_messages s)))"

definition mark_message_seen :: "i64 \<Rightarrow> i32 \<Rightarrow> message_store \<Rightarrow> nat \<times> message_store" where
  "mark_message_seen message_id now = set_message (\<lambda>r. om_id r = message_id \<and> om_seen_at r = None) (seen_row now)"

definition is_message_seen :: "i32 \<Rightarrow> string \<Rightarrow> i32 \<Rightarrow> message_store \<Rightarrow> bool" where
  "is_message_seen user_id room_id message_created_at s \<longleftrightarrow>
     0 < sql_count (\<lambda>r. om_user_id r = user_id \<and> om_room_id r = room_id \<and> om_created_at r = message_created_at \<and>
       om_seen_at r \<noteq> None \<and> om_sender_name r \<noteq> you) (ms_messages s)"

definition is_message_seen_by_id :: "i32 \<Rightarrow> i64 \<Rightarrow> message_store \<Rightarrow> bool" where
  "is_message_seen_by_id user_id message_id s \<longleftrightarrow>
     0 < sql_count (\<lambda>r. om_user_id r = user_id \<and> om_id r = message_id \<and>
       om_seen_at r \<noteq> None \<and> om_sender_name r \<noteq> you) (ms_messages s)"

definition get_users_with_pending_digests :: "message_store \<Rightarrow> i32 list" where
  "get_users_with_pending_digests s =
     remdups (map om_user_id (sql_select (\<lambda>r. om_urgency r \<in> {Some ''now'', Some ''later''} \<and> pending r) (ms_messages s)))"

end
