(* ===== verification/DigestText.thy ===== *)
theory DigestText
  imports Messages
begin

text \<open>
  The pure part of the digest of \<^verbatim>\<open>jobs/scheduler.rs\<close>: the slots of the day and the text that is sent,
  with \<^verbatim>\<open>clamp_sms_body\<close> of \<^verbatim>\<open>utils/sms_sanitizer.rs\<close>. Text functions that slice strings by byte position
  return an option: \<open>None\<close> is the panic of a slice that is out of range or splits a character.
\<close>

section \<open>Slots\<close>

fun join :: "string \<Rightarrow> string list \<Rightarrow> string" where
  "join sep [] = []"
| "join sep [x] = x"
| "join sep (x # xs) = x @ sep @ join sep xs"

text \<open>The minute of the day, at the nearest boundary of ten minutes, and past midnight the first one.\<close>

definition snap :: "nat \<Rightarrow> nat \<Rightarrow> nat" where
  "snap h m = ((h * 60 + m + 5) div 10 * 10) mod 1440"

definition quoted :: "string \<Rightarrow> string" where "quoted s = [CHR 0x27] @ s @ [CHR 0x27]"

definition parse_digest_token :: "string \<Rightarrow> string + nat" where
  "parse_digest_token token =
     (let (h_str, m_str) = (case split_once '':'' token of Some hm \<Rightarrow> hm | None \<Rightarrow> (token, ''0''))
      in (case parse_u32 h_str of
            None \<Rightarrow> Inl (''invalid hour in '' @ quoted token)
          | Some h \<Rightarrow>
              (case parse_u32 m_str of
                 None \<Rightarrow> Inl (''invalid minute in '' @ quoted token)
               | Some m \<Rightarrow>
                   if 24 \<le> h then Inl (''hour must be 0-23 in '' @ quoted token)
                   else if 60 \<le> m then Inl (''minute must be 0-59 in '' @ quoted token)
                   else Inr (snap h m))))"

fun parse_digest_tokens :: "string list \<Rightarrow> nat list \<Rightarrow> string + nat list" where
  "parse_digest_tokens [] slots = Inr slots"
| "parse_digest_tokens (raw # raws) slots =
     (let token = trim raw
      in if token = [] then parse_digest_tokens raws slots
         else
           (case parse_digest_token token of
              Inl e \<Rightarrow> Inl e
            | Inr slot \<Rightarrow> parse_digest_tokens raws (if slot \<in> set slots then slots else slots @ [slot])))"

definition show_slot :: "nat \<Rightarrow> string" where
  "show_slot m = show_02 (m div 60) @ '':'' @ show_02 (m mod 60)"

definition parse_digest_times :: "string \<Rightarrow> string + string \<times> nat list" where
  "parse_digest_times input =
     (case parse_digest_tokens (str_split (\<lambda>c. c = '','') input) [] of
        Inl e \<Rightarrow> Inl e
      | Inr slots \<Rightarrow>
          if slots = [] then Inl ''at least one time required''
          else if 10 < length slots
          then Inl (''too many digest times: '' @ show_nat (length slots) @ '' (max 10 per day)'')
          else let slots' = sort slots in Inr (join '','' (map show_slot slots'), slots'))"

definition should_deliver_now :: "nat list \<Rightarrow> nat \<Rightarrow> bool" where
  "should_deliver_now slots local_minute_of_day \<longleftrightarrow> local_minute_of_day div 10 * 10 \<in> set slots"

definition latest_due_digest_slot :: "nat list \<Rightarrow> i32 \<Rightarrow> i32 \<Rightarrow> i32 option" where
  "latest_due_digest_slot slots now tz_offset_secs =
     (if slots = [] then None
      else
        let local_now = now + tz_offset_secs;
            local_day_start = local_now div 86400 * 86400;
            current_minute = local_now mod 86400 div 60;
            due = filter (\<lambda>slot. int slot \<le> current_minute) slots;
            (slot_day_start, slot_minute) =
              (if due = [] then (local_day_start - 86400, Max (set slots)) else (local_day_start, Max (set due)));
            slot_utc = slot_day_start + int slot_minute * 60 - tz_offset_secs
        in if in_i32 slot_utc then Some slot_utc else None)"

definition AUTO_DIGEST_SLOTS :: "nat list" where
  "AUTO_DIGEST_SLOTS = [8 * 60, 13 * 60, 18 * 60]"

section \<open>Pieces of text\<close>

definition category_score :: "string option \<Rightarrow> int" where
  "category_score category =
     (case category of
        None \<Rightarrow> 10
      | Some c \<Rightarrow>
          if c = ''emergency'' then 100
          else if c = ''financial'' then 60
          else if c = ''health'' then 60
          else if c = ''work'' then 30
          else if c = ''relationship'' then 30
          else if c = ''logistics'' then 15
          else if c = ''social'' then 5
          else if c = ''spam'' then - 1000
          else 10)"

definition DIGEST_TEASER_CAP :: nat where "DIGEST_TEASER_CAP = 100"
definition DIGEST_HIGH_SIGNAL_TEASER_CAP :: nat where "DIGEST_HIGH_SIGNAL_TEASER_CAP = 160"
definition DIGEST_INLINE_ITEM_CAP :: nat where "DIGEST_INLINE_ITEM_CAP = 80"
definition HIGH_SIGNAL_CAP :: nat where "HIGH_SIGNAL_CAP = 3"
definition NAMES_LIST_CAP :: nat where "NAMES_LIST_CAP = 5"
definition FYI_GROUP_MESSAGE_CAP :: nat where "FYI_GROUP_MESSAGE_CAP = 3"
definition DIGEST_UNCLASSIFIED_FALLBACK_CAP :: nat where "DIGEST_UNCLASSIFIED_FALLBACK_CAP = 60"
definition FYI_CAP :: nat where "FYI_CAP = 8"

text \<open>\<^verbatim>\<open>&s[n..]\<close>; the second form computes the position as a difference of lengths, which may underflow.\<close>

definition slice_from :: "nat \<Rightarrow> string \<Rightarrow> string option" where
  "slice_from n s = (if n \<le> length s \<and> (n = length s \<or> \<not> is_continuation (s ! n)) then Some (drop n s) else None)"

definition slice_suffix :: "string \<Rightarrow> string \<Rightarrow> string option" where
  "slice_suffix stripped rest =
     (if length stripped \<le> length rest then slice_from (length rest - length stripped) rest else None)"

definition strip_connector :: "unicode \<Rightarrow> string \<Rightarrow> string option" where
  "strip_connector u rest =
     (let lower_rest = to_lowercase u rest
      in (case strip_prefix ''is '' lower_rest of
            Some stripped \<Rightarrow> slice_suffix stripped rest
          | None \<Rightarrow>
              (case strip_prefix ''was '' lower_rest of
                 Some stripped \<Rightarrow> slice_suffix stripped rest
               | None \<Rightarrow>
                   (case strip_prefix ''has '' lower_rest of
                      Some stripped \<Rightarrow> slice_suffix stripped rest
                    | None \<Rightarrow> Some rest))))"

definition strip_sender_prefix :: "unicode \<Rightarrow> string \<Rightarrow> string \<Rightarrow> string option" where
  "strip_sender_prefix u summary sender =
     (let trimmed = trim summary; sender_trim = trim sender
      in if sender_trim = [] then Some trimmed
         else if \<not> prefix (to_lowercase u sender_trim) (to_lowercase u trimmed) then Some trimmed
         else
           (case slice_from (length sender_trim) trimmed of
              None \<Rightarrow> None
            | Some rest0 \<Rightarrow>
                let rest1 = (case strip_prefix [CHR 0x27, CHR ''s''] rest0 of Some r \<Rightarrow> r | None \<Rightarrow> rest0);
                    rest2 = strip_all (['':'', '','', ''-''] @ utf8_whitespace) rest1
                in map_option (\<lambda>rest. let cleaned = trim rest in if cleaned = [] then trimmed else cleaned)
                     (strip_connector u rest2)))"

definition digest_sender_label :: "ont_message \<Rightarrow> string" where
  "digest_sender_label msg =
     (let sender_name = trim (om_sender_name msg);
          platform = to_ascii_lowercase (om_platform msg)
      in if sender_name \<noteq> [] \<and> to_ascii_lowercase sender_name \<noteq> ''unknown'' \<and>
            to_ascii_lowercase sender_name \<noteq> ''unknown sender''
         then sender_name
         else
           (case map_option trim (om_sender_key msg) of
              Some (c # key) \<Rightarrow> c # key
            | _ \<Rightarrow>
                if platform = ''whatsapp'' then ''WhatsApp sender''
                else if platform = ''signal'' then ''Signal sender''
                else if platform = ''telegram'' then ''Telegram sender''
                else if platform = ''email'' then ''Email sender''
                else ''Message sender''))"

definition teaser :: "unicode \<Rightarrow> nat \<Rightarrow> string \<Rightarrow> ont_message \<Rightarrow> string option" where
  "teaser u cap sender msg =
     (let (raw_summary, effective_cap) =
            (case om_summary msg of Some s \<Rightarrow> (s, cap) | None \<Rightarrow> (om_content msg, DIGEST_UNCLASSIFIED_FALLBACK_CAP))
      in map_option (\<lambda>cleaned. trim (take_chars effective_cap cleaned)) (strip_sender_prefix u raw_summary sender))"

definition format_digest_message_with_cap :: "unicode \<Rightarrow> ont_message \<Rightarrow> nat \<Rightarrow> string option" where
  "format_digest_message_with_cap u msg cap =
     map_option (\<lambda>t. if t = [] then ''- '' @ digest_sender_label msg else ''- '' @ digest_sender_label msg @ '': '' @ t)
       (teaser u cap (om_sender_name msg) msg)"

definition format_digest_message :: "unicode \<Rightarrow> ont_message \<Rightarrow> string option" where
  "format_digest_message u msg = format_digest_message_with_cap u msg DIGEST_TEASER_CAP"

definition truncate_digest_piece :: "string \<Rightarrow> nat \<Rightarrow> string" where
  "truncate_digest_piece s cap =
     (let trimmed = trim s
      in if char_count trimmed \<le> cap then trimmed else trim_end (take_chars (cap - 3) trimmed) @ ''...'')"

section \<open>Sections\<close>

definition newline :: string where "newline = [CHR 0x0A]"

definition more_line :: "string \<Rightarrow> nat \<Rightarrow> nat \<Rightarrow> string" where
  "more_line lead count cap = (if cap < count then lead @ ''+ '' @ show_nat (count - cap) @ '' more'' else [])"

definition render_high_signal_section :: "unicode \<Rightarrow> string \<Rightarrow> ont_message list \<Rightarrow> string option option" where
  "render_high_signal_section u title messages =
     (if messages = [] then Some None
      else
        map_option (\<lambda>shown. Some (title @ '':'' @ newline @ join newline shown @
            more_line newline (length messages) HIGH_SIGNAL_CAP))
          (those (map (\<lambda>m. format_digest_message_with_cap u m DIGEST_HIGH_SIGNAL_TEASER_CAP)
             (take HIGH_SIGNAL_CAP messages))))"

definition format_digest_group :: "unicode \<Rightarrow> ont_message list \<Rightarrow> string option" where
  "format_digest_group u run =
     (if length run = 1 then format_digest_message u (hd run)
      else
        let sorted = sort_key om_created_at run; label = digest_sender_label (hd sorted)
        in map_option (\<lambda>pieces.
               let teasers = filter (\<lambda>t. t \<noteq> []) pieces
               in if teasers = [] then ''- '' @ label
                  else ''- '' @ label @ '': '' @ join ''; '' teasers @ more_line ''; '' (length sorted) FYI_GROUP_MESSAGE_CAP)
             (those (map (teaser u DIGEST_TEASER_CAP (om_sender_name (hd sorted))) (take FYI_GROUP_MESSAGE_CAP sorted))))"

definition extends_group :: "ont_message \<Rightarrow> ont_message list list \<Rightarrow> bool" where
  "extends_group m groups \<longleftrightarrow>
     groups \<noteq> [] \<and> om_sender_name (hd (last groups)) = om_sender_name m \<and> om_room_id (hd (last groups)) = om_room_id m"

definition add_to_groups :: "ont_message list list \<Rightarrow> ont_message \<Rightarrow> ont_message list list" where
  "add_to_groups groups m =
     (if extends_group m groups then butlast groups @ [last groups @ [m]] else groups @ [[m]])"

definition message_groups :: "ont_message list \<Rightarrow> ont_message list list" where
  "message_groups messages = foldl add_to_groups [] messages"

definition render_fyi_inline :: "unicode \<Rightarrow> ont_message list \<Rightarrow> string option option" where
  "render_fyi_inline u messages =
     (if messages = [] then Some None
      else
        let groups = message_groups messages
        in map_option (\<lambda>shown. Some (''FYI:'' @ newline @ join newline shown @ more_line newline (length groups) FYI_CAP))
             (those (map (format_digest_group u) (take FYI_CAP groups))))"

section \<open>The size of a text message\<close>

definition SMS_BODY_CHARACTER_LIMIT :: nat where "SMS_BODY_CHARACTER_LIMIT = 1600"

definition SMS_TRUNCATION_NOTICE :: string where
  "SMS_TRUNCATION_NOTICE = [CHR 0x0A, CHR 0x0A] @ ''[truncated]''"

definition clamp_sms_body :: "string \<Rightarrow> string" where
  "clamp_sms_body body' =
     (if char_count body' \<le> SMS_BODY_CHARACTER_LIMIT then body'
      else take_chars (SMS_BODY_CHARACTER_LIMIT - char_count SMS_TRUNCATION_NOTICE) body' @ SMS_TRUNCATION_NOTICE)"

end
