(* ===== verification/Digest.thy ===== *)
theory Digest
  imports DigestText Ontology Suppressions Encryption
begin

text \<open>
  The digest job of \<^verbatim>\<open>jobs/scheduler.rs\<close>: what goes into a digest (\<^verbatim>\<open>build_digest_for_user\<close>), how it is
  sent (\<^verbatim>\<open>send_notification_with_context\<close> of \<^verbatim>\<open>proactive/utils.rs\<close> for the content type of digests) and
  one pass over all users (\<^verbatim>\<open>deliver_smart_digests\<close>). The classifier, the provider, the credit check and
  the lookups of users are fields of the environment.
\<close>

section \<open>State and environment\<close>

text \<open>The columns of \<^verbatim>\<open>usage_logs\<close> and \<^verbatim>\<open>message_history\<close> that a digest does not leave NULL or empty.\<close>

record usage_log =
  ul_user_id :: i32
  ul_sid :: "string option"
  ul_activity_type :: string
  ul_created_at :: i32
  ul_success :: "bool option"
  ul_reason :: "string option"
  ul_status :: "string option"

record history_row =
  hi_user_id :: i32
  hi_role :: string
  hi_encrypted_content :: string
  hi_created_at :: i32

record digest_store =
  dg_messages :: message_store
  dg_events :: ont_store
  dg_suppressions :: suppression_store
  dg_usage :: "usage_log table"
  dg_history :: "history_row table"
  dg_cooldowns :: "i32 \<rightharpoonup> i32"

record digest_settings =
  se_digest_time :: "string option"
  se_critical_enabled :: "string option"

record message_class =
  mc_urgency :: string
  mc_category :: string
  mc_summary :: "string option"
  mc_prompt :: "string option"
  mc_result :: "string option"

record digest_env =
  de_unicode :: unicode
  de_crypto :: crypto
  de_started_at :: i32
  de_now :: i32
  de_completed_at :: i32
  de_sent_at :: "i32 \<Rightarrow> i32"                \<comment> \<open>the clock while a user is notified\<close>
  de_nonce :: "i32 \<Rightarrow> string"
  de_users :: "i32 list option"
  de_digest_enabled :: "i32 \<Rightarrow> bool option"
  de_settings :: "i32 \<Rightarrow> digest_settings option"
  de_user_timezone :: "i32 \<Rightarrow> string option option"
  de_zone_offset :: "string \<Rightarrow> i32 option"
  de_classify :: "ont_message \<Rightarrow> message_class option"
  de_user_exists :: "i32 \<Rightarrow> bool"
  de_has_credits :: "i32 \<Rightarrow> bool"
  de_send :: "i32 \<Rightarrow> string \<Rightarrow> string + string"   \<comment> \<open>the error or the sid of the provider\<close>

section \<open>Sending\<close>

definition log_usage :: "usage_log \<Rightarrow> digest_store \<Rightarrow> digest_store" where
  "log_usage row s = s\<lparr>dg_usage := dg_usage s @ [row]\<rparr>"

definition create_message_history ::
  "crypto \<Rightarrow> string \<Rightarrow> history_row \<Rightarrow> digest_store \<Rightarrow> (db_error + unit) \<times> digest_store" where
  "create_message_history cr nonce row s =
     (case encrypt cr nonce (hi_encrypted_content row) of
        Inl _ \<Rightarrow> (Inl RollbackTransaction, s)
      | Inr sealed \<Rightarrow> (Inr (), s\<lparr>dg_history := dg_history s @ [row\<lparr>hi_encrypted_content := sealed\<rparr>]\<rparr>))"

definition latest_successful_digest_checkpoint :: "i32 \<Rightarrow> digest_store \<Rightarrow> i32 option" where
  "latest_successful_digest_checkpoint user_id s =
     (let sent = sql_select (\<lambda>r. ul_user_id r = user_id \<and> ul_activity_type r = ''digest'' \<and> ul_success r = Some True)
            (dg_usage s)
      in if sent = [] then None else Some (Max (ul_created_at ` set sent)))"

definition digest_log :: "i32 \<Rightarrow> i32 \<Rightarrow> string + string \<Rightarrow> usage_log" where
  "digest_log user_id now answer =
     (case answer of
        Inr sid \<Rightarrow>
          \<lparr>ul_user_id = user_id, ul_sid = Some sid, ul_activity_type = ''digest'', ul_created_at = now,
           ul_success = Some True, ul_reason = None, ul_status = Some ''delivered''\<rparr>
      | Inl e \<Rightarrow>
          \<lparr>ul_user_id = user_id, ul_sid = None, ul_activity_type = ''digest'', ul_created_at = now,
           ul_success = Some False, ul_reason = Some (''Failed to send SMS: '' @ e), ul_status = Some ''failed''\<rparr>)"

text \<open>\<^verbatim>\<open>send_notification(state, user_id, body, "digest", None)\<close>: whether it counts as delivered.\<close>

definition send_digest :: "digest_env \<Rightarrow> i32 \<Rightarrow> string \<Rightarrow> digest_store \<Rightarrow> bool \<times> digest_store" where
  "send_digest env user_id body' s =
     (let now = de_sent_at env user_id
      in if \<not> de_user_exists env user_id then (False, s)
         else if decision (de_unicode env) user_id SCOPE_DIGEST body' False now (dg_suppressions s) \<noteq> Allow
         then (True, s)
         else if \<not> de_has_credits env user_id then (False, s)
         else
           (case de_send env user_id body' of
              Inr sid \<Rightarrow>
                let row = \<lparr>hi_user_id = user_id, hi_role = ''assistant'', hi_encrypted_content = body', hi_created_at = now\<rparr>;
                    s1 = snd (create_message_history (de_crypto env) (de_nonce env user_id) row s)
                in (True, log_usage (digest_log user_id now (Inr sid)) s1)
            | Inl e \<Rightarrow> (False, log_usage (digest_log user_id now (Inl e)) s)))"

section \<open>What a digest contains\<close>

definition get_events_due_on_local_day :: "i32 \<Rightarrow> i32 \<Rightarrow> i32 \<Rightarrow> ont_store \<Rightarrow> ont_event list" where
  "get_events_due_on_local_day user_id day_start_unix day_end_unix s =
     order_asc (\<lambda>e. null_key (oe_due_at e)) (sql_select (\<lambda>e. oe_user_id e = user_id \<and>
       oe_status e \<in> {''active'', ''proposed''} \<and>
       (\<exists>d \<in> set_option (oe_due_at e). day_start_unix \<le> d \<and> d < day_end_unix)) (on_events s))"

record digest_sections =
  dd_today :: "ont_event list"
  dd_now :: "ont_message list"
  dd_later :: "ont_message list"
  dd_recent :: "ont_event list"
  dd_completed :: "ont_event list"

definition LAZY_CLASSIFY_LIMIT :: nat where "LAZY_CLASSIFY_LIMIT = 5"
definition NOW_URGENCIES :: "string list" where "NOW_URGENCIES = [''now'', ''high'', ''critical'']"
definition LATER_URGENCIES :: "string list" where "LATER_URGENCIES = [''later'', ''medium'', ''low'']"

definition has_urgency :: "string list \<Rightarrow> ont_message \<Rightarrow> bool" where
  "has_urgency us m \<longleftrightarrow> om_urgency m \<in> Some ` set us"

definition pushes_off :: "digest_settings \<Rightarrow> bool" where
  "pushes_off settings =
     (case se_critical_enabled settings of Some v \<Rightarrow> to_ascii_lowercase v = ''off'' | None \<Rightarrow> False)"

definition run_urgency_classification :: "digest_env \<Rightarrow> ont_message \<Rightarrow> message_store \<Rightarrow> message_store" where
  "run_urgency_classification env m s =
     (case de_classify env m of
        None \<Rightarrow> s
      | Some c \<Rightarrow>
          update_message_classification (om_id m) (mc_urgency c) (mc_category c) (mc_summary c)
            (mc_prompt c) (mc_result c) s)"

definition shown :: "ont_message \<Rightarrow> bool" where
  "shown m \<longleftrightarrow> om_seen_at m = None \<and> om_category m \<noteq> Some ''spam''"

definition sort_section :: "ont_message list \<Rightarrow> ont_message list" where
  "sort_section = sort_key (\<lambda>m. (- category_score (om_category m), - om_created_at m))"

definition later_backlog :: "i32 \<Rightarrow> i32 \<Rightarrow> message_store \<Rightarrow> ont_message list" where
  "later_backlog user_id since s =
     (let later = get_pending_messages_by_urgency user_id LATER_URGENCIES since 30 s
      in if later = [] then get_pending_digest_messages user_id s else later)"

definition digest_sections_for ::
  "digest_env \<Rightarrow> i32 \<Rightarrow> digest_settings \<Rightarrow> i32 \<Rightarrow> i32 \<Rightarrow> digest_store \<Rightarrow> digest_sections \<times> digest_store" where
  "digest_sections_for env user_id settings now tz s =
     (let ms = dg_messages s;
          day_start = wrap_i32 ((now + tz) div 86400 * 86400 - tz);
          day_end = sat_i32 (day_start + 86400);
          since = sat_i32 (now - 7 * 86400);
          now_msgs = (if pushes_off settings then get_pending_messages_by_urgency user_id NOW_URGENCIES since 20 ms else []);
          later_msgs = later_backlog user_id since ms;
          unclassified = get_pending_unclassified_messages user_id since 30 ms;
          attempted = take LAZY_CLASSIFY_LIMIT unclassified;
          ms' = fold (run_urgency_classification env) attempted ms;
          refreshed = get_messages_by_ids (map om_id attempted) ms';
          now_all = now_msgs @ filter (has_urgency NOW_URGENCIES) refreshed;
          later_all = later_msgs @ filter (has_urgency LATER_URGENCIES) refreshed @ drop LAZY_CLASSIFY_LIMIT unclassified @
            filter (\<lambda>m. \<not> has_urgency NOW_URGENCIES m \<and> \<not> has_urgency LATER_URGENCIES m) refreshed;
          six_hours_ago = wrap_i32 (now - 6 * 3600)
      in (\<lparr>dd_today = get_events_due_on_local_day user_id day_start day_end (dg_events s),
           dd_now = sort_section (filter shown now_all), dd_later = sort_section (filter shown later_all),
           dd_recent = get_recently_created_events user_id six_hours_ago (dg_events s),
           dd_completed = get_recently_completed_events user_id six_hours_ago (dg_events s)\<rparr>,
          s\<lparr>dg_messages := ms'\<rparr>))"

definition plus_more :: "nat \<Rightarrow> nat \<Rightarrow> string" where
  "plus_more count cap = (if cap < count then '' +'' @ show_nat (count - cap) @ '' more'' else [])"

definition today_piece :: "i32 \<Rightarrow> ont_event \<Rightarrow> string" where
  "today_piece tz e =
     (let description = truncate_digest_piece (oe_description e) DIGEST_INLINE_ITEM_CAP
      in (case oe_due_at e of
            None \<Rightarrow> description
          | Some due \<Rightarrow>
              let second_of_day = nat ((due + tz) mod 86400)
              in show_02 (second_of_day div 3600) @ '':'' @ show_02 (second_of_day mod 3600 div 60) @ '' '' @ description))"

definition event_line :: "string \<Rightarrow> (ont_event \<Rightarrow> string) \<Rightarrow> nat \<Rightarrow> ont_event list \<Rightarrow> string list" where
  "event_line title piece cap es =
     (if es = [] then [] else [title @ join '', '' (map piece (take cap es)) @ plus_more (length es) cap])"

definition event_name :: "ont_event \<Rightarrow> string" where
  "event_name e = truncate_digest_piece (oe_description e) DIGEST_INLINE_ITEM_CAP"

definition digest_parts :: "unicode \<Rightarrow> i32 \<Rightarrow> digest_sections \<Rightarrow> string list option" where
  "digest_parts u tz d =
     (case (render_high_signal_section u ''Important'' (dd_now d), render_fyi_inline u (dd_later d)) of
        (Some important, Some fyi) \<Rightarrow>
          Some (event_line ''Today: '' (today_piece tz) 5 (dd_today d) @ (case important of Some b \<Rightarrow> [b] | None \<Rightarrow> []) @
            (case fyi of Some b \<Rightarrow> [b] | None \<Rightarrow> []) @ event_line ''New: '' event_name NAMES_LIST_CAP (dd_recent d) @
            event_line ''Done: '' event_name NAMES_LIST_CAP (dd_completed d))
      | _ \<Rightarrow> None)"

definition digest_body :: "string \<Rightarrow> string" where
  "digest_body content = clamp_sms_body (''Your digest'' @ newline @ newline @ content)"

text \<open>\<open>None\<close> is a panic, \<open>Some None\<close> an empty digest.\<close>

definition build_digest_for_user ::
  "digest_env \<Rightarrow> i32 \<Rightarrow> digest_settings \<Rightarrow> i32 \<Rightarrow> i32 \<Rightarrow> digest_store
   \<Rightarrow> (string \<times> i64 list) option option \<times> digest_store" where
  "build_digest_for_user env user_id settings now tz s =
     (case digest_sections_for env user_id settings now tz s of
        (d, s') \<Rightarrow>
          (map_option (\<lambda>parts.
             if parts = [] then None
             else Some (digest_body (join (newline @ newline) parts), map om_id (dd_now d) @ map om_id (dd_later d)))
             (digest_parts (de_unicode env) tz d), s'))"

section \<open>A pass of the job\<close>

text \<open>Marking an empty list of messages writes nothing, so both callers share this step.\<close>

definition send_and_settle :: "digest_env \<Rightarrow> i32 \<Rightarrow> string \<Rightarrow> i64 list \<Rightarrow> digest_store \<Rightarrow> digest_store" where
  "send_and_settle env user_id body' ids s =
     (case send_digest env user_id body' s of
        (delivered, s1) \<Rightarrow>
          if delivered
          then s1\<lparr>dg_cooldowns := (dg_cooldowns s1)(user_id \<mapsto> de_now env),
                  dg_messages := mark_digest_delivered ids (de_now env) (dg_messages s1)\<rparr>
          else s1)"

definition stale_delivery :: "i32 \<Rightarrow> i32 \<Rightarrow> digest_store \<Rightarrow> bool" where
  "stale_delivery user_id now s =
     (case latest_successful_digest_checkpoint user_id s of
        None \<Rightarrow> True
      | Some checkpoint \<Rightarrow> 86400 \<le> sat_i32 (now - checkpoint))"

definition recovery_messages :: "i32 \<Rightarrow> message_store \<Rightarrow> ont_message list" where
  "recovery_messages user_id s =
     filter (\<lambda>m. om_category m \<noteq> Some ''spam'') (get_pending_messages_by_urgency user_id LATER_URGENCIES 0 30 s)"

definition tz_offset_secs :: "digest_env \<Rightarrow> i32 \<Rightarrow> i32" where
  "tz_offset_secs env user_id =
     (case de_user_timezone env user_id of
        None \<Rightarrow> 0
      | Some zone \<Rightarrow>
          (case de_zone_offset env (case zone of Some name \<Rightarrow> name | None \<Rightarrow> ''UTC'') of
             Some offset \<Rightarrow> offset
           | None \<Rightarrow> 0))"

definition digest_slots :: "digest_settings \<Rightarrow> nat list option" where
  "digest_slots settings =
     (case se_digest_time settings of
        None \<Rightarrow> Some AUTO_DIGEST_SLOTS
      | Some time \<Rightarrow> (case parse_digest_times time of Inr (_, slots) \<Rightarrow> Some slots | Inl _ \<Rightarrow> None))"

text \<open>Whether a digest is due: a slot has passed since the last one, and none was sent in nine minutes.\<close>

definition digest_due :: "digest_env \<Rightarrow> i32 \<Rightarrow> digest_settings \<Rightarrow> digest_store \<Rightarrow> bool" where
  "digest_due env user_id settings s =
     (case digest_slots settings of
        None \<Rightarrow> False
      | Some slots \<Rightarrow>
          (case latest_due_digest_slot slots (de_now env) (tz_offset_secs env user_id) of
             None \<Rightarrow> False
           | Some due_slot_at \<Rightarrow>
               (case latest_successful_digest_checkpoint user_id s of
                  Some checkpoint \<Rightarrow> \<not> due_slot_at \<le> checkpoint
                | None \<Rightarrow> True) \<and>
               (case dg_cooldowns s user_id of
                  Some last_sent \<Rightarrow> \<not> wrap_i32 (de_now env - last_sent) < 540
                | None \<Rightarrow> True)))"

text \<open>One user; the flag says that the pass goes on, that is, that nothing panicked.\<close>

definition deliver_scheduled :: "digest_env \<Rightarrow> i32 \<Rightarrow> digest_store \<Rightarrow> bool \<times> digest_store" where
  "deliver_scheduled env user_id s =
     (case de_settings env user_id of
        None \<Rightarrow> (True, s)
      | Some settings \<Rightarrow>
          if \<not> digest_due env user_id settings s then (True, s)
          else
            (case build_digest_for_user env user_id settings (de_now env) (tz_offset_secs env user_id) s of
               (None, s1) \<Rightarrow> (False, s1)
             | (Some None, s1) \<Rightarrow> (True, s1)
             | (Some (Some (body', ids)), s1) \<Rightarrow> (True, send_and_settle env user_id body' ids s1)))"

definition deliver_to_user :: "digest_env \<Rightarrow> i32 \<Rightarrow> digest_store \<Rightarrow> bool \<times> digest_store" where
  "deliver_to_user env user_id s =
     (if de_digest_enabled env user_id \<noteq> Some True then (True, s)
      else if stale_delivery user_id (de_now env) s
      then
        let messages = recovery_messages user_id (dg_messages s)
        in (case render_fyi_inline (de_unicode env) messages of
              None \<Rightarrow> (False, s)
            | Some (Some body') \<Rightarrow> (True, send_and_settle env user_id (digest_body body') (map om_id messages) s)
            | Some None \<Rightarrow> deliver_scheduled env user_id s)
      else deliver_scheduled env user_id s)"

fun deliver_to_users :: "digest_env \<Rightarrow> i32 list \<Rightarrow> digest_store \<Rightarrow> bool \<times> digest_store" where
  "deliver_to_users env [] s = (True, s)"
| "deliver_to_users env (user_id # users) s =
     (case deliver_to_user env user_id s of
        (True, s') \<Rightarrow> deliver_to_users env users s'
      | (False, s') \<Rightarrow> (False, s'))"

definition digest_health :: "digest_env \<Rightarrow> i32 option \<Rightarrow> string option \<Rightarrow> digest_store \<Rightarrow> digest_store" where
  "digest_health env completed_at error_code s =
     s\<lparr>dg_events := update_scheduler_health ''smart_digests'' (de_started_at env) completed_at error_code (dg_events s)\<rparr>"

definition deliver_smart_digests :: "digest_env \<Rightarrow> digest_store \<Rightarrow> bool \<times> digest_store" where
  "deliver_smart_digests env s =
     (let s0 = digest_health env None None s
      in (case de_users env of
            None \<Rightarrow> (True, digest_health env (Some (de_completed_at env)) (Some ''user_list_failed'') s0)
          | Some users \<Rightarrow>
              (case deliver_to_users env users s0 of
                 (True, s1) \<Rightarrow> (True, digest_health env (Some (de_completed_at env)) None s1)
               | (False, s1) \<Rightarrow> (False, s1))))"

end
