(* ===== verification/DigestTextProperties.thy ===== *)
theory DigestTextProperties
  imports DigestText
begin

text \<open>
  Properties of the pure part of the digest: the times a user sets are normalized once and for all, the
  due slot is the last one that has passed, and the text keeps within its bounds.
\<close>

section \<open>Slots\<close>

definition slot_ok :: "nat \<Rightarrow> bool" where
  "slot_ok m \<longleftrightarrow> m < 1440 \<and> 10 dvd m"

lemma snap_ok: "slot_ok (snap h m)"
proof -
  have "10 dvd (h * 60 + m + 5) div 10 * 10 mod 1440" by (rule dvd_mod) simp_all
  then show ?thesis by (simp add: slot_ok_def snap_def)
qed

lemma parse_digest_token_ok: "parse_digest_token token = Inr slot \<Longrightarrow> slot_ok slot"
  by (auto simp: parse_digest_token_def Let_def snap_ok split: option.splits prod.splits if_splits)

lemma parse_digest_tokens_ok:
  "parse_digest_tokens raws acc = Inr slots \<Longrightarrow> distinct acc \<Longrightarrow> \<forall>m \<in> set acc. slot_ok m \<Longrightarrow>
   distinct slots \<and> (\<forall>m \<in> set slots. slot_ok m)"
proof (induction raws acc rule: parse_digest_tokens.induct)
  case (2 raw raws acc)
  show ?case
  proof (cases "trim raw = []")
    case True
    with "2.prems" "2.IH"(1) [OF refl True] show ?thesis by simp
  next
    case False
    with "2.prems"(1) obtain slot where slot: "parse_digest_token (trim raw) = Inr slot"
      by (auto simp: Let_def split: sum.splits)
    have rest: "parse_digest_tokens raws (if slot \<in> set acc then acc else acc @ [slot]) = Inr slots"
      using "2.prems"(1) False slot by (simp add: Let_def)
    have "distinct (if slot \<in> set acc then acc else acc @ [slot])"
      "\<forall>m \<in> set (if slot \<in> set acc then acc else acc @ [slot]). slot_ok m"
      using "2.prems"(2,3) parse_digest_token_ok [OF slot] by auto
    from "2.IH"(2) [OF refl False slot rest this] show ?thesis .
  qed
qed simp

text \<open>A text that begins and ends with a digit has nothing to trim.\<close>

definition is_digit :: "char \<Rightarrow> bool" where
  "is_digit c \<longleftrightarrow> (\<exists>d < 10. c = digit_char d)"

lemma whitespace_no_digit: "w \<in> set utf8_whitespace \<Longrightarrow> w \<noteq> [] \<and> \<not> is_digit (hd w) \<and> \<not> is_digit (last w)"
proof -
  assume w: "w \<in> set utf8_whitespace"
  have "list_all (\<lambda>w. w \<noteq> [] \<and> ((of_char (hd w) :: nat) < 48 \<or> 57 < (of_char (hd w) :: nat)) \<and>
      ((of_char (last w) :: nat) < 48 \<or> 57 < (of_char (last w) :: nat))) utf8_whitespace" by code_simp
  with w show ?thesis unfolding list_all_iff is_digit_def using digit_char_not by metis
qed

lemma strip_all_none:
  assumes "\<forall>w \<in> set ws. \<not> prefix w s"
  shows "strip_all ws s = s"
proof -
  have "find (\<lambda>w. w \<noteq> [] \<and> prefix w s) ws = None" using assms by (auto simp: find_None_iff)
  then show ?thesis by (simp add: strip_all.simps [of ws s])
qed

lemma trim_digits:
  assumes "s \<noteq> []" "is_digit (hd s)" "is_digit (last s)"
  shows "trim s = s"
proof -
  have "\<not> prefix w s" if "w \<in> set utf8_whitespace" for w
    using whitespace_no_digit [OF that] assms(2) by (auto simp: prefix_def)
  then have start: "trim_start s = s" by (simp add: trim_start_def strip_all_none)
  have "\<not> prefix (rev w) (rev s)" if "w \<in> set utf8_whitespace" for w
    using whitespace_no_digit [OF that] assms(3) by (auto simp: prefix_def hd_append hd_rev [symmetric])
  then have "strip_all (map rev utf8_whitespace) (rev s) = rev s" by (intro strip_all_none) auto
  with start show ?thesis by (simp add: trim_def trim_end_def)
qed

lemma split_once_char:
  "c \<notin> set xs \<Longrightarrow> split_once [c] (xs @ c # ys) = Some (xs, ys)"
  by (induction xs) auto

lemma show_02_digits: "c \<in> set (show_02 n) \<Longrightarrow> is_digit c"
proof -
  assume "c \<in> set (show_02 n)"
  then have "c = CHR ''0'' \<or> c \<in> set (show_nat n)" by (auto simp: show_02_def split: if_splits)
  moreover have "CHR ''0'' = digit_char 0" by code_simp
  ultimately show ?thesis using show_nat_chars unfolding is_digit_def by (metis zero_less_numeral)
qed

lemma show_02_nonempty [simp]: "show_02 n \<noteq> []"
  by (simp add: show_02_def)

lemma digit_plain: "is_digit c \<Longrightarrow> \<not> is_continuation c \<and> c \<noteq> CHR '','' \<and> c \<noteq> CHR '':''"
proof -
  assume "is_digit c"
  then obtain d where d: "d < 10" "c = digit_char d" by (auto simp: is_digit_def)
  have "digit_char d \<noteq> CHR '',''" "digit_char d \<noteq> CHR '':''" using d(1) by (simp_all add: digit_char_not)
  with d show ?thesis by simp
qed

definition prints_back :: "nat \<Rightarrow> bool" where
  "prints_back m \<longleftrightarrow> trim (show_slot m) = show_slot m \<and> show_slot m \<noteq> [] \<and> parse_digest_token (show_slot m) = Inr m \<and>
     (\<forall>c \<in> set (show_slot m). \<not> is_continuation c \<and> c \<noteq> CHR '','')"

lemma slot_prints_back:
  assumes "slot_ok m"
  shows "prints_back m"
proof -
  have colon: "\<not> is_continuation CHR '':''" by code_simp
  have h: "m div 60 < 24" "m mod 60 < 60" using assms by (auto simp: slot_ok_def)
  have "is_digit (hd (show_slot m))" "is_digit (last (show_slot m))"
    using show_02_digits [of "hd (show_02 (m div 60))" "m div 60"] show_02_digits [of "last (show_02 (m mod 60))" "m mod 60"]
    by (simp_all add: show_slot_def)
  then have 1: "trim (show_slot m) = show_slot m" by (intro trim_digits) (simp add: show_slot_def)
  have "CHR '':'' \<notin> set (show_02 (m div 60))" using show_02_digits digit_plain by blast
  then have once: "split_once '':'' (show_slot m) = Some (show_02 (m div 60), show_02 (m mod 60))"
    by (simp add: show_slot_def split_once_char)
  have "(m + 5) div 10 * 10 = m" using assms by (auto simp: slot_ok_def elim!: dvdE)
  moreover have "m div 60 * 60 + m mod 60 = m" by simp
  ultimately have "snap (m div 60) (m mod 60) = m" using assms unfolding snap_def slot_ok_def by simp
  with once h have 2: "parse_digest_token (show_slot m) = Inr m"
    by (simp add: parse_digest_token_def parse_show_02)
  have 3: "\<not> is_continuation c \<and> c \<noteq> CHR '',''" if "c \<in> set (show_slot m)" for c
    using that show_02_digits digit_plain colon by (auto simp: show_slot_def)
  from 1 2 3 show ?thesis by (simp add: prints_back_def show_slot_def)
qed

lemma split_chars_plain:
  "\<forall>c \<in> set xs. \<not> p [c] \<Longrightarrow> split_chars p (map (\<lambda>c. [c]) xs @ rest) acc = split_chars p rest (acc @ xs)"
  by (induction xs arbitrary: acc) auto

lemma split_join:
  assumes "xs \<noteq> []" "\<forall>x \<in> set xs. CHR '','' \<notin> set x"
  shows "split_chars (\<lambda>c. c = '','') (map (\<lambda>c. [c]) (join '','' xs)) acc = (acc @ hd xs) # tl xs"
  using assms
proof (induction "'',''" xs arbitrary: acc rule: join.induct)
  case (2 x)
  then have "\<forall>c \<in> set x. c \<noteq> CHR '',''" by auto
  then have "\<forall>c \<in> set x. \<not> [c] = '',''" by simp
  from split_chars_plain [OF this, of "[]" acc] show ?case by simp
next
  case (3 x y ys)
  then have "\<forall>c \<in> set x. c \<noteq> CHR '',''" by auto
  then have "\<forall>c \<in> set x. \<not> [c] = '',''" by simp
  from split_chars_plain [OF this, of "map (\<lambda>c. [c]) ('','' @ join '','' (y # ys))" acc] 3 show ?case by simp
qed simp

lemma set_join: "set (join sep xs) \<subseteq> set sep \<union> (\<Union>x \<in> set xs. set x)"
  by (induction sep xs rule: join.induct) auto

lemma parse_printed_slots:
  "\<forall>m \<in> set ms. prints_back m \<Longrightarrow> distinct (acc @ ms) \<Longrightarrow>
   parse_digest_tokens (map show_slot ms) acc = Inr (acc @ ms)"
  by (induction ms arbitrary: acc) (auto simp: prints_back_def Let_def)

lemma parsed_slots:
  assumes "parse_digest_times input = Inr (canonical, slots)"
  shows "distinct slots" "\<forall>m \<in> set slots. slot_ok m" "slots \<noteq> []" "length slots \<le> 10" "sorted slots"
    "canonical = join '','' (map show_slot slots)"
proof -
  obtain raw where raw: "parse_digest_tokens (str_split (\<lambda>c. c = '','') input) [] = Inr raw" "raw \<noteq> []" "length raw \<le> 10"
    "slots = sort raw" "canonical = join '','' (map show_slot slots)"
    using assms by (auto simp: parse_digest_times_def Let_def split: sum.splits if_splits)
  have "slots \<noteq> []" using raw(2,4) by (metis set_empty set_sort)
  with parse_digest_tokens_ok [OF raw(1)] raw(3-5)
  show "distinct slots" "\<forall>m \<in> set slots. slot_ok m" "slots \<noteq> []" "length slots \<le> 10" "sorted slots"
    "canonical = join '','' (map show_slot slots)" by simp_all
qed

text \<open>
  Claim C37. Digest times are normalized once and for all: what is accepted is at most ten times of the day at
  boundaries of ten minutes, in order and without repetition, and the stored text reads back as them.
\<close>

theorem digest_times_roundtrip:
  assumes "parse_digest_times input = Inr (canonical, slots)"
  shows "sorted slots \<and> distinct slots \<and> slots \<noteq> [] \<and> length slots \<le> 10 \<and> (\<forall>m \<in> set slots. m < 1440 \<and> 10 dvd m) \<and>
    parse_digest_times canonical = Inr (canonical, slots)"
proof -
  note ok = parsed_slots(1-4) [OF assms] and canonical = parsed_slots(6) [OF assms]
  have prints: "\<forall>m \<in> set slots. prints_back m" using ok(2) slot_prints_back by blast
  have comma: "\<not> is_continuation CHR '',''" by code_simp
  have "\<forall>c \<in> set canonical. \<not> is_continuation c"
    using set_join [of "'',''" "map show_slot slots"] prints comma by (auto simp: canonical prints_back_def)
  then have chars: "utf8_chars canonical = map (\<lambda>c. [c]) canonical" by (rule utf8_chars_ascii)
  have "\<forall>x \<in> set (map show_slot slots). CHR '','' \<notin> set x" using prints by (auto simp: prints_back_def)
  then have "str_split (\<lambda>c. c = '','') canonical = map show_slot slots"
    using split_join [of "map show_slot slots" "[]"] ok(3) chars [unfolded canonical]
    by (cases slots) (simp_all add: str_split_def canonical)
  moreover have "parse_digest_tokens (map show_slot slots) [] = Inr slots"
    using parse_printed_slots [OF prints, of "[]"] ok(1) by simp
  moreover have "sort slots = slots" using parsed_slots(5) [OF assms] by (simp add: sort_key_id_if_sorted)
  ultimately have "parse_digest_times canonical = Inr (canonical, slots)"
    using ok(3,4) by (simp add: parse_digest_times_def canonical [symmetric])
  with ok parsed_slots(5) [OF assms] show ?thesis by (auto simp: slot_ok_def)
qed

text \<open>The times a user's slots fall on, as UTC seconds.\<close>

definition slot_instant :: "nat list \<Rightarrow> i32 \<Rightarrow> i32 \<Rightarrow> bool" where
  "slot_instant slots tz t \<longleftrightarrow> (\<exists>m \<in> set slots. (t + tz) mod 86400 = int m * 60)"

lemma due_slot_arith:
  fixes day m :: int
  assumes "0 \<le> m" "m < 1440"
  shows "(day * 86400 + m * 60) mod 86400 = m * 60"
  using assms by simp

lemma due_slot_latest:
  assumes "slots \<noteq> []" "\<forall>m \<in> set slots. m < 1440" "in_i32 now" "in_i32 (now - 86400)"
  shows "\<exists>t. latest_due_digest_slot slots now tz = Some t \<and> slot_instant slots tz t \<and> now - 86400 < t \<and> t \<le> now \<and>
    (\<forall>t'. slot_instant slots tz t' \<longrightarrow> t' \<le> now \<longrightarrow> t' \<le> t)"
proof -
  define L where "L = now + tz"
  define day where "day = L div 86400"
  define minute where "minute = L mod 86400 div 60"
  define due where "due = filter (\<lambda>slot. int slot \<le> minute) slots"
  have L: "L = day * 86400 + L mod 86400" by (simp add: day_def)
  have rest: "0 \<le> L mod 86400" "L mod 86400 < 86400" "minute * 60 \<le> L mod 86400" "L mod 86400 < minute * 60 + 60"
    using div_mult_mod_eq [of "L mod 86400" 60] pos_mod_bound [of 60 "L mod 86400"] pos_mod_sign [of 60 "L mod 86400"]
    unfolding minute_def by linarith+
  define d m where "d = (if due = [] then day - 1 else day)" and "m = (if due = [] then Max (set slots) else Max (set due))"
  have m: "m \<in> set slots" "m < 1440"
  proof -
    show "m \<in> set slots"
    proof (cases "due = []")
      case False
      then have "Max (set due) \<in> set due" by simp
      with False show ?thesis unfolding m_def by (simp add: due_def)
    qed (simp add: m_def assms(1))
    with assms(2) show "m < 1440" by blast
  qed
  define t where "t = d * 86400 + int m * 60 - tz"
  have inst: "slot_instant slots tz t"
    using m due_slot_arith [of "int m" d] by (auto simp: slot_instant_def t_def)
  have upper: "t \<le> now \<and> now - 86400 < t"
  proof (cases "due = []")
    case True
    have "\<not> int m \<le> minute" using True m(1) by (auto simp: due_def filter_empty_conv)
    with True m(2) rest L show ?thesis unfolding t_def d_def L_def by simp
  next
    case False
    have "Max (set due) \<in> set due" using False by simp
    then have "int m \<le> minute" using False by (auto simp: m_def due_def)
    with False rest L show ?thesis unfolding t_def d_def L_def by simp
  qed
  have last: "t' \<le> t" if t': "slot_instant slots tz t'" "t' \<le> now" for t'
  proof -
    obtain k where k: "k \<in> set slots" "(t' + tz) mod 86400 = int k * 60" using t'(1) by (auto simp: slot_instant_def)
    define e where "e = (t' + tz) div 86400"
    have e: "t' + tz = e * 86400 + int k * 60" using k(2) by (metis e_def div_mult_mod_eq)
    have "e * 86400 \<le> L" using e t'(2) by (simp add: L_def)
    then have "e \<le> day" using L rest by linarith
    consider "e = day" | "e < day" using \<open>e \<le> day\<close> by linarith
    then show ?thesis
    proof cases
      case 1
      then have "int k * 60 \<le> L mod 86400" using e t'(2) L by (simp add: L_def)
      then have "int k \<le> minute" using rest by linarith
      with k(1) have "k \<in> set due" by (simp add: due_def)
      then have "due \<noteq> []" "k \<le> m" by (auto simp: m_def)
      with 1 e show ?thesis by (simp add: t_def d_def)
    next
      case 2
      have k2: "int k < 1440" using assms(2) k(1) by auto
      show ?thesis
      proof (cases "due = []")
        case True
        then have "k \<le> m" using k(1) by (simp add: m_def)
        moreover have "e \<le> day - 1" using 2 by linarith
        ultimately show ?thesis using e True k2 by (simp add: t_def d_def)
      next
        case False
        with 2 e k2 show ?thesis by (simp add: t_def d_def)
      qed
    qed
  qed
  have "in_i32 t" using upper assms(3,4) by (simp add: in_i32_def)
  moreover have "latest_due_digest_slot slots now tz = (if in_i32 t then Some t else None)"
    using assms(1) by (simp add: latest_due_digest_slot_def Let_def t_def d_def m_def due_def [symmetric] minute_def [symmetric]
        L_def [symmetric] day_def [symmetric] algebra_simps)
  ultimately show ?thesis using inst upper last by auto
qed

text \<open>
  The due slot is the last time of the schedule that is not after now, in the local time of the user;
  there always is one within the last day.
\<close>

theorem due_slot_is_latest:
  assumes "slots \<noteq> []" "\<forall>m \<in> set slots. m < 1440" "in_i32 now" "in_i32 (now - 86400)"
  shows "\<exists>t. latest_due_digest_slot slots now tz = Some t \<and> slot_instant slots tz t \<and> now - 86400 < t \<and> t \<le> now \<and>
    (\<forall>t'. slot_instant slots tz t' \<longrightarrow> t' \<le> now \<longrightarrow> t' \<le> t)"
  using due_slot_latest [OF assms] .

section \<open>Text\<close>

lemma utf8_char_count: "x \<in> set (utf8_chars s) \<Longrightarrow> char_count x \<le> 1"
proof (induction s rule: utf8_chars.induct)
  case (2 b bs)
  have "filter (\<lambda>c. \<not> is_continuation c) (takeWhile is_continuation bs) = []"
    by (auto simp: filter_empty_conv dest: set_takeWhileD)
  then have "char_count (b # takeWhile is_continuation bs) \<le> 1" by (simp add: char_count_def)
  with 2 show ?case by auto
qed simp

lemma char_count_concat: "\<forall>x \<in> set xs. char_count x \<le> 1 \<Longrightarrow> char_count (concat xs) \<le> length xs"
proof (induction xs)
  case (Cons x xs)
  then have "char_count x \<le> 1" "char_count (concat xs) \<le> length xs" by auto
  then show ?case by (simp only: concat.simps char_count_append list.size)
qed (simp add: char_count_def)

lemma char_count_take_chars: "char_count (take_chars n s) \<le> n"
proof -
  have "\<forall>x \<in> set (take n (utf8_chars s)). char_count x \<le> 1" using utf8_char_count by (metis in_set_takeD)
  from char_count_concat [OF this] show ?thesis by (simp add: take_chars_def)
qed

lemma char_count_clamp: "char_count (clamp_sms_body s) \<le> 1600"
proof -
  have "char_count SMS_TRUNCATION_NOTICE = 13" by code_simp
  then show ?thesis using char_count_take_chars [of 1587 s]
    by (simp add: clamp_sms_body_def SMS_BODY_CHARACTER_LIMIT_def)
qed

definition ascii :: "string \<Rightarrow> bool" where
  "ascii s \<longleftrightarrow> list_all is_ascii s"

lemma ascii_no_continuation: "is_ascii c \<Longrightarrow> \<not> is_continuation c"
  by (simp add: is_ascii_def is_continuation_def)

lemma ascii_slice: "ascii s \<Longrightarrow> n \<le> length s \<Longrightarrow> slice_from n s = Some (drop n s)"
  by (auto simp: slice_from_def ascii_def list_all_length ascii_no_continuation)

lemma ascii_suffix: "ascii s \<Longrightarrow> suffix t s \<Longrightarrow> ascii t"
  by (auto simp: ascii_def suffix_def)

lemma ascii_prefix: "ascii s \<Longrightarrow> prefix t s \<Longrightarrow> ascii t"
  by (auto simp: ascii_def prefix_def)

lemma ascii_lower_length: "ascii s \<Longrightarrow> length (to_lowercase u s) = length s"
  by (simp add: to_lowercase_def ascii_def to_ascii_lowercase_def)

lemma trim_sublist: "sublist (trim s) s"
  unfolding trim_def using trim_end_prefix [of "trim_start s"] strip_all_suffix [of utf8_whitespace s]
  by (metis trim_start_def prefix_imp_sublist suffix_imp_sublist sublist_order.order_trans)

lemma ascii_sublist: "ascii s \<Longrightarrow> sublist t s \<Longrightarrow> ascii t"
  by (auto simp: ascii_def sublist_def)

lemma ascii_connector:
  assumes "ascii rest"
  obtains t where "strip_connector u rest = Some t" "suffix t rest"
proof -
  have strip: "slice_suffix stripped rest = Some (drop (length p) rest)"
    if "strip_prefix p (to_lowercase u rest) = Some stripped" for p stripped
  proof -
    from that have "prefix p (to_lowercase u rest)" "length stripped = length rest - length p"
      using ascii_lower_length [OF assms] by (auto simp: strip_prefix_def split: if_splits)
    then show ?thesis
      using prefix_length_le [of p "to_lowercase u rest"] ascii_lower_length [OF assms] ascii_slice [OF assms]
      by (simp add: slice_suffix_def)
  qed
  have "\<exists>n. strip_connector u rest = Some (drop n rest)"
    unfolding strip_connector_def Let_def
    by (auto simp: strip split: option.split) (metis drop0)
  then show thesis using that by (metis suffix_drop)
qed

text \<open>
  For a summary and a sender in ASCII, removing the sender from the front of the summary never panics,
  gives a contiguous part of the summary, and never an empty one for a summary that is not blank.
\<close>

theorem ascii_prefix_strips:
  assumes "ascii summary" "ascii sender"
  shows "\<exists>t. strip_sender_prefix u summary sender = Some t \<and> sublist t summary \<and> (trim summary \<noteq> [] \<longrightarrow> t \<noteq> [])"
proof -
  let ?s = "trim summary" and ?n = "trim sender"
  have plain: "ascii ?s" "ascii ?n" using assms trim_sublist ascii_sublist by blast+
  show ?thesis
  proof (cases "?n = [] \<or> \<not> prefix (to_lowercase u ?n) (to_lowercase u ?s)")
    case True
    then have "strip_sender_prefix u summary sender = Some ?s" by (auto simp: strip_sender_prefix_def Let_def)
    then show ?thesis using trim_sublist by blast
  next
    case False
    then have "length ?n \<le> length ?s"
      using prefix_length_le ascii_lower_length plain by metis
    from ascii_slice [OF plain(1) this] have slice: "slice_from (length ?n) ?s = Some (drop (length ?n) ?s)" .
    define rest0 where "rest0 = drop (length ?n) ?s"
    define rest1 where "rest1 = (case strip_prefix [CHR 0x27, CHR ''s''] rest0 of Some r \<Rightarrow> r | None \<Rightarrow> rest0)"
    define rest2 where "rest2 = strip_all (['':'', '','', ''-''] @ utf8_whitespace) rest1"
    have "suffix rest0 ?s" by (simp add: rest0_def suffix_drop)
    moreover have "suffix rest1 rest0"
      by (auto simp: rest1_def strip_prefix_def suffix_drop split: option.splits if_splits)
    moreover have "suffix rest2 rest1" by (simp only: rest2_def strip_all_suffix)
    ultimately have suf: "suffix rest2 ?s" by (meson suffix_order.trans)
    obtain t where t: "strip_connector u rest2 = Some t" "suffix t rest2"
      using ascii_connector ascii_suffix [OF plain(1) suf] by blast
    have "sublist (trim t) summary"
      using trim_sublist [of t] trim_sublist [of summary] suf t(2)
      by (meson sublist_order.order_trans suffix_imp_sublist)
    moreover have "strip_sender_prefix u summary sender = Some (if trim t = [] then ?s else trim t)"
      using False slice t(1)
      by (simp add: strip_sender_prefix_def Let_def rest0_def [symmetric] rest1_def [symmetric] rest2_def [symmetric]
          del: append_Cons append_Nil)
    ultimately show ?thesis using trim_sublist [of summary] by auto
  qed
qed

text \<open>
  Outside ASCII it can panic: the byte position is computed from the lower-case text, and a Turkish
  capital I with a dot takes one byte more in lower case.
\<close>

definition dotted_I :: string where "dotted_I = [CHR 0xC4, CHR 0xB0]"

fun lower_dotted :: "string \<Rightarrow> string" where
  "lower_dotted (a # b # cs) =
     (if [a, b] = dotted_I then CHR ''i'' # CHR 0xCC # CHR 0x87 # lower_dotted cs else ascii_lower a # lower_dotted (b # cs))"
| "lower_dotted cs = to_ascii_lowercase cs"

definition turkish :: unicode where
  "turkish = \<lparr>u_alphanumeric = (\<lambda>_. True), u_lowercase = lower_dotted\<rparr>"

lemma turkish_summary_panics:
  "strip_sender_prefix turkish (''Ali is '' @ dotted_I @ dotted_I @ dotted_I @ dotted_I) ''Ali'' = None"
  by code_simp

end
