(* ===== verification/MessageProperties.thy ===== *)
theory MessageProperties
  imports Messages
begin

text \<open>
  Properties of the message store: a Matrix event is stored once, the conversation overview shows the
  latest message of each conversation, and two defects: an event dropped by the content window is not
  remembered, and the filter of one inbox also matches other inboxes.
\<close>

section \<open>The life of the store\<close>

definition messages_ok :: "message_store \<Rightarrow> bool" where
  "messages_ok s \<longleftrightarrow>
     distinct (map om_id (ms_messages s)) \<and> (\<forall>r \<in> set (ms_messages s). om_id r < ms_next_id s) \<and>
     (\<forall>user eid. sql_count (same_event user eid) (ms_messages s) \<le> 1)"

text \<open>The statements that other callers can run without removing a message, and those that remove some.\<close>

inductive message_step :: "message_store \<Rightarrow> message_store \<Rightarrow> bool" where
  stored: "message_step s (snd (insert_message_row m s))"
| classified: "message_step s (update_message_classification i urgency category summary prompt result s)"
| committed: "message_step s (update_message_commitment i prompt result s)"
| delivered: "message_step s (mark_digest_delivered ids now s)"
| room_delivered: "message_step s (snd (mark_room_digest_delivered user room now s))"
| room_seen: "message_step s (snd (mark_messages_seen_in_room user room up_to now s))"
| seen: "message_step s (snd (mark_message_seen i now s))"

inductive message_removal :: "message_store \<Rightarrow> message_store \<Rightarrow> bool" where
  redacted: "message_removal s (snd (delete_message_by_matrix_event_id user eid s))"
| purged: "message_removal s (snd (purge_old_messages age now s))"

definition keeps_identity :: "(ont_message \<Rightarrow> ont_message) \<Rightarrow> bool" where
  "keeps_identity f \<longleftrightarrow> (\<forall>r. om_id (f r) = om_id r \<and> om_user_id (f r) = om_user_id r \<and>
     om_matrix_event_id (f r) = om_matrix_event_id r \<and> om_content (f r) = om_content r \<and>
     (om_digest_delivered_at r \<noteq> None \<longrightarrow> om_digest_delivered_at (f r) \<noteq> None))"

lemma set_message_identity:
  assumes "keeps_identity f"
  shows "map om_id (ms_messages (snd (set_message p f s))) = map om_id (ms_messages s)"
    and "ms_next_id (snd (set_message p f s)) = ms_next_id s"
    and "sql_count (same_event user eid) (ms_messages (snd (set_message p f s))) = sql_count (same_event user eid) (ms_messages s)"
    and "sql_first (same_event user eid) (ms_messages (snd (set_message p f s))) =
      map_option (\<lambda>r. if p r then f r else r) (sql_first (same_event user eid) (ms_messages s))"
  using assms
  by (auto simp: set_message_def keeps_identity_def same_event_def map_sql_update sql_count_update_same sql_first_update)

lemma message_step_cases:
  assumes "message_step s s'"
  obtains (row) m where "s' = snd (insert_message_row m s)"
  | (change) p f where "s' = snd (set_message p f s)" "keeps_identity f"
proof (rule message_step.cases [OF assms])
  fix t m assume "s = t" "s' = snd (insert_message_row m t)" then show thesis using row by simp
next
  fix t i urgency category summary prompt result
  assume "s = t" "s' = update_message_classification i urgency category summary prompt result t"
  then show thesis using change by (simp add: update_message_classification_def keeps_identity_def classify_row_def)
next
  fix t i prompt result
  assume "s = t" "s' = update_message_commitment i prompt result t"
  then show thesis using change
    by (simp add: update_message_commitment_def keeps_identity_def)
next
  fix t ids now assume "s = t" "s' = mark_digest_delivered ids now t"
  then show thesis using change by (simp add: mark_digest_delivered_def keeps_identity_def delivered_row_def)
next
  fix t user room now assume "s = t" "s' = snd (mark_room_digest_delivered user room now t)"
  then show thesis using change by (simp add: mark_room_digest_delivered_def keeps_identity_def delivered_row_def)
next
  fix t user room up_to now assume "s = t" "s' = snd (mark_messages_seen_in_room user room up_to now t)"
  then show thesis using change by (simp add: mark_messages_seen_in_room_def keeps_identity_def seen_row_def)
next
  fix t i now assume "s = t" "s' = snd (mark_message_seen i now t)"
  then show thesis using change by (simp add: mark_message_seen_def keeps_identity_def seen_row_def)
qed

lemma insert_row_new:
  assumes "find_event m s = None"
  shows "insert_message_row m s =
    (Some (new_message_row (ms_next_id s) m),
     \<lparr>ms_messages = ms_messages s @ [new_message_row (ms_next_id s) m], ms_next_id = ms_next_id s + 1\<rparr>)"
  using assms by (simp add: insert_message_row_def Let_def)

lemma insert_row_old: "find_event m s \<noteq> None \<Longrightarrow> insert_message_row m s = (None, s)"
  by (simp add: insert_message_row_def)

lemma same_event_new [simp]:
  "same_event user eid (new_message_row i m) \<longleftrightarrow> nm_user_id m = user \<and> nm_matrix_event_id m = Some eid"
  by (simp add: same_event_def new_message_row_def)

lemma find_event_None:
  "find_event m s = None \<Longrightarrow> nm_matrix_event_id m = Some eid \<Longrightarrow> sql_count (same_event (nm_user_id m) eid) (ms_messages s) = 0"
  by (simp add: find_event_def sql_count_0 sql_first_None)

lemma messages_ok_row:
  assumes "messages_ok s"
  shows "messages_ok (snd (insert_message_row m s))"
proof (cases "find_event m s")
  case None
  let ?r = "new_message_row (ms_next_id s) m"
  have "sql_count (same_event user eid) (ms_messages s @ [?r]) \<le> 1" for user eid
  proof (cases "nm_user_id m = user \<and> nm_matrix_event_id m = Some eid")
    case True
    with find_event_None [OF None] show ?thesis by (simp add: sql_count_def)
  next
    case False
    then have "\<not> same_event user eid ?r" by simp
    then have "sql_count (same_event user eid) (ms_messages s @ [?r]) = sql_count (same_event user eid) (ms_messages s)"
      by (simp only: sql_count_def) simp
    with assms show ?thesis by (simp add: messages_ok_def)
  qed
  moreover have "om_id ?r = ms_next_id s" by (simp add: new_message_row_def)
  ultimately show ?thesis using assms insert_row_new [OF None]
    by (auto simp: messages_ok_def)
next
  case (Some r)
  with assms show ?thesis by (simp add: insert_row_old)
qed

lemma messages_ok_step:
  assumes "message_step s s'" "messages_ok s"
  shows "messages_ok s'"
  using assms(1)
proof (cases rule: message_step_cases)
  case (row m)
  with assms(2) show ?thesis by (simp add: messages_ok_row)
next
  case (change p f)
  then have ids: "om_id ` set (ms_messages s') = om_id ` set (ms_messages s)"
    using set_message_identity(1) [OF change(2)] by (metis list.set_map)
  have "\<forall>i \<in> om_id ` set (ms_messages s). i < ms_next_id s" using assms(2) by (simp add: messages_ok_def)
  then have "\<forall>r \<in> set (ms_messages s'). om_id r < ms_next_id s" by (simp only: ids [symmetric]) simp
  with change assms(2) show ?thesis by (simp add: messages_ok_def set_message_identity)
qed

lemma sql_count_delete: "sql_count q (sql_delete p t) \<le> sql_count q t"
  by (induction t) (auto simp: sql_count_def sql_delete_def)

lemma messages_ok_removal: "message_removal s s' \<Longrightarrow> messages_ok s \<Longrightarrow> messages_ok s'"
  by (erule message_removal.cases)
    (auto simp: messages_ok_def delete_message_by_matrix_event_id_def purge_old_messages_def Let_def distinct_sql_delete
      intro: order_trans [OF sql_count_delete])

text \<open>A stored event stays, with its number and content, while nothing removes messages.\<close>

definition holds_event :: "i32 \<Rightarrow> string \<Rightarrow> i64 \<Rightarrow> string \<Rightarrow> message_store \<Rightarrow> bool" where
  "holds_event user eid i content s \<longleftrightarrow>
     (\<exists>r. sql_first (same_event user eid) (ms_messages s) = Some r \<and> om_id r = i \<and> om_content r = content)"

lemma holds_event_step:
  assumes "message_step s s'" and held: "holds_event user eid i content s"
  shows "holds_event user eid i content s'"
  using assms(1)
proof (cases rule: message_step_cases)
  case (row m)
  show ?thesis
  proof (cases "find_event m s")
    case None
    with held row show ?thesis by (auto simp: holds_event_def insert_row_new sql_first_append)
  next
    case (Some r)
    with held row show ?thesis by (simp add: insert_row_old)
  qed
next
  case (change p f)
  from held obtain r where r: "sql_first (same_event user eid) (ms_messages s) = Some r" "om_id r = i" "om_content r = content"
    by (auto simp: holds_event_def)
  then have "sql_first (same_event user eid) (ms_messages s') = Some (if p r then f r else r)"
    using set_message_identity(4) [OF change(2)] change(1) by simp
  with r change(2) show ?thesis by (simp add: holds_event_def keeps_identity_def)
qed

lemma holds_event_steps:
  "message_step\<^sup>*\<^sup>* s s' \<Longrightarrow> holds_event user eid i content s \<Longrightarrow> holds_event user eid i content s'"
  by (induction rule: rtranclp_induct) (auto intro: holds_event_step)

lemma messages_ok_steps: "message_step\<^sup>*\<^sup>* s s' \<Longrightarrow> messages_ok s \<Longrightarrow> messages_ok s'"
  by (induction rule: rtranclp_induct) (auto intro: messages_ok_step)

text \<open>A message that is reported as new is in the store when the call returns.\<close>

lemma insert_message_new:
  assumes "insert_message others m s = (Inr (row, True), s')"
  obtains t where "t = others 1 (others 0 s)" "find_event m t = None" "insert_message_row m t = (Some row, s')"
  using assms
  by (cases "find_event m (others 1 (others 0 s))")
    (auto simp: insert_message_def insert_row_old insert_row_new Let_def split: option.splits)

lemma insert_message_held:
  "find_event m s = Some row \<Longrightarrow> insert_message others m s = (Inr (row, False), s)"
  by (simp add: insert_message_def)


text \<open>
  An event that is dropped because the same text was just stored from the same sender is not
  remembered: when the homeserver streams it again after the window, it is stored as a new message.
\<close>

theorem deduplicated_event_reappears:
  assumes "nm_matrix_event_id m = Some eid" "find_event m s = None"
    and "sql_first (same_content m) (ms_messages s) = Some dup"
    and "\<forall>r \<in> set (ms_messages s). om_created_at r + 300 < later" "in_i32 (later - 300)"
  defines "m' \<equiv> m\<lparr>nm_created_at := later\<rparr>"
  shows "insert_message (\<lambda>i u. u) m s = (Inr (dup, False), s) \<and>
    om_matrix_event_id dup \<noteq> Some eid \<and>
    insert_message (\<lambda>i u. u) m' s =
      (Inr (new_message_row (ms_next_id s) m', True),
       \<lparr>ms_messages = ms_messages s @ [new_message_row (ms_next_id s) m'], ms_next_id = ms_next_id s + 1\<rparr>)"
proof (intro conjI)
  show "insert_message (\<lambda>i u. u) m s = (Inr (dup, False), s)" using assms(2,3) by (simp add: insert_message_def)
  from sql_first_Some [OF assms(3)] assms(1,2) show "om_matrix_event_id dup \<noteq> Some eid"
    by (auto simp: find_event_def sql_first_None same_event_def same_content_def)
  have "find_event m' s = None" using assms(2) by (auto simp: m'_def find_event_def split: option.splits)
  moreover have "sql_first (same_content m') (ms_messages s) = None"
    using assms(4,5) by (auto simp: sql_first_None same_content_def m'_def)
  ultimately show "insert_message (\<lambda>i u. u) m' s =
      (Inr (new_message_row (ms_next_id s) m', True),
       \<lparr>ms_messages = ms_messages s @ [new_message_row (ms_next_id s) m'], ms_next_id = ms_next_id s + 1\<rparr>)"
    by (simp add: insert_message_def insert_row_new)
qed

section \<open>The filter of an inbox\<close>

lemma like_literal:
  "\<forall>c \<in> set xs. c \<noteq> ''%'' \<and> c \<noteq> [CHR 0x5C] \<Longrightarrow> like ps cs \<Longrightarrow> like (xs @ ps) (xs @ cs)"
  by (induction xs) auto

lemma like_any: "like [''%''] cs"
  by (induction cs) simp_all

lemma show_nat_plain:
  assumes "c \<in> set (show_nat n)"
  shows "\<not> is_continuation c \<and> c \<noteq> CHR ''%'' \<and> c \<noteq> CHR 0x5C"
proof -
  obtain d where d: "d < 10" "c = digit_char d" using show_nat_chars [OF assms] by blast
  have "(of_char CHR ''%'' :: nat) < 48" "57 < (of_char CHR 0x5C :: nat)" by simp_all
  with d show ?thesis by (metis digit_char_not digit_not_continuation)
qed

lemma show_nat_snoc: "d < 10 \<Longrightarrow> 0 < c \<Longrightarrow> show_nat (10 * c + d) = show_nat c @ [digit_char d]"
  by (subst show_nat.simps) simp

text \<open>The room of a mail: \<^verbatim>\<open>format!("email_{connection}_{uid}")\<close>.\<close>

definition email_room :: "nat \<Rightarrow> nat \<Rightarrow> string" where
  "email_room connection uid = ''email_'' @ show_nat connection @ ''_'' @ show_nat uid"

lemma email_prefix_like:
  assumes "rest \<noteq> []" "\<forall>c \<in> set rest. \<not> is_continuation c"
  shows "sql_like (email_room_prefix (int c)) (''email_'' @ show_nat c @ rest)"
proof -
  obtain x xs where rest: "rest = x # xs" using assms(1) by (cases rest) auto
  have "\<forall>x \<in> set ''email_''. \<not> is_continuation x \<and> x \<noteq> CHR ''%'' \<and> x \<noteq> CHR 0x5C" by code_simp
  then have plain: "\<forall>x \<in> set (''email_'' @ show_nat c). \<not> is_continuation x \<and> x \<noteq> CHR ''%'' \<and> x \<noteq> CHR 0x5C"
    using show_nat_plain by (metis Un_iff set_append)
  have "\<forall>x \<in> set ''_%''. \<not> is_continuation x" by code_simp
  with plain have pattern: "utf8_chars (email_room_prefix (int c)) =
      map (\<lambda>c. [c]) (''email_'' @ show_nat c) @ [''_'', ''%'']"
    by (subst utf8_chars_ascii) (auto simp: email_room_prefix_def show_int_def)
  have room: "utf8_chars (''email_'' @ show_nat c @ rest) = map (\<lambda>c. [c]) (''email_'' @ show_nat c) @ map (\<lambda>c. [c]) rest"
    using plain assms(2) by (subst utf8_chars_ascii) (auto simp: Ball_def)
  have "like [''_'', ''%''] (map (\<lambda>c. [c]) rest)" by (simp add: rest like_any)
  with plain show ?thesis unfolding sql_like_def pattern room
    by (intro like_literal) auto
qed

text \<open>
  The filter of one inbox is not exact: the underscore of its pattern is a wildcard of \<^verbatim>\<open>LIKE\<close>, so the
  messages of inbox \<open>c\<close> come with those of the ten inboxes whose number starts with the digits of \<open>c\<close>.
\<close>

theorem account_filter_leaks:
  assumes "r \<in> set (ms_messages s)" "om_user_id r = user" "om_platform r = ''email''" "since_ts < om_created_at r"
    and "om_room_id r = email_room c uid \<or> (\<exists>d < 10. om_room_id r = email_room (10 * c + d) uid)" "0 < c"
  shows "r \<in> set (get_recent_email_messages_for_account user (int c) since_ts (length (ms_messages s)) False s)"
proof -
  have plain: "\<forall>x \<in> set (show_nat uid). \<not> is_continuation x" using show_nat_plain by blast
  have underscore: "\<not> is_continuation CHR ''_''" by code_simp
  have "sql_like (email_room_prefix (int c)) (om_room_id r)"
    using assms(5)
  proof (elim disjE exE conjE)
    assume "om_room_id r = email_room c uid"
    with email_prefix_like [where rest = "''_'' @ show_nat uid" and c = c] plain underscore
    show ?thesis by (simp add: email_room_def)
  next
    fix d :: nat
    assume "d < 10" "om_room_id r = email_room (10 * c + d) uid"
    with email_prefix_like [where rest = "digit_char d # ''_'' @ show_nat uid" and c = c] plain underscore assms(6)
    show ?thesis by (simp add: email_room_def show_nat_snoc)
  qed
  with assms(1-4) show ?thesis
    by (simp add: get_recent_email_messages_for_account_def latest_first_def sql_select_def order_desc_def)
qed

section \<open>The overview of conversations\<close>

lemma sorted_last: "sorted xs \<Longrightarrow> x \<in> set xs \<Longrightarrow> x \<le> last xs"
  by (induction xs) auto

lemma order_desc_hd:
  assumes "rows \<noteq> []"
  shows "hd (order_desc key rows) \<in> set rows" "\<forall>r \<in> set rows. key r \<le> key (hd (order_desc key rows))"
proof -
  have ne: "sort_key key rows \<noteq> []" using assms by (metis set_empty set_sort)
  then have hd: "hd (order_desc key rows) = last (sort_key key rows)" by (simp add: order_desc_def hd_rev)
  then show "hd (order_desc key rows) \<in> set rows" using ne by (metis last_in_set set_sort)
  have "sorted (map key (sort_key key rows))" by simp
  then have "\<forall>x \<in> set (sort_key key rows). key x \<le> last (map key (sort_key key rows))"
    by (auto intro: sorted_last simp del: set_sort)
  then have "\<forall>x \<in> set (sort_key key rows). key x \<le> key (last (sort_key key rows))" using ne by (simp add: last_map)
  with hd show "\<forall>r \<in> set rows. key r \<le> key (hd (order_desc key rows))" by simp
qed

lemma latest_of_row:
  assumes "q \<in> set rows"
  defines "l \<equiv> latest_of (conversation q) rows"
  shows "l \<in> set rows" "conversation l = conversation q"
    "\<forall>r \<in> set rows. conversation r = conversation q \<longrightarrow> recency r \<le> recency l"
proof -
  let ?same = "filter (\<lambda>r. conversation r = conversation q) rows"
  have "?same \<noteq> []" using assms(1) by (auto simp: filter_empty_conv)
  from order_desc_hd [OF this, where key = recency]
  show "l \<in> set rows" "conversation l = conversation q"
    "\<forall>r \<in> set rows. conversation r = conversation q \<longrightarrow> recency r \<le> recency l"
    by (simp_all add: l_def latest_of_def)
qed

lemma distinct_on_mem:
  assumes "x \<in> set (distinct_on_conversation rows)"
  obtains q where "q \<in> set rows" "x = latest_of (conversation q) rows"
  using assms by (auto simp: distinct_on_conversation_def)

lemma distinct_on_facts:
  shows "set (distinct_on_conversation rows) \<subseteq> set rows"
    and "map conversation (distinct_on_conversation rows) = remdups (map conversation rows)"
    and "q \<in> set (distinct_on_conversation rows) \<Longrightarrow> r \<in> set rows \<Longrightarrow> conversation r = conversation q \<Longrightarrow>
      recency r \<le> recency q"
proof -
  show "set (distinct_on_conversation rows) \<subseteq> set rows" using latest_of_row(1) by (auto elim!: distinct_on_mem)
  have "conversation (latest_of c rows) = c" if "c \<in> set (remdups (map conversation rows))" for c
    using that latest_of_row(2) by auto
  then show "map conversation (distinct_on_conversation rows) = remdups (map conversation rows)"
    unfolding distinct_on_conversation_def map_map by (intro map_idI) simp
  show "q \<in> set (distinct_on_conversation rows) \<Longrightarrow> r \<in> set rows \<Longrightarrow> conversation r = conversation q \<Longrightarrow>
      recency r \<le> recency q"
    using latest_of_row(2,3) by (metis distinct_on_mem)
qed

lemma latest_first_sorted: "sorted_wrt (\<lambda>a b. om_created_at b \<le> om_created_at a) (latest_first rows)"
  using sorted_sort_key [of om_created_at rows]
  by (simp add: latest_first_def order_desc_def sorted_wrt_rev sorted_map)

lemma recency_created: "recency r \<le> recency q \<Longrightarrow> om_created_at r \<le> om_created_at q"
  by (auto simp: recency_def)

text \<open>
  The overview of conversations shows, for each of the \<open>limit\<close> conversations with the latest incoming
  message, exactly that message, and no conversation it leaves out has a later one.
\<close>

theorem overview_shows_latest:
  fixes user :: i32 and limit :: nat
  assumes "messages_ok s"
  defines "incoming \<equiv> sql_select (\<lambda>r. om_user_id r = user \<and> om_sender_name r \<noteq> you) (ms_messages s)"
    and "rows \<equiv> get_latest_incoming_per_room user None limit s"
  shows "set rows \<subseteq> set incoming \<and> distinct (map conversation rows) \<and>
    length rows = min limit (card (conversation ` set incoming)) \<and>
    (\<forall>q \<in> set rows. \<forall>r \<in> set incoming.
       (conversation r = conversation q \<longrightarrow> recency r \<le> recency q) \<and>
       (conversation r \<notin> conversation ` set rows \<longrightarrow> om_created_at r \<le> om_created_at q))"
proof -
  let ?d = "distinct_on_conversation incoming"
  let ?all = "latest_first ?d"
  let ?top = "take limit ?all"
  have msgs: "distinct (map om_id (ms_messages s))" using assms(1) by (simp add: messages_ok_def)
  have conv: "distinct (map conversation ?d)" by (simp add: distinct_on_facts(2))
  have all: "set ?all = set ?d" "distinct (map conversation ?all)" "length ?all = length ?d"
    using conv by (simp_all add: latest_first_def) (simp add: order_desc_def)
  have top: "set ?top \<subseteq> set incoming" "set ?top \<subseteq> set (ms_messages s)"
    using distinct_on_facts(1) [of incoming] all(1) set_take_subset [of limit ?all] by (auto simp: incoming_def)
  have rows_def: "rows = order_desc recency (sql_select (\<lambda>r. om_id r \<in> set (map om_id ?top)) (ms_messages s))"
    by (simp add: rows_def get_latest_incoming_per_room_def incoming_def Let_def)
  have rows: "set rows = set ?top"
    using top(2) msgs by (auto simp: rows_def dest: distinct_map_eqD)
  have distinct_top: "distinct (map conversation ?top)" using all(2) by (metis distinct_take take_map)
  have "distinct (map id (ms_messages s))" using msgs by (simp add: distinct_map)
  then have "distinct (map id rows)" unfolding rows_def by (subst distinct_order) (simp add: sql_select_def)
  then have distinct_rows: "distinct rows" by simp
  have "inj_on conversation (set rows)" using distinct_top rows by (simp add: distinct_map)
  with distinct_rows have 1: "distinct (map conversation rows)" by (simp add: distinct_map)
  have "length rows = length ?top"
    using distinct_rows distinct_top rows by (metis distinct_card distinct_map)
  moreover have "length ?d = card (conversation ` set incoming)"
    using distinct_on_facts(2) [of incoming] by (metis length_map length_remdups_card_conv list.set_map)
  ultimately have 2: "length rows = min limit (card (conversation ` set incoming))" using all(3) by (simp add: min.commute)
  have 3: "recency r \<le> recency q" if "q \<in> set rows" "r \<in> set incoming" "conversation r = conversation q" for q r
    using that distinct_on_facts(3) rows all(1) by (metis in_set_takeD)
  have 4: "om_created_at r \<le> om_created_at q"
    if "q \<in> set rows" "r \<in> set incoming" "conversation r \<notin> conversation ` set rows" for q r
  proof -
    have "conversation r \<in> set (map conversation ?d)" using that(2) by (simp add: distinct_on_facts(2) del: set_map) simp
    then obtain x where x: "x \<in> set ?d" "conversation x = conversation r" by auto
    then have "x \<in> set (drop limit ?all)" using that(3) rows all(1) by (metis Un_iff append_take_drop_id imageI set_append)
    then have "om_created_at x \<le> om_created_at q"
      using latest_first_sorted [of ?d] that(1) rows
      by (subst (asm) append_take_drop_id [of limit, symmetric]) (auto simp: sorted_wrt_append simp del: append_take_drop_id)
    moreover have "om_created_at r \<le> om_created_at x"
      using distinct_on_facts(3) [OF x(1) that(2)] x(2) by (simp add: recency_created)
    ultimately show ?thesis by simp
  qed
  from rows top(1) 1 2 3 4 show ?thesis by blast
qed

end
