(* ===== verification/DigestProperties.thy ===== *)
theory DigestProperties
  imports Digest DigestTextProperties MessageProperties
begin

text \<open>
  Properties of the digest job: what a digest may contain, that a message is shown once and a slot served
  once, that a pass over messages in ASCII completes, and the ways in which messages are lost.
\<close>

section \<open>Classification inside a pass\<close>

text \<open>Classification replaces rows in place, only those it attempts, and keeps what selects a message.\<close>

definition reclassified :: "i64 set \<Rightarrow> message_store \<Rightarrow> message_store \<Rightarrow> bool" where
  "reclassified ids s s' \<longleftrightarrow>
     (\<exists>g. ms_messages s' = map g (ms_messages s) \<and> ms_next_id s' = ms_next_id s \<and>
       (\<forall>r. om_id (g r) = om_id r \<and> om_user_id (g r) = om_user_id r \<and> pending (g r) = pending r \<and>
          (om_id r \<notin> ids \<longrightarrow> g r = r)))"

lemma reclassified_refl: "reclassified ids s s"
  unfolding reclassified_def by (rule exI [of _ "\<lambda>r. r"]) simp

lemma reclassified_trans:
  assumes "reclassified ids s t" "reclassified ids t u"
  shows "reclassified ids s u"
proof -
  from assms obtain g h where
    g: "ms_messages t = map g (ms_messages s)" "ms_next_id t = ms_next_id s"
      "\<forall>r. om_id (g r) = om_id r \<and> om_user_id (g r) = om_user_id r \<and> pending (g r) = pending r \<and> (om_id r \<notin> ids \<longrightarrow> g r = r)"
    and h: "ms_messages u = map h (ms_messages t)" "ms_next_id u = ms_next_id t"
      "\<forall>r. om_id (h r) = om_id r \<and> om_user_id (h r) = om_user_id r \<and> pending (h r) = pending r \<and> (om_id r \<notin> ids \<longrightarrow> h r = r)"
    unfolding reclassified_def by blast
  then show ?thesis unfolding reclassified_def by (intro exI [of _ "h \<circ> g"]) simp
qed

lemma reclassified_one:
  assumes "om_id m \<in> ids"
  shows "reclassified ids s (run_urgency_classification env m s)"
proof (cases "de_classify env m")
  case (Some c)
  with assms show ?thesis unfolding reclassified_def
    by (intro exI [of _ "\<lambda>r. if om_id r = om_id m then classify_row (mc_urgency c) (mc_category c) (mc_summary c) (mc_prompt c) (mc_result c) r else r"])
      (auto simp: run_urgency_classification_def update_message_classification_def set_message_def sql_update_def
        classify_row_def pending_def)
qed (simp add: run_urgency_classification_def reclassified_refl)

lemma reclassified_fold:
  "om_id ` set ms \<subseteq> ids \<Longrightarrow> reclassified ids s (fold (run_urgency_classification env) ms s)"
  by (induction ms arbitrary: s) (auto intro: reclassified_refl reclassified_trans [OF reclassified_one])

lemma classification_steps: "message_step\<^sup>*\<^sup>* s (fold (run_urgency_classification env) ms s)"
proof (induction ms arbitrary: s)
  case (Cons m ms)
  have "message_step\<^sup>*\<^sup>* s (run_urgency_classification env m s)"
    by (auto simp: run_urgency_classification_def split: option.split intro: message_step.classified)
  with Cons show ?case by (simp add: rtranclp_trans [of message_step s])
qed simp

lemma reclassified_keep:
  assumes "reclassified ids s s'" "r \<in> set (ms_messages s)" "om_id r \<notin> ids"
  shows "r \<in> set (ms_messages s')"
  using assms unfolding reclassified_def by (metis image_eqI list.set_map)

lemma reclassified_origin:
  assumes "reclassified ids s s'" "r \<in> set (ms_messages s')"
  obtains q where "q \<in> set (ms_messages s)" "om_id q = om_id r" "om_user_id q = om_user_id r" "pending q = pending r"
  using assms unfolding reclassified_def by auto

section \<open>What a digest contains\<close>

lemma set_latest_first [simp]: "set (latest_first rows) = set rows"
  by (simp add: latest_first_def)

definition candidate :: "i32 \<Rightarrow> ont_message \<Rightarrow> bool" where
  "candidate user r \<longleftrightarrow> om_user_id r = user \<and> pending r \<and> om_category r \<noteq> Some ''spam''"

lemma by_urgency_rows:
  "r \<in> set (get_pending_messages_by_urgency user us since n s) \<Longrightarrow>
   r \<in> set (ms_messages s) \<and> om_user_id r = user \<and> pending r \<and> om_urgency r \<noteq> None"
  by (auto simp: get_pending_messages_by_urgency_def dest!: in_set_takeD)

lemma backlog_rows:
  "r \<in> set (later_backlog user since s) \<Longrightarrow>
   r \<in> set (ms_messages s) \<and> om_user_id r = user \<and> pending r \<and> om_urgency r \<noteq> None"
  by (auto simp: later_backlog_def Let_def get_pending_digest_messages_def dest!: in_set_takeD dest: by_urgency_rows
      split: if_splits)

lemma unclassified_rows:
  "r \<in> set (get_pending_unclassified_messages user since n s) \<Longrightarrow>
   r \<in> set (ms_messages s) \<and> om_user_id r = user \<and> pending r \<and> om_urgency r = None"
  by (auto simp: get_pending_unclassified_messages_def dest!: in_set_takeD)

lemma distinct_unclassified:
  "distinct (map om_id (ms_messages s)) \<Longrightarrow> distinct (map om_id (get_pending_unclassified_messages user since n s))"
  by (simp add: get_pending_unclassified_messages_def latest_first_def sql_select_def distinct_map_filter
      distinct_take flip: take_map)

lemma digest_sections_rows:
  assumes "messages_ok (dg_messages s)" "digest_sections_for env user settings now tz s = (d, s')"
  shows "\<forall>r \<in> set (dd_now d) \<union> set (dd_later d). r \<in> set (ms_messages (dg_messages s')) \<and> candidate user r"
    and "message_step\<^sup>*\<^sup>* (dg_messages s) (dg_messages s')" and "s' = s\<lparr>dg_messages := dg_messages s'\<rparr>"
proof -
  let ?ms = "dg_messages s"
  let ?since = "sat_i32 (now - 7 * 86400)"
  let ?un = "get_pending_unclassified_messages user ?since 30 ?ms"
  let ?att = "take LAZY_CLASSIFY_LIMIT ?un"
  let ?ids = "om_id ` set ?att"
  let ?ms' = "fold (run_urgency_classification env) ?att ?ms"
  let ?ref = "get_messages_by_ids (map om_id ?att) ?ms'"
  have s': "s' = s\<lparr>dg_messages := ?ms'\<rparr>" using assms(2) by (simp add: digest_sections_for_def Let_def)
  then show "message_step\<^sup>*\<^sup>* (dg_messages s) (dg_messages s')" "s' = s\<lparr>dg_messages := dg_messages s'\<rparr>"
    by (simp_all add: classification_steps)
  have ids: "distinct (map om_id (ms_messages ?ms))" using assms(1) by (simp add: messages_ok_def)
  have re: "reclassified ?ids ?ms ?ms'" by (rule reclassified_fold) simp
  have att: "r \<in> set (ms_messages ?ms) \<and> om_user_id r = user \<and> pending r \<and> om_urgency r = None" if "r \<in> set ?att" for r
    using that unclassified_rows by (metis in_set_takeD)
  have same: "r \<in> set ?att" if "r \<in> set (ms_messages ?ms)" "om_id r \<in> ?ids" for r
  proof -
    from that(2) obtain q where q: "q \<in> set ?att" "om_id r = om_id q" by blast
    then have "r = q" using distinct_map_eqD [OF ids that(1)] att by blast
    with q(1) show ?thesis by simp
  qed
  have classified: "r \<in> set (ms_messages ?ms')"
    if "r \<in> set (ms_messages ?ms)" "om_urgency r \<noteq> None" for r
  proof (rule reclassified_keep [OF re that(1)])
    show "om_id r \<notin> ?ids" using same [OF that(1)] att [of r] that(2) by blast
  qed
  have left: "r \<in> set (ms_messages ?ms')" if "r \<in> set (drop LAZY_CLASSIFY_LIMIT ?un)" for r
  proof (rule reclassified_keep [OF re])
    show "r \<in> set (ms_messages ?ms)" using that unclassified_rows by (metis in_set_dropD)
    have "distinct (map om_id ?att @ map om_id (drop LAZY_CLASSIFY_LIMIT ?un))"
      using distinct_unclassified [OF ids] by (simp flip: map_append)
    then show "om_id r \<notin> ?ids" using that by auto
  qed
  have refreshed: "r \<in> set (ms_messages ?ms') \<and> om_user_id r = user \<and> pending r" if "r \<in> set ?ref" for r
  proof -
    from that have r: "r \<in> set (ms_messages ?ms')" "om_id r \<in> ?ids" by (auto simp: get_messages_by_ids_def)
    obtain q where q: "q \<in> set (ms_messages ?ms)" "om_id q = om_id r" "om_user_id q = om_user_id r" "pending q = pending r"
      by (rule reclassified_origin [OF re r(1)])
    then have "q \<in> set ?att" using r(2) same [OF q(1)] by simp
    from att [OF this] q r(1) show ?thesis by simp
  qed
  have rows: "r \<in> set (ms_messages ?ms') \<and> om_user_id r = user \<and> pending r"
    if "r \<in> set (get_pending_messages_by_urgency user NOW_URGENCIES ?since 20 ?ms) \<or> r \<in> set (later_backlog user ?since ?ms) \<or>
      r \<in> set ?ref \<or> r \<in> set (drop LAZY_CLASSIFY_LIMIT ?un)" for r
    using that
  proof (elim disjE)
    assume "r \<in> set (get_pending_messages_by_urgency user NOW_URGENCIES ?since 20 ?ms)"
    from by_urgency_rows [OF this] classified show ?thesis by blast
  next
    assume "r \<in> set (later_backlog user ?since ?ms)"
    from backlog_rows [OF this] classified show ?thesis by blast
  next
    assume "r \<in> set (drop LAZY_CLASSIFY_LIMIT ?un)"
    then show ?thesis using left unclassified_rows [of r user ?since 30 ?ms] by (meson in_set_dropD)
  qed (use refreshed in blast)
  have d: "set (dd_now d) \<union> set (dd_later d) \<subseteq>
    {r. shown r \<and> (r \<in> set (get_pending_messages_by_urgency user NOW_URGENCIES ?since 20 ?ms) \<or> r \<in> set (later_backlog user ?since ?ms) \<or>
      r \<in> set ?ref \<or> r \<in> set (drop LAZY_CLASSIFY_LIMIT ?un))}"
    using assms(2) by (auto simp: digest_sections_for_def Let_def sort_section_def split: if_splits)
  show "\<forall>r \<in> set (dd_now d) \<union> set (dd_later d). r \<in> set (ms_messages (dg_messages s')) \<and> candidate user r"
  proof
    fix r assume "r \<in> set (dd_now d) \<union> set (dd_later d)"
    with d have "shown r" "r \<in> set (ms_messages ?ms') \<and> om_user_id r = user \<and> pending r" using rows by blast+
    then show "r \<in> set (ms_messages (dg_messages s')) \<and> candidate user r" by (simp add: s' candidate_def shown_def)
  qed
qed

lemma digest_rows:
  assumes "messages_ok (dg_messages s)"
    and "build_digest_for_user env user settings now tz s = (Some (Some (body', ids)), s')"
  shows "char_count body' \<le> 1600 \<and>
    (\<forall>i \<in> set ids. \<exists>r \<in> set (ms_messages (dg_messages s')). om_id r = i \<and> om_user_id r = user \<and>
       om_digest_delivered_at r = None \<and> om_seen_at r = None \<and> om_sender_name r \<noteq> you \<and> om_category r \<noteq> Some ''spam'')"
proof -
  obtain d where d: "digest_sections_for env user settings now tz s = (d, s')"
    "ids = map om_id (dd_now d) @ map om_id (dd_later d)" "\<exists>c. body' = digest_body c"
    using assms(2) by (auto simp: build_digest_for_user_def split: prod.splits if_splits)
  have "char_count body' \<le> 1600" using d(3) char_count_clamp by (auto simp: digest_body_def)
  with digest_sections_rows(1) [OF assms(1) d(1)] d(2) show ?thesis by (auto simp: candidate_def pending_def)
qed

text \<open>
  A digest fits in one text message of 1600 characters, and the messages it accounts for are messages of
  that user that are incoming, unseen, not yet delivered in a digest and not spam.
\<close>

theorem digest_holds_pending_only:
  assumes "messages_ok (dg_messages s)"
    and "build_digest_for_user env user settings now tz s = (Some (Some (body', ids)), s')"
  shows "char_count body' \<le> 1600 \<and>
    (\<forall>i \<in> set ids. \<exists>r \<in> set (ms_messages (dg_messages s')). om_id r = i \<and> om_user_id r = user \<and>
       om_digest_delivered_at r = None \<and> om_seen_at r = None \<and> om_sender_name r \<noteq> you \<and> om_category r \<noteq> Some ''spam'')"
  using digest_rows [OF assms] .

section \<open>A message is shown once\<close>

lemma mark_delivered_message:
  assumes "message_step s s'" "r \<in> set (ms_messages s)" "om_digest_delivered_at r \<noteq> None"
  shows "\<exists>q \<in> set (ms_messages s'). om_id q = om_id r \<and> om_digest_delivered_at q \<noteq> None"
  using assms(1)
proof (cases rule: message_step_cases)
  case (row m)
  with assms(2,3) show ?thesis by (cases "find_event m s") (auto simp: insert_row_new insert_row_old)
next
  case (change p f)
  from change(2) assms(3) have f: "om_id (f r) = om_id r" "om_digest_delivered_at (f r) \<noteq> None"
    by (simp_all add: keeps_identity_def)
  have "(if p r then f r else r) \<in> set (ms_messages s')"
    using assms(2) by (auto simp: change(1) set_message_def intro: sql_update_memI sql_update_keepI)
  with f assms(3) show ?thesis by (metis (full_types))
qed

lemma stays_delivered:
  assumes "message_step\<^sup>*\<^sup>* s s'" "r \<in> set (ms_messages s)" "om_digest_delivered_at r \<noteq> None"
  shows "\<exists>q \<in> set (ms_messages s'). om_id q = om_id r \<and> om_digest_delivered_at q \<noteq> None"
  using assms(1)
proof (induction rule: rtranclp_induct)
  case (step t u)
  then obtain q where "q \<in> set (ms_messages t)" "om_id q = om_id r" "om_digest_delivered_at q \<noteq> None" by blast
  with mark_delivered_message [OF step(2)] show ?case by metis
qed (use assms(2,3) in blast)

text \<open>
  Claim C34. A message is shown in one digest only: once the messages of a digest are marked, no later digest of any
  user accounts for any of them, whatever is stored, classified, read or delivered in between.
\<close>

theorem digest_never_repeats:
  assumes "messages_ok (dg_messages s)"
    and "build_digest_for_user env user settings now tz s = (Some (Some (body', ids)), s1)"
    and "message_step\<^sup>*\<^sup>* (mark_digest_delivered ids now (dg_messages s1)) (dg_messages s2)"
    and "build_digest_for_user env' user' settings' now' tz' s2 = (Some (Some (body'', ids')), s3)"
  shows "set ids \<inter> set ids' = {}"
proof (rule equals0I)
  fix i assume "i \<in> set ids \<inter> set ids'"
  then have i: "i \<in> set ids" "i \<in> set ids'" by simp_all
  let ?marked = "mark_digest_delivered ids now (dg_messages s1)"
  obtain d where d: "digest_sections_for env user settings now tz s = (d, s1)"
    using assms(2) by (auto simp: build_digest_for_user_def split: prod.splits if_splits)
  have "message_step\<^sup>*\<^sup>* (dg_messages s) ?marked"
    using digest_sections_rows(2) [OF assms(1) d] by (simp add: rtranclp.rtrancl_into_rtrancl message_step.delivered)
  then have ok2: "messages_ok (dg_messages s2)"
    using assms(1,3) messages_ok_steps by (meson rtranclp_trans)
  obtain r where r: "r \<in> set (ms_messages (dg_messages s1))" "om_id r = i"
    using digest_rows [OF assms(1,2)] i(1) by blast
  have "delivered_row now r \<in> set (ms_messages ?marked)"
    using r i(1) by (auto simp: mark_digest_delivered_def set_message_def intro: sql_update_memI)
  moreover obtain d2 where d2: "digest_sections_for env' user' settings' now' tz' s2 = (d2, s3)"
    using assms(4) by (auto simp: build_digest_for_user_def split: prod.splits if_splits)
  ultimately have "\<exists>q \<in> set (ms_messages (dg_messages s3)). om_id q = i \<and> om_digest_delivered_at q \<noteq> None"
    using stays_delivered [OF rtranclp_trans [OF assms(3) digest_sections_rows(2) [OF ok2 d2]]] r(2)
    by (fastforce simp: delivered_row_def)
  then obtain q where q: "q \<in> set (ms_messages (dg_messages s3))" "om_id q = i" "om_digest_delivered_at q \<noteq> None" by blast
  obtain p where p: "p \<in> set (ms_messages (dg_messages s3))" "om_id p = i" "om_digest_delivered_at p = None"
    using digest_rows [OF ok2 assms(4)] i(2) by blast
  have "messages_ok (dg_messages s3)" using messages_ok_steps [OF digest_sections_rows(2) [OF ok2 d2] ok2] .
  then have "p = q" using p q by (auto simp: messages_ok_def dest: distinct_map_eqD)
  with p q show False by simp
qed

section \<open>A slot is served once\<close>

definition digest_sent :: "i32 \<Rightarrow> usage_log \<Rightarrow> bool" where
  "digest_sent user r \<longleftrightarrow> ul_user_id r = user \<and> ul_activity_type r = ''digest'' \<and> ul_success r = Some True"

lemma checkpoint_bound:
  "r \<in> set (dg_usage s) \<Longrightarrow> digest_sent user r \<Longrightarrow>
   \<exists>c. latest_successful_digest_checkpoint user s = Some c \<and> ul_created_at r \<le> c"
  by (auto simp: latest_successful_digest_checkpoint_def digest_sent_def Let_def sql_select_def filter_empty_conv)

lemma build_keeps_usage: "dg_usage (snd (build_digest_for_user env user settings now tz s)) = dg_usage s"
  by (simp add: build_digest_for_user_def digest_sections_for_def Let_def)

lemma sat_ge: "86400 \<le> sat_i32 x \<Longrightarrow> 86400 \<le> x"
  by (auto simp: sat_i32_def i32_min_def)

lemma digest_slots_ok: "digest_slots settings = Some slots \<Longrightarrow> slots \<noteq> [] \<and> (\<forall>m \<in> set slots. m < 1440)"
proof (cases "se_digest_time settings")
  case (Some time)
  assume "digest_slots settings = Some slots"
  with Some obtain canonical where "parse_digest_times time = Inr (canonical, slots)"
    by (auto simp: digest_slots_def split: sum.splits)
  from parsed_slots(2,3) [OF this] show ?thesis by (auto simp: slot_ok_def)
qed (auto simp: digest_slots_def AUTO_DIGEST_SLOTS_def)

text \<open>
  Claim C35. A slot is served once: when a pass attempts to send a digest, so that it writes a usage log, then every
  digest the user received before was sent before the slot that is due. This includes the recovery after
  a day without a digest.
\<close>

theorem slot_served_once:
  assumes "de_settings env user = Some settings" "digest_slots settings = Some slots"
    and "in_i32 (de_now env)" "in_i32 (de_now env - 86400)"
    and "dg_usage (snd (deliver_to_user env user s)) \<noteq> dg_usage s"
  shows "\<exists>slot. latest_due_digest_slot slots (de_now env) (tz_offset_secs env user) = Some slot \<and> slot \<le> de_now env \<and>
    (\<forall>r \<in> set (dg_usage s). digest_sent user r \<longrightarrow> ul_created_at r < slot)"
proof -
  obtain slot where slot: "latest_due_digest_slot slots (de_now env) (tz_offset_secs env user) = Some slot"
    "de_now env - 86400 < slot" "slot \<le> de_now env"
    using due_slot_latest [of slots "de_now env" "tz_offset_secs env user"] digest_slots_ok [OF assms(2)] assms(3,4) by blast
  have "ul_created_at r < slot" if r: "r \<in> set (dg_usage s)" "digest_sent user r" for r
  proof -
    obtain c where c: "latest_successful_digest_checkpoint user s = Some c" "ul_created_at r \<le> c"
      using checkpoint_bound [OF r] by blast
    show ?thesis
    proof (cases "stale_delivery user (de_now env) s")
      case True
      then have "86400 \<le> de_now env - c" using c(1) sat_ge by (simp add: stale_delivery_def)
      with c(2) slot(2) show ?thesis by linarith
    next
      case False
      then have "dg_usage (snd (deliver_scheduled env user s)) \<noteq> dg_usage s"
        using assms(5) by (auto simp: deliver_to_user_def split: if_splits)
      then have "digest_due env user settings s" using assms(1) by (auto simp: deliver_scheduled_def split: if_splits)
      with slot(1) c assms(2) show ?thesis by (simp add: digest_due_def)
    qed
  qed
  with slot show ?thesis by blast
qed

section \<open>How messages are lost\<close>

lemma suppressed_send:
  assumes "de_user_exists env user"
    and "decision (de_unicode env) user SCOPE_DIGEST body' False (de_sent_at env user) (dg_suppressions s) \<noteq> Allow"
  shows "send_digest env user body' s = (True, s)"
  using assms by (simp add: send_digest_def)

text \<open>
  During a quiet mode that covers digests a pass still consumes them: nothing is sent, whatever the
  provider would answer, no usage log is written, and yet the messages are marked as delivered, so that
  they are in no later digest.
\<close>

theorem suppressed_digest_consumes:
  assumes "de_digest_enabled env user = Some True" "de_user_exists env user" "\<not> stale_delivery user (de_now env) s"
    and "de_settings env user = Some settings" "digest_due env user settings s"
    and "build_digest_for_user env user settings (de_now env) (tz_offset_secs env user) s = (Some (Some (body', ids)), s1)"
    and "decision (de_unicode env) user SCOPE_DIGEST body' False (de_sent_at env user) (dg_suppressions s1) \<noteq> Allow"
  shows "deliver_to_user env user s =
      (True, s1\<lparr>dg_cooldowns := (dg_cooldowns s1)(user \<mapsto> de_now env),
                dg_messages := mark_digest_delivered ids (de_now env) (dg_messages s1)\<rparr>) \<and>
    dg_usage s1 = dg_usage s"
  using assms suppressed_send [OF assms(2,7)] build_keeps_usage [of env user settings "de_now env" "tz_offset_secs env user" s]
  by (simp add: deliver_to_user_def deliver_scheduled_def send_and_settle_def)

definition pending_later :: "i32 \<Rightarrow> i32 \<Rightarrow> digest_store \<Rightarrow> ont_message list" where
  "pending_later user since s = get_pending_messages_by_urgency user LATER_URGENCIES since 30 (dg_messages s)"

definition is_spam :: "ont_message \<Rightarrow> bool" where
  "is_spam r \<longleftrightarrow> om_category r = Some ''spam''"

definition week_ago :: "digest_env \<Rightarrow> i32" where
  "week_ago env = sat_i32 (de_now env - 7 * 86400)"

definition no_event_news :: "i32 \<Rightarrow> ont_store \<Rightarrow> bool" where
  "no_event_news user s \<longleftrightarrow> (\<forall>e \<in> set (on_events s). oe_user_id e \<noteq> user)"

lemma no_event_lines:
  assumes "no_event_news user es"
  shows "get_events_due_on_local_day user a b es = []" "get_recently_created_events user c es = []"
    "get_recently_completed_events user c es = []"
  using assms
  by (auto simp: no_event_news_def get_events_due_on_local_day_def get_recently_created_events_def open_event_def
      get_recently_completed_events_def sql_select_def order_asc_def order_desc_def filter_empty_conv)

text \<open>
  Spam starves the digest: spam is dropped after the 30 latest messages have been fetched, and never
  marked. When the 30 latest pending messages are spam, a pass does nothing for the user, although other
  messages wait, and the next pass finds the same state.
\<close>

theorem spam_starves_digest:
  assumes "\<forall>since \<in> {0, week_ago env}. pending_later user since s \<noteq> [] \<and> list_all is_spam (pending_later user since s)"
    and "get_pending_unclassified_messages user (week_ago env) 30 (dg_messages s) = []"
    and "\<forall>settings. de_settings env user = Some settings \<longrightarrow> \<not> pushes_off settings"
    and "no_event_news user (dg_events s)"
  shows "deliver_to_user env user s = (True, s)"
proof -
  have recovery: "recovery_messages user (dg_messages s) = []"
    using assms(1) by (auto simp: recovery_messages_def pending_later_def list_all_iff is_spam_def filter_empty_conv)
  have backlog: "later_backlog user (week_ago env) (dg_messages s) = pending_later user (week_ago env) s"
    using assms(1) by (simp add: later_backlog_def pending_later_def)
  have shown: "filter shown (pending_later user (week_ago env) s) = []"
    using assms(1) by (auto simp: shown_def list_all_iff is_spam_def filter_empty_conv)
  have "build_digest_for_user env user settings (de_now env) tz s = (Some None, s)"
    if "\<not> pushes_off settings" for settings tz
    using that assms(2) backlog shown no_event_lines [OF assms(4)]
    by (simp add: build_digest_for_user_def digest_sections_for_def Let_def week_ago_def get_messages_by_ids_def
        sql_select_def digest_parts_def sort_section_def render_high_signal_section_def render_fyi_inline_def event_line_def)
  then have "deliver_scheduled env user s = (True, s)"
    using assms(3) by (simp add: deliver_scheduled_def split: option.split)
  then show ?thesis using recovery by (simp add: deliver_to_user_def render_fyi_inline_def)
qed

section \<open>A pass completes\<close>

definition plain_message :: "ont_message \<Rightarrow> bool" where
  "plain_message r \<longleftrightarrow> ascii (om_content r) \<and> ascii (om_sender_name r) \<and> (\<forall>x \<in> set_option (om_summary r). ascii x)"

definition plain_store :: "message_store \<Rightarrow> bool" where
  "plain_store s \<longleftrightarrow> (\<forall>r \<in> set (ms_messages s). plain_message r)"

definition plain_env :: "digest_env \<Rightarrow> bool" where
  "plain_env env \<longleftrightarrow> (\<forall>m c. de_classify env m = Some c \<longrightarrow> (\<forall>x \<in> set_option (mc_summary c). ascii x))"

lemma those_map: "\<forall>x \<in> set xs. f x \<noteq> None \<Longrightarrow> those (map f xs) \<noteq> None"
  by (induction xs) auto

lemma teaser_plain: "plain_message m \<Longrightarrow> ascii sender \<Longrightarrow> teaser u cap sender m \<noteq> None"
  using ascii_prefix_strips [of _ sender u]
  by (auto simp: teaser_def plain_message_def split: option.splits)

lemma format_plain: "plain_message m \<Longrightarrow> format_digest_message_with_cap u m cap \<noteq> None"
  using teaser_plain [of m "om_sender_name m" u cap] by (auto simp: format_digest_message_with_cap_def plain_message_def)

lemma add_to_groups_mem:
  "\<forall>g \<in> set groups. g \<noteq> [] \<and> set g \<subseteq> M \<Longrightarrow> m \<in> M \<Longrightarrow> \<forall>g \<in> set (add_to_groups groups m). g \<noteq> [] \<and> set g \<subseteq> M"
  by (auto simp: add_to_groups_def extends_group_def dest: in_set_butlastD)

lemma message_groups_mem: "\<forall>g \<in> set (message_groups ms). g \<noteq> [] \<and> set g \<subseteq> set ms"
proof -
  have "\<forall>g \<in> set (foldl add_to_groups groups ms). g \<noteq> [] \<and> set g \<subseteq> M"
    if "\<forall>g \<in> set groups. g \<noteq> [] \<and> set g \<subseteq> M" "set ms \<subseteq> M" for groups M
    using that
  proof (induction ms arbitrary: groups)
    case (Cons m ms)
    have "\<forall>g \<in> set (add_to_groups groups m). g \<noteq> [] \<and> set g \<subseteq> M"
      by (rule add_to_groups_mem [OF Cons.prems(1)]) (use Cons.prems(2) in simp)
    from Cons.IH [OF this] Cons.prems(2) show ?case by simp
  qed simp
  from this [of "[]" "set ms"] show ?thesis by (simp add: message_groups_def)
qed

lemma group_plain: "g \<noteq> [] \<Longrightarrow> \<forall>m \<in> set g. plain_message m \<Longrightarrow> format_digest_group u g \<noteq> None"
proof -
  assume g: "g \<noteq> []" "\<forall>m \<in> set g. plain_message m"
  let ?sorted = "sort_key om_created_at g"
  have "?sorted \<noteq> []" using g(1) by (metis set_empty set_sort)
  then have "hd ?sorted \<in> set g" by (metis hd_in_set set_sort)
  with g(2) have "ascii (om_sender_name (hd ?sorted))" by (simp add: plain_message_def)
  then have "\<forall>m \<in> set (take FYI_GROUP_MESSAGE_CAP ?sorted).
      teaser u DIGEST_TEASER_CAP (om_sender_name (hd ?sorted)) m \<noteq> None"
    using g(2) teaser_plain by (metis in_set_takeD set_sort)
  from those_map [OF this] g format_plain [of "hd g" u] show ?thesis
    by (auto simp: format_digest_group_def format_digest_message_def Let_def)
qed

lemma fyi_plain: "\<forall>m \<in> set ms. plain_message m \<Longrightarrow> render_fyi_inline u ms \<noteq> None"
proof -
  assume "\<forall>m \<in> set ms. plain_message m"
  then have "\<forall>g \<in> set (take FYI_CAP (message_groups ms)). format_digest_group u g \<noteq> None"
    using message_groups_mem [of ms] group_plain by (metis in_set_takeD subsetD)
  from those_map [OF this] show ?thesis by (auto simp: render_fyi_inline_def Let_def)
qed

lemma high_plain: "\<forall>m \<in> set ms. plain_message m \<Longrightarrow> render_high_signal_section u title ms \<noteq> None"
proof -
  assume "\<forall>m \<in> set ms. plain_message m"
  then have "\<forall>m \<in> set (take HIGH_SIGNAL_CAP ms). format_digest_message_with_cap u m DIGEST_HIGH_SIGNAL_TEASER_CAP \<noteq> None"
    using format_plain by (metis in_set_takeD)
  from those_map [OF this] show ?thesis by (auto simp: render_high_signal_section_def)
qed

lemma plain_classified: "plain_env env \<Longrightarrow> plain_store s \<Longrightarrow> plain_store (fold (run_urgency_classification env) ms s)"
proof (induction ms arbitrary: s)
  case (Cons m ms)
  have "plain_store (run_urgency_classification env m s)"
  proof (cases "de_classify env m")
    case (Some c)
    with Cons.prems(1) have "\<forall>x \<in> set_option (mc_summary c). ascii x" by (simp add: plain_env_def)
    with Cons.prems(2) Some show ?thesis
      by (auto simp: run_urgency_classification_def update_message_classification_def set_message_def plain_store_def
          set_sql_update plain_message_def classify_row_def)
  qed (simp add: run_urgency_classification_def Cons.prems(2))
  with Cons show ?case by simp
qed simp

lemma plain_marked: "plain_store s \<Longrightarrow> plain_store (mark_digest_delivered ids now s)"
  by (auto simp: mark_digest_delivered_def set_message_def plain_store_def plain_message_def delivered_row_def
      elim!: in_sql_updateE)

lemma send_keeps_messages: "dg_messages (snd (send_digest env user body' s)) = dg_messages s"
  by (auto simp: send_digest_def Let_def log_usage_def create_message_history_def split: sum.split)

lemma settle_plain: "plain_store (dg_messages s) \<Longrightarrow> plain_store (dg_messages (send_and_settle env user body' ids s))"
  using send_keeps_messages [of env user body' s] by (auto simp: send_and_settle_def plain_marked split: prod.split)

lemma build_plain:
  assumes "messages_ok (dg_messages s)" "plain_env env" "plain_store (dg_messages s)"
    and "build_digest_for_user env user settings now tz s = (r, s')"
  shows "r \<noteq> None \<and> messages_ok (dg_messages s') \<and> plain_store (dg_messages s')"
proof -
  obtain d where d: "digest_sections_for env user settings now tz s = (d, s')"
    "r = map_option (\<lambda>parts. if parts = [] then None
       else Some (digest_body (join (newline @ newline) parts), map om_id (dd_now d) @ map om_id (dd_later d)))
       (digest_parts (de_unicode env) tz d)"
    using assms(4) by (auto simp: build_digest_for_user_def split: prod.splits)
  have plain: "plain_store (dg_messages s')"
    using d(1) plain_classified [OF assms(2,3)] by (auto simp: digest_sections_for_def Let_def)
  note rows = digest_sections_rows [OF assms(1) d(1)]
  have "\<forall>m \<in> set (dd_now d) \<union> set (dd_later d). plain_message m" using rows(1) plain by (auto simp: plain_store_def)
  then have "render_high_signal_section (de_unicode env) ''Important'' (dd_now d) \<noteq> None"
    "render_fyi_inline (de_unicode env) (dd_later d) \<noteq> None"
    using high_plain fyi_plain by blast+
  then have "digest_parts (de_unicode env) tz d \<noteq> None" by (auto simp: digest_parts_def)
  with d(2) plain messages_ok_steps [OF rows(2) assms(1)] show ?thesis by simp
qed

definition plain_state :: "digest_store \<Rightarrow> bool" where
  "plain_state s \<longleftrightarrow> messages_ok (dg_messages s) \<and> plain_store (dg_messages s)"

lemma settle_state: "plain_state s \<Longrightarrow> plain_state (send_and_settle env user body' ids s)"
proof -
  assume s: "plain_state s"
  have step: "message_step\<^sup>*\<^sup>* m (mark_digest_delivered ids t m)" for m t
    by (intro r_into_rtranclp message_step.delivered)
  have "message_step\<^sup>*\<^sup>* (dg_messages s) (dg_messages (send_and_settle env user body' ids s))"
    using send_keeps_messages [of env user body' s]
    by (auto simp: send_and_settle_def step split: prod.split)
  with s messages_ok_steps settle_plain show ?thesis by (auto simp: plain_state_def)
qed

lemma scheduled_plain:
  assumes "plain_env env" "plain_state s"
  shows "fst (deliver_scheduled env user s) \<and> plain_state (snd (deliver_scheduled env user s))"
proof (cases "\<exists>settings. de_settings env user = Some settings \<and> digest_due env user settings s")
  case True
  then obtain settings where settings: "de_settings env user = Some settings" "digest_due env user settings s" by blast
  obtain r s1 where b: "build_digest_for_user env user settings (de_now env) (tz_offset_secs env user) s = (r, s1)" by force
  from build_plain [OF _ assms(1) _ b] assms(2) have "r \<noteq> None" "plain_state s1" by (simp_all add: plain_state_def)
  with settings b settle_state show ?thesis by (auto simp: deliver_scheduled_def split: option.split)
qed (use assms(2) in \<open>auto simp: deliver_scheduled_def split: option.split\<close>)

lemma user_plain:
  assumes "plain_env env" "plain_state s"
  shows "fst (deliver_to_user env user s) \<and> plain_state (snd (deliver_to_user env user s))"
proof -
  have "set (recovery_messages user (dg_messages s)) \<subseteq> set (ms_messages (dg_messages s))"
    by (auto simp: recovery_messages_def dest: by_urgency_rows)
  then have "\<forall>m \<in> set (recovery_messages user (dg_messages s)). plain_message m"
    using assms(2) by (auto simp: plain_state_def plain_store_def)
  from fyi_plain [OF this, of "de_unicode env"] scheduled_plain [OF assms] settle_state [OF assms(2)] assms(2)
  show ?thesis by (auto simp: deliver_to_user_def Let_def split: option.split)
qed


end
