(* ===== verification/DigestDemo.thy ===== *)
theory DigestDemo
  imports DigestProperties
begin

text \<open>A concrete store and environment for the messages and the digest, and the witnesses of their properties.\<close>

section \<open>Messages\<close>

definition demo_new :: new_ont_message where
  "demo_new = \<lparr>nm_user_id = 7, nm_room_id = ''!r'', nm_platform = ''whatsapp'', nm_sender_name = ''Ann'',
     nm_sender_key = None, nm_content = ''Dinner?'', nm_person_id = None, nm_created_at = 999000,
     nm_matrix_event_id = Some ''$1''\<rparr>"

definition demo_other :: new_ont_message where
  "demo_other = demo_new\<lparr>nm_matrix_event_id := Some ''$2''\<rparr>"

definition empty_messages :: message_store where
  "empty_messages = \<lparr>ms_messages = [], ms_next_id = 1\<rparr>"

definition demo_messages :: message_store where
  "demo_messages = \<lparr>ms_messages = [new_message_row 1 demo_new], ms_next_id = 2\<rparr>"

lemma messages_ok_empty: "messages_ok empty_messages"
  by (simp add: messages_ok_def empty_messages_def sql_count_def)

lemma messages_ok_demo: "messages_ok demo_messages"
  by (simp add: messages_ok_def demo_messages_def sql_count_def new_message_row_def)

lemma demo_insert: "insert_message (\<lambda>i u. u) demo_new empty_messages = (Inr (new_message_row 1 demo_new, True), demo_messages)"
  by (simp add: insert_message_def find_event_def empty_messages_def demo_messages_def sql_first_def insert_message_row_def
      demo_new_def Let_def)


theorem deduplicated_event_reappears_witness:
  "insert_message (\<lambda>i u. u) demo_other demo_messages = (Inr (new_message_row 1 demo_new, False), demo_messages) \<and>
   insert_message (\<lambda>i u. u) (demo_other\<lparr>nm_created_at := 999301\<rparr>) demo_messages =
     (Inr (new_message_row 2 (demo_other\<lparr>nm_created_at := 999301\<rparr>), True),
      \<lparr>ms_messages = ms_messages demo_messages @ [new_message_row 2 (demo_other\<lparr>nm_created_at := 999301\<rparr>)], ms_next_id = 3\<rparr>)"
  using deduplicated_event_reappears [of demo_other "''$2''" demo_messages "new_message_row 1 demo_new" 999301]
  by (simp add: demo_other_def demo_new_def demo_messages_def new_message_row_def find_event_def sql_first_def same_event_def
      same_content_def in_i32_def i32_min_def i32_max_def)

definition demo_mail :: ont_message where
  "demo_mail = (new_message_row 3 demo_new)\<lparr>om_platform := ''email'', om_room_id := email_room 12 5\<rparr>"

theorem account_filter_leaks_witness:
  "demo_mail \<in> set (get_recent_email_messages_for_account 7 1 0 1 False \<lparr>ms_messages = [demo_mail], ms_next_id = 4\<rparr>)"
proof -
  have "\<exists>d < 10. om_room_id demo_mail = email_room (10 * 1 + d) 5"
    by (rule exI [of _ 2]) (simp add: demo_mail_def)
  with account_filter_leaks [of demo_mail "\<lparr>ms_messages = [demo_mail], ms_next_id = 4\<rparr>" 7 0 1 5]
  show ?thesis by (simp add: demo_mail_def new_message_row_def demo_new_def)
qed

definition demo_rooms :: message_store where
  "demo_rooms = \<lparr>ms_messages = [new_message_row 1 demo_new, new_message_row 2 (demo_other\<lparr>nm_created_at := 999500\<rparr>)], ms_next_id = 3\<rparr>"

theorem overview_shows_latest_witness:
  "length (get_latest_incoming_per_room 7 None 10 demo_rooms) = 1 \<and>
   get_latest_incoming_per_room 7 None 10 demo_rooms = [new_message_row 2 (demo_other\<lparr>nm_created_at := 999500\<rparr>)]"
proof -
  have "messages_ok demo_rooms"
    by (simp add: messages_ok_def demo_rooms_def sql_count_def new_message_row_def demo_other_def demo_new_def same_event_def)
  note facts = overview_shows_latest [OF this, of 7 10]
  have "conversation ` set (sql_select (\<lambda>r. om_user_id r = 7 \<and> om_sender_name r \<noteq> you) (ms_messages demo_rooms)) =
      {(''whatsapp'', ''!r'')}"
    by (simp add: sql_select_def demo_rooms_def new_message_row_def demo_other_def demo_new_def conversation_def you_def
        del: set_sql_select)
  with facts have one: "length (get_latest_incoming_per_room 7 None 10 demo_rooms) = 1" by (simp del: set_sql_select)
  moreover have "get_latest_incoming_per_room 7 None 10 demo_rooms = [new_message_row 2 (demo_other\<lparr>nm_created_at := 999500\<rparr>)]"
    by code_simp
  ultimately show ?thesis by blast
qed

section \<open>Digest times\<close>

theorem digest_times_roundtrip_witness:
  "parse_digest_times ''09:04, 8:46,9,08:50'' = Inr (''08:50,09:00'', [530, 540]) \<and>
   parse_digest_times ''08:50,09:00'' = Inr (''08:50,09:00'', [530, 540])"
proof -
  have split: "str_split (\<lambda>c. c = '','') ''09:04, 8:46,9,08:50'' = [''09:04'', '' 8:46'', ''9'', ''08:50'']" by code_simp
  have trims: "trim ''09:04'' = ''09:04''" "trim '' 8:46'' = ''8:46''" "trim ''9'' = ''9''" "trim ''08:50'' = ''08:50''" by code_simp+
  have slots: "show_slot 530 = ''08:50''" "show_slot 540 = ''09:00''" by code_simp+
  have "parse_digest_token ''09:04'' = Inr 540" "parse_digest_token ''8:46'' = Inr 530" "parse_digest_token ''9'' = Inr 540"
    "parse_digest_token ''08:50'' = Inr 530"
    by (simp_all add: parse_digest_token_def parse_u32_def digit_value_def snap_def)
  then have "parse_digest_times ''09:04, 8:46,9,08:50'' = Inr (''08:50,09:00'', [530, 540])"
    by (simp add: parse_digest_times_def split trims slots)
  with digest_times_roundtrip [OF this] show ?thesis by blast
qed

theorem due_slot_is_latest_witness:
  "latest_due_digest_slot [480, 780, 1080] 1000000 7200 = Some 990000 \<and> slot_instant [480, 780, 1080] 7200 990000"
proof -
  have "latest_due_digest_slot [480, 780, 1080] 1000000 7200 = Some 990000"
    by (simp add: latest_due_digest_slot_def in_i32_def i32_min_def i32_max_def)
  with due_slot_is_latest [of "[480, 780, 1080]" 1000000 7200] show ?thesis
    by (auto simp: in_i32_def i32_min_def i32_max_def)
qed

end
