(* ===== verification/DigestFlow.thy ===== *)
theory DigestFlow
  imports DigestProperties
begin

text \<open>A concrete environment of the digest job with user 7, and the witnesses of the properties of the job.\<close>

definition flow_crypto :: crypto where
  "flow_crypto = \<lparr>cr_key_env = Some ''k'', cr_b64_decode = Some, cr_b64_encode = (\<lambda>x. x), cr_key_ok = (\<lambda>_. True),
     cr_seal = (\<lambda>_ _ p. Some p), cr_open = (\<lambda>_ _ c. Some c), cr_utf8_ok = (\<lambda>_. True)\<rparr>"

definition flow_unicode :: unicode where
  "flow_unicode = \<lparr>u_alphanumeric = (\<lambda>_. True), u_lowercase = (\<lambda>t. t)\<rparr>"

definition flow_env :: digest_env where
  "flow_env = \<lparr>de_unicode = flow_unicode, de_crypto = flow_crypto, de_started_at = 1000000, de_now = 1000000,
     de_completed_at = 1000002, de_sent_at = (\<lambda>_. 1000001), de_nonce = (\<lambda>_. ''n''), de_users = Some [7],
     de_digest_enabled = (\<lambda>_. Some True), de_settings = (\<lambda>_. Some \<lparr>se_digest_time = None, se_critical_enabled = None\<rparr>),
     de_user_timezone = (\<lambda>_. None), de_zone_offset = (\<lambda>_. None), de_classify = (\<lambda>_. None),
     de_user_exists = (\<lambda>_. True), de_has_credits = (\<lambda>_. True), de_send = (\<lambda>_ _. Inr ''SM1'')\<rparr>"

definition flow_message :: "i64 \<Rightarrow> string \<Rightarrow> ont_message" where
  "flow_message i category =
     \<lparr>om_id = i, om_user_id = 7, om_room_id = ''r'', om_platform = ''whatsapp'', om_sender_name = ''Ann'',
      om_sender_key = None, om_content = ''Hi'', om_person_id = None, om_created_at = 999000 + i,
      om_urgency = Some ''later'', om_category = Some category, om_summary = Some ''Ann asks about dinner'',
      om_digest_delivered_at = None, om_classification_prompt = None, om_classification_result = None,
      om_resolved_at = None, om_seen_at = None, om_matrix_event_id = None, om_commitment_prompt = None,
      om_commitment_result = None\<rparr>"

definition flow_log :: usage_log where
  "flow_log = digest_log 7 990000 (Inr ''SM0'')"

definition flow_store :: "ont_message list \<Rightarrow> digest_store" where
  "flow_store ms =
     \<lparr>dg_messages = \<lparr>ms_messages = ms, ms_next_id = 100\<rparr>,
      dg_events = \<lparr>on_events = [], on_next_event_id = 1, on_rules = [], on_next_rule_id = 1, on_changelog = [],
        on_next_change_id = 1, on_health = []\<rparr>,
      dg_suppressions = \<lparr>st_user_ids = [7], st_rows = [], st_next_id = 1\<rparr>,
      dg_usage = [flow_log], dg_history = [], dg_cooldowns = Map.empty\<rparr>"

definition flow_settings :: digest_settings where
  "flow_settings = \<lparr>se_digest_time = None, se_critical_enabled = None\<rparr>"

definition first :: ont_message where
  "first = flow_message 1 ''social''"

definition second :: ont_message where
  "second = (flow_message 2 ''work'')\<lparr>om_urgency := Some ''now''\<rparr>"

definition flow0 :: digest_store where
  "flow0 = flow_store [first, second]"

definition flow_with :: "suppression_store \<Rightarrow> digest_store" where
  "flow_with quiet = flow0\<lparr>dg_suppressions := quiet\<rparr>"

definition flow_text :: string where
  "flow_text = ''Your digest'' @ newline @ newline @ ''FYI:'' @ newline @ ''- Ann: asks about dinner''"

definition flow_text2 :: string where
  "flow_text2 = ''Your digest'' @ newline @ newline @ ''Important:'' @ newline @ ''- Ann: asks about dinner''"

lemmas flow_rows = first_def second_def flow_message_def

lemma flow_names [simp]: "om_sender_name first = ''Ann''" "om_sender_name second = ''Ann''"
  by (simp_all add: flow_rows)

lemma flow_ok: "messages_ok (dg_messages flow0)"
  by (simp add: messages_ok_def flow0_def flow_store_def sql_count_def flow_rows same_event_def)

lemma flow_teaser:
  assumes "cap \<in> {100, 160}"
  shows "teaser flow_unicode cap ''Ann'' first = Some ''asks about dinner''"
    "teaser flow_unicode cap ''Ann'' second = Some ''asks about dinner''"
proof -
  have "strip_sender_prefix flow_unicode ''Ann asks about dinner'' ''Ann'' = Some ''asks about dinner''"
    "take_chars 100 ''asks about dinner'' = ''asks about dinner''" "trim ''asks about dinner'' = ''asks about dinner''"
    by code_simp+
  moreover have "take_chars 160 ''asks about dinner'' = ''asks about dinner''" by code_simp
  ultimately show "teaser flow_unicode cap ''Ann'' first = Some ''asks about dinner''"
    "teaser flow_unicode cap ''Ann'' second = Some ''asks about dinner''"
    using assms by (auto simp: teaser_def flow_rows)
qed

lemma flow_label: "digest_sender_label first = ''Ann''" "digest_sender_label second = ''Ann''"
  by code_simp+

lemma flow_fyi: "render_fyi_inline flow_unicode [first] = Some (Some (''FYI:'' @ newline @ ''- Ann: asks about dinner''))"
  by (simp add: render_fyi_inline_def message_groups_def add_to_groups_def extends_group_def more_line_def FYI_CAP_def
      format_digest_group_def format_digest_message_def format_digest_message_with_cap_def DIGEST_TEASER_CAP_def
      flow_teaser flow_label)

lemma flow_high: "render_high_signal_section flow_unicode ''Important'' [second] =
    Some (Some (''Important:'' @ newline @ ''- Ann: asks about dinner''))"
  by (simp add: render_high_signal_section_def more_line_def HIGH_SIGNAL_CAP_def
      format_digest_message_with_cap_def DIGEST_HIGH_SIGNAL_TEASER_CAP_def flow_teaser flow_label)

lemma flow_pending:
  "get_pending_messages_by_urgency 7 LATER_URGENCIES 395200 30 (dg_messages flow0) = [first]"
  "get_pending_unclassified_messages 7 since n (dg_messages flow0) = []"
  by (simp_all add: get_pending_messages_by_urgency_def get_pending_unclassified_messages_def flow0_def flow_store_def
      flow_rows pending_def you_def LATER_URGENCIES_def sql_select_def latest_first_def order_desc_def)

lemma flow_no_events: "no_event_news 7 (dg_events (flow_with quiet))"
  by (simp add: no_event_news_def flow_with_def flow0_def flow_store_def)

lemma flow_since: "sat_i32 (1000000 - 7 * 86400) = 395200"
  by (simp add: sat_i32_def i32_min_def i32_max_def)

lemma flow_bodies:
  "digest_body (''FYI:'' @ newline @ ''- Ann: asks about dinner'') = flow_text"
  "digest_body (''Important:'' @ newline @ ''- Ann: asks about dinner'') = flow_text2"
proof -
  have "char_count flow_text \<le> 1600" "char_count flow_text2 \<le> 1600"
    by (rule order_trans [OF char_count_le_length], simp add: flow_text_def flow_text2_def newline_def)+
  then show "digest_body (''FYI:'' @ newline @ ''- Ann: asks about dinner'') = flow_text"
    "digest_body (''Important:'' @ newline @ ''- Ann: asks about dinner'') = flow_text2"
    by (simp_all add: digest_body_def clamp_sms_body_def SMS_BODY_CHARACTER_LIMIT_def flow_text_def flow_text2_def)
qed

lemma flow_build:
  "build_digest_for_user flow_env 7 flow_settings 1000000 0 (flow_with quiet) = (Some (Some (flow_text, [1])), flow_with quiet)"
proof -
  have unicode: "de_unicode flow_env = flow_unicode" by (simp add: flow_env_def)
  have msgs: "dg_messages (flow_with quiet) = dg_messages flow0" "(flow_with quiet)\<lparr>dg_messages := dg_messages flow0\<rparr> = flow_with quiet"
    by (simp_all add: flow_with_def)
  have shown: "shown first" by (simp add: shown_def flow_rows)
  have backlog: "later_backlog 7 395200 (dg_messages flow0) = [first]" by (simp add: later_backlog_def flow_pending)
  have "digest_sections_for flow_env 7 flow_settings 1000000 0 (flow_with quiet) =
    (\<lparr>dd_today = [], dd_now = [], dd_later = [first], dd_recent = [], dd_completed = []\<rparr>, flow_with quiet)"
    using flow_since shown no_event_lines [OF flow_no_events]
    by (simp add: digest_sections_for_def msgs backlog flow_pending pushes_off_def flow_settings_def get_messages_by_ids_def
        sql_select_def sort_section_def)
  moreover have "digest_parts flow_unicode 0
      \<lparr>dd_today = [], dd_now = [], dd_later = [first], dd_recent = [], dd_completed = []\<rparr> =
    Some [''FYI:'' @ newline @ ''- Ann: asks about dinner'']"
    by (simp add: digest_parts_def render_high_signal_section_def flow_fyi event_line_def)
  ultimately show ?thesis using flow_bodies by (simp add: build_digest_for_user_def unicode) (simp add: flow_rows)
qed

lemma flow0_with: "flow0 = flow_with (dg_suppressions flow0)"
  by (simp add: flow_with_def)

lemma flow_build0: "build_digest_for_user flow_env 7 flow_settings 1000000 0 flow0 = (Some (Some (flow_text, [1])), flow0)"
  using flow_build [of "dg_suppressions flow0"] by (simp flip: flow0_with)

lemma flow_due: "digest_due flow_env 7 flow_settings (flow_with quiet)"
  by (simp add: digest_due_def digest_slots_def flow_settings_def AUTO_DIGEST_SLOTS_def latest_due_digest_slot_def
      tz_offset_secs_def flow_env_def in_i32_def i32_min_def i32_max_def latest_successful_digest_checkpoint_def flow0_def
      flow_with_def flow_store_def flow_log_def digest_log_def sql_select_def)

lemma flow_not_stale: "\<not> stale_delivery 7 (de_now flow_env) (flow_with quiet)"
  by (simp add: stale_delivery_def latest_successful_digest_checkpoint_def flow_with_def flow0_def flow_store_def flow_log_def
      digest_log_def sql_select_def flow_env_def sat_i32_def i32_min_def i32_max_def)

theorem digest_holds_pending_only_witness:
  "char_count flow_text \<le> 1600 \<and> (\<exists>r. r \<in> set (ms_messages (dg_messages flow0)) \<and> om_id r = 1 \<and> om_seen_at r = None)"
  using digest_holds_pending_only [OF flow_ok flow_build0] by fastforce

lemma flow_second:
  assumes "s = flow0\<lparr>dg_messages := mark_digest_delivered [1] 1000000 (dg_messages flow0)\<rparr>"
  shows "build_digest_for_user flow_env 7 \<lparr>se_digest_time = None, se_critical_enabled = Some ''OFF''\<rparr> 1010000 0 s =
    (Some (Some (flow_text2, [2])), s)"
proof -
  have unicode: "de_unicode flow_env = flow_unicode" by (simp add: flow_env_def)
  have since: "sat_i32 (1010000 - 7 * 86400) = 405200" by (simp add: sat_i32_def i32_min_def i32_max_def)
  have rows: "ms_messages (dg_messages s) = [first\<lparr>om_digest_delivered_at := Some 1000000\<rparr>, second]"
    by (simp add: assms mark_digest_delivered_def set_message_def sql_update_def flow0_def flow_store_def delivered_row_def flow_rows)
  have pending: "get_pending_messages_by_urgency 7 NOW_URGENCIES 405200 20 (dg_messages s) = [second]"
    "later_backlog 7 405200 (dg_messages s) = []" "get_pending_unclassified_messages 7 405200 30 (dg_messages s) = []"
    by (simp_all add: get_pending_messages_by_urgency_def get_pending_unclassified_messages_def later_backlog_def
        get_pending_digest_messages_def rows flow_rows pending_def you_def LATER_URGENCIES_def NOW_URGENCIES_def sql_select_def
        latest_first_def order_desc_def)
  have off: "to_ascii_lowercase ''OFF'' = ''off''" by code_simp
  have shown: "shown second" by (simp add: shown_def flow_rows)
  have "no_event_news 7 (dg_events s)" by (simp add: assms no_event_news_def flow0_def flow_store_def)
  from no_event_lines [OF this] have "digest_sections_for flow_env 7 \<lparr>se_digest_time = None, se_critical_enabled = Some ''OFF''\<rparr> 1010000 0 s =
    (\<lparr>dd_today = [], dd_now = [second], dd_later = [], dd_recent = [], dd_completed = []\<rparr>, s)"
    using since shown pending off
    by (simp add: digest_sections_for_def pushes_off_def get_messages_by_ids_def sql_select_def sort_section_def)
  moreover have "digest_parts flow_unicode 0
      \<lparr>dd_today = [], dd_now = [second], dd_later = [], dd_recent = [], dd_completed = []\<rparr> =
    Some [''Important:'' @ newline @ ''- Ann: asks about dinner'']"
    by (simp add: digest_parts_def render_fyi_inline_def flow_high event_line_def)
  ultimately show ?thesis using flow_bodies by (simp add: build_digest_for_user_def unicode) (simp add: flow_rows)
qed

theorem digest_never_repeats_witness: "set [1 :: i64] \<inter> set [2] = {}"
proof -
  define s where "s = flow0\<lparr>dg_messages := mark_digest_delivered [1] 1000000 (dg_messages flow0)\<rparr>"
  from digest_never_repeats [OF flow_ok flow_build0 _ flow_second [OF s_def]] show ?thesis by (simp add: s_def)
qed

lemma flow_deliver:
  assumes "decision flow_unicode 7 SCOPE_DIGEST flow_text False 1000001 quiet = Allow"
  shows "dg_usage (snd (deliver_to_user flow_env 7 (flow_with quiet))) = [flow_log, digest_log 7 1000001 (Inr ''SM1'')]"
proof -
  have env: "de_digest_enabled flow_env 7 = Some True" "de_settings flow_env 7 = Some flow_settings"
    "tz_offset_secs flow_env 7 = 0" "de_now flow_env = 1000000" "de_user_exists flow_env 7" "de_has_credits flow_env 7"
    "de_send flow_env 7 flow_text = Inr ''SM1''" "de_sent_at flow_env 7 = 1000001" "de_unicode flow_env = flow_unicode"
    by (simp_all add: flow_env_def tz_offset_secs_def flow_settings_def)
  have "dg_usage (snd (create_message_history cr n row t)) = dg_usage t" for cr n row t
    by (simp add: create_message_history_def split: sum.split)
  moreover have "dg_usage (flow_with quiet) = [flow_log]" "dg_suppressions (flow_with quiet) = quiet"
    by (simp_all add: flow_with_def flow0_def flow_store_def)
  ultimately show ?thesis
    using flow_due [of quiet] flow_build [of quiet] flow_not_stale [of quiet] assms
    by (simp add: deliver_to_user_def deliver_scheduled_def env send_and_settle_def send_digest_def Let_def log_usage_def)
qed

theorem slot_served_once_witness:
  "ul_created_at flow_log = 990000 \<and> ul_created_at flow_log < 997200 \<and>
   latest_due_digest_slot AUTO_DIGEST_SLOTS 1000000 0 = Some 997200"
proof -
  let ?quiet = "\<lparr>st_user_ids = [7], st_rows = [], st_next_id = 1\<rparr>"
  have allow: "decision flow_unicode 7 SCOPE_DIGEST flow_text False 1000001 ?quiet = Allow"
    by (simp add: decision_def active_for_user_def decide_suppression_def sql_select_def order_desc_def order_asc_def)
  have env: "de_settings flow_env 7 = Some flow_settings" "de_now flow_env = 1000000" "tz_offset_secs flow_env 7 = 0"
    by (simp_all add: flow_env_def flow_settings_def tz_offset_secs_def)
  have slot: "latest_due_digest_slot AUTO_DIGEST_SLOTS 1000000 0 = Some 997200"
    by (simp add: latest_due_digest_slot_def AUTO_DIGEST_SLOTS_def in_i32_def i32_min_def i32_max_def)
  have usage: "dg_usage (flow_with ?quiet) = [flow_log]" by (simp add: flow_with_def flow0_def flow_store_def)
  have log: "digest_sent 7 flow_log" "ul_created_at flow_log = 990000"
    by (simp_all add: digest_sent_def flow_log_def digest_log_def)
  have "in_i32 1000000" "in_i32 (1000000 - 86400)" by (simp_all add: in_i32_def i32_min_def i32_max_def)
  with slot_served_once [OF env(1), of AUTO_DIGEST_SLOTS "flow_with ?quiet"] flow_deliver [OF allow] env usage log slot
  show ?thesis by (simp add: digest_slots_def flow_settings_def)
qed

definition flow_quiet :: suppression_store where
  "flow_quiet =
     \<lparr>st_user_ids = [7], st_rows = [\<lparr>sup_id = 1, sup_user_id = 7, sup_kind = ''quiet'', sup_scope = ''all'',
        sup_match_text = None, sup_timezone = ''UTC'', sup_created_at = 100, sup_expires_at = 2000000,
        sup_ended_at = None\<rparr>], st_next_id = 2\<rparr>"

theorem suppressed_digest_consumes_witness:
  "deliver_to_user flow_env 7 (flow_with flow_quiet) =
     (True, (flow_with flow_quiet)\<lparr>dg_cooldowns := Map.empty(7 \<mapsto> 1000000),
        dg_messages := mark_digest_delivered [1] 1000000 (dg_messages flow0)\<rparr>)"
proof -
  have "decision flow_unicode 7 SCOPE_DIGEST flow_text False 1000001 flow_quiet \<noteq> Allow"
    by (simp add: decision_def active_for_user_def decide_suppression_def sql_select_def order_desc_def order_asc_def
        flow_quiet_def KIND_QUIET_def quiet_scope_matches_def SCOPE_ALL_def)
  with suppressed_digest_consumes [OF _ _ flow_not_stale [of flow_quiet] _ flow_due [of flow_quiet], of flow_text "[1]" "flow_with flow_quiet"]
    flow_build [of flow_quiet]
  show ?thesis by (simp add: flow_env_def flow_settings_def tz_offset_secs_def flow_with_def) (simp add: flow0_def flow_store_def)
qed

text \<open>Thirty pieces of spam and, before them, one message that waits.\<close>

definition spam_messages :: "ont_message list" where
  "spam_messages = flow_message 1 ''social'' # map (\<lambda>i. flow_message (int i) ''spam'') [2..<32]"

lemma spam_pending:
  assumes "since \<le> 999001"
  shows "pending_later 7 since (flow_store spam_messages) = rev (map (\<lambda>i. flow_message (int i) ''spam'') [2..<32])"
proof -
  have row: "om_user_id (flow_message i c) = 7" "om_urgency (flow_message i c) = Some ''later''"
    "om_created_at (flow_message i c) = 999000 + i" "pending (flow_message i c)" for i c
    by (simp_all add: flow_message_def pending_def you_def)
  have "filter (\<lambda>r. om_user_id r = 7 \<and> om_urgency r \<in> Some ` set LATER_URGENCIES \<and> since \<le> om_created_at r \<and> pending r)
      spam_messages = spam_messages"
    using assms by (auto simp: spam_messages_def row LATER_URGENCIES_def intro!: filter_True)
  moreover have "sort_key om_created_at spam_messages = spam_messages"
    by (rule sort_key_id_if_sorted) (simp add: spam_messages_def row sorted_map sorted_wrt_map)
  ultimately show ?thesis
    by (simp add: pending_later_def get_pending_messages_by_urgency_def flow_store_def sql_select_def latest_first_def
        order_desc_def) (simp add: spam_messages_def)
qed

theorem spam_starves_digest_witness:
  "deliver_to_user flow_env 7 (flow_store spam_messages) = (True, flow_store spam_messages)"
proof -
  have "week_ago flow_env = 395200" by (simp add: week_ago_def flow_env_def sat_i32_def i32_min_def i32_max_def)
  moreover have "get_pending_unclassified_messages 7 395200 30 (dg_messages (flow_store spam_messages)) = []"
    by (auto simp: get_pending_unclassified_messages_def flow_store_def spam_messages_def sql_select_def latest_first_def
        order_desc_def flow_message_def filter_empty_conv)
  moreover have "\<forall>settings. de_settings flow_env 7 = Some settings \<longrightarrow> \<not> pushes_off settings"
    by (auto simp: flow_env_def pushes_off_def)
  moreover have "no_event_news 7 (dg_events (flow_store spam_messages))" by (simp add: no_event_news_def flow_store_def)
  moreover have "list_all is_spam (rev (map (\<lambda>i. flow_message (int i) ''spam'') [2..<32]))"
    by (auto simp: list_all_iff is_spam_def flow_message_def)
  ultimately show ?thesis by (intro spam_starves_digest) (simp_all add: spam_pending)
qed


end
