(* ===== verification/Json.thy ===== *)
theory Json
  imports Text
begin

text \<open>
  The JSON values that \<^verbatim>\<open>serde_json\<close> hands to the code, and the readings of them that the
  \<^verbatim>\<open>#[derive(Deserialize)]\<close> structs of the rule engine ask for.

  An object keeps its members in the order of the text, repeated keys included: a \<^verbatim>\<open>Value\<close> keeps the
  last of them (\<open>json_get\<close>), a struct refuses a known field that is given twice (\<open>json_field\<close>).
  Reading and printing text is the crate's work: a parser and a printer are parameters of the
  components that use them.
\<close>

datatype json =
    JNull
  | JBool bool
  | JInt int
  | JFloat string      \<comment> \<open>a number with a fraction or an exponent, as it is written\<close>
  | JStr string
  | JArr "json list"
  | JObj "(string \<times> json) list"

text \<open>\<^verbatim>\<open>value.get(key)\<close>, \<^verbatim>\<open>as_str\<close>, \<^verbatim>\<open>as_bool\<close>, \<^verbatim>\<open>as_i64\<close>.\<close>

fun json_get :: "string \<Rightarrow> json \<Rightarrow> json option" where
  "json_get k (JObj ms) = map_of (rev ms) k"
| "json_get k _ = None"

fun as_str :: "json \<Rightarrow> string option" where
  "as_str (JStr s) = Some s"
| "as_str _ = None"

fun as_bool :: "json \<Rightarrow> bool option" where
  "as_bool (JBool b) = Some b"
| "as_bool _ = None"

fun as_i64 :: "json \<Rightarrow> i64 option" where
  "as_i64 (JInt i) = (if wrap_i64 i = i then Some i else None)"
| "as_i64 _ = None"

definition get_str :: "string \<Rightarrow> json \<Rightarrow> string option" where
  "get_str k v = Option.bind (json_get k v) as_str"

definition get_bool :: "string \<Rightarrow> json \<Rightarrow> bool option" where
  "get_bool k v = Option.bind (json_get k v) as_bool"

definition get_i64 :: "string \<Rightarrow> json \<Rightarrow> i64 option" where
  "get_i64 k v = Option.bind (json_get k v) as_i64"

definition str_or_empty :: "string \<Rightarrow> json \<Rightarrow> string" where
  "str_or_empty k v = (case get_str k v of None \<Rightarrow> [] | Some s \<Rightarrow> s)"

definition flag_set :: "string \<Rightarrow> json \<Rightarrow> bool" where
  "flag_set k v \<longleftrightarrow> get_bool k v = Some True"

text \<open>
  \<^verbatim>\<open>p[key] = value\<close>: null becomes an object, and on anything else that is not an object the code
  panics (\<^const>\<open>None\<close>).
\<close>

fun json_set :: "string \<Rightarrow> json \<Rightarrow> json \<Rightarrow> json option" where
  "json_set k v (JObj ms) = Some (JObj (filter (\<lambda>(k', _). k' \<noteq> k) ms @ [(k, v)]))"
| "json_set k v JNull = Some (JObj [(k, v)])"
| "json_set k v _ = None"

text \<open>\<^verbatim>\<open>if let Some(obj) = p.as_object_mut()\<close> with an insert for each member.\<close>

fun json_extend :: "(string \<times> json) list \<Rightarrow> json \<Rightarrow> json" where
  "json_extend ex (JObj ms) = JObj (filter (\<lambda>(k, _). k \<notin> fst ` set ex) ms @ ex)"
| "json_extend ex v = v"

text \<open>
  The fields of a derived struct. The outer \<^const>\<open>None\<close> is a deserialization error: the field is given
  twice or with a wrong type. A missing field of an \<^verbatim>\<open>Option\<close> type is \<open>None\<close>, and so is null.
\<close>

definition json_field :: "string \<Rightarrow> (string \<times> json) list \<Rightarrow> json option option" where
  "json_field k ms =
     (case filter (\<lambda>(k', _). k' = k) ms of [] \<Rightarrow> Some None | [(_, v)] \<Rightarrow> Some (Some v) | _ \<Rightarrow> None)"

definition optional_field :: "(json \<Rightarrow> 'a option) \<Rightarrow> string \<Rightarrow> (string \<times> json) list \<Rightarrow> 'a option option" where
  "optional_field of_json k ms =
     (case json_field k ms of
        None \<Rightarrow> None
      | Some None \<Rightarrow> Some None
      | Some (Some v) \<Rightarrow> if v = JNull then Some None else map_option Some (of_json v))"

definition default_field :: "'a \<Rightarrow> (json \<Rightarrow> 'a option) \<Rightarrow> string \<Rightarrow> (string \<times> json) list \<Rightarrow> 'a option" where
  "default_field d of_json k ms =
     (case json_field k ms of
        None \<Rightarrow> None
      | Some None \<Rightarrow> Some d
      | Some (Some v) \<Rightarrow> of_json v)"

definition required_field :: "(json \<Rightarrow> 'a option) \<Rightarrow> string \<Rightarrow> (string \<times> json) list \<Rightarrow> 'a option" where
  "required_field of_json k ms = Option.bind (json_field k ms) (\<lambda>f. Option.bind f of_json)"

fun i32_of_json :: "json \<Rightarrow> i32 option" where
  "i32_of_json (JInt i) = (if in_i32 i then Some i else None)"
| "i32_of_json _ = None"

text \<open>\<^verbatim>\<open>HashMap<String, String>\<close>: every member is a text; a repeated key keeps its last value.\<close>

fun strings_of_members :: "(string \<times> json) list \<Rightarrow> (string \<times> string) list option" where
  "strings_of_members [] = Some []"
| "strings_of_members ((k, v) # ms) =
     Option.bind (as_str v) (\<lambda>s.
       Option.bind (strings_of_members ms) (\<lambda>rest.
         Some (if k \<in> fst ` set rest then rest else (k, s) # rest)))"

fun string_map_of_json :: "json \<Rightarrow> (string \<times> string) list option" where
  "string_map_of_json (JObj ms) = strings_of_members ms"
| "string_map_of_json _ = None"

lemma json_get_Nil [simp]: "json_get k (JObj []) = None"
  by simp

lemma json_get_set: "json_set k v p = Some q \<Longrightarrow> json_get k' q = (if k' = k then Some v else json_get k' p)"
proof (cases p)
  case (JObj ms)
  assume "json_set k v p = Some q"
  moreover have "map_of (rev (filter (\<lambda>(k', _). k' \<noteq> k) ms)) k' = (if k' = k then None else map_of (rev ms) k')"
    by (induction ms) (auto simp: map_add_def split: option.split)
  ultimately show ?thesis using JObj by auto
qed auto

end
