(* ===== verification/RuleConfig.thy ===== *)
theory RuleConfig
  imports Json Messages Ontology "HOL-Library.Monad_Syntax"
begin

text \<open>
  What a rule of \<^verbatim>\<open>proactive/rules.rs\<close> says: the flow tree and its depth, the trigger configuration,
  how both are read from their JSON columns, the prompt templates, the text of a notification, and
  the decision whether an event of the ontology triggers a rule (\<open>matches_trigger\<close>).

  The columns hold text, which \<^verbatim>\<open>serde_json\<close> parses: the functions here work on the parsed value.
  \<^verbatim>\<open>serde\<close> reads a struct also from an array of its fields in order, a form that no client of the API
  and no code of the repository writes; here a struct is read from an object only.
\<close>

section \<open>Flow trees\<close>

datatype fetch_source =
    FetchEmail
  | FetchChat string i64            \<comment> \<open>platform, limit\<close>
  | FetchWeather string             \<comment> \<open>location\<close>
  | FetchInternet string            \<comment> \<open>query\<close>
  | FetchTesla
  | FetchMcp string string string   \<comment> \<open>server, tool, args\<close>
  | FetchEvents

datatype flow_node =
    LlmCondition string "fetch_source list" "flow_node option" "flow_node option"
  | KeywordCondition string "flow_node option" "flow_node option"
  | Action string json              \<comment> \<open>action type, config\<close>

fun condition_depth :: "flow_node \<Rightarrow> nat" where
  "condition_depth (LlmCondition _ _ t f) =
     1 + max (case t of None \<Rightarrow> 0 | Some n \<Rightarrow> condition_depth n) (case f of None \<Rightarrow> 0 | Some n \<Rightarrow> condition_depth n)"
| "condition_depth (KeywordCondition _ t f) =
     1 + max (case t of None \<Rightarrow> 0 | Some n \<Rightarrow> condition_depth n) (case f of None \<Rightarrow> 0 | Some n \<Rightarrow> condition_depth n)"
| "condition_depth (Action _ _) = 0"

fun fetch_source_of_json :: "json \<Rightarrow> fetch_source option" where
  "fetch_source_of_json (JObj ms) =
     (case required_field as_str ''type'' ms of
        None \<Rightarrow> None
      | Some tag \<Rightarrow>
          if tag = ''email'' then Some FetchEmail
          else if tag = ''chat'' then do {
            platform \<leftarrow> default_field ''all'' as_str ''platform'' ms;
            limit \<leftarrow> default_field 50 as_i64 ''limit'' ms;
            Some (FetchChat platform limit) }
          else if tag = ''weather'' then map_option FetchWeather (default_field [] as_str ''location'' ms)
          else if tag = ''internet'' then map_option FetchInternet (required_field as_str ''query'' ms)
          else if tag = ''tesla'' then Some FetchTesla
          else if tag = ''mcp'' then do {
            server \<leftarrow> required_field as_str ''server'' ms;
            tool \<leftarrow> required_field as_str ''tool'' ms;
            args \<leftarrow> default_field [] as_str ''args'' ms;
            Some (FetchMcp server tool args) }
          else if tag = ''events'' then Some FetchEvents
          else None)"
| "fetch_source_of_json _ = None"

text \<open>A list whose elements all read.\<close>

fun all_some :: "'a option list \<Rightarrow> 'a list option" where
  "all_some [] = Some []"
| "all_some (x # xs) = Option.bind x (\<lambda>a. map_option (Cons a) (all_some xs))"

fun fetch_list_of_json :: "json \<Rightarrow> fetch_source list option" where
  "fetch_list_of_json (JArr vs) = all_some (map fetch_source_of_json vs)"
| "fetch_list_of_json _ = None"

lemma json_field_smaller: "json_field k ms = Some (Some v) \<Longrightarrow> size v < size (JObj ms)"
proof -
  assume "json_field k ms = Some (Some v)"
  then have "\<exists>k'. filter (\<lambda>(k', _). k' = k) ms = [(k', v)]"
    by (auto simp: json_field_def split: list.splits)
  then have "\<exists>k'. (k', v) \<in> set (filter (\<lambda>(k', _). k' = k) ms)"
    by (metis list.set_intros(1))
  then obtain k' where "(k', v) \<in> set ms" by auto
  then have "size_prod (\<lambda>_. 0) size (k', v) \<le> size_list (size_prod (\<lambda>_. 0) size) ms"
    by (intro size_list_estimation') auto
  then show ?thesis by simp
qed

lemma optional_field_cong [fundef_cong]:
  assumes "k = k'" "ms = ms'" "\<And>v. json_field k' ms' = Some (Some v) \<Longrightarrow> f v = g v"
  shows "optional_field f k ms = optional_field g k' ms'"
  using assms by (auto simp: optional_field_def split: option.split)

text \<open>
  \<^verbatim>\<open>Box<Option<FlowNode>>\<close> is absent, null or a node. The value of an action's \<^verbatim>\<open>config\<close> is any JSON, but
  it must be there.
\<close>

function flow_of_json :: "json \<Rightarrow> flow_node option" where
  "flow_of_json (JObj ms) =
     (case required_field as_str ''type'' ms of
        None \<Rightarrow> None
      | Some tag \<Rightarrow>
          if tag = ''llm_condition'' then do {
            prompt \<leftarrow> required_field as_str ''prompt'' ms;
            fetch \<leftarrow> default_field [] fetch_list_of_json ''fetch'' ms;
            t \<leftarrow> optional_field flow_of_json ''true_branch'' ms;
            f \<leftarrow> optional_field flow_of_json ''false_branch'' ms;
            Some (LlmCondition prompt fetch t f) }
          else if tag = ''keyword_condition'' then do {
            keyword \<leftarrow> required_field as_str ''keyword'' ms;
            t \<leftarrow> optional_field flow_of_json ''true_branch'' ms;
            f \<leftarrow> optional_field flow_of_json ''false_branch'' ms;
            Some (KeywordCondition keyword t f) }
          else if tag = ''action'' then do {
            action_type \<leftarrow> required_field as_str ''action_type'' ms;
            config \<leftarrow> required_field Some ''config'' ms;
            Some (Action action_type config) }
          else None)"
| "flow_of_json JNull = None"
| "flow_of_json (JBool b) = None"
| "flow_of_json (JInt i) = None"
| "flow_of_json (JFloat s) = None"
| "flow_of_json (JStr s) = None"
| "flow_of_json (JArr vs) = None"
  by pat_completeness auto
termination
  by (relation "measure size") (use json_field_smaller in auto)

section \<open>Trigger configuration\<close>

record trigger_config =
  tc_entity_type :: "string option"
  tc_change :: "string option"
  tc_filters :: "(string \<times> string) list option"
  tc_resolved_room_id :: "string option"
  tc_resolved_person_id :: "i32 option"
  tc_resolved_sender_key :: "string option"
  tc_incoming_only :: bool
  tc_always_show_is_group :: "bool option"
  tc_schedule :: "string option"
  tc_pattern :: "string option"
  tc_at :: "string option"
  tc_fire_once :: bool
  tc_delay_seconds :: "i32 option"
  tc_group_mode :: "string option"

definition default_trigger :: trigger_config where
  "default_trigger =
     \<lparr>tc_entity_type = None, tc_change = None, tc_filters = None, tc_resolved_room_id = None,
      tc_resolved_person_id = None, tc_resolved_sender_key = None, tc_incoming_only = False,
      tc_always_show_is_group = None, tc_schedule = None, tc_pattern = None, tc_at = None,
      tc_fire_once = False, tc_delay_seconds = None, tc_group_mode = None\<rparr>"

fun trigger_of_json :: "json \<Rightarrow> trigger_config option" where
  "trigger_of_json (JObj ms) = do {
     entity_type \<leftarrow> optional_field as_str ''entity_type'' ms;
     change \<leftarrow> optional_field as_str ''change'' ms;
     filters \<leftarrow> optional_field string_map_of_json ''filters'' ms;
     room_id \<leftarrow> optional_field as_str ''resolved_room_id'' ms;
     person_id \<leftarrow> optional_field i32_of_json ''resolved_person_id'' ms;
     sender_key \<leftarrow> optional_field as_str ''resolved_sender_key'' ms;
     incoming_only \<leftarrow> default_field False as_bool ''incoming_only'' ms;
     is_group \<leftarrow> optional_field as_bool ''always_show_is_group'' ms;
     schedule \<leftarrow> optional_field as_str ''schedule'' ms;
     pattern \<leftarrow> optional_field as_str ''pattern'' ms;
     at_time \<leftarrow> optional_field as_str ''at'' ms;
     fire_once \<leftarrow> default_field False as_bool ''fire_once'' ms;
     delay_seconds \<leftarrow> optional_field i32_of_json ''delay_seconds'' ms;
     group_mode \<leftarrow> optional_field as_str ''group_mode'' ms;
     Some \<lparr>tc_entity_type = entity_type, tc_change = change, tc_filters = filters,
           tc_resolved_room_id = room_id, tc_resolved_person_id = person_id,
           tc_resolved_sender_key = sender_key, tc_incoming_only = incoming_only,
           tc_always_show_is_group = is_group, tc_schedule = schedule, tc_pattern = pattern,
           tc_at = at_time, tc_fire_once = fire_once, tc_delay_seconds = delay_seconds,
           tc_group_mode = group_mode\<rparr> }"
| "trigger_of_json _ = None"

text \<open>\<^verbatim>\<open>ActionConfig\<close>, of which the handlers only ask that it reads.\<close>

fun action_config_ok :: "json \<Rightarrow> bool" where
  "action_config_ok (JObj ms) \<longleftrightarrow>
     optional_field as_str ''method'' ms \<noteq> None \<and> optional_field as_str ''message'' ms \<noteq> None \<and>
     optional_field as_str ''tool'' ms \<noteq> None \<and> optional_field Some ''params'' ms \<noteq> None"
| "action_config_ok _ \<longleftrightarrow> False"

section \<open>Prompt templates\<close>

definition resolve_prompt_template :: "string \<Rightarrow> string \<Rightarrow> string" where
  "resolve_prompt_template prompt trigger_type =
     (case strip_prefix ''template:'' prompt of
        None \<Rightarrow> prompt
      | Some tid \<Rightarrow>
          let is_schedule = (trigger_type = ''schedule'') in
          if tid = ''summarize'' then
            if is_schedule
            then ''Summarize recent messages and emails into a brief digest. Focus on key points, '' @
                 ''action items, and anything that needs attention. Also mention any tracked '' @
                 ''items with approaching deadlines. Format as a numbered list, one item per '' @
                 ''line.''
            else ''Summarize this message along with recent conversation context. Highlight key '' @
                 ''points and any action needed.''
          else if tid = ''filter_important'' then
            if is_schedule
            then ''Review recent messages and emails. Only notify if delaying over 2 hours could '' @
                 ''cause harm, financial loss, or miss a time-sensitive opportunity. Examples: '' @
                 ''emergencies, someone asking to meet now, immediate decisions needed. Routine '' @
                 ''updates and vague requests are NOT critical. If nothing critical, respond with '' @
                 ''just 'skip'.''
            else ''Only notify if delaying this message over 2 hours could cause harm, financial '' @
                 ''loss, or miss a time-sensitive opportunity. Examples: emergencies, someone '' @
                 ''asking to meet now, immediate decisions needed. Routine updates, casual '' @
                 ''messages, and vague requests are NOT critical. If not critical, respond with '' @
                 ''just 'skip'.''
          else if tid = ''track_items_update'' then
            ''Does this message update an already-tracked obligation with a concrete next '' @
            ''step or deadline? Create or update events for specific commitments like '' @
            ''paying, booking, confirming, or sending something. Do not use one umbrella '' @
            ''event for an entire trip or situation. Routine updates should be tracked '' @
            ''silently in the background. If this message changes a tracked obligation's '' @
            ''status, due date, or best reminder time, act on it. Otherwise skip.''
          else if tid = ''track_items_create'' then
            ''Should this message create a new tracked obligation? Only create one for a '' @
            ''concrete commitment the user could forget and would benefit from being '' @
            ''reminded about at the right time, such as paying, booking, confirming, '' @
            ''sending, or following up by a certain date. Do not create umbrella events for '' @
            ''whole situations like trip planning when the message is really about a smaller '' @
            ''obligation inside it. If nothing specific should be tracked, respond with just '' @
            '''skip'.''
          else
            (case strip_prefix ''check_condition:'' tid of
               Some condition \<Rightarrow>
                 if is_schedule
                 then ''Check if the following condition is met based on recent messages: '' @
                      condition @ ''. If the condition is not met, respond with just 'skip'.''
                 else ''Check if this message matches the following condition: '' @
                      condition @ ''. If it doesn't match, respond with just 'skip'.''
             | None \<Rightarrow> prompt))"

section \<open>The text of a notification\<close>

text \<open>A prefix of \<open>n\<close> characters with dots when the text is longer.\<close>

definition ellipsis_at :: "nat \<Rightarrow> string \<Rightarrow> string" where
  "ellipsis_at n s = (if n < length (utf8_chars s) then take_chars n s @ ''...'' else s)"

definition snapshot_sender :: "string \<Rightarrow> json \<Rightarrow> string option" where
  "snapshot_sender other snap =
     Option.bind (case json_get ''sender_name'' snap of Some v \<Rightarrow> Some v | None \<Rightarrow> json_get other snap) as_str"

definition is_email_snapshot :: "json \<Rightarrow> bool" where
  "is_email_snapshot snap \<longleftrightarrow>
     (case get_str ''platform'' snap of Some p \<Rightarrow> eq_ignore_ascii_case p ''email'' | None \<Rightarrow> False)"

definition after_colon :: "string \<Rightarrow> string" where
  "after_colon s = (case split_once '':'' s of Some (_, tail) \<Rightarrow> trim tail | None \<Rightarrow> s)"

definition compact_email_notification :: "unicode \<Rightarrow> string \<Rightarrow> json \<Rightarrow> string" where
  "compact_email_notification u message snap =
     (if \<not> is_email_snapshot snap then message
      else
        (case get_str ''email_account'' snap of
           None \<Rightarrow> message
         | Some account \<Rightarrow>
             if trim account = [] then message
             else
               let trimmed = trim message
               in if prefix (account @ '':'') trimmed then trimmed
                  else
                    let lower = to_lowercase u trimmed;
                        sender = (case snapshot_sender ''sender'' snap of None \<Rightarrow> [] | Some x \<Rightarrow> x);
                        sender_on_email = to_lowercase u (sender @ '' on email:'');
                        body_text =
                          (if sender \<noteq> [] \<and> prefix sender_on_email lower then after_colon trimmed
                           else if prefix ''critical email'' lower \<or> prefix ''email from'' lower
                           then after_colon trimmed
                           else trimmed)
                    in if body_text = [] then account else account @ '': '' @ body_text))"

definition format_snapshot_message :: "unicode \<Rightarrow> json \<Rightarrow> string" where
  "format_snapshot_message u snap =
     (let sender = (case snapshot_sender ''person_name'' snap of None \<Rightarrow> ''Someone'' | Some x \<Rightarrow> x);
          platform = (case get_str ''platform'' snap of None \<Rightarrow> ''unknown'' | Some p \<Rightarrow> p);
          content = str_or_empty ''content'' snap
      in if content = [] then compact_email_notification u (sender @ '' sent a message on '' @ platform) snap
         else compact_email_notification u (sender @ '' on '' @ platform @ '': '' @ ellipsis_at 200 content) snap)"

text \<open>\<^verbatim>\<open>str::parse::<i32>\<close>.\<close>

definition parse_i32 :: "string \<Rightarrow> i32 option" where
  "parse_i32 s =
     (case s of
        CHR ''-'' # cs \<Rightarrow>
          if cs = [] then None
          else Option.bind (read_digits 0 cs) (\<lambda>n. if n \<le> 2147483648 then Some (- int n) else None)
      | _ \<Rightarrow> Option.bind (parse_u32 s) (\<lambda>n. if n \<le> 2147483647 then Some (int n) else None))"

definition all_digits :: "string \<Rightarrow> bool" where
  "all_digits s \<longleftrightarrow> s \<noteq> [] \<and> list_all (\<lambda>c. digit_value c \<noteq> None) s"

text \<open>\<^verbatim>\<open>parse_email_room_id\<close> of \<^verbatim>\<open>handlers/imap_handlers.rs\<close>: the connection and the uid.\<close>

definition parse_email_room_id :: "string \<Rightarrow> (i32 option \<times> string) option" where
  "parse_email_room_id room_id =
     (case strip_prefix ''email_'' room_id of
        None \<Rightarrow> None
      | Some rest \<Rightarrow>
          let legacy = (if all_digits rest then Some (None, rest) else None)
          in (case split_once ''_'' rest of
                None \<Rightarrow> legacy
              | Some (connection, uid) \<Rightarrow>
                  (case parse_i32 connection of
                     Some connection_id \<Rightarrow>
                       if 0 < connection_id \<and> all_digits uid then Some (Some connection_id, uid) else legacy
                   | None \<Rightarrow> legacy)))"

record notification_meta =
  nmeta_platform :: "string option"
  nmeta_sender :: "string option"
  nmeta_content :: "string option"
  nmeta_annotation :: "string option"

fun join_with :: "string \<Rightarrow> string list \<Rightarrow> string" where
  "join_with sep [] = []"
| "join_with sep [x] = x"
| "join_with sep (x # y # xs) = x @ sep @ join_with sep (y # xs)"

definition email_uid_of :: "json \<Rightarrow> string option" where
  "email_uid_of snap =
     (case get_str ''email_uid'' snap of
        Some uid \<Rightarrow> Some uid
      | None \<Rightarrow> map_option snd (Option.bind (get_str ''room_id'' snap) parse_email_room_id))"

definition email_ref_annotation_from_snapshot :: "json \<Rightarrow> string option" where
  "email_ref_annotation_from_snapshot snap =
     (if \<not> is_email_snapshot snap then None
      else
        map_option (\<lambda>uid.
          let mailbox = (case get_str ''mailbox'' snap of None \<Rightarrow> ''INBOX'' | Some m \<Rightarrow> m);
              parts =
                (case get_i64 ''imap_connection_id'' snap of None \<Rightarrow> [] | Some i \<Rightarrow> [''account_id='' @ show_int i]) @
                (case get_str ''email_account'' snap of None \<Rightarrow> [] | Some a \<Rightarrow> [''account='' @ a]) @
                [''mailbox='' @ mailbox, ''uid='' @ uid] @
                (case get_i64 ''message_id'' snap of None \<Rightarrow> [] | Some i \<Rightarrow> [''ont_message_id='' @ show_int i])
          in ''[email_ref '' @ join_with '' '' parts @ '']'')
        (email_uid_of snap))"

definition notification_meta_from_snapshot :: "json \<Rightarrow> notification_meta" where
  "notification_meta_from_snapshot snap =
     \<lparr>nmeta_platform = get_str ''platform'' snap,
      nmeta_sender = snapshot_sender ''sender'' snap,
      nmeta_content = get_str ''content'' snap,
      nmeta_annotation = email_ref_annotation_from_snapshot snap\<rparr>"

section \<open>Trigger matching\<close>

text \<open>
  \<^verbatim>\<open>matches_trigger\<close> on the parsed configuration. A text that does not parse matches nothing. The
  filters are a \<^verbatim>\<open>HashMap\<close>, all of which have to hold.
\<close>

definition sent_by_user :: "json \<Rightarrow> bool" where
  "sent_by_user snap \<longleftrightarrow>
     flag_set ''is_outgoing'' snap \<or>
     (case get_str ''sender_name'' snap of Some n \<Rightarrow> eq_ignore_ascii_case n ''You'' | None \<Rightarrow> False)"

definition has_resolved_sender :: "trigger_config \<Rightarrow> bool" where
  "has_resolved_sender c \<longleftrightarrow>
     tc_resolved_room_id c \<noteq> None \<or> tc_resolved_person_id c \<noteq> None \<or> tc_resolved_sender_key c \<noteq> None"

definition is_group_message :: "string \<Rightarrow> json \<Rightarrow> bool" where
  "is_group_message entity_type snap \<longleftrightarrow> eq_ignore_ascii_case entity_type ''Message'' \<and> flag_set ''is_group'' snap"

definition group_admits :: "trigger_config \<Rightarrow> string \<Rightarrow> json \<Rightarrow> bool" where
  "group_admits c entity_type snap \<longleftrightarrow>
     (if is_group_message entity_type snap then
        (let room_id = str_or_empty ''room_id'' snap
         in (if tc_incoming_only c
             then tc_always_show_is_group c \<noteq> Some False \<and>
                  (case tc_resolved_room_id c of Some room \<Rightarrow> room = room_id | None \<Rightarrow> True)
             else tc_group_mode c \<noteq> None \<and> tc_resolved_room_id c = Some room_id)) \<and>
        \<not> flag_set ''is_outgoing'' snap
      else \<not> (tc_incoming_only c \<and> tc_always_show_is_group c = Some True))"

definition sender_resolves :: "trigger_config \<Rightarrow> json \<Rightarrow> bool" where
  "sender_resolves c snap \<longleftrightarrow>
     (case tc_resolved_room_id c of
        Some room \<Rightarrow> str_or_empty ''room_id'' snap = room
      | None \<Rightarrow>
          (case tc_resolved_person_id c of
             Some person \<Rightarrow> (case get_i64 ''person_id'' snap of None \<Rightarrow> -1 | Some i \<Rightarrow> i) = person
           | None \<Rightarrow>
               (case tc_resolved_sender_key c of
                  Some key \<Rightarrow> eq_ignore_ascii_case (trim (str_or_empty ''sender_key'' snap)) (trim key)
                | None \<Rightarrow> True)))"

definition names_sender :: "unicode \<Rightarrow> string \<Rightarrow> string \<Rightarrow> bool" where
  "names_sender u expected name \<longleftrightarrow> name \<noteq> [] \<and> to_lowercase u (trim name) = to_lowercase u (trim expected)"

definition filter_admits :: "unicode \<Rightarrow> trigger_config \<Rightarrow> json \<Rightarrow> string \<times> string \<Rightarrow> bool" where
  "filter_admits u c snap f =
     (case f of (key, expected) \<Rightarrow>
        if key = ''sender'' then
          has_resolved_sender c \<or>
          names_sender u expected (str_or_empty ''person_name'' snap) \<or>
          names_sender u expected (str_or_empty ''sender_name'' snap)
        else if tc_incoming_only c \<and> key = ''platform'' then
          eq_ignore_ascii_case (str_or_empty key snap) expected
        else str_contains (to_lowercase u (str_or_empty key snap)) (to_lowercase u expected))"

definition matches_trigger ::
  "(string \<Rightarrow> json option) \<Rightarrow> unicode \<Rightarrow> ont_rule \<Rightarrow> string \<Rightarrow> string \<Rightarrow> json \<Rightarrow> bool" where
  "matches_trigger parse u rule entity_type change_type snap =
     (case Option.bind (parse (or_trigger_config rule)) trigger_of_json of
        None \<Rightarrow> False
      | Some c \<Rightarrow>
          (case tc_entity_type c of Some e \<Rightarrow> eq_ignore_ascii_case e entity_type | None \<Rightarrow> False) \<and>
          eq_ignore_ascii_case (case tc_change c of None \<Rightarrow> ''created'' | Some x \<Rightarrow> x) change_type \<and>
          \<not> (tc_incoming_only c \<and> sent_by_user snap) \<and>
          group_admits c entity_type snap \<and>
          sender_resolves c snap \<and>
          (case tc_filters c of None \<Rightarrow> True | Some fs \<Rightarrow> list_all (filter_admits u c snap) fs) \<and>
          \<not> (tc_group_mode c = Some ''mention_only'' \<and> \<not> flag_set ''is_mentioned'' snap))"

end
