(* ===== verification/Links.thy ===== *)
theory Links
  imports Ontology Messages
begin

text \<open>
  The section Links of \<^verbatim>\<open>repositories/ontology_repository.rs\<close>: typed links between two entities of a
  user, unique in their user, ends and type, and the messages that are linked to an event.
\<close>

record ont_link =
  lk_id :: i32
  lk_user_id :: i32
  lk_source_type :: string
  lk_source_id :: i32
  lk_target_type :: string
  lk_target_id :: i32
  lk_link_type :: string
  lk_metadata :: "string option"
  lk_created_at :: i32

record new_ont_link =
  nl_user_id :: i32
  nl_source_type :: string
  nl_source_id :: i32
  nl_target_type :: string
  nl_target_id :: i32
  nl_link_type :: string
  nl_metadata :: "string option"
  nl_created_at :: i32

record link_store =
  ls_links :: "ont_link table"
  ls_next_id :: i32

definition link_key :: "ont_link \<Rightarrow> i32 \<times> (string \<times> i32) \<times> (string \<times> i32) \<times> string" where
  "link_key k =
     (lk_user_id k, (lk_source_type k, lk_source_id k), (lk_target_type k, lk_target_id k), lk_link_type k)"

definition link_change :: "new_ont_link \<Rightarrow> string" where
  "link_change nl =
     ''{'' @ [CHR 0x22] @ ''source'' @ [CHR 0x22] @ '':'' @ [CHR 0x22] @ nl_source_type nl @ ''/'' @
     show_int (nl_source_id nl) @ [CHR 0x22] @ '','' @ [CHR 0x22] @ ''target'' @ [CHR 0x22] @ '':'' @ [CHR 0x22] @
     nl_target_type nl @ ''/'' @ show_int (nl_target_id nl) @ [CHR 0x22] @ '','' @ [CHR 0x22] @ ''type'' @
     [CHR 0x22] @ '':'' @ [CHR 0x22] @ nl_link_type nl @ [CHR 0x22] @ ''}''"

text \<open>
  \<^verbatim>\<open>ON CONFLICT DO NOTHING\<close> returns no row when the link is there already, which \<^verbatim>\<open>get_result\<close> reports
  as \<open>NotFound\<close>. The number of the failed insertion is spent.
\<close>

definition create_link ::
  "i32 \<Rightarrow> string \<Rightarrow> i32 \<Rightarrow> string \<Rightarrow> i32 \<Rightarrow> string \<Rightarrow> string option \<Rightarrow> i32
     \<Rightarrow> link_store \<times> ont_store \<Rightarrow> (db_error + ont_link) \<times> link_store \<times> ont_store" where
  "create_link user_id source_type source_id target_type target_id link_type metadata now st =
     (let (ls, s) = st;
          nl = \<lparr>nl_user_id = user_id, nl_source_type = source_type, nl_source_id = source_id,
                nl_target_type = target_type, nl_target_id = target_id, nl_link_type = link_type,
                nl_metadata = metadata, nl_created_at = now\<rparr>;
          k = \<lparr>lk_id = ls_next_id ls, lk_user_id = nl_user_id nl, lk_source_type = nl_source_type nl,
               lk_source_id = nl_source_id nl, lk_target_type = nl_target_type nl,
               lk_target_id = nl_target_id nl, lk_link_type = nl_link_type nl,
               lk_metadata = nl_metadata nl, lk_created_at = nl_created_at nl\<rparr>;
          ls' = ls\<lparr>ls_next_id := ls_next_id ls + 1\<rparr>
      in if sql_first (\<lambda>r. link_key r = link_key k) (ls_links ls) \<noteq> None then (Inl NotFound, ls', s)
         else (Inr k, ls'\<lparr>ls_links := ls_links ls @ [k]\<rparr>,
               log_change (nl_user_id nl) ''link'' (lk_id k) ''created'' (Some (link_change nl)) ''pipeline'' now s))"

definition delete_link :: "i32 \<Rightarrow> i32 \<Rightarrow> link_store \<Rightarrow> link_store" where
  "delete_link user_id link_id ls =
     ls\<lparr>ls_links := sql_delete (\<lambda>k. lk_id k = link_id \<and> lk_user_id k = user_id) (ls_links ls)\<rparr>"

definition get_links_for_entity :: "i32 \<Rightarrow> string \<Rightarrow> i32 \<Rightarrow> link_store \<Rightarrow> ont_link list" where
  "get_links_for_entity user_id entity_type entity_id ls =
     sql_select (\<lambda>k. lk_user_id k = user_id \<and> lk_source_type k = entity_type \<and> lk_source_id k = entity_id) (ls_links ls) @
     sql_select (\<lambda>k. lk_user_id k = user_id \<and> lk_target_type k = entity_type \<and> lk_target_id k = entity_id) (ls_links ls)"

definition linked_message_id :: "ont_link \<Rightarrow> i64 option" where
  "linked_message_id k =
     (if lk_source_type k = ''Message'' \<and> lk_target_type k = ''Event'' then Some (lk_source_id k)
      else if lk_source_type k = ''Event'' \<and> lk_target_type k = ''Message'' then Some (lk_target_id k)
      else None)"

definition get_messages_for_event :: "i32 \<Rightarrow> i32 \<Rightarrow> link_store \<Rightarrow> message_store \<Rightarrow> ont_message list" where
  "get_messages_for_event user_id event_id ls ms =
     (let ids = List.map_filter linked_message_id (get_links_for_entity user_id ''Event'' event_id ls)
      in sort_key (\<lambda>m. (om_created_at m, om_id m))
           (sql_select (\<lambda>m. om_user_id m = user_id \<and> om_id m \<in> set ids) (ms_messages ms)))"

end
