(* ===== verification/RuleEngine.thy ===== *)
theory RuleEngine
  imports RuleConfig Links
begin

text \<open>
  The evaluation of rules, \<^verbatim>\<open>proactive/rules.rs\<close>: what a condition shows the language model and how its
  answer is read, the walk down the flow tree, the action at its end, the guards around it
  (\<open>evaluate_and_execute\<close>), the tasks an ontology change starts (\<open>emit_ontology_change\<close>), and the walk
  of the test panel.

  The world is the ontology store, the messages, the links and a trace of what leaves the process: a
  question to the language model, a notification, a tool call. The language model, the notification
  service, the tool registry and the sources outside the database are parameters; a question is
  answered depending on everything asked and done before (the length of the trace), so two equal
  questions may get different answers. What a tool does to the tables is not part of this theory.
\<close>

section \<open>World and environment\<close>

record llm_request =
  lq_user_id :: i32
  lq_system :: string
  lq_user :: string
  lq_properties :: "(string \<times> json) list"    \<comment> \<open>the parameters of the tool \<^verbatim>\<open>rule_result\<close>\<close>

datatype rule_effect =
    LlmAsked llm_request
  | Notified i32 string string "notification_meta option"    \<comment> \<open>user, message, content type\<close>
  | ToolExecuted i32 string string                            \<comment> \<open>user, tool, parameters\<close>

record rules_world =
  rw_ont :: ont_store
  rw_messages :: message_store
  rw_links :: link_store
  rw_trace :: "rule_effect list"

text \<open>A tool call in an answer: the name and the arguments of the function.\<close>

type_synonym tool_call = "string option \<times> string option"

record tool_handler =
  th_properties :: "(string \<times> json) list option"
  th_auto_injected :: "string list"

record rules_env =
  re_parse :: "string \<Rightarrow> json option"
  re_print :: "json \<Rightarrow> string"
  re_unicode :: unicode
  re_now :: i32
  re_user_context :: "i32 \<Rightarrow> string + string option"      \<comment> \<open>an error or the local time\<close>
  re_chat :: "nat \<Rightarrow> llm_request \<Rightarrow> string + tool_call list option list"   \<comment> \<open>the choices\<close>
  re_tokens_since :: "i32 \<Rightarrow> i32 \<Rightarrow> db_error + i64"
  re_tools :: "string \<Rightarrow> tool_handler option"
  re_user :: "i32 \<Rightarrow> db_error + bool"                       \<comment> \<open>whether the user exists\<close>
  re_notify :: "i32 \<Rightarrow> string \<Rightarrow> string \<Rightarrow> notification_meta option \<Rightarrow> bool"
  re_user_location :: "i32 \<Rightarrow> string option"
  re_weather :: "i32 \<Rightarrow> string \<Rightarrow> string + string"
  re_internet :: "i32 \<Rightarrow> string \<Rightarrow> string + string"
  re_tesla :: "i32 \<Rightarrow> string"
  re_mcp :: "i32 \<Rightarrow> string \<Rightarrow> string \<Rightarrow> string"

definition add_effect :: "rule_effect \<Rightarrow> rules_world \<Rightarrow> rules_world" where
  "add_effect e w = w\<lparr>rw_trace := rw_trace w @ [e]\<rparr>"

definition ALWAYS_SHOW_LOGIC_TYPE :: string where "ALWAYS_SHOW_LOGIC_TYPE = ''always_show''"

definition is_always_show_rule :: "ont_rule \<Rightarrow> bool" where
  "is_always_show_rule r \<longleftrightarrow> or_logic_type r = ALWAYS_SHOW_LOGIC_TYPE"

text \<open>\<^verbatim>\<open>serde_json::from_str(&rule.trigger_config).unwrap_or_default()\<close>.\<close>

definition rule_trigger :: "rules_env \<Rightarrow> ont_rule \<Rightarrow> trigger_config" where
  "rule_trigger env r =
     (case Option.bind (re_parse env (or_trigger_config r)) trigger_of_json of
        None \<Rightarrow> default_trigger | Some c \<Rightarrow> c)"

section \<open>Prefetching\<close>

definition eol :: string where "eol = [CHR 0x0A]"
definition dquote :: string where "dquote = [CHR 0x22]"

definition deadline_tag :: "i32 \<Rightarrow> i32 option \<Rightarrow> string" where
  "deadline_tag now due =
     (case due of
        None \<Rightarrow> []
      | Some due_at \<Rightarrow>
          if due_at < now then '' [OVERDUE]''
          else
            let days_left = wrap_i32 (due_at - now) sdiv 86400
            in if days_left \<le> 2 then '' [due in '' @ show_int days_left @ '' days]'' else [])"

definition summarize_message :: "string \<Rightarrow> ont_message \<Rightarrow> string" where
  "summarize_message label m =
     eol @ ''  '' @ label @ '': ['' @ om_platform m @ '':'' @ om_sender_name m @ ''] '' @ take_chars 140 (om_content m)"

definition obligation_line :: "rules_env \<Rightarrow> rules_world \<Rightarrow> i32 \<Rightarrow> ont_event \<Rightarrow> string" where
  "obligation_line env w user_id e =
     (let linked = get_messages_for_event user_id (oe_id e) (rw_links w) (rw_messages w);
          origin = (if linked = [] then [] else summarize_message ''origin'' (hd linked));
          latest =
            (if linked = [] \<or> om_id (last linked) = om_id (hd linked) then []
             else summarize_message ''latest'' (last linked))
      in ''[event_id='' @ show_int (oe_id e) @ ''] [status='' @ oe_status e @ '']'' @
         deadline_tag (re_now env) (oe_due_at e) @ '' '' @ oe_description e @ origin @ latest)"

fun prefetch_source :: "rules_env \<Rightarrow> rules_world \<Rightarrow> i32 \<Rightarrow> fetch_source \<Rightarrow> string" where
  "prefetch_source env w user_id FetchEmail =
     (let msgs = get_recent_messages_filtered user_id (Some ''email'') (wrap_i32 (re_now env - 43200)) 20 (rw_messages w)
      in if msgs = [] then []
         else eol @ eol @ ''--- Recent emails ---'' @
              concat (map (\<lambda>m. eol @ ''From: '' @ om_sender_name m @ eol @ om_content m @ eol) msgs))"
| "prefetch_source env w user_id (FetchChat platform limit) =
     (if limit < 0 then []    \<comment> \<open>PostgreSQL refuses a negative \<^verbatim>\<open>LIMIT\<close>\<close>
      else
        let msgs = get_recent_messages_filtered user_id (if platform = ''all'' then None else Some platform)
              (wrap_i32 (re_now env - 43200)) (nat limit) (rw_messages w)
        in eol @ eol @ ''--- Recent chat messages ---'' @ eol @
           join_with eol (map (\<lambda>m. ''['' @ om_platform m @ ''] '' @ om_sender_name m @ '': '' @ om_content m) msgs))"
| "prefetch_source env w user_id (FetchWeather location) =
     (let loc = (if location \<noteq> [] then location
                 else case re_user_location env user_id of None \<Rightarrow> ''unknown'' | Some l \<Rightarrow> l)
      in (case re_weather env user_id loc of
            Inl _ \<Rightarrow> [] | Inr weather \<Rightarrow> eol @ eol @ ''--- Current weather ---'' @ eol @ weather))"
| "prefetch_source env w user_id (FetchInternet query) =
     (case re_internet env user_id query of
        Inl _ \<Rightarrow> [] | Inr answer \<Rightarrow> eol @ eol @ ''--- Internet search: '' @ query @ '' ---'' @ eol @ answer)"
| "prefetch_source env w user_id FetchTesla =
     (let status = re_tesla env user_id
      in if status = [] then [] else eol @ eol @ ''--- Tesla status ---'' @ eol @ status)"
| "prefetch_source env w user_id (FetchMcp server tool args) =
     (let answer = re_mcp env user_id (''mcp:'' @ server @ '':'' @ tool) (if args = [] then ''{}'' else args)
      in if answer = [] then [] else eol @ eol @ ''--- MCP '' @ server @ '':'' @ tool @ '' ---'' @ eol @ answer)"
| "prefetch_source env w user_id FetchEvents =
     (let events = get_active_events user_id (rw_ont w)
      in if events = [] then []
         else eol @ eol @ ''--- Tracked obligations ---'' @ eol @
              join_with eol (map (obligation_line env w user_id) events))"

definition prefetch_sources :: "rules_env \<Rightarrow> rules_world \<Rightarrow> i32 \<Rightarrow> fetch_source list \<Rightarrow> string" where
  "prefetch_sources env w user_id sources = concat (map (prefetch_source env w user_id) sources)"

section \<open>Conditions\<close>

record logic_result =
  lr_condition_met :: bool
  lr_message :: "string option"
  lr_extra :: "(string \<times> json) list"

text \<open>The members of an object that remain when a repeated key keeps its last value.\<close>

fun last_members :: "(string \<times> json) list \<Rightarrow> (string \<times> json) list" where
  "last_members [] = []"
| "last_members (m # ms) = (if fst m \<in> fst ` set ms then last_members ms else m # last_members ms)"

fun logic_result_of_json :: "json \<Rightarrow> logic_result option" where
  "logic_result_of_json (JObj ms) = do {
     met \<leftarrow> required_field as_bool ''condition_met'' ms;
     message \<leftarrow> optional_field as_str ''message'' ms;
     Some \<lparr>lr_condition_met = met, lr_message = message,
           lr_extra = last_members (filter (\<lambda>(k, _). k \<noteq> ''condition_met'' \<and> k \<noteq> ''message'') ms)\<rparr> }"
| "logic_result_of_json _ = None"

text \<open>The parameters the language model should fill for a tool call right below the condition.\<close>

definition extract_tool_params :: "rules_env \<Rightarrow> flow_node option \<Rightarrow> (string \<times> json) list option" where
  "extract_tool_params env branch =
     (case branch of
        Some (Action action_type config) \<Rightarrow>
          if action_type \<noteq> ''tool_call'' then None
          else do {
            tool \<leftarrow> get_str ''tool'' config;
            handler \<leftarrow> re_tools env tool;
            props \<leftarrow> th_properties handler;
            (let remaining = filter (\<lambda>(k, _). k \<notin> set (th_auto_injected handler)) props
             in if remaining = [] then None else Some remaining) }
      | _ \<Rightarrow> None)"

definition rule_system_prompt :: "string \<Rightarrow> string \<Rightarrow> string \<Rightarrow> bool \<Rightarrow> string" where
  "rule_system_prompt name prompt tz_info extra =
     ''You are evaluating whether an IF condition matches in a user-defined rule.'' @ eol @
     ''Rule: '' @ dquote @ name @ dquote @ eol @
     ''Instructions: '' @ prompt @ eol @
     tz_info @ eol @ eol @
     ''Call the `rule_result` tool with your decision. Set condition_met=true when this IF condition '' @
     ''matches and the true branch should run. Set condition_met=false when it does not match and the '' @
     ''false branch should run. Fill the `message` field only if the downstream action will actually use it.'' @
     (if extra then '' When condition_met=true, also fill in the additional tool parameter fields.'' else []) @ eol @
     ''Keep messages concise (max 480 chars), direct, second person. NEVER use emojis.''"

definition rule_result_properties :: "(string \<times> json) list" where
  "rule_result_properties =
     [(''condition_met'', JObj [(''type'', JStr ''boolean''),
        (''description'', JStr ''true if this IF condition matches and the true branch should run'')]),
      (''message'', JObj [(''type'', JStr ''string''),
        (''description'', JStr (''Optional user-facing text for the downstream action when relevant '' @
           ''(max 480 chars, second person). Leave minimal if the action is silent.''))])]"

definition rule_request ::
  "rules_env \<Rightarrow> ont_rule \<Rightarrow> string \<Rightarrow> string \<Rightarrow> string \<Rightarrow> (string \<times> json) list option \<Rightarrow> string option \<Rightarrow> llm_request" where
  "rule_request env rule ctx prompt prefetched extra now_text =
     \<lparr>lq_user_id = or_user_id rule,
      lq_system = rule_system_prompt (or_name rule) prompt
        (case now_text of None \<Rightarrow> [] | Some t \<Rightarrow> ''Current time: '' @ t) (extra \<noteq> None),
      lq_user = ''Trigger event:'' @ eol @ ctx @ eol @ prefetched,
      lq_properties =
        (case extra of
           None \<Rightarrow> rule_result_properties
         | Some ps \<Rightarrow> filter (\<lambda>(k, _). k \<notin> fst ` set ps) rule_result_properties @ ps)\<rparr>"

definition read_choice :: "rules_env \<Rightarrow> tool_call list option \<Rightarrow> string + logic_result" where
  "read_choice env calls =
     (case Option.bind calls (find (\<lambda>(name, _). name = Some ''rule_result'')) of
        None \<Rightarrow> Inr \<lparr>lr_condition_met = False, lr_message = None, lr_extra = []\<rparr>
      | Some (_, args) \<Rightarrow>
          (case Option.bind (re_parse env (case args of None \<Rightarrow> ''{}'' | Some a \<Rightarrow> a)) logic_result_of_json of
             None \<Rightarrow> Inl ''Failed to parse rule_result''
           | Some r \<Rightarrow> Inr r))"

definition call_llm_condition ::
  "rules_env \<Rightarrow> ont_rule \<Rightarrow> string \<Rightarrow> string \<Rightarrow> string \<Rightarrow> (string \<times> json) list option \<Rightarrow> rules_world
     \<Rightarrow> (string + logic_result) \<times> rules_world" where
  "call_llm_condition env rule ctx prompt prefetched extra w =
     (case re_user_context env (or_user_id rule) of
        Inl e \<Rightarrow> (Inl e, w)
      | Inr now_text \<Rightarrow>
          let q = rule_request env rule ctx prompt prefetched extra now_text;
              w' = add_effect (LlmAsked q) w
          in (case re_chat env (length (rw_trace w)) q of
                Inl e \<Rightarrow> (Inl (''LLM call failed: '' @ e), w')
              | Inr [] \<Rightarrow> (Inl ''No choices in LLM response'', w')
              | Inr (calls # _) \<Rightarrow> (read_choice env calls, w')))"

text \<open>The question of a node, asked by the rule and by the test panel alike.\<close>

definition ask_condition ::
  "rules_env \<Rightarrow> ont_rule \<Rightarrow> string \<Rightarrow> string \<Rightarrow> fetch_source list \<Rightarrow> flow_node option \<Rightarrow> rules_world
     \<Rightarrow> (string + logic_result) \<times> rules_world" where
  "ask_condition env rule ctx prompt fetch true_branch w =
     call_llm_condition env rule ctx (resolve_prompt_template prompt (or_trigger_type rule))
       (prefetch_sources env w (or_user_id rule) fetch) (extract_tool_params env true_branch) w"

definition keyword_matches :: "unicode \<Rightarrow> string \<Rightarrow> string \<Rightarrow> bool" where
  "keyword_matches u keyword ctx \<longleftrightarrow> keyword \<noteq> [] \<and> str_contains (to_lowercase u ctx) (to_lowercase u keyword)"

section \<open>Actions\<close>

datatype flow_end = FlowOk | FlowFailed string | FlowPanicked

definition set_member :: "string \<Rightarrow> json option \<Rightarrow> json \<Rightarrow> json option" where
  "set_member k v p = (case v of None \<Rightarrow> Some p | Some x \<Rightarrow> json_set k x p)"

definition email_reference :: "json \<Rightarrow> string option" where
  "email_reference snap =
     (case get_i64 ''message_id'' snap of Some i \<Rightarrow> Some (show_int i) | None \<Rightarrow> email_uid_of snap)"

text \<open>
  The parameters of a tool call: those of the action, overridden by what the language model filled in,
  overridden by what the triggering message determines. \<^const>\<open>None\<close> is the panic of \<^verbatim>\<open>p[key] = value\<close>
  when the action's parameters are no object.
\<close>

definition action_params ::
  "string \<Rightarrow> json \<Rightarrow> json option \<Rightarrow> (string \<times> json) list option \<Rightarrow> json option" where
  "action_params tool config snap extras =
     (let p0 = (case json_get ''params'' config of None \<Rightarrow> JObj [] | Some p \<Rightarrow> p);
          p1 = (case extras of None \<Rightarrow> p0 | Some ex \<Rightarrow> json_extend ex p0)
      in if tool = ''respond_to_email'' then
           (case snap of
              None \<Rightarrow> Some p1
            | Some s \<Rightarrow>
                Option.bind (set_member ''email_id'' (map_option JStr (email_reference s)) p1)
                  (set_member ''from'' (map_option JStr (get_str ''email_account'' s))))
         else if tool = ''create_event'' then
           (case snap of
              None \<Rightarrow> Some p1
            | Some s \<Rightarrow> set_member ''message_id'' (map_option JInt (get_i64 ''message_id'' s)) p1)
         else Some p1)"

definition mark_shown :: "i32 \<Rightarrow> json option \<Rightarrow> rules_world \<Rightarrow> rules_world" where
  "mark_shown now snap w =
     (case Option.bind snap (get_i64 ''message_id'') of
        None \<Rightarrow> w
      | Some i \<Rightarrow> w\<lparr>rw_messages := mark_digest_delivered [i] now (rw_messages w)\<rparr>)"

definition notify_action :: "rules_env \<Rightarrow> ont_rule \<Rightarrow> json option \<Rightarrow> json \<Rightarrow> string \<Rightarrow> rules_world \<Rightarrow> rules_world" where
  "notify_action env rule snap config message w =
     (let content_type = ''rule_'' @ (case get_str ''method'' config of None \<Rightarrow> ''sms'' | Some m \<Rightarrow> m);
          text_out = (case snap of None \<Rightarrow> message | Some s \<Rightarrow> compact_email_notification (re_unicode env) message s);
          meta = map_option notification_meta_from_snapshot snap;
          w' = add_effect (Notified (or_user_id rule) text_out content_type meta) w
      in if re_notify env (or_user_id rule) text_out content_type meta \<and> is_always_show_rule rule
         then mark_shown (re_now env) snap w' else w')"

definition tool_action ::
  "rules_env \<Rightarrow> ont_rule \<Rightarrow> json option \<Rightarrow> json \<Rightarrow> (string \<times> json) list option \<Rightarrow> rules_world \<Rightarrow> flow_end \<times> rules_world" where
  "tool_action env rule snap config extras w =
     (case get_str ''tool'' config of
        None \<Rightarrow> (FlowOk, w)
      | Some tool \<Rightarrow>
          if re_tools env tool = None then (FlowOk, w)
          else if re_user env (or_user_id rule) \<noteq> Inr True then (FlowOk, w)
          else
            (case action_params tool config snap extras of
               None \<Rightarrow> (FlowPanicked, w)
             | Some p \<Rightarrow> (FlowOk, add_effect (ToolExecuted (or_user_id rule) tool (re_print env p)) w)))"

definition execute_flow_action ::
  "rules_env \<Rightarrow> ont_rule \<Rightarrow> json option \<Rightarrow> string \<Rightarrow> json \<Rightarrow> string \<Rightarrow> (string \<times> json) list option \<Rightarrow> rules_world
     \<Rightarrow> flow_end \<times> rules_world" where
  "execute_flow_action env rule snap action_type config message extras w =
     (if action_type = ''notify'' then (FlowOk, notify_action env rule snap config message w)
      else if action_type = ''tool_call'' then tool_action env rule snap config extras w
      else (FlowOk, w))"

text \<open>The message of an action, in the order of priority of the code.\<close>

definition action_message :: "unicode \<Rightarrow> string option \<Rightarrow> json \<Rightarrow> json option \<Rightarrow> string \<Rightarrow> string" where
  "action_message u prev config snap ctx =
     (case prev of
        Some m \<Rightarrow> m
      | None \<Rightarrow>
          (case get_str ''message'' config of
             Some (c # cs) \<Rightarrow> c # cs
           | _ \<Rightarrow> (case snap of Some s \<Rightarrow> format_snapshot_message u s | None \<Rightarrow> ctx)))"

section \<open>The walk down the flow tree\<close>

definition or_else :: "'a option \<Rightarrow> 'a option \<Rightarrow> 'a option" where
  "or_else a b = (case a of None \<Rightarrow> b | Some _ \<Rightarrow> a)"

fun evaluate_flow ::
  "rules_env \<Rightarrow> ont_rule \<Rightarrow> string \<Rightarrow> json option \<Rightarrow> flow_node \<Rightarrow> string option \<Rightarrow> (string \<times> json) list option
     \<Rightarrow> rules_world \<Rightarrow> flow_end \<times> rules_world" where
  "evaluate_flow env rule ctx snap (LlmCondition prompt fetch t f) prev extras w =
     (if tc_group_mode (rule_trigger env rule) \<noteq> None then
        (case t of
           None \<Rightarrow> (FlowOk, w)
         | Some branch \<Rightarrow> evaluate_flow env rule ctx snap branch prev extras w)
      else
        (case ask_condition env rule ctx prompt fetch t w of
           (Inl e, w') \<Rightarrow> (FlowFailed e, w')
         | (Inr r, w') \<Rightarrow>
             if lr_condition_met r then
               (case t of
                  None \<Rightarrow> (FlowOk, w')
                | Some branch \<Rightarrow>
                    evaluate_flow env rule ctx snap branch (or_else (lr_message r) prev)
                      (if lr_extra r = [] then extras else Some (lr_extra r)) w')
             else
               (case f of
                  None \<Rightarrow> (FlowOk, w')
                | Some branch \<Rightarrow> evaluate_flow env rule ctx snap branch prev extras w')))"
| "evaluate_flow env rule ctx snap (KeywordCondition keyword t f) prev extras w =
     (if keyword_matches (re_unicode env) keyword ctx then
        (case t of
           None \<Rightarrow> (FlowOk, w)
         | Some branch \<Rightarrow> evaluate_flow env rule ctx snap branch prev extras w)
      else
        (case f of
           None \<Rightarrow> (FlowOk, w)
         | Some branch \<Rightarrow> evaluate_flow env rule ctx snap branch prev extras w))"
| "evaluate_flow env rule ctx snap (Action action_type config) prev extras w =
     execute_flow_action env rule snap action_type config
       (action_message (re_unicode env) prev config snap ctx) extras w"

section \<open>The guards around an evaluation\<close>

definition one_shot_rule :: "rules_env \<Rightarrow> ont_rule \<Rightarrow> bool" where
  "one_shot_rule env rule \<longleftrightarrow>
     tc_schedule (rule_trigger env rule) = Some ''once'' \<or> tc_fire_once (rule_trigger env rule)"

definition DAILY_TOKEN_BUDGET :: i64 where "DAILY_TOKEN_BUDGET = 166000"

definition over_budget :: "rules_env \<Rightarrow> ont_rule \<Rightarrow> bool" where
  "over_budget env rule \<longleftrightarrow>
     (let day_start = wrap_i32 ((re_now env sdiv 86400) * 86400);
          used_today = (case re_tokens_since env (or_user_id rule) day_start of Inl _ \<Rightarrow> 0 | Inr n \<Rightarrow> n)
      in \<not> is_always_show_rule rule \<and> DAILY_TOKEN_BUDGET \<le> used_today)"

definition map_ont :: "(ont_store \<Rightarrow> ont_store) \<Rightarrow> rules_world \<Rightarrow> rules_world" where
  "map_ont f w = w\<lparr>rw_ont := f (rw_ont w)\<rparr>"

definition run_flow :: "rules_env \<Rightarrow> ont_rule \<Rightarrow> string \<Rightarrow> json option \<Rightarrow> rules_world \<Rightarrow> flow_end \<times> rules_world" where
  "run_flow env rule ctx snap w =
     (case or_flow_config rule of
        None \<Rightarrow> (FlowOk, w)
      | Some src \<Rightarrow>
          (case Option.bind (re_parse env src) flow_of_json of
             None \<Rightarrow> (FlowFailed ''invalid flow_config JSON'', w)
           | Some root \<Rightarrow> evaluate_flow env rule ctx snap root None None w))"

definition evaluate_and_execute :: "rules_env \<Rightarrow> ont_rule \<Rightarrow> string \<Rightarrow> json option \<Rightarrow> rules_world \<Rightarrow> rules_world" where
  "evaluate_and_execute env rule ctx snap w =
     (let now = re_now env;
          (go, w1) = (if one_shot_rule env rule
                      then (case try_claim_rule (or_id rule) now (rw_ont w) of (granted, s) \<Rightarrow> (granted, w\<lparr>rw_ont := s\<rparr>))
                      else (True, w))
      in if \<not> go then w1
         else if (case or_expires_at rule of None \<Rightarrow> False | Some e \<Rightarrow> e < now)
         then map_ont (update_rule_status (or_id rule) ''expired'' now) w1
         else if over_budget env rule then w1
         else snd (run_flow env rule ctx snap (map_ont (update_rule_last_triggered (or_id rule) now) w1)))"

end
