(* ===== verification/RuleSchedule.thy ===== *)
theory RuleSchedule
  imports RuleEngine
begin

text \<open>
  Rules that fire on a schedule: the next time of a recurring pattern (\<^verbatim>\<open>compute_next_fire_at\<close> of
  \<^verbatim>\<open>proactive/rules.rs\<close>), the reading of a point in time (\<^verbatim>\<open>parse_iso_to_timestamp\<close> of
  \<^verbatim>\<open>proactive/utils.rs\<close>) and the job of \<^verbatim>\<open>jobs/scheduler.rs\<close> that looks for due rules every minute.

  A local time is a number of seconds since 1970-01-01 00:00 on the local clock, its date the quotient
  by a day; day 0 was a Thursday. A time zone of \<^verbatim>\<open>chrono_tz\<close> is a parameter: the local time of an
  instant, and the earliest instant of a local time, which does not exist in the gap of a change to
  summer time.
\<close>

record time_zone =
  tz_local :: "int \<Rightarrow> int"
  tz_earliest :: "int \<Rightarrow> int option"

definition utc_zone :: time_zone where
  "utc_zone = \<lparr>tz_local = (\<lambda>t. t), tz_earliest = Some\<rparr>"

record rule_clock =
  rc_zone :: "string \<Rightarrow> time_zone option"                 \<comment> \<open>the zone of a name\<close>
  rc_user_timezone :: "i32 \<Rightarrow> string option option"       \<comment> \<open>no info, or its time zone\<close>
  rc_rfc3339 :: "string \<Rightarrow> int option"                    \<comment> \<open>the parsers of \<^verbatim>\<open>chrono\<close>\<close>
  rc_naive_seconds :: "string \<Rightarrow> int option"              \<comment> \<open>\<^verbatim>\<open>%Y-%m-%dT%H:%M:%S\<close>, as local seconds\<close>
  rc_naive_minutes :: "string \<Rightarrow> int option"              \<comment> \<open>\<^verbatim>\<open>%Y-%m-%dT%H:%M\<close>\<close>
  rc_date :: "string \<Rightarrow> int option"                       \<comment> \<open>\<^verbatim>\<open>%Y-%m-%d\<close>, as a day number\<close>
  rc_fired_at :: string                                   \<comment> \<open>the time in RFC 3339 format\<close>

section \<open>Recurring patterns\<close>

definition weekday :: "int \<Rightarrow> nat" where        \<comment> \<open>\<^verbatim>\<open>num_days_from_monday\<close>\<close>
  "weekday day = nat ((day + 3) mod 7)"

definition and_hms :: "int \<Rightarrow> nat \<Rightarrow> nat \<Rightarrow> int option" where
  "and_hms day hour minute =
     (if hour < 24 \<and> minute < 60 then Some (day * 86400 + int hour * 3600 + int minute * 60) else None)"

definition parse_hhmm :: "string \<Rightarrow> (nat \<times> nat) option" where
  "parse_hhmm s =
     (case str_split (\<lambda>c. c = '':'') s of
        h # m # _ \<Rightarrow> do { hour \<leftarrow> parse_u32 h; minute \<leftarrow> parse_u32 m; Some (hour, minute) }
      | _ \<Rightarrow> None)"

definition day_of_name :: "string \<Rightarrow> nat option" where
  "day_of_name name =
     map_of [(''monday'', 0), (''mon'', 0), (''tuesday'', 1), (''tue'', 1), (''wednesday'', 2), (''wed'', 2),
       (''thursday'', 3), (''thu'', 3), (''friday'', 4), (''fri'', 4), (''saturday'', 5), (''sat'', 5),
       (''sunday'', 6), (''sun'', 6)] name"

definition instant :: "time_zone \<Rightarrow> int \<Rightarrow> i32 option" where
  "instant tz t = map_option wrap_i32 (tz_earliest tz t)"

text \<open>The loops over the following days: \<^verbatim>\<open>for _ in 0..7\<close> and \<^verbatim>\<open>for _ in 0..8\<close>.\<close>

fun next_weekday_fire :: "nat \<Rightarrow> time_zone \<Rightarrow> int \<Rightarrow> nat \<Rightarrow> nat \<Rightarrow> i32 option" where
  "next_weekday_fire 0 tz candidate hour minute = None"
| "next_weekday_fire (Suc n) tz candidate hour minute =
     (if weekday (candidate + 1) < 5
      then Option.bind (and_hms (candidate + 1) hour minute) (instant tz)
      else next_weekday_fire n tz (candidate + 1) hour minute)"

fun weekly_fire :: "nat \<Rightarrow> time_zone \<Rightarrow> int \<Rightarrow> int \<Rightarrow> nat \<Rightarrow> nat \<Rightarrow> nat \<Rightarrow> i32 option" where
  "weekly_fire 0 tz local candidate target hour minute = None"
| "weekly_fire (Suc n) tz local candidate target hour minute =
     (if weekday candidate = target then
        (case and_hms candidate hour minute of
           None \<Rightarrow> None
         | Some t \<Rightarrow>
             if local < t then instant tz t
             else weekly_fire n tz local (candidate + 1) target hour minute)
      else weekly_fire n tz local (candidate + 1) target hour minute)"

definition daily_fire :: "time_zone \<Rightarrow> int \<Rightarrow> nat \<Rightarrow> nat \<Rightarrow> i32 option" where
  "daily_fire tz local hour minute = do {
     today \<leftarrow> and_hms (local div 86400) hour minute;
     t \<leftarrow> (if local < today then Some today else and_hms (local div 86400 + 1) hour minute);
     instant tz t }"

definition weekdays_fire :: "time_zone \<Rightarrow> int \<Rightarrow> nat \<Rightarrow> nat \<Rightarrow> i32 option" where
  "weekdays_fire tz local hour minute =
     (case and_hms (local div 86400) hour minute of
        Some today \<Rightarrow>
          if local < today \<and> weekday (local div 86400) < 5 then instant tz today
          else next_weekday_fire 7 tz (local div 86400) hour minute
      | None \<Rightarrow> next_weekday_fire 7 tz (local div 86400) hour minute)"

definition compute_next_fire_at :: "unicode \<Rightarrow> rule_clock \<Rightarrow> i32 \<Rightarrow> string \<Rightarrow> string \<Rightarrow> i32 option" where
  "compute_next_fire_at u clock now pattern user_tz =
     (let tz = (case rc_zone clock user_tz of None \<Rightarrow> utc_zone | Some z \<Rightarrow> z);
          local = tz_local tz now;
          (frequency, rest) = (case split_once '' '' pattern of None \<Rightarrow> (pattern, None) | Some (a, b) \<Rightarrow> (a, Some b))
      in if frequency = ''hourly'' then Some (wrap_i32 (now + 3600))
         else if frequency = ''daily'' then do {
           hhmm \<leftarrow> rest;
           (hour, minute) \<leftarrow> parse_hhmm hhmm;
           daily_fire tz local hour minute }
         else if frequency = ''weekdays'' then do {
           hhmm \<leftarrow> rest;
           (hour, minute) \<leftarrow> parse_hhmm hhmm;
           weekdays_fire tz local hour minute }
         else if frequency = ''weekly'' then do {
           day_and_time \<leftarrow> rest;
           (day_name, hhmm) \<leftarrow> split_once '' '' day_and_time;
           (hour, minute) \<leftarrow> parse_hhmm hhmm;
           target \<leftarrow> day_of_name (to_lowercase u day_name);
           weekly_fire 8 tz local (local div 86400) target hour minute }
         else None)"

section \<open>A point in time\<close>

text \<open>\<^verbatim>\<open>&s[..16]\<close> and \<^verbatim>\<open>&s[16..]\<close>: \<^const>\<open>None\<close> is the panic outside the text or inside a character.\<close>

definition split_at_byte :: "nat \<Rightarrow> string \<Rightarrow> (string \<times> string) option" where
  "split_at_byte n s =
     (if length s < n \<or> (n < length s \<and> is_continuation (s ! n)) then None else Some (take n s, drop n s))"

definition naive_timestamp :: "i32 \<Rightarrow> int \<Rightarrow> i32" where
  "naive_timestamp tz_offset_secs t = wrap_i32 (wrap_i32 t - tz_offset_secs)"

definition naive_time :: "rule_clock \<Rightarrow> i32 \<Rightarrow> string \<Rightarrow> i32 option" where
  "naive_time clock tz_offset_secs s =
     (case rc_naive_seconds clock s of
        Some t \<Rightarrow> Some (naive_timestamp tz_offset_secs t)
      | None \<Rightarrow> map_option (naive_timestamp tz_offset_secs) (rc_naive_minutes clock s))"

definition local_noon :: "rule_clock \<Rightarrow> i32 \<Rightarrow> string \<Rightarrow> i32 option" where
  "local_noon clock tz_offset_secs s =
     map_option (\<lambda>d. naive_timestamp tz_offset_secs (d * 86400 + 43200)) (rc_date clock s)"

text \<open>The outer \<^const>\<open>None\<close> is a panic.\<close>

definition parse_iso_to_timestamp :: "rule_clock \<Rightarrow> string \<Rightarrow> i32 \<Rightarrow> i32 option option" where
  "parse_iso_to_timestamp clock raw tz_offset_secs =
     (let s = trim raw in
      case rc_rfc3339 clock s of
        Some t \<Rightarrow> Some (Some (wrap_i32 t))
      | None \<Rightarrow>
          if CHR ''T'' \<in> set s \<and> \<not> suffix ''Z'' s then
            (if CHR ''+'' \<in> set s \<or> 2 < length (filter (\<lambda>c. c = CHR ''-'') s) then
               (case split_at_byte 16 s of
                  None \<Rightarrow> None
                | Some (a, b) \<Rightarrow>
                    (case rc_rfc3339 clock (a @ '':00'' @ b) of
                       Some t \<Rightarrow> Some (Some (wrap_i32 t))
                     | None \<Rightarrow>
                         Some (or_else (naive_time clock tz_offset_secs s) (local_noon clock tz_offset_secs s))))
             else Some (or_else (naive_time clock tz_offset_secs s) (local_noon clock tz_offset_secs s)))
          else Some (local_noon clock tz_offset_secs s))"

definition user_tz_offset_secs :: "rule_clock \<Rightarrow> i32 \<Rightarrow> i32 \<Rightarrow> i32" where
  "user_tz_offset_secs clock now user_id =
     (case rc_user_timezone clock user_id of
        None \<Rightarrow> 0
      | Some name \<Rightarrow>
          (case rc_zone clock (case name of None \<Rightarrow> ''UTC'' | Some n \<Rightarrow> n) of
             None \<Rightarrow> 0 | Some z \<Rightarrow> tz_local z now - now))"

definition user_zone_name :: "rule_clock \<Rightarrow> i32 \<Rightarrow> string" where
  "user_zone_name clock user_id =
     (case rc_user_timezone clock user_id of Some (Some n) \<Rightarrow> n | _ \<Rightarrow> ''UTC'')"

section \<open>The job\<close>

definition recurring_next :: "rules_env \<Rightarrow> rule_clock \<Rightarrow> ont_rule \<Rightarrow> i32 option" where
  "recurring_next env clock rule =
     (let c = rule_trigger env rule
      in if tc_schedule c = Some ''recurring'' then
           Option.bind (tc_pattern c)
             (\<lambda>p. compute_next_fire_at (re_unicode env) clock (re_now env) p (user_zone_name clock (or_user_id rule)))
         else None)"

definition reschedule_rule :: "rules_env \<Rightarrow> rule_clock \<Rightarrow> ont_rule \<Rightarrow> ont_store \<Rightarrow> ont_store" where
  "reschedule_rule env clock rule s =
     (let s1 = (case recurring_next env clock rule of
                  None \<Rightarrow> s | Some next_at \<Rightarrow> update_rule_next_fire_at (or_id rule) next_at (re_now env) s)
      in if one_shot_rule env rule then update_rule_next_fire_at (or_id rule) 2147483647 (re_now env) s1 else s1)"

text \<open>A pass of the job: the store it leaves and the rules whose evaluation it has spawned.\<close>

definition schedule_pass :: "rules_env \<Rightarrow> rule_clock \<Rightarrow> ont_store \<Rightarrow> ont_rule list \<times> ont_store" where
  "schedule_pass env clock s =
     (let due_rules = get_due_schedule_rules (re_now env) s
      in (due_rules,
          snd (expire_old_rules (re_now env) (fold (reschedule_rule env clock) due_rules s))))"

definition schedule_context :: "rule_clock \<Rightarrow> string" where
  "schedule_context clock = ''Schedule trigger fired at '' @ rc_fired_at clock"

text \<open>A pass whose spawned evaluations run after it, one after another.\<close>

definition rule_schedule_job :: "rules_env \<Rightarrow> rule_clock \<Rightarrow> rules_world \<Rightarrow> rules_world" where
  "rule_schedule_job env clock w =
     (case schedule_pass env clock (rw_ont w) of
        (due_rules, s) \<Rightarrow>
          fold (\<lambda>r. evaluate_and_execute env r (schedule_context clock) None) due_rules (w\<lparr>rw_ont := s\<rparr>))"

end
