(* ===== verification/RuleEvents.thy ===== *)
theory RuleEvents
  imports RuleEngine
begin

text \<open>
  What an ontology change starts (\<^verbatim>\<open>emit_ontology_change\<close> and the seen-check of \<^verbatim>\<open>rules.rs\<close>), and the
  walk of the test panel (\<^verbatim>\<open>evaluate_flow_test\<close>).

  The tasks that \<^verbatim>\<open>tokio::spawn\<close> starts are values: what is to be done and after which delay. Running
  the task of a rule (\<open>run_rule_task\<close>) is a step of the world at the time of its environment.
\<close>

section \<open>Has the user seen the message?\<close>

record message_ref =
  mr_platform :: string
  mr_room_id :: string
  mr_message_id :: "i64 option"
  mr_created_at :: i32
  mr_imap_connection_id :: "i32 option"

text \<open>
  \<^verbatim>\<open>as i32\<close> on an \<^verbatim>\<open>i64\<close> wraps. The IMAP server is a parameter: whether the mail of a connection
  with a uid carries the flag \<^verbatim>\<open>Seen\<close> (false when the connection is not an active one of the user).
\<close>

definition message_ref_of :: "i32 \<Rightarrow> json \<Rightarrow> message_ref" where
  "message_ref_of now snap =
     \<lparr>mr_platform = str_or_empty ''platform'' snap, mr_room_id = str_or_empty ''room_id'' snap,
      mr_message_id = get_i64 ''message_id'' snap,
      mr_created_at = (case get_i64 ''created_at'' snap of None \<Rightarrow> now | Some t \<Rightarrow> wrap_i32 t),
      mr_imap_connection_id = map_option wrap_i32 (get_i64 ''imap_connection_id'' snap)\<rparr>"

type_synonym imap_seen = "i32 \<Rightarrow> i32 \<Rightarrow> string \<Rightarrow> bool"      \<comment> \<open>user, connection, uid\<close>

definition check_email_seen :: "imap_seen \<Rightarrow> i32 \<Rightarrow> string \<Rightarrow> i32 option \<Rightarrow> bool" where
  "check_email_seen imap user_id uid connection =
     (case connection of None \<Rightarrow> False | Some c \<Rightarrow> imap user_id c uid)"

definition check_message_seen ::
  "imap_seen \<Rightarrow> i32 \<Rightarrow> message_ref \<Rightarrow> i32 \<Rightarrow> rules_world \<Rightarrow> bool \<times> rules_world" where
  "check_message_seen imap user_id m now w =
     (if (case mr_message_id m of None \<Rightarrow> False | Some i \<Rightarrow> is_message_seen_by_id user_id i (rw_messages w))
      then (True, w)
      else
        let identity = parse_email_room_id (mr_room_id m);
            seen =
              (if mr_platform m = ''email'' then
                 check_email_seen imap user_id (case identity of None \<Rightarrow> mr_room_id m | Some (_, uid) \<Rightarrow> uid)
                   (or_else (mr_imap_connection_id m) (Option.bind identity fst))
               else is_message_seen user_id (mr_room_id m) (mr_created_at m) (rw_messages w))
        in (seen,
            if seen
            then w\<lparr>rw_messages := snd (mark_messages_seen_in_room user_id (mr_room_id m) now now (rw_messages w))\<rparr>
            else w))"

section \<open>An ontology change\<close>

datatype change_task =
    CommitmentDetection json
  | UrgencyClassification message_ref json i64      \<comment> \<open>after that many seconds, unless seen\<close>
  | EvaluateRule ont_rule string json "(message_ref \<times> i64) option"
      \<comment> \<open>at once, or after a delay and unless the message is seen by then\<close>

definition message_event :: "string \<Rightarrow> bool" where "message_event entity_type \<longleftrightarrow> entity_type = ''Message''"

definition DEFAULT_RULE_DELAY :: i32 where "DEFAULT_RULE_DELAY = 600"

definition rule_task :: "rules_env \<Rightarrow> string \<Rightarrow> string \<Rightarrow> json \<Rightarrow> ont_rule \<Rightarrow> change_task" where
  "rule_task env entity_type ctx snap rule =
     (let delay = (case tc_delay_seconds (rule_trigger env rule) of None \<Rightarrow> DEFAULT_RULE_DELAY | Some d \<Rightarrow> d)
      in EvaluateRule rule ctx snap
           (if message_event entity_type \<and> \<not> is_always_show_rule rule
            then Some (message_ref_of (re_now env) snap, if 0 < delay then delay else 0) else None))"

definition change_context :: "rules_env \<Rightarrow> string \<Rightarrow> string \<Rightarrow> i32 \<Rightarrow> json \<Rightarrow> string" where
  "change_context env entity_type change_type entity_id snap =
     entity_type @ '' '' @ change_type @ '' (id='' @ show_int entity_id @ ''): '' @ re_print env snap"

definition emit_ontology_change ::
  "rules_env \<Rightarrow> i32 \<Rightarrow> string \<Rightarrow> i32 \<Rightarrow> string \<Rightarrow> json \<Rightarrow> ont_store \<Rightarrow> change_task list" where
  "emit_ontology_change env user_id entity_type entity_id change_type snap s =
     (if message_event entity_type \<and> get_str ''status'' snap = Some ''completed'' then []
      else
        let matching = filter (\<lambda>r. matches_trigger (re_parse env) (re_unicode env) r entity_type change_type snap)
              (get_ontology_change_rules user_id s);
            bypasses = (message_event entity_type \<and> list_ex is_always_show_rule matching);
            single = (message_event entity_type \<and> \<not> flag_set ''is_group'' snap)
        in (if single then [CommitmentDetection snap] else []) @
           (if single \<and> \<not> bypasses then [UrgencyClassification (message_ref_of (re_now env) snap) snap 300] else []) @
           map (rule_task env entity_type (change_context env entity_type change_type entity_id snap) snap) matching)"

fun run_rule_task :: "rules_env \<Rightarrow> imap_seen \<Rightarrow> change_task \<Rightarrow> rules_world \<Rightarrow> rules_world" where
  "run_rule_task env imap (EvaluateRule rule ctx snap check) w =
     (case check of
        None \<Rightarrow> evaluate_and_execute env rule ctx (Some snap) w
      | Some (m, _) \<Rightarrow>
          (case check_message_seen imap (or_user_id rule) m (re_now env) w of
             (True, w') \<Rightarrow> w'
           | (False, w') \<Rightarrow> evaluate_and_execute env rule ctx (Some snap) w'))"
| "run_rule_task env imap _ w = w"     \<comment> \<open>the system behaviours are not part of this theory\<close>

section \<open>The test panel\<close>

datatype rule_test_step =
    Prefetching "string list"
  | EvaluatingLlm string
  | LlmResult bool "string option"
  | CheckingKeyword string
  | KeywordResult bool
  | WouldExecute string string
  | NoAction string
  | TestError string
  | Complete

fun source_name :: "fetch_source \<Rightarrow> string" where
  "source_name FetchEmail = ''email''"
| "source_name (FetchChat platform _) = ''chat ('' @ platform @ '')''"
| "source_name (FetchWeather _) = ''weather''"
| "source_name (FetchInternet query) = ''internet: '' @ query"
| "source_name FetchTesla = ''tesla''"
| "source_name (FetchMcp server tool _) = ''mcp '' @ server @ '':'' @ tool"
| "source_name FetchEvents = ''tracked obligations''"

definition action_description :: "string \<Rightarrow> json \<Rightarrow> string" where
  "action_description action_type config =
     (if action_type = ''notify'' then
        ''send '' @ (case get_str ''method'' config of None \<Rightarrow> ''sms'' | Some m \<Rightarrow> m) @ '' notification''
      else if action_type = ''tool_call'' then
        ''call tool '' @ [CHR 0x27] @ (case get_str ''tool'' config of None \<Rightarrow> ''unknown'' | Some t \<Rightarrow> t) @ [CHR 0x27]
      else ''execute '' @ [CHR 0x27] @ action_type @ [CHR 0x27] @ '' action'')"

fun evaluate_flow_test ::
  "rules_env \<Rightarrow> ont_rule \<Rightarrow> string \<Rightarrow> flow_node \<Rightarrow> rules_world \<Rightarrow> rule_test_step list \<times> rules_world" where
  "evaluate_flow_test env rule ctx (LlmCondition prompt fetch t f) w =
     (let begun =
            (if fetch = [] then [] else [Prefetching (map source_name fetch)]) @
            [EvaluatingLlm (ellipsis_at 120 (resolve_prompt_template prompt (or_trigger_type rule)))]
      in (case ask_condition env rule ctx prompt fetch t w of
            (Inl e, w') \<Rightarrow> (begun @ [TestError (''LLM error: '' @ e)], w')
          | (Inr r, w') \<Rightarrow>
              let decided = lr_condition_met r;
                  said = begun @ [LlmResult decided (lr_message r)]
              in if decided then
                   (case t of
                      None \<Rightarrow> (said @ [NoAction ''Condition was true but no action configured''], w')
                    | Some branch \<Rightarrow>
                        (case evaluate_flow_test env rule ctx branch w' of (steps, w'') \<Rightarrow> (said @ steps, w'')))
                 else
                   (case f of
                      None \<Rightarrow> (said @ [NoAction ''Condition was false and no else branch''], w')
                    | Some branch \<Rightarrow>
                        (case evaluate_flow_test env rule ctx branch w' of (steps, w'') \<Rightarrow> (said @ steps, w'')))))"
| "evaluate_flow_test env rule ctx (KeywordCondition keyword t f) w =
     (let matched = keyword_matches (re_unicode env) keyword ctx;
          said = [CheckingKeyword keyword, KeywordResult matched]
      in if matched then
           (case t of
              None \<Rightarrow> (said @ [NoAction ''Keyword matched but no action configured''], w)
            | Some branch \<Rightarrow> (case evaluate_flow_test env rule ctx branch w of (steps, w') \<Rightarrow> (said @ steps, w')))
         else
           (case f of
              None \<Rightarrow> (said @ [NoAction ''Keyword did not match and no else branch''], w)
            | Some branch \<Rightarrow> (case evaluate_flow_test env rule ctx branch w of (steps, w') \<Rightarrow> (said @ steps, w'))))"
| "evaluate_flow_test env rule ctx (Action action_type config) w =
     ([WouldExecute action_type (action_description action_type config)], w)"

end
