(* ===== verification/RuleHandlers.thy ===== *)
theory RuleHandlers
  imports RuleSchedule RuleEvents "HOL-Library.List_Lexorder" "HOL-Library.Char_ord"
begin

text \<open>
  The HTTP handlers of \<^verbatim>\<open>handlers/rule_handlers.rs\<close>: the always-show list, the rules a user writes, and
  the test panel.

  The authenticated user is an argument. The contact cache, the user rows and the billing of a test
  are fields of the request environment. \<^verbatim>\<open>Value::to_string\<close> prints a map in the order of its keys:
  \<open>canonical\<close> is the value such a text stands for.
\<close>

primrec canonical :: "json \<Rightarrow> json" where
  "canonical JNull = JNull"
| "canonical (JBool b) = JBool b"
| "canonical (JInt i) = JInt i"
| "canonical (JFloat s) = JFloat s"
| "canonical (JStr s) = JStr s"
| "canonical (JArr vs) = JArr (map canonical vs)"
| "canonical (JObj ms) = JObj (sort_key fst (map (map_prod id canonical) ms))"

definition prints_back :: "rules_env \<Rightarrow> json \<Rightarrow> bool" where
  "prints_back env v \<longleftrightarrow> re_parse env (re_print env v) = Some (canonical v)"

section \<open>The always-show list\<close>

record contact =
  ct_id :: string
  ct_display_name :: string
  ct_subtitle :: "string option"
  ct_platform :: "string option"
  ct_room_id :: "string option"
  ct_chat_id :: "string option"
  ct_person_id :: "i32 option"
  ct_is_group :: bool
  ct_source :: string

datatype always_show_request =
    ShowPlatform string "string option"     \<comment> \<open>contact id, group mode\<close>
  | ShowEmail string

record show_entry =
  as_id :: i32
  as_platform :: string
  as_display_name :: string
  as_subtitle :: string

record always_show_input =
  ai_user_id :: i32
  ai_platform :: string
  ai_display_name :: string
  ai_identity :: string
  ai_room_id :: "string option"
  ai_person_id :: "i32 option"
  ai_sender_key :: "string option"
  ai_is_group :: "bool option"
  ai_group_mode :: "string option"
  ai_now :: i32

definition always_show_config :: "rules_env \<Rightarrow> ont_rule \<Rightarrow> json option" where
  "always_show_config env r = (if is_always_show_rule r then re_parse env (or_trigger_config r) else None)"

definition always_show_metadata :: "rules_env \<Rightarrow> ont_rule \<Rightarrow> (string \<times> string \<times> string) option" where
  "always_show_metadata env r = do {
     config \<leftarrow> always_show_config env r;
     platform \<leftarrow> get_str ''always_show_platform'' config;
     display_name \<leftarrow> get_str ''always_show_display_name'' config;
     identity \<leftarrow> get_str ''always_show_identity'' config;
     Some (platform, display_name, identity) }"

text \<open>The middle dot of the subtitle, in UTF-8.\<close>

definition middle_dot :: string where "middle_dot = [CHR 0xC2, CHR 0xB7]"

definition always_show_entry :: "rules_env \<Rightarrow> ont_rule \<Rightarrow> show_entry option" where
  "always_show_entry env r = do {
     (platform, display_name, _) \<leftarrow> always_show_metadata env r;
     config \<leftarrow> always_show_config env r;
     (let subtitle =
        (if platform = ''email'' then ''Email address''
         else if get_bool ''always_show_is_group'' config = Some True \<and>
                 get_str ''group_mode'' config = Some ''mention_only''
         then ''Mentions only '' @ middle_dot @ '' '' @ platform
         else ''Always shown from '' @ platform)
      in Some \<lparr>as_id = or_id r, as_platform = platform, as_display_name = display_name, as_subtitle = subtitle\<rparr>) }"

definition optional_member :: "string \<Rightarrow> ('a \<Rightarrow> json) \<Rightarrow> 'a option \<Rightarrow> (string \<times> json) list" where
  "optional_member k to_json v = (case v of None \<Rightarrow> [] | Some x \<Rightarrow> [(k, to_json x)])"

definition always_show_trigger :: "always_show_input \<Rightarrow> json" where
  "always_show_trigger i = JObj
     ([(''entity_type'', JStr ''Message''), (''change'', JStr ''created''),
       (''filters'', JObj [(''sender'', JStr (ai_display_name i)), (''platform'', JStr (ai_platform i))]),
       (''delay_seconds'', JInt 0), (''incoming_only'', JBool True),
       (''always_show_platform'', JStr (ai_platform i)),
       (''always_show_display_name'', JStr (ai_display_name i)),
       (''always_show_identity'', JStr (ai_identity i))] @
      optional_member ''resolved_room_id'' JStr (ai_room_id i) @
      optional_member ''resolved_person_id'' JInt (ai_person_id i) @
      optional_member ''resolved_sender_key'' JStr (ai_sender_key i) @
      optional_member ''always_show_is_group'' JBool (ai_is_group i) @
      optional_member ''group_mode'' JStr (ai_group_mode i))"

definition notify_config :: json where "notify_config = JObj [(''method'', JStr ''sms'')]"

definition notify_flow :: json where
  "notify_flow = JObj [(''type'', JStr ''action''), (''action_type'', JStr ''notify''), (''config'', notify_config)]"

definition build_always_show_rule :: "rules_env \<Rightarrow> always_show_input \<Rightarrow> new_ont_rule" where
  "build_always_show_rule env i =
     \<lparr>nr_user_id = ai_user_id i, nr_name = ''Always show: '' @ ai_display_name i,
      nr_trigger_type = ''ontology_change'', nr_trigger_config = re_print env (always_show_trigger i),
      nr_logic_type = ALWAYS_SHOW_LOGIC_TYPE, nr_logic_prompt = None, nr_logic_fetch = None,
      nr_action_type = ''notify'', nr_action_config = re_print env notify_config,
      nr_status = ''active'', nr_next_fire_at = None, nr_expires_at = None,
      nr_rule_created_at = ai_now i, nr_rule_updated_at = ai_now i,
      nr_flow_config = Some (re_print env notify_flow)\<rparr>"

definition platform_supports_authoritative_mentions :: "string \<Rightarrow> bool" where
  "platform_supports_authoritative_mentions platform \<longleftrightarrow> platform = ''whatsapp''"

text \<open>The group mode of a platform entry, and why a request is refused.\<close>

definition entry_group_mode :: "contact \<Rightarrow> string \<Rightarrow> string option \<Rightarrow> string + string option" where
  "entry_group_mode ct platform requested =
     (if ct_is_group ct then
        let mode = (case requested of None \<Rightarrow> ''all'' | Some m \<Rightarrow> m)
        in if mode \<noteq> ''all'' \<and> mode \<noteq> ''mention_only'' then Inl ''Choose all messages or mentions only''
           else if mode = ''mention_only'' \<and> \<not> platform_supports_authoritative_mentions platform
           then Inl ''Mentions-only is not reliably available for this platform''
           else Inr (Some mode)
      else if requested \<noteq> None then Inl ''Delivery mode is only available for group chats''
      else Inr None)"

definition platform_input :: "i32 \<Rightarrow> contact \<Rightarrow> string option \<Rightarrow> i32 \<Rightarrow> string + always_show_input" where
  "platform_input user_id ct requested now =
     (case ct_platform ct of
        None \<Rightarrow> Inl ''Contact has no platform''
      | Some platform \<Rightarrow>
          if platform = ''email'' then Inl ''Use the email entry form for email addresses''
          else
            try_in (entry_group_mode ct platform requested) (\<lambda>mode.
              Inr \<lparr>ai_user_id = user_id, ai_platform = platform, ai_display_name = trim (ct_display_name ct),
                   ai_identity = ct_id ct, ai_room_id = ct_room_id ct, ai_person_id = ct_person_id ct,
                   ai_sender_key = None, ai_is_group = Some (ct_is_group ct), ai_group_mode = mode,
                   ai_now = now\<rparr>))"

definition build_platform_always_show_rule_with_mode ::
  "rules_env \<Rightarrow> i32 \<Rightarrow> contact \<Rightarrow> string option \<Rightarrow> i32 \<Rightarrow> string + new_ont_rule" where
  "build_platform_always_show_rule_with_mode env user_id ct requested now =
     map_sum id (build_always_show_rule env) (platform_input user_id ct requested now)"

text \<open>\<^verbatim>\<open>is_valid_email\<close> of \<^verbatim>\<open>handlers/imap_auth.rs\<close>.\<close>

definition is_valid_email :: "string \<Rightarrow> bool" where
  "is_valid_email email =
     (case str_split (\<lambda>c. c = ''@'') email of
        [local_part, domain_part] \<Rightarrow>
          local_part \<noteq> [] \<and> CHR ''.'' \<in> set domain_part \<and> \<not> prefix ''.'' domain_part \<and>
          \<not> suffix ''.'' domain_part \<and> list_all (\<lambda>p. p \<noteq> []) (str_split (\<lambda>c. c = ''.'') domain_part)
      | _ \<Rightarrow> False)"

definition email_input :: "unicode \<Rightarrow> i32 \<Rightarrow> string \<Rightarrow> i32 \<Rightarrow> string + always_show_input" where
  "email_input u user_id email now =
     (let normalized = to_lowercase u (trim email)
      in if \<not> is_valid_email normalized then Inl ''Enter a valid email address''
         else Inr \<lparr>ai_user_id = user_id, ai_platform = ''email'', ai_display_name = normalized,
                   ai_identity = ''email:'' @ normalized, ai_room_id = None, ai_person_id = None,
                   ai_sender_key = Some normalized, ai_is_group = Some False, ai_group_mode = None,
                   ai_now = now\<rparr>)"

definition build_email_always_show_rule :: "rules_env \<Rightarrow> i32 \<Rightarrow> string \<Rightarrow> i32 \<Rightarrow> string + new_ont_rule" where
  "build_email_always_show_rule env user_id email now =
     map_sum id (build_always_show_rule env) (email_input (re_unicode env) user_id email now)"

definition list_always_show :: "rules_env \<Rightarrow> i32 \<Rightarrow> ont_store \<Rightarrow> show_entry list" where
  "list_always_show env user_id s =
     List.map_filter (always_show_entry env) (filter (\<lambda>r. or_status r = ''active'') (get_rules user_id s))"

datatype 'a rule_response = RuleOk 'a | RuleErr nat string | RulePanic

definition build_entry ::
  "rules_env \<Rightarrow> contact list \<Rightarrow> i32 \<Rightarrow> always_show_request \<Rightarrow> string + new_ont_rule" where
  "build_entry env contacts user_id req =
     (case req of
        ShowPlatform contact_id mode \<Rightarrow>
          (case find (\<lambda>ct. ct_id ct = contact_id) contacts of
             None \<Rightarrow> Inl ''Select a contact or chat from the search results''
           | Some ct \<Rightarrow> build_platform_always_show_rule_with_mode env user_id ct mode (re_now env))
      | ShowEmail email \<Rightarrow> build_email_always_show_rule env user_id email (re_now env))"

definition identity_from_new :: "rules_env \<Rightarrow> new_ont_rule \<Rightarrow> string option" where
  "identity_from_new env nr = do {
     config \<leftarrow> re_parse env (nr_trigger_config nr);
     _ \<leftarrow> get_str ''always_show_platform'' config;
     _ \<leftarrow> get_str ''always_show_display_name'' config;
     get_str ''always_show_identity'' config }"

definition has_identity :: "rules_env \<Rightarrow> string \<Rightarrow> ont_rule \<Rightarrow> bool" where
  "has_identity env identity r \<longleftrightarrow>
     (case always_show_metadata env r of None \<Rightarrow> False | Some (_, _, i) \<Rightarrow> i = identity)"

definition answer_entry :: "rules_env \<Rightarrow> ont_rule \<Rightarrow> show_entry rule_response" where
  "answer_entry env r = (case always_show_entry env r of None \<Rightarrow> RulePanic | Some e \<Rightarrow> RuleOk e)"

definition create_always_show ::
  "rules_env \<Rightarrow> contact list \<Rightarrow> i32 \<Rightarrow> always_show_request \<Rightarrow> ont_store
     \<Rightarrow> show_entry rule_response \<times> ont_store" where
  "create_always_show env contacts user_id req s =
     (case build_entry env contacts user_id req of
        Inl message \<Rightarrow> (RuleErr 400 message, s)
      | Inr nr \<Rightarrow>
          (case identity_from_new env nr of
             None \<Rightarrow> (RulePanic, s)
           | Some identity \<Rightarrow>
               (case find (has_identity env identity) (get_active_rules user_id s) of
                  Some existing \<Rightarrow>
                    (case update_rule user_id (or_id existing) nr (re_now env) s of
                       (Inl _, s') \<Rightarrow> (RuleErr 500 ''Failed to save entry'', s')
                     | (Inr r, s') \<Rightarrow> (answer_entry env r, s'))
                | None \<Rightarrow> (case create_rule nr (re_now env) s of (r, s') \<Rightarrow> (answer_entry env r, s')))))"

definition delete_always_show :: "i32 \<Rightarrow> i32 \<Rightarrow> i32 \<Rightarrow> ont_store \<Rightarrow> unit rule_response \<times> ont_store" where
  "delete_always_show user_id rule_id now s =
     (case get_rule user_id rule_id s of
        Inl _ \<Rightarrow> (RuleErr 404 [], s)
      | Inr r \<Rightarrow>
          if \<not> is_always_show_rule r then (RuleErr 404 [], s)
          else (RuleOk (), delete_rule user_id rule_id now s))"

section \<open>The rules of a user\<close>

record create_rule_request =
  cr_name :: string
  cr_trigger_type :: string
  cr_trigger_config :: string
  cr_logic_type :: string
  cr_logic_prompt :: "string option"
  cr_logic_fetch :: "string option"
  cr_action_type :: string
  cr_action_config :: string
  cr_expires_in_secs :: "i32 option"       \<comment> \<open>\<^verbatim>\<open>(days * 86400.0) as i32\<close>, which saturates\<close>
  cr_flow_config :: "string option"

text \<open>The user row behind \<^verbatim>\<open>find_by_id\<close>: an error, no user, or the plan.\<close>

type_synonym user_lookup = "i32 \<Rightarrow> db_error + string option option"

definition has_auto_features :: "string option \<Rightarrow> bool" where
  "has_auto_features plan \<longleftrightarrow> plan = Some ''assistant'' \<or> plan = Some ''autopilot''"

definition plan_check :: "user_lookup \<Rightarrow> i32 \<Rightarrow> (nat \<times> string) option" where
  "plan_check users user_id =
     (case users user_id of
        Inl _ \<Rightarrow> Some (500, ''Failed to fetch user'')
      | Inr None \<Rightarrow> Some (404, ''User not found'')
      | Inr (Some plan) \<Rightarrow>
          if has_auto_features plan then None else Some (403, ''Rules require Autopilot plan''))"

text \<open>The first time of a schedule; the outer \<^const>\<open>None\<close> is a panic of \<^const>\<open>parse_iso_to_timestamp\<close>.\<close>

definition first_fire :: "rules_env \<Rightarrow> rule_clock \<Rightarrow> i32 \<Rightarrow> string \<Rightarrow> trigger_config \<Rightarrow> i32 option option" where
  "first_fire env clock user_id trigger_type c =
     (if trigger_type \<noteq> ''schedule'' then Some None
      else if tc_schedule c = Some ''once'' then
        (case tc_at c of
           None \<Rightarrow> Some None
         | Some at_time \<Rightarrow>
             parse_iso_to_timestamp clock at_time (user_tz_offset_secs clock (re_now env) user_id))
      else if tc_schedule c = Some ''recurring'' then
        Some (Option.bind (tc_pattern c)
          (\<lambda>p. compute_next_fire_at (re_unicode env) clock (re_now env) p (user_zone_name clock user_id)))
      else Some None)"

definition flow_check :: "rules_env \<Rightarrow> string option \<Rightarrow> (nat \<times> string) option" where
  "flow_check env flow =
     (case flow of
        None \<Rightarrow> None
      | Some src \<Rightarrow>
          (case Option.bind (re_parse env src) flow_of_json of
             None \<Rightarrow> Some (400, ''Invalid flow_config'')
           | Some node \<Rightarrow>
               if 3 < condition_depth node then Some (400, ''Flow config exceeds max depth of 3 conditions'')
               else None))"

definition request_rule ::
  "i32 \<Rightarrow> create_rule_request \<Rightarrow> i32 option \<Rightarrow> i32 option \<Rightarrow> i32 \<Rightarrow> new_ont_rule" where
  "request_rule user_id req next_fire expires now =
     \<lparr>nr_user_id = user_id, nr_name = cr_name req, nr_trigger_type = cr_trigger_type req,
      nr_trigger_config = cr_trigger_config req, nr_logic_type = cr_logic_type req,
      nr_logic_prompt = cr_logic_prompt req, nr_logic_fetch = cr_logic_fetch req,
      nr_action_type = cr_action_type req, nr_action_config = cr_action_config req,
      nr_status = ''active'', nr_next_fire_at = next_fire, nr_expires_at = expires,
      nr_rule_created_at = now, nr_rule_updated_at = now, nr_flow_config = cr_flow_config req\<rparr>"

text \<open>The validation that creating and updating share: an error, a panic, or the next time to fire.\<close>

definition validate_request ::
  "rules_env \<Rightarrow> rule_clock \<Rightarrow> i32 \<Rightarrow> create_rule_request \<Rightarrow> i32 option rule_response" where
  "validate_request env clock user_id req =
     (case Option.bind (re_parse env (cr_trigger_config req)) trigger_of_json of
        None \<Rightarrow> RuleErr 400 ''Invalid trigger_config''
      | Some c \<Rightarrow>
          (case re_parse env (cr_action_config req) of
             None \<Rightarrow> RuleErr 400 ''Invalid action_config''
           | Some a \<Rightarrow>
               if \<not> action_config_ok a then RuleErr 400 ''Invalid action_config''
               else
                 (case first_fire env clock user_id (cr_trigger_type req) c of
                    None \<Rightarrow> RulePanic
                  | Some next_fire \<Rightarrow>
                      (case flow_check env (cr_flow_config req) of
                         Some (code, message) \<Rightarrow> RuleErr code message
                       | None \<Rightarrow> RuleOk next_fire))))"

definition create_rule_handler ::
  "rules_env \<Rightarrow> rule_clock \<Rightarrow> user_lookup \<Rightarrow> i32 \<Rightarrow> create_rule_request \<Rightarrow> ont_store \<Rightarrow> ont_rule rule_response \<times> ont_store" where
  "create_rule_handler env clock users user_id req s =
     (case plan_check users user_id of
        Some (code, message) \<Rightarrow> (RuleErr code message, s)
      | None \<Rightarrow>
          (case validate_request env clock user_id req of
             RuleErr code message \<Rightarrow> (RuleErr code message, s)
           | RulePanic \<Rightarrow> (RulePanic, s)
           | RuleOk next_fire \<Rightarrow>
               let now = re_now env;
                   expires = map_option (\<lambda>secs. wrap_i32 (now + secs)) (cr_expires_in_secs req)
               in (case create_rule (request_rule user_id req next_fire expires now) now s of
                     (r, s') \<Rightarrow> (RuleOk r, s'))))"

text \<open>An update keeps the status, the owner and the expiry of the row: \<^verbatim>\<open>expires_in_days\<close> is not read.\<close>

definition update_rule_handler ::
  "rules_env \<Rightarrow> rule_clock \<Rightarrow> user_lookup \<Rightarrow> i32 \<Rightarrow> i32 \<Rightarrow> create_rule_request \<Rightarrow> ont_store
     \<Rightarrow> ont_rule rule_response \<times> ont_store" where
  "update_rule_handler env clock users user_id rule_id req s =
     (case plan_check users user_id of
        Some (code, message) \<Rightarrow> (RuleErr code message, s)
      | None \<Rightarrow>
          (case get_rule user_id rule_id s of
             Inl _ \<Rightarrow> (RuleErr 404 ''Rule not found'', s)
           | Inr _ \<Rightarrow>
               (case validate_request env clock user_id req of
                  RuleErr code message \<Rightarrow> (RuleErr code message, s)
                | RulePanic \<Rightarrow> (RulePanic, s)
                | RuleOk next_fire \<Rightarrow>
                    (case update_rule user_id rule_id (request_rule user_id req next_fire None (re_now env))
                            (re_now env) s of
                       (Inl _, s') \<Rightarrow> (RuleErr 500 ''Failed to update rule'', s')
                     | (Inr r, s') \<Rightarrow> (RuleOk r, s')))))"

definition update_rule_status_handler ::
  "i32 \<Rightarrow> i32 \<Rightarrow> string \<Rightarrow> i32 \<Rightarrow> ont_store \<Rightarrow> unit rule_response \<times> ont_store" where
  "update_rule_status_handler user_id rule_id status now s =
     (case get_rule user_id rule_id s of
        Inl _ \<Rightarrow> (RuleErr 404 [], s)
      | Inr _ \<Rightarrow> (RuleOk (), update_rule_status rule_id status now s))"

definition delete_rule_handler :: "i32 \<Rightarrow> i32 \<Rightarrow> i32 \<Rightarrow> ont_store \<Rightarrow> unit rule_response \<times> ont_store" where
  "delete_rule_handler user_id rule_id now s = (RuleOk (), delete_rule user_id rule_id now s)"

section \<open>The test endpoints\<close>

record pending_test =
  pt_flow_config :: string
  pt_message :: string
  pt_sender :: string
  pt_rule_name :: string
  pt_user_id :: i32
  pt_created_at :: int                \<comment> \<open>seconds of the monotonic clock\<close>

type_synonym pending_tests = "(string \<times> pending_test) list"

text \<open>
  \<^verbatim>\<open>start_rule_test\<close>: the flow must parse, the charge must succeed (a parameter: the refusal of the
  billing, or none), then the test waits under a new id.
\<close>

definition start_rule_test ::
  "rules_env \<Rightarrow> (nat \<times> string) option \<Rightarrow> string \<Rightarrow> pending_test \<Rightarrow> pending_tests \<Rightarrow> string rule_response \<times> pending_tests" where
  "start_rule_test env refusal test_id t tests =
     (case Option.bind (re_parse env (pt_flow_config t)) flow_of_json of
        None \<Rightarrow> (RuleErr 400 ''Invalid flow_config'', tests)
      | Some _ \<Rightarrow>
          (case refusal of
             Some (code, message) \<Rightarrow> (RuleErr code message, tests)
           | None \<Rightarrow> (RuleOk test_id, (test_id, t) # filter (\<lambda>(k, _). k \<noteq> test_id) tests)))"

definition test_rule :: "pending_test \<Rightarrow> i32 \<Rightarrow> ont_rule" where
  "test_rule t now =
     \<lparr>or_id = 0, or_user_id = pt_user_id t,
      or_name = (if pt_rule_name t = [] then ''Test Rule'' else pt_rule_name t),
      or_trigger_type = ''test'', or_trigger_config = ''{}'', or_logic_type = ''flow'',
      or_logic_prompt = None, or_logic_fetch = None, or_action_type = ''test'', or_action_config = ''{}'',
      or_status = ''active'', or_next_fire_at = None, or_expires_at = None, or_last_triggered_at = None,
      or_created_at = now, or_updated_at = now, or_flow_config = Some (pt_flow_config t)\<rparr>"

definition test_context :: "pending_test \<Rightarrow> string" where
  "test_context t = ''Message from '' @ pt_sender t @ '': '' @ pt_message t"

definition test_rule_stream ::
  "rules_env \<Rightarrow> i32 \<Rightarrow> string \<Rightarrow> int \<Rightarrow> pending_tests \<Rightarrow> rules_world
     \<Rightarrow> rule_test_step list \<times> pending_tests \<times> rules_world" where
  "test_rule_stream env user_id test_id clock tests w =
     (case map_of tests test_id of
        None \<Rightarrow> ([TestError ''Test not found or expired'', Complete], tests, w)
      | Some t \<Rightarrow>
          let tests' = filter (\<lambda>(k, _). k \<noteq> test_id) tests in
          if pt_user_id t \<noteq> user_id then ([TestError ''Unauthorized'', Complete], tests', w)
          else if 60 < clock - pt_created_at t then ([TestError ''Test expired'', Complete], tests', w)
          else
            (case Option.bind (re_parse env (pt_flow_config t)) flow_of_json of
               None \<Rightarrow> ([TestError ''Invalid flow'', Complete], tests', w)
             | Some root \<Rightarrow>
                 (case evaluate_flow_test env (test_rule t (re_now env)) (test_context t) root w of
                    (steps, w') \<Rightarrow> (steps @ [Complete], tests', w'))))"

end
