(* ===== verification/RuleProperties.thy ===== *)
theory RuleProperties
  imports RuleHandlers Contracts
begin

text \<open>
  Properties of the rule engine: the walk down a flow tree and the walk of the test panel, what an
  evaluation adds to the trace, one-shot rules, and the rules that reach the store.
\<close>

section \<open>The walk\<close>

fun is_ask :: "rule_effect \<Rightarrow> bool" where
  "is_ask (LlmAsked _) = True"
| "is_ask _ = False"

definition asks :: "rule_effect list \<Rightarrow> nat" where "asks es = length (filter is_ask es)"
definition acts :: "rule_effect list \<Rightarrow> nat" where "acts es = length (filter (\<lambda>e. \<not> is_ask e) es)"

lemma asks_simps [simp]: "asks [] = 0" "asks (e # es) = (if is_ask e then Suc (asks es) else asks es)"
    "asks (es @ fs) = asks es + asks fs"
  by (simp_all add: asks_def)

lemma acts_simps [simp]: "acts [] = 0" "acts (e # es) = (if is_ask e then acts es else Suc (acts es))"
    "acts (es @ fs) = acts es + acts fs"
  by (simp_all add: acts_def)

text \<open>What happened between two worlds: the trace has grown by \<open>es\<close>.\<close>

definition grown :: "rule_effect list \<Rightarrow> rules_world \<Rightarrow> rules_world \<Rightarrow> bool" where
  "grown es w w' \<longleftrightarrow> rw_trace w' = rw_trace w @ es \<and> rw_ont w' = rw_ont w \<and> rw_links w' = rw_links w"

lemma grown_refl [simp]: "grown [] w w"
  by (simp add: grown_def)

lemma grown_trans: "grown es w w' \<Longrightarrow> grown fs w' w'' \<Longrightarrow> grown (es @ fs) w w''"
  by (simp add: grown_def)

lemma grown_add_effect: "grown [e] w (add_effect e w)"
  by (simp add: grown_def add_effect_def)

lemma mark_shown_grown: "grown es w w' \<Longrightarrow> grown es w (mark_shown now snap w')"
  by (simp add: grown_def mark_shown_def split: option.split)

lemma ask_condition_grown:
  "ask_condition env rule ctx prompt fetch t w = (r, w') \<Longrightarrow>
     \<exists>es. grown es w w' \<and> asks es \<le> 1 \<and> acts es = 0"
  by (auto simp: ask_condition_def call_llm_condition_def Let_def
      intro: grown_add_effect exI [where x = "[]"] exI [where x = "[LlmAsked q]" for q]
      split: sum.splits list.splits)

lemma execute_flow_action_grown:
  "\<exists>es. grown es w (snd (execute_flow_action env rule snap ty config message extras w)) \<and> asks es = 0 \<and> acts es \<le> 1"
proof -
  obtain n where n: "\<not> is_ask n"
      "notify_action env rule snap config message w \<in>
         {add_effect n w, mark_shown (re_now env) snap (add_effect n w)}"
    unfolding notify_action_def Let_def by (metis insertI1 insertI2 is_ask.simps(2))
  then have "grown [n] w (notify_action env rule snap config message w)"
    using grown_add_effect mark_shown_grown by auto
  with n have "\<exists>es. grown es w (notify_action env rule snap config message w) \<and> asks es = 0 \<and> acts es \<le> 1"
    by (intro exI [where x = "[n]"]) simp
  moreover have "\<exists>es. grown es w (snd (tool_action env rule snap config extras w)) \<and> asks es = 0 \<and> acts es \<le> 1"
  proof (cases "snd (tool_action env rule snap config extras w) = w")
    case True
    then show ?thesis by (intro exI [where x = "[]"]) simp
  next
    case False
    then obtain a b c where "snd (tool_action env rule snap config extras w) = add_effect (ToolExecuted a b c) w"
      by (auto simp: tool_action_def split: option.splits if_splits)
    then show ?thesis
      by (intro exI [where x = "[ToolExecuted a b c]"]) (simp add: grown_add_effect)
  qed
  ultimately show ?thesis by (auto simp: execute_flow_action_def intro: exI [where x = "[]"])
qed

lemma evaluate_flow_grown:
  "\<exists>es. grown es w (snd (evaluate_flow env rule ctx snap node prev extras w)) \<and>
        asks es \<le> condition_depth node \<and> acts es \<le> 1"
proof (induction env rule ctx snap node prev extras w rule: evaluate_flow.induct)
  case (1 env rule ctx snap prompt fetch t f prev extras w)
  show ?case
  proof (cases "tc_group_mode (rule_trigger env rule) \<noteq> None")
    case True
    with 1 show ?thesis
      by (cases t) (fastforce intro: exI [where x = "[]"])+
  next
    case False
    obtain r w' where q: "ask_condition env rule ctx prompt fetch t w = (r, w')" by fastforce
    then obtain es where es: "grown es w w'" "asks es \<le> 1" "acts es = 0"
      using ask_condition_grown by blast
    show ?thesis
    proof (cases r)
      case (Inl e)
      with False q es show ?thesis by (intro exI [where x = es]) simp
    next
      case (Inr a)
      show ?thesis
      proof (cases "(if lr_condition_met a then t else f)")
        case None
        with False q es Inr show ?thesis by (intro exI [where x = es]) (auto split: if_splits)
      next
        case (Some branch)
        let ?prev = "if lr_condition_met a then or_else (lr_message a) prev else prev"
        let ?extras = "if lr_condition_met a \<and> lr_extra a \<noteq> [] then Some (lr_extra a) else extras"
        have run: "evaluate_flow env rule ctx snap (LlmCondition prompt fetch t f) prev extras w =
            evaluate_flow env rule ctx snap branch ?prev ?extras w'"
          using False q Inr Some by (auto split: if_splits)
        obtain fs where fs: "grown fs w' (snd (evaluate_flow env rule ctx snap branch ?prev ?extras w'))"
            "asks fs \<le> condition_depth branch" "acts fs \<le> 1"
          using 1(2-) False q Inr Some by (fastforce split: if_splits)
        have "asks fs < condition_depth (LlmCondition prompt fetch t f)"
          using fs(2) Some by (auto split: if_splits option.splits)
        with es fs show ?thesis unfolding run
          by (intro exI [where x = "es @ fs"]) (auto intro: grown_trans)
      qed
    qed
  qed
next
  case (2 env rule ctx snap keyword t f prev extras w)
  then show ?case
    by (cases "keyword_matches (re_unicode env) keyword ctx"; cases t; cases f)
      (fastforce intro: exI [where x = "[]"])+
next
  case (3 env rule ctx snap ty config prev extras w)
  show ?case using execute_flow_action_grown by simp
qed

text \<open>A rule with a group mode never asks the language model.\<close>

lemma group_mode_asks_nothing:
  assumes "tc_group_mode (rule_trigger env rule) \<noteq> None"
  shows "\<exists>es. grown es w (snd (evaluate_flow env rule ctx snap node prev extras w)) \<and> asks es = 0 \<and> acts es \<le> 1"
  using assms
proof (induction env rule ctx snap node prev extras w rule: evaluate_flow.induct)
  case (1 env rule ctx snap prompt fetch t f prev extras w)
  then show ?case by (cases t) (auto intro: exI [where x = "[]"])
next
  case (2 env rule ctx snap keyword t f prev extras w)
  then show ?case
    by (cases "keyword_matches (re_unicode env) keyword ctx"; cases t; cases f)
      (auto intro: exI [where x = "[]"])
next
  case (3 env rule ctx snap ty config prev extras w)
  show ?case using execute_flow_action_grown by simp
qed

section \<open>The walk of the test panel\<close>

text \<open>
  What the last step of a test says about a run: which action is executed, in the world the test has
  left, or that nothing is, or the error.
\<close>

fun run_follows :: "rules_env \<Rightarrow> ont_rule \<Rightarrow> json option \<Rightarrow> rule_test_step \<Rightarrow> rules_world \<Rightarrow> flow_end \<times> rules_world \<Rightarrow> bool" where
  "run_follows env rule snap (WouldExecute ty description) w out \<longleftrightarrow>
     (\<exists>config message extras. description = action_description ty config \<and>
        out = execute_flow_action env rule snap ty config message extras w)"
| "run_follows env rule snap (NoAction _) w out \<longleftrightarrow> out = (FlowOk, w)"
| "run_follows env rule snap (TestError m) w out \<longleftrightarrow> (\<exists>e. m = ''LLM error: '' @ e \<and> out = (FlowFailed e, w))"
| "run_follows env rule snap _ w out \<longleftrightarrow> False"

lemma test_walk:
  assumes "tc_group_mode (rule_trigger env rule) = None"
    and "evaluate_flow_test env rule ctx node w = (steps, w')"
  shows "steps \<noteq> [] \<and> run_follows env rule snap (last steps) w' (evaluate_flow env rule ctx snap node prev extras w)"
  using assms
proof (induction env rule ctx node w arbitrary: prev extras steps w' rule: evaluate_flow_test.induct)
  case (1 env rule ctx prompt fetch t f w)
  obtain r v where q: "ask_condition env rule ctx prompt fetch t w = (r, v)" by fastforce
  show ?case
  proof (cases r)
    case (Inl e)
    with 1(3,4) q show ?thesis by auto
  next
    case (Inr a)
    show ?thesis
    proof (cases "lr_condition_met a")
      case True
      show ?thesis
      proof (cases t)
        case None
        with True 1(3,4) q Inr show ?thesis by auto
      next
        case (Some branch)
        obtain steps' v' where sub: "evaluate_flow_test env rule ctx branch v = (steps', v')" by fastforce
        from 1(1) [OF refl q [symmetric] Inr refl refl True Some 1(3) sub]
        show ?thesis using True Some 1(3,4) q Inr sub by (auto simp: Let_def)
      qed
    next
      case False
      show ?thesis
      proof (cases f)
        case None
        with False 1(3,4) q Inr show ?thesis by auto
      next
        case (Some branch)
        obtain steps' v' where sub: "evaluate_flow_test env rule ctx branch v = (steps', v')" by fastforce
        from 1(2) [OF refl q [symmetric] Inr refl refl False Some 1(3) sub]
        show ?thesis using False Some 1(3,4) q Inr sub by (auto simp: Let_def)
      qed
    qed
  qed
next
  case (2 env rule ctx keyword t f w)
  show ?case
  proof (cases "(if keyword_matches (re_unicode env) keyword ctx then t else f)")
    case None
    with 2(3,4) show ?thesis by (auto split: if_splits)
  next
    case (Some branch)
    obtain steps' v' where sub: "evaluate_flow_test env rule ctx branch w = (steps', v')" by fastforce
    have "steps' \<noteq> [] \<and>
        run_follows env rule snap (last steps') v' (evaluate_flow env rule ctx snap branch prev extras w)"
    proof (cases "keyword_matches (re_unicode env) keyword ctx")
      case True
      with Some 2(1) [OF refl refl True _ 2(3) sub] show ?thesis by simp
    next
      case False
      with Some 2(2) [OF refl refl False _ 2(3) sub] show ?thesis by simp
    qed
    with Some 2(3,4) sub show ?thesis by (auto simp: Let_def split: if_splits)
  qed
next
  case (3 env rule ctx ty config w)
  have "run_follows env rule snap (WouldExecute ty (action_description ty config)) w
      (evaluate_flow env rule ctx snap (Action ty config) prev extras w)"
    unfolding run_follows.simps evaluate_flow.simps by (intro exI conjI; rule refl)
  with 3 show ?case by (auto simp del: run_follows.simps)
qed

section \<open>One evaluation\<close>

text \<open>The claim, the status and the time stamps are all that an evaluation writes to the rules.\<close>

lemma run_flow_grown:
  "\<exists>es. grown es w (snd (run_flow env rule ctx snap w)) \<and> acts es \<le> 1 \<and>
     asks es \<le> (case Option.bind (or_flow_config rule) (\<lambda>src. Option.bind (re_parse env src) flow_of_json) of
                   None \<Rightarrow> 0 | Some node \<Rightarrow> condition_depth node) \<and>
     (tc_group_mode (rule_trigger env rule) \<noteq> None \<longrightarrow> asks es = 0)"
proof -
  define parsed where "parsed = Option.bind (or_flow_config rule) (\<lambda>src. Option.bind (re_parse env src) flow_of_json)"
  show ?thesis
  proof (cases parsed)
    case None
    have "snd (run_flow env rule ctx snap w) = w"
      using None unfolding parsed_def run_flow_def
      by (cases "or_flow_config rule") (simp_all split: option.split)
    then show ?thesis by (intro exI [of _ "[]"]) simp
  next
    case (Some node)
    have run: "run_flow env rule ctx snap w = evaluate_flow env rule ctx snap node None None w"
      using Some unfolding parsed_def run_flow_def
      by (cases "or_flow_config rule") simp_all
    show ?thesis
      using evaluate_flow_grown [of w env rule ctx snap node None None]
        group_mode_asks_nothing [of env rule w ctx snap node None None]
      unfolding run parsed_def [symmetric] Some by (cases "tc_group_mode (rule_trigger env rule) = None") auto
  qed
qed

inductive rule_writes :: "i32 \<Rightarrow> ont_store \<Rightarrow> ont_store \<Rightarrow> bool" for k where
  no_write: "rule_writes k s s"
| claim_write: "rule_writes k s (snd (try_claim_rule k now s))"
| expire_write: "rule_writes k s s' \<Longrightarrow> rule_writes k s (update_rule_status k ''expired'' now s')"
| touch_write: "rule_writes k s s' \<Longrightarrow> rule_writes k s (update_rule_last_triggered k now s')"

lemma rule_active_updates:
  assumes "rule_active k (update_rules p f s)" "\<And>r. p r \<Longrightarrow> or_id (f r) = or_id r"
    "\<And>r. p r \<Longrightarrow> or_id r = k \<Longrightarrow> or_status (f r) = ''active'' \<Longrightarrow> or_status r = ''active''"
  shows "rule_active k s"
proof -
  obtain r where "r \<in> set (sql_update p f (on_rules s))" "or_id r = k" "or_status r = ''active''"
    using assms(1) by (auto simp: rule_active_def update_rules_def)
  then show ?thesis
    by (cases rule: in_sql_updateE) (use assms(2,3) in \<open>auto simp only: rule_active_def\<close>)
qed

lemma not_active_updates:
  "rule_active k (update_rule_status k ''expired'' now s) \<Longrightarrow> rule_active k s"
  "rule_active k (update_rule_last_triggered k now s) \<Longrightarrow> rule_active k s"
  unfolding update_rule_status_def update_rule_last_triggered_def
  by (erule rule_active_updates; simp)+

lemma claim_rows:
  "on_rules (snd (try_claim_rule k now s)) = sql_update (\<lambda>r. or_id r = k \<and> or_status r = ''active'')
     (\<lambda>r. r\<lparr>or_status := ''completed'', or_updated_at := now\<rparr>) (on_rules s)"
  by (simp add: try_claim_rule_def Let_def update_rules_def)

lemma claim_spends: "\<not> rule_active k (snd (try_claim_rule k now s))"
proof
  assume "rule_active k (snd (try_claim_rule k now s))"
  then obtain r where r: "r \<in> set (on_rules (snd (try_claim_rule k now s)))" "or_id r = k" "or_status r = ''active''"
    unfolding rule_active_def by blast
  from r(1) show False unfolding claim_rows by (cases rule: in_sql_updateE) (use r(2,3) in simp_all)
qed

lemma claim_refused: "\<not> rule_active k s \<Longrightarrow> \<not> fst (try_claim_rule k now s)"
  using rule_claim.taken by blast

lemma rule_writes_active: "rule_writes k s s' \<Longrightarrow> \<not> rule_active k s \<Longrightarrow> \<not> rule_active k s'"
  by (induction rule: rule_writes.induct) (auto simp: claim_spends dest: not_active_updates)

lemma evaluation_result:
  obtains es where "rw_trace (evaluate_and_execute env rule ctx snap w) = rw_trace w @ es"
    "rule_writes (or_id rule) (rw_ont w) (rw_ont (evaluate_and_execute env rule ctx snap w))"
    "acts es \<le> 1"
    "asks es \<le> (case Option.bind (or_flow_config rule) (\<lambda>src. Option.bind (re_parse env src) flow_of_json) of
                   None \<Rightarrow> 0 | Some node \<Rightarrow> condition_depth node)"
    "tc_group_mode (rule_trigger env rule) \<noteq> None \<Longrightarrow> asks es = 0"
    "one_shot_rule env rule \<Longrightarrow> \<not> rule_active (or_id rule) (rw_ont w) \<Longrightarrow> es = []"
    "one_shot_rule env rule \<Longrightarrow> \<not> rule_active (or_id rule) (rw_ont (evaluate_and_execute env rule ctx snap w))"
    "over_budget env rule \<Longrightarrow> es = []"
    "(case or_expires_at rule of None \<Rightarrow> False | Some e \<Rightarrow> e < re_now env) \<Longrightarrow> es = []"
proof -
  let ?k = "or_id rule"
  let ?now = "re_now env"
  define w1 where "w1 = (if one_shot_rule env rule then w\<lparr>rw_ont := snd (try_claim_rule ?k ?now (rw_ont w))\<rparr> else w)"
  define go where "go = (one_shot_rule env rule \<longrightarrow> fst (try_claim_rule ?k ?now (rw_ont w)))"
  define late where "late = (case or_expires_at rule of None \<Rightarrow> False | Some e \<Rightarrow> e < ?now)"
  have w1: "rw_trace w1 = rw_trace w" "rule_writes ?k (rw_ont w) (rw_ont w1)"
    by (auto simp: w1_def intro: rule_writes.intros)
  have result: "evaluate_and_execute env rule ctx snap w =
      (if \<not> go then w1
       else if late then map_ont (update_rule_status ?k ''expired'' ?now) w1
       else if over_budget env rule then w1
       else snd (run_flow env rule ctx snap (map_ont (update_rule_last_triggered ?k ?now) w1)))"
    by (simp add: evaluate_and_execute_def w1_def go_def late_def Let_def split: prod.splits)
  have claimed: "\<not> rule_active ?k (rw_ont w1)" if "one_shot_rule env rule"
    using that by (simp add: w1_def claim_spends)
  have refused: "\<not> go" if "one_shot_rule env rule" "\<not> rule_active ?k (rw_ont w)"
    using that by (simp add: go_def claim_refused)
  let ?w2 = "map_ont (update_rule_last_triggered ?k ?now) w1"
  obtain es where es: "grown es ?w2 (snd (run_flow env rule ctx snap ?w2))" "acts es \<le> 1"
      "asks es \<le> (case Option.bind (or_flow_config rule) (\<lambda>src. Option.bind (re_parse env src) flow_of_json) of
                     None \<Rightarrow> 0 | Some node \<Rightarrow> condition_depth node)"
      "tc_group_mode (rule_trigger env rule) \<noteq> None \<longrightarrow> asks es = 0"
    using run_flow_grown by blast
  define fs where "fs = (if \<not> go \<or> late \<or> over_budget env rule then [] else es)"
  show thesis
  proof (rule that [of fs])
    show "rw_trace (evaluate_and_execute env rule ctx snap w) = rw_trace w @ fs"
      using es(1) w1(1) by (simp add: result fs_def grown_def map_ont_def)
    have ont1: "rw_ont (map_ont f w1) = f (rw_ont w1)" for f by (simp add: map_ont_def)
    have ont2: "rw_ont (snd (run_flow env rule ctx snap ?w2)) = rw_ont ?w2" using es(1) by (simp add: grown_def)
    show "rule_writes ?k (rw_ont w) (rw_ont (evaluate_and_execute env rule ctx snap w))"
      using w1(2) by (auto simp: result ont2 ont1 intro: rule_writes.intros)
    show "\<not> rule_active ?k (rw_ont (evaluate_and_execute env rule ctx snap w))" if "one_shot_rule env rule"
      using claimed [OF that] by (auto simp: result ont2 ont1 dest: not_active_updates)
  qed (use es(2-) refused in \<open>auto simp: fs_def late_def split: option.split\<close>)
qed

section \<open>One-shot rules\<close>

text \<open>Evaluations of a rule among other tasks, and how many of them did anything.\<close>

datatype world_step = Evaluation rules_env string "json option" | OtherTask "rules_world \<Rightarrow> rules_world"

fun executions :: "ont_rule \<Rightarrow> world_step list \<Rightarrow> rules_world \<Rightarrow> nat" where
  "executions rule [] w = 0"
| "executions rule (Evaluation env ctx snap # steps) w =
     (let w' = evaluate_and_execute env rule ctx snap w
      in (if rw_trace w' = rw_trace w then 0 else 1) + executions rule steps w')"
| "executions rule (OtherTask f # steps) w = executions rule steps (f w)"

fun one_shot_step :: "ont_rule \<Rightarrow> world_step \<Rightarrow> bool" where
  "one_shot_step rule (Evaluation env ctx snap) \<longleftrightarrow> one_shot_rule env rule"
| "one_shot_step rule (OtherTask f) \<longleftrightarrow>
     (\<forall>w. rule_active (or_id rule) (rw_ont (f w)) \<longrightarrow> rule_active (or_id rule) (rw_ont w))"

lemma executions_bound:
  "list_all (one_shot_step rule) steps \<Longrightarrow>
     executions rule steps w \<le> (if rule_active (or_id rule) (rw_ont w) then 1 else 0)"
proof (induction rule steps w rule: executions.induct)
  case (2 rule env ctx snap steps w)
  then have one: "one_shot_rule env rule" by simp
  let ?w' = "evaluate_and_execute env rule ctx snap w"
  obtain es where es: "rw_trace ?w' = rw_trace w @ es"
      "\<not> rule_active (or_id rule) (rw_ont w) \<Longrightarrow> es = []" "\<not> rule_active (or_id rule) (rw_ont ?w')"
    by (rule evaluation_result [of env rule ctx snap w]) (use one in blast)
  from 2 es(3) have "executions rule steps ?w' = 0" by simp
  with es show ?case by (auto simp: Let_def)
next
  case (3 rule f steps w)
  then have "executions rule steps (f w) \<le> (if rule_active (or_id rule) (rw_ont (f w)) then 1 else 0)" by simp
  moreover have "rule_active (or_id rule) (rw_ont (f w)) \<Longrightarrow> rule_active (or_id rule) (rw_ont w)"
    using 3 by simp
  ultimately show ?case by (auto split: if_splits)
qed simp

lemma claimed_by_evaluation:
  assumes "one_shot_rule env rule"
  shows "\<not> rule_active (or_id rule) (rw_ont (evaluate_and_execute env rule ctx snap w))"
  by (rule evaluation_result [of env rule ctx snap w]) (use assms in blast)

lemma over_budget_evaluation:
  assumes "over_budget env rule"
  shows "rw_trace (evaluate_and_execute env rule ctx snap w) = rw_trace w"
  by (rule evaluation_result [of env rule ctx snap w]) (use assms in auto)


text \<open>
  A one-shot rule is claimed before the daily token budget of its user is looked at: an
  evaluation over the budget does nothing and leaves the rule spent, so no later evaluation, within the
  budget or not, does anything either.
\<close>

theorem budget_consumes_one_shot:
  assumes "one_shot_rule env rule" "over_budget env rule"
  shows "rw_trace (evaluate_and_execute env rule ctx snap w) = rw_trace w \<and>
    \<not> rule_active (or_id rule) (rw_ont (evaluate_and_execute env rule ctx snap w)) \<and>
    (list_all (one_shot_step rule) steps \<longrightarrow> executions rule steps (evaluate_and_execute env rule ctx snap w) = 0)"
  using claimed_by_evaluation [OF assms(1), of ctx snap w] over_budget_evaluation [OF assms(2), of ctx snap w]
    executions_bound [of rule steps "evaluate_and_execute env rule ctx snap w"]
  by auto

section \<open>Group messages\<close>

lemma matches_config:
  assumes "matches_trigger (re_parse env) u rule entity_type change_type snap"
  shows "group_admits (rule_trigger env rule) entity_type snap"
  using assms by (auto simp: matches_trigger_def rule_trigger_def split: option.splits)



text \<open>
  A keyword is looked for in the serialized event, names of fields included: the keyword
  "created" matches every new message, whatever it says, although the test panel finds it in no message
  that does not contain it.
\<close>

theorem keyword_matches_envelope:
  assumes "list_all is_ascii (re_print env snap)"
  shows "keyword_matches (re_unicode env) ''created''
      (change_context env ''Message'' ''created'' entity_id snap) \<and>
    \<not> keyword_matches (re_unicode env) ''created''
      (test_context \<lparr>pt_flow_config = f, pt_message = ''see you'', pt_sender = ''Ann'', pt_rule_name = n,
                     pt_user_id = i, pt_created_at = c\<rparr>)"
proof
  have digits: "list_all is_ascii (show_int entity_id)"
    using show_nat_chars by (fastforce simp: show_int_def list_all_iff is_ascii_def of_digit_char)
  have kw: "to_lowercase (re_unicode env) ''created'' = ''created''" by code_simp
  have "list_all is_ascii (change_context env ''Message'' ''created'' entity_id snap)"
    using assms digits by (simp add: change_context_def is_ascii_def)
  moreover have "change_context env ''Message'' ''created'' entity_id snap =
      ''Message '' @ ''created'' @ '' (id='' @ show_int entity_id @ ''): '' @ re_print env snap"
    by (simp add: change_context_def)
  moreover have "to_ascii_lowercase ''created'' = ''created''" by code_simp
  ultimately have "sublist ''created'' (to_lowercase (re_unicode env)
      (change_context env ''Message'' ''created'' entity_id snap))"
    by (simp only: to_lowercase_def if_True to_ascii_lowercase_def map_append) (metis sublist_def)
  then show "keyword_matches (re_unicode env) ''created'' (change_context env ''Message'' ''created'' entity_id snap)"
    by (simp only: keyword_matches_def str_contains_iff kw) simp
  have ctx: "test_context \<lparr>pt_flow_config = f, pt_message = ''see you'', pt_sender = ''Ann'', pt_rule_name = n,
      pt_user_id = i, pt_created_at = c\<rparr> = ''Message from Ann: see you''"
    by (simp add: test_context_def)
  have "\<not> str_contains (to_lowercase (re_unicode env) ''Message from Ann: see you'') ''created''" by code_simp
  then show "\<not> keyword_matches (re_unicode env) ''created''
      (test_context \<lparr>pt_flow_config = f, pt_message = ''see you'', pt_sender = ''Ann'', pt_rule_name = n,
                     pt_user_id = i, pt_created_at = c\<rparr>)"
    unfolding ctx keyword_matches_def kw by blast
qed

end
