(* ===== verification/RuleStore.thy ===== *)
theory RuleStore
  imports RuleProperties
begin

text \<open>
  What the handlers store: the always-show rules read back from their text, every stored rule reads
  (a typing of the table), and the always-show list refines a map from identities to entries.
\<close>

section \<open>Texts that are read back\<close>

text \<open>
  Values that a \<^verbatim>\<open>serde_json::Value\<close> can be, without floating point numbers. The law of the crate: the
  text of such a value reads as the value, the members in the order of their keys.
\<close>

primrec map_like :: "json \<Rightarrow> bool" where
  "map_like JNull \<longleftrightarrow> True"
| "map_like (JBool b) \<longleftrightarrow> True"
| "map_like (JInt i) \<longleftrightarrow> wrap_i64 i = i"
| "map_like (JFloat s) \<longleftrightarrow> False"
| "map_like (JStr s) \<longleftrightarrow> True"
| "map_like (JArr vs) \<longleftrightarrow> list_all id (map map_like vs)"
| "map_like (JObj ms) \<longleftrightarrow> distinct (map fst ms) \<and> list_all id (map snd (map (map_prod id map_like) ms))"

definition serde_law :: "rules_env \<Rightarrow> bool" where
  "serde_law env \<longleftrightarrow> (\<forall>v. map_like v \<longrightarrow> prints_back env v)"

lemma serde_lawD: "serde_law env \<Longrightarrow> map_like v \<Longrightarrow> re_parse env (re_print env v) = Some (canonical v)"
  by (simp add: serde_law_def prints_back_def)

lemma json_field_distinct: "distinct (map fst ms) \<Longrightarrow> json_field k ms = Some (map_of ms k)"
proof (induction ms)
  case (Cons m ms)
  obtain k' v where m: "m = (k', v)" by fastforce
  have none: "filter (\<lambda>(k', _). k' = k) ms = []" if "k \<notin> fst ` set ms" using that by (force simp: filter_empty_conv)
  show ?case
  proof (cases "k' = k")
    case True
    with Cons.prems m none show ?thesis by (simp add: json_field_def)
  next
    case False
    with Cons m show ?thesis by (simp add: json_field_def)
  qed
qed (simp add: json_field_def)

lemma json_get_distinct: "distinct (map fst ms) \<Longrightarrow> json_get k (JObj ms) = map_of ms k"
proof -
  assume "distinct (map fst ms)"
  then have "map_of (rev ms) = map_of ms"
    by (intro map_of_inject_set [THEN iffD2]) (simp_all flip: rev_map)
  then show ?thesis by simp
qed

lemma distinct_sort_key: "distinct (map fst (sort_key fst xs)) = distinct (map fst xs)"
  by (simp add: distinct_map)

lemma canonical_keys:
  fixes ms :: "(string \<times> json) list"
  assumes "distinct (map fst ms)"
  defines "cs \<equiv> sort_key fst (map (map_prod id canonical) ms)"
  shows "distinct (map fst cs)" "map_of cs k = map_option canonical (map_of ms k)"
proof -
  have fst_map: "map fst (map (map_prod id canonical) ms) = map fst ms" by simp
  then have "distinct (map fst (map (map_prod id canonical) ms))" using assms(1) by simp
  then show d: "distinct (map fst cs)" unfolding cs_def distinct_sort_key .
  have "set cs = set (map (map_prod id canonical) ms)" by (simp add: cs_def)
  then have "map_of cs = map_of (map (map_prod id canonical) ms)"
    using d assms(1) fst_map by (intro map_of_inject_set [THEN iffD2]) simp_all
  moreover have "map_of (map (map_prod id canonical) ms) k = map_option canonical (map_of ms k)"
    by (induction ms) auto
  ultimately show "map_of cs k = map_option canonical (map_of ms k)" by simp
qed

lemma canonical_field:
  "distinct (map fst ms) \<Longrightarrow>
     json_field k (sort_key fst (map (map_prod id canonical) ms)) = Some (map_option canonical (map_of ms k))"
  by (simp add: json_field_distinct canonical_keys)

lemma canonical_get:
  "distinct (map fst ms) \<Longrightarrow> json_get k (canonical (JObj ms)) = map_option canonical (map_of ms k)"
  by (simp add: json_get_distinct canonical_keys del: json_get.simps)

lemma map_of_optional_member [simp]:
  "map_of (optional_member k f v) k' = (if k' = k then map_option f v else None)"
  by (simp add: optional_member_def split: option.split)

section \<open>The texts of an always-show rule\<close>

definition trigger_members :: "always_show_input \<Rightarrow> (string \<times> json) list" where
  "trigger_members i = (case always_show_trigger i of JObj ms \<Rightarrow> ms | _ \<Rightarrow> [])"

lemma trigger_obj: "always_show_trigger i = JObj (trigger_members i)"
  by (simp add: trigger_members_def always_show_trigger_def)

lemma trigger_keys: "distinct (map fst (trigger_members i))"
  by (simp add: trigger_members_def always_show_trigger_def optional_member_def split: option.split)

lemma map_like_trigger:
  assumes "case ai_person_id i of None \<Rightarrow> True | Some p \<Rightarrow> in_i32 p"
  shows "map_like (always_show_trigger i)"
proof -
  have "wrap_i64 p = p" if "ai_person_id i = Some p" for p
    using that assms by (intro wrap_i64_range) (simp_all add: in_i32_def i32_min_def i32_max_def)
  then have "list_all id (map snd (map (map_prod id map_like) (trigger_members i)))"
    by (simp add: trigger_members_def always_show_trigger_def optional_member_def wrap_i64_range split: option.split)
  with trigger_keys show ?thesis unfolding trigger_obj by simp
qed

lemma trigger_member:
  "map_of (trigger_members i) k =
     (if k = ''entity_type'' then Some (JStr ''Message'')
      else if k = ''change'' then Some (JStr ''created'')
      else if k = ''filters'' then
        Some (JObj [(''sender'', JStr (ai_display_name i)), (''platform'', JStr (ai_platform i))])
      else if k = ''delay_seconds'' then Some (JInt 0)
      else if k = ''incoming_only'' then Some (JBool True)
      else if k = ''always_show_platform'' then Some (JStr (ai_platform i))
      else if k = ''always_show_display_name'' then Some (JStr (ai_display_name i))
      else if k = ''always_show_identity'' then Some (JStr (ai_identity i))
      else if k = ''resolved_room_id'' then map_option JStr (ai_room_id i)
      else if k = ''resolved_person_id'' then map_option JInt (ai_person_id i)
      else if k = ''resolved_sender_key'' then map_option JStr (ai_sender_key i)
      else if k = ''always_show_is_group'' then map_option JBool (ai_is_group i)
      else if k = ''group_mode'' then map_option JStr (ai_group_mode i)
      else None)"
  by (simp add: trigger_members_def always_show_trigger_def map_add_def split: option.split)

definition trigger_of_input :: "always_show_input \<Rightarrow> trigger_config" where
  "trigger_of_input i =
     \<lparr>tc_entity_type = Some ''Message'', tc_change = Some ''created'',
      tc_filters = Some [(''platform'', ai_platform i), (''sender'', ai_display_name i)],
      tc_resolved_room_id = ai_room_id i, tc_resolved_person_id = ai_person_id i,
      tc_resolved_sender_key = ai_sender_key i, tc_incoming_only = True,
      tc_always_show_is_group = ai_is_group i, tc_schedule = None, tc_pattern = None, tc_at = None,
      tc_fire_once = False, tc_delay_seconds = Some 0, tc_group_mode = ai_group_mode i\<rparr>"

definition option_value :: "(json \<Rightarrow> 'a option) \<Rightarrow> json option \<Rightarrow> 'a option option" where
  "option_value f v =
     (case v of None \<Rightarrow> Some None | Some w \<Rightarrow> if w = JNull then Some None else map_option Some (f w))"

lemma option_value_simps [simp]:
  "option_value f None = Some None" "option_value f (Some (JStr s)) = map_option Some (f (JStr s))"
  "option_value f (Some (JObj ms)) = map_option Some (f (JObj ms))"
  "option_value f (Some (JInt i)) = map_option Some (f (JInt i))"
  "option_value as_str (map_option JStr v) = Some v" "option_value as_bool (map_option JBool b) = Some b"
  by (simp_all add: option_value_def split: option.split)

lemma optional_canonical:
  assumes "distinct (map fst ms)"
  defines "cs \<equiv> sort_key fst (map (map_prod id canonical) ms)"
  shows "optional_field f k cs = option_value f (map_option canonical (map_of ms k))"
    "default_field d g k cs = (case map_option canonical (map_of ms k) of None \<Rightarrow> Some d | Some v \<Rightarrow> g v)"
    "required_field g k cs = Option.bind (map_option canonical (map_of ms k)) g"
  unfolding cs_def
  by (simp_all add: optional_field_def default_field_def required_field_def canonical_field [OF assms(1)]
      option_value_def split: option.split)

lemma canonical_map_option [simp]:
  "map_option canonical (map_option JStr v) = map_option JStr v"
  "map_option canonical (map_option JBool b) = map_option JBool b"
  "map_option canonical (map_option JInt i) = map_option JInt i"
  by (simp_all add: option.map_comp o_def)

lemma filters_sort:
  "sort_key fst [(''sender'', a), (''platform'', b)] = [(''platform'', b), (''sender'', a)]"
  by simp

lemma trigger_reads:
  assumes "case ai_person_id i of None \<Rightarrow> True | Some p \<Rightarrow> in_i32 p"
  shows "trigger_of_json (canonical (always_show_trigger i)) = Some (trigger_of_input i)"
proof -
  have person: "option_value i32_of_json (map_option JInt (ai_person_id i)) = Some (ai_person_id i)"
    using assms by (cases "ai_person_id i") simp_all
  have zero: "in_i32 0" by (simp add: in_i32_def i32_min_def i32_max_def)
  show ?thesis
    unfolding trigger_obj canonical.simps trigger_of_json.simps optional_canonical [OF trigger_keys]
    by (simp add: trigger_member person zero trigger_of_input_def)
qed

lemma notify_reads:
  "trigger_of_json JNull = None" "map_like notify_config" "map_like notify_flow"
  "action_config_ok (canonical notify_config)"
  "flow_of_json (canonical notify_flow) = Some (Action ''notify'' (canonical notify_config))"
  by (simp_all add: notify_config_def notify_flow_def optional_field_def json_field_def required_field_def)

text \<open>The entry of an always-show rule with the number \<open>k\<close>.\<close>

definition entry_of :: "i32 \<Rightarrow> always_show_input \<Rightarrow> show_entry" where
  "entry_of k i =
     \<lparr>as_id = k, as_platform = ai_platform i, as_display_name = ai_display_name i,
      as_subtitle =
        (if ai_platform i = ''email'' then ''Email address''
         else if ai_is_group i = Some True \<and> ai_group_mode i = Some ''mention_only''
         then ''Mentions only '' @ middle_dot @ '' '' @ ai_platform i
         else ''Always shown from '' @ ai_platform i)\<rparr>"

definition input_ok :: "always_show_input \<Rightarrow> bool" where
  "input_ok i \<longleftrightarrow> (case ai_person_id i of None \<Rightarrow> True | Some p \<Rightarrow> in_i32 p)"

text \<open>A row that was written for the input \<open>i\<close>.\<close>

definition written_for :: "rules_env \<Rightarrow> always_show_input \<Rightarrow> ont_rule \<Rightarrow> bool" where
  "written_for env i r \<longleftrightarrow> is_always_show_rule r \<and> or_trigger_config r = re_print env (always_show_trigger i)"

lemma get_written:
  assumes "serde_law env" "input_ok i" "written_for env i r"
  shows "always_show_config env r = Some (canonical (always_show_trigger i))"
  using assms serde_lawD [OF assms(1) map_like_trigger [of i]]
  by (simp add: always_show_config_def written_for_def input_ok_def)

lemma get_str_trigger:
  "get_str k (canonical (always_show_trigger i)) = Option.bind (map_option canonical (map_of (trigger_members i) k)) as_str"
  "get_bool k (canonical (always_show_trigger i)) = Option.bind (map_option canonical (map_of (trigger_members i) k)) as_bool"
  unfolding trigger_obj get_str_def get_bool_def canonical_get [OF trigger_keys] by simp_all

lemma bind_JStr [simp]: "Option.bind (map_option JStr v) as_str = v" "Option.bind (map_option JBool b) as_bool = b"
  by (cases v; simp) (cases b; simp)

lemma metadata_written:
  assumes "serde_law env" "input_ok i" "written_for env i r"
  shows "always_show_metadata env r = Some (ai_platform i, ai_display_name i, ai_identity i)"
    "always_show_entry env r = Some (entry_of (or_id r) i)"
  using get_written [OF assms]
  by (simp_all add: always_show_metadata_def always_show_entry_def get_str_trigger trigger_member entry_of_def)

lemma identity_built:
  assumes "serde_law env" "input_ok i"
  shows "identity_from_new env (build_always_show_rule env i) = Some (ai_identity i)"
  using serde_lawD [OF assms(1) map_like_trigger [of i]] assms(2)
  by (simp add: identity_from_new_def build_always_show_rule_def get_str_trigger trigger_member input_ok_def)

section \<open>Every stored rule reads\<close>

text \<open>
  The typing of the columns that hold JSON, for the parser \<open>p\<close>: the trigger and the action read, and a
  flow reads as a tree with at most three conditions on a path.
\<close>

definition typed_columns :: "(string \<Rightarrow> json option) \<Rightarrow> string \<Rightarrow> string \<Rightarrow> string option \<Rightarrow> bool" where
  "typed_columns p trigger action flow \<longleftrightarrow>
     Option.bind (p trigger) trigger_of_json \<noteq> None \<and>
     (\<exists>a. p action = Some a \<and> action_config_ok a) \<and>
     (case flow of
        None \<Rightarrow> True
      | Some src \<Rightarrow> \<exists>node. Option.bind (p src) flow_of_json = Some node \<and> condition_depth node \<le> 3)"

definition typed_rule :: "(string \<Rightarrow> json option) \<Rightarrow> ont_rule \<Rightarrow> bool" where
  "typed_rule p r \<longleftrightarrow> typed_columns p (or_trigger_config r) (or_action_config r) (or_flow_config r)"

definition typed_new :: "(string \<Rightarrow> json option) \<Rightarrow> new_ont_rule \<Rightarrow> bool" where
  "typed_new p nr \<longleftrightarrow> typed_columns p (nr_trigger_config nr) (nr_action_config nr) (nr_flow_config nr)"

definition rules_typed :: "(string \<Rightarrow> json option) \<Rightarrow> ont_store \<Rightarrow> bool" where
  "rules_typed p s \<longleftrightarrow> (\<forall>r \<in> set (on_rules s). typed_rule p r)"

lemma typed_update_rules:
  assumes "rules_typed p s" "\<And>r. typed_rule p (f r) = typed_rule p r"
  shows "rules_typed p (update_rules q f s)"
  using assms by (auto simp: rules_typed_def update_rules_def set_sql_update)

lemma typed_create: "rules_typed p s \<Longrightarrow> typed_new p nr \<Longrightarrow> rules_typed p (snd (create_rule nr now s))"
  by (simp add: rules_typed_def create_rule_def Let_def log_change_def typed_rule_def typed_new_def)

lemma typed_update:
  assumes "rules_typed p s" "typed_new p nr"
  shows "rules_typed p (snd (update_rule user_id rule_id nr now s))"
proof -
  have "typed_rule p r" if "r \<in> set (on_rules (snd (update_rule user_id rule_id nr now s)))" for r
    using that assms
    by (auto simp: update_rule_def Let_def rules_typed_def set_sql_update typed_rule_def typed_new_def
        split: option.splits if_splits)
  then show ?thesis by (simp add: rules_typed_def)
qed

lemma typed_delete: "rules_typed p s \<Longrightarrow> rules_typed p (delete_rule user_id rule_id now s)"
  by (simp add: rules_typed_def delete_rule_def log_change_def)

lemma typed_writes: "rule_writes k s s' \<Longrightarrow> rules_typed p s \<Longrightarrow> rules_typed p s'"
proof (induction rule: rule_writes.induct)
  case (claim_write s now)
  then show ?case by (simp add: try_claim_rule_def Let_def typed_update_rules typed_rule_def)
qed (simp_all add: update_rule_status_def update_rule_last_triggered_def typed_update_rules typed_rule_def)

lemma typed_next_fire: "rules_typed p s \<Longrightarrow> rules_typed p (update_rule_next_fire_at k n now s)"
  by (simp add: update_rule_next_fire_at_def typed_update_rules typed_rule_def)

lemma typed_pass:
  assumes "rules_typed p s"
  shows "rules_typed p (snd (schedule_pass env clock s))"
proof -
  have one: "rules_typed p s \<Longrightarrow> rules_typed p (reschedule_rule env clock r s)" for r s
    by (simp add: reschedule_rule_def Let_def typed_next_fire split: option.split)
  have "rules_typed p (fold (reschedule_rule env clock) rs s)" for rs
    using assms one by (induction rs arbitrary: s) simp_all
  then show ?thesis
    by (simp add: schedule_pass_def expire_old_rules_def Let_def typed_update_rules typed_rule_def)
qed

lemma validated_typed:
  assumes "validate_request env clock user_id req = RuleOk n"
  shows "typed_new (re_parse env) (request_rule user_id req next_fire expires now)"
  using assms
  by (auto simp: validate_request_def typed_new_def typed_columns_def request_rule_def flow_check_def
      split: option.splits if_splits)

lemma built_typed:
  assumes "serde_law env" "input_ok i"
  shows "typed_new (re_parse env) (build_always_show_rule env i)"
proof -
  have "map_like (always_show_trigger i)" using assms(2) by (simp add: map_like_trigger input_ok_def)
  then show ?thesis
    using serde_lawD [OF assms(1)] notify_reads assms(2)
    by (simp add: typed_new_def typed_columns_def build_always_show_rule_def trigger_reads input_ok_def)
qed

definition contact_ok :: "contact \<Rightarrow> bool" where
  "contact_ok ct \<longleftrightarrow> (case ct_person_id ct of None \<Rightarrow> True | Some p \<Rightarrow> in_i32 p)"

definition entry_input :: "rules_env \<Rightarrow> contact list \<Rightarrow> i32 \<Rightarrow> always_show_request \<Rightarrow> string + always_show_input" where
  "entry_input env contacts user_id req =
     (case req of
        ShowPlatform contact_id mode \<Rightarrow>
          (case find (\<lambda>ct. ct_id ct = contact_id) contacts of
             None \<Rightarrow> Inl ''Select a contact or chat from the search results''
           | Some ct \<Rightarrow> platform_input user_id ct mode (re_now env))
      | ShowEmail email \<Rightarrow> email_input (re_unicode env) user_id email (re_now env))"

lemma build_entry_input: "build_entry env contacts user_id req = map_sum id (build_always_show_rule env) (entry_input env contacts user_id req)"
  by (simp add: build_entry_def entry_input_def build_platform_always_show_rule_with_mode_def
      build_email_always_show_rule_def split: always_show_request.split option.split)

lemma entry_input_ok:
  assumes "entry_input env contacts user_id req = Inr i" "list_all contact_ok contacts"
  shows "input_ok i \<and> ai_user_id i = user_id"
proof (cases req)
  case (ShowPlatform contact_id mode)
  with assms(1) obtain ct where ct: "find (\<lambda>ct. ct_id ct = contact_id) contacts = Some ct"
      "platform_input user_id ct mode (re_now env) = Inr i"
    by (auto simp: entry_input_def split: option.splits)
  then have "contact_ok ct" using assms(2) by (auto simp: list_all_iff dest: find_SomeD)
  with ct(2) show ?thesis
    by (auto simp: platform_input_def input_ok_def contact_ok_def try_in_Inr split: option.splits if_splits)
next
  case (ShowEmail email)
  with assms(1) show ?thesis by (auto simp: entry_input_def email_input_def input_ok_def Let_def split: if_splits)
qed

lemma typed_show:
  assumes "rules_typed (re_parse env) s" "serde_law env" "list_all contact_ok contacts"
  shows "rules_typed (re_parse env) (snd (create_always_show env contacts user_id req s))"
proof (cases "entry_input env contacts user_id req")
  case (Inl m)
  with assms show ?thesis by (simp add: create_always_show_def build_entry_input)
next
  case (Inr i)
  have typed: "typed_new (re_parse env) (build_always_show_rule env i)"
    using entry_input_ok [OF Inr assms(3)] by (intro built_typed [OF assms(2)]) simp
  show ?thesis
    using typed_create [OF assms(1) typed] typed_update [OF assms(1) typed] Inr assms(1)
    by (auto simp: create_always_show_def build_entry_input split: option.split prod.split sum.split)
      (metis snd_conv)+
qed

text \<open>Everything that writes the table of rules, for one parser.\<close>

inductive rule_step :: "(string \<Rightarrow> json option) \<Rightarrow> ont_store \<Rightarrow> ont_store \<Rightarrow> bool" for p where
  step_create: "re_parse env = p \<Longrightarrow> rule_step p s (snd (create_rule_handler env clock users user_id req s))"
| step_update: "re_parse env = p \<Longrightarrow> rule_step p s (snd (update_rule_handler env clock users user_id rule_id req s))"
| step_status: "rule_step p s (snd (update_rule_status_handler user_id rule_id status now s))"
| step_delete: "rule_step p s (snd (delete_rule_handler user_id rule_id now s))"
| step_show: "re_parse env = p \<Longrightarrow> serde_law env \<Longrightarrow> list_all contact_ok contacts \<Longrightarrow>
    rule_step p s (snd (create_always_show env contacts user_id req s))"
| step_hide: "rule_step p s (snd (delete_always_show user_id rule_id now s))"
| step_evaluate: "rule_step p (rw_ont w) (rw_ont (evaluate_and_execute env r ctx snap w))"
| step_schedule: "rule_step p s (snd (schedule_pass env clock s))"

lemma rule_step_typed: "rule_step p s s' \<Longrightarrow> rules_typed p s \<Longrightarrow> rules_typed p s'"
proof (induction rule: rule_step.induct)
  case (step_create env s clock users user_id req)
  then show ?case
    by (auto simp: create_rule_handler_def Let_def case_prod_beta split: option.split rule_response.split
        intro!: typed_create validated_typed)
next
  case (step_update env s clock users user_id rule_id req)
  then show ?case
    by (auto simp: update_rule_handler_def case_prod_beta split: option.split rule_response.split sum.split
        intro!: typed_update validated_typed)
next
  case (step_status s user_id rule_id status now)
  then show ?case
    by (simp add: update_rule_status_handler_def update_rule_status_def typed_update_rules typed_rule_def split: sum.split)
next
  case (step_delete s user_id rule_id now)
  then show ?case by (simp add: delete_rule_handler_def typed_delete)
next
  case (step_show env contacts s user_id req)
  then show ?case using typed_show by blast
next
  case (step_hide s user_id rule_id now)
  then show ?case by (simp add: delete_always_show_def typed_delete split: sum.split)
next
  case (step_evaluate w env r ctx snap)
  have "rule_writes (or_id r) (rw_ont w) (rw_ont (evaluate_and_execute env r ctx snap w))" by (rule evaluation_result)
  with step_evaluate show ?case by (blast intro: typed_writes)
next
  case (step_schedule s env clock)
  then show ?case by (rule typed_pass)
qed

lemma reachable_typed:
  assumes "(rule_step p)\<^sup>*\<^sup>* s0 s" "rules_typed p s0"
  shows "rules_typed p s"
  using assms by (induction rule: rtranclp_induct) (auto intro: rule_step_typed)

text \<open>
  Claim C4. In every store that the handlers, the evaluations and the schedule job reach from one
  without rules, each rule is typed: its trigger and its action read, and its flow reads as a tree with
  at most three conditions on a path.
\<close>

theorem stored_rules_typed:
  assumes "(rule_step p)\<^sup>*\<^sup>* s0 s" "on_rules s0 = []" "r \<in> set (on_rules s)"
  shows "typed_rule p r"
  using reachable_typed [OF assms(1)] assms(2,3) by (simp add: rules_typed_def)

text \<open>
  Claim C6. One evaluation of a stored rule asks the language model at most three times and notifies or
  calls a tool at most once.
\<close>

theorem evaluation_is_bounded:
  assumes "(rule_step (re_parse env))\<^sup>*\<^sup>* s0 s" "on_rules s0 = []" "r \<in> set (on_rules s)"
  shows "\<exists>es. rw_trace (evaluate_and_execute env r ctx snap w) = rw_trace w @ es \<and> asks es \<le> 3 \<and> acts es \<le> 1"
proof -
  have "typed_rule (re_parse env) r" using reachable_typed [OF assms(1)] assms(2,3) by (simp add: rules_typed_def)
  then have depth: "(case Option.bind (or_flow_config r) (\<lambda>src. Option.bind (re_parse env src) flow_of_json) of
      None \<Rightarrow> 0 | Some node \<Rightarrow> condition_depth node) \<le> 3"
    by (auto simp: typed_rule_def typed_columns_def split: option.splits)
  show ?thesis
    by (rule evaluation_result [of env r ctx snap w]) (use depth in \<open>meson order_trans\<close>)
qed

end
