(* ===== verification/JsonCodec.thy ===== *)
theory JsonCodec
  imports RuleStore
begin

text \<open>
  A concrete reader and printer of JSON values for which the law of \<open>serde_json\<close> that the rule engine
  relies on holds (a prefix code, not the JSON syntax): the instances of the theorems about rules use it.
\<close>

fun esc :: "string \<Rightarrow> string" where
  "esc [] = ''!''"
| "esc (c # cs) = CHR ''.'' # c # esc cs"

fun unesc :: "string \<Rightarrow> (string \<times> string) option" where
  "unesc [] = None"
| "unesc [t] = (if t = CHR ''!'' then Some ([], []) else None)"
| "unesc (t # c # r) = (if t = CHR ''!'' then Some ([], c # r) else map_option (map_prod (Cons c) id) (unesc r))"

definition read_int :: "string \<Rightarrow> int" where
  "read_int s = (case s of [] \<Rightarrow> 0 | c # cs \<Rightarrow> if c = CHR ''-'' then - int (decimal cs) else int (decimal s))"

primrec encode :: "json \<Rightarrow> string" where
  "encode JNull = ''n''"
| "encode (JBool b) = (if b then ''t'' else ''f'')"
| "encode (JInt i) = CHR ''i'' # esc (show_int i)"
| "encode (JFloat s) = CHR ''d'' # esc s"
| "encode (JStr s) = CHR ''s'' # esc s"
| "encode (JArr vs) = CHR ''a'' # concat (map (Cons CHR ''+'') (map encode vs)) @ ''-''"
| "encode (JObj ms) =
     CHR ''o'' # concat (map (\<lambda>(k, e). CHR ''+'' # esc k @ e) (map (map_prod id encode) ms)) @ ''-''"

fun decode_value :: "nat \<Rightarrow> string \<Rightarrow> (json \<times> string) option"
  and decode_list :: "nat \<Rightarrow> string \<Rightarrow> (json list \<times> string) option"
  and decode_members :: "nat \<Rightarrow> string \<Rightarrow> ((string \<times> json) list \<times> string) option" where
  "decode_value 0 s = None"
| "decode_value (Suc n) s =
     (case s of
        [] \<Rightarrow> None
      | t # r \<Rightarrow>
          if t = CHR ''n'' then Some (JNull, r)
          else if t = CHR ''t'' then Some (JBool True, r)
          else if t = CHR ''f'' then Some (JBool False, r)
          else if t = CHR ''i'' then map_option (map_prod (\<lambda>x. JInt (read_int x)) id) (unesc r)
          else if t = CHR ''d'' then map_option (map_prod JFloat id) (unesc r)
          else if t = CHR ''s'' then map_option (map_prod JStr id) (unesc r)
          else if t = CHR ''a'' then map_option (map_prod JArr id) (decode_list n r)
          else if t = CHR ''o'' then map_option (map_prod JObj id) (decode_members n r)
          else None)"
| "decode_list 0 s = None"
| "decode_list (Suc n) s =
     (case s of
        [] \<Rightarrow> None
      | t # r \<Rightarrow>
          if t = CHR ''-'' then Some ([], r)
          else
            (case decode_value n r of
               None \<Rightarrow> None
             | Some (v, r') \<Rightarrow> map_option (map_prod (Cons v) id) (decode_list n r')))"
| "decode_members 0 s = None"
| "decode_members (Suc n) s =
     (case s of
        [] \<Rightarrow> None
      | t # r \<Rightarrow>
          if t = CHR ''-'' then Some ([], r)
          else
            (case unesc r of
               None \<Rightarrow> None
             | Some (k, r1) \<Rightarrow>
                 (case decode_value n r1 of
                    None \<Rightarrow> None
                  | Some (v, r') \<Rightarrow> map_option (map_prod (Cons (k, v)) id) (decode_members n r'))))"

definition decode :: "string \<Rightarrow> json option" where
  "decode s = (case decode_value (Suc (length s)) s of Some (v, []) \<Rightarrow> Some v | _ \<Rightarrow> None)"

lemma unesc_esc: "unesc (esc s @ r) = Some (s, r)"
proof (induction s)
  case Nil
  show ?case by (cases r) simp_all
qed simp

lemma read_show_int: "read_int (show_int i) = i"
proof (cases "i < 0")
  case True
  then show ?thesis by (simp add: read_int_def show_int_def decimal_show_nat)
next
  case False
  obtain c cs where digits: "show_nat (nat i) = c # cs" using show_nat_nonempty by (cases "show_nat (nat i)") auto
  then have "c \<in> set (show_nat (nat i))" by simp
  then have "c \<noteq> CHR ''-''" using show_nat_chars digit_char_not [of _ "CHR ''-''"] by fastforce
  with False digits show ?thesis using decimal_show_nat [of "nat i"] by (simp add: read_int_def show_int_def)
qed

lemma decode_encode:
  "length (encode v) < n \<Longrightarrow> decode_value n (encode v @ r) = Some (v, r)"
proof (induction v arbitrary: n r)
  case (JArr vs)
  have list: "\<forall>v \<in> set vs. \<forall>n r. length (encode v) < n \<longrightarrow> decode_value n (encode v @ r) = Some (v, r) \<Longrightarrow>
      length (concat (map (Cons CHR ''+'') (map encode vs))) < n \<Longrightarrow>
      decode_list n (concat (map (Cons CHR ''+'') (map encode vs)) @ CHR ''-'' # r) = Some (vs, r)" for vs n
  proof (induction vs arbitrary: n)
    case Nil
    then show ?case by (cases n) simp_all
  next
    case (Cons v vs)
    then obtain m where n: "n = Suc m" by (cases n) simp_all
    with Cons show ?case by simp
  qed
  obtain m where n: "n = Suc m" using JArr.prems by (cases n) simp_all
  then show ?case using list [of vs m] JArr by simp
next
  case (JObj ms)
  have members: "\<forall>(k, v) \<in> set ms. \<forall>n r. length (encode v) < n \<longrightarrow> decode_value n (encode v @ r) = Some (v, r) \<Longrightarrow>
      length (concat (map (\<lambda>(k, e). CHR ''+'' # esc k @ e) (map (map_prod id encode) ms))) < n \<Longrightarrow>
      decode_members n (concat (map (\<lambda>(k, e). CHR ''+'' # esc k @ e) (map (map_prod id encode) ms)) @ CHR ''-'' # r) =
        Some (ms, r)" for ms n
  proof (induction ms arbitrary: n)
    case Nil
    then show ?case by (cases n) simp_all
  next
    case (Cons m ms)
    then obtain j where n: "n = Suc j" by (cases n) simp_all
    obtain k v where "m = (k, v)" by fastforce
    with n Cons show ?case by (simp add: unesc_esc)
  qed
  obtain m where n: "n = Suc m" using JObj.prems by (cases n) simp_all
  have "\<forall>(k, v) \<in> set ms. \<forall>n r. length (encode v) < n \<longrightarrow> decode_value n (encode v @ r) = Some (v, r)"
    using JObj.IH by fastforce
  then show ?case using members [of ms m] JObj.prems n by simp
next
  case JNull
  then obtain m where "n = Suc m" by (cases n) simp_all
  then show ?case by simp
next
  case (JBool b)
  then obtain m where "n = Suc m" by (cases n) simp_all
  then show ?case by simp
next
  case (JInt i)
  then obtain m where "n = Suc m" by (cases n) simp_all
  then show ?case by (simp add: unesc_esc read_show_int)
next
  case (JFloat s)
  then obtain m where "n = Suc m" by (cases n) simp_all
  then show ?case by (simp add: unesc_esc)
next
  case (JStr s)
  then obtain m where "n = Suc m" by (cases n) simp_all
  then show ?case by (simp add: unesc_esc)
qed

lemma decode_encode_all: "decode (encode v) = Some v"
  using decode_encode [of v "Suc (length (encode v))" "[]"] by (simp add: decode_def)

declare encode.simps [simp del]

text \<open>An environment that reads and prints with this code satisfies the law.\<close>

lemma codec_law: "re_parse env = decode \<Longrightarrow> re_print env = encode \<circ> canonical \<Longrightarrow> serde_law env"
  by (simp add: serde_law_def prints_back_def decode_encode_all)

end
