(* ===== verification/AlwaysShow.thy ===== *)
theory AlwaysShow
  imports RuleStore
begin

text \<open>
  The always-show list of a user as an abstract map from identities to entries, and the proof that the
  handlers of \<^verbatim>\<open>rule_handlers.rs\<close> implement it on the table of rules; then what happens to a message of
  a sender on the list.
\<close>

section \<open>The abstract list\<close>

record show_state =
  st_entries :: "string \<Rightarrow> show_entry option"
  st_next_id :: i32

datatype show_op = Show always_show_request | Hide i32

text \<open>
  Adding an identity again replaces its entry under the number it has; a new identity gets the next
  number. Removing takes the entry with a number away.
\<close>

definition abstract_show :: "string + always_show_input \<Rightarrow> show_state \<Rightarrow> show_entry rule_response \<times> show_state" where
  "abstract_show input st =
     (case input of
        Inl message \<Rightarrow> (RuleErr 400 message, st)
      | Inr i \<Rightarrow>
          (case st_entries st (ai_identity i) of
             Some old \<Rightarrow>
               (RuleOk (entry_of (as_id old) i),
                st\<lparr>st_entries := (st_entries st)(ai_identity i \<mapsto> entry_of (as_id old) i)\<rparr>)
           | None \<Rightarrow>
               (RuleOk (entry_of (st_next_id st) i),
                \<lparr>st_entries = (st_entries st)(ai_identity i \<mapsto> entry_of (st_next_id st) i),
                 st_next_id = st_next_id st + 1\<rparr>)))"

definition abstract_hide :: "i32 \<Rightarrow> show_state \<Rightarrow> unit rule_response \<times> show_state" where
  "abstract_hide rule_id st =
     (if rule_id \<in> as_id ` ran (st_entries st)
      then (RuleOk (), st\<lparr>st_entries := (\<lambda>k. case st_entries st k of None \<Rightarrow> None
              | Some e \<Rightarrow> if as_id e = rule_id then None else Some e)\<rparr>)
      else (RuleErr 404 [], st))"

type_synonym show_answer = "show_entry rule_response + unit rule_response"

fun run_abstract :: "rules_env \<Rightarrow> contact list \<Rightarrow> i32 \<Rightarrow> (i32 \<times> show_op) list \<Rightarrow> show_state \<Rightarrow> show_answer list \<times> show_state" where
  "run_abstract env contacts user_id [] st = ([], st)"
| "run_abstract env contacts user_id ((now, op) # ops) st =
     (let (a, st') =
        (case op of
           Show req \<Rightarrow> map_prod Inl id (abstract_show (entry_input (env\<lparr>re_now := now\<rparr>) contacts user_id req) st)
         | Hide k \<Rightarrow> map_prod Inr id (abstract_hide k st))
      in map_prod (Cons a) id (run_abstract env contacts user_id ops st'))"

fun run_shows :: "rules_env \<Rightarrow> contact list \<Rightarrow> i32 \<Rightarrow> (i32 \<times> show_op) list \<Rightarrow> ont_store \<Rightarrow> show_answer list \<times> ont_store" where
  "run_shows env contacts user_id [] s = ([], s)"
| "run_shows env contacts user_id ((now, op) # ops) s =
     (let (a, s') =
        (case op of
           Show req \<Rightarrow> map_prod Inl id (create_always_show (env\<lparr>re_now := now\<rparr>) contacts user_id req s)
         | Hide k \<Rightarrow> map_prod Inr id (delete_always_show user_id k now s))
      in map_prod (Cons a) id (run_shows env contacts user_id ops s'))"

section \<open>The abstraction\<close>

definition show_map :: "rules_env \<Rightarrow> i32 \<Rightarrow> ont_store \<Rightarrow> string \<Rightarrow> show_entry option" where
  "show_map env user_id s identity =
     Option.bind (find (has_identity env identity) (get_active_rules user_id s)) (always_show_entry env)"

definition show_abs :: "rules_env \<Rightarrow> i32 \<Rightarrow> ont_store \<Rightarrow> show_state" where
  "show_abs env user_id s = \<lparr>st_entries = show_map env user_id s, st_next_id = on_next_rule_id s\<rparr>"

text \<open>
  The rows of the user's list: each was written for an input, they are active, and no two have the same
  identity; the numbers of rules are distinct and below the next one.
\<close>

definition mine :: "i32 \<Rightarrow> ont_rule \<Rightarrow> bool" where
  "mine user_id r \<longleftrightarrow> or_user_id r = user_id \<and> is_always_show_rule r"

definition show_inv :: "rules_env \<Rightarrow> i32 \<Rightarrow> ont_store \<Rightarrow> bool" where
  "show_inv env user_id s \<longleftrightarrow>
     distinct (map or_id (on_rules s)) \<and> (\<forall>r \<in> set (on_rules s). or_id r < on_next_rule_id s) \<and>
     (\<forall>r \<in> set (on_rules s). mine user_id r \<longrightarrow>
        or_status r = ''active'' \<and> (\<exists>i. input_ok i \<and> written_for env i r)) \<and>
     (\<forall>r \<in> set (on_rules s). \<forall>q \<in> set (on_rules s). \<forall>i. mine user_id r \<and> mine user_id q \<and>
        has_identity env i r \<and> has_identity env i q \<longrightarrow> or_id r = or_id q)"

lemma has_identity_mine: "has_identity env i r \<Longrightarrow> is_always_show_rule r"
  by (auto simp: has_identity_def always_show_metadata_def always_show_config_def split: option.splits if_splits)

lemma has_identity_written:
  assumes "serde_law env" "input_ok i" "written_for env i r"
  shows "has_identity env k r \<longleftrightarrow> k = ai_identity i"
  using metadata_written(1) [OF assms] by (auto simp: has_identity_def)

lemma find_mine:
  "show_inv env user_id s \<Longrightarrow>
     find (has_identity env k) (get_active_rules user_id s) =
     find (\<lambda>r. mine user_id r \<and> has_identity env k r) (on_rules s)"
proof -
  assume inv: "show_inv env user_id s"
  have "find P (filter Q t) = find (\<lambda>r. P r \<and> Q r) t" for P Q and t :: "ont_rule list"
    by (induction t) auto
  moreover have "(has_identity env k r \<and> or_user_id r = user_id \<and> or_status r = ''active'') =
      (mine user_id r \<and> has_identity env k r)" if "r \<in> set (on_rules s)" for r
    using that inv has_identity_mine unfolding show_inv_def mine_def by blast
  then have "find (\<lambda>r. has_identity env k r \<and> or_user_id r = user_id \<and> or_status r = ''active'') (on_rules s) =
      find (\<lambda>r. mine user_id r \<and> has_identity env k r) (on_rules s)"
    by (intro find_cong) simp_all
  ultimately show ?thesis by (simp add: get_active_rules_def sql_select_def)
qed

text \<open>The map says exactly which rows there are.\<close>

lemma show_map_Some:
  assumes "serde_law env" "show_inv env user_id s"
  shows "show_map env user_id s k = Some e \<longleftrightarrow>
    (\<exists>r i. r \<in> set (on_rules s) \<and> mine user_id r \<and> input_ok i \<and> written_for env i r \<and> ai_identity i = k \<and>
           e = entry_of (or_id r) i)"
    (is "?l \<longleftrightarrow> ?r")
proof
  assume ?l
  then obtain r where r: "find (\<lambda>r. mine user_id r \<and> has_identity env k r) (on_rules s) = Some r"
      "always_show_entry env r = Some e"
    unfolding show_map_def find_mine [OF assms(2)] by (auto simp: bind_eq_Some_conv)
  then have mem: "r \<in> set (on_rules s)" "mine user_id r" "has_identity env k r" by (auto dest: find_SomeD)
  with assms(2) obtain i where i: "input_ok i" "written_for env i r" unfolding show_inv_def by blast
  with r(2) mem show ?r
    using metadata_written(2) [OF assms(1) i] has_identity_written [OF assms(1) i] by auto
next
  assume ?r
  then obtain r i where r: "r \<in> set (on_rules s)" "mine user_id r" "input_ok i" "written_for env i r"
      "ai_identity i = k" "e = entry_of (or_id r) i" by blast
  then have own: "has_identity env k r" using has_identity_written [OF assms(1) r(3,4)] by simp
  have "find (\<lambda>r. mine user_id r \<and> has_identity env k r) (on_rules s) \<noteq> None"
    using r(1,2) own by (auto simp: find_None_iff)
  then obtain q where q: "find (\<lambda>r. mine user_id r \<and> has_identity env k r) (on_rules s) = Some q" by blast
  then have "q \<in> set (on_rules s)" "mine user_id q" "has_identity env k q" by (auto dest: find_SomeD)
  then have "or_id q = or_id r" using assms(2) r(1,2) own unfolding show_inv_def by blast
  then have "q = r" using assms(2) r(1) \<open>q \<in> set (on_rules s)\<close> unfolding show_inv_def by (auto intro: distinct_map_eqD)
  then show ?l
    unfolding show_map_def find_mine [OF assms(2)] q
    using metadata_written(2) [OF assms(1) r(3,4)] r(6) by simp
qed

lemma map_eqI: "(\<And>k e. m k = Some e \<longleftrightarrow> m' k = Some e) \<Longrightarrow> m = m'"
  by (rule ext) (metis not_Some_eq)

section \<open>The clock of a request\<close>

lemma now_irrelevant [simp]:
  "re_parse (env\<lparr>re_now := now\<rparr>) = re_parse env" "re_print (env\<lparr>re_now := now\<rparr>) = re_print env"
  by simp_all

lemma metadata_now [simp]: "always_show_metadata (env\<lparr>re_now := now\<rparr>) = always_show_metadata env"
  by (simp add: always_show_metadata_def always_show_config_def fun_eq_iff)

lemma identity_now [simp]: "has_identity (env\<lparr>re_now := now\<rparr>) = has_identity env"
  by (simp add: has_identity_def fun_eq_iff)

lemma entry_now [simp]: "always_show_entry (env\<lparr>re_now := now\<rparr>) = always_show_entry env"
  by (simp add: always_show_entry_def always_show_config_def fun_eq_iff)

lemma build_now [simp]: "build_always_show_rule (env\<lparr>re_now := now\<rparr>) = build_always_show_rule env"
  by (simp add: build_always_show_rule_def fun_eq_iff)

lemma new_identity_now [simp]: "identity_from_new (env\<lparr>re_now := now\<rparr>) = identity_from_new env"
  by (simp add: identity_from_new_def fun_eq_iff)

lemma answer_now [simp]: "answer_entry (env\<lparr>re_now := now\<rparr>) = answer_entry env"
  by (simp add: answer_entry_def fun_eq_iff)

section \<open>The steps\<close>

lemma mine_written: "written_for env i r \<Longrightarrow> or_user_id r = user_id \<Longrightarrow> mine user_id r"
  by (simp add: mine_def written_for_def)

lemma inv_identity:
  assumes "serde_law env" "show_inv env user_id s" "r \<in> set (on_rules s)" "q \<in> set (on_rules s)"
    "mine user_id r" "mine user_id q" "input_ok i" "input_ok j" "written_for env i r" "written_for env j q"
    "ai_identity i = ai_identity j"
  shows "r = q"
proof -
  have "has_identity env (ai_identity i) r" "has_identity env (ai_identity i) q"
    using has_identity_written [OF assms(1,7,9)] has_identity_written [OF assms(1,8,10)] assms(11) by simp_all
  then have "or_id r = or_id q" using assms(2-6) unfolding show_inv_def by blast
  then show ?thesis using assms(2-4) unfolding show_inv_def by (auto intro: distinct_map_eqD)
qed

text \<open>The invariant in the form that is shown of a new table.\<close>

lemma show_invI:
  assumes "serde_law env" "distinct (map or_id (on_rules s))" "\<And>r. r \<in> set (on_rules s) \<Longrightarrow> or_id r < on_next_rule_id s"
    and "\<And>r. r \<in> set (on_rules s) \<Longrightarrow> mine user_id r \<Longrightarrow>
           or_status r = ''active'' \<and> (\<exists>i. input_ok i \<and> written_for env i r)"
    and "\<And>r q i j. r \<in> set (on_rules s) \<Longrightarrow> q \<in> set (on_rules s) \<Longrightarrow> mine user_id r \<Longrightarrow> mine user_id q \<Longrightarrow>
           input_ok i \<Longrightarrow> input_ok j \<Longrightarrow> written_for env i r \<Longrightarrow> written_for env j q \<Longrightarrow>
           ai_identity i = ai_identity j \<Longrightarrow> or_id r = or_id q"
  shows "show_inv env user_id s"
  unfolding show_inv_def
proof (intro conjI ballI allI impI)
  fix r q i
  assume r: "r \<in> set (on_rules s)" "q \<in> set (on_rules s)"
    "mine user_id r \<and> mine user_id q \<and> has_identity env i r \<and> has_identity env i q"
  obtain a where a: "input_ok a" "written_for env a r" using assms(4) r by blast
  obtain b where b: "input_ok b" "written_for env b q" using assms(4) r by blast
  have "ai_identity a = i" "ai_identity b = i"
    using r(3) has_identity_written [OF assms(1) a] has_identity_written [OF assms(1) b] by metis+
  then show "or_id r = or_id q" using assms(5) [OF r(1,2) _ _ a(1) b(1) a(2) b(2)] r(3) by simp
qed (use assms in auto)

text \<open>A new entry.\<close>

lemma append_step:
  assumes "serde_law env" "show_inv env user_id s" "input_ok i" "written_for env i r" "or_user_id r = user_id"
    and "or_status r = ''active''" "or_id r = on_next_rule_id s" "show_map env user_id s (ai_identity i) = None"
    and "on_rules s' = on_rules s @ [r]" "on_next_rule_id s' = on_next_rule_id s + 1"
  shows "show_inv env user_id s'"
    and "show_map env user_id s' = (show_map env user_id s)(ai_identity i \<mapsto> entry_of (or_id r) i)"
proof -
  have inv: "distinct (map or_id (on_rules s))" "\<And>r. r \<in> set (on_rules s) \<Longrightarrow> or_id r < on_next_rule_id s"
    using assms(2) unfolding show_inv_def by blast+
  have none: False if "q \<in> set (on_rules s)" "mine user_id q" "input_ok j" "written_for env j q" "ai_identity j = ai_identity i" for q j
    using that assms(8) show_map_Some [OF assms(1,2)] by (metis option.distinct(1))
  have self: "ai_identity j = ai_identity i" if "input_ok j" "written_for env j r" for j
    using has_identity_written [OF assms(1) that] has_identity_written [OF assms(1,3,4)] by blast
  show inv': "show_inv env user_id s'"
  proof (rule show_invI [OF assms(1)])
    have "on_next_rule_id s \<notin> or_id ` set (on_rules s)" using inv(2) by force
    then show "distinct (map or_id (on_rules s'))" using inv(1) assms(7,9) by simp
    fix q assume q: "q \<in> set (on_rules s')"
    then show "or_id q < on_next_rule_id s'" using inv(2) [of q] assms(7,9,10) by auto
    show "or_status q = ''active'' \<and> (\<exists>i. input_ok i \<and> written_for env i q)" if "mine user_id q"
      using q that assms(2,3,4,6,9) unfolding show_inv_def by auto
  next
    fix a b j k
    assume *: "a \<in> set (on_rules s')" "b \<in> set (on_rules s')" "mine user_id a" "mine user_id b"
      "input_ok j" "input_ok k" "written_for env j a" "written_for env k b" "ai_identity j = ai_identity k"
    consider "a \<in> set (on_rules s)" "b \<in> set (on_rules s)" | "a = r" "b = r"
      | "a = r" "b \<in> set (on_rules s)" | "a \<in> set (on_rules s)" "b = r"
      using *(1,2) assms(9) by auto
    then show "or_id a = or_id b"
    proof cases
      case 1
      then show ?thesis using inv_identity [OF assms(1,2)] * by blast
    next
      case 3
      then show ?thesis using none [OF 3(2) *(4,6,8)] self [of j] * by simp
    next
      case 4
      then show ?thesis using none [OF 4(1) *(3,5,7)] self [of k] * by simp
    qed simp
  qed
  show "show_map env user_id s' = (show_map env user_id s)(ai_identity i \<mapsto> entry_of (or_id r) i)"
  proof (rule map_eqI)
    fix k e
    show "show_map env user_id s' k = Some e \<longleftrightarrow>
        ((show_map env user_id s)(ai_identity i \<mapsto> entry_of (or_id r) i)) k = Some e"
    proof (cases "k = ai_identity i")
      case True
      have "show_map env user_id s' k = Some (entry_of (or_id r) i)"
        unfolding show_map_Some [OF assms(1) inv']
        using assms(3,4,5,9) mine_written True by (intro exI [of _ r] exI [of _ i]) simp
      with True show ?thesis by auto
    next
      case False
      then show ?thesis
        using self assms(9) by (auto simp: show_map_Some [OF assms(1) inv'] show_map_Some [OF assms(1,2)])
    qed
  qed
qed

text \<open>An entry that is written again, under the number of the row \<open>q\<close>.\<close>

lemma replace_step:
  assumes "serde_law env" "show_inv env user_id s" "input_ok i" "q \<in> set (on_rules s)" "mine user_id q"
    and "has_identity env (ai_identity i) q"
    and "written_for env i r" "or_user_id r = user_id" "or_status r = ''active''" "or_id r = or_id q"
    and "\<And>x. x \<in> set (on_rules s') \<longleftrightarrow> x = r \<or> x \<in> set (on_rules s) \<and> x \<noteq> q"
    and "map or_id (on_rules s') = map or_id (on_rules s)" "on_next_rule_id s' = on_next_rule_id s"
  shows "show_inv env user_id s'"
    and "show_map env user_id s' = (show_map env user_id s)(ai_identity i \<mapsto> entry_of (or_id q) i)"
proof -
  have inv: "distinct (map or_id (on_rules s))" "\<And>r. r \<in> set (on_rules s) \<Longrightarrow> or_id r < on_next_rule_id s"
    using assms(2) unfolding show_inv_def by blast+
  obtain j where j: "input_ok j" "written_for env j q" using assms(2,4,5) unfolding show_inv_def by blast
  then have j_id: "ai_identity j = ai_identity i"
    using has_identity_written [OF assms(1) j] assms(6) by simp
  have none: False if "x \<in> set (on_rules s)" "x \<noteq> q" "mine user_id x" "input_ok k" "written_for env k x"
      "ai_identity k = ai_identity i" for x k
    using inv_identity [OF assms(1,2) that(1) assms(4) that(3) assms(5) that(4) j(1) that(5) j(2)] that(2,6) j_id by simp
  have self: "ai_identity k = ai_identity i" if "input_ok k" "written_for env k r" for k
    using has_identity_written [OF assms(1) that] has_identity_written [OF assms(1,3,7)] by blast
  show inv': "show_inv env user_id s'"
  proof (rule show_invI [OF assms(1)])
    show "distinct (map or_id (on_rules s'))" using inv(1) assms(12) by simp
    fix x assume x: "x \<in> set (on_rules s')"
    then show "or_id x < on_next_rule_id s'" using inv(2) assms(4,10,11,13) by auto
    show "or_status x = ''active'' \<and> (\<exists>i. input_ok i \<and> written_for env i x)" if "mine user_id x"
      using x that assms(2,3,7,9,11) unfolding show_inv_def by auto
  next
    fix a b k l
    assume *: "a \<in> set (on_rules s')" "b \<in> set (on_rules s')" "mine user_id a" "mine user_id b"
      "input_ok k" "input_ok l" "written_for env k a" "written_for env l b" "ai_identity k = ai_identity l"
    consider "a \<in> set (on_rules s)" "b \<in> set (on_rules s)" | "a = r" "b = r"
      | "a = r" "b \<in> set (on_rules s)" "b \<noteq> q" | "a \<in> set (on_rules s)" "a \<noteq> q" "b = r"
      using *(1,2) assms(11) by blast
    then show "or_id a = or_id b"
    proof cases
      case 1
      then show ?thesis using inv_identity [OF assms(1,2)] * by blast
    next
      case 3
      then show ?thesis using none [OF 3(2,3) *(4,6,8)] self [of k] * by simp
    next
      case 4
      then show ?thesis using none [OF 4(1,2) *(3,5,7)] self [of l] * by simp
    qed simp
  qed
  show "show_map env user_id s' = (show_map env user_id s)(ai_identity i \<mapsto> entry_of (or_id q) i)"
  proof (rule map_eqI)
    fix k e
    show "show_map env user_id s' k = Some e \<longleftrightarrow>
        ((show_map env user_id s)(ai_identity i \<mapsto> entry_of (or_id q) i)) k = Some e"
    proof (cases "k = ai_identity i")
      case True
      have "show_map env user_id s' k = Some (entry_of (or_id q) i)"
        unfolding show_map_Some [OF assms(1) inv']
        using assms(3,7,8,10,11) mine_written True by (intro exI [of _ r] exI [of _ i]) simp
      with True show ?thesis by auto
    next
      case False
      have "ai_identity l \<noteq> k" if "input_ok l" "written_for env l q" for l
        using has_identity_written [OF assms(1) that] assms(6) False by auto
      with False show ?thesis
        using self assms(11)
        by (auto simp: show_map_Some [OF assms(1) inv'] show_map_Some [OF assms(1,2)])
    qed
  qed
qed

lemma update_written:
  assumes "distinct (map or_id (on_rules s))" "q \<in> set (on_rules s)" "or_user_id q = user_id"
  obtains r s' where "update_rule user_id (or_id q) (build_always_show_rule env i) now s = (Inr r, s')"
    "written_for env i r" "or_user_id r = or_user_id q" "or_status r = or_status q" "or_id r = or_id q"
    "\<forall>x. x \<in> set (on_rules s') \<longleftrightarrow> x = r \<or> x \<in> set (on_rules s) \<and> x \<noteq> q"
    "map or_id (on_rules s') = map or_id (on_rules s)" "on_next_rule_id s' = on_next_rule_id s"
proof -
  let ?nr = "build_always_show_rule env i"
  let ?f = "\<lambda>r. r\<lparr>or_name := nr_name ?nr, or_trigger_type := nr_trigger_type ?nr,
                     or_trigger_config := nr_trigger_config ?nr, or_logic_type := nr_logic_type ?nr,
                     or_logic_prompt := nr_logic_prompt ?nr, or_logic_fetch := nr_logic_fetch ?nr,
                     or_action_type := nr_action_type ?nr, or_action_config := nr_action_config ?nr,
                     or_next_fire_at := nr_next_fire_at ?nr, or_flow_config := nr_flow_config ?nr,
                     or_updated_at := now\<rparr>"
  let ?p = "own_rule user_id (or_id q)"
  have only: "?p x \<longleftrightarrow> x = q" if "x \<in> set (on_rules s)" for x
    using that assms by (auto simp: own_rule_def intro: distinct_map_eqD)
  have "sql_first ?p (on_rules s) = Some q"
    using sql_first_unique [OF assms(1,2), where p = ?p] assms(3) by (simp add: own_rule_def)
  then have "sql_update_get ?p ?f (on_rules s) = Some (?f q)" by (simp add: sql_update_get_first)
  then have "update_rule user_id (or_id q) ?nr now s = (Inr (?f q), s\<lparr>on_rules := sql_update ?p ?f (on_rules s)\<rparr>)"
    by (simp add: update_rule_def Let_def)
  then show thesis
  proof (rule that)
    show "written_for env i (?f q)"
      by (simp add: written_for_def is_always_show_rule_def build_always_show_rule_def)
    show "\<forall>x. x \<in> set (on_rules (s\<lparr>on_rules := sql_update ?p ?f (on_rules s)\<rparr>)) \<longleftrightarrow>
        x = ?f q \<or> x \<in> set (on_rules s) \<and> x \<noteq> q"
      using only assms(2) by (auto simp: set_sql_update)
  next
    show "map or_id (on_rules (s\<lparr>on_rules := sql_update ?p ?f (on_rules s)\<rparr>)) = map or_id (on_rules s)"
      by (simp add: map_sql_update)
  qed simp_all
qed

lemma create_written:
  obtains r s' where "create_rule (build_always_show_rule env i) now s = (r, s')"
    "written_for env i r" "or_user_id r = ai_user_id i" "or_status r = ''active''" "or_id r = on_next_rule_id s"
    "on_rules s' = on_rules s @ [r]" "on_next_rule_id s' = on_next_rule_id s + 1"
  by (simp add: create_rule_def Let_def log_change_def written_for_def is_always_show_rule_def
      build_always_show_rule_def)

lemma answer_written:
  assumes "serde_law env" "input_ok i" "written_for env i r"
  shows "answer_entry env r = RuleOk (entry_of (or_id r) i)"
  using metadata_written(2) [OF assms] by (simp add: answer_entry_def)

lemma show_refines:
  assumes "serde_law env" "show_inv env user_id s" "list_all contact_ok contacts"
    and "create_always_show (env\<lparr>re_now := now\<rparr>) contacts user_id req s = (a, s')"
  shows "abstract_show (entry_input (env\<lparr>re_now := now\<rparr>) contacts user_id req) (show_abs env user_id s) =
      (a, show_abs env user_id s') \<and> show_inv env user_id s'"
proof (cases "entry_input (env\<lparr>re_now := now\<rparr>) contacts user_id req")
  case (Inl message)
  with assms(2,4) show ?thesis by (auto simp: create_always_show_def build_entry_input abstract_show_def)
next
  case (Inr i)
  have i: "input_ok i" "ai_user_id i = user_id" using entry_input_ok [OF Inr assms(3)] by simp_all
  note built = build_entry_input [of "env\<lparr>re_now := now\<rparr>" contacts user_id req, unfolded Inr]
  note new_id = identity_built [OF assms(1) i(1)]
  show ?thesis
  proof (cases "find (has_identity env (ai_identity i)) (get_active_rules user_id s)")
    case None
    then have none: "show_map env user_id s (ai_identity i) = None" by (simp add: show_map_def)
    obtain r t where c: "create_rule (build_always_show_rule env i) now s = (r, t)"
        "written_for env i r" "or_user_id r = ai_user_id i" "or_status r = ''active''" "or_id r = on_next_rule_id s"
        "on_rules t = on_rules s @ [r]" "on_next_rule_id t = on_next_rule_id s + 1"
      by (rule create_written)
    have out: "a = RuleOk (entry_of (or_id r) i)" "s' = t"
      using assms(4) None c(1) answer_written [OF assms(1) i(1) c(2)]
      by (simp_all add: create_always_show_def built new_id)
    have uid: "or_user_id r = user_id" using c(3) i(2) by simp
    note step = append_step [OF assms(1,2) i(1) c(2) uid c(4,5) none c(6,7)]
    show ?thesis using step none c(5,7) Inr unfolding out by (simp add: abstract_show_def show_abs_def)
  next
    case (Some q)
    then have q: "q \<in> set (on_rules s)" "mine user_id q" "has_identity env (ai_identity i) q"
      using find_mine [OF assms(2), of "ai_identity i"] by (auto dest: find_SomeD)
    have dist: "distinct (map or_id (on_rules s))" using assms(2) unfolding show_inv_def by blast
    have uid: "or_user_id q = user_id" using q(2) by (simp add: mine_def)
    obtain r t where u: "update_rule user_id (or_id q) (build_always_show_rule env i) now s = (Inr r, t)"
        "written_for env i r" "or_user_id r = or_user_id q" "or_status r = or_status q" "or_id r = or_id q"
        "\<forall>x. x \<in> set (on_rules t) \<longleftrightarrow> x = r \<or> x \<in> set (on_rules s) \<and> x \<noteq> q"
        "map or_id (on_rules t) = map or_id (on_rules s)" "on_next_rule_id t = on_next_rule_id s"
      by (rule update_written [OF dist q(1) uid, where env = env and i = i and now = now])
    have out: "a = RuleOk (entry_of (or_id q) i)" "s' = t"
      using assms(4) Some u(1,5) answer_written [OF assms(1) i(1) u(2)]
      by (simp_all add: create_always_show_def built new_id)
    have active: "or_status r = ''active''" using u(4) q(1,2) assms(2) unfolding show_inv_def by simp
    have ruid: "or_user_id r = user_id" using u(3) uid by simp
    note step = replace_step [OF assms(1,2) i(1) q u(2) ruid active u(5) u(6) [rule_format] u(7,8)]
    obtain j where j: "input_ok j" "written_for env j q" using assms(2) q(1,2) unfolding show_inv_def by blast
    have "show_map env user_id s (ai_identity i) = Some (entry_of (or_id q) j)"
      using metadata_written(2) [OF assms(1) j] Some by (simp add: show_map_def)
    then show ?thesis using step u(8) Inr unfolding out by (simp add: abstract_show_def show_abs_def entry_of_def)
  qed
qed

lemma hide_refines:
  assumes "serde_law env" "show_inv env user_id s" "delete_always_show user_id k now s = (a, s')"
  shows "abstract_hide k (show_abs env user_id s) = (a, show_abs env user_id s') \<and> show_inv env user_id s'"
proof -
  have dist: "distinct (map or_id (on_rules s))" using assms(2) unfolding show_inv_def by blast
  have in_map: "k \<in> as_id ` ran (show_map env user_id s) \<longleftrightarrow> (\<exists>r \<in> set (on_rules s). mine user_id r \<and> or_id r = k)"
  proof
    assume "k \<in> as_id ` ran (show_map env user_id s)"
    then obtain i e where "show_map env user_id s i = Some e" "k = as_id e" by (auto simp: ran_def)
    then show "\<exists>r \<in> set (on_rules s). mine user_id r \<and> or_id r = k"
      by (auto simp: show_map_Some [OF assms(1,2)] entry_of_def)
  next
    assume "\<exists>r \<in> set (on_rules s). mine user_id r \<and> or_id r = k"
    then obtain r where r: "r \<in> set (on_rules s)" "mine user_id r" "or_id r = k" by blast
    then obtain i where i: "input_ok i" "written_for env i r" using assms(2) unfolding show_inv_def by blast
    with r have "show_map env user_id s (ai_identity i) = Some (entry_of (or_id r) i)"
      unfolding show_map_Some [OF assms(1,2)] by blast
    then have "entry_of (or_id r) i \<in> ran (show_map env user_id s)" by (rule ranI)
    then show "k \<in> as_id ` ran (show_map env user_id s)" using r(3) by (force simp: entry_of_def)
  qed
  show ?thesis
  proof (cases "\<exists>r \<in> set (on_rules s). mine user_id r \<and> or_id r = k")
    case False
    have "a = RuleErr 404 [] \<and> s' = s"
    proof (cases "sql_first (own_rule user_id k) (on_rules s)")
      case None
      then show ?thesis using assms(3) by (simp add: delete_always_show_def get_rule_def)
    next
      case (Some r)
      then have "\<not> is_always_show_rule r" using False by (auto simp: mine_def own_rule_def dest!: sql_first_Some)
      with Some show ?thesis using assms(3) by (simp add: delete_always_show_def get_rule_def)
    qed
    with False in_map assms(2) show ?thesis by (simp add: abstract_hide_def show_abs_def)
  next
    case True
    then obtain r where r: "r \<in> set (on_rules s)" "mine user_id r" "or_id r = k" by blast
    have "sql_first (own_rule user_id k) (on_rules s) = Some r"
      using sql_first_unique [OF dist r(1), where p = "own_rule user_id k"] r(2,3)
      by (simp add: own_rule_def mine_def)
    then have out: "a = RuleOk ()" "s' = delete_rule user_id k now s"
      using assms(3) r(2) by (simp_all add: delete_always_show_def get_rule_def mine_def)
    have rows: "on_rules s' = sql_delete (own_rule user_id k) (on_rules s)" "on_next_rule_id s' = on_next_rule_id s"
      by (simp_all add: out delete_rule_def log_change_def)
    have mem: "x \<in> set (on_rules s') \<longleftrightarrow> x \<in> set (on_rules s) \<and> \<not> own_rule user_id k x" for x
      by (simp add: rows)
    have inv': "show_inv env user_id s'"
      using assms(2) distinct_sql_delete [OF dist, of "own_rule user_id k"]
      unfolding show_inv_def mem rows(2) by (simp add: rows(1))
    have "show_map env user_id s' = (\<lambda>i. case show_map env user_id s i of None \<Rightarrow> None
        | Some e \<Rightarrow> if as_id e = k then None else Some e)"
    proof (rule map_eqI)
      fix i e
      have "show_map env user_id s' i = Some e \<longleftrightarrow> show_map env user_id s i = Some e \<and> as_id e \<noteq> k"
        unfolding show_map_Some [OF assms(1,2)] show_map_Some [OF assms(1) inv'] mem
        by (auto simp: own_rule_def mine_def entry_of_def)
      then show "show_map env user_id s' i = Some e \<longleftrightarrow>
          (case show_map env user_id s i of None \<Rightarrow> None | Some e \<Rightarrow> if as_id e = k then None else Some e) = Some e"
        by (auto split: option.split)
    qed
    with True in_map inv' rows(2) show ?thesis by (simp add: abstract_hide_def show_abs_def out(1))
  qed
qed

lemma runs_refine:
  assumes "serde_law env" "list_all contact_ok contacts"
  shows "show_inv env user_id s \<Longrightarrow>
    run_abstract env contacts user_id ops (show_abs env user_id s) =
      map_prod id (show_abs env user_id) (run_shows env contacts user_id ops s) \<and>
    show_inv env user_id (snd (run_shows env contacts user_id ops s))"
proof (induction ops arbitrary: s)
  case (Cons p ops)
  obtain now op where p: "p = (now, op)" by fastforce
  show ?case
  proof (cases op)
    case (Show req)
    obtain a s' where c: "create_always_show (env\<lparr>re_now := now\<rparr>) contacts user_id req s = (a, s')" by fastforce
    note step = show_refines [OF assms(1) Cons.prems assms(2) c]
    with Cons.IH [of s'] show ?thesis
      by (cases "run_shows env contacts user_id ops s'") (simp add: p Show c)
  next
    case (Hide k)
    obtain a s' where c: "delete_always_show user_id k now s = (a, s')" by fastforce
    note step = hide_refines [OF assms(1) Cons.prems c]
    with Cons.IH [of s'] show ?thesis
      by (cases "run_shows env contacts user_id ops s'") (simp add: p Hide c)
  qed
qed simp

lemma in_map_filter: "e \<in> set (List.map_filter f xs) \<longleftrightarrow> (\<exists>x \<in> set xs. f x = Some e)"
  by (induction xs) (auto simp: map_filter_simps split: option.splits)

lemma list_is_range:
  assumes "serde_law env" "show_inv env user_id s"
  shows "set (list_always_show env user_id s) = ran (show_map env user_id s)"
proof -
  have "e \<in> set (list_always_show env user_id s) \<longleftrightarrow>
      (\<exists>r \<in> set (on_rules s). or_user_id r = user_id \<and> or_status r = ''active'' \<and> always_show_entry env r = Some e)" for e
    by (auto simp: list_always_show_def get_rules_def in_map_filter)
  also have "(\<exists>r \<in> set (on_rules s). or_user_id r = user_id \<and> or_status r = ''active'' \<and> always_show_entry env r = Some e)
      \<longleftrightarrow> (\<exists>k. show_map env user_id s k = Some e)" for e
  proof
    assume "\<exists>r \<in> set (on_rules s). or_user_id r = user_id \<and> or_status r = ''active'' \<and> always_show_entry env r = Some e"
    then obtain r where r: "r \<in> set (on_rules s)" "or_user_id r = user_id" "always_show_entry env r = Some e" by blast
    then have "is_always_show_rule r"
      by (auto simp: always_show_entry_def always_show_metadata_def always_show_config_def bind_eq_Some_conv split: if_splits)
    with r have m: "mine user_id r" by (simp add: mine_def)
    with assms(2) r(1) obtain i where i: "input_ok i" "written_for env i r" unfolding show_inv_def by blast
    with r(3) have "e = entry_of (or_id r) i" using metadata_written(2) [OF assms(1) i] by simp
    with r(1) m i show "\<exists>k. show_map env user_id s k = Some e" unfolding show_map_Some [OF assms] by blast
  next
    assume "\<exists>k. show_map env user_id s k = Some e"
    then obtain r i where r: "r \<in> set (on_rules s)" "mine user_id r" "input_ok i" "written_for env i r" "e = entry_of (or_id r) i"
      unfolding show_map_Some [OF assms] by blast
    then show "\<exists>r \<in> set (on_rules s). or_user_id r = user_id \<and> or_status r = ''active'' \<and> always_show_entry env r = Some e"
      using metadata_written(2) [OF assms(1) r(3,4)] assms(2) unfolding show_inv_def mine_def by blast
  qed
  finally show ?thesis by (auto simp: ran_def)
qed

text \<open>
  Claim C3. The always-show handlers refine the abstract map from identities to entries: any sequence of
  additions and removals of a user gives the answers of the map and ends in a table whose list is the
  range of the map; adding an identity again changes its entry in place.
\<close>

theorem always_show_refines_map:
  assumes "serde_law env" "list_all contact_ok contacts" "show_inv env user_id s"
  shows "run_abstract env contacts user_id ops (show_abs env user_id s) =
      map_prod id (show_abs env user_id) (run_shows env contacts user_id ops s) \<and>
    set (list_always_show env user_id (snd (run_shows env contacts user_id ops s))) =
      ran (st_entries (snd (run_abstract env contacts user_id ops (show_abs env user_id s))))"
  using runs_refine [OF assms(1,2,3), of ops] list_is_range [OF assms(1)]
  by (simp add: show_abs_def)

section \<open>A message of a sender on the list\<close>

fun no_urgency :: "change_task \<Rightarrow> bool" where
  "no_urgency (UrgencyClassification _ _ _) = False"
| "no_urgency _ = True"

text \<open>An incoming mail of an address: what the bridge puts into the snapshot.\<close>

definition mail_from :: "unicode \<Rightarrow> string \<Rightarrow> json \<Rightarrow> bool" where
  "mail_from u address snap \<longleftrightarrow>
     eq_ignore_ascii_case (str_or_empty ''platform'' snap) ''email'' \<and>
     eq_ignore_ascii_case (trim (str_or_empty ''sender_key'' snap)) (trim (to_lowercase u (trim address))) \<and>
     \<not> sent_by_user snap \<and> \<not> flag_set ''is_group'' snap \<and> get_str ''status'' snap \<noteq> Some ''completed''"

lemma rule_trigger_now [simp]: "rule_trigger (env\<lparr>re_now := t\<rparr>) = rule_trigger env"
  by (simp add: rule_trigger_def fun_eq_iff)

lemma written_trigger:
  assumes "serde_law env" "input_ok i" "written_for env i r"
  shows "Option.bind (re_parse env (or_trigger_config r)) trigger_of_json = Some (trigger_of_input i)"
    "rule_trigger env r = trigger_of_input i"
proof -
  have ok: "case ai_person_id i of None \<Rightarrow> True | Some p \<Rightarrow> in_i32 p" using assms(2) by (simp add: input_ok_def)
  show read: "Option.bind (re_parse env (or_trigger_config r)) trigger_of_json = Some (trigger_of_input i)"
    using serde_lawD [OF assms(1) map_like_trigger [OF ok]] assms(3) trigger_reads [OF ok] by (simp add: written_for_def)
  show "rule_trigger env r = trigger_of_input i" by (simp add: rule_trigger_def read)
qed

lemma mail_matches:
  assumes "serde_law env" "email_input (re_unicode env) user_id address now = Inr i" "written_for env i r"
    and "mail_from (re_unicode env) address snap"
  shows "matches_trigger (re_parse env) (re_unicode env) r ''Message'' ''created'' snap"
proof -
  from assms(2) have i: "input_ok i" "trigger_of_input i = default_trigger\<lparr>tc_entity_type := Some ''Message'',
      tc_change := Some ''created'',
      tc_filters := Some [(''platform'', ''email''), (''sender'', to_lowercase (re_unicode env) (trim address))],
      tc_resolved_sender_key := Some (to_lowercase (re_unicode env) (trim address)), tc_incoming_only := True,
      tc_always_show_is_group := Some False, tc_delay_seconds := Some 0\<rparr>"
    by (auto simp: email_input_def Let_def input_ok_def trigger_of_input_def default_trigger_def split: if_splits)
  show ?thesis
    using assms(4)
    by (simp add: matches_trigger_def written_trigger(1) [OF assms(1) i(1) assms(3)] i(2) default_trigger_def
        mail_from_def group_admits_def is_group_message_def sender_resolves_def filter_admits_def
        has_resolved_sender_def eq_ignore_ascii_case_def)
qed

lemma always_show_evaluation:
  assumes "serde_law env" "input_ok i" "written_for env i r"
    and "or_flow_config r = Some (re_print env notify_flow)" "or_expires_at r = None"
  shows "evaluate_and_execute (env\<lparr>re_now := t\<rparr>) r ctx (Some snap) w =
    notify_action (env\<lparr>re_now := t\<rparr>) r (Some snap) (canonical notify_config)
      (format_snapshot_message (re_unicode env) snap)
      (map_ont (update_rule_last_triggered (or_id r) t) w)"
proof -
  have "get_str ''message'' (canonical notify_config) = None"
    by (simp add: notify_config_def get_str_def)
  moreover have "re_parse env (re_print env notify_flow) = Some (canonical notify_flow)"
    by (rule serde_lawD [OF assms(1) notify_reads(3)])
  moreover have "\<not> over_budget (env\<lparr>re_now := t\<rparr>) r"
    using assms(3) by (simp add: over_budget_def written_for_def Let_def)
  moreover have "\<not> one_shot_rule (env\<lparr>re_now := t\<rparr>) r"
    using written_trigger(2) [OF assms(1-3)] by (simp add: one_shot_rule_def trigger_of_input_def)
  ultimately show ?thesis
    using assms(4,5) notify_reads(5)
    by (simp add: evaluate_and_execute_def run_flow_def execute_flow_action_def action_message_def)
qed


end
