(* ===== verification/RuleScheduleProperties.thy ===== *)
theory RuleScheduleProperties
  imports RuleProperties
begin

text \<open>
  Properties of schedules: a recurring pattern names the next matching local time, a rule that has been
  rescheduled is not due before, and what happens in the gap of a change to summer time.
\<close>

section \<open>The next local time\<close>

definition at_time :: "nat \<Rightarrow> nat \<Rightarrow> int \<Rightarrow> bool" where
  "at_time hour minute t \<longleftrightarrow> t mod 86400 = int hour * 3600 + int minute * 60"

definition next_local :: "(int \<Rightarrow> bool) \<Rightarrow> int \<Rightarrow> int \<Rightarrow> bool" where
  "next_local P local t \<longleftrightarrow> P t \<and> local < t \<and> (\<forall>t'. P t' \<and> local < t' \<longrightarrow> t \<le> t')"

lemma day_time:
  assumes "(0::int) \<le> hm" "hm < 86400"
  shows "(d * 86400 + hm) div 86400 = d" "(d * 86400 + hm) mod 86400 = hm"
  using assms by (simp_all add: div_pos_pos_trivial)

text \<open>The first day from \<open>c\<close> on with a property, and the time of day on it.\<close>

lemma next_local_first_day:
  assumes "(0::int) \<le> hm" "hm < 86400" "Q d" "local < d * 86400 + hm"
    and first: "\<And>e. Q e \<Longrightarrow> local < e * 86400 + hm \<Longrightarrow> d \<le> e"
  shows "next_local (\<lambda>t. t mod 86400 = hm \<and> Q (t div 86400)) local (d * 86400 + hm)"
  unfolding next_local_def
proof (intro conjI allI impI)
  fix t' assume t': "(t' mod 86400 = hm \<and> Q (t' div 86400)) \<and> local < t'"
  then have eq: "t' = t' div 86400 * 86400 + hm" by (metis div_mult_mod_eq)
  with t' have "d \<le> t' div 86400" by (intro first) auto
  with eq show "d * 86400 + hm \<le> t'" by linarith
qed (use assms day_time in simp_all)

lemma weekday_cycle: "target < 7 \<Longrightarrow> \<exists>d. c \<le> d \<and> d < c + 7 \<and> weekday d = target"
proof -
  assume t: "target < 7"
  let ?d = "c + (int target - (c + 3)) mod 7"
  have "(?d + 3) mod 7 = ((c + 3) + (int target - (c + 3)) mod 7) mod 7" by (simp add: algebra_simps)
  also have "\<dots> = int target mod 7" by (simp only: mod_add_right_eq) simp
  finally have "(?d + 3) mod 7 = int target mod 7" .
  with t have "weekday ?d = target" by (simp add: weekday_def)
  moreover have "0 \<le> (int target - (c + 3)) mod 7" "(int target - (c + 3)) mod 7 < 7" by simp_all
  ultimately show ?thesis by (intro exI [of _ ?d]) linarith
qed

lemma weekly_fire_first:
  assumes "hour < 24" "minute < 60"
    and "\<exists>d. c \<le> d \<and> d < c + int n \<and> weekday d = target \<and> local < d * 86400 + (int hour * 3600 + int minute * 60)"
  shows "\<exists>d. weekly_fire n tz local c target hour minute = instant tz (d * 86400 + (int hour * 3600 + int minute * 60)) \<and>
    weekday d = target \<and> local < d * 86400 + (int hour * 3600 + int minute * 60) \<and>
    (\<forall>e. c \<le> e \<and> weekday e = target \<and> local < e * 86400 + (int hour * 3600 + int minute * 60) \<longrightarrow> d \<le> e)"
  using assms(3)
proof (induction n arbitrary: c)
  case (Suc n)
  let ?hm = "int hour * 3600 + int minute * 60"
  have hms: "and_hms c hour minute = Some (c * 86400 + ?hm)" using assms(1,2) by (simp add: and_hms_def)
  show ?case
  proof (cases "weekday c = target \<and> local < c * 86400 + ?hm")
    case True
    then show ?thesis using hms by (intro exI [of _ c]) simp
  next
    case False
    then have run: "weekly_fire (Suc n) tz local c target hour minute = weekly_fire n tz local (c + 1) target hour minute"
      using hms by auto
    from Suc.prems obtain d where d: "c \<le> d" "d < c + int (Suc n)" "weekday d = target" "local < d * 86400 + ?hm"
      by blast
    with False have "d \<noteq> c" by blast
    with d have "c + 1 \<le> d \<and> d < c + 1 + int n \<and> weekday d = target \<and> local < d * 86400 + ?hm" by auto
    then obtain d' where d': "weekly_fire n tz local (c + 1) target hour minute = instant tz (d' * 86400 + ?hm)"
        "weekday d' = target" "local < d' * 86400 + ?hm"
        "\<forall>e. c + 1 \<le> e \<and> weekday e = target \<and> local < e * 86400 + ?hm \<longrightarrow> d' \<le> e"
      using Suc.IH [of "c + 1"] by blast
    have "d' \<le> e" if "c \<le> e" "weekday e = target" "local < e * 86400 + ?hm" for e
      using that False d'(4) by (cases "e = c") auto
    with d' run show ?thesis by auto
  qed
qed auto

lemma next_weekday_fire_first:
  assumes "hour < 24" "minute < 60"
    and "\<exists>d. c < d \<and> d \<le> c + int n \<and> weekday d < 5"
  shows "\<exists>d. next_weekday_fire n tz c hour minute = instant tz (d * 86400 + (int hour * 3600 + int minute * 60)) \<and>
    c < d \<and> weekday d < 5 \<and> (\<forall>e. c < e \<and> weekday e < 5 \<longrightarrow> d \<le> e)"
  using assms(3)
proof (induction n arbitrary: c)
  case (Suc n)
  let ?hm = "int hour * 3600 + int minute * 60"
  have hms: "and_hms (c + 1) hour minute = Some ((c + 1) * 86400 + ?hm)" using assms(1,2) by (simp add: and_hms_def)
  show ?case
  proof (cases "weekday (c + 1) < 5")
    case True
    then show ?thesis using hms by (intro exI [of _ "c + 1"]) auto
  next
    case False
    from Suc.prems obtain d where d: "c < d" "d \<le> c + int (Suc n)" "weekday d < 5" by blast
    with False have "d \<noteq> c + 1" by blast
    with d have "c + 1 < d \<and> d \<le> c + 1 + int n \<and> weekday d < 5" by auto
    then obtain d' where d': "next_weekday_fire n tz (c + 1) hour minute = instant tz (d' * 86400 + ?hm)"
        "c + 1 < d'" "weekday d' < 5" "\<forall>e. c + 1 < e \<and> weekday e < 5 \<longrightarrow> d' \<le> e"
      using Suc.IH [of "c + 1"] by blast
    have "d' \<le> e" if "c < e" "weekday e < 5" for e
      using that False d'(4) by (cases "e = c + 1") auto
    with d' False show ?thesis by auto
  qed
qed auto

lemma time_of_day: "hour < 24 \<Longrightarrow> minute < 60 \<Longrightarrow> 0 \<le> int hour * 3600 + int minute * 60 \<and> int hour * 3600 + int minute * 60 < 86400"
  by auto

lemma daily_fire_next:
  assumes "hour < 24" "minute < 60"
  shows "\<exists>t. daily_fire tz local hour minute = instant tz t \<and> next_local (at_time hour minute) local t"
proof -
  let ?hm = "int hour * 3600 + int minute * 60"
  let ?d = "local div 86400"
  have hms: "and_hms d hour minute = Some (d * 86400 + ?hm)" for d using assms by (simp add: and_hms_def)
  note hm = time_of_day [OF assms]
  have spec: "at_time hour minute = (\<lambda>t. t mod 86400 = ?hm \<and> (\<lambda>_. True) (t div 86400))"
    by (simp add: at_time_def fun_eq_iff)
  have loc: "?d * 86400 \<le> local" "local < (?d + 1) * 86400" by presburger+
  define d where "d = (if local < ?d * 86400 + ?hm then ?d else ?d + 1)"
  have "next_local (at_time hour minute) local (d * 86400 + ?hm)"
    unfolding spec
  proof (rule next_local_first_day)
    fix e assume "local < e * 86400 + ?hm"
    with hm loc show "d \<le> e" by (auto simp: d_def)
  qed (use hm loc in \<open>auto simp: d_def\<close>)
  moreover have "daily_fire tz local hour minute = instant tz (d * 86400 + ?hm)"
    by (simp add: daily_fire_def hms d_def)
  ultimately show ?thesis by blast
qed

lemma weekly_fire_next:
  assumes "hour < 24" "minute < 60" "target < 7"
  shows "\<exists>t. weekly_fire 8 tz local (local div 86400) target hour minute = instant tz t \<and>
    next_local (\<lambda>t. at_time hour minute t \<and> weekday (t div 86400) = target) local t"
proof -
  let ?hm = "int hour * 3600 + int minute * 60"
  let ?c = "local div 86400"
  note hm = time_of_day [OF assms(1,2)]
  have loc: "?c * 86400 \<le> local" "local < (?c + 1) * 86400" by presburger+
  obtain d0 where d0: "?c + 1 \<le> d0" "d0 < ?c + 1 + 7" "weekday d0 = target"
    using weekday_cycle [OF assms(3)] by blast
  with hm loc have "?c \<le> d0 \<and> d0 < ?c + int 8 \<and> weekday d0 = target \<and> local < d0 * 86400 + ?hm" by auto
  from weekly_fire_first [OF assms(1,2), of ?c 8, OF exI, OF this] obtain d where d:
      "weekly_fire 8 tz local ?c target hour minute = instant tz (d * 86400 + ?hm)" "weekday d = target"
      "local < d * 86400 + ?hm"
      "\<forall>e. ?c \<le> e \<and> weekday e = target \<and> local < e * 86400 + ?hm \<longrightarrow> d \<le> e"
    by blast
  have "next_local (\<lambda>t. t mod 86400 = ?hm \<and> weekday (t div 86400) = target) local (d * 86400 + ?hm)"
  proof (rule next_local_first_day)
    fix e assume e: "weekday e = target" "local < e * 86400 + ?hm"
    with hm loc have "?c \<le> e" by auto
    with e d(4) show "d \<le> e" by blast
  qed (use hm d in simp_all)
  with d(1) show ?thesis unfolding at_time_def by blast
qed

lemma weekdays_fire_next:
  assumes "hour < 24" "minute < 60"
  shows "\<exists>t. weekdays_fire tz local hour minute = instant tz t \<and>
    next_local (\<lambda>t. at_time hour minute t \<and> weekday (t div 86400) < 5) local t"
proof -
  let ?hm = "int hour * 3600 + int minute * 60"
  let ?c = "local div 86400"
  note hm = time_of_day [OF assms(1,2)]
  have hms: "and_hms ?c hour minute = Some (?c * 86400 + ?hm)" using assms by (simp add: and_hms_def)
  have loc: "?c * 86400 \<le> local" "local < (?c + 1) * 86400" by presburger+
  have "\<exists>d. weekdays_fire tz local hour minute = instant tz (d * 86400 + ?hm) \<and> weekday d < 5 \<and>
      local < d * 86400 + ?hm \<and> (\<forall>e. weekday e < 5 \<and> local < e * 86400 + ?hm \<longrightarrow> d \<le> e)"
  proof (cases "local < ?c * 86400 + ?hm \<and> weekday ?c < 5")
    case True
    have "?c \<le> e" if "local < e * 86400 + ?hm" for e using that hm loc by auto
    with True hms show ?thesis by (intro exI [of _ ?c]) (simp add: weekdays_fire_def)
  next
    case False
    obtain d0 where d0: "?c + 1 \<le> d0" "d0 < ?c + 1 + 7" "weekday d0 = 0"
      using weekday_cycle [of 0 "?c + 1"] by auto
    then have "?c < d0 \<and> d0 \<le> ?c + int 7 \<and> weekday d0 < 5" by auto
    from next_weekday_fire_first [OF assms, of ?c 7, OF exI, OF this] obtain d where d:
        "next_weekday_fire 7 tz ?c hour minute = instant tz (d * 86400 + ?hm)" "?c < d" "weekday d < 5"
        "\<forall>e. ?c < e \<and> weekday e < 5 \<longrightarrow> d \<le> e"
      by blast
    have "d \<le> e" if e: "weekday e < 5" "local < e * 86400 + ?hm" for e
    proof (rule d(4) [rule_format], intro conjI)
      have "?c \<le> e" using e hm loc by auto
      moreover have "e \<noteq> ?c" using False e by blast
      ultimately show "?c < e" by simp
    qed (rule e)
    moreover have "local < d * 86400 + ?hm" using d(2) hm loc by auto
    ultimately show ?thesis using d False hms
      by (intro exI [of _ d]) (auto simp: weekdays_fire_def)
  qed
  then obtain d where d: "weekdays_fire tz local hour minute = instant tz (d * 86400 + ?hm)" "weekday d < 5"
      "local < d * 86400 + ?hm" "\<forall>e. weekday e < 5 \<and> local < e * 86400 + ?hm \<longrightarrow> d \<le> e" by blast
  have "next_local (\<lambda>t. t mod 86400 = ?hm \<and> weekday (t div 86400) < 5) local (d * 86400 + ?hm)"
    by (rule next_local_first_day) (use hm d in auto)
  with d(1) show ?thesis unfolding at_time_def by blast
qed

text \<open>
  Claim C40. The three patterns with a time of day name the instant of the next local time that has that
  time of day, on any day, on a weekday, or on the given day of the week: it lies after the present
  local time and no matching one lies between.
\<close>

theorem next_fire_is_next:
  assumes "hour < 24" "minute < 60"
  shows "(\<exists>t. daily_fire tz local hour minute = instant tz t \<and> next_local (at_time hour minute) local t) \<and>
    (\<exists>t. weekdays_fire tz local hour minute = instant tz t \<and>
       next_local (\<lambda>t. at_time hour minute t \<and> weekday (t div 86400) < 5) local t) \<and>
    (\<forall>target < 7. \<exists>t. weekly_fire 8 tz local (local div 86400) target hour minute = instant tz t \<and>
       next_local (\<lambda>t. at_time hour minute t \<and> weekday (t div 86400) = target) local t)"
  using daily_fire_next [OF assms] weekdays_fire_next [OF assms] weekly_fire_next [OF assms] by blast

section \<open>The job\<close>

lemma on_rules_updates [simp]:
  "on_rules (update_rules p f s) = sql_update p f (on_rules s)"
  by (simp add: update_rules_def)

text \<open>What rescheduling the rule \<open>q\<close> makes of a row.\<close>

definition rescheduled :: "rules_env \<Rightarrow> rule_clock \<Rightarrow> ont_rule \<Rightarrow> i32 option" where
  "rescheduled env clock q = (if one_shot_rule env q then Some 2147483647 else recurring_next env clock q)"

lemma reschedule_rows:
  "on_rules (reschedule_rule env clock q s) =
     (case rescheduled env clock q of
        None \<Rightarrow> on_rules s
      | Some n \<Rightarrow>
          sql_update (\<lambda>r. or_id r = or_id q) (\<lambda>r. r\<lparr>or_next_fire_at := Some n, or_updated_at := re_now env\<rparr>) (on_rules s))"
  by (auto simp: reschedule_rule_def rescheduled_def Let_def update_rule_next_fire_at_def sql_update_def
      split: option.split)

definition touch_next :: "i32 option \<Rightarrow> i32 \<Rightarrow> ont_rule \<Rightarrow> ont_rule" where
  "touch_next n now r = (case n of None \<Rightarrow> r | Some t \<Rightarrow> r\<lparr>or_next_fire_at := Some t, or_updated_at := now\<rparr>)"

lemma touch_next_simps [simp]:
  "or_id (touch_next n now r) = or_id r" "or_user_id (touch_next n now r) = or_user_id r"
  "or_trigger_type (touch_next n now r) = or_trigger_type r"
  "or_trigger_config (touch_next n now r) = or_trigger_config r"
  "or_status (touch_next n now r) = or_status r" "or_expires_at (touch_next n now r) = or_expires_at r"
  "or_next_fire_at (touch_next n now r) = or_else n (or_next_fire_at r)"
  by (simp_all add: touch_next_def or_else_def split: option.split)

lemma reschedule_fold:
  assumes "distinct (map or_id qs)"
  shows "on_rules (fold (reschedule_rule env clock) qs s) =
    map (\<lambda>r. case find (\<lambda>q. or_id q = or_id r) qs of None \<Rightarrow> r | Some q \<Rightarrow> touch_next (rescheduled env clock q) (re_now env) r)
      (on_rules s)"
  using assms
proof (induction qs arbitrary: s)
  case (Cons q qs)
  have step: "on_rules (reschedule_rule env clock q s) =
      map (\<lambda>r. if or_id r = or_id q then touch_next (rescheduled env clock q) (re_now env) r else r) (on_rules s)"
    by (auto simp: reschedule_rows sql_update_def touch_next_def split: option.split intro: map_idI [symmetric])
  have "find (\<lambda>q'. or_id q' = or_id q) qs = None" using Cons.prems by (auto simp: find_None_iff) (metis image_eqI)
  then show ?case
    using Cons by (auto simp: step eq_commute [of "or_id q"] intro!: map_cong split: option.split)
qed simp

definition is_due :: "i32 \<Rightarrow> ont_rule \<Rightarrow> bool" where
  "is_due now r \<longleftrightarrow> or_trigger_type r = ''schedule'' \<and> or_status r = ''active'' \<and> opt_le (or_next_fire_at r) now"

lemma due_rules: "get_due_schedule_rules now s = filter (is_due now) (on_rules s)"
  by (simp add: get_due_schedule_rules_def sql_select_def is_due_def [abs_def])

lemma find_in_filter:
  "distinct (map or_id t) \<Longrightarrow> r \<in> set t \<Longrightarrow>
     find (\<lambda>q. or_id q = or_id r) (filter P t) = (if P r then Some r else None)"
proof (induction t)
  case (Cons a t)
  show ?case
  proof (cases "r = a")
    case True
    with Cons.prems have "or_id r \<notin> or_id ` set t" by simp
    then have "\<forall>x \<in> set (filter P t). or_id x \<noteq> or_id r" by (metis filter_is_subset image_eqI subsetD)
    then have "find (\<lambda>q. or_id q = or_id r) (filter P t) = None" by (simp add: find_None_iff)
    with True show ?thesis by simp
  next
    case False
    with Cons.prems have "or_id a \<noteq> or_id r" by force
    with False Cons show ?thesis by simp
  qed
qed simp

definition pass_touch :: "rules_env \<Rightarrow> rule_clock \<Rightarrow> ont_rule \<Rightarrow> ont_rule" where
  "pass_touch env clock r =
     (if is_due (re_now env) r then touch_next (rescheduled env clock r) (re_now env) r else r)"

lemma pass_rows:
  assumes "distinct (map or_id (on_rules s))"
  shows "on_rules (snd (schedule_pass env clock s)) =
    sql_update (\<lambda>r. or_status r = ''active'' \<and> opt_le (or_expires_at r) (re_now env))
      (\<lambda>r. r\<lparr>or_status := ''expired'', or_updated_at := re_now env\<rparr>)
      (map (pass_touch env clock) (on_rules s))"
proof -
  have ids: "distinct (map or_id (get_due_schedule_rules (re_now env) s))"
    using assms by (simp add: due_rules distinct_map_filter)
  have "on_rules (fold (reschedule_rule env clock) (get_due_schedule_rules (re_now env) s) s) =
      map (pass_touch env clock) (on_rules s)"
    unfolding reschedule_fold [OF ids]
    by (rule map_cong) (simp_all add: due_rules find_in_filter [OF assms] pass_touch_def)
  then show ?thesis by (simp add: schedule_pass_def expire_old_rules_def Let_def)
qed

lemma pass_touch_simps [simp]:
  "or_id (pass_touch env clock r) = or_id r" "or_trigger_type (pass_touch env clock r) = or_trigger_type r"
  "or_status (pass_touch env clock r) = or_status r" "or_expires_at (pass_touch env clock r) = or_expires_at r"
  by (simp_all add: pass_touch_def)

lemma pass_ids:
  assumes "distinct (map or_id (on_rules s))"
  shows "map or_id (on_rules (snd (schedule_pass env clock s))) = map or_id (on_rules s)"
  unfolding pass_rows [OF assms] by (subst map_sql_update) (simp_all add: o_def)

text \<open>What an evaluation leaves of a row.\<close>

definition row_after :: "ont_rule \<Rightarrow> ont_rule \<Rightarrow> bool" where
  "row_after r r' \<longleftrightarrow> or_id r' = or_id r \<and> or_trigger_type r' = or_trigger_type r \<and>
     or_trigger_config r' = or_trigger_config r \<and> or_user_id r' = or_user_id r \<and>
     or_next_fire_at r' = or_next_fire_at r \<and> or_expires_at r' = or_expires_at r \<and>
     (or_status r' = ''active'' \<longrightarrow> or_status r = ''active'')"

lemma row_after_refl [simp]: "row_after r r"
  by (simp add: row_after_def)

lemma row_after_trans: "row_after r r' \<Longrightarrow> row_after r' r'' \<Longrightarrow> row_after r r''"
  by (simp add: row_after_def)

lemma rows_trans: "list_all2 row_after t t' \<Longrightarrow> list_all2 row_after t' t'' \<Longrightarrow> list_all2 row_after t t''"
  by (rule list_all2_trans [where ?P2.0 = row_after]) (auto intro: row_after_trans)

lemma rule_writes_rows:
  "rule_writes k s s' \<Longrightarrow> list_all2 row_after (on_rules s) (on_rules s')"
proof (induction rule: rule_writes.induct)
  case (claim_write s now)
  show ?case unfolding claim_rows by (simp add: sql_update_def list_all2_map2 list.rel_refl row_after_def)
next
  case (expire_write s s' now)
  have "list_all2 row_after (on_rules s') (on_rules (update_rule_status k ''expired'' now s'))"
    by (simp add: update_rule_status_def sql_update_def list_all2_map2 list.rel_refl row_after_def)
  with expire_write(2) show ?case by (rule rows_trans)
next
  case (touch_write s s' now)
  have "list_all2 row_after (on_rules s') (on_rules (update_rule_last_triggered k now s'))"
    by (simp add: update_rule_last_triggered_def sql_update_def list_all2_map2 list.rel_refl row_after_def)
  with touch_write(2) show ?case by (rule rows_trans)
qed (simp add: list.rel_refl)

lemma evaluations_rows:
  "list_all2 row_after (on_rules (rw_ont w)) (on_rules (rw_ont (fold (\<lambda>r. evaluate_and_execute env r ctx snap) qs w)))"
proof (induction qs arbitrary: w)
  case (Cons q qs)
  have "rule_writes (or_id q) (rw_ont w) (rw_ont (evaluate_and_execute env q ctx snap w))"
    by (rule evaluation_result)
  from rule_writes_rows [OF this] show ?case
    using Cons [of "evaluate_and_execute env q ctx snap w"]
    by (auto elim: rows_trans)
qed (simp add: list.rel_refl)

lemma row_after_ids: "list_all2 row_after t t' \<Longrightarrow> map or_id t' = map or_id t"
  by (induction rule: list_all2_induct) (simp_all add: row_after_def)

lemma row_after_before: "list_all2 row_after t t' \<Longrightarrow> r' \<in> set t' \<Longrightarrow> \<exists>r \<in> set t. row_after r r'"
  by (metis list_all2_conv_all_nth in_set_conv_nth)

text \<open>
  A due rule that the job could reschedule to a time \<open>n\<close> (a one-shot rule: to the end of time)
  is in no later list of due rules before \<open>n\<close>, its own evaluation included.
\<close>

theorem rescheduled_is_not_due:
  assumes "distinct (map or_id (on_rules (rw_ont w)))"
    and "r \<in> set (get_due_schedule_rules (re_now env) (rw_ont w))"
    and "rescheduled env clock r = Some n" "t < n"
  shows "or_id r \<notin> or_id ` set (get_due_schedule_rules t (rw_ont (rule_schedule_job env clock w)))"
proof
  assume "or_id r \<in> or_id ` set (get_due_schedule_rules t (rw_ont (rule_schedule_job env clock w)))"
  then obtain r3 where r3: "r3 \<in> set (on_rules (rw_ont (rule_schedule_job env clock w)))" "is_due t r3" "or_id r3 = or_id r"
    by (auto simp: due_rules)
  obtain due_rules' s where pass: "schedule_pass env clock (rw_ont w) = (due_rules', s)" by fastforce
  have "list_all2 row_after (on_rules s) (on_rules (rw_ont (rule_schedule_job env clock w)))"
    using evaluations_rows [of "w\<lparr>rw_ont := s\<rparr>" env "schedule_context clock" None due_rules']
    by (simp add: rule_schedule_job_def pass)
  from row_after_before [OF this r3(1)] obtain r2 where r2: "r2 \<in> set (on_rules s)" "row_after r2 r3" by blast
  have rows: "on_rules s = sql_update (\<lambda>r. or_status r = ''active'' \<and> opt_le (or_expires_at r) (re_now env))
      (\<lambda>r. r\<lparr>or_status := ''expired'', or_updated_at := re_now env\<rparr>)
      (map (pass_touch env clock) (on_rules (rw_ont w)))"
    using pass_rows [OF assms(1), of env clock] by (simp add: pass)
  obtain r1 where r1: "r1 \<in> set (map (pass_touch env clock) (on_rules (rw_ont w)))"
      "or_id r2 = or_id r1" "or_next_fire_at r2 = or_next_fire_at r1"
    using r2(1) unfolding rows by (cases rule: in_sql_updateE) auto
  then obtain q where q: "q \<in> set (on_rules (rw_ont w))" "r1 = pass_touch env clock q" by auto
  have "or_id q = or_id r" using q r1 r2 r3 by (simp add: row_after_def)
  then have "q = r" using assms(1,2) q(1) by (auto simp: due_rules intro: distinct_map_eqD)
  then have "or_next_fire_at r3 = Some n"
    using assms(2,3) q r1 r2(2) by (simp add: row_after_def pass_touch_def due_rules or_else_def)
  with r3(2) assms(4) show False by (simp add: is_due_def)
qed

section \<open>The gap of a change to summer time\<close>

text \<open>A row whose status an evaluation keeps, for the rule with the number \<open>k\<close>.\<close>

definition kept :: "i32 \<Rightarrow> ont_rule \<Rightarrow> ont_rule \<Rightarrow> bool" where
  "kept k r r' \<longleftrightarrow> row_after r r' \<and> (or_id r = k \<longrightarrow> or_status r' = or_status r)"

lemma kept_refl [simp]: "kept k r r"
  by (simp add: kept_def)

lemma kept_trans: "list_all2 (kept k) t t' \<Longrightarrow> list_all2 (kept k) t' t'' \<Longrightarrow> list_all2 (kept k) t t''"
  by (rule list_all2_trans [where ?P2.0 = "kept k"]) (auto simp: kept_def row_after_def)

lemma kept_update:
  assumes "\<And>r. p r \<Longrightarrow> kept k r (f r)"
  shows "list_all2 (kept k) t (sql_update p f t)"
  using assms by (simp add: sql_update_def list_all2_map2 list.rel_refl)

lemma other_rule_keeps:
  "rule_writes j s s' \<Longrightarrow> j \<noteq> k \<Longrightarrow> list_all2 (kept k) (on_rules s) (on_rules s')"
proof (induction rule: rule_writes.induct)
  case (claim_write s now)
  then show ?case unfolding claim_rows by (intro kept_update) (simp add: kept_def row_after_def)
next
  case (expire_write s s' now)
  then have "list_all2 (kept k) (on_rules s') (on_rules (update_rule_status j ''expired'' now s'))"
    unfolding update_rule_status_def on_rules_updates by (intro kept_update) (simp add: kept_def row_after_def)
  with expire_write show ?case by (blast intro: kept_trans)
next
  case (touch_write s s' now)
  then have "list_all2 (kept k) (on_rules s') (on_rules (update_rule_last_triggered j now s'))"
    unfolding update_rule_last_triggered_def on_rules_updates by (intro kept_update) (simp add: kept_def row_after_def)
  with touch_write show ?case by (blast intro: kept_trans)
qed (simp add: list.rel_refl)

lemma own_evaluation_keeps:
  assumes "\<not> one_shot_rule env q" "or_expires_at q = None"
  shows "list_all2 (kept k) (on_rules (rw_ont w)) (on_rules (rw_ont (evaluate_and_execute env q ctx snap w)))"
proof -
  let ?w2 = "map_ont (update_rule_last_triggered (or_id q) (re_now env)) w"
  have same: "rw_ont (snd (run_flow env q ctx snap ?w2)) = rw_ont ?w2"
    using run_flow_grown [of ?w2 env q ctx snap] by (auto simp: grown_def)
  have touch: "list_all2 (kept k) (on_rules (rw_ont w)) (on_rules (rw_ont ?w2))"
  proof -
    have "on_rules (rw_ont ?w2) = sql_update (\<lambda>r. or_id r = or_id q)
        (\<lambda>r. r\<lparr>or_last_triggered_at := Some (re_now env), or_updated_at := re_now env\<rparr>) (on_rules (rw_ont w))"
      by (simp add: map_ont_def update_rule_last_triggered_def)
    then show ?thesis by (simp add: kept_update kept_def row_after_def)
  qed
  from assms have "rw_ont (evaluate_and_execute env q ctx snap w) =
      (if over_budget env q then rw_ont w else rw_ont ?w2)"
    by (simp add: evaluate_and_execute_def same)
  with touch show ?thesis by (simp add: list.rel_refl)
qed

lemma evaluations_keep:
  "\<forall>q \<in> set qs. or_id q = k \<longrightarrow> \<not> one_shot_rule env q \<and> or_expires_at q = None \<Longrightarrow>
     list_all2 (kept k) (on_rules (rw_ont w)) (on_rules (rw_ont (fold (\<lambda>r. evaluate_and_execute env r ctx snap) qs w)))"
proof (induction qs arbitrary: w)
  case (Cons q qs)
  have "rule_writes (or_id q) (rw_ont w) (rw_ont (evaluate_and_execute env q ctx snap w))"
    by (rule evaluation_result)
  then have "list_all2 (kept k) (on_rules (rw_ont w)) (on_rules (rw_ont (evaluate_and_execute env q ctx snap w)))"
    using Cons.prems by (cases "or_id q = k") (simp_all add: own_evaluation_keeps other_rule_keeps)
  with Cons show ?case by (auto elim: kept_trans)
qed (simp add: list.rel_refl)

text \<open>The numbers of the rules that each of several passes of the job evaluates.\<close>

fun job_passes :: "(rules_env \<times> rule_clock) list \<Rightarrow> rules_world \<Rightarrow> i32 list list" where
  "job_passes [] w = []"
| "job_passes ((env, clock) # passes) w =
     map or_id (fst (schedule_pass env clock (rw_ont w))) # job_passes passes (rule_schedule_job env clock w)"

definition stuck :: "ont_rule \<Rightarrow> ont_store \<Rightarrow> bool" where
  "stuck r s \<longleftrightarrow> (\<exists>q \<in> set (on_rules s). or_id q = or_id r \<and> or_trigger_config q = or_trigger_config r \<and>
     or_user_id q = or_user_id r \<and> or_trigger_type q = ''schedule'' \<and> or_status q = ''active'' \<and>
     or_next_fire_at q = or_next_fire_at r \<and> or_expires_at q = None)"

lemma config_cong:
  assumes "or_trigger_config q = or_trigger_config r" "or_user_id q = or_user_id r"
  shows "one_shot_rule env q = one_shot_rule env r" "recurring_next env clock q = recurring_next env clock r"
proof -
  have trigger: "rule_trigger env q = rule_trigger env r" using assms(1) by (simp add: rule_trigger_def)
  show "one_shot_rule env q = one_shot_rule env r" "recurring_next env clock q = recurring_next env clock r"
    by (simp_all only: one_shot_rule_def recurring_next_def trigger assms(2))
qed

lemma stuck_pass:
  assumes "distinct (map or_id (on_rules (rw_ont w)))" "stuck r (rw_ont w)"
    and "opt_le (or_next_fire_at r) (re_now env)" "\<not> one_shot_rule env r" "recurring_next env clock r = None"
  shows "or_id r \<in> set (map or_id (fst (schedule_pass env clock (rw_ont w))))"
    and "distinct (map or_id (on_rules (rw_ont (rule_schedule_job env clock w))))"
    and "stuck r (rw_ont (rule_schedule_job env clock w))"
proof -
  from assms(2) obtain q where q: "q \<in> set (on_rules (rw_ont w))" "or_id q = or_id r"
      "or_trigger_config q = or_trigger_config r" "or_user_id q = or_user_id r"
      "or_trigger_type q = ''schedule''" "or_status q = ''active''"
      "or_next_fire_at q = or_next_fire_at r" "or_expires_at q = None"
    unfolding stuck_def by blast
  have due: "is_due (re_now env) q" using q assms(3) by (simp add: is_due_def)
  have pass_fst: "fst (schedule_pass env clock (rw_ont w)) = filter (is_due (re_now env)) (on_rules (rw_ont w))"
    by (simp add: schedule_pass_def due_rules Let_def)
  have "or_id q \<in> or_id ` set (filter (is_due (re_now env)) (on_rules (rw_ont w)))"
    using due q(1) by (intro imageI) simp
  then show "or_id r \<in> set (map or_id (fst (schedule_pass env clock (rw_ont w))))" by (simp add: pass_fst q(2))
  obtain due_rules' s where pass: "schedule_pass env clock (rw_ont w) = (due_rules', s)" by fastforce
  have rescheduled: "rescheduled env clock q = None"
    using assms(4,5) config_cong [OF q(3,4)] by (simp add: rescheduled_def)
  then have "pass_touch env clock q = q" by (simp add: pass_touch_def touch_next_def)
  then have "q \<in> set (map (pass_touch env clock) (on_rules (rw_ont w)))" using q(1) by force
  then have q_in: "q \<in> set (on_rules s)"
    using pass_rows [OF assms(1), of env clock] q(8) by (auto simp: pass intro: sql_update_keepI)
  have "\<not> one_shot_rule env x \<and> or_expires_at x = None" if "x \<in> set due_rules'" "or_id x = or_id r" for x
  proof -
    have "x \<in> set (on_rules (rw_ont w))" using that(1) pass_fst by (simp add: pass)
    then have "x = q" using assms(1) q(1,2) that(2) by (auto intro: distinct_map_eqD)
    then show ?thesis using assms(4) q config_cong [OF q(3,4)] by simp
  qed
  then have keep: "list_all2 (kept (or_id r)) (on_rules s) (on_rules (rw_ont (rule_schedule_job env clock w)))"
    using evaluations_keep [of due_rules' "or_id r" env "w\<lparr>rw_ont := s\<rparr>"] by (simp add: rule_schedule_job_def pass)
  then obtain q' where "q' \<in> set (on_rules (rw_ont (rule_schedule_job env clock w)))" "kept (or_id r) q q'"
    using q_in by (metis list_all2_conv_all_nth in_set_conv_nth)
  then show "stuck r (rw_ont (rule_schedule_job env clock w))"
    using q unfolding stuck_def kept_def row_after_def by (intro bexI [of _ q']) auto
  have "list_all2 row_after (on_rules s) (on_rules (rw_ont (rule_schedule_job env clock w)))"
    using keep by (rule list_all2_mono) (simp add: kept_def)
  from row_after_ids [OF this] show "distinct (map or_id (on_rules (rw_ont (rule_schedule_job env clock w))))"
    using pass_ids [OF assms(1), of env clock] assms(1) by (simp add: pass)
qed

lemma stuck_passes:
  assumes "distinct (map or_id (on_rules (rw_ont w)))" "stuck r (rw_ont w)"
    and "\<forall>(env, clock) \<in> set passes. opt_le (or_next_fire_at r) (re_now env) \<and> \<not> one_shot_rule env r \<and>
           recurring_next env clock r = None"
  shows "list_all (\<lambda>ids. or_id r \<in> set ids) (job_passes passes w)"
  using assms
proof (induction passes w rule: job_passes.induct)
  case (2 env clock passes w)
  then have now: "opt_le (or_next_fire_at r) (re_now env)" "\<not> one_shot_rule env r" "recurring_next env clock r = None"
    by auto
  note pass = stuck_pass [OF 2(2,3) now]
  from 2(1) [OF pass(2,3)] 2(4) pass(1) show ?case by simp
qed simp

text \<open>
  A pass in the day before the gap: the pattern is daily at 02:30, and the local time \<open>gap\<close>, 02:30 of the
  next day, does not exist in the user's zone.
\<close>

definition gap_ahead :: "int \<Rightarrow> ont_rule \<Rightarrow> rules_env \<times> rule_clock \<Rightarrow> bool" where
  "gap_ahead gap r p =
     (case p of (env, clock) \<Rightarrow>
        opt_le (or_next_fire_at r) (re_now env) \<and> \<not> one_shot_rule env r \<and>
        tc_schedule (rule_trigger env r) = Some ''recurring'' \<and>
        tc_pattern (rule_trigger env r) = Some ''daily 02:30'' \<and>
        (case rc_zone clock (user_zone_name clock (or_user_id r)) of
           None \<Rightarrow> False
         | Some tz \<Rightarrow> tz_earliest tz gap = None \<and> gap - 86400 \<le> tz_local tz (re_now env) \<and>
             tz_local tz (re_now env) < gap))"

lemma gap_has_no_next:
  assumes "gap_ahead gap r (env, clock)" "at_time 2 30 gap"
  shows "recurring_next env clock r = None"
proof -
  obtain tz where tz: "rc_zone clock (user_zone_name clock (or_user_id r)) = Some tz" "tz_earliest tz gap = None"
      "gap - 86400 \<le> tz_local tz (re_now env)" "tz_local tz (re_now env) < gap"
    using assms(1) by (auto simp: gap_ahead_def split: option.splits)
  obtain t where t: "daily_fire tz (tz_local tz (re_now env)) 2 30 = instant tz t"
      "next_local (at_time 2 30) (tz_local tz (re_now env)) t"
    using daily_fire_next [of 2 30 tz "tz_local tz (re_now env)"] by auto
  have "t = gap"
  proof -
    from t(2) assms(2) tz(4) have "t \<le> gap" "at_time 2 30 t" "gap - 86400 < t"
      using tz(3) by (auto simp: next_local_def)
    have "t mod 86400 = gap mod 86400" using assms(2) \<open>at_time 2 30 t\<close> by (simp only: at_time_def)
    with \<open>t \<le> gap\<close> \<open>gap - 86400 < t\<close> show ?thesis
      by (smt (verit) mod_pos_pos_trivial mod_diff_cong mod_0)
  qed
  have split: "split_once '' '' ''daily 02:30'' = Some (''daily'', ''02:30'')" by code_simp
  have parts: "str_split (\<lambda>c. c = '':'') ''02:30'' = [''02'', ''30'']" by code_simp
  have hhmm: "parse_hhmm ''02:30'' = Some (2, 30)"
    by (simp add: parse_hhmm_def parts parse_u32_def digit_value_def)
  have "compute_next_fire_at (re_unicode env) clock (re_now env) ''daily 02:30''
      (user_zone_name clock (or_user_id r)) = None"
    using t(1) tz(1,2) \<open>t = gap\<close> by (simp add: compute_next_fire_at_def split hhmm instant_def)
  with assms(1) show ?thesis by (simp add: gap_ahead_def recurring_next_def Let_def)
qed

text \<open>
  When the next local time of a recurring rule falls into the gap of a change to summer time,
  the job finds no next time, leaves the old one, and evaluates the rule again in every pass, every
  minute of the day before the gap.
\<close>

theorem gap_rule_fires_every_minute:
  assumes "distinct (map or_id (on_rules (rw_ont w)))" "r \<in> set (on_rules (rw_ont w))"
    and "or_trigger_type r = ''schedule''" "or_status r = ''active''" "or_expires_at r = None"
    and "at_time 2 30 gap" "list_all (gap_ahead gap r) passes"
  shows "list_all (\<lambda>ids. or_id r \<in> set ids) (job_passes passes w)"
proof (rule stuck_passes [OF assms(1)])
  show "stuck r (rw_ont w)" using assms(2-5) by (auto simp: stuck_def)
  have "opt_le (or_next_fire_at r) (re_now env) \<and> \<not> one_shot_rule env r \<and> recurring_next env clock r = None"
    if "(env, clock) \<in> set passes" for env clock
  proof -
    have gap: "gap_ahead gap r (env, clock)" using assms(7) that by (simp only: list_all_iff)
    then show ?thesis using gap_has_no_next [OF gap assms(6)] unfolding gap_ahead_def prod.case by blast
  qed
  then show "\<forall>(env, clock) \<in> set passes. opt_le (or_next_fire_at r) (re_now env) \<and> \<not> one_shot_rule env r \<and>
      recurring_next env clock r = None" by blast
qed

section \<open>Times and expiries of a request\<close>

text \<open>
  A point in time that contains a T and a plus sign but is shorter than sixteen bytes and no
  RFC 3339 time makes \<^verbatim>\<open>create_rule\<close> panic when a rule is to fire once at it, whoever asks.
\<close>

theorem short_time_panics:
  assumes "plan_check users user_id = None"
    and "Option.bind (re_parse env (cr_trigger_config req)) trigger_of_json = Some c"
    and "tc_schedule c = Some ''once''" "tc_at c = Some at_text" "cr_trigger_type req = ''schedule''"
    and "Option.bind (re_parse env (cr_action_config req)) (\<lambda>a. if action_config_ok a then Some a else None) \<noteq> None"
    and "CHR ''T'' \<in> set (trim at_text)" "CHR ''+'' \<in> set (trim at_text)" "\<not> suffix ''Z'' (trim at_text)"
    and "length (trim at_text) < 16" "rc_rfc3339 clock (trim at_text) = None"
  shows "create_rule_handler env clock users user_id req s = (RulePanic, s)"
proof -
  obtain a where a: "re_parse env (cr_action_config req) = Some a" "action_config_ok a"
    using assms(6) by (cases "re_parse env (cr_action_config req)") (auto split: if_splits)
  have "parse_iso_to_timestamp clock at_text offset = None" for offset
    using assms(7-11) by (simp add: parse_iso_to_timestamp_def split_at_byte_def)
  then have "first_fire env clock user_id (cr_trigger_type req) c = None"
    using assms(3-5) by (simp add: first_fire_def)
  with assms(1,2) a show ?thesis by (simp add: create_rule_handler_def validate_request_def)
qed

text \<open>
  A life time so long that the sum with the present time exceeds an \<^verbatim>\<open>i32\<close> makes a rule that
  has expired when it is created: no evaluation of it does anything, and the next pass of the job
  retires it.
\<close>

theorem long_life_expires_at_once:
  assumes "create_rule_handler env clock users user_id req s = (RuleOk r, s')"
    and "cr_expires_in_secs req = Some secs" "in_i32 (re_now env)" "in_i32 secs" "2147483647 < re_now env + secs"
    and "re_now env \<le> re_now env2"
  shows "rw_trace (evaluate_and_execute env2 r ctx snap w) = rw_trace w \<and>
    r \<in> set (on_rules s') \<and> or_status r = ''active'' \<and> r \<notin> set (on_rules (snd (expire_old_rules (re_now env2) s')))"
proof -
  let ?e = "wrap_i32 (re_now env + secs)"
  obtain next_fire where r: "create_rule (request_rule user_id req next_fire (Some ?e) (re_now env)) (re_now env) s = (r, s')"
    using assms(1,2) by (auto simp: create_rule_handler_def Let_def split: option.splits rule_response.splits prod.splits)
  then have row: "or_expires_at r = Some ?e" "or_status r = ''active''" "r \<in> set (on_rules s')"
    by (auto simp: create_rule_def Let_def request_rule_def log_change_def)
  have range: "re_now env \<le> 2147483647" "secs \<le> 2147483647" using assms(3,4) by (simp_all add: in_i32_def i32_max_def)
  then have "(re_now env + secs + 2147483648) mod 4294967296 = re_now env + secs - 2147483648"
    using assms(5) by (subst mod_pos_geq) (simp_all add: mod_pos_pos_trivial)
  then have "?e = re_now env + secs - 4294967296" by (simp add: wrap_i32_def)
  then have late: "?e < re_now env2" using assms(4,6) by (simp add: in_i32_def i32_max_def)
  have "rw_trace (evaluate_and_execute env2 r ctx snap w) = rw_trace w"
    by (rule evaluation_result [of env2 r ctx snap w]) (use row(1) late in auto)
  moreover have "r \<notin> set (on_rules (snd (expire_old_rules (re_now env2) s')))"
  proof
    assume "r \<in> set (on_rules (snd (expire_old_rules (re_now env2) s')))"
    then have "r \<in> set (sql_update (\<lambda>r. or_status r = ''active'' \<and> opt_le (or_expires_at r) (re_now env2))
        (\<lambda>r. r\<lparr>or_status := ''expired'', or_updated_at := re_now env2\<rparr>) (on_rules s'))"
      by (simp add: expire_old_rules_def Let_def)
    then show False by (cases rule: in_sql_updateE) (use row late in auto)
  qed
  ultimately show ?thesis using row by blast
qed

end
