(* ===== verification/RuleFlow.thy ===== *)
theory RuleFlow
  imports JsonCodec AlwaysShow RuleScheduleProperties
begin

text \<open>Instances of the theorems about rules on concrete rules, messages and time zones.\<close>

section \<open>An environment\<close>

definition rf_unicode :: unicode where
  "rf_unicode = \<lparr>u_alphanumeric = (\<lambda>_. False), u_lowercase = (\<lambda>s. s)\<rparr>"

definition rf_env :: rules_env where
  "rf_env =
     \<lparr>re_parse = decode, re_print = encode \<circ> canonical, re_unicode = rf_unicode, re_now = 1000,
      re_user_context = (\<lambda>_. Inr None),
      re_chat = (\<lambda>_ _. Inr [Some [(Some ''rule_result'', Some (encode (JObj [(''condition_met'', JBool True)])))]]),
      re_tokens_since = (\<lambda>_ _. Inr 0), re_tools = (\<lambda>_. None), re_user = (\<lambda>_. Inr True),
      re_notify = (\<lambda>_ _ _ _. True), re_user_location = (\<lambda>_. None), re_weather = (\<lambda>_ _. Inl []),
      re_internet = (\<lambda>_ _. Inl []), re_tesla = (\<lambda>_. []), re_mcp = (\<lambda>_ _ _. [])\<rparr>"

lemma rf_env_simps [simp]:
  "re_parse rf_env = decode" "re_print rf_env = encode \<circ> canonical" "re_unicode rf_env = rf_unicode"
  "re_now rf_env = 1000"
  by (simp_all add: rf_env_def)

lemma rf_law: "serde_law rf_env"
  by (rule codec_law) simp_all

definition rf_rule :: "i32 \<Rightarrow> string \<Rightarrow> json \<Rightarrow> json \<Rightarrow> i32 option \<Rightarrow> ont_rule" where
  "rf_rule k trigger_type trigger flow next_fire =
     \<lparr>or_id = k, or_user_id = 1, or_name = ''r'', or_trigger_type = trigger_type,
      or_trigger_config = encode trigger, or_logic_type = ''flow'', or_logic_prompt = None, or_logic_fetch = None,
      or_action_type = ''notify'', or_action_config = encode (JObj []), or_status = ''active'',
      or_next_fire_at = next_fire, or_expires_at = None, or_last_triggered_at = None,
      or_created_at = 0, or_updated_at = 0, or_flow_config = Some (encode flow)\<rparr>"

lemma rf_rule_simps [simp]:
  "or_id (rf_rule k tt t f n) = k" "or_user_id (rf_rule k tt t f n) = 1" "or_status (rf_rule k tt t f n) = ''active''"
  "or_trigger_config (rf_rule k tt t f n) = encode t" "or_trigger_type (rf_rule k tt t f n) = tt"
  "or_next_fire_at (rf_rule k tt t f n) = n" "or_expires_at (rf_rule k tt t f n) = None"
  "or_logic_type (rf_rule k tt t f n) = ''flow''"
  by (simp_all add: rf_rule_def)

definition rf_flow :: json where
  "rf_flow = JObj [(''type'', JStr ''action''), (''action_type'', JStr ''notify''), (''config'', JObj [])]"

definition rf_store :: "ont_rule list \<Rightarrow> ont_store" where
  "rf_store rs = \<lparr>on_events = [], on_next_event_id = 1, on_rules = rs, on_next_rule_id = 1, on_changelog = [],
                  on_next_change_id = 1, on_health = []\<rparr>"

definition rf_world :: "ont_rule list \<Rightarrow> rules_world" where
  "rf_world rs = \<lparr>rw_ont = rf_store rs, rw_messages = \<lparr>ms_messages = [], ms_next_id = 1\<rparr>,
                  rw_links = \<lparr>ls_links = [], ls_next_id = 1\<rparr>, rw_trace = []\<rparr>"

lemma rf_rows [simp]: "on_rules (rf_store rs) = rs" "rw_ont (rf_world rs) = rf_store rs"
  by (simp_all add: rf_store_def rf_world_def)

lemma field_simps' [simp]:
  "json_field k [] = Some None"
  "json_field k ((k', v) # ms) =
     (if k' = k then (if k \<in> fst ` set ms then None else Some (Some v)) else json_field k ms)"
proof -
  show "json_field k [] = Some None" by (simp add: json_field_def)
  have none: "filter (\<lambda>(k', _). k' = k) ms = [] \<longleftrightarrow> k \<notin> fst ` set ms" by (force simp: filter_empty_conv)
  show "json_field k ((k', v) # ms) =
      (if k' = k then (if k \<in> fst ` set ms then None else Some (Some v)) else json_field k ms)"
    using none by (auto simp: json_field_def split: list.split)
qed

lemmas rf_read = optional_field_def default_field_def required_field_def rule_trigger_def decode_encode_all

section \<open>One-shot rules\<close>

definition rf_once :: ont_rule where
  "rf_once = rf_rule 7 ''ontology_change'' (JObj [(''fire_once'', JBool True)]) rf_flow None"

lemma rf_once_one_shot: "re_parse env = decode \<Longrightarrow> one_shot_rule env rf_once"
  by (simp add: one_shot_rule_def rf_once_def rf_read)


theorem budget_consumes_one_shot_witness:
  "rw_trace (evaluate_and_execute (rf_env\<lparr>re_tokens_since := \<lambda>_ _. Inr 200000\<rparr>) rf_once ''a'' None (rf_world [rf_once])) = [] \<and>
   \<not> rule_active 7 (rw_ont (evaluate_and_execute (rf_env\<lparr>re_tokens_since := \<lambda>_ _. Inr 200000\<rparr>) rf_once ''a'' None
      (rf_world [rf_once])))"
proof -
  let ?env = "rf_env\<lparr>re_tokens_since := \<lambda>_ _. Inr 200000\<rparr>"
  have "one_shot_rule ?env rf_once" by (rule rf_once_one_shot) simp
  moreover have "over_budget ?env rf_once"
    by (simp add: over_budget_def DAILY_TOKEN_BUDGET_def is_always_show_rule_def ALWAYS_SHOW_LOGIC_TYPE_def rf_once_def)
  ultimately show ?thesis
    using budget_consumes_one_shot [of ?env rf_once "''a''" None "rf_world [rf_once]" "[]"]
    by (simp add: rf_world_def rf_once_def)
qed

section \<open>Messages\<close>

definition rf_group :: ont_rule where
  "rf_group = rf_rule 8 ''ontology_change''
     (JObj [(''entity_type'', JStr ''Message''), (''resolved_room_id'', JStr ''!room''), (''group_mode'', JStr ''all'')])
     rf_flow None"

definition rf_group_message :: json where
  "rf_group_message = JObj [(''is_group'', JBool True), (''room_id'', JStr ''!room''), (''content'', JStr ''hi'')]"


text \<open>A rule on incoming messages without a group mode does ask the language model about a group message.\<close>

definition rf_incoming :: ont_rule where
  "rf_incoming = rf_rule 10 ''ontology_change''
     (JObj [(''entity_type'', JStr ''Message''), (''incoming_only'', JBool True)])
     (JObj [(''type'', JStr ''llm_condition''), (''prompt'', JStr ''urgent?'')]) None"

lemma rf_incoming_trigger:
  "rule_trigger rf_env rf_incoming = default_trigger\<lparr>tc_entity_type := Some ''Message'', tc_incoming_only := True\<rparr>"
  by (simp add: rf_incoming_def rf_read default_trigger_def)

lemma rf_incoming_flow: "run_flow rf_env rf_incoming ctx snap w =
    evaluate_flow rf_env rf_incoming ctx snap (LlmCondition ''urgent?'' [] None None) None None w"
proof -
  have "or_flow_config rf_incoming = Some (encode (JObj [(''type'', JStr ''llm_condition''), (''prompt'', JStr ''urgent?'')]))"
    by (simp add: rf_incoming_def rf_rule_def)
  then show ?thesis by (simp add: run_flow_def rf_read)
qed

lemma group_rule_asks:
  "matches_trigger (re_parse rf_env) rf_unicode rf_incoming ''Message'' ''created'' rf_group_message \<and>
   is_group_message ''Message'' rf_group_message \<and>
   (\<exists>q. rw_trace (evaluate_and_execute rf_env rf_incoming ctx (Some rf_group_message) (rf_world [])) = [LlmAsked q])"
proof (intro conjI)
  show "is_group_message ''Message'' rf_group_message"
    by (simp add: is_group_message_def rf_group_message_def flag_set_def get_bool_def eq_ignore_ascii_case_def)
  show "matches_trigger (re_parse rf_env) rf_unicode rf_incoming ''Message'' ''created'' rf_group_message"
    by (simp add: matches_trigger_def rf_incoming_def rf_group_message_def rf_read group_admits_def is_group_message_def
        flag_set_def get_bool_def get_str_def str_or_empty_def sender_resolves_def eq_ignore_ascii_case_def sent_by_user_def)
  have q: "re_user_context rf_env k = Inr None" "re_tokens_since rf_env k i = Inr 0" "or_expires_at rf_incoming = None" for k i
    by (simp_all add: rf_env_def rf_incoming_def)
  have chat: "re_chat rf_env n r =
      Inr [Some [(Some ''rule_result'', Some (encode (JObj [(''condition_met'', JBool True)])))]]" for n r
    by (simp add: rf_env_def)
  have answer: "read_choice rf_env (Some [(Some ''rule_result'', Some (encode (JObj [(''condition_met'', JBool True)])))]) =
      Inr \<lparr>lr_condition_met = True, lr_message = None, lr_extra = []\<rparr>"
    by (simp add: read_choice_def decode_encode_all required_field_def optional_field_def)
  have asked: "\<exists>q r. ask_condition rf_env rf_incoming ctx p [] None w = (Inr r, add_effect (LlmAsked q) w)" for p w
    by (auto simp: ask_condition_def call_llm_condition_def q(1) Let_def chat answer)
  have run: "\<exists>q. rw_trace (snd (run_flow rf_env rf_incoming ctx (Some rf_group_message) w)) = rw_trace w @ [LlmAsked q]" for w
    using asked [of "''urgent?''" w]
    by (auto simp: rf_incoming_flow rf_incoming_trigger default_trigger_def add_effect_def)
  have "\<not> one_shot_rule rf_env rf_incoming" "\<not> over_budget rf_env rf_incoming"
    by (simp_all add: one_shot_rule_def rf_incoming_trigger default_trigger_def over_budget_def q(2) DAILY_TOKEN_BUDGET_def)
  then have "evaluate_and_execute rf_env rf_incoming ctx (Some rf_group_message) (rf_world []) =
      snd (run_flow rf_env rf_incoming ctx (Some rf_group_message)
        (map_ont (update_rule_last_triggered (or_id rf_incoming) 1000) (rf_world [])))"
    by (simp add: evaluate_and_execute_def q(3))
  then show "\<exists>q. rw_trace (evaluate_and_execute rf_env rf_incoming ctx (Some rf_group_message) (rf_world [])) = [LlmAsked q]"
    using run [of "map_ont (update_rule_last_triggered (or_id rf_incoming) 1000) (rf_world [])"]
    by (simp add: map_ont_def rf_world_def)
qed

definition rf_tree :: flow_node where
  "rf_tree = LlmCondition ''template:summarize'' [] (Some (KeywordCondition ''pay'' (Some (Action ''notify'' (JObj []))) None)) None"


theorem keyword_matches_envelope_witness:
  "keyword_matches rf_unicode ''created''
      (change_context rf_env ''Message'' ''created'' 5 (JObj [(''content'', JStr ''see you'')]))"
proof -
  have "list_all is_ascii (re_print rf_env (JObj [(''content'', JStr ''see you'')]))"
    by (simp add: encode.simps is_ascii_def)
  from keyword_matches_envelope [OF this, of 5 "[]" "[]" 0 0] show ?thesis by simp
qed

section \<open>Schedules\<close>

theorem next_fire_is_next_witness:
  "\<exists>t. daily_fire utc_zone 1000 9 30 = instant utc_zone t \<and> next_local (at_time 9 30) 1000 t"
  using next_fire_is_next [of 9 30 utc_zone 1000] by simp

definition rf_clock :: "time_zone \<Rightarrow> rule_clock" where
  "rf_clock tz =
     \<lparr>rc_zone = (\<lambda>_. Some tz), rc_user_timezone = (\<lambda>_. None), rc_rfc3339 = (\<lambda>_. None),
      rc_naive_seconds = (\<lambda>_. None), rc_naive_minutes = (\<lambda>_. None), rc_date = (\<lambda>_. None), rc_fired_at = []\<rparr>"

definition rf_recurring :: "string \<Rightarrow> ont_rule" where
  "rf_recurring pattern =
     rf_rule 9 ''schedule'' (JObj [(''schedule'', JStr ''recurring''), (''pattern'', JStr pattern)]) rf_flow (Some 900)"

lemma rf_recurring_trigger:
  "re_parse env = decode \<Longrightarrow> tc_schedule (rule_trigger env (rf_recurring p)) = Some ''recurring''"
  "re_parse env = decode \<Longrightarrow> tc_pattern (rule_trigger env (rf_recurring p)) = Some p"
  "re_parse env = decode \<Longrightarrow> \<not> one_shot_rule env (rf_recurring p)"
  by (simp_all add: rf_recurring_def rf_read one_shot_rule_def)

theorem rescheduled_is_not_due_witness:
  "(9::i32) \<notin> or_id ` set (get_due_schedule_rules 4000
      (rw_ont (rule_schedule_job rf_env (rf_clock utc_zone) (rf_world [rf_recurring ''hourly'']))))"
proof -
  let ?r = "rf_recurring ''hourly''"
  have split: "split_once '' '' ''hourly'' = None" by code_simp
  have "rescheduled rf_env (rf_clock utc_zone) ?r = Some 4600"
    by (simp add: rescheduled_def rf_recurring_trigger recurring_next_def compute_next_fire_at_def split wrap_i32_def)
  from rescheduled_is_not_due [of "rf_world [?r]" ?r rf_env "rf_clock utc_zone" 4600 4000, OF _ _ this] show ?thesis
    by (simp add: get_due_schedule_rules_def sql_select_def rf_recurring_def)
qed

text \<open>A zone that skips the hour from 02:00 to 03:00 of the local day 10.\<close>

definition rf_zone :: time_zone where
  "rf_zone = \<lparr>tz_local = (\<lambda>t. if t < 871200 then t else t + 3600),
              tz_earliest = (\<lambda>l. if l < 871200 then Some l else if l < 874800 then None else Some (l - 3600))\<rparr>"

theorem gap_rule_fires_every_minute_witness:
  "list_all (\<lambda>ids. (9::i32) \<in> set ids)
     (job_passes (map (\<lambda>now. (rf_env\<lparr>re_now := now\<rparr>, rf_clock rf_zone)) [786660, 786720, 800000, 871140])
        (rf_world [rf_recurring ''daily 02:30'']))"
proof -
  let ?r = "rf_recurring ''daily 02:30''"
  have pass: "gap_ahead 873000 ?r (rf_env\<lparr>re_now := now\<rparr>, rf_clock rf_zone)" if "786600 \<le> now" "now < 871200" for now
    using that
    by (simp add: gap_ahead_def rf_recurring_trigger rf_clock_def rf_zone_def) (simp add: rf_recurring_def)
  have "list_all (\<lambda>ids. or_id ?r \<in> set ids)
      (job_passes (map (\<lambda>now. (rf_env\<lparr>re_now := now\<rparr>, rf_clock rf_zone)) [786660, 786720, 800000, 871140]) (rf_world [?r]))"
    by (rule gap_rule_fires_every_minute [where gap = 873000])
      (simp_all add: pass at_time_def, simp_all add: rf_recurring_def)
  then show ?thesis by (simp add: rf_recurring_def)
qed

section \<open>Stored rules\<close>

definition rf_request :: create_rule_request where
  "rf_request =
     \<lparr>cr_name = ''n'', cr_trigger_type = ''ontology_change'', cr_trigger_config = encode (JObj []),
      cr_logic_type = ''flow'', cr_logic_prompt = None, cr_logic_fetch = None, cr_action_type = ''notify'',
      cr_action_config = encode (JObj []), cr_expires_in_secs = None, cr_flow_config = Some (encode rf_flow)\<rparr>"

definition rf_users :: user_lookup where "rf_users = (\<lambda>_. Inr (Some (Some ''autopilot'')))"

definition rf_created :: "ont_rule \<times> ont_store" where
  "rf_created = create_rule (request_rule 1 rf_request None None 1000) 1000 (rf_store [])"

lemma rf_create: "create_rule_handler rf_env (rf_clock utc_zone) rf_users 1 rf_request (rf_store []) =
    (RuleOk (fst rf_created), snd rf_created)"
proof -
  have "validate_request rf_env (rf_clock utc_zone) 1 rf_request = RuleOk None"
    by (simp add: validate_request_def rf_request_def decode_encode_all optional_field_def default_field_def
        first_fire_def flow_check_def rf_flow_def required_field_def)
  then show ?thesis
    by (simp add: create_rule_handler_def plan_check_def rf_users_def has_auto_features_def rf_created_def
        rf_request_def split: prod.split)
qed

lemma rf_created_in: "fst rf_created \<in> set (on_rules (snd rf_created))"
  by (simp add: rf_created_def create_rule_def Let_def log_change_def)

lemma rf_reach: "(rule_step decode)\<^sup>*\<^sup>* (rf_store []) (snd rf_created)"
  using step_create [of rf_env decode "rf_store []" "rf_clock utc_zone" rf_users 1 rf_request]
  by (simp add: rf_create)

theorem stored_rules_typed_witness: "typed_rule decode (fst rf_created)"
  by (rule stored_rules_typed [OF rf_reach _ rf_created_in]) simp

theorem evaluation_is_bounded_witness:
  "\<exists>es. rw_trace (evaluate_and_execute rf_env (fst rf_created) ''c'' None (rf_world [])) = [] @ es \<and> asks es \<le> 3 \<and> acts es \<le> 1"
  using evaluation_is_bounded [of rf_env "rf_store []" "snd rf_created" "fst rf_created" "''c''" None "rf_world []"]
    rf_reach rf_created_in
  by (simp add: rf_world_def)

section \<open>The always-show list\<close>

lemma rf_empty_inv: "show_inv rf_env 1 (rf_store [])"
  by (simp add: show_inv_def)

definition rf_ops :: "(i32 \<times> show_op) list" where
  "rf_ops = [(5, Show (ShowEmail ''a@b.fi'')), (6, Show (ShowEmail ''A@b.fi '')), (7, Hide 1)]"

theorem always_show_refines_map_witness:
  "run_abstract rf_env [] 1 rf_ops (show_abs rf_env 1 (rf_store [])) =
     map_prod id (show_abs rf_env 1) (run_shows rf_env [] 1 rf_ops (rf_store []))"
  using always_show_refines_map [OF rf_law _ rf_empty_inv, of "[]" rf_ops] by simp

definition rf_mail :: json where
  "rf_mail = JObj [(''platform'', JStr ''email''), (''sender_key'', JStr ''A@B.fi''), (''message_id'', JInt 3)]"

lemma rf_email_input:
  "email_input rf_unicode 1 ''a@b.fi'' 1000 =
     Inr \<lparr>ai_user_id = 1, ai_platform = ''email'', ai_display_name = ''a@b.fi'', ai_identity = ''email:a@b.fi'',
          ai_room_id = None, ai_person_id = None, ai_sender_key = Some ''a@b.fi'', ai_is_group = Some False,
          ai_group_mode = None, ai_now = 1000\<rparr>"
proof -
  have "trim ''a@b.fi'' = ''a@b.fi''" by code_simp
  moreover have "to_lowercase rf_unicode ''a@b.fi'' = ''a@b.fi''" by code_simp
  moreover have "is_valid_email ''a@b.fi''" by code_simp
  ultimately show ?thesis by (simp add: email_input_def Let_def)
qed


end
