(* ===== verification/Billing.thy ===== *)
theory Billing
  imports Contracts Tables Text
begin

text \<open>
  Usage billing, \<^verbatim>\<open>repositories/billing_repository.rs\<close> with its rows of \<^verbatim>\<open>pg_models.rs\<close>: the billing
  accounts, the outbox of usage events that are reported to the provider, the intents that are
  written before a billable action, and the record of the provider's webhooks with their leases.

  The statuses are the texts of the columns. The constraints are those of the migrations:
  \<^verbatim>\<open>cost_microusd > 0\<close>, unique provider ids, and that the user of a new row exists (\<open>bl_users\<close>). PostgreSQL
  checks a row before it looks for a conflict and the foreign key after it.
\<close>

section \<open>Rows\<close>

record billing_account =
  ba_user_id :: i32
  ba_customer_id :: "string option"
  ba_contract_id :: "string option"
  ba_overage_enabled :: bool
  ba_overage_consent_at :: "i32 option"
  ba_overage_consent_version :: "string option"
  ba_payment_ready :: bool
  ba_usage_entitled :: bool
  ba_provisioning_status :: string
  ba_provisioning_error :: "string option"
  ba_legacy_credit_migrated :: bool
  ba_legacy_overage_preference_migrated :: bool
  ba_created_at :: i32
  ba_updated_at :: i32

record billing_usage_event =
  bu_transaction_id :: string
  bu_user_id :: i32
  bu_event_type :: string
  bu_cost_microusd :: i64
  bu_occurred_at :: i32
  bu_status :: string
  bu_attempts :: i32
  bu_next_attempt_at :: i32
  bu_last_error :: "string option"
  bu_created_at :: i32
  bu_sent_at :: "i32 option"
  bu_provider_reconciled_at :: "i32 option"
  bu_provider_status :: string
  bu_invoice_visible :: bool

record billing_usage_intent =
  bi_transaction_id :: string
  bi_user_id :: i32
  bi_event_type :: string
  bi_status :: string
  bi_created_at :: i32
  bi_finalized_at :: "i32 option"
  bi_last_error :: "string option"

record billing_webhook_event =
  bw_event_id :: string
  bw_event_type :: string
  bw_received_at :: i32
  bw_status :: string
  bw_attempts :: i32
  bw_lease_until :: "i32 option"
  bw_processed_at :: "i32 option"
  bw_last_error :: "string option"

record billing_store =
  bl_users :: "i32 list"
  bl_accounts :: "billing_account table"
  bl_events :: "billing_usage_event table"
  bl_intents :: "billing_usage_intent table"
  bl_webhooks :: "billing_webhook_event table"

section \<open>Accounts\<close>

definition new_billing_account :: "i32 \<Rightarrow> i32 \<Rightarrow> billing_account" where
  "new_billing_account user_id now =
     \<lparr>ba_user_id = user_id, ba_customer_id = None, ba_contract_id = None, ba_overage_enabled = False,
      ba_overage_consent_at = None, ba_overage_consent_version = None, ba_payment_ready = False,
      ba_usage_entitled = True, ba_provisioning_status = ''pending'', ba_provisioning_error = None,
      ba_legacy_credit_migrated = False, ba_legacy_overage_preference_migrated = False,
      ba_created_at = now, ba_updated_at = now\<rparr>"

definition get_account :: "i32 \<Rightarrow> billing_store \<Rightarrow> billing_account option" where
  "get_account user_id s = row_of ba_user_id user_id (bl_accounts s)"

definition ensure_account :: "i32 \<Rightarrow> i32 \<Rightarrow> billing_store \<Rightarrow> (db_error + billing_account) \<times> billing_store" where
  "ensure_account user_id now s =
     (case get_account user_id s of
        Some a \<Rightarrow> (Inr a, s)
      | None \<Rightarrow>
          let a = new_billing_account user_id now
          in if user_id \<notin> set (bl_users s) then (Inl ForeignKeyViolation, s)
             else (Inr a, s\<lparr>bl_accounts := bl_accounts s @ [a]\<rparr>))"

definition find_by_metronome_customer_id :: "string \<Rightarrow> billing_store \<Rightarrow> billing_account option" where
  "find_by_metronome_customer_id customer_id s =
     sql_first (\<lambda>a. ba_customer_id a = Some customer_id) (bl_accounts s)"

definition update_account :: "i32 \<Rightarrow> (billing_account \<Rightarrow> billing_account) \<Rightarrow> billing_store \<Rightarrow> billing_store" where
  "update_account user_id f s =
     s\<lparr>bl_accounts := sql_update (\<lambda>a. ba_user_id a = user_id) f (bl_accounts s)\<rparr>"

definition provisioned_row :: "string \<Rightarrow> string \<Rightarrow> bool \<Rightarrow> i32 \<Rightarrow> billing_account \<Rightarrow> billing_account" where
  "provisioned_row customer_id contract_id payment_ready now a =
     a\<lparr>ba_customer_id := Some customer_id, ba_contract_id := Some contract_id,
       ba_payment_ready := payment_ready, ba_provisioning_status := ''provisioned'',
       ba_provisioning_error := None, ba_updated_at := now\<rparr>"

definition mark_provisioned ::
  "i32 \<Rightarrow> string \<Rightarrow> string \<Rightarrow> bool \<Rightarrow> i32 \<Rightarrow> billing_store \<Rightarrow> (db_error + unit) \<times> billing_store" where
  "mark_provisioned user_id customer_id contract_id payment_ready now s =
     (if get_account user_id s \<noteq> None \<and>
         list_ex (\<lambda>a. ba_user_id a \<noteq> user_id \<and>
                     (ba_customer_id a = Some customer_id \<or> ba_contract_id a = Some contract_id)) (bl_accounts s)
      then (Inl UniqueViolation, s)
      else (Inr (), update_account user_id (provisioned_row customer_id contract_id payment_ready now) s))"

definition mark_provisioning_failed :: "i32 \<Rightarrow> string \<Rightarrow> i32 \<Rightarrow> billing_store \<Rightarrow> billing_store" where
  "mark_provisioning_failed user_id error now s =
     update_account user_id
       (\<lambda>a. a\<lparr>ba_provisioning_status := ''failed'', ba_provisioning_error := Some error, ba_updated_at := now\<rparr>) s"

definition overage_row :: "bool \<Rightarrow> string option \<Rightarrow> i32 \<Rightarrow> billing_account \<Rightarrow> billing_account" where
  "overage_row enabled consent_version now a =
     a\<lparr>ba_overage_enabled := enabled, ba_overage_consent_at := (if enabled then Some now else None),
       ba_overage_consent_version := consent_version, ba_legacy_overage_preference_migrated := True,
       ba_updated_at := now\<rparr>"

definition set_overage :: "i32 \<Rightarrow> bool \<Rightarrow> string option \<Rightarrow> i32 \<Rightarrow> billing_store \<Rightarrow> billing_store" where
  "set_overage user_id enabled consent_version now s =
     update_account user_id (overage_row enabled consent_version now) s"

definition set_payment_ready :: "i32 \<Rightarrow> bool \<Rightarrow> i32 \<Rightarrow> billing_store \<Rightarrow> billing_store" where
  "set_payment_ready user_id ready now s =
     update_account user_id (\<lambda>a. a\<lparr>ba_payment_ready := ready, ba_updated_at := now\<rparr>) s"

definition set_usage_entitled :: "i32 \<Rightarrow> bool \<Rightarrow> i32 \<Rightarrow> billing_store \<Rightarrow> billing_store" where
  "set_usage_entitled user_id entitled now s =
     update_account user_id (\<lambda>a. a\<lparr>ba_usage_entitled := entitled, ba_updated_at := now\<rparr>) s"

definition mark_legacy_credit_migrated :: "i32 \<Rightarrow> i32 \<Rightarrow> billing_store \<Rightarrow> billing_store" where
  "mark_legacy_credit_migrated user_id now s =
     update_account user_id (\<lambda>a. a\<lparr>ba_legacy_credit_migrated := True, ba_updated_at := now\<rparr>) s"

definition complete_legacy_overage_preference_migration ::
  "i32 \<Rightarrow> bool \<Rightarrow> string option \<Rightarrow> i32 \<Rightarrow> billing_store \<Rightarrow> billing_store" where
  "complete_legacy_overage_preference_migration user_id enabled consent_version now s =
     update_account user_id (overage_row enabled consent_version now) s"

section \<open>Usage events and intents\<close>

definition get_usage_event :: "string \<Rightarrow> billing_store \<Rightarrow> billing_usage_event option" where
  "get_usage_event tid s = row_of bu_transaction_id tid (bl_events s)"

definition get_intent :: "string \<Rightarrow> billing_store \<Rightarrow> billing_usage_intent option" where
  "get_intent tid s = row_of bi_transaction_id tid (bl_intents s)"

definition new_usage_event :: "string \<Rightarrow> i32 \<Rightarrow> string \<Rightarrow> i64 \<Rightarrow> i32 \<Rightarrow> i32 \<Rightarrow> billing_usage_event" where
  "new_usage_event tid user_id event_type cost occurred_at now =
     \<lparr>bu_transaction_id = tid, bu_user_id = user_id, bu_event_type = event_type,
      bu_cost_microusd = cost, bu_occurred_at = occurred_at, bu_status = ''pending'', bu_attempts = 0,
      bu_next_attempt_at = now, bu_last_error = None, bu_created_at = now, bu_sent_at = None,
      bu_provider_reconciled_at = None, bu_provider_status = ''unverified'', bu_invoice_visible = False\<rparr>"

text \<open>\<^verbatim>\<open>INSERT .. ON CONFLICT (transaction_id) DO NOTHING\<close>.\<close>

definition insert_usage_event :: "billing_usage_event \<Rightarrow> billing_store \<Rightarrow> (db_error + unit) \<times> billing_store" where
  "insert_usage_event e s =
     (if bu_cost_microusd e \<le> 0 then (Inl CheckViolation, s)
      else if get_usage_event (bu_transaction_id e) s \<noteq> None then (Inr (), s)
      else if bu_user_id e \<notin> set (bl_users s) then (Inl ForeignKeyViolation, s)
      else (Inr (), s\<lparr>bl_events := bl_events s @ [e]\<rparr>))"

text \<open>\<open>fresh\<close> is the \<^verbatim>\<open>Uuid::new_v4\<close> that stands in for a missing transaction id.\<close>

definition enqueue_usage ::
  "string \<Rightarrow> i32 \<Rightarrow> string \<Rightarrow> i64 \<Rightarrow> i32 \<Rightarrow> string option \<Rightarrow> i32 \<Rightarrow> billing_store \<Rightarrow> (db_error + string) \<times> billing_store" where
  "enqueue_usage fresh user_id event_type cost occurred_at transaction_id now s =
     (let tid = (case transaction_id of None \<Rightarrow> fresh | Some t \<Rightarrow> t)
      in (case insert_usage_event (new_usage_event tid user_id event_type cost occurred_at now) s of
            (Inl e, s') \<Rightarrow> (Inl e, s')
          | (Inr _, s') \<Rightarrow> (Inr tid, s')))"

definition begin_usage_intent ::
  "i32 \<Rightarrow> string \<Rightarrow> string \<Rightarrow> i32 \<Rightarrow> billing_store \<Rightarrow> (db_error + unit) \<times> billing_store" where
  "begin_usage_intent user_id event_type tid now s =
     (case get_intent tid s of
        None \<Rightarrow>
          if user_id \<notin> set (bl_users s) then (Inl ForeignKeyViolation, s)
          else
            (Inr (),
             s\<lparr>bl_intents := bl_intents s @
                 [\<lparr>bi_transaction_id = tid, bi_user_id = user_id, bi_event_type = event_type, bi_status = ''open'',
                   bi_created_at = now, bi_finalized_at = None, bi_last_error = None\<rparr>]\<rparr>)
      | Some i \<Rightarrow>
          if bi_user_id i \<noteq> user_id \<or> bi_event_type i \<noteq> event_type then (Inl RollbackTransaction, s)
          else (Inr (), s))"

definition update_intent ::
  "string \<Rightarrow> (billing_usage_intent \<Rightarrow> bool) \<Rightarrow> (billing_usage_intent \<Rightarrow> billing_usage_intent) \<Rightarrow> billing_store \<Rightarrow> billing_store" where
  "update_intent tid p f s =
     s\<lparr>bl_intents := sql_update (\<lambda>i. bi_transaction_id i = tid \<and> p i) f (bl_intents s)\<rparr>"

definition finalize_body ::
  "string \<Rightarrow> i64 \<Rightarrow> i32 \<Rightarrow> i32 \<Rightarrow> billing_store \<Rightarrow> (db_error + unit) \<times> billing_store" where
  "finalize_body tid cost occurred_at now s =
     (case get_intent tid s of
        None \<Rightarrow> (Inl NotFound, s)
      | Some i \<Rightarrow>
          if bi_status i = ''finalized'' then (Inr (), s)
          else if bi_status i \<noteq> ''open'' then (Inl RollbackTransaction, s)
          else
            (case insert_usage_event (new_usage_event tid (bi_user_id i) (bi_event_type i) cost occurred_at now) s of
               (Inl e, s') \<Rightarrow> (Inl e, s')
             | (Inr _, s') \<Rightarrow>
                 (Inr (),
                  update_intent tid (\<lambda>_. True)
                    (\<lambda>i. i\<lparr>bi_status := ''finalized'', bi_finalized_at := Some now, bi_last_error := None\<rparr>) s')))"

definition finalize_usage_intent ::
  "string \<Rightarrow> i64 \<Rightarrow> i32 \<Rightarrow> i32 \<Rightarrow> billing_store \<Rightarrow> (db_error + unit) \<times> billing_store" where
  "finalize_usage_intent tid cost occurred_at now s = transaction (finalize_body tid cost occurred_at now) s"

definition abandon_usage_intent :: "string \<Rightarrow> i32 \<Rightarrow> billing_store \<Rightarrow> billing_store" where
  "abandon_usage_intent tid now s =
     update_intent tid (\<lambda>i. bi_status i = ''open'')
       (\<lambda>i. i\<lparr>bi_status := ''abandoned'', bi_finalized_at := Some now\<rparr>) s"

section \<open>Reporting usage\<close>

definition update_usage ::
  "string \<Rightarrow> (billing_usage_event \<Rightarrow> bool) \<Rightarrow> (billing_usage_event \<Rightarrow> billing_usage_event) \<Rightarrow> billing_store \<Rightarrow> billing_store" where
  "update_usage tid p f s =
     s\<lparr>bl_events := sql_update (\<lambda>e. bu_transaction_id e = tid \<and> p e) f (bl_events s)\<rparr>"

definition usage_due :: "i32 \<Rightarrow> billing_usage_event \<Rightarrow> bool" where
  "usage_due now e \<longleftrightarrow> bu_status e \<in> {''pending'', ''failed'', ''sending''} \<and> bu_next_attempt_at e \<le> now"

definition sending_row :: "i32 \<Rightarrow> billing_usage_event \<Rightarrow> billing_usage_event" where
  "sending_row now e = e\<lparr>bu_status := ''sending'', bu_next_attempt_at := sat_i32 (now + 60)\<rparr>"

text \<open>The conditional update of one candidate; it was claimed when one row is affected.\<close>

definition claim_usage_event :: "string \<Rightarrow> i32 \<Rightarrow> billing_store \<Rightarrow> bool \<times> billing_store" where
  "claim_usage_event tid now s =
     (sql_count (\<lambda>e. bu_transaction_id e = tid \<and> usage_due now e) (bl_events s) = 1,
      update_usage tid (usage_due now) (sending_row now) s)"

text \<open>
  \<open>others\<close> are the writes of other sessions before the update of each candidate. What is returned is
  the candidate as it was read.
\<close>

fun claim_candidates ::
  "(string \<Rightarrow> billing_store \<Rightarrow> billing_store) \<Rightarrow> i32 \<Rightarrow> billing_usage_event list \<Rightarrow> billing_store
     \<Rightarrow> billing_usage_event list \<times> billing_store" where
  "claim_candidates others now [] s = ([], s)"
| "claim_candidates others now (e # es) s =
     (case claim_usage_event (bu_transaction_id e) now (others (bu_transaction_id e) s) of
        (won, s') \<Rightarrow>
          (case claim_candidates others now es s' of
             (claimed, s'') \<Rightarrow> (if won then e # claimed else claimed, s'')))"

definition claim_due_usage ::
  "(string \<Rightarrow> billing_store \<Rightarrow> billing_store) \<Rightarrow> nat \<Rightarrow> i32 \<Rightarrow> billing_store \<Rightarrow> billing_usage_event list \<times> billing_store" where
  "claim_due_usage others limit now s =
     claim_candidates others now
       (take limit (order_asc bu_created_at (sql_select (usage_due now) (bl_events s)))) s"

definition sat_i64 :: "int \<Rightarrow> i64" where
  "sat_i64 x = max (- 9223372036854775808) (min 9223372036854775807 x)"

definition usage_cost_microusd_between :: "i32 \<Rightarrow> i32 \<Rightarrow> i32 \<Rightarrow> billing_store \<Rightarrow> i64" where
  "usage_cost_microusd_between user_id period_start period_end s =
     fold (\<lambda>cost acc. sat_i64 (acc + cost))
       (map bu_cost_microusd
          (sql_select (\<lambda>e. bu_user_id e = user_id \<and> period_start \<le> bu_occurred_at e \<and> bu_occurred_at e < period_end)
             (bl_events s))) 0"

definition mark_usage_sent :: "string \<Rightarrow> i32 \<Rightarrow> billing_store \<Rightarrow> billing_store" where
  "mark_usage_sent tid now s =
     update_usage tid (\<lambda>_. True)
       (\<lambda>e. e\<lparr>bu_status := ''sent'', bu_sent_at := Some now, bu_last_error := None\<rparr>) s"

text \<open>\<^verbatim>\<open>2_i32.saturating_pow(attempts.min(10) as u32).min(3600)\<close>; a negative count becomes a huge exponent.\<close>

definition retry_delay :: "i32 \<Rightarrow> i32" where
  "retry_delay attempts = min 3600 (if attempts < 0 then 2147483647 else 2 ^ nat (min attempts 10))"

definition mark_usage_failed :: "string \<Rightarrow> i32 \<Rightarrow> string \<Rightarrow> i32 \<Rightarrow> billing_store \<Rightarrow> billing_store" where
  "mark_usage_failed tid previous_attempts error now s =
     (let attempts = sat_i32 (previous_attempts + 1)
      in update_usage tid (\<lambda>_. True)
           (\<lambda>e. e\<lparr>bu_status := ''failed'', bu_attempts := attempts,
                  bu_next_attempt_at := sat_i32 (now + retry_delay attempts), bu_last_error := Some error\<rparr>) s)"

definition usage_for_reconciliation :: "nat \<Rightarrow> i32 \<Rightarrow> billing_store \<Rightarrow> billing_usage_event list" where
  "usage_for_reconciliation limit now s =
     take limit (order_asc (\<lambda>e. null_key (bu_sent_at e))
       (sql_select (\<lambda>e. bu_status e = ''sent'' \<and> sat_i32 (now - 33 * 24 * 3600) \<le> bu_occurred_at e \<and>
           (case bu_provider_reconciled_at e of None \<Rightarrow> True | Some t \<Rightarrow> t \<le> sat_i32 (now - 3600))) (bl_events s)))"

definition mark_usage_reconciled :: "string \<Rightarrow> string \<Rightarrow> bool \<Rightarrow> i32 \<Rightarrow> billing_store \<Rightarrow> billing_store" where
  "mark_usage_reconciled tid provider_status invoice_visible now s =
     update_usage tid (\<lambda>_. True)
       (\<lambda>e. e\<lparr>bu_provider_reconciled_at := Some now, bu_provider_status := provider_status,
              bu_invoice_visible := invoice_visible\<rparr>) s"

record billing_reconciliation_summary =
  br_pending :: nat
  br_failed :: nat
  br_sent_unverified :: nat
  br_provider_matched :: nat
  br_provider_unmatched :: nat
  br_invoice_visible :: nat
  br_stale_open_intents :: nat

definition count_usage :: "string option \<Rightarrow> string option \<Rightarrow> bool option \<Rightarrow> billing_store \<Rightarrow> nat" where
  "count_usage status provider_status invoice_visible s =
     sql_count (\<lambda>e. (case status of None \<Rightarrow> True | Some v \<Rightarrow> bu_status e = v) \<and>
                    (case provider_status of None \<Rightarrow> True | Some v \<Rightarrow> bu_provider_status e = v) \<and>
                    (case invoice_visible of None \<Rightarrow> True | Some v \<Rightarrow> bu_invoice_visible e = v)) (bl_events s)"

definition reconciliation_summary :: "i32 \<Rightarrow> i32 \<Rightarrow> billing_store \<Rightarrow> billing_reconciliation_summary" where
  "reconciliation_summary stale_intent_age_seconds now s =
     \<lparr>br_pending = count_usage (Some ''pending'') None None s,
      br_failed = count_usage (Some ''failed'') None None s,
      br_sent_unverified = count_usage (Some ''sent'') (Some ''unverified'') None s,
      br_provider_matched = count_usage (Some ''sent'') (Some ''matched'') None s,
      br_provider_unmatched = count_usage (Some ''sent'') (Some ''unmatched'') None s,
      br_invoice_visible = count_usage (Some ''sent'') None (Some True) s,
      br_stale_open_intents =
        sql_count (\<lambda>i. bi_status i = ''open'' \<and> bi_created_at i \<le> sat_i32 (now - stale_intent_age_seconds))
          (bl_intents s)\<rparr>"

section \<open>Webhooks\<close>

datatype billing_webhook_claim = WebhookClaimed | WebhookAlreadyProcessed | WebhookInFlight

definition get_webhook :: "string \<Rightarrow> billing_store \<Rightarrow> billing_webhook_event option" where
  "get_webhook event_id s = row_of bw_event_id event_id (bl_webhooks s)"

definition record_webhook_once :: "string \<Rightarrow> string \<Rightarrow> i32 \<Rightarrow> billing_store \<Rightarrow> bool \<times> billing_store" where
  "record_webhook_once event_id event_type now s =
     (if get_webhook event_id s \<noteq> None then (False, s)
      else (True,
            s\<lparr>bl_webhooks := bl_webhooks s @
                [\<lparr>bw_event_id = event_id, bw_event_type = event_type, bw_received_at = now, bw_status = ''processed'',
                  bw_attempts = 1, bw_lease_until = None, bw_processed_at = Some now, bw_last_error = None\<rparr>]\<rparr>))"

definition webhook_seen :: "string \<Rightarrow> billing_store \<Rightarrow> bool" where
  "webhook_seen event_id s \<longleftrightarrow> get_webhook event_id s \<noteq> None"

definition update_webhook ::
  "string \<Rightarrow> (billing_webhook_event \<Rightarrow> bool) \<Rightarrow> (billing_webhook_event \<Rightarrow> billing_webhook_event) \<Rightarrow> billing_store \<Rightarrow> billing_store" where
  "update_webhook event_id p f s =
     s\<lparr>bl_webhooks := sql_update (\<lambda>w. bw_event_id w = event_id \<and> p w) f (bl_webhooks s)\<rparr>"

definition webhook_claimable :: "i32 \<Rightarrow> billing_webhook_event \<Rightarrow> bool" where
  "webhook_claimable now w \<longleftrightarrow>
     bw_status w \<noteq> ''processed'' \<and> (case bw_lease_until w of None \<Rightarrow> True | Some t \<Rightarrow> t \<le> now)"

definition new_webhook_row :: "string \<Rightarrow> string \<Rightarrow> i32 \<Rightarrow> i32 \<Rightarrow> billing_webhook_event" where
  "new_webhook_row event_id event_type lease_until now =
     \<lparr>bw_event_id = event_id, bw_event_type = event_type, bw_received_at = now, bw_status = ''processing'',
      bw_attempts = 1, bw_lease_until = Some lease_until, bw_processed_at = None, bw_last_error = None\<rparr>"

definition webhook_claim_row :: "string \<Rightarrow> i32 \<Rightarrow> billing_webhook_event \<Rightarrow> billing_webhook_event" where
  "webhook_claim_row event_type lease_until w =
     w\<lparr>bw_status := ''processing'', bw_event_type := event_type, bw_attempts := bw_attempts w + 1,
       bw_lease_until := Some lease_until, bw_last_error := None\<rparr>"

text \<open>
  The insertion and the conditional update are atomic; \<open>others\<close> are the writes of other sessions
  between the statements (before the second and before the third). PostgreSQL refuses to count the
  attempts past 32 bits, which two claims a minute do not reach.
\<close>

definition claim_webhook ::
  "(nat \<Rightarrow> billing_store \<Rightarrow> billing_store) \<Rightarrow> string \<Rightarrow> string \<Rightarrow> i32 \<Rightarrow> i32 \<Rightarrow> billing_store
     \<Rightarrow> (db_error + billing_webhook_claim) \<times> billing_store" where
  "claim_webhook others event_id event_type lease_seconds now s =
     (let lease_until = sat_i32 (now + lease_seconds)
      in if get_webhook event_id s = None
         then (Inr WebhookClaimed,
               s\<lparr>bl_webhooks := bl_webhooks s @ [new_webhook_row event_id event_type lease_until now]\<rparr>)
         else
           let s1 = others 0 s
           in (case get_webhook event_id s1 of
                 None \<Rightarrow> (Inl NotFound, s1)
               | Some w \<Rightarrow>
                   if bw_status w = ''processed'' then (Inr WebhookAlreadyProcessed, s1)
                   else
                     let s2 = others 1 s1
                     in (if sql_count (\<lambda>w. bw_event_id w = event_id \<and> webhook_claimable now w) (bl_webhooks s2) = 1
                         then (Inr WebhookClaimed,
                               update_webhook event_id (webhook_claimable now) (webhook_claim_row event_type lease_until) s2)
                         else (Inr WebhookInFlight, s2))))"

definition complete_webhook :: "string \<Rightarrow> i32 \<Rightarrow> billing_store \<Rightarrow> billing_store" where
  "complete_webhook event_id now s =
     update_webhook event_id (\<lambda>w. bw_status w = ''processing'')
       (\<lambda>w. w\<lparr>bw_status := ''processed'', bw_processed_at := Some now, bw_lease_until := None,
              bw_last_error := None\<rparr>) s"

definition fail_webhook :: "string \<Rightarrow> string \<Rightarrow> billing_store \<Rightarrow> billing_store" where
  "fail_webhook event_id error_code s =
     update_webhook event_id (\<lambda>w. bw_status w = ''processing'')
       (\<lambda>w. w\<lparr>bw_status := ''failed'', bw_lease_until := None, bw_last_error := Some error_code\<rparr>) s"

end
