(* ===== verification/BillingService.thy ===== *)
theory BillingService
  imports Billing Json
begin

text \<open>
  The billing service, \<^verbatim>\<open>services/metronome_billing.rs\<close>: the reading of the provider's answers, the
  choice of a payment method, the provisioning of an account and the migration of its overage
  preference, the outbox worker and its reconciliation, usage intents, the entitlement to usage, and
  the billing period.

  The provider (Metronome) and Stripe are parameters: a record of functions that answer or fail. A
  provider call is recorded in the trace of the world, and other sessions write to the database while
  it is under way (\<open>mt_others\<close>, by the number of the call). An amount of money in \<^verbatim>\<open>f64\<close> appears only by
  what the code finds out about it: whether it is positive and its conversion to micro dollars.
\<close>

section \<open>Configuration\<close>

record metronome_config =
  mc_enabled :: bool
  mc_api_url :: string
  mc_api_key :: string
  mc_package_alias :: string
  mc_event_type :: string
  mc_billable_metric_id :: "string option"
  mc_usage_product_id :: "string option"
  mc_webhook_secret :: string
  mc_legacy_credit_product_id :: "string option"
  mc_credit_type_id :: "string option"

text \<open>\<open>parse_url\<close> is \<^verbatim>\<open>reqwest::Url::parse\<close>: the scheme and the host.\<close>

definition missing_settings :: "metronome_config \<Rightarrow> string list" where
  "missing_settings c =
     (if trim (mc_api_key c) = [] then [''METRONOME_API_KEY''] else []) @
     (if trim (mc_package_alias c) = [] then [''METRONOME_PACKAGE_ALIAS''] else []) @
     (if trim (mc_event_type c) = [] then [''METRONOME_USAGE_EVENT_TYPE''] else []) @
     (if mc_billable_metric_id c = None then [''METRONOME_BILLABLE_METRIC_ID''] else []) @
     (if mc_usage_product_id c = None then [''METRONOME_USAGE_PRODUCT_ID''] else []) @
     (if trim (mc_webhook_secret c) = [] then [''METRONOME_WEBHOOK_SECRET''] else []) @
     (if mc_legacy_credit_product_id c = None then [''METRONOME_LEGACY_CREDIT_PRODUCT_ID''] else []) @
     (if mc_credit_type_id c = None then [''METRONOME_CREDIT_TYPE_ID''] else [])"

fun comma_separated :: "string list \<Rightarrow> string" where
  "comma_separated [] = []"
| "comma_separated [x] = x"
| "comma_separated (x # xs) = x @ '', '' @ comma_separated xs"

definition validate_config ::
  "(string \<Rightarrow> (string \<times> string option) option) \<Rightarrow> metronome_config \<Rightarrow> string + unit" where
  "validate_config parse_url c =
     (if \<not> mc_enabled c then Inr ()
      else if missing_settings c \<noteq> []
      then Inl (''Metronome billing configuration is incomplete; missing '' @ comma_separated (missing_settings c))
      else
        (case parse_url (mc_api_url c) of
           None \<Rightarrow> Inl ''METRONOME_API_URL must be a valid HTTPS URL''
         | Some (scheme, host) \<Rightarrow>
             if scheme \<noteq> ''https'' \<and> \<not> (scheme = ''http'' \<and> host = Some ''127.0.0.1'') \<and>
                \<not> (scheme = ''http'' \<and> host = Some ''localhost'')
             then Inl ''METRONOME_API_URL must use HTTPS outside local tests''
             else Inr ()))"

section \<open>Answers of the provider\<close>

text \<open>\<^verbatim>\<open>value[key]\<close>, which is null when there is no such member, and \<^verbatim>\<open>as_array().into_iter().flatten()\<close>.\<close>

definition json_at :: "string \<Rightarrow> json \<Rightarrow> json" where
  "json_at k v = (case json_get k v of None \<Rightarrow> JNull | Some x \<Rightarrow> x)"

fun json_items :: "json \<Rightarrow> json list" where
  "json_items (JArr vs) = vs"
| "json_items _ = []"

definition select_contract_id :: "json \<Rightarrow> string \<Rightarrow> string + string option" where
  "select_contract_id response expected_key =
     (case json_at ''data'' response of
        JArr items \<Rightarrow>
          (case filter (\<lambda>item. get_str ''uniqueness_key'' item = Some expected_key) items of
             [item] \<Rightarrow> Inr (get_str ''id'' item)
           | _ # _ # _ \<Rightarrow> Inl ''Multiple Metronome contracts share the expected uniqueness key''
           | [] \<Rightarrow>
               (case items of
                  [] \<Rightarrow> Inr None
                | [item] \<Rightarrow>
                    (case get_str ''id'' item of
                       None \<Rightarrow> Inl ''Metronome contract response did not contain data.id''
                     | Some i \<Rightarrow> Inr (Some i))
                | _ \<Rightarrow> Inl ''Multiple Metronome contracts exist and none matches Lightfriend's uniqueness key''))
      | _ \<Rightarrow> Inl ''Metronome contract list returned an invalid response'')"

definition billing_error_code :: "string \<Rightarrow> string" where
  "billing_error_code error =
     (let message = to_ascii_lowercase error
      in if str_contains message ''configuration is incomplete'' \<or> str_contains message ''api_url''
         then ''configuration_error''
         else if str_contains message ''http 401'' \<or> str_contains message ''http 403'' then ''authentication_error''
         else if str_contains message ''http 429'' then ''rate_limited''
         else if str_contains message ''http 5'' \<or> str_contains message ''timeout'' then ''provider_unavailable''
         else if str_contains message ''contract'' \<and> str_contains message ''multiple'' then ''ambiguous_contract''
         else if str_contains message ''connect'' \<or> str_contains message ''transport'' then ''transport_error''
         else ''billing_error'')"

definition is_object :: "json \<Rightarrow> bool" where
  "is_object v \<longleftrightarrow> (case v of JObj _ \<Rightarrow> True | _ \<Rightarrow> False)"

definition provider_event_status :: "json \<Rightarrow> string \<Rightarrow> string \<Rightarrow> string" where
  "provider_event_status response tid metric_id =
     (case find (\<lambda>event. get_str ''transaction_id'' event = Some tid) (json_items response) of
        None \<Rightarrow> ''missing''
      | Some event \<Rightarrow>
          if is_object (json_at ''matched_customer'' event) \<and>
             list_ex (\<lambda>metric. get_str ''id'' metric = Some metric_id)
               (json_items (json_at ''matched_billable_metrics'' event))
          then ''matched'' else ''unmatched'')"

text \<open>\<open>rfc3339\<close> is \<^verbatim>\<open>DateTime::parse_from_rfc3339\<close>, in seconds.\<close>

definition json_time :: "(string \<Rightarrow> int option) \<Rightarrow> string \<Rightarrow> json \<Rightarrow> int option" where
  "json_time rfc3339 k v = Option.bind (get_str k v) rfc3339"

definition invoice_contains_usage ::
  "(string \<Rightarrow> int option) \<Rightarrow> json \<Rightarrow> string \<Rightarrow> string \<Rightarrow> i32 \<Rightarrow> bool" where
  "invoice_contains_usage rfc3339 response contract_id product_id occurred_at =
     list_ex
       (\<lambda>invoice. list_ex (\<lambda>line. get_str ''product_id'' line = Some product_id)
          (json_items (json_at ''line_items'' invoice)))
       (filter
          (\<lambda>invoice. get_str ''contract_id'' invoice = Some contract_id \<and>
             (case json_time rfc3339 ''start_timestamp'' invoice of None \<Rightarrow> False | Some t \<Rightarrow> t \<le> occurred_at) \<and>
             (case json_time rfc3339 ''end_timestamp'' invoice of None \<Rightarrow> False | Some t \<Rightarrow> occurred_at < t))
          (json_items (json_at ''data'' response)))"

text \<open>
  The signature of a webhook: \<open>rfc2822\<close> parses the date, \<open>unhex\<close> decodes the signature and \<open>hmac\<close> is
  HMAC-SHA256 of a key and a message.
\<close>

definition verify_webhook_signature ::
  "(string \<Rightarrow> int option) \<Rightarrow> (string \<Rightarrow> string option) \<Rightarrow> (string \<Rightarrow> string \<Rightarrow> string)
     \<Rightarrow> string \<Rightarrow> string \<Rightarrow> string \<Rightarrow> string \<Rightarrow> i64 \<Rightarrow> string + unit" where
  "verify_webhook_signature rfc2822 unhex hmac secret date payload signature now_timestamp =
     (case rfc2822 date of
        None \<Rightarrow> Inl ''Invalid Date header''
      | Some sent_at \<Rightarrow>
          if 300 < \<bar>now_timestamp - sent_at\<bar> then Inl ''Stale webhook''
          else
            (case unhex signature of
               None \<Rightarrow> Inl ''Invalid webhook signature hex''
             | Some provided \<Rightarrow>
                 if hmac secret (date @ [CHR 0x0A] @ payload) = provided then Inr ()
                 else Inl ''Invalid webhook signature''))"

section \<open>The payment method\<close>

definition add_candidate :: "string \<Rightarrow> string list \<Rightarrow> string list" where
  "add_candidate m ms = (if m \<noteq> [] \<and> m \<notin> set ms then ms @ [m] else ms)"

definition ordered_payment_method_candidates :: "string list \<Rightarrow> string option \<Rightarrow> string list" where
  "ordered_payment_method_candidates subscription_ids stored =
     (let candidates = fold add_candidate subscription_ids []
      in case stored of None \<Rightarrow> candidates | Some m \<Rightarrow> add_candidate m candidates)"

definition payment_method_owner_matches :: "string \<Rightarrow> string option \<Rightarrow> bool" where
  "payment_method_owner_matches customer_id owner \<longleftrightarrow> owner = Some customer_id"

record stripe_api =
  st_default :: "string + bool"                     \<comment> \<open>whether the customer has a default method\<close>
  st_subscription_methods :: "string + string list"  \<comment> \<open>of the subscriptions that count\<close>
  st_valid_id :: "string \<Rightarrow> bool"
  st_owner :: "string \<Rightarrow> string + string option"      \<comment> \<open>who a method is attached to\<close>
  st_set_default :: "string \<Rightarrow> string + unit"

text \<open>The loop over the candidates: the answer, and the methods that were sent to Stripe as the default.\<close>

fun try_candidates :: "stripe_api \<Rightarrow> string \<Rightarrow> string list \<Rightarrow> string option \<Rightarrow> (string + bool) \<times> string list" where
  "try_candidates st customer_id [] last_error =
     ((case last_error of None \<Rightarrow> Inr False | Some e \<Rightarrow> Inl e), [])"
| "try_candidates st customer_id (m # ms) last_error =
     (if \<not> st_valid_id st m then try_candidates st customer_id ms last_error
      else
        (case st_owner st m of
           Inl _ \<Rightarrow> try_candidates st customer_id ms last_error
         | Inr owner \<Rightarrow>
             if \<not> payment_method_owner_matches customer_id owner then try_candidates st customer_id ms last_error
             else
               (case st_set_default st m of
                  Inr _ \<Rightarrow> (Inr True, [m])
                | Inl e \<Rightarrow>
                    (case try_candidates st customer_id ms (Some e) of (r, sent) \<Rightarrow> (r, m # sent)))))"

definition ensure_stripe_payment_method ::
  "stripe_api \<Rightarrow> string option \<Rightarrow> string option \<Rightarrow> (string + bool) \<times> string list" where
  "ensure_stripe_payment_method st stripe_customer stored =
     (case stripe_customer of
        None \<Rightarrow> (Inr False, [])
      | Some customer_id \<Rightarrow>
          (case st_default st of
             Inl e \<Rightarrow> (Inl e, [])
           | Inr True \<Rightarrow> (Inr True, [])
           | Inr False \<Rightarrow>
               (case st_subscription_methods st of
                  Inl e \<Rightarrow> (Inl e, [])
                | Inr methods \<Rightarrow>
                    try_candidates st customer_id (ordered_payment_method_candidates methods stored) None)))"

definition stripe_payment_ready :: "stripe_api \<Rightarrow> string option \<Rightarrow> string option \<Rightarrow> bool" where
  "stripe_payment_ready st stripe_customer stored =
     (fst (ensure_stripe_payment_method st stripe_customer stored) = Inr True)"

section \<open>Provisioning\<close>

definition OVERAGE_CONSENT_VERSION :: string where "OVERAGE_CONSENT_VERSION = ''2026-07-21''"
definition LEGACY_OVERAGE_CONSENT_VERSION :: string where
  "LEGACY_OVERAGE_CONSENT_VERSION = ''legacy-auto-topup-migration-2026-07-23''"

record billing_user =
  us_id :: i32
  us_stripe_customer_id :: "string option"
  us_stripe_payment_method_id :: "string option"
  us_charge_when_under :: bool
  us_has_credits :: bool                   \<comment> \<open>\<^verbatim>\<open>credits > 0.0\<close>\<close>
  us_window_started :: bool                \<comment> \<open>\<^verbatim>\<open>included_usage_window_start_timestamp\<close> is there\<close>
  us_used_microusd :: "i64 option"         \<comment> \<open>what is used of the included usage, when it is a millionth or more\<close>
  us_sub_tier :: "string option"
  us_byot :: bool                          \<comment> \<open>brings an own Twilio account\<close>

datatype provider_call =
    CreateCustomer i32
  | CreateContract i32 string
  | SetContractOverage i32 bool
  | MigrateCredit i32
  | IngestUsage "billing_usage_event list"
  | ReadBalance i32

record billing_world =
  bz_store :: billing_store
  bz_calls :: "provider_call list"

record metronome =
  mt_config :: metronome_config
  mt_parse_url :: "string \<Rightarrow> (string \<times> string option) option"
  mt_now :: i32
  mt_find_customer :: "nat \<Rightarrow> i32 \<Rightarrow> string + string option"      \<comment> \<open>by the call number\<close>
  mt_post_customer :: "nat \<Rightarrow> i32 \<Rightarrow> string + string option"      \<comment> \<open>\<^verbatim>\<open>data.id\<close> of the answer\<close>
  mt_post_contract :: "nat \<Rightarrow> i32 \<Rightarrow> string + string option"
  mt_list_contracts :: "nat \<Rightarrow> string \<Rightarrow> string + json"
  mt_set_overage :: "nat \<Rightarrow> string \<Rightarrow> bool \<Rightarrow> string + unit"
  mt_post_credit :: "nat \<Rightarrow> i32 \<Rightarrow> string + unit"
  mt_ingest :: "nat \<Rightarrow> billing_usage_event list \<Rightarrow> string + unit"
  mt_balance_positive :: "nat \<Rightarrow> i32 \<Rightarrow> string + bool"
  mt_search :: "string list \<Rightarrow> string + json"
  mt_invoices :: "string \<Rightarrow> string + json"
  mt_rfc3339 :: "string \<Rightarrow> int option"
  mt_stripe :: stripe_api
  mt_others :: "nat \<Rightarrow> billing_store \<Rightarrow> billing_store"

definition call_provider :: "metronome \<Rightarrow> provider_call \<Rightarrow> billing_world \<Rightarrow> billing_world" where
  "call_provider mt c w =
     \<lparr>bz_store = mt_others mt (length (bz_calls w)) (bz_store w), bz_calls = bz_calls w @ [c]\<rparr>"

definition on_store :: "(billing_store \<Rightarrow> billing_store) \<Rightarrow> billing_world \<Rightarrow> billing_world" where
  "on_store f w = w\<lparr>bz_store := f (bz_store w)\<rparr>"

definition legacy_overage_migration_target :: "bool \<Rightarrow> bool \<Rightarrow> bool \<Rightarrow> bool option" where
  "legacy_overage_migration_target auto_topup payment_ready already_migrated =
     (if already_migrated then None
      else if auto_topup \<and> \<not> payment_ready then None
      else Some auto_topup)"

definition conflict_error :: "string \<Rightarrow> bool" where
  "conflict_error e \<longleftrightarrow> str_contains e ''409''"

text \<open>
  \<^verbatim>\<open>create_customer\<close>: an existing customer with the alias is taken, a conflict looks again. The request
  for the lookup and the one for the creation are one call of the trace.
\<close>

definition create_customer :: "metronome \<Rightarrow> i32 \<Rightarrow> billing_world \<Rightarrow> (string + string) \<times> billing_world" where
  "create_customer mt user_id w =
     (let n = length (bz_calls w); w' = call_provider mt (CreateCustomer user_id) w
      in (case mt_find_customer mt n user_id of
            Inl e \<Rightarrow> Inl e
          | Inr (Some customer_id) \<Rightarrow> Inr customer_id
          | Inr None \<Rightarrow>
              (case mt_post_customer mt n user_id of
                 Inr (Some customer_id) \<Rightarrow> Inr customer_id
               | Inr None \<Rightarrow> Inl ''Metronome customer response did not contain data.id''
               | Inl e \<Rightarrow>
                   if conflict_error e then
                     (case mt_find_customer mt (Suc n) user_id of
                        Inl e' \<Rightarrow> Inl e'
                      | Inr None \<Rightarrow> Inl e
                      | Inr (Some customer_id) \<Rightarrow> Inr customer_id)
                   else Inl e), w'))"

definition contract_key :: "i32 \<Rightarrow> string" where
  "contract_key user_id = ''lightfriend-contract-'' @ show_int user_id"

definition create_contract :: "metronome \<Rightarrow> i32 \<Rightarrow> string \<Rightarrow> billing_world \<Rightarrow> (string + string) \<times> billing_world" where
  "create_contract mt user_id customer_id w =
     (let n = length (bz_calls w); w' = call_provider mt (CreateContract user_id customer_id) w
      in (case mt_post_contract mt n user_id of
            Inr (Some contract_id) \<Rightarrow> Inr contract_id
          | Inr None \<Rightarrow> Inl ''Metronome contract response did not contain data.id''
          | Inl e \<Rightarrow>
              if conflict_error e then
                (case mt_list_contracts mt n customer_id of
                   Inl e' \<Rightarrow> Inl e'
                 | Inr response \<Rightarrow>
                     (case select_contract_id response (contract_key user_id) of
                        Inl e' \<Rightarrow> Inl e'
                      | Inr None \<Rightarrow> Inl e
                      | Inr (Some contract_id) \<Rightarrow> Inr contract_id))
              else Inl e, w'))"

definition set_contract_overage ::
  "metronome \<Rightarrow> string \<Rightarrow> i32 \<Rightarrow> bool \<Rightarrow> billing_world \<Rightarrow> (string + unit) \<times> billing_world" where
  "set_contract_overage mt contract_id user_id enabled w =
     (mt_set_overage mt (length (bz_calls w)) contract_id enabled,
      call_provider mt (SetContractOverage user_id enabled) w)"

definition client_set_overage ::
  "metronome \<Rightarrow> billing_account \<Rightarrow> bool \<Rightarrow> billing_world \<Rightarrow> (string + unit) \<times> billing_world" where
  "client_set_overage mt account enabled w =
     (if ba_customer_id account = None then (Inl ''Billing account is not provisioned'', w)
      else
        (case ba_contract_id account of
           None \<Rightarrow> (Inl ''Billing contract is not provisioned'', w)
         | Some contract_id \<Rightarrow> set_contract_overage mt contract_id (ba_user_id account) enabled w))"

definition migrate_legacy_credit :: "metronome \<Rightarrow> billing_user \<Rightarrow> billing_world \<Rightarrow> (string + bool) \<times> billing_world" where
  "migrate_legacy_credit mt user w =
     (if \<not> us_has_credits user then (Inr True, w)
      else if mc_legacy_credit_product_id (mt_config mt) = None \<or> mc_credit_type_id (mt_config mt) = None
      then (Inr False, w)
      else
        (case mt_post_credit mt (length (bz_calls w)) (us_id user) of
           Inr _ \<Rightarrow> Inr True
         | Inl e \<Rightarrow> if conflict_error e then Inr True else Inl e,
         call_provider mt (MigrateCredit (us_id user)) w))"

definition cutover_id :: "i32 \<Rightarrow> string" where
  "cutover_id user_id = ''metronome-cutover-included-'' @ show_int user_id"

definition enqueue_cutover_usage :: "metronome \<Rightarrow> billing_user \<Rightarrow> billing_store \<Rightarrow> (string + unit) \<times> billing_store" where
  "enqueue_cutover_usage mt user s =
     (if \<not> us_window_started user then (Inr (), s)
      else
        (case us_used_microusd user of
           None \<Rightarrow> (Inr (), s)
         | Some cost \<Rightarrow>
             (case enqueue_usage [] (us_id user) ''cutover_included_usage'' cost (mt_now mt)
                     (Some (cutover_id (us_id user))) (mt_now mt) s of
                (Inl _, s') \<Rightarrow> (Inl ''database error'', s')
              | (Inr _, s') \<Rightarrow> (Inr (), s'))))"

definition reread_account :: "i32 \<Rightarrow> string \<Rightarrow> billing_world \<Rightarrow> (string + billing_account) \<times> billing_world" where
  "reread_account user_id message w =
     (case get_account user_id (bz_store w) of None \<Rightarrow> (Inl message, w) | Some a \<Rightarrow> (Inr a, w))"

definition migrate_legacy_overage_preference ::
  "metronome \<Rightarrow> billing_user \<Rightarrow> billing_account \<Rightarrow> billing_world \<Rightarrow> (string + billing_account) \<times> billing_world" where
  "migrate_legacy_overage_preference mt user account w =
     (if ba_legacy_overage_preference_migrated account then (Inr account, w)
      else
        (case legacy_overage_migration_target (us_charge_when_under user) (ba_payment_ready account)
                (ba_legacy_overage_preference_migrated account) of
           None \<Rightarrow>
             (case client_set_overage mt account False w of
                (Inl _, w') \<Rightarrow> (Inl ''Failed to keep overage disabled while payment setup is incomplete'', w')
              | (Inr _, w') \<Rightarrow> (Inr account, w'))
         | Some enabled \<Rightarrow>
             (case client_set_overage mt account enabled w of
                (Inl _, w') \<Rightarrow> (Inl ''Failed to apply migrated overage preference'', w')
              | (Inr _, w') \<Rightarrow>
                  reread_account (us_id user) ''Billing account disappeared during overage preference migration''
                    (on_store (complete_legacy_overage_preference_migration (us_id user) enabled
                       (if enabled then Some LEGACY_OVERAGE_CONSENT_VERSION else None) (mt_now mt)) w'))))"

text \<open>
  The migration of the credit balance of an account whose row says it was not migrated yet. \<open>cause\<close> is
  what the caller makes of an error: the text of an \<^verbatim>\<open>anyhow\<close> error is that of its outermost context.
\<close>

definition migrate_credit_once ::
  "(string \<Rightarrow> string) \<Rightarrow> metronome \<Rightarrow> billing_user \<Rightarrow> billing_account \<Rightarrow> billing_world \<Rightarrow> (string + unit) \<times> billing_world" where
  "migrate_credit_once cause mt user account w =
     (if ba_legacy_credit_migrated account then (Inr (), w)
      else
        (case migrate_legacy_credit mt user w of
           (Inl e, w') \<Rightarrow> (Inl (cause e), w')
         | (Inr False, w') \<Rightarrow> (Inl ''Legacy credit migration IDs are required'', w')
         | (Inr True, w') \<Rightarrow> (Inr (), on_store (mark_legacy_credit_migrated (us_id user) (mt_now mt)) w')))"

definition user_payment_ready :: "metronome \<Rightarrow> billing_user \<Rightarrow> bool" where
  "user_payment_ready mt user =
     stripe_payment_ready (mt_stripe mt) (us_stripe_customer_id user) (us_stripe_payment_method_id user)"

definition refresh_provisioned ::
  "metronome \<Rightarrow> billing_user \<Rightarrow> billing_account \<Rightarrow> billing_world \<Rightarrow> (string + billing_account) \<times> billing_world" where
  "refresh_provisioned mt user account w =
     (case enqueue_cutover_usage mt user (bz_store w) of
        (Inl e, s) \<Rightarrow> (Inl e, w\<lparr>bz_store := s\<rparr>)
      | (Inr _, s) \<Rightarrow>
          (case (if \<not> ba_legacy_credit_migrated account \<and> ba_customer_id account = None
                 then (Inl ''Provisioned account has no Metronome customer ID'', w\<lparr>bz_store := s\<rparr>)
                 else if \<not> ba_legacy_credit_migrated account \<and> ba_contract_id account = None
                 then (Inl ''Provisioned account has no Metronome contract ID'', w\<lparr>bz_store := s\<rparr>)
                 else migrate_credit_once (\<lambda>e. e) mt user account (w\<lparr>bz_store := s\<rparr>)) of
             (Inl e, w1) \<Rightarrow> (Inl e, w1)
           | (Inr _, w1) \<Rightarrow>
               if ba_payment_ready account then migrate_legacy_overage_preference mt user account w1
               else
                 (case reread_account (us_id user) ''Provisioned billing account disappeared''
                         (on_store (set_payment_ready (us_id user) (user_payment_ready mt user) (mt_now mt)) w1) of
                    (Inl e, w2) \<Rightarrow> (Inl e, w2)
                  | (Inr current, w2) \<Rightarrow> migrate_legacy_overage_preference mt user current w2)))"

definition provision_new ::
  "metronome \<Rightarrow> billing_user \<Rightarrow> billing_account \<Rightarrow> billing_world \<Rightarrow> (string + billing_account) \<times> billing_world" where
  "provision_new mt user account w =
     (if us_stripe_customer_id user = None then (Inl ''User has no Stripe customer ID'', w)
      else
        (case create_customer mt (us_id user) w of
           (Inl e, w1) \<Rightarrow> (Inl e, w1)
         | (Inr customer_id, w1) \<Rightarrow>
             (case create_contract mt (us_id user) customer_id w1 of
                (Inl e, w2) \<Rightarrow> (Inl e, w2)
              | (Inr contract_id, w2) \<Rightarrow>
                  (case set_contract_overage mt contract_id (us_id user) False w2 of
                     (Inl e, w3) \<Rightarrow> (Inl e, w3)
                   | (Inr _, w3) \<Rightarrow>
                       (case mark_provisioned (us_id user) customer_id contract_id (user_payment_ready mt user)
                               (mt_now mt) (bz_store w3) of
                          (Inl _, s) \<Rightarrow> (Inl ''database error'', w3\<lparr>bz_store := s\<rparr>)
                        | (Inr _, s) \<Rightarrow>
                            (case enqueue_cutover_usage mt user s of
                               (Inl e, s') \<Rightarrow> (Inl e, w3\<lparr>bz_store := s'\<rparr>)
                             | (Inr _, s') \<Rightarrow>
                                 (case migrate_credit_once (\<lambda>_. ''Failed to migrate legacy credit balance'') mt user account
                                         (w3\<lparr>bz_store := s'\<rparr>) of
                                    (Inl e, w4) \<Rightarrow> (Inl e, w4)
                                  | (Inr _, w4) \<Rightarrow>
                                      (case reread_account (us_id user) ''Provisioned billing account disappeared'' w4 of
                                         (Inl e, w5) \<Rightarrow> (Inl e, w5)
                                       | (Inr current, w5) \<Rightarrow>
                                           migrate_legacy_overage_preference mt user current w5))))))))"

definition provision_user ::
  "metronome \<Rightarrow> billing_user \<Rightarrow> billing_world \<Rightarrow> (string + billing_account) \<times> billing_world" where
  "provision_user mt user w =
     (case ensure_account (us_id user) (mt_now mt) (bz_store w) of
        (Inl _, s) \<Rightarrow> (Inl ''database error'', w\<lparr>bz_store := s\<rparr>)
      | (Inr account, s) \<Rightarrow>
          let w0 = w\<lparr>bz_store := s\<rparr> in
          (case validate_config (mt_parse_url mt) (mt_config mt) of
             Inl e \<Rightarrow> (Inl e, w0)
           | Inr _ \<Rightarrow>
               if \<not> mc_enabled (mt_config mt) then (Inr account, w0)
               else if ba_provisioning_status account = ''provisioned'' then refresh_provisioned mt user account w0
               else provision_new mt user account w0))"

definition provision_subscriber :: "metronome \<Rightarrow> billing_user \<Rightarrow> billing_world \<Rightarrow> billing_world" where
  "provision_subscriber mt user w =
     (if us_byot user then w
      else
        (case provision_user mt user w of
           (Inr _, w') \<Rightarrow> w'
         | (Inl e, w') \<Rightarrow>
             on_store (\<lambda>s. mark_provisioning_failed (us_id user) (billing_error_code e) (mt_now mt)
                              (snd (ensure_account (us_id user) (mt_now mt) s))) w'))"

definition client_enabled :: "metronome \<Rightarrow> bool" where
  "client_enabled mt \<longleftrightarrow>
     validate_config (mt_parse_url mt) (mt_config mt) = Inr () \<and> mc_enabled (mt_config mt)"

text \<open>\<open>users\<close> are the users of the tier.\<close>

definition provision_subscribers :: "metronome \<Rightarrow> billing_user list \<Rightarrow> billing_world \<Rightarrow> billing_world" where
  "provision_subscribers mt users w =
     (if \<not> client_enabled mt then w else fold (provision_subscriber mt) users w)"

section \<open>The outbox worker\<close>

definition settle_chunk :: "metronome \<Rightarrow> billing_usage_event list \<Rightarrow> billing_world \<Rightarrow> billing_world" where
  "settle_chunk mt chunk w =
     (let answer = mt_ingest mt (length (bz_calls w)) chunk; w' = call_provider mt (IngestUsage chunk) w
      in (case answer of
            Inr _ \<Rightarrow> on_store (fold (\<lambda>e. mark_usage_sent (bu_transaction_id e) (mt_now mt)) chunk) w'
          | Inl error \<Rightarrow>
              on_store (fold (\<lambda>e. mark_usage_failed (bu_transaction_id e) (bu_attempts e) (billing_error_code error)
                                    (mt_now mt)) chunk) w'))"

text \<open>A claim returns at most 100 events, so \<^verbatim>\<open>events.chunks(100)\<close> has at most one chunk.\<close>

definition USAGE_BATCH :: nat where "USAGE_BATCH = 100"

definition flush_usage_outbox ::
  "metronome \<Rightarrow> (string \<Rightarrow> billing_store \<Rightarrow> billing_store) \<Rightarrow> billing_world \<Rightarrow> billing_world" where
  "flush_usage_outbox mt others w =
     (if \<not> client_enabled mt then w
      else
        (case claim_due_usage others USAGE_BATCH (mt_now mt) (bz_store w) of
           (events, s) \<Rightarrow>
             if events = [] then w\<lparr>bz_store := s\<rparr> else settle_chunk mt events (w\<lparr>bz_store := s\<rparr>)))"

text \<open>
  The reconciliation of one event, with the invoices read so far by user. A lookup that fails leaves the
  event for the next run. It only reads from the provider, which the trace does not record.
\<close>

definition reconcile_event ::
  "metronome \<Rightarrow> json \<Rightarrow> billing_usage_event \<Rightarrow> (i32 \<rightharpoonup> json) \<times> billing_store \<Rightarrow> (i32 \<rightharpoonup> json) \<times> billing_store" where
  "reconcile_event mt search e st =
     (case st of (invoices, s) \<Rightarrow>
        let tid = bu_transaction_id e; user_id = bu_user_id e;
            status = provider_event_status search tid (case mc_billable_metric_id (mt_config mt) of None \<Rightarrow> [] | Some m \<Rightarrow> m)
        in if status \<noteq> ''matched'' then (invoices, mark_usage_reconciled tid status False (mt_now mt) s)
           else
             (case get_account user_id s of
                None \<Rightarrow> (invoices, s)
              | Some account \<Rightarrow>
                  (case (ba_customer_id account, ba_contract_id account) of
                     (Some customer_id, Some contract_id) \<Rightarrow>
                       (case (case invoices user_id of Some v \<Rightarrow> Inr v | None \<Rightarrow> mt_invoices mt customer_id) of
                          Inl _ \<Rightarrow> (invoices, s)
                        | Inr v \<Rightarrow>
                            (invoices(user_id \<mapsto> v),
                             mark_usage_reconciled tid status
                               (invoice_contains_usage (mt_rfc3339 mt) v contract_id
                                  (case mc_usage_product_id (mt_config mt) of None \<Rightarrow> [] | Some p \<Rightarrow> p)
                                  (bu_occurred_at e))
                               (mt_now mt) s))
                   | _ \<Rightarrow> (invoices, s))))"

definition reconcile_usage_outbox :: "metronome \<Rightarrow> billing_store \<Rightarrow> billing_store" where
  "reconcile_usage_outbox mt s =
     (if \<not> client_enabled mt then s
      else
        let events = usage_for_reconciliation 25 (mt_now mt) s
        in if events = [] then s
           else
             (case mt_search mt (map bu_transaction_id events) of
                Inl _ \<Rightarrow> s
              | Inr search \<Rightarrow> snd (fold (reconcile_event mt search) events (Map.empty, s))))"

section \<open>Recording usage\<close>

text \<open>
  \<^verbatim>\<open>cost_to_microusd\<close>: an amount is not positive or not finite, or it is rounded to micro dollars, which
  may give 0.
\<close>

datatype usage_cost = NoCost | CostMicrousd i64

definition service_enqueue_usage ::
  "metronome \<Rightarrow> string \<Rightarrow> i32 \<Rightarrow> string \<Rightarrow> usage_cost \<Rightarrow> string option \<Rightarrow> billing_store \<Rightarrow> (string + string) \<times> billing_store" where
  "service_enqueue_usage mt fresh user_id event_type cost transaction_id s =
     (case validate_config (mt_parse_url mt) (mt_config mt) of
        Inl e \<Rightarrow> (Inl e, s)
      | Inr _ \<Rightarrow>
          (case ensure_account user_id (mt_now mt) s of
             (Inl _, s1) \<Rightarrow> (Inl ''database error'', s1)
           | (Inr _, s1) \<Rightarrow>
               (case cost of
                  NoCost \<Rightarrow> (Inl ''Usage cost must be a positive finite number'', s1)
                | CostMicrousd c \<Rightarrow>
                    (case enqueue_usage fresh user_id event_type c (mt_now mt) transaction_id (mt_now mt) s1 of
                       (Inl _, s2) \<Rightarrow> (Inl ''database error'', s2)
                     | (Inr tid, s2) \<Rightarrow> (Inr tid, s2)))))"

definition service_begin_usage_intent ::
  "metronome \<Rightarrow> string \<Rightarrow> i32 \<Rightarrow> string \<Rightarrow> billing_store \<Rightarrow> (string + string) \<times> billing_store" where
  "service_begin_usage_intent mt fresh user_id event_type s =
     (case validate_config (mt_parse_url mt) (mt_config mt) of
        Inl e \<Rightarrow> (Inl e, s)
      | Inr _ \<Rightarrow>
          (case ensure_account user_id (mt_now mt) s of
             (Inl _, s1) \<Rightarrow> (Inl ''database error'', s1)
           | (Inr _, s1) \<Rightarrow>
               (case begin_usage_intent user_id event_type fresh (mt_now mt) s1 of
                  (Inl _, s2) \<Rightarrow> (Inl ''database error'', s2)
                | (Inr _, s2) \<Rightarrow> (Inr fresh, s2))))"

text \<open>\<open>positive\<close> is \<^verbatim>\<open>cost_usd > 0.0\<close>, that is, not \<^verbatim>\<open>cost_usd <= 0.0\<close>.\<close>

definition service_finalize_usage_intent ::
  "metronome \<Rightarrow> string \<Rightarrow> bool \<Rightarrow> usage_cost \<Rightarrow> billing_store \<Rightarrow> (string + unit) \<times> billing_store" where
  "service_finalize_usage_intent mt tid positive cost s =
     (if \<not> positive then (Inr (), abandon_usage_intent tid (mt_now mt) s)
      else
        (case cost of
           NoCost \<Rightarrow> (Inl ''Usage cost must be a positive finite number'', s)
         | CostMicrousd c \<Rightarrow>
             (case finalize_usage_intent tid c (mt_now mt) (mt_now mt) s of
                (Inl _, s') \<Rightarrow> (Inl ''database error'', s')
              | (Inr _, s') \<Rightarrow> (Inr (), s'))))"

section \<open>Entitlement\<close>

definition usage_entitled_from_account_state :: "bool \<Rightarrow> bool \<Rightarrow> bool \<Rightarrow> bool option \<Rightarrow> bool" where
  "usage_entitled_from_account_state usage_entitled overage_enabled payment_ready available_positive \<longleftrightarrow>
     usage_entitled \<or> available_positive = Some True \<or> (overage_enabled \<and> payment_ready)"

definition has_usage_entitlement :: "metronome \<Rightarrow> i32 \<Rightarrow> billing_world \<Rightarrow> (string + bool) \<times> billing_world" where
  "has_usage_entitlement mt user_id w =
     (case validate_config (mt_parse_url mt) (mt_config mt) of
        Inl e \<Rightarrow> (Inl e, w)
      | Inr _ \<Rightarrow>
          (case ensure_account user_id (mt_now mt) (bz_store w) of
             (Inl _, s) \<Rightarrow> (Inl ''database error'', w\<lparr>bz_store := s\<rparr>)
           | (Inr account, s) \<Rightarrow>
               let w0 = w\<lparr>bz_store := s\<rparr> in
               if ba_usage_entitled account then (Inr True, w0)
               else if ba_customer_id account = None then (Inl ''Billing account is not provisioned'', w0)
               else
                 let answer = mt_balance_positive mt (length (bz_calls w0)) user_id;
                     w1 = call_provider mt (ReadBalance user_id) w0
                 in (case answer of
                       Inl e \<Rightarrow> (Inl e, w1)
                     | Inr available \<Rightarrow>
                         let entitled = usage_entitled_from_account_state False (ba_overage_enabled account)
                               (ba_payment_ready account) (Some available)
                         in (Inr entitled,
                             if entitled then on_store (set_usage_entitled user_id True (mt_now mt)) w1 else w1))))"

section \<open>The billing period\<close>

text \<open>
  A \<^verbatim>\<open>DateTime<Utc>\<close> as year, month, day and second of the day, compared in that order.
  \<^verbatim>\<open>checked_add_months(Months::new(1))\<close> keeps the day, or takes the last one of a shorter month; it fails
  past the last year of \<^verbatim>\<open>chrono\<close>.
\<close>

type_synonym datetime = "int \<times> int \<times> int \<times> int"

definition leap_year :: "int \<Rightarrow> bool" where
  "leap_year y \<longleftrightarrow> y mod 4 = 0 \<and> (y mod 100 \<noteq> 0 \<or> y mod 400 = 0)"

definition days_in_month :: "int \<Rightarrow> int \<Rightarrow> int" where
  "days_in_month y m =
     (if m \<in> {4, 6, 9, 11} then 30 else if m = 2 then (if leap_year y then 29 else 28) else 31)"

definition MAX_YEAR :: int where "MAX_YEAR = 262142"

fun add_month :: "datetime \<Rightarrow> datetime option" where
  "add_month (y, m, d, t) =
     (let y' = (if 12 \<le> m then y + 1 else y); m' = (if 12 \<le> m then 1 else m + 1)
      in if MAX_YEAR < y' then None else Some (y', m', min d (days_in_month y' m'), t))"

definition month_number :: "datetime \<Rightarrow> int" where
  "month_number dt = 12 * fst dt + min 12 (fst (snd dt))"

lemma add_month_number: "add_month dt = Some dt' \<Longrightarrow> month_number dt' = month_number dt + 1"
  by (cases dt) (auto simp: month_number_def Let_def split: if_splits)

function period_from :: "datetime \<Rightarrow> datetime \<Rightarrow> datetime \<Rightarrow> (datetime \<times> datetime) option" where
  "period_from start finish now =
     (if finish \<le> now then
        (case add_month finish of None \<Rightarrow> None | Some next_finish \<Rightarrow> period_from finish next_finish now)
      else Some (start, finish))"
  by pat_completeness auto
termination
proof (relation "measure (\<lambda>(start, finish, now). nat (12 * (MAX_YEAR + 2) - month_number finish))")
  fix start finish now next_finish :: datetime
  assume "add_month finish = Some next_finish"
  then have "month_number next_finish = month_number finish + 1" "month_number finish < 12 * (MAX_YEAR + 2)"
    using add_month_number [of finish next_finish]
    by (cases finish; auto simp: month_number_def Let_def split: if_splits)+
  then show "((finish, next_finish, now), start, finish, now)
      \<in> measure (\<lambda>(start, finish, now). nat (12 * (MAX_YEAR + 2) - month_number finish))"
    by simp
qed simp

definition billing_period_from_anchor :: "datetime \<Rightarrow> datetime \<Rightarrow> (datetime \<times> datetime) option" where
  "billing_period_from_anchor anchor now =
     (case add_month anchor of None \<Rightarrow> None | Some finish \<Rightarrow> period_from anchor finish now)"

end
