(* ===== verification/BillingHandlers.thy ===== *)
theory BillingHandlers
  imports BillingService
begin

text \<open>
  The endpoints of \<^verbatim>\<open>handlers/billing_handlers.rs\<close> that change billing state: the webhook of the provider
  (\<open>metronome_webhook\<close>) and the overage switch of the user (\<open>update_overage\<close>).

  The statements of a request are not one transaction: other sessions write before each of them
  (\<open>wv_others\<close>, by the number of the statement). The message a webhook sends is a task that is spawned;
  here it is a value.
\<close>

record billing_webhook_env =
  wv_now :: i32
  wv_now_i64 :: i64
  wv_parse :: "string \<Rightarrow> json option"
  wv_rfc2822 :: "string \<Rightarrow> int option"
  wv_unhex :: "string \<Rightarrow> string option"
  wv_hmac :: "string \<Rightarrow> string \<Rightarrow> string"
  wv_positive :: "string \<Rightarrow> bool"              \<comment> \<open>of a number with a fraction\<close>
  wv_dollars :: "json \<Rightarrow> string"              \<comment> \<open>cents as dollars with two digits\<close>
  wv_reset_date :: "i32 \<Rightarrow> string"            \<comment> \<open>the label of the date, or \<^verbatim>\<open>your billing date\<close>\<close>
  wv_user_exists :: "i32 \<Rightarrow> bool"
  wv_others :: "nat \<Rightarrow> billing_store \<Rightarrow> billing_store"

record billing_webhook_request =
  wq_date :: "string option"
  wq_signature :: "string option"
  wq_body :: string

section \<open>What a webhook changes\<close>

text \<open>Statements with the writes of other sessions before each.\<close>

fun run_statements ::
  "(nat \<Rightarrow> billing_store \<Rightarrow> billing_store) \<Rightarrow> nat \<Rightarrow> (billing_store \<Rightarrow> billing_store) list \<Rightarrow> billing_store \<Rightarrow> billing_store" where
  "run_statements others k [] s = s"
| "run_statements others k (f # fs) s = run_statements others (Suc k) fs (f (others k s))"

definition remaining_balance :: "json \<Rightarrow> json" where
  "remaining_balance payload = json_at ''remaining_balance'' (json_at ''properties'' payload)"

definition balance_exhausted :: "billing_webhook_env \<Rightarrow> json \<Rightarrow> bool" where
  "balance_exhausted env v =
     (case v of JInt i \<Rightarrow> i \<le> 0 | JFloat t \<Rightarrow> \<not> wv_positive env t | _ \<Rightarrow> True)"

definition low_remaining :: "string \<Rightarrow> bool" where
  "low_remaining event_type \<longleftrightarrow> prefix ''alerts.low_remaining_'' event_type"

definition webhook_statements ::
  "billing_webhook_env \<Rightarrow> string \<Rightarrow> json \<Rightarrow> billing_account \<Rightarrow> (billing_store \<Rightarrow> billing_store) list" where
  "webhook_statements env event_type payload account =
     (let user_id = ba_user_id account; now = wv_now env
      in if event_type = ''payment_gate.payment_status'' then
           (let paid = (get_str ''payment_status'' (json_at ''properties'' payload) = Some ''paid'')
            in [set_payment_ready user_id paid now,
                set_usage_entitled user_id (paid \<and> ba_overage_enabled account) now] @
               (if paid then [] else [set_overage user_id False None now]))
         else if event_type = ''payment_gate.payment_pending_action_required'' \<or>
                 event_type = ''invoice.billing_provider_error'' then
           [set_payment_ready user_id False now, set_usage_entitled user_id False now,
            set_overage user_id False None now]
         else if low_remaining event_type \<and> suffix ''_resolved'' event_type then
           [set_usage_entitled user_id True now]
         else if low_remaining event_type \<and> balance_exhausted env (remaining_balance payload) then
           [set_usage_entitled user_id (ba_overage_enabled account \<and> ba_payment_ready account) now]
         else [])"

definition webhook_notices ::
  "billing_webhook_env \<Rightarrow> string \<Rightarrow> json \<Rightarrow> billing_account \<Rightarrow> (i32 \<times> string) list" where
  "webhook_notices env event_type payload account =
     (let user_id = ba_user_id account;
          exhausted = balance_exhausted env (remaining_balance payload);
          reset_date = wv_reset_date env user_id
      in if low_remaining event_type \<and> \<not> suffix ''_resolved'' event_type \<and> wv_user_exists env user_id
         then [(user_id,
            if \<not> exhausted
            then ''$'' @ wv_dollars env (remaining_balance payload) @ '' left. Resets '' @ reset_date @ ''.''
            else if ba_overage_enabled account \<and> ba_payment_ready account
            then ''$25 used. Overage on. Resets '' @ reset_date @ ''.''
            else ''$25 used. Resets '' @ reset_date @ ''. Enable overage?'')]
         else [])"

definition webhook_customer :: "json \<Rightarrow> string option" where
  "webhook_customer payload =
     (case get_str ''customer_id'' (json_at ''properties'' payload) of
        Some c \<Rightarrow> Some c | None \<Rightarrow> get_str ''customer_id'' payload)"

definition process_webhook ::
  "billing_webhook_env \<Rightarrow> string \<Rightarrow> json \<Rightarrow> billing_store \<Rightarrow> (nat option \<times> (i32 \<times> string) list) \<times> billing_store" where
  "process_webhook env event_type payload s =
     (case webhook_customer payload of
        None \<Rightarrow> ((None, []), s)
      | Some customer_id \<Rightarrow>
          let s1 = wv_others env 2 s
          in (case find_by_metronome_customer_id customer_id s1 of
                None \<Rightarrow> ((Some 503, []), s1)
              | Some account \<Rightarrow>
                  ((None, webhook_notices env event_type payload account),
                   run_statements (wv_others env) 3 (webhook_statements env event_type payload account) s1)))"

section \<open>The webhook endpoint\<close>

text \<open>The answer is a status code, with the notices it spawns.\<close>

definition webhook_authentic :: "metronome \<Rightarrow> billing_webhook_env \<Rightarrow> billing_webhook_request \<Rightarrow> nat option" where
  "webhook_authentic mt env req =
     (if validate_config (mt_parse_url mt) (mt_config mt) \<noteq> Inr () then Some 503
      else if mc_webhook_secret (mt_config mt) = [] then Some 503
      else
        (case wq_date req of
           None \<Rightarrow> Some 400
         | Some date \<Rightarrow>
             (case wq_signature req of
                None \<Rightarrow> Some 401
              | Some signature \<Rightarrow>
                  if verify_webhook_signature (wv_rfc2822 env) (wv_unhex env) (wv_hmac env)
                       (mc_webhook_secret (mt_config mt)) date (wq_body req) signature (wv_now_i64 env) \<noteq> Inr ()
                  then Some 401 else None)))"

definition WEBHOOK_LEASE_SECONDS :: i32 where "WEBHOOK_LEASE_SECONDS = 120"

definition handle_event ::
  "billing_webhook_env \<Rightarrow> string \<Rightarrow> string \<Rightarrow> json \<Rightarrow> billing_store \<Rightarrow> (nat \<times> (i32 \<times> string) list) \<times> billing_store" where
  "handle_event env event_id event_type payload s =
     (case claim_webhook (wv_others env) event_id event_type WEBHOOK_LEASE_SECONDS (wv_now env) s of
        (Inl _, s1) \<Rightarrow> ((500, []), s1)
      | (Inr WebhookAlreadyProcessed, s1) \<Rightarrow> ((200, []), s1)
      | (Inr WebhookInFlight, s1) \<Rightarrow> ((503, []), s1)
      | (Inr WebhookClaimed, s1) \<Rightarrow>
          (case process_webhook env event_type payload s1 of
             ((None, notices), s2) \<Rightarrow> ((200, notices), complete_webhook event_id (wv_now env) (wv_others env 7 s2))
           | ((Some code, notices), s2) \<Rightarrow>
               ((code, notices), fail_webhook event_id ''processing_failed'' (wv_others env 7 s2))))"

definition metronome_webhook ::
  "metronome \<Rightarrow> billing_webhook_env \<Rightarrow> billing_webhook_request \<Rightarrow> billing_store \<Rightarrow> (nat \<times> (i32 \<times> string) list) \<times> billing_store" where
  "metronome_webhook mt env req s =
     (case webhook_authentic mt env req of
        Some code \<Rightarrow> ((code, []), s)
      | None \<Rightarrow>
          (case wv_parse env (wq_body req) of
             None \<Rightarrow> ((400, []), s)
           | Some payload \<Rightarrow>
               (case get_str ''id'' payload of
                  None \<Rightarrow> ((400, []), s)
                | Some event_id \<Rightarrow>
                    (case get_str ''type'' payload of
                       None \<Rightarrow> ((400, []), s)
                     | Some event_type \<Rightarrow> handle_event env event_id event_type payload s))))"

section \<open>The overage switch\<close>

text \<open>
  The answer is an error or the account behind the status that is shown. \<open>user\<close> is what \<^verbatim>\<open>find_by_id\<close>
  returns.
\<close>

definition update_overage ::
  "metronome \<Rightarrow> db_error + billing_user option \<Rightarrow> bool \<Rightarrow> string option \<Rightarrow> billing_world
     \<Rightarrow> ((nat \<times> string) + billing_account) \<times> billing_world" where
  "update_overage mt found enabled consent_version w =
     (if \<not> mc_enabled (mt_config mt) then (Inl (503, ''Usage billing has not been activated yet''), w)
      else if enabled \<and> consent_version \<noteq> Some OVERAGE_CONSENT_VERSION
      then (Inl (400, ''Please accept the current overage billing terms''), w)
      else
        (case found of
           Inl _ \<Rightarrow> (Inl (500, ''Billing database error''), w)
         | Inr None \<Rightarrow> (Inl (404, ''User not found''), w)
         | Inr (Some user) \<Rightarrow>
             if us_sub_tier user \<noteq> Some ''tier 2'' \<or> us_byot user
             then (Inl (403, ''Overage billing requires an active hosted plan''), w)
             else
               (case provision_user mt user w of
                  (Inl _, w1) \<Rightarrow> (Inl (503, ''Billing is temporarily unavailable''), w1)
                | (Inr account, w1) \<Rightarrow>
                    if enabled \<and> \<not> ba_payment_ready account
                    then (Inl (402, ''Add or update your default payment method before enabling overage''), w1)
                    else
                      (case client_set_overage mt account enabled w1 of
                         (Inl _, w2) \<Rightarrow> (Inl (502, ''Could not update overage billing''), w2)
                       | (Inr _, w2) \<Rightarrow>
                           let w3 = on_store (set_overage (us_id user) enabled
                                 (if enabled then Some OVERAGE_CONSENT_VERSION else None) (mt_now mt)) w2;
                               w4 = (if enabled then on_store (set_usage_entitled (us_id user) True (mt_now mt)) w3 else w3)
                           in (case get_account (us_id user) (bz_store w4) of
                                 None \<Rightarrow> (Inl (500, ''Billing account not found''), w4)
                               | Some a \<Rightarrow> (Inr a, w4))))))"

end
