(* ===== verification/BillingRuns.thy ===== *)
theory BillingRuns
  imports BillingHandlers
begin

text \<open>
  Billing as runs of statements. Every operation of the repository, the service and the handlers is a
  sequence of statements of the database with the statements of other sessions in between
  (\<open>billing_op_runs\<close>), so that what each statement keeps holds under every interleaving of the
  operations: the ledger of usage is only appended to, and overage is on only with a recorded consent.
\<close>

section \<open>Statements and operations\<close>

definition consent_given :: "bool \<Rightarrow> string option \<Rightarrow> bool" where
  "consent_given enabled version \<longleftrightarrow>
     (enabled \<longrightarrow> version = Some OVERAGE_CONSENT_VERSION \<or> version = Some LEGACY_OVERAGE_CONSENT_VERSION)"

lemma consent_simps [simp, intro]:
  "consent_given False v"
  "consent_given True (Some OVERAGE_CONSENT_VERSION)" "consent_given True (Some LEGACY_OVERAGE_CONSENT_VERSION)"
  by (simp_all add: consent_given_def)

inductive billing_statement :: "billing_store \<Rightarrow> billing_store \<Rightarrow> bool" where
  st_account: "billing_statement s (snd (ensure_account u now s))"
| st_provisioned: "billing_statement s (snd (mark_provisioned u c k ready now s))"
| st_provisioning_failed: "billing_statement s (mark_provisioning_failed u e now s)"
| st_overage: "consent_given enabled v \<Longrightarrow> billing_statement s (set_overage u enabled v now s)"
| st_migration: "consent_given enabled v \<Longrightarrow>
    billing_statement s (complete_legacy_overage_preference_migration u enabled v now s)"
| st_ready: "billing_statement s (set_payment_ready u ready now s)"
| st_entitled: "billing_statement s (set_usage_entitled u entitled now s)"
| st_credit: "billing_statement s (mark_legacy_credit_migrated u now s)"
| st_enqueue: "billing_statement s (snd (enqueue_usage fresh u t c occurred tid now s))"
| st_begin: "billing_statement s (snd (begin_usage_intent u t tid now s))"
| st_finalize: "billing_statement s (snd (finalize_usage_intent tid c occurred now s))"
| st_abandon: "billing_statement s (abandon_usage_intent tid now s)"
| st_claim: "billing_statement s (snd (claim_usage_event tid now s))"
| st_sent: "billing_statement s (mark_usage_sent tid now s)"
| st_usage_failed: "billing_statement s (mark_usage_failed tid n e now s)"
| st_reconciled: "billing_statement s (mark_usage_reconciled tid status visible now s)"
| st_recorded: "billing_statement s (snd (record_webhook_once e t now s))"
| st_new_webhook: "get_webhook e s = None \<Longrightarrow>
    billing_statement s (s\<lparr>bl_webhooks := bl_webhooks s @ [new_webhook_row e t l now]\<rparr>)"
| st_claim_webhook: "billing_statement s (update_webhook e (webhook_claimable now) (webhook_claim_row t l) s)"
| st_complete: "billing_statement s (complete_webhook e now s)"
| st_webhook_failed: "billing_statement s (fail_webhook e code s)"

abbreviation billing_runs :: "billing_store \<Rightarrow> billing_store \<Rightarrow> bool" where
  "billing_runs \<equiv> billing_statement\<^sup>*\<^sup>*"

text \<open>What other sessions write in between are statements, too.\<close>

definition interleaved :: "('k \<Rightarrow> billing_store \<Rightarrow> billing_store) \<Rightarrow> bool" where
  "interleaved others \<longleftrightarrow> (\<forall>k s. billing_runs s (others k s))"

inductive billing_op :: "billing_store \<Rightarrow> billing_store \<Rightarrow> bool" where
  op_statement: "billing_statement s s' \<Longrightarrow> billing_op s s'"
| op_webhook: "interleaved (wv_others env) \<Longrightarrow> billing_op s (snd (metronome_webhook mt env req s))"
| op_overage: "interleaved (mt_others mt) \<Longrightarrow>
    billing_op (bz_store w) (bz_store (snd (update_overage mt found enabled v w)))"
| op_provision: "interleaved (mt_others mt) \<Longrightarrow> billing_op (bz_store w) (bz_store (snd (provision_user mt user w)))"
| op_subscribers: "interleaved (mt_others mt) \<Longrightarrow>
    billing_op (bz_store w) (bz_store (provision_subscribers mt users w))"
| op_flush: "interleaved (mt_others mt) \<Longrightarrow> interleaved others \<Longrightarrow>
    billing_op (bz_store w) (bz_store (flush_usage_outbox mt others w))"
| op_reconcile: "billing_op s (reconcile_usage_outbox mt s)"
| op_enqueue: "billing_op s (snd (service_enqueue_usage mt fresh u t c tid s))"
| op_begin: "billing_op s (snd (service_begin_usage_intent mt fresh u t s))"
| op_finalize: "billing_op s (snd (service_finalize_usage_intent mt tid positive c s))"
| op_entitlement: "interleaved (mt_others mt) \<Longrightarrow>
    billing_op (bz_store w) (bz_store (snd (has_usage_entitlement mt u w)))"

section \<open>Operations are runs of statements\<close>

named_theorems runs \<open>operations as runs of statements\<close>

lemmas runs_refl [runs, simp] = rtranclp.rtrancl_refl [of billing_statement]

lemma runs_statement: "billing_statement s s' \<Longrightarrow> billing_runs s s'"
  by (rule r_into_rtranclp)

lemmas statement_runs [runs] = billing_statement.intros [THEN runs_statement]

lemma runs_then: "billing_runs s s' \<Longrightarrow> billing_runs s' s'' \<Longrightarrow> billing_runs s s''"
  by (rule rtranclp_trans)

lemma runs_step: "billing_runs s s' \<Longrightarrow> billing_statement s' s'' \<Longrightarrow> billing_runs s s''"
  by (rule rtranclp.rtrancl_into_rtrancl)

lemma interleavedD: "interleaved others \<Longrightarrow> billing_runs s (others k s)"
  by (simp add: interleaved_def)

lemma runs_fold: "(\<And>x s. x \<in> set xs \<Longrightarrow> billing_runs s (f x s)) \<Longrightarrow> billing_runs s (fold f xs s)"
  by (induction xs arbitrary: s) (auto intro: runs_then)

text \<open>The world of a call to the provider.\<close>

abbreviation world_runs :: "billing_world \<Rightarrow> billing_world \<Rightarrow> bool" where
  "world_runs w w' \<equiv> billing_runs (bz_store w) (bz_store w')"

lemma runs_call: "interleaved (mt_others mt) \<Longrightarrow> world_runs w (call_provider mt c w)"
  by (simp add: call_provider_def interleavedD)

lemma runs_on_store: "(\<And>s. billing_runs s (f s)) \<Longrightarrow> world_runs w (on_store f w)"
  by (simp add: on_store_def)

lemma create_customer_runs: "interleaved (mt_others mt) \<Longrightarrow> create_customer mt u w = (r, w') \<Longrightarrow> world_runs w w'"
  by (auto simp: create_customer_def Let_def runs_call)

lemma create_contract_runs: "interleaved (mt_others mt) \<Longrightarrow> create_contract mt u c w = (r, w') \<Longrightarrow> world_runs w w'"
  by (auto simp: create_contract_def Let_def runs_call)

lemma set_contract_overage_runs:
  "interleaved (mt_others mt) \<Longrightarrow> set_contract_overage mt k u enabled w = (r, w') \<Longrightarrow> world_runs w w'"
  by (auto simp: set_contract_overage_def runs_call)

lemma client_set_overage_runs:
  "interleaved (mt_others mt) \<Longrightarrow> client_set_overage mt a enabled w = (r, w') \<Longrightarrow> world_runs w w'"
  by (auto simp: client_set_overage_def split: option.splits if_splits intro: set_contract_overage_runs)

lemma migrate_legacy_credit_runs:
  "interleaved (mt_others mt) \<Longrightarrow> migrate_legacy_credit mt user w = (r, w') \<Longrightarrow> world_runs w w'"
  by (auto simp: migrate_legacy_credit_def runs_call split: if_splits)

lemma migrate_credit_once_runs:
  "interleaved (mt_others mt) \<Longrightarrow> migrate_credit_once c mt user a w = (r, w') \<Longrightarrow> world_runs w w'"
  by (auto simp: migrate_credit_once_def on_store_def split: sum.splits bool.splits prod.splits if_splits
      dest!: migrate_legacy_credit_runs intro: runs_step [OF _ st_credit])

lemma enqueue_usage_runs: "enqueue_usage fresh u t c occurred tid now s = (r, s') \<Longrightarrow> billing_runs s s'"
  using statement_runs(9) [of s fresh u t c occurred tid now] by simp

lemma ensure_account_runs: "ensure_account u now s = (r, s') \<Longrightarrow> billing_runs s s'"
  using statement_runs(1) [of s u now] by simp

lemma mark_provisioned_runs: "mark_provisioned u c k ready now s = (r, s') \<Longrightarrow> billing_runs s s'"
  using statement_runs(2) [of s u c k ready now] by simp

lemma enqueue_cutover_usage_runs: "enqueue_cutover_usage mt user s = (r, s') \<Longrightarrow> billing_runs s s'"
  by (auto simp: enqueue_cutover_usage_def split: option.splits sum.splits prod.splits if_splits
      dest: enqueue_usage_runs)

lemma reread_account_runs: "reread_account u m w = (r, w') \<Longrightarrow> w' = w"
  by (auto simp: reread_account_def split: option.splits)

lemma migrate_legacy_overage_preference_runs:
  assumes "interleaved (mt_others mt)" "migrate_legacy_overage_preference mt user a w = (r, w')"
  shows "world_runs w w'"
proof -
  show ?thesis
    using assms(2)
    by (auto simp: migrate_legacy_overage_preference_def on_store_def split: option.splits sum.splits prod.splits if_splits
        dest!: reread_account_runs client_set_overage_runs [OF assms(1)])
      (meson runs_step st_migration consent_simps)+
qed

lemma refresh_provisioned_runs:
  assumes "interleaved (mt_others mt)" "refresh_provisioned mt user a w = (r, w')"
  shows "world_runs w w'"
proof -
  note steps = enqueue_cutover_usage_runs migrate_credit_once_runs [OF assms(1)]
    migrate_legacy_overage_preference_runs [OF assms(1)]
  show ?thesis
    using assms(2)
    by (auto simp: refresh_provisioned_def on_store_def split: sum.splits prod.splits if_splits
        dest!: reread_account_runs steps intro: runs_step [OF _ st_ready])
      (meson runs_then runs_step st_ready)+
qed

lemma provision_new_runs:
  assumes "interleaved (mt_others mt)" "provision_new mt user a w = (r, w')"
  shows "world_runs w w'"
proof -
  note steps = create_customer_runs [OF assms(1)] create_contract_runs [OF assms(1)]
    set_contract_overage_runs [OF assms(1)] mark_provisioned_runs enqueue_cutover_usage_runs
    migrate_credit_once_runs [OF assms(1)] migrate_legacy_overage_preference_runs [OF assms(1)]
  show ?thesis
    using assms(2)
    by (auto simp: provision_new_def split: sum.splits prod.splits if_splits dest!: reread_account_runs steps)
qed

lemma provision_user_runs:
  assumes "interleaved (mt_others mt)" "provision_user mt user w = (r, w')"
  shows "world_runs w w'"
  using assms(2)
  by (auto simp: provision_user_def Let_def split: sum.splits prod.splits if_splits
      dest!: ensure_account_runs refresh_provisioned_runs [OF assms(1)] provision_new_runs [OF assms(1)])

lemma provision_subscriber_runs:
  assumes "interleaved (mt_others mt)"
  shows "world_runs w (provision_subscriber mt user w)"
  by (auto simp: provision_subscriber_def on_store_def split: sum.split prod.split
      dest!: provision_user_runs [OF assms] intro: runs_then [OF _ runs_then [OF statement_runs(1) statement_runs(3)]])

lemma provision_subscribers_runs:
  assumes "interleaved (mt_others mt)"
  shows "world_runs w (provision_subscribers mt users w)"
proof -
  have "world_runs w (fold (provision_subscriber mt) users w)"
    by (induction users arbitrary: w) (auto intro: runs_then [OF provision_subscriber_runs [OF assms]])
  then show ?thesis by (simp add: provision_subscribers_def)
qed

lemma update_overage_runs:
  assumes "interleaved (mt_others mt)" "update_overage mt found enabled v w = (r, w')"
  shows "world_runs w w'"
  using assms(2)
  by (auto simp: update_overage_def on_store_def Let_def split: sum.splits prod.splits option.splits if_splits
      dest!: provision_user_runs [OF assms(1)] client_set_overage_runs [OF assms(1)])
    (meson runs_then runs_step st_overage st_entitled consent_simps)+

section \<open>The outbox, the webhooks and the usage of a service\<close>

lemma claim_candidates_runs:
  "interleaved others \<Longrightarrow> claim_candidates others now es s = (claimed, s') \<Longrightarrow> billing_runs s s'"
proof (induction es arbitrary: s claimed s')
  case (Cons e es)
  obtain won t where claim: "claim_usage_event (bu_transaction_id e) now (others (bu_transaction_id e) s) = (won, t)"
    by fastforce
  then have "billing_runs (others (bu_transaction_id e) s) t" using statement_runs(13) by (metis snd_conv)
  then have "billing_runs s t" by (rule runs_then [OF interleavedD [OF Cons.prems(1)]])
  with Cons claim show ?case by (auto split: prod.splits intro: runs_then)
qed simp

lemma settle_chunk_runs:
  assumes "interleaved (mt_others mt)"
  shows "world_runs w (settle_chunk mt chunk w)"
proof -
  have "billing_runs s (fold (\<lambda>e. mark_usage_sent (bu_transaction_id e) (mt_now mt)) chunk s)"
      "billing_runs s (fold (\<lambda>e. mark_usage_failed (bu_transaction_id e) (bu_attempts e) c (mt_now mt)) chunk s)" for c s
    by (rule runs_fold, rule statement_runs)+
  then show ?thesis
    by (auto simp: settle_chunk_def Let_def on_store_def split: sum.split intro: runs_then [OF runs_call [OF assms]])
qed

lemma flush_runs:
  assumes "interleaved (mt_others mt)" "interleaved others"
  shows "world_runs w (flush_usage_outbox mt others w)"
proof -
  obtain es s where c: "claim_due_usage others USAGE_BATCH (mt_now mt) (bz_store w) = (es, s)" by fastforce
  then have "billing_runs (bz_store w) s"
    by (auto simp: claim_due_usage_def dest: claim_candidates_runs [OF assms(2)])
  then show ?thesis
    using c settle_chunk_runs [OF assms(1), of "w\<lparr>bz_store := s\<rparr>" es]
    by (auto simp: flush_usage_outbox_def intro: runs_then)
qed

lemma reconcile_event_runs: "billing_runs (snd st) (snd (reconcile_event mt search e st))"
  by (auto simp: reconcile_event_def Let_def split: prod.split option.split sum.split intro: statement_runs(16))

lemma reconcile_runs: "billing_runs s (reconcile_usage_outbox mt s)"
proof -
  have "billing_runs (snd st) (snd (fold (reconcile_event mt search) es st))" for search es st
  proof (induction es arbitrary: st)
    case (Cons e es)
    from runs_then [OF reconcile_event_runs Cons.IH] show ?case by simp
  qed simp
  then show ?thesis
    by (auto simp: reconcile_usage_outbox_def Let_def split: sum.split)
qed

lemma run_statements_runs:
  assumes "interleaved others" "\<And>f s. f \<in> set fs \<Longrightarrow> billing_runs s (f s)"
  shows "billing_runs s (run_statements others k fs s)"
  using assms(2)
proof (induction fs arbitrary: k s)
  case (Cons f fs)
  have "billing_runs (others k s) (f (others k s))" by (simp add: Cons.prems)
  then have "billing_runs s (f (others k s))" by (rule runs_then [OF interleavedD [OF assms(1)]])
  with Cons show ?case by (auto intro: runs_then)
qed simp

lemma webhook_statements_run: "f \<in> set (webhook_statements env t payload a) \<Longrightarrow> billing_runs s (f s)"
  by (auto simp: webhook_statements_def Let_def split: if_splits intro: statement_runs)

lemma process_webhook_runs:
  assumes "interleaved (wv_others env)" "process_webhook env t payload s = (r, s')"
  shows "billing_runs s s'"
proof -
  have "billing_runs u (run_statements (wv_others env) k (webhook_statements env t payload a) u)" for k a u
    by (rule run_statements_runs [OF assms(1)]) (rule webhook_statements_run)
  then show ?thesis
    using assms(2)
    by (auto simp: process_webhook_def Let_def split: option.splits
        intro: interleavedD [OF assms(1)] runs_then [OF interleavedD [OF assms(1)]])
qed

lemma claim_webhook_runs:
  assumes "interleaved others" "claim_webhook others e t secs now s = (r, s')"
  shows "billing_runs s s'"
proof (cases "get_webhook e s")
  case None
  with assms(2) show ?thesis by (auto simp: claim_webhook_def Let_def intro: statement_runs)
next
  case (Some w)
  have one: "billing_runs s (others 0 s)" and two: "billing_runs s (others (Suc 0) (others 0 s))"
    using interleavedD [OF assms(1)] by (auto intro: runs_then)
  from Some assms(2) show ?thesis
    by (auto simp: claim_webhook_def Let_def split: option.splits if_splits intro: one two runs_step [OF two st_claim_webhook])
qed

lemma handle_event_runs:
  assumes "interleaved (wv_others env)" "handle_event env e t payload s = (r, s')"
  shows "billing_runs s s'"
proof -
  note between = interleavedD [OF assms(1), of _ 7]
  show ?thesis
    using assms(2)
    by (auto simp: handle_event_def split: prod.splits sum.splits billing_webhook_claim.splits option.splits
        dest!: claim_webhook_runs [OF assms(1)] process_webhook_runs [OF assms(1)])
      (meson between runs_then runs_step st_complete st_webhook_failed)+
qed

lemma metronome_webhook_runs:
  "interleaved (wv_others env) \<Longrightarrow> metronome_webhook mt env req s = (r, s') \<Longrightarrow> billing_runs s s'"
  by (auto simp: metronome_webhook_def split: option.splits intro: handle_event_runs)

lemma service_runs:
  "billing_runs s (snd (service_enqueue_usage mt fresh u t c tid s))"
  "billing_runs s (snd (service_begin_usage_intent mt fresh u t s))"
  "billing_runs s (snd (service_finalize_usage_intent mt key positive c s))"
proof -
  show "billing_runs s (snd (service_enqueue_usage mt fresh u t c tid s))"
    by (auto simp: service_enqueue_usage_def split: sum.split prod.split usage_cost.split
        dest!: ensure_account_runs enqueue_usage_runs intro: runs_then)
  have "begin_usage_intent u t fresh now s = (r, s') \<Longrightarrow> billing_runs s s'" for now r s s'
    using statement_runs(10) [of s u t fresh now] by simp
  then show "billing_runs s (snd (service_begin_usage_intent mt fresh u t s))"
    by (auto simp: service_begin_usage_intent_def split: sum.split prod.split
        dest!: ensure_account_runs intro: runs_then)
  have "finalize_usage_intent key d occurred now s = (r, s') \<Longrightarrow> billing_runs s s'" for d occurred now r s'
    using statement_runs(11) [of s key d occurred now] by simp
  then show "billing_runs s (snd (service_finalize_usage_intent mt key positive c s))"
    by (auto simp: service_finalize_usage_intent_def split: sum.split prod.split usage_cost.split intro: statement_runs)
qed

lemma has_usage_entitlement_runs:
  "interleaved (mt_others mt) \<Longrightarrow> has_usage_entitlement mt u w = (r, w') \<Longrightarrow> world_runs w w'"
  by (auto simp: has_usage_entitlement_def Let_def on_store_def call_provider_def split: sum.splits prod.splits if_splits
      dest!: ensure_account_runs) (meson interleavedD runs_then runs_step st_entitled)+

lemma billing_op_runs: "billing_op s s' \<Longrightarrow> billing_runs s s'"
proof (induction rule: billing_op.induct)
  case (op_statement s s')
  then show ?case by (rule runs_statement)
qed (metis metronome_webhook_runs update_overage_runs provision_user_runs prod.collapse | rule provision_subscribers_runs |
   rule flush_runs | rule reconcile_runs | rule service_runs | metis has_usage_entitlement_runs prod.collapse | assumption)+

lemma billing_ops_run: "billing_op\<^sup>*\<^sup>* s s' \<Longrightarrow> billing_runs s s'"
  by (induction rule: rtranclp_induct) (auto intro: runs_then billing_op_runs)

end
