(* ===== verification/BillingProperties.thy ===== *)
theory BillingProperties
  imports BillingRuns
begin

text \<open>
  What billing promises: usage is recorded once and never altered, an event is reported by one worker at
  a time, overage is only on with a recorded consent, a webhook is applied by one delivery at a time,
  and the billing period holds the present; and where it does not keep a promise.
\<close>

section \<open>The ledger\<close>

text \<open>What is charged by an event.\<close>

definition charge :: "billing_usage_event \<Rightarrow> string \<times> i32 \<times> string \<times> i64 \<times> i32" where
  "charge e = (bu_transaction_id e, bu_user_id e, bu_event_type e, bu_cost_microusd e, bu_occurred_at e)"

definition charges :: "billing_store \<Rightarrow> (string \<times> i32 \<times> string \<times> i64 \<times> i32) list" where
  "charges s = map charge (bl_events s)"

definition charged :: "billing_store \<Rightarrow> string list" where
  "charged s = map bu_transaction_id (bl_events s)"

definition ledger :: "billing_store \<Rightarrow> bool" where
  "ledger s \<longleftrightarrow>
     distinct (charged s) \<and> distinct (map bi_transaction_id (bl_intents s)) \<and>
     (\<forall>e \<in> set (bl_events s). 0 < bu_cost_microusd e) \<and>
     (\<forall>i \<in> set (bl_intents s). bi_status i = ''finalized'' \<longrightarrow> bi_transaction_id i \<in> set (charged s))"

text \<open>The parts of the store a statement leaves alone.\<close>

lemma store_simps [simp]:
  "bl_events (update_account u f s) = bl_events s" "bl_intents (update_account u f s) = bl_intents s"
  "bl_events (update_webhook e p k s) = bl_events s" "bl_intents (update_webhook e p k s) = bl_intents s"
  "bl_accounts (update_webhook e p k s) = bl_accounts s"
  "bl_accounts (update_usage t q g s) = bl_accounts s" "bl_intents (update_usage t q g s) = bl_intents s"
  "bl_webhooks (update_usage t q g s) = bl_webhooks s"
  "bl_accounts (update_intent t r h s) = bl_accounts s" "bl_events (update_intent t r h s) = bl_events s"
  "bl_webhooks (update_intent t r h s) = bl_webhooks s" "bl_webhooks (update_account u f s) = bl_webhooks s"
  by (simp_all add: update_account_def update_webhook_def update_usage_def update_intent_def)

lemmas account_statements = mark_provisioning_failed_def set_overage_def set_payment_ready_def set_usage_entitled_def
  mark_legacy_credit_migrated_def complete_legacy_overage_preference_migration_def

lemmas usage_statements = claim_usage_event_def mark_usage_sent_def mark_usage_failed_def mark_usage_reconciled_def

lemmas webhook_statement_defs = complete_webhook_def fail_webhook_def

text \<open>An update of reporting columns keeps the charges.\<close>

lemma update_usage_charges:
  assumes "\<And>e. charge (f e) = charge e"
  shows "charges (update_usage tid p f s) = charges s"
  using assms by (simp add: charges_def update_usage_def map_sql_update)

lemma charged_charges: "charged s = map fst (charges s)"
  by (simp add: charged_def charges_def charge_def comp_def)

lemma costs_charges: "(\<forall>e \<in> set (bl_events s). 0 < bu_cost_microusd e) \<longleftrightarrow> (\<forall>(_, _, _, c, _) \<in> set (charges s). 0 < c)"
  by (auto simp: charges_def charge_def)

lemma ledger_cong: "charges s = charges s' \<Longrightarrow> bl_intents s = bl_intents s' \<Longrightarrow> ledger s = ledger s'"
  by (simp add: ledger_def costs_charges charged_charges)

text \<open>The insertion of a charge.\<close>

lemma insert_cases:
  assumes "insert_usage_event e s = (r, s')"
  obtains (kept) "s' = s" "r = Inr () \<longrightarrow> bu_transaction_id e \<in> set (charged s)"
  | (added) "s' = s\<lparr>bl_events := bl_events s @ [e]\<rparr>" "bu_transaction_id e \<notin> set (charged s)"
      "0 < bu_cost_microusd e" "r = Inr ()"
proof -
  have there: "get_usage_event (bu_transaction_id e) s = None \<longleftrightarrow> bu_transaction_id e \<notin> set (charged s)"
    unfolding get_usage_event_def row_of_None charged_def set_map image_iff by (metis (no_types))
  show thesis
  proof (cases "s' = s")
    case True
    with assms there have "r = Inr () \<longrightarrow> bu_transaction_id e \<in> set (charged s)"
      by (auto simp: insert_usage_event_def split: if_splits dest: arg_cong [where f = bl_events])
    with True show thesis by (rule kept)
  next
    case False
    with assms there show thesis by (intro added) (auto simp: insert_usage_event_def split: if_splits)
  qed
qed

lemma added_charges: "charges (s\<lparr>bl_events := bl_events s @ [e]\<rparr>) = charges s @ [charge e]"
  by (simp add: charges_def)

lemma charge_new: "charge (new_usage_event tid u t c occurred now) = (tid, u, t, c, occurred)"
  by (simp add: charge_def new_usage_event_def)

lemma new_event_simps [simp]:
  "bu_transaction_id (new_usage_event tid u t c occurred now) = tid" "bu_user_id (new_usage_event tid u t c occurred now) = u"
  "bu_cost_microusd (new_usage_event tid u t c occurred now) = c"
  by (simp_all add: new_usage_event_def)

text \<open>A statement keeps the ledger and appends at most to the charges.\<close>

definition appends :: "billing_store \<Rightarrow> billing_store \<Rightarrow> bool" where
  "appends s s' \<longleftrightarrow> (ledger s \<longrightarrow> ledger s') \<and> (\<exists>rest. charges s' = charges s @ rest)"

lemma appends_same: "charges s' = charges s \<Longrightarrow> bl_intents s' = bl_intents s \<Longrightarrow> appends s s'"
  by (auto simp: appends_def ledger_def costs_charges charged_charges)

lemma appends_account: "appends s (update_account u f s)"
  by (rule appends_same) (simp_all add: charges_def)

lemma appends_webhook: "appends s (update_webhook e p f s)"
  by (rule appends_same) (simp_all add: charges_def)

lemma appends_usage: "(\<And>e. charge (f e) = charge e) \<Longrightarrow> appends s (update_usage tid p f s)"
  by (rule appends_same) (simp_all add: update_usage_charges)

lemma ledger_added:
  assumes "ledger s" "bu_transaction_id e \<notin> set (charged s)" "0 < bu_cost_microusd e"
  shows "ledger (s\<lparr>bl_events := bl_events s @ [e]\<rparr>)"
  using assms by (auto simp: ledger_def charged_def)

lemma appends_insert:
  assumes "insert_usage_event e s = (r, s')"
  shows "appends s s'"
  using assms by (cases rule: insert_cases) (auto simp: appends_def added_charges ledger_added)

lemma appends_finalize: "appends s (snd (finalize_usage_intent tid c occurred now s))"
proof (cases "\<exists>i. get_intent tid s = Some i \<and> bi_status i = ''open''")
  case False
  then have "snd (finalize_body tid c occurred now s) = s"
    by (auto simp: finalize_body_def split: option.split)
  then have "snd (finalize_usage_intent tid c occurred now s) = s"
    by (auto simp: finalize_usage_intent_def transaction_def split: prod.split sum.split)
  then show ?thesis by (simp add: appends_same)
next
  case True
  then obtain i where i: "get_intent tid s = Some i" "bi_status i = ''open''" by blast
  let ?e = "new_usage_event tid (bi_user_id i) (bi_event_type i) c occurred now"
  obtain r s1 where ins: "insert_usage_event ?e s = (r, s1)" by fastforce
  show ?thesis
  proof (cases r)
    case (Inl x)
    then have "snd (finalize_usage_intent tid c occurred now s) = s"
      using i ins by (simp add: finalize_usage_intent_def transaction_def finalize_body_def)
    then show ?thesis by (simp add: appends_same)
  next
    case (Inr x)
    let ?f = "\<lambda>i. i\<lparr>bi_status := ''finalized'', bi_finalized_at := Some now, bi_last_error := None\<rparr>"
    let ?s2 = "update_intent tid (\<lambda>_. True) ?f s1"
    have out: "snd (finalize_usage_intent tid c occurred now s) = ?s2"
      using i ins Inr by (simp add: finalize_usage_intent_def transaction_def finalize_body_def)
    from ins have tid: "tid \<in> set (charged s1)" using Inr
      by (cases rule: insert_cases) (auto simp: charged_def)
    have "ledger ?s2" if "ledger s1"
    proof -
      have "charged ?s2 = charged s1" "map bi_transaction_id (bl_intents ?s2) = map bi_transaction_id (bl_intents s1)"
        by (simp_all add: charged_def update_intent_def map_sql_update)
      moreover have "bi_transaction_id j \<in> set (charged s1)" if "j \<in> set (bl_intents ?s2)" "bi_status j = ''finalized''" for j
        using that \<open>ledger s1\<close> tid by (auto simp: update_intent_def ledger_def elim!: in_sql_updateE)
      ultimately show ?thesis using that by (simp add: ledger_def)
    qed
    moreover have "charges ?s2 = charges s1" by (simp add: charges_def)
    ultimately show ?thesis using appends_insert [OF ins] out by (simp add: appends_def)
  qed
qed

lemma statement_appends: "billing_statement s s' \<Longrightarrow> appends s s'"
proof (induction rule: billing_statement.induct)
  case (st_account s u now)
  show ?case by (rule appends_same) (auto simp: ensure_account_def charges_def Let_def split: option.split)
next
  case (st_provisioned s u c k ready now)
  show ?case by (auto simp: mark_provisioned_def appends_account appends_same)
next
  case (st_enqueue s fresh u t c occurred tid now)
  let ?e = "new_usage_event (case tid of None \<Rightarrow> fresh | Some x \<Rightarrow> x) u t c occurred now"
  obtain r s1 where ins: "insert_usage_event ?e s = (r, s1)" by fastforce
  then have "snd (enqueue_usage fresh u t c occurred tid now s) = s1"
    by (simp add: enqueue_usage_def Let_def split: sum.split)
  with appends_insert [OF ins] show ?case by simp
next
  case (st_begin s u t tid now)
  show ?case
    by (auto simp: begin_usage_intent_def get_intent_def row_of_None appends_def ledger_def charged_def charges_def
        split: option.split)
next
  case (st_finalize s tid c occurred now)
  show ?case by (rule appends_finalize)
next
  case (st_abandon s tid now)
  show ?case
    by (auto simp: abandon_usage_intent_def appends_def ledger_def charges_def charged_def update_intent_def map_sql_update
        elim!: in_sql_updateE)
next
  case (st_recorded s e t now)
  show ?case by (rule appends_same) (auto simp: record_webhook_once_def charges_def)
next
  case (st_new_webhook e s t l now)
  show ?case by (rule appends_same) (auto simp: charges_def)
qed (auto simp: account_statements usage_statements webhook_statement_defs appends_account appends_webhook
  sending_row_def charge_def Let_def intro!: appends_usage)

lemma runs_append: "billing_runs s s' \<Longrightarrow> appends s s'"
proof (induction rule: rtranclp_induct)
  case base
  show ?case by (simp add: appends_same)
next
  case (step s1 s2)
  from statement_appends [OF step.hyps(2)] step.IH show ?case by (auto simp: appends_def)
qed

text \<open>
  Claim C23. However the requests, webhooks, workers and sessions of billing are interleaved, the record of
  what was charged is only appended to: no charge is altered, removed or recorded twice, every charge is
  positive, and every intent that was finalized has its charge.
\<close>

theorem usage_ledger_append_only:
  assumes "billing_op\<^sup>*\<^sup>* s s'" "ledger s"
  shows "ledger s' \<and> (\<exists>rest. charges s' = charges s @ rest)"
  using runs_append [OF billing_ops_run [OF assms(1)]] assms(2) by (simp add: appends_def)

section \<open>Consent\<close>

text \<open>Overage is on only with a recorded consent to terms the code knows.\<close>

definition consented :: "billing_account \<Rightarrow> bool" where
  "consented a \<longleftrightarrow>
     (ba_overage_enabled a \<longrightarrow>
        ba_overage_consent_at a \<noteq> None \<and>
        (ba_overage_consent_version a = Some OVERAGE_CONSENT_VERSION \<or>
         ba_overage_consent_version a = Some LEGACY_OVERAGE_CONSENT_VERSION))"

lemma consented_rows [simp]:
  "consented (a\<lparr>ba_provisioning_status := x, ba_provisioning_error := y, ba_updated_at := now\<rparr>) = consented a"
  "consented (a\<lparr>ba_payment_ready := b, ba_updated_at := now\<rparr>) = consented a"
  "consented (a\<lparr>ba_usage_entitled := b, ba_updated_at := now\<rparr>) = consented a"
  "consented (a\<lparr>ba_legacy_credit_migrated := b, ba_updated_at := now\<rparr>) = consented a"
  by (simp_all add: consented_def)

definition all_consented :: "billing_store \<Rightarrow> bool" where
  "all_consented s \<longleftrightarrow> (\<forall>a \<in> set (bl_accounts s). consented a)"

lemma update_account_consent:
  "all_consented s \<Longrightarrow> (\<And>a. consented a \<Longrightarrow> consented (f a)) \<Longrightarrow> all_consented (update_account u f s)"
  by (auto simp: all_consented_def update_account_def set_sql_update)

lemma overage_row_consent: "consent_given enabled v \<Longrightarrow> consented (overage_row enabled v now a)"
  by (auto simp: consented_def overage_row_def consent_given_def)

lemma insert_accounts: "insert_usage_event e s = (r, s') \<Longrightarrow> bl_accounts s' = bl_accounts s"
  by (auto simp: insert_usage_event_def split: if_splits)

lemma finalize_accounts: "bl_accounts (snd (finalize_usage_intent tid c occurred now s)) = bl_accounts s"
  by (auto simp: finalize_usage_intent_def transaction_def finalize_body_def
      split: prod.split sum.split option.split dest: insert_accounts)

lemma keeps_consent:
  "all_consented (snd (enqueue_usage fresh u t c occurred tid now s)) = all_consented s"
  "all_consented (snd (begin_usage_intent u t key now s)) = all_consented s"
  "all_consented (abandon_usage_intent key now s) = all_consented s"
  "all_consented (snd (claim_usage_event key now s)) = all_consented s"
  "all_consented (mark_usage_sent key now s) = all_consented s" "all_consented (mark_usage_failed key n e now s) = all_consented s"
  "all_consented (mark_usage_reconciled key status visible now s) = all_consented s"
  "all_consented (snd (record_webhook_once e t now s)) = all_consented s"
  "all_consented (complete_webhook e now s) = all_consented s" "all_consented (fail_webhook e code s) = all_consented s"
  "all_consented (snd (finalize_usage_intent key c occurred now s)) = all_consented s"
  "all_consented (s\<lparr>bl_webhooks := ws\<rparr>) = all_consented s"
  "all_consented (update_webhook e p f s) = all_consented s"
  by (auto simp: all_consented_def enqueue_usage_def begin_usage_intent_def abandon_usage_intent_def usage_statements Let_def
      record_webhook_once_def webhook_statement_defs split: sum.split prod.split option.split dest!: insert_accounts simp: finalize_accounts)

lemma statement_consent: "billing_statement s s' \<Longrightarrow> all_consented s \<Longrightarrow> all_consented s'"
proof (induction rule: billing_statement.induct)
  case (st_account s u now)
  then show ?case
    by (auto simp: all_consented_def ensure_account_def Let_def new_billing_account_def consented_def split: option.split)
next
  case (st_provisioned s u c k ready now)
  then have "all_consented (update_account u (provisioned_row c k ready now) s)"
    by (rule update_account_consent) (simp add: provisioned_row_def consented_def)
  with st_provisioned show ?case by (simp add: mark_provisioned_def)
next
  case (st_overage enabled v s u now)
  from st_overage(2) show ?case unfolding set_overage_def
    by (rule update_account_consent) (rule overage_row_consent [OF st_overage(1)])
next
  case (st_migration enabled v s u now)
  from st_migration(2) show ?case unfolding complete_legacy_overage_preference_migration_def
    by (rule update_account_consent) (rule overage_row_consent [OF st_migration(1)])
qed (simp_all add: keeps_consent account_statements update_account_consent)

text \<open>
  Claim C25. However the operations of billing are interleaved, an account has overage on only with the time
  of a consent and the version of the terms, those of the switch or those of the migration of the old
  auto top-up.
\<close>

theorem overage_needs_consent:
  assumes "billing_op\<^sup>*\<^sup>* s s'" "\<forall>a \<in> set (bl_accounts s). consented a" "a \<in> set (bl_accounts s')"
  shows "consented a"
proof -
  from assms(2) have "all_consented s" by (simp add: all_consented_def)
  with billing_ops_run [OF assms(1)] have "all_consented s'"
    by (induction rule: rtranclp_induct) (auto intro: statement_consent)
  with assms(3) show ?thesis by (simp add: all_consented_def)
qed

section \<open>Leases of usage events\<close>

definition usage_keys :: "string \<times> i32 \<Rightarrow> billing_store \<Rightarrow> string list \<times> billing_store" where
  "usage_keys a s = (case claim_usage_event (fst a) (snd a) s of (won, s') \<Rightarrow> (if won then [fst a] else [], s'))"

definition usage_free :: "billing_store \<Rightarrow> string \<Rightarrow> int \<Rightarrow> bool" where
  "usage_free s tid t \<longleftrightarrow> (\<exists>e \<in> set (bl_events s). bu_transaction_id e = tid \<and> usage_due t e)"

lemma claim_won: "distinct (charged s) \<Longrightarrow> fst (claim_usage_event tid now s) \<longleftrightarrow> usage_free s tid now"
proof -
  assume d: "distinct (charged s)"
  have "distinct (map bu_transaction_id t) \<Longrightarrow>
      (length (filter (\<lambda>e. bu_transaction_id e = tid \<and> p e) t) = 1) = (\<exists>e \<in> set t. bu_transaction_id e = tid \<and> p e)"
    for p and t :: "billing_usage_event list"
    by (induction t) (auto simp: filter_empty_conv)
  with d show ?thesis by (simp add: claim_usage_event_def sql_count_def usage_free_def charged_def)
qed

lemma charged_claim [simp]: "charged (snd (claim_usage_event tid now s)) = charged s"
  by (simp add: claim_usage_event_def charged_def update_usage_def map_sql_update sending_row_def)

interpretation usage_lease:
  leasing usage_keys snd "\<lambda>a. sat_i32 (snd a + 60)" usage_free "\<lambda>s. distinct (charged s)"
proof
  fix s a k t
  assume s: "distinct (charged s)"
  have out: "snd (usage_keys a s) = snd (claim_usage_event (fst a) (snd a) s)"
      "set (fst (usage_keys a s)) = (if usage_free s (fst a) (snd a) then {fst a} else {})"
    using claim_won [OF s, of "fst a" "snd a"] by (auto simp: usage_keys_def split: prod.split)
  show "distinct (charged (snd (usage_keys a s)))" using s by (simp add: out)
  show "usage_free s k (snd a)" if "k \<in> set (fst (usage_keys a s))"
    using that by (auto simp: out split: if_splits)
  show "\<not> usage_free (snd (usage_keys a s)) k t" if "k \<in> set (fst (usage_keys a s))" "t < sat_i32 (snd a + 60)"
  proof -
    from that(1) have k: "k = fst a" "usage_free s k (snd a)" by (auto simp: out split: if_splits)
    have "\<not> usage_due t e" if "e \<in> set (bl_events (snd (claim_usage_event k (snd a) s)))" "bu_transaction_id e = k" for e
    proof -
      from that(1) have "e \<in> set (sql_update (\<lambda>e. bu_transaction_id e = k \<and> usage_due (snd a) e) (sending_row (snd a)) (bl_events s))"
        by (simp add: claim_usage_event_def update_usage_def)
      then show ?thesis
      proof (cases rule: in_sql_updateE)
        case unchanged
        from k(2) obtain f where "f \<in> set (bl_events s)" "bu_transaction_id f = k" "usage_due (snd a) f"
          by (auto simp: usage_free_def)
        moreover from this unchanged that(2) s have "f = e" by (auto simp: charged_def dest: distinct_map_eqD)
        ultimately show ?thesis using unchanged that(2) by simp
      next
        case (changed q)
        with \<open>t < sat_i32 (snd a + 60)\<close> show ?thesis by (auto simp: usage_due_def sending_row_def)
      qed
    qed
    then show ?thesis by (auto simp: out k usage_free_def)
  qed
  show "usage_free (snd (usage_keys a s)) k t = usage_free s k t" if "k \<notin> set (fst (usage_keys a s))"
  proof (cases "k = fst a")
    case True
    with that have "\<not> usage_free s k (snd a)" by (auto simp: out)
    with True have "bl_events (snd (claim_usage_event k (snd a) s)) = bl_events s"
      by (auto simp: claim_usage_event_def update_usage_def usage_free_def intro!: sql_update_none)
    with True show ?thesis by (simp add: out usage_free_def)
  next
    case False
    then show ?thesis
      by (auto simp: out usage_free_def claim_usage_event_def update_usage_def sending_row_def elim!: in_sql_updateE
          intro: sql_update_keepI)
  qed
qed

text \<open>
  Of any claims of usage events by any workers, update by update and each made before the leases of
  the earlier ones run out, no two are granted for the same event.
\<close>

theorem usage_claimed_by_one:
  assumes "ledger s" "within_leases snd (\<lambda>a. sat_i32 (snd a + 60)) claims"
  shows "pairwise_disjoint (run_claims usage_keys claims s)"
  using assms by (intro usage_lease.claims_disjoint) (simp_all add: ledger_def)

section \<open>Webhooks\<close>

definition webhook_keys :: "string \<times> string \<times> i32 \<Rightarrow> billing_store \<Rightarrow> string list \<times> billing_store" where
  "webhook_keys a s =
     (case claim_webhook (\<lambda>_ s. s) (fst a) (fst (snd a)) WEBHOOK_LEASE_SECONDS (snd (snd a)) s of
        (r, s') \<Rightarrow> (if r = Inr WebhookClaimed then [fst a] else [], s'))"

definition webhook_free :: "billing_store \<Rightarrow> string \<Rightarrow> int \<Rightarrow> bool" where
  "webhook_free s k t \<longleftrightarrow> (case get_webhook k s of None \<Rightarrow> True | Some w \<Rightarrow> webhook_claimable t w)"

definition webhooks_distinct :: "billing_store \<Rightarrow> bool" where
  "webhooks_distinct s \<longleftrightarrow> distinct (map bw_event_id (bl_webhooks s))"

lemma get_webhook_update:
  assumes "\<And>w. bw_event_id (f w) = bw_event_id w"
  shows "get_webhook k (update_webhook e p f s) =
    map_option (\<lambda>w. if bw_event_id w = e \<and> p w then f w else w) (get_webhook k s)"
  using assms by (simp add: get_webhook_def update_webhook_def row_of_update)

lemma get_webhook_append:
  "get_webhook e s = None \<Longrightarrow>
     get_webhook k (s\<lparr>bl_webhooks := bl_webhooks s @ [new_webhook_row e t l now]\<rparr>) =
       (if k = e then Some (new_webhook_row e t l now) else get_webhook k s)"
  by (auto simp: get_webhook_def row_of_append new_webhook_row_def split: option.split)

lemma get_webhook_key: "get_webhook k s = Some w \<Longrightarrow> bw_event_id w = k"
  by (auto simp: get_webhook_def dest: row_of_Some)

lemma claimable_count:
  assumes "webhooks_distinct s" "get_webhook e s = Some w"
  shows "(sql_count (\<lambda>w. bw_event_id w = e \<and> webhook_claimable now w) (bl_webhooks s) = 1) = webhook_claimable now w"
proof -
  have "distinct (map bw_event_id t) \<Longrightarrow> row_of bw_event_id e t = Some w \<Longrightarrow>
      (length (filter (\<lambda>w. bw_event_id w = e \<and> p w) t) = 1) = p w" for p t
  proof (induction t)
    case (Cons a t)
    show ?case
    proof (cases "bw_event_id a = e")
      case True
      with Cons.prems(1) have "\<forall>x \<in> set t. bw_event_id x \<noteq> e" by (auto simp: image_iff)
      then have "filter (\<lambda>w. bw_event_id w = e \<and> p w) t = []" by (simp add: filter_empty_conv)
      moreover from True Cons.prems(2) have "a = w" by (simp add: row_of_def sql_first_def)
      ultimately show ?thesis using True by simp
    next
      case False
      with Cons show ?thesis by (simp add: row_of_def sql_first_def)
    qed
  qed (simp add: row_of_def sql_first_def)
  with assms show ?thesis by (simp add: sql_count_def get_webhook_def webhooks_distinct_def)
qed

text \<open>A claim that nobody disturbs, in one equation.\<close>

lemma quiet_claim:
  assumes "webhooks_distinct s"
  shows "webhook_keys (e, t, now) s =
    (if webhook_free s e now then
       ([e], case get_webhook e s of
          None \<Rightarrow> s\<lparr>bl_webhooks := bl_webhooks s @ [new_webhook_row e t (sat_i32 (now + WEBHOOK_LEASE_SECONDS)) now]\<rparr>
        | Some _ \<Rightarrow> update_webhook e (webhook_claimable now) (webhook_claim_row t (sat_i32 (now + WEBHOOK_LEASE_SECONDS))) s)
     else ([], s))"
proof (cases "get_webhook e s")
  case (Some w)
  with claimable_count [OF assms Some, of now] show ?thesis
    by (auto simp: webhook_keys_def claim_webhook_def Let_def webhook_free_def webhook_claimable_def)
qed (simp add: webhook_keys_def claim_webhook_def webhook_free_def Let_def)

lemma claim_row_simps [simp]:
  "bw_event_id (webhook_claim_row t l w) = bw_event_id w" "bw_lease_until (webhook_claim_row t l w) = Some l"
  "bw_event_id (new_webhook_row e t l now) = e" "bw_lease_until (new_webhook_row e t l now) = Some l"
  by (simp_all add: webhook_claim_row_def new_webhook_row_def)

interpretation webhook_lease:
  leasing webhook_keys "\<lambda>a. snd (snd a)" "\<lambda>a. sat_i32 (snd (snd a) + WEBHOOK_LEASE_SECONDS)" webhook_free webhooks_distinct
proof
  fix s :: billing_store and a :: "string \<times> string \<times> i32" and k :: string and u :: int
  assume s: "webhooks_distinct s"
  obtain e t now where a: "a = (e, t, now)" by (cases a)
  note claim = quiet_claim [OF s, of e t now]
  show "webhooks_distinct (snd (webhook_keys a s))"
    using s by (auto simp: a claim webhooks_distinct_def update_webhook_def map_sql_update get_webhook_def row_of_None
        split: option.split)
  show "webhook_free s k (snd (snd a))" if "k \<in> set (fst (webhook_keys a s))"
    using that by (auto simp: a claim split: if_splits)
  show "\<not> webhook_free (snd (webhook_keys a s)) k u"
    if "k \<in> set (fst (webhook_keys a s))" "u < sat_i32 (snd (snd a) + WEBHOOK_LEASE_SECONDS)"
    using that
    by (auto simp: a claim webhook_free_def get_webhook_append get_webhook_update webhook_claimable_def get_webhook_key
        split: if_splits option.splits)
  show "webhook_free (snd (webhook_keys a s)) k u = webhook_free s k u" if "k \<notin> set (fst (webhook_keys a s))"
  proof (cases "k = e")
    case True
    with that show ?thesis by (auto simp: a claim split: if_splits)
  next
    case False
    then have "get_webhook k (snd (webhook_keys a s)) = get_webhook k s"
      by (auto simp: a claim get_webhook_append get_webhook_update dest: get_webhook_key
          split: option.split intro!: option.map_ident_strong)
    then show ?thesis by (simp add: webhook_free_def)
  qed
qed

definition webhook_processed :: "string \<Rightarrow> billing_store \<Rightarrow> bool" where
  "webhook_processed e s \<longleftrightarrow> (\<exists>w. get_webhook e s = Some w \<and> bw_status w = ''processed'')"

lemma processed_cong: "bl_webhooks s' = bl_webhooks s \<Longrightarrow> webhook_processed e s \<Longrightarrow> webhook_processed e s'"
  by (simp add: webhook_processed_def get_webhook_def)

lemma insert_webhooks: "insert_usage_event e s = (r, s') \<Longrightarrow> bl_webhooks s' = bl_webhooks s"
  by (auto simp: insert_usage_event_def split: if_splits)

lemma keeps_webhooks:
  "bl_webhooks (snd (ensure_account u now s)) = bl_webhooks s"
  "bl_webhooks (snd (mark_provisioned u c k ready now s)) = bl_webhooks s"
  "bl_webhooks (snd (enqueue_usage fresh u t cost occurred tid now s)) = bl_webhooks s"
  "bl_webhooks (snd (begin_usage_intent u t key now s)) = bl_webhooks s"
  "bl_webhooks (snd (finalize_usage_intent key cost occurred now s)) = bl_webhooks s"
  "bl_webhooks (abandon_usage_intent key now s) = bl_webhooks s"
  by (auto simp: ensure_account_def mark_provisioned_def enqueue_usage_def begin_usage_intent_def abandon_usage_intent_def
      finalize_usage_intent_def transaction_def finalize_body_def Let_def
      split: option.split sum.split prod.split dest!: insert_webhooks)

lemma processed_update:
  assumes "webhook_processed e s" "\<And>w. bw_event_id (f w) = bw_event_id w" "\<And>w. p w \<Longrightarrow> bw_status w \<noteq> ''processed''"
  shows "webhook_processed e (update_webhook k p f s)"
proof -
  from assms(1) obtain w where w: "get_webhook e s = Some w" "bw_status w = ''processed''"
    by (auto simp: webhook_processed_def)
  moreover from w(2) assms(3) have "\<not> p w" by blast
  ultimately show ?thesis using assms(2) by (simp add: webhook_processed_def get_webhook_update)
qed

lemma statement_processed: "billing_statement s s' \<Longrightarrow> webhook_processed e s \<Longrightarrow> webhook_processed e s'"
proof (induction rule: billing_statement.induct)
  case (st_recorded s k t now)
  then show ?case
    by (auto simp: record_webhook_once_def webhook_processed_def get_webhook_def row_of_append)
next
  case (st_new_webhook k s t l now)
  then show ?case by (auto simp: webhook_processed_def get_webhook_append)
next
  case (st_claim_webhook s k now t l)
  then show ?case by (intro processed_update) (simp_all add: webhook_claimable_def)
next
  case (st_complete s k now)
  then show ?case unfolding complete_webhook_def by (intro processed_update) simp_all
next
  case (st_webhook_failed s k code)
  then show ?case unfolding fail_webhook_def by (intro processed_update) simp_all
qed (erule processed_cong [rotated], simp add: keeps_webhooks account_statements usage_statements Let_def)+

lemma runs_processed: "billing_runs s s' \<Longrightarrow> webhook_processed e s \<Longrightarrow> webhook_processed e s'"
  by (induction rule: rtranclp_induct) (auto intro: statement_processed)

text \<open>
  Of the deliveries of webhooks that are claimed within their leases no two are of the same event,
  and once an event was processed every later delivery of it is acknowledged without applying it again.
\<close>

theorem webhook_applied_by_one:
  assumes "webhooks_distinct s"
    and "within_leases (\<lambda>a. snd (snd a)) (\<lambda>a. sat_i32 (snd (snd a) + WEBHOOK_LEASE_SECONDS)) deliveries"
    and "webhook_processed e u" "billing_op\<^sup>*\<^sup>* u u'" "interleaved (wv_others env)"
  shows "pairwise_disjoint (run_claims webhook_keys deliveries s) \<and>
    handle_event env e t payload u' = ((200, []), wv_others env 0 u')"
proof -
  from assms(3,4) have "webhook_processed e u'" by (blast intro: runs_processed billing_ops_run)
  moreover from this have "webhook_processed e (wv_others env 0 u')"
    by (rule runs_processed [OF interleavedD [OF assms(5)]])
  ultimately have "claim_webhook (wv_others env) e t WEBHOOK_LEASE_SECONDS (wv_now env) u' =
      (Inr WebhookAlreadyProcessed, wv_others env 0 u')"
    by (auto simp: webhook_processed_def claim_webhook_def Let_def)
  then show ?thesis using webhook_lease.claims_disjoint [OF assms(1,2)] by (simp add: handle_event_def)
qed

section \<open>Intents\<close>

definition intent_finalized :: "string \<Rightarrow> billing_store \<Rightarrow> bool" where
  "intent_finalized tid s \<longleftrightarrow> (\<exists>i. get_intent tid s = Some i \<and> bi_status i = ''finalized'')"

lemma finalized_cong: "bl_intents s' = bl_intents s \<Longrightarrow> intent_finalized tid s \<Longrightarrow> intent_finalized tid s'"
  by (simp add: intent_finalized_def get_intent_def)

lemma get_intent_update:
  assumes "\<And>i. bi_transaction_id (f i) = bi_transaction_id i"
  shows "get_intent k (update_intent tid p f s) =
    map_option (\<lambda>i. if bi_transaction_id i = tid \<and> p i then f i else i) (get_intent k s)"
  using assms by (simp add: get_intent_def update_intent_def row_of_update)

lemma finalized_update:
  assumes "intent_finalized tid s" "\<And>i. bi_transaction_id (f i) = bi_transaction_id i"
    and "\<And>i. p i \<Longrightarrow> bi_status i = ''finalized'' \<Longrightarrow> bi_status (f i) = ''finalized''"
  shows "intent_finalized tid (update_intent k p f s)"
proof -
  from assms(1) obtain i where "get_intent tid s = Some i" "bi_status i = ''finalized''"
    by (auto simp: intent_finalized_def)
  with assms(2,3) show ?thesis by (simp add: intent_finalized_def get_intent_update)
qed

lemma insert_intents: "insert_usage_event e s = (r, s') \<Longrightarrow> bl_intents s' = bl_intents s"
  by (auto simp: insert_usage_event_def split: if_splits)

lemma keeps_intents:
  "bl_intents (snd (ensure_account u now s)) = bl_intents s"
  "bl_intents (snd (mark_provisioned u c k ready now s)) = bl_intents s"
  "bl_intents (snd (enqueue_usage fresh u t cost occurred tid now s)) = bl_intents s"
  "bl_intents (snd (record_webhook_once e t now s)) = bl_intents s"
  by (auto simp: ensure_account_def mark_provisioned_def enqueue_usage_def record_webhook_once_def Let_def
      split: option.split sum.split prod.split dest!: insert_intents)

lemma finalize_finalized:
  assumes "intent_finalized tid s"
  shows "intent_finalized tid (snd (finalize_usage_intent k c occurred now s))"
  using assms
  by (auto simp: finalize_usage_intent_def transaction_def finalize_body_def split: prod.split sum.split option.split
      intro!: finalized_update dest!: insert_intents intro: finalized_cong)

lemma statement_finalized: "billing_statement s s' \<Longrightarrow> intent_finalized tid s \<Longrightarrow> intent_finalized tid s'"
proof (induction rule: billing_statement.induct)
  case (st_begin s u t k now)
  then show ?case
    by (auto simp: begin_usage_intent_def intent_finalized_def get_intent_def row_of_append split: option.split)
next
  case (st_finalize s k c occurred now)
  then show ?case by (rule finalize_finalized)
next
  case (st_abandon s k now)
  then show ?case unfolding abandon_usage_intent_def by (intro finalized_update) simp_all
qed (erule finalized_cong [rotated], simp add: keeps_intents account_statements usage_statements webhook_statement_defs Let_def)+

lemma runs_finalized: "billing_runs s s' \<Longrightarrow> intent_finalized tid s \<Longrightarrow> intent_finalized tid s'"
  by (induction rule: rtranclp_induct) (auto intro: statement_finalized)

text \<open>The first finalization of an open intent.\<close>

lemma finalize_open:
  assumes "get_intent tid s = Some i" "bi_status i = ''open''" "get_usage_event tid s = None" "0 < c"
    and "bi_user_id i \<in> set (bl_users s)" "finalize_usage_intent tid c occurred now s = (r, s')"
  shows "r = Inr ()" "charges s' = charges s @ [(tid, bi_user_id i, bi_event_type i, c, occurred)]" "intent_finalized tid s'"
proof -
  let ?f = "\<lambda>i. i\<lparr>bi_status := ''finalized'', bi_finalized_at := Some now, bi_last_error := None\<rparr>"
  let ?s1 = "s\<lparr>bl_events := bl_events s @ [new_usage_event tid (bi_user_id i) (bi_event_type i) c occurred now]\<rparr>"
  from assms have out: "r = Inr ()" "s' = update_intent tid (\<lambda>_. True) ?f ?s1"
    by (auto simp: finalize_usage_intent_def transaction_def finalize_body_def insert_usage_event_def)
  then show "r = Inr ()" "charges s' = charges s @ [(tid, bi_user_id i, bi_event_type i, c, occurred)]"
    by (simp_all add: charges_def charge_new)
  have "get_intent tid ?s1 = Some i" "bi_transaction_id i = tid"
    using assms(1) by (auto simp: get_intent_def dest: row_of_Some)
  then show "intent_finalized tid s'" by (simp add: out intent_finalized_def get_intent_update)
qed

text \<open>
  Claim C24. An intent is billed once: the finalization of an open intent charges its user the cost that it
  was given, and however operations are interleaved afterwards, the intent keeps that one charge and
  another finalization succeeds without one, whatever cost it is given.
\<close>

theorem intent_billed_once:
  assumes "ledger s" "get_intent tid s = Some i" "bi_status i = ''open''" "get_usage_event tid s = None"
    and "0 < c" "bi_user_id i \<in> set (bl_users s)"
    and "finalize_usage_intent tid c occurred now s = (r, s1)" "billing_op\<^sup>*\<^sup>* s1 s2"
  shows "r = Inr () \<and>
    filter (\<lambda>x. fst x = tid) (charges s2) = [(tid, bi_user_id i, bi_event_type i, c, occurred)] \<and>
    finalize_usage_intent tid c' occurred' now' s2 = (Inr (), s2)"
proof -
  note first = finalize_open [OF assms(2-7)]
  have s1: "ledger s1" using appends_finalize [of s tid c occurred now] assms(1,7) by (simp add: appends_def)
  from runs_append [OF billing_ops_run [OF assms(8)]] s1 obtain more where
    s2: "ledger s2" "charges s2 = charges s1 @ more" by (auto simp: appends_def)
  from s2(1) have "distinct (map fst (charges s2))" by (simp add: ledger_def charged_charges)
  then have "\<forall>x \<in> set (charges s) \<union> set more. fst x \<noteq> tid" by (auto simp: s2 first(2) image_iff)
  then have "filter (\<lambda>x. fst x = tid) (charges s2) = [(tid, bi_user_id i, bi_event_type i, c, occurred)]"
    by (auto simp: s2 first(2) filter_empty_conv)
  moreover have "intent_finalized tid s2" by (rule runs_finalized [OF billing_ops_run [OF assms(8)] first(3)])
  then have "finalize_usage_intent tid c' occurred' now' s2 = (Inr (), s2)"
    by (auto simp: intent_finalized_def finalize_usage_intent_def transaction_def finalize_body_def)
  ultimately show ?thesis using first(1) by simp
qed

section \<open>The billing period\<close>

lemma add_month_later: "add_month dt = Some dt' \<Longrightarrow> dt < dt'"
  by (cases dt) (auto simp: less_prod_def Let_def split: if_splits)

lemma add_month_some: "fst dt < MAX_YEAR \<Longrightarrow> \<exists>dt'. add_month dt = Some dt'"
  by (cases dt) (auto simp: Let_def)

lemma period_from_holds:
  assumes "start \<le> now" "add_month start = Some finish" "fst now < MAX_YEAR"
  shows "\<exists>a b. period_from start finish now = Some (a, b) \<and> a \<le> now \<and> now < b \<and> add_month a = Some b"
  using assms
proof (induction start finish now rule: period_from.induct)
  case (1 start finish now)
  show ?case
  proof (cases "finish \<le> now")
    case True
    then have "fst finish < MAX_YEAR" using "1.prems"(3) by (cases finish; cases now) (auto simp: less_eq_prod_def)
    then obtain next_finish where "add_month finish = Some next_finish" using add_month_some by blast
    with True 1 show ?thesis by simp
  next
    case False
    with "1.prems" show ?thesis by auto
  qed
qed

text \<open>
  Claim C29. The search for the billing period ends for every anchor in the past, with the period that holds
  the present: it starts at or before now, ends after it, and is one month long.
\<close>

theorem billing_period_holds_now:
  assumes "anchor \<le> now" "fst now < MAX_YEAR"
  shows "\<exists>a b. billing_period_from_anchor anchor now = Some (a, b) \<and> a \<le> now \<and> now < b \<and> add_month a = Some b"
proof -
  from assms have "fst anchor < MAX_YEAR" by (cases anchor; cases now) (auto simp: less_eq_prod_def)
  then obtain finish where "add_month anchor = Some finish" using add_month_some by blast
  with period_from_holds [OF assms(1) this assms(2)] show ?thesis by (simp add: billing_period_from_anchor_def)
qed

text \<open>The day of the anchor is lost in a short month: periods from January 31 start on the 28th from March on.\<close>

lemma period_drifts:
  "billing_period_from_anchor (2026, 1, 31, 0) (2026, 5, 29, 0) = Some ((2026, 5, 28, 0), (2026, 6, 28, 0))"
  by code_simp

section \<open>The outbox worker\<close>

text \<open>Marking the events of a batch one after another, by their ids.\<close>

definition settled :: "(billing_usage_event \<Rightarrow> billing_usage_event \<Rightarrow> billing_usage_event) \<Rightarrow> billing_usage_event list
    \<Rightarrow> billing_usage_event \<Rightarrow> billing_usage_event" where
  "settled f es r = (case find (\<lambda>e. bu_transaction_id e = bu_transaction_id r) es of None \<Rightarrow> r | Some e \<Rightarrow> f e r)"

lemma settled_none [simp]: "map (settled f []) es = es"
  by (rule map_idI) (simp add: settled_def)

lemma fold_marks:
  assumes "\<And>e r. bu_transaction_id (f e r) = bu_transaction_id r" "distinct (map bu_transaction_id es)"
  shows "fold (\<lambda>e. update_usage (bu_transaction_id e) (\<lambda>_. True) (f e)) es s =
    s\<lparr>bl_events := map (settled f es) (bl_events s)\<rparr>"
  using assms(2)
proof (induction es arbitrary: s)
  case (Cons x es)
  have "settled f (x # es) r = settled f es (if bu_transaction_id r = bu_transaction_id x then f x r else r)" for r
  proof (cases "bu_transaction_id r = bu_transaction_id x")
    case True
    with Cons.prems have "find (\<lambda>e. bu_transaction_id e = bu_transaction_id r) es = None"
      by (auto simp: find_None_iff image_iff)
    with True show ?thesis by (simp add: settled_def assms(1))
  qed (simp add: settled_def)
  with Cons show ?case by (simp add: update_usage_def sql_update_def comp_def)
qed simp

lemma settled_id [simp]:
  "(\<And>e r. bu_transaction_id (f e r) = bu_transaction_id r) \<Longrightarrow> bu_transaction_id (settled f es r) = bu_transaction_id r"
  by (simp add: settled_def split: option.split)

text \<open>The claims of a worker that nobody disturbs.\<close>

lemma claim_one:
  assumes "distinct (charged s)" "e \<in> set (bl_events s)" "usage_due now e"
  shows "claim_usage_event (bu_transaction_id e) now s = (True, update_usage (bu_transaction_id e) (\<lambda>_. True) (sending_row now) s)"
proof -
  have "fst (claim_usage_event (bu_transaction_id e) now s)"
    using claim_won [OF assms(1)] assms(2,3) by (auto simp: usage_free_def)
  moreover have "bu_transaction_id r = bu_transaction_id e \<and> usage_due now r \<longleftrightarrow> bu_transaction_id r = bu_transaction_id e"
    if "r \<in> set (bl_events s)" for r
    using assms that by (auto simp: charged_def dest: distinct_map_eqD)
  then have "update_usage (bu_transaction_id e) (usage_due now) (sending_row now) s =
      update_usage (bu_transaction_id e) (\<lambda>_. True) (sending_row now) s"
    by (auto simp: update_usage_def sql_update_def intro!: map_cong)
  ultimately show ?thesis by (simp add: claim_usage_event_def)
qed

lemma quiet_candidates:
  assumes "distinct (charged s)" "distinct (map bu_transaction_id es)" "\<forall>e \<in> set es. e \<in> set (bl_events s) \<and> usage_due now e"
  shows "claim_candidates (\<lambda>_ s. s) now es s = (es, s\<lparr>bl_events := map (settled (\<lambda>_. sending_row now) es) (bl_events s)\<rparr>)"
proof -
  have "claim_candidates (\<lambda>_ s. s) now es s =
      (es, fold (\<lambda>e. update_usage (bu_transaction_id e) (\<lambda>_. True) (sending_row now)) es s)"
    using assms
  proof (induction es arbitrary: s)
    case (Cons x es)
    let ?s = "update_usage (bu_transaction_id x) (\<lambda>_. True) (sending_row now) s"
    have "claim_usage_event (bu_transaction_id x) now s = (True, ?s)" using Cons.prems by (intro claim_one) simp_all
    moreover have "charged ?s = charged s"
      by (simp add: charged_def update_usage_def map_sql_update sending_row_def)
    moreover have "e \<in> set (bl_events ?s)" if "e \<in> set es" for e
      using that Cons.prems by (auto simp: update_usage_def image_iff intro!: sql_update_keepI)
    ultimately show ?case using Cons by simp
  qed simp
  then show ?thesis using fold_marks [of "\<lambda>_. sending_row now" es s] assms(2) by (simp add: sending_row_def)
qed

text \<open>The batch of a run, and the row a claimed event ends in.\<close>

definition usage_batch :: "i32 \<Rightarrow> billing_store \<Rightarrow> billing_usage_event list" where
  "usage_batch now s = take USAGE_BATCH (order_asc bu_created_at (sql_select (usage_due now) (bl_events s)))"

definition settled_row :: "i32 \<Rightarrow> string + unit \<Rightarrow> billing_usage_event \<Rightarrow> billing_usage_event" where
  "settled_row now answer e =
     (case answer of
        Inr _ \<Rightarrow> e\<lparr>bu_status := ''sent'', bu_next_attempt_at := sat_i32 (now + 60), bu_last_error := None, bu_sent_at := Some now\<rparr>
      | Inl error \<Rightarrow>
          let attempts = sat_i32 (bu_attempts e + 1)
          in e\<lparr>bu_status := ''failed'', bu_attempts := attempts, bu_next_attempt_at := sat_i32 (now + retry_delay attempts),
               bu_last_error := Some (billing_error_code error)\<rparr>)"

lemma usage_batch_events:
  assumes "distinct (charged s)"
  shows "distinct (map bu_transaction_id (usage_batch now s))" "\<forall>e \<in> set (usage_batch now s). e \<in> set (bl_events s) \<and> usage_due now e"
proof -
  have "distinct (map bu_transaction_id (filter (usage_due now) (bl_events s)))"
    using assms by (simp add: charged_def distinct_map_filter)
  then show "distinct (map bu_transaction_id (usage_batch now s))"
    by (simp add: usage_batch_def sql_select_def take_map [symmetric])
  show "\<forall>e \<in> set (usage_batch now s). e \<in> set (bl_events s) \<and> usage_due now e"
    by (auto simp: usage_batch_def dest!: in_set_takeD)
qed

lemma find_batch:
  assumes "distinct (charged s)" "r \<in> set (bl_events s)"
  shows "find (\<lambda>e. bu_transaction_id e = bu_transaction_id r) (usage_batch now s) = (if r \<in> set (usage_batch now s) then Some r else None)"
proof (cases "r \<in> set (usage_batch now s)")
  case True
  then show ?thesis using find_unique [OF usage_batch_events(1) [OF assms(1)] True refl, of "\<lambda>_. True"] by simp
next
  case False
  have "bu_transaction_id e \<noteq> bu_transaction_id r" if "e \<in> set (usage_batch now s)" for e
    using that False usage_batch_events(2) [OF assms(1), of now] assms by (metis charged_def distinct_map_eqD)
  with False show ?thesis by (auto simp: find_None_iff)
qed

text \<open>
  Claim C26. A run of the outbox worker that nobody disturbs reports the oldest due events, at most 100, in one
  request to the provider and settles each of them: it is sent, or it has failed with a delayed retry; every
  other event keeps its row.
\<close>

theorem flush_settles_batch:
  assumes "client_enabled mt" "mt_others mt = (\<lambda>_ s. s)" "distinct (charged (bz_store w))"
  defines "batch \<equiv> usage_batch (mt_now mt) (bz_store w)"
  shows "flush_usage_outbox mt (\<lambda>_ s. s) w =
    (if batch = [] then w
     else \<lparr>bz_store = (bz_store w)\<lparr>bl_events :=
             map (\<lambda>e. if e \<in> set batch then settled_row (mt_now mt) (mt_ingest mt (length (bz_calls w)) batch) e else e)
               (bl_events (bz_store w))\<rparr>,
           bz_calls = bz_calls w @ [IngestUsage batch]\<rparr>)"
proof -
  let ?s = "bz_store w" and ?now = "mt_now mt"
  let ?answer = "mt_ingest mt (length (bz_calls w)) batch"
  let ?sent = "\<lambda>_ e. e\<lparr>bu_status := ''sent'', bu_sent_at := Some ?now, bu_last_error := None\<rparr>"
  let ?failed = "\<lambda>c b e. e\<lparr>bu_status := ''failed'', bu_attempts := sat_i32 (bu_attempts b + 1),
      bu_next_attempt_at := sat_i32 (?now + retry_delay (sat_i32 (bu_attempts b + 1))), bu_last_error := Some c\<rparr>"
  note batch = usage_batch_events [OF assms(3), of ?now, folded batch_def]
  have claims: "claim_due_usage (\<lambda>_ s. s) USAGE_BATCH ?now ?s =
      (batch, ?s\<lparr>bl_events := map (settled (\<lambda>_. sending_row ?now) batch) (bl_events ?s)\<rparr>)"
    using quiet_candidates [OF assms(3) batch] by (simp add: claim_due_usage_def batch_def usage_batch_def)
  have sent: "fold (\<lambda>e. mark_usage_sent (bu_transaction_id e) ?now) batch u = u\<lparr>bl_events := map (settled ?sent batch) (bl_events u)\<rparr>" for u
    using fold_marks [of ?sent batch u] batch(1) by (simp add: mark_usage_sent_def [abs_def])
  have failed: "fold (\<lambda>e. mark_usage_failed (bu_transaction_id e) (bu_attempts e) c ?now) batch u =
      u\<lparr>bl_events := map (settled (?failed c) batch) (bl_events u)\<rparr>" for c u
    using fold_marks [of "?failed c" batch u] batch(1) by (simp add: mark_usage_failed_def [abs_def] Let_def)
  have twice: "settled f batch (settled (\<lambda>_. sending_row ?now) batch r) = (if r \<in> set batch then f r (sending_row ?now r) else r)"
    if "r \<in> set (bl_events ?s)" for f r
    using find_batch [OF assms(3) that, of ?now, folded batch_def] by (simp add: settled_def sending_row_def)
  have rows: "map (settled f batch \<circ> settled (\<lambda>_. sending_row ?now) batch) (bl_events ?s) =
      map (\<lambda>e. if e \<in> set batch then f e (sending_row ?now e) else e) (bl_events ?s)" for f
    by (rule map_cong) (simp_all add: twice)
  show ?thesis
    using assms(1,2) claims
    by (auto simp: flush_usage_outbox_def settle_chunk_def call_provider_def on_store_def Let_def sent failed rows
        settled_row_def sending_row_def split: sum.split)
qed

lemma row_of_map: "(\<And>r. key (f r) = key r) \<Longrightarrow> row_of key k (map f t) = map_option f (row_of key k t)"
  by (induction t) (simp_all add: row_of_def sql_first_def)

lemma usage_retry_bounds: "0 < retry_delay n" "retry_delay n \<le> 3600"
  by (simp_all add: retry_delay_def)

text \<open>
  A worker whose request fails marks the events of its batch failed, also one that another worker
  sent after the lease ran out: the row keeps the time it was sent and is due again within the hour,
  so the event is reported a second time.
\<close>

theorem late_failure_resends:
  assumes "distinct (map bu_transaction_id chunk)" "e \<in> set chunk" "mt_ingest mt (length (bz_calls w)) chunk = Inl err"
    and "get_usage_event (bu_transaction_id e) (mt_others mt (length (bz_calls w)) (bz_store w)) = Some r" "bu_status r = ''sent''"
  shows "\<exists>q. get_usage_event (bu_transaction_id e) (bz_store (settle_chunk mt chunk w)) = Some q \<and>
    charge q = charge r \<and> bu_sent_at q = bu_sent_at r \<and> usage_due (sat_i32 (mt_now mt + 3600)) q"
proof -
  let ?u = "mt_others mt (length (bz_calls w)) (bz_store w)" and ?c = "billing_error_code err"
  let ?failed = "\<lambda>b q. q\<lparr>bu_status := ''failed'', bu_attempts := sat_i32 (bu_attempts b + 1),
      bu_next_attempt_at := sat_i32 (mt_now mt + retry_delay (sat_i32 (bu_attempts b + 1))), bu_last_error := Some ?c\<rparr>"
  have "bz_store (settle_chunk mt chunk w) = ?u\<lparr>bl_events := map (settled ?failed chunk) (bl_events ?u)\<rparr>"
    using assms(3) fold_marks [of ?failed chunk ?u] assms(1)
    by (simp add: settle_chunk_def call_provider_def on_store_def mark_usage_failed_def [abs_def] Let_def)
  moreover have key: "bu_transaction_id r = bu_transaction_id e" using assms(4) by (auto simp: get_usage_event_def dest: row_of_Some)
  have "find (\<lambda>x. bu_transaction_id x = bu_transaction_id r) chunk = Some e"
    using find_unique [OF assms(1,2) refl, of "\<lambda>_. True"] key by simp
  then have "settled ?failed chunk r = ?failed e r" by (simp add: settled_def)
  ultimately have "get_usage_event (bu_transaction_id e) (bz_store (settle_chunk mt chunk w)) = Some (?failed e r)"
    using assms(4) by (simp add: get_usage_event_def row_of_map)
  moreover have "usage_due (sat_i32 (mt_now mt + 3600)) (?failed e r)"
    using usage_retry_bounds(2) [of "sat_i32 (bu_attempts e + 1)"] by (simp add: usage_due_def sat_i32_def)
  ultimately show ?thesis by (simp add: charge_def)
qed

section \<open>Entitlement\<close>

text \<open>
  When the flag of an account with paid overage is off, its entitlement is only granted if the
  provider answers: an error of the balance request is the answer of the check, although overage alone
  decides the answer whatever the balance is.
\<close>

theorem overage_waits_for_balance:
  assumes "validate_config (mt_parse_url mt) (mt_config mt) = Inr ()" "get_account u (bz_store w) = Some a"
    and "\<not> ba_usage_entitled a" "ba_customer_id a \<noteq> None" "ba_overage_enabled a" "ba_payment_ready a"
  shows "fst (has_usage_entitlement mt u w) =
      (case mt_balance_positive mt (length (bz_calls w)) u of Inl e \<Rightarrow> Inl e | Inr _ \<Rightarrow> Inr True) \<and>
    usage_entitled_from_account_state False (ba_overage_enabled a) (ba_payment_ready a) None"
  using assms
  by (auto simp: has_usage_entitlement_def ensure_account_def usage_entitled_from_account_state_def Let_def split: sum.split)

section \<open>Costs\<close>

text \<open>
  A positive cost that rounds to no micro dollar violates the constraint of the ledger: the finalization
  fails and leaves the intent open, the charge is lost.
\<close>

lemma tiny_cost_leaves_intent_open:
  assumes "get_intent tid s = Some i" "bi_status i = ''open''"
  shows "service_finalize_usage_intent mt tid True (CostMicrousd 0) s = (Inl ''database error'', s)"
  using assms
  by (simp add: service_finalize_usage_intent_def finalize_usage_intent_def transaction_def finalize_body_def
      insert_usage_event_def new_usage_event_def)

end
