(* ===== verification/BillingFlow.thy ===== *)
theory BillingFlow
  imports BillingProperties
begin

text \<open>Instances of the theorems about billing on a concrete provider, store and requests.\<close>

section \<open>A provider and a store\<close>

definition bf_config :: metronome_config where
  "bf_config =
     \<lparr>mc_enabled = True, mc_api_url = ''https://api'', mc_api_key = ''k'', mc_package_alias = ''p'', mc_event_type = ''t'',
      mc_billable_metric_id = Some ''m'', mc_usage_product_id = Some ''u'', mc_webhook_secret = ''s'',
      mc_legacy_credit_product_id = Some ''c'', mc_credit_type_id = Some ''d''\<rparr>"

definition bf_stripe :: stripe_api where
  "bf_stripe =
     \<lparr>st_default = Inr True, st_subscription_methods = Inr [], st_valid_id = (\<lambda>_. True), st_owner = (\<lambda>_. Inr None),
      st_set_default = (\<lambda>_. Inr ())\<rparr>"

definition bf_provider :: metronome where
  "bf_provider =
     \<lparr>mt_config = bf_config, mt_parse_url = (\<lambda>_. Some (''https'', None)), mt_now = 1000,
      mt_find_customer = (\<lambda>_ _. Inr None), mt_post_customer = (\<lambda>_ _. Inr (Some ''cus'')),
      mt_post_contract = (\<lambda>_ _. Inr (Some ''con'')), mt_list_contracts = (\<lambda>_ _. Inl ''none''),
      mt_set_overage = (\<lambda>_ _ _. Inr ()), mt_post_credit = (\<lambda>_ _. Inr ()), mt_ingest = (\<lambda>_ _. Inr ()),
      mt_balance_positive = (\<lambda>_ _. Inl ''http 503''), mt_search = (\<lambda>_. Inl ''none''), mt_invoices = (\<lambda>_. Inl ''none''),
      mt_rfc3339 = (\<lambda>_. None), mt_stripe = bf_stripe, mt_others = (\<lambda>_ s. s)\<rparr>"

lemma bf_valid: "validate_config (mt_parse_url bf_provider) (mt_config bf_provider) = Inr ()"
  by code_simp

lemma bf_client: "client_enabled bf_provider"
  by (simp add: client_enabled_def bf_valid) (simp add: bf_provider_def bf_config_def)

lemma bf_provider_simps [simp]:
  "mt_others bf_provider = (\<lambda>_ s. s)" "mt_now bf_provider = 1000" "mt_ingest bf_provider = (\<lambda>_ _. Inr ())"
  "mt_balance_positive bf_provider = (\<lambda>_ _. Inl ''http 503'')"
  by (simp_all add: bf_provider_def)

lemma nobody_interleaves: "interleaved (\<lambda>_ s. s)"
  by (simp add: interleaved_def)

definition bf_account :: billing_account where
  "bf_account =
     (new_billing_account 1 0)\<lparr>ba_customer_id := Some ''cus'', ba_contract_id := Some ''con'',
        ba_provisioning_status := ''provisioned'', ba_payment_ready := True, ba_legacy_credit_migrated := True,
        ba_legacy_overage_preference_migrated := True\<rparr>"

definition bf_store :: billing_store where
  "bf_store =
     \<lparr>bl_users = [1], bl_accounts = [bf_account], bl_events = [new_usage_event ''a'' 1 ''sms'' 5000 900 900],
      bl_intents = [\<lparr>bi_transaction_id = ''b'', bi_user_id = 1, bi_event_type = ''call'', bi_status = ''open'',
                     bi_created_at = 950, bi_finalized_at = None, bi_last_error = None\<rparr>],
      bl_webhooks = []\<rparr>"

definition bf_world :: billing_world where
  "bf_world = \<lparr>bz_store = bf_store, bz_calls = []\<rparr>"

lemma bf_ledger: "ledger bf_store"
  by code_simp

section \<open>The ledger\<close>

theorem usage_ledger_append_only_witness:
  "let s' = snd (finalize_usage_intent ''b'' 7000 1000 1000 bf_store)
   in ledger s' \<and> (\<exists>rest. charges s' = charges bf_store @ rest) \<and> length (charges s') = 2"
proof -
  have op: "billing_op\<^sup>*\<^sup>* bf_store (snd (finalize_usage_intent ''b'' 7000 1000 1000 bf_store))"
    by (rule r_into_rtranclp, rule op_statement, rule st_finalize)
  have "length (charges (snd (finalize_usage_intent ''b'' 7000 1000 1000 bf_store))) = 2" by code_simp
  with usage_ledger_append_only [OF op bf_ledger] show ?thesis by (simp add: Let_def)
qed

section \<open>Consent\<close>

definition bf_subscriber :: billing_user where
  "bf_subscriber =
     \<lparr>us_id = 1, us_stripe_customer_id = Some ''cus'', us_stripe_payment_method_id = None, us_charge_when_under = False,
      us_has_credits = False, us_window_started = False, us_used_microusd = None, us_sub_tier = Some ''tier 2'',
      us_byot = False\<rparr>"

definition bf_switched :: billing_store where
  "bf_switched = bz_store (snd (update_overage bf_provider (Inr (Some bf_subscriber)) True (Some OVERAGE_CONSENT_VERSION) bf_world))"

lemma bf_switched_on: "map ba_overage_enabled (bl_accounts bf_switched) = [True]"
  by code_simp

theorem overage_needs_consent_witness:
  "consented (hd (bl_accounts bf_switched)) \<and> ba_overage_enabled (hd (bl_accounts bf_switched))"
proof -
  have "billing_op bf_store bf_switched"
    using op_overage [of bf_provider bf_world "Inr (Some bf_subscriber)" True "Some OVERAGE_CONSENT_VERSION"]
    by (simp add: nobody_interleaves bf_switched_def) (simp add: bf_world_def)
  then have op: "billing_op\<^sup>*\<^sup>* bf_store bf_switched" by (rule r_into_rtranclp)
  have "\<forall>a \<in> set (bl_accounts bf_store). consented a" by code_simp
  moreover obtain a where a: "bl_accounts bf_switched = [a]" "ba_overage_enabled a"
    using bf_switched_on by (auto simp: map_eq_Cons_conv)
  ultimately show ?thesis using overage_needs_consent [OF op, of a] by simp
qed

section \<open>Leases\<close>

theorem usage_claimed_by_one_witness:
  "pairwise_disjoint (run_claims usage_keys [(''a'', 1000), (''a'', 1000), (''a'', 1059)] bf_store) \<and>
   run_claims usage_keys [(''a'', 1000), (''a'', 1000), (''a'', 1059)] bf_store = [[''a''], [], []]"
proof -
  have "within_leases snd (\<lambda>a. sat_i32 (snd a + 60)) [(''a'', 1000), (''a'', 1000), (''a'', 1059)]"
    by (simp add: sat_i32_def i32_min_def i32_max_def)
  from usage_claimed_by_one [OF bf_ledger this] show ?thesis by (rule conjI) code_simp
qed

definition bf_webhook_env :: billing_webhook_env where
  "bf_webhook_env =
     \<lparr>wv_now = 1000, wv_now_i64 = 1000, wv_parse = (\<lambda>_. None), wv_rfc2822 = (\<lambda>_. None), wv_unhex = (\<lambda>_. None),
      wv_hmac = (\<lambda>_ _. []), wv_positive = (\<lambda>_. True), wv_dollars = (\<lambda>_. ''0''), wv_reset_date = (\<lambda>_. ''May 1''),
      wv_user_exists = (\<lambda>_. True), wv_others = (\<lambda>_ s. s)\<rparr>"

definition bf_payment :: json where
  "bf_payment = JObj [(''customer_id'', JStr ''cus'')]"

definition bf_processed :: billing_store where
  "bf_processed = snd (handle_event bf_webhook_env ''e'' ''invoice.billing_provider_error'' bf_payment bf_store)"

theorem webhook_applied_by_one_witness:
  "pairwise_disjoint (run_claims webhook_keys [(''e'', ''t'', 1000), (''e'', ''t'', 1000), (''e'', ''t'', 1119)] bf_store) \<and>
   handle_event bf_webhook_env ''e'' ''invoice.billing_provider_error'' bf_payment bf_processed = ((200, []), bf_processed)"
proof -
  have one: "webhooks_distinct bf_store" by code_simp
  have two: "within_leases (\<lambda>a. snd (snd a)) (\<lambda>a. sat_i32 (snd (snd a) + WEBHOOK_LEASE_SECONDS))
      [(''e'', ''t'', 1000), (''e'', ''t'', 1000), (''e'', ''t'', 1119)]"
    by (simp add: sat_i32_def i32_min_def i32_max_def WEBHOOK_LEASE_SECONDS_def)
  have "map (\<lambda>w. (bw_event_id w, bw_status w)) (bl_webhooks bf_processed) = [(''e'', ''processed'')]" by code_simp
  then have three: "webhook_processed ''e'' bf_processed"
    by (auto simp: webhook_processed_def get_webhook_def row_of_def sql_first_def map_eq_Cons_conv)
  have others: "wv_others bf_webhook_env = (\<lambda>_ s. s)" by (simp add: bf_webhook_env_def)
  have "interleaved (wv_others bf_webhook_env)" by (simp add: others nobody_interleaves)
  from webhook_applied_by_one [OF one two three rtranclp.rtrancl_refl this] show ?thesis by (simp add: others)
qed

section \<open>Intents\<close>

definition bf_billed :: billing_store where
  "bf_billed = snd (finalize_usage_intent ''b'' 7000 1000 1000 bf_store)"

theorem intent_billed_once_witness:
  "filter (\<lambda>x. fst x = ''b'') (charges bf_billed) = [(''b'', 1, ''call'', 7000, 1000)] \<and>
   finalize_usage_intent ''b'' 9000 2000 2000 bf_billed = (Inr (), bf_billed)"
proof -
  have i: "get_intent ''b'' bf_store = Some \<lparr>bi_transaction_id = ''b'', bi_user_id = 1, bi_event_type = ''call'',
      bi_status = ''open'', bi_created_at = 950, bi_finalized_at = None, bi_last_error = None\<rparr>"
    by (simp add: get_intent_def bf_store_def row_of_def sql_first_def)
  have e: "get_usage_event ''b'' bf_store = None" by code_simp
  have u: "1 \<in> set (bl_users bf_store)" by code_simp
  obtain r where r: "finalize_usage_intent ''b'' 7000 1000 1000 bf_store = (r, bf_billed)"
    by (cases "finalize_usage_intent ''b'' 7000 1000 1000 bf_store") (simp add: bf_billed_def)
  from intent_billed_once [OF bf_ledger i _ e _ _ r rtranclp.rtrancl_refl, of 9000 2000 2000] u show ?thesis by simp
qed

section \<open>The billing period\<close>

theorem billing_period_holds_now_witness:
  "\<exists>a b. billing_period_from_anchor (2026, 1, 31, 0) (2026, 5, 29, 0) = Some (a, b) \<and> a \<le> (2026, 5, 29, 0) \<and>
     (2026, 5, 29, 0) < b \<and> add_month a = Some b"
  by (rule billing_period_holds_now) (simp_all add: less_eq_prod_def MAX_YEAR_def)

section \<open>The outbox worker\<close>

theorem flush_settles_batch_witness:
  "map (\<lambda>e. (bu_transaction_id e, bu_status e)) (bl_events (bz_store (flush_usage_outbox bf_provider (\<lambda>_ s. s) bf_world))) =
     [(''a'', ''sent'')] \<and>
   length (bz_calls (flush_usage_outbox bf_provider (\<lambda>_ s. s) bf_world)) = 1"
proof -
  have d: "distinct (charged (bz_store bf_world))" by code_simp
  have b: "usage_batch 1000 (bz_store bf_world) = bl_events bf_store" by code_simp
  show ?thesis
    unfolding flush_settles_batch [OF bf_client bf_provider_simps(1) d]
    by (simp add: b) (simp add: bf_world_def bf_store_def settled_row_def)
qed

definition bf_late :: metronome where
  "bf_late = bf_provider\<lparr>mt_ingest := \<lambda>_ _. Inl ''timeout'', mt_others := \<lambda>_. mark_usage_sent ''a'' 1090\<rparr>"

theorem late_failure_resends_witness:
  "\<exists>q. get_usage_event ''a'' (bz_store (settle_chunk bf_late (bl_events bf_store) bf_world)) = Some q \<and>
     bu_cost_microusd q = 5000 \<and> bu_sent_at q = Some 1090 \<and> usage_due 4600 q"
proof -
  let ?e = "new_usage_event ''a'' 1 ''sms'' 5000 900 900"
  let ?r = "?e\<lparr>bu_status := ''sent'', bu_sent_at := Some 1090, bu_last_error := None\<rparr>"
  have e: "distinct (map bu_transaction_id (bl_events bf_store))" "?e \<in> set (bl_events bf_store)"
    by (simp_all add: bf_store_def)
  have f: "mt_ingest bf_late (length (bz_calls bf_world)) (bl_events bf_store) = Inl ''timeout''" by (simp add: bf_late_def)
  have r: "get_usage_event (bu_transaction_id ?e) (mt_others bf_late (length (bz_calls bf_world)) (bz_store bf_world)) = Some ?r"
    by (simp add: bf_late_def bf_world_def bf_store_def mark_usage_sent_def update_usage_def sql_update_def get_usage_event_def
        row_of_def sql_first_def)
  have t: "sat_i32 (mt_now bf_late + 3600) = 4600" by (simp add: bf_late_def sat_i32_def i32_min_def i32_max_def)
  from late_failure_resends [OF e f r] show ?thesis by (auto simp: t charge_def)
qed

section \<open>Entitlement\<close>

definition bf_lapsed :: billing_world where
  "bf_lapsed =
     \<lparr>bz_store = bf_store\<lparr>bl_accounts := [bf_account\<lparr>ba_usage_entitled := False, ba_overage_enabled := True\<rparr>]\<rparr>, bz_calls = []\<rparr>"

theorem overage_waits_for_balance_witness:
  "fst (has_usage_entitlement bf_provider 1 bf_lapsed) = Inl ''http 503''"
proof -
  let ?a = "bf_account\<lparr>ba_usage_entitled := False, ba_overage_enabled := True\<rparr>"
  have "get_account 1 (bz_store bf_lapsed) = Some ?a"
    by (simp add: get_account_def bf_lapsed_def row_of_def sql_first_def bf_account_def new_billing_account_def)
  from overage_waits_for_balance [OF bf_valid this] show ?thesis
    by (simp add: bf_account_def)
qed

end
