(* ===== verification/Commitments.thy ===== *)
theory Commitments
  imports Tables Contracts "HOL-Library.Word"
begin

text \<open>
  The memory of commitment detection, \<^verbatim>\<open>repositories/commitment_repository.rs\<close> with the rows of
  \<^verbatim>\<open>models/commitment_models.rs\<close>: what a user decided about a sender (rules), the prompts that ask the
  user about a detected commitment, and the embeddings of labelled messages, which
  \<^verbatim>\<open>utils/embedding_similarity.rs\<close> packs into bytes.

  The users of new rows exist. A partial unique index of the migration allows one unresolved prompt for
  a user, a platform and a sender. A float is its 32 bits; what the code computes with floats, the
  cosine of two vectors, is a parameter of the theories that compare them.
\<close>

section \<open>Rows\<close>

record commitment_sender_rule =
  sr_id :: i32
  sr_user_id :: i32
  sr_platform :: string
  sr_sender_key :: string
  sr_rule_type :: string
  sr_source :: string
  sr_active :: bool
  sr_created_at :: i32
  sr_deactivated_at :: "i32 option"

record new_commitment_sender_rule =
  nsr_user_id :: i32
  nsr_platform :: string
  nsr_sender_key :: string
  nsr_rule_type :: string
  nsr_source :: string
  nsr_active :: bool
  nsr_created_at :: i32

record commitment_label_embedding =
  lb_id :: i32
  lb_user_id :: i32
  lb_label_type :: string
  lb_embedding :: "8 word list"
  lb_source_message_id :: "i64 option"
  lb_created_at :: i32

record new_commitment_label_embedding =
  nlb_user_id :: i32
  nlb_label_type :: string
  nlb_embedding :: "8 word list"
  nlb_source_message_id :: "i64 option"
  nlb_created_at :: i32

record commitment_prompt =
  cp_id :: i32
  cp_user_id :: i32
  cp_ont_message_id :: i64
  cp_platform :: string
  cp_sender_key :: string
  cp_sender_display_name :: string
  cp_commitment_description :: string
  cp_due_at :: "i32 option"
  cp_remind_at :: "i32 option"
  cp_sent_at :: i32
  cp_sms_message_sid :: "string option"
  cp_user_label :: "string option"
  cp_labeled_at :: "i32 option"
  cp_resulting_event_id :: "i32 option"
  cp_resolved_at :: "i32 option"

record new_commitment_prompt =
  ncp_user_id :: i32
  ncp_ont_message_id :: i64
  ncp_platform :: string
  ncp_sender_key :: string
  ncp_sender_display_name :: string
  ncp_commitment_description :: string
  ncp_due_at :: "i32 option"
  ncp_remind_at :: "i32 option"
  ncp_sent_at :: i32
  ncp_sms_message_sid :: "string option"

record commitment_store =
  cm_rules :: "commitment_sender_rule table"
  cm_next_rule_id :: i32
  cm_embeddings :: "commitment_label_embedding table"
  cm_next_embedding_id :: i32
  cm_prompts :: "commitment_prompt table"
  cm_next_prompt_id :: i32

definition RULE_MUTE :: string where "RULE_MUTE = ''mute''"
definition RULE_ALWAYS_TRACK :: string where "RULE_ALWAYS_TRACK = ''always_track''"
definition LABEL_TRACK :: string where "LABEL_TRACK = ''track''"
definition LABEL_WRONG :: string where "LABEL_WRONG = ''wrong''"
definition RULE_SOURCE_SMS :: string where "RULE_SOURCE_SMS = ''sms_reply''"
definition REPLY_MATCH_WINDOW_SECS :: i32 where "REPLY_MATCH_WINDOW_SECS = 3600"

section \<open>Sender rules\<close>

definition rule_of_sender :: "i32 \<Rightarrow> string \<Rightarrow> string \<Rightarrow> commitment_sender_rule \<Rightarrow> bool" where
  "rule_of_sender user_id platform sender_key r \<longleftrightarrow>
     sr_user_id r = user_id \<and> sr_platform r = platform \<and> sr_sender_key r = sender_key \<and> sr_active r"

definition lookup_sender_rule ::
  "i32 \<Rightarrow> string \<Rightarrow> string \<Rightarrow> commitment_store \<Rightarrow> commitment_sender_rule option" where
  "lookup_sender_rule user_id platform sender_key s =
     (case order_desc sr_created_at (sql_select (rule_of_sender user_id platform sender_key) (cm_rules s)) of
        [] \<Rightarrow> None | r # _ \<Rightarrow> Some r)"

definition create_sender_rule ::
  "new_commitment_sender_rule \<Rightarrow> commitment_store \<Rightarrow> commitment_sender_rule \<times> commitment_store" where
  "create_sender_rule nr s =
     (let r = \<lparr>sr_id = cm_next_rule_id s, sr_user_id = nsr_user_id nr, sr_platform = nsr_platform nr,
               sr_sender_key = nsr_sender_key nr, sr_rule_type = nsr_rule_type nr, sr_source = nsr_source nr,
               sr_active = nsr_active nr, sr_created_at = nsr_created_at nr, sr_deactivated_at = None\<rparr>
      in (r, s\<lparr>cm_rules := cm_rules s @ [r], cm_next_rule_id := cm_next_rule_id s + 1\<rparr>))"

definition deactivated :: "i32 \<Rightarrow> commitment_sender_rule \<Rightarrow> commitment_sender_rule" where
  "deactivated now r = r\<lparr>sr_active := False, sr_deactivated_at := Some now\<rparr>"

definition deactivate_existing_rules ::
  "i32 \<Rightarrow> string \<Rightarrow> string \<Rightarrow> i32 \<Rightarrow> commitment_store \<Rightarrow> nat \<times> commitment_store" where
  "deactivate_existing_rules user_id platform sender_key now s =
     (sql_count (rule_of_sender user_id platform sender_key) (cm_rules s),
      s\<lparr>cm_rules := sql_update (rule_of_sender user_id platform sender_key) (deactivated now) (cm_rules s)\<rparr>)"

definition upsert_sender_rule ::
  "i32 \<Rightarrow> string \<Rightarrow> string \<Rightarrow> string \<Rightarrow> string \<Rightarrow> i32 \<Rightarrow> commitment_store
     \<Rightarrow> commitment_sender_rule \<times> commitment_store" where
  "upsert_sender_rule user_id platform sender_key rule_type source now s =
     create_sender_rule
       \<lparr>nsr_user_id = user_id, nsr_platform = platform, nsr_sender_key = sender_key, nsr_rule_type = rule_type,
        nsr_source = source, nsr_active = True, nsr_created_at = now\<rparr>
       (snd (deactivate_existing_rules user_id platform sender_key now s))"

definition list_active_rules :: "i32 \<Rightarrow> string \<Rightarrow> commitment_store \<Rightarrow> commitment_sender_rule list" where
  "list_active_rules user_id rule_type s =
     order_desc sr_created_at
       (sql_select (\<lambda>r. sr_user_id r = user_id \<and> sr_rule_type r = rule_type \<and> sr_active r) (cm_rules s))"

definition deactivate_rule :: "i32 \<Rightarrow> i32 \<Rightarrow> i32 \<Rightarrow> commitment_store \<Rightarrow> nat \<times> commitment_store" where
  "deactivate_rule user_id rule_id now s =
     (let p = (\<lambda>r. sr_id r = rule_id \<and> sr_user_id r = user_id \<and> sr_active r)
      in (sql_count p (cm_rules s), s\<lparr>cm_rules := sql_update p (deactivated now) (cm_rules s)\<rparr>))"

section \<open>Prompts\<close>

definition unresolved_of_sender :: "i32 \<Rightarrow> string \<Rightarrow> string \<Rightarrow> commitment_prompt \<Rightarrow> bool" where
  "unresolved_of_sender user_id platform sender_key p \<longleftrightarrow>
     cp_user_id p = user_id \<and> cp_platform p = platform \<and> cp_sender_key p = sender_key \<and> cp_resolved_at p = None"

text \<open>The answer \<^const>\<open>None\<close> is the violation of the unique index; the number is spent either way.\<close>

definition create_prompt ::
  "new_commitment_prompt \<Rightarrow> commitment_store \<Rightarrow> commitment_prompt option \<times> commitment_store" where
  "create_prompt np s =
     (let p = \<lparr>cp_id = cm_next_prompt_id s, cp_user_id = ncp_user_id np, cp_ont_message_id = ncp_ont_message_id np,
               cp_platform = ncp_platform np, cp_sender_key = ncp_sender_key np,
               cp_sender_display_name = ncp_sender_display_name np,
               cp_commitment_description = ncp_commitment_description np, cp_due_at = ncp_due_at np,
               cp_remind_at = ncp_remind_at np, cp_sent_at = ncp_sent_at np,
               cp_sms_message_sid = ncp_sms_message_sid np, cp_user_label = None, cp_labeled_at = None,
               cp_resulting_event_id = None, cp_resolved_at = None\<rparr>;
          s' = s\<lparr>cm_next_prompt_id := cm_next_prompt_id s + 1\<rparr>
      in if list_ex (unresolved_of_sender (ncp_user_id np) (ncp_platform np) (ncp_sender_key np)) (cm_prompts s)
         then (None, s')
         else (Some p, s'\<lparr>cm_prompts := cm_prompts s @ [p]\<rparr>))"

definition find_latest_unresolved_for_user :: "i32 \<Rightarrow> i32 \<Rightarrow> commitment_store \<Rightarrow> commitment_prompt option" where
  "find_latest_unresolved_for_user user_id now s =
     (case order_desc cp_sent_at
             (sql_select (\<lambda>p. cp_user_id p = user_id \<and> cp_resolved_at p = None \<and>
                              wrap_i32 (now - REPLY_MATCH_WINDOW_SECS) \<le> cp_sent_at p) (cm_prompts s)) of
        [] \<Rightarrow> None | p # _ \<Rightarrow> Some p)"

definition find_unresolved_for_sender ::
  "i32 \<Rightarrow> string \<Rightarrow> string \<Rightarrow> commitment_store \<Rightarrow> commitment_prompt option" where
  "find_unresolved_for_sender user_id platform sender_key s =
     (case order_desc cp_sent_at (sql_select (unresolved_of_sender user_id platform sender_key) (cm_prompts s)) of
        [] \<Rightarrow> None | p # _ \<Rightarrow> Some p)"

definition update_prompts ::
  "(commitment_prompt \<Rightarrow> bool) \<Rightarrow> (commitment_prompt \<Rightarrow> commitment_prompt) \<Rightarrow> commitment_store \<Rightarrow> nat \<times> commitment_store" where
  "update_prompts q f s = (sql_count q (cm_prompts s), s\<lparr>cm_prompts := sql_update q f (cm_prompts s)\<rparr>)"

definition claim_prompt :: "i32 \<Rightarrow> string \<Rightarrow> i32 \<Rightarrow> commitment_store \<Rightarrow> nat \<times> commitment_store" where
  "claim_prompt prompt_id user_label now =
     update_prompts (\<lambda>p. cp_id p = prompt_id \<and> cp_resolved_at p = None)
       (\<lambda>p. p\<lparr>cp_user_label := Some user_label, cp_labeled_at := Some now, cp_resolved_at := Some now\<rparr>)"

definition set_prompt_event_id :: "i32 \<Rightarrow> i32 \<Rightarrow> commitment_store \<Rightarrow> nat \<times> commitment_store" where
  "set_prompt_event_id prompt_id event_id =
     update_prompts (\<lambda>p. cp_id p = prompt_id) (\<lambda>p. p\<lparr>cp_resulting_event_id := Some event_id\<rparr>)"

definition set_prompt_sms_sid :: "i32 \<Rightarrow> string \<Rightarrow> commitment_store \<Rightarrow> nat \<times> commitment_store" where
  "set_prompt_sms_sid prompt_id sid =
     update_prompts (\<lambda>p. cp_id p = prompt_id) (\<lambda>p. p\<lparr>cp_sms_message_sid := Some sid\<rparr>)"

definition expire_prompt :: "i32 \<Rightarrow> i32 \<Rightarrow> commitment_store \<Rightarrow> nat \<times> commitment_store" where
  "expire_prompt prompt_id now =
     update_prompts (\<lambda>p. cp_id p = prompt_id) (\<lambda>p. p\<lparr>cp_resolved_at := Some now\<rparr>)"

definition list_recent_prompts :: "i32 \<Rightarrow> nat \<Rightarrow> commitment_store \<Rightarrow> commitment_prompt list" where
  "list_recent_prompts user_id limit s =
     take limit (order_desc cp_sent_at (sql_select (\<lambda>p. cp_user_id p = user_id) (cm_prompts s)))"

section \<open>Embeddings\<close>

type_synonym f32_bits = "32 word"

definition to_le_bytes :: "f32_bits \<Rightarrow> 8 word list" where
  "to_le_bytes v = map (\<lambda>i. ucast (drop_bit (8 * i) v)) [0, 1, 2, 3]"

fun from_le_bytes :: "8 word list \<Rightarrow> f32_bits" where
  "from_le_bytes [] = 0"
| "from_le_bytes (b # bs) = or (ucast b) (push_bit 8 (from_le_bytes bs))"

definition pack_embedding :: "f32_bits list \<Rightarrow> 8 word list" where
  "pack_embedding embedding = concat (map to_le_bytes embedding)"

text \<open>\<^verbatim>\<open>bytes.chunks_exact(4)\<close>: a rest shorter than a chunk is left out.\<close>

fun chunks_exact_4 :: "8 word list \<Rightarrow> 8 word list list" where
  "chunks_exact_4 (a # b # c # d # rest) = [a, b, c, d] # chunks_exact_4 rest"
| "chunks_exact_4 _ = []"

definition unpack_embedding :: "8 word list \<Rightarrow> f32_bits list option" where
  "unpack_embedding bytes =
     (if length bytes mod 4 \<noteq> 0 then None else Some (map from_le_bytes (chunks_exact_4 bytes)))"

definition store_label_embedding ::
  "new_commitment_label_embedding \<Rightarrow> commitment_store \<Rightarrow> commitment_label_embedding \<times> commitment_store" where
  "store_label_embedding ne s =
     (let e = \<lparr>lb_id = cm_next_embedding_id s, lb_user_id = nlb_user_id ne, lb_label_type = nlb_label_type ne,
               lb_embedding = nlb_embedding ne, lb_source_message_id = nlb_source_message_id ne,
               lb_created_at = nlb_created_at ne\<rparr>
      in (e, s\<lparr>cm_embeddings := cm_embeddings s @ [e], cm_next_embedding_id := cm_next_embedding_id s + 1\<rparr>))"

definition list_embeddings :: "i32 \<Rightarrow> string \<Rightarrow> commitment_store \<Rightarrow> commitment_label_embedding list" where
  "list_embeddings user_id label_type s =
     order_desc lb_created_at
       (sql_select (\<lambda>e. lb_user_id e = user_id \<and> lb_label_type e = label_type) (cm_embeddings s))"

section \<open>The dashboard\<close>

text \<open>The endpoints of \<^verbatim>\<open>handlers/commitment_handlers.rs\<close>, for the user of the request.\<close>

record sender_rule_view =
  rv_id :: i32
  rv_platform :: string
  rv_sender_key :: string
  rv_rule_type :: string
  rv_source :: string
  rv_created_at :: i32

definition rule_view :: "commitment_sender_rule \<Rightarrow> sender_rule_view" where
  "rule_view r =
     \<lparr>rv_id = sr_id r, rv_platform = sr_platform r, rv_sender_key = sr_sender_key r, rv_rule_type = sr_rule_type r,
      rv_source = sr_source r, rv_created_at = sr_created_at r\<rparr>"

text \<open>The muted senders and those that are always tracked.\<close>

definition list_sender_rules :: "i32 \<Rightarrow> commitment_store \<Rightarrow> sender_rule_view list \<times> sender_rule_view list" where
  "list_sender_rules user_id s =
     (map rule_view (list_active_rules user_id RULE_MUTE s), map rule_view (list_active_rules user_id RULE_ALWAYS_TRACK s))"

definition deactivate_sender_rule :: "i32 \<Rightarrow> i32 \<Rightarrow> i32 \<Rightarrow> commitment_store \<Rightarrow> nat \<times> commitment_store" where
  "deactivate_sender_rule user_id rule_id now s = deactivate_rule user_id rule_id now s"

record prompt_view =
  pv_id :: i32
  pv_platform :: string
  pv_sender_display_name :: string
  pv_commitment_description :: string
  pv_sent_at :: i32
  pv_user_label :: "string option"
  pv_labeled_at :: "i32 option"
  pv_resulting_event_id :: "i32 option"
  pv_resolved_at :: "i32 option"

definition recent_prompts_view :: "i32 \<Rightarrow> commitment_store \<Rightarrow> prompt_view list" where
  "recent_prompts_view user_id s =
     map (\<lambda>p. \<lparr>pv_id = cp_id p, pv_platform = cp_platform p, pv_sender_display_name = cp_sender_display_name p,
                pv_commitment_description = cp_commitment_description p, pv_sent_at = cp_sent_at p,
                pv_user_label = cp_user_label p, pv_labeled_at = cp_labeled_at p,
                pv_resulting_event_id = cp_resulting_event_id p, pv_resolved_at = cp_resolved_at p\<rparr>)
       (list_recent_prompts user_id 50 s)"

end
