(* ===== verification/CommitmentReplies.thy ===== *)
theory CommitmentReplies
  imports Commitments Links Json
begin

text \<open>
  The answers to commitment prompts, \<^verbatim>\<open>proactive/commitment_replies.rs\<close>: a message of the user that is
  exactly 1, 2, 3 or 4 resolves the latest prompt of the last hour. The prompt is claimed first, and
  only who claimed it creates the event, the rule of the sender and the label of the message.

  Other requests run whenever a function awaits, and between the reading of a prompt and its claim
  (\<open>ce_others\<close>). The insertion of an event may fail (\<open>ce_event_error\<close>); the embedding service is a
  parameter.
\<close>

section \<open>World and environment\<close>

datatype commitment_effect =
    SmsSent i32 string
  | ChangeNotified i32 string

record commitment_world =
  cw_store :: commitment_store
  cw_ont :: ont_store
  cw_links :: link_store
  cw_messages :: message_store
  cw_trace :: "commitment_effect list"

record commitment_env =
  ce_now :: i32
  ce_event_error :: "db_error option"                  \<comment> \<open>of the insertion of an event\<close>
  ce_embed :: "string \<Rightarrow> string + f32_bits list option"
  ce_others :: "nat \<Rightarrow> commitment_world \<Rightarrow> commitment_world"

definition on_commitments :: "(commitment_store \<Rightarrow> commitment_store) \<Rightarrow> commitment_world \<Rightarrow> commitment_world" where
  "on_commitments f w = w\<lparr>cw_store := f (cw_store w)\<rparr>"

definition try_create_event ::
  "'a commitment_env_scheme \<Rightarrow> new_ont_event \<Rightarrow> commitment_world \<Rightarrow> (db_error + ont_event) \<times> commitment_world" where
  "try_create_event env ne w =
     (case ce_event_error env of
        Some e \<Rightarrow> (Inl e, w)
      | None \<Rightarrow> (case create_event ne (ce_now env) (cw_ont w) of (e, s) \<Rightarrow> (Inr e, w\<lparr>cw_ont := s\<rparr>)))"

definition link_message :: "i32 \<Rightarrow> i32 \<Rightarrow> i64 \<Rightarrow> string \<Rightarrow> i32 \<Rightarrow> commitment_world \<Rightarrow> commitment_world" where
  "link_message user_id event_id message_id link_type now w =
     (case create_link user_id ''Event'' event_id ''Message'' (wrap_i32 message_id) link_type None now (cw_links w, cw_ont w) of
        (_, ls, s) \<Rightarrow> w\<lparr>cw_links := ls, cw_ont := s\<rparr>)"

definition commitment_event :: "i32 \<Rightarrow> string \<Rightarrow> i32 option \<Rightarrow> i32 option \<Rightarrow> i32 \<Rightarrow> new_ont_event" where
  "commitment_event user_id description remind_at due_at now =
     \<lparr>ne_user_id = user_id, ne_description = description, ne_remind_at = remind_at, ne_due_at = due_at,
      ne_status = ''active'', ne_created_at = now, ne_updated_at = now\<rparr>"

section \<open>Replies\<close>

datatype commitment_reply = ReplyTrack | ReplyAlways | ReplyMute | ReplyWrong

fun reply_label :: "commitment_reply \<Rightarrow> string" where
  "reply_label ReplyTrack = ''1''"
| "reply_label ReplyAlways = ''2''"
| "reply_label ReplyMute = ''3''"
| "reply_label ReplyWrong = ''4''"

definition parse_reply :: "string \<Rightarrow> commitment_reply option" where
  "parse_reply body =
     (let t = trim body
      in if t = ''1'' then Some ReplyTrack else if t = ''2'' then Some ReplyAlways
         else if t = ''3'' then Some ReplyMute else if t = ''4'' then Some ReplyWrong else None)"

definition ALREADY_PROCESSED :: string where "ALREADY_PROCESSED = ''Already handled that prompt.''"

definition claim_or_log_duplicate ::
  "i32 \<Rightarrow> commitment_prompt \<Rightarrow> commitment_reply \<Rightarrow> commitment_world \<Rightarrow> bool \<times> commitment_world" where
  "claim_or_log_duplicate now p reply w =
     (case claim_prompt (cp_id p) (reply_label reply) now (cw_store w) of
        (n, s) \<Rightarrow> (n = 1, w\<lparr>cw_store := s\<rparr>))"

definition seed_label_embedding ::
  "'a commitment_env_scheme \<Rightarrow> commitment_prompt \<Rightarrow> string \<Rightarrow> commitment_world \<Rightarrow> commitment_world" where
  "seed_label_embedding env p label_type w =
     (case get_messages_by_ids [cp_ont_message_id p] (cw_messages w) of
        [] \<Rightarrow> w
      | m # _ \<Rightarrow>
          let w' = ce_others env 1 w
          in (case ce_embed env (om_content m) of
                Inr (Some embedding) \<Rightarrow>
                  on_commitments (\<lambda>s. snd (store_label_embedding
                    \<lparr>nlb_user_id = cp_user_id p, nlb_label_type = label_type, nlb_embedding = pack_embedding embedding,
                     nlb_source_message_id = Some (cp_ont_message_id p), nlb_created_at = ce_now env\<rparr> s)) w'
              | _ \<Rightarrow> w'))"

definition event_of_prompt :: "commitment_prompt \<Rightarrow> i32 \<Rightarrow> new_ont_event" where
  "event_of_prompt p now =
     commitment_event (cp_user_id p) (cp_commitment_description p) (cp_remind_at p) (cp_due_at p) now"

text \<open>The event of a claimed prompt, its link to the message and its number in the prompt.\<close>

definition track_prompt ::
  "'a commitment_env_scheme \<Rightarrow> commitment_prompt \<Rightarrow> commitment_world \<Rightarrow> bool \<times> commitment_world" where
  "track_prompt env p w =
     (case try_create_event env (event_of_prompt p (ce_now env)) w of
        (Inl _, w1) \<Rightarrow> (False, w1)
      | (Inr created, w1) \<Rightarrow>
          (True, on_commitments (\<lambda>s. snd (set_prompt_event_id (cp_id p) (oe_id created) s))
             (link_message (cp_user_id p) (oe_id created) (cp_ont_message_id p) ''source_message'' (ce_now env) w1)))"

definition apply_track ::
  "'a commitment_env_scheme \<Rightarrow> commitment_prompt \<Rightarrow> commitment_world \<Rightarrow> string \<times> commitment_world" where
  "apply_track env p w =
     (case claim_or_log_duplicate (ce_now env) p ReplyTrack w of
        (False, w1) \<Rightarrow> (ALREADY_PROCESSED, w1)
      | (True, w1) \<Rightarrow>
          (case track_prompt env p w1 of
             (True, w2) \<Rightarrow> (''Tracking: '' @ cp_commitment_description p, seed_label_embedding env p LABEL_TRACK w2)
           | (False, w2) \<Rightarrow> (''Sorry, couldn't track that right now. Try again later.'', w2)))"

definition apply_always ::
  "'a commitment_env_scheme \<Rightarrow> commitment_prompt \<Rightarrow> commitment_world \<Rightarrow> string \<times> commitment_world" where
  "apply_always env p w =
     (case claim_or_log_duplicate (ce_now env) p ReplyAlways w of
        (False, w1) \<Rightarrow> (ALREADY_PROCESSED, w1)
      | (True, w1) \<Rightarrow>
          (''Tracking: '' @ cp_commitment_description p @ '' - will auto-track future from '' @ cp_sender_display_name p,
           seed_label_embedding env p LABEL_TRACK
             (on_commitments
                (\<lambda>s. snd (create_sender_rule
                   \<lparr>nsr_user_id = cp_user_id p, nsr_platform = cp_platform p, nsr_sender_key = cp_sender_key p,
                    nsr_rule_type = RULE_ALWAYS_TRACK, nsr_source = RULE_SOURCE_SMS, nsr_active = True,
                    nsr_created_at = ce_now env\<rparr>
                   (snd (deactivate_existing_rules (cp_user_id p) (cp_platform p) (cp_sender_key p) (ce_now env) s))))
                (snd (track_prompt env p w1)))))"

definition apply_mute ::
  "'a commitment_env_scheme \<Rightarrow> commitment_prompt \<Rightarrow> commitment_world \<Rightarrow> string \<times> commitment_world" where
  "apply_mute env p w =
     (case claim_or_log_duplicate (ce_now env) p ReplyMute w of
        (False, w1) \<Rightarrow> (ALREADY_PROCESSED, w1)
      | (True, w1) \<Rightarrow>
          (''Muted '' @ cp_sender_display_name p @ ''. No more commitment prompts from them.'',
           on_commitments (\<lambda>s. snd (upsert_sender_rule (cp_user_id p) (cp_platform p) (cp_sender_key p) RULE_MUTE
             RULE_SOURCE_SMS (ce_now env) s)) w1))"

definition apply_wrong ::
  "'a commitment_env_scheme \<Rightarrow> commitment_prompt \<Rightarrow> commitment_world \<Rightarrow> string \<times> commitment_world" where
  "apply_wrong env p w =
     (case claim_or_log_duplicate (ce_now env) p ReplyWrong w of
        (False, w1) \<Rightarrow> (ALREADY_PROCESSED, w1)
      | (True, w1) \<Rightarrow> (''Got it - won't treat this as a commitment.'', seed_label_embedding env p LABEL_WRONG w1))"

fun apply_reply ::
  "'a commitment_env_scheme \<Rightarrow> commitment_reply \<Rightarrow> commitment_prompt \<Rightarrow> commitment_world \<Rightarrow> string \<times> commitment_world" where
  "apply_reply env ReplyTrack p w = apply_track env p w"
| "apply_reply env ReplyAlways p w = apply_always env p w"
| "apply_reply env ReplyMute p w = apply_mute env p w"
| "apply_reply env ReplyWrong p w = apply_wrong env p w"

definition try_handle_reply ::
  "'a commitment_env_scheme \<Rightarrow> i32 \<Rightarrow> string \<Rightarrow> commitment_world \<Rightarrow> string option \<times> commitment_world" where
  "try_handle_reply env user_id body w =
     (case parse_reply body of
        None \<Rightarrow> (None, w)
      | Some reply \<Rightarrow>
          (case find_latest_unresolved_for_user user_id (ce_now env) (cw_store w) of
             None \<Rightarrow> (None, w)
           | Some p \<Rightarrow> (case apply_reply env reply p (ce_others env 0 w) of (answer, w') \<Rightarrow> (Some answer, w'))))"

end
