(* ===== verification/CommitmentDetection.thy ===== *)
theory CommitmentDetection
  imports CommitmentReplies
begin

text \<open>
  The detection of commitments, the part of \<^verbatim>\<open>proactive/system_behaviors.rs\<close> behind the two questions to the
  language model: the gate, the extraction and how its answer is routed to the tracked events, the
  prompt for a new commitment (\<open>handle_new_commitment\<close>, \<open>try_send_commitment_prompt\<close>), and the resolution of
  events by the user's own messages.

  The answers of the model, the channel, the user lookup and the date parser are parameters. A question is
  described by what the code puts into its text, the text itself is a function of it (\<open>de_prompt\<close>). The
  comparison of embeddings with the thresholds 0.85 and 0.90 is a parameter, too. Other tasks run at every
  \<^verbatim>\<open>await\<close> (\<open>ce_others\<close>).
\<close>

section \<open>Environment\<close>

type_synonym function_call = "string option \<times> string option"

record detection_request =
  dq_now :: i32
  dq_sender :: string
  dq_platform :: string
  dq_content :: string
  dq_conversation :: "ont_message list"
  dq_events :: "ont_event list"

record detection_env = commitment_env +
  de_parse :: "string \<Rightarrow> json option"
  de_print :: "json \<Rightarrow> string"
  de_parse_error :: "string \<Rightarrow> string"
  de_error :: "db_error \<Rightarrow> string"
  de_debug :: "string \<Rightarrow> string"                      \<comment> \<open>\<^verbatim>\<open>{:?}\<close> of a text\<close>
  de_auto_track :: "i32 \<Rightarrow> string + bool"
  de_quiet :: "i32 \<Rightarrow> bool"                            \<comment> \<open>a quiet mode that holds back critical alerts\<close>
  de_tokens_since :: "i32 \<Rightarrow> i32 \<Rightarrow> db_error + i64"
  de_context :: "i32 \<Rightarrow> string + unit"
  de_gate :: "string \<Rightarrow> string \<Rightarrow> string \<Rightarrow> string + function_call list option list"
  de_extract :: "detection_request \<Rightarrow> string + (function_call list option \<times> string option) list"
  de_prompt :: "detection_request \<Rightarrow> string"
  de_resolve :: "detection_request \<Rightarrow> string + function_call list option list"
  de_rfc3339 :: "string \<Rightarrow> i64 option"
  de_f64_as_i32 :: "string \<Rightarrow> i32"
  de_track_similar :: "f32_bits list \<Rightarrow> f32_bits list list \<Rightarrow> bool"
  de_wrong_similar :: "f32_bits list \<Rightarrow> f32_bits list list \<Rightarrow> string option"   \<comment> \<open>the similarity\<close>
  de_user :: "i32 \<Rightarrow> db_error + bool"
  de_send :: "i32 \<Rightarrow> string \<Rightarrow> string + string"

definition skipped :: "string \<Rightarrow> json" where
  "skipped reason = JObj [(''action'', JStr ''skipped''), (''reason'', JStr reason)]"

definition failed_with :: "string \<Rightarrow> string \<Rightarrow> json" where
  "failed_with reason error =
     JObj [(''action'', JStr ''error''), (''reason'', JStr reason), (''error'', JStr error)]"

fun json_of_opt :: "int option \<Rightarrow> json" where
  "json_of_opt None = JNull"
| "json_of_opt (Some i) = JInt i"

definition add_trace :: "commitment_effect \<Rightarrow> commitment_world \<Rightarrow> commitment_world" where
  "add_trace e w = w\<lparr>cw_trace := cw_trace w @ [e]\<rparr>"

section \<open>The prompt of a new commitment\<close>

definition truncate_chars :: "string \<Rightarrow> nat \<Rightarrow> string" where
  "truncate_chars s max_chars =
     (if length (utf8_chars s) \<le> max_chars then s
      else take_chars (max_chars - 1) s @ [CHR 0xE2, CHR 0x80, CHR 0xA6])"

definition prompt_body :: "string \<Rightarrow> string \<Rightarrow> string" where
  "prompt_body description sender_name =
     ''Commitment? '' @ [CHR 0x22] @ truncate_chars description 100 @ [CHR 0x22] @ '' (from '' @
     truncate_chars sender_name 40 @ ''). Reply: 1=track, 2=always, 3=mute, 4=not commitment''"

datatype prompt_send_outcome = PromptSent i32 | RaceLost

definition new_prompt ::
  "i32 \<Rightarrow> i64 \<Rightarrow> string \<Rightarrow> string \<Rightarrow> string \<Rightarrow> string \<Rightarrow> i32 option \<Rightarrow> i32 option \<Rightarrow> i32 \<Rightarrow> new_commitment_prompt" where
  "new_prompt user_id mid platform sender_key sender_name description due_at remind_at now =
     \<lparr>ncp_user_id = user_id, ncp_ont_message_id = mid, ncp_platform = platform, ncp_sender_key = sender_key,
      ncp_sender_display_name = sender_name, ncp_commitment_description = description, ncp_due_at = due_at,
      ncp_remind_at = remind_at, ncp_sent_at = now, ncp_sms_message_sid = None\<rparr>"

definition try_send_commitment_prompt ::
  "detection_env \<Rightarrow> i32 \<Rightarrow> i64 option \<Rightarrow> string \<Rightarrow> string \<Rightarrow> string \<Rightarrow> string \<Rightarrow> i32 option \<Rightarrow> i32 option
     \<Rightarrow> commitment_world \<Rightarrow> (string + prompt_send_outcome) \<times> commitment_world" where
  "try_send_commitment_prompt env user_id message_id platform sender_key sender_name description due_at remind_at w =
     (case message_id of
        None \<Rightarrow> (Inl ''no message_id available'', w)
      | Some mid \<Rightarrow>
          (case create_prompt (new_prompt user_id mid platform sender_key sender_name description due_at remind_at
                                 (ce_now env)) (cw_store w) of
             (None, s) \<Rightarrow> (Inr RaceLost, w\<lparr>cw_store := s\<rparr>)
           | (Some p, s) \<Rightarrow>
               let w1 = w\<lparr>cw_store := s\<rparr>
               in (case de_user env user_id of
                     Inl e \<Rightarrow> (Inl (''find_by_id failed: '' @ de_error env e), w1)
                   | Inr False \<Rightarrow> (Inl ''user not found'', w1)
                   | Inr True \<Rightarrow>
                       (case de_send env user_id (prompt_body description sender_name) of
                          Inr sid \<Rightarrow>
                            (Inr (PromptSent (cp_id p)),
                             on_commitments (\<lambda>s. snd (set_prompt_sms_sid (cp_id p) sid s))
                               (ce_others env 5 (add_trace (SmsSent user_id (prompt_body description sender_name)) w1)))
                        | Inl e \<Rightarrow>
                            (Inl (''channel send failed: '' @ e),
                             on_commitments (\<lambda>s. snd (expire_prompt (cp_id p) (ce_now env) s)) (ce_others env 5 w1))))))"

section \<open>A new commitment\<close>

text \<open>\<^verbatim>\<open>max_user_label_similarity\<close> leaves out the rows of another length.\<close>

definition label_candidates :: "i32 \<Rightarrow> string \<Rightarrow> f32_bits list \<Rightarrow> commitment_store \<Rightarrow> f32_bits list list" where
  "label_candidates user_id label_type query s =
     filter (\<lambda>c. length c = length query)
       (List.map_filter (\<lambda>r. unpack_embedding (lb_embedding r)) (list_embeddings user_id label_type s))"

text \<open>
  The memory of labelled messages: a routing that suppresses the prompt, or whether it is skipped
  because a similar message was tracked.
\<close>

definition recall_labels ::
  "detection_env \<Rightarrow> i32 \<Rightarrow> json \<Rightarrow> commitment_world \<Rightarrow> (json + bool) \<times> commitment_world" where
  "recall_labels env user_id snapshot w =
     (case get_str ''content'' snapshot of
        None \<Rightarrow> (Inr False, w)
      | Some content \<Rightarrow>
          if trim content = [] then (Inr False, w)
          else
            let w' = ce_others env 4 w
            in (case ce_embed env content of
                  Inr (Some emb) \<Rightarrow>
                    if de_track_similar env emb (label_candidates user_id LABEL_TRACK emb (cw_store w')) then (Inr True, w')
                    else
                      (case de_wrong_similar env emb (label_candidates user_id LABEL_WRONG emb (cw_store w')) of
                         Some similarity \<Rightarrow>
                           (Inl (JObj [(''action'', JStr ''skipped''), (''reason'', JStr ''similar_to_past_wrong''),
                                       (''similarity'', JFloat similarity)]), w')
                       | None \<Rightarrow> (Inr False, w'))
                | _ \<Rightarrow> (Inr False, w')))"

text \<open>The sender is known: the answer \<^const>\<open>None\<close> falls through to the creation of the event.\<close>

definition prompt_or_fall_through ::
  "detection_env \<Rightarrow> i32 \<Rightarrow> json \<Rightarrow> string \<Rightarrow> string \<Rightarrow> string \<Rightarrow> i64 option \<Rightarrow> string \<Rightarrow> i32 option \<Rightarrow> i32 option
     \<Rightarrow> commitment_world \<Rightarrow> json option \<times> commitment_world" where
  "prompt_or_fall_through env user_id snapshot sender_key sender_name platform message_id description due_at remind_at w =
     (case find_unresolved_for_sender user_id platform sender_key (cw_store w) of
        Some existing \<Rightarrow>
          (Some (JObj [(''action'', JStr ''skipped''), (''reason'', JStr ''duplicate_pending_prompt''),
                       (''existing_prompt_id'', JInt (cp_id existing))]), w)
      | None \<Rightarrow>
          (case recall_labels env user_id snapshot w of
             (Inl routing, w1) \<Rightarrow> (Some routing, w1)
           | (Inr True, w1) \<Rightarrow> (None, w1)
           | (Inr False, w1) \<Rightarrow>
               (case try_send_commitment_prompt env user_id message_id platform sender_key sender_name description
                       due_at remind_at w1 of
                  (Inr (PromptSent prompt_id), w2) \<Rightarrow>
                    (Some (JObj [(''action'', JStr ''sms_prompt_sent''), (''prompt_id'', JInt prompt_id)]), w2)
                | (Inr RaceLost, w2) \<Rightarrow> (Some (skipped ''prompt_race_lost''), w2)
                | (Inl _, w2) \<Rightarrow> (None, w2))))"

definition auto_create ::
  "detection_env \<Rightarrow> i32 \<Rightarrow> i64 option \<Rightarrow> string \<Rightarrow> i32 option \<Rightarrow> i32 option \<Rightarrow> commitment_world \<Rightarrow> json \<times> commitment_world" where
  "auto_create env user_id message_id description due_at remind_at w =
     (case try_create_event env (commitment_event user_id description remind_at due_at (ce_now env)) w of
        (Inl e, w1) \<Rightarrow> (failed_with ''create_event_failed'' (de_error env e), w1)
      | (Inr created, w1) \<Rightarrow>
          (JObj [(''action'', JStr ''created''), (''event_id'', JInt (oe_id created)), (''status'', JStr ''active''),
                 (''due_at'', json_of_opt due_at)],
           (case message_id of
              None \<Rightarrow> w1
            | Some mid \<Rightarrow> link_message user_id (oe_id created) mid ''source_message'' (ce_now env) w1)))"

definition handle_new_commitment ::
  "detection_env \<Rightarrow> i32 \<Rightarrow> json \<Rightarrow> string \<Rightarrow> string \<Rightarrow> i64 option \<Rightarrow> string \<Rightarrow> i32 option \<Rightarrow> i32 option
     \<Rightarrow> commitment_world \<Rightarrow> json \<times> commitment_world" where
  "handle_new_commitment env user_id snapshot sender_name platform message_id description due_at remind_at w =
     (case (case get_str ''sender_key'' snapshot of
              None \<Rightarrow> (None, w)
            | Some sender_key \<Rightarrow>
                let prompt = prompt_or_fall_through env user_id snapshot sender_key sender_name platform message_id
                               description due_at remind_at w
                in (case lookup_sender_rule user_id platform sender_key (cw_store w) of
                      None \<Rightarrow> prompt
                    | Some rule \<Rightarrow>
                        if sr_rule_type rule = RULE_MUTE
                        then (Some (JObj [(''action'', JStr ''skipped''), (''reason'', JStr ''sender_muted''),
                                          (''rule_id'', JInt (sr_id rule))]), w)
                        else if sr_rule_type rule = RULE_ALWAYS_TRACK then (None, w)
                        else prompt)) of
        (Some routing, w1) \<Rightarrow> (routing, w1)
      | (None, w1) \<Rightarrow> auto_create env user_id message_id description due_at remind_at w1)"

section \<open>Existing events\<close>

definition link_opt :: "i32 \<Rightarrow> i32 \<Rightarrow> i64 option \<Rightarrow> string \<Rightarrow> i32 \<Rightarrow> commitment_world \<Rightarrow> commitment_world" where
  "link_opt user_id event_id message_id link_type now w =
     (case message_id of None \<Rightarrow> w | Some mid \<Rightarrow> link_message user_id event_id mid link_type now w)"

definition action_on :: "string \<Rightarrow> i32 \<Rightarrow> json" where
  "action_on action event_id = JObj [(''action'', JStr action), (''event_id'', JInt event_id)]"

definition complete_event ::
  "detection_env \<Rightarrow> i32 \<Rightarrow> i64 option \<Rightarrow> i32 \<Rightarrow> commitment_world \<Rightarrow> json \<times> commitment_world" where
  "complete_event env user_id message_id event_id w =
     (action_on ''completed'' event_id,
      link_opt user_id event_id message_id ''resolve_message'' (ce_now env)
        (w\<lparr>cw_ont := update_event_status user_id event_id ''completed'' (ce_now env) (cw_ont w)\<rparr>))"

definition PULL_FORWARD_GUARD_SECS :: i32 where "PULL_FORWARD_GUARD_SECS = 21600"

definition safe_times ::
  "i32 \<Rightarrow> ont_event option \<Rightarrow> i32 option \<Rightarrow> i32 option \<Rightarrow> i32 option \<times> i32 option" where
  "safe_times now old remind_at due_at =
     (case (old, due_at) of
        (Some old_event, Some new_due) \<Rightarrow>
          (let old_due = (case oe_due_at old_event of None \<Rightarrow> 0 | Some d \<Rightarrow> d)
           in if now < old_due \<and> wrap_i32 (new_due + PULL_FORWARD_GUARD_SECS) < old_due then (None, None)
              else (remind_at, due_at))
      | _ \<Rightarrow> (remind_at, due_at))"

definition deadline_notice :: "ont_event option \<Rightarrow> i32 option \<Rightarrow> string \<Rightarrow> string option" where
  "deadline_notice old safe_due sender_name =
     (case (old, safe_due) of
        (Some old_event, Some new_due) \<Rightarrow>
          (let old_due = (case oe_due_at old_event of None \<Rightarrow> 0 | Some d \<Rightarrow> d)
           in if old_due \<noteq> new_due \<and> old_due \<noteq> 0
              then Some (''Tracked item updated: '' @ [CHR 0x22] @ oe_description old_event @ [CHR 0x22, CHR 0x0A] @
                         ''Deadline changed based on new message from '' @ sender_name @ ''.'')
              else None)
      | _ \<Rightarrow> None)"

definition own_event_opt :: "i32 \<Rightarrow> i32 \<Rightarrow> ont_store \<Rightarrow> ont_event option" where
  "own_event_opt user_id event_id s = (case get_event user_id event_id s of Inl _ \<Rightarrow> None | Inr e \<Rightarrow> Some e)"

definition update_deadline ::
  "detection_env \<Rightarrow> i32 \<Rightarrow> string \<Rightarrow> i64 option \<Rightarrow> string \<Rightarrow> i32 option \<Rightarrow> i32 option \<Rightarrow> i32
     \<Rightarrow> commitment_world \<Rightarrow> json \<times> commitment_world" where
  "update_deadline env user_id sender_name message_id description due_at remind_at event_id w =
     (let old = own_event_opt user_id event_id (cw_ont w);
          (safe_remind, safe_due) = safe_times (ce_now env) old remind_at due_at
      in (case update_event user_id event_id (if description = [] then None else Some description) None safe_remind safe_due
                 (ce_now env) (cw_ont w) of
            (Inl e, s) \<Rightarrow> (failed_with ''update_event_failed'' (de_error env e), w\<lparr>cw_ont := s\<rparr>)
          | (Inr _, s) \<Rightarrow>
              let w1 = link_opt user_id event_id message_id ''update_message'' (ce_now env) (w\<lparr>cw_ont := s\<rparr>);
                  w2 = (case deadline_notice old safe_due sender_name of
                          None \<Rightarrow> w1 | Some notice \<Rightarrow> ce_others env 6 (add_trace (ChangeNotified user_id notice) w1))
              in (if safe_due = None \<and> due_at \<noteq> None
                  then JObj [(''action'', JStr ''deadline_update_guarded''), (''event_id'', JInt event_id),
                             (''rejected_due_at'', json_of_opt due_at)]
                  else JObj [(''action'', JStr ''deadline_updated''), (''event_id'', JInt event_id),
                             (''new_due_at'', json_of_opt safe_due)], w2)))"

definition append_to_tracked ::
  "detection_env \<Rightarrow> i32 \<Rightarrow> i64 option \<Rightarrow> string \<Rightarrow> i32 \<Rightarrow> commitment_world \<Rightarrow> json \<times> commitment_world" where
  "append_to_tracked env user_id message_id description event_id w =
     (case update_event user_id event_id (Some description) None None None (ce_now env) (cw_ont w) of
        (Inl e, s) \<Rightarrow> (failed_with ''update_event_failed'' (de_error env e), w\<lparr>cw_ont := s\<rparr>)
      | (Inr _, s) \<Rightarrow>
          (action_on ''updated'' event_id,
           link_opt user_id event_id message_id ''update_message'' (ce_now env) (w\<lparr>cw_ont := s\<rparr>)))"

section \<open>Routing of an extraction\<close>

record detection_message =
  dm_user_id :: i32
  dm_snapshot :: json
  dm_sender :: string
  dm_platform :: string
  dm_message_id :: "i64 option"

definition on_match ::
  "i32 list \<Rightarrow> i32 option \<Rightarrow> string \<Rightarrow> (i32 \<Rightarrow> commitment_world \<Rightarrow> json \<times> commitment_world)
     \<Rightarrow> commitment_world \<Rightarrow> json \<times> commitment_world" where
  "on_match valid_ids match_id without f w =
     (case match_id of
        None \<Rightarrow> (skipped without, w)
      | Some event_id \<Rightarrow>
          if event_id \<in> set valid_ids then f event_id w else (skipped ''existing_match_id_not_in_active_set'', w))"

definition route_commitment ::
  "detection_env \<Rightarrow> detection_message \<Rightarrow> i32 list \<Rightarrow> string \<Rightarrow> string \<Rightarrow> i32 option \<Rightarrow> i32 option
     \<Rightarrow> commitment_world \<Rightarrow> json \<times> commitment_world" where
  "route_commitment env m valid_ids commitment_type description match_id deadline w =
     (let user_id = dm_user_id m; mid = dm_message_id m; due_at = deadline;
          remind_at = map_option (\<lambda>d. max (wrap_i32 (d - 86400)) (ce_now env)) deadline
      in if commitment_type = ''completion_signal'' then
           on_match valid_ids match_id ''completion_signal_without_match_id'' (complete_event env user_id mid) w
         else if commitment_type = ''deadline_update'' then
           on_match valid_ids match_id ''deadline_update_without_match_id''
             (update_deadline env user_id (dm_sender m) mid description due_at remind_at) w
         else
           (case match_id of
              Some event_id \<Rightarrow>
                if event_id \<in> set valid_ids then append_to_tracked env user_id mid description event_id w
                else (skipped ''existing_match_id_not_in_active_set'', w)
            | None \<Rightarrow>
                handle_new_commitment env user_id (dm_snapshot m) (dm_sender m) (dm_platform m) mid description
                  due_at remind_at w))"

text \<open>The arguments of one tool call: how it is routed, and whether the loop goes on to the next one.\<close>

definition route_arguments ::
  "detection_env \<Rightarrow> detection_message \<Rightarrow> i32 list \<Rightarrow> string \<Rightarrow> commitment_world \<Rightarrow> (bool \<times> json) \<times> commitment_world" where
  "route_arguments env m valid_ids args w =
     (case de_parse env args of
        None \<Rightarrow>
          ((True, JObj [(''action'', JStr ''skipped''), (''reason'', JStr ''tool_args_unparseable''),
                        (''error'', JStr (de_parse_error env args))]), w)
      | Some parsed \<Rightarrow>
          if get_bool ''has_commitment'' parsed \<noteq> Some True then ((False, skipped ''has_commitment_false''), w)
          else
            let commitment_type = (case get_str ''commitment_type'' parsed of None \<Rightarrow> ''commitment_by_user'' | Some t \<Rightarrow> t);
                description = str_or_empty ''description'' parsed;
                match_id = map_option wrap_i32 (get_i64 ''existing_match_id'' parsed);
                deadline = map_option wrap_i32 (Option.bind (get_str ''deadline'' parsed) (de_rfc3339 env))
            in if description = [] \<and> commitment_type \<noteq> ''completion_signal''
               then ((True, JObj [(''action'', JStr ''skipped''), (''reason'', JStr ''empty_description''),
                                  (''commitment_type'', JStr commitment_type)]), w)
               else
                 (case route_commitment env m valid_ids commitment_type description match_id deadline w of
                    (routing, w') \<Rightarrow> ((False, routing), w')))"

fun route_calls ::
  "detection_env \<Rightarrow> detection_message \<Rightarrow> i32 list \<Rightarrow> json \<Rightarrow> function_call list \<Rightarrow> commitment_world \<Rightarrow> json \<times> commitment_world" where
  "route_calls env m valid_ids routing [] w = (routing, w)"
| "route_calls env m valid_ids routing ((name, args) # calls) w =
     (if name \<noteq> Some ''commitment_result'' then route_calls env m valid_ids routing calls w
      else
        (case route_arguments env m valid_ids (case args of None \<Rightarrow> ''{}'' | Some a \<Rightarrow> a) w of
           ((True, routing'), w') \<Rightarrow> route_calls env m valid_ids routing' calls w'
         | ((False, routing'), w') \<Rightarrow> (routing', w')))"

section \<open>Detection\<close>

definition DAILY_TOKEN_BUDGET_PER_USER :: i64 where "DAILY_TOKEN_BUDGET_PER_USER = 332000"

definition exceeds_daily_token_budget :: "detection_env \<Rightarrow> i32 \<Rightarrow> bool" where
  "exceeds_daily_token_budget env user_id \<longleftrightarrow>
     DAILY_TOKEN_BUDGET_PER_USER \<le>
       (case de_tokens_since env user_id (ce_now env sdiv 86400 * 86400) of Inl _ \<Rightarrow> 0 | Inr used \<Rightarrow> used)"

definition commitment_gate :: "detection_env \<Rightarrow> string \<Rightarrow> string \<Rightarrow> string \<Rightarrow> string + bool \<times> string" where
  "commitment_gate env content sender_name platform =
     (case de_gate env content sender_name platform of
        Inl e \<Rightarrow> Inl (''Commitment gate LLM call failed: '' @ e)
      | Inr [] \<Rightarrow> Inl ''gate: no choices''
      | Inr (None # _) \<Rightarrow> Inl ''gate: no tool_calls''
      | Inr (Some [] # _) \<Rightarrow> Inl ''gate: empty tool_calls''
      | Inr (Some ((_, arguments) # _) # _) \<Rightarrow>
          let args = (case arguments of None \<Rightarrow> ''{}'' | Some a \<Rightarrow> a)
          in (case de_parse env args of
                None \<Rightarrow> Inl (de_parse_error env args)
              | Some parsed \<Rightarrow> Inr ((case get_bool ''relevant'' parsed of None \<Rightarrow> True | Some b \<Rightarrow> b), args)))"

definition gate_result :: "detection_env \<Rightarrow> string \<Rightarrow> string \<Rightarrow> string \<Rightarrow> bool \<times> string" where
  "gate_result env content sender_name platform =
     (case commitment_gate env content sender_name platform of
        Inr r \<Rightarrow> r
      | Inl e \<Rightarrow> (True, ''{'' @ [CHR 0x22] @ ''error'' @ [CHR 0x22] @ '':'' @ de_debug env e @ ''}''))"

definition json_or_text :: "detection_env \<Rightarrow> string \<Rightarrow> json" where
  "json_or_text env raw = (case de_parse env raw of Some v \<Rightarrow> v | None \<Rightarrow> JStr raw)"

definition persist_envelope ::
  "detection_env \<Rightarrow> i64 option \<Rightarrow> string \<Rightarrow> json \<Rightarrow> commitment_world \<Rightarrow> commitment_world" where
  "persist_envelope env message_id prompt envelope w =
     (case message_id of
        None \<Rightarrow> w
      | Some mid \<Rightarrow>
          w\<lparr>cw_messages := update_message_commitment mid (Some prompt) (Some (de_print env envelope)) (cw_messages w)\<rparr>)"

definition detection_envelope :: "json \<Rightarrow> json \<Rightarrow> json \<Rightarrow> json" where
  "detection_envelope gate extraction routing =
     JObj [(''gate'', gate), (''extraction'', extraction), (''routing'', routing)]"

definition extraction_raw :: "function_call list option \<times> string option \<Rightarrow> string option" where
  "extraction_raw choice =
     (case fst choice of
        Some calls \<Rightarrow> Option.bind (find (\<lambda>c. fst c = Some ''commitment_result'') calls) snd
      | None \<Rightarrow> snd choice)"

text \<open>What is done with the answer to the extraction, up to the routing.\<close>

definition route_answer ::
  "detection_env \<Rightarrow> detection_message \<Rightarrow> i32 list \<Rightarrow> (function_call list option \<times> string option) list
     \<Rightarrow> commitment_world \<Rightarrow> (json \<times> json) \<times> commitment_world" where
  "route_answer env m valid_ids choices w =
     (case choices of
        [] \<Rightarrow> ((JNull, skipped ''no_llm_choices''), w)
      | choice # _ \<Rightarrow>
          let extraction = (case Option.bind (extraction_raw choice) (de_parse env) of None \<Rightarrow> JNull | Some v \<Rightarrow> v)
          in (case fst choice of
                Some (call # calls) \<Rightarrow>
                  (case route_calls env m valid_ids (skipped ''no_matching_tool_call'') (call # calls) w of
                     (routing, w') \<Rightarrow> ((extraction, routing), w'))
              | _ \<Rightarrow> ((extraction, skipped ''no_tool_calls''), w)))"

definition detect_relevant ::
  "detection_env \<Rightarrow> detection_message \<Rightarrow> string \<Rightarrow> string \<Rightarrow> string \<Rightarrow> commitment_world \<Rightarrow> (string + unit) \<times> commitment_world" where
  "detect_relevant env m room_id content gate_raw w =
     (let user_id = dm_user_id m;
          active_events = get_active_and_proposed_trackable_events user_id (cw_ont w);
          request = \<lparr>dq_now = ce_now env, dq_sender = dm_sender m, dq_platform = dm_platform m, dq_content = content,
                     dq_conversation = get_messages_for_room user_id room_id 10 (cw_messages w),
                     dq_events = active_events\<rparr>;
          w1 = ce_others env 3 w
      in (case de_extract env request of
            Inl e \<Rightarrow> (Inl (''Commitment detection LLM call failed: '' @ e), w1)
          | Inr choices \<Rightarrow>
              (case route_answer env m (map oe_id active_events) choices w1 of
                 ((extraction, routing), w2) \<Rightarrow>
                   (Inr (),
                    persist_envelope env (dm_message_id m) (''<Pass 2 extraction>'' @ [CHR 0x0A] @ de_prompt env request)
                      (detection_envelope (json_or_text env gate_raw) extraction routing) w2))))"

definition run_commitment_detection ::
  "detection_env \<Rightarrow> i32 \<Rightarrow> json \<Rightarrow> commitment_world \<Rightarrow> (string + unit) \<times> commitment_world" where
  "run_commitment_detection env user_id snapshot w =
     (let sender_name = (case get_str ''sender_name'' snapshot of None \<Rightarrow> ''Unknown'' | Some s \<Rightarrow> s);
          platform = (case get_str ''platform'' snapshot of None \<Rightarrow> ''unknown'' | Some s \<Rightarrow> s);
          room_id = str_or_empty ''room_id'' snapshot;
          message_id = get_i64 ''message_id'' snapshot;
          content = str_or_empty ''content'' snapshot;
          m = \<lparr>dm_user_id = user_id, dm_snapshot = snapshot, dm_sender = sender_name, dm_platform = platform,
               dm_message_id = message_id\<rparr>
      in (case de_auto_track env user_id of
            Inl e \<Rightarrow> (Inl e, w)
          | Inr False \<Rightarrow> (Inr (), w)
          | Inr True \<Rightarrow>
              if de_quiet env user_id \<or> exceeds_daily_token_budget env user_id then (Inr (), w)
              else
                (case de_context env user_id of
                   Inl e \<Rightarrow> (Inl e, w)
                 | Inr _ \<Rightarrow>
                     if trim content = [] then (Inr (), w)
                     else
                       (case gate_result env content sender_name platform of
                          (relevant, gate_raw) \<Rightarrow>
                            let w1 = persist_envelope env message_id ''<Pass 1 gate>''
                                  (JObj [(''gate'', json_or_text env gate_raw), (''extraction'', JNull)]) (ce_others env 2 w)
                            in if \<not> relevant then (Inr (), w1)
                               else detect_relevant env m room_id content gate_raw w1))))"

section \<open>The user's own messages\<close>

fun number_as_i32 :: "detection_env \<Rightarrow> json \<Rightarrow> i32 option" where
  "number_as_i32 env (JInt i) = Some (sat_i32 i)"
| "number_as_i32 env (JFloat t) = Some (de_f64_as_i32 env t)"
| "number_as_i32 env _ = None"

definition completed_ids :: "detection_env \<Rightarrow> json \<Rightarrow> i32 list" where
  "completed_ids env parsed =
     (case json_get ''completed_ids'' parsed of Some (JArr vs) \<Rightarrow> List.map_filter (number_as_i32 env) vs | _ \<Rightarrow> [])"

definition resolve_event :: "detection_env \<Rightarrow> i32 \<Rightarrow> i64 \<Rightarrow> i32 list \<Rightarrow> i32 \<Rightarrow> commitment_world \<Rightarrow> commitment_world" where
  "resolve_event env user_id message_id valid_ids event_id w =
     (if event_id \<notin> set valid_ids then w else snd (complete_event env user_id (Some message_id) event_id w))"

fun resolve_call ::
  "detection_env \<Rightarrow> i32 \<Rightarrow> i64 \<Rightarrow> i32 list \<Rightarrow> function_call \<Rightarrow> commitment_world \<Rightarrow> commitment_world" where
  "resolve_call env user_id message_id valid_ids (name, args) w =
     (if name \<noteq> Some ''event_resolution'' then w
      else
        (case de_parse env (case args of None \<Rightarrow> ''{}'' | Some a \<Rightarrow> a) of
           None \<Rightarrow> w
         | Some parsed \<Rightarrow> fold (resolve_event env user_id message_id valid_ids) (completed_ids env parsed) w))"

definition check_outgoing_event_resolution ::
  "detection_env \<Rightarrow> i32 \<Rightarrow> string \<Rightarrow> string \<Rightarrow> i64 \<Rightarrow> commitment_world \<Rightarrow> commitment_world" where
  "check_outgoing_event_resolution env user_id room_id content message_id w =
     (case de_auto_track env user_id of
        Inr True \<Rightarrow>
          (let active_events = get_active_and_proposed_trackable_events user_id (cw_ont w)
           in if active_events = [] then w
              else
                let w1 = ce_others env 7 w
                in (case de_resolve env
                       \<lparr>dq_now = ce_now env, dq_sender = [], dq_platform = [], dq_content = content,
                        dq_conversation = get_messages_for_room user_id room_id 10 (cw_messages w),
                        dq_events = active_events\<rparr> of
                      Inr (Some calls # _) \<Rightarrow>
                        fold (resolve_call env user_id message_id (map oe_id active_events)) calls w1
                    | _ \<Rightarrow> w1))
      | _ \<Rightarrow> w)"

end
