(* ===== verification/CommitmentRuns.thy ===== *)
theory CommitmentRuns
  imports CommitmentDetection
begin

text \<open>
  Commitments as runs of statements. From a time \<open>t0\<close> on, every reply, detection and request of the
  dashboard is a sequence of statements of the commitment tables with the statements of others in between
  (\<open>commitment_op_runs\<close>). A statement only claims or expires a prompt that is not older than the reply window
  before \<open>t0\<close>, and only writes a rule for the sender of such a prompt.
\<close>

section \<open>Statements\<close>

text \<open>What identifies a prompt: its number, its user and sender, and when it was sent.\<close>

definition prompt_ident :: "commitment_prompt \<Rightarrow> i32 \<times> (i32 \<times> string \<times> string) \<times> i32" where
  "prompt_ident p = (cp_id p, (cp_user_id p, cp_platform p, cp_sender_key p), cp_sent_at p)"

definition prompt_idents :: "commitment_store \<Rightarrow> (i32 \<times> (i32 \<times> string \<times> string) \<times> i32) list" where
  "prompt_idents s = map prompt_ident (cm_prompts s)"

definition recent_prompt :: "i32 \<Rightarrow> i32 \<Rightarrow> commitment_store \<Rightarrow> bool" where
  "recent_prompt t0 pid s \<longleftrightarrow> (\<exists>k t. (pid, k, t) \<in> set (prompt_idents s) \<and> t0 - REPLY_MATCH_WINDOW_SECS \<le> t)"

definition recent_sender :: "i32 \<Rightarrow> i32 \<times> string \<times> string \<Rightarrow> commitment_store \<Rightarrow> bool" where
  "recent_sender t0 k s \<longleftrightarrow> (\<exists>pid t. (pid, k, t) \<in> set (prompt_idents s) \<and> t0 - REPLY_MATCH_WINDOW_SECS \<le> t)"

inductive commitment_statement :: "i32 \<Rightarrow> commitment_store \<Rightarrow> commitment_store \<Rightarrow> bool" for t0 where
  cs_prompt: "t0 \<le> ncp_sent_at np \<Longrightarrow> commitment_statement t0 s (snd (create_prompt np s))"
| cs_claim: "recent_prompt t0 pid s \<Longrightarrow> commitment_statement t0 s (snd (claim_prompt pid label now s))"
| cs_expire: "recent_prompt t0 pid s \<Longrightarrow> commitment_statement t0 s (snd (expire_prompt pid now s))"
| cs_event: "commitment_statement t0 s (snd (set_prompt_event_id pid eid s))"
| cs_sid: "commitment_statement t0 s (snd (set_prompt_sms_sid pid sid s))"
| cs_rule: "recent_sender t0 (nsr_user_id nr, nsr_platform nr, nsr_sender_key nr) s \<Longrightarrow>
    commitment_statement t0 s (snd (create_sender_rule nr s))"
| cs_deactivate: "commitment_statement t0 s (snd (deactivate_existing_rules u pl k now s))"
| cs_dashboard: "commitment_statement t0 s (snd (deactivate_sender_rule u rid now s))"
| cs_label: "commitment_statement t0 s (snd (store_label_embedding ne s))"

abbreviation commitment_runs :: "i32 \<Rightarrow> commitment_store \<Rightarrow> commitment_store \<Rightarrow> bool" where
  "commitment_runs t0 \<equiv> (commitment_statement t0)\<^sup>*\<^sup>*"

definition others_run :: "i32 \<Rightarrow> (nat \<Rightarrow> commitment_world \<Rightarrow> commitment_world) \<Rightarrow> bool" where
  "others_run t0 others \<longleftrightarrow> (\<forall>k w. commitment_runs t0 (cw_store w) (cw_store (others k w)))"

text \<open>The clock of an operation that runs from \<open>t0\<close> on.\<close>

definition runs_from :: "i32 \<Rightarrow> 'a commitment_env_scheme \<Rightarrow> bool" where
  "runs_from t0 env \<longleftrightarrow> 0 \<le> t0 \<and> t0 \<le> ce_now env \<and> in_i32 (ce_now env) \<and> others_run t0 (ce_others env)"

inductive commitment_op :: "i32 \<Rightarrow> commitment_world \<Rightarrow> commitment_world \<Rightarrow> bool" for t0 where
  co_reply: "runs_from t0 (env :: commitment_env) \<Longrightarrow> commitment_op t0 w (snd (try_handle_reply env u body w))"
| co_detection: "runs_from t0 denv \<Longrightarrow> commitment_op t0 w (snd (run_commitment_detection denv u snapshot w))"
| co_outgoing: "runs_from t0 denv \<Longrightarrow> commitment_op t0 w (check_outgoing_event_resolution denv u room content mid w)"
| co_dashboard: "commitment_op t0 w (on_commitments (\<lambda>s. snd (deactivate_sender_rule u rid now s)) w)"
| co_elsewhere: "cw_store w' = cw_store w \<Longrightarrow> commitment_op t0 w w'"

section \<open>What a statement keeps\<close>

lemma update_prompts_idents:
  "(\<And>p. prompt_ident (f p) = prompt_ident p) \<Longrightarrow> prompt_idents (snd (update_prompts q f s)) = prompt_idents s"
  by (simp add: prompt_idents_def update_prompts_def map_sql_update)

lemmas prompt_updates = claim_prompt_def expire_prompt_def set_prompt_event_id_def set_prompt_sms_sid_def

lemma statement_idents:
  "commitment_statement t0 s s' \<Longrightarrow> \<exists>rest. prompt_idents s' = prompt_idents s @ rest"
proof (induction rule: commitment_statement.induct)
  case (cs_prompt np s)
  show ?case by (auto simp: create_prompt_def Let_def prompt_idents_def)
qed (auto simp: prompt_updates update_prompts_idents prompt_ident_def create_sender_rule_def deactivate_existing_rules_def
    deactivate_sender_rule_def deactivate_rule_def store_label_embedding_def Let_def, (simp add: prompt_idents_def)+)

lemma runs_idents: "commitment_runs t0 s s' \<Longrightarrow> set (prompt_idents s) \<subseteq> set (prompt_idents s')"
proof (induction rule: rtranclp_induct)
  case (step s1 s2)
  from statement_idents [OF step.hyps(2)] step.IH show ?case by auto
qed simp

lemma recent_prompt_runs: "recent_prompt t0 pid s \<Longrightarrow> commitment_runs t0 s s' \<Longrightarrow> recent_prompt t0 pid s'"
  using runs_idents unfolding recent_prompt_def by blast

lemma recent_sender_runs: "recent_sender t0 k s \<Longrightarrow> commitment_runs t0 s s' \<Longrightarrow> recent_sender t0 k s'"
  using runs_idents unfolding recent_sender_def by blast

section \<open>Operations are runs of statements\<close>

lemma commitment_run: "commitment_statement t0 s s' \<Longrightarrow> commitment_runs t0 s s'"
  by (rule r_into_rtranclp)

lemma then_statement: "commitment_runs t0 s s' \<Longrightarrow> commitment_statement t0 s' s'' \<Longrightarrow> commitment_runs t0 s s''"
  by (rule rtranclp.rtrancl_into_rtrancl)

lemma then_runs: "commitment_runs t0 s s' \<Longrightarrow> commitment_runs t0 s' s'' \<Longrightarrow> commitment_runs t0 s s''"
  by (rule rtranclp_trans)

abbreviation w_runs :: "i32 \<Rightarrow> commitment_world \<Rightarrow> commitment_world \<Rightarrow> bool" where
  "w_runs t0 w w' \<equiv> commitment_runs t0 (cw_store w) (cw_store w')"

lemma others_run: "runs_from t0 env \<Longrightarrow> w_runs t0 w (ce_others env k w)"
  by (simp add: runs_from_def others_run_def)

lemma store_kept [simp]:
  "cw_store (link_message u eid mid lt now w) = cw_store w" "cw_store (add_trace e w) = cw_store w"
  "cw_store (link_opt u eid omid lt now w) = cw_store w" "cw_store (persist_envelope env omid pr envelope w) = cw_store w"
  "cw_store (snd (complete_event env u omid eid w)) = cw_store w"
  "cw_store (on_commitments f w) = f (cw_store w)"
  by (auto simp: link_message_def add_trace_def link_opt_def persist_envelope_def complete_event_def on_commitments_def
      split: prod.split option.split)

lemma try_create_store: "try_create_event env ne w = (r, w') \<Longrightarrow> cw_store w' = cw_store w"
  by (auto simp: try_create_event_def split: option.splits prod.splits)

lemma seed_runs: "runs_from t0 env \<Longrightarrow> w_runs t0 w (seed_label_embedding env p label w)"
  by (auto simp: seed_label_embedding_def Let_def others_run split: list.split sum.split option.split
      intro: then_statement [OF others_run cs_label])

lemma event_run: "commitment_runs t0 s (snd (set_prompt_event_id pid eid s))"
  by (rule commitment_run [OF cs_event])

lemma track_runs: "track_prompt env p w = (tracked, w') \<Longrightarrow> w_runs t0 w w'"
  by (auto simp: track_prompt_def event_run split: sum.splits prod.splits dest!: try_create_store)

text \<open>The prompt a reply that runs from \<open>t0\<close> on answers.\<close>

definition answerable :: "i32 \<Rightarrow> commitment_prompt \<Rightarrow> commitment_store \<Rightarrow> bool" where
  "answerable t0 p s \<longleftrightarrow> recent_prompt t0 (cp_id p) s \<and> recent_sender t0 (cp_user_id p, cp_platform p, cp_sender_key p) s"

lemma answerable_runs: "answerable t0 p s \<Longrightarrow> commitment_runs t0 s s' \<Longrightarrow> answerable t0 p s'"
  using recent_prompt_runs recent_sender_runs unfolding answerable_def by blast

lemma reply_window: "runs_from t0 env \<Longrightarrow> t0 - REPLY_MATCH_WINDOW_SECS \<le> wrap_i32 (ce_now env - REPLY_MATCH_WINDOW_SECS)"
  by (auto simp: runs_from_def wrap_i32_range REPLY_MATCH_WINDOW_SECS_def in_i32_def i32_min_def i32_max_def)

lemma order_desc_head: "order_desc key rows = r # rs \<Longrightarrow> r \<in> set rows"
  by (metis list.set_intros(1) order_desc_def set_rev set_sort)

lemma find_latest_SomeD:
  "find_latest_unresolved_for_user u now s = Some p \<Longrightarrow>
     p \<in> set (cm_prompts s) \<and> cp_user_id p = u \<and> cp_resolved_at p = None \<and>
     wrap_i32 (now - REPLY_MATCH_WINDOW_SECS) \<le> cp_sent_at p"
  by (auto simp: find_latest_unresolved_for_user_def split: list.splits dest!: order_desc_head)

lemma ident_of_prompt:
  "p \<in> set (cm_prompts s) \<Longrightarrow> (cp_id p, (cp_user_id p, cp_platform p, cp_sender_key p), cp_sent_at p) \<in> set (prompt_idents s)"
  by (force simp: prompt_idents_def prompt_ident_def)

lemma recent_answerable: "p \<in> set (cm_prompts s) \<Longrightarrow> t0 - REPLY_MATCH_WINDOW_SECS \<le> cp_sent_at p \<Longrightarrow> answerable t0 p s"
  using ident_of_prompt [of p s] unfolding answerable_def recent_prompt_def recent_sender_def by blast

lemma found_answerable:
  "runs_from t0 env \<Longrightarrow> find_latest_unresolved_for_user u (ce_now env) s = Some p \<Longrightarrow> answerable t0 p s"
  by (meson find_latest_SomeD order_trans recent_answerable reply_window)

lemma claim_runs:
  "answerable t0 p (cw_store w) \<Longrightarrow> claim_or_log_duplicate now p reply w = (granted, w') \<Longrightarrow> w_runs t0 w w'"
  by (auto simp: claim_or_log_duplicate_def answerable_def split: prod.splits
      dest: cs_claim [where label = "reply_label reply" and now = now] intro!: commitment_run)

text \<open>The rule of a sender: the old ones are deactivated and the new one is created.\<close>

lemma rule_runs:
  assumes "answerable t0 p s" "nsr_user_id nr = cp_user_id p" "nsr_platform nr = cp_platform p"
    "nsr_sender_key nr = cp_sender_key p"
  shows "commitment_runs t0 s
    (snd (create_sender_rule nr (snd (deactivate_existing_rules (cp_user_id p) (cp_platform p) (cp_sender_key p) now s))))"
proof -
  let ?s = "snd (deactivate_existing_rules (cp_user_id p) (cp_platform p) (cp_sender_key p) now s)"
  have run: "commitment_runs t0 s ?s" by (rule commitment_run [OF cs_deactivate])
  with assms have "recent_sender t0 (nsr_user_id nr, nsr_platform nr, nsr_sender_key nr) ?s"
    by (metis answerable_def answerable_runs)
  from then_statement [OF run cs_rule [OF this]] show ?thesis .
qed

lemma applied_runs:
  assumes env: "runs_from t0 env" and claim: "claim_or_log_duplicate (ce_now env) p reply w = (granted, w1)"
    and p: "answerable t0 p (cw_store w1)" and run: "apply_reply env reply p w = (answer, w')"
  shows "w_runs t0 w1 w'"
proof (cases granted)
  case False
  with claim run show ?thesis
    by (cases reply) (auto simp: apply_track_def apply_always_def apply_mute_def apply_wrong_def)
next
  case True
  obtain tracked w2 where track: "track_prompt env p w1 = (tracked, w2)" by fastforce
  note w2 = track_runs [OF track]
  note seed = seed_runs [OF env]
  note rule = rule_runs [OF answerable_runs [OF p w2]]
  show ?thesis
  proof (cases reply)
    case ReplyTrack
    with claim True track run then_runs [OF w2 seed] w2 show ?thesis by (auto simp: apply_track_def split: if_splits bool.splits)
  next
    case ReplyAlways
    with claim True track run show ?thesis
      by (auto simp: apply_always_def intro!: then_runs [OF _ seed] then_runs [OF w2] rule)
  next
    case ReplyMute
    with claim True run show ?thesis by (auto simp: apply_mute_def upsert_sender_rule_def intro!: rule_runs [OF p])
  next
    case ReplyWrong
    with claim True run seed show ?thesis by (auto simp: apply_wrong_def)
  qed
qed

lemma apply_runs:
  assumes env: "runs_from t0 env" and p: "answerable t0 p (cw_store w)" and run: "apply_reply env reply p w = (answer, w')"
  shows "w_runs t0 w w'"
proof -
  obtain granted w1 where claim: "claim_or_log_duplicate (ce_now env) p reply w = (granted, w1)" by fastforce
  note w1 = claim_runs [OF p claim]
  from then_runs [OF w1 applied_runs [OF env claim answerable_runs [OF p w1] run]] show ?thesis .
qed

lemma reply_runs: "runs_from t0 env \<Longrightarrow> w_runs t0 w (snd (try_handle_reply env u body w))"
proof (cases "parse_reply body")
  case (Some reply)
  assume env: "runs_from t0 env"
  show ?thesis
  proof (cases "find_latest_unresolved_for_user u (ce_now env) (cw_store w)")
    case (Some p)
    note others = others_run [OF env, of w 0]
    obtain answer w' where run: "apply_reply env reply p (ce_others env 0 w) = (answer, w')" by fastforce
    from then_runs [OF others apply_runs [OF env answerable_runs [OF found_answerable [OF env Some] others] run]]
    show ?thesis using Some run \<open>parse_reply body = Some reply\<close> by (simp add: try_handle_reply_def)
  qed (simp add: try_handle_reply_def Some)
qed (simp add: try_handle_reply_def)

section \<open>Detections are runs of statements\<close>

lemma create_prompt_run: "t0 \<le> ncp_sent_at np \<Longrightarrow> create_prompt np s = (r, s') \<Longrightarrow> commitment_runs t0 s s'"
  using commitment_run [OF cs_prompt, of t0 np s] by simp

lemma created_prompt:
  "create_prompt np s = (Some p, s') \<Longrightarrow> p \<in> set (cm_prompts s') \<and> cp_sent_at p = ncp_sent_at np"
  by (auto simp: create_prompt_def Let_def split: if_splits)

lemma send_runs:
  assumes env: "runs_from t0 env"
    and run: "try_send_commitment_prompt env u mid pl key name descr due remind w = (r, w')"
  shows "w_runs t0 w w'"
proof (cases mid)
  case (Some m)
  let ?np = "new_prompt u m pl key name descr due remind (ce_now env)"
  obtain created s where create: "create_prompt ?np (cw_store w) = (created, s)" by fastforce
  have sent: "t0 \<le> ncp_sent_at ?np" using env by (simp add: runs_from_def new_prompt_def)
  note s = create_prompt_run [OF sent create]
  show ?thesis
  proof (cases created)
    case None
    with Some create run s show ?thesis by (auto simp: try_send_commitment_prompt_def)
  next
    case (Some p)
    have "p \<in> set (cm_prompts s)" "t0 - REPLY_MATCH_WINDOW_SECS \<le> cp_sent_at p"
      using created_prompt [of ?np "cw_store w" p s] create Some sent by (auto simp: REPLY_MATCH_WINDOW_SECS_def)
    then have p: "answerable t0 p s" by (rule recent_answerable)
    have others: "commitment_runs t0 (cw_store w) (cw_store (ce_others env k v))" if "cw_store v = s" for k v
      using then_runs [OF s] others_run [OF env, of v k] that by simp
    have sid: "commitment_runs t0 (cw_store w) (snd (set_prompt_sms_sid pid sid (cw_store (ce_others env k v))))"
      if "cw_store v = s" for k v pid sid
      by (rule then_statement [OF others [OF that] cs_sid])
    have expire: "commitment_runs t0 (cw_store w) (snd (expire_prompt (cp_id p) now (cw_store (ce_others env k v))))"
      if "cw_store v = s" for k v now
    proof -
      have "recent_prompt t0 (cp_id p) (cw_store (ce_others env k v))"
        using answerable_runs [OF p] others_run [OF env, of v k] that by (simp add: answerable_def)
      from then_statement [OF others [OF that] cs_expire [OF this]] show ?thesis .
    qed
    from Some \<open>mid = Some m\<close> create run s sid expire show ?thesis
      by (auto simp: try_send_commitment_prompt_def Let_def split: sum.splits bool.splits)
  qed
qed (use run in \<open>simp add: try_send_commitment_prompt_def\<close>)

lemma recall_runs: "runs_from t0 env \<Longrightarrow> recall_labels env u snapshot w = (r, w') \<Longrightarrow> w_runs t0 w w'"
  by (auto simp: recall_labels_def Let_def others_run split: option.splits if_splits sum.splits)

lemma prompt_runs:
  assumes env: "runs_from t0 env"
    and run: "prompt_or_fall_through env u snapshot key name pl mid descr due remind w = (r, w')"
  shows "w_runs t0 w w'"
proof (cases "find_unresolved_for_sender u pl key (cw_store w)")
  case None
  obtain recalled w1 where recall: "recall_labels env u snapshot w = (recalled, w1)" by fastforce
  obtain sent w2 where send: "try_send_commitment_prompt env u mid pl key name descr due remind w1 = (sent, w2)" by fastforce
  note w1 = recall_runs [OF env recall]
  note w2 = then_runs [OF w1 send_runs [OF env send]]
  from None recall send run w1 w2 show ?thesis
    by (auto simp: prompt_or_fall_through_def split: sum.splits bool.splits prompt_send_outcome.splits)
qed (use run in \<open>simp add: prompt_or_fall_through_def\<close>)

lemma auto_create_store: "auto_create env u mid descr due remind w = (r, w') \<Longrightarrow> cw_store w' = cw_store w"
  by (auto simp: auto_create_def split: prod.splits sum.splits option.splits dest: try_create_store)

lemma new_commitment_runs:
  assumes env: "runs_from t0 env"
    and run: "handle_new_commitment env u snapshot name pl mid descr due remind w = (r, w')"
  shows "w_runs t0 w w'"
proof (cases "get_str ''sender_key'' snapshot")
  case None
  with run show ?thesis by (auto simp: handle_new_commitment_def dest: auto_create_store)
next
  case (Some key)
  obtain p w1 where prompt: "prompt_or_fall_through env u snapshot key name pl mid descr due remind w = (p, w1)" by fastforce
  from Some prompt run prompt_runs [OF env prompt] show ?thesis
    by (auto simp: handle_new_commitment_def Let_def split: option.splits if_splits dest!: auto_create_store)
qed

lemma update_deadline_runs: "runs_from t0 env \<Longrightarrow> w_runs t0 w (snd (update_deadline env u name mid descr due remind eid w))"
  by (auto simp: update_deadline_def Let_def split: prod.split sum.split option.split
      intro: others_run [THEN then_runs [rotated]] simp del: not_None_eq)

lemma append_store: "cw_store (snd (append_to_tracked env u mid descr eid w)) = cw_store w"
  by (auto simp: append_to_tracked_def split: prod.split sum.split)

lemma on_match_cases:
  "P w \<Longrightarrow> (\<And>eid. eid \<in> set ids \<Longrightarrow> P (snd (f eid w))) \<Longrightarrow> P (snd (on_match ids match_id reason f w))"
  by (auto simp: on_match_def split: option.split)

lemma route_commitment_runs:
  "runs_from t0 env \<Longrightarrow> w_runs t0 w (snd (route_commitment env m ids type descr match_id deadline w))"
  using new_commitment_runs [of t0 env, OF _ surjective_pairing]
  by (auto simp: route_commitment_def Let_def append_store update_deadline_runs split: option.split
      intro!: on_match_cases [where P = "\<lambda>v. w_runs t0 w v"])

lemma route_arguments_runs:
  assumes "runs_from t0 env" "route_arguments env m ids args w = (r, w')"
  shows "w_runs t0 w w'"
proof -
  have routed: "route_commitment env m ids type descr match_id deadline w = (routing, w') \<Longrightarrow> w_runs t0 w w'"
    for type descr match_id deadline routing
    by (metis assms(1) route_commitment_runs snd_conv)
  show ?thesis
  proof (cases "de_parse env args")
    case None
    with assms(2) show ?thesis by (simp add: route_arguments_def)
  next
    case (Some parsed)
    with assms(2) show ?thesis
      by (auto simp: route_arguments_def Let_def dest: routed split: if_split_asm prod.split_asm)
  qed
qed

lemma route_calls_runs: "runs_from t0 env \<Longrightarrow> w_runs t0 w (snd (route_calls env m ids routing calls w))"
proof (induction calls arbitrary: routing w)
  case (Cons call calls)
  obtain name args where call: "call = (name, args)" by fastforce
  obtain again routing' w1 where
    routed: "route_arguments env m ids (case args of None \<Rightarrow> ''{}'' | Some a \<Rightarrow> a) w = ((again, routing'), w1)"
    by (metis surj_pair)
  note w1 = route_arguments_runs [OF Cons.prems routed]
  note rest = then_runs [OF w1 Cons.IH [OF Cons.prems]]
  show ?case
  proof (cases "name = Some ''commitment_result''")
    case True
    with call routed w1 rest show ?thesis by (cases again) simp_all
  next
    case False
    with call Cons.IH [OF Cons.prems] show ?thesis by simp
  qed
qed simp

lemma route_answer_runs: "runs_from t0 env \<Longrightarrow> route_answer env m ids choices w = (r, w') \<Longrightarrow> w_runs t0 w w'"
  by (auto simp: route_answer_def Let_def split: list.split_asm option.split_asm prod.split_asm
      dest!: arg_cong [where f = snd] simp del: route_calls.simps) (metis route_calls_runs snd_conv)+

lemma relevant_runs:
  assumes env: "runs_from t0 env"
  shows "w_runs t0 w (snd (detect_relevant env m room content gate_raw w))"
  using others_run [OF env, of w 3] then_runs [OF others_run [OF env, of w 3] route_answer_runs [OF env]]
  by (auto simp: detect_relevant_def Let_def split: sum.split prod.split)

lemma detection_runs:
  assumes env: "runs_from t0 env"
  shows "w_runs t0 w (snd (run_commitment_detection env u snapshot w))"
proof -
  have relevant: "w_runs t0 w (snd (detect_relevant env m room content gate_raw
      (persist_envelope env mid p e (ce_others env 2 w))))" for m room content gate_raw mid p e
  proof -
    let ?v = "persist_envelope env mid p e (ce_others env 2 w)"
    have "w_runs t0 (ce_others env 2 w) (snd (detect_relevant env m room content gate_raw ?v))"
      using relevant_runs [OF env, of ?v] by simp
    then show ?thesis by (rule then_runs [OF others_run [OF env]])
  qed
  show ?thesis
    using relevant others_run [OF env, of w 2]
    by (auto simp: run_commitment_detection_def Let_def split: sum.split bool.split prod.split)
qed

lemma resolve_store: "cw_store (resolve_call env u mid ids call w) = cw_store w"
proof -
  have "cw_store (fold (resolve_event env u mid ids) eids w) = cw_store w" for eids
    by (induction eids arbitrary: w) (simp_all add: resolve_event_def)
  then show ?thesis by (cases call) (simp split: option.split)
qed

lemma outgoing_runs: "runs_from t0 env \<Longrightarrow> w_runs t0 w (check_outgoing_event_resolution env u room content mid w)"
proof -
  have "cw_store (fold (resolve_call env u mid ids) calls v) = cw_store v" for ids calls v
    by (induction calls arbitrary: v) (simp_all add: resolve_store)
  then show "runs_from t0 env \<Longrightarrow> ?thesis"
    by (auto simp: check_outgoing_event_resolution_def Let_def others_run
        split: sum.split bool.split list.split option.split)
qed

lemma commitment_op_runs: "commitment_op t0 w w' \<Longrightarrow> w_runs t0 w w'"
proof (induction rule: commitment_op.induct)
  case (co_dashboard u rid now w)
  then show ?case by (simp add: commitment_run [OF cs_dashboard])
qed (simp_all add: reply_runs detection_runs outgoing_runs)

lemma commitment_ops_run: "(commitment_op t0)\<^sup>*\<^sup>* w w' \<Longrightarrow> w_runs t0 w w'"
  by (induction rule: rtranclp_induct) (auto intro: then_runs commitment_op_runs)

end
