(* ===== verification/CommitmentProperties.thy ===== *)
theory CommitmentProperties
  imports CommitmentRuns
begin

text \<open>
  The properties of commitments: at most one prompt is open for a sender; a reply is applied once, and
  decides what happens to the next commitment of the sender; a prompt nobody answered in time silences its sender.
\<close>

section \<open>Open prompts\<close>

abbreviation open_prompts :: "i32 \<Rightarrow> string \<Rightarrow> string \<Rightarrow> commitment_store \<Rightarrow> nat" where
  "open_prompts u pl key s \<equiv> sql_count (unresolved_of_sender u pl key) (cm_prompts s)"

definition one_open_per_sender :: "commitment_store \<Rightarrow> bool" where
  "one_open_per_sender s \<longleftrightarrow> (\<forall>u pl key. open_prompts u pl key s \<le> 1)"

text \<open>An update that neither opens a prompt nor moves it to another sender.\<close>

definition keeps_closed :: "(commitment_prompt \<Rightarrow> commitment_prompt) \<Rightarrow> bool" where
  "keeps_closed f \<longleftrightarrow> (\<forall>p. prompt_ident (f p) = prompt_ident p \<and> (cp_resolved_at (f p) = None \<longrightarrow> cp_resolved_at p = None))"

lemma keeps_closed_sender:
  "keeps_closed f \<Longrightarrow> unresolved_of_sender u pl key (f p) \<Longrightarrow> unresolved_of_sender u pl key p"
  by (auto simp: keeps_closed_def unresolved_of_sender_def prompt_ident_def)

lemma sql_count_update_le:
  assumes "\<And>r. q (f r) \<Longrightarrow> q r"
  shows "sql_count q (sql_update p f t) \<le> sql_count q t"
proof (induction t)
  case (Cons r t)
  have "q (if p r then f r else r) \<longrightarrow> q r" using assms by simp
  with Cons show ?case by (simp add: sql_count_def sql_update_def del: if_split)
qed (simp add: sql_count_def sql_update_def)

lemma prompt_update_cases:
  assumes "commitment_statement t0 s s'"
  obtains (created) p where "cm_prompts s' = cm_prompts s @ [p]" "t0 \<le> cp_sent_at p" "cp_id p = cm_next_prompt_id s"
      "cm_next_prompt_id s' = cm_next_prompt_id s + 1" "cm_rules s' = cm_rules s" "cp_resolved_at p = None"
      "open_prompts (cp_user_id p) (cp_platform p) (cp_sender_key p) s = 0"
  | (updated) q f where "cm_prompts s' = sql_update q f (cm_prompts s)" "keeps_closed f"
      "cm_next_prompt_id s \<le> cm_next_prompt_id s'" "cm_rules s' = cm_rules s"
      "\<And>p. q p \<Longrightarrow> cp_resolved_at (f p) \<noteq> cp_resolved_at p \<Longrightarrow> recent_prompt t0 (cp_id p) s"
  | (ruled) "cm_prompts s' = cm_prompts s" "cm_next_prompt_id s' = cm_next_prompt_id s"
      "\<And>r. r \<in> set (cm_rules s') \<Longrightarrow> sr_active r \<Longrightarrow> r \<in> set (cm_rules s) \<or>
           recent_sender t0 (sr_user_id r, sr_platform r, sr_sender_key r) s"
proof -
  have update: thesis if "s' = snd (update_prompts q f s)" "keeps_closed f"
    "\<And>p. q p \<Longrightarrow> cp_resolved_at (f p) \<noteq> cp_resolved_at p \<Longrightarrow> recent_prompt t0 (cp_id p) s" for q f
    using that by (intro updated [of q f]) (simp_all add: update_prompts_def)
  from assms show ?thesis
  proof cases
    case (cs_prompt np)
    show ?thesis
    proof (cases "list_ex (unresolved_of_sender (ncp_user_id np) (ncp_platform np) (ncp_sender_key np)) (cm_prompts s)")
      case True
      with cs_prompt show ?thesis
        by (intro updated [where q = "\<lambda>p. False" and f = "\<lambda>p. p"])
           (simp_all add: create_prompt_def Let_def sql_update_def keeps_closed_def)
    next
      case False
      with cs_prompt show ?thesis
        by (intro created) (auto simp: create_prompt_def Let_def sql_count_def list_ex_iff filter_empty_conv)
    qed
  next
    case (cs_claim pid label now)
    then show ?thesis
      by (intro update [OF cs_claim(1) [unfolded claim_prompt_def]]) (auto simp: keeps_closed_def prompt_ident_def)
  next
    case (cs_expire pid now)
    then show ?thesis
      by (intro update [OF cs_expire(1) [unfolded expire_prompt_def]]) (auto simp: keeps_closed_def prompt_ident_def)
  next
    case (cs_event pid eid)
    then show ?thesis
      by (intro update [OF cs_event(1) [unfolded set_prompt_event_id_def]]) (auto simp: keeps_closed_def prompt_ident_def)
  next
    case (cs_sid pid sid)
    then show ?thesis
      by (intro update [OF cs_sid(1) [unfolded set_prompt_sms_sid_def]]) (auto simp: keeps_closed_def prompt_ident_def)
  next
    case (cs_rule nr)
    then show ?thesis by (intro ruled) (auto simp: create_sender_rule_def Let_def)
  next
    case (cs_deactivate u pl k now)
    then show ?thesis
      by (intro ruled) (auto simp: deactivate_existing_rules_def deactivated_def elim!: in_sql_updateE)
  next
    case (cs_dashboard u rid now)
    then show ?thesis
      by (intro ruled) (auto simp: deactivate_sender_rule_def deactivate_rule_def deactivated_def Let_def elim!: in_sql_updateE)
  next
    case (cs_label ne)
    then show ?thesis by (intro ruled) (auto simp: store_label_embedding_def Let_def)
  qed
qed

lemma statement_open:
  assumes "commitment_statement t0 s s'" "one_open_per_sender s" shows "one_open_per_sender s'"
  using assms(1)
proof (cases rule: prompt_update_cases)
  case (created p)
  have "open_prompts u pl key s' \<le> 1" for u pl key
  proof (cases "unresolved_of_sender u pl key p")
    case True
    then have "u = cp_user_id p" "pl = cp_platform p" "key = cp_sender_key p" by (simp_all add: unresolved_of_sender_def)
    with created(1,7) show ?thesis by (simp add: sql_count_def)
  next
    case False
    with created(1) assms(2) show ?thesis by (simp add: one_open_per_sender_def sql_count_def)
  qed
  then show ?thesis by (simp add: one_open_per_sender_def)
next
  case (updated q f)
  have "open_prompts u pl key s' \<le> open_prompts u pl key s" for u pl key
    unfolding updated(1) by (rule sql_count_update_le) (rule keeps_closed_sender [OF updated(2)])
  with assms(2) show ?thesis unfolding one_open_per_sender_def by (meson order_trans)
next
  case ruled
  with assms(2) show ?thesis by (simp add: one_open_per_sender_def)
qed

lemma runs_open: "commitment_runs t0 s s' \<Longrightarrow> one_open_per_sender s \<Longrightarrow> one_open_per_sender s'"
  by (induction rule: rtranclp_induct) (auto intro: statement_open)

text \<open>
  Claim C17. Whatever sequence of replies, detections, requests of the dashboard and interleaved statements of
  other workers runs, no sender of a user ever has two unresolved prompts.
\<close>

theorem one_open_prompt_per_sender:
  assumes "(commitment_op t0)\<^sup>*\<^sup>* w w'"
    and "\<forall>u pl key. sql_count (unresolved_of_sender u pl key) (cm_prompts (cw_store w)) \<le> 1"
  shows "sql_count (unresolved_of_sender u pl key) (cm_prompts (cw_store w')) \<le> 1"
  using runs_open [OF commitment_ops_run [OF assms(1)]] assms(2) by (simp add: one_open_per_sender_def)

section \<open>Numbers of prompts\<close>

text \<open>Every prompt has its number, which comes from the sequence.\<close>

definition prompts_numbered :: "commitment_store \<Rightarrow> bool" where
  "prompts_numbered s \<longleftrightarrow> distinct (map cp_id (cm_prompts s)) \<and> (\<forall>p \<in> set (cm_prompts s). cp_id p < cm_next_prompt_id s)"

lemma keeps_closed_id: "keeps_closed f \<Longrightarrow> cp_id (f p) = cp_id p"
  by (simp add: keeps_closed_def prompt_ident_def)

lemma statement_numbered:
  assumes "commitment_statement t0 s s'" "prompts_numbered s" shows "prompts_numbered s'"
  using assms(1)
proof (cases rule: prompt_update_cases)
  case (created p)
  with assms(2) show ?thesis by (fastforce simp: prompts_numbered_def)
next
  case (updated q f)
  have "map cp_id (cm_prompts s') = map cp_id (cm_prompts s)"
    unfolding updated(1) by (rule map_sql_update) (rule keeps_closed_id [OF updated(2)])
  moreover have "cp_id p < cm_next_prompt_id s'" if "p \<in> set (cm_prompts s')" for p
    using that assms(2) updated(3) unfolding updated(1) prompts_numbered_def
    by (fastforce simp: keeps_closed_id [OF updated(2)] elim!: in_sql_updateE)
  ultimately show ?thesis using assms(2) by (simp add: prompts_numbered_def)
qed (use assms(2) in \<open>simp add: prompts_numbered_def\<close>)

lemma runs_numbered: "commitment_runs t0 s s' \<Longrightarrow> prompts_numbered s \<Longrightarrow> prompts_numbered s'"
  by (induction rule: rtranclp_induct) (auto intro: statement_numbered)

section \<open>A reply is applied once\<close>

definition settled :: "i32 \<Rightarrow> commitment_store \<Rightarrow> bool" where
  "settled pid s \<longleftrightarrow> pid < cm_next_prompt_id s \<and> (\<forall>p \<in> set (cm_prompts s). cp_id p = pid \<longrightarrow> cp_resolved_at p \<noteq> None)"

lemma statement_settled:
  assumes "commitment_statement t0 s s'" "settled pid s" shows "settled pid s'"
  using assms(1)
proof (cases rule: prompt_update_cases)
  case (created p)
  with assms(2) show ?thesis by (auto simp: settled_def)
next
  case (updated q f)
  have "cp_resolved_at p \<noteq> None" if p: "p \<in> set (cm_prompts s')" "cp_id p = pid" for p
    using p(1) unfolding updated(1)
  proof (cases rule: in_sql_updateE)
    case unchanged
    with p(2) assms(2) show ?thesis by (simp add: settled_def)
  next
    case (changed r)
    with p(2) keeps_closed_id [OF updated(2)] assms(2) have "cp_resolved_at r \<noteq> None" by (simp add: settled_def)
    with changed(3) updated(2) show ?thesis by (auto simp: keeps_closed_def)
  qed
  with assms(2) updated(3) show ?thesis by (auto simp: settled_def)
qed (use assms(2) in \<open>simp add: settled_def\<close>)

lemma runs_settled: "commitment_runs t0 s s' \<Longrightarrow> settled pid s \<Longrightarrow> settled pid s'"
  by (induction rule: rtranclp_induct) (auto intro: statement_settled)

text \<open>The claim of a prompt is taken by one caller.\<close>

definition prompt_claim_of :: "i32 \<Rightarrow> string \<times> i32 \<Rightarrow> commitment_store \<Rightarrow> bool \<times> commitment_store" where
  "prompt_claim_of pid a s = (fst (claim_prompt pid (fst a) (snd a) s) = 1, snd (claim_prompt pid (fst a) (snd a) s))"

definition prompt_open :: "i32 \<Rightarrow> commitment_store \<Rightarrow> bool" where
  "prompt_open pid s \<longleftrightarrow> (\<exists>p \<in> set (cm_prompts s). cp_id p = pid \<and> cp_resolved_at p = None)"

lemma claim_closes: "\<not> prompt_open pid (snd (claim_prompt pid label now s))"
proof
  assume "prompt_open pid (snd (claim_prompt pid label now s))"
  then obtain p where p: "p \<in> set (cm_prompts (snd (claim_prompt pid label now s)))" "cp_id p = pid" "cp_resolved_at p = None"
    by (auto simp: prompt_open_def)
  from p(1) have "p \<in> set (sql_update (\<lambda>p. cp_id p = pid \<and> cp_resolved_at p = None)
      (\<lambda>p. p\<lparr>cp_user_label := Some label, cp_labeled_at := Some now, cp_resolved_at := Some now\<rparr>) (cm_prompts s))"
    by (simp add: claim_prompt_def update_prompts_def)
  then show False
  proof (cases rule: in_sql_updateE)
    case unchanged
    with p show False by simp
  next
    case (changed q)
    from p(3) show False unfolding changed(3) by simp
  qed
qed

lemma claim_closed:
  assumes "\<not> prompt_open pid s" shows "claim_prompt pid label now s = (0, s)"
proof -
  let ?q = "\<lambda>p. cp_id p = pid \<and> cp_resolved_at p = None"
  have none: "\<forall>p \<in> set (cm_prompts s). \<not> ?q p" using assms by (simp add: prompt_open_def)
  then have "sql_count ?q (cm_prompts s) = 0" by (simp add: sql_count_def filter_empty_conv)
  then show ?thesis by (simp add: claim_prompt_def update_prompts_def sql_update_none [OF none])
qed

interpretation prompt_claim: one_shot "prompt_claim_of pid" "prompt_open pid" "\<lambda>s. True" for pid
proof unfold_locales
  fix s a assume "fst (prompt_claim_of pid a s)"
  then have "prompt_open pid s"
    using claim_closed [of pid s "fst a" "snd a"] by (cases "prompt_open pid s") (simp_all add: prompt_claim_of_def)
  then show "prompt_open pid s \<and> \<not> prompt_open pid (snd (prompt_claim_of pid a s))"
    by (simp add: prompt_claim_of_def claim_closes)
qed (simp_all add: prompt_claim_of_def claim_closes)

lemma settled_closed: "settled pid s \<Longrightarrow> \<not> prompt_open pid s"
  by (auto simp: settled_def prompt_open_def)

lemma claim_settles: "pid < cm_next_prompt_id s \<Longrightarrow> settled pid (snd (claim_prompt pid label now s))"
  using claim_closes [of pid label now s]
  by (auto simp: settled_def prompt_open_def) (simp add: claim_prompt_def update_prompts_def)

lemma refused_reply:
  assumes "\<not> prompt_open (cp_id p) (cw_store w)"
  shows "apply_reply env reply p w = (ALREADY_PROCESSED, w)"
proof -
  have "claim_or_log_duplicate now p reply w = (False, w)" for now
    using claim_closed [OF assms] by (simp add: claim_or_log_duplicate_def)
  then show ?thesis by (cases reply) (simp_all add: apply_track_def apply_always_def apply_mute_def apply_wrong_def)
qed

text \<open>Of all the replies that claim a prompt, one is applied.\<close>

lemma prompt_claimed_once: "fst (grants (prompt_claim_of pid) replies s) \<le> 1"
  by (rule prompt_claim.at_most_once) simp

text \<open>
  The claim comes before the event: when the insertion of the event fails, the user is asked to try again later, and
  every later reply is refused.
\<close>

lemma failed_track_is_lost:
  assumes "ce_event_error env = Some e" "fst (claim_prompt (cp_id p) (reply_label ReplyTrack) (ce_now env) (cw_store w)) = 1"
    and "apply_track env p w = (answer, w')"
  shows "answer = ''Sorry, couldn't track that right now. Try again later.'' \<and>
    apply_reply env' reply p w' = (ALREADY_PROCESSED, w')"
proof -
  have w': "cw_store w' = snd (claim_prompt (cp_id p) (reply_label ReplyTrack) (ce_now env) (cw_store w))"
    and answer: "answer = ''Sorry, couldn't track that right now. Try again later.''"
    using assms by (auto simp: apply_track_def claim_or_log_duplicate_def track_prompt_def try_create_event_def split: prod.splits)
  have "\<not> prompt_open (cp_id p) (cw_store w')" unfolding w' by (rule claim_closes)
  with answer refused_reply show ?thesis by blast
qed

text \<open>A signal of completion is applied whatever the rule of its sender is.\<close>

lemma muted_sender_completes:
  "eid \<in> set ids \<Longrightarrow> route_commitment env m ids ''completion_signal'' descr (Some eid) deadline w =
     complete_event env (dm_user_id m) (dm_message_id m) eid w"
  by (simp add: route_commitment_def on_match_def Let_def)

lemma applied_settles:
  assumes env: "runs_from t0 env" and wf: "prompts_numbered (cw_store w)"
    and found: "find_latest_unresolved_for_user u (ce_now env) (cw_store w) = Some p"
    and run: "apply_reply env reply p w = (answer, w')"
  shows "settled (cp_id p) (cw_store w')"
proof -
  obtain granted w1 where claim: "claim_or_log_duplicate (ce_now env) p reply w = (granted, w1)" by fastforce
  have "cp_id p < cm_next_prompt_id (cw_store w)"
    using find_latest_SomeD [OF found] wf by (simp add: prompts_numbered_def)
  from claim_settles [OF this, of "reply_label reply" "ce_now env"] claim have settled: "settled (cp_id p) (cw_store w1)"
    by (auto simp: claim_or_log_duplicate_def split: prod.splits)
  note p = found_answerable [OF env found]
  from runs_settled [OF applied_runs [OF env claim answerable_runs [OF p claim_runs [OF p claim]] run] settled]
  show ?thesis .
qed

text \<open>
  Claim C18. A prompt is answered once: after a reply was applied to the prompt it found, and whatever ran since then,
  another reply that had read the same prompt is told that it was handled and changes nothing.
\<close>

theorem reply_applied_once:
  assumes "runs_from t0 (env :: commitment_env)" "prompts_numbered (cw_store w)"
    and "find_latest_unresolved_for_user u (ce_now env) (cw_store w) = Some p"
    and "apply_reply env reply p w = (answer, w1)"
    and "(commitment_op t0)\<^sup>*\<^sup>* w1 w2"
  shows "apply_reply (env' :: commitment_env) reply' p w2 = (ALREADY_PROCESSED, w2)"
  by (rule refused_reply [OF settled_closed [OF runs_settled [OF commitment_ops_run [OF assms(5)]
        applied_settles [OF assms(1,2,3,4)]]]])

section \<open>A prompt that nobody answered\<close>

text \<open>
  An unresolved prompt of a sender without rule, when no prompt of the sender is recent enough for a reply.
\<close>

definition silenced :: "i32 \<Rightarrow> i32 \<Rightarrow> i32 \<times> string \<times> string \<Rightarrow> commitment_store \<Rightarrow> bool" where
  "silenced t0 pid k s \<longleftrightarrow>
     pid < cm_next_prompt_id s \<and> \<not> recent_prompt t0 pid s \<and> \<not> recent_sender t0 k s \<and>
     (\<exists>p \<in> set (cm_prompts s). cp_id p = pid \<and> (cp_user_id p, cp_platform p, cp_sender_key p) = k \<and> cp_resolved_at p = None) \<and>
     (\<forall>r \<in> set (cm_rules s). (sr_user_id r, sr_platform r, sr_sender_key r) = k \<longrightarrow> \<not> sr_active r)"

lemma recent_same_idents:
  "prompt_idents s' = prompt_idents s \<Longrightarrow>
     recent_prompt t0 pid s' = recent_prompt t0 pid s \<and> recent_sender t0 k s' = recent_sender t0 k s"
  by (simp add: recent_prompt_def recent_sender_def)

lemma keeps_closed_ident: "keeps_closed f \<Longrightarrow> prompt_ident (f p) = prompt_ident p"
  by (simp add: keeps_closed_def)

lemma statement_silenced:
  assumes "commitment_statement t0 s s'" "silenced t0 pid k s" shows "silenced t0 pid k s'"
  using assms(1)
proof (cases rule: prompt_update_cases)
  case (created p)
  obtain q where q: "q \<in> set (cm_prompts s)" "cp_id q = pid" "(cp_user_id q, cp_platform q, cp_sender_key q) = k"
    "cp_resolved_at q = None" using assms(2) by (auto simp: silenced_def)
  have "(cp_user_id p, cp_platform p, cp_sender_key p) \<noteq> k"
  proof
    assume "(cp_user_id p, cp_platform p, cp_sender_key p) = k"
    with q have "unresolved_of_sender (cp_user_id p) (cp_platform p) (cp_sender_key p) q"
      by (auto simp: unresolved_of_sender_def)
    with q(1) created(7) show False by (auto simp: sql_count_def filter_empty_conv)
  qed
  moreover have "cp_id p \<noteq> pid" using created(3) assms(2) by (simp add: silenced_def)
  moreover have idents: "prompt_idents s' = prompt_idents s @ [prompt_ident p]" by (simp add: prompt_idents_def created(1))
  ultimately have "\<not> recent_prompt t0 pid s'" "\<not> recent_sender t0 k s'"
    using assms(2) by (auto simp: silenced_def recent_prompt_def recent_sender_def prompt_ident_def)
  with assms(2) created(1,4,5) show ?thesis by (auto simp: silenced_def)
next
  case (updated q f)
  have "prompt_idents s' = prompt_idents s"
    unfolding prompt_idents_def updated(1) by (rule map_sql_update) (rule keeps_closed_ident [OF updated(2)])
  note same = recent_same_idents [OF this]
  obtain p where p: "p \<in> set (cm_prompts s)" "cp_id p = pid" "(cp_user_id p, cp_platform p, cp_sender_key p) = k"
    "cp_resolved_at p = None" using assms(2) by (auto simp: silenced_def)
  let ?p = "if q p then f p else p"
  have "?p \<in> set (cm_prompts s')" using p(1) unfolding updated(1) by (simp add: set_sql_update)
  moreover have "prompt_ident ?p = prompt_ident p" by (simp add: keeps_closed_ident [OF updated(2)])
  moreover have "cp_resolved_at ?p = None"
    using updated(5) [of p] p(2,4) assms(2) by (auto simp: silenced_def simp del: not_None_eq)
  ultimately have "\<exists>p \<in> set (cm_prompts s'). cp_id p = pid \<and> (cp_user_id p, cp_platform p, cp_sender_key p) = k
      \<and> cp_resolved_at p = None"
    using p by (intro bexI [of _ ?p]) (simp_all add: prompt_ident_def)
  with same assms(2) updated(3,4) show ?thesis by (simp add: silenced_def)
next
  case ruled
  then have "prompt_idents s' = prompt_idents s" by (simp add: prompt_idents_def)
  note same = recent_same_idents [OF this]
  have "\<not> sr_active r" if "r \<in> set (cm_rules s')" "(sr_user_id r, sr_platform r, sr_sender_key r) = k" for r
    using ruled(3) [OF that(1)] that(2) assms(2) by (auto simp: silenced_def)
  with same assms(2) ruled(1,2) show ?thesis by (auto simp: silenced_def)
qed

lemma runs_silenced: "commitment_runs t0 s s' \<Longrightarrow> silenced t0 pid k s \<Longrightarrow> silenced t0 pid k s'"
  by (induction rule: rtranclp_induct) (auto intro: statement_silenced)

lemma silenced_answer:
  assumes "silenced t0 pid (u, pl, key) (cw_store w)" "one_open_per_sender (cw_store w)"
    and "get_str ''sender_key'' snapshot = Some key"
  shows "handle_new_commitment env u snapshot name pl mid descr due remind w =
    (JObj [(''action'', JStr ''skipped''), (''reason'', JStr ''duplicate_pending_prompt''),
           (''existing_prompt_id'', JInt pid)], w)"
proof -
  let ?s = "cw_store w" and ?q = "unresolved_of_sender u pl key"
  obtain p where p: "p \<in> set (cm_prompts ?s)" "cp_id p = pid" "?q p"
    using assms(1) by (auto simp: silenced_def unresolved_of_sender_def)
  have "length (filter ?q (cm_prompts ?s)) \<le> 1"
    using assms(2) by (simp add: one_open_per_sender_def sql_count_def)
  moreover have "p \<in> set (filter ?q (cm_prompts ?s))" using p by simp
  ultimately have "sql_select ?q (cm_prompts ?s) = [p]"
    by (cases "filter ?q (cm_prompts ?s)") (auto simp: sql_select_def)
  then have "find_unresolved_for_sender u pl key ?s = Some p"
    by (simp add: find_unresolved_for_sender_def order_desc_def)
  moreover have "sql_select (rule_of_sender u pl key) (cm_rules ?s) = []"
    using assms(1) by (auto simp: silenced_def rule_of_sender_def sql_select_def filter_empty_conv)
  then have "lookup_sender_rule u pl key ?s = None" by (simp add: lookup_sender_rule_def order_desc_def)
  ultimately show ?thesis
    using assms(3) p(2) by (simp add: handle_new_commitment_def prompt_or_fall_through_def Let_def)
qed

lemma old_prompt_silences:
  assumes "prompts_numbered s" "p \<in> set (cm_prompts s)" "unresolved_of_sender u pl key p"
    and "\<forall>q \<in> set (cm_prompts s). cp_user_id q = u \<and> cp_platform q = pl \<and> cp_sender_key q = key
           \<longrightarrow> cp_sent_at q < t0 - REPLY_MATCH_WINDOW_SECS"
    and "lookup_sender_rule u pl key s = None"
  shows "silenced t0 (cp_id p) (u, pl, key) s"
proof -
  have same: "q = p" if "q \<in> set (cm_prompts s)" "cp_id q = cp_id p" for q
    using assms(1,2) that by (auto simp: prompts_numbered_def distinct_map inj_on_def)
  have "\<not> recent_prompt t0 (cp_id p) s"
    using same assms(2,3,4) by (fastforce simp: recent_prompt_def prompt_idents_def prompt_ident_def unresolved_of_sender_def)
  moreover have "\<not> recent_sender t0 (u, pl, key) s"
    using assms(4) by (fastforce simp: recent_sender_def prompt_idents_def prompt_ident_def)
  moreover have "\<not> sr_active r"
    if "r \<in> set (cm_rules s)" "(sr_user_id r, sr_platform r, sr_sender_key r) = (u, pl, key)" for r
  proof -
    have "order_desc sr_created_at (sql_select (rule_of_sender u pl key) (cm_rules s)) = []"
      using assms(5) by (simp add: lookup_sender_rule_def split: list.splits)
    then have "sql_select (rule_of_sender u pl key) (cm_rules s) = []"
      by (metis order_desc_def rev_is_Nil_conv set_empty set_sort)
    with that show ?thesis by (auto simp: sql_select_def filter_empty_conv rule_of_sender_def)
  qed
  ultimately show ?thesis using assms(1,2,3) by (auto simp: silenced_def prompts_numbered_def unresolved_of_sender_def)
qed

text \<open>
  Claim C19. A prompt that nobody answered within the hour silences its sender for good: when the sender has no rule and
  all its prompts are older than the reply window, then whatever runs from then on, every new commitment of
  the sender is answered with the old prompt and neither prompts nor creates an event.
\<close>

theorem unanswered_prompt_silences_sender:
  assumes "prompts_numbered (cw_store w)"
    and "\<forall>u pl key. sql_count (unresolved_of_sender u pl key) (cm_prompts (cw_store w)) \<le> 1"
    and "p \<in> set (cm_prompts (cw_store w))" "unresolved_of_sender u pl key p"
    and "\<forall>q \<in> set (cm_prompts (cw_store w)). cp_user_id q = u \<and> cp_platform q = pl \<and> cp_sender_key q = key
           \<longrightarrow> cp_sent_at q < t0 - REPLY_MATCH_WINDOW_SECS"
    and "lookup_sender_rule u pl key (cw_store w) = None"
    and "(commitment_op t0)\<^sup>*\<^sup>* w w'" "get_str ''sender_key'' snapshot = Some key"
  shows "handle_new_commitment env u snapshot name pl mid descr due remind w' =
    (JObj [(''action'', JStr ''skipped''), (''reason'', JStr ''duplicate_pending_prompt''),
           (''existing_prompt_id'', JInt (cp_id p))], w')"
proof (rule silenced_answer)
  note run = commitment_ops_run [OF assms(7)]
  show "silenced t0 (cp_id p) (u, pl, key) (cw_store w')"
    by (rule runs_silenced [OF run old_prompt_silences [OF assms(1,3,4,5,6)]])
  show "one_open_per_sender (cw_store w')" using assms(2) runs_open [OF run] by (simp add: one_open_per_sender_def)
qed (rule assms(8))

section \<open>What a reply decides\<close>

lemma upsert_decides:
  "lookup_sender_rule u pl key (snd (upsert_sender_rule u pl key rule source now s)) =
     Some (fst (upsert_sender_rule u pl key rule source now s))"
proof -
  have "sql_select (rule_of_sender u pl key) (sql_update (rule_of_sender u pl key) (deactivated now) (cm_rules s)) = []"
    by (auto simp: sql_select_def filter_empty_conv rule_of_sender_def deactivated_def elim!: in_sql_updateE)
  then show ?thesis
    by (simp add: lookup_sender_rule_def upsert_sender_rule_def create_sender_rule_def deactivate_existing_rules_def
        Let_def sql_select_def order_desc_def) (simp add: rule_of_sender_def)
qed

lemma upsert_type: "sr_rule_type (fst (upsert_sender_rule u pl key rule source now s)) = rule"
  by (simp add: upsert_sender_rule_def create_sender_rule_def Let_def)

text \<open>Labelling a message leaves the rules alone when no other task runs in between.\<close>

lemma seed_rules:
  assumes "\<And>k v. ce_others env k v = v"
  shows "lookup_sender_rule u pl key (cw_store (seed_label_embedding env p label w)) = lookup_sender_rule u pl key (cw_store w)"
proof -
  have "cm_rules (cw_store (seed_label_embedding env p label w)) = cm_rules (cw_store w)"
    by (auto simp: seed_label_embedding_def Let_def store_label_embedding_def assms split: list.split sum.split option.split)
  then show ?thesis by (simp add: lookup_sender_rule_def)
qed

text \<open>
  Claim C22. A reply decides the next commitment of the sender: after a mute the commitment is skipped and nothing
  changes, after an always it becomes an event without another prompt, whatever the memory of labels holds.
\<close>

theorem reply_decides_next:
  assumes "apply_reply (env :: commitment_env) reply p w = (answer, w')" "answer \<noteq> ALREADY_PROCESSED"
    and "\<And>k v. ce_others env k v = v" "get_str ''sender_key'' snapshot = Some (cp_sender_key p)"
  shows "(reply = ReplyMute \<longrightarrow>
      (\<exists>rule_id. handle_new_commitment denv (cp_user_id p) snapshot name (cp_platform p) mid descr due remind w' =
         (JObj [(''action'', JStr ''skipped''), (''reason'', JStr ''sender_muted''), (''rule_id'', JInt rule_id)], w'))) \<and>
    (reply = ReplyAlways \<longrightarrow>
      handle_new_commitment denv (cp_user_id p) snapshot name (cp_platform p) mid descr due remind w' =
        auto_create denv (cp_user_id p) mid descr due remind w')"
proof (intro conjI impI)
  assume "reply = ReplyMute"
  with assms(1,2) obtain r s where "cw_store w' = snd (upsert_sender_rule (cp_user_id p) (cp_platform p) (cp_sender_key p)
      RULE_MUTE RULE_SOURCE_SMS r s)"
    by (auto simp: apply_mute_def split: prod.splits bool.splits)
  with assms(4) show "\<exists>rule_id. handle_new_commitment denv (cp_user_id p) snapshot name (cp_platform p) mid descr due remind w' =
         (JObj [(''action'', JStr ''skipped''), (''reason'', JStr ''sender_muted''), (''rule_id'', JInt rule_id)], w')"
    by (simp add: handle_new_commitment_def Let_def upsert_decides upsert_type)
next
  assume "reply = ReplyAlways"
  with assms(1,2) obtain v now s where w': "w' = seed_label_embedding env p LABEL_TRACK v"
    and v: "cw_store v = snd (upsert_sender_rule (cp_user_id p) (cp_platform p) (cp_sender_key p)
      RULE_ALWAYS_TRACK RULE_SOURCE_SMS now s)"
    by (auto simp: apply_always_def upsert_sender_rule_def split: prod.splits bool.splits)
  have "lookup_sender_rule (cp_user_id p) (cp_platform p) (cp_sender_key p) (cw_store w') =
      Some (fst (upsert_sender_rule (cp_user_id p) (cp_platform p) (cp_sender_key p) RULE_ALWAYS_TRACK RULE_SOURCE_SMS now s))"
    unfolding w' seed_rules [OF assms(3)] v upsert_decides ..
  with assms(4) show "handle_new_commitment denv (cp_user_id p) snapshot name (cp_platform p) mid descr due remind w' =
        auto_create denv (cp_user_id p) mid descr due remind w'"
    by (simp add: handle_new_commitment_def Let_def upsert_type RULE_MUTE_def RULE_ALWAYS_TRACK_def)
qed

section \<open>Packed embeddings\<close>

lemma le_bytes_inverse: "from_le_bytes (to_le_bytes v) = v"
proof (rule bit_word_eqI)
  fix n assume "n < LENGTH(32)"
  then consider "n < 8" | "8 \<le> n" "n < 16" | "16 \<le> n" "n < 24" | "24 \<le> n" "n < 32" by fastforce
  then show "bit (from_le_bytes (to_le_bytes v)) n = bit v n"
    by cases (auto simp: to_le_bytes_def bit_simps)
qed

lemma chunks_packed: "chunks_exact_4 (concat (map to_le_bytes xs)) = map to_le_bytes xs"
  by (induction xs) (simp_all add: to_le_bytes_def)

lemma length_packed: "length (pack_embedding xs) = 4 * length xs"
  by (induction xs) (simp_all add: pack_embedding_def to_le_bytes_def)

text \<open>An embedding is read back from its bytes as it was stored, and a row with a torn float is refused.\<close>
theorem embedding_read_back:
  "unpack_embedding (pack_embedding xs) = Some xs \<and>
   (unpack_embedding bytes = None \<longleftrightarrow> length bytes mod 4 \<noteq> 0)"
proof -
  have "map from_le_bytes (chunks_exact_4 (pack_embedding xs)) = xs"
    by (simp add: pack_embedding_def chunks_packed le_bytes_inverse o_def)
  then show ?thesis by (simp add: unpack_embedding_def length_packed)
qed

end
