(* ===== verification/CommitmentEvents.thy ===== *)
theory CommitmentEvents
  imports CommitmentProperties
begin

text \<open>
  What the detection of commitments can do to events. The answers of the language model are arbitrary: they reach the
  open events of the user that are no reminders, create events of the user, and move no deadline of the
  future forward by more than the guard.
\<close>

section \<open>Effects on events\<close>

definition confined :: "i32 \<Rightarrow> i32 list \<Rightarrow> ont_store \<Rightarrow> ont_store \<Rightarrow> bool" where
  "confined u ids s s' \<longleftrightarrow>
     (\<forall>e \<in> set (on_events s'). e \<in> set (on_events s) \<or> oe_user_id e = u) \<and>
     (\<forall>e \<in> set (on_events s). e \<in> set (on_events s') \<or> oe_user_id e = u \<and> oe_id e \<in> set ids)"

definition events_numbered :: "ont_store \<Rightarrow> bool" where
  "events_numbered s \<longleftrightarrow> distinct (map oe_id (on_events s)) \<and> (\<forall>e \<in> set (on_events s). oe_id e < on_next_event_id s)"

definition deadline_held :: "i32 \<Rightarrow> ont_event \<Rightarrow> ont_event \<Rightarrow> bool" where
  "deadline_held now e e' \<longleftrightarrow>
     (\<forall>d. oe_due_at e = Some d \<and> now < d \<longrightarrow> (\<exists>d'. oe_due_at e' = Some d' \<and> d - PULL_FORWARD_GUARD_SECS \<le> d'))"

definition deadlines_held :: "i32 \<Rightarrow> ont_store \<Rightarrow> ont_store \<Rightarrow> bool" where
  "deadlines_held now s s' \<longleftrightarrow>
     (\<forall>e \<in> set (on_events s). \<forall>e' \<in> set (on_events s'). oe_id e = oe_id e' \<longrightarrow> deadline_held now e e')"

text \<open>An effect on events: of one operation that knows the events \<open>ids\<close>.\<close>

definition event_effect :: "i32 \<Rightarrow> i32 list \<Rightarrow> i32 \<Rightarrow> ont_store \<Rightarrow> ont_store \<Rightarrow> bool" where
  "event_effect u ids now s s' \<longleftrightarrow> confined u ids s s' \<and> (events_numbered s \<longrightarrow> deadlines_held now s s')"

lemma confined_refl: "on_events s' = on_events s \<Longrightarrow> confined u ids s s'"
  by (simp add: confined_def)

lemma confined_trans: "confined u ids s s' \<Longrightarrow> confined u ids s' s'' \<Longrightarrow> confined u ids s s''"
  unfolding confined_def by blast

lemma deadline_held_refl: "deadline_held now e e"
  by (auto simp: deadline_held_def PULL_FORWARD_GUARD_SECS_def)

lemma numbered_same: "events_numbered s \<Longrightarrow> e \<in> set (on_events s) \<Longrightarrow> e' \<in> set (on_events s) \<Longrightarrow> oe_id e = oe_id e' \<Longrightarrow> e = e'"
  by (auto simp: events_numbered_def distinct_map inj_on_def)

lemma effect_refl:
  assumes "on_events s' = on_events s" shows "event_effect u ids now s s'"
proof -
  have "deadlines_held now s s'" if "events_numbered s"
    unfolding deadlines_held_def assms
  proof (intro ballI impI)
    fix e e' assume "e \<in> set (on_events s)" "e' \<in> set (on_events s)" "oe_id e = oe_id e'"
    from numbered_same [OF that this] show "deadline_held now e e'" by (simp add: deadline_held_refl)
  qed
  with confined_refl [OF assms] show ?thesis by (simp add: event_effect_def)
qed

lemma effect_log: "event_effect u ids now s s' \<Longrightarrow> on_events s'' = on_events s' \<Longrightarrow> event_effect u ids now s s''"
  by (simp add: event_effect_def confined_def deadlines_held_def)

lemma effect_insert:
  assumes "on_events s' = on_events s @ [e]" "oe_user_id e = u" "oe_id e = on_next_event_id s"
  shows "event_effect u ids now s s'"
proof -
  have "deadlines_held now s s'" if "events_numbered s"
    unfolding deadlines_held_def
  proof (intro ballI impI)
    fix e0 e1 assume e: "e0 \<in> set (on_events s)" "e1 \<in> set (on_events s')" "oe_id e0 = oe_id e1"
    then have "oe_id e1 < on_next_event_id s" using that by (metis events_numbered_def)
    with e assms have "e1 \<in> set (on_events s)" by auto
    with e that show "deadline_held now e0 e1" using numbered_same deadline_held_refl by metis
  qed
  with assms show ?thesis by (auto simp: event_effect_def confined_def)
qed

lemma effect_update:
  assumes "on_events s' = sql_update (own_event u eid) f (on_events s)" "eid \<in> set ids"
    and "\<And>e. oe_id (f e) = oe_id e \<and> oe_user_id (f e) = oe_user_id e"
    and "\<And>e. events_numbered s \<Longrightarrow> e \<in> set (on_events s) \<Longrightarrow> own_event u eid e \<Longrightarrow> deadline_held now e (f e)"
  shows "event_effect u ids now s s'"
proof -
  have "deadlines_held now s s'" if wf: "events_numbered s"
    unfolding deadlines_held_def
  proof (intro ballI impI)
    fix e0 e1 assume e: "e0 \<in> set (on_events s)" "e1 \<in> set (on_events s')" "oe_id e0 = oe_id e1"
    from e(2) show "deadline_held now e0 e1"
      unfolding assms(1)
    proof (cases rule: in_sql_updateE)
      case unchanged
      with numbered_same [OF wf e(1) unchanged(1) e(3)] show ?thesis by (simp add: deadline_held_refl)
    next
      case (changed e2)
      with e(3) assms(3) have "oe_id e0 = oe_id e2" by simp
      from numbered_same [OF wf e(1) changed(1) this] changed assms(4) [OF wf changed(1,2)] show ?thesis by simp
    qed
  qed
  moreover have "confined u ids s s'"
    using assms(2,3) by (auto simp: confined_def assms(1) own_event_def set_sql_update)
  ultimately show ?thesis by (simp add: event_effect_def)
qed

section \<open>Operations on events\<close>

lemma link_events [simp]:
  "on_events (cw_ont (link_message u eid mid lt now w)) = on_events (cw_ont w)"
  "on_events (cw_ont (link_opt u eid omid lt now w)) = on_events (cw_ont w)"
  "cw_ont (on_commitments f w) = cw_ont w" "cw_ont (add_trace e w) = cw_ont w"
  "cw_ont (persist_envelope env omid pr envelope w) = cw_ont w"
  by (auto simp: link_message_def link_opt_def create_link_def log_change_def on_commitments_def add_trace_def
      persist_envelope_def Let_def split: prod.split option.split)

abbreviation w_effect :: "i32 \<Rightarrow> i32 list \<Rightarrow> i32 \<Rightarrow> commitment_world \<Rightarrow> commitment_world \<Rightarrow> bool" where
  "w_effect u ids now w w' \<equiv> event_effect u ids now (cw_ont w) (cw_ont w')"

lemma create_effect:
  "create_event ne now s = (e, s') \<Longrightarrow> event_effect (ne_user_id ne) ids t s s'"
  by (auto simp: create_event_def insert_event_def log_change_def Let_def intro!: effect_insert)

lemma try_create_effect:
  assumes "try_create_event env ne w = (r, w')" "ne_user_id ne = u"
  shows "w_effect u ids t w w'"
proof (cases "ce_event_error env")
  case None
  obtain e s where create: "create_event ne (ce_now env) (cw_ont w) = (e, s)" by fastforce
  from None create assms create_effect [OF create] show ?thesis by (auto simp: try_create_event_def)
qed (use assms in \<open>auto simp: try_create_event_def intro: effect_refl\<close>)

lemma auto_create_effect: "w_effect u ids t w (snd (auto_create env u mid descr due remind w))"
proof -
  let ?ne = "commitment_event u descr remind due (ce_now env)"
  obtain r w1 where create: "try_create_event env ?ne w = (r, w1)" by fastforce
  have "w_effect u ids t w w1" by (rule try_create_effect [OF create]) (simp add: commitment_event_def)
  then show ?thesis
    using create by (auto simp: auto_create_def split: sum.split option.split intro: effect_log)
qed

lemma complete_effect: "eid \<in> set ids \<Longrightarrow> w_effect u ids now w (snd (complete_event env u mid eid w))"
  by (auto simp: complete_event_def update_event_status_def update_events_def deadline_held_def PULL_FORWARD_GUARD_SECS_def
      intro!: effect_update)

text \<open>\<^const>\<open>update_event\<close> rewrites the event it names, with the deadline it is given.\<close>

lemma sql_update_twice:
  "(\<And>r. p r \<Longrightarrow> p (f r)) \<Longrightarrow> sql_update p g (sql_update p f t) = sql_update p (\<lambda>r. g (f r)) t"
  by (simp add: sql_update_def)

definition event_rewritten :: "i32 \<Rightarrow> i32 \<Rightarrow> i32 option \<Rightarrow> ont_store \<Rightarrow> ont_store \<Rightarrow> bool" where
  "event_rewritten u eid due s s' \<longleftrightarrow>
     (\<exists>f. on_events s' = sql_update (own_event u eid) f (on_events s) \<and> on_next_event_id s' = on_next_event_id s \<and>
          (\<forall>e. oe_id (f e) = oe_id e \<and> oe_user_id (f e) = oe_user_id e) \<and>
          (events_numbered s \<longrightarrow> (\<forall>e \<in> set (on_events s). own_event u eid e \<longrightarrow>
             oe_due_at (f e) = oe_due_at e \<or> due \<noteq> None \<and> oe_due_at (f e) = due)))"

lemma rewritten_refl: "event_rewritten u eid due s s"
  unfolding event_rewritten_def by (rule exI [of _ "\<lambda>e. e"]) (simp add: sql_update_def)

lemma rewritten_numbered: "event_rewritten u eid due s s' \<Longrightarrow> events_numbered s \<Longrightarrow> events_numbered s'"
  by (auto simp: event_rewritten_def events_numbered_def map_sql_update elim!: in_sql_updateE)

lemma rewritten_trans:
  assumes "event_rewritten u eid None s s1" "event_rewritten u eid due s1 s2"
  shows "event_rewritten u eid due s s2"
proof -
  obtain f where f: "on_events s1 = sql_update (own_event u eid) f (on_events s)" "on_next_event_id s1 = on_next_event_id s"
    "\<And>e. oe_id (f e) = oe_id e \<and> oe_user_id (f e) = oe_user_id e"
    "\<And>e. events_numbered s \<Longrightarrow> e \<in> set (on_events s) \<Longrightarrow> own_event u eid e \<Longrightarrow> oe_due_at (f e) = oe_due_at e"
    using assms(1) unfolding event_rewritten_def by auto
  obtain g where g: "on_events s2 = sql_update (own_event u eid) g (on_events s1)" "on_next_event_id s2 = on_next_event_id s1"
    "\<And>e. oe_id (g e) = oe_id e \<and> oe_user_id (g e) = oe_user_id e"
    "\<And>e. events_numbered s1 \<Longrightarrow> e \<in> set (on_events s1) \<Longrightarrow> own_event u eid e \<Longrightarrow>
       oe_due_at (g e) = oe_due_at e \<or> due \<noteq> None \<and> oe_due_at (g e) = due"
    using assms(2) unfolding event_rewritten_def by auto
  have own: "own_event u eid (f e) = own_event u eid e" for e using f(3) by (simp add: own_event_def)
  have "on_events s2 = sql_update (own_event u eid) (\<lambda>e. g (f e)) (on_events s)"
    unfolding g(1) f(1) by (rule sql_update_twice) (simp add: own)
  moreover have "oe_due_at (g (f e)) = oe_due_at e \<or> due \<noteq> None \<and> oe_due_at (g (f e)) = due"
    if "events_numbered s" "e \<in> set (on_events s)" "own_event u eid e" for e
  proof -
    have "f e \<in> set (on_events s1)" unfolding f(1) using that(2,3) by (intro sql_update_memI)
    from g(4) [OF rewritten_numbered [OF assms(1) that(1)] this] f(4) [OF that] that(3) show ?thesis by (simp add: own)
  qed
  ultimately show ?thesis
    unfolding event_rewritten_def using f(2,3) g(2,3) by (intro exI [of _ "\<lambda>e. g (f e)"]) simp
qed

lemma append_rewritten:
  assumes "append_to_event u eid extra now s = (r, s')" shows "event_rewritten u eid None s s'"
proof (cases "get_event u eid s")
  case (Inl e)
  with assms show ?thesis by (simp add: append_to_event_def Let_def rewritten_refl)
next
  case (Inr current)
  with assms obtain text' where
    "s' = update_events (own_event u eid) (\<lambda>e. e\<lparr>oe_description := text', oe_updated_at := now\<rparr>) s"
    by (auto simp: append_to_event_def Let_def)
  then show ?thesis by (auto simp: update_events_def event_rewritten_def)
qed

lemma get_event_numbered:
  "events_numbered s \<Longrightarrow> get_event u eid s = Inr current \<Longrightarrow> e \<in> set (on_events s) \<Longrightarrow> own_event u eid e \<Longrightarrow> e = current"
  by (auto simp: get_event_def own_event_def split: option.splits dest!: sql_first_Some intro: numbered_same)

lemma reschedule_rewritten:
  assumes "reschedule_event u eid remind due now s = (r, s')" shows "event_rewritten u eid due s s'"
proof (cases "get_event u eid s")
  case (Inl e)
  with assms show ?thesis by (simp add: reschedule_event_def rewritten_refl)
next
  case (Inr current)
  let ?f = "\<lambda>e. e\<lparr>oe_remind_at := (if remind = None then oe_remind_at current else remind),
      oe_due_at := (if due = None then oe_due_at current else due), oe_status := ''active'', oe_updated_at := now\<rparr>"
  have "s' = update_events (own_event u eid) ?f s" using assms Inr by (simp add: reschedule_event_def)
  then show ?thesis
    unfolding event_rewritten_def
    by (intro exI [of _ ?f]) (auto simp: update_events_def dest: get_event_numbered [OF _ Inr])
qed

lemma update_event_rewritten:
  assumes "update_event u eid extra None remind due now s = (r, s')" shows "event_rewritten u eid due s s'"
proof -
  obtain r1 s1 where first: "(case extra of None \<Rightarrow> (Inr (), s) | Some x \<Rightarrow> append_to_event u eid x now s) = (r1, s1)"
    by fastforce
  have s1: "event_rewritten u eid None s s1"
    using first by (auto simp: rewritten_refl split: option.splits dest: append_rewritten)
  obtain r2 s2 where second: "reschedule_event u eid remind due now s1 = (r2, s2)" by fastforce
  note s2 = rewritten_trans [OF s1 reschedule_rewritten [OF second]]
  note s3 = rewritten_trans [OF s1 rewritten_refl [where due = due]]
  from assms s2 s3 show ?thesis
    by (cases r1; cases r2) (auto simp: update_event_def first second split: if_splits)
qed

lemma rewritten_effect:
  assumes "event_rewritten u eid due s s'" "eid \<in> set ids"
    and "\<And>e d. due \<noteq> None \<Longrightarrow> events_numbered s \<Longrightarrow> e \<in> set (on_events s) \<Longrightarrow> own_event u eid e \<Longrightarrow>
       oe_due_at e = Some d \<Longrightarrow> now < d \<Longrightarrow> d - PULL_FORWARD_GUARD_SECS \<le> the due"
  shows "event_effect u ids now s s'"
proof -
  obtain f where f: "on_events s' = sql_update (own_event u eid) f (on_events s)"
    "\<And>e. oe_id (f e) = oe_id e \<and> oe_user_id (f e) = oe_user_id e"
    "\<And>e. events_numbered s \<Longrightarrow> e \<in> set (on_events s) \<Longrightarrow> own_event u eid e \<Longrightarrow>
       oe_due_at (f e) = oe_due_at e \<or> due \<noteq> None \<and> oe_due_at (f e) = due"
    using assms(1) unfolding event_rewritten_def by auto
  show ?thesis
  proof (rule effect_update [OF f(1) assms(2) f(2)])
    fix e assume e: "events_numbered s" "e \<in> set (on_events s)" "own_event u eid e"
    from f(3) [OF e] show "deadline_held now e (f e)"
    proof
      assume "oe_due_at (f e) = oe_due_at e"
      then show ?thesis using deadline_held_refl [of now e] by (simp add: deadline_held_def)
    next
      assume due: "due \<noteq> None \<and> oe_due_at (f e) = due"
      with assms(3) [OF _ e] show ?thesis by (auto simp: deadline_held_def)
    qed
  qed
qed

section \<open>The guard of a deadline\<close>

lemma wrap_i32_le: "- 2147483648 \<le> x \<Longrightarrow> wrap_i32 x \<le> x"
  using zmod_le_nonneg_dividend [of "x + 2147483648" 4294967296] by (simp add: wrap_i32_def)

lemma safe_times_guard:
  assumes "safe_times now (Some e) remind due = (safe_remind, Some x)" "oe_due_at e = Some d" "now < d" "in_i32 x"
  shows "d - PULL_FORWARD_GUARD_SECS \<le> x"
proof -
  from assms(1,2,3) have "\<not> wrap_i32 (x + PULL_FORWARD_GUARD_SECS) < d"
    by (auto simp: safe_times_def split: option.splits if_splits)
  moreover have "wrap_i32 (x + PULL_FORWARD_GUARD_SECS) \<le> x + PULL_FORWARD_GUARD_SECS"
    using assms(4) by (intro wrap_i32_le) (simp add: PULL_FORWARD_GUARD_SECS_def in_i32_def i32_min_def)
  ultimately show ?thesis by simp
qed

lemma safe_due: "safe_times now old remind due = (safe_remind, safe_due) \<Longrightarrow> safe_due = None \<or> safe_due = due"
  by (auto simp: safe_times_def Let_def split: option.splits if_splits)

text \<open>No other task runs during the operation.\<close>

abbreviation undisturbed :: "'a commitment_env_scheme \<Rightarrow> bool" where
  "undisturbed env \<equiv> \<forall>k v. ce_others env k v = v"

lemma update_deadline_effect:
  assumes quiet: "undisturbed env" and eid: "eid \<in> set ids" and due: "\<And>d. due = Some d \<Longrightarrow> in_i32 d"
  shows "w_effect u ids (ce_now env) w (snd (update_deadline env u name mid descr due remind eid w))"
proof -
  let ?old = "own_event_opt u eid (cw_ont w)"
  obtain safe_remind safe where times: "safe_times (ce_now env) ?old remind due = (safe_remind, safe)" by fastforce
  obtain r s where update: "update_event u eid (if descr = [] then None else Some descr) None safe_remind safe (ce_now env)
      (cw_ont w) = (r, s)" by fastforce
  have effect: "event_effect u ids (ce_now env) (cw_ont w) s"
  proof (rule rewritten_effect [OF update_event_rewritten [OF update] eid])
    fix e d
    assume e: "safe \<noteq> None" "events_numbered (cw_ont w)" "e \<in> set (on_events (cw_ont w))" "own_event u eid e"
      "oe_due_at e = Some d" "ce_now env < d"
    obtain x where x: "safe = Some x" using e(1) by auto
    have "get_event u eid (cw_ont w) \<noteq> Inl NotFound"
      using e(3,4) by (auto simp: get_event_def sql_first_None split: option.splits)
    then obtain current where current: "get_event u eid (cw_ont w) = Inr current"
      by (auto simp: get_event_def split: option.splits)
    with get_event_numbered [OF e(2) _ e(3,4)] have "?old = Some e" by (simp add: own_event_opt_def)
    with times x safe_due [OF times] due e(5,6) show "d - PULL_FORWARD_GUARD_SECS \<le> the safe"
      by (auto intro: safe_times_guard)
  qed
  show ?thesis
    using times update quiet effect
    by (auto simp: update_deadline_def Let_def split: sum.split option.split intro: effect_log)
qed

lemma append_effect: "eid \<in> set ids \<Longrightarrow> w_effect u ids now w (snd (append_to_tracked env u mid descr eid w))"
proof -
  assume eid: "eid \<in> set ids"
  obtain r s where update: "update_event u eid (Some descr) None None None (ce_now env) (cw_ont w) = (r, s)" by fastforce
  have "event_effect u ids now (cw_ont w) s" by (rule rewritten_effect [OF update_event_rewritten [OF update] eid]) simp
  with update show ?thesis by (auto simp: append_to_tracked_def split: sum.split intro: effect_log)
qed

section \<open>The effects of a routing\<close>

lemma recall_ont: "undisturbed env \<Longrightarrow> recall_labels env u snapshot w = (r, w') \<Longrightarrow> w' = w"
  by (auto simp: recall_labels_def Let_def split: option.splits if_splits sum.splits)

lemma send_ont:
  "undisturbed env \<Longrightarrow> try_send_commitment_prompt env u mid pl key name descr due remind w = (r, w') \<Longrightarrow> cw_ont w' = cw_ont w"
  by (auto simp: try_send_commitment_prompt_def Let_def split: option.splits prod.splits sum.splits bool.splits)

lemma prompt_ont:
  assumes "undisturbed env" "prompt_or_fall_through env u snapshot key name pl mid descr due remind w = (r, w')"
  shows "cw_ont w' = cw_ont w"
  using assms(2) by (auto simp: prompt_or_fall_through_def split: option.splits prod.splits sum.splits bool.splits
      prompt_send_outcome.splits dest!: recall_ont [OF assms(1)] send_ont [OF assms(1)])

lemma new_commitment_effect:
  assumes quiet: "undisturbed env"
  shows "w_effect u ids t w (snd (handle_new_commitment env u snapshot name pl mid descr due remind w))"
proof (cases "get_str ''sender_key'' snapshot")
  case None
  then show ?thesis by (simp add: handle_new_commitment_def auto_create_effect)
next
  case (Some key)
  obtain p w1 where prompt: "prompt_or_fall_through env u snapshot key name pl mid descr due remind w = (p, w1)" by fastforce
  note ont = prompt_ont [OF quiet prompt]
  have "w_effect u ids t w (snd (auto_create env u mid descr due remind w1))"
    using auto_create_effect [of u ids t w1] unfolding ont .
  with Some prompt ont show ?thesis
    by (auto simp: handle_new_commitment_def Let_def auto_create_effect split: option.split intro: effect_refl)
qed

lemma route_commitment_effect:
  assumes quiet: "undisturbed env" and deadline: "\<And>d. deadline = Some d \<Longrightarrow> in_i32 d"
  shows "w_effect (dm_user_id m) ids (ce_now env) w (snd (route_commitment env m ids type descr match_id deadline w))"
  using update_deadline_effect [OF quiet _ deadline]
  by (auto simp: route_commitment_def Let_def new_commitment_effect [OF quiet] effect_refl complete_effect append_effect
      split: option.split intro!: on_match_cases [where P = "\<lambda>v. w_effect (dm_user_id m) ids (ce_now env) w v"])

lemma route_arguments_effect:
  assumes quiet: "undisturbed env" and run: "route_arguments env m ids args w = ((again, routing), w')"
  shows "w_effect (dm_user_id m) ids (ce_now env) w w' \<and> (again \<longrightarrow> w' = w)"
proof (cases "de_parse env args")
  case None
  with run show ?thesis by (simp add: route_arguments_def effect_refl)
next
  case (Some parsed)
  have routed: "w_effect (dm_user_id m) ids (ce_now env) w w'"
    if "route_commitment env m ids type descr match_id (map_option wrap_i32 d) w = (routing, w')"
    for type descr match_id routing d
    using route_commitment_effect [OF quiet, where deadline = "map_option wrap_i32 d" and w = w] that
    by (metis in_i32_wrap map_option_eq_Some snd_conv)
  from Some run show ?thesis
    by (auto simp: route_arguments_def Let_def effect_refl dest: routed split: if_split_asm prod.split_asm)
qed

lemma route_calls_effect:
  assumes quiet: "undisturbed env"
  shows "w_effect (dm_user_id m) ids (ce_now env) w (snd (route_calls env m ids routing calls w))"
proof (induction calls arbitrary: routing)
  case (Cons call calls)
  obtain name args where call: "call = (name, args)" by fastforce
  obtain again routing' w1 where
    routed: "route_arguments env m ids (case args of None \<Rightarrow> ''{}'' | Some a \<Rightarrow> a) w = ((again, routing'), w1)"
    by (metis surj_pair)
  from route_arguments_effect [OF quiet routed] call routed Cons.IH show ?case by (cases again) auto
qed (simp add: effect_refl)

lemma route_answer_effect:
  "undisturbed env \<Longrightarrow> w_effect (dm_user_id m) ids (ce_now env) w (snd (route_answer env m ids choices w))"
  using route_calls_effect
  by (auto simp: route_answer_def Let_def effect_refl split: list.split option.split prod.split simp del: route_calls.simps)
     (metis snd_conv)+

abbreviation trackable :: "i32 \<Rightarrow> ont_store \<Rightarrow> ont_event list" where
  "trackable u s \<equiv> get_active_and_proposed_trackable_events u s"

lemma detection_effect:
  assumes quiet: "undisturbed env"
  shows "w_effect u (map oe_id (trackable u (cw_ont w))) (ce_now env) w (snd (run_commitment_detection env u snapshot w))"
proof -
  have relevant: "w_effect u (map oe_id (trackable u (cw_ont w))) (ce_now env) w (snd (detect_relevant env
      \<lparr>dm_user_id = u, dm_snapshot = snapshot, dm_sender = name, dm_platform = pl, dm_message_id = mid\<rparr> room content gate v))"
    if v: "cw_ont v = cw_ont w" for name pl mid room content gate v
  proof -
    let ?m = "\<lparr>dm_user_id = u, dm_snapshot = snapshot, dm_sender = name, dm_platform = pl, dm_message_id = mid\<rparr>"
    have "w_effect u ids (ce_now env) w (snd (route_answer env ?m ids choices v))" for ids choices
      using route_answer_effect [OF quiet, of ?m ids v choices] v by simp
    then show ?thesis
      using quiet v by (auto simp: detect_relevant_def Let_def split: sum.split prod.split intro: effect_refl) (metis snd_conv)
  qed
  have kept: "cw_ont (persist_envelope env mid p e (ce_others env 2 w)) = cw_ont w" for mid p e using quiet by simp
  show ?thesis
    using relevant [OF kept] kept
    by (auto simp: run_commitment_detection_def Let_def split: sum.split bool.split prod.split intro: effect_refl)
qed

lemma outgoing_confined:
  assumes quiet: "undisturbed env"
  shows "confined u (map oe_id (trackable u (cw_ont w))) (cw_ont w)
    (cw_ont (check_outgoing_event_resolution env u room content mid w))"
proof -
  let ?ids = "map oe_id (trackable u (cw_ont w))"
  have event: "confined u ?ids (cw_ont v) (cw_ont (resolve_event env u mid ?ids eid v))" for eid v
    using complete_effect [of eid ?ids u 0 v env "Some mid"]
    by (auto simp: resolve_event_def event_effect_def confined_refl)
  have events: "confined u ?ids (cw_ont v) (cw_ont (fold (resolve_event env u mid ?ids) eids v))" for eids v
    by (induction eids arbitrary: v) (auto simp: confined_refl intro: confined_trans [OF event])
  have call: "confined u ?ids (cw_ont v) (cw_ont (resolve_call env u mid ?ids c v))" for c v
    by (cases c) (auto simp: confined_refl events split: option.split)
  have "confined u ?ids (cw_ont v) (cw_ont (fold (resolve_call env u mid ?ids) calls v))" for calls v
    by (induction calls arbitrary: v) (auto simp: confined_refl intro: confined_trans [OF call])
  with quiet show ?thesis
    by (auto simp: check_outgoing_event_resolution_def Let_def confined_refl
        split: sum.split bool.split list.split option.split)
qed

lemma confined_trackable:
  assumes "confined u (map oe_id (trackable u s)) s s'" "events_numbered s"
  shows "set (on_events s) - set (trackable u s) \<subseteq> set (on_events s')"
    and "\<forall>e \<in> set (on_events s') - set (on_events s). oe_user_id e = u"
proof -
  show "set (on_events s) - set (trackable u s) \<subseteq> set (on_events s')"
  proof
    fix e assume e: "e \<in> set (on_events s) - set (trackable u s)"
    have "oe_id e \<notin> set (map oe_id (trackable u s))"
    proof
      assume "oe_id e \<in> set (map oe_id (trackable u s))"
      then obtain e' where e': "e' \<in> set (trackable u s)" "oe_id e = oe_id e'" by auto
      then have "e' \<in> set (on_events s)" by (simp add: get_active_and_proposed_trackable_events_def order_desc_def)
      with numbered_same [OF assms(2)] e e' show False by auto
    qed
    with assms(1) e show "e \<in> set (on_events s')" by (auto simp: confined_def)
  qed
  show "\<forall>e \<in> set (on_events s') - set (on_events s). oe_user_id e = u" using assms(1) by (auto simp: confined_def)
qed

text \<open>
  Claim C20. Whatever the language model answers about a message, received or sent, an event that is not an open,
  tracked event of the user stays as it is, and what changes or appears belongs to the user.
\<close>

theorem model_answers_confined:
  assumes "undisturbed env" "events_numbered (cw_ont w)"
    and "w' = snd (run_commitment_detection env u snapshot w) \<or>
         w' = check_outgoing_event_resolution env u room content mid w"
  shows "set (on_events (cw_ont w)) - set (get_active_and_proposed_trackable_events u (cw_ont w)) \<subseteq> set (on_events (cw_ont w'))
    \<and> set (on_events (cw_ont w')) - set (on_events (cw_ont w)) \<subseteq> {e. oe_user_id e = u}"
proof -
  have "confined u (map oe_id (trackable u (cw_ont w))) (cw_ont w) (cw_ont w')"
    using assms(3) detection_effect [OF assms(1), of u w snapshot] outgoing_confined [OF assms(1)]
    by (auto simp: event_effect_def)
  from confined_trackable [OF this assms(2)] show ?thesis by auto
qed

text \<open>
  Claim C21. A received message cannot pull a deadline of the future forward by more than six hours, whatever the language
  model reads out of it: the event keeps a deadline that is later than that.
\<close>

theorem deadline_not_pulled_forward:
  assumes "undisturbed env" "events_numbered (cw_ont w)"
    and "e \<in> set (on_events (cw_ont w))" "oe_due_at e = Some d" "ce_now env < d"
    and "e' \<in> set (on_events (cw_ont (snd (run_commitment_detection env u snapshot w))))" "oe_id e' = oe_id e"
  shows "\<exists>d'. oe_due_at e' = Some d' \<and> d - 21600 \<le> d'"
proof -
  have "deadlines_held (ce_now env) (cw_ont w) (cw_ont (snd (run_commitment_detection env u snapshot w)))"
    using detection_effect [OF assms(1)] assms(2) unfolding event_effect_def by blast
  with assms(3-7) show ?thesis by (fastforce simp: deadlines_held_def deadline_held_def PULL_FORWARD_GUARD_SECS_def)
qed

end
