(* ===== verification/CommitmentFlow.thy ===== *)
theory CommitmentFlow
  imports CommitmentEvents
begin

text \<open>
  The properties of commitments at concrete inputs: a user with one tracked event and one sender, whose messages
  the language model reads as a new commitment or as a deadline update.
\<close>

section \<open>A world\<close>

definition flow_prompt :: commitment_prompt where
  "flow_prompt = \<lparr>cp_id = 1, cp_user_id = 1, cp_ont_message_id = 7, cp_platform = ''sms'', cp_sender_key = ''k'',
     cp_sender_display_name = ''Ann'', cp_commitment_description = ''call back'', cp_due_at = None, cp_remind_at = None,
     cp_sent_at = 9500, cp_sms_message_sid = Some ''SM1'', cp_user_label = None, cp_labeled_at = None,
     cp_resulting_event_id = None, cp_resolved_at = None\<rparr>"

definition flow_store :: commitment_store where
  "flow_store = \<lparr>cm_rules = [], cm_next_rule_id = 1, cm_embeddings = [], cm_next_embedding_id = 1,
     cm_prompts = [flow_prompt], cm_next_prompt_id = 2\<rparr>"

definition flow_event :: ont_event where
  "flow_event = \<lparr>oe_id = 1, oe_user_id = 1, oe_description = ''report'', oe_remind_at = None, oe_due_at = Some 90000,
     oe_status = ''active'', oe_created_at = 1, oe_updated_at = 1, oe_friend_notified_at = None, oe_reminder_attempts = 0,
     oe_reminder_next_attempt_at = None, oe_reminder_lease_until = None, oe_reminder_last_error = None,
     oe_reminder_delivered_at = None, oe_reminder_delivery_key = None, oe_reminder_timezone = None\<rparr>"

definition flow_ont :: ont_store where
  "flow_ont = \<lparr>on_events = [flow_event, flow_event\<lparr>oe_id := 2, oe_user_id := 5\<rparr>], on_next_event_id = 3, on_rules = [],
     on_next_rule_id = 1, on_changelog = [], on_next_change_id = 1, on_health = []\<rparr>"

definition flow_world :: commitment_world where
  "flow_world = \<lparr>cw_store = flow_store, cw_ont = flow_ont, cw_links = \<lparr>ls_links = [], ls_next_id = 1\<rparr>,
     cw_messages = \<lparr>ms_messages = [], ms_next_id = 1\<rparr>, cw_trace = []\<rparr>"

definition flow_parse :: "string \<Rightarrow> json option" where
  "flow_parse s =
     (if s = ''gate'' then Some (JObj [(''relevant'', JBool True)])
      else if s = ''new'' then Some (JObj [(''has_commitment'', JBool True), (''description'', JStr ''send it'')])
      else if s = ''earlier'' then
        Some (JObj [(''has_commitment'', JBool True), (''commitment_type'', JStr ''deadline_update''),
                    (''description'', JStr ''sooner''), (''existing_match_id'', JInt 1), (''deadline'', JStr ''D'')])
      else None)"

text \<open>The model answers every message with \<open>answer\<close>.\<close>

definition flow_env :: "string \<Rightarrow> i32 \<Rightarrow> detection_env" where
  "flow_env answer now =
     \<lparr>ce_now = now, ce_event_error = None, ce_embed = (\<lambda>_. Inr None), ce_others = (\<lambda>_ w. w), de_parse = flow_parse,
      de_print = (\<lambda>_. ''json''), de_parse_error = (\<lambda>_. ''unreadable''), de_error = (\<lambda>_. ''db''), de_debug = (\<lambda>e. e),
      de_auto_track = (\<lambda>_. Inr True), de_quiet = (\<lambda>_. False), de_tokens_since = (\<lambda>_ _. Inr 0), de_context = (\<lambda>_. Inr ()),
      de_gate = (\<lambda>_ _ _. Inr [Some [(Some ''commitment_gate'', Some ''gate'')]]),
      de_extract = (\<lambda>_. Inr [(Some [(Some ''commitment_result'', Some answer)], None)]),
      de_prompt = (\<lambda>_. ''prompt''), de_resolve = (\<lambda>_. Inr []),
      de_rfc3339 = (\<lambda>t. if t = ''D'' then Some 80000 else None), de_f64_as_i32 = (\<lambda>_. 0),
      de_track_similar = (\<lambda>_ _. False), de_wrong_similar = (\<lambda>_ _. None), de_user = (\<lambda>_. Inr True),
      de_send = (\<lambda>_ _. Inr ''SM2'')\<rparr>"

definition flow_reply_env :: "i32 \<Rightarrow> commitment_env" where
  "flow_reply_env now = \<lparr>ce_now = now, ce_event_error = None, ce_embed = (\<lambda>_. Inr None), ce_others = (\<lambda>_ w. w)\<rparr>"

definition flow_snapshot :: json where
  "flow_snapshot = JObj [(''sender_name'', JStr ''Ann''), (''platform'', JStr ''sms''), (''sender_key'', JStr ''k''),
     (''message_id'', JInt 8), (''content'', JStr ''I will send it'')]"

lemmas flow_defs = flow_world_def flow_store_def flow_prompt_def flow_ont_def flow_event_def

lemma flow_env_runs: "0 \<le> t0 \<Longrightarrow> t0 \<le> now \<Longrightarrow> in_i32 now \<Longrightarrow> runs_from t0 (flow_env a now)"
  by (simp add: runs_from_def others_run_def flow_env_def)

lemma flow_reply_env_runs: "0 \<le> t0 \<Longrightarrow> t0 \<le> now \<Longrightarrow> in_i32 now \<Longrightarrow> runs_from t0 (flow_reply_env now)"
  by (simp add: runs_from_def others_run_def flow_reply_env_def)

lemma flow_one_open: "\<forall>u pl key. sql_count (unresolved_of_sender u pl key) (cm_prompts (cw_store flow_world)) \<le> 1"
  by (simp add: flow_defs sql_count_def)

lemma flow_numbered: "prompts_numbered (cw_store flow_world)"
  by (simp add: flow_defs prompts_numbered_def)

lemma one_op: "commitment_op t0 w w' \<Longrightarrow> (commitment_op t0)\<^sup>*\<^sup>* w w'"
  by (rule r_into_rtranclp)

section \<open>Witnesses\<close>

theorem one_open_prompt_per_sender_witness:
  "sql_count (unresolved_of_sender 1 ''sms'' ''k'')
     (cm_prompts (cw_store (snd (run_commitment_detection (flow_env ''new'' 20000) 1 flow_snapshot flow_world)))) \<le> 1"
  by (rule one_open_prompt_per_sender [OF one_op [OF co_detection] flow_one_open, of 20000])
     (simp add: flow_env_runs in_i32_def i32_min_def i32_max_def)

theorem reply_applied_once_witness:
  "apply_reply (flow_reply_env 10001) ReplyMute flow_prompt
     (snd (apply_reply (flow_reply_env 10000) ReplyTrack flow_prompt flow_world)) =
   (ALREADY_PROCESSED, snd (apply_reply (flow_reply_env 10000) ReplyTrack flow_prompt flow_world))"
proof (rule reply_applied_once [OF _ flow_numbered, where ?t0.0 = 10000 and u = 1 and env = "flow_reply_env 10000"])
  show "runs_from 10000 (flow_reply_env 10000)"
    by (simp add: flow_reply_env_runs in_i32_def i32_min_def i32_max_def)
  show "find_latest_unresolved_for_user 1 (ce_now (flow_reply_env 10000)) (cw_store flow_world) = Some flow_prompt"
    by code_simp
  show "(commitment_op 10000)\<^sup>*\<^sup>* (snd (apply_reply (flow_reply_env 10000) ReplyTrack flow_prompt flow_world))
      (snd (apply_reply (flow_reply_env 10000) ReplyTrack flow_prompt flow_world))" ..
qed (rule prod.collapse [symmetric])

theorem unanswered_prompt_silences_sender_witness:
  "handle_new_commitment (flow_env ''new'' 20001) 1 flow_snapshot ''Ann'' ''sms'' (Some 9) ''send it'' None None
     (snd (run_commitment_detection (flow_env ''new'' 20000) 1 flow_snapshot flow_world)) =
   (JObj [(''action'', JStr ''skipped''), (''reason'', JStr ''duplicate_pending_prompt''),
          (''existing_prompt_id'', JInt (cp_id flow_prompt))],
    snd (run_commitment_detection (flow_env ''new'' 20000) 1 flow_snapshot flow_world))"
proof (rule unanswered_prompt_silences_sender [OF flow_numbered flow_one_open, where ?t0.0 = 20000 and key = "''k''"])
  show "(commitment_op 20000)\<^sup>*\<^sup>* flow_world
      (snd (run_commitment_detection (flow_env ''new'' 20000) 1 flow_snapshot flow_world))"
    by (rule one_op [OF co_detection]) (simp add: flow_env_runs in_i32_def i32_min_def i32_max_def)
qed (simp_all add: flow_defs unresolved_of_sender_def REPLY_MATCH_WINDOW_SECS_def lookup_sender_rule_def sql_select_def
    order_desc_def flow_snapshot_def, code_simp)

theorem reply_decides_next_witness:
  "handle_new_commitment (flow_env ''new'' 10001) 1 flow_snapshot ''Ann'' ''sms'' (Some 9) ''send it'' None None
     (snd (apply_reply (flow_reply_env 10000) ReplyAlways flow_prompt flow_world)) =
   auto_create (flow_env ''new'' 10001) 1 (Some 9) ''send it'' None None
     (snd (apply_reply (flow_reply_env 10000) ReplyAlways flow_prompt flow_world))"
proof -
  have "fst (apply_reply (flow_reply_env 10000) ReplyAlways flow_prompt flow_world) \<noteq> ALREADY_PROCESSED"
    by (simp add: apply_always_def claim_or_log_duplicate_def claim_prompt_def update_prompts_def sql_count_def flow_defs
        ALREADY_PROCESSED_def)
  moreover have "get_str ''sender_key'' flow_snapshot = Some (cp_sender_key flow_prompt)" by code_simp
  moreover have "cp_user_id flow_prompt = 1" "cp_platform flow_prompt = ''sms''" by (simp_all add: flow_prompt_def)
  moreover have "ce_others (flow_reply_env 10000) k v = v" for k v by (simp add: flow_reply_env_def)
  ultimately show ?thesis
    using reply_decides_next [of "flow_reply_env 10000" ReplyAlways flow_prompt flow_world _ _ flow_snapshot
        "flow_env ''new'' 10001" "''Ann''" "Some 9" "''send it''" None None, OF prod.collapse [symmetric]]
    by simp
qed

theorem model_answers_confined_witness:
  "set (on_events flow_ont) - set (get_active_and_proposed_trackable_events 1 flow_ont) \<subseteq>
     set (on_events (cw_ont (snd (run_commitment_detection (flow_env ''earlier'' 20000) 1 flow_snapshot flow_world)))) \<and>
   set (on_events (cw_ont (snd (run_commitment_detection (flow_env ''earlier'' 20000) 1 flow_snapshot flow_world)))) -
     set (on_events flow_ont) \<subseteq> {e. oe_user_id e = 1}"
  using model_answers_confined [of "flow_env ''earlier'' 20000" flow_world
      "snd (run_commitment_detection (flow_env ''earlier'' 20000) 1 flow_snapshot flow_world)" 1 flow_snapshot]
  by (simp add: flow_env_def flow_world_def events_numbered_def flow_ont_def flow_event_def)

theorem deadline_not_pulled_forward_witness:
  "oe_due_at (hd (on_events (cw_ont (snd (run_commitment_detection (flow_env ''earlier'' 20000) 1 flow_snapshot flow_world)))))
     = Some 80000 \<and>
   (\<exists>d'. oe_due_at (hd (on_events (cw_ont
       (snd (run_commitment_detection (flow_env ''earlier'' 20000) 1 flow_snapshot flow_world))))) = Some d' \<and> 90000 - 21600 \<le> d')"
proof
  let ?w = "snd (run_commitment_detection (flow_env ''earlier'' 20000) 1 flow_snapshot flow_world)"
  let ?e = "hd (on_events (cw_ont ?w))"
  show "oe_due_at ?e = Some 80000" by code_simp
  have id: "oe_id ?e = 1" and ne: "on_events (cw_ont ?w) \<noteq> []" by code_simp+
  show "\<exists>d'. oe_due_at ?e = Some d' \<and> 90000 - 21600 \<le> d'"
  proof (rule deadline_not_pulled_forward [of "flow_env ''earlier'' 20000" flow_world flow_event])
    show "?e \<in> set (on_events (cw_ont ?w))" using ne by (rule hd_in_set)
    show "oe_id ?e = oe_id flow_event" unfolding id by (simp add: flow_event_def)
  qed (simp_all add: flow_env_def flow_world_def events_numbered_def flow_ont_def flow_event_def)
qed

end
