(* ===== verification/Purge.thy ===== *)
theory Purge
  imports Tables Messages "HOL-Library.List_Lexorder" "HOL-Library.Char_ord"
begin

text \<open>
  The ledger of the room purges, \<^verbatim>\<open>repositories/tuwunel_cleanup_repository.rs\<close>: its rows and the sections on censuses and
  on the history of rooms. A message that arrives through a bridge is copied into the ontology store, then
  deleted from the Matrix server. A row of \<open>pu_events\<close> follows one Matrix event: it blocks the purge of its room
  while the event is being stored, and is a boundary up to which the room may be purged afterwards. A row of
  \<open>pu_history\<close> asks to purge a room up to a time.

  The clock of an operation is an argument. A connection is always available.
\<close>

section \<open>Rows\<close>

record cleanup_event =
  te_id :: i32
  te_user_id :: i32
  te_ontology_message_id :: i64
  te_service :: string
  te_room_id :: string
  te_event_id :: string
  te_delete_media :: bool
  te_commands_expected :: i32
  te_commands_accepted :: i32
  te_attempt_count :: i32
  te_status :: string
  te_last_command_kind :: "string option"
  te_last_admin_room_id :: "string option"
  te_last_admin_command_event_id :: "string option"
  te_last_error :: "string option"
  te_enqueued_at :: i32
  te_last_attempted_at :: "i32 option"
  te_completed_at :: "i32 option"
  te_updated_at :: i32

text \<open>A row of the table of room purges; the struct of the code has the columns its queries select.\<close>

record room_history_purge =
  rh_id :: i32
  rh_user_id :: i32
  rh_service :: string
  rh_room_id :: string
  rh_cutoff_ts :: i32
  rh_submitted_cutoff_ts :: "i32 option"
  rh_purge_id :: "string option"
  rh_status :: string
  rh_attempt_count :: i32
  rh_last_error :: "string option"
  rh_last_discovered_at :: i32
  rh_last_attempted_at :: "i32 option"
  rh_completed_at :: "i32 option"
  rh_updated_at :: i32

record portal_census_scan =
  sc_user_id :: i32
  sc_service :: string
  sc_status :: string
  sc_room_count :: i32
  sc_room_cursor :: "string option"
  sc_last_error :: "string option"
  sc_last_scanned_at :: i32

record pg_bridge =
  br_id :: i32
  br_user_id :: i32
  br_bridge_type :: string
  br_status :: string
  br_room_id :: "string option"
  br_data :: "string option"
  br_created_at :: "i32 option"
  br_last_seen_online :: "i32 option"
  br_last_native_activity_at :: "i32 option"
  br_native_activity_reminded_at :: "i32 option"

record historical_backfill_candidate =
  hb_ontology_message_id :: i64
  hb_user_id :: i32
  hb_room_id :: string
  hb_service :: string
  hb_event_id :: string
  hb_created_at :: i32

record portal_census_target =
  ct_user_id :: i32
  ct_service :: string
  ct_room_cursor :: "string option"

record purge_store =
  pu_events :: "cleanup_event table"
  pu_next_event_id :: i32
  pu_history :: "room_history_purge table"
  pu_next_history_id :: i32
  pu_scans :: "portal_census_scan table"
  pu_bridges :: "pg_bridge table"

definition STATUS_PENDING_PURGE :: string where "STATUS_PENDING_PURGE = ''pending_purge''"
definition STATUS_INGESTING :: string where "STATUS_INGESTING = ''ingesting''"
definition STATUS_INGEST_FAILED :: string where "STATUS_INGEST_FAILED = ''ingest_failed''"
definition STATUS_PURGE_ATTEMPTING :: string where "STATUS_PURGE_ATTEMPTING = ''purge_attempting''"
definition STATUS_PURGE_SUBMITTED :: string where "STATUS_PURGE_SUBMITTED = ''purge_submitted''"
definition STATUS_PURGE_RETRYING :: string where "STATUS_PURGE_RETRYING = ''purge_retrying''"
definition STATUS_PURGE_SUCCEEDED :: string where "STATUS_PURGE_SUCCEEDED = ''purge_succeeded''"
definition STATUS_PURGE_EXHAUSTED :: string where "STATUS_PURGE_EXHAUSTED = ''purge_exhausted''"
definition STATUS_BACKFILL_AUDIT_VERIFIED :: string where "STATUS_BACKFILL_AUDIT_VERIFIED = ''backfill_audit_verified''"
definition STATUS_BACKFILL_AUDIT_BLOCKED :: string where "STATUS_BACKFILL_AUDIT_BLOCKED = ''backfill_audit_blocked''"

definition ROOM_HISTORY_PENDING :: string where "ROOM_HISTORY_PENDING = ''pending''"
definition ROOM_HISTORY_ATTEMPTING :: string where "ROOM_HISTORY_ATTEMPTING = ''attempting''"
definition ROOM_HISTORY_SUBMITTED :: string where "ROOM_HISTORY_SUBMITTED = ''submitted''"
definition ROOM_HISTORY_RETRYING :: string where "ROOM_HISTORY_RETRYING = ''retrying''"
definition ROOM_HISTORY_SUCCEEDED :: string where "ROOM_HISTORY_SUCCEEDED = ''succeeded''"
definition ROOM_HISTORY_EXHAUSTED :: string where "ROOM_HISTORY_EXHAUSTED = ''exhausted''"

lemmas purge_statuses = STATUS_PENDING_PURGE_def STATUS_INGESTING_def STATUS_INGEST_FAILED_def
  STATUS_PURGE_ATTEMPTING_def STATUS_PURGE_SUBMITTED_def STATUS_PURGE_RETRYING_def STATUS_PURGE_SUCCEEDED_def
  STATUS_PURGE_EXHAUSTED_def STATUS_BACKFILL_AUDIT_VERIFIED_def STATUS_BACKFILL_AUDIT_BLOCKED_def

lemmas room_history_statuses = ROOM_HISTORY_PENDING_def ROOM_HISTORY_ATTEMPTING_def ROOM_HISTORY_SUBMITTED_def
  ROOM_HISTORY_RETRYING_def ROOM_HISTORY_SUCCEEDED_def ROOM_HISTORY_EXHAUSTED_def

definition MAX_ERROR_LEN :: nat where "MAX_ERROR_LEN = 4000"
definition MAX_DUE_SCAN :: nat where "MAX_DUE_SCAN = 5000"

definition trim_error :: "string \<Rightarrow> string" where
  "trim_error error = take_chars MAX_ERROR_LEN error"

text \<open>\<^verbatim>\<open>DISTINCT ON\<close> of ordered rows, and the filter \<^verbatim>\<open>seen_rooms.insert(..)\<close>: the first row of every key.\<close>

fun first_per :: "('r \<Rightarrow> 'k) \<Rightarrow> 'k list \<Rightarrow> 'r list \<Rightarrow> 'r list" where
  "first_per key seen [] = []"
| "first_per key seen (r # rs) =
     (if key r \<in> set seen then first_per key seen rs else r # first_per key (key r # seen) rs)"

section \<open>Rooms found by a census\<close>

definition update_history ::
  "(room_history_purge \<Rightarrow> bool) \<Rightarrow> (room_history_purge \<Rightarrow> room_history_purge) \<Rightarrow> purge_store \<Rightarrow> purge_store" where
  "update_history p f s = s\<lparr>pu_history := sql_update p f (pu_history s)\<rparr>"

definition list_portal_census_targets :: "nat \<Rightarrow> purge_store \<Rightarrow> portal_census_target list" where
  "list_portal_census_targets limit s =
     (let connected = sql_select (\<lambda>b. br_status b = ''connected'' \<and>
            br_bridge_type b \<in> {''whatsapp'', ''signal'', ''telegram''}) (pu_bridges s);
          latest = first_per (\<lambda>b. (br_user_id b, br_bridge_type b)) [] (order_desc br_id connected);
          scan_of = (\<lambda>b. sql_first (\<lambda>c. sc_user_id c = br_user_id b \<and> sc_service c = br_bridge_type b) (pu_scans s))
      in take limit
           (map (\<lambda>b. \<lparr>ct_user_id = br_user_id b, ct_service = br_bridge_type b,
                       ct_room_cursor = Option.bind (scan_of b) sc_room_cursor\<rparr>)
             (order_asc (\<lambda>b. ((case scan_of b of None \<Rightarrow> 0 | Some c \<Rightarrow> sc_last_scanned_at c), br_user_id b, br_bridge_type b))
                latest)))"

definition record_portal_census_scan :: "portal_census_scan \<Rightarrow> purge_store \<Rightarrow> purge_store" where
  "record_portal_census_scan c s =
     (let row = c\<lparr>sc_last_error := map_option trim_error (sc_last_error c)\<rparr>;
          same = (\<lambda>r. sc_user_id r = sc_user_id c \<and> sc_service r = sc_service c)
      in if list_ex same (pu_scans s) then s\<lparr>pu_scans := sql_update same (\<lambda>_. row) (pu_scans s)\<rparr>
         else s\<lparr>pu_scans := pu_scans s @ [row]\<rparr>)"

definition same_history :: "i32 \<Rightarrow> string \<Rightarrow> string \<Rightarrow> room_history_purge \<Rightarrow> bool" where
  "same_history user_id service room_id r \<longleftrightarrow> rh_user_id r = user_id \<and> rh_service r = service \<and> rh_room_id r = room_id"

definition new_room_history :: "i32 \<Rightarrow> i32 \<Rightarrow> string \<Rightarrow> string \<Rightarrow> i32 \<Rightarrow> i32 \<Rightarrow> room_history_purge" where
  "new_room_history i user_id service room_id cutoff_ts discovered_at =
     \<lparr>rh_id = i, rh_user_id = user_id, rh_service = service, rh_room_id = room_id, rh_cutoff_ts = cutoff_ts,
      rh_submitted_cutoff_ts = None, rh_purge_id = None, rh_status = ROOM_HISTORY_PENDING, rh_attempt_count = 0,
      rh_last_error = None, rh_last_discovered_at = discovered_at, rh_last_attempted_at = None,
      rh_completed_at = None, rh_updated_at = discovered_at\<rparr>"

text \<open>A room that was found again: a submitted purge is left alone, a later cutoff opens the row anew.\<close>

definition rediscovered :: "i32 \<Rightarrow> i32 \<Rightarrow> room_history_purge \<Rightarrow> room_history_purge" where
  "rediscovered cutoff_ts discovered_at r =
     (let submitted = rh_status r = ROOM_HISTORY_SUBMITTED;
          later = (case rh_submitted_cutoff_ts r of None \<Rightarrow> 0 | Some t \<Rightarrow> t) < cutoff_ts
      in r\<lparr>rh_cutoff_ts := (if submitted then rh_cutoff_ts r else max (rh_cutoff_ts r) cutoff_ts),
           rh_status := (if submitted then rh_status r else if later then ROOM_HISTORY_PENDING else rh_status r),
           rh_attempt_count := (if submitted then rh_attempt_count r else if later then 0 else rh_attempt_count r),
           rh_last_error := (if submitted then rh_last_error r else None),
           rh_last_discovered_at := discovered_at, rh_updated_at := discovered_at\<rparr>)"

definition insert_room_history :: "room_history_purge \<Rightarrow> purge_store \<Rightarrow> purge_store" where
  "insert_room_history r s =
     s\<lparr>pu_history := pu_history s @ [r\<lparr>rh_id := pu_next_history_id s\<rparr>], pu_next_history_id := pu_next_history_id s + 1\<rparr>"

definition record_portal_census_room :: "i32 \<Rightarrow> string \<Rightarrow> i32 \<Rightarrow> i32 \<Rightarrow> string \<Rightarrow> purge_store \<Rightarrow> purge_store" where
  "record_portal_census_room user_id service cutoff_ts discovered_at room_id s =
     (if list_ex (same_history user_id service room_id) (pu_history s)
      then (update_history (same_history user_id service room_id) (rediscovered cutoff_ts discovered_at) s)
             \<lparr>pu_next_history_id := pu_next_history_id s + 1\<rparr>
      else insert_room_history (new_room_history 0 user_id service room_id cutoff_ts discovered_at) s)"

definition record_portal_census_rooms ::
  "i32 \<Rightarrow> string \<Rightarrow> string list \<Rightarrow> i32 \<Rightarrow> i32 \<Rightarrow> purge_store \<Rightarrow> nat \<times> purge_store" where
  "record_portal_census_rooms user_id service room_ids cutoff_ts discovered_at s =
     (length room_ids, fold (record_portal_census_room user_id service cutoff_ts discovered_at) room_ids s)"

definition record_server_census_room :: "i32 \<Rightarrow> string \<Rightarrow> i32 \<Rightarrow> i32 \<Rightarrow> string \<Rightarrow> nat \<times> purge_store \<Rightarrow> nat \<times> purge_store" where
  "record_server_census_room user_id service cutoff_ts discovered_at room_id ns =
     (case ns of (n, s) \<Rightarrow>
        if list_ex (same_history user_id service room_id) (pu_history s)
        then (n, s\<lparr>pu_next_history_id := pu_next_history_id s + 1\<rparr>)
        else (n + 1, insert_room_history (new_room_history 0 user_id service room_id cutoff_ts discovered_at) s))"

definition record_server_census_rooms_once ::
  "i32 \<Rightarrow> string \<Rightarrow> string list \<Rightarrow> i32 \<Rightarrow> i32 \<Rightarrow> purge_store \<Rightarrow> nat \<times> purge_store" where
  "record_server_census_rooms_once user_id service room_ids cutoff_ts discovered_at s =
     fold (record_server_census_room user_id service cutoff_ts discovered_at) room_ids (0, s)"

section \<open>Purges of the history of a room\<close>

definition active_room_history_purge_rooms :: "purge_store \<Rightarrow> string set" where
  "active_room_history_purge_rooms s = {rh_room_id r | r. r \<in> set (pu_history s) \<and> rh_status r = ROOM_HISTORY_SUBMITTED}"

lemma active_rooms_code [code]:
  "active_room_history_purge_rooms s =
     set (map rh_room_id (sql_select (\<lambda>r. rh_status r = ROOM_HISTORY_SUBMITTED) (pu_history s)))"
  by (auto simp: active_room_history_purge_rooms_def)

definition history_blocked :: "string \<Rightarrow> purge_store \<Rightarrow> bool" where
  "history_blocked room_id s \<longleftrightarrow>
     list_ex (\<lambda>r. rh_room_id r = room_id \<and> rh_status r = ROOM_HISTORY_SUBMITTED) (pu_history s) \<or>
     list_ex (\<lambda>e. te_room_id e = room_id \<and>
        te_status e \<in> {STATUS_INGESTING, STATUS_INGEST_FAILED, STATUS_PURGE_ATTEMPTING, STATUS_PURGE_SUBMITTED}) (pu_events s)"

definition list_due_room_history_purges :: "nat \<Rightarrow> purge_store \<Rightarrow> room_history_purge list" where
  "list_due_room_history_purges limit s =
     take limit (order_asc rh_updated_at
       (first_per rh_room_id []
         (order_asc (\<lambda>r. (- rh_cutoff_ts r, rh_updated_at r))
           (sql_select (\<lambda>r. rh_status r \<in> {ROOM_HISTORY_PENDING, ROOM_HISTORY_ATTEMPTING, ROOM_HISTORY_RETRYING} \<and>
              \<not> history_blocked (rh_room_id r) s) (pu_history s)))))"

definition list_submitted_room_history_purges :: "nat \<Rightarrow> purge_store \<Rightarrow> room_history_purge list" where
  "list_submitted_room_history_purges limit s =
     take limit (order_asc rh_updated_at (sql_select (\<lambda>r. rh_status r = ROOM_HISTORY_SUBMITTED) (pu_history s)))"

definition count_submitted_purge_tasks :: "purge_store \<Rightarrow> i64" where
  "count_submitted_purge_tasks s =
     int (sql_count (\<lambda>e. te_status e = STATUS_PURGE_SUBMITTED) (pu_events s)) +
     int (sql_count (\<lambda>r. rh_status r = ROOM_HISTORY_SUBMITTED) (pu_history s))"

definition record_room_history_attempt :: "i32 \<Rightarrow> i32 \<Rightarrow> i32 \<Rightarrow> purge_store \<Rightarrow> purge_store" where
  "record_room_history_attempt i attempt now =
     update_history (\<lambda>r. rh_id r = i)
       (\<lambda>r. r\<lparr>rh_status := ROOM_HISTORY_ATTEMPTING, rh_attempt_count := attempt, rh_last_attempted_at := Some now,
               rh_updated_at := now\<rparr>)"

definition record_room_history_submitted :: "i32 \<Rightarrow> i32 \<Rightarrow> i32 \<Rightarrow> string \<Rightarrow> i32 \<Rightarrow> purge_store \<Rightarrow> purge_store" where
  "record_room_history_submitted i attempt cutoff_ts purge_id now =
     update_history (\<lambda>r. rh_id r = i)
       (\<lambda>r. r\<lparr>rh_status := ROOM_HISTORY_SUBMITTED, rh_attempt_count := attempt, rh_submitted_cutoff_ts := Some cutoff_ts,
               rh_purge_id := Some purge_id, rh_last_error := None, rh_updated_at := now\<rparr>)"

definition record_room_history_succeeded :: "i32 \<Rightarrow> i32 \<Rightarrow> purge_store \<Rightarrow> purge_store" where
  "record_room_history_succeeded i now s =
     (case sql_first (\<lambda>r. rh_id r = i) (pu_history s) of
        None \<Rightarrow> s
      | Some completed \<Rightarrow>
          update_history (\<lambda>r. rh_room_id r = rh_room_id completed \<and>
              rh_cutoff_ts r \<le> (case rh_submitted_cutoff_ts completed of None \<Rightarrow> 0 | Some t \<Rightarrow> t))
            (\<lambda>r. r\<lparr>rh_status := ROOM_HISTORY_SUCCEEDED, rh_purge_id := None, rh_last_error := None,
                    rh_completed_at := Some now, rh_updated_at := now\<rparr>) s)"

definition record_room_history_noop_succeeded :: "i32 \<Rightarrow> i32 \<Rightarrow> i32 \<Rightarrow> i32 \<Rightarrow> purge_store \<Rightarrow> purge_store" where
  "record_room_history_noop_succeeded i attempt cutoff_ts now s =
     (case sql_first (\<lambda>r. rh_id r = i) (pu_history s) of
        None \<Rightarrow> s
      | Some completed \<Rightarrow>
          update_history (\<lambda>r. rh_room_id r = rh_room_id completed \<and> rh_cutoff_ts r \<le> cutoff_ts)
            (\<lambda>r. r\<lparr>rh_status := ROOM_HISTORY_SUCCEEDED, rh_attempt_count := max (rh_attempt_count r) attempt,
                    rh_submitted_cutoff_ts :=
                      Some (max (case rh_submitted_cutoff_ts r of None \<Rightarrow> 0 | Some t \<Rightarrow> t) cutoff_ts),
                    rh_purge_id := None, rh_last_error := None, rh_completed_at := Some now, rh_updated_at := now\<rparr>) s)"

definition record_room_history_failure :: "i32 \<Rightarrow> i32 \<Rightarrow> i32 \<Rightarrow> string \<Rightarrow> i32 \<Rightarrow> purge_store \<Rightarrow> purge_store" where
  "record_room_history_failure i attempt max_attempts error now =
     (let status = (if max_attempts \<le> attempt then ROOM_HISTORY_EXHAUSTED else ROOM_HISTORY_RETRYING)
      in update_history (\<lambda>r. rh_id r = i)
           (\<lambda>r. r\<lparr>rh_status := status, rh_attempt_count := attempt, rh_purge_id := None,
                   rh_last_error := Some (trim_error error),
                   rh_completed_at := (if status = ROOM_HISTORY_EXHAUSTED then Some now else None),
                   rh_updated_at := now\<rparr>))"

definition requeue_exhausted_room_history :: "i32 \<Rightarrow> nat \<Rightarrow> i32 \<Rightarrow> purge_store \<Rightarrow> nat \<times> purge_store" where
  "requeue_exhausted_room_history cutoff limit now s =
     (let ids = map rh_id (take limit (order_asc rh_updated_at
            (sql_select (\<lambda>r. rh_status r = ROOM_HISTORY_EXHAUSTED \<and> rh_updated_at r \<le> cutoff) (pu_history s))))
      in (sql_count (\<lambda>r. rh_id r \<in> set ids) (pu_history s),
          update_history (\<lambda>r. rh_id r \<in> set ids)
            (\<lambda>r. r\<lparr>rh_status := ROOM_HISTORY_RETRYING, rh_attempt_count := 0, rh_purge_id := None,
                    rh_last_attempted_at := None, rh_completed_at := None, rh_updated_at := now\<rparr>) s))"

end
