(* ===== verification/PurgeEvents.thy ===== *)
theory PurgeEvents
  imports Purge
begin

text \<open>
  The section on events of \<^verbatim>\<open>repositories/tuwunel_cleanup_repository.rs\<close>: how a row is recorded, audited and made a boundary,
  which boundaries are due, and how an attempt to purge up to one ends.
\<close>

section \<open>Events\<close>

definition update_cleanup ::
  "(cleanup_event \<Rightarrow> bool) \<Rightarrow> (cleanup_event \<Rightarrow> cleanup_event) \<Rightarrow> purge_store \<Rightarrow> purge_store" where
  "update_cleanup p f s = s\<lparr>pu_events := sql_update p f (pu_events s)\<rparr>"

definition cleanup_of :: "string \<Rightarrow> cleanup_event \<Rightarrow> bool" where
  "cleanup_of event_id e \<longleftrightarrow> te_event_id e = event_id"

definition new_cleanup_event ::
  "i32 \<Rightarrow> i64 \<Rightarrow> string \<Rightarrow> string \<Rightarrow> string \<Rightarrow> bool \<Rightarrow> i32 \<Rightarrow> string \<Rightarrow> string option \<Rightarrow> string option \<Rightarrow> i32 option \<Rightarrow> i32
     \<Rightarrow> cleanup_event" where
  "new_cleanup_event user_id ontology_message_id service room_id event_id delete_media expected status kind error
     completed_at now =
     \<lparr>te_id = 0, te_user_id = user_id, te_ontology_message_id = ontology_message_id, te_service = service,
      te_room_id = room_id, te_event_id = event_id, te_delete_media = delete_media, te_commands_expected = expected,
      te_commands_accepted = 0, te_attempt_count = 0, te_status = status, te_last_command_kind = kind,
      te_last_admin_room_id = None, te_last_admin_command_event_id = None, te_last_error = error,
      te_enqueued_at = now, te_last_attempted_at = None, te_completed_at = completed_at, te_updated_at = now\<rparr>"

text \<open>\<^verbatim>\<open>ON CONFLICT (event_id) DO NOTHING\<close>: whether a row was inserted.\<close>

definition insert_cleanup :: "cleanup_event \<Rightarrow> purge_store \<Rightarrow> bool \<times> purge_store" where
  "insert_cleanup e s =
     (let s' = s\<lparr>pu_next_event_id := pu_next_event_id s + 1\<rparr>
      in if list_ex (cleanup_of (te_event_id e)) (pu_events s) then (False, s')
         else (True, s'\<lparr>pu_events := pu_events s @ [e\<lparr>te_id := pu_next_event_id s\<rparr>]\<rparr>))"

definition record_ingesting :: "i32 \<Rightarrow> string \<Rightarrow> string \<Rightarrow> string \<Rightarrow> bool \<Rightarrow> i32 \<Rightarrow> purge_store \<Rightarrow> purge_store" where
  "record_ingesting user_id service room_id event_id delete_media now s =
     snd (insert_cleanup
       (new_cleanup_event user_id 0 service room_id event_id delete_media 1 STATUS_INGESTING None None None now) s)"

definition record_enqueued ::
  "i32 \<Rightarrow> i64 \<Rightarrow> string \<Rightarrow> string \<Rightarrow> string \<Rightarrow> bool \<Rightarrow> i32 \<Rightarrow> purge_store \<Rightarrow> purge_store" where
  "record_enqueued user_id ontology_message_id service room_id event_id delete_media now s =
     (if sql_count (cleanup_of event_id) (pu_events s) = 0
      then snd (insert_cleanup
        (new_cleanup_event user_id ontology_message_id service room_id event_id delete_media 1 STATUS_PENDING_PURGE
           None None None now) s)
      else update_cleanup (cleanup_of event_id)
        (\<lambda>e. e\<lparr>te_ontology_message_id := ontology_message_id, te_delete_media := delete_media,
                te_commands_expected := 1, te_commands_accepted := 0, te_attempt_count := 0,
                te_status := STATUS_PENDING_PURGE, te_last_error := None, te_completed_at := None,
                te_updated_at := now\<rparr>) s)"

definition record_ingest_failed :: "string \<Rightarrow> string \<Rightarrow> i32 \<Rightarrow> purge_store \<Rightarrow> purge_store" where
  "record_ingest_failed event_id error now =
     update_cleanup (cleanup_of event_id)
       (\<lambda>e. e\<lparr>te_status := STATUS_INGEST_FAILED, te_last_error := Some (trim_error error), te_updated_at := now\<rparr>)"

definition record_intentionally_discarded ::
  "i32 \<Rightarrow> string \<Rightarrow> string \<Rightarrow> string \<Rightarrow> string \<Rightarrow> i32 \<Rightarrow> purge_store \<Rightarrow> bool \<times> purge_store" where
  "record_intentionally_discarded user_id service room_id event_id reason now =
     insert_cleanup
       (new_cleanup_event user_id 0 service room_id event_id True 1 STATUS_PENDING_PURGE (Some ''intentional_discard'')
          (Some (trim_error (''intentional discard: '' @ reason))) None now)"

definition record_unproven_blocker ::
  "i32 \<Rightarrow> string \<Rightarrow> string \<Rightarrow> string \<Rightarrow> string \<Rightarrow> i32 \<Rightarrow> purge_store \<Rightarrow> bool \<times> purge_store" where
  "record_unproven_blocker user_id service room_id event_id reason now =
     insert_cleanup
       (new_cleanup_event user_id 0 service room_id event_id False 1 STATUS_INGEST_FAILED (Some ''retained_unproven'')
          (Some (trim_error (''retained without ontology proof: '' @ reason))) None now)"

definition blocks_room :: "string \<Rightarrow> cleanup_event \<Rightarrow> bool" where
  "blocks_room room_id e \<longleftrightarrow> te_room_id e = room_id \<and> te_status e \<in> {STATUS_INGESTING, STATUS_INGEST_FAILED}"

definition list_historical_backfill_candidates ::
  "i32 \<Rightarrow> i32 \<Rightarrow> nat \<Rightarrow> message_store \<Rightarrow> purge_store \<Rightarrow> historical_backfill_candidate list" where
  "list_historical_backfill_candidates boundary_cutoff audit_recheck_cutoff limit ms s =
     (let latest = first_per om_room_id []
            (order_desc (\<lambda>m. (om_created_at m, om_id m))
              (sql_select (\<lambda>m. om_matrix_event_id m \<noteq> None \<and> om_created_at m \<le> boundary_cutoff) (ms_messages ms)));
          cleanup = (\<lambda>m. sql_first (\<lambda>e. Some (te_event_id e) = om_matrix_event_id m) (pu_events s));
          open_candidates = filter (\<lambda>m.
            (case cleanup m of
               None \<Rightarrow> True
             | Some e \<Rightarrow> te_status e \<in> {STATUS_BACKFILL_AUDIT_VERIFIED, STATUS_BACKFILL_AUDIT_BLOCKED} \<and>
                         te_updated_at e \<le> audit_recheck_cutoff) \<and>
            \<not> list_ex (blocks_room (om_room_id m)) (pu_events s)) latest
      in map (\<lambda>m. \<lparr>hb_ontology_message_id = om_id m, hb_user_id = om_user_id m, hb_room_id = om_room_id m,
                    hb_service = om_platform m, hb_event_id = the (om_matrix_event_id m), hb_created_at = om_created_at m\<rparr>)
           (take limit (order_asc (\<lambda>m. (cleanup m \<noteq> None,
              (case cleanup m of None \<Rightarrow> 0 | Some e \<Rightarrow> te_updated_at e), om_id m)) open_candidates)))"

definition record_historical_backfill_audit ::
  "historical_backfill_candidate \<Rightarrow> bool \<Rightarrow> string \<Rightarrow> i32 \<Rightarrow> purge_store \<Rightarrow> purge_store" where
  "record_historical_backfill_audit c verified summary now s =
     (let status = (if verified then STATUS_BACKFILL_AUDIT_VERIFIED else STATUS_BACKFILL_AUDIT_BLOCKED);
          kind = Some ''historical_backfill_audit''
      in (case insert_cleanup
             (new_cleanup_event (hb_user_id c) (hb_ontology_message_id c) (hb_service c) (hb_room_id c) (hb_event_id c)
                True 0 status kind (Some (trim_error summary)) (Some now) now) s of
            (True, s') \<Rightarrow> s'
          | (False, s') \<Rightarrow>
              update_cleanup (cleanup_of (hb_event_id c))
                (\<lambda>e. e\<lparr>te_ontology_message_id := hb_ontology_message_id c, te_status := status,
                        te_commands_expected := 0, te_commands_accepted := 0, te_attempt_count := 0,
                        te_last_command_kind := kind, te_last_error := Some (trim_error summary),
                        te_completed_at := Some now, te_updated_at := now\<rparr>) s'))"

definition unproven_event_ids :: "string list \<Rightarrow> message_store \<Rightarrow> purge_store \<Rightarrow> string list" where
  "unproven_event_ids event_ids ms s =
     filter (\<lambda>i. \<not> list_ex (\<lambda>m. om_matrix_event_id m = Some i) (ms_messages ms) \<and>
                 \<not> list_ex (\<lambda>e. te_event_id e = i \<and>
                      (0 < te_ontology_message_id e \<or> te_last_command_kind e = Some ''intentional_discard'')) (pu_events s))
       event_ids"

definition ontology_message_created_at :: "i64 \<Rightarrow> message_store \<Rightarrow> i32 option" where
  "ontology_message_created_at i ms = map_option om_created_at (sql_first (\<lambda>m. om_id m = i) (ms_messages ms))"

definition enqueue_audited_historical_backfill ::
  "historical_backfill_candidate \<Rightarrow> string \<Rightarrow> string \<Rightarrow> string \<Rightarrow> i32 \<Rightarrow> purge_store \<Rightarrow> (string + unit) \<times> purge_store" where
  "enqueue_audited_historical_backfill c required_status command_kind audit_summary now s =
     (let p = (\<lambda>e. cleanup_of (hb_event_id c) e \<and> te_status e = required_status);
          s' = update_cleanup p
            (\<lambda>e. e\<lparr>te_ontology_message_id := hb_ontology_message_id c, te_delete_media := True,
                    te_commands_expected := 1, te_commands_accepted := 0, te_attempt_count := 0,
                    te_status := STATUS_PENDING_PURGE, te_last_command_kind := Some command_kind,
                    te_last_error := Some (trim_error audit_summary), te_enqueued_at := now,
                    te_last_attempted_at := None, te_completed_at := None, te_updated_at := now\<rparr>) s
      in (if sql_count p (pu_events s) \<noteq> 1
          then Inl (''historical boundary '' @ hb_event_id c @ '' was not in required audit state '' @ required_status)
          else Inr (), s'))"

definition enqueue_verified_historical_backfill ::
  "historical_backfill_candidate \<Rightarrow> string \<Rightarrow> i32 \<Rightarrow> purge_store \<Rightarrow> (string + unit) \<times> purge_store" where
  "enqueue_verified_historical_backfill c =
     enqueue_audited_historical_backfill c STATUS_BACKFILL_AUDIT_VERIFIED ''historical_backfill_verified''"

definition enqueue_forced_historical_backfill ::
  "historical_backfill_candidate \<Rightarrow> string \<Rightarrow> i32 \<Rightarrow> purge_store \<Rightarrow> (string + unit) \<times> purge_store" where
  "enqueue_forced_historical_backfill c =
     enqueue_audited_historical_backfill c STATUS_BACKFILL_AUDIT_BLOCKED ''historical_backfill_forced_unverified''"

definition ingest_blocker :: "cleanup_event \<Rightarrow> bool" where
  "ingest_blocker e \<longleftrightarrow> te_status e \<in> {STATUS_INGESTING, STATUS_INGEST_FAILED}"

definition recover_blocker ::
  "message_store \<Rightarrow> i32 \<Rightarrow> i32 \<times> string \<Rightarrow> nat \<times> purge_store \<Rightarrow> nat \<times> purge_store" where
  "recover_blocker ms now blocker ns =
     (case (blocker, ns) of ((i, event_id), (n, s)) \<Rightarrow>
        (case map_of (rev (map (\<lambda>m. (om_matrix_event_id m, om_id m)) (ms_messages ms))) (Some event_id) of
           None \<Rightarrow> (n, s)
         | Some ontology_message_id \<Rightarrow>
             let p = (\<lambda>e. te_id e = i \<and> ingest_blocker e)
             in (n + sql_count p (pu_events s),
                 update_cleanup p
                   (\<lambda>e. e\<lparr>te_ontology_message_id := ontology_message_id, te_status := STATUS_PENDING_PURGE,
                           te_attempt_count := 0, te_last_error := None, te_enqueued_at := now, te_updated_at := now\<rparr>) s)))"

definition recover_stale_ingest_blockers ::
  "i32 \<Rightarrow> nat \<Rightarrow> i32 \<Rightarrow> message_store \<Rightarrow> purge_store \<Rightarrow> nat \<times> purge_store" where
  "recover_stale_ingest_blockers cutoff limit now ms s =
     (let blockers = take limit (order_asc te_updated_at
            (sql_select (\<lambda>e. ingest_blocker e \<and> te_updated_at e \<le> cutoff) (pu_events s)))
      in fold (recover_blocker ms now) (map (\<lambda>e. (te_id e, te_event_id e)) blockers) (0, s))"

definition requeue_exhausted :: "i32 \<Rightarrow> nat \<Rightarrow> i32 \<Rightarrow> purge_store \<Rightarrow> nat \<times> purge_store" where
  "requeue_exhausted cutoff limit now s =
     (let ids = map te_id (take limit (order_asc te_updated_at
            (sql_select (\<lambda>e. te_status e = STATUS_PURGE_EXHAUSTED \<and> te_updated_at e \<le> cutoff) (pu_events s))))
      in (sql_count (\<lambda>e. te_id e \<in> set ids) (pu_events s),
          update_cleanup (\<lambda>e. te_id e \<in> set ids)
            (\<lambda>e. e\<lparr>te_status := STATUS_PURGE_RETRYING, te_attempt_count := 0, te_last_attempted_at := None,
                    te_completed_at := None, te_updated_at := now\<rparr>) s))"

definition stale_blocker_counts :: "i32 \<Rightarrow> purge_store \<Rightarrow> (string \<times> i64) list" where
  "stale_blocker_counts cutoff s =
     (let stale = sql_select (\<lambda>e. te_status e \<in> {STATUS_INGESTING, STATUS_INGEST_FAILED, STATUS_PURGE_EXHAUSTED} \<and>
            te_updated_at e \<le> cutoff) (pu_events s)
      in map (\<lambda>st. (st, int (sql_count (\<lambda>e. te_status e = st) stale))) (remdups (map te_status stale)))"

text \<open>What keeps the events of a room from being a boundary.\<close>

definition room_blocked :: "string \<Rightarrow> purge_store \<Rightarrow> bool" where
  "room_blocked room_id s \<longleftrightarrow>
     list_ex (\<lambda>e. te_room_id e = room_id \<and>
       te_status e \<in> {STATUS_INGESTING, STATUS_INGEST_FAILED, STATUS_PURGE_SUBMITTED}) (pu_events s) \<or>
     room_id \<in> active_room_history_purge_rooms s"

definition boundary_due :: "i32 \<Rightarrow> cleanup_event \<Rightarrow> bool" where
  "boundary_due cutoff e \<longleftrightarrow>
     te_status e \<in> {STATUS_PENDING_PURGE, STATUS_PURGE_ATTEMPTING, STATUS_PURGE_RETRYING} \<and> te_enqueued_at e \<le> cutoff"

definition list_due_room_boundaries :: "i32 \<Rightarrow> nat \<Rightarrow> purge_store \<Rightarrow> cleanup_event list" where
  "list_due_room_boundaries cutoff limit s =
     (let candidates = take MAX_DUE_SCAN (order_desc te_enqueued_at (sql_select (boundary_due cutoff) (pu_events s)))
      in take limit (first_per te_room_id [] (filter (\<lambda>e. \<not> room_blocked (te_room_id e) s) candidates)))"

definition list_submitted :: "nat \<Rightarrow> purge_store \<Rightarrow> cleanup_event list" where
  "list_submitted limit s =
     take limit (order_asc te_updated_at (sql_select (\<lambda>e. te_status e = STATUS_PURGE_SUBMITTED) (pu_events s)))"

definition has_newer_successful_boundary :: "string \<Rightarrow> i64 \<Rightarrow> purge_store \<Rightarrow> bool" where
  "has_newer_successful_boundary room_id ontology_message_id s =
     list_ex (\<lambda>e. te_room_id e = room_id \<and> te_status e = STATUS_PURGE_SUCCEEDED \<and>
       ontology_message_id < te_ontology_message_id e) (pu_events s)"

definition record_attempt :: "string \<Rightarrow> i32 \<Rightarrow> i32 \<Rightarrow> purge_store \<Rightarrow> purge_store" where
  "record_attempt event_id attempt now =
     update_cleanup (cleanup_of event_id)
       (\<lambda>e. e\<lparr>te_attempt_count := attempt, te_status := STATUS_PURGE_ATTEMPTING, te_last_attempted_at := Some now,
               te_updated_at := now\<rparr>)"

definition record_submitted :: "string \<Rightarrow> string \<Rightarrow> i32 \<Rightarrow> purge_store \<Rightarrow> purge_store" where
  "record_submitted event_id purge_id now =
     update_cleanup (cleanup_of event_id)
       (\<lambda>e. e\<lparr>te_status := STATUS_PURGE_SUBMITTED, te_last_command_kind := Some ''purge_history'',
               te_last_admin_command_event_id := Some purge_id, te_last_error := None, te_updated_at := now\<rparr>)"

definition record_failure :: "string \<Rightarrow> i32 \<Rightarrow> string \<Rightarrow> string \<Rightarrow> bool \<Rightarrow> i32 \<Rightarrow> purge_store \<Rightarrow> purge_store" where
  "record_failure event_id attempt status error completed now =
     update_cleanup (cleanup_of event_id)
       (\<lambda>e. e\<lparr>te_attempt_count := attempt, te_status := status, te_last_error := Some (trim_error error),
               te_completed_at := (if completed then Some now else None), te_updated_at := now\<rparr>)"

definition record_retrying :: "string \<Rightarrow> i32 \<Rightarrow> string \<Rightarrow> i32 \<Rightarrow> purge_store \<Rightarrow> purge_store" where
  "record_retrying event_id attempt error = record_failure event_id attempt STATUS_PURGE_RETRYING error False"

definition record_exhausted :: "string \<Rightarrow> i32 \<Rightarrow> string \<Rightarrow> i32 \<Rightarrow> purge_store \<Rightarrow> purge_store" where
  "record_exhausted event_id attempt error = record_failure event_id attempt STATUS_PURGE_EXHAUSTED error True"

definition purge_open :: "cleanup_event \<Rightarrow> bool" where
  "purge_open e \<longleftrightarrow>
     te_status e \<in> {STATUS_PENDING_PURGE, STATUS_PURGE_ATTEMPTING, STATUS_PURGE_SUBMITTED, STATUS_PURGE_RETRYING}"

definition record_room_succeeded_through :: "string \<Rightarrow> i32 \<Rightarrow> i32 \<Rightarrow> purge_store \<Rightarrow> nat \<times> purge_store" where
  "record_room_succeeded_through room_id enqueued_at now s =
     (let p = (\<lambda>e. te_room_id e = room_id \<and> te_enqueued_at e \<le> enqueued_at \<and> purge_open e)
      in (sql_count p (pu_events s),
          update_cleanup p
            (\<lambda>e. e\<lparr>te_status := STATUS_PURGE_SUCCEEDED, te_commands_accepted := te_commands_expected e,
                    te_last_error := None, te_completed_at := Some now, te_updated_at := now\<rparr>) s))"

end
