(* ===== verification/PurgeWorker.thy ===== *)
theory PurgeWorker
  imports PurgeEvents Json
begin

text \<open>
  The worker that purges stored Matrix events from the homeserver, \<^verbatim>\<open>utils/tuwunel_event_cleanup.rs\<close>. A cycle lifts
  blockers whose message is in the ontology after all, looks for rooms to purge (an audit of
  old boundaries, a census of the rooms of the bridges and one of the whole server), polls the purges that were
  submitted and submits new ones as far as slots are free.

  The homeserver, the Matrix sessions and the reading of its answers are parameters; a request that asks for a
  purge is recorded (\<open>pw_requests\<close>). Other tasks run at every \<^verbatim>\<open>await\<close> (\<open>pe_others\<close>). The clock is read once for
  a cycle. A \<^verbatim>\<open>usize\<close> or \<^verbatim>\<open>u64\<close> that counts is a \<^typ>\<open>nat\<close>.
\<close>

section \<open>Configuration\<close>

record event_purge_config =
  ep_homeserver_url :: string
  ep_admin_user_id :: i32
  ep_enabled :: bool
  ep_dry_run :: bool
  ep_retention_secs :: nat
  ep_poll_secs :: nat
  ep_max_attempts :: i32
  ep_batch_size :: nat
  ep_backfill_enabled :: bool
  ep_backfill_audit_enabled :: bool
  ep_backfill_execute_verified_enabled :: bool
  ep_backfill_execute_blocked_enabled :: bool
  ep_backfill_batch_size :: nat
  ep_backfill_scan_secs :: nat
  ep_backfill_min_age_secs :: nat
  ep_backfill_audit_recheck_secs :: nat
  ep_backfill_audit_max_pages :: nat
  ep_backfill_audit_page_size :: nat
  ep_portal_census_enabled :: bool
  ep_portal_census_scan_secs :: nat
  ep_portal_census_target_batch_size :: nat
  ep_portal_census_room_batch_size :: nat
  ep_portal_census_purge_batch_size :: nat
  ep_server_census_enabled :: bool
  ep_server_census_scan_secs :: nat
  ep_server_census_page_size :: nat
  ep_server_census_max_pages :: nat
  ep_server_census_http_timeout_secs :: nat
  ep_purge_status_poll_batch_size :: nat
  ep_purge_max_in_flight :: nat
  ep_stale_ingest_secs :: nat
  ep_exhausted_retry_secs :: nat

fun digits_value :: "nat \<Rightarrow> string \<Rightarrow> nat option" where
  "digits_value acc [] = Some acc"
| "digits_value acc (c # cs) =
     (case digit_value c of None \<Rightarrow> None | Some d \<Rightarrow> digits_value (acc * 10 + d) cs)"

text \<open>\<^verbatim>\<open>str::parse::<u64>\<close> and \<^verbatim>\<open>str::parse::<i32>\<close>.\<close>

definition parse_u64 :: "string \<Rightarrow> nat option" where
  "parse_u64 s =
     (let digits = (case s of [] \<Rightarrow> [] | c # cs \<Rightarrow> if c = CHR ''+'' then cs else s)
      in (case (if digits = [] then None else digits_value 0 digits) of
            None \<Rightarrow> None
          | Some n \<Rightarrow> if n \<le> 18446744073709551615 then Some n else None))"

definition parse_i32 :: "string \<Rightarrow> i32 option" where
  "parse_i32 s =
     (let negative = (s \<noteq> [] \<and> hd s = CHR ''-'');
          digits = (case s of [] \<Rightarrow> [] | c # cs \<Rightarrow> if c = CHR ''+'' \<or> c = CHR ''-'' then cs else s)
      in (case (if digits = [] then None else digits_value 0 digits) of
            None \<Rightarrow> None
          | Some n \<Rightarrow> let i = (if negative then - int n else int n) in if in_i32 i then Some i else None))"

type_synonym env_vars = "string \<Rightarrow> string option"

definition env_flag :: "env_vars \<Rightarrow> string \<Rightarrow> bool \<Rightarrow> bool" where
  "env_flag env name fallback =
     (case env name of
        None \<Rightarrow> fallback
      | Some v \<Rightarrow> to_ascii_lowercase (trim v) \<notin> {''0'', ''false'', ''no'', ''off''})"

definition env_u64 :: "env_vars \<Rightarrow> string \<Rightarrow> nat \<Rightarrow> nat \<Rightarrow> nat" where
  "env_u64 env name fallback least =
     (case Option.bind (env name) parse_u64 of
        None \<Rightarrow> fallback | Some v \<Rightarrow> if least \<le> v then v else fallback)"

definition env_i32 :: "env_vars \<Rightarrow> string \<Rightarrow> i32 \<Rightarrow> i32 \<Rightarrow> i32" where
  "env_i32 env name fallback least =
     (case Option.bind (env name) parse_i32 of
        None \<Rightarrow> fallback | Some v \<Rightarrow> if least \<le> v then v else fallback)"

definition config_from_env :: "env_vars \<Rightarrow> event_purge_config" where
  "config_from_env env =
     \<lparr>ep_homeserver_url = (case env ''MATRIX_HOMESERVER'' of None \<Rightarrow> ''http://localhost:8008'' | Some u \<Rightarrow> u),
      ep_admin_user_id = env_i32 env ''TUWUNEL_ADMIN_USER_ID'' 1 1,
      ep_enabled = env_flag env ''TUWUNEL_EVENT_PURGE_ENABLED'' True,
      ep_dry_run = env_flag env ''TUWUNEL_EVENT_PURGE_DRY_RUN'' False,
      ep_retention_secs = env_u64 env ''TUWUNEL_EVENT_PURGE_RETENTION_SECS'' 60 1,
      ep_poll_secs = env_u64 env ''TUWUNEL_EVENT_PURGE_POLL_SECS'' 30 5,
      ep_max_attempts = env_i32 env ''TUWUNEL_EVENT_PURGE_MAX_ATTEMPTS'' 5 1,
      ep_batch_size = min (env_u64 env ''TUWUNEL_EVENT_PURGE_BATCH_SIZE'' 50 1) 100,
      ep_backfill_enabled = env_flag env ''TUWUNEL_EVENT_PURGE_BACKFILL_ENABLED'' True,
      ep_backfill_audit_enabled = env_flag env ''TUWUNEL_EVENT_PURGE_BACKFILL_AUDIT_ENABLED'' True,
      ep_backfill_execute_verified_enabled = env_flag env ''TUWUNEL_EVENT_PURGE_BACKFILL_EXECUTE_VERIFIED_ENABLED'' True,
      ep_backfill_execute_blocked_enabled = env_flag env ''TUWUNEL_EVENT_PURGE_BACKFILL_EXECUTE_BLOCKED_ENABLED'' True,
      ep_backfill_batch_size = min (env_u64 env ''TUWUNEL_EVENT_PURGE_BACKFILL_BATCH_SIZE'' 50 1) 100,
      ep_backfill_scan_secs = env_u64 env ''TUWUNEL_EVENT_PURGE_BACKFILL_SCAN_SECS'' 60 60,
      ep_backfill_min_age_secs = env_u64 env ''TUWUNEL_EVENT_PURGE_BACKFILL_MIN_AGE_SECS'' 60 60,
      ep_backfill_audit_recheck_secs = env_u64 env ''TUWUNEL_EVENT_PURGE_BACKFILL_AUDIT_RECHECK_SECS'' 300 60,
      ep_backfill_audit_max_pages = min (env_u64 env ''TUWUNEL_EVENT_PURGE_BACKFILL_AUDIT_MAX_PAGES'' 100 1) 1000,
      ep_backfill_audit_page_size = min (env_u64 env ''TUWUNEL_EVENT_PURGE_BACKFILL_AUDIT_PAGE_SIZE'' 100 10) 100,
      ep_portal_census_enabled = env_flag env ''TUWUNEL_PORTAL_CENSUS_PURGE_ENABLED'' True,
      ep_portal_census_scan_secs = env_u64 env ''TUWUNEL_PORTAL_CENSUS_SCAN_SECS'' 300 60,
      ep_portal_census_target_batch_size = min (env_u64 env ''TUWUNEL_PORTAL_CENSUS_TARGET_BATCH_SIZE'' 5 1) 50,
      ep_portal_census_room_batch_size = min (env_u64 env ''TUWUNEL_PORTAL_CENSUS_ROOM_BATCH_SIZE'' 100 1) 1000,
      ep_portal_census_purge_batch_size = min (env_u64 env ''TUWUNEL_PORTAL_CENSUS_PURGE_BATCH_SIZE'' 20 1) 100,
      ep_server_census_enabled = env_flag env ''TUWUNEL_SERVER_CENSUS_PURGE_ENABLED'' True,
      ep_server_census_scan_secs = env_u64 env ''TUWUNEL_SERVER_CENSUS_SCAN_SECS'' 21600 300,
      ep_server_census_page_size = min (env_u64 env ''TUWUNEL_SERVER_CENSUS_PAGE_SIZE'' 5000 100) 10000,
      ep_server_census_max_pages = min (env_u64 env ''TUWUNEL_SERVER_CENSUS_MAX_PAGES'' 10 1) 100,
      ep_server_census_http_timeout_secs = min (env_u64 env ''TUWUNEL_SERVER_CENSUS_HTTP_TIMEOUT_SECS'' 120 15) 600,
      ep_purge_status_poll_batch_size = min (env_u64 env ''TUWUNEL_PURGE_STATUS_POLL_BATCH_SIZE'' 100 1) 1000,
      ep_purge_max_in_flight = min (env_u64 env ''TUWUNEL_PURGE_MAX_IN_FLIGHT'' 4 1) 32,
      ep_stale_ingest_secs = env_u64 env ''TUWUNEL_EVENT_PURGE_STALE_INGEST_SECS'' 300 60,
      ep_exhausted_retry_secs = env_u64 env ''TUWUNEL_EVENT_PURGE_EXHAUSTED_RETRY_SECS'' 900 60\<rparr>"

text \<open>A moment so many seconds before or after another, as the code saturates it.\<close>

definition seconds_before :: "i32 \<Rightarrow> nat \<Rightarrow> i32" where
  "seconds_before now secs = sat_i32 (now - min (int secs) 2147483647)"

definition seconds_after :: "i32 \<Rightarrow> nat \<Rightarrow> i32" where
  "seconds_after now secs = sat_i32 (now + min (int secs) 2147483647)"

definition next_backfill_scan_timestamp :: "i32 \<Rightarrow> nat \<Rightarrow> nat \<Rightarrow> nat \<Rightarrow> nat \<Rightarrow> i32" where
  "next_backfill_scan_timestamp now inserted batch_size poll_secs scan_secs =
     seconds_after now (if batch_size \<le> inserted then poll_secs else scan_secs)"

definition available_purge_submission_slots :: "nat \<Rightarrow> i64 \<Rightarrow> nat" where
  "available_purge_submission_slots max_in_flight active_tasks = max_in_flight - nat (max active_tasks 0)"

section \<open>Answers of the homeserver\<close>

record purge_api_error =
  pa_status :: "nat option"
  pa_body :: string

text \<open>A request that fails, with the status \<^verbatim>\<open>reqwest\<close> has for it, or a status and a body that may be unreadable.\<close>

datatype http_answer = Unreachable "nat option" string | Answered nat "string + string"

definition parse_json_response :: "(string \<Rightarrow> string + 'a) \<Rightarrow> http_answer \<Rightarrow> purge_api_error + 'a" where
  "parse_json_response read response =
     (case response of
        Unreachable status error \<Rightarrow> Inl \<lparr>pa_status = status, pa_body = error\<rparr>
      | Answered status (Inl error) \<Rightarrow> Inl \<lparr>pa_status = Some status, pa_body = error\<rparr>
      | Answered status (Inr body) \<Rightarrow>
          if \<not> (200 \<le> status \<and> status < 300) then Inl \<lparr>pa_status = Some status, pa_body = take_chars 2000 body\<rparr>
          else (case read body of
                  Inl error \<Rightarrow>
                    Inl \<lparr>pa_status = Some status, pa_body = ''invalid JSON response: '' @ error @ ''; body='' @ body\<rparr>
                | Inr v \<Rightarrow> Inr v))"

definition event_was_already_purged :: "purge_api_error \<Rightarrow> bool" where
  "event_was_already_purged e \<longleftrightarrow>
     pa_status e = Some 404 \<and> str_contains ''event not found'' (to_ascii_lowercase (pa_body e))"

definition room_history_error_is_already_clean :: "nat option \<Rightarrow> string \<Rightarrow> bool" where
  "room_history_error_is_already_clean status body \<longleftrightarrow>
     status = Some 404 \<and> str_contains ''no event found before the given timestamp'' (to_ascii_lowercase body)"

definition purge_task_status_is_missing :: "nat option \<Rightarrow> bool" where
  "purge_task_status_is_missing status \<longleftrightarrow> status = Some 404"

definition without_slash :: "string \<Rightarrow> string" where
  "without_slash url = rev (dropWhile (\<lambda>c. c = CHR ''/'') (rev url))"

definition build_purge_history_url :: "(string \<Rightarrow> string) \<Rightarrow> string \<Rightarrow> string \<Rightarrow> string" where
  "build_purge_history_url encode homeserver_url room_id =
     without_slash homeserver_url @ ''/_synapse/admin/v1/purge_history/'' @ encode room_id"

definition build_purge_status_url :: "(string \<Rightarrow> string) \<Rightarrow> string \<Rightarrow> string \<Rightarrow> string" where
  "build_purge_status_url encode homeserver_url purge_id =
     without_slash homeserver_url @ ''/_synapse/admin/v1/purge_history_status/'' @ encode purge_id"

definition build_server_rooms_url :: "string \<Rightarrow> nat \<Rightarrow> nat \<Rightarrow> string" where
  "build_server_rooms_url homeserver_url offset limit =
     without_slash homeserver_url @ ''/_synapse/admin/v1/rooms?from='' @ show_nat offset @ ''&limit='' @ show_nat limit"

definition purge_history_request :: "string \<Rightarrow> json" where
  "purge_history_request event_id =
     JObj [(''purge_up_to_event_id'', JStr event_id), (''delete_local_events'', JBool True)]"

definition purge_history_timestamp_request :: "nat \<Rightarrow> json" where
  "purge_history_timestamp_request timestamp_ms =
     JObj [(''purge_up_to_ts'', JInt (int timestamp_ms)), (''delete_local_events'', JBool True)]"

definition is_matrix_event_id :: "string \<Rightarrow> bool" where
  "is_matrix_event_id event_id \<longleftrightarrow> prefix ''$'' event_id \<and> \<not> list_ex is_control (utf8_chars event_id)"

definition is_tuwunel_admin_redaction_reason :: "string option \<Rightarrow> bool" where
  "is_tuwunel_admin_redaction_reason reason =
     (case reason of
        None \<Rightarrow> False
      | Some r \<Rightarrow> prefix ''The administrator(s) of '' r \<and> suffix '' has redacted this user's message.'' r)"

section \<open>World and environment\<close>

record purge_world =
  pw_store :: purge_store
  pw_messages :: message_store
  pw_requests :: "(string \<times> json) list"

record history_page =
  hp_chunk :: "(string + json) list"     \<comment> \<open>an event, or why it could not be decoded\<close>
  hp_end :: "string option"

datatype census_answer = SessionFailed string | EnumerationFailed string | ServiceRooms "string list"

record room_list_response =
  rl_rooms :: "string list"
  rl_offset :: nat
  rl_total_rooms :: nat
  rl_next_batch :: "nat option"

record purge_env =
  pe_now :: i32
  pe_config :: event_purge_config
  pe_encode :: "string \<Rightarrow> string"
  pe_show_status :: "nat \<Rightarrow> string"
  pe_debug :: "string \<Rightarrow> string"
  pe_token :: "i32 \<Rightarrow> string + string"
  pe_post :: "string \<Rightarrow> string \<Rightarrow> json \<Rightarrow> http_answer"
  pe_get :: "string \<Rightarrow> string \<Rightarrow> http_answer"
  pe_read_submit :: "string \<Rightarrow> string + string"
  pe_read_status :: "string \<Rightarrow> string + string \<times> string option"
  pe_read_rooms :: "string \<Rightarrow> string + room_list_response"
  pe_service_rooms :: "i32 \<Rightarrow> string \<Rightarrow> census_answer"
  pe_admin_room :: "i32 \<Rightarrow> string + string \<times> string"        \<comment> \<open>the token and the admin room\<close>
  pe_room :: "i32 \<Rightarrow> string \<Rightarrow> string + unit"
  pe_page :: "i32 \<Rightarrow> string \<Rightarrow> string option \<Rightarrow> nat \<Rightarrow> string + history_page"
  pe_others :: "nat \<Rightarrow> purge_world \<Rightarrow> purge_world"

definition on_purges :: "(purge_store \<Rightarrow> purge_store) \<Rightarrow> purge_world \<Rightarrow> purge_world" where
  "on_purges f w = w\<lparr>pw_store := f (pw_store w)\<rparr>"

definition show_api_error :: "purge_env \<Rightarrow> purge_api_error \<Rightarrow> string" where
  "show_api_error env e =
     (case pa_status e of
        Some status \<Rightarrow> ''Tuwunel purge API returned '' @ pe_show_status env status @ '': '' @ pa_body e
      | None \<Rightarrow> ''Tuwunel purge API request failed: '' @ pa_body e)"

section \<open>What the bridge records\<close>

definition valid_ids :: "string \<Rightarrow> string \<Rightarrow> bool" where
  "valid_ids room_id event_id \<longleftrightarrow> is_matrix_event_id event_id \<and> prefix ''!'' room_id"

definition record_bridge_event_ingesting ::
  "i32 \<Rightarrow> string \<Rightarrow> string \<Rightarrow> string \<Rightarrow> bool \<Rightarrow> i32 \<Rightarrow> purge_store \<Rightarrow> purge_store" where
  "record_bridge_event_ingesting user_id service room_id event_id delete_media now s =
     (if \<not> valid_ids room_id event_id then s
      else record_ingesting user_id service room_id event_id delete_media now s)"

definition enqueue_processed_bridge_event ::
  "i32 \<Rightarrow> string \<Rightarrow> string \<Rightarrow> string \<Rightarrow> i64 \<Rightarrow> bool \<Rightarrow> i32 \<Rightarrow> purge_store \<Rightarrow> purge_store" where
  "enqueue_processed_bridge_event user_id service room_id event_id ontology_message_id delete_media now s =
     (if \<not> valid_ids room_id event_id then s
      else record_enqueued user_id ontology_message_id service room_id event_id delete_media now s)"

definition enqueue_intentionally_discarded_bridge_event ::
  "i32 \<Rightarrow> string \<Rightarrow> string \<Rightarrow> string \<Rightarrow> string \<Rightarrow> i32 \<Rightarrow> purge_store \<Rightarrow> purge_store" where
  "enqueue_intentionally_discarded_bridge_event user_id service room_id event_id reason now s =
     (if \<not> valid_ids room_id event_id then s
      else snd (record_intentionally_discarded user_id service room_id event_id reason now s))"

definition record_unproven_bridge_event_blocker ::
  "i32 \<Rightarrow> string \<Rightarrow> string \<Rightarrow> string \<Rightarrow> string \<Rightarrow> i32 \<Rightarrow> purge_store \<Rightarrow> purge_store" where
  "record_unproven_bridge_event_blocker user_id service room_id event_id reason now s =
     (if \<not> valid_ids room_id event_id then s
      else snd (record_unproven_blocker user_id service room_id event_id reason now s))"

section \<open>Censuses of rooms\<close>

definition select_portal_census_room_batch ::
  "string list \<Rightarrow> string option \<Rightarrow> nat \<Rightarrow> string list \<times> string option" where
  "select_portal_census_room_batch sorted_room_ids cursor limit =
     (if sorted_room_ids = [] \<or> limit = 0 then ([], None)
      else
        let start = (case cursor of None \<Rightarrow> 0 | Some c \<Rightarrow> length (takeWhile (\<lambda>r. r \<le> c) sorted_room_ids));
            selected = take limit (drop start sorted_room_ids)
        in (selected,
            if start + length selected < length sorted_room_ids
            then (case selected of [] \<Rightarrow> None | _ \<Rightarrow> Some (last selected)) else None))"

definition census_scan ::
  "i32 \<Rightarrow> string \<Rightarrow> string \<Rightarrow> nat \<Rightarrow> string option \<Rightarrow> string option \<Rightarrow> i32 \<Rightarrow> portal_census_scan" where
  "census_scan user_id service status room_count room_cursor error scanned_at =
     \<lparr>sc_user_id = user_id, sc_service = service, sc_status = status, sc_room_count = min (int room_count) 2147483647,
      sc_room_cursor = room_cursor, sc_last_error = error, sc_last_scanned_at = scanned_at\<rparr>"

definition portal_rooms :: "string list \<Rightarrow> string list" where
  "portal_rooms rooms = sort (remdups (filter (prefix ''!'') rooms))"

fun census_targets ::
  "purge_env \<Rightarrow> portal_census_target list \<Rightarrow> nat \<times> nat \<Rightarrow> purge_world \<Rightarrow> (nat \<times> nat) \<times> purge_world" where
  "census_targets env [] counts w = (counts, w)"
| "census_targets env (t # ts) counts w =
     (let config = pe_config env; now = pe_now env; user_id = ct_user_id t; service = ct_service t;
          w1 = pe_others env 5 w;
          failed = (\<lambda>status error.
            on_purges (record_portal_census_scan (census_scan user_id service status 0 (ct_room_cursor t) (Some error) now)) w1)
      in (case pe_service_rooms env user_id service of
            SessionFailed error \<Rightarrow> census_targets env ts counts (failed ''matrix_session_failed'' error)
          | EnumerationFailed error \<Rightarrow> census_targets env ts counts (failed ''room_enumeration_failed'' error)
          | ServiceRooms rooms \<Rightarrow>
              let discovered = portal_rooms rooms;
                  (room_ids, cursor) = select_portal_census_room_batch discovered (ct_room_cursor t)
                    (ep_portal_census_room_batch_size config);
                  (recorded, s) = record_portal_census_rooms user_id service room_ids
                    (seconds_before now (ep_retention_secs config)) now (pw_store w1)
              in census_targets env ts (fst counts + 1, snd counts + recorded)
                   (w1\<lparr>pw_store := record_portal_census_scan
                      (census_scan user_id service ''succeeded'' (length discovered) cursor None now) s\<rparr>)))"

definition run_portal_room_census :: "purge_env \<Rightarrow> purge_world \<Rightarrow> (nat \<times> nat) \<times> purge_world" where
  "run_portal_room_census env w =
     census_targets env
       (list_portal_census_targets (ep_portal_census_target_batch_size (pe_config env)) (pw_store w)) (0, 0) w"

definition parse_server_room_list_page ::
  "purge_env \<Rightarrow> string \<Rightarrow> string + string list \<times> nat \<times> nat \<times> nat option" where
  "parse_server_room_list_page env body =
     (case pe_read_rooms env body of
        Inl _ \<Rightarrow> Inl (''invalid Tuwunel server room census JSON: '' @ take_chars 500 body)
      | Inr r \<Rightarrow>
          (case find (\<lambda>i. \<not> prefix ''!'' i \<or> list_ex is_control (utf8_chars i)) (rl_rooms r) of
             Some i \<Rightarrow> Inl (''Tuwunel server room census returned invalid room id '' @ pe_debug env i)
           | None \<Rightarrow> Inr (rl_rooms r, rl_offset r, rl_total_rooms r, rl_next_batch r)))"

record server_room_inventory =
  si_room_ids :: "string list"
  si_total_rooms :: nat
  si_pages :: nat

definition server_room_page ::
  "purge_env \<Rightarrow> string \<Rightarrow> nat \<Rightarrow> string + string list \<times> nat \<times> nat option" where
  "server_room_page env token offset =
     (let config = pe_config env;
          url = build_server_rooms_url (ep_homeserver_url config) offset (ep_server_census_page_size config)
      in (case pe_get env url token of
            Unreachable _ _ \<Rightarrow> Inl (''Tuwunel server room census request failed for '' @ url)
          | Answered status (Inl _) \<Rightarrow> Inl ''could not read Tuwunel server room census response''
          | Answered status (Inr body) \<Rightarrow>
              if \<not> (200 \<le> status \<and> status < 300)
              then Inl (''Tuwunel server room census returned '' @ pe_show_status env status @ '': '' @ take_chars 2000 body)
              else
                (case parse_server_room_list_page env body of
                   Inl e \<Rightarrow> Inl e
                 | Inr (rooms, response_offset, total_rooms, next_batch) \<Rightarrow>
                     if response_offset \<noteq> offset
                     then Inl (''Tuwunel server room census offset mismatch: requested '' @ show_nat offset @ '' got '' @
                               show_nat response_offset)
                     else Inr (rooms, total_rooms, next_batch))))"

text \<open>The pages that are left, the offset, the offsets that were seen, the rooms and the total so far, and the page.\<close>

fun server_room_pages ::
  "purge_env \<Rightarrow> string \<Rightarrow> nat \<Rightarrow> nat \<Rightarrow> nat list \<Rightarrow> string list \<Rightarrow> nat \<Rightarrow> nat \<Rightarrow> string + server_room_inventory" where
  "server_room_pages env token 0 offset seen rooms total_rooms pages =
     Inl (''Tuwunel server room census exceeded '' @ show_nat (ep_server_census_max_pages (pe_config env)) @
          '' pages before completion'')"
| "server_room_pages env token (Suc left) offset seen rooms total_rooms pages =
     (case server_room_page env token offset of
        Inl e \<Rightarrow> Inl e
      | Inr (page_rooms, response_total, next_batch) \<Rightarrow>
          let total_rooms' = max total_rooms response_total; rooms' = rooms @ page_rooms
          in (case next_batch of
                None \<Rightarrow>
                  let room_ids = sort (remdups rooms')
                  in if length room_ids \<noteq> total_rooms'
                     then Inl (''Tuwunel server room census was incomplete: collected '' @ show_nat (length room_ids) @
                               '' unique rooms but server reported '' @ show_nat total_rooms')
                     else Inr \<lparr>si_room_ids = room_ids, si_total_rooms = total_rooms', si_pages = Suc pages\<rparr>
              | Some next_offset \<Rightarrow>
                  if next_offset \<le> offset \<or> next_offset \<in> set seen
                  then Inl (''Tuwunel server room census returned invalid repeated offset '' @ show_nat next_offset)
                  else server_room_pages env token left next_offset (next_offset # seen) rooms' total_rooms' (Suc pages)))"

definition fetch_server_room_inventory :: "purge_env \<Rightarrow> string \<Rightarrow> string + server_room_inventory" where
  "fetch_server_room_inventory env token =
     server_room_pages env token (ep_server_census_max_pages (pe_config env)) 0 [0] [] 0 0"

definition SERVER_CENSUS_SERVICE :: string where "SERVER_CENSUS_SERVICE = ''server_all_rooms''"

definition run_server_room_census :: "purge_env \<Rightarrow> purge_world \<Rightarrow> (string + nat \<times> nat) \<times> purge_world" where
  "run_server_room_census env w =
     (let config = pe_config env; now = pe_now env; w1 = pe_others env 6 w
      in (case pe_admin_room env (ep_admin_user_id config) of
            Inl e \<Rightarrow> (Inl e, w1)
          | Inr (token, admin_room) \<Rightarrow>
              (case fetch_server_room_inventory env token of
                 Inl e \<Rightarrow> (Inl e, w1)
               | Inr inventory \<Rightarrow>
                   let discovered = length (si_room_ids inventory);
                       purge_rooms = filter (\<lambda>r. r \<noteq> admin_room) (si_room_ids inventory)
                   in if discovered - length purge_rooms \<noteq> 1
                      then (Inl (''Tuwunel room inventory did not contain the resolved admin room '' @ admin_room), w1)
                      else
                        let (newly_queued, s) = record_server_census_rooms_once (ep_admin_user_id config)
                              SERVER_CENSUS_SERVICE purge_rooms (seconds_before now (ep_retention_secs config)) now
                              (pw_store w1)
                        in (Inr (discovered, newly_queued),
                            w1\<lparr>pw_store := record_portal_census_scan
                              (census_scan (ep_admin_user_id config) SERVER_CENSUS_SERVICE ''succeeded'' discovered None
                                 None now) s\<rparr>))))"

section \<open>The audit of old boundaries\<close>

definition historical_backfill_execution_kind :: "bool \<Rightarrow> bool \<Rightarrow> bool \<Rightarrow> bool \<Rightarrow> string option" where
  "historical_backfill_execution_kind verified backfill_enabled execute_verified_enabled execute_blocked_enabled =
     (if \<not> backfill_enabled then None
      else if verified \<and> execute_verified_enabled then Some ''historical_backfill_verified''
      else if \<not> verified \<and> execute_blocked_enabled then Some ''historical_backfill_forced_unverified''
      else None)"

definition historical_backfill_requires_proof_scan :: "bool \<Rightarrow> bool \<Rightarrow> bool" where
  "historical_backfill_requires_proof_scan backfill_enabled execute_blocked_enabled \<longleftrightarrow>
     \<not> (backfill_enabled \<and> execute_blocked_enabled)"

definition historical_event_requires_proof :: "string \<Rightarrow> bool \<Rightarrow> bool" where
  "historical_event_requires_proof event_type is_state_event \<longleftrightarrow>
     \<not> is_state_event \<and> event_type \<notin> {''m.reaction'', ''m.room.redaction''}"

record historical_backfill_audit =
  ha_verified :: bool
  ha_summary :: string

record audit_scan =
  as_boundary_found :: bool
  as_room_create_found :: bool
  as_proof_event_ids :: "string list"
  as_scanned_events :: nat

text \<open>One event of the history, newest first: what is older than the boundary is scanned.\<close>

definition scan_event :: "string \<Rightarrow> string + json \<Rightarrow> audit_scan \<Rightarrow> string + audit_scan" where
  "scan_event boundary_event_id timeline_event a =
     (case timeline_event of
        Inl e \<Rightarrow> Inl (''history_event_decode_failed='' @ e)
      | Inr event \<Rightarrow>
          (case get_str ''event_id'' event of
             None \<Rightarrow> Inl ''history_event_missing_event_id''
           | Some event_id \<Rightarrow>
               (case get_str ''type'' event of
                  None \<Rightarrow> Inl (''history_event_missing_type event_id='' @ event_id)
                | Some event_type \<Rightarrow>
                    if \<not> as_boundary_found a
                    then Inr (if event_id = boundary_event_id then a\<lparr>as_boundary_found := True\<rparr> else a)
                    else
                      let is_state_event = (json_get ''state_key'' event \<noteq> None)
                      in Inr (a\<lparr>as_scanned_events := Suc (as_scanned_events a),
                         as_room_create_found := as_room_create_found a \<or> event_type = ''m.room.create'' \<and> is_state_event,
                         as_proof_event_ids := as_proof_event_ids a @
                           (if historical_event_requires_proof event_type is_state_event then [event_id] else [])\<rparr>))))"

fun scan_events :: "string \<Rightarrow> (string + json) list \<Rightarrow> audit_scan \<Rightarrow> string + audit_scan" where
  "scan_events boundary [] a = Inr a"
| "scan_events boundary (e # es) a =
     (case scan_event boundary e a of Inl err \<Rightarrow> Inl err | Inr a' \<Rightarrow> scan_events boundary es a')"

text \<open>
  The pages that are left, the token of the next page and those that were seen. The answer has whether the start of the room
  was reached and the pages that were read.
\<close>

fun audit_pages ::
  "purge_env \<Rightarrow> historical_backfill_candidate \<Rightarrow> nat \<Rightarrow> string option \<Rightarrow> string list \<Rightarrow> nat \<Rightarrow> audit_scan
     \<Rightarrow> string + (bool \<times> nat \<times> audit_scan)" where
  "audit_pages env c 0 from_token seen pages a = Inr (False, pages, a)"
| "audit_pages env c (Suc left) from_token seen pages a =
     (case pe_page env (hb_user_id c) (hb_room_id c) from_token (ep_backfill_audit_page_size (pe_config env)) of
        Inl e \<Rightarrow> Inl e
      | Inr page \<Rightarrow>
          if hp_chunk page = [] then Inr (True, Suc pages, a)
          else
            (case scan_events (hb_event_id c) (hp_chunk page) a of
               Inl e \<Rightarrow> Inl e
             | Inr a' \<Rightarrow>
                 (case hp_end page of
                    None \<Rightarrow> Inr (True, Suc pages, a')
                  | Some token \<Rightarrow>
                      if token \<in> set seen then Inl ''history_pagination_token_repeated''
                      else audit_pages env c left (Some token) (token # seen) (Suc pages) a')))"

definition audit_start :: audit_scan where
  "audit_start = \<lparr>as_boundary_found = False, as_room_create_found = False, as_proof_event_ids = [], as_scanned_events = 0\<rparr>"

definition blocked_audit :: "string \<Rightarrow> historical_backfill_audit" where
  "blocked_audit summary = \<lparr>ha_verified = False, ha_summary = summary\<rparr>"

fun join_comma :: "string list \<Rightarrow> string" where
  "join_comma [] = []"
| "join_comma [s] = s"
| "join_comma (s # ss) = s @ '','' @ join_comma ss"

definition judge_scan ::
  "event_purge_config \<Rightarrow> bool \<Rightarrow> nat \<Rightarrow> audit_scan \<Rightarrow> message_store \<Rightarrow> purge_store \<Rightarrow> historical_backfill_audit" where
  "judge_scan config reached_start pages a ms s =
     (if \<not> as_boundary_found a then blocked_audit (''boundary_not_found pages='' @ show_nat pages)
      else if \<not> reached_start
      then blocked_audit (''history_scan_limit_reached pages='' @ show_nat pages @ '' max_pages='' @
                          show_nat (ep_backfill_audit_max_pages config))
      else if \<not> as_room_create_found a
      then blocked_audit (''room_creation_not_visible pages='' @ show_nat pages @ '' scanned_events='' @
                          show_nat (as_scanned_events a))
      else
        let proof_event_ids = sort (remdups (as_proof_event_ids a));
            unproven = unproven_event_ids proof_event_ids ms s
        in if unproven \<noteq> []
           then blocked_audit (''unproven_payload_events='' @ show_nat (length unproven) @ '' proof_required='' @
                  show_nat (length proof_event_ids) @ '' pages='' @ show_nat pages @ '' scanned_events='' @
                  show_nat (as_scanned_events a) @ '' sample_event_ids='' @ join_comma (take 5 unproven))
           else \<lparr>ha_verified = True,
                 ha_summary = ''verified_full_history proof_events='' @ show_nat (length proof_event_ids) @ '' pages='' @
                   show_nat pages @ '' scanned_events='' @ show_nat (as_scanned_events a)\<rparr>)"

definition audit_historical_backfill_candidate ::
  "purge_env \<Rightarrow> historical_backfill_candidate \<Rightarrow> purge_world \<Rightarrow> string + historical_backfill_audit" where
  "audit_historical_backfill_candidate env c w =
     (case pe_room env (hb_user_id c) (hb_room_id c) of
        Inl e \<Rightarrow> Inl e
      | Inr _ \<Rightarrow>
          (case audit_pages env c (ep_backfill_audit_max_pages (pe_config env)) None [] 0 audit_start of
             Inl e \<Rightarrow> Inl e
           | Inr (reached_start, pages, a) \<Rightarrow>
               Inr (judge_scan (pe_config env) reached_start pages a (pw_messages w) (pw_store w))))"

definition candidate_audit ::
  "purge_env \<Rightarrow> historical_backfill_candidate \<Rightarrow> purge_world \<Rightarrow> historical_backfill_audit \<times> purge_world" where
  "candidate_audit env c w =
     (let config = pe_config env
      in if historical_backfill_requires_proof_scan (ep_backfill_enabled config) (ep_backfill_execute_blocked_enabled config)
         then let w1 = pe_others env 7 w
              in ((case audit_historical_backfill_candidate env c w1 of
                     Inr audit \<Rightarrow> audit | Inl e \<Rightarrow> blocked_audit (''audit_error='' @ e)), w1)
         else (blocked_audit ''proof_scan_bypassed=forced_unverified_policy'', w))"

fun backfill_candidates ::
  "purge_env \<Rightarrow> historical_backfill_candidate list \<Rightarrow> nat \<times> nat \<times> nat \<Rightarrow> purge_world
     \<Rightarrow> (string + nat \<times> nat \<times> nat) \<times> purge_world" where
  "backfill_candidates env [] counts w = (Inr counts, w)"
| "backfill_candidates env (c # cs) counts w =
     (let config = pe_config env; now = pe_now env;
          (audited, enqueued, forced) = counts;
          (audit, w1) = candidate_audit env c w;
          w2 = on_purges (record_historical_backfill_audit c (ha_verified audit) (ha_summary audit) now) w1
      in (case historical_backfill_execution_kind (ha_verified audit) (ep_backfill_enabled config)
                 (ep_backfill_execute_verified_enabled config) (ep_backfill_execute_blocked_enabled config) of
            None \<Rightarrow> backfill_candidates env cs (audited + 1, enqueued, forced) w2
          | Some kind \<Rightarrow>
              let verified = (kind = ''historical_backfill_verified'');
                  (r, s) = (if verified then enqueue_verified_historical_backfill c (ha_summary audit) now (pw_store w2)
                            else enqueue_forced_historical_backfill c (ha_summary audit) now (pw_store w2));
                  w3 = w2\<lparr>pw_store := s\<rparr>
              in (case r of
                    Inl e \<Rightarrow> (Inl e, w3)
                  | Inr _ \<Rightarrow>
                      backfill_candidates env cs (audited + 1, enqueued + 1, if verified then forced else forced + 1) w3)))"

definition destructive_backfill :: "event_purge_config \<Rightarrow> bool" where
  "destructive_backfill config \<longleftrightarrow> ep_backfill_enabled config \<and>
     (ep_backfill_execute_verified_enabled config \<or> ep_backfill_execute_blocked_enabled config)"

definition run_historical_backfill_audit ::
  "purge_env \<Rightarrow> purge_world \<Rightarrow> (string + nat \<times> nat \<times> nat) \<times> purge_world" where
  "run_historical_backfill_audit env w =
     (let config = pe_config env; now = pe_now env;
          audit_recheck_cutoff = (if destructive_backfill config then now
                                  else seconds_before now (ep_backfill_audit_recheck_secs config));
          batch_size = (if destructive_backfill config then ep_backfill_batch_size config
                        else min (ep_backfill_batch_size config) 5)
      in backfill_candidates env
           (list_historical_backfill_candidates (seconds_before now (ep_backfill_min_age_secs config)) audit_recheck_cutoff
              batch_size (pw_messages w) (pw_store w)) (0, 0, 0) w)"

end
