(* ===== verification/PurgeCycle.thy ===== *)
theory PurgeCycle
  imports PurgeWorker
begin

text \<open>
  A cycle of the purge worker and its loop, \<^verbatim>\<open>run_purge_cycle\<close> and \<^verbatim>\<open>start_tuwunel_event_purge_worker\<close> of
  \<^verbatim>\<open>utils/tuwunel_event_cleanup.rs\<close>: the purges that were submitted are polled, new ones are submitted to the free slots.
\<close>

section \<open>The end of a purge\<close>

definition record_purge_failure ::
  "purge_env \<Rightarrow> cleanup_event \<Rightarrow> i32 \<Rightarrow> string \<Rightarrow> purge_world \<Rightarrow> purge_world" where
  "record_purge_failure env candidate attempt error =
     on_purges (if ep_max_attempts (pe_config env) \<le> attempt
                then record_exhausted (te_event_id candidate) attempt error (pe_now env)
                else record_retrying (te_event_id candidate) attempt error (pe_now env))"

definition record_purge_succeeded :: "purge_env \<Rightarrow> cleanup_event \<Rightarrow> purge_world \<Rightarrow> purge_world" where
  "record_purge_succeeded env candidate =
     on_purges (\<lambda>s. snd (record_room_succeeded_through (te_room_id candidate) (te_enqueued_at candidate) (pe_now env) s))"

definition record_room_history_purge_failure ::
  "purge_env \<Rightarrow> room_history_purge \<Rightarrow> i32 \<Rightarrow> string \<Rightarrow> purge_world \<Rightarrow> purge_world" where
  "record_room_history_purge_failure env candidate attempt error =
     on_purges (record_room_history_failure (rh_id candidate) attempt (ep_max_attempts (pe_config env)) error (pe_now env))"

section \<open>Submitting\<close>

definition send_purge ::
  "purge_env \<Rightarrow> nat \<Rightarrow> string \<Rightarrow> string \<Rightarrow> json \<Rightarrow> purge_world \<Rightarrow> (purge_api_error + string) \<times> purge_world" where
  "send_purge env k token room_id request w =
     (parse_json_response (pe_read_submit env)
        (pe_post env (build_purge_history_url (pe_encode env) (ep_homeserver_url (pe_config env)) room_id) token request),
      pe_others env k (w\<lparr>pw_requests := pw_requests w @ [(room_id, request)]\<rparr>))"

text \<open>Up to where a boundary purges: to its event, or to the time of its message when the audit was bypassed.\<close>

definition boundary_request :: "purge_env \<Rightarrow> cleanup_event \<Rightarrow> purge_world \<Rightarrow> string + json" where
  "boundary_request env candidate w =
     (if te_last_command_kind candidate = Some ''historical_backfill_forced_unverified''
      then (case ontology_message_created_at (te_ontology_message_id candidate) (pw_messages w) of
              Some created_at \<Rightarrow>
                if 0 < created_at then Inr (purge_history_timestamp_request (nat created_at * 1000))
                else Inl (''forced historical purge has invalid ontology boundary timestamp: '' @ show_int created_at)
            | None \<Rightarrow> Inl ''forced historical purge boundary ontology message is missing'')
      else Inr (purge_history_request (te_event_id candidate)))"

definition submit_purge :: "purge_env \<Rightarrow> string \<Rightarrow> cleanup_event \<Rightarrow> purge_world \<Rightarrow> purge_world" where
  "submit_purge env token candidate w =
     (let attempt = sat_i32 (te_attempt_count candidate + 1);
          w1 = on_purges (record_attempt (te_event_id candidate) attempt (pe_now env)) w
      in (case boundary_request env candidate w1 of
            Inl e \<Rightarrow> record_purge_failure env candidate attempt e w1
          | Inr request \<Rightarrow>
              (case send_purge env 3 token (te_room_id candidate) request w1 of
                 (Inr purge_id, w2) \<Rightarrow> on_purges (record_submitted (te_event_id candidate) purge_id (pe_now env)) w2
               | (Inl e, w2) \<Rightarrow>
                   if event_was_already_purged e
                   then if has_newer_successful_boundary (te_room_id candidate) (te_ontology_message_id candidate) (pw_store w2)
                        then record_purge_succeeded env candidate w2
                        else record_purge_failure env candidate attempt
                               ''boundary event absent without a newer successful purge boundary'' w2
                   else record_purge_failure env candidate attempt (show_api_error env e) w2)))"

definition submit_room_history_purge :: "purge_env \<Rightarrow> string \<Rightarrow> room_history_purge \<Rightarrow> purge_world \<Rightarrow> purge_world" where
  "submit_room_history_purge env token candidate w =
     (let attempt = sat_i32 (rh_attempt_count candidate + 1);
          w1 = on_purges (record_room_history_attempt (rh_id candidate) attempt (pe_now env)) w;
          timestamp_ms = nat (max (rh_cutoff_ts candidate) 1) * 1000
      in (case send_purge env 4 token (rh_room_id candidate) (purge_history_timestamp_request timestamp_ms) w1 of
            (Inr purge_id, w2) \<Rightarrow>
              on_purges (record_room_history_submitted (rh_id candidate) attempt (rh_cutoff_ts candidate) purge_id
                (pe_now env)) w2
          | (Inl e, w2) \<Rightarrow>
              if room_history_error_is_already_clean (pa_status e) (pa_body e)
              then on_purges (record_room_history_noop_succeeded (rh_id candidate) attempt (rh_cutoff_ts candidate)
                     (pe_now env)) w2
              else record_room_history_purge_failure env candidate attempt (show_api_error env e) w2))"

section \<open>Polling\<close>

definition poll_purge :: "purge_env \<Rightarrow> string \<Rightarrow> string \<Rightarrow> purge_api_error + string \<times> string option" where
  "poll_purge env token purge_id =
     parse_json_response (pe_read_status env)
       (pe_get env (build_purge_status_url (pe_encode env) (ep_homeserver_url (pe_config env)) purge_id) token)"

definition poll_submitted_purge :: "purge_env \<Rightarrow> string \<Rightarrow> cleanup_event \<Rightarrow> purge_world \<Rightarrow> purge_world" where
  "poll_submitted_purge env token candidate w =
     (let failed = record_purge_failure env candidate (te_attempt_count candidate)
      in (case te_last_admin_command_event_id candidate of
            None \<Rightarrow> failed ''submitted purge row is missing purge_id'' w
          | Some purge_id \<Rightarrow>
              let w1 = pe_others env 1 w
              in (case poll_purge env token purge_id of
                    Inr (status, error) \<Rightarrow>
                      if status = ''complete'' then record_purge_succeeded env candidate w1
                      else if status = ''failed''
                      then failed (case error of None \<Rightarrow> ''Tuwunel purge task failed'' | Some e \<Rightarrow> e) w1
                      else if status = ''active'' then w1
                      else failed (''unknown Tuwunel purge status '' @ status) w1
                  | Inl e \<Rightarrow>
                      if purge_task_status_is_missing (pa_status e)
                      then failed ''purge task status disappeared, likely after Tuwunel restart; resubmitting boundary'' w1
                      else failed (show_api_error env e) w1)))"

definition poll_submitted_room_history_purge ::
  "purge_env \<Rightarrow> string \<Rightarrow> room_history_purge \<Rightarrow> purge_world \<Rightarrow> purge_world" where
  "poll_submitted_room_history_purge env token candidate w =
     (let failed = record_room_history_purge_failure env candidate (rh_attempt_count candidate)
      in (case rh_purge_id candidate of
            None \<Rightarrow> failed ''submitted portal-census purge is missing purge_id'' w
          | Some purge_id \<Rightarrow>
              let w1 = pe_others env 2 w
              in (case poll_purge env token purge_id of
                    Inr (status, error) \<Rightarrow>
                      if status = ''complete''
                      then on_purges (record_room_history_succeeded (rh_id candidate) (pe_now env)) w1
                      else if status = ''failed''
                      then failed (case error of None \<Rightarrow> ''Tuwunel portal-census purge task failed'' | Some e \<Rightarrow> e) w1
                      else if status = ''active'' then w1
                      else failed (''unknown Tuwunel purge status: '' @ status) w1
                  | Inl e \<Rightarrow>
                      if purge_task_status_is_missing (pa_status e)
                      then failed
                        ''purge task status disappeared, likely after Tuwunel restart; resubmitting room boundary'' w1
                      else w1)))"

section \<open>A cycle\<close>

record purge_cycle_outcome =
  po_backfilled :: nat
  po_forced_backfilled :: nat
  po_audited :: nat
  po_census_targets :: nat
  po_census_rooms :: nat
  po_server_census_discovered_rooms :: nat
  po_server_census_new_rooms :: nat
  po_server_census_succeeded :: bool

definition no_outcome :: purge_cycle_outcome where
  "no_outcome = \<lparr>po_backfilled = 0, po_forced_backfilled = 0, po_audited = 0, po_census_targets = 0, po_census_rooms = 0,
     po_server_census_discovered_rooms = 0, po_server_census_new_rooms = 0, po_server_census_succeeded = False\<rparr>"

text \<open>Blockers whose message is stored are lifted, what gave up is tried again after its cooldown.\<close>

definition recover_and_requeue :: "purge_env \<Rightarrow> purge_world \<Rightarrow> purge_world" where
  "recover_and_requeue env w =
     (let config = pe_config env; now = pe_now env;
          exhausted_cutoff = seconds_before now (ep_exhausted_retry_secs config);
          s1 = snd (recover_stale_ingest_blockers (seconds_before now (ep_stale_ingest_secs config)) (ep_batch_size config) now
                      (pw_messages w) (pw_store w));
          s2 = snd (requeue_exhausted exhausted_cutoff (ep_batch_size config) now s1);
          s3 = snd (requeue_exhausted_room_history exhausted_cutoff (ep_portal_census_purge_batch_size config) now s2)
      in w\<lparr>pw_store := s3\<rparr>)"

definition find_purges ::
  "purge_env \<Rightarrow> bool \<Rightarrow> bool \<Rightarrow> bool \<Rightarrow> purge_world \<Rightarrow> (string + purge_cycle_outcome) \<times> purge_world" where
  "find_purges env run_backfill run_portal_census run_server_census w =
     (case (if run_backfill then run_historical_backfill_audit env w else (Inr (0, 0, 0), w)) of
        (Inl e, w1) \<Rightarrow> (Inl e, w1)
      | (Inr (audited, backfilled, forced), w1) \<Rightarrow>
          let ((targets, rooms), w2) = (if run_portal_census then run_portal_room_census env w1 else ((0, 0), w1));
              ((discovered, fresh, succeeded), w3) =
                (if run_server_census
                 then (case run_server_room_census env w2 of
                         (Inr (discovered, recorded), v) \<Rightarrow> ((discovered, recorded, True), v)
                       | (Inl e, v) \<Rightarrow>
                           ((0, 0, False),
                            on_purges (record_portal_census_scan
                              (census_scan (ep_admin_user_id (pe_config env)) SERVER_CENSUS_SERVICE
                                 ''room_enumeration_failed'' 0 None (Some e) (pe_now env))) v))
                 else ((0, 0, False), w2))
          in (Inr \<lparr>po_backfilled = backfilled, po_forced_backfilled = forced, po_audited = audited,
                   po_census_targets = targets, po_census_rooms = rooms, po_server_census_discovered_rooms = discovered,
                   po_server_census_new_rooms = fresh, po_server_census_succeeded = succeeded\<rparr>, w3))"

definition poll_purges ::
  "purge_env \<Rightarrow> cleanup_event list \<Rightarrow> room_history_purge list \<Rightarrow> string \<Rightarrow> purge_world \<Rightarrow> purge_world" where
  "poll_purges env submitted submitted_history token w =
     fold (poll_submitted_room_history_purge env token) submitted_history
       (fold (poll_submitted_purge env token) submitted w)"

text \<open>What is submitted in the slots that are free: boundaries first, then the history of rooms.\<close>

definition due_purges :: "purge_env \<Rightarrow> purge_store \<Rightarrow> cleanup_event list \<times> room_history_purge list" where
  "due_purges env s =
     (let config = pe_config env;
          slots = available_purge_submission_slots (ep_purge_max_in_flight config) (count_submitted_purge_tasks s);
          due = list_due_room_boundaries (seconds_before (pe_now env) (ep_retention_secs config))
                  (min slots (ep_batch_size config)) s
      in (due, list_due_room_history_purges (min (slots - length due) (ep_portal_census_purge_batch_size config)) s))"

definition submit_purges ::
  "purge_env \<Rightarrow> cleanup_event list \<Rightarrow> room_history_purge list \<Rightarrow> string \<Rightarrow> purge_world \<Rightarrow> purge_world" where
  "submit_purges env due due_history token w =
     fold (submit_room_history_purge env token) due_history (fold (submit_purge env token) due w)"

definition with_token ::
  "purge_env \<Rightarrow> string option \<Rightarrow> (string \<Rightarrow> purge_world \<Rightarrow> purge_world) \<Rightarrow> purge_world \<Rightarrow> (string + string) \<times> purge_world" where
  "with_token env token f w =
     (case token of
        Some t \<Rightarrow> (Inr t, f t w)
      | None \<Rightarrow>
          let w1 = pe_others env 0 w
          in (case pe_token env (ep_admin_user_id (pe_config env)) of Inl e \<Rightarrow> (Inl e, w1) | Inr t \<Rightarrow> (Inr t, f t w1)))"

definition poll_and_submit :: "purge_env \<Rightarrow> purge_world \<Rightarrow> (string + unit) \<times> purge_world" where
  "poll_and_submit env w =
     (let batch = ep_purge_status_poll_batch_size (pe_config env);
          submitted = list_submitted batch (pw_store w);
          submitted_history = list_submitted_room_history_purges batch (pw_store w);
          (polled, w1) =
            (if submitted = [] \<and> submitted_history = [] then (Inr None, w)
             else (case with_token env None (poll_purges env submitted submitted_history) w of
                     (Inl e, v) \<Rightarrow> (Inl e, v) | (Inr t, v) \<Rightarrow> (Inr (Some t), v)))
      in (case polled of
            Inl e \<Rightarrow> (Inl e, w1)
          | Inr token \<Rightarrow>
              let (due, due_history) = due_purges env (pw_store w1)
              in if due = [] \<and> due_history = [] then (Inr (), w1)
                 else (case with_token env token (submit_purges env due due_history) w1 of
                         (Inl e, v) \<Rightarrow> (Inl e, v) | (Inr _, v) \<Rightarrow> (Inr (), v))))"

definition run_purge_cycle ::
  "purge_env \<Rightarrow> bool \<Rightarrow> bool \<Rightarrow> bool \<Rightarrow> purge_world \<Rightarrow> (string + purge_cycle_outcome) \<times> purge_world" where
  "run_purge_cycle env run_backfill run_portal_census run_server_census w =
     (if \<not> ep_enabled (pe_config env) then (Inr no_outcome, w)
      else
        (case find_purges env run_backfill run_portal_census run_server_census (recover_and_requeue env w) of
           (Inl e, w1) \<Rightarrow> (Inl e, w1)
         | (Inr outcome, w1) \<Rightarrow>
             if ep_dry_run (pe_config env) then (Inr outcome, w1)
             else (case poll_and_submit env w1 of
                     (Inl e, w2) \<Rightarrow> (Inl e, w2) | (Inr _, w2) \<Rightarrow> (Inr outcome, w2))))"

section \<open>The loop\<close>

record purge_schedule =
  ps_next_backfill_scan_at :: i32
  ps_next_portal_census_at :: i32
  ps_next_server_census_at :: i32

text \<open>One turn of the worker's loop: what is due runs, and is scheduled again unless the cycle failed.\<close>

definition purge_worker_turn ::
  "purge_env \<Rightarrow> purge_schedule \<Rightarrow> purge_world \<Rightarrow> purge_schedule \<times> purge_world" where
  "purge_worker_turn env p w =
     (let config = pe_config env; now = pe_now env;
          run_backfill = ((ep_backfill_audit_enabled config \<or> destructive_backfill config) \<and>
                          ps_next_backfill_scan_at p \<le> now);
          run_portal_census = (ep_portal_census_enabled config \<and> ps_next_portal_census_at p \<le> now);
          run_server_census = (ep_server_census_enabled config \<and> ps_next_server_census_at p \<le> now)
      in (case run_purge_cycle env run_backfill run_portal_census run_server_census w of
            (Inl _, w1) \<Rightarrow> (p, w1)
          | (Inr outcome, w1) \<Rightarrow>
              (\<lparr>ps_next_backfill_scan_at =
                  (if run_backfill
                   then next_backfill_scan_timestamp now (if destructive_backfill config then po_backfilled outcome else 0)
                          (ep_backfill_batch_size config) (ep_poll_secs config) (ep_backfill_scan_secs config)
                   else ps_next_backfill_scan_at p),
                ps_next_portal_census_at =
                  (if run_portal_census then seconds_after now (ep_portal_census_scan_secs config)
                   else ps_next_portal_census_at p),
                ps_next_server_census_at =
                  (if run_server_census
                   then seconds_after now (if po_server_census_succeeded outcome then ep_server_census_scan_secs config
                                           else min (ep_server_census_scan_secs config) 300)
                   else ps_next_server_census_at p)\<rparr>, w1)))"

text \<open>The loop over the moments at which it wakes up; the configuration is read anew each time.\<close>

fun purge_worker_loop :: "purge_env list \<Rightarrow> purge_schedule \<Rightarrow> purge_world \<Rightarrow> purge_schedule \<times> purge_world" where
  "purge_worker_loop [] p w = (p, w)"
| "purge_worker_loop (env # envs) p w =
     (let (p', w') = purge_worker_turn env p w in purge_worker_loop envs p' (pe_others env 8 w'))"

definition start_tuwunel_event_purge_worker :: "purge_env list \<Rightarrow> purge_world \<Rightarrow> purge_schedule \<times> purge_world" where
  "start_tuwunel_event_purge_worker envs w =
     purge_worker_loop envs
       \<lparr>ps_next_backfill_scan_at = 0, ps_next_portal_census_at = 0, ps_next_server_census_at = 0\<rparr> w"

end
