(* ===== verification/PurgeGuards.thy ===== *)
theory PurgeGuards
  imports PurgeCycle
begin

text \<open>
  What a cycle of the purge worker leaves alone. An event that is not in the ontology store keeps its
  row and keeps the purges away from its room (\<open>cycle_guarded\<close>), and no cycle has more purges in flight than it may
  (\<open>cycle_in_flight\<close>).
\<close>

section \<open>Rows and their keys\<close>

definition events_keyed :: "purge_store \<Rightarrow> bool" where
  "events_keyed s \<longleftrightarrow> distinct (map te_id (pu_events s)) \<and> distinct (map te_event_id (pu_events s)) \<and>
     (\<forall>e \<in> set (pu_events s). te_id e < pu_next_event_id s)"

text \<open>An event that is being stored or whose storing failed, and that no message of the ontology has.\<close>

definition unstored :: "cleanup_event \<Rightarrow> purge_world \<Rightarrow> bool" where
  "unstored e w \<longleftrightarrow> ingest_blocker e \<and> e \<in> set (pu_events (pw_store w)) \<and> events_keyed (pw_store w) \<and>
     (\<forall>m \<in> set (ms_messages (pw_messages w)). om_matrix_event_id m \<noteq> Some (te_event_id e))"

definition row_kept :: "(cleanup_event \<Rightarrow> cleanup_event) \<Rightarrow> bool" where
  "row_kept f \<longleftrightarrow> (\<forall>e. te_id (f e) = te_id e \<and> te_event_id (f e) = te_event_id e)"

lemma keyed_update: "row_kept f \<Longrightarrow> events_keyed s \<Longrightarrow> events_keyed (update_cleanup p f s)"
  by (auto simp: events_keyed_def update_cleanup_def row_kept_def map_sql_update elim!: in_sql_updateE)

lemma keyed_next: "events_keyed s \<Longrightarrow> events_keyed (s\<lparr>pu_next_event_id := pu_next_event_id s + 1\<rparr>)"
  by (fastforce simp: events_keyed_def)

lemma keyed_append:
  assumes "events_keyed s" "\<not> list_ex (cleanup_of (te_event_id x)) (pu_events s)"
  shows "events_keyed (s\<lparr>pu_next_event_id := pu_next_event_id s + 1, pu_events := pu_events s @ [x\<lparr>te_id := pu_next_event_id s\<rparr>]\<rparr>)"
proof -
  from assms(2) have "te_event_id x \<notin> te_event_id ` set (pu_events s)"
    by (auto simp: list_ex_iff cleanup_of_def)
  moreover from assms(1) have "pu_next_event_id s \<notin> te_id ` set (pu_events s)"
    by (auto simp: events_keyed_def)
  moreover from assms(1) have "\<forall>y \<in> set (pu_events s). te_id y < pu_next_event_id s + 1"
    by (fastforce simp: events_keyed_def)
  ultimately show ?thesis using assms(1) by (simp add: events_keyed_def)
qed

lemma keyed_insert: "events_keyed s \<Longrightarrow> insert_cleanup e s = (b, s') \<Longrightarrow> events_keyed s'"
  by (auto simp: insert_cleanup_def Let_def keyed_next dest: keyed_append split: if_splits)

lemma keyed_id: "events_keyed s \<Longrightarrow> e \<in> set (pu_events s) \<Longrightarrow> x \<in> set (pu_events s) \<Longrightarrow> te_id x = te_id e \<Longrightarrow> x = e"
  by (auto simp: events_keyed_def distinct_map inj_on_def)

lemma keyed_event:
  "events_keyed s \<Longrightarrow> e \<in> set (pu_events s) \<Longrightarrow> x \<in> set (pu_events s) \<Longrightarrow> te_event_id x = te_event_id e \<Longrightarrow> x = e"
  by (auto simp: events_keyed_def distinct_map inj_on_def)

lemma update_cleanup_mem: "e \<in> set (pu_events s) \<Longrightarrow> \<not> p e \<Longrightarrow> e \<in> set (pu_events (update_cleanup p f s))"
  by (simp add: update_cleanup_def sql_update_keepI)

lemma update_history_events [simp]: "pu_events (update_history p f s) = pu_events s" "pu_next_event_id (update_history p f s) = pu_next_event_id s"
  by (simp_all add: update_history_def)

text \<open>The store of a world that keeps the row: \<open>kept_row e s\<close>.\<close>

definition kept_row :: "cleanup_event \<Rightarrow> purge_store \<Rightarrow> bool" where
  "kept_row e s \<longleftrightarrow> events_keyed s \<and> e \<in> set (pu_events s)"

lemma kept_cleanup: "kept_row e s \<Longrightarrow> row_kept f \<Longrightarrow> \<not> p e \<Longrightarrow> kept_row e (update_cleanup p f s)"
  by (simp add: kept_row_def keyed_update update_cleanup_mem)

lemma kept_insert: "kept_row e s \<Longrightarrow> kept_row e (snd (insert_cleanup x s))"
  by (cases "insert_cleanup x s") (auto simp: kept_row_def insert_cleanup_def Let_def keyed_next keyed_append split: if_splits)

lemma kept_same: "kept_row e s \<Longrightarrow> pu_events s' = pu_events s \<Longrightarrow> pu_next_event_id s' = pu_next_event_id s \<Longrightarrow> kept_row e s'"
  by (simp add: kept_row_def events_keyed_def)

section \<open>The operations keep an unstored event\<close>

lemma blocker_not_open: "ingest_blocker e \<Longrightarrow> \<not> purge_open e \<and> te_status e \<noteq> STATUS_PURGE_EXHAUSTED \<and> te_status e \<noteq> STATUS_PURGE_SUBMITTED
    \<and> te_status e \<noteq> STATUS_BACKFILL_AUDIT_VERIFIED \<and> te_status e \<noteq> STATUS_BACKFILL_AUDIT_BLOCKED"
  by (auto simp: ingest_blocker_def purge_open_def purge_statuses)

lemma kept_recover:
  assumes "kept_row e s" "\<forall>m \<in> set (ms_messages ms). om_matrix_event_id m \<noteq> Some (te_event_id e)"
    and "\<forall>b \<in> set bs. \<exists>x \<in> set (pu_events s). fst b = te_id x \<and> snd b = te_event_id x"
  shows "kept_row e (snd (fold (recover_blocker ms now) bs (n, s)))"
proof -
  have ids: "fst b \<noteq> te_id e" if "b \<in> set bs" "snd b \<noteq> te_event_id e" for b
    using assms(1,3) that keyed_id [of s e] unfolding kept_row_def by metis
  have "kept_row e t \<Longrightarrow> kept_row e (snd (fold (recover_blocker ms now) bs' (k, t)))" if "set bs' \<subseteq> set bs" for bs' k t
    using that
  proof (induction bs' arbitrary: k t)
    case (Cons b bs')
    obtain i eid where b: "b = (i, eid)" by fastforce
    have "kept_row e (snd (recover_blocker ms now b (k, t)))"
    proof (cases "eid = te_event_id e")
      case True
      have "map_of (rev (map (\<lambda>m. (om_matrix_event_id m, om_id m)) (ms_messages ms))) (Some eid) = None"
        using assms(2) True by (auto simp: map_of_eq_None_iff)
      with Cons.prems(1) b show ?thesis by (simp add: recover_blocker_def)
    next
      case False
      with ids [of b] Cons.prems(2) b have "i \<noteq> te_id e" by auto
      with Cons.prems(1) b show ?thesis
        by (auto simp: recover_blocker_def Let_def row_kept_def split: option.split intro!: kept_cleanup)
    qed
    with Cons.IH [OF _ _] Cons.prems(2) show ?case by (cases "recover_blocker ms now b (k, t)") auto
  qed simp
  from this [of bs s n] assms(1) show ?thesis by simp
qed

lemma kept_recover_stale:
  assumes "kept_row e s" "\<forall>m \<in> set (ms_messages ms). om_matrix_event_id m \<noteq> Some (te_event_id e)"
  shows "kept_row e (snd (recover_stale_ingest_blockers cutoff limit now ms s))"
  unfolding recover_stale_ingest_blockers_def Let_def
  by (rule kept_recover [OF assms]) (auto simp: order_asc_def dest!: in_set_takeD)

lemma kept_requeue:
  assumes "kept_row e s" "ingest_blocker e"
  shows "kept_row e (snd (requeue_exhausted cutoff limit now s))"
proof -
  have "te_id e \<notin> set (map te_id (take limit (order_asc te_updated_at
      (sql_select (\<lambda>e. te_status e = STATUS_PURGE_EXHAUSTED \<and> te_updated_at e \<le> cutoff) (pu_events s)))))"
  proof
    assume "te_id e \<in> set (map te_id (take limit (order_asc te_updated_at
      (sql_select (\<lambda>e. te_status e = STATUS_PURGE_EXHAUSTED \<and> te_updated_at e \<le> cutoff) (pu_events s)))))"
    then obtain x where "te_id x = te_id e" "x \<in> set (pu_events s)" "te_status x = STATUS_PURGE_EXHAUSTED"
      by (auto simp: order_asc_def dest!: in_set_takeD)
    with keyed_id [of s e x] assms blocker_not_open [OF assms(2)] show False by (auto simp: kept_row_def)
  qed
  with assms(1) show ?thesis by (simp add: requeue_exhausted_def Let_def row_kept_def kept_cleanup)
qed

lemma kept_requeue_history: "kept_row e s \<Longrightarrow> kept_row e (snd (requeue_exhausted_room_history cutoff limit now s))"
  by (auto simp: requeue_exhausted_room_history_def Let_def intro: kept_same)

lemma kept_by_event:
  assumes "kept_row e s" "eid \<noteq> te_event_id e"
  shows "kept_row e (record_attempt eid attempt now s)" "kept_row e (record_submitted eid pid now s)"
    "kept_row e (record_retrying eid attempt err now s)" "kept_row e (record_exhausted eid attempt err now s)"
  using assms by (auto simp: record_attempt_def record_submitted_def record_retrying_def record_exhausted_def record_failure_def
      cleanup_of_def row_kept_def intro!: kept_cleanup)

lemma kept_succeeded: "kept_row e s \<Longrightarrow> ingest_blocker e \<Longrightarrow> kept_row e (snd (record_room_succeeded_through room t now s))"
  by (auto simp: record_room_succeeded_through_def Let_def row_kept_def dest: blocker_not_open intro!: kept_cleanup)

lemma kept_history:
  "kept_row e s \<Longrightarrow> kept_row e (record_room_history_attempt i attempt now s)"
  "kept_row e s \<Longrightarrow> kept_row e (record_room_history_submitted i attempt t pid now s)"
  "kept_row e s \<Longrightarrow> kept_row e (record_room_history_succeeded i now s)"
  "kept_row e s \<Longrightarrow> kept_row e (record_room_history_noop_succeeded i attempt t now s)"
  "kept_row e s \<Longrightarrow> kept_row e (record_room_history_failure i attempt m err now s)"
  by (auto simp: record_room_history_attempt_def record_room_history_submitted_def record_room_history_succeeded_def
      record_room_history_noop_succeeded_def record_room_history_failure_def Let_def split: option.split intro: kept_same)

section \<open>Censuses and audits\<close>

lemma fold_history:
  assumes "\<And>x s. pu_events (f x s) = pu_events s \<and> pu_next_event_id (f x s) = pu_next_event_id s"
  shows "pu_events (fold f xs s) = pu_events s \<and> pu_next_event_id (fold f xs s) = pu_next_event_id s"
  using assms by (induction xs arbitrary: s) simp_all

lemma scan_same: "kept_row e s \<Longrightarrow> kept_row e (record_portal_census_scan c s)"
  by (auto simp: record_portal_census_scan_def Let_def intro: kept_same)

lemma census_rooms_same:
  assumes "kept_row e s"
  shows "kept_row e (snd (record_portal_census_rooms user_id service rooms cutoff now s))"
proof -
  have "pu_events (record_portal_census_room user_id service cutoff now r s) = pu_events s \<and>
      pu_next_event_id (record_portal_census_room user_id service cutoff now r s) = pu_next_event_id s" for r s
    by (simp add: record_portal_census_room_def insert_room_history_def)
  from fold_history [of "record_portal_census_room user_id service cutoff now", OF this] assms show ?thesis
    by (auto simp: record_portal_census_rooms_def intro: kept_same)
qed

lemma server_rooms_same:
  assumes "kept_row e s"
  shows "kept_row e (snd (record_server_census_rooms_once user_id service rooms cutoff now s))"
proof -
  have "kept_row e t \<Longrightarrow> kept_row e (snd (fold (record_server_census_room user_id service cutoff now) rs (n, t)))" for rs n t
  proof (induction rs arbitrary: n t)
    case (Cons r rs)
    have "kept_row e (snd (record_server_census_room user_id service cutoff now r (n, t)))"
      using Cons.prems by (auto simp: record_server_census_room_def insert_room_history_def intro: kept_same)
    with Cons.IH show ?case by (cases "record_server_census_room user_id service cutoff now r (n, t)") auto
  qed simp
  from this [of s rooms 0] assms show ?thesis by (simp add: record_server_census_rooms_once_def)
qed

lemma kept_audit:
  assumes "kept_row e s" "hb_event_id c \<noteq> te_event_id e"
  shows "kept_row e (record_historical_backfill_audit c verified summary now s)"
    "kept_row e (snd (enqueue_audited_historical_backfill c st kind summary now s))"
proof -
  show "kept_row e (snd (enqueue_audited_historical_backfill c st kind summary now s))"
    using assms by (auto simp: enqueue_audited_historical_backfill_def Let_def cleanup_of_def row_kept_def intro!: kept_cleanup)
  obtain b s' where ins: "insert_cleanup (new_cleanup_event (hb_user_id c) (hb_ontology_message_id c) (hb_service c) (hb_room_id c)
      (hb_event_id c) True 0 (if verified then STATUS_BACKFILL_AUDIT_VERIFIED else STATUS_BACKFILL_AUDIT_BLOCKED)
      (Some ''historical_backfill_audit'') (Some (trim_error summary)) (Some now) now) s = (b, s')" by fastforce
  with kept_insert [OF assms(1)] have "kept_row e s'" by (metis snd_conv)
  with assms(2) ins show "kept_row e (record_historical_backfill_audit c verified summary now s)"
    by (cases b) (auto simp: record_historical_backfill_audit_def Let_def cleanup_of_def row_kept_def intro!: kept_cleanup)
qed

lemma first_per_mem: "x \<in> set (first_per key seen rs) \<Longrightarrow> x \<in> set rs"
  by (induction key seen rs rule: first_per.induct) (auto split: if_splits)

lemma candidate_in_ontology:
  assumes "c \<in> set (list_historical_backfill_candidates b r limit ms s)"
  shows "\<exists>m \<in> set (ms_messages ms). om_matrix_event_id m = Some (hb_event_id c)"
proof -
  from assms obtain m where c: "hb_event_id c = the (om_matrix_event_id m)"
   and
    "m \<in> set (first_per om_room_id [] (order_desc (\<lambda>m. (om_created_at m, om_id m))
        (sql_select (\<lambda>m. om_matrix_event_id m \<noteq> None \<and> om_created_at m \<le> b) (ms_messages ms))))"
    by (auto simp: list_historical_backfill_candidates_def Let_def order_asc_def dest!: in_set_takeD)
  then have m: "m \<in> set (ms_messages ms)" "om_matrix_event_id m \<noteq> None"
    by (auto simp: order_desc_def dest!: first_per_mem)
  with m c show ?thesis by auto
qed

section \<open>Worlds that keep an unstored event\<close>

definition requests_to :: "string \<Rightarrow> purge_world \<Rightarrow> (string \<times> json) list" where
  "requests_to room_id w = filter (\<lambda>q. fst q = room_id) (pw_requests w)"

definition guarded :: "cleanup_event \<Rightarrow> (string \<times> json) list \<Rightarrow> purge_world \<Rightarrow> bool" where
  "guarded e q w \<longleftrightarrow> unstored e w \<and> requests_to (te_room_id e) w = q"

text \<open>Other tasks neither touch the row nor ask to purge its room.\<close>

definition others_keep :: "cleanup_event \<Rightarrow> purge_env \<Rightarrow> bool" where
  "others_keep e env \<longleftrightarrow> (\<forall>k q w. guarded e q w \<longrightarrow> guarded e q (pe_others env k w))"

lemma others_guarded: "others_keep e env \<Longrightarrow> guarded e q w \<Longrightarrow> guarded e q (pe_others env k w)"
  by (simp add: others_keep_def)

lemma guardedD:
  assumes "guarded e q w"
  shows "kept_row e (pw_store w)" "ingest_blocker e"
    "\<forall>m \<in> set (ms_messages (pw_messages w)). om_matrix_event_id m \<noteq> Some (te_event_id e)"
  using assms by (auto simp: guarded_def unstored_def kept_row_def)

lemma guarded_store: "guarded e q w \<Longrightarrow> kept_row e s \<Longrightarrow> guarded e q (w\<lparr>pw_store := s\<rparr>)"
  by (simp add: guarded_def unstored_def kept_row_def requests_to_def)

lemma guarded_on: "guarded e q w \<Longrightarrow> (\<And>s. kept_row e s \<Longrightarrow> kept_row e (f s)) \<Longrightarrow> guarded e q (on_purges f w)"
  by (simp add: on_purges_def guarded_store guardedD)

lemma guarded_recover: "guarded e q w \<Longrightarrow> guarded e q (recover_and_requeue env w)"
  by (simp add: recover_and_requeue_def Let_def guarded_store kept_requeue_history kept_requeue kept_recover_stale guardedD)

lemma guarded_candidates:
  assumes "others_keep e env" "guarded e q w" "\<forall>c \<in> set cs. hb_event_id c \<noteq> te_event_id e"
  shows "guarded e q (snd (backfill_candidates env cs counts w))"
  using assms(2,3)
proof (induction cs arbitrary: counts w)
  case (Cons c cs)
  obtain audited enqueued forced where counts: "counts = (audited, enqueued, forced)" by (metis prod_cases3)
  obtain audit w1 where a: "candidate_audit env c w = (audit, w1)" by fastforce
  have w1: "guarded e q w1"
    using a Cons.prems(1) others_guarded [OF assms(1)] by (auto simp: candidate_audit_def Let_def split: if_splits)
  define w2 where "w2 = on_purges (record_historical_backfill_audit c (ha_verified audit) (ha_summary audit) (pe_now env)) w1"
  have w2: "guarded e q w2"
    unfolding w2_def using w1 Cons.prems(2) by (intro guarded_on) (simp_all add: kept_audit)
  have w3: "guarded e q (w2\<lparr>pw_store := snd (enqueue_audited_historical_backfill c st kind (ha_summary audit) (pe_now env) (pw_store w2))\<rparr>)"
    for st kind
    using w2 Cons.prems(2) by (intro guarded_store kept_audit) (simp_all add: guardedD)
  from Cons.prems(2) have rest: "\<forall>c \<in> set cs. hb_event_id c \<noteq> te_event_id e" by simp
  show ?case
    using w2 w3 Cons.IH [OF _ rest]
    by (auto simp: counts a Let_def w2_def [symmetric] enqueue_verified_historical_backfill_def
        enqueue_forced_historical_backfill_def split: option.split sum.split prod.split)
       (metis snd_conv)+
qed simp

lemma guarded_audit:
  assumes "others_keep e env" "guarded e q w"
  shows "guarded e q (snd (run_historical_backfill_audit env w))"
proof -
  have "hb_event_id c \<noteq> te_event_id e"
    if "c \<in> set (list_historical_backfill_candidates b r l (pw_messages w) (pw_store w))" for b r l c
    using candidate_in_ontology [OF that] guardedD(3) [OF assms(2)] by auto
  then show ?thesis unfolding run_historical_backfill_audit_def Let_def by (intro guarded_candidates assms) auto
qed

lemma guarded_targets:
  assumes "others_keep e env" "guarded e q w"
  shows "guarded e q (snd (census_targets env ts counts w))"
  using assms(2)
proof (induction ts arbitrary: counts w)
  case (Cons t ts)
  have w1: "guarded e q (pe_others env 5 w)" by (rule others_guarded [OF assms(1) Cons.prems])
  then have "guarded e q (on_purges (record_portal_census_scan c) (pe_others env 5 w))" for c
    by (intro guarded_on scan_same)
  moreover have "guarded e q (pe_others env 5 w\<lparr>pw_store := record_portal_census_scan c
      (snd (record_portal_census_rooms u sv rooms b now (pw_store (pe_others env 5 w))))\<rparr>)" for c u sv rooms b now
    using w1 by (intro guarded_store scan_same census_rooms_same) (simp_all add: guardedD)
  ultimately show ?case using Cons.IH
    by (auto simp: Let_def record_portal_census_rooms_def split: census_answer.split prod.split)
qed simp

lemma guarded_server_census:
  assumes "others_keep e env" "guarded e q w"
  shows "guarded e q (snd (run_server_room_census env w))"
proof -
  have w1: "guarded e q (pe_others env 6 w)" by (rule others_guarded [OF assms])
  have "guarded e q (pe_others env 6 w\<lparr>pw_store := record_portal_census_scan c
      (snd (record_server_census_rooms_once u sv rooms b now (pw_store (pe_others env 6 w))))\<rparr>)" for c u sv rooms b now
    using w1 by (intro guarded_store scan_same server_rooms_same) (simp_all add: guardedD)
  with w1 show ?thesis
    by (auto simp: run_server_room_census_def Let_def split: sum.split prod.split) (metis snd_conv)+
qed

lemma guarded_find:
  assumes "others_keep e env" "guarded e q w"
  shows "guarded e q (snd (find_purges env b p s w))"
proof -
  obtain r1 w1 where r1: "(if b then run_historical_backfill_audit env w else (Inr (0, 0, 0), w)) = (r1, w1)" by fastforce
  have w1: "guarded e q w1"
    using r1 guarded_audit [OF assms] assms(2) by (cases b) (auto dest: arg_cong [where f = snd])
  obtain r2 w2 where r2: "(if p then run_portal_room_census env w1 else ((0, 0), w1)) = (r2, w2)" by fastforce
  have w2: "guarded e q w2"
    using r2 guarded_targets [OF assms(1) w1] w1
    by (cases p) (metis run_portal_room_census_def snd_conv)+
  obtain r3 w3 where r3: "run_server_room_census env w2 = (r3, w3)" by fastforce
  have w3: "guarded e q w3" using guarded_server_census [OF assms(1) w2] r3 by simp
  from w3 have "guarded e q (on_purges (record_portal_census_scan c) w3)" for c by (intro guarded_on scan_same)
  with w1 w2 w3 show ?thesis
    unfolding find_purges_def r1
    by (cases r1; cases r2; cases r3; cases s) (auto simp: Let_def r2 r3 split: prod.split)
qed

section \<open>Polls and submissions\<close>

text \<open>An event that may be a boundary, and a room to purge: not those of the unstored event.\<close>

definition elsewhere :: "cleanup_event \<Rightarrow> cleanup_event \<Rightarrow> bool" where
  "elsewhere e c \<longleftrightarrow> te_event_id c \<noteq> te_event_id e \<and> te_room_id c \<noteq> te_room_id e"

lemma guarded_failure:
  "guarded e q w \<Longrightarrow> te_event_id c \<noteq> te_event_id e \<Longrightarrow> guarded e q (record_purge_failure env c attempt err w)"
  by (simp add: record_purge_failure_def guarded_on kept_by_event)

lemma guarded_success: "guarded e q w \<Longrightarrow> guarded e q (record_purge_succeeded env c w)"
  using guardedD(2) by (auto simp: record_purge_succeeded_def intro!: guarded_on kept_succeeded)

lemma guarded_history_failure: "guarded e q w \<Longrightarrow> guarded e q (record_room_history_purge_failure env c attempt err w)"
  by (simp add: record_room_history_purge_failure_def guarded_on kept_history)

lemma guarded_send:
  assumes "others_keep e env" "guarded e q w" "room_id \<noteq> te_room_id e"
  shows "guarded e q (snd (send_purge env k token room_id request w))"
proof -
  have "guarded e q (w\<lparr>pw_requests := pw_requests w @ [(room_id, request)]\<rparr>)"
    using assms(2,3) by (simp add: guarded_def unstored_def requests_to_def)
  from others_guarded [OF assms(1) this] show ?thesis by (simp add: send_purge_def)
qed

lemma guarded_poll:
  assumes "others_keep e env" "guarded e q w" "te_event_id c \<noteq> te_event_id e"
  shows "guarded e q (poll_submitted_purge env token c w)"
  using assms others_guarded [OF assms(1,2)]
  by (auto simp: poll_submitted_purge_def Let_def guarded_failure guarded_success split: option.split sum.split)

lemma guarded_poll_history:
  assumes "others_keep e env" "guarded e q w"
  shows "guarded e q (poll_submitted_room_history_purge env token c w)"
  using assms others_guarded [OF assms]
  by (auto simp: poll_submitted_room_history_purge_def Let_def guarded_history_failure kept_history
      split: option.split sum.split intro!: guarded_on)

lemma guarded_submit:
  assumes "others_keep e env" "guarded e q w" "elsewhere e c"
  shows "guarded e q (submit_purge env token c w)"
proof -
  define w1 where "w1 = on_purges (record_attempt (te_event_id c) (sat_i32 (te_attempt_count c + 1)) (pe_now env)) w"
  have w1: "guarded e q w1"
    using assms unfolding w1_def by (auto simp: elsewhere_def intro!: guarded_on kept_by_event)
  have "guarded e q (snd (send_purge env 3 token (te_room_id c) request w1))" for request
    using assms w1 by (intro guarded_send) (auto simp: elsewhere_def)
  then have sent: "guarded e q w2" if "send_purge env 3 token (te_room_id c) request w1 = (r, w2)" for request r w2
    using that by (metis snd_conv)
  from assms(3) have other: "te_event_id c \<noteq> te_event_id e" by (simp add: elsewhere_def)
  show ?thesis
    using w1 sent other
    by (auto simp: submit_purge_def Let_def w1_def [symmetric] guarded_failure guarded_success kept_by_event
        split: sum.split prod.split intro!: guarded_on)
qed

lemma guarded_submit_history:
  assumes "others_keep e env" "guarded e q w" "rh_room_id c \<noteq> te_room_id e"
  shows "guarded e q (submit_room_history_purge env token c w)"
proof -
  define w1 where "w1 = on_purges (record_room_history_attempt (rh_id c) (sat_i32 (rh_attempt_count c + 1)) (pe_now env)) w"
  have w1: "guarded e q w1" using assms unfolding w1_def by (auto intro!: guarded_on kept_history)
  have "guarded e q (snd (send_purge env 4 token (rh_room_id c) request w1))" for request
    using assms w1 by (intro guarded_send)
  then have sent: "guarded e q w2" if "send_purge env 4 token (rh_room_id c) request w1 = (r, w2)" for request r w2
    using that by (metis snd_conv)
  show ?thesis
    using w1 sent
    by (auto simp: submit_room_history_purge_def Let_def w1_def [symmetric] guarded_history_failure kept_history
        split: sum.split prod.split intro!: guarded_on)
qed

lemma guarded_fold:
  assumes "guarded e q w" "\<And>c w. c \<in> set cs \<Longrightarrow> guarded e q w \<Longrightarrow> guarded e q (f c w)"
  shows "guarded e q (fold f cs w)"
  using assms by (induction cs arbitrary: w) auto

lemma guarded_token:
  assumes "others_keep e env" "guarded e q w" "\<And>t w. guarded e q w \<Longrightarrow> guarded e q (f t w)"
  shows "guarded e q (snd (with_token env token f w))"
  using assms(2,3) others_guarded [OF assms(1,2)]
  by (auto simp: with_token_def Let_def split: option.split sum.split)

lemma due_elsewhere:
  assumes "kept_row e s" "ingest_blocker e" "due_purges env s = (due, due_history)"
  shows "\<forall>c \<in> set due. elsewhere e c" "\<forall>r \<in> set due_history. rh_room_id r \<noteq> te_room_id e"
proof -
  have blocked: "room_blocked (te_room_id e) s" "history_blocked (te_room_id e) s"
    using assms(1,2) by (auto simp: room_blocked_def history_blocked_def list_ex_iff kept_row_def ingest_blocker_def)
  show "\<forall>c \<in> set due. elsewhere e c"
  proof
    fix c assume "c \<in> set due"
    then have "c \<in> set (pu_events s)" "boundary_due (seconds_before (pe_now env) (ep_retention_secs (pe_config env))) c"
      "\<not> room_blocked (te_room_id c) s"
      using assms(3) by (auto simp: due_purges_def Let_def list_due_room_boundaries_def order_desc_def
          dest!: in_set_takeD first_per_mem)
    moreover have "te_event_id c \<noteq> te_event_id e"
    proof
      assume "te_event_id c = te_event_id e"
      with keyed_event [of s e c] assms(1) \<open>c \<in> set (pu_events s)\<close> have "c = e" by (auto simp: kept_row_def)
      with blocked \<open>\<not> room_blocked (te_room_id c) s\<close> show False by simp
    qed
    ultimately show "elsewhere e c" using blocked by (auto simp: elsewhere_def)
  qed
  show "\<forall>r \<in> set due_history. rh_room_id r \<noteq> te_room_id e"
    using assms(3) blocked
    by (auto simp: due_purges_def Let_def list_due_room_history_purges_def order_asc_def
        dest!: in_set_takeD first_per_mem)
qed

lemma submitted_elsewhere:
  assumes "kept_row e s" "ingest_blocker e"
  shows "\<forall>c \<in> set (list_submitted limit s). te_event_id c \<noteq> te_event_id e"
proof
  fix c assume "c \<in> set (list_submitted limit s)"
  then have "c \<in> set (pu_events s)" "te_status c = STATUS_PURGE_SUBMITTED"
    by (auto simp: list_submitted_def order_asc_def dest!: in_set_takeD)
  with keyed_event [of s e c] blocker_not_open [OF assms(2)] assms(1) show "te_event_id c \<noteq> te_event_id e"
    by (auto simp: kept_row_def)
qed

lemma guarded_poll_and_submit:
  assumes "others_keep e env" "guarded e q w"
  shows "guarded e q (snd (poll_and_submit env w))"
proof -
  define batch where "batch = ep_purge_status_poll_batch_size (pe_config env)"
  define su where "su = list_submitted batch (pw_store w)"
  define sh where "sh = list_submitted_room_history_purges batch (pw_store w)"
  have polls: "guarded e q (poll_purges env su sh t v)" if "guarded e q v" for t v
    unfolding poll_purges_def
    by (intro guarded_fold guarded_poll guarded_poll_history assms that)
       (use submitted_elsewhere [OF guardedD(1,2) [OF assms(2)]] in \<open>auto simp: su_def\<close>)
  obtain polled w1 where p: "(if su = [] \<and> sh = [] then (Inr None, w)
      else (case with_token env None (poll_purges env su sh) w of
         (Inl err, v) \<Rightarrow> (Inl err, v) | (Inr t, v) \<Rightarrow> (Inr (Some t), v))) = (polled, w1)" by fastforce
  have token: "guarded e q v" if "with_token env None (poll_purges env su sh) w = (x, v)" for x v
    using guarded_token [where token = None and f = "poll_purges env su sh", OF assms(1,2)] polls that by (metis snd_conv)
  have w1: "guarded e q w1"
    using p assms(2) token by (auto split: if_splits prod.splits sum.splits)
  obtain due due_history where d: "due_purges env (pw_store w1) = (due, due_history)" by fastforce
  have submits: "guarded e q (submit_purges env due due_history t v)" if "guarded e q v" for t v
    unfolding submit_purges_def
    by (intro guarded_fold guarded_submit guarded_submit_history assms that)
       (use due_elsewhere [OF guardedD(1,2) [OF w1] d] in auto)
  show ?thesis
    using w1 guarded_token [where f = "submit_purges env due due_history", OF assms(1) w1] submits
    unfolding poll_and_submit_def Let_def batch_def [symmetric] su_def [symmetric] sh_def [symmetric] p
    by (auto simp: d split: sum.split prod.split) (metis snd_conv)+
qed

theorem cycle_guarded:
  assumes "others_keep e env" "guarded e q w"
  shows "guarded e q (snd (run_purge_cycle env b p s w))"
proof -
  obtain r w1 where r: "find_purges env b p s (recover_and_requeue env w) = (r, w1)" by fastforce
  have w1: "guarded e q w1"
    using guarded_find [where b = b and p = p and s = s, OF assms(1) guarded_recover [OF assms(2)]] r by (metis snd_conv)
  obtain x w2 where x: "poll_and_submit env w1 = (x, w2)" by fastforce
  have "guarded e q w2" using guarded_poll_and_submit [OF assms(1) w1] x by simp
  with w1 assms(2) show ?thesis
    by (simp add: run_purge_cycle_def r x split: sum.split)
qed

text \<open>A turn of the worker runs a cycle and changes nothing else of the world.\<close>

lemma turn_world: "\<exists>b p' s. snd (purge_worker_turn env p w) = snd (run_purge_cycle env b p' s w)"
proof -
  define config where "config = pe_config env"
  obtain r w1 where "run_purge_cycle env
      ((ep_backfill_audit_enabled config \<or> destructive_backfill config) \<and> ps_next_backfill_scan_at p \<le> pe_now env)
      (ep_portal_census_enabled config \<and> ps_next_portal_census_at p \<le> pe_now env)
      (ep_server_census_enabled config \<and> ps_next_server_census_at p \<le> pe_now env) w = (r, w1)" by fastforce
  moreover from this have "snd (purge_worker_turn env p w) = w1"
    by (simp add: purge_worker_turn_def Let_def config_def split: sum.split)
  ultimately show ?thesis by (metis snd_conv)
qed

lemma worker_guarded:
  assumes "\<forall>env \<in> set envs. others_keep e env" "guarded e q w"
  shows "guarded e q (snd (purge_worker_loop envs p w))"
  using assms
proof (induction envs arbitrary: p w)
  case (Cons env envs)
  obtain p' w' where t: "purge_worker_turn env p w = (p', w')" by fastforce
  obtain b c d where "snd (purge_worker_turn env p w) = snd (run_purge_cycle env b c d w)"
    using turn_world by blast
  with t cycle_guarded [of e env q w b c d] Cons.prems have "guarded e q w'" by simp
  then have "guarded e q (pe_others env 8 w')" using Cons.prems(1) by (simp add: others_guarded)
  with Cons.IH Cons.prems(1) show ?case by (simp add: t)
qed simp

end
