(* ===== verification/PurgeFlight.thy ===== *)
theory PurgeFlight
  imports PurgeGuards
begin

text \<open>
  How many purges are in flight. Every step of a cycle but a submission leaves the number of submitted purges or
  lowers it (\<open>calm\<close>), a submission raises it by at most one, and as many are submitted as slots are free.
\<close>

section \<open>Steps that submit nothing\<close>

definition purge_keyed :: "purge_store \<Rightarrow> bool" where
  "purge_keyed s \<longleftrightarrow> events_keyed s \<and> distinct (map rh_id (pu_history s)) \<and> (\<forall>r \<in> set (pu_history s). rh_id r < pu_next_history_id s)"

definition calm :: "purge_store \<Rightarrow> purge_store \<Rightarrow> bool" where
  "calm s s' \<longleftrightarrow> (purge_keyed s \<longrightarrow> purge_keyed s' \<and> count_submitted_purge_tasks s' \<le> count_submitted_purge_tasks s)"

text \<open>At most \<open>n\<close> more purges in flight.\<close>

definition rises :: "nat \<Rightarrow> purge_store \<Rightarrow> purge_store \<Rightarrow> bool" where
  "rises n s s' \<longleftrightarrow>
     (purge_keyed s \<longrightarrow> purge_keyed s' \<and> count_submitted_purge_tasks s' \<le> count_submitted_purge_tasks s + int n)"

lemma calm_rises: "calm s s' = rises 0 s s'"
  by (simp add: calm_def rises_def)

lemma calm_refl [simp]: "calm s s"
  by (simp add: calm_def)

lemma rises_trans: "rises n s t \<Longrightarrow> rises m t u \<Longrightarrow> rises (n + m) s u"
  by (auto simp: rises_def)

lemma calm_trans [trans]: "calm s t \<Longrightarrow> calm t u \<Longrightarrow> calm s u"
  by (auto simp: calm_def)

lemma count_update_le:
  "\<forall>r \<in> set t. p r \<and> q (f r) \<longrightarrow> q r \<Longrightarrow> sql_count q (sql_update p f t) \<le> sql_count q t"
  by (induction t) (auto simp: sql_count_def sql_update_def)

lemma count_update_one:
  assumes "distinct (map key t)"
  shows "sql_count q (sql_update (\<lambda>r. key r = k) f t) \<le> Suc (sql_count q t)"
  using assms
proof (induction t)
  case (Cons r t)
  show ?case
  proof (cases "key r = k")
    case True
    with Cons.prems have "sql_update (\<lambda>r. key r = k) f t = t" by (intro sql_update_none) (auto simp: image_iff)
    with True show ?thesis by (simp add: sql_count_def sql_update_def)
  next
    case False
    with Cons show ?thesis by (simp add: sql_count_def sql_update_def)
  qed
qed (simp add: sql_count_def sql_update_def)

abbreviation submitted_event :: "cleanup_event \<Rightarrow> bool" where
  "submitted_event e \<equiv> te_status e = STATUS_PURGE_SUBMITTED"

abbreviation submitted_history :: "room_history_purge \<Rightarrow> bool" where
  "submitted_history r \<equiv> rh_status r = ROOM_HISTORY_SUBMITTED"

definition history_kept :: "(room_history_purge \<Rightarrow> room_history_purge) \<Rightarrow> bool" where
  "history_kept f \<longleftrightarrow> (\<forall>r. rh_id (f r) = rh_id r)"

lemma keyed_update_cleanup: "row_kept f \<Longrightarrow> purge_keyed s \<Longrightarrow> purge_keyed (update_cleanup p f s)"
  using keyed_update [of f s p] by (simp add: purge_keyed_def) (simp add: update_cleanup_def)

lemma keyed_update_history:
  assumes "history_kept f" "purge_keyed s"
  shows "purge_keyed (update_history p f s)"
proof -
  have "map rh_id (pu_history (update_history p f s)) = map rh_id (pu_history s)"
    using assms(1) by (simp add: update_history_def history_kept_def map_sql_update)
  moreover have "\<forall>r \<in> set (pu_history (update_history p f s)). rh_id r < pu_next_history_id (update_history p f s)"
    using assms by (auto simp: update_history_def history_kept_def purge_keyed_def elim!: in_sql_updateE)
  ultimately show ?thesis using assms(2) by (auto simp: purge_keyed_def events_keyed_def)
qed

lemma count_events: "pu_history s' = pu_history s \<Longrightarrow> sql_count submitted_event (pu_events s') \<le> n + sql_count submitted_event (pu_events s)
    \<Longrightarrow> count_submitted_purge_tasks s' \<le> count_submitted_purge_tasks s + int n"
  by (simp add: count_submitted_purge_tasks_def)

lemma count_histories: "pu_events s' = pu_events s \<Longrightarrow> sql_count submitted_history (pu_history s') \<le> n + sql_count submitted_history (pu_history s)
    \<Longrightarrow> count_submitted_purge_tasks s' \<le> count_submitted_purge_tasks s + int n"
  by (simp add: count_submitted_purge_tasks_def)

lemma calm_update:
  "row_kept f \<Longrightarrow> (\<And>e. p e \<Longrightarrow> submitted_event (f e) \<Longrightarrow> submitted_event e) \<Longrightarrow> calm s (update_cleanup p f s)"
  using count_events [of "update_cleanup p f s" s 0]
  by (simp add: calm_def keyed_update_cleanup) (simp add: update_cleanup_def count_update_le)

lemma rises_update: "row_kept f \<Longrightarrow> rises 1 s (update_cleanup (cleanup_of event_id) f s)"
  using count_events [of "update_cleanup (cleanup_of event_id) f s" s 1]
    count_update_one [of te_event_id "pu_events s" submitted_event event_id f]
  by (simp add: rises_def keyed_update_cleanup)
     (simp add: update_cleanup_def cleanup_of_def [abs_def] purge_keyed_def events_keyed_def)

lemma calm_update_history:
  "history_kept f \<Longrightarrow> (\<And>r. p r \<Longrightarrow> submitted_history (f r) \<Longrightarrow> submitted_history r) \<Longrightarrow> calm s (update_history p f s)"
  using count_histories [of "update_history p f s" s 0]
  by (simp add: calm_def keyed_update_history) (simp add: update_history_def count_update_le)

lemma rises_update_history: "history_kept f \<Longrightarrow> rises 1 s (update_history (\<lambda>r. rh_id r = i) f s)"
  using count_histories [of "update_history (\<lambda>r. rh_id r = i) f s" s 1]
    count_update_one [of rh_id "pu_history s" submitted_history i f]
  by (simp add: rises_def keyed_update_history) (simp add: update_history_def purge_keyed_def)

lemma calm_insert:
  assumes "te_status x \<noteq> STATUS_PURGE_SUBMITTED"
  shows "calm s (snd (insert_cleanup x s))"
  using assms keyed_insert [of s x]
  by (auto simp: calm_def purge_keyed_def insert_cleanup_def Let_def count_submitted_purge_tasks_def sql_count_def
      split: if_splits)

lemma calm_insert_history:
  assumes "rh_status r \<noteq> ROOM_HISTORY_SUBMITTED"
  shows "calm s (insert_room_history r s)"
  using assms
  by (fastforce simp: calm_def purge_keyed_def events_keyed_def insert_room_history_def count_submitted_purge_tasks_def sql_count_def)

lemma calm_same:
  "pu_events s' = pu_events s \<Longrightarrow> pu_next_event_id s' = pu_next_event_id s \<Longrightarrow> pu_history s' = pu_history s \<Longrightarrow>
    pu_next_history_id s \<le> pu_next_history_id s' \<Longrightarrow> calm s s'"
  by (fastforce simp: calm_def purge_keyed_def events_keyed_def count_submitted_purge_tasks_def)

lemma calm_fold: "(\<And>x s. calm s (f x s)) \<Longrightarrow> calm s (fold f xs s)"
  by (induction xs arbitrary: s) (auto intro: calm_trans)

lemma calm_fold_count:
  assumes "\<And>x n s. calm s (snd (f x (n, s)))"
  shows "calm s (snd (fold f xs (n, s)))"
proof (induction xs arbitrary: n s)
  case (Cons x xs)
  obtain m t where "f x (n, s) = (m, t)" by fastforce
  with assms [of s x n] Cons.IH [of t m] show ?case by (auto intro: calm_trans)
qed simp

section \<open>The operations of a cycle\<close>

lemmas calm_intros = calm_update calm_update_history calm_insert calm_insert_history

lemma calm_recover: "calm s (snd (recover_stale_ingest_blockers cutoff limit now ms s))"
  unfolding recover_stale_ingest_blockers_def Let_def
  by (rule calm_fold_count)
     (auto simp: recover_blocker_def Let_def row_kept_def purge_statuses split: option.split prod.split intro!: calm_update)

lemma calm_requeue: "calm s (snd (requeue_exhausted cutoff limit now s))" "calm s (snd (requeue_exhausted_room_history cutoff limit now s))"
  by (auto simp: requeue_exhausted_def requeue_exhausted_room_history_def Let_def row_kept_def history_kept_def
      purge_statuses room_history_statuses intro!: calm_intros)

lemma calm_scan: "calm s (record_portal_census_scan c s)"
  by (auto simp: record_portal_census_scan_def Let_def intro: calm_same)

lemma calm_next_history: "calm s (s\<lparr>pu_next_history_id := pu_next_history_id s + 1\<rparr>)"
  by (rule calm_same) simp_all

lemma new_history_calm: "calm s (insert_room_history (new_room_history i user_id service room_id cutoff now) s)"
  by (rule calm_insert_history) (simp add: new_room_history_def room_history_statuses)

lemma calm_census_room: "calm s (record_portal_census_room user_id service cutoff now r s)"
proof -
  have "calm s (update_history p (rediscovered cutoff now) s)" for p
    by (rule calm_update_history)
       (auto simp: history_kept_def rediscovered_def Let_def room_history_statuses split: if_splits)
  then have "calm s ((update_history p (rediscovered cutoff now) s)\<lparr>pu_next_history_id := pu_next_history_id s + 1\<rparr>)" for p
    by (rule calm_trans) (rule calm_same, simp_all add: update_history_def)
  then show ?thesis by (simp add: record_portal_census_room_def new_history_calm)
qed

lemma calm_census_rooms: "calm s (snd (record_portal_census_rooms user_id service rooms cutoff now s))"
  by (simp add: record_portal_census_rooms_def calm_fold calm_census_room)

lemma calm_server_rooms: "calm s (snd (record_server_census_rooms_once user_id service rooms cutoff now s))"
  unfolding record_server_census_rooms_once_def
  by (rule calm_fold_count) (simp add: record_server_census_room_def new_history_calm calm_next_history)

lemma calm_enqueue_audited: "calm s (snd (enqueue_audited_historical_backfill c st kind summary now s))"
  by (auto simp: enqueue_audited_historical_backfill_def Let_def row_kept_def purge_statuses intro!: calm_update)

lemma calm_audit: "calm s (record_historical_backfill_audit c verified summary now s)"
proof -
  define status where "status = (if verified then STATUS_BACKFILL_AUDIT_VERIFIED else STATUS_BACKFILL_AUDIT_BLOCKED)"
  then have not_submitted: "status \<noteq> STATUS_PURGE_SUBMITTED" by (simp add: purge_statuses)
  obtain b s' where ins: "insert_cleanup (new_cleanup_event (hb_user_id c) (hb_ontology_message_id c) (hb_service c) (hb_room_id c)
      (hb_event_id c) True 0 status (Some ''historical_backfill_audit'') (Some (trim_error summary)) (Some now) now) s = (b, s')"
    by fastforce
  have "calm s (snd (insert_cleanup (new_cleanup_event (hb_user_id c) (hb_ontology_message_id c) (hb_service c) (hb_room_id c)
      (hb_event_id c) True 0 status (Some ''historical_backfill_audit'') (Some (trim_error summary)) (Some now) now) s))"
    by (rule calm_insert) (simp add: new_cleanup_event_def not_submitted)
  then have "calm s s'" by (simp add: ins)
  moreover have "calm s' (update_cleanup (cleanup_of (hb_event_id c)) (\<lambda>e. e\<lparr>te_ontology_message_id := hb_ontology_message_id c,
      te_status := status, te_commands_expected := 0, te_commands_accepted := 0, te_attempt_count := 0,
      te_last_command_kind := Some ''historical_backfill_audit'', te_last_error := Some (trim_error summary),
      te_completed_at := Some now, te_updated_at := now\<rparr>) s')"
    by (rule calm_update) (simp_all add: row_kept_def not_submitted)
  ultimately show ?thesis
    by (cases b) (auto simp: record_historical_backfill_audit_def Let_def status_def [symmetric] ins intro: calm_trans)
qed

section \<open>Worlds\<close>

text \<open>The other tasks submit no purge; only the worker does.\<close>

definition calm_env :: "purge_env \<Rightarrow> bool" where
  "calm_env env \<longleftrightarrow> (\<forall>k w. calm (pw_store w) (pw_store (pe_others env k w)))"

abbreviation calm_world :: "purge_world \<Rightarrow> purge_world \<Rightarrow> bool" where
  "calm_world w w' \<equiv> calm (pw_store w) (pw_store w')"

abbreviation rises_world :: "nat \<Rightarrow> purge_world \<Rightarrow> purge_world \<Rightarrow> bool" where
  "rises_world n w w' \<equiv> rises n (pw_store w) (pw_store w')"

lemma calm_others: "calm_env env \<Longrightarrow> calm_world w (pe_others env k w)"
  by (simp add: calm_env_def)

lemma store_on [simp]: "pw_store (on_purges f w) = f (pw_store w)"
  by (simp add: on_purges_def)

lemma calm_recover_world: "calm_world w (recover_and_requeue env w)"
  by (simp add: recover_and_requeue_def Let_def)
     (blast intro: calm_trans calm_recover calm_requeue)

lemma calm_candidate_audit: "calm_env env \<Longrightarrow> candidate_audit env c w = (audit, w1) \<Longrightarrow> calm_world w w1"
  by (auto simp: candidate_audit_def Let_def calm_others split: if_splits)

lemma calm_candidates:
  assumes "calm_env env"
  shows "calm_world w (snd (backfill_candidates env cs counts w))"
proof (induction cs arbitrary: counts w)
  case (Cons c cs)
  obtain audited enqueued forced where counts: "counts = (audited, enqueued, forced)" by (metis prod_cases3)
  obtain audit w1 where a: "candidate_audit env c w = (audit, w1)" by fastforce
  define w2 where "w2 = on_purges (record_historical_backfill_audit c (ha_verified audit) (ha_summary audit) (pe_now env)) w1"
  have w2: "calm_world w w2"
    using calm_trans [OF calm_candidate_audit [OF assms a] calm_audit] by (simp add: w2_def)
  have w3: "calm_world w (w2\<lparr>pw_store := snd (enqueue_audited_historical_backfill c st kind (ha_summary audit) (pe_now env) (pw_store w2))\<rparr>)"
    for st kind
    using calm_trans [OF w2 calm_enqueue_audited] by simp
  show ?case
    using w2 w3 calm_trans [OF w2 Cons.IH] calm_trans [OF w3 Cons.IH]
    by (auto simp: counts a Let_def w2_def [symmetric] enqueue_verified_historical_backfill_def
        enqueue_forced_historical_backfill_def split: option.split sum.split prod.split)
       (metis snd_conv)+
qed simp

lemma calm_targets:
  assumes "calm_env env"
  shows "calm_world w (snd (census_targets env ts counts w))"
proof (induction ts arbitrary: counts w)
  case (Cons t ts)
  define w1 where "w1 = pe_others env 5 w"
  have w1: "calm_world w w1" by (simp add: w1_def calm_others assms)
  have "calm_world w (on_purges (record_portal_census_scan c) w1)" for c
    using calm_trans [OF w1 calm_scan] by simp
  moreover have "calm_world w (w1\<lparr>pw_store := record_portal_census_scan c
      (snd (record_portal_census_rooms u sv rooms b now (pw_store w1)))\<rparr>)" for c u sv rooms b now
    using calm_trans [OF w1 calm_trans [OF calm_census_rooms calm_scan]] by simp
  moreover have "calm_world w v \<Longrightarrow> calm_world w (snd (census_targets env ts counts v))" for v counts
    using calm_trans [OF _ Cons.IH] by simp
  ultimately show ?case
    by (auto simp: Let_def record_portal_census_rooms_def w1_def [symmetric] simp del: store_on split: census_answer.split prod.split)
qed simp

lemma calm_server_census:
  assumes "calm_env env"
  shows "calm_world w (snd (run_server_room_census env w))"
proof -
  define w1 where "w1 = pe_others env 6 w"
  have w1: "calm_world w w1" by (simp add: w1_def calm_others assms)
  have "calm_world w (w1\<lparr>pw_store := record_portal_census_scan c
      (snd (record_server_census_rooms_once u sv rooms b now (pw_store w1)))\<rparr>)" for c u sv rooms b now
    using calm_trans [OF w1 calm_trans [OF calm_server_rooms calm_scan]] by simp
  with w1 show ?thesis
    by (auto simp: run_server_room_census_def Let_def w1_def [symmetric] split: sum.split prod.split) (metis snd_conv)+
qed

lemma calm_run_audit: "calm_env env \<Longrightarrow> calm_world w (snd (run_historical_backfill_audit env w))"
  unfolding run_historical_backfill_audit_def Let_def by (rule calm_candidates)

lemma calm_find:
  assumes "calm_env env"
  shows "calm_world w (snd (find_purges env b p s w))"
proof -
  obtain r1 w1 where r1: "(if b then run_historical_backfill_audit env w else (Inr (0, 0, 0), w)) = (r1, w1)" by fastforce
  have w1: "calm_world w w1"
    using r1 calm_run_audit [OF assms] by (cases b) (metis calm_refl snd_conv)+
  obtain r2 w2 where r2: "(if p then run_portal_room_census env w1 else ((0, 0), w1)) = (r2, w2)" by fastforce
  have "calm_world w1 w2"
    using r2 calm_targets [OF assms] by (cases p) (metis run_portal_room_census_def calm_refl snd_conv)+
  with w1 have w2: "calm_world w w2" by (rule calm_trans)
  obtain r3 w3 where r3: "run_server_room_census env w2 = (r3, w3)" by fastforce
  have w3: "calm_world w w3" using calm_trans [OF w2 calm_server_census [OF assms]] r3 by (metis snd_conv)
  have "calm_world w (on_purges (record_portal_census_scan c) w3)" for c using calm_trans [OF w3 calm_scan] by simp
  with w1 w2 w3 show ?thesis
    unfolding find_purges_def r1
    by (cases r1; cases r2; cases r3; cases s) (auto simp: Let_def r2 r3 split: prod.split)
qed

section \<open>Polls and submissions\<close>

lemma calm_failure: "calm_world w (record_purge_failure env c attempt err w)"
  by (auto simp: record_purge_failure_def record_exhausted_def record_retrying_def record_failure_def row_kept_def purge_statuses
      intro!: calm_update)

lemma calm_success: "calm_world w (record_purge_succeeded env c w)"
  by (auto simp: record_purge_succeeded_def record_room_succeeded_through_def Let_def row_kept_def purge_statuses
      intro!: calm_update)

lemma calm_history_failure: "calm_world w (record_room_history_purge_failure env c attempt err w)"
  by (auto simp: record_room_history_purge_failure_def record_room_history_failure_def Let_def history_kept_def
      room_history_statuses intro!: calm_update_history)

lemma calm_history_success:
  "calm s (record_room_history_succeeded i now s)" "calm s (record_room_history_noop_succeeded i attempt cutoff now s)"
  by (auto simp: record_room_history_succeeded_def record_room_history_noop_succeeded_def history_kept_def
      room_history_statuses split: option.split intro!: calm_update_history)

lemma calm_poll:
  assumes "calm_env env"
  shows "calm_world w (poll_submitted_purge env token c w)"
  using calm_others [OF assms] calm_trans [OF calm_others [OF assms] calm_failure] calm_trans [OF calm_others [OF assms] calm_success]
  by (auto simp: poll_submitted_purge_def Let_def calm_failure split: option.split sum.split)

lemma calm_poll_history:
  assumes "calm_env env"
  shows "calm_world w (poll_submitted_room_history_purge env token c w)"
  using calm_others [OF assms] calm_trans [OF calm_others [OF assms] calm_history_failure]
    calm_trans [OF calm_others [OF assms] calm_history_success(1)]
  by (auto simp: poll_submitted_room_history_purge_def Let_def calm_history_failure split: option.split sum.split)

lemma calm_world_fold: "(\<And>c w. calm_world w (f c w)) \<Longrightarrow> calm_world w (fold f cs w)"
  by (induction cs arbitrary: w) (auto intro: calm_trans)

lemma rises_world_fold: "(\<And>c w. rises_world 1 w (f c w)) \<Longrightarrow> rises_world (length cs) w (fold f cs w)"
proof (induction cs arbitrary: w)
  case (Cons c cs)
  from rises_trans [OF Cons.prems Cons.IH [OF Cons.prems]] show ?case by simp
qed (simp add: calm_rises [symmetric])

lemma calm_send: "calm_env env \<Longrightarrow> send_purge env k token room_id request w = (r, w') \<Longrightarrow> calm_world w w'"
  using calm_others [of env "w\<lparr>pw_requests := pw_requests w @ [(room_id, request)]\<rparr>" k] by (auto simp: send_purge_def)

lemma calm_then_rises: "calm s t \<Longrightarrow> rises n t u \<Longrightarrow> rises n s u"
  by (auto simp: calm_def rises_def)

lemma rises_then_calm: "calm s t \<Longrightarrow> rises n s t"
  by (auto simp: calm_def rises_def)

lemma rises_submit:
  assumes "calm_env env"
  shows "rises_world 1 w (submit_purge env token c w)"
proof -
  define w1 where "w1 = on_purges (record_attempt (te_event_id c) (sat_i32 (te_attempt_count c + 1)) (pe_now env)) w"
  have w1: "calm_world w w1"
    by (auto simp: w1_def record_attempt_def row_kept_def purge_statuses intro!: calm_update)
  have sent: "calm_world w w2" if "send_purge env 3 token (te_room_id c) request w1 = (r, w2)" for request r w2
    using calm_trans [OF w1 calm_send [OF assms that]] .
  have submitted: "rises_world 1 v (on_purges (record_submitted (te_event_id c) purge_id (pe_now env)) v)" for purge_id v
    unfolding store_on record_submitted_def by (rule rises_update) (simp add: row_kept_def)
  have failed: "rises_world 1 w (record_purge_failure env c attempt err v)" "rises_world 1 w (record_purge_succeeded env c v)"
    if "calm_world w v" for attempt err v
    using calm_trans [OF that calm_failure] calm_trans [OF that calm_success] by (simp_all add: rises_then_calm)
  show ?thesis
    using failed [OF w1] failed [OF sent] calm_then_rises [OF sent submitted]
    by (auto simp: submit_purge_def Let_def w1_def [symmetric] simp del: store_on split: sum.split prod.split)
qed

lemma rises_submit_history:
  assumes "calm_env env"
  shows "rises_world 1 w (submit_room_history_purge env token c w)"
proof -
  define w1 where "w1 = on_purges (record_room_history_attempt (rh_id c) (sat_i32 (rh_attempt_count c + 1)) (pe_now env)) w"
  have w1: "calm_world w w1"
    by (auto simp: w1_def record_room_history_attempt_def history_kept_def room_history_statuses intro!: calm_update_history)
  have sent: "calm_world w w2" if "send_purge env 4 token (rh_room_id c) request w1 = (r, w2)" for request r w2
    using calm_trans [OF w1 calm_send [OF assms that]] .
  have submitted: "rises_world 1 v (on_purges (record_room_history_submitted (rh_id c) attempt cutoff purge_id (pe_now env)) v)"
    for attempt cutoff purge_id v
    unfolding store_on record_room_history_submitted_def by (rule rises_update_history) (simp add: history_kept_def)
  have failed: "rises_world 1 w (record_room_history_purge_failure env c attempt err v)"
    "rises_world 1 w (on_purges (record_room_history_noop_succeeded i attempt cutoff (pe_now env)) v)"
    if "calm_world w v" for attempt err v i cutoff
    using calm_trans [OF that calm_history_failure] calm_trans [OF that calm_history_success(2)] by (simp_all add: rises_then_calm)
  show ?thesis
    using failed [OF w1] failed [OF sent] calm_then_rises [OF sent submitted]
    by (auto simp: submit_room_history_purge_def Let_def w1_def [symmetric] simp del: store_on split: sum.split prod.split)
qed

lemma rises_token:
  assumes "calm_env env" "\<And>t w. rises_world n w (f t w)" "with_token env token f w = (r, w')"
  shows "rises_world n w w'"
  using assms(2,3) calm_then_rises [OF calm_others [OF assms(1)] assms(2)] rises_then_calm [OF calm_others [OF assms(1)]]
  by (auto simp: with_token_def Let_def split: option.splits sum.splits)

lemma rises_submits:
  assumes "calm_env env"
  shows "rises_world (length due + length due_history) w (submit_purges env due due_history token w)"
  unfolding submit_purges_def
  by (rule rises_trans [OF rises_world_fold rises_world_fold]) (rule rises_submit rises_submit_history, rule assms)+

lemma calm_polls: "calm_env env \<Longrightarrow> calm_world w (poll_purges env su sh token w)"
  unfolding poll_purges_def
  by (rule calm_trans [OF calm_world_fold calm_world_fold]) (simp_all add: calm_poll calm_poll_history)

lemma due_length:
  assumes "due_purges env s = (due, due_history)"
  shows "length due + length due_history \<le>
    available_purge_submission_slots (ep_purge_max_in_flight (pe_config env)) (count_submitted_purge_tasks s)"
proof -
  define slots where "slots = available_purge_submission_slots (ep_purge_max_in_flight (pe_config env)) (count_submitted_purge_tasks s)"
  have "length due \<le> slots" "length due_history \<le> slots - length due"
    using assms by (auto simp: due_purges_def Let_def slots_def [symmetric] list_due_room_boundaries_def list_due_room_history_purges_def)
  then show ?thesis by (simp add: slots_def [symmetric])
qed

theorem cycle_in_flight:
  assumes "calm_env env" "purge_keyed (pw_store w)" "run_purge_cycle env b p s w = (r, w')"
  shows "purge_keyed (pw_store w') \<and>
    count_submitted_purge_tasks (pw_store w') \<le>
      max (count_submitted_purge_tasks (pw_store w)) (int (ep_purge_max_in_flight (pe_config env)))"
proof -
  obtain r1 w1 where r1: "find_purges env b p s (recover_and_requeue env w) = (r1, w1)" by fastforce
  have w1: "calm_world w w1"
    using calm_trans [OF calm_recover_world calm_find [OF assms(1)]] r1 by (metis snd_conv)
  define batch where "batch = ep_purge_status_poll_batch_size (pe_config env)"
  define su where "su = list_submitted batch (pw_store w1)"
  define sh where "sh = list_submitted_room_history_purges batch (pw_store w1)"
  obtain polled w2 where p: "(if su = [] \<and> sh = [] then (Inr None, w1)
      else (case with_token env None (poll_purges env su sh) w1 of
         (Inl err, v) \<Rightarrow> (Inl err, v) | (Inr t, v) \<Rightarrow> (Inr (Some t), v))) = (polled, w2)" by fastforce
  have token: "calm_world w1 v" if "with_token env None (poll_purges env su sh) w1 = (x, v)" for x v
    using rises_token [OF assms(1) _ that, of 0] by (simp add: calm_rises [symmetric] calm_polls assms(1))
  have "calm_world w1 w2" using p token by (auto split: if_splits prod.splits sum.splits)
  with w1 have w2: "calm_world w w2" by (rule calm_trans)
  obtain due due_history where d: "due_purges env (pw_store w2) = (due, due_history)" by fastforce
  have w3: "rises_world (length due + length due_history) w2 v"
    if "with_token env token (submit_purges env due due_history) w2 = (x, v)" for token x v
    by (rule rises_token [OF assms(1) rises_submits [OF assms(1)] that])
  obtain r2 w4 where r2: "poll_and_submit env w1 = (r2, w4)" by fastforce
  have "w4 = w2 \<or> rises_world (length due + length due_history) w2 w4"
    using r2 w3
    unfolding poll_and_submit_def Let_def batch_def [symmetric] su_def [symmetric] sh_def [symmetric] p
    by (auto simp: d split: if_splits sum.splits prod.splits)
  then have "calm_world w w' \<or> calm_world w w2 \<and> rises_world (length due + length due_history) w2 w'"
    using assms(3) w1 w2 by (auto simp: run_purge_cycle_def r1 r2 split: if_splits sum.splits)
  with due_length [OF d] assms(2) show ?thesis
    by (auto simp: calm_def rises_def available_purge_submission_slots_def)
qed

lemma worker_in_flight:
  assumes "\<forall>env \<in> set envs. calm_env env \<and> ep_purge_max_in_flight (pe_config env) \<le> m"
    "purge_keyed (pw_store w)"
  shows "purge_keyed (pw_store (snd (purge_worker_loop envs p w))) \<and>
    count_submitted_purge_tasks (pw_store (snd (purge_worker_loop envs p w))) \<le>
      max (count_submitted_purge_tasks (pw_store w)) (int m)"
  using assms
proof (induction envs arbitrary: p w)
  case (Cons env envs)
  from Cons.prems(1) have env: "calm_env env" "ep_purge_max_in_flight (pe_config env) \<le> m" by simp_all
  obtain p' w' where t: "purge_worker_turn env p w = (p', w')" by fastforce
  obtain b c d where "snd (purge_worker_turn env p w) = snd (run_purge_cycle env b c d w)"
    using turn_world by blast
  with t obtain r where "run_purge_cycle env b c d w = (r, w')" by (metis prod.collapse snd_conv)
  from cycle_in_flight [OF env(1) Cons.prems(2) this] calm_others [OF env(1), of w' 8] env(2)
  have "purge_keyed (pw_store (pe_others env 8 w'))"
    "count_submitted_purge_tasks (pw_store (pe_others env 8 w')) \<le> max (count_submitted_purge_tasks (pw_store w)) (int m)"
    by (auto simp: calm_def)
  with Cons.IH [of "pe_others env 8 w'" p'] Cons.prems(1) show ?case by (auto simp: t)
qed simp

end
