(* ===== verification/PurgeAudit.thy ===== *)
theory PurgeAudit
  imports PurgeGuards
begin

text \<open>
  What the audit of an old boundary proves, stated over the whole history of the room instead of page by page
  (\<open>audit_judges_history\<close>), and what a census sees of a list of rooms that it reads in batches
  (\<open>lap_covers\<close>).
\<close>

section \<open>Events of a history\<close>

definition event_id_of :: "string + json \<Rightarrow> string option" where
  "event_id_of e = (case e of Inl _ \<Rightarrow> None | Inr j \<Rightarrow> get_str ''event_id'' j)"

definition event_type_of :: "string + json \<Rightarrow> string option" where
  "event_type_of e = (case e of Inl _ \<Rightarrow> None | Inr j \<Rightarrow> get_str ''type'' j)"

definition is_state :: "string + json \<Rightarrow> bool" where
  "is_state e = (case e of Inl _ \<Rightarrow> False | Inr j \<Rightarrow> json_get ''state_key'' j \<noteq> None)"

definition readable :: "string + json \<Rightarrow> bool" where
  "readable e \<longleftrightarrow> event_id_of e \<noteq> None \<and> event_type_of e \<noteq> None"

definition creates_room :: "string + json \<Rightarrow> bool" where
  "creates_room e \<longleftrightarrow> event_type_of e = Some ''m.room.create'' \<and> is_state e"

definition needs_proof :: "string + json \<Rightarrow> bool" where
  "needs_proof e \<longleftrightarrow> historical_event_requires_proof (the (event_type_of e)) (is_state e)"

text \<open>A history is newest first: what comes after the first occurrence of the boundary is older.\<close>

definition older_than :: "string \<Rightarrow> (string + json) list \<Rightarrow> (string + json) list" where
  "older_than boundary es = tl (dropWhile (\<lambda>e. event_id_of e \<noteq> Some boundary) es)"

text \<open>The message is in the ontology store, or the ledger knows that it was stored or thrown away on purpose.\<close>

definition event_proven :: "message_store \<Rightarrow> purge_store \<Rightarrow> string \<Rightarrow> bool" where
  "event_proven ms s i \<longleftrightarrow>
     (\<exists>m \<in> set (ms_messages ms). om_matrix_event_id m = Some i) \<or>
     (\<exists>e \<in> set (pu_events s). te_event_id e = i \<and>
        (0 < te_ontology_message_id e \<or> te_last_command_kind e = Some ''intentional_discard''))"

text \<open>The boundary is there, so is the creation of the room, and all that is in between was stored.\<close>

definition history_proven :: "string \<Rightarrow> message_store \<Rightarrow> purge_store \<Rightarrow> (string + json) list \<Rightarrow> bool" where
  "history_proven boundary ms s es \<longleftrightarrow>
     list_all readable es \<and> list_ex (\<lambda>e. event_id_of e = Some boundary) es \<and>
     list_ex creates_room (older_than boundary es) \<and>
     list_all (\<lambda>e. needs_proof e \<longrightarrow> event_proven ms s (the (event_id_of e))) (older_than boundary es)"

text \<open>The pages of a room from a token on to the start of its history, and the tokens that lead there.\<close>

inductive history_read ::
  "purge_env \<Rightarrow> historical_backfill_candidate \<Rightarrow> string option \<Rightarrow> string list \<Rightarrow> (string + json) list list \<Rightarrow> bool"
  for env c where
  last_page: "pe_page env (hb_user_id c) (hb_room_id c) from_token (ep_backfill_audit_page_size (pe_config env)) = Inr page \<Longrightarrow>
    hp_chunk page = [] \<or> hp_end page = None \<Longrightarrow> history_read env c from_token [] [hp_chunk page]"
| next_page: "pe_page env (hb_user_id c) (hb_room_id c) from_token (ep_backfill_audit_page_size (pe_config env)) = Inr page \<Longrightarrow>
    hp_chunk page \<noteq> [] \<Longrightarrow> hp_end page = Some token \<Longrightarrow> history_read env c (Some token) tokens pages \<Longrightarrow>
    history_read env c from_token (token # tokens) (hp_chunk page # pages)"

inductive_simps history_read_simps: "history_read env c from_token tokens pages"

section \<open>The scan\<close>

lemma scan_event_readable: "(\<exists>a'. scan_event b e a = Inr a') \<longleftrightarrow> readable e"
  by (auto simp: scan_event_def readable_def event_id_of_def event_type_of_def Let_def split: sum.split option.split)

lemma scan_event_before:
  "\<not> as_boundary_found a \<Longrightarrow> readable e \<Longrightarrow>
    scan_event b e a = Inr (if event_id_of e = Some b then a\<lparr>as_boundary_found := True\<rparr> else a)"
  by (auto simp: scan_event_def readable_def event_id_of_def event_type_of_def split: sum.split option.split)

lemma scan_event_after:
  "as_boundary_found a \<Longrightarrow> readable e \<Longrightarrow>
    scan_event b e a = Inr (a\<lparr>as_scanned_events := Suc (as_scanned_events a),
      as_room_create_found := as_room_create_found a \<or> creates_room e,
      as_proof_event_ids := as_proof_event_ids a @ (if needs_proof e then [the (event_id_of e)] else [])\<rparr>)"
  by (auto simp: scan_event_def readable_def event_id_of_def event_type_of_def is_state_def creates_room_def needs_proof_def Let_def
      split: sum.splits)

lemma scan_events_append:
  "scan_events b (es @ fs) a = (case scan_events b es a of Inl err \<Rightarrow> Inl err | Inr a' \<Rightarrow> scan_events b fs a')"
  by (induction es arbitrary: a) (auto split: sum.split)

lemma scan_events_readable: "scan_events b es a = Inr a' \<Longrightarrow> list_all readable es"
proof (induction es arbitrary: a)
  case (Cons e es)
  then obtain a1 where "scan_event b e a = Inr a1" "scan_events b es a1 = Inr a'" by (auto split: sum.splits)
  with Cons.IH scan_event_readable [of b e a] show ?case by auto
qed simp

lemma scan_after:
  "list_all readable es \<Longrightarrow> as_boundary_found a \<Longrightarrow>
    \<exists>a'. scan_events b es a = Inr a' \<and> as_boundary_found a' \<and>
      as_room_create_found a' = (as_room_create_found a \<or> list_ex creates_room es) \<and>
      as_proof_event_ids a' = as_proof_event_ids a @ map (\<lambda>e. the (event_id_of e)) (filter needs_proof es)"
proof (induction es arbitrary: a)
  case (Cons e es)
  then obtain a1 where a1: "scan_event b e a = Inr a1" "as_boundary_found a1"
    "as_room_create_found a1 = (as_room_create_found a \<or> creates_room e)"
    "as_proof_event_ids a1 = as_proof_event_ids a @ (if needs_proof e then [the (event_id_of e)] else [])"
    by (simp add: scan_event_after)
  from Cons.IH [OF _ a1(2)] Cons.prems(1) obtain a' where "scan_events b es a1 = Inr a'" "as_boundary_found a'"
    "as_room_create_found a' = (as_room_create_found a1 \<or> list_ex creates_room es)"
    "as_proof_event_ids a' = as_proof_event_ids a1 @ map (\<lambda>e. the (event_id_of e)) (filter needs_proof es)" by auto
  with a1 show ?case by (intro exI [of _ a']) simp
qed simp

lemma scan_from_start:
  assumes "list_all readable es" "\<not> as_boundary_found a"
  shows "\<exists>a'. scan_events b es a = Inr a' \<and> as_boundary_found a' = list_ex (\<lambda>e. event_id_of e = Some b) es \<and>
    as_room_create_found a' = (as_room_create_found a \<or> list_ex creates_room (older_than b es)) \<and>
    as_proof_event_ids a' = as_proof_event_ids a @ map (\<lambda>e. the (event_id_of e)) (filter needs_proof (older_than b es))"
  using assms(1)
proof (induction es)
  case Nil
  with assms(2) show ?case by (simp add: older_than_def)
next
  case (Cons e es)
  show ?case
  proof (cases "event_id_of e = Some b")
    case True
    from Cons.prems scan_after [of es "a\<lparr>as_boundary_found := True\<rparr>" b] obtain a' where
      "scan_events b es (a\<lparr>as_boundary_found := True\<rparr>) = Inr a'" "as_boundary_found a'"
      "as_room_create_found a' = (as_room_create_found a \<or> list_ex creates_room es)"
      "as_proof_event_ids a' = as_proof_event_ids a @ map (\<lambda>e. the (event_id_of e)) (filter needs_proof es)" by auto
    with True Cons.prems assms(2) show ?thesis
      by (intro exI [of _ a']) (simp add: scan_event_before older_than_def)
  next
    case False
    with Cons assms(2) show ?thesis by (simp add: scan_event_before older_than_def)
  qed
qed

lemma scan_whole:
  "(\<exists>a. scan_events b es audit_start = Inr a \<and> as_boundary_found a \<and> as_room_create_found a \<and>
       list_all (event_proven ms s) (as_proof_event_ids a)) \<longleftrightarrow> history_proven b ms s es"
proof (cases "list_all readable es")
  case True
  then obtain a where "scan_events b es audit_start = Inr a" "as_boundary_found a = list_ex (\<lambda>e. event_id_of e = Some b) es"
    "as_room_create_found a = list_ex creates_room (older_than b es)"
    "as_proof_event_ids a = map (\<lambda>e. the (event_id_of e)) (filter needs_proof (older_than b es))"
    using scan_from_start [of es audit_start b] by (auto simp: audit_start_def)
  with True show ?thesis by (auto simp: history_proven_def list_all_iff)
qed (auto simp: history_proven_def dest: scan_events_readable)

section \<open>The pages\<close>

lemma audit_pages_history:
  "audit_pages env c left from_token seen n a = Inr (True, n', a') \<Longrightarrow>
    \<exists>tokens pages. history_read env c from_token tokens pages \<and> distinct tokens \<and> set tokens \<inter> set seen = {} \<and>
      length pages \<le> left \<and> scan_events (hb_event_id c) (concat pages) a = Inr a'"
proof (induction env c left from_token seen n a rule: audit_pages.induct)
  case (2 env c left from_token seen n a)
  from "2.prems" obtain page where page:
    "pe_page env (hb_user_id c) (hb_room_id c) from_token (ep_backfill_audit_page_size (pe_config env)) = Inr page"
    by (auto split: sum.splits)
  show ?case
  proof (cases "hp_chunk page = []")
    case True
    with "2.prems" page history_read.last_page [OF page] show ?thesis
      by (intro exI [of _ "[]"] exI [of _ "[hp_chunk page]"]) auto
  next
    case False
    with "2.prems" page obtain a1 where a1: "scan_events (hb_event_id c) (hp_chunk page) a = Inr a1"
      by (auto split: sum.splits)
    show ?thesis
    proof (cases "hp_end page")
      case None
      with "2.prems" page False a1 history_read.last_page [OF page] show ?thesis
        by (intro exI [of _ "[]"] exI [of _ "[hp_chunk page]"]) auto
    next
      case (Some token)
      with "2.prems" page False a1 have token: "token \<notin> set seen" and
        rest: "audit_pages env c left (Some token) (token # seen) (Suc n) a1 = Inr (True, n', a')"
        by (auto split: if_splits)
      from "2.IH" [OF page False a1 Some token rest] obtain tokens pages where r: "history_read env c (Some token) tokens pages"
        "distinct tokens" "set tokens \<inter> set (token # seen) = {}" "length pages \<le> left"
        "scan_events (hb_event_id c) (concat pages) a1 = Inr a'" by blast
      with history_read.next_page [OF page False Some r(1)] token a1 show ?thesis
        by (intro exI [of _ "token # tokens"] exI [of _ "hp_chunk page # pages"]) (auto simp: scan_events_append)
    qed
  qed
qed simp

lemma history_audit_pages:
  assumes "history_read env c from_token tokens pages" "distinct tokens" "set tokens \<inter> set seen = {}"
    "length pages \<le> left" "scan_events (hb_event_id c) (concat pages) a = Inr a'"
  shows "\<exists>n'. audit_pages env c left from_token seen n a = Inr (True, n', a')"
  using assms
proof (induction arbitrary: left seen n a rule: history_read.induct)
  case (last_page from_token page)
  then show ?case by (cases left) (auto split: sum.splits)
next
  case (next_page from_token page token tokens pages)
  from next_page.prems(3) obtain l where l: "left = Suc l" "length pages \<le> l" by (cases left) auto
  from next_page.prems(4) obtain a1 where a1: "scan_events (hb_event_id c) (hp_chunk page) a = Inr a1"
    "scan_events (hb_event_id c) (concat pages) a1 = Inr a'" by (auto simp: scan_events_append split: sum.splits)
  from next_page.prems(1,2) have "distinct tokens" "set tokens \<inter> set (token # seen) = {}" "token \<notin> set seen" by auto
  with next_page.IH [OF this(1,2) l(2) a1(2)] next_page.hyps(1-3) l(1) a1(1) show ?case by auto
qed

lemma unproven_none: "unproven_event_ids ids ms s = [] \<longleftrightarrow> list_all (event_proven ms s) ids"
  by (induction ids) (auto simp: unproven_event_ids_def event_proven_def list_ex_iff)

lemma judge_verified:
  "ha_verified (judge_scan config reached n a ms s) \<longleftrightarrow>
     reached \<and> as_boundary_found a \<and> as_room_create_found a \<and> list_all (event_proven ms s) (as_proof_event_ids a)"
  by (auto simp: judge_scan_def Let_def blocked_audit_def unproven_none list_all_iff)

lemma audit_judges_history:
  "(\<exists>a. audit_historical_backfill_candidate env c w = Inr a \<and> ha_verified a) \<longleftrightarrow>
     (\<exists>u. pe_room env (hb_user_id c) (hb_room_id c) = Inr u) \<and>
     (\<exists>tokens pages. history_read env c None tokens pages \<and> distinct tokens \<and>
        length pages \<le> ep_backfill_audit_max_pages (pe_config env) \<and>
        history_proven (hb_event_id c) (pw_messages w) (pw_store w) (concat pages))"
  (is "?audit \<longleftrightarrow> ?room \<and> ?history")
proof
  assume ?audit
  then obtain n a where room: ?room and a: "audit_pages env c (ep_backfill_audit_max_pages (pe_config env)) None [] 0 audit_start = Inr (True, n, a)"
    "as_boundary_found a" "as_room_create_found a" "list_all (event_proven (pw_messages w) (pw_store w)) (as_proof_event_ids a)"
    by (auto simp: audit_historical_backfill_candidate_def judge_verified split: sum.splits)
  from audit_pages_history [OF a(1)] a(2-4) scan_whole room show "?room \<and> ?history" by blast
next
  assume "?room \<and> ?history"
  then obtain tokens pages where room: ?room and r: "history_read env c None tokens pages" "distinct tokens"
    "length pages \<le> ep_backfill_audit_max_pages (pe_config env)"
    "history_proven (hb_event_id c) (pw_messages w) (pw_store w) (concat pages)" by blast
  from r(4) scan_whole [of "hb_event_id c" "concat pages" "pw_messages w" "pw_store w"] obtain a where
    a: "scan_events (hb_event_id c) (concat pages) audit_start = Inr a"
    "as_boundary_found a" "as_room_create_found a" "list_all (event_proven (pw_messages w) (pw_store w)) (as_proof_event_ids a)"
    by blast
  from history_audit_pages [OF r(1,2) _ r(3) a(1), of "[]" 0] obtain n where
    "audit_pages env c (ep_backfill_audit_max_pages (pe_config env)) None [] 0 audit_start = Inr (True, n, a)" by auto
  with room a show ?audit by (auto simp: audit_historical_backfill_candidate_def judge_verified)
qed

section \<open>Laps of a census\<close>

text \<open>The batches of successive censuses, each of the rooms that it found, and where the next one goes on.\<close>

fun census_rounds :: "nat \<Rightarrow> string list list \<Rightarrow> string option \<Rightarrow> string list list \<times> string option" where
  "census_rounds limit [] cursor = ([], cursor)"
| "census_rounds limit (rooms # rest) cursor =
     (let (batch, cursor') = select_portal_census_room_batch rooms cursor limit;
          (batches, end_cursor) = census_rounds limit rest cursor'
      in (batch # batches, end_cursor))"

lemma sorted_drop_while: "sorted rs \<Longrightarrow> c < (r :: 'a :: linorder) \<Longrightarrow> r \<in> set rs \<Longrightarrow> r \<in> set (drop (length (takeWhile (\<lambda>x. x \<le> c) rs)) rs)"
  by (simp add: dropWhile_eq_drop [symmetric]) (induction rs, auto)

lemma sorted_take_last:
  assumes "sorted xs" "x \<in> set xs" "x \<notin> set (take n xs)" "take n xs \<noteq> []"
  shows "last (take n xs) < (x :: 'a :: linorder)"
proof -
  from assms(2,3) have "x \<in> set (drop n xs)" by (metis Un_iff append_take_drop_id set_append)
  moreover from assms(1) have "\<forall>a \<in> set (take n xs). \<forall>b \<in> set (drop n xs). a \<le> b"
    by (metis append_take_drop_id sorted_append)
  ultimately have "last (take n xs) \<le> x" using assms(4) by (metis last_in_set)
  with assms(3,4) show ?thesis by (metis last_in_set order_le_less)
qed

lemma round_advances:
  assumes "0 < limit" "sorted rooms" "r \<in> set rooms" "\<forall>c. cursor = Some c \<longrightarrow> c < r"
    and "select_portal_census_room_batch rooms cursor limit = (batch, cursor')"
  shows "r \<in> set batch \<or> (\<exists>c. cursor' = Some c \<and> c < r)"
proof (cases "r \<in> set batch")
  case False
  define start where "start = (case cursor of None \<Rightarrow> 0 | Some c \<Rightarrow> length (takeWhile (\<lambda>r. r \<le> c) rooms))"
  from assms(3) have "rooms \<noteq> []" by auto
  with assms(1,5) have sel: "batch = take limit (drop start rooms)"
    "cursor' = (if start + length batch < length rooms then (case batch of [] \<Rightarrow> None | _ \<Rightarrow> Some (last batch)) else None)"
    by (auto simp: select_portal_census_room_batch_def start_def Let_def)
  have r: "r \<in> set (drop start rooms)"
    using assms(2-4) sorted_drop_while by (auto simp: start_def split: option.split)
  then have "drop start rooms \<noteq> []" by auto
  with assms(1) sel(1) have ne: "batch \<noteq> []" by (simp add: take_eq_Nil)
  have "sorted (drop start rooms)" using assms(2) by (simp add: sorted_wrt_drop)
  from sorted_take_last [OF this r] False ne sel(1) have less: "last batch < r" by simp
  have "start + length batch < length rooms"
  proof (rule ccontr)
    assume "\<not> start + length batch < length rooms"
    then have "length (drop start rooms) \<le> limit" using sel(1) by (cases "length rooms - start \<le> limit") auto
    with sel(1) r False show False by simp
  qed
  with sel(2) ne less show ?thesis by (cases batch) auto
qed simp

lemma lap_covers:
  assumes "0 < limit" "\<forall>rooms \<in> set found. sorted rooms \<and> r \<in> set rooms" "found \<noteq> []"
    "\<forall>c. cursor = Some c \<longrightarrow> c < r" "census_rounds limit found cursor = (batches, None)"
  shows "r \<in> set (concat batches)"
  using assms(2-5)
proof (induction found arbitrary: cursor batches)
  case (Cons rooms rest)
  obtain batch cursor' where s: "select_portal_census_room_batch rooms cursor limit = (batch, cursor')" by fastforce
  obtain bs where bs: "census_rounds limit rest cursor' = (bs, None)" "batches = batch # bs"
    using Cons.prems(4) s by (auto split: prod.splits)
  from round_advances [OF assms(1) _ _ Cons.prems(3) s] Cons.prems(1)
  have "r \<in> set batch \<or> (\<exists>c. cursor' = Some c \<and> c < r)" by simp
  then show ?case
  proof
    assume "\<exists>c. cursor' = Some c \<and> c < r"
    then obtain c where c: "cursor' = Some c" "c < r" by blast
    with bs(1) have "rest \<noteq> []" by auto
    with Cons.IH [OF _ _ _ bs(1)] Cons.prems(1) c bs(2) show ?thesis by auto
  qed (simp add: bs(2))
qed simp

end
