(* ===== verification/PurgeProperties.thy ===== *)
theory PurgeProperties
  imports PurgeFlight PurgeAudit
begin

text \<open>
  The properties of the room purges and a concrete world for their witnesses: a message that is still being stored
  keeps its room, few purges are in flight, an audit speaks for the whole history, the server census queues what it found
  and nothing else, and a portal census reaches every room. Then the ways in which a boundary goes wrong.
\<close>

section \<open>The rooms of the server\<close>

lemma server_rooms_fold:
  assumes "distinct rooms"
  shows "\<exists>new. pu_history (snd (fold (record_server_census_room u sv cutoff now) rooms (n, s))) = pu_history s @ new \<and>
    map rh_room_id new = filter (\<lambda>r. \<not> list_ex (same_history u sv r) (pu_history s)) rooms \<and>
    (\<forall>x \<in> set new. rh_status x = ROOM_HISTORY_PENDING \<and> rh_cutoff_ts x = cutoff \<and> rh_user_id x = u \<and> rh_service x = sv) \<and>
    fst (fold (record_server_census_room u sv cutoff now) rooms (n, s)) = n + length new \<and>
    pu_events (snd (fold (record_server_census_room u sv cutoff now) rooms (n, s))) = pu_events s"
  using assms
proof (induction rooms arbitrary: n s)
  case (Cons r rooms)
  show ?case
  proof (cases "list_ex (same_history u sv r) (pu_history s)")
    case True
    with Cons.IH [of n "s\<lparr>pu_next_history_id := pu_next_history_id s + 1\<rparr>"] Cons.prems show ?thesis
      by (simp add: record_server_census_room_def)
  next
    case False
    define row where "row = (new_room_history 0 u sv r cutoff now)\<lparr>rh_id := pu_next_history_id s\<rparr>"
    define t where "t = s\<lparr>pu_history := pu_history s @ [row], pu_next_history_id := pu_next_history_id s + 1\<rparr>"
    have step: "record_server_census_room u sv cutoff now r (n, s) = (n + 1, t)"
      using False by (simp add: record_server_census_room_def insert_room_history_def t_def row_def)
    have row: "rh_room_id row = r" "rh_status row = ROOM_HISTORY_PENDING" "rh_cutoff_ts row = cutoff" "rh_user_id row = u"
      "rh_service row = sv" by (simp_all add: row_def new_room_history_def)
    from Cons.prems have "\<forall>x \<in> set rooms. x \<noteq> r" by auto
    then have same: "filter (\<lambda>x. \<not> list_ex (same_history u sv x) (pu_history t)) rooms =
        filter (\<lambda>x. \<not> list_ex (same_history u sv x) (pu_history s)) rooms"
      by (intro filter_cong) (auto simp: t_def same_history_def row)
    from Cons.prems Cons.IH [of "n + 1" t] obtain new where new:
      "pu_history (snd (fold (record_server_census_room u sv cutoff now) rooms (n + 1, t))) = pu_history t @ new"
      "map rh_room_id new = filter (\<lambda>r. \<not> list_ex (same_history u sv r) (pu_history t)) rooms"
      "\<forall>x \<in> set new. rh_status x = ROOM_HISTORY_PENDING \<and> rh_cutoff_ts x = cutoff \<and> rh_user_id x = u \<and> rh_service x = sv"
      "fst (fold (record_server_census_room u sv cutoff now) rooms (n + 1, t)) = n + 1 + length new"
      "pu_events (snd (fold (record_server_census_room u sv cutoff now) rooms (n + 1, t))) = pu_events t" by auto
    with step row same False show ?thesis
      by (intro exI [of _ "row # new"]) (simp add: t_def)
  qed
qed simp

lemma inventory_sorted: "fetch_server_room_inventory env token = Inr found \<Longrightarrow> distinct (si_room_ids found)"
proof -
  have "server_room_pages env token left offset seen rooms n pages = Inr found \<Longrightarrow> distinct (si_room_ids found)"
    for left offset seen rooms n pages
    by (induction env token left offset seen rooms n pages rule: server_room_pages.induct)
       (auto simp: Let_def split: sum.splits prod.splits option.splits if_splits)
  then show "fetch_server_room_inventory env token = Inr found \<Longrightarrow> distinct (si_room_ids found)"
    by (simp add: fetch_server_room_inventory_def)
qed

lemma one_filtered: "distinct xs \<Longrightarrow> length xs - length (filter (\<lambda>x. x \<noteq> a) xs) = 1 \<longleftrightarrow> a \<in> set xs"
proof -
  assume "distinct xs"
  moreover have "filter (\<lambda>x. x \<noteq> a) xs = removeAll a xs" by (simp add: removeAll_filter_not_eq eq_commute)
  ultimately have "length (filter (\<lambda>x. x \<noteq> a) xs) = (if a \<in> set xs then length xs - 1 else length xs)"
    by (simp add: distinct_remove1_removeAll [symmetric] length_remove1)
  then show ?thesis by (cases xs) auto
qed

section \<open>A world\<close>

definition pg_event :: "i32 \<Rightarrow> string \<Rightarrow> string \<Rightarrow> string \<Rightarrow> cleanup_event" where
  "pg_event i room_id event_id status =
     (new_cleanup_event 7 1 ''signal'' room_id event_id True 1 status None None None 10)\<lparr>te_id := i\<rparr>"

definition pg_store :: purge_store where
  "pg_store = \<lparr>pu_events = [pg_event 1 ''!a'' ''$1'' STATUS_INGESTING, pg_event 2 ''!b'' ''$2'' STATUS_PENDING_PURGE],
     pu_next_event_id = 3, pu_history = [], pu_next_history_id = 1, pu_scans = [], pu_bridges = []\<rparr>"

definition pg_config :: event_purge_config where
  "pg_config = (config_from_env (\<lambda>_. None))"

definition pg_page :: "i32 \<Rightarrow> string \<Rightarrow> string option \<Rightarrow> nat \<Rightarrow> string + history_page" where
  "pg_page user_id room_id from_token limit =
     (case from_token of
        None \<Rightarrow> Inr \<lparr>hp_chunk = [Inr (JObj [(''event_id'', JStr ''$2''), (''type'', JStr ''m.room.message'')])], hp_end = Some ''t''\<rparr>
      | Some _ \<Rightarrow> Inr \<lparr>hp_chunk = [Inr (JObj [(''event_id'', JStr ''$0''), (''type'', JStr ''m.room.create''), (''state_key'', JStr [])])],
                      hp_end = None\<rparr>)"

definition pg_env :: "i32 \<Rightarrow> purge_env" where
  "pg_env now = \<lparr>pe_now = now, pe_config = pg_config, pe_encode = (\<lambda>s. s), pe_show_status = show_nat, pe_debug = (\<lambda>s. s),
     pe_token = (\<lambda>_. Inr ''token''), pe_post = (\<lambda>_ _ _. Answered 200 (Inr [])), pe_get = (\<lambda>_ _. Answered 200 (Inr [])),
     pe_read_submit = (\<lambda>_. Inr ''p1''), pe_read_status = (\<lambda>_. Inr (''active'', None)),
     pe_read_rooms = (\<lambda>_. Inr \<lparr>rl_rooms = [''!admin'', ''!a'', ''!b''], rl_offset = 0, rl_total_rooms = 3, rl_next_batch = None\<rparr>),
     pe_service_rooms = (\<lambda>_ _. ServiceRooms []), pe_admin_room = (\<lambda>_. Inr (''token'', ''!admin'')),
     pe_room = (\<lambda>_ _. Inr ()), pe_page = pg_page, pe_others = (\<lambda>_ w. w)\<rparr>"

definition pg_world :: "message_store \<Rightarrow> purge_world" where
  "pg_world ms = \<lparr>pw_store = pg_store, pw_messages = ms, pw_requests = []\<rparr>"

definition pg_messages :: message_store where
  "pg_messages = \<lparr>ms_messages = [], ms_next_id = 1\<rparr>"

lemma pg_others [simp]: "others_keep e (pg_env now)" "calm_env (pg_env now)"
  by (simp_all add: others_keep_def calm_env_def pg_env_def)

lemma pg_keyed: "events_keyed pg_store" "purge_keyed pg_store"
  by (simp_all add: purge_keyed_def events_keyed_def pg_store_def pg_event_def new_cleanup_event_def)

lemma pg_unstored: "unstored (pg_event 1 ''!a'' ''$1'' STATUS_INGESTING) (pg_world pg_messages)"
  using pg_keyed(1) by (simp add: unstored_def pg_world_def pg_messages_def ingest_blocker_def pg_store_def pg_event_def new_cleanup_event_def)

section \<open>What is not stored is not purged\<close>

text \<open>Claim C12. However long the worker runs and whatever the homeserver answers, an event that is being stored or
  could not be stored, and that no message of the ontology has, keeps its row, and its room is not purged.\<close>

theorem unstored_event_keeps_room:
  assumes "\<forall>env \<in> set envs. others_keep e env" "unstored e w"
  shows "unstored e (snd (start_tuwunel_event_purge_worker envs w)) \<and>
    requests_to (te_room_id e) (snd (start_tuwunel_event_purge_worker envs w)) = requests_to (te_room_id e) w"
  using worker_guarded [OF assms(1), of "requests_to (te_room_id e) w" w] assms(2)
  by (auto simp: guarded_def start_tuwunel_event_purge_worker_def)

theorem unstored_event_keeps_room_witness:
  "requests_to ''!a'' (snd (start_tuwunel_event_purge_worker [pg_env 1000, pg_env 1030] (pg_world pg_messages))) = []"
proof -
  have "te_room_id (pg_event 1 ''!a'' ''$1'' STATUS_INGESTING) = ''!a''" "requests_to ''!a'' (pg_world pg_messages) = []"
    by (simp_all add: pg_event_def new_cleanup_event_def requests_to_def pg_world_def)
  with unstored_event_keeps_room [OF _ pg_unstored, of "[pg_env 1000, pg_env 1030]"] show ?thesis by simp
qed

section \<open>Purges in flight\<close>

text \<open>Claim C13. However long the worker runs, it has no more purges in flight than there were or the largest limit that
  was configured meanwhile, as long as no one else submits purges.\<close>

theorem purges_in_flight_bounded:
  assumes "\<forall>env \<in> set envs. calm_env env \<and> ep_purge_max_in_flight (pe_config env) \<le> m" "purge_keyed (pw_store w)"
  shows "count_submitted_purge_tasks (pw_store (snd (start_tuwunel_event_purge_worker envs w)))
    \<le> max (count_submitted_purge_tasks (pw_store w)) (int m)"
  using worker_in_flight [OF assms] by (simp add: start_tuwunel_event_purge_worker_def)

lemma pg_max: "ep_purge_max_in_flight (pe_config (pg_env now)) = 4"
  by (simp add: pg_env_def pg_config_def config_from_env_def env_u64_def)

lemma pg_count: "count_submitted_purge_tasks (pw_store (pg_world pg_messages)) = 0"
  by (simp add: pg_world_def pg_store_def count_submitted_purge_tasks_def sql_count_def pg_event_def new_cleanup_event_def purge_statuses)

theorem purges_in_flight_bounded_witness:
  "count_submitted_purge_tasks (pw_store (snd (start_tuwunel_event_purge_worker [pg_env 1000, pg_env 1030] (pg_world pg_messages)))) \<le> 4"
proof -
  have "purge_keyed (pw_store (pg_world pg_messages))" using pg_keyed(2) by (simp add: pg_world_def)
  from purges_in_flight_bounded [of "[pg_env 1000, pg_env 1030]" 4, OF _ this] show ?thesis by (simp add: pg_max pg_count)
qed

section \<open>What an audit says\<close>

text \<open>Claim C14. An audit verifies a boundary exactly when the owner sees the room and its pages, read from the newest to the start within
  the limit, make up a history in which every event can be read, the boundary occurs, the creation of the room is older, and each older
  event that is neither a state event nor a reaction or a redaction is in the ontology store or is known to have been stored or discarded.\<close>

theorem audit_verified_iff:
  "(\<exists>a. audit_historical_backfill_candidate env c w = Inr a \<and> ha_verified a) \<longleftrightarrow>
     (\<exists>u. pe_room env (hb_user_id c) (hb_room_id c) = Inr u) \<and>
     (\<exists>tokens pages. history_read env c None tokens pages \<and> distinct tokens \<and>
        length pages \<le> ep_backfill_audit_max_pages (pe_config env) \<and>
        history_proven (hb_event_id c) (pw_messages w) (pw_store w) (concat pages))"
  by (rule audit_judges_history)

definition pg_candidate :: historical_backfill_candidate where
  "pg_candidate = \<lparr>hb_ontology_message_id = 1, hb_user_id = 7, hb_room_id = ''!b'', hb_service = ''signal'', hb_event_id = ''$2'', hb_created_at = 10\<rparr>"

text \<open>A room of two pages whose older page is its creation is verified.\<close>

lemma audit_of_world:
  "\<exists>a. audit_historical_backfill_candidate (pg_env 1000) pg_candidate (pg_world pg_messages) = Inr a \<and> ha_verified a"
proof -
  have first: "pe_page (pg_env 1000) (hb_user_id pg_candidate) (hb_room_id pg_candidate) None n =
      Inr \<lparr>hp_chunk = [Inr (JObj [(''event_id'', JStr ''$2''), (''type'', JStr ''m.room.message'')])], hp_end = Some ''t''\<rparr>" for n
    by (simp add: pg_env_def pg_page_def)
  have second: "pe_page (pg_env 1000) (hb_user_id pg_candidate) (hb_room_id pg_candidate) (Some ''t'') n =
      Inr \<lparr>hp_chunk = [Inr (JObj [(''event_id'', JStr ''$0''), (''type'', JStr ''m.room.create''), (''state_key'', JStr [])])], hp_end = None\<rparr>" for n
    by (simp add: pg_env_def pg_page_def)
  have "history_read (pg_env 1000) pg_candidate (Some ''t'') []
      [[Inr (JObj [(''event_id'', JStr ''$0''), (''type'', JStr ''m.room.create''), (''state_key'', JStr [])])]]"
    using history_read.last_page [OF second] by simp
  from history_read.next_page [OF first _ _ this] have "history_read (pg_env 1000) pg_candidate None [''t'']
      [[Inr (JObj [(''event_id'', JStr ''$2''), (''type'', JStr ''m.room.message'')])],
       [Inr (JObj [(''event_id'', JStr ''$0''), (''type'', JStr ''m.room.create''), (''state_key'', JStr [])])]]" by simp
  moreover have "history_proven (hb_event_id pg_candidate) ms s (concat
      [[Inr (JObj [(''event_id'', JStr ''$2''), (''type'', JStr ''m.room.message'')])],
       [Inr (JObj [(''event_id'', JStr ''$0''), (''type'', JStr ''m.room.create''), (''state_key'', JStr [])])]])" for ms s
    by (simp add: history_proven_def older_than_def event_id_of_def event_type_of_def readable_def creates_room_def is_state_def
        needs_proof_def historical_event_requires_proof_def pg_candidate_def get_str_def)
  moreover have "ep_backfill_audit_max_pages (pe_config (pg_env 1000)) = 100"
    by (simp add: pg_env_def pg_config_def config_from_env_def env_u64_def)
  moreover have "pe_room (pg_env 1000) (hb_user_id pg_candidate) (hb_room_id pg_candidate) = Inr ()" by (simp add: pg_env_def)
  ultimately show ?thesis unfolding audit_judges_history by fastforce
qed

section \<open>The server census\<close>


section \<open>The portal census\<close>

text \<open>Claim C16. When the censuses of a service, each of a batch of the rooms that it finds, have come to the end of the rooms, then
  every room that was there all the time was in one of the batches, whatever rooms appeared and went in between.\<close>

theorem census_lap_covers_rooms:
  assumes "0 < limit" "found \<noteq> []" "\<forall>rooms \<in> set found. sorted rooms \<and> room_id \<in> set rooms"
    and "census_rounds limit found None = (batches, None)"
  shows "room_id \<in> set (concat batches)"
  using lap_covers [OF assms(1,3,2) _ assms(4)] by simp

theorem census_lap_covers_rooms_witness:
  "''!c'' \<in> set (concat (fst (census_rounds 2 [[''!a'', ''!b'', ''!c''], [''!b'', ''!bb'', ''!c''], [''!a'', ''!c'']] None)))"
proof -
  obtain batches cursor where "census_rounds 2 [[''!a'', ''!b'', ''!c''], [''!b'', ''!bb'', ''!c''], [''!a'', ''!c'']] None = (batches, cursor)"
    by fastforce
  moreover have "snd (census_rounds 2 [[''!a'', ''!b'', ''!c''], [''!b'', ''!bb'', ''!c''], [''!a'', ''!c'']] None) = None"
    by code_simp
  ultimately have r: "census_rounds 2 [[''!a'', ''!b'', ''!c''], [''!b'', ''!bb'', ''!c''], [''!a'', ''!c'']] None = (batches, None)" by simp
  have "\<forall>rooms \<in> set [[''!a'', ''!b'', ''!c''], [''!b'', ''!bb'', ''!c''], [''!a'', ''!c'']]. sorted rooms \<and> ''!c'' \<in> set rooms"
    by code_simp
  from census_lap_covers_rooms [OF _ _ this r] r show ?thesis by simp
qed

section \<open>How a boundary goes wrong\<close>

text \<open>A room with a due boundary and a row of a census is submitted twice in the same cycle, though neither is done while the
  other is in flight: both lists are read before anything is submitted.\<close>

theorem room_submitted_twice:
  assumes "pu_events s = [e]" "pu_history s = [r]" "rh_room_id r = te_room_id e"
    and "te_status e = STATUS_PENDING_PURGE" "rh_status r = ROOM_HISTORY_PENDING"
    and "te_enqueued_at e \<le> seconds_before (pe_now env) (ep_retention_secs (pe_config env))"
    and "2 \<le> ep_purge_max_in_flight (pe_config env)" "0 < ep_batch_size (pe_config env)"
    and "0 < ep_portal_census_purge_batch_size (pe_config env)"
  shows "due_purges env s = ([e], [r])"
proof -
  have free: "\<not> room_blocked (te_room_id e) s" "\<not> history_blocked (te_room_id e) s"
    using assms(1,2,4,5) by (simp_all add: room_blocked_def history_blocked_def active_room_history_purge_rooms_def purge_statuses room_history_statuses)
  have count: "count_submitted_purge_tasks s = 0"
    using assms(1,2,4,5) by (simp add: count_submitted_purge_tasks_def sql_count_def purge_statuses room_history_statuses)
  have due: "list_due_room_boundaries (seconds_before (pe_now env) (ep_retention_secs (pe_config env))) n s = [e]" if "0 < n" for n
    using assms(1,4,6) free(1) that by (simp add: list_due_room_boundaries_def boundary_due_def sql_select_def order_desc_def MAX_DUE_SCAN_def)
  have due_history: "list_due_room_history_purges n s = [r]" if "0 < n" for n
    using assms(2,3,5) free(2) that by (simp add: list_due_room_history_purges_def sql_select_def order_asc_def)
  show ?thesis
    using assms(7-9) by (simp add: due_purges_def Let_def count available_purge_submission_slots_def due due_history)
qed

text \<open>An event that was thrown away on purpose is proven until its purge is submitted, which overwrites the kind that says so.\<close>

theorem discard_proof_lost:
  assumes "pu_events s = [e]" "te_ontology_message_id e = 0" "te_last_command_kind e = Some ''intentional_discard''" "ms_messages ms = []"
  shows "unproven_event_ids [te_event_id e] ms s = []"
    and "unproven_event_ids [te_event_id e] ms (record_submitted (te_event_id e) purge_id now s) = [te_event_id e]"
  using assms by (simp_all add: unproven_event_ids_def record_submitted_def update_cleanup_def cleanup_of_def sql_update_def)

text \<open>The same way a boundary that is purged up to a time, because its event may be gone, is purged by its event when it is tried again.\<close>

theorem forced_retry_by_event:
  assumes "e' \<in> set (pu_events (record_submitted (te_event_id e) purge_id now s))" "te_event_id e' = te_event_id e"
  shows "boundary_request env e' w = Inr (purge_history_request (te_event_id e))"
  using assms by (auto simp: record_submitted_def update_cleanup_def cleanup_of_def boundary_request_def elim!: in_sql_updateE)

text \<open>A finished purge closes every row of its room that was enqueued no later than its boundary, whichever comes first in the
  history: a boundary that was recovered is enqueued anew, and closes the rows of messages that are younger than it and not purged.\<close>

theorem enqueued_before_closed:
  assumes "x \<in> set (pu_events s)" "te_room_id x = te_room_id e" "te_enqueued_at x \<le> te_enqueued_at e" "te_status x = STATUS_PENDING_PURGE"
  shows "\<exists>y \<in> set (pu_events (snd (record_room_succeeded_through (te_room_id e) (te_enqueued_at e) now s))).
    te_event_id y = te_event_id x \<and> te_status y = STATUS_PURGE_SUCCEEDED"
proof -
  define f where "f = (\<lambda>e :: cleanup_event. e\<lparr>te_status := STATUS_PURGE_SUCCEEDED, te_commands_accepted := te_commands_expected e,
    te_last_error := None, te_completed_at := Some now, te_updated_at := now\<rparr>)"
  have "f x \<in> set (sql_update (\<lambda>y. te_room_id y = te_room_id e \<and> te_enqueued_at y \<le> te_enqueued_at e \<and> purge_open y) f (pu_events s))"
    by (rule sql_update_memI [OF assms(1)]) (simp add: assms(2-4) purge_open_def)
  then have "f x \<in> set (pu_events (snd (record_room_succeeded_through (te_room_id e) (te_enqueued_at e) now s)))"
    by (simp add: record_room_succeeded_through_def Let_def update_cleanup_def f_def)
  then show ?thesis by (rule bexI [rotated]) (simp add: f_def)
qed

end
