(* ===== verification/Spec2Isabelle.thy ===== *)
theory Spec2Isabelle
  imports LT_Properties LT_RunProperties LT_PairingProperties LT_PushProperties LT_HandlerProperties
    Suppressions WebhookProperties ReplyWatches ReminderProperties AgentFlow
    DigestDemo DigestFlow RuleFlow BillingFlow CommitmentFlow PurgeProperties
begin

text \<open>
  Lightfriend is an assistant reached by SMS, voice and a minimal phone app (the light tool). Its backend
  (\<^verbatim>\<open>backend/src\<close>) is an Axum server over PostgreSQL: handlers validate requests, services carry the
  logic, repositories run the statements, and cron jobs and workers act on what is due. This
  development models the parts of the backend whose correctness rests on the order in which
  concurrent callers reach the database: quotas, one-shot claims, leases, idempotency keys, pairing,
  and the rules that decide what is sent to whom.

  \<^bold>\<open>How the program is modelled.\<close> A table is the list of its rows and a repository operation is a
  function of the store (\<open>Tables\<close>). One statement, or one \<^verbatim>\<open>conn.transaction\<close>, is one atomic step; where a
  transaction has several statements without a lock, the writes of other transactions between
  them are parameters (\<open>others\<close>). Errors are values of a sum with the error on the left. Integers
  are mathematical ones with the wrap-around of \<^verbatim>\<open>i32\<close> and \<^verbatim>\<open>i64\<close> written where the code computes; strings
  are lists of UTF-8 bytes (\<open>Prelude\<close>, \<open>Text\<close>). Clocks, random values, SHA-256, AES-GCM, DNS, HTTP and
  the services behind them are parameters; a property that relies on one states the law it uses as a
  hypothesis, and its witness instantiates it with a concrete function.

  \<^bold>\<open>Theories.\<close>
  \<^item> \<open>Prelude\<close>, \<open>Tables\<close>, \<open>Text\<close>: integers, strings, statements and their lemmas.
  \<^item> \<open>Contracts\<close>: the interfaces as locales (\<open>quota\<close>, \<open>exact_quota\<close>, \<open>one_shot\<close>, \<open>leasing\<close>, \<open>idempotency\<close>) with
    the facts about sequences of calls that every component gets by interpreting them.
  \<^item> \<open>Encryption\<close>: \<^verbatim>\<open>utils/encryption.rs\<close>.
  \<^item> \<open>LT_Model\<close>, \<open>LT_Devices\<close>, \<open>LT_Runs\<close>, \<open>LT_Pairing\<close>, \<open>LT_Push\<close>: the light tool tables, their
    repositories and the services over them (\<^verbatim>\<open>light_tool_*_repository.rs\<close>, \<^verbatim>\<open>services/light_tool_*.rs\<close>).
    \<open>LT_Execution\<close> has the run execution service and the select loop of the dispatcher, \<open>LT_System\<close> the
    step relation of all operations with its invariants, \<open>LT_Lifecycle\<close> the life of a run,
    \<open>LT_Handlers\<close> the HTTP endpoints of \<^verbatim>\<open>handlers/light_tool_handlers.rs\<close>, \<open>LT_Demo\<close> a concrete store.
  \<^item> \<open>Suppressions\<close>: \<^verbatim>\<open>temporary_alert_suppressions_repository.rs\<close>.
  \<^item> \<open>Webhook\<close>: \<^verbatim>\<open>webhook_tokens_repository.rs\<close> and \<^verbatim>\<open>handlers/webhook_sms_handlers.rs\<close>.
  \<^item> \<open>ReplyWatches\<close>: \<^verbatim>\<open>pending_reply_watches_repository.rs\<close>.
  \<^item> \<open>Ontology\<close>, \<open>Reminders\<close>: the events, reminders and rules of \<^verbatim>\<open>ontology_repository.rs\<close> and the event job
    of \<^verbatim>\<open>jobs/scheduler.rs\<close>.
  \<^item> \<open>AgentIntegration\<close>, \<open>AgentContracts\<close>, \<open>AgentHandlers\<close>: the pairing, credentials and actions of coding
    agents (\<^verbatim>\<open>agent_integration_repository.rs\<close>, \<^verbatim>\<open>handlers/agent_integration_handlers.rs\<close>), with
    \<open>AgentProperties\<close> and \<open>AgentFlow\<close>.
  \<^item> \<open>Messages\<close>: the messages of \<^verbatim>\<open>ontology_repository.rs\<close>. \<open>DigestText\<close> and \<open>Digest\<close>: the digest job of
    \<^verbatim>\<open>jobs/scheduler.rs\<close>, its text and a pass over all users, with \<^verbatim>\<open>send_notification_with_context\<close> for digests
    and \<^verbatim>\<open>clamp_sms_body\<close>. \<open>DigestDemo\<close> and \<open>DigestFlow\<close> hold their concrete stores and witnesses.
  \<^item> \<open>Json\<close>: the \<^verbatim>\<open>serde_json\<close> values the rules are stored in. \<open>Links\<close>: the links of
    \<^verbatim>\<open>ontology_repository.rs\<close>. \<open>RuleConfig\<close>: the stored triggers, flows and actions of a rule and when a
    message meets a trigger (\<^verbatim>\<open>proactive/rules.rs\<close>). \<open>RuleEngine\<close>: the evaluation of a rule
    (\<^verbatim>\<open>evaluate_and_execute\<close> and below); \<open>RuleEvents\<close>: \<^verbatim>\<open>emit_ontology_change\<close>, the tasks it spawns and the test
    panel; \<open>RuleSchedule\<close>: \<^verbatim>\<open>compute_next_fire_at\<close> and the rule job of \<^verbatim>\<open>jobs/scheduler.rs\<close>;
    \<open>RuleHandlers\<close>: \<^verbatim>\<open>handlers/rule_handlers.rs\<close>. \<open>RuleStore\<close> has the typing of the stored rules and
    \<open>AlwaysShow\<close> the abstract map that the always show list refines. \<open>JsonCodec\<close> is a concrete printer and
    parser with which the witnesses of \<open>RuleFlow\<close> discharge the laws assumed of \<^verbatim>\<open>serde_json\<close>.
  \<^item> \<open>Billing\<close>: \<^verbatim>\<open>billing_repository.rs\<close>, the accounts, the outbox of usage events, the intents and the records of
    webhooks. \<open>BillingService\<close>: \<^verbatim>\<open>services/metronome_billing.rs\<close>, provisioning, the outbox worker, entitlement and the
    billing period, over a provider and a Stripe that answer or fail. \<open>BillingHandlers\<close>: the webhook and the
    overage switch of \<^verbatim>\<open>handlers/billing_handlers.rs\<close>. \<open>BillingRuns\<close> has the statements and the operations as step
    relations and shows that every operation is a run of statements under any interleaving;
    \<open>BillingFlow\<close> has the concrete provider and the witnesses of \<open>BillingProperties\<close>.
  \<^item> \<open>Commitments\<close>: \<^verbatim>\<open>commitment_repository.rs\<close>, the sender rules, the prompts and the packed embeddings, with the
    dashboard of \<^verbatim>\<open>handlers/commitment_handlers.rs\<close>. \<open>CommitmentReplies\<close>: \<^verbatim>\<open>proactive/commitment_replies.rs\<close>, what a
    reply of 1 to 4 does to the prompt it answers. \<open>CommitmentDetection\<close>: the part of
    \<^verbatim>\<open>proactive/system_behaviors.rs\<close> that gates a message, routes what the language model extracted and prompts the
    user. \<open>CommitmentRuns\<close> shows that each of these operations is a run of statements under any interleaving,
    \<open>CommitmentEvents\<close> what a detection can do to events; \<open>CommitmentFlow\<close> has the concrete world and the witnesses.
  \<^item> \<open>Purge\<close>, \<open>PurgeEvents\<close>: \<^verbatim>\<open>tuwunel_cleanup_repository.rs\<close> without the jobs of disconnected bridges, the ledger of the events and rooms
    to purge from the Matrix server. \<open>PurgeWorker\<close> and \<open>PurgeCycle\<close>: \<^verbatim>\<open>utils/tuwunel_event_cleanup.rs\<close>, the audit of old
    boundaries and the censuses, then submitting, polling, a cycle and the loop. \<open>PurgeGuards\<close> follows one event that is not
    stored through a cycle, \<open>PurgeFlight\<close> the number of purges in flight, \<open>PurgeAudit\<close> reads an audit and a census as statements
    over a whole history.
  \<^item> The theories named \<open>..Properties\<close> hold the properties of these components and their witnesses.

  \<^bold>\<open>What the lemmas show.\<close> The trial quota, the daily caps and the one-shot claims hold for every
  interleaving of calls; the status of a run never goes back and its columns agree with it; a device
  is linked only by a token that is unused and in time; a notification that arrives during a
  delivery is not lost; two workers never hold the same event during a lease; a repeated request with
  the same key is answered from the record. A stored rule is well typed and its flow has at most three
  conditions above each other, so that one evaluation asks the language model at most three times and
  acts at most once; the test panel foretells what an evaluation does; the next fire time of a
  recurring rule is the first local time after now that the pattern names; the always show list is a
  map from identities to entries. The ledger of usage is only appended to and an intent is billed once;
  overage is on only with a recorded consent; a usage event or a webhook is worked on by one process
  at a time during its lease. A sender has at most one open prompt for a commitment and a reply is applied once;
  the answers of the language model reach only the tracked events of the user and move no deadline of the future
  forward by more than six hours. A room of the Matrix server is not purged while one of its messages is not stored, the purges in
  flight are bounded, and an audit of a room speaks for its whole history. Where the code does not keep such a promise the
  theorem shows the failing sequence.

  \<^bold>\<open>Bounds and fuel.\<close> The loops of the source run over finite lists or are bounded by a measure. The
  two searches for a weekday of \<^verbatim>\<open>compute_next_fire_at\<close> carry the bounds 7 and 8 of the code's own loops, and
  \<open>next_fire_is_next\<close> shows that they suffice. The parser of \<open>JsonCodec\<close> takes the length of its input as fuel,
  which its round trip shows to be enough. The search for the billing period ends because a month number grows up to the last year of \<^verbatim>\<open>chrono\<close>.
  The evaluation of a flow recurs on the flow, and the dispatcher's loop is a \<^verbatim>\<open>partial_function\<close> whose return is proved for every
  responder that answers. The audit of a room and the census of the server carry the limits of pages of their configuration, and what
  they answer when a limit is reached is part of the model.

  \<^bold>\<open>Not modelled.\<close> Connection pool errors (a connection is always available), the HTTP framework,
  logging and metrics; the clients of third-party services (telephony, Matrix bridges, IMAP, Tesla,
  YouTube, Stripe, Metronome, whose answers are parameters); balances of money in floating point; the answers of language models and of the tools a rule calls, which are functions of
  the environment applied to the requests the model builds; the Yew frontend; deployment scripts.
\<close>

end
